(* ===== verification/Prelude.thy ===== *)
theory Prelude
  imports Main "HOL-Library.Word"
begin

text \<open>
  Shared vocabulary of the development: the machine types of the Rust and C sources, the
  outcome of a fallible Rust call (\<open>Ok\<close>, \<open>Err\<close>, or a panic), the sequencing of such calls
  over an explicit state, the \<^verbatim>\<open>Vec<u8>\<close> operations the sources use (\<open>resize\<close>, \<open>truncate\<close>,
  \<open>copy_from_slice\<close>, range indexing) and the byte codecs of fixed width that
  \<^verbatim>\<open>replsqlite/src/replvfs/structs.rs\<close> obtains from \<^verbatim>\<open>zerocopy\<close>.

  Collections: \<open>outcome_simps\<close> computes sequenced calls, \<open>vec_simps\<close> the byte vectors,
  \<open>codec_simps\<close> the widths of the codecs.
\<close>

unbundle bit_operations_syntax

named_theorems outcome_simps \<open>computation rules of sequenced fallible calls\<close>
named_theorems vec_simps \<open>lengths and contents of byte vectors\<close>
named_theorems codec_simps \<open>widths and round trips of the byte codecs\<close>

section \<open>Machine types\<close>

type_synonym u8 = "8 word"
type_synonym u16 = "16 word"
type_synonym u32 = "32 word"
type_synonym i32 = "32 word"
type_synonym bytes = "8 word list"

text \<open>
  A Rust \<^verbatim>\<open>usize\<close> or \<^verbatim>\<open>u64\<close> is a \<open>nat\<close>; where the code adds to one, the branch that
  overflows the 64-bit range is written out. A Rust \<^verbatim>\<open>i32\<close> is a \<open>32 word\<close>, read as two's
  complement by \<open>sint\<close> where the code compares it.
\<close>

definition u64_limit :: nat where
  "u64_limit = 2 ^ 64"

section \<open>Outcomes of fallible calls\<close>

datatype ('e, 'a) outcome = Ok 'a | Err 'e | Panic

text \<open>
  A call on a state returns an outcome and the state it leaves. The \<^verbatim>\<open>?\<close> operator and a
  panic both stop the caller and keep the state changed so far.
\<close>

definition bind_st ::
  "('e, 'a) outcome \<times> 's \<Rightarrow> ('a \<Rightarrow> 's \<Rightarrow> ('e, 'b) outcome \<times> 's) \<Rightarrow> ('e, 'b) outcome \<times> 's"
where
  "bind_st r k =
     (case fst r of Ok a \<Rightarrow> k a (snd r) | Err e \<Rightarrow> (Err e, snd r) | Panic \<Rightarrow> (Panic, snd r))"

lemma bind_st_simps [simp, outcome_simps]:
  "bind_st (Ok a, s) k = k a s"
  "bind_st (Err e, s) k = (Err e, s)"
  "bind_st (Panic, s) k = (Panic, s)"
  by (simp_all add: bind_st_def)

lemma bind_st_Ok_iff:
  "bind_st r k = (Ok b, t) \<longleftrightarrow> (\<exists>a s. r = (Ok a, s) \<and> k a s = (Ok b, t))"
  by (cases r; cases "fst r") auto

lemma bind_st_OkE:
  assumes "bind_st r k = (Ok b, t)"
  obtains a s where "r = (Ok a, s)" "k a s = (Ok b, t)"
  using assms by (auto simp: bind_st_Ok_iff)

definition is_ok :: "('e, 'a) outcome \<Rightarrow> bool" where
  "is_ok r = (case r of Ok _ \<Rightarrow> True | _ \<Rightarrow> False)"

lemma is_ok_simps [simp, outcome_simps]:
  "is_ok (Ok a)" "\<not> is_ok (Err e)" "\<not> is_ok Panic"
  by (simp_all add: is_ok_def)

section \<open>Byte vectors\<close>

text \<open>\<^verbatim>\<open>v[a..b]\<close>: a range index panics (\<open>None\<close>) unless \<open>a \<le> b \<le> v.len()\<close>.\<close>

definition slice :: "'a list \<Rightarrow> nat \<Rightarrow> nat \<Rightarrow> 'a list option" where
  "slice xs a b = (if a \<le> b \<and> b \<le> length xs then Some (take (b - a) (drop a xs)) else None)"

text \<open>\<^verbatim>\<open>v.resize(n, z)\<close>: cuts or pads to length \<open>n\<close>.\<close>

definition resize :: "nat \<Rightarrow> 'a \<Rightarrow> 'a list \<Rightarrow> 'a list" where
  "resize n z xs = take n xs @ replicate (n - length xs) z"

text \<open>
  \<^verbatim>\<open>v[off..off + d.len()].copy_from_slice(d)\<close> for a range inside \<open>v\<close>.
\<close>

definition write_at :: "nat \<Rightarrow> 'a list \<Rightarrow> 'a list \<Rightarrow> 'a list" where
  "write_at off d xs = take off xs @ d @ drop (off + length d) xs"

lemma length_resize [simp, vec_simps]: "length (resize n z xs) = n"
  by (simp add: resize_def)

lemma length_write_at [simp, vec_simps]:
  "off + length d \<le> length xs \<Longrightarrow> length (write_at off d xs) = length xs"
  by (simp add: write_at_def)

lemma nth_resize:
  "i < n \<Longrightarrow> resize n z xs ! i = (if i < length xs then xs ! i else z)"
  by (auto simp: resize_def nth_append)

lemma nth_write_at:
  assumes "off + length d \<le> length xs" and "i < length xs"
  shows "write_at off d xs ! i = (if off \<le> i \<and> i < off + length d then d ! (i - off) else xs ! i)"
  using assms by (auto simp: write_at_def nth_append min_def)

lemma slice_write_at_same:
  "off + length d \<le> length xs \<Longrightarrow> slice (write_at off d xs) off (off + length d) = Some d"
  by (simp add: slice_def write_at_def)

lemma take_drop_write_at_disjoint:
  assumes "off + length d \<le> length xs" and "a + n \<le> off \<or> off + length d \<le> a"
  shows "take n (drop a (write_at off d xs)) = take n (drop a xs)"
proof (rule nth_equalityI)
  show len: "length (take n (drop a (write_at off d xs))) = length (take n (drop a xs))"
    using assms(1) by simp
  fix i assume "i < length (take n (drop a (write_at off d xs)))"
  with assms show "take n (drop a (write_at off d xs)) ! i = take n (drop a xs) ! i"
    by (auto simp: nth_write_at)
qed

lemma slice_length: "slice xs a b = Some ys \<Longrightarrow> length ys = b - a"
  by (auto simp: slice_def split: if_splits)

lemma slice_Some_iff: "(\<exists>ys. slice xs a b = Some ys) \<longleftrightarrow> a \<le> b \<and> b \<le> length xs"
  by (auto simp: slice_def)

section \<open>Codecs of fixed width\<close>

text \<open>
  The interface of every fixed-layout value: \<open>enc\<close> writes exactly \<open>width\<close> bytes and \<open>dec\<close>
  reads them back. Big- and little-endian integers and every \<^verbatim>\<open>#[repr(C)]\<close> struct of
  \<^verbatim>\<open>structs.rs\<close> are instances.
\<close>

locale fixed_codec =
  fixes enc :: "'a \<Rightarrow> bytes"
    and dec :: "bytes \<Rightarrow> 'a option"
    and width :: nat
    and valid :: "'a \<Rightarrow> bool"
  assumes enc_width: "valid x \<Longrightarrow> length (enc x) = width"
    and dec_enc: "valid x \<Longrightarrow> dec (enc x) = Some x"
    and dec_width: "dec bs \<noteq> None \<Longrightarrow> length bs = width"
begin

lemma enc_inj: "valid x \<Longrightarrow> valid y \<Longrightarrow> enc x = enc y \<Longrightarrow> x = y"
  using dec_enc by (metis option.inject)

text \<open>Overwriting the codec's window of a buffer with a value and reading the window back.\<close>

lemma read_back:
  assumes "valid x" and "off + width \<le> length buf"
  shows "Option.bind (slice (write_at off (enc x) buf) off (off + width)) dec = Some x"
proof -
  have "length (enc x) = width" using assms(1) by (rule enc_width)
  with assms(2) have "slice (write_at off (enc x) buf) off (off + width) = Some (enc x)"
    using slice_write_at_same [of off "enc x" buf] by simp
  then show ?thesis using assms(1) by (simp add: dec_enc)
qed

lemma short_input: "length bs \<noteq> width \<Longrightarrow> dec bs = None"
  using dec_width by blast

end

definition be16 :: "u16 \<Rightarrow> bytes" where
  "be16 w = [ucast (drop_bit 8 w), ucast w]"

fun be16_of :: "bytes \<Rightarrow> u16 option" where
  "be16_of [a, b] = Some (push_bit 8 (ucast a) OR ucast b)"
| "be16_of _ = None"

definition be32 :: "u32 \<Rightarrow> bytes" where
  "be32 w = [ucast (drop_bit 24 w), ucast (drop_bit 16 w), ucast (drop_bit 8 w), ucast w]"

fun be32_of :: "bytes \<Rightarrow> u32 option" where
  "be32_of [a, b, c, d] =
     Some (push_bit 24 (ucast a) OR push_bit 16 (ucast b) OR push_bit 8 (ucast c) OR ucast d)"
| "be32_of _ = None"

definition le16 :: "u16 \<Rightarrow> bytes" where
  "le16 w = rev (be16 w)"

definition le16_of :: "bytes \<Rightarrow> u16 option" where
  "le16_of bs = be16_of (rev bs)"

definition le32 :: "u32 \<Rightarrow> bytes" where
  "le32 w = rev (be32 w)"

definition le32_of :: "bytes \<Rightarrow> u32 option" where
  "le32_of bs = be32_of (rev bs)"

lemma be16_of_be16 [simp]: "be16_of (be16 w) = Some w"
proof -
  have "push_bit 8 (ucast (ucast (drop_bit 8 w) :: u8)) OR ucast (ucast w :: u8) = w"
    by (rule bit_word_eqI) (auto simp: bit_simps)
  then show ?thesis by (simp add: be16_def)
qed

lemma be32_of_be32 [simp]: "be32_of (be32 w) = Some w"
proof -
  have "push_bit 24 (ucast (ucast (drop_bit 24 w) :: u8)) OR
        push_bit 16 (ucast (ucast (drop_bit 16 w) :: u8)) OR
        push_bit 8 (ucast (ucast (drop_bit 8 w) :: u8)) OR ucast (ucast w :: u8) = w" (is "?l = w")
  proof (rule bit_word_eqI)
    fix n assume "n < LENGTH(32)"
    then consider "n < 8" | "8 \<le> n" "n < 16" | "16 \<le> n" "n < 24" | "24 \<le> n" "n < 32"
      by fastforce
    then show "bit ?l n \<longleftrightarrow> bit w n"
      by cases (auto simp: bit_simps)
  qed
  then show ?thesis by (simp add: be32_def)
qed

lemma ucast_byte_of_or:
  "ucast (push_bit 8 (ucast (a :: u8)) OR ucast (b :: u8) :: u16) = b"
  "ucast (drop_bit 8 (push_bit 8 (ucast a) OR ucast b :: u16)) = a"
  by (rule bit_word_eqI; auto simp: bit_simps dest: bit_imp_le_length)+

lemma be16_be16_of: "be16_of bs = Some w \<Longrightarrow> be16 w = bs"
  using ucast_byte_of_or
  by (cases bs rule: be16_of.cases) (auto simp: be16_def simp del: drop_bit_or)

lemma be32_be32_of: "be32_of bs = Some w \<Longrightarrow> be32 w = bs"
proof (cases bs rule: be32_of.cases)
  case (1 a b c d)
  define v :: u32 where
    "v = push_bit 24 (ucast a) OR push_bit 16 (ucast b) OR push_bit 8 (ucast c) OR ucast d"
  have "ucast (drop_bit 24 v) = a" "ucast (drop_bit 16 v) = b" "ucast (drop_bit 8 v) = c" "ucast v = d"
    unfolding v_def by (rule bit_word_eqI; auto simp: bit_simps dest: bit_imp_le_length)+
  moreover assume "be32_of bs = Some w"
  then have "w = v" using 1 by (simp add: v_def)
  ultimately show ?thesis using 1 by (simp add: be32_def)
qed auto

lemma be16_of_length: "be16_of bs = Some w \<Longrightarrow> length bs = 2"
  by (cases bs rule: be16_of.cases) auto

lemma be32_of_length: "be32_of bs = Some w \<Longrightarrow> length bs = 4"
  by (cases bs rule: be32_of.cases) auto

lemma le16_of_length: "le16_of bs = Some w \<Longrightarrow> length bs = 2"
  by (auto simp: le16_of_def dest: be16_of_length)

lemma le32_of_length: "le32_of bs = Some w \<Longrightarrow> length bs = 4"
  by (auto simp: le32_of_def dest: be32_of_length)

lemma be16_of_total: "length bs = 2 \<Longrightarrow> \<exists>w. be16_of bs = Some w"
  by (auto simp: numeral_2_eq_2 length_Suc_conv)

lemma be32_of_total: "length bs = 4 \<Longrightarrow> \<exists>w. be32_of bs = Some w"
  by (auto simp: numeral_eq_Suc length_Suc_conv)

lemma length_codecs [simp, codec_simps]:
  "length (be16 w) = 2" "length (be32 v) = 4" "length (le16 w) = 2" "length (le32 v) = 4"
  by (simp_all add: be16_def be32_def le16_def le32_def)

lemma le16_of_le16 [simp]: "le16_of (le16 w) = Some w"
  by (simp add: le16_of_def le16_def)

lemma le32_of_le32 [simp]: "le32_of (le32 w) = Some w"
  by (simp add: le32_of_def le32_def)

interpretation be16: fixed_codec be16 be16_of 2 "\<lambda>_. True"
  by unfold_locales (auto simp: codec_simps dest: be16_of_length)

interpretation be32: fixed_codec be32 be32_of 4 "\<lambda>_. True"
  by unfold_locales (auto simp: codec_simps dest: be32_of_length)

interpretation le16: fixed_codec le16 le16_of 2 "\<lambda>_. True"
  by unfold_locales (auto simp: codec_simps dest: le16_of_length)

interpretation le32: fixed_codec le32 le32_of 4 "\<lambda>_. True"
  by unfold_locales (auto simp: codec_simps dest: le32_of_length)

section \<open>Splitting text\<close>

text \<open>\<^verbatim>\<open>split\<close> of slices and strings at a separator, and its inverse.\<close>

fun split_on :: "'a \<Rightarrow> 'a list \<Rightarrow> 'a list list" where
  "split_on sep [] = [[]]"
| "split_on sep (x # xs) =
     (if x = sep then [] # split_on sep xs
      else case split_on sep xs of [] \<Rightarrow> [[x]] | ys # yss \<Rightarrow> (x # ys) # yss)"

lemma split_on_nonempty [simp]: "split_on sep xs \<noteq> []"
  by (induction xs) (auto split: list.splits)

fun join_with :: "'a \<Rightarrow> 'a list list \<Rightarrow> 'a list" where
  "join_with sep [] = []"
| "join_with sep [xs] = xs"
| "join_with sep (xs # ys # zss) = xs @ sep # join_with sep (ys # zss)"

lemma join_split: "join_with sep (split_on sep xs) = xs"
proof (induction xs)
  case (Cons x xs)
  then obtain ys yss where "split_on sep xs = ys # yss" by (cases "split_on sep xs") auto
  with Cons show ?case by (cases yss) auto
qed simp

lemma split_on_no_sep: "ys \<in> set (split_on sep xs) \<Longrightarrow> sep \<notin> set ys"
proof (induction xs arbitrary: ys)
  case (Cons x xs)
  then show ?case by (cases "split_on sep xs") (auto split: if_splits)
qed simp

lemma split_on_subset: "ys \<in> set (split_on sep xs) \<Longrightarrow> set ys \<subseteq> set xs"
proof (induction xs arbitrary: ys)
  case (Cons x xs)
  then show ?case by (cases "split_on sep xs") (fastforce split: if_splits)+
qed simp

lemma split_on_append:
  "sep \<notin> set xs \<Longrightarrow> split_on sep (xs @ sep # ys) = xs # split_on sep ys"
  by (induction xs) (auto split: list.splits)

lemma split_on_no_sep_id: "sep \<notin> set xs \<Longrightarrow> split_on sep xs = [xs]"
  by (induction xs) auto

end
