(* ===== verification/ReplStructs.thy ===== *)
theory ReplStructs
  imports Prelude
begin

text \<open>
  \<^verbatim>\<open>replsqlite/src/replvfs/structs.rs\<close>: the on-disk and shared-memory structs of SQLite as
  records, with the byte layout their \<^verbatim>\<open>#[repr(C)]\<close> and \<^verbatim>\<open>zerocopy\<close> derives give them. Fields
  of type \<^verbatim>\<open>native_endian\<close> are little-endian: the images are built for amd64 and arm64 only.
  Each struct is an instance of \<open>fixed_codec\<close>. The WAL checksum of
  \<^verbatim>\<open>replsqlite/src/replvfs/vol_file.rs\<close> is here too, since the structs carry it.
\<close>

section \<open>Reading fields out of a buffer\<close>

definition be16_at :: "bytes \<Rightarrow> nat \<Rightarrow> u16" where
  "be16_at bs i = (case be16_of (take 2 (drop i bs)) of Some w \<Rightarrow> w | None \<Rightarrow> 0)"

definition be32_at :: "bytes \<Rightarrow> nat \<Rightarrow> u32" where
  "be32_at bs i = (case be32_of (take 4 (drop i bs)) of Some w \<Rightarrow> w | None \<Rightarrow> 0)"

definition le16_at :: "bytes \<Rightarrow> nat \<Rightarrow> u16" where
  "le16_at bs i = (case le16_of (take 2 (drop i bs)) of Some w \<Rightarrow> w | None \<Rightarrow> 0)"

definition le32_at :: "bytes \<Rightarrow> nat \<Rightarrow> u32" where
  "le32_at bs i = (case le32_of (take 4 (drop i bs)) of Some w \<Rightarrow> w | None \<Rightarrow> 0)"

definition bytes_at :: "bytes \<Rightarrow> nat \<Rightarrow> nat \<Rightarrow> bytes" where
  "bytes_at bs i n = take n (drop i bs)"

lemmas at_defs = be16_at_def be32_at_def le16_at_def le32_at_def bytes_at_def

text \<open>Field access walks over the fields before the one it reads.\<close>

lemma at_skip [codec_simps]:
  assumes "length xs \<le> i"
  shows "be16_at (xs @ ys) i = be16_at ys (i - length xs)"
    "be32_at (xs @ ys) i = be32_at ys (i - length xs)"
    "le16_at (xs @ ys) i = le16_at ys (i - length xs)"
    "le32_at (xs @ ys) i = le32_at ys (i - length xs)"
    "bytes_at (xs @ ys) i n = bytes_at ys (i - length xs) n"
    "(xs @ ys) ! i = ys ! (i - length xs)"
  using assms by (simp_all add: at_defs nth_append)

lemma at_skip_Cons [codec_simps]:
  assumes "0 < i"
  shows "be16_at (x # ys) i = be16_at ys (i - 1)"
    "be32_at (x # ys) i = be32_at ys (i - 1)"
    "le16_at (x # ys) i = le16_at ys (i - 1)"
    "le32_at (x # ys) i = le32_at ys (i - 1)"
    "bytes_at (x # ys) i n = bytes_at ys (i - 1) n"
  using assms by (simp_all add: at_defs drop_Cons')

lemma at_here [codec_simps]:
  "be16_at (be16 w @ ys) 0 = w" "be16_at (be16 w) 0 = w"
  "be32_at (be32 v @ ys) 0 = v" "be32_at (be32 v) 0 = v"
  "le16_at (le16 w @ ys) 0 = w" "le16_at (le16 w) 0 = w"
  "le32_at (le32 v @ ys) 0 = v" "le32_at (le32 v) 0 = v"
  by (simp_all add: at_defs)

lemma bytes_at_here [codec_simps]:
  "length xs = n \<Longrightarrow> bytes_at (xs @ ys) 0 n = xs" "length xs = n \<Longrightarrow> bytes_at xs 0 n = xs"
  by (simp_all add: at_defs)

section \<open>The database header\<close>

definition HEADER_STRING :: bytes where
  "HEADER_STRING = map (of_nat \<circ> of_char) ''SQLite format 3'' @ [0]"

definition RESERVED_ZEROES :: bytes where
  "RESERVED_ZEROES = replicate 20 0"

definition SQLITE_HEADER_SIZE :: nat where "SQLITE_HEADER_SIZE = 100"
definition STRUCTS_VERSION_NUMBER :: u32 where "STRUCTS_VERSION_NUMBER = 3050002"

record SqliteHeader =
  sh_header_string :: bytes
  sh_page_size :: u16
  sh_file_format_write_version :: u8
  sh_file_format_read_version :: u8
  sh_unused_reserved_space :: u8
  sh_max_embedded_payload_fraction :: u8
  sh_min_embedded_payload_fraction :: u8
  sh_leaf_payload_fraction :: u8
  sh_file_change_counter :: u32
  sh_database_file_size_in_pages :: u32
  sh_first_free_trunk_page_number :: u32
  sh_total_number_of_freelist_pages :: u32
  sh_schema_cookie :: u32
  sh_schema_format_number :: u32
  sh_default_page_cache_size :: u32
  sh_large_root_btree_page_number :: u32
  sh_database_text_encoding :: u32
  sh_user_version :: u32
  sh_incremental_vacuum_mode :: u32
  sh_application_id :: u32
  sh_reserved :: bytes
  sh_version_valid_for :: u32
  sh_sqlite_version_number :: u32

definition empty_wal_header :: SqliteHeader where
  "empty_wal_header = \<lparr>
     sh_header_string = HEADER_STRING,
     sh_page_size = 4096,
     sh_file_format_write_version = 2,
     sh_file_format_read_version = 2,
     sh_unused_reserved_space = 0,
     sh_max_embedded_payload_fraction = 64,
     sh_min_embedded_payload_fraction = 32,
     sh_leaf_payload_fraction = 32,
     sh_file_change_counter = 1,
     sh_database_file_size_in_pages = 1,
     sh_first_free_trunk_page_number = 0,
     sh_total_number_of_freelist_pages = 0,
     sh_schema_cookie = 0,
     sh_schema_format_number = 0,
     sh_default_page_cache_size = 0,
     sh_large_root_btree_page_number = 0,
     sh_database_text_encoding = 0,
     sh_user_version = 0,
     sh_incremental_vacuum_mode = 0,
     sh_application_id = 0,
     sh_reserved = RESERVED_ZEROES,
     sh_version_valid_for = 1,
     sh_sqlite_version_number = STRUCTS_VERSION_NUMBER\<rparr>"

definition enc_sqlite_header :: "SqliteHeader \<Rightarrow> bytes" where
  "enc_sqlite_header h =
     sh_header_string h @ be16 (sh_page_size h) @
     [sh_file_format_write_version h, sh_file_format_read_version h, sh_unused_reserved_space h,
      sh_max_embedded_payload_fraction h, sh_min_embedded_payload_fraction h,
      sh_leaf_payload_fraction h] @
     be32 (sh_file_change_counter h) @ be32 (sh_database_file_size_in_pages h) @
     be32 (sh_first_free_trunk_page_number h) @ be32 (sh_total_number_of_freelist_pages h) @
     be32 (sh_schema_cookie h) @ be32 (sh_schema_format_number h) @
     be32 (sh_default_page_cache_size h) @ be32 (sh_large_root_btree_page_number h) @
     be32 (sh_database_text_encoding h) @ be32 (sh_user_version h) @
     be32 (sh_incremental_vacuum_mode h) @ be32 (sh_application_id h) @
     sh_reserved h @ be32 (sh_version_valid_for h) @ be32 (sh_sqlite_version_number h)"

definition dec_sqlite_header :: "bytes \<Rightarrow> SqliteHeader option" where
  "dec_sqlite_header bs =
     (if length bs = SQLITE_HEADER_SIZE then Some \<lparr>
        sh_header_string = bytes_at bs 0 16,
        sh_page_size = be16_at bs 16,
        sh_file_format_write_version = bs ! 18,
        sh_file_format_read_version = bs ! 19,
        sh_unused_reserved_space = bs ! 20,
        sh_max_embedded_payload_fraction = bs ! 21,
        sh_min_embedded_payload_fraction = bs ! 22,
        sh_leaf_payload_fraction = bs ! 23,
        sh_file_change_counter = be32_at bs 24,
        sh_database_file_size_in_pages = be32_at bs 28,
        sh_first_free_trunk_page_number = be32_at bs 32,
        sh_total_number_of_freelist_pages = be32_at bs 36,
        sh_schema_cookie = be32_at bs 40,
        sh_schema_format_number = be32_at bs 44,
        sh_default_page_cache_size = be32_at bs 48,
        sh_large_root_btree_page_number = be32_at bs 52,
        sh_database_text_encoding = be32_at bs 56,
        sh_user_version = be32_at bs 60,
        sh_incremental_vacuum_mode = be32_at bs 64,
        sh_application_id = be32_at bs 68,
        sh_reserved = bytes_at bs 72 20,
        sh_version_valid_for = be32_at bs 92,
        sh_sqlite_version_number = be32_at bs 96\<rparr>
      else None)"

text \<open>The array fields have the fixed lengths of their Rust types.\<close>

definition sqlite_header_ok :: "SqliteHeader \<Rightarrow> bool" where
  "sqlite_header_ok h = (length (sh_header_string h) = 16 \<and> length (sh_reserved h) = 20)"

section \<open>B-tree page headers\<close>

record BtreePageHeader =
  bt_page_type :: u8
  bt_first_freeblock :: u16
  bt_number_of_cells :: u16
  bt_start_cell_content_area :: u16
  bt_fragmented_free_bytes :: u8

definition BTREE_PAGE_HEADER_SIZE :: nat where "BTREE_PAGE_HEADER_SIZE = 8"

definition enc_btree_page_header :: "BtreePageHeader \<Rightarrow> bytes" where
  "enc_btree_page_header h =
     [bt_page_type h] @ be16 (bt_first_freeblock h) @ be16 (bt_number_of_cells h) @
     be16 (bt_start_cell_content_area h) @ [bt_fragmented_free_bytes h]"

definition dec_btree_page_header :: "bytes \<Rightarrow> BtreePageHeader option" where
  "dec_btree_page_header bs =
     (if length bs = BTREE_PAGE_HEADER_SIZE then Some \<lparr>
        bt_page_type = bs ! 0,
        bt_first_freeblock = be16_at bs 1,
        bt_number_of_cells = be16_at bs 3,
        bt_start_cell_content_area = be16_at bs 5,
        bt_fragmented_free_bytes = bs ! 7\<rparr>
      else None)"

record InteriorBtreePageHeader = BtreePageHeader +
  bt_rightmost_pointer :: u32

definition INTERIOR_BTREE_PAGE_HEADER_SIZE :: nat where "INTERIOR_BTREE_PAGE_HEADER_SIZE = 12"

definition enc_interior_header :: "InteriorBtreePageHeader \<Rightarrow> bytes" where
  "enc_interior_header h =
     enc_btree_page_header (BtreePageHeader.truncate h) @ be32 (bt_rightmost_pointer h)"

section \<open>The write-ahead log\<close>

record WalHeader =
  wh_magic_number :: u32
  wh_file_format :: u32
  wh_page_size :: u32
  wh_checkpoint_sequence_number :: u32
  wh_salt1 :: u32
  wh_salt2 :: u32
  wh_checksum1 :: u32
  wh_checksum2 :: u32

definition WAL_HEADER_SIZE :: nat where "WAL_HEADER_SIZE = 32"
definition WAL_HEADER_MAGIC_NUMBER_LITTLE_ENDIAN :: u32 where
  "WAL_HEADER_MAGIC_NUMBER_LITTLE_ENDIAN = 0x377f0682"
definition WAL_FILE_FORMAT_VERSION :: u32 where "WAL_FILE_FORMAT_VERSION = 3007000"

definition enc_wal_header :: "WalHeader \<Rightarrow> bytes" where
  "enc_wal_header h =
     be32 (wh_magic_number h) @ be32 (wh_file_format h) @ be32 (wh_page_size h) @
     be32 (wh_checkpoint_sequence_number h) @ be32 (wh_salt1 h) @ be32 (wh_salt2 h) @
     be32 (wh_checksum1 h) @ be32 (wh_checksum2 h)"

definition dec_wal_header :: "bytes \<Rightarrow> WalHeader option" where
  "dec_wal_header bs =
     (if length bs = WAL_HEADER_SIZE then Some \<lparr>
        wh_magic_number = be32_at bs 0,
        wh_file_format = be32_at bs 4,
        wh_page_size = be32_at bs 8,
        wh_checkpoint_sequence_number = be32_at bs 12,
        wh_salt1 = be32_at bs 16,
        wh_salt2 = be32_at bs 20,
        wh_checksum1 = be32_at bs 24,
        wh_checksum2 = be32_at bs 28\<rparr>
      else None)"

record WalFrameHeader =
  fh_page_number :: u32
  fh_database_size_after_commit :: u32
  fh_salt1 :: u32
  fh_salt2 :: u32
  fh_checksum1 :: u32
  fh_checksum2 :: u32

definition WAL_FRAME_HEADER_SIZE :: nat where "WAL_FRAME_HEADER_SIZE = 24"

definition enc_wal_frame_header :: "WalFrameHeader \<Rightarrow> bytes" where
  "enc_wal_frame_header h =
     be32 (fh_page_number h) @ be32 (fh_database_size_after_commit h) @ be32 (fh_salt1 h) @
     be32 (fh_salt2 h) @ be32 (fh_checksum1 h) @ be32 (fh_checksum2 h)"

definition dec_wal_frame_header :: "bytes \<Rightarrow> WalFrameHeader option" where
  "dec_wal_frame_header bs =
     (if length bs = WAL_FRAME_HEADER_SIZE then Some \<lparr>
        fh_page_number = be32_at bs 0,
        fh_database_size_after_commit = be32_at bs 4,
        fh_salt1 = be32_at bs 8,
        fh_salt2 = be32_at bs 12,
        fh_checksum1 = be32_at bs 16,
        fh_checksum2 = be32_at bs 20\<rparr>
      else None)"

section \<open>The WAL index\<close>

record WalIndexInfo =
  wi_version_number :: u32
  wi_padding :: bytes
  wi_change_counter :: u32
  wi_is_init :: u8
  wi_big_endian_checksums :: u8
  wi_page_size :: u16
  wi_mx_frame :: u32
  wi_n_page :: u32
  wi_last_frame_checksum1 :: u32
  wi_last_frame_checksum2 :: u32
  wi_salt1 :: u32
  wi_salt2 :: u32
  wi_checksum1 :: u32
  wi_checksum2 :: u32

definition WAL_INDEX_FORMAT_VERSION :: u32 where "WAL_INDEX_FORMAT_VERSION = 3007000"
definition WAL_INDEX_INFO_SIZE :: nat where "WAL_INDEX_INFO_SIZE = 48"
definition WAL_INDEX_HEADER_SIZE :: nat where "WAL_INDEX_HEADER_SIZE = 136"
definition WAL_INDEX_INITIAL_SIZE :: nat where "WAL_INDEX_INITIAL_SIZE = 32768"

text \<open>The tail is what \<^verbatim>\<open>WalIndexHeader\<close> holds after its two info copies.\<close>

definition WAL_INDEX_TAIL_SIZE :: nat where
  "WAL_INDEX_TAIL_SIZE = WAL_INDEX_HEADER_SIZE - 2 * WAL_INDEX_INFO_SIZE"

definition enc_wal_index_info :: "WalIndexInfo \<Rightarrow> bytes" where
  "enc_wal_index_info h =
     le32 (wi_version_number h) @ wi_padding h @ le32 (wi_change_counter h) @
     [wi_is_init h, wi_big_endian_checksums h] @ le16 (wi_page_size h) @ le32 (wi_mx_frame h) @
     le32 (wi_n_page h) @ be32 (wi_last_frame_checksum1 h) @ be32 (wi_last_frame_checksum2 h) @
     be32 (wi_salt1 h) @ be32 (wi_salt2 h) @ le32 (wi_checksum1 h) @ le32 (wi_checksum2 h)"

definition dec_wal_index_info :: "bytes \<Rightarrow> WalIndexInfo option" where
  "dec_wal_index_info bs =
     (if length bs = WAL_INDEX_INFO_SIZE then Some \<lparr>
        wi_version_number = le32_at bs 0,
        wi_padding = bytes_at bs 4 4,
        wi_change_counter = le32_at bs 8,
        wi_is_init = bs ! 12,
        wi_big_endian_checksums = bs ! 13,
        wi_page_size = le16_at bs 14,
        wi_mx_frame = le32_at bs 16,
        wi_n_page = le32_at bs 20,
        wi_last_frame_checksum1 = be32_at bs 24,
        wi_last_frame_checksum2 = be32_at bs 28,
        wi_salt1 = be32_at bs 32,
        wi_salt2 = be32_at bs 36,
        wi_checksum1 = le32_at bs 40,
        wi_checksum2 = le32_at bs 44\<rparr>
      else None)"

definition wal_index_info_ok :: "WalIndexInfo \<Rightarrow> bool" where
  "wal_index_info_ok h = (length (wi_padding h) = 4)"

record WalIndexHeaderTail =
  wt_n_backfill :: u32
  wt_readmarks :: "u32 list"
  wt_unused_for_locks :: bytes
  wt_n_backfill_attempted :: u32
  wt_unused_end :: bytes

definition enc_wal_index_tail :: "WalIndexHeaderTail \<Rightarrow> bytes" where
  "enc_wal_index_tail t =
     le32 (wt_n_backfill t) @ concat (map le32 (wt_readmarks t)) @ wt_unused_for_locks t @
     le32 (wt_n_backfill_attempted t) @ wt_unused_end t"

definition dec_wal_index_tail :: "bytes \<Rightarrow> WalIndexHeaderTail option" where
  "dec_wal_index_tail bs =
     (if length bs = WAL_INDEX_TAIL_SIZE then Some \<lparr>
        wt_n_backfill = le32_at bs 0,
        wt_readmarks = [le32_at bs 4, le32_at bs 8, le32_at bs 12, le32_at bs 16, le32_at bs 20],
        wt_unused_for_locks = bytes_at bs 24 8,
        wt_n_backfill_attempted = le32_at bs 32,
        wt_unused_end = bytes_at bs 36 4\<rparr>
      else None)"

definition wal_index_tail_ok :: "WalIndexHeaderTail \<Rightarrow> bool" where
  "wal_index_tail_ok t = (length (wt_readmarks t) = 5 \<and> length (wt_unused_for_locks t) = 8 \<and>
     length (wt_unused_end t) = 4)"

lemmas size_defs = SQLITE_HEADER_SIZE_def BTREE_PAGE_HEADER_SIZE_def
  INTERIOR_BTREE_PAGE_HEADER_SIZE_def WAL_HEADER_SIZE_def WAL_FRAME_HEADER_SIZE_def
  WAL_INDEX_INFO_SIZE_def WAL_INDEX_HEADER_SIZE_def WAL_INDEX_TAIL_SIZE_def
  WAL_INDEX_INITIAL_SIZE_def

record WalIndexHeader =
  wx_info :: WalIndexInfo
  wx_info_copy :: WalIndexInfo
  wx_tail :: WalIndexHeaderTail

definition enc_wal_index_header :: "WalIndexHeader \<Rightarrow> bytes" where
  "enc_wal_index_header h =
     enc_wal_index_info (wx_info h) @ enc_wal_index_info (wx_info_copy h) @
     enc_wal_index_tail (wx_tail h)"

section \<open>The structs as codecs\<close>

lemma length_enc_sqlite_header: "sqlite_header_ok h \<Longrightarrow> length (enc_sqlite_header h) = SQLITE_HEADER_SIZE"
  by (simp add: enc_sqlite_header_def sqlite_header_ok_def size_defs codec_simps)

lemma dec_enc_sqlite_header: "sqlite_header_ok h \<Longrightarrow> dec_sqlite_header (enc_sqlite_header h) = Some h"
  by (cases h) (use length_enc_sqlite_header [of h] in \<open>simp add: dec_sqlite_header_def enc_sqlite_header_def
    sqlite_header_ok_def size_defs codec_simps\<close>)

interpretation sqlite_header: fixed_codec enc_sqlite_header dec_sqlite_header SQLITE_HEADER_SIZE sqlite_header_ok
  by unfold_locales
    (simp_all add: length_enc_sqlite_header dec_enc_sqlite_header, simp add: dec_sqlite_header_def split: if_splits)

lemma length_enc_btree_page_header: "length (enc_btree_page_header h) = BTREE_PAGE_HEADER_SIZE"
  by (simp add: enc_btree_page_header_def size_defs codec_simps)

lemma dec_enc_btree_page_header: "dec_btree_page_header (enc_btree_page_header h) = Some h"
  by (cases h) (use length_enc_btree_page_header [of h] in \<open>simp add: dec_btree_page_header_def enc_btree_page_header_def
    size_defs codec_simps\<close>)

interpretation btree_page_header: fixed_codec enc_btree_page_header dec_btree_page_header BTREE_PAGE_HEADER_SIZE "\<lambda>_. True"
  by unfold_locales
    (simp_all add: length_enc_btree_page_header dec_enc_btree_page_header, simp add: dec_btree_page_header_def split: if_splits)

lemma length_enc_wal_header: "length (enc_wal_header h) = WAL_HEADER_SIZE"
  by (simp add: enc_wal_header_def size_defs codec_simps)

lemma dec_enc_wal_header: "dec_wal_header (enc_wal_header h) = Some h"
  by (cases h) (use length_enc_wal_header [of h] in \<open>simp add: dec_wal_header_def enc_wal_header_def
    size_defs codec_simps\<close>)

interpretation wal_header: fixed_codec enc_wal_header dec_wal_header WAL_HEADER_SIZE "\<lambda>_. True"
  by unfold_locales
    (simp_all add: length_enc_wal_header dec_enc_wal_header, simp add: dec_wal_header_def split: if_splits)

lemma length_enc_wal_frame_header: "length (enc_wal_frame_header h) = WAL_FRAME_HEADER_SIZE"
  by (simp add: enc_wal_frame_header_def size_defs codec_simps)

lemma dec_enc_wal_frame_header: "dec_wal_frame_header (enc_wal_frame_header h) = Some h"
  by (cases h) (use length_enc_wal_frame_header [of h] in \<open>simp add: dec_wal_frame_header_def enc_wal_frame_header_def
    size_defs codec_simps\<close>)

interpretation wal_frame_header: fixed_codec enc_wal_frame_header dec_wal_frame_header WAL_FRAME_HEADER_SIZE "\<lambda>_. True"
  by unfold_locales
    (simp_all add: length_enc_wal_frame_header dec_enc_wal_frame_header, simp add: dec_wal_frame_header_def split: if_splits)

lemma length_enc_wal_index_info: "wal_index_info_ok h \<Longrightarrow> length (enc_wal_index_info h) = WAL_INDEX_INFO_SIZE"
  by (simp add: enc_wal_index_info_def wal_index_info_ok_def size_defs codec_simps)

lemma dec_enc_wal_index_info: "wal_index_info_ok h \<Longrightarrow> dec_wal_index_info (enc_wal_index_info h) = Some h"
  by (cases h) (use length_enc_wal_index_info [of h] in \<open>simp add: dec_wal_index_info_def enc_wal_index_info_def
    wal_index_info_ok_def size_defs codec_simps\<close>)

interpretation wal_index_info: fixed_codec enc_wal_index_info dec_wal_index_info WAL_INDEX_INFO_SIZE wal_index_info_ok
  by unfold_locales
    (simp_all add: length_enc_wal_index_info dec_enc_wal_index_info, simp add: dec_wal_index_info_def split: if_splits)

lemma list5_cases: "length xs = 5 \<Longrightarrow> \<exists>a b c d e. xs = [a, b, c, d, e]"
  by (auto simp: numeral_eq_Suc length_Suc_conv)

lemma length_enc_wal_index_tail: "wal_index_tail_ok t \<Longrightarrow> length (enc_wal_index_tail t) = WAL_INDEX_TAIL_SIZE"
  by (auto simp: enc_wal_index_tail_def wal_index_tail_ok_def size_defs codec_simps dest!: list5_cases)

lemma dec_enc_wal_index_tail: "wal_index_tail_ok t \<Longrightarrow> dec_wal_index_tail (enc_wal_index_tail t) = Some t"
  by (cases t) (auto simp: dec_wal_index_tail_def enc_wal_index_tail_def wal_index_tail_ok_def
      size_defs codec_simps dest!: list5_cases)

interpretation wal_index_tail: fixed_codec enc_wal_index_tail dec_wal_index_tail
  WAL_INDEX_TAIL_SIZE wal_index_tail_ok
  by unfold_locales
    (simp_all add: length_enc_wal_index_tail dec_enc_wal_index_tail,
      simp add: dec_wal_index_tail_def split: if_splits)

lemma dec_wal_frame_header_total:
  "length bs = WAL_FRAME_HEADER_SIZE \<Longrightarrow> \<exists>h. dec_wal_frame_header bs = Some h"
  by (simp add: dec_wal_frame_header_def)

lemma dec_wal_header_total:
  "length bs = WAL_HEADER_SIZE \<Longrightarrow> \<exists>h. dec_wal_header bs = Some h"
  by (simp add: dec_wal_header_def)

section \<open>The checksum of the WAL\<close>

text \<open>
  \<^verbatim>\<open>compute_checksum\<close> folds pairs of 32-bit words into two running sums with wrap-around. A
  slice of odd length fails the \<^verbatim>\<open>assert!\<close> (\<open>None\<close>). The byte order of the type parameter
  only says how the words were read from memory.
\<close>

fun checksum_loop :: "u32 \<times> u32 \<Rightarrow> u32 list \<Rightarrow> u32 \<times> u32" where
  "checksum_loop (s0, s1) (x # y # rest) =
     (let t0 = s0 + x + s1; t1 = s1 + y + t0 in checksum_loop (t0, t1) rest)"
| "checksum_loop s _ = s"

definition compute_checksum :: "u32 list \<Rightarrow> (u32 \<times> u32) option" where
  "compute_checksum x = (if even (length x) then Some (checksum_loop (0, 0) x) else None)"

fun words_le :: "bytes \<Rightarrow> u32 list option" where
  "words_le [] = Some []"
| "words_le (a # b # c # d # rest) =
     (case (le32_of [a, b, c, d], words_le rest) of
        (Some w, Some ws) \<Rightarrow> Some (w # ws)
      | _ \<Rightarrow> None)"
| "words_le _ = None"

lemma checksum_loop_append:
  "even (length xs) \<Longrightarrow> checksum_loop s (xs @ ys) = checksum_loop (checksum_loop s xs) ys"
  by (induction s xs rule: checksum_loop.induct) (auto simp: Let_def)

text \<open>For fixed input words one step is a bijection on the running sums.\<close>

lemma checksum_loop_inj:
  "even (length xs) \<Longrightarrow> checksum_loop s xs = checksum_loop t xs \<Longrightarrow> s = t"
proof (induction s xs arbitrary: t rule: checksum_loop.induct)
  case (1 s0 s1 x y rest)
  obtain t0 t1 where t: "t = (t0, t1)" by (cases t)
  let ?s = "(s0 + x + s1, s1 + y + (s0 + x + s1))" and ?t = "(t0 + x + t1, t1 + y + (t0 + x + t1))"
  have "checksum_loop ?s rest = checksum_loop ?t rest"
    using 1(3) t by (simp add: Let_def)
  moreover have "even (length rest)" using 1(2) by simp
  ultimately have "?s = ?t" using 1(1) by blast
  then have "s0 + x + s1 = t0 + x + t1 \<and> s1 + y + (s0 + x + s1) = t1 + y + (t0 + x + t1)"
    by (rule prod.inject [THEN iffD1])
  then have "s1 = t1" "s0 = t0" by (metis add_right_cancel)+
  then show ?case using t by simp
qed auto

lemma checksum_pair_inj:
  "checksum_loop s [a, b] = checksum_loop s [c, d] \<Longrightarrow> a = c \<and> b = d"
  by (cases s) (auto simp: Let_def)

lemma words_le_total:
  "length bs mod 4 = 0 \<Longrightarrow> \<exists>ws. words_le bs = Some ws \<and> length ws = length bs div 4"
proof (induction bs rule: words_le.induct)
  case (2 a b c d rest)
  then obtain ws where "words_le rest = Some ws" "length ws = length rest div 4" by auto
  moreover obtain w where "le32_of [a, b, c, d] = Some w"
    using be32_of_total [of "[d, c, b, a]"] by (auto simp: le32_of_def)
  ultimately show ?case by simp
qed auto

text \<open>
  The declared sizes are the sizes of the encoded structs (the source only has a comment
  asking for this assertion).
\<close>

theorem struct_sizes:
  assumes "sqlite_header_ok sh" and "wal_index_info_ok (wx_info wx)"
    and "wal_index_info_ok (wx_info_copy wx)" and "wal_index_tail_ok (wx_tail wx)"
  shows "length (enc_sqlite_header sh) = SQLITE_HEADER_SIZE \<and>
    length (enc_btree_page_header bt) = BTREE_PAGE_HEADER_SIZE \<and>
    length (enc_interior_header ih) = INTERIOR_BTREE_PAGE_HEADER_SIZE \<and>
    length (enc_wal_header wh) = WAL_HEADER_SIZE \<and>
    length (enc_wal_frame_header fh) = WAL_FRAME_HEADER_SIZE \<and>
    length (enc_wal_index_info (wx_info wx)) = WAL_INDEX_INFO_SIZE \<and>
    length (enc_wal_index_header wx) = WAL_INDEX_HEADER_SIZE"
  using assms sqlite_header.enc_width wal_index_info.enc_width wal_index_tail.enc_width
    length_enc_btree_page_header [of "BtreePageHeader.truncate ih"]
  by (simp add: length_enc_wal_header length_enc_wal_frame_header length_enc_btree_page_header
      enc_interior_header_def enc_wal_index_header_def size_defs)

definition sample_index_info :: WalIndexInfo where
  "sample_index_info = \<lparr>wi_version_number = 3007000, wi_padding = [0, 0, 0, 0],
     wi_change_counter = 0, wi_is_init = 1, wi_big_endian_checksums = 0, wi_page_size = 4096,
     wi_mx_frame = 0, wi_n_page = 1, wi_last_frame_checksum1 = 0, wi_last_frame_checksum2 = 0,
     wi_salt1 = 1, wi_salt2 = 2, wi_checksum1 = 0, wi_checksum2 = 0\<rparr>"

definition sample_index_tail :: WalIndexHeaderTail where
  "sample_index_tail = \<lparr>wt_n_backfill = 0, wt_readmarks = [0, 0, 1, 1, 1],
     wt_unused_for_locks = replicate 8 0, wt_n_backfill_attempted = 0,
     wt_unused_end = replicate 4 0\<rparr>"

theorem struct_sizes_witness:
  "length (enc_sqlite_header empty_wal_header) = 100 \<and>
   length (enc_wal_index_header \<lparr>wx_info = sample_index_info, wx_info_copy = sample_index_info,
     wx_tail = sample_index_tail\<rparr>) = 136"
proof -
  let ?wx = "\<lparr>wx_info = sample_index_info, wx_info_copy = sample_index_info,
    wx_tail = sample_index_tail\<rparr>"
  have "sqlite_header_ok empty_wal_header"
    by (simp add: sqlite_header_ok_def empty_wal_header_def HEADER_STRING_def RESERVED_ZEROES_def)
  moreover have "wal_index_info_ok (wx_info ?wx)" "wal_index_info_ok (wx_info_copy ?wx)"
    by (simp_all add: wal_index_info_ok_def sample_index_info_def)
  moreover have "wal_index_tail_ok (wx_tail ?wx)"
    by (simp add: wal_index_tail_ok_def sample_index_tail_def)
  ultimately show ?thesis using struct_sizes [of empty_wal_header ?wx] by (simp add: size_defs)
qed

text \<open>
  A frame header or WAL header survives the trip through its bytes, at any position of a
  buffer that has room for it.
\<close>

theorem wal_headers_roundtrip:
  assumes "off + WAL_HEADER_SIZE \<le> length buf" and "pos + WAL_FRAME_HEADER_SIZE \<le> length buf"
  shows "Option.bind (slice (write_at off (enc_wal_header h) buf) off (off + WAL_HEADER_SIZE))
           dec_wal_header = Some h \<and>
    Option.bind (slice (write_at pos (enc_wal_frame_header f) buf) pos (pos + WAL_FRAME_HEADER_SIZE))
           dec_wal_frame_header = Some f"
  using assms by (simp add: wal_header.read_back wal_frame_header.read_back)

definition sample_wal_header :: WalHeader where
  "sample_wal_header = \<lparr>wh_magic_number = 0x377f0682, wh_file_format = 3007000,
     wh_page_size = 4096, wh_checkpoint_sequence_number = 0, wh_salt1 = 5, wh_salt2 = 6,
     wh_checksum1 = 7, wh_checksum2 = 8\<rparr>"

definition sample_frame_header :: WalFrameHeader where
  "sample_frame_header = \<lparr>fh_page_number = 1, fh_database_size_after_commit = 2, fh_salt1 = 3,
     fh_salt2 = 4, fh_checksum1 = 5, fh_checksum2 = 6\<rparr>"

theorem wal_headers_roundtrip_witness:
  "Option.bind (slice (write_at 4 (enc_wal_header sample_wal_header) (replicate 40 0))
       4 (4 + WAL_HEADER_SIZE)) dec_wal_header = Some sample_wal_header \<and>
   Option.bind (slice (write_at 0 (enc_wal_frame_header sample_frame_header) (replicate 40 0))
       0 (0 + WAL_FRAME_HEADER_SIZE)) dec_wal_frame_header = Some sample_frame_header"
  by (rule wal_headers_roundtrip) (simp_all add: size_defs)

text \<open>
  The checksum notices every change confined to one pair of words: the rest of the input
  maps the differing running sums to differing sums.
\<close>

theorem checksum_detects_pair_change:
  assumes "even (length pre)" and "even (length post)" and "(a, b) \<noteq> (c, d)"
  shows "compute_checksum (pre @ [a, b] @ post) \<noteq> compute_checksum (pre @ [c, d] @ post)"
proof
  assume "compute_checksum (pre @ [a, b] @ post) = compute_checksum (pre @ [c, d] @ post)"
  then have "checksum_loop (0, 0) ((pre @ [a, b]) @ post) = checksum_loop (0, 0) ((pre @ [c, d]) @ post)"
    using assms(1,2) by (simp add: compute_checksum_def)
  then have "checksum_loop (checksum_loop (0, 0) (pre @ [a, b])) post =
             checksum_loop (checksum_loop (0, 0) (pre @ [c, d])) post"
    using assms(1) checksum_loop_append [of "pre @ [a, b]" "(0, 0)" post]
      checksum_loop_append [of "pre @ [c, d]" "(0, 0)" post] by simp
  then have "checksum_loop (0, 0) (pre @ [a, b]) = checksum_loop (0, 0) (pre @ [c, d])"
    using assms(2) by (rule checksum_loop_inj [rotated])
  then show False
    using assms(1,3) checksum_pair_inj by (fastforce simp: checksum_loop_append)
qed

theorem checksum_detects_pair_change_witness:
  "compute_checksum ([1, 2] @ [3, 4] @ [5, 6]) \<noteq> compute_checksum ([1, 2] @ [3, 9] @ [5, 6])"
  by (rule checksum_detects_pair_change) simp_all

end
