(* ===== verification/ReplServer.thy ===== *)
theory ReplServer
  imports ReplStructs
begin

text \<open>
  The server side of \<^verbatim>\<open>replsqlite/src/replvfs/vol_file.rs\<close>: transactions and how they are
  applied to a database image (\<^verbatim>\<open>apply_tx\<close>), the versioned \<^verbatim>\<open>TestDbServer\<close>, its HTTP
  handlers, and \<^verbatim>\<open>RemoteDbServer\<close>, the client's view of it over the network.

  The locale \<open>db_server\<close> is the contract of the trait \<^verbatim>\<open>DbServer\<close>: a linear history of
  transactions from an initial image. \<open>TestDbServer\<close> is an interpretation of it, and so is
  every remote view through a wire that delivers its messages.
\<close>

section \<open>Data\<close>

definition PAGESIZE :: nat where "PAGESIZE = 4096"

lemma PAGESIZE_pos [simp]: "0 < PAGESIZE" "PAGESIZE \<noteq> 0"
  by (simp_all add: PAGESIZE_def)

datatype ErrCtx = Bad | UnknownPragma | CantOpen | Busy | BusySnapshot | InvalidLockTransition
  | InvalidVolumeState | FmtErr

record PageWrite =
  page_no :: u32
  page_data :: bytes

record Transaction =
  page_writes :: "PageWrite list"
  db_size_after :: u32

section \<open>Applying a transaction\<close>

text \<open>The loop \<^verbatim>\<open>while page_offset + PAGESIZE > db_data.len()\<close> appends zero pages.\<close>

function pad_pages :: "nat \<Rightarrow> bytes \<Rightarrow> bytes" where
  "pad_pages target db =
     (if length db < target then pad_pages target (db @ replicate PAGESIZE 0) else db)"
  by pat_completeness auto
termination
  by (relation "measure (\<lambda>(target, db). target - length db)") (auto intro: diff_less_mono2)

declare pad_pages.simps [simp del]

text \<open>
  Page number 0 panics: the subtraction overflows in a checked build, and the range index is
  inverted in an unchecked one. Page data of the wrong length panics in \<^verbatim>\<open>copy_from_slice\<close>,
  after the image has grown.
\<close>

definition apply_page :: "PageWrite \<Rightarrow> bytes \<Rightarrow> (ErrCtx, unit) outcome \<times> bytes" where
  "apply_page p db =
     (if page_no p = 0 then (Panic, db)
      else let page_offset = (unat (page_no p) - 1) * PAGESIZE;
               db' = pad_pages (page_offset + PAGESIZE) db
           in if length (page_data p) = PAGESIZE
              then (Ok (), write_at page_offset (page_data p) db')
              else (Panic, db'))"

fun apply_pages :: "PageWrite list \<Rightarrow> bytes \<Rightarrow> (ErrCtx, unit) outcome \<times> bytes" where
  "apply_pages [] db = (Ok (), db)"
| "apply_pages (p # ps) db = bind_st (apply_page p db) (\<lambda>_. apply_pages ps)"

definition apply_tx :: "Transaction \<Rightarrow> bytes \<Rightarrow> (ErrCtx, unit) outcome \<times> bytes" where
  "apply_tx tx db =
     bind_st (apply_pages (page_writes tx) db)
       (\<lambda>_ db'. (Ok (), take (PAGESIZE * unat (db_size_after tx)) db'))"

definition make_initial_db :: bytes where
  "make_initial_db =
     write_at SQLITE_HEADER_SIZE
       (enc_btree_page_header \<lparr>bt_page_type = 13, bt_first_freeblock = 0, bt_number_of_cells = 0,
          bt_start_cell_content_area = of_nat PAGESIZE, bt_fragmented_free_bytes = 0\<rparr>)
       (write_at 0 (enc_sqlite_header empty_wal_header) (replicate PAGESIZE 0))"

section \<open>The test server\<close>

record TestDbServerData =
  latest_snapshot :: bytes
  latest_snapshot_version :: nat
  changes :: "(Transaction \<times> nat) list"

definition test_server_new :: TestDbServerData where
  "test_server_new =
     \<lparr>latest_snapshot = make_initial_db, latest_snapshot_version = 0, changes = []\<rparr>"

definition test_get_latest_snapshot ::
  "TestDbServerData \<Rightarrow> (ErrCtx, bytes \<times> nat) outcome" where
  "test_get_latest_snapshot s = Ok (latest_snapshot s, latest_snapshot_version s)"

definition test_get_changes_after ::
  "nat \<Rightarrow> TestDbServerData \<Rightarrow> (ErrCtx, (Transaction \<times> nat) list) outcome" where
  "test_get_changes_after version s = Ok (filter (\<lambda>(tx, v). v > version) (changes s))"

definition test_commit_change ::
  "nat \<Rightarrow> Transaction \<Rightarrow> TestDbServerData \<Rightarrow> (ErrCtx, nat) outcome \<times> TestDbServerData" where
  "test_commit_change version tx s =
     (if latest_snapshot_version s \<noteq> version then (Err Bad, s)
      else case apply_tx tx (latest_snapshot s) of
        (Ok _, db) \<Rightarrow>
          (let s1 = s\<lparr>latest_snapshot := db\<rparr> in
           if u64_limit \<le> version + 1 then (Panic, s1)
           else (Ok (version + 1),
                 s1\<lparr>latest_snapshot_version := version + 1,
                    changes := changes s @ [(tx, version + 1)]\<rparr>))
      | (Err e, db) \<Rightarrow> (Err e, s\<lparr>latest_snapshot := db\<rparr>)
      | (Panic, db) \<Rightarrow> (Panic, s\<lparr>latest_snapshot := db\<rparr>))"

section \<open>The HTTP handlers and the remote view\<close>

text \<open>
  Each handler is \<^verbatim>\<open>.expect("comeon")\<close> on the server call: an error becomes a panic of the
  request's task, which closes the connection and leaves the server running.
\<close>

fun expect_outcome :: "('e, 'a) outcome \<Rightarrow> ('e, 'a) outcome" where
  "expect_outcome (Ok a) = Ok a"
| "expect_outcome (Err e) = Panic"
| "expect_outcome Panic = Panic"

definition handle_get_latest_snapshot ::
  "TestDbServerData \<Rightarrow> (ErrCtx, bytes \<times> nat) outcome" where
  "handle_get_latest_snapshot s = expect_outcome (test_get_latest_snapshot s)"

definition handle_get_changes_after ::
  "nat \<Rightarrow> TestDbServerData \<Rightarrow> (ErrCtx, (Transaction \<times> nat) list) outcome" where
  "handle_get_changes_after version s = expect_outcome (test_get_changes_after version s)"

definition handle_commit_change ::
  "nat \<times> Transaction \<Rightarrow> TestDbServerData \<Rightarrow> (ErrCtx, nat) outcome \<times> TestDbServerData" where
  "handle_commit_change req s =
     (case test_commit_change (fst req) (snd req) s of (r, s') \<Rightarrow> (expect_outcome r, s'))"

text \<open>
  The wire: what arrives at the other end of an HTTP exchange of JSON bodies, \<open>None\<close> when the
  exchange fails. The codec crates and the network are not part of the sources, so the wire is
  a parameter.
\<close>

record wire =
  wire_snapshot :: "bytes \<times> nat \<Rightarrow> (bytes \<times> nat) option"
  wire_version :: "nat \<Rightarrow> nat option"
  wire_changes :: "(Transaction \<times> nat) list \<Rightarrow> (Transaction \<times> nat) list option"
  wire_commit :: "nat \<times> Transaction \<Rightarrow> (nat \<times> Transaction) option"

definition receive :: "('a \<Rightarrow> 'a option) \<Rightarrow> ('e, 'a) outcome \<Rightarrow> ('e, 'a) outcome" where
  "receive w r =
     (case r of Ok a \<Rightarrow> (case w a of Some a' \<Rightarrow> Ok a' | None \<Rightarrow> Panic) | _ \<Rightarrow> Panic)"

definition remote_get_latest_snapshot ::
  "wire \<Rightarrow> TestDbServerData \<Rightarrow> (ErrCtx, bytes \<times> nat) outcome" where
  "remote_get_latest_snapshot w s = receive (wire_snapshot w) (handle_get_latest_snapshot s)"

definition remote_get_changes_after ::
  "wire \<Rightarrow> nat \<Rightarrow> TestDbServerData \<Rightarrow> (ErrCtx, (Transaction \<times> nat) list) outcome" where
  "remote_get_changes_after w version s =
     (case wire_version w version of
        None \<Rightarrow> Panic
      | Some v \<Rightarrow> receive (wire_changes w) (handle_get_changes_after v s))"

definition remote_commit_change ::
  "wire \<Rightarrow> nat \<Rightarrow> Transaction \<Rightarrow> TestDbServerData \<Rightarrow> (ErrCtx, nat) outcome \<times> TestDbServerData"
where
  "remote_commit_change w version tx s =
     (case wire_commit w (version, tx) of
        None \<Rightarrow> (Panic, s)
      | Some req \<Rightarrow>
          (case handle_commit_change req s of (r, s') \<Rightarrow> (receive (wire_version w) r, s')))"

definition ideal_wire :: wire where
  "ideal_wire = \<lparr>wire_snapshot = Some, wire_version = Some, wire_changes = Some, wire_commit = Some\<rparr>"

section \<open>Databases as lists of pages\<close>

definition aligned :: "bytes \<Rightarrow> bool" where
  "aligned db = (length db mod PAGESIZE = 0)"

definition pages :: "bytes \<Rightarrow> bytes list" where
  "pages db = map (\<lambda>i. take PAGESIZE (drop (i * PAGESIZE) db)) [0..<length db div PAGESIZE]"

definition zero_page :: bytes where
  "zero_page = replicate PAGESIZE 0"

definition paged :: "bytes list \<Rightarrow> bool" where
  "paged ps = (\<forall>p \<in> set ps. length p = PAGESIZE)"

text \<open>What a transaction means on pages: overwrite, extending with zero pages, then cut.\<close>

definition set_page :: "nat \<Rightarrow> bytes \<Rightarrow> bytes list \<Rightarrow> bytes list" where
  "set_page n d ps = (ps @ replicate (Suc n - length ps) zero_page)[n := d]"

definition spec_page :: "PageWrite \<Rightarrow> bytes list \<Rightarrow> bytes list" where
  "spec_page p = set_page (unat (page_no p) - 1) (page_data p)"

definition spec_tx :: "Transaction \<Rightarrow> bytes list \<Rightarrow> bytes list" where
  "spec_tx tx ps = take (unat (db_size_after tx)) (fold spec_page (page_writes tx) ps)"

definition wf_tx :: "Transaction \<Rightarrow> bool" where
  "wf_tx tx = list_all (\<lambda>p. page_no p \<noteq> 0 \<and> length (page_data p) = PAGESIZE) (page_writes tx)"

section \<open>The byte image refines the page list\<close>

lemma paged_simps [simp]:
  "paged []" "paged (p # ps) \<longleftrightarrow> length p = PAGESIZE \<and> paged ps"
  "paged (ps @ qs) \<longleftrightarrow> paged ps \<and> paged qs"
  by (auto simp: paged_def)

lemma paged_zeros [simp]: "paged (replicate n zero_page)"
  by (auto simp: paged_def zero_page_def)

lemma paged_take [simp]: "paged ps \<Longrightarrow> paged (take n ps)"
  by (auto simp: paged_def dest: in_set_takeD)

lemma paged_update: "paged ps \<Longrightarrow> length d = PAGESIZE \<Longrightarrow> paged (ps[n := d])"
  by (auto simp: paged_def dest: set_update_subset_insert [THEN subsetD])

lemma length_concat_paged: "paged ps \<Longrightarrow> length (concat ps) = length ps * PAGESIZE"
  by (induction ps) auto

lemma take_concat_paged: "paged ps \<Longrightarrow> take (n * PAGESIZE) (concat ps) = concat (take n ps)"
proof (induction ps arbitrary: n)
  case (Cons p ps)
  then show ?case by (cases n) auto
qed auto

lemma drop_concat_paged: "paged ps \<Longrightarrow> drop (n * PAGESIZE) (concat ps) = concat (drop n ps)"
proof (induction ps arbitrary: n)
  case (Cons p ps)
  then show ?case by (cases n) auto
qed auto

lemma pages_concat: "paged ps \<Longrightarrow> pages (concat ps) = ps"
proof -
  assume ps: "paged ps"
  have "take PAGESIZE (drop (i * PAGESIZE) (concat ps)) = ps ! i" if "i < length ps" for i
  proof -
    have "take (1 * PAGESIZE) (concat (drop i ps)) = concat (take 1 (drop i ps))"
      by (rule take_concat_paged) (use ps in \<open>auto simp: paged_def dest: in_set_dropD\<close>)
    then show ?thesis using that by (simp add: drop_concat_paged [OF ps] take_Suc hd_drop_conv_nth)
  qed
  then show ?thesis
    by (auto simp: pages_def length_concat_paged [OF ps] intro: nth_equalityI)
qed

lemma aligned_pages:
  assumes "aligned db"
  shows "paged (pages db)" "concat (pages db) = db"
proof -
  have "\<exists>ps. paged ps \<and> concat ps = db" if "length db = n * PAGESIZE" for n
    using that
  proof (induction n arbitrary: db)
    case 0
    then show ?case by (intro exI [of _ "[]"]) auto
  next
    case (Suc n)
    then have "length (drop PAGESIZE db) = n * PAGESIZE" by simp
    from Suc.IH [OF this] obtain ps where "paged ps" "concat ps = drop PAGESIZE db" by blast
    then show ?case using Suc.prems by (intro exI [of _ "take PAGESIZE db # ps"]) auto
  qed
  moreover have "length db = (length db div PAGESIZE) * PAGESIZE"
    using assms by (simp add: aligned_def) (metis div_mult_mod_eq add.right_neutral)
  ultimately obtain ps where "paged ps" "concat ps = db" by blast
  then show "paged (pages db)" "concat (pages db) = db" using pages_concat by auto
qed

lemma aligned_concat: "paged ps \<Longrightarrow> aligned (concat ps)"
  by (simp add: aligned_def length_concat_paged)

lemma pad_pages_concat:
  "paged ps \<Longrightarrow>
   pad_pages (n * PAGESIZE) (concat ps) = concat (ps @ replicate (n - length ps) zero_page)"
proof (induction "n - length ps" arbitrary: ps)
  case 0
  then have "n * PAGESIZE \<le> length ps * PAGESIZE" by (intro mult_le_mono1) simp
  then show ?case
    using 0 by (subst pad_pages.simps) (simp add: length_concat_paged not_less)
next
  case (Suc k)
  then have lt: "length ps < n" by simp
  have k: "k = n - length (ps @ [zero_page])" using Suc.hyps(2) by simp
  have "paged (ps @ [zero_page])" using Suc.prems by (simp add: zero_page_def)
  from Suc.hyps(1) [OF k this]
  have "pad_pages (n * PAGESIZE) (concat ps @ zero_page) =
        concat (ps @ zero_page # replicate (n - Suc (length ps)) zero_page)" by simp
  moreover have "zero_page # replicate (n - Suc (length ps)) zero_page =
        replicate (n - length ps) zero_page"
    using lt by (metis Suc_diff_Suc replicate_Suc)
  moreover have "length (concat ps) < n * PAGESIZE"
    using lt by (simp add: length_concat_paged [OF Suc.prems])
  ultimately show ?case
    by (subst pad_pages.simps) (simp add: zero_page_def [symmetric])
qed

lemma write_at_concat:
  assumes "paged ps" and "n < length ps" and "length d = PAGESIZE"
  shows "write_at (n * PAGESIZE) d (concat ps) = concat (ps[n := d])"
proof -
  have "drop (n * PAGESIZE + PAGESIZE) (concat ps) = concat (drop (Suc n) ps)"
    using drop_concat_paged [OF assms(1), of "Suc n"] by (simp add: add.commute)
  then show ?thesis
    using assms by (simp add: write_at_def take_concat_paged upd_conv_take_nth_drop)
qed

lemma apply_page_refines:
  assumes "paged ps" and "page_no p \<noteq> 0" and "length (page_data p) = PAGESIZE"
  shows "apply_page p (concat ps) = (Ok (), concat (spec_page p ps))" and "paged (spec_page p ps)"
proof -
  define n where "n = unat (page_no p) - 1"
  let ?n = n and ?qs = "ps @ replicate (Suc n - length ps) zero_page"
  have n: "unat (page_no p) - Suc 0 = n" by (simp add: n_def)
  have pad: "pad_pages (?n * PAGESIZE + PAGESIZE) (concat ps) = concat ?qs"
    using pad_pages_concat [OF assms(1), of "Suc ?n"] by (simp add: add.commute)
  have qs: "paged ?qs" "?n < length ?qs" using assms(1) by auto
  show "apply_page p (concat ps) = (Ok (), concat (spec_page p ps))"
    using assms(2,3) write_at_concat [OF qs assms(3)]
    by (simp add: apply_page_def Let_def pad spec_page_def set_page_def n)
  show "paged (spec_page p ps)"
    using paged_update [OF qs(1) assms(3)] by (simp add: spec_page_def set_page_def n_def)
qed

lemma apply_pages_refines:
  assumes "paged ps" and "list_all (\<lambda>p. page_no p \<noteq> 0 \<and> length (page_data p) = PAGESIZE) ws"
  shows "apply_pages ws (concat ps) = (Ok (), concat (fold spec_page ws ps)) \<and>
    paged (fold spec_page ws ps)"
  using assms by (induction ws arbitrary: ps) (auto simp: apply_page_refines)

lemma apply_tx_concat:
  assumes "paged ps" and "wf_tx tx"
  shows "apply_tx tx (concat ps) = (Ok (), concat (spec_tx tx ps))" and "paged (spec_tx tx ps)"
  using apply_pages_refines [OF assms(1), of "page_writes tx"] assms(2)
    take_concat_paged [of "fold spec_page (page_writes tx) ps" "unat (db_size_after tx)"]
  by (simp_all add: apply_tx_def spec_tx_def wf_tx_def mult.commute)

lemma apply_tx_total:
  assumes "aligned db" and "wf_tx tx"
  obtains db' where "apply_tx tx db = (Ok (), db')" "aligned db'" "pages db' = spec_tx tx (pages db)"
proof -
  note ps = aligned_pages [OF assms(1)]
  note app = apply_tx_concat [OF ps(1) assms(2)]
  show thesis
    by (rule that [of "concat (spec_tx tx (pages db))"])
      (use app ps(2) in \<open>simp_all add: aligned_concat pages_concat\<close>)
qed

section \<open>The contract of a database server\<close>

text \<open>
  Replaying a history from a base image; a history is good when every transaction of it is
  well-formed.
\<close>

definition replay :: "bytes \<Rightarrow> Transaction list \<Rightarrow> bytes" where
  "replay db txs = fold (\<lambda>tx db. snd (apply_tx tx db)) txs db"

lemma replay_simps [simp]:
  "replay db [] = db" "replay db (txs @ [tx]) = snd (apply_tx tx (replay db txs))"
  by (simp_all add: replay_def)

lemma replay_append: "replay db (xs @ ys) = replay (replay db xs) ys"
  by (simp add: replay_def)

lemma replay_aligned: "aligned db \<Longrightarrow> list_all wf_tx txs \<Longrightarrow> aligned (replay db txs)"
proof (induction txs rule: rev_induct)
  case (snoc tx txs)
  then have "aligned (replay db txs)" "wf_tx tx" by auto
  then show ?case by (auto elim: apply_tx_total)
qed simp

text \<open>
  A server promises a linear history: the latest snapshot is the replay of the whole history,
  the changes after a version are the rest of the history numbered on, a commit on the latest
  version extends the history by exactly the transaction sent, and a commit on any other
  version is refused and changes nothing.
\<close>

locale db_server =
  fixes snapshot :: "'s \<Rightarrow> (ErrCtx, bytes \<times> nat) outcome"
    and changes_after :: "nat \<Rightarrow> 's \<Rightarrow> (ErrCtx, (Transaction \<times> nat) list) outcome"
    and commit :: "nat \<Rightarrow> Transaction \<Rightarrow> 's \<Rightarrow> (ErrCtx, nat) outcome \<times> 's"
    and inv :: "'s \<Rightarrow> bool"
    and history :: "'s \<Rightarrow> Transaction list"
    and base :: bytes
  assumes base_aligned: "aligned base"
    and history_wf: "inv s \<Longrightarrow> list_all wf_tx (history s)"
    and snapshot_law: "inv s \<Longrightarrow> snapshot s = Ok (replay base (history s), length (history s))"
    and changes_law: "inv s \<Longrightarrow> v \<le> length (history s) \<Longrightarrow>
      changes_after v s = Ok (zip (drop v (history s)) [Suc v..<Suc (length (history s))])"
    and commit_latest: "inv s \<Longrightarrow> wf_tx tx \<Longrightarrow> v = length (history s) \<Longrightarrow> v + 1 < u64_limit \<Longrightarrow>
      (\<exists>s'. commit v tx s = (Ok (v + 1), s') \<and> inv s' \<and> history s' = history s @ [tx])"
    and commit_stale: "inv s \<Longrightarrow> v \<noteq> length (history s) \<Longrightarrow>
      \<not> is_ok (fst (commit v tx s)) \<and> snd (commit v tx s) = s"
begin

definition at_version :: "'s \<Rightarrow> nat \<Rightarrow> bytes" where
  "at_version s v = replay base (take v (history s))"

lemma at_version_aligned: "inv s \<Longrightarrow> aligned (at_version s v)"
  unfolding at_version_def using base_aligned history_wf
  by (intro replay_aligned) (auto simp: list_all_iff dest: in_set_takeD)

text \<open>A replica that applies the changes after its version reaches the latest snapshot.\<close>

lemma catch_up:
  assumes "inv s" and "v \<le> length (history s)" and "changes_after v s = Ok cs"
  shows "replay (at_version s v) (map fst cs) = at_version s (length (history s))"
    and "list_all wf_tx (map fst cs)"
    and "map snd cs = [Suc v..<Suc (length (history s))]"
proof -
  have cs: "cs = zip (drop v (history s)) [Suc v..<Suc (length (history s))]"
    using assms changes_law by simp
  then have fst: "map fst cs = drop v (history s)" by simp
  then show "replay (at_version s v) (map fst cs) = at_version s (length (history s))"
    by (simp add: at_version_def replay_append [symmetric])
  show "list_all wf_tx (map fst cs)"
    unfolding fst using history_wf [OF assms(1)] by (auto simp: list_all_iff dest: in_set_dropD)
  show "map snd cs = [Suc v..<Suc (length (history s))]"
    using cs assms(2) by simp
qed

text \<open>A successful commit was made on the latest version and is the next entry of the history.\<close>

lemma commit_ok_linear:
  assumes "inv s" and "wf_tx tx" and "commit v tx s = (Ok n, s')" and "v + 1 < u64_limit"
  shows "v = length (history s) \<and> n = v + 1 \<and> history s' = history s @ [tx] \<and> inv s'"
proof (cases "v = length (history s)")
  case True
  with assms commit_latest [OF assms(1,2) True] show ?thesis by auto
next
  case False
  with commit_stale [OF assms(1) False, of tx] assms(3) show ?thesis by simp
qed

end

section \<open>The test server meets the contract\<close>

definition server_history :: "TestDbServerData \<Rightarrow> Transaction list" where
  "server_history s = map fst (changes s)"

definition server_inv :: "TestDbServerData \<Rightarrow> bool" where
  "server_inv s =
     (map snd (changes s) = [1..<Suc (length (changes s))] \<and>
      latest_snapshot_version s = length (changes s) \<and>
      list_all wf_tx (server_history s) \<and>
      latest_snapshot s = replay make_initial_db (server_history s))"

lemma length_empty_wal_header: "length (enc_sqlite_header empty_wal_header) = SQLITE_HEADER_SIZE"
  by (rule length_enc_sqlite_header)
    (simp add: sqlite_header_ok_def empty_wal_header_def HEADER_STRING_def RESERVED_ZEROES_def)

lemma length_make_initial_db: "length make_initial_db = PAGESIZE"
  by (simp add: make_initial_db_def length_empty_wal_header length_enc_btree_page_header
      size_defs PAGESIZE_def)

lemma make_initial_db_aligned: "aligned make_initial_db"
  by (simp add: aligned_def length_make_initial_db)

lemma server_inv_new: "server_inv test_server_new"
  by (simp add: server_inv_def test_server_new_def server_history_def)

lemma server_changes_after:
  assumes "server_inv s" and "v \<le> length (server_history s)"
  shows "filter (\<lambda>(tx, n). n > v) (changes s) =
    zip (drop v (server_history s)) [Suc v..<Suc (length (server_history s))]"
proof -
  let ?cs = "changes s"
  have nums: "map snd ?cs = [1..<Suc (length ?cs)]" using assms(1) by (simp add: server_inv_def)
  have snd: "snd (?cs ! i) = Suc i" if "i < length ?cs" for i
  proof -
    have "snd (?cs ! i) = map snd ?cs ! i" using that by simp
    also have "\<dots> = Suc i" unfolding nums using that by (simp del: upt_Suc)
    finally show ?thesis .
  qed
  have "filter (\<lambda>(tx, n). n > v) (take v ?cs) = []"
    by (auto simp: filter_empty_conv in_set_conv_nth snd split: prod.splits)
      (metis Suc_leI not_less snd snd_conv)
  moreover have "filter (\<lambda>(tx, n). n > v) (drop v ?cs) = drop v ?cs"
    by (rule filter_True) (auto simp: in_set_conv_nth split: prod.splits,
      metis snd add.commute less_Suc_eq_le le_add1 less_diff_conv snd_conv)
  ultimately have "filter (\<lambda>(tx, n). n > v) ?cs = drop v ?cs"
    by (metis append_Nil append_take_drop_id filter_append)
  moreover have "drop v ?cs = zip (map fst (drop v ?cs)) (map snd (drop v ?cs))"
    by (simp add: zip_map_fst_snd)
  moreover have "map snd (drop v ?cs) = [Suc v..<Suc (length ?cs)]"
    using nums by (simp add: drop_map [symmetric] del: upt_Suc)
  ultimately show ?thesis by (simp add: server_history_def drop_map)
qed

lemma server_commit_latest:
  assumes "server_inv s" and "wf_tx tx" and "v = length (server_history s)" and "v + 1 < u64_limit"
  shows "\<exists>s'. test_commit_change v tx s = (Ok (v + 1), s') \<and> server_inv s' \<and>
    server_history s' = server_history s @ [tx]"
proof -
  have "aligned (latest_snapshot s)"
    using assms(1) replay_aligned [OF make_initial_db_aligned] by (simp add: server_inv_def)
  then obtain db where db: "apply_tx tx (latest_snapshot s) = (Ok (), db)"
    using assms(2) by (rule apply_tx_total)
  let ?s' = "s\<lparr>latest_snapshot := db, latest_snapshot_version := v + 1,
    changes := changes s @ [(tx, v + 1)]\<rparr>"
  have "test_commit_change v tx s = (Ok (v + 1), ?s')"
    using assms db by (simp add: test_commit_change_def server_inv_def server_history_def)
  moreover have "server_history ?s' = server_history s @ [tx]"
    by (simp add: server_history_def)
  moreover have "server_inv ?s'"
    using assms db by (simp add: server_inv_def server_history_def)
  ultimately show ?thesis by blast
qed

lemma server_commit_stale:
  "server_inv s \<Longrightarrow> v \<noteq> length (server_history s) \<Longrightarrow> test_commit_change v tx s = (Err Bad, s)"
  by (auto simp: test_commit_change_def server_inv_def server_history_def)

interpretation test_server: db_server test_get_latest_snapshot test_get_changes_after
  test_commit_change server_inv server_history make_initial_db
proof unfold_locales
  show "aligned make_initial_db" by (rule make_initial_db_aligned)
next
  fix s tx v assume "server_inv s" "wf_tx tx" "v = length (server_history s)" "v + 1 < u64_limit"
  then show "\<exists>s'. test_commit_change v tx s = (Ok (v + 1), s') \<and> server_inv s' \<and>
      server_history s' = server_history s @ [tx]"
    by (rule server_commit_latest)
qed (simp_all add: server_inv_def test_get_latest_snapshot_def server_history_def
      test_get_changes_after_def server_changes_after [unfolded server_history_def] server_commit_stale)

lemma expect_outcome_not_Err [simp]: "expect_outcome r \<noteq> Err e"
  by (cases r) auto

text \<open>
  A wire that delivers every message. The remote view through it meets the contract, except
  that a refused commit is a panic of the caller instead of an error.
\<close>

locale faithful_wire =
  fixes w :: wire
  assumes deliver_snapshot: "wire_snapshot w x = Some x"
    and deliver_version: "wire_version w v = Some v"
    and deliver_changes: "wire_changes w cs = Some cs"
    and deliver_commit: "wire_commit w req = Some req"
begin

lemma remote_is_local:
  "remote_get_latest_snapshot w s = test_get_latest_snapshot s"
  "remote_get_changes_after w v s = test_get_changes_after v s"
  "remote_commit_change w v tx s =
     (expect_outcome (fst (test_commit_change v tx s)), snd (test_commit_change v tx s))"
  by (auto simp: remote_get_latest_snapshot_def handle_get_latest_snapshot_def receive_def
      test_get_latest_snapshot_def remote_get_changes_after_def handle_get_changes_after_def
      test_get_changes_after_def remote_commit_change_def handle_commit_change_def
      deliver_snapshot deliver_version deliver_changes deliver_commit
      split: prod.splits outcome.splits)

end

sublocale faithful_wire \<subseteq> remote: db_server "remote_get_latest_snapshot w"
  "remote_get_changes_after w" "remote_commit_change w" server_inv server_history make_initial_db
proof unfold_locales
  fix s tx v assume "server_inv s" "wf_tx tx" "v = length (server_history s)" "v + 1 < u64_limit"
  then show "\<exists>s'. remote_commit_change w v tx s = (Ok (v + 1), s') \<and> server_inv s' \<and>
      server_history s' = server_history s @ [tx]"
    using test_server.commit_latest by (fastforce simp: remote_is_local)
next
  fix s v tx assume "server_inv s" "v \<noteq> length (server_history s)"
  then show "\<not> is_ok (fst (remote_commit_change w v tx s)) \<and> snd (remote_commit_change w v tx s) = s"
    by (simp add: remote_is_local server_commit_stale)
qed (simp_all add: remote_is_local test_server.base_aligned test_server.history_wf
      test_server.snapshot_law test_server.changes_law)

interpretation ideal: faithful_wire ideal_wire
  by unfold_locales (simp_all add: ideal_wire_def)

section \<open>Properties\<close>

definition sample_tx :: Transaction where
  "sample_tx = \<lparr>page_writes = [\<lparr>page_no = 2, page_data = replicate PAGESIZE 7\<rparr>], db_size_after = 2\<rparr>"

lemma sample_tx_wf: "wf_tx sample_tx"
  by (simp add: wf_tx_def sample_tx_def)

text \<open>
  C5. On an image of whole pages a well-formed transaction always applies, leaves whole pages,
  and does to the list of pages what the page-level specification says: overwrite each page in
  order, extending with zero pages where needed, then cut to the new size.
\<close>

theorem apply_tx_refines_pages:
  assumes "aligned db" and "wf_tx tx"
  shows "\<exists>db'. apply_tx tx db = (Ok (), db') \<and> aligned db' \<and> pages db' = spec_tx tx (pages db)"
  using apply_tx_total [OF assms] by blast

theorem apply_tx_refines_pages_witness:
  "\<exists>db'. apply_tx sample_tx make_initial_db = (Ok (), db') \<and> aligned db' \<and>
     pages db' = spec_tx sample_tx (pages make_initial_db)"
  using apply_tx_refines_pages [OF make_initial_db_aligned sample_tx_wf] .

text \<open>
  C4. The server keeps a linear history. Its invariant (versions count up from 1 without gaps,
  the snapshot is the replay of all recorded transactions over the initial image) holds
  initially; a commit of a well-formed transaction (whole pages, none numbered 0) on the latest version
  appends exactly the transaction sent and returns the next version; a commit on any other version,
  well-formed or not, is answered with \<^verbatim>\<open>ErrCtx::Bad\<close> and changes nothing. Versions are below the limit of
  64 bits. What a transaction that is not well-formed does on the latest version is the subject of the
  theorem after this one.
\<close>

theorem server_history_linear:
  assumes "server_inv s" and "v + 1 < u64_limit"
  shows "server_inv test_server_new \<and>
    (if v = length (server_history s)
     then wf_tx tx \<longrightarrow>
       (\<exists>s'. test_commit_change v tx s = (Ok (v + 1), s') \<and> server_inv s' \<and>
          server_history s' = server_history s @ [tx])
     else test_commit_change v tx s = (Err Bad, s))"
  using assms server_commit_latest [OF assms(1)] by (simp add: server_inv_new server_commit_stale)

theorem server_history_linear_witness:
  "(\<exists>s'. test_commit_change 0 sample_tx test_server_new = (Ok 1, s') \<and> server_inv s') \<and>
   test_commit_change 3 sample_tx test_server_new = (Err Bad, test_server_new)"
  using server_history_linear [OF server_inv_new, of 0 sample_tx]
    server_history_linear [OF server_inv_new, of 3 sample_tx] sample_tx_wf
  by (auto simp: u64_limit_def server_history_def test_server_new_def)

text \<open>
  C38. A commit that panics midway leaves a torn server. When the transaction's writes are good
  up to a write of page 0, the pages before it are already in the snapshot, while version and
  history are unchanged; a snapshot handed out under that version is no longer the replay of
  the history whenever those writes changed anything.
\<close>

theorem commit_panic_tears_snapshot:
  assumes "server_inv s" and "v = length (server_history s)"
    and "list_all (\<lambda>p. page_no p \<noteq> 0 \<and> length (page_data p) = PAGESIZE) ws" and "page_no p = 0"
    and "page_writes tx = ws @ p # rest"
  shows "\<exists>s'. test_commit_change v tx s = (Panic, s') \<and>
    pages (latest_snapshot s') = fold spec_page ws (pages (latest_snapshot s)) \<and>
    latest_snapshot_version s' = v \<and> changes s' = changes s \<and>
    (fold spec_page ws (pages (latest_snapshot s)) \<noteq> pages (latest_snapshot s) \<longrightarrow> \<not> server_inv s')"
proof -
  let ?db = "latest_snapshot s" and ?qs = "fold spec_page ws (pages (latest_snapshot s))"
  have al: "aligned ?db"
    using assms(1) replay_aligned [OF make_initial_db_aligned] by (simp add: server_inv_def)
  have ws: "apply_pages ws ?db = (Ok (), concat ?qs)" "paged ?qs"
    using apply_pages_refines [OF aligned_pages(1) [OF al] assms(3)] aligned_pages(2) [OF al] by auto
  have split: "apply_pages (xs @ ys) db = bind_st (apply_pages xs db) (\<lambda>_. apply_pages ys)" for xs ys db
    by (induction xs arbitrary: db) (auto simp: bind_st_def split: outcome.splits)
  have "apply_tx tx ?db = (Panic, concat ?qs)"
    using ws(1) assms(4,5) by (simp add: apply_tx_def split apply_page_def)
  then have "test_commit_change v tx s = (Panic, s\<lparr>latest_snapshot := concat ?qs\<rparr>)"
    using assms(1,2) by (simp add: test_commit_change_def server_inv_def server_history_def)
  moreover have "\<not> server_inv (s\<lparr>latest_snapshot := concat ?qs\<rparr>)" if "?qs \<noteq> pages ?db"
    using that assms(1) pages_concat [OF ws(2)]
    by (auto simp: server_inv_def server_history_def)
  ultimately show ?thesis
    using assms(1,2) pages_concat [OF ws(2)]
    by (intro exI [of _ "s\<lparr>latest_snapshot := concat ?qs\<rparr>"])
      (simp add: server_inv_def server_history_def)
qed

theorem commit_panic_tears_snapshot_witness:
  "\<exists>s'. test_commit_change 0
      \<lparr>page_writes = page_writes sample_tx @ \<lparr>page_no = 0, page_data = []\<rparr> # [], db_size_after = 2\<rparr>
      test_server_new = (Panic, s') \<and> latest_snapshot_version s' = 0 \<and> \<not> server_inv s'"
proof -
  have "length (fold spec_page (page_writes sample_tx) (pages make_initial_db)) = 2"
    by (simp add: sample_tx_def spec_page_def set_page_def pages_def length_make_initial_db)
  then have "fold spec_page (page_writes sample_tx) (pages make_initial_db) \<noteq> pages make_initial_db"
    by (auto simp: pages_def length_make_initial_db dest: arg_cong [of _ _ length])
  moreover have "list_all (\<lambda>p. page_no p \<noteq> 0 \<and> length (page_data p) = PAGESIZE) (page_writes sample_tx)"
    using sample_tx_wf by (simp add: wf_tx_def)
  ultimately show ?thesis
    using commit_panic_tears_snapshot [OF server_inv_new, of 0 "page_writes sample_tx"
        "\<lparr>page_no = 0, page_data = []\<rparr>"
        "\<lparr>page_writes = page_writes sample_tx @ \<lparr>page_no = 0, page_data = []\<rparr> # [], db_size_after = 2\<rparr>" "[]"]
    by (auto simp: server_history_def test_server_new_def)
qed

text \<open>
  The image a new server starts from is one page that begins with the header of an empty
  WAL-mode database, followed by an empty leaf page header; the header read back is exactly
  \<^verbatim>\<open>SqliteHeader::empty_wal_header()\<close>.
\<close>

theorem initial_db_decodes:
  "length make_initial_db = PAGESIZE \<and>
   Option.bind (slice make_initial_db 0 SQLITE_HEADER_SIZE) dec_sqlite_header = Some empty_wal_header \<and>
   map_option bt_number_of_cells
     (Option.bind (slice make_initial_db SQLITE_HEADER_SIZE (SQLITE_HEADER_SIZE + BTREE_PAGE_HEADER_SIZE))
        dec_btree_page_header) = Some 0 \<and>
   unat (sh_page_size empty_wal_header) = PAGESIZE"
proof -
  let ?z = "replicate PAGESIZE (0 :: u8)"
  let ?h = "write_at 0 (enc_sqlite_header empty_wal_header) ?z"
  have ok: "sqlite_header_ok empty_wal_header"
    by (simp add: sqlite_header_ok_def empty_wal_header_def HEADER_STRING_def RESERVED_ZEROES_def)
  have h: "Option.bind (slice ?h 0 (0 + SQLITE_HEADER_SIZE)) dec_sqlite_header = Some empty_wal_header"
    by (rule sqlite_header.read_back [OF ok]) (simp add: size_defs PAGESIZE_def)
  have len: "length ?h = PAGESIZE"
    by (simp add: length_empty_wal_header size_defs PAGESIZE_def)
  have "take SQLITE_HEADER_SIZE (drop 0 make_initial_db) = take SQLITE_HEADER_SIZE (drop 0 ?h)"
    unfolding make_initial_db_def
    by (rule take_drop_write_at_disjoint)
      (simp_all add: len length_enc_btree_page_header, simp add: size_defs PAGESIZE_def)
  then have "slice make_initial_db 0 SQLITE_HEADER_SIZE = slice ?h 0 SQLITE_HEADER_SIZE"
    using len length_make_initial_db by (simp add: slice_def)
  with h have "Option.bind (slice make_initial_db 0 SQLITE_HEADER_SIZE) dec_sqlite_header =
      Some empty_wal_header" by simp
  moreover have room: "SQLITE_HEADER_SIZE + BTREE_PAGE_HEADER_SIZE \<le> length ?h"
    unfolding len by (simp add: size_defs PAGESIZE_def)
  then have "map_option bt_number_of_cells
     (Option.bind (slice make_initial_db SQLITE_HEADER_SIZE (SQLITE_HEADER_SIZE + BTREE_PAGE_HEADER_SIZE))
        dec_btree_page_header) = Some 0"
    unfolding make_initial_db_def by (simp add: btree_page_header.read_back)
  ultimately show ?thesis
    by (simp add: length_make_initial_db) (simp add: PAGESIZE_def empty_wal_header_def)
qed

end
