(* ===== verification/ReplClient.thy ===== *)
theory ReplClient
  imports ReplServer
begin

text \<open>
  \<^verbatim>\<open>DbClient\<close> of \<^verbatim>\<open>replsqlite/src/replvfs/vol_file.rs\<close>: a replica of the server's database
  with a private write-ahead log. A transaction begins by pulling the changes of the server and
  ends by sending the committed frames of the log. The random numbers the code draws for the
  WAL salts are arguments.

  Arithmetic that overflows panics (a checked build). The lock counters are \<open>int\<close>: they cannot
  reach the 32-bit bounds without two billion nested locks.
\<close>

definition READMARK_NOT_USED :: u32 where "READMARK_NOT_USED = 0xffffffff"

section \<open>State\<close>

record DbClient =
  server_version :: nat
  db_data :: bytes
  wal_data :: bytes
  wal_index :: bytes
  wal_index_mapped :: bool
  write_locks :: int
  read_locks :: int
  had_write :: bool
  pending_open :: "nat option"

section \<open>The WAL index page\<close>

definition wal_index_new :: bytes where
  "wal_index_new = replicate WAL_INDEX_INITIAL_SIZE 0"

definition set_index :: "WalIndexInfo \<Rightarrow> bytes \<Rightarrow> bytes" where
  "set_index info first_page =
     write_at WAL_INDEX_INFO_SIZE (enc_wal_index_info info)
       (write_at 0 (enc_wal_index_info info) first_page)"

definition set_tail :: "WalIndexHeaderTail \<Rightarrow> bytes \<Rightarrow> bytes" where
  "set_tail tail first_page =
     write_at (2 * WAL_INDEX_INFO_SIZE) (enc_wal_index_tail tail) first_page"

section \<open>Resetting the log\<close>

definition checksum_le :: "bytes \<Rightarrow> (u32 \<times> u32) option" where
  "checksum_le bs = Option.bind (words_le bs) compute_checksum"

text \<open>The next salt: random the first time, then counted up.\<close>

definition next_salt1 :: "u32 \<Rightarrow> u32 \<Rightarrow> u32 option" where
  "next_salt1 rnd salt1 =
     (if salt1 = 0 then Some rnd
      else if salt1 = 0xffffffff then None
      else Some (salt1 + 1))"

definition fresh_wal_header :: "u32 \<Rightarrow> u32 \<Rightarrow> WalHeader" where
  "fresh_wal_header salt1 salt2 = \<lparr>
     wh_magic_number = WAL_HEADER_MAGIC_NUMBER_LITTLE_ENDIAN,
     wh_file_format = WAL_FILE_FORMAT_VERSION,
     wh_page_size = of_nat PAGESIZE,
     wh_checkpoint_sequence_number = 0,
     wh_salt1 = salt1,
     wh_salt2 = salt2,
     wh_checksum1 = 0,
     wh_checksum2 = 0\<rparr>"

definition fresh_index_info :: "nat \<Rightarrow> u32 \<Rightarrow> u32 \<Rightarrow> WalIndexInfo" where
  "fresh_index_info db_len salt1 salt2 = \<lparr>
     wi_version_number = WAL_INDEX_FORMAT_VERSION,
     wi_padding = replicate 4 0,
     wi_change_counter = 0,
     wi_is_init = 1,
     wi_big_endian_checksums = 0,
     wi_page_size = of_nat PAGESIZE,
     wi_mx_frame = 0,
     wi_n_page = of_nat (db_len div PAGESIZE),
     wi_last_frame_checksum1 = 0,
     wi_last_frame_checksum2 = 0,
     wi_salt1 = salt1,
     wi_salt2 = salt2,
     wi_checksum1 = 0,
     wi_checksum2 = 0\<rparr>"

definition fresh_index_tail :: WalIndexHeaderTail where
  "fresh_index_tail = \<lparr>
     wt_n_backfill = 0,
     wt_readmarks = [0, 0, READMARK_NOT_USED, READMARK_NOT_USED, READMARK_NOT_USED],
     wt_unused_for_locks = replicate 8 0,
     wt_n_backfill_attempted = 0,
     wt_unused_end = replicate 4 0\<rparr>"

definition reset_wal :: "u32 \<Rightarrow> u32 \<Rightarrow> DbClient \<Rightarrow> (ErrCtx, unit) outcome \<times> DbClient" where
  "reset_wal rnd1 rnd2 c =
     (let c1 = c\<lparr>wal_data := take WAL_HEADER_SIZE (wal_data c)\<rparr> in
      case dec_wal_header (wal_data c1) of
        None \<Rightarrow> (Panic, c1)
      | Some old \<Rightarrow>
          (case next_salt1 rnd1 (wh_salt1 old) of
             None \<Rightarrow> (Panic, c1)
           | Some salt1 \<Rightarrow>
               (let h = fresh_wal_header salt1 rnd2;
                    info = fresh_index_info (length (db_data c)) salt1 rnd2 in
                case (checksum_le (take (WAL_HEADER_SIZE - 8) (enc_wal_header h)),
                      checksum_le (take (WAL_INDEX_INFO_SIZE - 8) (enc_wal_index_info info))) of
                  (Some (h1, h2), Some (i1, i2)) \<Rightarrow>
                    (Ok (), c1\<lparr>
                       wal_data := enc_wal_header (h\<lparr>wh_checksum1 := h1, wh_checksum2 := h2\<rparr>),
                       wal_index := set_tail fresh_index_tail
                         (set_index (info\<lparr>wi_checksum1 := i1, wi_checksum2 := i2\<rparr>) (wal_index c))\<rparr>)
                | _ \<Rightarrow> (Panic, c1))))"

section \<open>Reading frames back out of the log\<close>

definition FRAME_SIZE :: nat where "FRAME_SIZE = WAL_FRAME_HEADER_SIZE + PAGESIZE"

lemma FRAME_SIZE_pos [simp]: "0 < FRAME_SIZE"
  by (simp add: FRAME_SIZE_def)

definition frame_header_at :: "bytes \<Rightarrow> nat \<Rightarrow> WalFrameHeader option" where
  "frame_header_at wal idx =
     Option.bind (slice wal idx (idx + WAL_FRAME_HEADER_SIZE)) dec_wal_frame_header"

function extract_writes_from_wal :: "bytes \<Rightarrow> nat \<Rightarrow> nat \<Rightarrow> PageWrite list option" where
  "extract_writes_from_wal wal idx stop =
     (if idx < stop then
        case frame_header_at wal idx of
          None \<Rightarrow> None
        | Some header \<Rightarrow>
            (case slice wal (idx + WAL_FRAME_HEADER_SIZE) (idx + WAL_FRAME_HEADER_SIZE + PAGESIZE) of
               None \<Rightarrow> None
             | Some page \<Rightarrow>
                 map_option (Cons \<lparr>page_no = fh_page_number header, page_data = page\<rparr>)
                   (extract_writes_from_wal wal (idx + FRAME_SIZE) stop))
      else Some [])"
  by pat_completeness auto
termination
  by (relation "measure (\<lambda>(wal, idx, stop). stop - idx)") (auto intro: diff_less_mono2)

declare extract_writes_from_wal.simps [simp del]

section \<open>Beginning and ending a transaction\<close>

fun apply_changes ::
  "(Transaction \<times> nat) list \<Rightarrow> DbClient \<Rightarrow> (ErrCtx, unit) outcome \<times> DbClient" where
  "apply_changes [] c = (Ok (), c)"
| "apply_changes ((tx, version) # cs) c =
     bind_st (case apply_tx tx (db_data c) of (r, db) \<Rightarrow> (r, c\<lparr>db_data := db\<rparr>))
       (\<lambda>_ c'. apply_changes cs (c'\<lparr>server_version := version\<rparr>))"

definition pull_changes ::
  "wire \<Rightarrow> u32 \<Rightarrow> u32 \<Rightarrow> TestDbServerData \<Rightarrow> DbClient \<Rightarrow> (ErrCtx, unit) outcome \<times> DbClient" where
  "pull_changes w rnd1 rnd2 srv c =
     (case remote_get_changes_after w (server_version c) srv of
        Ok cs \<Rightarrow>
          bind_st (apply_changes cs c)
            (\<lambda>_ c'. if 0 < length cs then reset_wal rnd1 rnd2 c' else (Ok (), c'))
      | Err e \<Rightarrow> (Err e, c)
      | Panic \<Rightarrow> (Panic, c))"

definition maybe_begin_tx ::
  "wire \<Rightarrow> u32 \<Rightarrow> u32 \<Rightarrow> TestDbServerData \<Rightarrow> DbClient \<Rightarrow> (ErrCtx, unit) outcome \<times> DbClient" where
  "maybe_begin_tx w rnd1 rnd2 srv c =
     (if write_locks c + read_locks c \<noteq> 0 then (Ok (), c) else pull_changes w rnd1 rnd2 srv c)"

text \<open>
  The loop over the frames of the log: at every commit frame the frames since the last one are
  sent as one transaction. The base version sent is the replica's, for every transaction.
\<close>

function send_commits ::
  "wire \<Rightarrow> nat \<Rightarrow> bytes \<Rightarrow> nat \<Rightarrow> nat \<Rightarrow> TestDbServerData \<Rightarrow>
   (ErrCtx, unit) outcome \<times> TestDbServerData" where
  "send_commits w version wal start_idx idx srv =
     (if idx < length wal then
        case frame_header_at wal idx of
          None \<Rightarrow> (Panic, srv)
        | Some header \<Rightarrow>
            (if fh_database_size_after_commit header \<noteq> 0 then
               let end_idx = idx + WAL_FRAME_HEADER_SIZE + PAGESIZE in
               case extract_writes_from_wal wal start_idx end_idx of
                 None \<Rightarrow> (Panic, srv)
               | Some writes \<Rightarrow>
                   bind_st (remote_commit_change w version
                       \<lparr>page_writes = writes, db_size_after = fh_database_size_after_commit header\<rparr> srv)
                     (\<lambda>_. send_commits w version wal end_idx (idx + FRAME_SIZE))
             else send_commits w version wal start_idx (idx + FRAME_SIZE) srv)
      else (Ok (), srv))"
  by pat_completeness auto
termination
  by (relation "measure (\<lambda>(w, version, wal, start_idx, idx, srv). length wal - idx)")
    (auto intro: diff_less_mono2)

declare send_commits.simps [simp del]

definition maybe_end_tx ::
  "wire \<Rightarrow> u32 \<Rightarrow> u32 \<Rightarrow> DbClient \<times> TestDbServerData \<Rightarrow>
   (ErrCtx, unit) outcome \<times> (DbClient \<times> TestDbServerData)" where
  "maybe_end_tx w rnd1 rnd2 cs =
     (case cs of (c, srv) \<Rightarrow>
        if write_locks c + read_locks c \<noteq> 0 then (Ok (), (c, srv))
        else if had_write c then
          (case send_commits w (server_version c) (wal_data c) WAL_HEADER_SIZE WAL_HEADER_SIZE srv of
             (Ok _, srv') \<Rightarrow>
               (case reset_wal rnd1 rnd2 c of
                  (Ok _, c') \<Rightarrow> (Ok (), (c'\<lparr>had_write := False\<rparr>, srv'))
                | (Err e, c') \<Rightarrow> (Err e, (c', srv'))
                | (Panic, c') \<Rightarrow> (Panic, (c', srv')))
           | (Err e, srv') \<Rightarrow> (Err e, (c, srv'))
           | (Panic, srv') \<Rightarrow> (Panic, (c, srv')))
        else (Ok (), (c\<lparr>had_write := False\<rparr>, srv)))"

definition db_client_new ::
  "wire \<Rightarrow> u32 \<Rightarrow> u32 \<Rightarrow> TestDbServerData \<Rightarrow> (ErrCtx, DbClient) outcome" where
  "db_client_new w rnd1 rnd2 srv =
     (case remote_get_latest_snapshot w srv of
        Ok (db, version) \<Rightarrow>
          (case reset_wal rnd1 rnd2 \<lparr>server_version = version, db_data = db,
                  wal_data = replicate WAL_HEADER_SIZE 0, wal_index = wal_index_new,
                  wal_index_mapped = False, write_locks = 0, read_locks = 0, had_write = False,
                  pending_open = None\<rparr> of
             (Ok _, c) \<Rightarrow> Ok c
           | _ \<Rightarrow> Panic)
      | Err e \<Rightarrow> Err e
      | Panic \<Rightarrow> Panic)"

section \<open>The log as a list of frames\<close>

type_synonym frame = "WalFrameHeader \<times> bytes"

definition frame_ok :: "frame \<Rightarrow> bool" where
  "frame_ok f = (length (snd f) = PAGESIZE)"

definition enc_frame :: "frame \<Rightarrow> bytes" where
  "enc_frame f = enc_wal_frame_header (fst f) @ snd f"

definition frame_write :: "frame \<Rightarrow> PageWrite" where
  "frame_write f = \<lparr>page_no = fh_page_number (fst f), page_data = snd f\<rparr>"

definition frame_commit :: "frame \<Rightarrow> u32" where
  "frame_commit f = fh_database_size_after_commit (fst f)"

definition enc_frames :: "frame list \<Rightarrow> bytes" where
  "enc_frames fs = concat (map enc_frame fs)"

text \<open>The transactions of a log: a commit frame closes the frames collected since the last one.\<close>

fun committed_txs :: "frame list \<Rightarrow> frame list \<Rightarrow> Transaction list" where
  "committed_txs pending [] = []"
| "committed_txs pending (f # fs) =
     (if frame_commit f \<noteq> 0
      then \<lparr>page_writes = map frame_write (pending @ [f]), db_size_after = frame_commit f\<rparr>
             # committed_txs [] fs
      else committed_txs (pending @ [f]) fs)"

fun send_txs ::
  "wire \<Rightarrow> nat \<Rightarrow> Transaction list \<Rightarrow> TestDbServerData \<Rightarrow>
   (ErrCtx, unit) outcome \<times> TestDbServerData" where
  "send_txs w version [] srv = (Ok (), srv)"
| "send_txs w version (tx # txs) srv =
     bind_st (remote_commit_change w version tx srv) (\<lambda>_. send_txs w version txs)"

lemma length_enc_frame: "frame_ok f \<Longrightarrow> length (enc_frame f) = FRAME_SIZE"
  by (simp add: enc_frame_def frame_ok_def FRAME_SIZE_def length_enc_wal_frame_header)

lemma enc_frames_simps [simp]:
  "enc_frames [] = []" "enc_frames (f # fs) = enc_frame f @ enc_frames fs"
  "enc_frames (fs @ gs) = enc_frames fs @ enc_frames gs"
  by (simp_all add: enc_frames_def)

lemma length_enc_frames: "list_all frame_ok fs \<Longrightarrow> length (enc_frames fs) = length fs * FRAME_SIZE"
  by (induction fs) (auto simp: length_enc_frame)

lemma frame_header_at_frame:
  "frame_header_at (pre @ enc_frame f @ post) (length pre) = Some (fst f)"
  by (simp add: frame_header_at_def slice_def enc_frame_def length_enc_wal_frame_header
      dec_enc_wal_frame_header)

lemma slice_page_frame:
  "frame_ok f \<Longrightarrow>
   slice (pre @ enc_frame f @ post) (length pre + WAL_FRAME_HEADER_SIZE)
     (length pre + WAL_FRAME_HEADER_SIZE + PAGESIZE) = Some (snd f)"
  by (simp add: slice_def enc_frame_def length_enc_wal_frame_header frame_ok_def)

lemma extract_writes_frames:
  assumes "list_all frame_ok fs"
  shows "extract_writes_from_wal (pre @ enc_frames fs @ post) (length pre)
           (length pre + length fs * FRAME_SIZE) = Some (map frame_write fs)"
  using assms
proof (induction fs arbitrary: pre)
  case Nil
  then show ?case by (simp add: extract_writes_from_wal.simps)
next
  case (Cons f fs)
  let ?wal = "pre @ enc_frame f @ enc_frames fs @ post"
  have "extract_writes_from_wal ?wal (length pre + FRAME_SIZE)
      (length pre + FRAME_SIZE + length fs * FRAME_SIZE) = Some (map frame_write fs)"
    using Cons.IH [of "pre @ enc_frame f"] Cons.prems by (simp add: length_enc_frame)
  then show ?case
    using Cons.prems
    by (subst extract_writes_from_wal.simps)
      (simp add: frame_header_at_frame slice_page_frame [unfolded add.assoc] frame_write_def add.assoc)
qed

text \<open>The byte loop over the log sends the transactions of its frames.\<close>

lemma send_commits_frames:
  assumes "list_all frame_ok pending" and "list_all frame_ok fs"
  shows "send_commits w version (pre @ enc_frames pending @ enc_frames fs) (length pre)
           (length pre + length pending * FRAME_SIZE) srv
         = send_txs w version (committed_txs pending fs) srv"
  using assms
proof (induction fs arbitrary: pre pending srv)
  case Nil
  then show ?case by (subst send_commits.simps) (simp add: length_enc_frames)
next
  case (Cons f fs)
  let ?wal = "pre @ enc_frames pending @ enc_frame f @ enc_frames fs"
  let ?idx = "length pre + length pending * FRAME_SIZE"
  have ok: "frame_ok f" "list_all frame_ok (pending @ [f])" using Cons.prems by auto
  have lt: "?idx < length ?wal"
    using Cons.prems(1) by (simp add: length_enc_frames length_enc_frame [OF ok(1)])
  have hd: "frame_header_at ?wal ?idx = Some (fst f)"
    using frame_header_at_frame [of "pre @ enc_frames pending" f "enc_frames fs"] Cons.prems(1)
    by (simp add: length_enc_frames)
  have next_idx: "?idx + FRAME_SIZE = length pre + length (pending @ [f]) * FRAME_SIZE" by simp
  have ext: "extract_writes_from_wal ?wal (length pre) (?idx + FRAME_SIZE) =
      Some (map frame_write (pending @ [f]))"
    using extract_writes_frames [OF ok(2), of pre "enc_frames fs"] unfolding next_idx by simp
  have size: "?idx + WAL_FRAME_HEADER_SIZE + PAGESIZE = ?idx + FRAME_SIZE"
    by (simp add: FRAME_SIZE_def)
  have fresh: "send_commits w version ?wal (?idx + FRAME_SIZE) (?idx + FRAME_SIZE) =
      send_txs w version (committed_txs [] fs)"
  proof
    fix srv'
    show "send_commits w version ?wal (?idx + FRAME_SIZE) (?idx + FRAME_SIZE) srv' =
        send_txs w version (committed_txs [] fs) srv'"
      using Cons.IH [of "[]" "pre @ enc_frames (pending @ [f])" srv'] Cons.prems ok
      by (simp add: length_enc_frames length_enc_frame add.assoc)
  qed
  have pend: "send_commits w version ?wal (length pre) (?idx + FRAME_SIZE) srv =
      send_txs w version (committed_txs (pending @ [f]) fs) srv"
    using Cons.IH [OF ok(2), of pre srv] Cons.prems unfolding next_idx by simp
  show ?case
    using lt hd ext fresh pend
    by (subst send_commits.simps) (simp add: Let_def size frame_commit_def)
qed

end
