(* ===== verification/ReplClientCorrect.thy ===== *)
theory ReplClientCorrect
  imports ReplClient
begin

text \<open>
  Correctness of the replica \<^verbatim>\<open>DbClient\<close>: what \<^verbatim>\<open>reset_wal\<close> leaves behind, that pulling makes a
  replica current, and what a transaction's end sends to the server. A replica \<open>tracks\<close> a server
  when its image is the server's image at its version.
\<close>

section \<open>What the log reset leaves behind\<close>

text \<open>A WAL file that holds only a header with a valid checksum.\<close>

definition wal_sealed :: "bytes \<Rightarrow> bool" where
  "wal_sealed wal =
     (case dec_wal_header wal of
        None \<Rightarrow> False
      | Some h \<Rightarrow> wh_magic_number h = WAL_HEADER_MAGIC_NUMBER_LITTLE_ENDIAN \<and>
          wh_file_format h = WAL_FILE_FORMAT_VERSION \<and> wh_page_size h = of_nat PAGESIZE \<and>
          checksum_le (take (WAL_HEADER_SIZE - 8) wal) = Some (wh_checksum1 h, wh_checksum2 h))"

text \<open>
  A WAL index page whose two info copies agree, carry a valid checksum and the salts of the log,
  and describe an empty log over a database of the given size.
\<close>

definition index_sealed :: "bytes \<Rightarrow> bytes \<Rightarrow> nat \<Rightarrow> bool" where
  "index_sealed page wal db_len =
     (case (dec_wal_index_info (bytes_at page 0 WAL_INDEX_INFO_SIZE),
            dec_wal_index_info (bytes_at page WAL_INDEX_INFO_SIZE WAL_INDEX_INFO_SIZE),
            dec_wal_index_tail (bytes_at page (2 * WAL_INDEX_INFO_SIZE) WAL_INDEX_TAIL_SIZE),
            dec_wal_header wal) of
        (Some i, Some j, Some t, Some h) \<Rightarrow>
          j = i \<and> t = fresh_index_tail \<and> wi_mx_frame i = 0 \<and>
          wi_n_page i = of_nat (db_len div PAGESIZE) \<and>
          wi_salt1 i = wh_salt1 h \<and> wi_salt2 i = wh_salt2 h \<and>
          checksum_le (bytes_at page 0 (WAL_INDEX_INFO_SIZE - 8)) = Some (wi_checksum1 i, wi_checksum2 i)
      | _ \<Rightarrow> False)"

text \<open>When the log can be reset: it still has a header, whose salt can be counted up.\<close>

definition log_ready :: "DbClient \<Rightarrow> bool" where
  "log_ready c = (WAL_HEADER_SIZE \<le> length (wal_data c) \<and>
     length (wal_index c) = WAL_INDEX_INITIAL_SIZE \<and> be32_at (wal_data c) 16 \<noteq> 0xffffffff)"

lemma checksum_le_total:
  assumes "length bs mod 8 = 0"
  shows "\<exists>a b. checksum_le bs = Some (a, b)"
proof -
  have "length bs mod 4 = 0" "even (length bs div 4)" using assms by presburger+
  with words_le_total [of bs] show ?thesis
    by (auto simp: checksum_le_def compute_checksum_def)
qed

lemma dec_wal_header_prefix:
  "WAL_HEADER_SIZE \<le> length wal \<Longrightarrow>
   \<exists>h. dec_wal_header (take WAL_HEADER_SIZE wal) = Some h \<and> wh_salt1 h = be32_at wal 16"
  by (simp add: dec_wal_header_def WAL_HEADER_SIZE_def be32_at_def drop_take)

text \<open>The checksum fields are behind the checksummed part.\<close>

lemma take_enc_wal_header:
  "take (WAL_HEADER_SIZE - 8) (enc_wal_header (h\<lparr>wh_checksum1 := a, wh_checksum2 := b\<rparr>)) =
   take (WAL_HEADER_SIZE - 8) (enc_wal_header h)"
  by (simp add: enc_wal_header_def size_defs)

lemma take_enc_wal_index_info:
  "wal_index_info_ok i \<Longrightarrow>
   take (WAL_INDEX_INFO_SIZE - 8) (enc_wal_index_info (i\<lparr>wi_checksum1 := a, wi_checksum2 := b\<rparr>)) =
   take (WAL_INDEX_INFO_SIZE - 8) (enc_wal_index_info i)"
  by (simp add: enc_wal_index_info_def wal_index_info_ok_def size_defs)

lemma fresh_index_ok:
  "wal_index_info_ok (fresh_index_info n s1 s2)" "wal_index_tail_ok fresh_index_tail"
  by (simp_all add: wal_index_info_ok_def fresh_index_info_def wal_index_tail_ok_def fresh_index_tail_def)

lemma bytes_at_write_at_same:
  "off + length d \<le> length xs \<Longrightarrow> n \<le> length d \<Longrightarrow> bytes_at (write_at off d xs) off n = take n d"
  by (simp add: bytes_at_def write_at_def)

lemma bytes_at_write_at_other:
  "off + length d \<le> length xs \<Longrightarrow> a + n \<le> off \<or> off + length d \<le> a \<Longrightarrow>
   bytes_at (write_at off d xs) a n = bytes_at xs a n"
  unfolding bytes_at_def by (rule take_drop_write_at_disjoint)

lemma set_index_tail_page:
  assumes "length page = WAL_INDEX_INITIAL_SIZE" and "wal_index_info_ok i" and "wal_index_tail_ok t"
  defines "page' \<equiv> set_tail t (set_index i page)"
  shows "length page' = WAL_INDEX_INITIAL_SIZE"
    and "n \<le> WAL_INDEX_INFO_SIZE \<Longrightarrow> bytes_at page' 0 n = take n (enc_wal_index_info i)"
    and "bytes_at page' WAL_INDEX_INFO_SIZE WAL_INDEX_INFO_SIZE = enc_wal_index_info i"
    and "bytes_at page' (2 * WAL_INDEX_INFO_SIZE) WAL_INDEX_TAIL_SIZE = enc_wal_index_tail t"
  using assms(1-3) length_enc_wal_index_info [OF assms(2)] length_enc_wal_index_tail [OF assms(3)]
  unfolding page'_def set_tail_def set_index_def
  by (simp_all add: bytes_at_write_at_same bytes_at_write_at_other size_defs)

text \<open>
  The whole of \<^verbatim>\<open>reset_wal\<close>, on a log that is ready: it succeeds, seals log and index, keeps the
  image and the lock counters, and the new log's salt is the old one counted up or drawn anew.
\<close>

lemma reset_wal_ok:
  assumes "log_ready c"
  obtains c' where "reset_wal r1 r2 c = (Ok (), c')"
    "wal_sealed (wal_data c')" "index_sealed (wal_index c') (wal_data c') (length (db_data c))"
    "length (wal_data c') = WAL_HEADER_SIZE" "length (wal_index c') = WAL_INDEX_INITIAL_SIZE"
    "be32_at (wal_data c') 16 = (if be32_at (wal_data c) 16 = 0 then r1 else be32_at (wal_data c) 16 + 1)"
    "c' = c\<lparr>wal_data := wal_data c', wal_index := wal_index c'\<rparr>"
proof -
  let ?old = "take WAL_HEADER_SIZE (wal_data c)"
  define salt1 where
    "salt1 = (if be32_at (wal_data c) 16 = 0 then r1 else be32_at (wal_data c) 16 + 1)"
  obtain old where old: "dec_wal_header ?old = Some old" and "wh_salt1 old = be32_at (wal_data c) 16"
    using assms dec_wal_header_prefix by (auto simp: log_ready_def)
  then have salt: "next_salt1 r1 (wh_salt1 old) = Some salt1"
    using assms by (simp add: next_salt1_def salt1_def log_ready_def)
  define h where "h = fresh_wal_header salt1 r2"
  define i where "i = fresh_index_info (length (db_data c)) salt1 r2"
  have iok: "wal_index_info_ok i" by (simp add: i_def fresh_index_ok)
  obtain h1 h2 where hc: "checksum_le (take (WAL_HEADER_SIZE - 8) (enc_wal_header h)) = Some (h1, h2)"
    using checksum_le_total [of "take (WAL_HEADER_SIZE - 8) (enc_wal_header h)"]
    by (auto simp: length_enc_wal_header size_defs)
  obtain i1 i2 where
    ic: "checksum_le (take (WAL_INDEX_INFO_SIZE - 8) (enc_wal_index_info i)) = Some (i1, i2)"
    using checksum_le_total [of "take (WAL_INDEX_INFO_SIZE - 8) (enc_wal_index_info i)"]
    by (auto simp: length_enc_wal_index_info [OF iok] size_defs)
  define h' where "h' = h\<lparr>wh_checksum1 := h1, wh_checksum2 := h2\<rparr>"
  define i' where "i' = i\<lparr>wi_checksum1 := i1, wi_checksum2 := i2\<rparr>"
  define c' where "c' = c\<lparr>wal_data := enc_wal_header h',
    wal_index := set_tail fresh_index_tail (set_index i' (wal_index c))\<rparr>"
  have iok': "wal_index_info_ok i'" using iok by (simp add: i'_def wal_index_info_ok_def)
  have len: "length (wal_index c) = WAL_INDEX_INITIAL_SIZE" using assms by (simp add: log_ready_def)
  note page = set_index_tail_page [OF len iok' fresh_index_ok(2)]
  have run: "reset_wal r1 r2 c = (Ok (), c')"
    using hc ic old salt by (simp add: reset_wal_def c'_def h_def i_def h'_def i'_def Let_def)
  have dec: "dec_wal_header (wal_data c') = Some h'"
    by (simp add: c'_def dec_enc_wal_header)
  have wal: "wal_sealed (wal_data c')"
    using hc take_enc_wal_header [of h2 h1 h]
    by (simp add: wal_sealed_def dec) (simp add: c'_def h'_def h_def fresh_wal_header_def)
  have idx: "index_sealed (wal_index c') (wal_data c') (length (db_data c))"
    unfolding index_sealed_def dec
    using page(2) [of WAL_INDEX_INFO_SIZE] page(2) [of "WAL_INDEX_INFO_SIZE - 8"] page(3,4)
      take_enc_wal_index_info [OF iok, of i2 i1] ic length_enc_wal_index_info [OF iok']
    by (simp add: c'_def dec_enc_wal_index_info [OF iok'] dec_enc_wal_index_tail [OF fresh_index_ok(2)])
      (simp add: i'_def h'_def i_def h_def fresh_index_info_def fresh_wal_header_def)
  have "be32_at (enc_wal_header h') 16 = salt1"
    by (simp add: enc_wal_header_def codec_simps h'_def h_def fresh_wal_header_def)
  then have "be32_at (wal_data c') 16 = salt1" by (simp add: c'_def)
  from that [OF run wal idx _ _ this [unfolded salt1_def]] show thesis
    using page(1) by (simp add: c'_def length_enc_wal_header)
qed

lemma reset_wal_not_ready:
  assumes "\<not> (WAL_HEADER_SIZE \<le> length (wal_data c) \<and> be32_at (wal_data c) 16 \<noteq> 0xffffffff)"
  shows "fst (reset_wal r1 r2 c) = Panic"
proof (cases "WAL_HEADER_SIZE \<le> length (wal_data c)")
  case True
  then have salt: "be32_at (wal_data c) 16 = 0xffffffff" using assms by blast
  obtain h where h: "dec_wal_header (take WAL_HEADER_SIZE (wal_data c)) = Some h"
    "wh_salt1 h = 0xffffffff"
    using dec_wal_header_prefix [OF True] unfolding salt by blast
  have "next_salt1 r1 0xffffffff = None" by (simp add: next_salt1_def)
  with h show ?thesis by (simp add: reset_wal_def)
next
  case False
  then have "dec_wal_header (take WAL_HEADER_SIZE (wal_data c)) = None"
    by (simp add: dec_wal_header_def)
  then show ?thesis by (simp add: reset_wal_def)
qed

text \<open>Either way the image, the version and the lock counters are kept, and there is no error.\<close>

lemma reset_wal_cases:
  assumes "length (wal_index c) = WAL_INDEX_INITIAL_SIZE"
  obtains (ok) c' where "log_ready c" "reset_wal r1 r2 c = (Ok (), c')"
      "length (wal_data c') = WAL_HEADER_SIZE" "length (wal_index c') = WAL_INDEX_INITIAL_SIZE"
      "c' = c\<lparr>wal_data := wal_data c', wal_index := wal_index c'\<rparr>"
    | (panic) c' where "\<not> log_ready c" "reset_wal r1 r2 c = (Panic, c')"
proof (cases "log_ready c")
  case True
  obtain c' where "reset_wal r1 r2 c = (Ok (), c')" "length (wal_data c') = WAL_HEADER_SIZE"
      "length (wal_index c') = WAL_INDEX_INITIAL_SIZE"
      "c' = c\<lparr>wal_data := wal_data c', wal_index := wal_index c'\<rparr>"
    by (rule reset_wal_ok [OF True, of r1 r2])
  with True ok show ?thesis by blast
next
  case False
  then have "fst (reset_wal r1 r2 c) = Panic"
    using assms by (intro reset_wal_not_ready) (simp add: log_ready_def)
  with False panic show ?thesis by (metis prod.collapse)
qed

section \<open>Following the server\<close>

definition tracks :: "DbClient \<Rightarrow> TestDbServerData \<Rightarrow> bool" where
  "tracks c srv = (server_version c \<le> length (server_history srv) \<and>
     db_data c = test_server.at_version srv (server_version c))"

definition current :: "DbClient \<Rightarrow> TestDbServerData \<Rightarrow> bool" where
  "current c srv = (server_version c = latest_snapshot_version srv \<and> db_data c = latest_snapshot srv)"

lemma current_iff:
  "server_inv srv \<Longrightarrow>
   current c srv \<longleftrightarrow> tracks c srv \<and> server_version c = length (server_history srv)"
  by (auto simp: current_def tracks_def test_server.at_version_def server_inv_def server_history_def)

lemma tracks_aligned: "server_inv srv \<Longrightarrow> tracks c srv \<Longrightarrow> aligned (db_data c)"
  by (simp add: tracks_def test_server.at_version_aligned)

text \<open>Tracking survives every extension of the history.\<close>

lemma tracks_mono:
  "tracks c srv \<Longrightarrow> server_history srv' = server_history srv @ txs \<Longrightarrow> tracks c srv'"
  by (simp add: tracks_def test_server.at_version_def)

lemma tracks_cong:
  "db_data c' = db_data c \<Longrightarrow> server_version c' = server_version c \<Longrightarrow> tracks c' srv = tracks c srv"
  by (simp add: tracks_def)

lemma apply_changes_replay:
  assumes "aligned (db_data c)" and "list_all wf_tx (map fst cs)"
  shows "apply_changes cs c = (Ok (), c\<lparr>db_data := replay (db_data c) (map fst cs),
     server_version := (if cs = [] then server_version c else snd (last cs))\<rparr>)"
  using assms
proof (induction cs c rule: apply_changes.induct)
  case (1 c)
  then show ?case by simp
next
  case (2 tx version cs c)
  from 2(2,3) obtain db where db: "apply_tx tx (db_data c) = (Ok (), db)" "aligned db"
    by (auto elim: apply_tx_total)
  with 2 show ?case by (auto simp: replay_def)
qed

context faithful_wire
begin

lemma pull_current:
  assumes "server_inv srv" and "tracks c srv" and "log_ready c"
  obtains c' where "pull_changes w r1 r2 srv c = (Ok (), c')" "current c' srv"
    "if current c srv then c' = c
     else wal_sealed (wal_data c') \<and> index_sealed (wal_index c') (wal_data c') (length (db_data c'))"
    "c' = c\<lparr>db_data := db_data c', server_version := server_version c',
        wal_data := wal_data c', wal_index := wal_index c'\<rparr>"
    "c' = c \<or> length (wal_data c') = WAL_HEADER_SIZE \<and> length (wal_index c') = WAL_INDEX_INITIAL_SIZE \<and>
      be32_at (wal_data c') 16 =
        (if be32_at (wal_data c) 16 = 0 then r1 else be32_at (wal_data c) 16 + 1)"
proof -
  let ?n = "length (server_history srv)" and ?v = "server_version c"
  have v: "?v \<le> ?n" and db: "db_data c = test_server.at_version srv ?v"
    using assms(2) by (auto simp: tracks_def)
  obtain cs where cs: "remote_get_changes_after w ?v srv = Ok cs"
    using remote.changes_law [OF assms(1) v] by blast
  then have cs': "test_get_changes_after ?v srv = Ok cs" by (simp add: remote_is_local)
  note catch = test_server.catch_up [OF assms(1) v cs']
  define c1 where "c1 = c\<lparr>db_data := replay (db_data c) (map fst cs),
     server_version := (if cs = [] then server_version c else snd (last cs))\<rparr>"
  have app: "apply_changes cs c = (Ok (), c1)"
    unfolding c1_def by (rule apply_changes_replay [OF tracks_aligned [OF assms(1,2)] catch(2)])
  have empty: "cs = [] \<longleftrightarrow> ?v = ?n"
  proof -
    have "length cs = ?n - ?v" using arg_cong [OF catch(3), of length] by (simp del: upt_Suc)
    then show ?thesis using v by (cases cs) auto
  qed
  have "snd (last cs) = ?n" if "cs \<noteq> []"
    using that empty v arg_cong [OF catch(3), of last] by (simp add: last_map split: if_splits)
  then have ver: "server_version c1 = ?n" using empty by (simp add: c1_def)
  have c1: "current c1 srv"
    using catch(1) ver db by (simp add: current_iff [OF assms(1)] tracks_def c1_def)
  have was: "current c srv \<longleftrightarrow> cs = []"
    using assms(2) empty by (simp add: current_iff [OF assms(1)])
  show thesis
  proof (cases "cs = []")
    case True
    then have "c1 = c" by (simp add: c1_def)
    with True that [of c] c1 app cs was show ?thesis by (simp add: pull_changes_def)
  next
    case False
    have ready: "log_ready c1" using assms(3) by (simp add: c1_def log_ready_def)
    obtain c' where c': "reset_wal r1 r2 c1 = (Ok (), c')" "wal_sealed (wal_data c')"
      "index_sealed (wal_index c') (wal_data c') (length (db_data c1))"
      "c' = c1\<lparr>wal_data := wal_data c', wal_index := wal_index c'\<rparr>"
      "length (wal_data c') = WAL_HEADER_SIZE" "length (wal_index c') = WAL_INDEX_INITIAL_SIZE"
      "be32_at (wal_data c') 16 =
        (if be32_at (wal_data c1) 16 = 0 then r1 else be32_at (wal_data c1) 16 + 1)"
      by (rule reset_wal_ok [OF ready, of r1 r2]) blast
    have data: "wal_data c1 = wal_data c" by (simp add: c1_def)
    have same: "db_data c' = db_data c1" "server_version c' = server_version c1"
      by (subst c'(4), simp)+
    have "pull_changes w r1 r2 srv c = (Ok (), c')"
      using cs app False c'(1) by (simp add: pull_changes_def)
    moreover have "current c' srv" using c1 same by (simp add: current_def)
    moreover have "c' = c\<lparr>db_data := db_data c', server_version := server_version c',
        wal_data := wal_data c', wal_index := wal_index c'\<rparr>"
      by (subst c'(4)) (simp add: same, simp add: c1_def)
    ultimately show ?thesis using that [of c'] c'(2,3,5-7) [unfolded data] was False same by simp
  qed
qed

lemma send_one:
  assumes "server_inv srv" and "wf_tx tx" and "v = length (server_history srv)" and "v + 1 < u64_limit"
  obtains srv' where "remote_commit_change w v tx srv = (Ok (v + 1), srv')" "server_inv srv'"
    "server_history srv' = server_history srv @ [tx]"
  using remote.commit_latest [OF assms] by blast

lemma send_stale:
  assumes "server_inv srv" and "v \<noteq> length (server_history srv)"
  shows "remote_commit_change w v tx srv = (Panic, srv)"
  using assms by (simp add: remote_is_local server_commit_stale)

text \<open>
  What sending a log's transactions does: nothing when there are none; the only one is
  appended; a stale base stops at the first one; the second of several is always stale.
\<close>

lemma send_txs_outcome:
  assumes "server_inv srv" and "list_all wf_tx txs" and "v + 1 < u64_limit"
  shows "txs \<noteq> [] \<Longrightarrow> v \<noteq> length (server_history srv) \<Longrightarrow> send_txs w v txs srv = (Panic, srv)"
    and "txs = tx # rest \<Longrightarrow> v = length (server_history srv) \<Longrightarrow>
      \<exists>srv'. send_txs w v txs srv = (if rest = [] then Ok () else Panic, srv') \<and> server_inv srv' \<and>
        server_history srv' = server_history srv @ [tx]"
proof -
  show "txs \<noteq> [] \<Longrightarrow> v \<noteq> length (server_history srv) \<Longrightarrow> send_txs w v txs srv = (Panic, srv)"
    using assms(1) by (cases txs) (auto simp: send_stale)
  assume txs: "txs = tx # rest" and v: "v = length (server_history srv)"
  then have "wf_tx tx" using assms(2) by simp
  from send_one [OF assms(1) this v assms(3)] obtain srv' where
    srv': "remote_commit_change w v tx srv = (Ok (v + 1), srv')" "server_inv srv'"
      "server_history srv' = server_history srv @ [tx]" .
  have "v \<noteq> length (server_history srv')" using v srv'(3) by simp
  then show "\<exists>srv'. send_txs w v txs srv = (if rest = [] then Ok () else Panic, srv') \<and>
      server_inv srv' \<and> server_history srv' = server_history srv @ [tx]"
    using srv' txs by (cases rest) (auto simp: send_stale)
qed

end

lemma committed_txs_wf:
  assumes "list_all (\<lambda>f. frame_ok f \<and> fh_page_number (fst f) \<noteq> 0) (pending @ fs)"
  shows "list_all wf_tx (committed_txs pending fs)"
  using assms
proof (induction pending fs rule: committed_txs.induct)
  case (2 pending f fs)
  then have "list_all (\<lambda>f. frame_ok f \<and> fh_page_number (fst f) \<noteq> 0) (pending @ [f])" by simp
  then have "wf_tx \<lparr>page_writes = map frame_write (pending @ [f]), db_size_after = frame_commit f\<rparr>"
    by (auto simp: wf_tx_def frame_ok_def frame_write_def list_all_iff)
  with 2 show ?case by simp
qed simp

text \<open>A log of whole frames with real page numbers, behind a header.\<close>

definition log_of :: "DbClient \<Rightarrow> frame list \<Rightarrow> bool" where
  "log_of c fs =
     (length (wal_data c) \<ge> WAL_HEADER_SIZE \<and> drop WAL_HEADER_SIZE (wal_data c) = enc_frames fs \<and>
      list_all (\<lambda>f. frame_ok f \<and> fh_page_number (fst f) \<noteq> 0) fs)"

lemma send_commits_log:
  assumes "log_of c fs"
  shows "send_commits w v (wal_data c) WAL_HEADER_SIZE WAL_HEADER_SIZE srv =
    send_txs w v (committed_txs [] fs) srv"
proof -
  have wal: "wal_data c = take WAL_HEADER_SIZE (wal_data c) @ enc_frames fs"
    using assms by (metis append_take_drop_id log_of_def)
  have "list_all frame_ok fs" using assms by (auto simp: log_of_def list_all_iff)
  from send_commits_frames [of "[]" fs, OF _ this, of w v "take WAL_HEADER_SIZE (wal_data c)" srv]
  show ?thesis using assms wal by (simp add: log_of_def)
qed

lemma log_of_wf: "log_of c fs \<Longrightarrow> list_all wf_tx (committed_txs [] fs)"
  by (rule committed_txs_wf) (simp add: log_of_def)

text \<open>The client's side of the end of a transaction: the log is reset, the image is kept.\<close>

lemma end_tx_reset:
  assumes "log_ready c"
  obtains c' where "reset_wal r1 r2 c = (Ok (), c')"
    "wal_sealed (wal_data c')" "index_sealed (wal_index c') (wal_data c') (length (db_data c))"
    "db_data c' = db_data c" "server_version c' = server_version c"
    "write_locks c' = write_locks c" "read_locks c' = read_locks c"
proof -
  obtain c' where c': "reset_wal r1 r2 c = (Ok (), c')" "wal_sealed (wal_data c')"
    "index_sealed (wal_index c') (wal_data c') (length (db_data c))"
    "c' = c\<lparr>wal_data := wal_data c', wal_index := wal_index c'\<rparr>"
    by (rule reset_wal_ok [OF assms, of r1 r2]) blast
  show thesis by (rule that [OF c'(1-3)]; subst c'(4); simp)
qed

section \<open>Sample states\<close>

definition sample_frame :: "u32 \<Rightarrow> u32 \<Rightarrow> frame" where
  "sample_frame n z = (\<lparr>fh_page_number = n, fh_database_size_after_commit = z, fh_salt1 = 5,
     fh_salt2 = 6, fh_checksum1 = 0, fh_checksum2 = 0\<rparr>, replicate PAGESIZE 7)"

definition sample_client :: "frame list \<Rightarrow> DbClient" where
  "sample_client fs = \<lparr>server_version = 0, db_data = make_initial_db,
     wal_data = enc_wal_header sample_wal_header @ enc_frames fs, wal_index = wal_index_new,
     wal_index_mapped = True, write_locks = 0, read_locks = 0, had_write = True, pending_open = None\<rparr>"

definition sample_server :: TestDbServerData where
  "sample_server = snd (test_commit_change 0 sample_tx test_server_new)"

lemma sample_server_ok: "server_inv sample_server" "server_history sample_server = [sample_tx]"
  using server_commit_latest [OF server_inv_new sample_tx_wf, of 0]
  by (auto simp: sample_server_def server_history_def test_server_new_def u64_limit_def)

lemma sample_server_version: "latest_snapshot_version sample_server = 1"
  using sample_server_ok by (simp add: server_inv_def server_history_def) (metis length_Cons length_map list.size(3))

lemma sample_client_ready: "log_ready (sample_client fs)"
proof -
  have "be32_at (enc_wal_header sample_wal_header @ enc_frames fs) 16 = 5"
    by (simp add: enc_wal_header_def codec_simps sample_wal_header_def)
  then show ?thesis
    by (simp add: log_ready_def sample_client_def wal_index_new_def length_enc_wal_header)
qed

lemma sample_client_log:
  "list_all (\<lambda>f. frame_ok f \<and> fh_page_number (fst f) \<noteq> 0) fs \<Longrightarrow> log_of (sample_client fs) fs"
  by (simp add: log_of_def sample_client_def length_enc_wal_header)

lemma sample_client_current: "current (sample_client fs) test_server_new"
  by (simp add: current_def sample_client_def test_server_new_def)

lemma sample_client_tracks: "tracks (sample_client fs) sample_server"
  by (simp add: tracks_def sample_client_def test_server.at_version_def)

lemma sample_frame_ok: "n \<noteq> 0 \<Longrightarrow> frame_ok (sample_frame n z) \<and> fh_page_number (fst (sample_frame n z)) \<noteq> 0"
  by (simp add: frame_ok_def sample_frame_def)

lemma sample_frame_commit [simp]: "frame_commit (sample_frame n z) = z"
  by (simp add: frame_commit_def sample_frame_def)

lemmas sample_client_simps = sample_client_ready sample_client_log sample_client_current
  sample_client_tracks sample_frame_ok ideal.faithful_wire_axioms server_inv_new sample_server_ok

lemma new_server_history [simp]: "server_history test_server_new = []"
  by (simp add: server_history_def test_server_new_def)

lemma sample_client_fields [simp]:
  "write_locks (sample_client fs) = 0" "read_locks (sample_client fs) = 0"
  "had_write (sample_client fs)" "server_version (sample_client fs) = 0"
  by (simp_all add: sample_client_def)

section \<open>Properties\<close>

text \<open>
  C7. Beginning a transaction makes the replica current: with a log that can be reset, a pull
  succeeds, the image becomes the server's latest snapshot at the latest version, and if
  anything changed the log and the WAL index are fresh and consistent; a replica that was
  current is not touched. While any lock is held, beginning a transaction does nothing.
\<close>

theorem begin_tx_makes_current:
  assumes "faithful_wire w" and "server_inv srv" and "tracks c srv" and "log_ready c"
  shows "if write_locks c + read_locks c \<noteq> 0
    then maybe_begin_tx w r1 r2 srv c = (Ok (), c)
    else \<exists>c'. maybe_begin_tx w r1 r2 srv c = (Ok (), c') \<and> current c' srv \<and>
      (if current c srv then c' = c
       else wal_sealed (wal_data c') \<and> index_sealed (wal_index c') (wal_data c') (length (db_data c'))) \<and>
      write_locks c' = write_locks c \<and> read_locks c' = read_locks c \<and> had_write c' = had_write c"
proof -
  obtain c' where c': "pull_changes w r1 r2 srv c = (Ok (), c')" "current c' srv"
    "if current c srv then c' = c
     else wal_sealed (wal_data c') \<and> index_sealed (wal_index c') (wal_data c') (length (db_data c'))"
    "c' = c\<lparr>db_data := db_data c', server_version := server_version c',
        wal_data := wal_data c', wal_index := wal_index c'\<rparr>"
    by (rule faithful_wire.pull_current [OF assms, of r1 r2]) blast
  have "write_locks c' = write_locks c" "read_locks c' = read_locks c" "had_write c' = had_write c"
    by (subst c'(4), simp)+
  with c'(1-3) show ?thesis by (auto simp: maybe_begin_tx_def)
qed

theorem begin_tx_makes_current_witness:
  "\<exists>c'. maybe_begin_tx ideal_wire 1 2 sample_server (sample_client []) = (Ok (), c') \<and>
     current c' sample_server \<and> server_version c' = 1"
  using begin_tx_makes_current [of ideal_wire sample_server "sample_client []" 1 2]
  by (auto simp: sample_client_simps current_def sample_server_version)

text \<open>
  C8. A write transaction that ended with one commit frame on a current replica is appended to
  the server's history as exactly the frames of the log up to that commit frame; the frames
  after it are dropped and the log is reset. The replica itself stays at its old version: it
  sees its own write with the next pull.
\<close>

theorem end_tx_commits_once:
  assumes "faithful_wire w" and "server_inv srv" and "current c srv" and "log_ready c"
    and "log_of c fs" and "committed_txs [] fs = [tx]"
    and "write_locks c + read_locks c = 0" and "had_write c" and "server_version c + 1 < u64_limit"
  shows "\<exists>c' srv'. maybe_end_tx w r1 r2 (c, srv) = (Ok (), (c', srv')) \<and>
    server_inv srv' \<and> server_history srv' = server_history srv @ [tx] \<and>
    tracks c' srv' \<and> server_version c' = server_version c \<and> db_data c' = db_data c \<and>
    wal_sealed (wal_data c') \<and> \<not> had_write c'"
proof -
  have cur: "tracks c srv" "server_version c = length (server_history srv)"
    using assms(2,3) by (auto simp: current_iff)
  have wf: "list_all wf_tx [tx]" using log_of_wf [OF assms(5)] assms(6) by simp
  obtain srv' where srv': "send_txs w (server_version c) [tx] srv = (Ok (), srv')" "server_inv srv'"
    "server_history srv' = server_history srv @ [tx]"
    using faithful_wire.send_txs_outcome(2) [OF assms(1,2) wf assms(9) refl cur(2)] by auto
  obtain c' where c': "reset_wal r1 r2 c = (Ok (), c')" "wal_sealed (wal_data c')"
    "db_data c' = db_data c" "server_version c' = server_version c"
    by (rule end_tx_reset [OF assms(4)])
  have "tracks (c'\<lparr>had_write := False\<rparr>) srv'"
    using tracks_mono [OF cur(1) srv'(3)] c'(3,4) by (simp add: tracks_def)
  then show ?thesis
    using assms(6-8) srv' c' by (simp add: maybe_end_tx_def send_commits_log [OF assms(5)])
qed

theorem end_tx_commits_once_witness:
  "\<exists>c' srv'. maybe_end_tx ideal_wire 1 2
      (sample_client [sample_frame 2 0, sample_frame 1 2, sample_frame 1 0], test_server_new) =
      (Ok (), (c', srv')) \<and> length (server_history srv') = 1 \<and> server_version c' = 0"
  using end_tx_commits_once [of ideal_wire test_server_new
      "sample_client [sample_frame 2 0, sample_frame 1 2, sample_frame 1 0]"
      "[sample_frame 2 0, sample_frame 1 2, sample_frame 1 0]" _ 1 2]
  by (fastforce simp: sample_client_simps u64_limit_def)

text \<open>
  A transaction that never committed leaves no trace: the server is untouched and the log
  is reset.
\<close>

theorem end_tx_drops_uncommitted:
  assumes "log_ready c" and "log_of c fs" and "list_all (\<lambda>f. frame_commit f = 0) fs"
    and "write_locks c + read_locks c = 0" and "had_write c"
  shows "\<exists>c'. maybe_end_tx w r1 r2 (c, srv) = (Ok (), (c', srv)) \<and>
    db_data c' = db_data c \<and> server_version c' = server_version c \<and>
    wal_sealed (wal_data c') \<and> \<not> had_write c'"
proof -
  have "committed_txs pending fs = []" for pending
    using assms(3) by (induction fs arbitrary: pending) auto
  moreover obtain c' where "reset_wal r1 r2 c = (Ok (), c')" "wal_sealed (wal_data c')"
    "db_data c' = db_data c" "server_version c' = server_version c"
    by (rule end_tx_reset [OF assms(1)])
  ultimately show ?thesis
    using assms(4,5) by (simp add: maybe_end_tx_def send_commits_log [OF assms(2)])
qed

theorem end_tx_drops_uncommitted_witness:
  "\<exists>c'. maybe_end_tx ideal_wire 1 2 (sample_client [sample_frame 2 0], test_server_new) =
      (Ok (), (c', test_server_new)) \<and> wal_sealed (wal_data c')"
  using end_tx_drops_uncommitted [of "sample_client [sample_frame 2 0]" "[sample_frame 2 0]" ideal_wire 1 2
      test_server_new]
  by (auto simp: sample_client_simps)

text \<open>
  No lost update: a replica whose base version is not the server's latest cannot commit.
  The end of its transaction panics and the server is unchanged.
\<close>

theorem end_tx_stale_refused:
  assumes "faithful_wire w" and "server_inv srv" and "log_of c fs" and "committed_txs [] fs \<noteq> []"
    and "server_version c \<noteq> latest_snapshot_version srv"
    and "write_locks c + read_locks c = 0" and "had_write c" and "server_version c + 1 < u64_limit"
  shows "maybe_end_tx w r1 r2 (c, srv) = (Panic, (c, srv))"
proof -
  have "server_version c \<noteq> length (server_history srv)"
    using assms(2,5) by (simp add: server_inv_def server_history_def)
  from faithful_wire.send_txs_outcome(1) [OF assms(1,2) log_of_wf [OF assms(3)] assms(8,4) this]
  show ?thesis using assms(6,7) by (simp add: maybe_end_tx_def send_commits_log [OF assms(3)])
qed

theorem end_tx_stale_refused_witness:
  "maybe_end_tx ideal_wire 1 2 (sample_client [sample_frame 1 1], sample_server) =
     (Panic, (sample_client [sample_frame 1 1], sample_server))"
  by (rule end_tx_stale_refused [where fs = "[sample_frame 1 1]"])
    (simp_all add: sample_client_simps sample_server_version u64_limit_def)

text \<open>
  C9. When the log holds several commit frames, only the first transaction reaches the server:
  every transaction of the loop is sent with the same base version, so the second is refused
  and the client panics with the log not reset. The comment in the loop says so.
\<close>

theorem end_tx_second_commit_panics:
  assumes "faithful_wire w" and "server_inv srv" and "current c srv" and "log_of c fs"
    and "committed_txs [] fs = tx1 # tx2 # rest"
    and "write_locks c + read_locks c = 0" and "had_write c" and "server_version c + 1 < u64_limit"
  shows "\<exists>srv'. maybe_end_tx w r1 r2 (c, srv) = (Panic, (c, srv')) \<and> server_inv srv' \<and>
    server_history srv' = server_history srv @ [tx1]"
proof -
  have cur: "server_version c = length (server_history srv)"
    using assms(2,3) by (simp add: current_iff)
  obtain srv' where "send_txs w (server_version c) (committed_txs [] fs) srv = (Panic, srv')"
    "server_inv srv'" "server_history srv' = server_history srv @ [tx1]"
    using faithful_wire.send_txs_outcome(2)
      [OF assms(1,2) log_of_wf [OF assms(4)] assms(8,5) cur] by auto
  then show ?thesis
    using assms(6,7) by (simp add: maybe_end_tx_def send_commits_log [OF assms(4)])
qed

theorem end_tx_second_commit_panics_witness:
  "\<exists>srv'. maybe_end_tx ideal_wire 1 2
      (sample_client [sample_frame 1 1, sample_frame 2 2], test_server_new) =
      (Panic, (sample_client [sample_frame 1 1, sample_frame 2 2], srv')) \<and>
      length (server_history srv') = 1"
  using end_tx_second_commit_panics [of ideal_wire test_server_new
      "sample_client [sample_frame 1 1, sample_frame 2 2]" "[sample_frame 1 1, sample_frame 2 2]" _ _ _ 1 2]
  by (fastforce simp: sample_client_simps u64_limit_def)

text \<open>
  C6. The loop over the bytes of the log is the frame-level loop: on a log of whole frames it
  sends, in order, the transactions that the frames' commit marks delimit.
\<close>

theorem send_commits_refines_frames:
  assumes "length hdr = WAL_HEADER_SIZE" and "list_all frame_ok fs"
  shows "send_commits w v (hdr @ enc_frames fs) WAL_HEADER_SIZE WAL_HEADER_SIZE srv =
    send_txs w v (committed_txs [] fs) srv"
  using send_commits_frames [of "[]" fs w v hdr srv] assms by simp

theorem send_commits_refines_frames_witness:
  "send_commits ideal_wire 0 (enc_wal_header sample_wal_header @ enc_frames [sample_frame 2 0])
     WAL_HEADER_SIZE WAL_HEADER_SIZE test_server_new = (Ok (), test_server_new)"
  using send_commits_refines_frames [of "enc_wal_header sample_wal_header" "[sample_frame 2 0]"
      ideal_wire 0 test_server_new]
  by (simp add: length_enc_wal_header sample_frame_ok)

text \<open>
  C10. \<^verbatim>\<open>reset_wal\<close> panics exactly when the log has lost part of its header or the salt cannot be
  counted up; otherwise log and index come out sealed under a new salt.
\<close>

theorem reset_wal_outcome:
  assumes "length (wal_index c) = WAL_INDEX_INITIAL_SIZE"
  shows "if WAL_HEADER_SIZE \<le> length (wal_data c) \<and> be32_at (wal_data c) 16 \<noteq> 0xffffffff
    then \<exists>c'. reset_wal r1 r2 c = (Ok (), c') \<and> wal_sealed (wal_data c') \<and>
      index_sealed (wal_index c') (wal_data c') (length (db_data c)) \<and>
      be32_at (wal_data c') 16 =
        (if be32_at (wal_data c) 16 = 0 then r1 else be32_at (wal_data c) 16 + 1)
    else fst (reset_wal r1 r2 c) = Panic"
proof (cases "WAL_HEADER_SIZE \<le> length (wal_data c) \<and> be32_at (wal_data c) 16 \<noteq> 0xffffffff")
  case True
  then have "log_ready c" using assms by (simp add: log_ready_def)
  obtain c' where "reset_wal r1 r2 c = (Ok (), c')" "wal_sealed (wal_data c')"
    "index_sealed (wal_index c') (wal_data c') (length (db_data c))"
    "be32_at (wal_data c') 16 =
       (if be32_at (wal_data c) 16 = 0 then r1 else be32_at (wal_data c) 16 + 1)"
    by (rule reset_wal_ok [OF \<open>log_ready c\<close>, of r1 r2])
  with True show ?thesis by (simp only: if_True simp_thms) blast
next
  case False
  then show ?thesis using reset_wal_not_ready [OF False, of r1 r2] by (simp only: if_False)
qed

theorem reset_wal_outcome_witness:
  "(\<exists>c'. reset_wal 1 2 (sample_client []) = (Ok (), c') \<and> wal_sealed (wal_data c')) \<and>
   fst (reset_wal 1 2 ((sample_client [])\<lparr>wal_data := [0]\<rparr>)) = Panic"
  using reset_wal_outcome [of "sample_client []" 1 2] sample_client_ready [of "[]"]
    reset_wal_outcome [of "(sample_client [])\<lparr>wal_data := [0]\<rparr>" 1 2]
  by (auto simp: log_ready_def WAL_HEADER_SIZE_def)

end
