(* ===== verification/SqliteHeader.thy ===== *)
theory SqliteHeader
  imports Prelude
begin

text \<open>
  The part of \<^verbatim>\<open>sqlite-plugin/sqlite3/sqlite3.h\<close> that the VFS plugin is written against:
  result codes, open flags, device characteristics, lock levels, file-control opcodes, the
  shared-memory lock flags, and the two method tables \<^verbatim>\<open>sqlite3_io_methods\<close> and
  \<^verbatim>\<open>sqlite3_vfs\<close>. \<^verbatim>\<open>sqlite-plugin/build.rs\<close> feeds the header to bindgen with signed macro
  constants, so every constant is an \<open>i32\<close>. The collection \<open>sqlite_consts\<close> evaluates them.
\<close>

named_theorems sqlite_consts \<open>values of the constants of sqlite3.h\<close>

section \<open>Constants\<close>

text \<open>Primary result codes.\<close>

definition SQLITE_OK :: i32 where [sqlite_consts]: "SQLITE_OK = 0"
definition SQLITE_ERROR :: i32 where [sqlite_consts]: "SQLITE_ERROR = 1"
definition SQLITE_INTERNAL :: i32 where [sqlite_consts]: "SQLITE_INTERNAL = 2"
definition SQLITE_PERM :: i32 where [sqlite_consts]: "SQLITE_PERM = 3"
definition SQLITE_ABORT :: i32 where [sqlite_consts]: "SQLITE_ABORT = 4"
definition SQLITE_BUSY :: i32 where [sqlite_consts]: "SQLITE_BUSY = 5"
definition SQLITE_LOCKED :: i32 where [sqlite_consts]: "SQLITE_LOCKED = 6"
definition SQLITE_NOMEM :: i32 where [sqlite_consts]: "SQLITE_NOMEM = 7"
definition SQLITE_READONLY :: i32 where [sqlite_consts]: "SQLITE_READONLY = 8"
definition SQLITE_INTERRUPT :: i32 where [sqlite_consts]: "SQLITE_INTERRUPT = 9"
definition SQLITE_IOERR :: i32 where [sqlite_consts]: "SQLITE_IOERR = 10"
definition SQLITE_CORRUPT :: i32 where [sqlite_consts]: "SQLITE_CORRUPT = 11"
definition SQLITE_NOTFOUND :: i32 where [sqlite_consts]: "SQLITE_NOTFOUND = 12"
definition SQLITE_FULL :: i32 where [sqlite_consts]: "SQLITE_FULL = 13"
definition SQLITE_CANTOPEN :: i32 where [sqlite_consts]: "SQLITE_CANTOPEN = 14"
definition SQLITE_PROTOCOL :: i32 where [sqlite_consts]: "SQLITE_PROTOCOL = 15"
definition SQLITE_EMPTY :: i32 where [sqlite_consts]: "SQLITE_EMPTY = 16"
definition SQLITE_SCHEMA :: i32 where [sqlite_consts]: "SQLITE_SCHEMA = 17"
definition SQLITE_TOOBIG :: i32 where [sqlite_consts]: "SQLITE_TOOBIG = 18"
definition SQLITE_CONSTRAINT :: i32 where [sqlite_consts]: "SQLITE_CONSTRAINT = 19"
definition SQLITE_MISMATCH :: i32 where [sqlite_consts]: "SQLITE_MISMATCH = 20"
definition SQLITE_MISUSE :: i32 where [sqlite_consts]: "SQLITE_MISUSE = 21"
definition SQLITE_NOLFS :: i32 where [sqlite_consts]: "SQLITE_NOLFS = 22"
definition SQLITE_AUTH :: i32 where [sqlite_consts]: "SQLITE_AUTH = 23"
definition SQLITE_FORMAT :: i32 where [sqlite_consts]: "SQLITE_FORMAT = 24"
definition SQLITE_RANGE :: i32 where [sqlite_consts]: "SQLITE_RANGE = 25"
definition SQLITE_NOTADB :: i32 where [sqlite_consts]: "SQLITE_NOTADB = 26"
definition SQLITE_NOTICE :: i32 where [sqlite_consts]: "SQLITE_NOTICE = 27"
definition SQLITE_WARNING :: i32 where [sqlite_consts]: "SQLITE_WARNING = 28"
definition SQLITE_ROW :: i32 where [sqlite_consts]: "SQLITE_ROW = 100"
definition SQLITE_DONE :: i32 where [sqlite_consts]: "SQLITE_DONE = 101"

definition result_codes :: "i32 list" where
  "result_codes =
    [SQLITE_OK, SQLITE_ERROR, SQLITE_INTERNAL,
     SQLITE_PERM, SQLITE_ABORT, SQLITE_BUSY,
     SQLITE_LOCKED, SQLITE_NOMEM, SQLITE_READONLY,
     SQLITE_INTERRUPT, SQLITE_IOERR, SQLITE_CORRUPT,
     SQLITE_NOTFOUND, SQLITE_FULL, SQLITE_CANTOPEN,
     SQLITE_PROTOCOL, SQLITE_EMPTY, SQLITE_SCHEMA,
     SQLITE_TOOBIG, SQLITE_CONSTRAINT, SQLITE_MISMATCH,
     SQLITE_MISUSE, SQLITE_NOLFS, SQLITE_AUTH,
     SQLITE_FORMAT, SQLITE_RANGE, SQLITE_NOTADB,
     SQLITE_NOTICE, SQLITE_WARNING, SQLITE_ROW,
     SQLITE_DONE]"

text \<open>Extended result codes, each a primary code with a detail byte above it.\<close>

definition SQLITE_ERROR_MISSING_COLLSEQ :: i32 where [sqlite_consts]: "SQLITE_ERROR_MISSING_COLLSEQ = SQLITE_ERROR OR push_bit 8 1"
definition SQLITE_ERROR_RETRY :: i32 where [sqlite_consts]: "SQLITE_ERROR_RETRY = SQLITE_ERROR OR push_bit 8 2"
definition SQLITE_ERROR_SNAPSHOT :: i32 where [sqlite_consts]: "SQLITE_ERROR_SNAPSHOT = SQLITE_ERROR OR push_bit 8 3"
definition SQLITE_IOERR_READ :: i32 where [sqlite_consts]: "SQLITE_IOERR_READ = SQLITE_IOERR OR push_bit 8 1"
definition SQLITE_IOERR_SHORT_READ :: i32 where [sqlite_consts]: "SQLITE_IOERR_SHORT_READ = SQLITE_IOERR OR push_bit 8 2"
definition SQLITE_IOERR_WRITE :: i32 where [sqlite_consts]: "SQLITE_IOERR_WRITE = SQLITE_IOERR OR push_bit 8 3"
definition SQLITE_IOERR_FSYNC :: i32 where [sqlite_consts]: "SQLITE_IOERR_FSYNC = SQLITE_IOERR OR push_bit 8 4"
definition SQLITE_IOERR_DIR_FSYNC :: i32 where [sqlite_consts]: "SQLITE_IOERR_DIR_FSYNC = SQLITE_IOERR OR push_bit 8 5"
definition SQLITE_IOERR_TRUNCATE :: i32 where [sqlite_consts]: "SQLITE_IOERR_TRUNCATE = SQLITE_IOERR OR push_bit 8 6"
definition SQLITE_IOERR_FSTAT :: i32 where [sqlite_consts]: "SQLITE_IOERR_FSTAT = SQLITE_IOERR OR push_bit 8 7"
definition SQLITE_IOERR_UNLOCK :: i32 where [sqlite_consts]: "SQLITE_IOERR_UNLOCK = SQLITE_IOERR OR push_bit 8 8"
definition SQLITE_IOERR_RDLOCK :: i32 where [sqlite_consts]: "SQLITE_IOERR_RDLOCK = SQLITE_IOERR OR push_bit 8 9"
definition SQLITE_IOERR_DELETE :: i32 where [sqlite_consts]: "SQLITE_IOERR_DELETE = SQLITE_IOERR OR push_bit 8 10"
definition SQLITE_IOERR_BLOCKED :: i32 where [sqlite_consts]: "SQLITE_IOERR_BLOCKED = SQLITE_IOERR OR push_bit 8 11"
definition SQLITE_IOERR_NOMEM :: i32 where [sqlite_consts]: "SQLITE_IOERR_NOMEM = SQLITE_IOERR OR push_bit 8 12"
definition SQLITE_IOERR_ACCESS :: i32 where [sqlite_consts]: "SQLITE_IOERR_ACCESS = SQLITE_IOERR OR push_bit 8 13"
definition SQLITE_IOERR_CHECKRESERVEDLOCK :: i32 where [sqlite_consts]: "SQLITE_IOERR_CHECKRESERVEDLOCK = SQLITE_IOERR OR push_bit 8 14"
definition SQLITE_IOERR_LOCK :: i32 where [sqlite_consts]: "SQLITE_IOERR_LOCK = SQLITE_IOERR OR push_bit 8 15"
definition SQLITE_IOERR_CLOSE :: i32 where [sqlite_consts]: "SQLITE_IOERR_CLOSE = SQLITE_IOERR OR push_bit 8 16"
definition SQLITE_IOERR_DIR_CLOSE :: i32 where [sqlite_consts]: "SQLITE_IOERR_DIR_CLOSE = SQLITE_IOERR OR push_bit 8 17"
definition SQLITE_IOERR_SHMOPEN :: i32 where [sqlite_consts]: "SQLITE_IOERR_SHMOPEN = SQLITE_IOERR OR push_bit 8 18"
definition SQLITE_IOERR_SHMSIZE :: i32 where [sqlite_consts]: "SQLITE_IOERR_SHMSIZE = SQLITE_IOERR OR push_bit 8 19"
definition SQLITE_IOERR_SHMLOCK :: i32 where [sqlite_consts]: "SQLITE_IOERR_SHMLOCK = SQLITE_IOERR OR push_bit 8 20"
definition SQLITE_IOERR_SHMMAP :: i32 where [sqlite_consts]: "SQLITE_IOERR_SHMMAP = SQLITE_IOERR OR push_bit 8 21"
definition SQLITE_IOERR_SEEK :: i32 where [sqlite_consts]: "SQLITE_IOERR_SEEK = SQLITE_IOERR OR push_bit 8 22"
definition SQLITE_IOERR_DELETE_NOENT :: i32 where [sqlite_consts]: "SQLITE_IOERR_DELETE_NOENT = SQLITE_IOERR OR push_bit 8 23"
definition SQLITE_IOERR_MMAP :: i32 where [sqlite_consts]: "SQLITE_IOERR_MMAP = SQLITE_IOERR OR push_bit 8 24"
definition SQLITE_IOERR_GETTEMPPATH :: i32 where [sqlite_consts]: "SQLITE_IOERR_GETTEMPPATH = SQLITE_IOERR OR push_bit 8 25"
definition SQLITE_IOERR_CONVPATH :: i32 where [sqlite_consts]: "SQLITE_IOERR_CONVPATH = SQLITE_IOERR OR push_bit 8 26"
definition SQLITE_IOERR_VNODE :: i32 where [sqlite_consts]: "SQLITE_IOERR_VNODE = SQLITE_IOERR OR push_bit 8 27"
definition SQLITE_IOERR_AUTH :: i32 where [sqlite_consts]: "SQLITE_IOERR_AUTH = SQLITE_IOERR OR push_bit 8 28"
definition SQLITE_IOERR_BEGIN_ATOMIC :: i32 where [sqlite_consts]: "SQLITE_IOERR_BEGIN_ATOMIC = SQLITE_IOERR OR push_bit 8 29"
definition SQLITE_IOERR_COMMIT_ATOMIC :: i32 where [sqlite_consts]: "SQLITE_IOERR_COMMIT_ATOMIC = SQLITE_IOERR OR push_bit 8 30"
definition SQLITE_IOERR_ROLLBACK_ATOMIC :: i32 where [sqlite_consts]: "SQLITE_IOERR_ROLLBACK_ATOMIC = SQLITE_IOERR OR push_bit 8 31"
definition SQLITE_IOERR_DATA :: i32 where [sqlite_consts]: "SQLITE_IOERR_DATA = SQLITE_IOERR OR push_bit 8 32"
definition SQLITE_IOERR_CORRUPTFS :: i32 where [sqlite_consts]: "SQLITE_IOERR_CORRUPTFS = SQLITE_IOERR OR push_bit 8 33"
definition SQLITE_IOERR_IN_PAGE :: i32 where [sqlite_consts]: "SQLITE_IOERR_IN_PAGE = SQLITE_IOERR OR push_bit 8 34"
definition SQLITE_LOCKED_SHAREDCACHE :: i32 where [sqlite_consts]: "SQLITE_LOCKED_SHAREDCACHE = SQLITE_LOCKED OR push_bit 8 1"
definition SQLITE_LOCKED_VTAB :: i32 where [sqlite_consts]: "SQLITE_LOCKED_VTAB = SQLITE_LOCKED OR push_bit 8 2"
definition SQLITE_BUSY_RECOVERY :: i32 where [sqlite_consts]: "SQLITE_BUSY_RECOVERY = SQLITE_BUSY OR push_bit 8 1"
definition SQLITE_BUSY_SNAPSHOT :: i32 where [sqlite_consts]: "SQLITE_BUSY_SNAPSHOT = SQLITE_BUSY OR push_bit 8 2"
definition SQLITE_BUSY_TIMEOUT :: i32 where [sqlite_consts]: "SQLITE_BUSY_TIMEOUT = SQLITE_BUSY OR push_bit 8 3"
definition SQLITE_CANTOPEN_NOTEMPDIR :: i32 where [sqlite_consts]: "SQLITE_CANTOPEN_NOTEMPDIR = SQLITE_CANTOPEN OR push_bit 8 1"
definition SQLITE_CANTOPEN_ISDIR :: i32 where [sqlite_consts]: "SQLITE_CANTOPEN_ISDIR = SQLITE_CANTOPEN OR push_bit 8 2"
definition SQLITE_CANTOPEN_FULLPATH :: i32 where [sqlite_consts]: "SQLITE_CANTOPEN_FULLPATH = SQLITE_CANTOPEN OR push_bit 8 3"
definition SQLITE_CANTOPEN_CONVPATH :: i32 where [sqlite_consts]: "SQLITE_CANTOPEN_CONVPATH = SQLITE_CANTOPEN OR push_bit 8 4"
definition SQLITE_CANTOPEN_DIRTYWAL :: i32 where [sqlite_consts]: "SQLITE_CANTOPEN_DIRTYWAL = SQLITE_CANTOPEN OR push_bit 8 5"
definition SQLITE_CANTOPEN_SYMLINK :: i32 where [sqlite_consts]: "SQLITE_CANTOPEN_SYMLINK = SQLITE_CANTOPEN OR push_bit 8 6"
definition SQLITE_CORRUPT_VTAB :: i32 where [sqlite_consts]: "SQLITE_CORRUPT_VTAB = SQLITE_CORRUPT OR push_bit 8 1"
definition SQLITE_CORRUPT_SEQUENCE :: i32 where [sqlite_consts]: "SQLITE_CORRUPT_SEQUENCE = SQLITE_CORRUPT OR push_bit 8 2"
definition SQLITE_CORRUPT_INDEX :: i32 where [sqlite_consts]: "SQLITE_CORRUPT_INDEX = SQLITE_CORRUPT OR push_bit 8 3"
definition SQLITE_READONLY_RECOVERY :: i32 where [sqlite_consts]: "SQLITE_READONLY_RECOVERY = SQLITE_READONLY OR push_bit 8 1"
definition SQLITE_READONLY_CANTLOCK :: i32 where [sqlite_consts]: "SQLITE_READONLY_CANTLOCK = SQLITE_READONLY OR push_bit 8 2"
definition SQLITE_READONLY_ROLLBACK :: i32 where [sqlite_consts]: "SQLITE_READONLY_ROLLBACK = SQLITE_READONLY OR push_bit 8 3"
definition SQLITE_READONLY_DBMOVED :: i32 where [sqlite_consts]: "SQLITE_READONLY_DBMOVED = SQLITE_READONLY OR push_bit 8 4"
definition SQLITE_READONLY_CANTINIT :: i32 where [sqlite_consts]: "SQLITE_READONLY_CANTINIT = SQLITE_READONLY OR push_bit 8 5"
definition SQLITE_READONLY_DIRECTORY :: i32 where [sqlite_consts]: "SQLITE_READONLY_DIRECTORY = SQLITE_READONLY OR push_bit 8 6"
definition SQLITE_ABORT_ROLLBACK :: i32 where [sqlite_consts]: "SQLITE_ABORT_ROLLBACK = SQLITE_ABORT OR push_bit 8 2"
definition SQLITE_CONSTRAINT_CHECK :: i32 where [sqlite_consts]: "SQLITE_CONSTRAINT_CHECK = SQLITE_CONSTRAINT OR push_bit 8 1"
definition SQLITE_CONSTRAINT_COMMITHOOK :: i32 where [sqlite_consts]: "SQLITE_CONSTRAINT_COMMITHOOK = SQLITE_CONSTRAINT OR push_bit 8 2"
definition SQLITE_CONSTRAINT_FOREIGNKEY :: i32 where [sqlite_consts]: "SQLITE_CONSTRAINT_FOREIGNKEY = SQLITE_CONSTRAINT OR push_bit 8 3"
definition SQLITE_CONSTRAINT_FUNCTION :: i32 where [sqlite_consts]: "SQLITE_CONSTRAINT_FUNCTION = SQLITE_CONSTRAINT OR push_bit 8 4"
definition SQLITE_CONSTRAINT_NOTNULL :: i32 where [sqlite_consts]: "SQLITE_CONSTRAINT_NOTNULL = SQLITE_CONSTRAINT OR push_bit 8 5"
definition SQLITE_CONSTRAINT_PRIMARYKEY :: i32 where [sqlite_consts]: "SQLITE_CONSTRAINT_PRIMARYKEY = SQLITE_CONSTRAINT OR push_bit 8 6"
definition SQLITE_CONSTRAINT_TRIGGER :: i32 where [sqlite_consts]: "SQLITE_CONSTRAINT_TRIGGER = SQLITE_CONSTRAINT OR push_bit 8 7"
definition SQLITE_CONSTRAINT_UNIQUE :: i32 where [sqlite_consts]: "SQLITE_CONSTRAINT_UNIQUE = SQLITE_CONSTRAINT OR push_bit 8 8"
definition SQLITE_CONSTRAINT_VTAB :: i32 where [sqlite_consts]: "SQLITE_CONSTRAINT_VTAB = SQLITE_CONSTRAINT OR push_bit 8 9"
definition SQLITE_CONSTRAINT_ROWID :: i32 where [sqlite_consts]: "SQLITE_CONSTRAINT_ROWID = SQLITE_CONSTRAINT OR push_bit 8 10"
definition SQLITE_CONSTRAINT_PINNED :: i32 where [sqlite_consts]: "SQLITE_CONSTRAINT_PINNED = SQLITE_CONSTRAINT OR push_bit 8 11"
definition SQLITE_CONSTRAINT_DATATYPE :: i32 where [sqlite_consts]: "SQLITE_CONSTRAINT_DATATYPE = SQLITE_CONSTRAINT OR push_bit 8 12"
definition SQLITE_NOTICE_RECOVER_WAL :: i32 where [sqlite_consts]: "SQLITE_NOTICE_RECOVER_WAL = SQLITE_NOTICE OR push_bit 8 1"
definition SQLITE_NOTICE_RECOVER_ROLLBACK :: i32 where [sqlite_consts]: "SQLITE_NOTICE_RECOVER_ROLLBACK = SQLITE_NOTICE OR push_bit 8 2"
definition SQLITE_NOTICE_RBU :: i32 where [sqlite_consts]: "SQLITE_NOTICE_RBU = SQLITE_NOTICE OR push_bit 8 3"
definition SQLITE_WARNING_AUTOINDEX :: i32 where [sqlite_consts]: "SQLITE_WARNING_AUTOINDEX = SQLITE_WARNING OR push_bit 8 1"
definition SQLITE_AUTH_USER :: i32 where [sqlite_consts]: "SQLITE_AUTH_USER = SQLITE_AUTH OR push_bit 8 1"
definition SQLITE_OK_LOAD_PERMANENTLY :: i32 where [sqlite_consts]: "SQLITE_OK_LOAD_PERMANENTLY = SQLITE_OK OR push_bit 8 1"
definition SQLITE_OK_SYMLINK :: i32 where [sqlite_consts]: "SQLITE_OK_SYMLINK = SQLITE_OK OR push_bit 8 2"

definition extended_result_codes :: "i32 list" where
  "extended_result_codes =
    [SQLITE_ERROR_MISSING_COLLSEQ, SQLITE_ERROR_RETRY, SQLITE_ERROR_SNAPSHOT,
     SQLITE_IOERR_READ, SQLITE_IOERR_SHORT_READ, SQLITE_IOERR_WRITE,
     SQLITE_IOERR_FSYNC, SQLITE_IOERR_DIR_FSYNC, SQLITE_IOERR_TRUNCATE,
     SQLITE_IOERR_FSTAT, SQLITE_IOERR_UNLOCK, SQLITE_IOERR_RDLOCK,
     SQLITE_IOERR_DELETE, SQLITE_IOERR_BLOCKED, SQLITE_IOERR_NOMEM,
     SQLITE_IOERR_ACCESS, SQLITE_IOERR_CHECKRESERVEDLOCK, SQLITE_IOERR_LOCK,
     SQLITE_IOERR_CLOSE, SQLITE_IOERR_DIR_CLOSE, SQLITE_IOERR_SHMOPEN,
     SQLITE_IOERR_SHMSIZE, SQLITE_IOERR_SHMLOCK, SQLITE_IOERR_SHMMAP,
     SQLITE_IOERR_SEEK, SQLITE_IOERR_DELETE_NOENT, SQLITE_IOERR_MMAP,
     SQLITE_IOERR_GETTEMPPATH, SQLITE_IOERR_CONVPATH, SQLITE_IOERR_VNODE,
     SQLITE_IOERR_AUTH, SQLITE_IOERR_BEGIN_ATOMIC, SQLITE_IOERR_COMMIT_ATOMIC,
     SQLITE_IOERR_ROLLBACK_ATOMIC, SQLITE_IOERR_DATA, SQLITE_IOERR_CORRUPTFS,
     SQLITE_IOERR_IN_PAGE, SQLITE_LOCKED_SHAREDCACHE, SQLITE_LOCKED_VTAB,
     SQLITE_BUSY_RECOVERY, SQLITE_BUSY_SNAPSHOT, SQLITE_BUSY_TIMEOUT,
     SQLITE_CANTOPEN_NOTEMPDIR, SQLITE_CANTOPEN_ISDIR, SQLITE_CANTOPEN_FULLPATH,
     SQLITE_CANTOPEN_CONVPATH, SQLITE_CANTOPEN_DIRTYWAL, SQLITE_CANTOPEN_SYMLINK,
     SQLITE_CORRUPT_VTAB, SQLITE_CORRUPT_SEQUENCE, SQLITE_CORRUPT_INDEX,
     SQLITE_READONLY_RECOVERY, SQLITE_READONLY_CANTLOCK, SQLITE_READONLY_ROLLBACK,
     SQLITE_READONLY_DBMOVED, SQLITE_READONLY_CANTINIT, SQLITE_READONLY_DIRECTORY,
     SQLITE_ABORT_ROLLBACK, SQLITE_CONSTRAINT_CHECK, SQLITE_CONSTRAINT_COMMITHOOK,
     SQLITE_CONSTRAINT_FOREIGNKEY, SQLITE_CONSTRAINT_FUNCTION, SQLITE_CONSTRAINT_NOTNULL,
     SQLITE_CONSTRAINT_PRIMARYKEY, SQLITE_CONSTRAINT_TRIGGER, SQLITE_CONSTRAINT_UNIQUE,
     SQLITE_CONSTRAINT_VTAB, SQLITE_CONSTRAINT_ROWID, SQLITE_CONSTRAINT_PINNED,
     SQLITE_CONSTRAINT_DATATYPE, SQLITE_NOTICE_RECOVER_WAL, SQLITE_NOTICE_RECOVER_ROLLBACK,
     SQLITE_NOTICE_RBU, SQLITE_WARNING_AUTOINDEX, SQLITE_AUTH_USER,
     SQLITE_OK_LOAD_PERMANENTLY, SQLITE_OK_SYMLINK]"

text \<open>Flags of \<^verbatim>\<open>xOpen\<close>.\<close>

definition SQLITE_OPEN_READONLY :: i32 where [sqlite_consts]: "SQLITE_OPEN_READONLY = 0x00000001"
definition SQLITE_OPEN_READWRITE :: i32 where [sqlite_consts]: "SQLITE_OPEN_READWRITE = 0x00000002"
definition SQLITE_OPEN_CREATE :: i32 where [sqlite_consts]: "SQLITE_OPEN_CREATE = 0x00000004"
definition SQLITE_OPEN_DELETEONCLOSE :: i32 where [sqlite_consts]: "SQLITE_OPEN_DELETEONCLOSE = 0x00000008"
definition SQLITE_OPEN_EXCLUSIVE :: i32 where [sqlite_consts]: "SQLITE_OPEN_EXCLUSIVE = 0x00000010"
definition SQLITE_OPEN_AUTOPROXY :: i32 where [sqlite_consts]: "SQLITE_OPEN_AUTOPROXY = 0x00000020"
definition SQLITE_OPEN_URI :: i32 where [sqlite_consts]: "SQLITE_OPEN_URI = 0x00000040"
definition SQLITE_OPEN_MEMORY :: i32 where [sqlite_consts]: "SQLITE_OPEN_MEMORY = 0x00000080"
definition SQLITE_OPEN_MAIN_DB :: i32 where [sqlite_consts]: "SQLITE_OPEN_MAIN_DB = 0x00000100"
definition SQLITE_OPEN_TEMP_DB :: i32 where [sqlite_consts]: "SQLITE_OPEN_TEMP_DB = 0x00000200"
definition SQLITE_OPEN_TRANSIENT_DB :: i32 where [sqlite_consts]: "SQLITE_OPEN_TRANSIENT_DB = 0x00000400"
definition SQLITE_OPEN_MAIN_JOURNAL :: i32 where [sqlite_consts]: "SQLITE_OPEN_MAIN_JOURNAL = 0x00000800"
definition SQLITE_OPEN_TEMP_JOURNAL :: i32 where [sqlite_consts]: "SQLITE_OPEN_TEMP_JOURNAL = 0x00001000"
definition SQLITE_OPEN_SUBJOURNAL :: i32 where [sqlite_consts]: "SQLITE_OPEN_SUBJOURNAL = 0x00002000"
definition SQLITE_OPEN_SUPER_JOURNAL :: i32 where [sqlite_consts]: "SQLITE_OPEN_SUPER_JOURNAL = 0x00004000"
definition SQLITE_OPEN_NOMUTEX :: i32 where [sqlite_consts]: "SQLITE_OPEN_NOMUTEX = 0x00008000"
definition SQLITE_OPEN_FULLMUTEX :: i32 where [sqlite_consts]: "SQLITE_OPEN_FULLMUTEX = 0x00010000"
definition SQLITE_OPEN_SHAREDCACHE :: i32 where [sqlite_consts]: "SQLITE_OPEN_SHAREDCACHE = 0x00020000"
definition SQLITE_OPEN_PRIVATECACHE :: i32 where [sqlite_consts]: "SQLITE_OPEN_PRIVATECACHE = 0x00040000"
definition SQLITE_OPEN_WAL :: i32 where [sqlite_consts]: "SQLITE_OPEN_WAL = 0x00080000"
definition SQLITE_OPEN_NOFOLLOW :: i32 where [sqlite_consts]: "SQLITE_OPEN_NOFOLLOW = 0x01000000"
definition SQLITE_OPEN_EXRESCODE :: i32 where [sqlite_consts]: "SQLITE_OPEN_EXRESCODE = 0x02000000"
definition SQLITE_OPEN_MASTER_JOURNAL :: i32 where [sqlite_consts]: "SQLITE_OPEN_MASTER_JOURNAL = 0x00004000"

definition open_flags :: "i32 list" where
  "open_flags =
    [SQLITE_OPEN_READONLY, SQLITE_OPEN_READWRITE, SQLITE_OPEN_CREATE,
     SQLITE_OPEN_DELETEONCLOSE, SQLITE_OPEN_EXCLUSIVE, SQLITE_OPEN_AUTOPROXY,
     SQLITE_OPEN_URI, SQLITE_OPEN_MEMORY, SQLITE_OPEN_MAIN_DB,
     SQLITE_OPEN_TEMP_DB, SQLITE_OPEN_TRANSIENT_DB, SQLITE_OPEN_MAIN_JOURNAL,
     SQLITE_OPEN_TEMP_JOURNAL, SQLITE_OPEN_SUBJOURNAL, SQLITE_OPEN_SUPER_JOURNAL,
     SQLITE_OPEN_NOMUTEX, SQLITE_OPEN_FULLMUTEX, SQLITE_OPEN_SHAREDCACHE,
     SQLITE_OPEN_PRIVATECACHE, SQLITE_OPEN_WAL, SQLITE_OPEN_NOFOLLOW,
     SQLITE_OPEN_EXRESCODE, SQLITE_OPEN_MASTER_JOURNAL]"

text \<open>Device characteristics.\<close>

definition SQLITE_IOCAP_ATOMIC :: i32 where [sqlite_consts]: "SQLITE_IOCAP_ATOMIC = 0x00000001"
definition SQLITE_IOCAP_ATOMIC512 :: i32 where [sqlite_consts]: "SQLITE_IOCAP_ATOMIC512 = 0x00000002"
definition SQLITE_IOCAP_ATOMIC1K :: i32 where [sqlite_consts]: "SQLITE_IOCAP_ATOMIC1K = 0x00000004"
definition SQLITE_IOCAP_ATOMIC2K :: i32 where [sqlite_consts]: "SQLITE_IOCAP_ATOMIC2K = 0x00000008"
definition SQLITE_IOCAP_ATOMIC4K :: i32 where [sqlite_consts]: "SQLITE_IOCAP_ATOMIC4K = 0x00000010"
definition SQLITE_IOCAP_ATOMIC8K :: i32 where [sqlite_consts]: "SQLITE_IOCAP_ATOMIC8K = 0x00000020"
definition SQLITE_IOCAP_ATOMIC16K :: i32 where [sqlite_consts]: "SQLITE_IOCAP_ATOMIC16K = 0x00000040"
definition SQLITE_IOCAP_ATOMIC32K :: i32 where [sqlite_consts]: "SQLITE_IOCAP_ATOMIC32K = 0x00000080"
definition SQLITE_IOCAP_ATOMIC64K :: i32 where [sqlite_consts]: "SQLITE_IOCAP_ATOMIC64K = 0x00000100"
definition SQLITE_IOCAP_SAFE_APPEND :: i32 where [sqlite_consts]: "SQLITE_IOCAP_SAFE_APPEND = 0x00000200"
definition SQLITE_IOCAP_SEQUENTIAL :: i32 where [sqlite_consts]: "SQLITE_IOCAP_SEQUENTIAL = 0x00000400"
definition SQLITE_IOCAP_UNDELETABLE_WHEN_OPEN :: i32 where [sqlite_consts]: "SQLITE_IOCAP_UNDELETABLE_WHEN_OPEN = 0x00000800"
definition SQLITE_IOCAP_POWERSAFE_OVERWRITE :: i32 where [sqlite_consts]: "SQLITE_IOCAP_POWERSAFE_OVERWRITE = 0x00001000"
definition SQLITE_IOCAP_IMMUTABLE :: i32 where [sqlite_consts]: "SQLITE_IOCAP_IMMUTABLE = 0x00002000"
definition SQLITE_IOCAP_BATCH_ATOMIC :: i32 where [sqlite_consts]: "SQLITE_IOCAP_BATCH_ATOMIC = 0x00004000"

definition iocap_flags :: "i32 list" where
  "iocap_flags =
    [SQLITE_IOCAP_ATOMIC, SQLITE_IOCAP_ATOMIC512, SQLITE_IOCAP_ATOMIC1K,
     SQLITE_IOCAP_ATOMIC2K, SQLITE_IOCAP_ATOMIC4K, SQLITE_IOCAP_ATOMIC8K,
     SQLITE_IOCAP_ATOMIC16K, SQLITE_IOCAP_ATOMIC32K, SQLITE_IOCAP_ATOMIC64K,
     SQLITE_IOCAP_SAFE_APPEND, SQLITE_IOCAP_SEQUENTIAL, SQLITE_IOCAP_UNDELETABLE_WHEN_OPEN,
     SQLITE_IOCAP_POWERSAFE_OVERWRITE, SQLITE_IOCAP_IMMUTABLE, SQLITE_IOCAP_BATCH_ATOMIC]"

text \<open>Locking levels of \<^verbatim>\<open>xLock\<close> and \<^verbatim>\<open>xUnlock\<close>.\<close>

definition SQLITE_LOCK_NONE :: i32 where [sqlite_consts]: "SQLITE_LOCK_NONE = 0"
definition SQLITE_LOCK_SHARED :: i32 where [sqlite_consts]: "SQLITE_LOCK_SHARED = 1"
definition SQLITE_LOCK_RESERVED :: i32 where [sqlite_consts]: "SQLITE_LOCK_RESERVED = 2"
definition SQLITE_LOCK_PENDING :: i32 where [sqlite_consts]: "SQLITE_LOCK_PENDING = 3"
definition SQLITE_LOCK_EXCLUSIVE :: i32 where [sqlite_consts]: "SQLITE_LOCK_EXCLUSIVE = 4"

definition lock_levels :: "i32 list" where
  "lock_levels =
    [SQLITE_LOCK_NONE, SQLITE_LOCK_SHARED, SQLITE_LOCK_RESERVED,
     SQLITE_LOCK_PENDING, SQLITE_LOCK_EXCLUSIVE]"

text \<open>Flags of \<^verbatim>\<open>xSync\<close>.\<close>

definition SQLITE_SYNC_NORMAL :: i32 where [sqlite_consts]: "SQLITE_SYNC_NORMAL = 0x00002"
definition SQLITE_SYNC_FULL :: i32 where [sqlite_consts]: "SQLITE_SYNC_FULL = 0x00003"
definition SQLITE_SYNC_DATAONLY :: i32 where [sqlite_consts]: "SQLITE_SYNC_DATAONLY = 0x00010"

definition sync_flags :: "i32 list" where
  "sync_flags =
    [SQLITE_SYNC_NORMAL, SQLITE_SYNC_FULL, SQLITE_SYNC_DATAONLY]"

text \<open>File control opcodes (and their three deprecated names).\<close>

definition SQLITE_FCNTL_LOCKSTATE :: i32 where [sqlite_consts]: "SQLITE_FCNTL_LOCKSTATE = 1"
definition SQLITE_FCNTL_GET_LOCKPROXYFILE :: i32 where [sqlite_consts]: "SQLITE_FCNTL_GET_LOCKPROXYFILE = 2"
definition SQLITE_FCNTL_SET_LOCKPROXYFILE :: i32 where [sqlite_consts]: "SQLITE_FCNTL_SET_LOCKPROXYFILE = 3"
definition SQLITE_FCNTL_LAST_ERRNO :: i32 where [sqlite_consts]: "SQLITE_FCNTL_LAST_ERRNO = 4"
definition SQLITE_FCNTL_SIZE_HINT :: i32 where [sqlite_consts]: "SQLITE_FCNTL_SIZE_HINT = 5"
definition SQLITE_FCNTL_CHUNK_SIZE :: i32 where [sqlite_consts]: "SQLITE_FCNTL_CHUNK_SIZE = 6"
definition SQLITE_FCNTL_FILE_POINTER :: i32 where [sqlite_consts]: "SQLITE_FCNTL_FILE_POINTER = 7"
definition SQLITE_FCNTL_SYNC_OMITTED :: i32 where [sqlite_consts]: "SQLITE_FCNTL_SYNC_OMITTED = 8"
definition SQLITE_FCNTL_WIN32_AV_RETRY :: i32 where [sqlite_consts]: "SQLITE_FCNTL_WIN32_AV_RETRY = 9"
definition SQLITE_FCNTL_PERSIST_WAL :: i32 where [sqlite_consts]: "SQLITE_FCNTL_PERSIST_WAL = 10"
definition SQLITE_FCNTL_OVERWRITE :: i32 where [sqlite_consts]: "SQLITE_FCNTL_OVERWRITE = 11"
definition SQLITE_FCNTL_VFSNAME :: i32 where [sqlite_consts]: "SQLITE_FCNTL_VFSNAME = 12"
definition SQLITE_FCNTL_POWERSAFE_OVERWRITE :: i32 where [sqlite_consts]: "SQLITE_FCNTL_POWERSAFE_OVERWRITE = 13"
definition SQLITE_FCNTL_PRAGMA :: i32 where [sqlite_consts]: "SQLITE_FCNTL_PRAGMA = 14"
definition SQLITE_FCNTL_BUSYHANDLER :: i32 where [sqlite_consts]: "SQLITE_FCNTL_BUSYHANDLER = 15"
definition SQLITE_FCNTL_TEMPFILENAME :: i32 where [sqlite_consts]: "SQLITE_FCNTL_TEMPFILENAME = 16"
definition SQLITE_FCNTL_MMAP_SIZE :: i32 where [sqlite_consts]: "SQLITE_FCNTL_MMAP_SIZE = 18"
definition SQLITE_FCNTL_TRACE :: i32 where [sqlite_consts]: "SQLITE_FCNTL_TRACE = 19"
definition SQLITE_FCNTL_HAS_MOVED :: i32 where [sqlite_consts]: "SQLITE_FCNTL_HAS_MOVED = 20"
definition SQLITE_FCNTL_SYNC :: i32 where [sqlite_consts]: "SQLITE_FCNTL_SYNC = 21"
definition SQLITE_FCNTL_COMMIT_PHASETWO :: i32 where [sqlite_consts]: "SQLITE_FCNTL_COMMIT_PHASETWO = 22"
definition SQLITE_FCNTL_WIN32_SET_HANDLE :: i32 where [sqlite_consts]: "SQLITE_FCNTL_WIN32_SET_HANDLE = 23"
definition SQLITE_FCNTL_WAL_BLOCK :: i32 where [sqlite_consts]: "SQLITE_FCNTL_WAL_BLOCK = 24"
definition SQLITE_FCNTL_ZIPVFS :: i32 where [sqlite_consts]: "SQLITE_FCNTL_ZIPVFS = 25"
definition SQLITE_FCNTL_RBU :: i32 where [sqlite_consts]: "SQLITE_FCNTL_RBU = 26"
definition SQLITE_FCNTL_VFS_POINTER :: i32 where [sqlite_consts]: "SQLITE_FCNTL_VFS_POINTER = 27"
definition SQLITE_FCNTL_JOURNAL_POINTER :: i32 where [sqlite_consts]: "SQLITE_FCNTL_JOURNAL_POINTER = 28"
definition SQLITE_FCNTL_WIN32_GET_HANDLE :: i32 where [sqlite_consts]: "SQLITE_FCNTL_WIN32_GET_HANDLE = 29"
definition SQLITE_FCNTL_PDB :: i32 where [sqlite_consts]: "SQLITE_FCNTL_PDB = 30"
definition SQLITE_FCNTL_BEGIN_ATOMIC_WRITE :: i32 where [sqlite_consts]: "SQLITE_FCNTL_BEGIN_ATOMIC_WRITE = 31"
definition SQLITE_FCNTL_COMMIT_ATOMIC_WRITE :: i32 where [sqlite_consts]: "SQLITE_FCNTL_COMMIT_ATOMIC_WRITE = 32"
definition SQLITE_FCNTL_ROLLBACK_ATOMIC_WRITE :: i32 where [sqlite_consts]: "SQLITE_FCNTL_ROLLBACK_ATOMIC_WRITE = 33"
definition SQLITE_FCNTL_LOCK_TIMEOUT :: i32 where [sqlite_consts]: "SQLITE_FCNTL_LOCK_TIMEOUT = 34"
definition SQLITE_FCNTL_DATA_VERSION :: i32 where [sqlite_consts]: "SQLITE_FCNTL_DATA_VERSION = 35"
definition SQLITE_FCNTL_SIZE_LIMIT :: i32 where [sqlite_consts]: "SQLITE_FCNTL_SIZE_LIMIT = 36"
definition SQLITE_FCNTL_CKPT_DONE :: i32 where [sqlite_consts]: "SQLITE_FCNTL_CKPT_DONE = 37"
definition SQLITE_FCNTL_RESERVE_BYTES :: i32 where [sqlite_consts]: "SQLITE_FCNTL_RESERVE_BYTES = 38"
definition SQLITE_FCNTL_CKPT_START :: i32 where [sqlite_consts]: "SQLITE_FCNTL_CKPT_START = 39"
definition SQLITE_FCNTL_EXTERNAL_READER :: i32 where [sqlite_consts]: "SQLITE_FCNTL_EXTERNAL_READER = 40"
definition SQLITE_FCNTL_CKSM_FILE :: i32 where [sqlite_consts]: "SQLITE_FCNTL_CKSM_FILE = 41"
definition SQLITE_FCNTL_RESET_CACHE :: i32 where [sqlite_consts]: "SQLITE_FCNTL_RESET_CACHE = 42"
definition SQLITE_GET_LOCKPROXYFILE :: i32 where [sqlite_consts]: "SQLITE_GET_LOCKPROXYFILE = SQLITE_FCNTL_GET_LOCKPROXYFILE"
definition SQLITE_SET_LOCKPROXYFILE :: i32 where [sqlite_consts]: "SQLITE_SET_LOCKPROXYFILE = SQLITE_FCNTL_SET_LOCKPROXYFILE"
definition SQLITE_LAST_ERRNO :: i32 where [sqlite_consts]: "SQLITE_LAST_ERRNO = SQLITE_FCNTL_LAST_ERRNO"

definition fcntl_opcodes :: "i32 list" where
  "fcntl_opcodes =
    [SQLITE_FCNTL_LOCKSTATE, SQLITE_FCNTL_GET_LOCKPROXYFILE, SQLITE_FCNTL_SET_LOCKPROXYFILE,
     SQLITE_FCNTL_LAST_ERRNO, SQLITE_FCNTL_SIZE_HINT, SQLITE_FCNTL_CHUNK_SIZE,
     SQLITE_FCNTL_FILE_POINTER, SQLITE_FCNTL_SYNC_OMITTED, SQLITE_FCNTL_WIN32_AV_RETRY,
     SQLITE_FCNTL_PERSIST_WAL, SQLITE_FCNTL_OVERWRITE, SQLITE_FCNTL_VFSNAME,
     SQLITE_FCNTL_POWERSAFE_OVERWRITE, SQLITE_FCNTL_PRAGMA, SQLITE_FCNTL_BUSYHANDLER,
     SQLITE_FCNTL_TEMPFILENAME, SQLITE_FCNTL_MMAP_SIZE, SQLITE_FCNTL_TRACE,
     SQLITE_FCNTL_HAS_MOVED, SQLITE_FCNTL_SYNC, SQLITE_FCNTL_COMMIT_PHASETWO,
     SQLITE_FCNTL_WIN32_SET_HANDLE, SQLITE_FCNTL_WAL_BLOCK, SQLITE_FCNTL_ZIPVFS,
     SQLITE_FCNTL_RBU, SQLITE_FCNTL_VFS_POINTER, SQLITE_FCNTL_JOURNAL_POINTER,
     SQLITE_FCNTL_WIN32_GET_HANDLE, SQLITE_FCNTL_PDB, SQLITE_FCNTL_BEGIN_ATOMIC_WRITE,
     SQLITE_FCNTL_COMMIT_ATOMIC_WRITE, SQLITE_FCNTL_ROLLBACK_ATOMIC_WRITE, SQLITE_FCNTL_LOCK_TIMEOUT,
     SQLITE_FCNTL_DATA_VERSION, SQLITE_FCNTL_SIZE_LIMIT, SQLITE_FCNTL_CKPT_DONE,
     SQLITE_FCNTL_RESERVE_BYTES, SQLITE_FCNTL_CKPT_START, SQLITE_FCNTL_EXTERNAL_READER,
     SQLITE_FCNTL_CKSM_FILE, SQLITE_FCNTL_RESET_CACHE, SQLITE_GET_LOCKPROXYFILE,
     SQLITE_SET_LOCKPROXYFILE, SQLITE_LAST_ERRNO]"

text \<open>Flags of \<^verbatim>\<open>xAccess\<close>.\<close>

definition SQLITE_ACCESS_EXISTS :: i32 where [sqlite_consts]: "SQLITE_ACCESS_EXISTS = 0"
definition SQLITE_ACCESS_READWRITE :: i32 where [sqlite_consts]: "SQLITE_ACCESS_READWRITE = 1"
definition SQLITE_ACCESS_READ :: i32 where [sqlite_consts]: "SQLITE_ACCESS_READ = 2"

definition access_flags :: "i32 list" where
  "access_flags =
    [SQLITE_ACCESS_EXISTS, SQLITE_ACCESS_READWRITE, SQLITE_ACCESS_READ]"

text \<open>Flags of \<^verbatim>\<open>xShmLock\<close>.\<close>

definition SQLITE_SHM_UNLOCK :: i32 where [sqlite_consts]: "SQLITE_SHM_UNLOCK = 1"
definition SQLITE_SHM_LOCK :: i32 where [sqlite_consts]: "SQLITE_SHM_LOCK = 2"
definition SQLITE_SHM_SHARED :: i32 where [sqlite_consts]: "SQLITE_SHM_SHARED = 4"
definition SQLITE_SHM_EXCLUSIVE :: i32 where [sqlite_consts]: "SQLITE_SHM_EXCLUSIVE = 8"

definition shm_lock_flags :: "i32 list" where
  "shm_lock_flags =
    [SQLITE_SHM_UNLOCK, SQLITE_SHM_LOCK, SQLITE_SHM_SHARED,
     SQLITE_SHM_EXCLUSIVE]"
definition SQLITE_VERSION_NUMBER :: i32 where [sqlite_consts]: "SQLITE_VERSION_NUMBER = 3046000"

text \<open>The number of \<^verbatim>\<open>xShmLock\<close> slots, and the library version the header belongs to.\<close>

definition SQLITE_SHM_NLOCK :: i32 where [sqlite_consts]: "SQLITE_SHM_NLOCK = 8"

text \<open>The primary code each extended code is built from, in the order of \<open>extended_result_codes\<close>.\<close>

definition extended_primaries :: "i32 list" where
  "extended_primaries =
    [SQLITE_ERROR, SQLITE_ERROR, SQLITE_ERROR,
     SQLITE_IOERR, SQLITE_IOERR, SQLITE_IOERR,
     SQLITE_IOERR, SQLITE_IOERR, SQLITE_IOERR,
     SQLITE_IOERR, SQLITE_IOERR, SQLITE_IOERR,
     SQLITE_IOERR, SQLITE_IOERR, SQLITE_IOERR,
     SQLITE_IOERR, SQLITE_IOERR, SQLITE_IOERR,
     SQLITE_IOERR, SQLITE_IOERR, SQLITE_IOERR,
     SQLITE_IOERR, SQLITE_IOERR, SQLITE_IOERR,
     SQLITE_IOERR, SQLITE_IOERR, SQLITE_IOERR,
     SQLITE_IOERR, SQLITE_IOERR, SQLITE_IOERR,
     SQLITE_IOERR, SQLITE_IOERR, SQLITE_IOERR,
     SQLITE_IOERR, SQLITE_IOERR, SQLITE_IOERR,
     SQLITE_IOERR, SQLITE_LOCKED, SQLITE_LOCKED,
     SQLITE_BUSY, SQLITE_BUSY, SQLITE_BUSY,
     SQLITE_CANTOPEN, SQLITE_CANTOPEN, SQLITE_CANTOPEN,
     SQLITE_CANTOPEN, SQLITE_CANTOPEN, SQLITE_CANTOPEN,
     SQLITE_CORRUPT, SQLITE_CORRUPT, SQLITE_CORRUPT,
     SQLITE_READONLY, SQLITE_READONLY, SQLITE_READONLY,
     SQLITE_READONLY, SQLITE_READONLY, SQLITE_READONLY,
     SQLITE_ABORT, SQLITE_CONSTRAINT, SQLITE_CONSTRAINT,
     SQLITE_CONSTRAINT, SQLITE_CONSTRAINT, SQLITE_CONSTRAINT,
     SQLITE_CONSTRAINT, SQLITE_CONSTRAINT, SQLITE_CONSTRAINT,
     SQLITE_CONSTRAINT, SQLITE_CONSTRAINT, SQLITE_CONSTRAINT,
     SQLITE_CONSTRAINT, SQLITE_NOTICE, SQLITE_NOTICE,
     SQLITE_NOTICE, SQLITE_WARNING, SQLITE_AUTH,
     SQLITE_OK, SQLITE_OK]"

lemmas sqlite_groups =
  result_codes_def extended_result_codes_def extended_primaries_def open_flags_def iocap_flags_def
  lock_levels_def sync_flags_def fcntl_opcodes_def access_flags_def shm_lock_flags_def

section \<open>Method tables\<close>

text \<open>
  A C function pointer is \<open>None\<close> for \<^verbatim>\<open>NULL\<close> or the name of the function it points to.
\<close>

type_synonym fn_ptr = "string option"

record sqlite3_io_methods =
  io_iVersion :: i32
  xClose :: fn_ptr
  xRead :: fn_ptr
  xWrite :: fn_ptr
  xTruncate :: fn_ptr
  xSync :: fn_ptr
  xFileSize :: fn_ptr
  xLock :: fn_ptr
  xUnlock :: fn_ptr
  xCheckReservedLock :: fn_ptr
  xFileControl :: fn_ptr
  xSectorSize :: fn_ptr
  xDeviceCharacteristics :: fn_ptr
  xShmMap :: fn_ptr
  xShmLock :: fn_ptr
  xShmBarrier :: fn_ptr
  xShmUnmap :: fn_ptr
  xFetch :: fn_ptr
  xUnfetch :: fn_ptr

record sqlite3_vfs =
  vfs_iVersion :: i32
  szOsFile :: i32
  mxPathname :: i32
  pNext :: "nat option"
  zName :: string
  pAppData :: "nat option"
  xOpen :: fn_ptr
  xDelete :: fn_ptr
  xAccess :: fn_ptr
  xFullPathname :: fn_ptr
  xDlOpen :: fn_ptr
  xDlError :: fn_ptr
  xDlSym :: fn_ptr
  xDlClose :: fn_ptr
  xRandomness :: fn_ptr
  xSleep :: fn_ptr
  xCurrentTime :: fn_ptr
  xGetLastError :: fn_ptr
  xCurrentTimeInt64 :: fn_ptr
  xSetSystemCall :: fn_ptr
  xGetSystemCall :: fn_ptr
  xNextSystemCall :: fn_ptr

text \<open>
  The methods SQLite may call on a file of the given \<^verbatim>\<open>iVersion\<close>: the header marks where
  the version 1, 2 and 3 methods end.
\<close>

definition io_methods_of_version :: "sqlite3_io_methods \<Rightarrow> nat \<Rightarrow> fn_ptr list" where
  "io_methods_of_version m v =
     (if 1 \<le> v then [xClose m, xRead m, xWrite m, xTruncate m, xSync m, xFileSize m, xLock m,
        xUnlock m, xCheckReservedLock m, xFileControl m, xSectorSize m, xDeviceCharacteristics m]
      else []) @
     (if 2 \<le> v then [xShmMap m, xShmLock m, xShmBarrier m, xShmUnmap m] else []) @
     (if 3 \<le> v then [xFetch m, xUnfetch m] else [])"

section \<open>Bit masks\<close>

text \<open>A mask test of the Rust code, \<^verbatim>\<open>flags & mask > 0\<close> on \<open>i32\<close>.\<close>

definition has_flag :: "i32 \<Rightarrow> i32 \<Rightarrow> bool" where
  "has_flag flags bits = (0 < sint (flags AND bits))"

definition single_bit :: "i32 \<Rightarrow> bool" where
  "single_bit w = (w \<noteq> 0 \<and> w AND (w - 1) = 0)"

fun pairwise_disjoint :: "i32 list \<Rightarrow> bool" where
  "pairwise_disjoint [] = True"
| "pairwise_disjoint (w # ws) = (list_all (\<lambda>v. w AND v = 0) ws \<and> pairwise_disjoint ws)"

lemma has_flag_single:
  assumes "0 < sint bits"
  shows "has_flag bits bits"
  using assms by (simp add: has_flag_def)

lemma has_flag_0 [simp]: "\<not> has_flag 0 bits"
  by (simp add: has_flag_def)

section \<open>Properties of the constants\<close>

text \<open>
  Every extended result code carries its primary code in the low byte, which is how
  callers that did not ask for extended codes see it, and no two result codes coincide.
\<close>

theorem extended_codes_carry_primary:
  "map (\<lambda>c. c AND 0xFF) extended_result_codes = extended_primaries \<and>
   set extended_primaries \<subseteq> set result_codes \<and>
   distinct (result_codes @ extended_result_codes)"
proof (intro conjI)
  show "map (\<lambda>c. c AND 0xFF) extended_result_codes = extended_primaries"
    by (simp add: sqlite_groups sqlite_consts)
  show "set extended_primaries \<subseteq> set result_codes"
    by (simp add: sqlite_groups sqlite_consts)
  have "distinct (map unat (result_codes @ extended_result_codes))"
    by (simp add: sqlite_groups sqlite_consts)
  then show "distinct (result_codes @ extended_result_codes)" by (simp only: distinct_map)
qed

text \<open>
  Device characteristics are one bit each and disjoint, so they can be combined; the same
  holds for the open flags once the deprecated alias \<^verbatim>\<open>SQLITE_OPEN_MASTER_JOURNAL\<close> is left out.
\<close>

theorem flag_words_disjoint:
  "list_all single_bit iocap_flags \<and> pairwise_disjoint iocap_flags \<and>
   list_all single_bit open_flags \<and> pairwise_disjoint (butlast open_flags) \<and>
   last open_flags = SQLITE_OPEN_SUPER_JOURNAL"
  by (simp add: sqlite_groups sqlite_consts single_bit_def)

end
