(* ===== verification/PluginFlags.thy ===== *)
theory PluginFlags
  imports SqliteHeader
begin

text \<open>
  \<^verbatim>\<open>sqlite-plugin/src/flags.rs\<close>: the enums the plugin decodes the raw C integers of SQLite
  into, with one definition per \<^verbatim>\<open>From<i32>\<close> impl. An integer that the source rejects with
  \<^verbatim>\<open>panic!\<close> decodes to \<open>None\<close>.
\<close>

section \<open>Open flags\<close>

datatype OpenKind = Unknown | MainDb | MainJournal | TempDb | TempJournal | TransientDb
  | SubJournal | SuperJournal | Wal

fun is_temp :: "OpenKind \<Rightarrow> bool" where
  "is_temp TempDb = True"
| "is_temp TempJournal = True"
| "is_temp TransientDb = True"
| "is_temp _ = False"

definition open_kind_from :: "i32 \<Rightarrow> OpenKind" where
  "open_kind_from flags =
     (if has_flag flags SQLITE_OPEN_MAIN_DB then MainDb
      else if has_flag flags SQLITE_OPEN_MAIN_JOURNAL then MainJournal
      else if has_flag flags SQLITE_OPEN_TEMP_DB then TempDb
      else if has_flag flags SQLITE_OPEN_TEMP_JOURNAL then TempJournal
      else if has_flag flags SQLITE_OPEN_TRANSIENT_DB then TransientDb
      else if has_flag flags SQLITE_OPEN_SUBJOURNAL then SubJournal
      else if has_flag flags SQLITE_OPEN_SUPER_JOURNAL then SuperJournal
      else if has_flag flags SQLITE_OPEN_WAL then Wal
      else Unknown)"

datatype CreateMode = CreateNone | Create | MustCreate

datatype OpenMode = ReadOnly | ReadWrite CreateMode

definition MUST_CREATE :: i32 where
  "MUST_CREATE = SQLITE_OPEN_CREATE OR SQLITE_OPEN_EXCLUSIVE"

definition open_mode_from :: "i32 \<Rightarrow> OpenMode" where
  "open_mode_from flags =
     (if has_flag flags SQLITE_OPEN_READONLY then ReadOnly
      else if has_flag flags SQLITE_OPEN_READWRITE then
        ReadWrite (if flags AND MUST_CREATE = MUST_CREATE then MustCreate
                   else if has_flag flags SQLITE_OPEN_CREATE then Create
                   else CreateNone)
      else ReadOnly)"

fun must_create :: "OpenMode \<Rightarrow> bool" where
  "must_create (ReadWrite MustCreate) = True"
| "must_create _ = False"

fun is_readonly :: "OpenMode \<Rightarrow> bool" where
  "is_readonly ReadOnly = True"
| "is_readonly _ = False"

record OpenOpts =
  opt_flags :: i32

definition open_opts_new :: "i32 \<Rightarrow> OpenOpts" where
  "open_opts_new flags = \<lparr>opt_flags = flags\<rparr>"

definition opt_kind :: "OpenOpts \<Rightarrow> OpenKind" where
  "opt_kind opts = open_kind_from (opt_flags opts)"

definition opt_mode :: "OpenOpts \<Rightarrow> OpenMode" where
  "opt_mode opts = open_mode_from (opt_flags opts)"

definition delete_on_close :: "OpenOpts \<Rightarrow> bool" where
  "delete_on_close opts = has_flag (opt_flags opts) SQLITE_OPEN_DELETEONCLOSE"

definition set_readonly :: "OpenOpts \<Rightarrow> OpenOpts" where
  "set_readonly opts =
     opts\<lparr>opt_flags := (opt_flags opts AND NOT SQLITE_OPEN_READWRITE) OR SQLITE_OPEN_READONLY\<rparr>"

section \<open>Access flags and lock levels\<close>

datatype AccessFlags = Exists | AccRead | AccReadWrite

definition access_flags_from :: "i32 \<Rightarrow> AccessFlags" where
  "access_flags_from flags =
     (if flags = SQLITE_ACCESS_EXISTS then Exists
      else if has_flag flags SQLITE_ACCESS_READ then AccRead
      else if has_flag flags SQLITE_ACCESS_READWRITE then AccReadWrite
      else Exists)"

datatype LockLevel = Unlocked | Shared | Reserved | Pending | Exclusive

definition lock_level_from :: "i32 \<Rightarrow> LockLevel option" where
  "lock_level_from lock =
     (if lock = SQLITE_LOCK_NONE then Some Unlocked
      else if lock = SQLITE_LOCK_SHARED then Some Shared
      else if lock = SQLITE_LOCK_RESERVED then Some Reserved
      else if lock = SQLITE_LOCK_PENDING then Some Pending
      else if lock = SQLITE_LOCK_EXCLUSIVE then Some Exclusive
      else None)"

text \<open>The derived order of the enum is the order of its constructors.\<close>

fun lock_rank :: "LockLevel \<Rightarrow> nat" where
  "lock_rank Unlocked = 0"
| "lock_rank Shared = 1"
| "lock_rank Reserved = 2"
| "lock_rank Pending = 3"
| "lock_rank Exclusive = 4"

lemma lock_rank_inj [simp]: "lock_rank a = lock_rank b \<longleftrightarrow> a = b"
  by (cases a; cases b) auto

instantiation LockLevel :: linorder
begin

definition less_eq_LockLevel :: "LockLevel \<Rightarrow> LockLevel \<Rightarrow> bool" where
  "less_eq_LockLevel a b = (lock_rank a \<le> lock_rank b)"

definition less_LockLevel :: "LockLevel \<Rightarrow> LockLevel \<Rightarrow> bool" where
  "less_LockLevel a b = (lock_rank a < lock_rank b)"

instance
  by intro_classes (auto simp: less_eq_LockLevel_def less_LockLevel_def)

end

section \<open>Shared-memory locks\<close>

datatype ShmLockMode = ShmShared | ShmExclusive

definition shm_lock_mode_from :: "i32 \<Rightarrow> ShmLockMode option" where
  "shm_lock_mode_from flags =
     (if has_flag flags SQLITE_SHM_SHARED then Some ShmShared
      else if has_flag flags SQLITE_SHM_EXCLUSIVE then Some ShmExclusive
      else None)"

datatype ShmLockOp = ShmLock | ShmUnlock

definition shm_lock_op_from :: "i32 \<Rightarrow> ShmLockOp option" where
  "shm_lock_op_from flags =
     (if has_flag flags SQLITE_SHM_LOCK then Some ShmLock
      else if has_flag flags SQLITE_SHM_UNLOCK then Some ShmUnlock
      else None)"

datatype ShmLockIndex = WriteLock | Checkpoint | Recover | ReadLock i32

definition shm_lock_index_from :: "i32 \<Rightarrow> ShmLockIndex option" where
  "shm_lock_index_from lock =
     (if lock = 0 then Some WriteLock
      else if lock = 1 then Some Checkpoint
      else if lock = 2 then Some Recover
      else if 3 \<le> sint lock \<and> sint lock < sint SQLITE_SHM_NLOCK then Some (ReadLock (lock - 3))
      else None)"

fun shm_lock_index_into :: "ShmLockIndex \<Rightarrow> i32" where
  "shm_lock_index_into WriteLock = 0"
| "shm_lock_index_into Checkpoint = 1"
| "shm_lock_index_into Recover = 2"
| "shm_lock_index_into (ReadLock n) = 3 + n"

section \<open>Properties of the decoders\<close>

text \<open>Masks with one bit below the sign bit test exactly that bit.\<close>

lemma sint_push_bit_1: "n < 31 \<Longrightarrow> 0 < sint (push_bit n 1 :: i32)"
proof -
  assume "n < 31"
  moreover have "list_all (\<lambda>n. 0 < sint (push_bit n 1 :: i32)) [0..<31]" by code_simp
  ultimately show ?thesis by (simp add: list_all_iff)
qed

lemma bit_push_bit_1: "k < 32 \<Longrightarrow> bit (push_bit k 1 :: i32) n \<longleftrightarrow> n = k"
  by (auto simp: bit_exp_iff)

lemma has_flag_bit:
  assumes "n < 31"
  shows "has_flag flags (push_bit n 1) \<longleftrightarrow> bit flags n"
proof -
  have "flags AND push_bit n 1 = (if bit flags n then push_bit n 1 else 0)"
    by (rule bit_word_eqI) (auto simp: bit_simps)
  then show ?thesis using assms sint_push_bit_1 by (simp add: has_flag_def)
qed

text \<open>The bit each open-kind flag occupies; \<open>open_kind_from\<close> tests these bits in this order.\<close>

fun kind_bit :: "OpenKind \<Rightarrow> nat" where
  "kind_bit MainDb = 8"
| "kind_bit TempDb = 9"
| "kind_bit TransientDb = 10"
| "kind_bit MainJournal = 11"
| "kind_bit TempJournal = 12"
| "kind_bit SubJournal = 13"
| "kind_bit SuperJournal = 14"
| "kind_bit Wal = 19"
| "kind_bit Unknown = 32"

lemma has_open_flag:
  "has_flag flags SQLITE_OPEN_MAIN_DB \<longleftrightarrow> bit flags 8"
  "has_flag flags SQLITE_OPEN_TEMP_DB \<longleftrightarrow> bit flags 9"
  "has_flag flags SQLITE_OPEN_TRANSIENT_DB \<longleftrightarrow> bit flags 10"
  "has_flag flags SQLITE_OPEN_MAIN_JOURNAL \<longleftrightarrow> bit flags 11"
  "has_flag flags SQLITE_OPEN_TEMP_JOURNAL \<longleftrightarrow> bit flags 12"
  "has_flag flags SQLITE_OPEN_SUBJOURNAL \<longleftrightarrow> bit flags 13"
  "has_flag flags SQLITE_OPEN_SUPER_JOURNAL \<longleftrightarrow> bit flags 14"
  "has_flag flags SQLITE_OPEN_WAL \<longleftrightarrow> bit flags 19"
  "has_flag flags SQLITE_OPEN_READONLY \<longleftrightarrow> bit flags 0"
  "has_flag flags SQLITE_OPEN_READWRITE \<longleftrightarrow> bit flags 1"
  "has_flag flags SQLITE_OPEN_CREATE \<longleftrightarrow> bit flags 2"
  "has_flag flags SQLITE_OPEN_DELETEONCLOSE \<longleftrightarrow> bit flags 3"
  using has_flag_bit [of 8 flags] has_flag_bit [of 9 flags] has_flag_bit [of 10 flags] has_flag_bit [of 11 flags] has_flag_bit [of 12 flags] has_flag_bit [of 13 flags] has_flag_bit [of 14 flags] has_flag_bit [of 19 flags] has_flag_bit [of 0 flags] has_flag_bit [of 1 flags] has_flag_bit [of 2 flags] has_flag_bit [of 3 flags]
  by (simp_all add: sqlite_consts)

lemma open_kind_by_bits:
  "open_kind_from flags =
     (if bit flags 8 then MainDb else if bit flags 11 then MainJournal
      else if bit flags 9 then TempDb else if bit flags 12 then TempJournal
      else if bit flags 10 then TransientDb else if bit flags 13 then SubJournal
      else if bit flags 14 then SuperJournal else if bit flags 19 then Wal else Unknown)"
  by (simp only: open_kind_from_def has_open_flag)

lemma must_create_bits:
  "flags AND MUST_CREATE = MUST_CREATE \<longleftrightarrow> bit flags 2 \<and> bit flags 4"
proof -
  have m: "bit MUST_CREATE n \<longleftrightarrow> n = 2 \<or> n = 4" for n
  proof -
    have "bit SQLITE_OPEN_CREATE n \<longleftrightarrow> n = 2" "bit SQLITE_OPEN_EXCLUSIVE n \<longleftrightarrow> n = 4"
      using bit_push_bit_1 [of 2 n] bit_push_bit_1 [of 4 n] by (simp_all add: sqlite_consts)
    then show ?thesis by (simp add: MUST_CREATE_def bit_or_iff)
  qed
  have "flags AND MUST_CREATE = MUST_CREATE \<longleftrightarrow> (\<forall>n. bit MUST_CREATE n \<longrightarrow> bit flags n)"
    using bit_imp_le_length [of MUST_CREATE] by (fastforce simp: bit_eq_iff bit_and_iff)
  then show ?thesis by (auto simp: m)
qed

lemma open_mode_by_bits:
  "open_mode_from flags =
     (if bit flags 0 then ReadOnly
      else if bit flags 1 then
        ReadWrite (if bit flags 2 \<and> bit flags 4 then MustCreate
                   else if bit flags 2 then Create else CreateNone)
      else ReadOnly)"
  by (simp only: open_mode_from_def has_open_flag must_create_bits)

lemma delete_on_close_bit: "delete_on_close opts \<longleftrightarrow> bit (opt_flags opts) 3"
  by (simp only: delete_on_close_def has_open_flag)

lemma set_readonly_bits:
  "bit (opt_flags (set_readonly opts)) n \<longleftrightarrow>
     (if n = 0 then True else if n = 1 then False else bit (opt_flags opts) n)"
proof -
  have "bit SQLITE_OPEN_READWRITE n \<longleftrightarrow> n = 1" "bit SQLITE_OPEN_READONLY n \<longleftrightarrow> n = 0"
    using bit_push_bit_1 [of 1 n] bit_push_bit_1 [of 0 n] by (simp_all add: sqlite_consts)
  then show ?thesis
    by (auto simp: set_readonly_def bit_or_iff bit_and_iff bit_not_iff dest: bit_imp_le_length)
qed

text \<open>
  SQLite opens a file with exactly one object-type flag, whatever mode bits it adds: the
  decoder returns that kind.
\<close>

theorem open_kind_decodes:
  assumes "k \<noteq> Unknown"
    and "\<And>k'. k' \<noteq> Unknown \<Longrightarrow> bit flags (kind_bit k') \<longleftrightarrow> k' = k"
  shows "open_kind_from flags = k"
proof -
  have "bit flags 8 \<longleftrightarrow> k = MainDb" "bit flags 11 \<longleftrightarrow> k = MainJournal" "bit flags 9 \<longleftrightarrow> k = TempDb"
    "bit flags 12 \<longleftrightarrow> k = TempJournal" "bit flags 10 \<longleftrightarrow> k = TransientDb"
    "bit flags 13 \<longleftrightarrow> k = SubJournal" "bit flags 14 \<longleftrightarrow> k = SuperJournal" "bit flags 19 \<longleftrightarrow> k = Wal"
    using assms(2) [of MainDb] assms(2) [of MainJournal] assms(2) [of TempDb]
      assms(2) [of TempJournal] assms(2) [of TransientDb] assms(2) [of SubJournal]
      assms(2) [of SuperJournal] assms(2) [of Wal] by auto
  with assms(1) show ?thesis by (cases k) (simp_all add: open_kind_by_bits)
qed

theorem open_kind_decodes_witness:
  "open_kind_from (SQLITE_OPEN_WAL OR SQLITE_OPEN_READWRITE OR SQLITE_OPEN_CREATE) = Wal"
proof (rule open_kind_decodes)
  show "Wal \<noteq> Unknown" by simp
  show "bit (SQLITE_OPEN_WAL OR SQLITE_OPEN_READWRITE OR SQLITE_OPEN_CREATE) (kind_bit k') \<longleftrightarrow> k' = Wal"
    if "k' \<noteq> Unknown" for k'
    using that by (cases k') (simp_all add: sqlite_consts bit_simps)
qed

text \<open>
  \<^verbatim>\<open>OpenOpts::set_readonly\<close> makes the mode read-only and changes neither the kind of the
  file nor its delete-on-close bit.
\<close>

theorem set_readonly_correct:
  "opt_mode (set_readonly opts) = ReadOnly \<and>
   opt_kind (set_readonly opts) = opt_kind opts \<and>
   delete_on_close (set_readonly opts) = delete_on_close opts"
  by (simp add: opt_mode_def opt_kind_def delete_on_close_bit open_mode_by_bits open_kind_by_bits
      set_readonly_bits)

text \<open>
  The lock-level decoder accepts exactly SQLite's five levels and keeps their order.
\<close>

theorem lock_level_order:
  assumes "lock_level_from a = Some x" and "lock_level_from b = Some y"
  shows "(x \<le> y \<longleftrightarrow> a \<le> b) \<and> a \<in> set lock_levels"
  using assms
  by (auto simp: lock_level_from_def lock_levels_def sqlite_consts less_eq_LockLevel_def
      word_le_def split: if_splits)

theorem lock_level_order_witness:
  "(Shared \<le> Exclusive \<longleftrightarrow> SQLITE_LOCK_SHARED \<le> SQLITE_LOCK_EXCLUSIVE) \<and>
   SQLITE_LOCK_SHARED \<in> set lock_levels"
  by (rule lock_level_order) (simp_all add: lock_level_from_def sqlite_consts)

text \<open>
  The shared-memory lock slots round trip through the decoder, and exactly the slots
  below \<^verbatim>\<open>SQLITE_SHM_NLOCK\<close> are accepted.
\<close>

theorem shm_lock_index_roundtrip:
  "(case shm_lock_index_from lock of
      Some i \<Rightarrow> shm_lock_index_into i = lock \<and> 0 \<le> sint lock \<and> sint lock < sint SQLITE_SHM_NLOCK
    | None \<Rightarrow> sint lock < 0 \<or> sint SQLITE_SHM_NLOCK \<le> sint lock)"
proof -
  have "lock = 0 \<or> lock = 1 \<or> lock = 2 \<or> sint lock < 0 \<or> 3 \<le> sint lock"
  proof -
    have "sint lock = 0 \<Longrightarrow> lock = 0" "sint lock = 1 \<Longrightarrow> lock = 1" "sint lock = 2 \<Longrightarrow> lock = 2"
      using signed_word_eqI [of lock 0] signed_word_eqI [of lock 1] signed_word_eqI [of lock 2]
      by simp_all
    then show ?thesis by linarith
  qed
  then show ?thesis
    by (auto simp: shm_lock_index_from_def sqlite_consts split: option.splits if_splits)
qed

text \<open>
  The four legal flag combinations of \<^verbatim>\<open>xShmLock\<close> decode to the operation and the mode
  they name.
\<close>

lemma shm_flags_decode:
  "map (\<lambda>f. (shm_lock_op_from f, shm_lock_mode_from f))
     [SQLITE_SHM_LOCK OR SQLITE_SHM_SHARED, SQLITE_SHM_LOCK OR SQLITE_SHM_EXCLUSIVE,
      SQLITE_SHM_UNLOCK OR SQLITE_SHM_SHARED, SQLITE_SHM_UNLOCK OR SQLITE_SHM_EXCLUSIVE] =
   [(Some ShmLock, Some ShmShared), (Some ShmLock, Some ShmExclusive),
    (Some ShmUnlock, Some ShmShared), (Some ShmUnlock, Some ShmExclusive)]"
  by (simp add: shm_lock_op_from_def shm_lock_mode_from_def has_flag_def sqlite_consts)

end
