(* ===== verification/ReplFiles.thy ===== *)
theory ReplFiles
  imports ReplClientCorrect PluginFlags
begin

text \<open>
  The three kinds of file SQLite opens through the VFS: \<^verbatim>\<open>MemFile\<close>
  (\<^verbatim>\<open>replsqlite/src/replvfs/mem_file.rs\<close>), and \<^verbatim>\<open>DbFile\<close> and \<^verbatim>\<open>WalFile\<close>
  (\<^verbatim>\<open>replsqlite/src/replvfs/vol_file.rs\<close>), which are two views of one \<^verbatim>\<open>DbClient\<close>. A read takes
  the caller's buffer and returns it filled.

  The locale \<open>random_access_file\<close> is the contract of a file that can be read and written
  anywhere; \<^verbatim>\<open>MemFile\<close> and \<^verbatim>\<open>WalFile\<close> are interpretations of it.
\<close>

section \<open>Byte vectors as files\<close>

text \<open>
  \<^verbatim>\<open>MemFile\<close> and \<^verbatim>\<open>WalFile\<close> have the same code over a \<^verbatim>\<open>Vec<u8>\<close>. A sum beyond the 64-bit range
  panics, and so does a \<^verbatim>\<open>resize\<close> beyond \<^verbatim>\<open>isize::MAX\<close> bytes.
\<close>

definition isize_limit :: nat where
  "isize_limit = 2 ^ 63"

definition vec_write :: "nat \<Rightarrow> bytes \<Rightarrow> bytes \<Rightarrow> (ErrCtx, nat) outcome \<times> bytes" where
  "vec_write off d xs =
     (if u64_limit \<le> off + length d then (Panic, xs)
      else if length xs < off + length d then
        (if isize_limit \<le> off + length d then (Panic, xs)
         else (Ok (length d), write_at off d (resize (off + length d) 0 xs)))
      else (Ok (length d), write_at off d xs))"

definition vec_read :: "nat \<Rightarrow> bytes \<Rightarrow> bytes \<Rightarrow> (ErrCtx, nat) outcome \<times> bytes" where
  "vec_read off buf xs =
     (if u64_limit \<le> off + length buf then (Panic, buf)
      else let start = min off (length xs);
               stop = min (off + length buf) (length xs)
           in (Ok (stop - start), write_at 0 (take (stop - start) (drop start xs)) buf))"

section \<open>MemFile\<close>

record MemFile =
  mem_name :: string
  mem_data :: bytes

definition mem_lock :: "LockLevel \<Rightarrow> MemFile \<Rightarrow> (ErrCtx, unit) outcome \<times> MemFile" where
  "mem_lock level f = (Ok (), f)"

definition mem_unlock :: "LockLevel \<Rightarrow> MemFile \<Rightarrow> (ErrCtx, unit) outcome \<times> MemFile" where
  "mem_unlock level f = (Ok (), f)"

definition mem_file_size :: "MemFile \<Rightarrow> (ErrCtx, nat) outcome" where
  "mem_file_size f = Ok (length (mem_data f))"

definition mem_truncate :: "nat \<Rightarrow> MemFile \<Rightarrow> (ErrCtx, unit) outcome \<times> MemFile" where
  "mem_truncate n f = (Ok (), f\<lparr>mem_data := take n (mem_data f)\<rparr>)"

definition mem_write :: "nat \<Rightarrow> bytes \<Rightarrow> MemFile \<Rightarrow> (ErrCtx, nat) outcome \<times> MemFile" where
  "mem_write off d f =
     (case vec_write off d (mem_data f) of (r, xs) \<Rightarrow> (r, f\<lparr>mem_data := xs\<rparr>))"

definition mem_read :: "nat \<Rightarrow> bytes \<Rightarrow> MemFile \<Rightarrow> (ErrCtx, nat) outcome \<times> bytes" where
  "mem_read off buf f = vec_read off buf (mem_data f)"

text \<open>The shared-memory methods of \<^verbatim>\<open>MemFile\<close> are all \<^verbatim>\<open>todo!\<close>: every call panics.\<close>

definition mem_shm :: "(ErrCtx, 'a) outcome" where
  "mem_shm = Panic"

section \<open>WalFile\<close>

definition wal_lock :: "LockLevel \<Rightarrow> DbClient \<Rightarrow> (ErrCtx, unit) outcome \<times> DbClient" where
  "wal_lock level c = (Ok (), c)"

definition wal_unlock :: "LockLevel \<Rightarrow> DbClient \<Rightarrow> (ErrCtx, unit) outcome \<times> DbClient" where
  "wal_unlock level c = (Ok (), c)"

definition wal_file_size :: "DbClient \<Rightarrow> (ErrCtx, nat) outcome" where
  "wal_file_size c = Ok (length (wal_data c))"

definition wal_read :: "nat \<Rightarrow> bytes \<Rightarrow> DbClient \<Rightarrow> (ErrCtx, nat) outcome \<times> bytes" where
  "wal_read off buf c = vec_read off buf (wal_data c)"

definition wal_truncate :: "nat \<Rightarrow> DbClient \<Rightarrow> (ErrCtx, unit) outcome \<times> DbClient" where
  "wal_truncate n c = (Ok (), c\<lparr>wal_data := take n (wal_data c)\<rparr>)"

definition wal_write :: "nat \<Rightarrow> bytes \<Rightarrow> DbClient \<Rightarrow> (ErrCtx, nat) outcome \<times> DbClient" where
  "wal_write off d c =
     (case vec_write off d (wal_data c) of (r, xs) \<Rightarrow> (r, c\<lparr>wal_data := xs\<rparr>))"

definition wal_shm :: "(ErrCtx, 'a) outcome" where
  "wal_shm = Err Bad"

section \<open>DbFile\<close>

definition ZEROES_PAGE :: bytes where
  "ZEROES_PAGE = replicate 4096 0"

definition db_lock :: "LockLevel \<Rightarrow> DbClient \<Rightarrow> (ErrCtx, unit) outcome \<times> DbClient" where
  "db_lock level c = (if level = Exclusive then (Err Busy, c) else (Ok (), c))"

definition db_unlock :: "LockLevel \<Rightarrow> DbClient \<Rightarrow> (ErrCtx, unit) outcome \<times> DbClient" where
  "db_unlock level c = (Ok (), c)"

definition db_file_size :: "DbClient \<Rightarrow> (ErrCtx, nat) outcome" where
  "db_file_size c = Ok (length (db_data c))"

definition db_read :: "nat \<Rightarrow> bytes \<Rightarrow> DbClient \<Rightarrow> (ErrCtx, nat) outcome \<times> bytes" where
  "db_read off buf c =
     (let page_idx = off div PAGESIZE + 1; local_offset = off mod PAGESIZE in
      if \<not> local_offset + length buf \<le> PAGESIZE then (Panic, buf)
      else if local_offset \<noteq> 0 then (Panic, buf)
      else let offset = (page_idx - 1) * PAGESIZE in
        case (if length (db_data c) \<le> offset then Some ZEROES_PAGE
              else slice (db_data c) offset (offset + PAGESIZE)) of
          None \<Rightarrow> (Panic, buf)
        | Some source \<Rightarrow>
            let source' = (if length buf < length source then take (length buf) source else source) in
            if length source' = length buf then (Ok (length buf), source') else (Panic, buf))"

definition db_truncate :: "nat \<Rightarrow> DbClient \<Rightarrow> (ErrCtx, unit) outcome \<times> DbClient" where
  "db_truncate n c = (Err Bad, c)"

definition db_write :: "nat \<Rightarrow> bytes \<Rightarrow> DbClient \<Rightarrow> (ErrCtx, nat) outcome \<times> DbClient" where
  "db_write off d c = (Err Bad, c)"

text \<open>
  \<^verbatim>\<open>shm_map\<close> returns a pointer to the client's WAL index page: from then on SQLite reads and
  writes \<open>wal_index\<close> directly.
\<close>

definition db_shm_map :: "nat \<Rightarrow> nat \<Rightarrow> bool \<Rightarrow> DbClient \<Rightarrow> (ErrCtx, unit) outcome \<times> DbClient" where
  "db_shm_map page_idx page_size ext c =
     (if page_idx \<noteq> 0 then (Err Bad, c)
      else if page_size \<noteq> 32768 then (Err Bad, c)
      else if wal_index_mapped c then (Err Bad, c)
      else (Ok (), c\<lparr>wal_index_mapped := True\<rparr>))"

definition db_shm_unmap :: "bool \<Rightarrow> DbClient \<Rightarrow> (ErrCtx, unit) outcome \<times> DbClient" where
  "db_shm_unmap delete c =
     (if \<not> wal_index_mapped c then (Err Bad, c) else (Ok (), c\<lparr>wal_index_mapped := False\<rparr>))"

definition db_shm_lock ::
  "wire \<Rightarrow> u32 \<Rightarrow> u32 \<Rightarrow> ShmLockIndex \<Rightarrow> nat \<Rightarrow> ShmLockMode \<Rightarrow> ShmLockOp \<Rightarrow>
   DbClient \<times> TestDbServerData \<Rightarrow> (ErrCtx, unit) outcome \<times> (DbClient \<times> TestDbServerData)" where
  "db_shm_lock w r1 r2 lock_idx n lock_type lock_op cs =
     (case cs of (c, srv) \<Rightarrow>
      (case lock_idx of
         WriteLock \<Rightarrow>
           (if lock_op = ShmLock then
              if lock_type = ShmShared then (Err Busy, (c, srv))
              else case maybe_begin_tx w r1 r2 srv c of
                (Ok _, c') \<Rightarrow> (Ok (), (c'\<lparr>write_locks := write_locks c' + 1, had_write := True\<rparr>, srv))
              | (Err e, c') \<Rightarrow> (Err e, (c', srv))
              | (Panic, c') \<Rightarrow> (Panic, (c', srv))
            else
              if lock_type = ShmShared then (Err Bad, (c, srv))
              else maybe_end_tx w r1 r2 (c\<lparr>write_locks := write_locks c - 1\<rparr>, srv))
       | Recover \<Rightarrow> (Err Busy, (c, srv))
       | ReadLock _ \<Rightarrow>
           (if lock_op = ShmLock then
              if lock_type = ShmExclusive then (Err Busy, (c, srv))
              else case maybe_begin_tx w r1 r2 srv c of
                (Ok _, c') \<Rightarrow> (Ok (), (c'\<lparr>read_locks := read_locks c' + 1\<rparr>, srv))
              | (Err e, c') \<Rightarrow> (Err e, (c', srv))
              | (Panic, c') \<Rightarrow> (Panic, (c', srv))
            else
              if lock_type = ShmExclusive then (Err Bad, (c, srv))
              else maybe_end_tx w r1 r2 (c\<lparr>read_locks := read_locks c - 1\<rparr>, srv))
       | Checkpoint \<Rightarrow> (Err Busy, (c, srv))))"

section \<open>The contract of a random-access file\<close>

text \<open>Overwriting a range, extending with zeros: what every write is meant to do.\<close>

definition overlay :: "nat \<Rightarrow> bytes \<Rightarrow> bytes \<Rightarrow> bytes" where
  "overlay off d xs = write_at off d (resize (max (length xs) (off + length d)) 0 xs)"

lemma length_overlay [simp, vec_simps]: "length (overlay off d xs) = max (length xs) (off + length d)"
  by (simp add: overlay_def)

lemma nth_overlay:
  "i < max (length xs) (off + length d) \<Longrightarrow>
   overlay off d xs ! i =
     (if off \<le> i \<and> i < off + length d then d ! (i - off) else if i < length xs then xs ! i else 0)"
  by (simp add: overlay_def nth_write_at nth_resize)

locale random_access_file =
  fixes content :: "'s \<Rightarrow> bytes"
    and fwrite :: "nat \<Rightarrow> bytes \<Rightarrow> 's \<Rightarrow> (ErrCtx, nat) outcome \<times> 's"
    and fread :: "nat \<Rightarrow> bytes \<Rightarrow> 's \<Rightarrow> (ErrCtx, nat) outcome \<times> bytes"
    and ftruncate :: "nat \<Rightarrow> 's \<Rightarrow> (ErrCtx, unit) outcome \<times> 's"
    and fsize :: "'s \<Rightarrow> (ErrCtx, nat) outcome"
  assumes write_ok: "off + length d < isize_limit \<Longrightarrow> fst (fwrite off d s) = Ok (length d)"
    and write_content: "off + length d < isize_limit \<Longrightarrow>
      content (snd (fwrite off d s)) = overlay off d (content s)"
    and read_result: "off + length buf < isize_limit \<Longrightarrow>
      fread off buf s =
        (Ok (length (take (length buf) (drop off (content s)))),
         take (length buf) (drop off (content s)) @ drop (length (content s) - off) buf)"
    and truncate_ok: "fst (ftruncate n s) = Ok ()"
    and truncate_content: "content (snd (ftruncate n s)) = take n (content s)"
    and size_law: "fsize s = Ok (length (content s))"
begin

lemma read_back_write:
  assumes "off + length d < isize_limit" and "length buf = length d"
  shows "fread off buf (snd (fwrite off d s)) = (Ok (length d), d)"
proof -
  have "take (length d) (drop off (overlay off d (content s))) = d"
    by (rule nth_equalityI) (auto simp: nth_overlay)
  then show ?thesis using assms by (simp add: read_result write_content)
qed

lemma write_elsewhere:
  assumes "off + length d < isize_limit" and "pos + length buf < isize_limit"
    and "pos + length buf \<le> length (content s)" and "pos + length buf \<le> off \<or> off + length d \<le> pos"
  shows "fread pos buf (snd (fwrite off d s)) = fread pos buf s"
proof -
  have "take (length buf) (drop pos (overlay off d (content s))) =
      take (length buf) (drop pos (content s))"
    by (rule nth_equalityI) (use assms(3,4) in \<open>auto simp: nth_overlay\<close>)
  with assms show ?thesis by (simp add: read_result write_content)
qed

text \<open>A write beyond the end leaves zeros in the gap.\<close>

lemma gap_is_zero:
  assumes "off + length d < isize_limit" and "length (content s) \<le> i" and "i < off"
  shows "content (snd (fwrite off d s)) ! i = 0"
  using assms by (simp add: write_content nth_overlay)

lemma size_after_write:
  "off + length d < isize_limit \<Longrightarrow>
   fsize (snd (fwrite off d s)) = Ok (max (length (content s)) (off + length d))"
  by (simp add: size_law write_content)

lemma truncate_then_read:
  assumes "off + length buf < isize_limit" and "n \<le> off"
  shows "fread off buf (snd (ftruncate n s)) = (Ok 0, buf)"
  using assms by (simp add: read_result truncate_content)

end

lemma isize_u64: "n < isize_limit \<Longrightarrow> n < u64_limit"
  by (simp add: isize_limit_def u64_limit_def)

lemma vec_write_overlay:
  "off + length d < isize_limit \<Longrightarrow> vec_write off d xs = (Ok (length d), overlay off d xs)"
  using isize_u64 [of "off + length d"]
  by (auto simp: vec_write_def overlay_def max_def resize_def)

lemma vec_read_result:
  assumes "off + length buf < isize_limit"
  shows "vec_read off buf xs =
    (Ok (length (take (length buf) (drop off xs))),
     take (length buf) (drop off xs) @ drop (length xs - off) buf)"
proof -
  have "min (off + length buf) (length xs) - min off (length xs) = min (length buf) (length xs - off)"
    by linarith
  moreover have "take (min (length buf) (length xs - off)) (drop (min off (length xs)) xs) =
      take (length buf) (drop off xs)"
    by (cases "off \<le> length xs") (auto simp: min_def)
  ultimately show ?thesis
    using isize_u64 [OF assms]
    by (auto simp: vec_read_def write_at_def Let_def min_def)
qed

interpretation mem_file: random_access_file mem_data mem_write mem_read mem_truncate mem_file_size
  by unfold_locales (simp_all add: mem_write_def mem_read_def mem_truncate_def mem_file_size_def
      vec_write_overlay vec_read_result)

interpretation wal_file: random_access_file wal_data wal_write wal_read wal_truncate wal_file_size
  by unfold_locales (simp_all add: wal_write_def wal_read_def wal_truncate_def wal_file_size_def
      vec_write_overlay vec_read_result)

section \<open>Reading pages of the database\<close>

lemma pages_nth:
  "i < length (pages db) \<Longrightarrow> pages db ! i = take PAGESIZE (drop (i * PAGESIZE) db)"
  by (simp add: pages_def)

lemma length_pages: "length (pages db) = length db div PAGESIZE"
  by (simp add: pages_def)

text \<open>
  The database file serves whole pages: on an image of whole pages a read at a page boundary
  of at most a page returns the beginning of that page, or zeros beyond the end; a read that is
  not at a page boundary, or longer than a page, fails an assertion. The client is not changed.
\<close>

theorem db_read_serves_pages:
  assumes "aligned (db_data c)"
  shows "db_read off buf c =
    (if off mod PAGESIZE = 0 \<and> length buf \<le> PAGESIZE
     then (Ok (length buf), take (length buf)
            (if off div PAGESIZE < length (pages (db_data c))
             then pages (db_data c) ! (off div PAGESIZE) else ZEROES_PAGE))
     else (Panic, buf))"
proof -
  let ?i = "off div PAGESIZE"
  define n where "n = length (db_data c) div PAGESIZE"
  have len: "length (db_data c) = n * PAGESIZE"
    using assms by (metis add.right_neutral aligned_def div_mult_mod_eq n_def)
  have np: "length (pages (db_data c)) = n" by (simp add: length_pages n_def)
  have beyond: "length (db_data c) \<le> ?i * PAGESIZE \<longleftrightarrow> \<not> ?i < n"
    unfolding len by (simp add: not_less)
  have room: "?i * PAGESIZE + PAGESIZE \<le> length (db_data c)" if "?i < n"
    unfolding len using that by (metis Suc_leI add.commute mult_Suc mult_le_mono1)
  have page: "slice (db_data c) (?i * PAGESIZE) (?i * PAGESIZE + PAGESIZE) =
      Some (pages (db_data c) ! ?i)" if "?i < n"
    using that room [OF that] by (simp add: slice_def pages_nth np)
  have plen: "length (pages (db_data c) ! ?i) = PAGESIZE" if "?i < n"
    using that room [OF that] by (simp add: pages_nth np)
  show ?thesis
    using page plen beyond
    by (auto simp: db_read_def Let_def np ZEROES_PAGE_def PAGESIZE_def [symmetric])
qed

theorem db_read_serves_pages_witness:
  "db_read 0 (replicate 100 0) (sample_client []) =
     (Ok 100, take 100 (pages make_initial_db ! 0)) \<and>
   db_read 24 (replicate 16 0) (sample_client []) = (Panic, replicate 16 0)"
  using db_read_serves_pages [of "sample_client []" 0 "replicate 100 0"]
    db_read_serves_pages [of "sample_client []" 24 "replicate 16 0"]
    make_initial_db_aligned
  by (simp add: sample_client_def length_pages length_make_initial_db PAGESIZE_def)

text \<open>
  The log file is a random-access file: what was written is read back, a read elsewhere is
  not disturbed, and a write beyond the end extends the file with zeros. The same holds of the
  in-memory files.
\<close>

theorem wal_and_mem_files_read_back:
  assumes "off + length d < isize_limit" and "length buf = length d"
    and "pos + length other \<le> off \<or> off + length d \<le> pos"
    and "pos + length other \<le> length (wal_data c)" and "pos + length other \<le> length (mem_data f)"
    and "pos + length other < isize_limit"
  shows "fst (wal_write off d c) = Ok (length d) \<and>
    wal_read off buf (snd (wal_write off d c)) = (Ok (length d), d) \<and>
    wal_read pos other (snd (wal_write off d c)) = wal_read pos other c \<and>
    wal_file_size (snd (wal_write off d c)) = Ok (max (length (wal_data c)) (off + length d)) \<and>
    (\<forall>i. length (wal_data c) \<le> i \<longrightarrow> i < off \<longrightarrow> wal_data (snd (wal_write off d c)) ! i = 0) \<and>
    fst (mem_write off d f) = Ok (length d) \<and>
    mem_read off buf (snd (mem_write off d f)) = (Ok (length d), d) \<and>
    mem_read pos other (snd (mem_write off d f)) = mem_read pos other f"
  using assms
  by (simp add: wal_file.write_ok wal_file.read_back_write wal_file.write_elsewhere
      wal_file.size_after_write wal_file.gap_is_zero mem_file.write_ok mem_file.read_back_write
      mem_file.write_elsewhere)

theorem wal_and_mem_files_read_back_witness:
  "wal_read 40 [0, 0] (snd (wal_write 40 [1, 2] (sample_client []))) = (Ok 2, [1, 2])"
  using wal_and_mem_files_read_back [of 40 "[1, 2]" "[0, 0]" 0 "[]" "sample_client []"
      "\<lparr>mem_name = ''m'', mem_data = []\<rparr>"]
  by (simp add: isize_limit_def)

section \<open>Appending frames\<close>

text \<open>
  SQLite appends a frame with two writes at the end of the log: the header, then the page. The
  log stays a log of whole frames.
\<close>

definition append_frame :: "frame \<Rightarrow> DbClient \<Rightarrow> DbClient" where
  "append_frame f c =
     (let c1 = snd (wal_write (length (wal_data c)) (enc_wal_frame_header (fst f)) c)
      in snd (wal_write (length (wal_data c1)) (snd f) c1))"

lemma wal_write_end:
  assumes "length (wal_data c) + length d < isize_limit"
  shows "wal_write (length (wal_data c)) d c = (Ok (length d), c\<lparr>wal_data := wal_data c @ d\<rparr>)"
proof -
  have "overlay (length (wal_data c)) d (wal_data c) = wal_data c @ d"
    by (rule nth_equalityI) (auto simp: nth_overlay nth_append)
  then show ?thesis using assms by (simp add: wal_write_def vec_write_overlay)
qed

lemma append_frame_data:
  assumes "length (wal_data c) + FRAME_SIZE < isize_limit" and "frame_ok f"
  shows "append_frame f c = c\<lparr>wal_data := wal_data c @ enc_frame f\<rparr>"
proof -
  have "length (wal_data c) + WAL_FRAME_HEADER_SIZE < isize_limit"
    "length (wal_data c) + WAL_FRAME_HEADER_SIZE + PAGESIZE < isize_limit"
    using assms(1) by (simp_all add: FRAME_SIZE_def)
  then show ?thesis
    using assms(2) wal_write_end [of c "enc_wal_frame_header (fst f)"]
      wal_write_end [of "c\<lparr>wal_data := wal_data c @ enc_wal_frame_header (fst f)\<rparr>" "snd f"]
    by (simp add: append_frame_def enc_frame_def frame_ok_def length_enc_wal_frame_header)
qed

lemma append_frame_log:
  assumes "log_of c fs" and "frame_ok f" and "fh_page_number (fst f) \<noteq> 0"
    and "length (wal_data c) + FRAME_SIZE < isize_limit"
  shows "log_of (append_frame f c) (fs @ [f])"
  using assms by (simp add: log_of_def append_frame_data)

end
