(* ===== verification/ReplSystem.thy ===== *)
theory ReplSystem
  imports ReplFiles
begin

text \<open>
  Many replicas and one server. A step is one call of a replica's shared-memory lock method
  (where transactions begin and end), one frame appended to a replica's log by SQLite, a change
  SQLite makes to the WAL index page it has mapped, or a replica opening. The wire of each call
  may lose messages, in either direction, but does not alter them: \<open>honest_wire\<close>. A replica
  whose call panics is gone, as the panic unwinds into an \<^verbatim>\<open>extern "C"\<close> function.

  The theorems: every replica's image is always the server's image at some version, and the
  server's history only ever grows at its end.
\<close>

section \<open>Wires that may lose messages\<close>

locale honest_wire =
  fixes w :: wire
  assumes honest_snapshot: "wire_snapshot w x = Some y \<Longrightarrow> y = x"
    and honest_version: "wire_version w v = Some u \<Longrightarrow> u = v"
    and honest_changes: "wire_changes w cs = Some ds \<Longrightarrow> ds = cs"
    and honest_commit: "wire_commit w req = Some req' \<Longrightarrow> req' = req"
begin

lemma changes_honest:
  "remote_get_changes_after w v srv = Panic \<or>
   remote_get_changes_after w v srv = test_get_changes_after v srv"
  by (auto simp: remote_get_changes_after_def handle_get_changes_after_def receive_def
      test_get_changes_after_def dest: honest_version honest_changes split: option.splits)

lemma snapshot_honest:
  "remote_get_latest_snapshot w srv = Panic \<or>
   remote_get_latest_snapshot w srv = test_get_latest_snapshot srv"
  by (auto simp: remote_get_latest_snapshot_def handle_get_latest_snapshot_def receive_def
      test_get_latest_snapshot_def dest: honest_snapshot split: option.splits)

lemma commit_honest:
  "(fst (remote_commit_change w v tx srv) = Panic \<or>
    fst (remote_commit_change w v tx srv) = fst (test_commit_change v tx srv)) \<and>
   (snd (remote_commit_change w v tx srv) = srv \<or>
    snd (remote_commit_change w v tx srv) = snd (test_commit_change v tx srv))"
proof (cases "wire_commit w (v, tx)")
  case None
  then show ?thesis by (simp add: remote_commit_change_def)
next
  case (Some req)
  then have "req = (v, tx)" by (rule honest_commit)
  with Some show ?thesis
    by (cases "test_commit_change v tx srv"; cases "fst (test_commit_change v tx srv)")
      (auto simp: remote_commit_change_def handle_commit_change_def receive_def
        dest: honest_version split: option.splits)
qed

text \<open>Whatever the wire loses, sending transactions only appends to the history.\<close>

lemma commit_extends:
  assumes "server_inv srv" and "wf_tx tx" and "v + 1 < u64_limit"
  shows "server_inv (snd (remote_commit_change w v tx srv)) \<and>
    (\<exists>txs. server_history (snd (remote_commit_change w v tx srv)) = server_history srv @ txs)"
proof -
  have "server_inv (snd (test_commit_change v tx srv)) \<and>
      (\<exists>txs. server_history (snd (test_commit_change v tx srv)) = server_history srv @ txs)"
  proof (cases "v = length (server_history srv)")
    case True
    then show ?thesis using server_commit_latest [OF assms(1,2) True assms(3)] by auto
  next
    case False
    then show ?thesis using assms(1) by (simp add: server_commit_stale)
  qed
  with commit_honest [of v tx srv] assms(1) show ?thesis by auto
qed

lemma send_txs_extends:
  assumes "server_inv srv" and "list_all wf_tx txs" and "v + 1 < u64_limit"
  shows "server_inv (snd (send_txs w v txs srv)) \<and>
    (\<exists>ys. server_history (snd (send_txs w v txs srv)) = server_history srv @ ys)"
  using assms
proof (induction txs arbitrary: srv)
  case Nil
  then show ?case by simp
next
  case (Cons tx txs)
  note ext = commit_extends [OF Cons.prems(1) _ assms(3), of tx]
  obtain r srv1 where call: "remote_commit_change w v tx srv = (r, srv1)" by fastforce
  with ext Cons.prems obtain ys where s1: "server_inv srv1" "server_history srv1 = server_history srv @ ys"
    by auto
  show ?case
  proof (cases r)
    case (Ok n)
    with Cons.IH [OF s1(1) _ assms(3)] Cons.prems call s1 show ?thesis by auto
  qed (use call s1 in auto)
qed

end

sublocale faithful_wire \<subseteq> honest_wire
  by unfold_locales (simp_all add: deliver_snapshot deliver_version deliver_changes deliver_commit)

section \<open>What one replica keeps\<close>

text \<open>
  A replica in good standing: it tracks the server, its log is a log of whole frames behind a
  header, and its WAL index page has its size.
\<close>

definition client_inv :: "DbClient \<Rightarrow> TestDbServerData \<Rightarrow> bool" where
  "client_inv c srv = (tracks c srv \<and> (\<exists>fs. log_of c fs) \<and>
     length (wal_index c) = WAL_INDEX_INITIAL_SIZE)"

lemma client_inv_mono:
  "client_inv c srv \<Longrightarrow> server_history srv' = server_history srv @ txs \<Longrightarrow> client_inv c srv'"
  by (auto simp: client_inv_def intro: tracks_mono)

lemma client_inv_update:
  "client_inv c srv \<Longrightarrow> db_data c' = db_data c \<Longrightarrow> server_version c' = server_version c \<Longrightarrow>
   wal_data c' = wal_data c \<Longrightarrow> length (wal_index c') = length (wal_index c) \<Longrightarrow> client_inv c' srv"
  by (auto simp: client_inv_def log_of_def tracks_def)

lemma log_of_empty: "length (wal_data c) = WAL_HEADER_SIZE \<Longrightarrow> log_of c []"
  by (simp add: log_of_def)

lemma reset_keeps_inv:
  assumes "reset_wal r1 r2 c = (Ok u, c')" and "tracks c srv"
    and "length (wal_index c) = WAL_INDEX_INITIAL_SIZE"
  shows "client_inv c' srv"
  using assms(3)
proof (cases rule: reset_wal_cases [of c r1 r2])
  case (ok d)
  then have "d = c'" using assms(1) by simp
  moreover have "tracks d srv" by (subst ok(5)) (use assms(2) in \<open>simp add: tracks_def\<close>)
  ultimately show ?thesis using ok log_of_empty by (auto simp: client_inv_def)
next
  case (panic d)
  then show ?thesis using assms(1) by simp
qed

context honest_wire
begin

lemma begin_keeps_inv:
  assumes "maybe_begin_tx w r1 r2 srv c = (r, c')" and "server_inv srv" and "client_inv c srv"
    and "r \<noteq> Panic"
  shows "r = Ok () \<and> client_inv c' srv \<and> write_locks c' = write_locks c \<and> read_locks c' = read_locks c"
proof (cases "write_locks c + read_locks c \<noteq> 0")
  case True
  with assms show ?thesis by (simp add: maybe_begin_tx_def)
next
  case False
  then have pull: "pull_changes w r1 r2 srv c = (r, c')" using assms(1) by (simp add: maybe_begin_tx_def)
  have tr: "tracks c srv" and v: "server_version c \<le> length (server_history srv)"
    and db: "db_data c = test_server.at_version srv (server_version c)"
    using assms(3) by (auto simp: client_inv_def tracks_def)
  obtain cs where cs: "remote_get_changes_after w (server_version c) srv = Ok cs"
    "test_get_changes_after (server_version c) srv = Ok cs"
    using changes_honest [of "server_version c" srv] pull assms(4)
      test_server.changes_law [OF assms(2) v] by (auto simp: pull_changes_def)
  note catch = test_server.catch_up [OF assms(2) v cs(2)]
  define c1 where "c1 = c\<lparr>db_data := replay (db_data c) (map fst cs),
     server_version := (if cs = [] then server_version c else snd (last cs))\<rparr>"
  have app: "apply_changes cs c = (Ok (), c1)"
    unfolding c1_def by (rule apply_changes_replay [OF tracks_aligned [OF assms(2) tr] catch(2)])
  show ?thesis
  proof (cases "cs = []")
    case True
    with pull cs app assms(3) show ?thesis by (simp add: pull_changes_def c1_def)
  next
    case False
    have "length cs = length (server_history srv) - server_version c"
      using arg_cong [OF catch(3), of length] by (simp del: upt_Suc)
    then have "server_version c < length (server_history srv)" using False by (cases cs) auto
    then have "snd (last cs) = length (server_history srv)"
      using arg_cong [OF catch(3), of last] False by (simp add: last_map)
    then have tr1: "tracks c1 srv" using catch(1) db False by (simp add: tracks_def c1_def)
    have idx: "length (wal_index c1) = WAL_INDEX_INITIAL_SIZE"
      using assms(3) by (simp add: client_inv_def c1_def)
    have res: "reset_wal r1 r2 c1 = (r, c')" using pull cs app False by (simp add: pull_changes_def)
    from idx show ?thesis
    proof (cases rule: reset_wal_cases [of c1 r1 r2])
      case (ok d)
      then have d: "r = Ok ()" "d = c'" using res by auto
      then have "client_inv c' srv" using reset_keeps_inv [OF _ tr1 idx] res by auto
      moreover have "write_locks d = write_locks c" "read_locks d = read_locks c"
        by (subst ok(5), simp add: c1_def)+
      ultimately show ?thesis using d by simp
    next
      case (panic d)
      then show ?thesis using res assms(4) by simp
    qed
  qed
qed

lemma end_keeps_inv:
  assumes "maybe_end_tx w r1 r2 (c, srv) = (r, (c', srv'))" and "server_inv srv" and "client_inv c srv"
    and "length (server_history srv) + 1 < u64_limit"
  shows "server_inv srv' \<and> (\<exists>txs. server_history srv' = server_history srv @ txs) \<and>
    (r \<noteq> Panic \<longrightarrow> client_inv c' srv')"
proof (cases "write_locks c + read_locks c = 0 \<and> had_write c")
  case False
  have "client_inv (c\<lparr>had_write := False\<rparr>) srv" using assms(3) by (rule client_inv_update) simp_all
  with False assms show ?thesis by (auto simp: maybe_end_tx_def split: if_splits)
next
  case True
  obtain fs where log: "log_of c fs" using assms(3) by (auto simp: client_inv_def)
  have v: "server_version c + 1 < u64_limit"
    using assms(3,4) by (auto simp: client_inv_def tracks_def)
  obtain q srv1 where send: "send_txs w (server_version c) (committed_txs [] fs) srv = (q, srv1)"
    by fastforce
  with send_txs_extends [OF assms(2) log_of_wf [OF log] v] obtain txs where
    s1: "server_inv srv1" "server_history srv1 = server_history srv @ txs" by auto
  have inv1: "client_inv c srv1" using assms(3) s1(2) by (rule client_inv_mono)
  obtain q' d where res: "reset_wal r1 r2 c = (q', d)" by fastforce
  have "client_inv (d\<lparr>had_write := False\<rparr>) srv1" if "q' = Ok ()"
    by (rule client_inv_update [of d])
      (use that inv1 res reset_keeps_inv [of r1 r2 c "()" d srv1] in \<open>auto simp: client_inv_def\<close>)
  moreover have "q' = Ok () \<or> q' = Panic"
    using inv1 res by (auto simp: client_inv_def elim!: reset_wal_cases [of c r1 r2])
  ultimately have "srv' = srv1 \<and> (r \<noteq> Panic \<longrightarrow> client_inv c' srv')"
    using assms(1) True send res inv1
    by (auto simp: maybe_end_tx_def send_commits_log [OF log] split: outcome.splits)
  with s1 show ?thesis by blast
qed

text \<open>One call of the lock method, with any arguments.\<close>

lemma shm_lock_keeps_inv:
  assumes "db_shm_lock w r1 r2 idx n mode op' (c, srv) = (r, (c', srv'))"
    and "server_inv srv" and "client_inv c srv" and "length (server_history srv) + 1 < u64_limit"
  shows "server_inv srv' \<and> (\<exists>txs. server_history srv' = server_history srv @ txs) \<and>
    (r \<noteq> Panic \<longrightarrow> client_inv c' srv')"
proof -
  have begin_case: ?thesis
    if "(case maybe_begin_tx w r1 r2 srv c of
          (Ok _, d) \<Rightarrow> (Ok (), (upd d, srv)) | (Err e, d) \<Rightarrow> (Err e, (d, srv)) | (Panic, d) \<Rightarrow> (Panic, (d, srv)))
        = (r, (c', srv'))"
      and "\<And>d. db_data (upd d) = db_data d \<and> server_version (upd d) = server_version d \<and>
        wal_data (upd d) = wal_data d \<and> wal_index (upd d) = wal_index d" for upd
  proof -
    obtain q d where bq: "maybe_begin_tx w r1 r2 srv c = (q, d)" by fastforce
    show ?thesis
    proof (cases "q = Panic")
      case True
      with bq that(1) assms(2) show ?thesis by auto
    next
      case False
      from begin_keeps_inv [OF bq assms(2,3) False] have "q = Ok ()" "client_inv d srv" by auto
      with bq that assms(2) client_inv_update [of d srv "upd d"] show ?thesis by auto
    qed
  qed
  have locks: "client_inv (c\<lparr>write_locks := a\<rparr>) srv" "client_inv (c\<lparr>read_locks := a\<rparr>) srv" for a
    by (rule client_inv_update [OF assms(3)]; simp)+
  show ?thesis
    using assms begin_case end_keeps_inv [OF _ assms(2) locks(1) assms(4)]
      end_keeps_inv [OF _ assms(2) locks(2) assms(4)]
    by (auto simp: db_shm_lock_def split: ShmLockIndex.splits if_splits)
qed

lemma open_gives_inv:
  assumes "db_client_new w r1 r2 srv = Ok c" and "server_inv srv"
  shows "client_inv c srv \<and> current c srv"
proof -
  define c0 where "c0 = \<lparr>server_version = latest_snapshot_version srv, db_data = latest_snapshot srv,
    wal_data = replicate WAL_HEADER_SIZE 0, wal_index = wal_index_new, wal_index_mapped = False,
    write_locks = 0, read_locks = 0, had_write = False, pending_open = None\<rparr>"
  have res: "reset_wal r1 r2 c0 = (Ok (), c)"
    using assms(1) snapshot_honest [of srv]
    by (auto simp: db_client_new_def test_get_latest_snapshot_def c0_def split: outcome.splits prod.splits)
  have cur: "current c0 srv" by (simp add: current_def c0_def)
  then have tr: "tracks c0 srv" using assms(2) by (simp add: current_iff)
  have idx: "length (wal_index c0) = WAL_INDEX_INITIAL_SIZE" by (simp add: c0_def wal_index_new_def)
  from idx show ?thesis
  proof (cases rule: reset_wal_cases [of c0 r1 r2])
    case (ok d)
    then have "d = c" using res by simp
    moreover have "current d srv" by (subst ok(5)) (use cur in \<open>simp add: current_def\<close>)
    ultimately show ?thesis using reset_keeps_inv [OF res tr idx] by simp
  next
    case (panic d)
    then show ?thesis using res by simp
  qed
qed

end

section \<open>The system\<close>

record System =
  replicas :: "nat \<Rightarrow> DbClient option"
  sys_server :: TestDbServerData

definition sys_init :: System where
  "sys_init = \<lparr>replicas = (\<lambda>_. None), sys_server = test_server_new\<rparr>"

definition set_replica :: "nat \<Rightarrow> DbClient \<Rightarrow> System \<Rightarrow> System" where
  "set_replica i c s = s\<lparr>replicas := (replicas s)(i := Some c)\<rparr>"

inductive sys_step :: "System \<Rightarrow> System \<Rightarrow> bool" where
  open_replica: "sys_step s (set_replica i c s)"
    if "honest_wire w" "replicas s i = None" "db_client_new w r1 r2 (sys_server s) = Ok c"
| lock_call: "sys_step s \<lparr>replicas = (replicas s)(i := if r = Panic then None else Some c'),
      sys_server = srv'\<rparr>"
    if "honest_wire w" "replicas s i = Some c" "length (server_history (sys_server s)) + 1 < u64_limit"
      "db_shm_lock w r1 r2 idx n mode op' (c, sys_server s) = (r, (c', srv'))"
| append_call: "sys_step s (set_replica i (append_frame f c) s)"
    if "replicas s i = Some c" "0 < write_locks c" "frame_ok f" "fh_page_number (fst f) \<noteq> 0"
      "length (wal_data c) + FRAME_SIZE < isize_limit"
| index_write: "sys_step s (set_replica i (c\<lparr>wal_index := page\<rparr>) s)"
    if "replicas s i = Some c" "wal_index_mapped c" "length page = WAL_INDEX_INITIAL_SIZE"
| map_call: "sys_step s (set_replica i (snd (db_shm_map a b e c)) s)" if "replicas s i = Some c"
| unmap_call: "sys_step s (set_replica i (snd (db_shm_unmap b c)) s)" if "replicas s i = Some c"

inductive_cases sys_stepE: "sys_step s t"

definition sys_inv :: "System \<Rightarrow> bool" where
  "sys_inv s = (server_inv (sys_server s) \<and>
     (\<forall>i c. replicas s i = Some c \<longrightarrow> client_inv c (sys_server s)))"

lemma sys_inv_init: "sys_inv sys_init"
  by (simp add: sys_inv_def sys_init_def server_inv_new)

lemma sys_inv_set_replica:
  "sys_inv s \<Longrightarrow> client_inv c (sys_server s) \<Longrightarrow> sys_inv (set_replica i c s)"
  by (simp add: sys_inv_def set_replica_def)

lemma sys_server_set_replica [simp]: "sys_server (set_replica i c s) = sys_server s"
  by (simp add: set_replica_def)

lemma map_call_keeps:
  "client_inv c srv \<Longrightarrow> client_inv (snd (db_shm_map a b e c)) srv"
  "client_inv c srv \<Longrightarrow> client_inv (snd (db_shm_unmap d c)) srv"
  by (rule client_inv_update, assumption; simp add: db_shm_map_def db_shm_unmap_def)+

lemma append_call_keeps:
  assumes "client_inv c srv" and "frame_ok f" and "fh_page_number (fst f) \<noteq> 0"
    and "length (wal_data c) + FRAME_SIZE < isize_limit"
  shows "client_inv (append_frame f c) srv"
proof -
  obtain fs where "log_of c fs" using assms(1) by (auto simp: client_inv_def)
  then have "log_of (append_frame f c) (fs @ [f])" using assms(2-4) by (rule append_frame_log)
  then show ?thesis
    using assms(1) append_frame_data [OF assms(4,2)] by (auto simp: client_inv_def tracks_def)
qed

lemma sys_step_inv:
  assumes "sys_step s t" and "sys_inv s"
  shows "sys_inv t \<and> (\<exists>txs. server_history (sys_server t) = server_history (sys_server s) @ txs)"
  using assms
proof (cases rule: sys_step.cases)
  case (open_replica w i r1 r2 c)
  then have "client_inv c (sys_server s)"
    using assms(2) honest_wire.open_gives_inv by (auto simp: sys_inv_def)
  then show ?thesis using open_replica assms(2) sys_inv_set_replica by simp
next
  case (lock_call w i c r1 r2 idx n mode op' r c' srv')
  have inv: "server_inv (sys_server s)" "client_inv c (sys_server s)"
    using assms(2) lock_call(3) by (auto simp: sys_inv_def)
  from honest_wire.shm_lock_keeps_inv [OF lock_call(2,5) inv lock_call(4)] obtain txs where
    keeps: "server_inv srv'" "server_history srv' = server_history (sys_server s) @ txs"
      "r \<noteq> Panic \<longrightarrow> client_inv c' srv'" by blast
  moreover have "client_inv d srv'" if "replicas s j = Some d" for j d
  proof (rule client_inv_mono [OF _ keeps(2)])
    show "client_inv d (sys_server s)" using assms(2) that by (auto simp: sys_inv_def)
  qed
  ultimately show ?thesis using lock_call(1) by (auto simp: sys_inv_def)
next
  case (append_call i c f)
  have "client_inv c (sys_server s)" using assms(2) append_call(2) by (simp add: sys_inv_def)
  from append_call_keeps [OF this append_call(4-6)] append_call(1) assms(2)
  show ?thesis using sys_inv_set_replica by simp
next
  case (index_write i c page)
  then have "client_inv (c\<lparr>wal_index := page\<rparr>) (sys_server s)"
    using assms(2) by (auto simp: sys_inv_def client_inv_def log_of_def tracks_def)
  then show ?thesis using index_write assms(2) sys_inv_set_replica by simp
next
  case (map_call i c a b e)
  have "client_inv c (sys_server s)" using assms(2) map_call(2) by (simp add: sys_inv_def)
  from map_call_keeps(1) [OF this] map_call(1) assms(2) show ?thesis using sys_inv_set_replica by simp
next
  case (unmap_call i c b)
  have "client_inv c (sys_server s)" using assms(2) unmap_call(2) by (simp add: sys_inv_def)
  from map_call_keeps(2) [OF this] unmap_call(1) assms(2) show ?thesis using sys_inv_set_replica by simp
qed

lemma sys_steps_inv:
  assumes "sys_step\<^sup>*\<^sup>* s t" and "sys_inv s"
  shows "sys_inv t \<and> (\<exists>txs. server_history (sys_server t) = server_history (sys_server s) @ txs)"
  using assms(1)
proof (induction rule: rtranclp_induct)
  case base
  then show ?case using assms(2) by simp
next
  case (step t u)
  then show ?case using sys_step_inv [of t u] by auto
qed

section \<open>A write session of SQLite\<close>

text \<open>
  The calls SQLite makes for one write transaction in WAL mode: take a read mark, take the write
  lock, append frames, release the write lock, release the read mark. \<open>rnd\<close> gives the random
  numbers of each call.
\<close>

definition lock_with ::
  "wire \<Rightarrow> u32 \<times> u32 \<Rightarrow> ShmLockIndex \<Rightarrow> ShmLockMode \<Rightarrow> ShmLockOp \<Rightarrow>
   DbClient \<times> TestDbServerData \<Rightarrow> (ErrCtx, unit) outcome \<times> (DbClient \<times> TestDbServerData)" where
  "lock_with w r idx = db_shm_lock w (fst r) (snd r) idx 1"

definition write_session ::
  "wire \<Rightarrow> (nat \<Rightarrow> u32 \<times> u32) \<Rightarrow> frame list \<Rightarrow> DbClient \<times> TestDbServerData \<Rightarrow>
   (ErrCtx, unit) outcome \<times> (DbClient \<times> TestDbServerData)" where
  "write_session w rnd fs cs =
     bind_st (lock_with w (rnd 0) (ReadLock 0) ShmShared ShmLock cs) (\<lambda>_ cs1.
     bind_st (lock_with w (rnd 1) WriteLock ShmExclusive ShmLock cs1) (\<lambda>_ cs2.
     bind_st (lock_with w (rnd 2) WriteLock ShmExclusive ShmUnlock
        (fold append_frame fs (fst cs2), snd cs2)) (\<lambda>_ cs3.
     lock_with w (rnd 3) (ReadLock 0) ShmShared ShmUnlock cs3)))"

lemma append_frames_data:
  assumes "length (wal_data c) + length fs * FRAME_SIZE < isize_limit" and "list_all frame_ok fs"
  shows "fold append_frame fs c = c\<lparr>wal_data := wal_data c @ enc_frames fs\<rparr>"
  using assms
proof (induction fs arbitrary: c)
  case Nil
  then show ?case by simp
next
  case (Cons f fs)
  have step: "append_frame f c = c\<lparr>wal_data := wal_data c @ enc_frame f\<rparr>"
    by (rule append_frame_data) (use Cons.prems in simp_all)
  have len: "length (enc_frame f) = FRAME_SIZE" using Cons.prems by (simp add: length_enc_frame)
  show ?case
    using Cons.IH [of "c\<lparr>wal_data := wal_data c @ enc_frame f\<rparr>"] Cons.prems len
    by (simp add: step add.assoc)
qed

text \<open>A replica between transactions, with two log resets to go before the salt runs out.\<close>

definition idle :: "DbClient \<Rightarrow> bool" where
  "idle c = (write_locks c = 0 \<and> read_locks c = 0 \<and> length (wal_data c) = WAL_HEADER_SIZE \<and>
     length (wal_index c) = WAL_INDEX_INITIAL_SIZE \<and>
     be32_at (wal_data c) 16 \<notin> {0, 0xfffffffe, 0xffffffff})"

lemma salt_succ_ok: "(\<sigma> :: u32) \<notin> {0, 0xfffffffe, 0xffffffff} \<Longrightarrow> \<sigma> + 1 \<noteq> 0xffffffff"
proof
  assume "\<sigma> \<notin> {0, 0xfffffffe, 0xffffffff}" and "\<sigma> + 1 = 0xffffffff"
  then have "\<sigma> = 0xffffffff - 1" by (metis add_diff_cancel_right')
  with \<open>\<sigma> \<notin> _\<close> show False by simp
qed

context faithful_wire
begin

lemma session_begin:
  assumes "server_inv srv" and "tracks c srv" and "idle c"
  obtains c1 where
    "lock_with w r (ReadLock 0) ShmShared ShmLock (c, srv) = (Ok (), (c1\<lparr>read_locks := 1\<rparr>, srv))"
    "current c1 srv" "log_ready c1" "length (wal_data c1) = WAL_HEADER_SIZE"
    "write_locks c1 = 0" "read_locks c1 = 0"
proof -
  have ready: "log_ready c" using assms(3) by (auto simp: idle_def log_ready_def)
  obtain c1 where c1: "pull_changes w (fst r) (snd r) srv c = (Ok (), c1)" "current c1 srv"
    "c1 = c\<lparr>db_data := db_data c1, server_version := server_version c1,
        wal_data := wal_data c1, wal_index := wal_index c1\<rparr>"
    "c1 = c \<or> length (wal_data c1) = WAL_HEADER_SIZE \<and> length (wal_index c1) = WAL_INDEX_INITIAL_SIZE \<and>
      be32_at (wal_data c1) 16 =
        (if be32_at (wal_data c) 16 = 0 then fst r else be32_at (wal_data c) 16 + 1)"
    by (rule pull_current [OF assms(1,2) ready, of "fst r" "snd r"]) blast
  have locks: "write_locks c1 = 0" "read_locks c1 = 0"
    by (subst c1(3), use assms(3) in \<open>simp add: idle_def\<close>)+
  have "log_ready c1" "length (wal_data c1) = WAL_HEADER_SIZE"
    using c1(4) ready assms(3) salt_succ_ok [of "be32_at (wal_data c) 16"]
    by (auto simp: idle_def log_ready_def)
  moreover have "lock_with w r (ReadLock 0) ShmShared ShmLock (c, srv) =
      (Ok (), (c1\<lparr>read_locks := 1\<rparr>, srv))"
    using c1(1) assms(3) locks by (simp add: lock_with_def db_shm_lock_def maybe_begin_tx_def idle_def)
  ultimately show thesis using that c1(2) locks by blast
qed

lemma write_session_run:
  assumes "server_inv srv" and "tracks c srv" and "idle c"
    and fs: "list_all (\<lambda>f. frame_ok f \<and> fh_page_number (fst f) \<noteq> 0) fs" "committed_txs [] fs = [tx]"
    and "WAL_HEADER_SIZE + length fs * FRAME_SIZE < isize_limit"
    and "length (server_history srv) + 1 < u64_limit"
  shows "\<exists>c' srv'. write_session w rnd fs (c, srv) = (Ok (), (c', srv')) \<and> server_inv srv' \<and>
    server_history srv' = server_history srv @ [tx] \<and> tracks c' srv' \<and>
    write_locks c' = 0 \<and> read_locks c' = 0 \<and> wal_sealed (wal_data c')"
proof -
  obtain c1 where c1:
    "lock_with w (rnd 0) (ReadLock 0) ShmShared ShmLock (c, srv) = (Ok (), (c1\<lparr>read_locks := 1\<rparr>, srv))"
    "current c1 srv" "log_ready c1" "length (wal_data c1) = WAL_HEADER_SIZE"
    "write_locks c1 = 0" "read_locks c1 = 0"
    by (rule session_begin [OF assms(1-3), of "rnd 0"])
  define c2 where "c2 = c1\<lparr>had_write := True, wal_data := wal_data c1 @ enc_frames fs\<rparr>"
  have ok: "list_all frame_ok fs" using fs(1) by (auto simp: list_all_iff)
  have app: "fold append_frame fs (c1\<lparr>read_locks := 1, write_locks := 1, had_write := True\<rparr>) =
      c2\<lparr>read_locks := 1, write_locks := 1\<rparr>"
    using append_frames_data [of "c1\<lparr>read_locks := 1, write_locks := 1, had_write := True\<rparr>" fs]
      assms(6) ok c1(4) by (simp add: c2_def)
  have log: "log_of c2 fs" using c1(4) fs(1) by (simp add: log_of_def c2_def)
  have ready: "log_ready c2"
    using c1(3,4) by (simp add: log_ready_def c2_def be32_at_def WAL_HEADER_SIZE_def)
  have cur: "tracks c1 srv" "server_version c1 = length (server_history srv)"
    using c1(2) assms(1) by (auto simp: current_iff)
  have wf: "list_all wf_tx [tx]" using committed_txs_wf [of "[]" fs] fs by simp
  obtain srv' where srv': "send_txs w (server_version c2) [tx] srv = (Ok (), srv')" "server_inv srv'"
    "server_history srv' = server_history srv @ [tx]"
    using send_txs_outcome(2) [OF assms(1) wf _ refl, of "server_version c2"] assms(7) cur(2)
    by (auto simp: c2_def)
  obtain c' where c': "reset_wal (fst (rnd 3)) (snd (rnd 3)) c2 = (Ok (), c')" "wal_sealed (wal_data c')"
    "db_data c' = db_data c2" "server_version c' = server_version c2"
    "write_locks c' = write_locks c2" "read_locks c' = read_locks c2"
    by (rule end_tx_reset [OF ready])
  have l2: "read_locks c2 = 0" "write_locks c2 = 0" "had_write c2" using c1(5,6) by (auto simp: c2_def)
  have fin: "maybe_end_tx w (fst (rnd 3)) (snd (rnd 3)) (c2, srv) =
      (Ok (), (c'\<lparr>had_write := False\<rparr>, srv'))"
    using l2 send_commits_log [OF log] srv'(1) c'(1) fs(2) by (simp add: maybe_end_tx_def)
  have s2: "lock_with w (rnd 1) WriteLock ShmExclusive ShmLock (c1\<lparr>read_locks := 1\<rparr>, srv) =
      (Ok (), (c1\<lparr>read_locks := 1, write_locks := 1, had_write := True\<rparr>, srv))"
    using c1(5) by (simp add: lock_with_def db_shm_lock_def maybe_begin_tx_def)
  have s3: "lock_with w (rnd 2) WriteLock ShmExclusive ShmUnlock
      (c2\<lparr>read_locks := 1, write_locks := 1\<rparr>, srv) = (Ok (), (c2\<lparr>read_locks := 1, write_locks := 0\<rparr>, srv))"
    by (simp add: lock_with_def db_shm_lock_def maybe_end_tx_def)
  have "c2\<lparr>read_locks := 1, write_locks := 0, read_locks := 0\<rparr> = c2"
    using c1(5,6) by (simp add: c2_def)
  then have s4: "lock_with w (rnd 3) (ReadLock 0) ShmShared ShmUnlock
      (c2\<lparr>read_locks := 1, write_locks := 0\<rparr>, srv) = (Ok (), (c'\<lparr>had_write := False\<rparr>, srv'))"
    using fin by (simp add: lock_with_def db_shm_lock_def)
  have "write_session w rnd fs (c, srv) = (Ok (), (c'\<lparr>had_write := False\<rparr>, srv'))"
    by (simp add: write_session_def c1(1) s2 app s3 s4 del: One_nat_def)
  moreover have "tracks (c'\<lparr>had_write := False\<rparr>) srv'"
    using tracks_mono [OF cur(1) srv'(3)] c'(3,4) by (simp add: tracks_def c2_def)
  ultimately show ?thesis using srv'(2,3) c'(2,5,6) l2 by auto
qed

end

lemma open_replica_total:
  assumes "server_inv srv"
  obtains c where "db_client_new ideal_wire r1 r2 srv = Ok c"
proof -
  let ?c0 = "\<lparr>server_version = latest_snapshot_version srv, db_data = latest_snapshot srv,
    wal_data = replicate WAL_HEADER_SIZE 0, wal_index = wal_index_new, wal_index_mapped = False,
    write_locks = 0, read_locks = 0, had_write = False, pending_open = None\<rparr>"
  have "be32_at (replicate WAL_HEADER_SIZE 0) 16 = 0"
    by (simp add: be32_at_def size_defs numeral_eq_Suc)
  then have "log_ready ?c0" by (simp add: log_ready_def wal_index_new_def)
  then obtain c where "reset_wal r1 r2 ?c0 = (Ok (), c)" by (rule reset_wal_ok [where ?r1.0 = r1 and ?r2.0 = r2])
  then have "db_client_new ideal_wire r1 r2 srv = Ok c"
    by (simp add: db_client_new_def ideal.remote_is_local test_get_latest_snapshot_def)
  then show thesis by (rule that)
qed

lemma opened_run: "\<exists>c. db_client_new ideal_wire 1 2 test_server_new = Ok c \<and>
    sys_step\<^sup>*\<^sup>* sys_init (set_replica 0 c sys_init)"
proof -
  obtain c where "db_client_new ideal_wire 1 2 test_server_new = Ok c"
    by (rule open_replica_total [OF server_inv_new, of 1 2])
  moreover from this have "sys_step sys_init (set_replica 0 c sys_init)"
    by (intro sys_step.open_replica [OF ideal.honest_wire_axioms]) (simp_all add: sys_init_def)
  ultimately show ?thesis by blast
qed

section \<open>Properties\<close>

text \<open>
  C2. In every state the system can reach, with replicas opening, locking, appending frames and
  crashing in any interleaving and with lost messages: the server's snapshot is the replay of a
  gap-free history, every replica's image is the replay of a prefix of that history, and two
  replicas at the same version have the same image.
\<close>

theorem replicas_hold_prefixes:
  assumes "sys_step\<^sup>*\<^sup>* sys_init s"
  shows "server_inv (sys_server s) \<and>
    (\<forall>i c. replicas s i = Some c \<longrightarrow>
       server_version c \<le> length (server_history (sys_server s)) \<and>
       db_data c = replay make_initial_db (take (server_version c) (server_history (sys_server s)))) \<and>
    (\<forall>i j c d. replicas s i = Some c \<longrightarrow> replicas s j = Some d \<longrightarrow>
       server_version c = server_version d \<longrightarrow> db_data c = db_data d)"
proof -
  have "sys_inv s" using sys_steps_inv [OF assms sys_inv_init] by simp
  then show ?thesis by (auto simp: sys_inv_def client_inv_def tracks_def test_server.at_version_def)
qed

theorem replicas_hold_prefixes_witness:
  "\<exists>s c. sys_step\<^sup>*\<^sup>* sys_init s \<and> replicas s 0 = Some c \<and>
     db_data c = replay make_initial_db (take (server_version c) (server_history (sys_server s)))"
proof -
  obtain c where run: "sys_step\<^sup>*\<^sup>* sys_init (set_replica 0 c sys_init)" using opened_run by blast
  have c: "replicas (set_replica 0 c sys_init) 0 = Some c" by (simp add: set_replica_def)
  with replicas_hold_prefixes [OF run] run show ?thesis by blast
qed

text \<open>
  C3. Committed transactions are durable and ordered: along every run the server's history is
  only extended at its end, so the image at an old version never changes.
\<close>

theorem history_append_only:
  assumes "sys_step\<^sup>*\<^sup>* sys_init s" and "sys_step\<^sup>*\<^sup>* s t"
  shows "\<exists>txs. server_history (sys_server t) = server_history (sys_server s) @ txs \<and>
    latest_snapshot (sys_server t) = replay (latest_snapshot (sys_server s)) txs"
proof -
  have s: "sys_inv s" using sys_steps_inv [OF assms(1) sys_inv_init] by simp
  from sys_steps_inv [OF assms(2) s] obtain txs where
    t: "sys_inv t" "server_history (sys_server t) = server_history (sys_server s) @ txs" by blast
  then have "latest_snapshot (sys_server t) = replay (latest_snapshot (sys_server s)) txs"
    using s by (simp add: sys_inv_def server_inv_def replay_append)
  with t(2) show ?thesis by blast
qed

theorem history_append_only_witness:
  "\<exists>t txs. sys_step\<^sup>*\<^sup>* sys_init t \<and> t \<noteq> sys_init \<and>
     server_history (sys_server t) = server_history (sys_server sys_init) @ txs"
proof -
  obtain c where run: "sys_step\<^sup>*\<^sup>* sys_init (set_replica 0 c sys_init)" using opened_run by blast
  moreover have "set_replica 0 c sys_init \<noteq> sys_init"
    by (auto simp: set_replica_def sys_init_def fun_eq_iff dest: arg_cong [of _ _ replicas])
  ultimately show ?thesis using history_append_only [OF rtranclp.rtrancl_refl run] by blast
qed

lemma sample_client_idle: "idle (sample_client [])"
proof -
  have "be32_at (enc_wal_header sample_wal_header) 16 = 5"
    by (simp add: enc_wal_header_def codec_simps sample_wal_header_def)
  then show ?thesis
    by (simp add: idle_def sample_client_def wal_index_new_def length_enc_wal_header)
qed

end
