(* ===== verification/PluginVfs.thy ===== *)
theory PluginVfs
  imports PluginFlags
begin

text \<open>
  \<^verbatim>\<open>sqlite-plugin/src/vfs.rs\<close>: the trait \<^verbatim>\<open>Vfs\<close> and the C functions that SQLite calls, each of
  which checks its pointers and integers, calls one trait method and turns the result into a
  result code; and \<^verbatim>\<open>sqlite-plugin/src/logger.rs\<close>.

  The trait is a record of functions over the handle type \<open>'h\<close> and the state \<open>'s\<close> of the VFS, and
  the C functions take it as an argument. A C pointer that may be null is an option; a buffer is
  its contents, of the length the caller passes; C strings arrive decoded, one \<open>char\<close> per byte.
  A panic inside an \<^verbatim>\<open>extern "C"\<close> function ends the process, which is the result code \<open>None\<close>; so
  is a call on a file that is not open, which SQLite does not make.
\<close>

type_synonym SqliteErr = i32
type_synonym 'a VfsResult = "(SqliteErr, 'a) outcome"
type_synonym c_result = "i32 option"

section \<open>Constants\<close>

definition MIN_SQLITE_VERSION_NUMBER :: i32 where "MIN_SQLITE_VERSION_NUMBER = 3043000"
definition DEFAULT_MAX_PATH_LEN :: i32 where "DEFAULT_MAX_PATH_LEN = 512"
definition DEFAULT_SECTOR_SIZE :: i32 where "DEFAULT_SECTOR_SIZE = 4096"

definition DEFAULT_DEVICE_CHARACTERISTICS :: i32 where
  "DEFAULT_DEVICE_CHARACTERISTICS =
     SQLITE_IOCAP_ATOMIC OR SQLITE_IOCAP_POWERSAFE_OVERWRITE OR SQLITE_IOCAP_SAFE_APPEND OR
     SQLITE_IOCAP_SEQUENTIAL"

section \<open>The trait\<close>

record Pragma =
  pragma_name :: string
  pragma_arg :: "string option"

datatype PragmaErr = PragmaNotFound | PragmaFail SqliteErr "string option"

definition required_arg :: "Pragma \<Rightarrow> PragmaErr" where
  "required_arg p =
     PragmaFail SQLITE_ERROR
       (Some (''argument required (e.g. `pragma '' @ pragma_name p @ '' = ...`)''))"

type_synonym SqliteLogger = "i32 \<Rightarrow> string \<Rightarrow> string"

record ('h, 's) Vfs =
  vf_register_logger :: "SqliteLogger \<Rightarrow> 's \<Rightarrow> 's"
  vf_readonly :: "'h \<Rightarrow> bool"
  vf_in_memory :: "'h \<Rightarrow> bool"
  vf_canonical_path :: "string \<Rightarrow> 's \<Rightarrow> string VfsResult \<times> 's"
  vf_open :: "string option \<Rightarrow> OpenOpts \<Rightarrow> 's \<Rightarrow> 'h VfsResult \<times> 's"
  vf_delete :: "string \<Rightarrow> 's \<Rightarrow> unit VfsResult \<times> 's"
  vf_access :: "string \<Rightarrow> AccessFlags \<Rightarrow> 's \<Rightarrow> bool VfsResult \<times> 's"
  vf_file_size :: "'h \<times> 's \<Rightarrow> nat VfsResult \<times> ('h \<times> 's)"
  vf_truncate :: "nat \<Rightarrow> 'h \<times> 's \<Rightarrow> unit VfsResult \<times> ('h \<times> 's)"
  vf_write :: "nat \<Rightarrow> bytes \<Rightarrow> 'h \<times> 's \<Rightarrow> nat VfsResult \<times> ('h \<times> 's)"
  vf_read :: "nat \<Rightarrow> bytes \<Rightarrow> 'h \<times> 's \<Rightarrow> (nat VfsResult \<times> bytes) \<times> ('h \<times> 's)"
  vf_lock :: "LockLevel \<Rightarrow> 'h \<times> 's \<Rightarrow> unit VfsResult \<times> ('h \<times> 's)"
  vf_unlock :: "LockLevel \<Rightarrow> 'h \<times> 's \<Rightarrow> unit VfsResult \<times> ('h \<times> 's)"
  vf_sync :: "'h \<times> 's \<Rightarrow> unit VfsResult \<times> ('h \<times> 's)"
  vf_close :: "'h \<Rightarrow> 's \<Rightarrow> unit VfsResult \<times> 's"
  vf_pragma :: "Pragma \<Rightarrow> 'h \<times> 's \<Rightarrow> (PragmaErr, string option) outcome \<times> ('h \<times> 's)"
  vf_sector_size :: i32
  vf_device_characteristics :: i32
  vf_shm_map :: "nat \<Rightarrow> nat \<Rightarrow> bool \<Rightarrow> 'h \<times> 's \<Rightarrow> nat VfsResult \<times> ('h \<times> 's)"
  vf_shm_lock :: "ShmLockIndex \<Rightarrow> nat \<Rightarrow> ShmLockMode \<Rightarrow> ShmLockOp \<Rightarrow> 'h \<times> 's \<Rightarrow> unit VfsResult \<times> ('h \<times> 's)"
  vf_shm_barrier :: "'h \<times> 's \<Rightarrow> unit VfsResult \<times> ('h \<times> 's)"
  vf_shm_unmap :: "bool \<Rightarrow> 'h \<times> 's \<Rightarrow> unit VfsResult \<times> ('h \<times> 's)"

text \<open>The default methods of the trait.\<close>

definition default_unit :: "'a \<Rightarrow> unit VfsResult \<times> 'a" where
  "default_unit hs = (Ok (), hs)"

definition default_pragma :: "Pragma \<Rightarrow> 'a \<Rightarrow> (PragmaErr, string option) outcome \<times> 'a" where
  "default_pragma p hs = (Err PragmaNotFound, hs)"

definition default_canonical_path :: "string \<Rightarrow> 's \<Rightarrow> string VfsResult \<times> 's" where
  "default_canonical_path path s = (Ok path, s)"

section \<open>What SQLite provides\<close>

text \<open>
  The functions of the host SQLite that the plugin calls. \<open>api_mprintf\<close> is the string that
  \<^verbatim>\<open>sqlite3_mprintf\<close> allocates for a format string without arguments, \<open>None\<close> when it returns
  null; the functions of the base VFS are \<open>None\<close> where its table has null pointers.
\<close>

record BaseVfs =
  b_dlopen :: "(string \<Rightarrow> nat option) option"
  b_dlerror :: "(i32 \<Rightarrow> string) option"
  b_dlsym :: "(nat \<Rightarrow> string \<Rightarrow> fn_ptr) option"
  b_dlclose :: "(nat \<Rightarrow> string) option"
  b_randomness :: "(i32 \<Rightarrow> i32) option"
  b_sleep :: "(i32 \<Rightarrow> i32) option"
  b_current_time :: "i32 option"
  b_current_time_int64 :: "i32 option"

record SqliteApi =
  api_register :: "sqlite3_vfs \<Rightarrow> bool \<Rightarrow> i32"
  api_find :: "BaseVfs option"
  api_mprintf :: "string \<Rightarrow> string option"
  api_log :: SqliteLogger
  api_libversion_number :: i32

text \<open>The members of \<^verbatim>\<open>sqlite3_api_routines\<close> that are read, each possibly null.\<close>

record api_routines_used =
  ar_vfs_register :: "(sqlite3_vfs \<Rightarrow> bool \<Rightarrow> i32) option"
  ar_vfs_find :: "BaseVfs option option"
  ar_mprintf :: "(string \<Rightarrow> string option) option"
  ar_log :: "SqliteLogger option"
  ar_libversion_number :: "i32 option"

definition new_dynamic :: "api_routines_used \<Rightarrow> SqliteApi VfsResult" where
  "new_dynamic api =
     (case (ar_vfs_register api, ar_vfs_find api, ar_mprintf api, ar_log api, ar_libversion_number api) of
        (Some reg, Some fnd, Some pr, Some lg, Some ver) \<Rightarrow>
          Ok \<lparr>api_register = reg, api_find = fnd, api_mprintf = pr, api_log = lg,
              api_libversion_number = ver\<rparr>
      | _ \<Rightarrow> Err SQLITE_INTERNAL)"

text \<open>
  \<^verbatim>\<open>SqliteApi::mprintf\<close>: an interior NUL makes \<^verbatim>\<open>CString::new\<close> fail; the string is passed as the
  format. On success the allocated string is written to the caller's slot.
\<close>

definition NUL :: char where "NUL = CHR 0x00"

definition plugin_mprintf :: "SqliteApi \<Rightarrow> string \<Rightarrow> string VfsResult" where
  "plugin_mprintf api s =
     (if NUL \<in> set s then Err SQLITE_INTERNAL
      else case api_mprintf api s of None \<Rightarrow> Err SQLITE_NOMEM | Some p \<Rightarrow> Ok p)"

record ('h, 's) AppData =
  base_vfs :: "BaseVfs option"
  app_vfs :: "('h, 's) Vfs"
  io_methods :: sqlite3_io_methods
  sqlite_api :: SqliteApi

text \<open>A \<^verbatim>\<open>FileWrapper\<close>: the memory SQLite allocated for the file. The handle is \<open>None\<close> while uninitialised.\<close>

record ('h, 's) FileWrapper =
  fw_pMethods :: "sqlite3_io_methods option"
  fw_vfs :: "('h, 's) AppData option"
  fw_handle :: "'h option"

section \<open>Helpers of the C functions\<close>

fun fallible :: "i32 VfsResult \<Rightarrow> c_result" where
  "fallible (Ok code) = Some code"
| "fallible (Err err) = Some err"
| "fallible Panic = None"

text \<open>\<^verbatim>\<open>lossy_cstr\<close>, \<^verbatim>\<open>unwrap_appdata!\<close>, \<^verbatim>\<open>unwrap_file!\<close>: a null pointer is \<^verbatim>\<open>SQLITE_INTERNAL\<close>.\<close>

definition nonnull :: "SqliteErr \<Rightarrow> 'a option \<Rightarrow> 'a VfsResult" where
  "nonnull e p = (case p of None \<Rightarrow> Err e | Some a \<Rightarrow> Ok a)"

text \<open>\<^verbatim>\<open>i.try_into::<usize>().map_err(|_| e)\<close> on a signed integer.\<close>

definition to_usize :: "SqliteErr \<Rightarrow> 'w::len word \<Rightarrow> nat VfsResult" where
  "to_usize e i = (if sint i < 0 then Err e else Ok (nat (sint i)))"

definition bind_r :: "('e, 'a) outcome \<Rightarrow> ('a \<Rightarrow> ('e, 'b) outcome \<times> 's) \<Rightarrow> 's \<Rightarrow> ('e, 'b) outcome \<times> 's" where
  "bind_r r k s = (case r of Ok a \<Rightarrow> k a | Err e \<Rightarrow> (Err e, s) | Panic \<Rightarrow> (Panic, s))"

lemma bind_r_simps [simp, outcome_simps]:
  "bind_r (Ok a) k s = k a" "bind_r (Err e) k s = (Err e, s)" "bind_r Panic k s = (Panic, s)"
  by (simp_all add: bind_r_def)

text \<open>A decoder of \<^verbatim>\<open>flags.rs\<close> that panics on a value it does not know.\<close>

definition decoded :: "'a option \<Rightarrow> 'a VfsResult" where
  "decoded d = (case d of Some a \<Rightarrow> Ok a | None \<Rightarrow> Panic)"

text \<open>Every file method starts by unwrapping the file and its VFS.\<close>

definition on_file ::
  "('h, 's) FileWrapper option \<Rightarrow> 's \<Rightarrow>
   (('h, 's) AppData \<Rightarrow> 'h \<times> 's \<Rightarrow> i32 VfsResult \<times> ('h \<times> 's)) \<Rightarrow>
   c_result \<times> (('h, 's) FileWrapper option \<times> 's)" where
  "on_file p_file s k =
     (case p_file of
        None \<Rightarrow> (Some SQLITE_INTERNAL, (None, s))
      | Some f \<Rightarrow>
          (case fw_vfs f of
             None \<Rightarrow> (Some SQLITE_INTERNAL, (Some f, s))
           | Some app \<Rightarrow>
               (case fw_handle f of
                  None \<Rightarrow> (None, (Some f, s))
                | Some h \<Rightarrow>
                    (case k app (h, s) of
                       (r, (h', s')) \<Rightarrow> (fallible r, (Some (f\<lparr>fw_handle := Some h'\<rparr>), s'))))))"

definition ok_code :: "unit VfsResult \<times> 'a \<Rightarrow> i32 VfsResult \<times> 'a" where
  "ok_code r = bind_st r (\<lambda>_ a. (Ok SQLITE_OK, a))"

section \<open>File system operations\<close>

definition x_open ::
  "('h, 's) AppData option \<Rightarrow> string option \<Rightarrow> ('h, 's) FileWrapper option \<Rightarrow> i32 \<Rightarrow> i32 option \<Rightarrow> 's \<Rightarrow>
   c_result \<times> (('h, 's) FileWrapper option \<times> i32 option \<times> 's)" where
  "x_open p_vfs z_name p_file flags p_out_flags s =
     (case p_vfs of
        None \<Rightarrow> (Some SQLITE_INTERNAL, (p_file, p_out_flags, s))
      | Some app \<Rightarrow>
          (case vf_open (app_vfs app) z_name (open_opts_new flags) s of
             (Ok handle, s') \<Rightarrow>
               (case p_file of
                  None \<Rightarrow> (Some SQLITE_INTERNAL, (p_file, p_out_flags, s'))
                | Some f \<Rightarrow>
                    (let out1 = (if vf_readonly (app_vfs app) handle
                                 then flags OR SQLITE_OPEN_READONLY else flags);
                         out2 = (if vf_in_memory (app_vfs app) handle
                                 then out1 OR SQLITE_OPEN_MEMORY else out1)
                     in (Some SQLITE_OK,
                         (Some (f\<lparr>fw_pMethods := Some (io_methods app), fw_vfs := Some app,
                                  fw_handle := Some handle\<rparr>),
                          map_option (\<lambda>_. out2) p_out_flags, s'))))
           | (Err e, s') \<Rightarrow> (Some e, (p_file, p_out_flags, s'))
           | (Panic, s') \<Rightarrow> (None, (p_file, p_out_flags, s'))))"

definition x_delete ::
  "('h, 's) AppData option \<Rightarrow> string option \<Rightarrow> i32 \<Rightarrow> 's \<Rightarrow> c_result \<times> 's" where
  "x_delete p_vfs z_name sync_dir s =
     (case bind_r (nonnull SQLITE_INTERNAL z_name) (\<lambda>name.
           bind_r (nonnull SQLITE_INTERNAL p_vfs) (\<lambda>app.
             ok_code (vf_delete (app_vfs app) name s)) s) s of
        (r, s') \<Rightarrow> (fallible r, s'))"

definition x_access ::
  "('h, 's) AppData option \<Rightarrow> string option \<Rightarrow> i32 \<Rightarrow> i32 option \<Rightarrow> 's \<Rightarrow>
   c_result \<times> (i32 option \<times> 's)" where
  "x_access p_vfs z_name flags p_res_out s =
     (case bind_r (nonnull SQLITE_INTERNAL z_name) (\<lambda>name.
           bind_r (nonnull SQLITE_INTERNAL p_vfs) (\<lambda>app.
             (case vf_access (app_vfs app) name (access_flags_from flags) s of
                (Ok result, s') \<Rightarrow>
                  (case p_res_out of
                     None \<Rightarrow> (Err SQLITE_IOERR_ACCESS, (p_res_out, s'))
                   | Some _ \<Rightarrow> (Ok SQLITE_OK, (Some (if result then 1 else 0), s')))
              | (Err e, s') \<Rightarrow> (Err e, (p_res_out, s'))
              | (Panic, s') \<Rightarrow> (Panic, (p_res_out, s')))) (p_res_out, s)) (p_res_out, s) of
        (r, rs) \<Rightarrow> (fallible r, rs))"

text \<open>
  \<open>z_out\<close> is a buffer of \<open>n_out\<close> bytes. With \<open>n_out = 0\<close> the subtraction overflows; in an
  unchecked build the indexing after it panics instead.
\<close>

definition x_full_pathname ::
  "('h, 's) AppData option \<Rightarrow> string option \<Rightarrow> i32 \<Rightarrow> string \<Rightarrow> 's \<Rightarrow> c_result \<times> (string \<times> 's)" where
  "x_full_pathname p_vfs z_name n_out z_out s =
     (case bind_r (nonnull SQLITE_INTERNAL z_name) (\<lambda>name.
           bind_r (nonnull SQLITE_INTERNAL p_vfs) (\<lambda>app.
             bind_st (case vf_canonical_path (app_vfs app) name s of (r, s') \<Rightarrow> (r, (z_out, s')))
               (\<lambda>full_name zs.
                 bind_r (to_usize SQLITE_INTERNAL n_out) (\<lambda>n.
                   if n = 0 then (Panic, zs)
                   else let from = take (min (length full_name) (n - 1)) full_name
                        in (Ok SQLITE_OK,
                            (write_at 0 (from @ [NUL]) (fst zs), snd zs))) zs)) (z_out, s)) (z_out, s) of
        (r, zs) \<Rightarrow> (fallible r, zs))"

section \<open>File operations\<close>

definition x_close ::
  "('h, 's) FileWrapper option \<Rightarrow> 's \<Rightarrow> c_result \<times> (('h, 's) FileWrapper option \<times> 's)" where
  "x_close p_file s =
     (case p_file of
        None \<Rightarrow> (Some SQLITE_INTERNAL, (None, s))
      | Some f \<Rightarrow>
          (case fw_vfs f of
             None \<Rightarrow> (Some SQLITE_INTERNAL, (Some f, s))
           | Some app \<Rightarrow>
               (case fw_handle f of
                  None \<Rightarrow> (None, (Some f, s))
                | Some h \<Rightarrow>
                    (case ok_code (vf_close (app_vfs app) h s) of
                       (r, s') \<Rightarrow> (fallible r, (Some (f\<lparr>fw_handle := None\<rparr>), s'))))))"

definition x_read ::
  "('h, 's) FileWrapper option \<Rightarrow> bytes \<Rightarrow> i32 \<Rightarrow> 64 word \<Rightarrow> 's \<Rightarrow>
   (c_result \<times> bytes) \<times> (('h, 's) FileWrapper option \<times> 's)" where
  "x_read p_file buf i_amt i_ofst s =
     (case p_file of
        None \<Rightarrow> ((Some SQLITE_INTERNAL, buf), (None, s))
      | Some f \<Rightarrow>
          (case fw_vfs f of
             None \<Rightarrow> ((Some SQLITE_INTERNAL, buf), (Some f, s))
           | Some app \<Rightarrow>
               (case (to_usize SQLITE_IOERR_READ i_amt, to_usize SQLITE_IOERR_READ i_ofst) of
                  (Ok buf_len, Ok offset) \<Rightarrow>
                    (case fw_handle f of
                       None \<Rightarrow> ((None, buf), (Some f, s))
                     | Some h \<Rightarrow>
                         (case vf_read (app_vfs app) offset (take buf_len buf) (h, s) of
                            ((r, buf'), (h', s')) \<Rightarrow>
                              ((case r of Ok _ \<Rightarrow> Some SQLITE_OK | Err e \<Rightarrow> Some e | Panic \<Rightarrow> None,
                                buf' @ drop buf_len buf),
                               (Some (f\<lparr>fw_handle := Some h'\<rparr>), s'))))
                | _ \<Rightarrow> ((Some SQLITE_IOERR_READ, buf), (Some f, s)))))"

definition x_write ::
  "('h, 's) FileWrapper option \<Rightarrow> bytes \<Rightarrow> i32 \<Rightarrow> 64 word \<Rightarrow> 's \<Rightarrow>
   c_result \<times> (('h, 's) FileWrapper option \<times> 's)" where
  "x_write p_file buf i_amt i_ofst s =
     on_file p_file s (\<lambda>app hs.
       bind_r (to_usize SQLITE_IOERR_WRITE i_amt) (\<lambda>buf_len.
       bind_r (to_usize SQLITE_IOERR_WRITE i_ofst) (\<lambda>offset.
         bind_st (vf_write (app_vfs app) offset (take buf_len buf) hs) (\<lambda>n hs'.
           if n \<noteq> buf_len then (Err SQLITE_IOERR_WRITE, hs') else (Ok SQLITE_OK, hs'))) hs) hs)"

definition x_truncate ::
  "('h, 's) FileWrapper option \<Rightarrow> 64 word \<Rightarrow> 's \<Rightarrow> c_result \<times> (('h, 's) FileWrapper option \<times> 's)" where
  "x_truncate p_file sz s =
     on_file p_file s (\<lambda>app hs.
       bind_r (to_usize SQLITE_IOERR_TRUNCATE sz) (\<lambda>n. ok_code (vf_truncate (app_vfs app) n hs)) hs)"

definition x_sync ::
  "('h, 's) FileWrapper option \<Rightarrow> i32 \<Rightarrow> 's \<Rightarrow> c_result \<times> (('h, 's) FileWrapper option \<times> 's)" where
  "x_sync p_file flags s = on_file p_file s (\<lambda>app hs. ok_code (vf_sync (app_vfs app) hs))"

definition x_file_size ::
  "('h, 's) FileWrapper option \<Rightarrow> 64 word option \<Rightarrow> 's \<Rightarrow>
   (c_result \<times> 64 word option) \<times> (('h, 's) FileWrapper option \<times> 's)" where
  "x_file_size p_file p_size s =
     (case p_file of
        None \<Rightarrow> ((Some SQLITE_INTERNAL, p_size), (None, s))
      | Some f \<Rightarrow>
          (case fw_vfs f of
             None \<Rightarrow> ((Some SQLITE_INTERNAL, p_size), (Some f, s))
           | Some app \<Rightarrow>
               (case fw_handle f of
                  None \<Rightarrow> ((None, p_size), (Some f, s))
                | Some h \<Rightarrow>
                    (case vf_file_size (app_vfs app) (h, s) of
                       (r, (h', s')) \<Rightarrow>
                         ((case r of
                             Ok n \<Rightarrow>
                               (if p_size = None then (Some SQLITE_INTERNAL, p_size)
                                else if 2 ^ 63 \<le> n then (Some SQLITE_IOERR_FSTAT, p_size)
                                else (Some SQLITE_OK, Some (of_nat n)))
                           | Err e \<Rightarrow> (Some e, p_size)
                           | Panic \<Rightarrow> (None, p_size)),
                          (Some (f\<lparr>fw_handle := Some h'\<rparr>), s'))))))"

text \<open>The level is decoded before the file is looked at: an invalid one panics.\<close>

definition x_lock ::
  "('h, 's) FileWrapper option \<Rightarrow> i32 \<Rightarrow> 's \<Rightarrow> c_result \<times> (('h, 's) FileWrapper option \<times> 's)" where
  "x_lock p_file raw_lock s =
     (case lock_level_from raw_lock of
        None \<Rightarrow> (None, (p_file, s))
      | Some level \<Rightarrow> on_file p_file s (\<lambda>app hs. ok_code (vf_lock (app_vfs app) level hs)))"

definition x_unlock ::
  "('h, 's) FileWrapper option \<Rightarrow> i32 \<Rightarrow> 's \<Rightarrow> c_result \<times> (('h, 's) FileWrapper option \<times> 's)" where
  "x_unlock p_file raw_lock s =
     (case lock_level_from raw_lock of
        None \<Rightarrow> (None, (p_file, s))
      | Some level \<Rightarrow> on_file p_file s (\<lambda>app hs. ok_code (vf_unlock (app_vfs app) level hs)))"

text \<open>
  \<open>p_arg\<close> of a pragma is an array of three strings: slot 0 receives the message, slot 1 is the
  name and slot 2 the argument or null. The result is the code, the new slot 0 and the state.
\<close>

definition x_file_control ::
  "('h, 's) FileWrapper option \<Rightarrow> i32 \<Rightarrow> string option \<times> string option \<times> string option \<Rightarrow> 's \<Rightarrow>
   (c_result \<times> string option) \<times> (('h, 's) FileWrapper option \<times> 's)" where
  "x_file_control p_file op' args s =
     (if op' \<noteq> SQLITE_FCNTL_PRAGMA then ((Some SQLITE_NOTFOUND, fst args), (p_file, s))
      else case p_file of
        None \<Rightarrow> ((Some SQLITE_INTERNAL, fst args), (None, s))
      | Some f \<Rightarrow>
          (case (fw_vfs f, fst (snd args), fw_handle f) of
             (None, _, _) \<Rightarrow> ((Some SQLITE_INTERNAL, fst args), (Some f, s))
           | (Some app, None, _) \<Rightarrow> ((Some SQLITE_INTERNAL, fst args), (Some f, s))
           | (Some app, Some name, None) \<Rightarrow> ((None, fst args), (Some f, s))
           | (Some app, Some name, Some h) \<Rightarrow>
               (case vf_pragma (app_vfs app) \<lparr>pragma_name = name, pragma_arg = snd (snd args)\<rparr> (h, s) of
                  (r, (h', s')) \<Rightarrow>
                    (let fs = (Some (f\<lparr>fw_handle := Some h'\<rparr>), s');
                         finish = (\<lambda>code msg. case msg of
                            None \<Rightarrow> (Some code, fst args)
                          | Some m \<Rightarrow> (case plugin_mprintf (sqlite_api app) m of
                               Ok p \<Rightarrow> (Some code, Some p)
                             | Err e \<Rightarrow> (Some e, fst args)
                             | Panic \<Rightarrow> (None, fst args)))
                     in case r of
                          Ok msg \<Rightarrow> (finish SQLITE_OK msg, fs)
                        | Err PragmaNotFound \<Rightarrow> (finish SQLITE_NOTFOUND None, fs)
                        | Err (PragmaFail err msg) \<Rightarrow> (finish err msg, fs)
                        | Panic \<Rightarrow> ((None, fst args), fs)))))"

definition x_sector_size ::
  "('h, 's) FileWrapper option \<Rightarrow> c_result" where
  "x_sector_size p_file =
     fallible (case p_file of
        None \<Rightarrow> Err SQLITE_INTERNAL
      | Some f \<Rightarrow> (case fw_vfs f of None \<Rightarrow> Err SQLITE_INTERNAL | Some app \<Rightarrow> Ok (vf_sector_size (app_vfs app))))"

definition x_device_characteristics ::
  "('h, 's) FileWrapper option \<Rightarrow> c_result" where
  "x_device_characteristics p_file =
     fallible (case p_file of
        None \<Rightarrow> Err SQLITE_INTERNAL
      | Some f \<Rightarrow> (case fw_vfs f of
          None \<Rightarrow> Err SQLITE_INTERNAL | Some app \<Rightarrow> Ok (vf_device_characteristics (app_vfs app))))"

section \<open>Shared memory\<close>

text \<open>\<open>pp\<close> receives the mapped address.\<close>

definition x_shm_map ::
  "('h, 's) FileWrapper option \<Rightarrow> i32 \<Rightarrow> i32 \<Rightarrow> i32 \<Rightarrow> nat \<Rightarrow> 's \<Rightarrow>
   (c_result \<times> nat) \<times> (('h, 's) FileWrapper option \<times> 's)" where
  "x_shm_map p_file i_pg pgsz b_extend pp s =
     (case p_file of
        None \<Rightarrow> ((Some SQLITE_INTERNAL, pp), (None, s))
      | Some f \<Rightarrow>
          (case fw_vfs f of
             None \<Rightarrow> ((Some SQLITE_INTERNAL, pp), (Some f, s))
           | Some app \<Rightarrow>
               (case (to_usize SQLITE_IOERR_SHMMAP i_pg, to_usize SQLITE_IOERR_SHMMAP pgsz) of
                  (Ok page_number, Ok page_size) \<Rightarrow>
                    (case fw_handle f of
                       None \<Rightarrow> ((None, pp), (Some f, s))
                     | Some h \<Rightarrow>
                         (case vf_shm_map (app_vfs app) page_number page_size (b_extend \<noteq> 0) (h, s) of
                            (r, (h', s')) \<Rightarrow>
                              ((case r of
                                  Ok mapped \<Rightarrow> (Some SQLITE_OK, mapped)
                                | Err e \<Rightarrow> (Some e, pp)
                                | Panic \<Rightarrow> (None, pp)),
                               (Some (f\<lparr>fw_handle := Some h'\<rparr>), s'))))
                | _ \<Rightarrow> ((Some SQLITE_IOERR_SHMMAP, pp), (Some f, s)))))"

definition x_shm_lock ::
  "('h, 's) FileWrapper option \<Rightarrow> i32 \<Rightarrow> i32 \<Rightarrow> i32 \<Rightarrow> 's \<Rightarrow>
   c_result \<times> (('h, 's) FileWrapper option \<times> 's)" where
  "x_shm_lock p_file offset n flags s =
     on_file p_file s (\<lambda>app hs.
       bind_r (to_usize SQLITE_IOERR_SHMMAP n) (\<lambda>n'.
       bind_r (decoded (shm_lock_op_from flags)) (\<lambda>lock_op.
       bind_r (decoded (shm_lock_mode_from flags)) (\<lambda>lock_type.
       bind_r (decoded (shm_lock_index_from offset)) (\<lambda>lock_index.
         ok_code (vf_shm_lock (app_vfs app) lock_index n' lock_type lock_op hs)) hs) hs) hs) hs)"

definition x_shm_barrier ::
  "('h, 's) FileWrapper option \<Rightarrow> 's \<Rightarrow> c_result \<times> (('h, 's) FileWrapper option \<times> 's)" where
  "x_shm_barrier p_file s = on_file p_file s (\<lambda>app hs. ok_code (vf_shm_barrier (app_vfs app) hs))"

definition x_shm_unmap ::
  "('h, 's) FileWrapper option \<Rightarrow> i32 \<Rightarrow> 's \<Rightarrow> c_result \<times> (('h, 's) FileWrapper option \<times> 's)" where
  "x_shm_unmap p_file delete_flag s =
     on_file p_file s (\<lambda>app hs. ok_code (vf_shm_unmap (app_vfs app) (delete_flag \<noteq> 0) hs))"

section \<open>Wrappers around the base VFS\<close>

definition base_call ::
  "('h, 's) AppData option \<Rightarrow> (BaseVfs \<Rightarrow> 'f option) \<Rightarrow> ('f \<Rightarrow> 'r) \<Rightarrow> 'r \<Rightarrow> 'r" where
  "base_call p_vfs method call absent =
     (case p_vfs of
        None \<Rightarrow> absent
      | Some app \<Rightarrow>
          (case base_vfs app of
             None \<Rightarrow> absent
           | Some b \<Rightarrow> (case method b of None \<Rightarrow> absent | Some f \<Rightarrow> call f)))"

definition x_dlopen :: "('h, 's) AppData option \<Rightarrow> string \<Rightarrow> nat option" where
  "x_dlopen p_vfs z_path = base_call p_vfs b_dlopen (\<lambda>f. f z_path) None"

definition x_dlerror :: "('h, 's) AppData option \<Rightarrow> i32 \<Rightarrow> string \<Rightarrow> string" where
  "x_dlerror p_vfs n_byte z_err_msg = base_call p_vfs b_dlerror (\<lambda>f. f n_byte) z_err_msg"

definition x_dlsym :: "('h, 's) AppData option \<Rightarrow> nat \<Rightarrow> string \<Rightarrow> fn_ptr" where
  "x_dlsym p_vfs p_handle z_symbol = base_call p_vfs b_dlsym (\<lambda>f. f p_handle z_symbol) None"

definition x_dlclose :: "('h, 's) AppData option \<Rightarrow> nat \<Rightarrow> string option" where
  "x_dlclose p_vfs p_handle = base_call p_vfs b_dlclose (\<lambda>f. Some (f p_handle)) None"

definition x_randomness :: "('h, 's) AppData option \<Rightarrow> i32 \<Rightarrow> i32" where
  "x_randomness p_vfs n_byte = base_call p_vfs b_randomness (\<lambda>f. f n_byte) SQLITE_INTERNAL"

definition x_sleep :: "('h, 's) AppData option \<Rightarrow> i32 \<Rightarrow> i32" where
  "x_sleep p_vfs microseconds = base_call p_vfs b_sleep (\<lambda>f. f microseconds) SQLITE_INTERNAL"

definition x_current_time :: "('h, 's) AppData option \<Rightarrow> i32" where
  "x_current_time p_vfs = base_call p_vfs b_current_time (\<lambda>r. r) SQLITE_INTERNAL"

definition x_current_time_int64 :: "('h, 's) AppData option \<Rightarrow> i32" where
  "x_current_time_int64 p_vfs = base_call p_vfs b_current_time_int64 (\<lambda>r. r) SQLITE_INTERNAL"

section \<open>Registration\<close>

definition plugin_io_methods :: sqlite3_io_methods where
  "plugin_io_methods = \<lparr>
     io_iVersion = 3, xClose = Some ''x_close'', xRead = Some ''x_read'', xWrite = Some ''x_write'',
     xTruncate = Some ''x_truncate'', xSync = Some ''x_sync'', xFileSize = Some ''x_file_size'',
     xLock = Some ''x_lock'', xUnlock = Some ''x_unlock'', xCheckReservedLock = None,
     xFileControl = Some ''x_file_control'', xSectorSize = Some ''x_sector_size'',
     xDeviceCharacteristics = Some ''x_device_characteristics'', xShmMap = Some ''x_shm_map'',
     xShmLock = Some ''x_shm_lock'', xShmBarrier = Some ''x_shm_barrier'',
     xShmUnmap = Some ''x_shm_unmap'', xFetch = None, xUnfetch = None\<rparr>"

definition plugin_vfs_table :: "string \<Rightarrow> nat \<Rightarrow> sqlite3_vfs" where
  "plugin_vfs_table name filewrapper_size = \<lparr>
     vfs_iVersion = 3, szOsFile = of_nat filewrapper_size, mxPathname = DEFAULT_MAX_PATH_LEN,
     pNext = None, zName = name, pAppData = Some 0, xOpen = Some ''x_open'',
     xDelete = Some ''x_delete'', xAccess = Some ''x_access'',
     xFullPathname = Some ''x_full_pathname'', xDlOpen = Some ''x_dlopen'',
     xDlError = Some ''x_dlerror'', xDlSym = Some ''x_dlsym'', xDlClose = Some ''x_dlclose'',
     xRandomness = Some ''x_randomness'', xSleep = Some ''x_sleep'',
     xCurrentTime = Some ''x_current_time'', xGetLastError = None,
     xCurrentTimeInt64 = Some ''x_current_time_int64'', xSetSystemCall = None,
     xGetSystemCall = None, xNextSystemCall = None\<rparr>"

text \<open>
  The result: the outcome, the state of the VFS (which has been given its logger), and the
  table and data registered with SQLite, if the registration succeeded. The size of the wrapper
  is the compiler's.
\<close>

definition register_inner ::
  "SqliteApi \<Rightarrow> string \<Rightarrow> ('h, 's) Vfs \<Rightarrow> nat \<Rightarrow> bool \<Rightarrow> 's \<Rightarrow>
   unit VfsResult \<times> ('s \<times> (sqlite3_vfs \<times> ('h, 's) AppData) option)" where
  "register_inner api name vfs filewrapper_size make_default s =
     (if sint (api_libversion_number api) < sint MIN_SQLITE_VERSION_NUMBER then (Panic, (s, None))
      else let s' = vf_register_logger vfs (api_log api) s;
               app = \<lparr>base_vfs = api_find api, app_vfs = vfs, io_methods = plugin_io_methods, sqlite_api = api\<rparr>
           in if 2 ^ 31 \<le> filewrapper_size then (Err SQLITE_INTERNAL, (s', None))
              else let table = plugin_vfs_table name filewrapper_size;
                       result = api_register api table make_default
                   in if result \<noteq> SQLITE_OK then (Err result, (s', None))
                      else (Ok (), (s', Some (table, app))))"

definition register_dynamic ::
  "api_routines_used option \<Rightarrow> string \<Rightarrow> ('h, 's) Vfs \<Rightarrow> nat \<Rightarrow> bool \<Rightarrow> 's \<Rightarrow>
   unit VfsResult \<times> ('s \<times> (sqlite3_vfs \<times> ('h, 's) AppData) option)" where
  "register_dynamic p_api name vfs filewrapper_size make_default s =
     bind_r (nonnull SQLITE_INTERNAL p_api) (\<lambda>api.
     bind_r (new_dynamic api) (\<lambda>sqlite_api.
       register_inner sqlite_api name vfs filewrapper_size make_default s) (s, None)) (s, None)"

section \<open>The logger\<close>

datatype SqliteLogLevel = LogError | LogWarn | LogNotice

fun into_err_code :: "SqliteLogLevel \<Rightarrow> i32" where
  "into_err_code LogNotice = SQLITE_NOTICE"
| "into_err_code LogWarn = SQLITE_WARNING"
| "into_err_code LogError = SQLITE_INTERNAL"

definition is_ascii_whitespace :: "char \<Rightarrow> bool" where
  "is_ascii_whitespace c = (c \<in> {CHR '' '', CHR 0x09, CHR 0x0A, CHR 0x0C, CHR 0x0D})"

text \<open>
  \<^verbatim>\<open>SqliteLogger::log\<close>: the calls of \<^verbatim>\<open>sqlite3_log\<close> it makes, each with the line as the format
  string; a line with a NUL byte panics in \<^verbatim>\<open>CString::new(line).unwrap()\<close>.
\<close>

fun log_lines :: "i32 \<Rightarrow> string list \<Rightarrow> (i32 \<times> string) list \<Rightarrow> unit VfsResult \<times> (i32 \<times> string) list" where
  "log_lines code [] calls = (Ok (), calls)"
| "log_lines code (line # rest) calls =
     (if list_all is_ascii_whitespace line then log_lines code rest calls
      else if NUL \<in> set line then (Panic, calls)
      else log_lines code rest (calls @ [(code, line)]))"

definition logger_log :: "SqliteLogLevel \<Rightarrow> string \<Rightarrow> unit VfsResult \<times> (i32 \<times> string) list" where
  "logger_log level buf = log_lines (into_err_code level) (split_on (CHR 0x0A) buf) []"

section \<open>The contract of a VFS implementation\<close>

text \<open>
  What the C functions rely on: a successful write reports the whole buffer, a read keeps the
  length of the buffer and never reports more.
\<close>

locale vfs_contract =
  fixes V :: "('h, 's) Vfs"
  assumes write_full: "vf_write V off d hs = (Ok n, hs') \<Longrightarrow> n = length d"
    and read_len: "vf_read V off buf hs = ((r, buf'), hs') \<Longrightarrow> length buf' = length buf"
    and read_count: "vf_read V off buf hs = ((Ok n, buf'), hs') \<Longrightarrow> n \<le> length buf"
begin

text \<open>On an open file the short-write branch is dead: the code is the outcome of the method.\<close>

lemma x_write_code:
  assumes "fw_vfs f = Some app" and "app_vfs app = V" and "fw_handle f = Some h"
    and "sint i_amt = int (length buf)" and "0 \<le> sint i_ofst"
    and "vf_write V (nat (sint i_ofst)) buf (h, s) = (r, (h', s'))"
  shows "x_write (Some f) buf i_amt i_ofst s =
    (case r of Ok _ \<Rightarrow> Some SQLITE_OK | Err e \<Rightarrow> Some e | Panic \<Rightarrow> None,
     (Some (f\<lparr>fw_handle := Some h'\<rparr>), s'))"
proof -
  have "to_usize SQLITE_IOERR_WRITE i_amt = Ok (length buf)"
    "to_usize SQLITE_IOERR_WRITE i_ofst = Ok (nat (sint i_ofst))"
    using assms(4,5) by (simp_all add: to_usize_def)
  then show ?thesis
    using assms write_full [of "nat (sint i_ofst)" buf "(h, s)" _ "(h', s')"]
    by (cases r) (auto simp: x_write_def on_file_def)
qed

lemma x_read_code:
  assumes "fw_vfs f = Some app" and "app_vfs app = V" and "fw_handle f = Some h"
    and "sint i_amt = int (length buf)" and "0 \<le> sint i_ofst"
    and "vf_read V (nat (sint i_ofst)) buf (h, s) = ((r, buf'), (h', s'))"
  shows "x_read (Some f) buf i_amt i_ofst s =
    ((case r of Ok _ \<Rightarrow> Some SQLITE_OK | Err e \<Rightarrow> Some e | Panic \<Rightarrow> None, buf'),
     (Some (f\<lparr>fw_handle := Some h'\<rparr>), s'))"
proof -
  have "to_usize SQLITE_IOERR_READ i_amt = Ok (length buf)"
    "to_usize SQLITE_IOERR_READ i_ofst = Ok (nat (sint i_ofst))"
    using assms(4,5) by (simp_all add: to_usize_def)
  then show ?thesis using assms by (simp add: x_read_def)
qed

end

section \<open>Lemmas\<close>

lemma log_lines_all:
  assumes "\<forall>l \<in> set ls. NUL \<notin> set l"
  shows "log_lines code ls calls =
    (Ok (), calls @ map (Pair code) (filter (\<lambda>l. \<not> list_all is_ascii_whitespace l) ls))"
  using assms by (induction code ls calls rule: log_lines.induct) auto

lemma takeWhile_before: "x \<notin> set xs \<Longrightarrow> takeWhile (\<lambda>y. y \<noteq> x) (xs @ x # ys) = xs"
  by (induction xs) auto

section \<open>Properties\<close>

text \<open>
  The file methods answer null pointers and negative sizes or offsets with the right codes,
  without calling the VFS: a null file or a file without a VFS is \<^verbatim>\<open>SQLITE_INTERNAL\<close>, a negative
  amount or offset the I/O error of the method.
\<close>

theorem bad_arguments_rejected:
  assumes "fw_vfs f = Some app" and "fw_handle f = Some h"
  shows "x_write None buf a b s = (Some SQLITE_INTERNAL, (None, s)) \<and>
    x_read None buf a b s = ((Some SQLITE_INTERNAL, buf), (None, s)) \<and>
    x_truncate None b s = (Some SQLITE_INTERNAL, (None, s)) \<and>
    x_close None s = (Some SQLITE_INTERNAL, (None, s)) \<and>
    x_shm_lock None i j k s = (Some SQLITE_INTERNAL, (None, s)) \<and>
    (sint a < 0 \<or> sint b < 0 \<longrightarrow>
       x_write (Some f) buf a b s = (Some SQLITE_IOERR_WRITE, (Some f, s)) \<and>
       x_read (Some f) buf a b s = ((Some SQLITE_IOERR_READ, buf), (Some f, s))) \<and>
    (sint b < 0 \<longrightarrow> x_truncate (Some f) b s = (Some SQLITE_IOERR_TRUNCATE, (Some f, s))) \<and>
    (sint i < 0 \<or> sint j < 0 \<longrightarrow>
       x_shm_map (Some f) i j k pp s = ((Some SQLITE_IOERR_SHMMAP, pp), (Some f, s))) \<and>
    (sint j < 0 \<longrightarrow> x_shm_lock (Some f) i j k s = (Some SQLITE_IOERR_SHMMAP, (Some f, s)))"
  using assms
  by (auto simp: x_write_def x_read_def x_truncate_def x_close_def x_shm_lock_def x_shm_map_def
      on_file_def to_usize_def bind_r_def)

definition sample_vfs_ops :: "(unit, nat) Vfs" where
  "sample_vfs_ops = \<lparr>
     vf_register_logger = (\<lambda>_ s. s), vf_readonly = (\<lambda>_. False), vf_in_memory = (\<lambda>_. False),
     vf_canonical_path = default_canonical_path, vf_open = (\<lambda>_ _ s. (Ok (), s)),
     vf_delete = (\<lambda>_ s. (Ok (), s)), vf_access = (\<lambda>_ _ s. (Ok True, s)),
     vf_file_size = (\<lambda>hs. (Ok 0, hs)), vf_truncate = (\<lambda>_ hs. (Ok (), hs)),
     vf_write = (\<lambda>_ d hs. (Ok (length d), hs)), vf_read = (\<lambda>_ b hs. ((Ok (length b), b), hs)),
     vf_lock = (\<lambda>_. default_unit), vf_unlock = (\<lambda>_. default_unit), vf_sync = default_unit,
     vf_close = (\<lambda>_ s. (Ok (), s)), vf_pragma = default_pragma,
     vf_sector_size = DEFAULT_SECTOR_SIZE, vf_device_characteristics = DEFAULT_DEVICE_CHARACTERISTICS,
     vf_shm_map = (\<lambda>_ _ _ hs. (Ok 0, hs)), vf_shm_lock = (\<lambda>_ _ _ _. default_unit),
     vf_shm_barrier = default_unit, vf_shm_unmap = (\<lambda>_. default_unit)\<rparr>"

definition sample_api :: SqliteApi where
  "sample_api = \<lparr>api_register = (\<lambda>_ _. SQLITE_OK), api_find = None, api_mprintf = Some,
     api_log = (\<lambda>_ m. m), api_libversion_number = 3050002\<rparr>"

definition sample_app :: "(unit, nat) AppData" where
  "sample_app = \<lparr>base_vfs = None, app_vfs = sample_vfs_ops, io_methods = plugin_io_methods,
     sqlite_api = sample_api\<rparr>"

definition sample_file :: "(unit, nat) FileWrapper" where
  "sample_file = \<lparr>fw_pMethods = Some plugin_io_methods, fw_vfs = Some sample_app, fw_handle = Some ()\<rparr>"

theorem bad_arguments_rejected_witness:
  "x_write (Some sample_file) [1] (- 1) 0 (0 :: nat) = (Some SQLITE_IOERR_WRITE, (Some sample_file, 0))"
proof -
  have "sint (- 1 :: i32) < 0" by simp
  moreover have "fw_vfs sample_file = Some sample_app" "fw_handle sample_file = Some ()"
    by (simp_all add: sample_file_def)
  ultimately show ?thesis using bad_arguments_rejected [of sample_file sample_app "()"] by blast
qed

text \<open>
  \<^verbatim>\<open>xFullPathname\<close> always leaves a NUL-terminated string in the buffer: the canonical name if it
  fits, and otherwise its first \<open>n_out - 1\<close> bytes, still with \<^verbatim>\<open>SQLITE_OK\<close>, although the header
  asks for \<^verbatim>\<open>SQLITE_CANTOPEN\<close> when the buffer is too small.
\<close>

theorem full_pathname_truncates:
  assumes "vf_canonical_path (app_vfs app) name s = (Ok full, s')" and "NUL \<notin> set full"
    and "0 < sint n_out" and "int (length z_out) = sint n_out"
  shows "\<exists>out. x_full_pathname (Some app) (Some name) n_out z_out s = (Some SQLITE_OK, (out, s')) \<and>
    length out = length z_out \<and> takeWhile (\<lambda>c. c \<noteq> NUL) out = take (length z_out - 1) full"
proof -
  define n where "n = length z_out"
  have n: "to_usize SQLITE_INTERNAL n_out = Ok n" "0 < n"
    using assms(3,4) by (auto simp: to_usize_def n_def)
  define kept where "kept = take (min (length full) (n - 1)) full"
  have kept: "kept = take (n - 1) full" by (simp add: kept_def min_def)
  have "x_full_pathname (Some app) (Some name) n_out z_out s =
      (Some SQLITE_OK, (write_at 0 (kept @ [NUL]) z_out, s'))"
    using assms(1) n by (simp add: x_full_pathname_def nonnull_def kept_def)
  moreover have "length (kept @ [NUL]) \<le> n" using n(2) by (simp add: kept)
  then have "length (write_at 0 (kept @ [NUL]) z_out) = length z_out" by (simp add: n_def)
  moreover have "takeWhile (\<lambda>c. c \<noteq> NUL) (write_at 0 (kept @ [NUL]) z_out) = kept"
    using takeWhile_before [of NUL kept] assms(2) by (auto simp: write_at_def kept dest: in_set_takeD)
  ultimately show ?thesis by (auto simp: kept n_def)
qed

theorem full_pathname_truncates_witness:
  "\<exists>out. x_full_pathname (Some sample_app) (Some ''main.db'') 4 ''????'' 0 = (Some SQLITE_OK, (out, 0)) \<and>
     takeWhile (\<lambda>c. c \<noteq> NUL) out = ''mai''"
  using full_pathname_truncates [of sample_app "''main.db''" 0 "''main.db''" 0 4 "''????''"]
  by (auto simp: sample_app_def sample_vfs_ops_def default_canonical_path_def NUL_def)

text \<open>
  \<^verbatim>\<open>xOpen\<close> fills in the file exactly when it succeeds: method table, VFS and handle, with the
  read-only and in-memory bits added to the flags reported. When the VFS refuses, the file
  memory is left as it was, so \<^verbatim>\<open>pMethods\<close> is not set, although the header demands it.
\<close>

theorem x_open_fills_file:
  assumes "vf_open (app_vfs app) name (open_opts_new flags) s = (r, s')"
  shows "case r of
      Ok h \<Rightarrow> \<exists>f' out. x_open (Some app) name (Some f) flags (Some o0) s = (Some SQLITE_OK, (Some f', Some out, s')) \<and>
        fw_pMethods f' = Some (io_methods app) \<and> fw_vfs f' = Some app \<and> fw_handle f' = Some h \<and>
        out = flags OR (if vf_readonly (app_vfs app) h then SQLITE_OPEN_READONLY else 0)
                    OR (if vf_in_memory (app_vfs app) h then SQLITE_OPEN_MEMORY else 0)
    | Err e \<Rightarrow> x_open (Some app) name (Some f) flags (Some o0) s = (Some e, (Some f, Some o0, s'))
    | Panic \<Rightarrow> fst (x_open (Some app) name (Some f) flags (Some o0) s) = None"
  using assms by (cases r) (simp_all add: x_open_def Let_def or.assoc)

theorem x_open_fills_file_witness:
  "\<exists>f'. x_open (Some sample_app) (Some ''a'') (Some (sample_file\<lparr>fw_handle := None\<rparr>)) 6 (Some 0) 0 =
     (Some SQLITE_OK, (Some f', Some 6, 0)) \<and> fw_handle f' = Some ()"
proof -
  have "vf_open (app_vfs sample_app) (Some ''a'') (open_opts_new 6) 0 = (Ok (), 0)"
    by (simp add: sample_app_def sample_vfs_ops_def)
  from x_open_fills_file [OF this, of "sample_file\<lparr>fw_handle := None\<rparr>" 0]
  show ?thesis by (auto simp: sample_app_def sample_vfs_ops_def)
qed

text \<open>
  What is registered with SQLite: the registration happens exactly when the library is recent
  enough, the file wrapper's size fits an \<^verbatim>\<open>int\<close> and SQLite accepts it. The file method table
  claims version 3 but leaves \<^verbatim>\<open>xCheckReservedLock\<close> (a version 1 method) and both version 3 methods
  null, and no others.
\<close>

theorem registration_outcome:
  "((\<exists>table app. snd (snd (register_inner api name vfs sz def s)) = Some (table, app)) \<longleftrightarrow>
     \<not> sint (api_libversion_number api) < 3043000 \<and> sz < 2 ^ 31 \<and>
     api_register api (plugin_vfs_table name sz) def = SQLITE_OK) \<and>
   filter (\<lambda>m. m = None) (io_methods_of_version plugin_io_methods 3) = [None, None, None] \<and>
   xCheckReservedLock plugin_io_methods = None \<and> xFetch plugin_io_methods = None \<and>
   xUnfetch plugin_io_methods = None \<and>
   length (filter (\<lambda>m. m \<noteq> None) (io_methods_of_version plugin_io_methods 2)) = 15"
  by (auto simp: register_inner_def Let_def MIN_SQLITE_VERSION_NUMBER_def io_methods_of_version_def
      plugin_io_methods_def)

text \<open>
  The logger passes on every line that is not blank, in order and unchanged, one call per
  line, provided the text has no NUL byte; the lines are a partition of the text at its newlines.
\<close>

theorem logger_passes_lines:
  assumes "NUL \<notin> set buf"
  shows "logger_log level buf =
      (Ok (), map (Pair (into_err_code level))
         (filter (\<lambda>l. \<not> list_all is_ascii_whitespace l) (split_on (CHR 0x0A) buf))) \<and>
    join_with (CHR 0x0A) (split_on (CHR 0x0A) buf) = buf \<and>
    list_all (\<lambda>l. CHR 0x0A \<notin> set l) (split_on (CHR 0x0A) buf)"
proof -
  have "\<forall>l \<in> set (split_on (CHR 0x0A) buf). NUL \<notin> set l"
    using assms split_on_subset by (metis subsetD)
  then show ?thesis
    by (simp add: logger_log_def log_lines_all join_split list_all_iff split_on_no_sep)
qed

theorem logger_passes_lines_witness:
  "logger_log LogWarn (''ab'' @ [CHR 0x0A, CHR '' '', CHR 0x0A] @ ''c'') =
     (Ok (), [(SQLITE_WARNING, ''ab''), (SQLITE_WARNING, ''c'')])"
  using logger_passes_lines [of "''ab'' @ [CHR 0x0A, CHR '' '', CHR 0x0A] @ ''c''" LogWarn]
  by (simp add: NUL_def is_ascii_whitespace_def)

end
