(* ===== verification/ReplVfs.thy ===== *)
theory ReplVfs
  imports ReplSystem PluginVfs
begin

text \<open>
  \<^verbatim>\<open>ReplVfs\<close> of \<^verbatim>\<open>replsqlite/src/replvfs/mod.rs\<close>, and \<^verbatim>\<open>FileHandle\<close> of \<^verbatim>\<open>file.rs\<close>: the VFS that
  hands out the files of \<open>ReplFiles\<close>. A \<^verbatim>\<open>DbClientHandle\<close> is a shared reference to a
  \<^verbatim>\<open>DbClient\<close>; the model keeps the clients in a store and the handles hold addresses, so that a
  database file and its log file are two names of one client. Threads are numbers.
\<close>

section \<open>Errors\<close>


fun sqlite_err :: "ErrCtx \<Rightarrow> SqliteErr" where
  "sqlite_err UnknownPragma = SQLITE_NOTFOUND"
| "sqlite_err CantOpen = SQLITE_CANTOPEN"
| "sqlite_err Busy = SQLITE_BUSY"
| "sqlite_err BusySnapshot = SQLITE_BUSY_SNAPSHOT"
| "sqlite_err Bad = SQLITE_INTERNAL"
| "sqlite_err InvalidLockTransition = SQLITE_INTERNAL"
| "sqlite_err InvalidVolumeState = SQLITE_INTERNAL"
| "sqlite_err FmtErr = SQLITE_INTERNAL"

fun wrap :: "(ErrCtx, 'a) outcome \<Rightarrow> 'a VfsResult" where
  "wrap (Ok t) = Ok t"
| "wrap (Err e) = Err (sqlite_err e)"
| "wrap Panic = Panic"

section \<open>State\<close>

record RemoteDbServer =
  server_url :: string

definition remote_server_new :: RemoteDbServer where
  "remote_server_new = \<lparr>server_url = ''http://localhost:3000''\<rparr>"

record DbClientHandle =
  handle_id :: string
  handle_data :: nat

datatype FileHandle =
    MemHandle MemFile
  | DbHandle DbClientHandle OpenOpts
  | WalHandle DbClientHandle OpenOpts

record ReplVfs =
  servers :: "string \<Rightarrow> RemoteDbServer option"
  pending_opens :: "nat \<Rightarrow> DbClientHandle option"
  clients :: "nat \<Rightarrow> DbClient option"
  next_client :: nat

definition repl_vfs_new :: ReplVfs where
  "repl_vfs_new = \<lparr>servers = Map.empty, pending_opens = Map.empty, clients = Map.empty, next_client = 0\<rparr>"

fun handle_readonly :: "FileHandle \<Rightarrow> bool" where
  "handle_readonly (MemHandle f) = False"
| "handle_readonly (DbHandle h opts) = False"
| "handle_readonly (WalHandle h opts) = False"

fun handle_in_memory :: "FileHandle \<Rightarrow> bool" where
  "handle_in_memory (MemHandle f) = True"
| "handle_in_memory (DbHandle h opts) = False"
| "handle_in_memory (WalHandle h opts) = False"

section \<open>Opening and closing\<close>

definition strip_suffix :: "string \<Rightarrow> string \<Rightarrow> string option" where
  "strip_suffix suf s =
     (if length suf \<le> length s \<and> drop (length s - length suf) s = suf
      then Some (take (length s - length suf) s) else None)"

lemma strip_suffix_append [simp]: "strip_suffix suf (s @ suf) = Some s"
  by (simp add: strip_suffix_def)

definition vfs_device_characteristics :: i32 where
  "vfs_device_characteristics =
     SQLITE_IOCAP_ATOMIC512 OR SQLITE_IOCAP_ATOMIC1K OR SQLITE_IOCAP_ATOMIC2K OR
     SQLITE_IOCAP_ATOMIC4K OR SQLITE_IOCAP_POWERSAFE_OVERWRITE OR SQLITE_IOCAP_SAFE_APPEND OR
     SQLITE_IOCAP_SEQUENTIAL"

definition vfs_canonical_path :: "string \<Rightarrow> string \<Rightarrow> string VfsResult" where
  "vfs_canonical_path random_string path =
     (if path = ''random'' then Ok random_string else Ok path)"

definition vfs_access :: "string \<Rightarrow> AccessFlags \<Rightarrow> bool VfsResult" where
  "vfs_access path flags =
     wrap (case strip_suffix ''-journal'' path of Some _ \<Rightarrow> Ok False | None \<Rightarrow> Ok True)"

definition vfs_open ::
  "wire \<Rightarrow> u32 \<Rightarrow> u32 \<Rightarrow> TestDbServerData \<Rightarrow> nat \<Rightarrow> string option \<Rightarrow> OpenOpts \<Rightarrow> ReplVfs \<Rightarrow>
   FileHandle VfsResult \<times> ReplVfs" where
  "vfs_open w r1 r2 srv thread path opts v =
     (case (opt_kind opts, path) of
        (MainDb, Some vid) \<Rightarrow>
          (let v1 = (if servers v vid = None
                     then v\<lparr>servers := (servers v)(vid \<mapsto> remote_server_new)\<rparr> else v) in
           case db_client_new w r1 r2 srv of
             Ok c \<Rightarrow>
               (Ok (DbHandle \<lparr>handle_id = vid, handle_data = next_client v1\<rparr> opts),
                v1\<lparr>clients := (clients v1)(next_client v1 \<mapsto> c), next_client := next_client v1 + 1\<rparr>)
           | Err e \<Rightarrow> (Err (sqlite_err e), v1)
           | Panic \<Rightarrow> (Panic, v1))
      | (Wal, Some p) \<Rightarrow>
          (case strip_suffix ''-wal'' p of
             None \<Rightarrow> (Err (sqlite_err Bad), v)
           | Some _ \<Rightarrow>
               (case pending_opens v thread of
                  None \<Rightarrow> (Panic, v)
                | Some h \<Rightarrow>
                    (case clients v (handle_data h) of
                       None \<Rightarrow> (Panic, v)
                     | Some c \<Rightarrow>
                         (Ok (WalHandle h opts),
                          v\<lparr>pending_opens := (pending_opens v)(thread := None),
                             clients := (clients v)(handle_data h \<mapsto> c\<lparr>pending_open := None\<rparr>)\<rparr>))))
      | _ \<Rightarrow>
          (Ok (MemHandle \<lparr>mem_name = (case path of Some p \<Rightarrow> p | None \<Rightarrow> ''no path''), mem_data = []\<rparr>), v))"

text \<open>
  The client a handle refers to: the reference counts keep it alive, so the missing case does
  not occur on handles the VFS returned (see \<open>vfs_inv\<close>).
\<close>

definition with_client ::
  "DbClientHandle \<Rightarrow> (DbClient \<Rightarrow> ('e, 'a) outcome \<times> DbClient) \<Rightarrow> ReplVfs \<Rightarrow> ('e, 'a) outcome \<times> ReplVfs"
where
  "with_client h f v =
     (case clients v (handle_data h) of
        None \<Rightarrow> (Panic, v)
      | Some c \<Rightarrow> (case f c of (r, c') \<Rightarrow> (r, v\<lparr>clients := (clients v)(handle_data h \<mapsto> c')\<rparr>)))"

definition vfs_close :: "FileHandle \<Rightarrow> ReplVfs \<Rightarrow> unit VfsResult \<times> ReplVfs" where
  "vfs_close handle v =
     (case handle of
        MemHandle _ \<Rightarrow> (Ok (), v)
      | WalHandle _ _ \<Rightarrow> (Ok (), v)
      | DbHandle h opts \<Rightarrow>
          with_client h (\<lambda>c. (if pending_open c \<noteq> None then Panic else Ok (), c)) v)"

definition vfs_delete :: "string \<Rightarrow> unit VfsResult" where
  "vfs_delete path = Ok ()"

section \<open>Locking\<close>

text \<open>
  A shared lock on a database file announces that the thread is about to open its log: the
  client is left in \<open>pending_opens\<close> for the open call to pick up.
\<close>

definition announce_open :: "nat \<Rightarrow> DbClientHandle \<Rightarrow> ReplVfs \<Rightarrow> unit VfsResult \<times> ReplVfs" where
  "announce_open thread h v =
     (case clients v (handle_data h) of
        None \<Rightarrow> (Panic, v)
      | Some c \<Rightarrow>
          (if pending_open c \<noteq> None then (Panic, v)
           else if pending_opens v thread \<noteq> None then (Panic, v)
           else (Ok (), v\<lparr>clients := (clients v)(handle_data h \<mapsto> c\<lparr>pending_open := Some thread\<rparr>),
                          pending_opens := (pending_opens v)(thread \<mapsto> h)\<rparr>)))"

definition handle_lock :: "FileHandle \<Rightarrow> LockLevel \<Rightarrow> ReplVfs \<Rightarrow> (ErrCtx, unit) outcome \<times> ReplVfs" where
  "handle_lock handle level v =
     (case handle of
        MemHandle f \<Rightarrow> (fst (mem_lock level f), v)
      | DbHandle h _ \<Rightarrow> with_client h (db_lock level) v
      | WalHandle h _ \<Rightarrow> with_client h (wal_lock level) v)"

definition vfs_lock :: "nat \<Rightarrow> FileHandle \<Rightarrow> LockLevel \<Rightarrow> ReplVfs \<Rightarrow> unit VfsResult \<times> ReplVfs" where
  "vfs_lock thread handle level v =
     bind_st
       (case handle of
          DbHandle h _ \<Rightarrow> if level = Shared then announce_open thread h v else (Ok (), v)
        | _ \<Rightarrow> (Ok (), v))
       (\<lambda>_ v1. case handle_lock handle level v1 of (r, v2) \<Rightarrow> (wrap r, v2))"

definition vfs_unlock :: "FileHandle \<Rightarrow> LockLevel \<Rightarrow> ReplVfs \<Rightarrow> unit VfsResult \<times> ReplVfs" where
  "vfs_unlock handle level v =
     (case (case handle of
              MemHandle f \<Rightarrow> (fst (mem_unlock level f), v)
            | DbHandle h _ \<Rightarrow> with_client h (db_unlock level) v
            | WalHandle h _ \<Rightarrow> with_client h (wal_unlock level) v) of (r, v') \<Rightarrow> (wrap r, v'))"

section \<open>Reading and writing\<close>

text \<open>An operation that only looks at the client.\<close>

definition peek_client :: "DbClientHandle \<Rightarrow> (DbClient \<Rightarrow> 'b) \<Rightarrow> 'b \<Rightarrow> ReplVfs \<Rightarrow> 'b" where
  "peek_client h f panicked v =
     (case clients v (handle_data h) of None \<Rightarrow> panicked | Some c \<Rightarrow> f c)"

definition vfs_file_size :: "FileHandle \<Rightarrow> ReplVfs \<Rightarrow> nat VfsResult" where
  "vfs_file_size handle v =
     wrap (case handle of
        MemHandle f \<Rightarrow> mem_file_size f
      | DbHandle h _ \<Rightarrow> peek_client h db_file_size Panic v
      | WalHandle h _ \<Rightarrow> peek_client h wal_file_size Panic v)"

definition vfs_read :: "FileHandle \<Rightarrow> nat \<Rightarrow> bytes \<Rightarrow> ReplVfs \<Rightarrow> nat VfsResult \<times> bytes" where
  "vfs_read handle off buf v =
     (case (case handle of
              MemHandle f \<Rightarrow> mem_read off buf f
            | DbHandle h _ \<Rightarrow> peek_client h (db_read off buf) (Panic, buf) v
            | WalHandle h _ \<Rightarrow> peek_client h (wal_read off buf) (Panic, buf) v) of
        (r, buf') \<Rightarrow> (wrap r, buf'))"

text \<open>A write or truncation of an in-memory file changes the handle, of the others the client.\<close>

definition vfs_truncate ::
  "FileHandle \<Rightarrow> nat \<Rightarrow> ReplVfs \<Rightarrow> unit VfsResult \<times> (FileHandle \<times> ReplVfs)" where
  "vfs_truncate handle n v =
     (case handle of
        MemHandle f \<Rightarrow> (case mem_truncate n f of (r, f') \<Rightarrow> (wrap r, (MemHandle f', v)))
      | DbHandle h _ \<Rightarrow> (case with_client h (db_truncate n) v of (r, v') \<Rightarrow> (wrap r, (handle, v')))
      | WalHandle h _ \<Rightarrow> (case with_client h (wal_truncate n) v of (r, v') \<Rightarrow> (wrap r, (handle, v'))))"

definition vfs_write ::
  "FileHandle \<Rightarrow> nat \<Rightarrow> bytes \<Rightarrow> ReplVfs \<Rightarrow> nat VfsResult \<times> (FileHandle \<times> ReplVfs)" where
  "vfs_write handle off d v =
     (case handle of
        MemHandle f \<Rightarrow> (case mem_write off d f of (r, f') \<Rightarrow> (wrap r, (MemHandle f', v)))
      | DbHandle h _ \<Rightarrow> (case with_client h (db_write off d) v of (r, v') \<Rightarrow> (wrap r, (handle, v')))
      | WalHandle h _ \<Rightarrow> (case with_client h (wal_write off d) v of (r, v') \<Rightarrow> (wrap r, (handle, v'))))"

section \<open>Shared memory\<close>

definition vfs_shm_map ::
  "FileHandle \<Rightarrow> nat \<Rightarrow> nat \<Rightarrow> bool \<Rightarrow> ReplVfs \<Rightarrow> unit VfsResult \<times> ReplVfs" where
  "vfs_shm_map handle page_idx page_size ext v =
     (case (case handle of
              MemHandle f \<Rightarrow> (mem_shm, v)
            | DbHandle h _ \<Rightarrow> with_client h (db_shm_map page_idx page_size ext) v
            | WalHandle h _ \<Rightarrow> (wal_shm, v)) of (r, v') \<Rightarrow> (wrap r, v'))"

definition vfs_shm_lock ::
  "wire \<Rightarrow> u32 \<Rightarrow> u32 \<Rightarrow> FileHandle \<Rightarrow> ShmLockIndex \<Rightarrow> nat \<Rightarrow> ShmLockMode \<Rightarrow> ShmLockOp \<Rightarrow>
   ReplVfs \<times> TestDbServerData \<Rightarrow> unit VfsResult \<times> (ReplVfs \<times> TestDbServerData)" where
  "vfs_shm_lock w r1 r2 handle idx n mode op' vs =
     (case handle of
        MemHandle f \<Rightarrow> (wrap mem_shm, vs)
      | WalHandle h _ \<Rightarrow> (wrap wal_shm, vs)
      | DbHandle h _ \<Rightarrow>
          (case clients (fst vs) (handle_data h) of
             None \<Rightarrow> (Panic, vs)
           | Some c \<Rightarrow>
               (case db_shm_lock w r1 r2 idx n mode op' (c, snd vs) of
                  (r, (c', srv')) \<Rightarrow>
                    (wrap r, ((fst vs)\<lparr>clients := (clients (fst vs))(handle_data h \<mapsto> c')\<rparr>, srv')))))"

definition vfs_shm_barrier :: "FileHandle \<Rightarrow> unit VfsResult" where
  "vfs_shm_barrier handle =
     (case handle of MemHandle f \<Rightarrow> wrap mem_shm | DbHandle h _ \<Rightarrow> Ok () | WalHandle h _ \<Rightarrow> Ok ())"

definition vfs_shm_unmap :: "FileHandle \<Rightarrow> bool \<Rightarrow> ReplVfs \<Rightarrow> unit VfsResult \<times> ReplVfs" where
  "vfs_shm_unmap handle del v =
     (case (case handle of
              MemHandle f \<Rightarrow> (mem_shm, v)
            | DbHandle h _ \<Rightarrow> with_client h (db_shm_unmap del) v
            | WalHandle h _ \<Rightarrow> (wal_shm, v)) of (r, v') \<Rightarrow> (wrap r, v'))"

section \<open>The pending opens\<close>

text \<open>
  A thread has at most one pending open, a client is pending for at most one thread, the two
  records of it agree, and every pending client exists; addresses not yet used are free.
\<close>

definition vfs_inv :: "ReplVfs \<Rightarrow> bool" where
  "vfs_inv v =
     ((\<forall>t a. (\<exists>h. pending_opens v t = Some h \<and> handle_data h = a) \<longleftrightarrow>
         (\<exists>c. clients v a = Some c \<and> pending_open c = Some t)) \<and>
      (\<forall>a. next_client v \<le> a \<longrightarrow> clients v a = None))"

lemma vfs_inv_new: "vfs_inv repl_vfs_new"
  by (simp add: vfs_inv_def repl_vfs_new_def)

text \<open>Operations on a client that keep its pending mark keep the invariant.\<close>

lemma vfs_inv_update:
  assumes "vfs_inv v" and "clients v a = Some c" and "pending_open c' = pending_open c"
  shows "vfs_inv (v\<lparr>clients := (clients v)(a \<mapsto> c')\<rparr>)"
proof -
  have "(\<exists>d. ((clients v)(a \<mapsto> c')) b = Some d \<and> pending_open d = Some t) \<longleftrightarrow>
      (\<exists>d. clients v b = Some d \<and> pending_open d = Some t)" for b t
    using assms(2,3) by auto
  moreover have "a < next_client v" using assms(1,2) by (metis not_le option.distinct(1) vfs_inv_def)
  ultimately show ?thesis using assms(1) by (simp add: vfs_inv_def)
qed

lemma vfs_inv_with_client:
  assumes "vfs_inv v" and "\<And>c. pending_open (snd (f c)) = pending_open c"
  shows "vfs_inv (snd (with_client h f v))"
proof (cases "clients v (handle_data h)")
  case None
  then show ?thesis using assms(1) by (simp add: with_client_def)
next
  case (Some c)
  then show ?thesis
    using vfs_inv_update [OF assms(1) Some, of "snd (f c)"] assms(2) [of c]
    by (auto simp: with_client_def split: prod.splits)
qed

lemma pending_open_reset: "pending_open (snd (reset_wal r1 r2 c)) = pending_open c"
  by (auto simp: reset_wal_def Let_def split: option.splits prod.splits)

lemma pending_open_apply: "pending_open (snd (apply_changes cs c)) = pending_open c"
proof (induction cs c rule: apply_changes.induct)
  case (2 tx version cs c)
  obtain r db where tx: "apply_tx tx (db_data c) = (r, db)" by fastforce
  show ?case
  proof (cases r)
    case (Ok u)
    with 2 tx show ?thesis by (simp add: bind_st_def)
  qed (simp_all add: tx)
qed simp

lemma pending_open_begin: "pending_open (snd (maybe_begin_tx w r1 r2 srv c)) = pending_open c"
proof -
  have "pending_open (snd (bind_st (apply_changes cs c)
      (\<lambda>_ c'. if 0 < length cs then reset_wal r1 r2 c' else (Ok (), c')))) = pending_open c" for cs
    using pending_open_apply [of cs c]
    by (cases "apply_changes cs c"; cases "fst (apply_changes cs c)") (auto simp: pending_open_reset)
  then show ?thesis
    by (simp add: maybe_begin_tx_def pull_changes_def split: outcome.splits)
qed

lemma pending_open_end: "pending_open (fst (snd (maybe_end_tx w r1 r2 (c, srv)))) = pending_open c"
  using pending_open_reset [of r1 r2 c]
  by (auto simp: maybe_end_tx_def split: outcome.splits prod.splits)

lemma pending_open_shm_lock:
  "pending_open (fst (snd (db_shm_lock w r1 r2 idx n mode op' (c, srv)))) = pending_open c"
  using pending_open_begin [of w r1 r2 srv c]
    pending_open_end [of w r1 r2 "c\<lparr>write_locks := write_locks c - 1\<rparr>" srv]
    pending_open_end [of w r1 r2 "c\<lparr>read_locks := read_locks c - 1\<rparr>" srv]
  by (auto simp: db_shm_lock_def split: ShmLockIndex.splits prod.splits outcome.splits)

lemma pending_open_files:
  "pending_open (snd (db_lock l c)) = pending_open c" "pending_open (snd (wal_lock l c)) = pending_open c"
  "pending_open (snd (db_unlock l c)) = pending_open c" "pending_open (snd (wal_unlock l c)) = pending_open c"
  "pending_open (snd (db_truncate m c)) = pending_open c" "pending_open (snd (wal_truncate m c)) = pending_open c"
  "pending_open (snd (db_write off d c)) = pending_open c" "pending_open (snd (wal_write off d c)) = pending_open c"
  "pending_open (snd (db_shm_map i j b c)) = pending_open c" "pending_open (snd (db_shm_unmap b c)) = pending_open c"
  by (simp_all add: db_lock_def wal_lock_def db_unlock_def wal_unlock_def db_truncate_def wal_truncate_def
      db_write_def wal_write_def db_shm_map_def db_shm_unmap_def split: prod.splits)

lemma vfs_inv_pending:
  "vfs_inv v \<Longrightarrow> clients v a = Some c \<Longrightarrow> pending_open c = Some t \<Longrightarrow>
   \<exists>h. pending_opens v t = Some h \<and> handle_data h = a"
  unfolding vfs_inv_def by blast

lemma vfs_inv_announce:
  assumes "vfs_inv v"
  shows "vfs_inv (snd (announce_open t h v))"
proof (cases "fst (announce_open t h v) = Ok ()")
  case False
  then show ?thesis using assms by (auto simp: announce_open_def split: option.splits if_splits)
next
  case True
  then obtain c where c: "clients v (handle_data h) = Some c" "pending_open c = None"
    and t: "pending_opens v t = None"
    by (auto simp: announce_open_def split: option.splits if_splits)
  have "handle_data h < next_client v" using assms c(1) by (metis not_le option.distinct(1) vfs_inv_def)
  moreover have "(\<exists>d. clients v a = Some d \<and> pending_open d = Some t) = False" for a
    using vfs_inv_pending [OF assms] t by force
  ultimately show ?thesis
    using assms c t by (auto simp: announce_open_def vfs_inv_def)
qed

lemma vfs_inv_open:
  assumes "vfs_inv v" and "\<And>c. db_client_new w r1 r2 srv = Ok c \<Longrightarrow> pending_open c = None"
  shows "vfs_inv (snd (vfs_open w r1 r2 srv t path opts v))"
proof -
  have srvs: "vfs_inv (v\<lparr>servers := m\<rparr>)" for m using assms(1) by (simp add: vfs_inv_def)
  have add: "vfs_inv (u\<lparr>clients := (clients u)(next_client u \<mapsto> c), next_client := next_client u + 1\<rparr>)"
    if "vfs_inv u" "pending_open c = None" for u c
  proof -
    have "clients u (next_client u) = None" using that(1) by (simp add: vfs_inv_def)
    moreover from this have "pending_opens u t = Some h \<Longrightarrow> handle_data h \<noteq> next_client u" for t h
      using that(1) unfolding vfs_inv_def by (metis option.distinct(1))
    ultimately show ?thesis using that by (auto simp: vfs_inv_def)
  qed
  have take: "vfs_inv (v\<lparr>pending_opens := (pending_opens v)(t := None),
      clients := (clients v)(handle_data h \<mapsto> c\<lparr>pending_open := None\<rparr>)\<rparr>)"
    if "pending_opens v t = Some h" "clients v (handle_data h) = Some c" for h c
  proof -
    have "pending_open c = Some t" using assms(1) that unfolding vfs_inv_def by (metis option.inject)
    moreover have "handle_data h < next_client v"
      using assms(1) that(2) by (metis not_le option.distinct(1) vfs_inv_def)
    moreover have only: "a = handle_data h" if "clients v a = Some d" "pending_open d = Some t" for a d
      using vfs_inv_pending [OF assms(1) that] \<open>pending_opens v t = Some h\<close> by simp
    have "(\<exists>k. ((pending_opens v)(t := None)) u = Some k \<and> handle_data k = a) \<longleftrightarrow>
        (\<exists>d. ((clients v)(handle_data h \<mapsto> c\<lparr>pending_open := None\<rparr>)) a = Some d \<and> pending_open d = Some u)"
      for u a
    proof (cases "u = t")
      case True
      then show ?thesis using only by (auto split: if_splits)
    next
      case False
      moreover have "(\<exists>k. pending_opens v u = Some k \<and> handle_data k = a) \<longleftrightarrow>
          (\<exists>d. clients v a = Some d \<and> pending_open d = Some u)"
        using assms(1) unfolding vfs_inv_def by blast
      ultimately show ?thesis
        using that(2) \<open>pending_open c = Some t\<close> by (cases "a = handle_data h") simp_all
    qed
    ultimately show ?thesis using assms(1) by (simp add: vfs_inv_def)
  qed
  have add': "vfs_inv (v\<lparr>servers := m, clients := (clients v)(next_client v \<mapsto> c),
      next_client := next_client v + 1\<rparr>)" if "pending_open c = None" for m c
    using add [OF srvs that, of m] by simp
  show ?thesis
    using assms srvs add [OF assms(1)] add' take
    by (auto simp: vfs_open_def Let_def split: OpenKind.splits option.splits outcome.splits)
qed

lemma db_client_new_pending: "db_client_new w r1 r2 srv = Ok c \<Longrightarrow> pending_open c = None"
  using pending_open_reset
  by (auto simp: db_client_new_def split: outcome.splits prod.splits) (metis DbClient.select_convs(9) snd_conv)

lemma snd_wrap:
  "snd (case x of (r, v') \<Rightarrow> (wrap r, v')) = snd x"
  "snd (snd (case x of (r, v') \<Rightarrow> (wrap r, (k, v')))) = snd x"
  "snd (snd (case y of (r, f') \<Rightarrow> (wrap r, (g f', v)))) = v"
  by (simp_all split: prod.splits)

lemma vfs_inv_shm_lock:
  assumes "vfs_inv v"
  shows "vfs_inv (fst (snd (vfs_shm_lock w r1 r2 handle idx n mode op' (v, srv))))"
proof (cases handle)
  case (DbHandle h opts)
  show ?thesis
  proof (cases "clients v (handle_data h)")
    case None
    then show ?thesis using assms DbHandle by (simp add: vfs_shm_lock_def)
  next
    case (Some c)
    obtain r c' srv' where call: "db_shm_lock w r1 r2 idx n mode op' (c, srv) = (r, (c', srv'))"
      by (metis prod.exhaust)
    then have "pending_open c' = pending_open c"
      using pending_open_shm_lock [of w r1 r2 idx n mode op' c srv] by simp
    then show ?thesis using vfs_inv_update [OF assms Some] call Some DbHandle by (simp add: vfs_shm_lock_def)
  qed
qed (use assms in \<open>simp_all add: vfs_shm_lock_def\<close>)

lemma vfs_inv_lock:
  assumes "vfs_inv v"
  shows "vfs_inv (snd (vfs_lock t handle level v))"
proof -
  have hl: "vfs_inv (snd (handle_lock handle level u))" if "vfs_inv u" for u
    using that by (simp add: handle_lock_def vfs_inv_with_client pending_open_files split: FileHandle.splits)
  define x where "x = (case handle of
       DbHandle h _ \<Rightarrow> if level = Shared then announce_open t h v else (Ok (), v) | _ \<Rightarrow> (Ok (), v))"
  have x: "vfs_inv (snd x)"
    using assms by (simp add: x_def vfs_inv_announce split: FileHandle.splits)
  have "snd (vfs_lock t handle level v) =
      (if fst x = Ok () then snd (handle_lock handle level (snd x)) else snd x)"
    by (cases "fst x") (simp_all add: vfs_lock_def x_def [symmetric] bind_st_def snd_wrap)
  then show ?thesis using x hl by simp
qed

section \<open>Properties\<close>

text \<open>
  C34. The two records of pending opens agree, whatever calls SQLite makes: the invariant holds of
  a new VFS and every operation that can change the VFS keeps it.
\<close>

theorem vfs_ops_keep_inv:
  assumes "vfs_inv v"
  shows "vfs_inv repl_vfs_new \<and>
    vfs_inv (snd (vfs_open w r1 r2 srv t path opts v)) \<and> vfs_inv (snd (vfs_close handle v)) \<and>
    vfs_inv (snd (vfs_lock t handle level v)) \<and> vfs_inv (snd (vfs_unlock handle level v)) \<and>
    vfs_inv (snd (snd (vfs_truncate handle m v))) \<and> vfs_inv (snd (snd (vfs_write handle off d v))) \<and>
    vfs_inv (snd (vfs_shm_map handle i j b v)) \<and> vfs_inv (snd (vfs_shm_unmap handle b v)) \<and>
    vfs_inv (fst (snd (vfs_shm_lock w r1 r2 handle idx n mode op' (v, srv))))"
  using assms
  by (simp add: vfs_inv_new vfs_inv_open [OF assms db_client_new_pending] vfs_inv_lock
      vfs_inv_shm_lock vfs_close_def vfs_unlock_def vfs_truncate_def vfs_write_def vfs_shm_map_def
      vfs_shm_unmap_def vfs_inv_with_client pending_open_files snd_wrap split: FileHandle.splits)

theorem vfs_ops_keep_inv_witness:
  "vfs_inv (snd (vfs_open ideal_wire 1 2 test_server_new 7 (Some ''db'')
     (open_opts_new SQLITE_OPEN_MAIN_DB) repl_vfs_new))"
  using vfs_ops_keep_inv [OF vfs_inv_new] by blast

text \<open>
  Handing the client from the database file to its log: after a shared lock on a database
  file the same thread's open of a log file returns a handle on the very same client, under any
  name ending in \<^verbatim>\<open>-wal\<close>, and afterwards the VFS is as before the lock. Between the two, the same
  thread's next shared lock on any database file, and any other thread's shared lock on this one,
  panic.
\<close>

theorem wal_open_gets_locked_client:
  assumes "clients v (handle_data h) = Some c" and "pending_open c = None" and "pending_opens v t = None"
    and "opt_kind wal_opts = Wal"
  shows "\<exists>v1. vfs_lock t (DbHandle h opts) Shared v = (Ok (), v1) \<and>
    vfs_open w r1 r2 srv t (Some (name @ ''-wal'')) wal_opts v1 = (Ok (WalHandle h wal_opts), v) \<and>
    fst (vfs_lock t (DbHandle h' opts') Shared v1) = Panic \<and>
    fst (vfs_lock t' (DbHandle h opts') Shared v1) = Panic \<and>
    fst (vfs_close (DbHandle h opts) v1) = Panic"
proof -
  define v1 where "v1 = v\<lparr>clients := (clients v)(handle_data h \<mapsto> c\<lparr>pending_open := Some t\<rparr>),
    pending_opens := (pending_opens v)(t \<mapsto> h)\<rparr>"
  have ann: "announce_open t h v = (Ok (), v1)" using assms by (simp add: announce_open_def v1_def)
  have c1: "clients v1 (handle_data h) = Some (c\<lparr>pending_open := Some t\<rparr>)" by (simp add: v1_def)
  have "handle_lock (DbHandle h opts) Shared v1 = (Ok (), v1)"
    using c1 by (simp add: handle_lock_def with_client_def db_lock_def v1_def)
  then have "vfs_lock t (DbHandle h opts) Shared v = (Ok (), v1)"
    by (simp add: vfs_lock_def ann)
  moreover have "(clients v)(handle_data h \<mapsto> c\<lparr>pending_open := None\<rparr>) = clients v"
    using assms(1,2) by (simp add: fun_eq_iff)
  then have "vfs_open w r1 r2 srv t (Some (name @ ''-wal'')) wal_opts v1 = (Ok (WalHandle h wal_opts), v)"
    using assms(2-4) by (simp add: vfs_open_def v1_def fun_upd_idem)
  moreover have "fst (vfs_lock t (DbHandle h' opts') Shared v1) = Panic"
    by (simp add: vfs_lock_def announce_open_def v1_def split: option.splits)
  moreover have "fst (vfs_lock t' (DbHandle h opts') Shared v1) = Panic"
    using c1 by (simp add: vfs_lock_def announce_open_def)
  moreover have "fst (vfs_close (DbHandle h opts) v1) = Panic"
    using c1 by (simp add: vfs_close_def with_client_def)
  ultimately show ?thesis by blast
qed

definition sample_vfs :: ReplVfs where
  "sample_vfs = repl_vfs_new\<lparr>clients := [0 \<mapsto> sample_client []], next_client := 1\<rparr>"

theorem wal_open_gets_locked_client_witness:
  "\<exists>v1. vfs_lock 5 (DbHandle \<lparr>handle_id = ''db'', handle_data = 0\<rparr> (open_opts_new 0)) Shared sample_vfs =
       (Ok (), v1) \<and>
     vfs_open ideal_wire 1 2 test_server_new 5 (Some (''other'' @ ''-wal''))
       (open_opts_new SQLITE_OPEN_WAL) v1 =
       (Ok (WalHandle \<lparr>handle_id = ''db'', handle_data = 0\<rparr> (open_opts_new SQLITE_OPEN_WAL)), sample_vfs)"
proof -
  have "clients sample_vfs (handle_data \<lparr>handle_id = ''db'', handle_data = 0\<rparr>) = Some (sample_client [])"
    by (simp add: sample_vfs_def)
  moreover have "pending_open (sample_client []) = None" by (simp add: sample_client_def)
  moreover have "pending_opens sample_vfs 5 = None" by (simp add: sample_vfs_def repl_vfs_new_def)
  moreover have "opt_kind (open_opts_new SQLITE_OPEN_WAL) = Wal"
    by (simp add: opt_kind_def open_opts_new_def open_kind_from_def has_flag_def sqlite_consts)
  ultimately show ?thesis
    using wal_open_gets_locked_client [of sample_vfs "\<lparr>handle_id = ''db'', handle_data = 0\<rparr>"
        "sample_client []" 5 "open_opts_new SQLITE_OPEN_WAL" "open_opts_new 0"
        ideal_wire 1 2 test_server_new "''other''"] by blast
qed

text \<open>
  The name of a database does not select its contents: opening any two names gives replicas
  of the one server, with the same image and version.
\<close>

theorem names_share_one_server:
  assumes "opt_kind opts = MainDb" and "vfs_inv v"
    and "vfs_open w r1 r2 srv t (Some name1) opts v = (Ok (DbHandle h1 opts), v1)"
    and "vfs_open w r1 r2 srv t (Some name2) opts v1 = (Ok (DbHandle h2 opts), v2)"
  shows "\<exists>c1 c2. clients v2 (handle_data h1) = Some c1 \<and> clients v2 (handle_data h2) = Some c2 \<and>
    handle_data h1 \<noteq> handle_data h2 \<and> handle_id h1 = name1 \<and> handle_id h2 = name2 \<and>
    db_data c1 = db_data c2 \<and> server_version c1 = server_version c2 \<and>
    servers v2 name1 \<noteq> None \<and> servers v2 name2 \<noteq> None"
proof (cases "db_client_new w r1 r2 srv")
  case (Ok c)
  have "clients v1 = (clients v)(next_client v \<mapsto> c)" "h1 = \<lparr>handle_id = name1, handle_data = next_client v\<rparr>"
    "next_client v1 = next_client v + 1" "servers v1 name1 \<noteq> None"
    using assms(1,3) Ok by (auto simp: vfs_open_def Let_def split: if_splits)
  moreover have "clients v2 = (clients v1)(next_client v1 \<mapsto> c)"
    "h2 = \<lparr>handle_id = name2, handle_data = next_client v1\<rparr>" "servers v2 name2 \<noteq> None"
    "servers v1 name1 \<noteq> None \<longrightarrow> servers v2 name1 \<noteq> None"
    using assms(1,4) Ok by (auto simp: vfs_open_def Let_def split: if_splits)
  ultimately show ?thesis by simp
qed (use assms in \<open>simp_all add: vfs_open_def Let_def\<close>)

theorem names_share_one_server_witness:
  "\<exists>h1 h2 v1 v2. vfs_open ideal_wire 1 2 test_server_new 0 (Some ''a'')
      (open_opts_new SQLITE_OPEN_MAIN_DB) repl_vfs_new =
      (Ok (DbHandle h1 (open_opts_new SQLITE_OPEN_MAIN_DB)), v1) \<and>
    vfs_open ideal_wire 1 2 test_server_new 0 (Some ''b'') (open_opts_new SQLITE_OPEN_MAIN_DB) v1 =
      (Ok (DbHandle h2 (open_opts_new SQLITE_OPEN_MAIN_DB)), v2) \<and>
    map_option db_data (clients v2 (handle_data h1)) = map_option db_data (clients v2 (handle_data h2))"
proof -
  let ?o = "open_opts_new SQLITE_OPEN_MAIN_DB"
  have k: "opt_kind ?o = MainDb"
    by (simp add: opt_kind_def open_opts_new_def open_kind_from_def has_flag_def sqlite_consts)
  obtain c where c: "db_client_new ideal_wire 1 2 test_server_new = Ok c"
    by (rule open_replica_total [OF server_inv_new, of 1 2])
  obtain h1 v1 where o1: "vfs_open ideal_wire 1 2 test_server_new 0 (Some ''a'') ?o repl_vfs_new =
      (Ok (DbHandle h1 ?o), v1)"
    using k c by (simp add: vfs_open_def Let_def)
  obtain h2 v2 where o2: "vfs_open ideal_wire 1 2 test_server_new 0 (Some ''b'') ?o v1 =
      (Ok (DbHandle h2 ?o), v2)"
    using k c by (auto simp: vfs_open_def Let_def)
  from names_share_one_server [OF k vfs_inv_new o1 o2] o1 o2 show ?thesis by fastforce
qed

text \<open>
  The database file cannot be changed except through transactions: a write or truncation of
  it is answered with \<^verbatim>\<open>SQLITE_INTERNAL\<close>, an exclusive lock (which a rollback journal or a
  checkpoint would need) with \<^verbatim>\<open>SQLITE_BUSY\<close>, so are the checkpoint and recover locks, and the VFS
  is unchanged.
\<close>

theorem db_file_is_write_protected:
  assumes "clients v (handle_data h) = Some c"
  shows "vfs_write (DbHandle h opts) off d v = (Err SQLITE_INTERNAL, (DbHandle h opts, v)) \<and>
    vfs_truncate (DbHandle h opts) n v = (Err SQLITE_INTERNAL, (DbHandle h opts, v)) \<and>
    vfs_lock t (DbHandle h opts) Exclusive v = (Err SQLITE_BUSY, v) \<and>
    vfs_shm_lock w r1 r2 (DbHandle h opts) Checkpoint m mode op' (v, srv) = (Err SQLITE_BUSY, (v, srv)) \<and>
    vfs_shm_lock w r1 r2 (DbHandle h opts) Recover m mode op' (v, srv) = (Err SQLITE_BUSY, (v, srv))"
  using assms fun_upd_idem [of "clients v" "handle_data h" "Some c"]
  by (simp add: vfs_write_def vfs_truncate_def vfs_lock_def handle_lock_def vfs_shm_lock_def
      with_client_def db_write_def db_truncate_def db_lock_def db_shm_lock_def)

theorem db_file_is_write_protected_witness:
  "vfs_write (DbHandle \<lparr>handle_id = ''db'', handle_data = 0\<rparr> (open_opts_new 0)) 0 [1] sample_vfs =
     (Err SQLITE_INTERNAL, (DbHandle \<lparr>handle_id = ''db'', handle_data = 0\<rparr> (open_opts_new 0), sample_vfs))"
  using db_file_is_write_protected [of sample_vfs "\<lparr>handle_id = ''db'', handle_data = 0\<rparr>" "sample_client []"]
  by (simp add: sample_vfs_def)

end
