(* ===== verification/ReplPlugin.thy ===== *)
theory ReplPlugin
  imports ReplVfs
begin

text \<open>
  The replicated VFS behind the plugin's C functions: \<^verbatim>\<open>impl Vfs for ReplVfs\<close>
  (\<^verbatim>\<open>replsqlite/src/replvfs/mod.rs\<close>) as an instance of the trait record, the contract of
  \<open>PluginVfs\<close> discharged for it, and the entry point of the loadable extension
  (\<^verbatim>\<open>replsqlite/src/lib.rs\<close>). The properties say what a call SQLite makes through the C interface
  does to the replica.
\<close>

type_synonym repl_state = "ReplVfs \<times> TestDbServerData"

text \<open>The instance, for the calls of one thread.\<close>

definition repl_ops :: "wire \<Rightarrow> u32 \<Rightarrow> u32 \<Rightarrow> string \<Rightarrow> nat \<Rightarrow> (FileHandle, repl_state) Vfs" where
  "repl_ops w r1 r2 random_string thread = \<lparr>
     vf_register_logger = (\<lambda>_ s. s),
     vf_readonly = handle_readonly,
     vf_in_memory = handle_in_memory,
     vf_canonical_path = (\<lambda>p s. (vfs_canonical_path random_string p, s)),
     vf_open = (\<lambda>p opts s. case vfs_open w r1 r2 (snd s) thread p opts (fst s) of (r, v) \<Rightarrow> (r, (v, snd s))),
     vf_delete = (\<lambda>p s. (vfs_delete p, s)),
     vf_access = (\<lambda>p flags s. (vfs_access p flags, s)),
     vf_file_size = (\<lambda>(h, s). (vfs_file_size h (fst s), (h, s))),
     vf_truncate = (\<lambda>n (h, s). case vfs_truncate h n (fst s) of (r, (h', v)) \<Rightarrow> (r, (h', (v, snd s)))),
     vf_write = (\<lambda>off d (h, s). case vfs_write h off d (fst s) of (r, (h', v)) \<Rightarrow> (r, (h', (v, snd s)))),
     vf_read = (\<lambda>off buf (h, s). (vfs_read h off buf (fst s), (h, s))),
     vf_lock = (\<lambda>level (h, s). case vfs_lock thread h level (fst s) of (r, v) \<Rightarrow> (r, (h, (v, snd s)))),
     vf_unlock = (\<lambda>level (h, s). case vfs_unlock h level (fst s) of (r, v) \<Rightarrow> (r, (h, (v, snd s)))),
     vf_sync = default_unit,
     vf_close = (\<lambda>h s. case vfs_close h (fst s) of (r, v) \<Rightarrow> (r, (v, snd s))),
     vf_pragma = default_pragma,
     vf_sector_size = DEFAULT_SECTOR_SIZE,
     vf_device_characteristics = vfs_device_characteristics,
     vf_shm_map = (\<lambda>i j b (h, s). case vfs_shm_map h i j b (fst s) of
        (r, v) \<Rightarrow> (case r of Ok _ \<Rightarrow> Ok (case h of DbHandle d _ \<Rightarrow> handle_data d | _ \<Rightarrow> 0) | Err e \<Rightarrow> Err e | Panic \<Rightarrow> Panic,
                   (h, (v, snd s)))),
     vf_shm_lock = (\<lambda>idx n mode op' (h, s). case vfs_shm_lock w r1 r2 h idx n mode op' s of (r, s') \<Rightarrow> (r, (h, s'))),
     vf_shm_barrier = (\<lambda>(h, s). (vfs_shm_barrier h, (h, s))),
     vf_shm_unmap = (\<lambda>b (h, s). case vfs_shm_unmap h b (fst s) of (r, v) \<Rightarrow> (r, (h, (v, snd s))))\<rparr>"

text \<open>
  The extension's entry point. \<open>tracing_ok\<close> and \<open>runtime_ok\<close> say whether the tracing subscriber
  could be installed and the tokio runtime built; otherwise the function panics.
\<close>

definition sqlite3_extension_init ::
  "bool \<Rightarrow> bool \<Rightarrow> (FileHandle, repl_state) Vfs \<Rightarrow> nat \<Rightarrow> api_routines_used option \<Rightarrow> repl_state \<Rightarrow>
   c_result \<times> (sqlite3_vfs \<times> (FileHandle, repl_state) AppData) option" where
  "sqlite3_extension_init tracing_ok runtime_ok vfs filewrapper_size p_api s =
     (if \<not> tracing_ok then (None, None)
      else if \<not> runtime_ok then (None, None)
      else case register_dynamic p_api ''replvfs'' vfs filewrapper_size True s of
        (Ok _, (s', reg)) \<Rightarrow> (Some SQLITE_OK_LOAD_PERMANENTLY, reg)
      | (Err err, (s', reg)) \<Rightarrow> (Some err, reg)
      | (Panic, (s', reg)) \<Rightarrow> (None, reg))"

section \<open>The contract\<close>

lemma vec_write_full: "vec_write off d xs = (Ok n, ys) \<Longrightarrow> n = length d"
  by (auto simp: vec_write_def split: if_splits)

lemma vec_read_len: "vec_read off buf xs = (r, buf') \<Longrightarrow> length buf' = length buf"
  by (auto simp: vec_read_def Let_def split: if_splits)

lemma vec_read_count: "vec_read off buf xs = (Ok n, buf') \<Longrightarrow> n \<le> length buf"
  by (auto simp: vec_read_def Let_def split: if_splits)

lemma db_read_len: "db_read off buf c = (r, buf') \<Longrightarrow> length buf' = length buf"
  by (auto simp: db_read_def Let_def split: if_splits option.splits)

lemma db_read_count: "db_read off buf c = (Ok n, buf') \<Longrightarrow> n \<le> length buf"
  by (auto simp: db_read_def Let_def split: if_splits option.splits)

lemma wrap_Ok_iff: "wrap r = Ok a \<longleftrightarrow> r = Ok a"
  by (cases r) auto

lemma vfs_write_full:
  assumes "vfs_write h off d v = (Ok n, hv)"
  shows "n = length d"
proof (cases h)
  case (MemHandle f)
  with assms show ?thesis
    using vec_write_full [of off d "mem_data f"]
    by (auto simp: vfs_write_def mem_write_def wrap_Ok_iff split: prod.splits)
next
  case (DbHandle x opts)
  with assms show ?thesis
    by (auto simp: vfs_write_def with_client_def db_write_def split: option.splits)
next
  case (WalHandle x opts)
  with assms show ?thesis
    using vec_write_full
    by (auto simp: vfs_write_def with_client_def wal_write_def wrap_Ok_iff split: option.splits prod.splits)
qed

lemma vfs_read_len: "vfs_read h off buf v = (r, buf') \<Longrightarrow> length buf' = length buf"
  by (cases h)
    (auto simp: vfs_read_def peek_client_def mem_read_def wal_read_def vec_read_len db_read_len
      split: option.splits prod.splits)

lemma vfs_read_count: "vfs_read h off buf v = (Ok n, buf') \<Longrightarrow> n \<le> length buf"
  by (cases h)
    (auto simp: vfs_read_def peek_client_def mem_read_def wal_read_def wrap_Ok_iff
      dest: vec_read_count db_read_count split: option.splits prod.splits)

interpretation repl: vfs_contract "repl_ops w r1 r2 rs t" for w r1 r2 rs t
proof unfold_locales
  fix off d hs n hs'
  assume "vf_write (repl_ops w r1 r2 rs t) off d hs = (Ok n, hs')"
  then show "n = length d"
    by (auto simp: repl_ops_def split: prod.splits dest!: vfs_write_full)
next
  fix off buf hs r buf' hs'
  assume "vf_read (repl_ops w r1 r2 rs t) off buf hs = ((r, buf'), hs')"
  then show "length buf' = length buf"
    by (auto simp: repl_ops_def split: prod.splits dest: vfs_read_len)
next
  fix off buf hs n buf' hs'
  assume "vf_read (repl_ops w r1 r2 rs t) off buf hs = ((Ok n, buf'), hs')"
  then show "n \<le> length buf"
    by (auto simp: repl_ops_def split: prod.splits dest: vfs_read_count)
qed

section \<open>Calls through the C interface\<close>

text \<open>A file SQLite has open on the replicated VFS, in the given thread.\<close>

definition repl_file ::
  "wire \<Rightarrow> u32 \<Rightarrow> u32 \<Rightarrow> nat \<Rightarrow> FileHandle \<Rightarrow> (FileHandle, repl_state) FileWrapper" where
  "repl_file w r1 r2 t h = \<lparr>fw_pMethods = Some plugin_io_methods,
     fw_vfs = Some \<lparr>base_vfs = None, app_vfs = repl_ops w r1 r2 [] t, io_methods = plugin_io_methods,
       sqlite_api = sample_api\<rparr>,
     fw_handle = Some h\<rparr>"

lemma repl_file_fields:
  "fw_vfs (repl_file w r1 r2 t h) = Some \<lparr>base_vfs = None, app_vfs = repl_ops w r1 r2 [] t,
     io_methods = plugin_io_methods, sqlite_api = sample_api\<rparr>"
  "fw_handle (repl_file w r1 r2 t h) = Some h"
  "(repl_file w r1 r2 t h)\<lparr>fw_handle := Some h'\<rparr> = repl_file w r1 r2 t h'"
  by (simp_all add: repl_file_def)

definition set_client :: "nat \<Rightarrow> DbClient \<Rightarrow> repl_state \<Rightarrow> repl_state" where
  "set_client a c s = ((fst s)\<lparr>clients := (clients (fst s))(a \<mapsto> c)\<rparr>, snd s)"

lemma set_client_simps [simp]:
  "clients (fst (set_client a c s)) a = Some c" "snd (set_client a c s) = snd s"
  "set_client a d (set_client a c s) = set_client a d s"
  by (simp_all add: set_client_def)

text \<open>The flags word SQLite passes to \<^verbatim>\<open>xShmLock\<close>.\<close>

definition shm_flags :: "ShmLockOp \<Rightarrow> ShmLockMode \<Rightarrow> i32" where
  "shm_flags op' mode =
     (case op' of ShmLock \<Rightarrow> SQLITE_SHM_LOCK | ShmUnlock \<Rightarrow> SQLITE_SHM_UNLOCK) OR
     (case mode of ShmShared \<Rightarrow> SQLITE_SHM_SHARED | ShmExclusive \<Rightarrow> SQLITE_SHM_EXCLUSIVE)"

lemma shm_flags_decoded:
  "shm_lock_op_from (shm_flags op' mode) = Some op'" "shm_lock_mode_from (shm_flags op' mode) = Some mode"
  by (cases op'; cases mode;
      simp add: shm_flags_def shm_lock_op_from_def shm_lock_mode_from_def has_flag_def sqlite_consts)+

fun code_of :: "unit VfsResult \<Rightarrow> c_result" where
  "code_of (Ok u) = Some SQLITE_OK"
| "code_of (Err e) = Some e"
| "code_of Panic = None"

text \<open>One \<^verbatim>\<open>xShmLock\<close> call is one call of the client's lock method.\<close>

lemma x_shm_lock_client:
  assumes "clients (fst s) (handle_data h) = Some c" and "shm_lock_index_from offset = Some idx"
    and "0 \<le> sint n"
    and "db_shm_lock w r1 r2 idx (nat (sint n)) mode op' (c, snd s) = (r, (c', srv'))"
  shows "x_shm_lock (Some (repl_file w r1 r2 t (DbHandle h opts))) offset n (shm_flags op' mode) s =
    (code_of (wrap r), (Some (repl_file w r1 r2 t (DbHandle h opts)),
      (fst (set_client (handle_data h) c' s), srv')))"
proof -
  have "to_usize SQLITE_IOERR_SHMMAP n = Ok (nat (sint n))" using assms(3) by (simp add: to_usize_def)
  then show ?thesis
    using assms(1,2,4)
    by (cases r) (simp_all add: x_shm_lock_def on_file_def repl_file_fields shm_flags_decoded decoded_def
        repl_ops_def vfs_shm_lock_def ok_code_def set_client_def)
qed

lemma sint_of_nat_64: "n < 2 ^ 63 \<Longrightarrow> sint (of_nat n :: 64 word) = int n"
  by (simp add: signed_of_nat signed_take_bit_int_eq_self)

text \<open>One \<^verbatim>\<open>xWrite\<close> call at the end of the log appends to the client's log.\<close>

lemma x_write_log:
  assumes "clients (fst s) (handle_data h) = Some c"
    and "length (wal_data c) + length d < isize_limit" and "length d < 2 ^ 31"
  shows "x_write (Some (repl_file w r1 r2 t (WalHandle h opts))) d (of_nat (length d))
      (of_nat (length (wal_data c))) s =
    (Some SQLITE_OK, (Some (repl_file w r1 r2 t (WalHandle h opts)),
      set_client (handle_data h) (c\<lparr>wal_data := wal_data c @ d\<rparr>) s))"
proof -
  have amt: "sint (of_nat (length d) :: i32) = int (length d)"
    using assms(3) by (simp add: signed_of_nat signed_take_bit_int_eq_self)
  have ofst: "sint (of_nat (length (wal_data c)) :: 64 word) = int (length (wal_data c))"
    using assms(2) by (intro sint_of_nat_64) (simp add: isize_limit_def)
  have wr: "vf_write (repl_ops w r1 r2 [] t) (length (wal_data c)) d (WalHandle h opts, s) =
      (Ok (length d), (WalHandle h opts, set_client (handle_data h) (c\<lparr>wal_data := wal_data c @ d\<rparr>) s))"
    using assms(1) wal_write_end [OF assms(2)]
    by (simp add: repl_ops_def vfs_write_def with_client_def set_client_def split: prod.splits)
  let ?g = "repl_file w r1 r2 t (WalHandle h opts)"
  have "x_write (Some ?g) d (of_nat (length d)) (of_nat (length (wal_data c))) s =
      (case Ok (length d) of Ok _ \<Rightarrow> Some SQLITE_OK | Err e \<Rightarrow> Some e | Panic \<Rightarrow> None,
       (Some (?g\<lparr>fw_handle := Some (WalHandle h opts)\<rparr>),
        set_client (handle_data h) (c\<lparr>wal_data := wal_data c @ d\<rparr>) s))"
    by (rule repl.x_write_code [where w = w and ?r1.0 = r1 and ?r2.0 = r2 and rs = "[]" and t = t,
          OF repl_file_fields(1) _ repl_file_fields(2) amt])
      (use ofst wr in simp_all)
  then show ?thesis by (simp add: repl_file_fields(3))
qed

section \<open>A write transaction through the C interface\<close>

definition on_ok :: "c_result \<times> ('f \<times> 's) \<Rightarrow> ('s \<Rightarrow> c_result \<times> 's) \<Rightarrow> c_result \<times> 's" where
  "on_ok r k = (if fst r = Some SQLITE_OK then k (snd (snd r)) else (fst r, snd (snd r)))"

lemma on_ok_simps [simp, outcome_simps]: "on_ok (Some SQLITE_OK, (f, s)) k = k s"
  by (simp add: on_ok_def)

text \<open>SQLite writes frame \<open>i\<close> of a fresh log behind the header and the frames before it.\<close>

fun c_append ::
  "(FileHandle, repl_state) FileWrapper \<Rightarrow> nat \<Rightarrow> frame list \<Rightarrow> repl_state \<Rightarrow> c_result \<times> repl_state" where
  "c_append g i [] s = (Some SQLITE_OK, s)"
| "c_append g i (f # fs) s =
     on_ok (x_write (Some g) (enc_wal_frame_header (fst f)) (of_nat WAL_FRAME_HEADER_SIZE)
             (of_nat (WAL_HEADER_SIZE + i * FRAME_SIZE)) s) (\<lambda>s1.
     on_ok (x_write (Some g) (snd f) (of_nat PAGESIZE)
             (of_nat (WAL_HEADER_SIZE + i * FRAME_SIZE + WAL_FRAME_HEADER_SIZE)) s1)
       (c_append g (i + 1) fs))"

definition c_write_session ::
  "(FileHandle, repl_state) FileWrapper \<Rightarrow> (FileHandle, repl_state) FileWrapper \<Rightarrow> frame list \<Rightarrow>
   repl_state \<Rightarrow> c_result \<times> repl_state" where
  "c_write_session d g fs s =
     on_ok (x_shm_lock (Some d) 3 1 (shm_flags ShmLock ShmShared) s) (\<lambda>s1.
     on_ok (x_shm_lock (Some d) 0 1 (shm_flags ShmLock ShmExclusive) s1) (\<lambda>s2.
     on_ok (case c_append g 0 fs s2 of (code, s3) \<Rightarrow> (code, ((), s3))) (\<lambda>s3.
     on_ok (x_shm_lock (Some d) 0 1 (shm_flags ShmUnlock ShmExclusive) s3) (\<lambda>s4.
     on_ok (x_shm_lock (Some d) 3 1 (shm_flags ShmUnlock ShmShared) s4) (\<lambda>s5. (Some SQLITE_OK, s5))))))"

lemma c_append_fold:
  assumes "clients (fst s) (handle_data h) = Some c" and "list_all frame_ok fs"
    and "length (wal_data c) = WAL_HEADER_SIZE + i * FRAME_SIZE"
    and "length (wal_data c) + length fs * FRAME_SIZE < isize_limit"
  shows "c_append (repl_file w r1 r2 t (WalHandle h opts)) i fs s =
    (Some SQLITE_OK, set_client (handle_data h) (fold append_frame fs c) s)"
  using assms
proof (induction fs arbitrary: i c s)
  case Nil
  then show ?case by (auto simp: set_client_def fun_upd_idem)
next
  case (Cons f fs)
  let ?g = "repl_file w r1 r2 t (WalHandle h opts)"
  let ?hd = "enc_wal_frame_header (fst f)"
  define c1 where "c1 = c\<lparr>wal_data := wal_data c @ ?hd\<rparr>"
  define c2 where "c2 = c1\<lparr>wal_data := wal_data c1 @ snd f\<rparr>"
  have sizes: "length ?hd = WAL_FRAME_HEADER_SIZE" "length (snd f) = PAGESIZE"
    using Cons.prems(2) by (simp_all add: length_enc_wal_frame_header frame_ok_def)
  have small: "WAL_FRAME_HEADER_SIZE < 2 ^ 31" "PAGESIZE < 2 ^ 31"
    by (simp_all add: WAL_FRAME_HEADER_SIZE_def PAGESIZE_def)
  have frame: "FRAME_SIZE = WAL_FRAME_HEADER_SIZE + PAGESIZE" by (simp add: FRAME_SIZE_def)
  have "x_write (Some ?g) ?hd (of_nat WAL_FRAME_HEADER_SIZE) (of_nat (WAL_HEADER_SIZE + i * FRAME_SIZE)) s =
      (Some SQLITE_OK, (Some ?g, set_client (handle_data h) c1 s))"
    using x_write_log [OF Cons.prems(1), of ?hd] Cons.prems(3,4) sizes small frame by (simp add: c1_def)
  moreover have "x_write (Some ?g) (snd f) (of_nat PAGESIZE)
      (of_nat (WAL_HEADER_SIZE + i * FRAME_SIZE + WAL_FRAME_HEADER_SIZE)) (set_client (handle_data h) c1 s) =
      (Some SQLITE_OK, (Some ?g, set_client (handle_data h) c2 s))"
    using x_write_log [of "set_client (handle_data h) c1 s" h c1 "snd f"] Cons.prems(3,4) sizes small frame
    by (simp add: c2_def c1_def)
  moreover have "append_frame f c = c2"
    using append_frame_data [of c f] Cons.prems(2,4) by (simp add: c2_def c1_def enc_frame_def)
  moreover have "c_append ?g (i + 1) fs (set_client (handle_data h) c2 s) =
      (Some SQLITE_OK, set_client (handle_data h) (fold append_frame fs c2) s)"
    using Cons.IH [of "set_client (handle_data h) c2 s" c2 "i + 1"] Cons.prems(2,3,4) sizes frame
    by (simp add: c2_def c1_def)
  ultimately show ?case by simp
qed

text \<open>The state after a call: the store with the client replaced.\<close>

lemma session_through_c:
  assumes "faithful_wire w" and "server_inv srv" and "tracks c srv" and "idle c"
    and "clients v (handle_data h) = Some c" and "list_all frame_ok fs"
    and "WAL_HEADER_SIZE + length fs * FRAME_SIZE < isize_limit"
    and "write_session w (\<lambda>_. (r1, r2)) fs (c, srv) = (Ok (), (c', srv'))"
  shows "c_write_session (repl_file w r1 r2 t (DbHandle h opts)) (repl_file w r1 r2 t' (WalHandle h opts')) fs (v, srv) =
    (Some SQLITE_OK, (fst (set_client (handle_data h) c' (v, srv)), srv'))"
proof -
  let ?d = "repl_file w r1 r2 t (DbHandle h opts)" and ?a = "handle_data h"
  define st where "st = (\<lambda>c (s :: TestDbServerData). (fst (set_client (handle_data h) c (v, srv)), s))"
  have st: "clients (fst (st e s)) ?a = Some e" "snd (st e s) = s"
    "set_client ?a e' (st e s) = st e' s" "fst (set_client ?a e' (st e s)) = fst (st e' s)" for e e' s
    by (simp_all add: st_def set_client_def)
  have idx: "shm_lock_index_from 3 = Some (ReadLock 0)" "shm_lock_index_from 0 = Some WriteLock"
    by (simp_all add: shm_lock_index_from_def sqlite_consts)
  have lock: "x_shm_lock (Some ?d) offset 1 (shm_flags op' mode) (st e s) =
      (code_of (wrap r), (Some ?d, st e' s'))"
    if "shm_lock_index_from offset = Some i" "lock_with w (r1, r2) i mode op' (e, s) = (r, (e', s'))"
    for offset i op' mode e s r e' s'
  proof -
    have call: "db_shm_lock w r1 r2 i (nat (sint (1 :: i32))) mode op' (e, snd (st e s)) = (r, (e', s'))"
      using that(2) st(2) by (simp add: lock_with_def)
    have "(fst (set_client ?a e' (st e s)), s') = st e' s'" by (simp add: st_def set_client_def)
    with x_shm_lock_client [OF st(1) that(1) _ call] show ?thesis by simp
  qed
  obtain c1 where c1: "lock_with w (r1, r2) (ReadLock 0) ShmShared ShmLock (c, srv) =
      (Ok (), (c1\<lparr>read_locks := 1\<rparr>, srv))" "length (wal_data c1) = WAL_HEADER_SIZE" "write_locks c1 = 0"
    by (rule faithful_wire.session_begin [OF assms(1-4), of "(r1, r2)"])
  define c2 where "c2 = c1\<lparr>read_locks := 1, write_locks := 1, had_write := True\<rparr>"
  have l2: "lock_with w (r1, r2) WriteLock ShmExclusive ShmLock (c1\<lparr>read_locks := 1\<rparr>, srv) = (Ok (), (c2, srv))"
    using c1(3) by (simp add: lock_with_def db_shm_lock_def maybe_begin_tx_def c2_def)
  obtain c3 srv3 where
    l3: "lock_with w (r1, r2) WriteLock ShmExclusive ShmUnlock (fold append_frame fs c2, srv) = (Ok (), (c3, srv3))"
    and l4: "lock_with w (r1, r2) (ReadLock 0) ShmShared ShmUnlock (c3, srv3) = (Ok (), (c', srv'))"
    using assms(8) c1(1) l2
    by (auto simp: write_session_def elim!: bind_st_OkE)
  have app: "c_append (repl_file w r1 r2 t' (WalHandle h opts')) 0 fs (st c2 srv) =
      (Some SQLITE_OK, st (fold append_frame fs c2) srv)"
    using c_append_fold [of "st c2 srv" h c2 fs 0 w r1 r2 t' opts'] assms(6,7) c1(2) st by (simp add: c2_def)
  have start: "(v, srv) = st c srv"
    using assms(5) by (simp add: st_def set_client_def fun_upd_idem)
  have "c_write_session ?d (repl_file w r1 r2 t' (WalHandle h opts')) fs (st c srv) = (Some SQLITE_OK, st c' srv')"
    unfolding c_write_session_def
    by (simp add: lock [OF idx(1) c1(1)] lock [OF idx(2) l2] app lock [OF idx(2) l3] lock [OF idx(1) l4])
  then show ?thesis unfolding start [symmetric] by (simp add: st_def)
qed

section \<open>Properties\<close>

text \<open>
  A read of the log beyond its end is answered with \<^verbatim>\<open>SQLITE_OK\<close>, whatever it could not fill:
  \<^verbatim>\<open>x_read\<close> drops the count the VFS returns. The header requires \<^verbatim>\<open>SQLITE_IOERR_SHORT_READ\<close> and the
  rest of the buffer filled with zeros; the rest is left as the caller had it.
\<close>

theorem short_read_reported_as_ok:
  assumes "clients v (handle_data h) = Some c" and "sint i_amt = int (length buf)"
    and "0 \<le> sint i_ofst" and "nat (sint i_ofst) + length buf < isize_limit"
    and "length (wal_data c) < nat (sint i_ofst) + length buf"
  shows "x_read (Some (repl_file w r1 r2 t (WalHandle h opts))) buf i_amt i_ofst (v, srv) =
    ((Some SQLITE_OK, drop (nat (sint i_ofst)) (wal_data c) @ drop (length (wal_data c) - nat (sint i_ofst)) buf),
     (Some (repl_file w r1 r2 t (WalHandle h opts)), (v, srv)))"
proof -
  let ?g = "repl_file w r1 r2 t (WalHandle h opts)" and ?off = "nat (sint i_ofst)"
  let ?out = "take (length buf) (drop ?off (wal_data c)) @ drop (length (wal_data c) - ?off) buf"
  have "vf_read (repl_ops w r1 r2 [] t) ?off buf (WalHandle h opts, (v, srv)) =
      ((Ok (length (take (length buf) (drop ?off (wal_data c)))), ?out), (WalHandle h opts, (v, srv)))"
    using assms(1) wal_file.read_result [OF assms(4), of c]
    by (simp add: repl_ops_def vfs_read_def peek_client_def)
  then have "x_read (Some ?g) buf i_amt i_ofst (v, srv) =
      ((case Ok (length (take (length buf) (drop ?off (wal_data c)))) of
          Ok _ \<Rightarrow> Some SQLITE_OK | Err e \<Rightarrow> Some e | Panic \<Rightarrow> None, ?out),
       (Some (?g\<lparr>fw_handle := Some (WalHandle h opts)\<rparr>), (v, srv)))"
    by (intro repl.x_read_code [where w = w and ?r1.0 = r1 and ?r2.0 = r2 and rs = "[]" and t = t,
          OF repl_file_fields(1) _ repl_file_fields(2) assms(2,3)]) simp_all
  then show ?thesis using assms(5) by (simp add: repl_file_fields(3))
qed

theorem short_read_reported_as_ok_witness:
  "x_read (Some (repl_file ideal_wire 1 2 0
       (WalHandle \<lparr>handle_id = ''db'', handle_data = 0\<rparr> (open_opts_new 0)))) [9, 9] 2 100 (sample_vfs, test_server_new) =
     ((Some SQLITE_OK, [9, 9]), (Some (repl_file ideal_wire 1 2 0
       (WalHandle \<lparr>handle_id = ''db'', handle_data = 0\<rparr> (open_opts_new 0))), (sample_vfs, test_server_new)))"
proof -
  have "length (wal_data (sample_client [])) = 32"
    by (simp add: sample_client_def length_enc_wal_header size_defs)
  then show ?thesis
    using short_read_reported_as_ok [of sample_vfs "\<lparr>handle_id = ''db'', handle_data = 0\<rparr>"
        "sample_client []" 2 "[9, 9]" 100 ideal_wire 1 2 0 "open_opts_new 0" test_server_new]
    by (simp add: sample_vfs_def isize_limit_def)
qed

end
