(* ===== verification/CDecl.thy ===== *)
theory CDecl
  imports Prelude
begin

text \<open>
  C declarations as data, for the interface that \<^verbatim>\<open>sqlite3.h\<close> and \<^verbatim>\<open>sqlite3ext.h\<close> declare and
  that \<^verbatim>\<open>sqlite-plugin/build.rs\<close> hands to bindgen. A declaration is a name and a type; a section
  is one documented unit of the header: its title, the roles its functions play for an object, the
  functions its text refers to, and the declarations it documents. The theory defines when a type
  is well formed, when two types are compatible once typedefs are expanded and array parameters
  have decayed, how a structure is laid out, and which functions of a section break its roles.
\<close>

named_theorems api_decls \<open>the declarations of the headers\<close>
named_theorems api_sections \<open>the documented sections of the headers\<close>
named_theorems ctype_names \<open>what each type name of the headers stands for\<close>

section \<open>Types and declarations\<close>

datatype ctype =
    TVoid | TChar | TUChar | TInt | TUInt | TULong | TLongLong | TULongLong | TDouble
  | TName string
  | Ptr ctype
  | Const ctype
  | Arr "nat option" ctype
  | Fn ctype "ctype list"
  | VarArg

datatype decl = Decl (decl_name: string) (decl_type: ctype)

text \<open>The tags \<^verbatim>\<open>METHOD\<close>, \<^verbatim>\<open>CONSTRUCTOR\<close> and \<^verbatim>\<open>DESTRUCTOR\<close> of a section's comment.\<close>

datatype role = Method string | Constructor string | Destructor string

record capi_section =
  sec_title :: string
  sec_roles :: "role list"
  sec_refs :: "string list"
  sec_decls :: "decl list"

text \<open>
  The environment of type names: typedefs of the headers (newest first), the structures whose
  members are declared, and the names declared without members (opaque objects).
\<close>

record type_env =
  env_typedefs :: "(string \<times> ctype) list"
  env_structs :: "string list"
  env_opaque :: "string list"

section \<open>Well-formed types\<close>

text \<open>
  \<open>obj_ok\<close> holds of complete object types, which members, parameters and results need;
  \<open>ref_ok\<close> of the types a pointer may point to, which include \<^verbatim>\<open>void\<close>, opaque structures and
  functions. An ellipsis comes last and after at least one parameter.
\<close>

definition complete_name :: "type_env \<Rightarrow> string \<Rightarrow> bool" where
  "complete_name E n = (n \<in> fst ` set (env_typedefs E) \<or> n \<in> set (env_structs E))"

definition declared_name :: "type_env \<Rightarrow> string \<Rightarrow> bool" where
  "declared_name E n = (complete_name E n \<or> n \<in> set (env_opaque E))"

fun obj_ok :: "type_env \<Rightarrow> ctype \<Rightarrow> bool"
  and ref_ok :: "type_env \<Rightarrow> ctype \<Rightarrow> bool"
  and params_ok :: "type_env \<Rightarrow> ctype list \<Rightarrow> bool" where
  "obj_ok E TVoid = False"
| "obj_ok E (TName n) = complete_name E n"
| "obj_ok E (Ptr t) = ref_ok E t"
| "obj_ok E (Const t) = obj_ok E t"
| "obj_ok E (Arr n t) = obj_ok E t"
| "obj_ok E (Fn r ps) = False"
| "obj_ok E VarArg = False"
| "obj_ok E t = True"
| "ref_ok E (TName n) = declared_name E n"
| "ref_ok E (Ptr t) = ref_ok E t"
| "ref_ok E (Const t) = ref_ok E t"
| "ref_ok E (Arr n t) = obj_ok E t"
| "ref_ok E (Fn r ps) = ((r = TVoid \<or> obj_ok E r) \<and> params_ok E ps)"
| "ref_ok E VarArg = False"
| "ref_ok E t = True"
| "params_ok E [] = True"
| "params_ok E (p # ps) = (obj_ok E p \<and> (ps = [VarArg] \<or> params_ok E ps))"

text \<open>A declaration at file scope declares a function or an object; a member is an object.\<close>

definition decl_ok :: "type_env \<Rightarrow> decl \<Rightarrow> bool" where
  "decl_ok E d = (decl_name d \<noteq> [] \<and> ref_ok E (decl_type d) \<and> decl_type d \<noteq> TVoid)"

definition member_ok :: "type_env \<Rightarrow> decl \<Rightarrow> bool" where
  "member_ok E d = (decl_name d \<noteq> [] \<and> obj_ok E (decl_type d))"

lemma obj_ok_ref_ok: "obj_ok E t \<Longrightarrow> ref_ok E t"
  by (induction t) (auto simp: declared_name_def)

section \<open>Compatibility\<close>

text \<open>Array parameters of a function are pointers.\<close>

fun decay_param :: "ctype \<Rightarrow> ctype" where
  "decay_param (Arr n t) = Ptr t"
| "decay_param t = t"

fun decay :: "ctype \<Rightarrow> ctype" where
  "decay (Ptr t) = Ptr (decay t)"
| "decay (Const t) = Const (decay t)"
| "decay (Arr n t) = Arr n (decay t)"
| "decay (Fn r ps) = Fn (decay r) (map (\<lambda>p. decay_param (decay p)) ps)"
| "decay t = t"

text \<open>
  Replacing one typedef name, and all of them from the newest to the oldest: a typedef can
  only mention names declared before it.
\<close>

fun expand :: "string \<Rightarrow> ctype \<Rightarrow> ctype \<Rightarrow> ctype" where
  "expand n d (TName m) = (if m = n then d else TName m)"
| "expand n d (Ptr t) = Ptr (expand n d t)"
| "expand n d (Const t) = Const (expand n d t)"
| "expand n d (Arr k t) = Arr k (expand n d t)"
| "expand n d (Fn r ps) = Fn (expand n d r) (map (expand n d) ps)"
| "expand n d t = t"

fun canon :: "(string \<times> ctype) list \<Rightarrow> ctype \<Rightarrow> ctype" where
  "canon [] t = t"
| "canon ((n, d) # tds) t = canon tds (expand n d t)"

lemma canon_const [ctype_names]:
  "canon tds TVoid = TVoid" "canon tds TChar = TChar" "canon tds TUChar = TUChar"
  "canon tds TInt = TInt" "canon tds TUInt = TUInt" "canon tds TULong = TULong"
  "canon tds TLongLong = TLongLong" "canon tds TULongLong = TULongLong"
  "canon tds TDouble = TDouble" "canon tds VarArg = VarArg"
  by (induction tds) auto

lemma canon_step [ctype_names]:
  "canon tds (Ptr t) = Ptr (canon tds t)" "canon tds (Const t) = Const (canon tds t)"
  "canon tds (Arr k t) = Arr k (canon tds t)"
  "canon tds (Fn r ps) = Fn (canon tds r) (map (canon tds) ps)"
  by (induction tds arbitrary: t r ps) (auto simp: comp_def map_idI)

definition compatible :: "type_env \<Rightarrow> ctype \<Rightarrow> ctype \<Rightarrow> bool" where
  "compatible E t u = (canon (env_typedefs E) (decay t) = canon (env_typedefs E) (decay u))"

lemma compatible_refl [simp]: "compatible E t t"
  by (simp add: compatible_def)

lemma compatible_sym: "compatible E t u \<Longrightarrow> compatible E u t"
  by (simp add: compatible_def)

lemma compatible_trans: "compatible E t u \<Longrightarrow> compatible E u v \<Longrightarrow> compatible E t v"
  by (simp add: compatible_def)

section \<open>Roles\<close>

text \<open>
  A method takes its object first; a constructor returns a pointer to the object or takes the
  address of one; a destructor takes the object.
\<close>

fun plays :: "role \<Rightarrow> ctype \<Rightarrow> bool" where
  "plays (Method o') (Fn r ps) =
     (ps \<noteq> [] \<and> ps ! 0 \<in> {Ptr (TName o'), Ptr (Const (TName o'))})"
| "plays (Constructor o') (Fn r ps) = (r = Ptr (TName o') \<or> Ptr (Ptr (TName o')) \<in> set ps)"
| "plays (Destructor o') (Fn r ps) = (Ptr (TName o') \<in> set ps)"
| "plays _ _ = False"

definition violations :: "capi_section \<Rightarrow> string list" where
  "violations s =
     map decl_name (filter (\<lambda>d. \<not> list_all (\<lambda>r. plays r (decl_type d)) (sec_roles s)) (sec_decls s))"

lemma violations_untagged [simp]: "sec_roles s = [] \<Longrightarrow> violations s = []"
  by (simp add: violations_def)

section \<open>Layout of a table of pointers\<close>

text \<open>
  On the 64-bit targets of the plugin a pointer has 8 bytes, so the members of a structure
  that holds only pointers lie one after the other without padding.
\<close>

definition pointer_size :: nat where "pointer_size = 8"

fun is_pointer :: "ctype \<Rightarrow> bool" where
  "is_pointer (Ptr t) = True"
| "is_pointer (Const t) = is_pointer t"
| "is_pointer t = False"

definition table_size :: "decl list \<Rightarrow> nat" where
  "table_size ms = pointer_size * length ms"

fun offset_of :: "decl list \<Rightarrow> string \<Rightarrow> nat option" where
  "offset_of [] n = None"
| "offset_of (m # ms) n =
     (if decl_name m = n then Some 0 else map_option (\<lambda>k. k + pointer_size) (offset_of ms n))"

lemma offset_of_bound:
  "offset_of ms n = Some k \<Longrightarrow> k + pointer_size \<le> table_size ms"
  by (induction ms arbitrary: k) (auto simp: table_size_def split: if_splits)

lemma offset_of_append:
  "offset_of ms n = Some k \<Longrightarrow> offset_of (ms @ later) n = Some k"
  by (induction ms arbitrary: k) (auto split: if_splits)

lemma offset_of_None: "offset_of ms n = None \<longleftrightarrow> n \<notin> decl_name ` set ms"
  by (induction ms) auto

end
