(* ===== verification/HeaderTypes.thy ===== *)
theory HeaderTypes
  imports CDecl
begin

text \<open>
  The typedefs and structures of \<^verbatim>\<open>sqlite3.h\<close> (the method tables \<^verbatim>\<open>sqlite3_io_methods\<close> and
  \<^verbatim>\<open>sqlite3_vfs\<close> are in theory \<^verbatim>\<open>SqliteHeader\<close>), with the branch of the conditional typedefs that
  bindgen takes on Linux, and the environment of type names they give.
\<close>

section \<open>Typedefs\<close>

definition typedef_sqlite_int64 :: "string \<times> ctype" where [api_decls]:
  "typedef_sqlite_int64 = (''sqlite_int64'', TLongLong)"

definition typedef_sqlite_uint64 :: "string \<times> ctype" where [api_decls]:
  "typedef_sqlite_uint64 = (''sqlite_uint64'', TULongLong)"

definition typedef_sqlite3_int64 :: "string \<times> ctype" where [api_decls]:
  "typedef_sqlite3_int64 = (''sqlite3_int64'', TName ''sqlite_int64'')"

definition typedef_sqlite3_uint64 :: "string \<times> ctype" where [api_decls]:
  "typedef_sqlite3_uint64 = (''sqlite3_uint64'', TName ''sqlite_uint64'')"

definition typedef_sqlite3_callback :: "string \<times> ctype" where [api_decls]:
  "typedef_sqlite3_callback = (''sqlite3_callback'', Ptr (Fn TInt [Ptr TVoid, TInt, Ptr (Ptr
     TChar), Ptr (Ptr TChar)]))"

definition typedef_sqlite3_filename :: "string \<times> ctype" where [api_decls]:
  "typedef_sqlite3_filename = (''sqlite3_filename'', Ptr (Const TChar))"

definition typedef_sqlite3_syscall_ptr :: "string \<times> ctype" where [api_decls]:
  "typedef_sqlite3_syscall_ptr = (''sqlite3_syscall_ptr'', Ptr (Fn TVoid []))"

definition typedef_sqlite3_destructor_type :: "string \<times> ctype" where [api_decls]:
  "typedef_sqlite3_destructor_type = (''sqlite3_destructor_type'', Ptr (Fn TVoid [Ptr TVoid]))"

definition typedef_sqlite3_rtree_dbl :: "string \<times> ctype" where [api_decls]:
  "typedef_sqlite3_rtree_dbl = (''sqlite3_rtree_dbl'', TDouble)"

definition typedef_fts5_extension_function :: "string \<times> ctype" where [api_decls]:
  "typedef_fts5_extension_function = (''fts5_extension_function'', Ptr (Fn TVoid [Ptr (Const
     (TName ''Fts5ExtensionApi'')), Ptr (TName ''Fts5Context''), Ptr (TName ''sqlite3_context''),
     TInt, Ptr (Ptr (TName ''sqlite3_value''))]))"

section \<open>Structures\<close>

definition struct_sqlite3_file :: "decl list" where
  "struct_sqlite3_file =
    [Decl ''pMethods'' (Ptr (Const (TName ''sqlite3_io_methods'')))]"

definition struct_sqlite3_mem_methods :: "decl list" where
  "struct_sqlite3_mem_methods =
    [Decl ''xMalloc'' (Ptr (Fn (Ptr TVoid) [TInt])), Decl ''xFree'' (Ptr (Fn TVoid [Ptr TVoid])),
      Decl ''xRealloc'' (Ptr (Fn (Ptr TVoid) [Ptr TVoid, TInt])), Decl ''xSize'' (Ptr (Fn TInt
      [Ptr TVoid])), Decl ''xRoundup'' (Ptr (Fn TInt [TInt])), Decl ''xInit'' (Ptr (Fn TInt [Ptr
      TVoid])), Decl ''xShutdown'' (Ptr (Fn TVoid [Ptr TVoid])), Decl ''pAppData'' (Ptr TVoid)]"

definition struct_sqlite3_module :: "decl list" where
  "struct_sqlite3_module =
    [Decl ''iVersion'' (TInt), Decl ''xCreate'' (Ptr (Fn TInt [Ptr (TName ''sqlite3''), Ptr TVoid,
      TInt, Ptr (Const (Ptr (Const TChar))), Ptr (Ptr (TName ''sqlite3_vtab'')), Ptr (Ptr
      TChar)])), Decl ''xConnect'' (Ptr (Fn TInt [Ptr (TName ''sqlite3''), Ptr TVoid, TInt, Ptr
      (Const (Ptr (Const TChar))), Ptr (Ptr (TName ''sqlite3_vtab'')), Ptr (Ptr TChar)])), Decl
      ''xBestIndex'' (Ptr (Fn TInt [Ptr (TName ''sqlite3_vtab''), Ptr (TName
      ''sqlite3_index_info'')])), Decl ''xDisconnect'' (Ptr (Fn TInt [Ptr (TName
      ''sqlite3_vtab'')])), Decl ''xDestroy'' (Ptr (Fn TInt [Ptr (TName ''sqlite3_vtab'')])), Decl
      ''xOpen'' (Ptr (Fn TInt [Ptr (TName ''sqlite3_vtab''), Ptr (Ptr (TName
      ''sqlite3_vtab_cursor''))])), Decl ''xClose'' (Ptr (Fn TInt [Ptr (TName
      ''sqlite3_vtab_cursor'')])), Decl ''xFilter'' (Ptr (Fn TInt [Ptr (TName
      ''sqlite3_vtab_cursor''), TInt, Ptr (Const TChar), TInt, Ptr (Ptr (TName
      ''sqlite3_value''))])), Decl ''xNext'' (Ptr (Fn TInt [Ptr (TName
      ''sqlite3_vtab_cursor'')])), Decl ''xEof'' (Ptr (Fn TInt [Ptr (TName
      ''sqlite3_vtab_cursor'')])), Decl ''xColumn'' (Ptr (Fn TInt [Ptr (TName
      ''sqlite3_vtab_cursor''), Ptr (TName ''sqlite3_context''), TInt])), Decl ''xRowid'' (Ptr (Fn
      TInt [Ptr (TName ''sqlite3_vtab_cursor''), Ptr (TName ''sqlite3_int64'')])), Decl
      ''xUpdate'' (Ptr (Fn TInt [Ptr (TName ''sqlite3_vtab''), TInt, Ptr (Ptr (TName
      ''sqlite3_value'')), Ptr (TName ''sqlite3_int64'')])), Decl ''xBegin'' (Ptr (Fn TInt [Ptr
      (TName ''sqlite3_vtab'')])), Decl ''xSync'' (Ptr (Fn TInt [Ptr (TName ''sqlite3_vtab'')])),
      Decl ''xCommit'' (Ptr (Fn TInt [Ptr (TName ''sqlite3_vtab'')])), Decl ''xRollback'' (Ptr (Fn
      TInt [Ptr (TName ''sqlite3_vtab'')])), Decl ''xFindFunction'' (Ptr (Fn TInt [Ptr (TName
      ''sqlite3_vtab''), TInt, Ptr (Const TChar), Ptr (Ptr (Fn TVoid [Ptr (TName
      ''sqlite3_context''), TInt, Ptr (Ptr (TName ''sqlite3_value''))])), Ptr (Ptr TVoid)])), Decl
      ''xRename'' (Ptr (Fn TInt [Ptr (TName ''sqlite3_vtab''), Ptr (Const TChar)])), Decl
      ''xSavepoint'' (Ptr (Fn TInt [Ptr (TName ''sqlite3_vtab''), TInt])), Decl ''xRelease'' (Ptr
      (Fn TInt [Ptr (TName ''sqlite3_vtab''), TInt])), Decl ''xRollbackTo'' (Ptr (Fn TInt [Ptr
      (TName ''sqlite3_vtab''), TInt])), Decl ''xShadowName'' (Ptr (Fn TInt [Ptr (Const TChar)])),
      Decl ''xIntegrity'' (Ptr (Fn TInt [Ptr (TName ''sqlite3_vtab''), Ptr (Const TChar), Ptr
      (Const TChar), TInt, Ptr (Ptr TChar)]))]"

definition struct_sqlite3_index_constraint :: "decl list" where
  "struct_sqlite3_index_constraint =
    [Decl ''iColumn'' (TInt), Decl ''op'' (TUChar), Decl ''usable'' (TUChar), Decl ''iTermOffset''
      (TInt)]"

definition struct_sqlite3_index_orderby :: "decl list" where
  "struct_sqlite3_index_orderby =
    [Decl ''iColumn'' (TInt), Decl ''desc'' (TUChar)]"

definition struct_sqlite3_index_constraint_usage :: "decl list" where
  "struct_sqlite3_index_constraint_usage =
    [Decl ''argvIndex'' (TInt), Decl ''omit'' (TUChar)]"

definition struct_sqlite3_index_info :: "decl list" where
  "struct_sqlite3_index_info =
    [Decl ''nConstraint'' (TInt), Decl ''aConstraint'' (Ptr (TName ''sqlite3_index_constraint'')),
      Decl ''nOrderBy'' (TInt), Decl ''aOrderBy'' (Ptr (TName ''sqlite3_index_orderby'')), Decl
      ''aConstraintUsage'' (Ptr (TName ''sqlite3_index_constraint_usage'')), Decl ''idxNum''
      (TInt), Decl ''idxStr'' (Ptr TChar), Decl ''needToFreeIdxStr'' (TInt), Decl
      ''orderByConsumed'' (TInt), Decl ''estimatedCost'' (TDouble), Decl ''estimatedRows'' (TName
      ''sqlite3_int64''), Decl ''idxFlags'' (TInt), Decl ''colUsed'' (TName ''sqlite3_uint64'')]"

definition struct_sqlite3_vtab :: "decl list" where
  "struct_sqlite3_vtab =
    [Decl ''pModule'' (Ptr (Const (TName ''sqlite3_module''))), Decl ''nRef'' (TInt), Decl
      ''zErrMsg'' (Ptr TChar)]"

definition struct_sqlite3_vtab_cursor :: "decl list" where
  "struct_sqlite3_vtab_cursor =
    [Decl ''pVtab'' (Ptr (TName ''sqlite3_vtab''))]"

definition struct_sqlite3_mutex_methods :: "decl list" where
  "struct_sqlite3_mutex_methods =
    [Decl ''xMutexInit'' (Ptr (Fn TInt [])), Decl ''xMutexEnd'' (Ptr (Fn TInt [])), Decl
      ''xMutexAlloc'' (Ptr (Fn (Ptr (TName ''sqlite3_mutex'')) [TInt])), Decl ''xMutexFree'' (Ptr
      (Fn TVoid [Ptr (TName ''sqlite3_mutex'')])), Decl ''xMutexEnter'' (Ptr (Fn TVoid [Ptr (TName
      ''sqlite3_mutex'')])), Decl ''xMutexTry'' (Ptr (Fn TInt [Ptr (TName ''sqlite3_mutex'')])),
      Decl ''xMutexLeave'' (Ptr (Fn TVoid [Ptr (TName ''sqlite3_mutex'')])), Decl ''xMutexHeld''
      (Ptr (Fn TInt [Ptr (TName ''sqlite3_mutex'')])), Decl ''xMutexNotheld'' (Ptr (Fn TInt [Ptr
      (TName ''sqlite3_mutex'')]))]"

definition struct_sqlite3_pcache_page :: "decl list" where
  "struct_sqlite3_pcache_page =
    [Decl ''pBuf'' (Ptr TVoid), Decl ''pExtra'' (Ptr TVoid)]"

definition struct_sqlite3_pcache_methods2 :: "decl list" where
  "struct_sqlite3_pcache_methods2 =
    [Decl ''iVersion'' (TInt), Decl ''pArg'' (Ptr TVoid), Decl ''xInit'' (Ptr (Fn TInt [Ptr
      TVoid])), Decl ''xShutdown'' (Ptr (Fn TVoid [Ptr TVoid])), Decl ''xCreate'' (Ptr (Fn (Ptr
      (TName ''sqlite3_pcache'')) [TInt, TInt, TInt])), Decl ''xCachesize'' (Ptr (Fn TVoid [Ptr
      (TName ''sqlite3_pcache''), TInt])), Decl ''xPagecount'' (Ptr (Fn TInt [Ptr (TName
      ''sqlite3_pcache'')])), Decl ''xFetch'' (Ptr (Fn (Ptr (TName ''sqlite3_pcache_page'')) [Ptr
      (TName ''sqlite3_pcache''), TUInt, TInt])), Decl ''xUnpin'' (Ptr (Fn TVoid [Ptr (TName
      ''sqlite3_pcache''), Ptr (TName ''sqlite3_pcache_page''), TInt])), Decl ''xRekey'' (Ptr (Fn
      TVoid [Ptr (TName ''sqlite3_pcache''), Ptr (TName ''sqlite3_pcache_page''), TUInt, TUInt])),
      Decl ''xTruncate'' (Ptr (Fn TVoid [Ptr (TName ''sqlite3_pcache''), TUInt])), Decl
      ''xDestroy'' (Ptr (Fn TVoid [Ptr (TName ''sqlite3_pcache'')])), Decl ''xShrink'' (Ptr (Fn
      TVoid [Ptr (TName ''sqlite3_pcache'')]))]"

definition struct_sqlite3_pcache_methods :: "decl list" where
  "struct_sqlite3_pcache_methods =
    [Decl ''pArg'' (Ptr TVoid), Decl ''xInit'' (Ptr (Fn TInt [Ptr TVoid])), Decl ''xShutdown''
      (Ptr (Fn TVoid [Ptr TVoid])), Decl ''xCreate'' (Ptr (Fn (Ptr (TName ''sqlite3_pcache''))
      [TInt, TInt])), Decl ''xCachesize'' (Ptr (Fn TVoid [Ptr (TName ''sqlite3_pcache''), TInt])),
      Decl ''xPagecount'' (Ptr (Fn TInt [Ptr (TName ''sqlite3_pcache'')])), Decl ''xFetch'' (Ptr
      (Fn (Ptr TVoid) [Ptr (TName ''sqlite3_pcache''), TUInt, TInt])), Decl ''xUnpin'' (Ptr (Fn
      TVoid [Ptr (TName ''sqlite3_pcache''), Ptr TVoid, TInt])), Decl ''xRekey'' (Ptr (Fn TVoid
      [Ptr (TName ''sqlite3_pcache''), Ptr TVoid, TUInt, TUInt])), Decl ''xTruncate'' (Ptr (Fn
      TVoid [Ptr (TName ''sqlite3_pcache''), TUInt])), Decl ''xDestroy'' (Ptr (Fn TVoid [Ptr
      (TName ''sqlite3_pcache'')]))]"

definition struct_sqlite3_snapshot :: "decl list" where
  "struct_sqlite3_snapshot =
    [Decl ''hidden'' (Arr (Some 48) TUChar)]"

definition struct_sqlite3_rtree_geometry :: "decl list" where
  "struct_sqlite3_rtree_geometry =
    [Decl ''pContext'' (Ptr TVoid), Decl ''nParam'' (TInt), Decl ''aParam'' (Ptr (TName
      ''sqlite3_rtree_dbl'')), Decl ''pUser'' (Ptr TVoid), Decl ''xDelUser'' (Ptr (Fn TVoid [Ptr
      TVoid]))]"

definition struct_sqlite3_rtree_query_info :: "decl list" where
  "struct_sqlite3_rtree_query_info =
    [Decl ''pContext'' (Ptr TVoid), Decl ''nParam'' (TInt), Decl ''aParam'' (Ptr (TName
      ''sqlite3_rtree_dbl'')), Decl ''pUser'' (Ptr TVoid), Decl ''xDelUser'' (Ptr (Fn TVoid [Ptr
      TVoid])), Decl ''aCoord'' (Ptr (TName ''sqlite3_rtree_dbl'')), Decl ''anQueue'' (Ptr TUInt),
      Decl ''nCoord'' (TInt), Decl ''iLevel'' (TInt), Decl ''mxLevel'' (TInt), Decl ''iRowid''
      (TName ''sqlite3_int64''), Decl ''rParentScore'' (TName ''sqlite3_rtree_dbl''), Decl
      ''eParentWithin'' (TInt), Decl ''eWithin'' (TInt), Decl ''rScore'' (TName
      ''sqlite3_rtree_dbl''), Decl ''apSqlParam'' (Ptr (Ptr (TName ''sqlite3_value'')))]"

definition struct_Fts5PhraseIter :: "decl list" where
  "struct_Fts5PhraseIter =
    [Decl ''a'' (Ptr (Const TUChar)), Decl ''b'' (Ptr (Const TUChar))]"

definition struct_Fts5ExtensionApi :: "decl list" where
  "struct_Fts5ExtensionApi =
    [Decl ''iVersion'' (TInt), Decl ''xUserData'' (Ptr (Fn (Ptr TVoid) [Ptr (TName
      ''Fts5Context'')])), Decl ''xColumnCount'' (Ptr (Fn TInt [Ptr (TName ''Fts5Context'')])),
      Decl ''xRowCount'' (Ptr (Fn TInt [Ptr (TName ''Fts5Context''), Ptr (TName
      ''sqlite3_int64'')])), Decl ''xColumnTotalSize'' (Ptr (Fn TInt [Ptr (TName ''Fts5Context''),
      TInt, Ptr (TName ''sqlite3_int64'')])), Decl ''xTokenize'' (Ptr (Fn TInt [Ptr (TName
      ''Fts5Context''), Ptr (Const TChar), TInt, Ptr TVoid, Ptr (Fn TInt [Ptr TVoid, TInt, Ptr
      (Const TChar), TInt, TInt, TInt])])), Decl ''xPhraseCount'' (Ptr (Fn TInt [Ptr (TName
      ''Fts5Context'')])), Decl ''xPhraseSize'' (Ptr (Fn TInt [Ptr (TName ''Fts5Context''),
      TInt])), Decl ''xInstCount'' (Ptr (Fn TInt [Ptr (TName ''Fts5Context''), Ptr TInt])), Decl
      ''xInst'' (Ptr (Fn TInt [Ptr (TName ''Fts5Context''), TInt, Ptr TInt, Ptr TInt, Ptr TInt])),
      Decl ''xRowid'' (Ptr (Fn (TName ''sqlite3_int64'') [Ptr (TName ''Fts5Context'')])), Decl
      ''xColumnText'' (Ptr (Fn TInt [Ptr (TName ''Fts5Context''), TInt, Ptr (Ptr (Const TChar)),
      Ptr TInt])), Decl ''xColumnSize'' (Ptr (Fn TInt [Ptr (TName ''Fts5Context''), TInt, Ptr
      TInt])), Decl ''xQueryPhrase'' (Ptr (Fn TInt [Ptr (TName ''Fts5Context''), TInt, Ptr TVoid,
      Ptr (Fn TInt [Ptr (Const (TName ''Fts5ExtensionApi'')), Ptr (TName ''Fts5Context''), Ptr
      TVoid])])), Decl ''xSetAuxdata'' (Ptr (Fn TInt [Ptr (TName ''Fts5Context''), Ptr TVoid, Ptr
      (Fn TVoid [Ptr TVoid])])), Decl ''xGetAuxdata'' (Ptr (Fn (Ptr TVoid) [Ptr (TName
      ''Fts5Context''), TInt])), Decl ''xPhraseFirst'' (Ptr (Fn TInt [Ptr (TName ''Fts5Context''),
      TInt, Ptr (TName ''Fts5PhraseIter''), Ptr TInt, Ptr TInt])), Decl ''xPhraseNext'' (Ptr (Fn
      TVoid [Ptr (TName ''Fts5Context''), Ptr (TName ''Fts5PhraseIter''), Ptr TInt, Ptr TInt])),
      Decl ''xPhraseFirstColumn'' (Ptr (Fn TInt [Ptr (TName ''Fts5Context''), TInt, Ptr (TName
      ''Fts5PhraseIter''), Ptr TInt])), Decl ''xPhraseNextColumn'' (Ptr (Fn TVoid [Ptr (TName
      ''Fts5Context''), Ptr (TName ''Fts5PhraseIter''), Ptr TInt])), Decl ''xQueryToken'' (Ptr (Fn
      TInt [Ptr (TName ''Fts5Context''), TInt, TInt, Ptr (Ptr (Const TChar)), Ptr TInt])), Decl
      ''xInstToken'' (Ptr (Fn TInt [Ptr (TName ''Fts5Context''), TInt, TInt, Ptr (Ptr (Const
      TChar)), Ptr TInt]))]"

definition struct_fts5_tokenizer :: "decl list" where
  "struct_fts5_tokenizer =
    [Decl ''xCreate'' (Ptr (Fn TInt [Ptr TVoid, Ptr (Ptr (Const TChar)), TInt, Ptr (Ptr (TName
      ''Fts5Tokenizer''))])), Decl ''xDelete'' (Ptr (Fn TVoid [Ptr (TName ''Fts5Tokenizer'')])),
      Decl ''xTokenize'' (Ptr (Fn TInt [Ptr (TName ''Fts5Tokenizer''), Ptr TVoid, TInt, Ptr (Const
      TChar), TInt, Ptr (Fn TInt [Ptr TVoid, TInt, Ptr (Const TChar), TInt, TInt, TInt])]))]"

definition struct_fts5_api :: "decl list" where
  "struct_fts5_api =
    [Decl ''iVersion'' (TInt), Decl ''xCreateTokenizer'' (Ptr (Fn TInt [Ptr (TName ''fts5_api''),
      Ptr (Const TChar), Ptr TVoid, Ptr (TName ''fts5_tokenizer''), Ptr (Fn TVoid [Ptr TVoid])])),
      Decl ''xFindTokenizer'' (Ptr (Fn TInt [Ptr (TName ''fts5_api''), Ptr (Const TChar), Ptr (Ptr
      TVoid), Ptr (TName ''fts5_tokenizer'')])), Decl ''xCreateFunction'' (Ptr (Fn TInt [Ptr
      (TName ''fts5_api''), Ptr (Const TChar), Ptr TVoid, TName ''fts5_extension_function'', Ptr
      (Fn TVoid [Ptr TVoid])]))]"

lemmas header_structs =
  struct_sqlite3_file_def struct_sqlite3_mem_methods_def struct_sqlite3_module_def
  struct_sqlite3_index_constraint_def struct_sqlite3_index_orderby_def
  struct_sqlite3_index_constraint_usage_def struct_sqlite3_index_info_def struct_sqlite3_vtab_def
  struct_sqlite3_vtab_cursor_def struct_sqlite3_mutex_methods_def struct_sqlite3_pcache_page_def
  struct_sqlite3_pcache_methods2_def struct_sqlite3_pcache_methods_def struct_sqlite3_snapshot_def
  struct_sqlite3_rtree_geometry_def struct_sqlite3_rtree_query_info_def struct_Fts5PhraseIter_def
  struct_Fts5ExtensionApi_def struct_fts5_tokenizer_def struct_fts5_api_def

section \<open>The environment of type names\<close>

text \<open>
  Structures with members: those above, the two method tables of theory \<^verbatim>\<open>SqliteHeader\<close>, the routine
  table of \<^verbatim>\<open>sqlite3ext.h\<close>, and \<^verbatim>\<open>va_list\<close> of the C library.
\<close>

definition header_structures :: "string list" where
  "header_structures = [''sqlite3_file'', ''sqlite3_mem_methods'', ''sqlite3_module'',
     ''sqlite3_index_constraint'', ''sqlite3_index_orderby'', ''sqlite3_index_constraint_usage'',
     ''sqlite3_index_info'', ''sqlite3_vtab'', ''sqlite3_vtab_cursor'', ''sqlite3_mutex_methods'',
     ''sqlite3_pcache_page'', ''sqlite3_pcache_methods2'', ''sqlite3_pcache_methods'',
     ''sqlite3_snapshot'', ''sqlite3_rtree_geometry'', ''sqlite3_rtree_query_info'',
     ''Fts5PhraseIter'', ''Fts5ExtensionApi'', ''fts5_tokenizer'', ''fts5_api'',
     ''sqlite3_io_methods'', ''sqlite3_vfs'', ''sqlite3_api_routines'', ''va_list'']"

definition header_opaque :: "string list" where
  "header_opaque = [''sqlite3'', ''sqlite3_mutex'', ''sqlite3_stmt'', ''sqlite3_value'',
     ''sqlite3_context'', ''sqlite3_blob'', ''sqlite3_str'', ''sqlite3_pcache'',
     ''sqlite3_backup'', ''sqlite3_session'', ''sqlite3_changeset_iter'', ''sqlite3_changegroup'',
     ''sqlite3_rebaser'', ''Fts5Context'', ''Fts5Tokenizer'']"

definition header_env :: type_env where
  "header_env = \<lparr>env_typedefs =
    [typedef_fts5_extension_function, typedef_sqlite3_rtree_dbl, typedef_sqlite3_destructor_type,
      typedef_sqlite3_syscall_ptr, typedef_sqlite3_filename, typedef_sqlite3_callback,
      typedef_sqlite3_uint64, typedef_sqlite3_int64, typedef_sqlite_uint64, typedef_sqlite_int64],
    env_structs = header_structures, env_opaque = header_opaque\<rparr>"

text \<open>What each name of the headers stands for, evaluated once.\<close>

lemma complete_names [ctype_names]:
  "complete_name header_env ''Fts5ExtensionApi''"
  "complete_name header_env ''Fts5PhraseIter''"
  "complete_name header_env ''fts5_api''"
  "complete_name header_env ''fts5_extension_function''"
  "complete_name header_env ''fts5_tokenizer''"
  "complete_name header_env ''sqlite3_callback''"
  "complete_name header_env ''sqlite3_file''"
  "complete_name header_env ''sqlite3_filename''"
  "complete_name header_env ''sqlite3_index_constraint''"
  "complete_name header_env ''sqlite3_index_constraint_usage''"
  "complete_name header_env ''sqlite3_index_info''"
  "complete_name header_env ''sqlite3_index_orderby''"
  "complete_name header_env ''sqlite3_int64''"
  "complete_name header_env ''sqlite3_io_methods''"
  "complete_name header_env ''sqlite3_module''"
  "complete_name header_env ''sqlite3_pcache_page''"
  "complete_name header_env ''sqlite3_rtree_dbl''"
  "complete_name header_env ''sqlite3_rtree_geometry''"
  "complete_name header_env ''sqlite3_rtree_query_info''"
  "complete_name header_env ''sqlite3_snapshot''"
  "complete_name header_env ''sqlite3_uint64''"
  "complete_name header_env ''sqlite3_vfs''"
  "complete_name header_env ''sqlite3_vtab''"
  "complete_name header_env ''sqlite3_vtab_cursor''"
  "complete_name header_env ''sqlite_int64''"
  "complete_name header_env ''sqlite_uint64''"
  "complete_name header_env ''va_list''"
  by (simp_all add: complete_name_def header_env_def header_structures_def api_decls)

lemma declared_names [ctype_names]:
  "declared_name header_env ''Fts5ExtensionApi''"
  "declared_name header_env ''Fts5PhraseIter''"
  "declared_name header_env ''fts5_api''"
  "declared_name header_env ''fts5_extension_function''"
  "declared_name header_env ''fts5_tokenizer''"
  "declared_name header_env ''sqlite3_callback''"
  "declared_name header_env ''sqlite3_file''"
  "declared_name header_env ''sqlite3_filename''"
  "declared_name header_env ''sqlite3_index_constraint''"
  "declared_name header_env ''sqlite3_index_constraint_usage''"
  "declared_name header_env ''sqlite3_index_info''"
  "declared_name header_env ''sqlite3_index_orderby''"
  "declared_name header_env ''sqlite3_int64''"
  "declared_name header_env ''sqlite3_io_methods''"
  "declared_name header_env ''sqlite3_module''"
  "declared_name header_env ''sqlite3_pcache_page''"
  "declared_name header_env ''sqlite3_rtree_dbl''"
  "declared_name header_env ''sqlite3_rtree_geometry''"
  "declared_name header_env ''sqlite3_rtree_query_info''"
  "declared_name header_env ''sqlite3_snapshot''"
  "declared_name header_env ''sqlite3_uint64''"
  "declared_name header_env ''sqlite3_vfs''"
  "declared_name header_env ''sqlite3_vtab''"
  "declared_name header_env ''sqlite3_vtab_cursor''"
  "declared_name header_env ''sqlite_int64''"
  "declared_name header_env ''sqlite_uint64''"
  "declared_name header_env ''va_list''"
  "declared_name header_env ''Fts5Context''"
  "declared_name header_env ''Fts5Tokenizer''"
  "declared_name header_env ''sqlite3''"
  "declared_name header_env ''sqlite3_backup''"
  "declared_name header_env ''sqlite3_blob''"
  "declared_name header_env ''sqlite3_changegroup''"
  "declared_name header_env ''sqlite3_changeset_iter''"
  "declared_name header_env ''sqlite3_context''"
  "declared_name header_env ''sqlite3_mutex''"
  "declared_name header_env ''sqlite3_pcache''"
  "declared_name header_env ''sqlite3_rebaser''"
  "declared_name header_env ''sqlite3_session''"
  "declared_name header_env ''sqlite3_stmt''"
  "declared_name header_env ''sqlite3_str''"
  "declared_name header_env ''sqlite3_value''"
  by (simp_all add: declared_name_def complete_names, simp_all add: header_env_def header_opaque_def)

lemma canon_names [ctype_names]:
  "canon (env_typedefs header_env) (TName ''Fts5Context'') = TName ''Fts5Context''"
  "canon (env_typedefs header_env) (TName ''Fts5ExtensionApi'') = TName ''Fts5ExtensionApi''"
  "canon (env_typedefs header_env) (TName ''Fts5PhraseIter'') = TName ''Fts5PhraseIter''"
  "canon (env_typedefs header_env) (TName ''Fts5Tokenizer'') = TName ''Fts5Tokenizer''"
  "canon (env_typedefs header_env) (TName ''fts5_api'') = TName ''fts5_api''"
  "canon (env_typedefs header_env) (TName ''fts5_extension_function'') = Ptr (Fn TVoid [Ptr (Const (TName ''Fts5ExtensionApi'')), Ptr (TName ''Fts5Context''), Ptr (TName ''sqlite3_context''), TInt, Ptr (Ptr (TName ''sqlite3_value''))])"
  "canon (env_typedefs header_env) (TName ''fts5_tokenizer'') = TName ''fts5_tokenizer''"
  "canon (env_typedefs header_env) (TName ''sqlite3'') = TName ''sqlite3''"
  "canon (env_typedefs header_env) (TName ''sqlite3_backup'') = TName ''sqlite3_backup''"
  "canon (env_typedefs header_env) (TName ''sqlite3_blob'') = TName ''sqlite3_blob''"
  "canon (env_typedefs header_env) (TName ''sqlite3_callback'') = Ptr (Fn TInt [Ptr TVoid, TInt, Ptr (Ptr TChar), Ptr (Ptr TChar)])"
  "canon (env_typedefs header_env) (TName ''sqlite3_changegroup'') = TName ''sqlite3_changegroup''"
  "canon (env_typedefs header_env) (TName ''sqlite3_changeset_iter'') = TName ''sqlite3_changeset_iter''"
  "canon (env_typedefs header_env) (TName ''sqlite3_context'') = TName ''sqlite3_context''"
  "canon (env_typedefs header_env) (TName ''sqlite3_file'') = TName ''sqlite3_file''"
  "canon (env_typedefs header_env) (TName ''sqlite3_filename'') = Ptr (Const TChar)"
  "canon (env_typedefs header_env) (TName ''sqlite3_index_constraint'') = TName ''sqlite3_index_constraint''"
  "canon (env_typedefs header_env) (TName ''sqlite3_index_constraint_usage'') = TName ''sqlite3_index_constraint_usage''"
  "canon (env_typedefs header_env) (TName ''sqlite3_index_info'') = TName ''sqlite3_index_info''"
  "canon (env_typedefs header_env) (TName ''sqlite3_index_orderby'') = TName ''sqlite3_index_orderby''"
  "canon (env_typedefs header_env) (TName ''sqlite3_int64'') = TLongLong"
  "canon (env_typedefs header_env) (TName ''sqlite3_io_methods'') = TName ''sqlite3_io_methods''"
  "canon (env_typedefs header_env) (TName ''sqlite3_module'') = TName ''sqlite3_module''"
  "canon (env_typedefs header_env) (TName ''sqlite3_mutex'') = TName ''sqlite3_mutex''"
  "canon (env_typedefs header_env) (TName ''sqlite3_pcache'') = TName ''sqlite3_pcache''"
  "canon (env_typedefs header_env) (TName ''sqlite3_pcache_page'') = TName ''sqlite3_pcache_page''"
  "canon (env_typedefs header_env) (TName ''sqlite3_rebaser'') = TName ''sqlite3_rebaser''"
  "canon (env_typedefs header_env) (TName ''sqlite3_rtree_dbl'') = TDouble"
  "canon (env_typedefs header_env) (TName ''sqlite3_rtree_geometry'') = TName ''sqlite3_rtree_geometry''"
  "canon (env_typedefs header_env) (TName ''sqlite3_rtree_query_info'') = TName ''sqlite3_rtree_query_info''"
  "canon (env_typedefs header_env) (TName ''sqlite3_session'') = TName ''sqlite3_session''"
  "canon (env_typedefs header_env) (TName ''sqlite3_snapshot'') = TName ''sqlite3_snapshot''"
  "canon (env_typedefs header_env) (TName ''sqlite3_stmt'') = TName ''sqlite3_stmt''"
  "canon (env_typedefs header_env) (TName ''sqlite3_str'') = TName ''sqlite3_str''"
  "canon (env_typedefs header_env) (TName ''sqlite3_uint64'') = TULongLong"
  "canon (env_typedefs header_env) (TName ''sqlite3_value'') = TName ''sqlite3_value''"
  "canon (env_typedefs header_env) (TName ''sqlite3_vfs'') = TName ''sqlite3_vfs''"
  "canon (env_typedefs header_env) (TName ''sqlite3_vtab'') = TName ''sqlite3_vtab''"
  "canon (env_typedefs header_env) (TName ''sqlite3_vtab_cursor'') = TName ''sqlite3_vtab_cursor''"
  "canon (env_typedefs header_env) (TName ''sqlite_int64'') = TLongLong"
  "canon (env_typedefs header_env) (TName ''sqlite_uint64'') = TULongLong"
  "canon (env_typedefs header_env) (TName ''va_list'') = TName ''va_list''"
  by (simp_all add: header_env_def api_decls)

text \<open>Every member of every structure has a complete type.\<close>

lemma struct_members_ok:
  "list_all (list_all (member_ok header_env))
     [struct_sqlite3_file, struct_sqlite3_mem_methods, struct_sqlite3_module,
      struct_sqlite3_index_constraint, struct_sqlite3_index_orderby,
      struct_sqlite3_index_constraint_usage, struct_sqlite3_index_info, struct_sqlite3_vtab,
      struct_sqlite3_vtab_cursor, struct_sqlite3_mutex_methods, struct_sqlite3_pcache_page,
      struct_sqlite3_pcache_methods2, struct_sqlite3_pcache_methods, struct_sqlite3_snapshot,
      struct_sqlite3_rtree_geometry, struct_sqlite3_rtree_query_info, struct_Fts5PhraseIter,
      struct_Fts5ExtensionApi, struct_fts5_tokenizer, struct_fts5_api]"
  by (simp add: header_structs member_ok_def ctype_names)

end
