(* ===== verification/HeaderApi1.thy ===== *)
theory HeaderApi1
  imports HeaderTypes
begin

text \<open>
  The declarations of \<^verbatim>\<open>sqlite3.h\<close> from \<^verbatim>\<open>sqlite3_version\<close> to \<^verbatim>\<open>sqlite3_bind_null\<close>, one
  definition each under its C name, in the order of the header.
\<close>

definition sqlite3_version :: decl where [api_decls]:
  "sqlite3_version = Decl ''sqlite3_version'' (Arr None (Const TChar))"
definition sqlite3_libversion :: decl where [api_decls]:
  "sqlite3_libversion = Decl ''sqlite3_libversion'' (Fn (Ptr (Const TChar)) [])"
definition sqlite3_sourceid :: decl where [api_decls]:
  "sqlite3_sourceid = Decl ''sqlite3_sourceid'' (Fn (Ptr (Const TChar)) [])"
definition sqlite3_libversion_number :: decl where [api_decls]:
  "sqlite3_libversion_number = Decl ''sqlite3_libversion_number'' (Fn TInt [])"
definition sqlite3_compileoption_used :: decl where [api_decls]:
  "sqlite3_compileoption_used = Decl ''sqlite3_compileoption_used'' (Fn TInt [Ptr (Const TChar)])"
definition sqlite3_compileoption_get :: decl where [api_decls]:
  "sqlite3_compileoption_get = Decl ''sqlite3_compileoption_get'' (Fn (Ptr (Const TChar)) [TInt])"
definition sqlite3_threadsafe :: decl where [api_decls]:
  "sqlite3_threadsafe = Decl ''sqlite3_threadsafe'' (Fn TInt [])"
definition sqlite3_close :: decl where [api_decls]:
  "sqlite3_close = Decl ''sqlite3_close'' (Fn TInt [Ptr (TName ''sqlite3'')])"
definition sqlite3_close_v2 :: decl where [api_decls]:
  "sqlite3_close_v2 = Decl ''sqlite3_close_v2'' (Fn TInt [Ptr (TName ''sqlite3'')])"
definition sqlite3_exec :: decl where [api_decls]:
  "sqlite3_exec = Decl ''sqlite3_exec'' (Fn TInt [Ptr (TName ''sqlite3''), Ptr (Const TChar), Ptr
     (Fn TInt [Ptr TVoid, TInt, Ptr (Ptr TChar), Ptr (Ptr TChar)]), Ptr TVoid, Ptr (Ptr TChar)])"
definition sqlite3_initialize :: decl where [api_decls]:
  "sqlite3_initialize = Decl ''sqlite3_initialize'' (Fn TInt [])"
definition sqlite3_shutdown :: decl where [api_decls]:
  "sqlite3_shutdown = Decl ''sqlite3_shutdown'' (Fn TInt [])"
definition sqlite3_os_init :: decl where [api_decls]:
  "sqlite3_os_init = Decl ''sqlite3_os_init'' (Fn TInt [])"
definition sqlite3_os_end :: decl where [api_decls]:
  "sqlite3_os_end = Decl ''sqlite3_os_end'' (Fn TInt [])"
definition sqlite3_config :: decl where [api_decls]:
  "sqlite3_config = Decl ''sqlite3_config'' (Fn TInt [TInt, VarArg])"
definition sqlite3_db_config :: decl where [api_decls]:
  "sqlite3_db_config = Decl ''sqlite3_db_config'' (Fn TInt [Ptr (TName ''sqlite3''), TInt,
     VarArg])"
definition sqlite3_extended_result_codes :: decl where [api_decls]:
  "sqlite3_extended_result_codes = Decl ''sqlite3_extended_result_codes'' (Fn TInt [Ptr (TName
     ''sqlite3''), TInt])"
definition sqlite3_last_insert_rowid :: decl where [api_decls]:
  "sqlite3_last_insert_rowid = Decl ''sqlite3_last_insert_rowid'' (Fn (TName ''sqlite3_int64'')
     [Ptr (TName ''sqlite3'')])"
definition sqlite3_set_last_insert_rowid :: decl where [api_decls]:
  "sqlite3_set_last_insert_rowid = Decl ''sqlite3_set_last_insert_rowid'' (Fn TVoid [Ptr (TName
     ''sqlite3''), TName ''sqlite3_int64''])"
definition sqlite3_changes :: decl where [api_decls]:
  "sqlite3_changes = Decl ''sqlite3_changes'' (Fn TInt [Ptr (TName ''sqlite3'')])"
definition sqlite3_changes64 :: decl where [api_decls]:
  "sqlite3_changes64 = Decl ''sqlite3_changes64'' (Fn (TName ''sqlite3_int64'') [Ptr (TName
     ''sqlite3'')])"
definition sqlite3_total_changes :: decl where [api_decls]:
  "sqlite3_total_changes = Decl ''sqlite3_total_changes'' (Fn TInt [Ptr (TName ''sqlite3'')])"
definition sqlite3_total_changes64 :: decl where [api_decls]:
  "sqlite3_total_changes64 = Decl ''sqlite3_total_changes64'' (Fn (TName ''sqlite3_int64'') [Ptr
     (TName ''sqlite3'')])"
definition sqlite3_interrupt :: decl where [api_decls]:
  "sqlite3_interrupt = Decl ''sqlite3_interrupt'' (Fn TVoid [Ptr (TName ''sqlite3'')])"
definition sqlite3_is_interrupted :: decl where [api_decls]:
  "sqlite3_is_interrupted = Decl ''sqlite3_is_interrupted'' (Fn TInt [Ptr (TName ''sqlite3'')])"
definition sqlite3_complete :: decl where [api_decls]:
  "sqlite3_complete = Decl ''sqlite3_complete'' (Fn TInt [Ptr (Const TChar)])"
definition sqlite3_complete16 :: decl where [api_decls]:
  "sqlite3_complete16 = Decl ''sqlite3_complete16'' (Fn TInt [Ptr (Const TVoid)])"
definition sqlite3_busy_handler :: decl where [api_decls]:
  "sqlite3_busy_handler = Decl ''sqlite3_busy_handler'' (Fn TInt [Ptr (TName ''sqlite3''), Ptr (Fn
     TInt [Ptr TVoid, TInt]), Ptr TVoid])"
definition sqlite3_busy_timeout :: decl where [api_decls]:
  "sqlite3_busy_timeout = Decl ''sqlite3_busy_timeout'' (Fn TInt [Ptr (TName ''sqlite3''), TInt])"
definition sqlite3_get_table :: decl where [api_decls]:
  "sqlite3_get_table = Decl ''sqlite3_get_table'' (Fn TInt [Ptr (TName ''sqlite3''), Ptr (Const
     TChar), Ptr (Ptr (Ptr TChar)), Ptr TInt, Ptr TInt, Ptr (Ptr TChar)])"
definition sqlite3_free_table :: decl where [api_decls]:
  "sqlite3_free_table = Decl ''sqlite3_free_table'' (Fn TVoid [Ptr (Ptr TChar)])"
definition sqlite3_mprintf :: decl where [api_decls]:
  "sqlite3_mprintf = Decl ''sqlite3_mprintf'' (Fn (Ptr TChar) [Ptr (Const TChar), VarArg])"
definition sqlite3_vmprintf :: decl where [api_decls]:
  "sqlite3_vmprintf = Decl ''sqlite3_vmprintf'' (Fn (Ptr TChar) [Ptr (Const TChar), TName
     ''va_list''])"
definition sqlite3_snprintf :: decl where [api_decls]:
  "sqlite3_snprintf = Decl ''sqlite3_snprintf'' (Fn (Ptr TChar) [TInt, Ptr TChar, Ptr (Const
     TChar), VarArg])"
definition sqlite3_vsnprintf :: decl where [api_decls]:
  "sqlite3_vsnprintf = Decl ''sqlite3_vsnprintf'' (Fn (Ptr TChar) [TInt, Ptr TChar, Ptr (Const
     TChar), TName ''va_list''])"
definition sqlite3_malloc :: decl where [api_decls]:
  "sqlite3_malloc = Decl ''sqlite3_malloc'' (Fn (Ptr TVoid) [TInt])"
definition sqlite3_malloc64 :: decl where [api_decls]:
  "sqlite3_malloc64 = Decl ''sqlite3_malloc64'' (Fn (Ptr TVoid) [TName ''sqlite3_uint64''])"
definition sqlite3_realloc :: decl where [api_decls]:
  "sqlite3_realloc = Decl ''sqlite3_realloc'' (Fn (Ptr TVoid) [Ptr TVoid, TInt])"
definition sqlite3_realloc64 :: decl where [api_decls]:
  "sqlite3_realloc64 = Decl ''sqlite3_realloc64'' (Fn (Ptr TVoid) [Ptr TVoid, TName
     ''sqlite3_uint64''])"
definition sqlite3_free :: decl where [api_decls]:
  "sqlite3_free = Decl ''sqlite3_free'' (Fn TVoid [Ptr TVoid])"
definition sqlite3_msize :: decl where [api_decls]:
  "sqlite3_msize = Decl ''sqlite3_msize'' (Fn (TName ''sqlite3_uint64'') [Ptr TVoid])"
definition sqlite3_memory_used :: decl where [api_decls]:
  "sqlite3_memory_used = Decl ''sqlite3_memory_used'' (Fn (TName ''sqlite3_int64'') [])"
definition sqlite3_memory_highwater :: decl where [api_decls]:
  "sqlite3_memory_highwater = Decl ''sqlite3_memory_highwater'' (Fn (TName ''sqlite3_int64'')
     [TInt])"
definition sqlite3_randomness :: decl where [api_decls]:
  "sqlite3_randomness = Decl ''sqlite3_randomness'' (Fn TVoid [TInt, Ptr TVoid])"
definition sqlite3_set_authorizer :: decl where [api_decls]:
  "sqlite3_set_authorizer = Decl ''sqlite3_set_authorizer'' (Fn TInt [Ptr (TName ''sqlite3''), Ptr
     (Fn TInt [Ptr TVoid, TInt, Ptr (Const TChar), Ptr (Const TChar), Ptr (Const TChar), Ptr
     (Const TChar)]), Ptr TVoid])"
definition sqlite3_trace :: decl where [api_decls]:
  "sqlite3_trace = Decl ''sqlite3_trace'' (Fn (Ptr TVoid) [Ptr (TName ''sqlite3''), Ptr (Fn TVoid
     [Ptr TVoid, Ptr (Const TChar)]), Ptr TVoid])"
definition sqlite3_profile :: decl where [api_decls]:
  "sqlite3_profile = Decl ''sqlite3_profile'' (Fn (Ptr TVoid) [Ptr (TName ''sqlite3''), Ptr (Fn
     TVoid [Ptr TVoid, Ptr (Const TChar), TName ''sqlite3_uint64'']), Ptr TVoid])"
definition sqlite3_trace_v2 :: decl where [api_decls]:
  "sqlite3_trace_v2 = Decl ''sqlite3_trace_v2'' (Fn TInt [Ptr (TName ''sqlite3''), TUInt, Ptr (Fn
     TInt [TUInt, Ptr TVoid, Ptr TVoid, Ptr TVoid]), Ptr TVoid])"
definition sqlite3_progress_handler :: decl where [api_decls]:
  "sqlite3_progress_handler = Decl ''sqlite3_progress_handler'' (Fn TVoid [Ptr (TName
     ''sqlite3''), TInt, Ptr (Fn TInt [Ptr TVoid]), Ptr TVoid])"
definition sqlite3_open :: decl where [api_decls]:
  "sqlite3_open = Decl ''sqlite3_open'' (Fn TInt [Ptr (Const TChar), Ptr (Ptr (TName
     ''sqlite3''))])"
definition sqlite3_open16 :: decl where [api_decls]:
  "sqlite3_open16 = Decl ''sqlite3_open16'' (Fn TInt [Ptr (Const TVoid), Ptr (Ptr (TName
     ''sqlite3''))])"
definition sqlite3_open_v2 :: decl where [api_decls]:
  "sqlite3_open_v2 = Decl ''sqlite3_open_v2'' (Fn TInt [Ptr (Const TChar), Ptr (Ptr (TName
     ''sqlite3'')), TInt, Ptr (Const TChar)])"
definition sqlite3_uri_parameter :: decl where [api_decls]:
  "sqlite3_uri_parameter = Decl ''sqlite3_uri_parameter'' (Fn (Ptr (Const TChar)) [TName
     ''sqlite3_filename'', Ptr (Const TChar)])"
definition sqlite3_uri_boolean :: decl where [api_decls]:
  "sqlite3_uri_boolean = Decl ''sqlite3_uri_boolean'' (Fn TInt [TName ''sqlite3_filename'', Ptr
     (Const TChar), TInt])"
definition sqlite3_uri_int64 :: decl where [api_decls]:
  "sqlite3_uri_int64 = Decl ''sqlite3_uri_int64'' (Fn (TName ''sqlite3_int64'') [TName
     ''sqlite3_filename'', Ptr (Const TChar), TName ''sqlite3_int64''])"
definition sqlite3_uri_key :: decl where [api_decls]:
  "sqlite3_uri_key = Decl ''sqlite3_uri_key'' (Fn (Ptr (Const TChar)) [TName ''sqlite3_filename'',
     TInt])"
definition sqlite3_filename_database :: decl where [api_decls]:
  "sqlite3_filename_database = Decl ''sqlite3_filename_database'' (Fn (Ptr (Const TChar)) [TName
     ''sqlite3_filename''])"
definition sqlite3_filename_journal :: decl where [api_decls]:
  "sqlite3_filename_journal = Decl ''sqlite3_filename_journal'' (Fn (Ptr (Const TChar)) [TName
     ''sqlite3_filename''])"
definition sqlite3_filename_wal :: decl where [api_decls]:
  "sqlite3_filename_wal = Decl ''sqlite3_filename_wal'' (Fn (Ptr (Const TChar)) [TName
     ''sqlite3_filename''])"
definition sqlite3_database_file_object :: decl where [api_decls]:
  "sqlite3_database_file_object = Decl ''sqlite3_database_file_object'' (Fn (Ptr (TName
     ''sqlite3_file'')) [Ptr (Const TChar)])"
definition sqlite3_create_filename :: decl where [api_decls]:
  "sqlite3_create_filename = Decl ''sqlite3_create_filename'' (Fn (TName ''sqlite3_filename'')
     [Ptr (Const TChar), Ptr (Const TChar), Ptr (Const TChar), TInt, Ptr (Ptr (Const TChar))])"
definition sqlite3_free_filename :: decl where [api_decls]:
  "sqlite3_free_filename = Decl ''sqlite3_free_filename'' (Fn TVoid [TName ''sqlite3_filename''])"
definition sqlite3_errcode :: decl where [api_decls]:
  "sqlite3_errcode = Decl ''sqlite3_errcode'' (Fn TInt [Ptr (TName ''sqlite3'')])"
definition sqlite3_extended_errcode :: decl where [api_decls]:
  "sqlite3_extended_errcode = Decl ''sqlite3_extended_errcode'' (Fn TInt [Ptr (TName
     ''sqlite3'')])"
definition sqlite3_errmsg :: decl where [api_decls]:
  "sqlite3_errmsg = Decl ''sqlite3_errmsg'' (Fn (Ptr (Const TChar)) [Ptr (TName ''sqlite3'')])"
definition sqlite3_errmsg16 :: decl where [api_decls]:
  "sqlite3_errmsg16 = Decl ''sqlite3_errmsg16'' (Fn (Ptr (Const TVoid)) [Ptr (TName
     ''sqlite3'')])"
definition sqlite3_errstr :: decl where [api_decls]:
  "sqlite3_errstr = Decl ''sqlite3_errstr'' (Fn (Ptr (Const TChar)) [TInt])"
definition sqlite3_error_offset :: decl where [api_decls]:
  "sqlite3_error_offset = Decl ''sqlite3_error_offset'' (Fn TInt [Ptr (TName ''sqlite3'')])"
definition sqlite3_limit :: decl where [api_decls]:
  "sqlite3_limit = Decl ''sqlite3_limit'' (Fn TInt [Ptr (TName ''sqlite3''), TInt, TInt])"
definition sqlite3_prepare :: decl where [api_decls]:
  "sqlite3_prepare = Decl ''sqlite3_prepare'' (Fn TInt [Ptr (TName ''sqlite3''), Ptr (Const
     TChar), TInt, Ptr (Ptr (TName ''sqlite3_stmt'')), Ptr (Ptr (Const TChar))])"
definition sqlite3_prepare_v2 :: decl where [api_decls]:
  "sqlite3_prepare_v2 = Decl ''sqlite3_prepare_v2'' (Fn TInt [Ptr (TName ''sqlite3''), Ptr (Const
     TChar), TInt, Ptr (Ptr (TName ''sqlite3_stmt'')), Ptr (Ptr (Const TChar))])"
definition sqlite3_prepare_v3 :: decl where [api_decls]:
  "sqlite3_prepare_v3 = Decl ''sqlite3_prepare_v3'' (Fn TInt [Ptr (TName ''sqlite3''), Ptr (Const
     TChar), TInt, TUInt, Ptr (Ptr (TName ''sqlite3_stmt'')), Ptr (Ptr (Const TChar))])"
definition sqlite3_prepare16 :: decl where [api_decls]:
  "sqlite3_prepare16 = Decl ''sqlite3_prepare16'' (Fn TInt [Ptr (TName ''sqlite3''), Ptr (Const
     TVoid), TInt, Ptr (Ptr (TName ''sqlite3_stmt'')), Ptr (Ptr (Const TVoid))])"
definition sqlite3_prepare16_v2 :: decl where [api_decls]:
  "sqlite3_prepare16_v2 = Decl ''sqlite3_prepare16_v2'' (Fn TInt [Ptr (TName ''sqlite3''), Ptr
     (Const TVoid), TInt, Ptr (Ptr (TName ''sqlite3_stmt'')), Ptr (Ptr (Const TVoid))])"
definition sqlite3_prepare16_v3 :: decl where [api_decls]:
  "sqlite3_prepare16_v3 = Decl ''sqlite3_prepare16_v3'' (Fn TInt [Ptr (TName ''sqlite3''), Ptr
     (Const TVoid), TInt, TUInt, Ptr (Ptr (TName ''sqlite3_stmt'')), Ptr (Ptr (Const TVoid))])"
definition sqlite3_sql :: decl where [api_decls]:
  "sqlite3_sql = Decl ''sqlite3_sql'' (Fn (Ptr (Const TChar)) [Ptr (TName ''sqlite3_stmt'')])"
definition sqlite3_expanded_sql :: decl where [api_decls]:
  "sqlite3_expanded_sql = Decl ''sqlite3_expanded_sql'' (Fn (Ptr TChar) [Ptr (TName
     ''sqlite3_stmt'')])"
definition sqlite3_normalized_sql :: decl where [api_decls]:
  "sqlite3_normalized_sql = Decl ''sqlite3_normalized_sql'' (Fn (Ptr (Const TChar)) [Ptr (TName
     ''sqlite3_stmt'')])"
definition sqlite3_stmt_readonly :: decl where [api_decls]:
  "sqlite3_stmt_readonly = Decl ''sqlite3_stmt_readonly'' (Fn TInt [Ptr (TName
     ''sqlite3_stmt'')])"
definition sqlite3_stmt_isexplain :: decl where [api_decls]:
  "sqlite3_stmt_isexplain = Decl ''sqlite3_stmt_isexplain'' (Fn TInt [Ptr (TName
     ''sqlite3_stmt'')])"
definition sqlite3_stmt_explain :: decl where [api_decls]:
  "sqlite3_stmt_explain = Decl ''sqlite3_stmt_explain'' (Fn TInt [Ptr (TName ''sqlite3_stmt''),
     TInt])"
definition sqlite3_stmt_busy :: decl where [api_decls]:
  "sqlite3_stmt_busy = Decl ''sqlite3_stmt_busy'' (Fn TInt [Ptr (TName ''sqlite3_stmt'')])"
definition sqlite3_bind_blob :: decl where [api_decls]:
  "sqlite3_bind_blob = Decl ''sqlite3_bind_blob'' (Fn TInt [Ptr (TName ''sqlite3_stmt''), TInt,
     Ptr (Const TVoid), TInt, Ptr (Fn TVoid [Ptr TVoid])])"
definition sqlite3_bind_blob64 :: decl where [api_decls]:
  "sqlite3_bind_blob64 = Decl ''sqlite3_bind_blob64'' (Fn TInt [Ptr (TName ''sqlite3_stmt''),
     TInt, Ptr (Const TVoid), TName ''sqlite3_uint64'', Ptr (Fn TVoid [Ptr TVoid])])"
definition sqlite3_bind_double :: decl where [api_decls]:
  "sqlite3_bind_double = Decl ''sqlite3_bind_double'' (Fn TInt [Ptr (TName ''sqlite3_stmt''),
     TInt, TDouble])"
definition sqlite3_bind_int :: decl where [api_decls]:
  "sqlite3_bind_int = Decl ''sqlite3_bind_int'' (Fn TInt [Ptr (TName ''sqlite3_stmt''), TInt,
     TInt])"
definition sqlite3_bind_int64 :: decl where [api_decls]:
  "sqlite3_bind_int64 = Decl ''sqlite3_bind_int64'' (Fn TInt [Ptr (TName ''sqlite3_stmt''), TInt,
     TName ''sqlite3_int64''])"
definition sqlite3_bind_null :: decl where [api_decls]:
  "sqlite3_bind_null = Decl ''sqlite3_bind_null'' (Fn TInt [Ptr (TName ''sqlite3_stmt''), TInt])"

definition api1 :: "decl list" where
  "api1 = [sqlite3_version, sqlite3_libversion, sqlite3_sourceid, sqlite3_libversion_number,
     sqlite3_compileoption_used, sqlite3_compileoption_get, sqlite3_threadsafe, sqlite3_close,
     sqlite3_close_v2, sqlite3_exec, sqlite3_initialize, sqlite3_shutdown, sqlite3_os_init,
     sqlite3_os_end, sqlite3_config, sqlite3_db_config, sqlite3_extended_result_codes,
     sqlite3_last_insert_rowid, sqlite3_set_last_insert_rowid, sqlite3_changes, sqlite3_changes64,
     sqlite3_total_changes, sqlite3_total_changes64, sqlite3_interrupt, sqlite3_is_interrupted,
     sqlite3_complete, sqlite3_complete16, sqlite3_busy_handler, sqlite3_busy_timeout,
     sqlite3_get_table, sqlite3_free_table, sqlite3_mprintf, sqlite3_vmprintf, sqlite3_snprintf,
     sqlite3_vsnprintf, sqlite3_malloc, sqlite3_malloc64, sqlite3_realloc, sqlite3_realloc64,
     sqlite3_free, sqlite3_msize, sqlite3_memory_used, sqlite3_memory_highwater,
     sqlite3_randomness, sqlite3_set_authorizer, sqlite3_trace, sqlite3_profile, sqlite3_trace_v2,
     sqlite3_progress_handler, sqlite3_open, sqlite3_open16, sqlite3_open_v2,
     sqlite3_uri_parameter, sqlite3_uri_boolean, sqlite3_uri_int64, sqlite3_uri_key,
     sqlite3_filename_database, sqlite3_filename_journal, sqlite3_filename_wal,
     sqlite3_database_file_object, sqlite3_create_filename, sqlite3_free_filename,
     sqlite3_errcode, sqlite3_extended_errcode, sqlite3_errmsg, sqlite3_errmsg16, sqlite3_errstr,
     sqlite3_error_offset, sqlite3_limit, sqlite3_prepare, sqlite3_prepare_v2, sqlite3_prepare_v3,
     sqlite3_prepare16, sqlite3_prepare16_v2, sqlite3_prepare16_v3, sqlite3_sql,
     sqlite3_expanded_sql, sqlite3_normalized_sql, sqlite3_stmt_readonly, sqlite3_stmt_isexplain,
     sqlite3_stmt_explain, sqlite3_stmt_busy, sqlite3_bind_blob, sqlite3_bind_blob64,
     sqlite3_bind_double, sqlite3_bind_int, sqlite3_bind_int64, sqlite3_bind_null]"

lemma api1_ok: "list_all (decl_ok header_env) api1"
  by (simp add: api1_def decl_ok_def api_decls ctype_names)

end
