(* ===== verification/HeaderApi2.thy ===== *)
theory HeaderApi2
  imports HeaderTypes
begin

text \<open>
  The declarations of \<^verbatim>\<open>sqlite3.h\<close> from \<^verbatim>\<open>sqlite3_bind_text\<close> to \<^verbatim>\<open>sqlite3_result_text16be\<close>, one
  definition each under its C name, in the order of the header.
\<close>

definition sqlite3_bind_text :: decl where [api_decls]:
  "sqlite3_bind_text = Decl ''sqlite3_bind_text'' (Fn TInt [Ptr (TName ''sqlite3_stmt''), TInt,
     Ptr (Const TChar), TInt, Ptr (Fn TVoid [Ptr TVoid])])"
definition sqlite3_bind_text16 :: decl where [api_decls]:
  "sqlite3_bind_text16 = Decl ''sqlite3_bind_text16'' (Fn TInt [Ptr (TName ''sqlite3_stmt''),
     TInt, Ptr (Const TVoid), TInt, Ptr (Fn TVoid [Ptr TVoid])])"
definition sqlite3_bind_text64 :: decl where [api_decls]:
  "sqlite3_bind_text64 = Decl ''sqlite3_bind_text64'' (Fn TInt [Ptr (TName ''sqlite3_stmt''),
     TInt, Ptr (Const TChar), TName ''sqlite3_uint64'', Ptr (Fn TVoid [Ptr TVoid]), TUChar])"
definition sqlite3_bind_value :: decl where [api_decls]:
  "sqlite3_bind_value = Decl ''sqlite3_bind_value'' (Fn TInt [Ptr (TName ''sqlite3_stmt''), TInt,
     Ptr (Const (TName ''sqlite3_value''))])"
definition sqlite3_bind_pointer :: decl where [api_decls]:
  "sqlite3_bind_pointer = Decl ''sqlite3_bind_pointer'' (Fn TInt [Ptr (TName ''sqlite3_stmt''),
     TInt, Ptr TVoid, Ptr (Const TChar), Ptr (Fn TVoid [Ptr TVoid])])"
definition sqlite3_bind_zeroblob :: decl where [api_decls]:
  "sqlite3_bind_zeroblob = Decl ''sqlite3_bind_zeroblob'' (Fn TInt [Ptr (TName ''sqlite3_stmt''),
     TInt, TInt])"
definition sqlite3_bind_zeroblob64 :: decl where [api_decls]:
  "sqlite3_bind_zeroblob64 = Decl ''sqlite3_bind_zeroblob64'' (Fn TInt [Ptr (TName
     ''sqlite3_stmt''), TInt, TName ''sqlite3_uint64''])"
definition sqlite3_bind_parameter_count :: decl where [api_decls]:
  "sqlite3_bind_parameter_count = Decl ''sqlite3_bind_parameter_count'' (Fn TInt [Ptr (TName
     ''sqlite3_stmt'')])"
definition sqlite3_bind_parameter_name :: decl where [api_decls]:
  "sqlite3_bind_parameter_name = Decl ''sqlite3_bind_parameter_name'' (Fn (Ptr (Const TChar)) [Ptr
     (TName ''sqlite3_stmt''), TInt])"
definition sqlite3_bind_parameter_index :: decl where [api_decls]:
  "sqlite3_bind_parameter_index = Decl ''sqlite3_bind_parameter_index'' (Fn TInt [Ptr (TName
     ''sqlite3_stmt''), Ptr (Const TChar)])"
definition sqlite3_clear_bindings :: decl where [api_decls]:
  "sqlite3_clear_bindings = Decl ''sqlite3_clear_bindings'' (Fn TInt [Ptr (TName
     ''sqlite3_stmt'')])"
definition sqlite3_column_count :: decl where [api_decls]:
  "sqlite3_column_count = Decl ''sqlite3_column_count'' (Fn TInt [Ptr (TName ''sqlite3_stmt'')])"
definition sqlite3_column_name :: decl where [api_decls]:
  "sqlite3_column_name = Decl ''sqlite3_column_name'' (Fn (Ptr (Const TChar)) [Ptr (TName
     ''sqlite3_stmt''), TInt])"
definition sqlite3_column_name16 :: decl where [api_decls]:
  "sqlite3_column_name16 = Decl ''sqlite3_column_name16'' (Fn (Ptr (Const TVoid)) [Ptr (TName
     ''sqlite3_stmt''), TInt])"
definition sqlite3_column_database_name :: decl where [api_decls]:
  "sqlite3_column_database_name = Decl ''sqlite3_column_database_name'' (Fn (Ptr (Const TChar))
     [Ptr (TName ''sqlite3_stmt''), TInt])"
definition sqlite3_column_database_name16 :: decl where [api_decls]:
  "sqlite3_column_database_name16 = Decl ''sqlite3_column_database_name16'' (Fn (Ptr (Const
     TVoid)) [Ptr (TName ''sqlite3_stmt''), TInt])"
definition sqlite3_column_table_name :: decl where [api_decls]:
  "sqlite3_column_table_name = Decl ''sqlite3_column_table_name'' (Fn (Ptr (Const TChar)) [Ptr
     (TName ''sqlite3_stmt''), TInt])"
definition sqlite3_column_table_name16 :: decl where [api_decls]:
  "sqlite3_column_table_name16 = Decl ''sqlite3_column_table_name16'' (Fn (Ptr (Const TVoid)) [Ptr
     (TName ''sqlite3_stmt''), TInt])"
definition sqlite3_column_origin_name :: decl where [api_decls]:
  "sqlite3_column_origin_name = Decl ''sqlite3_column_origin_name'' (Fn (Ptr (Const TChar)) [Ptr
     (TName ''sqlite3_stmt''), TInt])"
definition sqlite3_column_origin_name16 :: decl where [api_decls]:
  "sqlite3_column_origin_name16 = Decl ''sqlite3_column_origin_name16'' (Fn (Ptr (Const TVoid))
     [Ptr (TName ''sqlite3_stmt''), TInt])"
definition sqlite3_column_decltype :: decl where [api_decls]:
  "sqlite3_column_decltype = Decl ''sqlite3_column_decltype'' (Fn (Ptr (Const TChar)) [Ptr (TName
     ''sqlite3_stmt''), TInt])"
definition sqlite3_column_decltype16 :: decl where [api_decls]:
  "sqlite3_column_decltype16 = Decl ''sqlite3_column_decltype16'' (Fn (Ptr (Const TVoid)) [Ptr
     (TName ''sqlite3_stmt''), TInt])"
definition sqlite3_step :: decl where [api_decls]:
  "sqlite3_step = Decl ''sqlite3_step'' (Fn TInt [Ptr (TName ''sqlite3_stmt'')])"
definition sqlite3_data_count :: decl where [api_decls]:
  "sqlite3_data_count = Decl ''sqlite3_data_count'' (Fn TInt [Ptr (TName ''sqlite3_stmt'')])"
definition sqlite3_column_blob :: decl where [api_decls]:
  "sqlite3_column_blob = Decl ''sqlite3_column_blob'' (Fn (Ptr (Const TVoid)) [Ptr (TName
     ''sqlite3_stmt''), TInt])"
definition sqlite3_column_double :: decl where [api_decls]:
  "sqlite3_column_double = Decl ''sqlite3_column_double'' (Fn TDouble [Ptr (TName
     ''sqlite3_stmt''), TInt])"
definition sqlite3_column_int :: decl where [api_decls]:
  "sqlite3_column_int = Decl ''sqlite3_column_int'' (Fn TInt [Ptr (TName ''sqlite3_stmt''),
     TInt])"
definition sqlite3_column_int64 :: decl where [api_decls]:
  "sqlite3_column_int64 = Decl ''sqlite3_column_int64'' (Fn (TName ''sqlite3_int64'') [Ptr (TName
     ''sqlite3_stmt''), TInt])"
definition sqlite3_column_text :: decl where [api_decls]:
  "sqlite3_column_text = Decl ''sqlite3_column_text'' (Fn (Ptr (Const TUChar)) [Ptr (TName
     ''sqlite3_stmt''), TInt])"
definition sqlite3_column_text16 :: decl where [api_decls]:
  "sqlite3_column_text16 = Decl ''sqlite3_column_text16'' (Fn (Ptr (Const TVoid)) [Ptr (TName
     ''sqlite3_stmt''), TInt])"
definition sqlite3_column_value :: decl where [api_decls]:
  "sqlite3_column_value = Decl ''sqlite3_column_value'' (Fn (Ptr (TName ''sqlite3_value'')) [Ptr
     (TName ''sqlite3_stmt''), TInt])"
definition sqlite3_column_bytes :: decl where [api_decls]:
  "sqlite3_column_bytes = Decl ''sqlite3_column_bytes'' (Fn TInt [Ptr (TName ''sqlite3_stmt''),
     TInt])"
definition sqlite3_column_bytes16 :: decl where [api_decls]:
  "sqlite3_column_bytes16 = Decl ''sqlite3_column_bytes16'' (Fn TInt [Ptr (TName
     ''sqlite3_stmt''), TInt])"
definition sqlite3_column_type :: decl where [api_decls]:
  "sqlite3_column_type = Decl ''sqlite3_column_type'' (Fn TInt [Ptr (TName ''sqlite3_stmt''),
     TInt])"
definition sqlite3_finalize :: decl where [api_decls]:
  "sqlite3_finalize = Decl ''sqlite3_finalize'' (Fn TInt [Ptr (TName ''sqlite3_stmt'')])"
definition sqlite3_reset :: decl where [api_decls]:
  "sqlite3_reset = Decl ''sqlite3_reset'' (Fn TInt [Ptr (TName ''sqlite3_stmt'')])"
definition sqlite3_create_function :: decl where [api_decls]:
  "sqlite3_create_function = Decl ''sqlite3_create_function'' (Fn TInt [Ptr (TName ''sqlite3''),
     Ptr (Const TChar), TInt, TInt, Ptr TVoid, Ptr (Fn TVoid [Ptr (TName ''sqlite3_context''),
     TInt, Ptr (Ptr (TName ''sqlite3_value''))]), Ptr (Fn TVoid [Ptr (TName ''sqlite3_context''),
     TInt, Ptr (Ptr (TName ''sqlite3_value''))]), Ptr (Fn TVoid [Ptr (TName
     ''sqlite3_context'')])])"
definition sqlite3_create_function16 :: decl where [api_decls]:
  "sqlite3_create_function16 = Decl ''sqlite3_create_function16'' (Fn TInt [Ptr (TName
     ''sqlite3''), Ptr (Const TVoid), TInt, TInt, Ptr TVoid, Ptr (Fn TVoid [Ptr (TName
     ''sqlite3_context''), TInt, Ptr (Ptr (TName ''sqlite3_value''))]), Ptr (Fn TVoid [Ptr (TName
     ''sqlite3_context''), TInt, Ptr (Ptr (TName ''sqlite3_value''))]), Ptr (Fn TVoid [Ptr (TName
     ''sqlite3_context'')])])"
definition sqlite3_create_function_v2 :: decl where [api_decls]:
  "sqlite3_create_function_v2 = Decl ''sqlite3_create_function_v2'' (Fn TInt [Ptr (TName
     ''sqlite3''), Ptr (Const TChar), TInt, TInt, Ptr TVoid, Ptr (Fn TVoid [Ptr (TName
     ''sqlite3_context''), TInt, Ptr (Ptr (TName ''sqlite3_value''))]), Ptr (Fn TVoid [Ptr (TName
     ''sqlite3_context''), TInt, Ptr (Ptr (TName ''sqlite3_value''))]), Ptr (Fn TVoid [Ptr (TName
     ''sqlite3_context'')]), Ptr (Fn TVoid [Ptr TVoid])])"
definition sqlite3_create_window_function :: decl where [api_decls]:
  "sqlite3_create_window_function = Decl ''sqlite3_create_window_function'' (Fn TInt [Ptr (TName
     ''sqlite3''), Ptr (Const TChar), TInt, TInt, Ptr TVoid, Ptr (Fn TVoid [Ptr (TName
     ''sqlite3_context''), TInt, Ptr (Ptr (TName ''sqlite3_value''))]), Ptr (Fn TVoid [Ptr (TName
     ''sqlite3_context'')]), Ptr (Fn TVoid [Ptr (TName ''sqlite3_context'')]), Ptr (Fn TVoid [Ptr
     (TName ''sqlite3_context''), TInt, Ptr (Ptr (TName ''sqlite3_value''))]), Ptr (Fn TVoid [Ptr
     TVoid])])"
definition sqlite3_aggregate_count :: decl where [api_decls]:
  "sqlite3_aggregate_count = Decl ''sqlite3_aggregate_count'' (Fn TInt [Ptr (TName
     ''sqlite3_context'')])"
definition sqlite3_expired :: decl where [api_decls]:
  "sqlite3_expired = Decl ''sqlite3_expired'' (Fn TInt [Ptr (TName ''sqlite3_stmt'')])"
definition sqlite3_transfer_bindings :: decl where [api_decls]:
  "sqlite3_transfer_bindings = Decl ''sqlite3_transfer_bindings'' (Fn TInt [Ptr (TName
     ''sqlite3_stmt''), Ptr (TName ''sqlite3_stmt'')])"
definition sqlite3_global_recover :: decl where [api_decls]:
  "sqlite3_global_recover = Decl ''sqlite3_global_recover'' (Fn TInt [])"
definition sqlite3_thread_cleanup :: decl where [api_decls]:
  "sqlite3_thread_cleanup = Decl ''sqlite3_thread_cleanup'' (Fn TVoid [])"
definition sqlite3_memory_alarm :: decl where [api_decls]:
  "sqlite3_memory_alarm = Decl ''sqlite3_memory_alarm'' (Fn TInt [Ptr (Fn TVoid [Ptr TVoid, TName
     ''sqlite3_int64'', TInt]), Ptr TVoid, TName ''sqlite3_int64''])"
definition sqlite3_value_blob :: decl where [api_decls]:
  "sqlite3_value_blob = Decl ''sqlite3_value_blob'' (Fn (Ptr (Const TVoid)) [Ptr (TName
     ''sqlite3_value'')])"
definition sqlite3_value_double :: decl where [api_decls]:
  "sqlite3_value_double = Decl ''sqlite3_value_double'' (Fn TDouble [Ptr (TName
     ''sqlite3_value'')])"
definition sqlite3_value_int :: decl where [api_decls]:
  "sqlite3_value_int = Decl ''sqlite3_value_int'' (Fn TInt [Ptr (TName ''sqlite3_value'')])"
definition sqlite3_value_int64 :: decl where [api_decls]:
  "sqlite3_value_int64 = Decl ''sqlite3_value_int64'' (Fn (TName ''sqlite3_int64'') [Ptr (TName
     ''sqlite3_value'')])"
definition sqlite3_value_pointer :: decl where [api_decls]:
  "sqlite3_value_pointer = Decl ''sqlite3_value_pointer'' (Fn (Ptr TVoid) [Ptr (TName
     ''sqlite3_value''), Ptr (Const TChar)])"
definition sqlite3_value_text :: decl where [api_decls]:
  "sqlite3_value_text = Decl ''sqlite3_value_text'' (Fn (Ptr (Const TUChar)) [Ptr (TName
     ''sqlite3_value'')])"
definition sqlite3_value_text16 :: decl where [api_decls]:
  "sqlite3_value_text16 = Decl ''sqlite3_value_text16'' (Fn (Ptr (Const TVoid)) [Ptr (TName
     ''sqlite3_value'')])"
definition sqlite3_value_text16le :: decl where [api_decls]:
  "sqlite3_value_text16le = Decl ''sqlite3_value_text16le'' (Fn (Ptr (Const TVoid)) [Ptr (TName
     ''sqlite3_value'')])"
definition sqlite3_value_text16be :: decl where [api_decls]:
  "sqlite3_value_text16be = Decl ''sqlite3_value_text16be'' (Fn (Ptr (Const TVoid)) [Ptr (TName
     ''sqlite3_value'')])"
definition sqlite3_value_bytes :: decl where [api_decls]:
  "sqlite3_value_bytes = Decl ''sqlite3_value_bytes'' (Fn TInt [Ptr (TName ''sqlite3_value'')])"
definition sqlite3_value_bytes16 :: decl where [api_decls]:
  "sqlite3_value_bytes16 = Decl ''sqlite3_value_bytes16'' (Fn TInt [Ptr (TName
     ''sqlite3_value'')])"
definition sqlite3_value_type :: decl where [api_decls]:
  "sqlite3_value_type = Decl ''sqlite3_value_type'' (Fn TInt [Ptr (TName ''sqlite3_value'')])"
definition sqlite3_value_numeric_type :: decl where [api_decls]:
  "sqlite3_value_numeric_type = Decl ''sqlite3_value_numeric_type'' (Fn TInt [Ptr (TName
     ''sqlite3_value'')])"
definition sqlite3_value_nochange :: decl where [api_decls]:
  "sqlite3_value_nochange = Decl ''sqlite3_value_nochange'' (Fn TInt [Ptr (TName
     ''sqlite3_value'')])"
definition sqlite3_value_frombind :: decl where [api_decls]:
  "sqlite3_value_frombind = Decl ''sqlite3_value_frombind'' (Fn TInt [Ptr (TName
     ''sqlite3_value'')])"
definition sqlite3_value_encoding :: decl where [api_decls]:
  "sqlite3_value_encoding = Decl ''sqlite3_value_encoding'' (Fn TInt [Ptr (TName
     ''sqlite3_value'')])"
definition sqlite3_value_subtype :: decl where [api_decls]:
  "sqlite3_value_subtype = Decl ''sqlite3_value_subtype'' (Fn TUInt [Ptr (TName
     ''sqlite3_value'')])"
definition sqlite3_value_dup :: decl where [api_decls]:
  "sqlite3_value_dup = Decl ''sqlite3_value_dup'' (Fn (Ptr (TName ''sqlite3_value'')) [Ptr (Const
     (TName ''sqlite3_value''))])"
definition sqlite3_value_free :: decl where [api_decls]:
  "sqlite3_value_free = Decl ''sqlite3_value_free'' (Fn TVoid [Ptr (TName ''sqlite3_value'')])"
definition sqlite3_aggregate_context :: decl where [api_decls]:
  "sqlite3_aggregate_context = Decl ''sqlite3_aggregate_context'' (Fn (Ptr TVoid) [Ptr (TName
     ''sqlite3_context''), TInt])"
definition sqlite3_user_data :: decl where [api_decls]:
  "sqlite3_user_data = Decl ''sqlite3_user_data'' (Fn (Ptr TVoid) [Ptr (TName
     ''sqlite3_context'')])"
definition sqlite3_context_db_handle :: decl where [api_decls]:
  "sqlite3_context_db_handle = Decl ''sqlite3_context_db_handle'' (Fn (Ptr (TName ''sqlite3''))
     [Ptr (TName ''sqlite3_context'')])"
definition sqlite3_get_auxdata :: decl where [api_decls]:
  "sqlite3_get_auxdata = Decl ''sqlite3_get_auxdata'' (Fn (Ptr TVoid) [Ptr (TName
     ''sqlite3_context''), TInt])"
definition sqlite3_set_auxdata :: decl where [api_decls]:
  "sqlite3_set_auxdata = Decl ''sqlite3_set_auxdata'' (Fn TVoid [Ptr (TName ''sqlite3_context''),
     TInt, Ptr TVoid, Ptr (Fn TVoid [Ptr TVoid])])"
definition sqlite3_get_clientdata :: decl where [api_decls]:
  "sqlite3_get_clientdata = Decl ''sqlite3_get_clientdata'' (Fn (Ptr TVoid) [Ptr (TName
     ''sqlite3''), Ptr (Const TChar)])"
definition sqlite3_set_clientdata :: decl where [api_decls]:
  "sqlite3_set_clientdata = Decl ''sqlite3_set_clientdata'' (Fn TInt [Ptr (TName ''sqlite3''), Ptr
     (Const TChar), Ptr TVoid, Ptr (Fn TVoid [Ptr TVoid])])"
definition sqlite3_result_blob :: decl where [api_decls]:
  "sqlite3_result_blob = Decl ''sqlite3_result_blob'' (Fn TVoid [Ptr (TName ''sqlite3_context''),
     Ptr (Const TVoid), TInt, Ptr (Fn TVoid [Ptr TVoid])])"
definition sqlite3_result_blob64 :: decl where [api_decls]:
  "sqlite3_result_blob64 = Decl ''sqlite3_result_blob64'' (Fn TVoid [Ptr (TName
     ''sqlite3_context''), Ptr (Const TVoid), TName ''sqlite3_uint64'', Ptr (Fn TVoid [Ptr
     TVoid])])"
definition sqlite3_result_double :: decl where [api_decls]:
  "sqlite3_result_double = Decl ''sqlite3_result_double'' (Fn TVoid [Ptr (TName
     ''sqlite3_context''), TDouble])"
definition sqlite3_result_error :: decl where [api_decls]:
  "sqlite3_result_error = Decl ''sqlite3_result_error'' (Fn TVoid [Ptr (TName
     ''sqlite3_context''), Ptr (Const TChar), TInt])"
definition sqlite3_result_error16 :: decl where [api_decls]:
  "sqlite3_result_error16 = Decl ''sqlite3_result_error16'' (Fn TVoid [Ptr (TName
     ''sqlite3_context''), Ptr (Const TVoid), TInt])"
definition sqlite3_result_error_toobig :: decl where [api_decls]:
  "sqlite3_result_error_toobig = Decl ''sqlite3_result_error_toobig'' (Fn TVoid [Ptr (TName
     ''sqlite3_context'')])"
definition sqlite3_result_error_nomem :: decl where [api_decls]:
  "sqlite3_result_error_nomem = Decl ''sqlite3_result_error_nomem'' (Fn TVoid [Ptr (TName
     ''sqlite3_context'')])"
definition sqlite3_result_error_code :: decl where [api_decls]:
  "sqlite3_result_error_code = Decl ''sqlite3_result_error_code'' (Fn TVoid [Ptr (TName
     ''sqlite3_context''), TInt])"
definition sqlite3_result_int :: decl where [api_decls]:
  "sqlite3_result_int = Decl ''sqlite3_result_int'' (Fn TVoid [Ptr (TName ''sqlite3_context''),
     TInt])"
definition sqlite3_result_int64 :: decl where [api_decls]:
  "sqlite3_result_int64 = Decl ''sqlite3_result_int64'' (Fn TVoid [Ptr (TName
     ''sqlite3_context''), TName ''sqlite3_int64''])"
definition sqlite3_result_null :: decl where [api_decls]:
  "sqlite3_result_null = Decl ''sqlite3_result_null'' (Fn TVoid [Ptr (TName
     ''sqlite3_context'')])"
definition sqlite3_result_text :: decl where [api_decls]:
  "sqlite3_result_text = Decl ''sqlite3_result_text'' (Fn TVoid [Ptr (TName ''sqlite3_context''),
     Ptr (Const TChar), TInt, Ptr (Fn TVoid [Ptr TVoid])])"
definition sqlite3_result_text64 :: decl where [api_decls]:
  "sqlite3_result_text64 = Decl ''sqlite3_result_text64'' (Fn TVoid [Ptr (TName
     ''sqlite3_context''), Ptr (Const TChar), TName ''sqlite3_uint64'', Ptr (Fn TVoid [Ptr
     TVoid]), TUChar])"
definition sqlite3_result_text16 :: decl where [api_decls]:
  "sqlite3_result_text16 = Decl ''sqlite3_result_text16'' (Fn TVoid [Ptr (TName
     ''sqlite3_context''), Ptr (Const TVoid), TInt, Ptr (Fn TVoid [Ptr TVoid])])"
definition sqlite3_result_text16le :: decl where [api_decls]:
  "sqlite3_result_text16le = Decl ''sqlite3_result_text16le'' (Fn TVoid [Ptr (TName
     ''sqlite3_context''), Ptr (Const TVoid), TInt, Ptr (Fn TVoid [Ptr TVoid])])"
definition sqlite3_result_text16be :: decl where [api_decls]:
  "sqlite3_result_text16be = Decl ''sqlite3_result_text16be'' (Fn TVoid [Ptr (TName
     ''sqlite3_context''), Ptr (Const TVoid), TInt, Ptr (Fn TVoid [Ptr TVoid])])"

definition api2 :: "decl list" where
  "api2 = [sqlite3_bind_text, sqlite3_bind_text16, sqlite3_bind_text64, sqlite3_bind_value,
     sqlite3_bind_pointer, sqlite3_bind_zeroblob, sqlite3_bind_zeroblob64,
     sqlite3_bind_parameter_count, sqlite3_bind_parameter_name, sqlite3_bind_parameter_index,
     sqlite3_clear_bindings, sqlite3_column_count, sqlite3_column_name, sqlite3_column_name16,
     sqlite3_column_database_name, sqlite3_column_database_name16, sqlite3_column_table_name,
     sqlite3_column_table_name16, sqlite3_column_origin_name, sqlite3_column_origin_name16,
     sqlite3_column_decltype, sqlite3_column_decltype16, sqlite3_step, sqlite3_data_count,
     sqlite3_column_blob, sqlite3_column_double, sqlite3_column_int, sqlite3_column_int64,
     sqlite3_column_text, sqlite3_column_text16, sqlite3_column_value, sqlite3_column_bytes,
     sqlite3_column_bytes16, sqlite3_column_type, sqlite3_finalize, sqlite3_reset,
     sqlite3_create_function, sqlite3_create_function16, sqlite3_create_function_v2,
     sqlite3_create_window_function, sqlite3_aggregate_count, sqlite3_expired,
     sqlite3_transfer_bindings, sqlite3_global_recover, sqlite3_thread_cleanup,
     sqlite3_memory_alarm, sqlite3_value_blob, sqlite3_value_double, sqlite3_value_int,
     sqlite3_value_int64, sqlite3_value_pointer, sqlite3_value_text, sqlite3_value_text16,
     sqlite3_value_text16le, sqlite3_value_text16be, sqlite3_value_bytes, sqlite3_value_bytes16,
     sqlite3_value_type, sqlite3_value_numeric_type, sqlite3_value_nochange,
     sqlite3_value_frombind, sqlite3_value_encoding, sqlite3_value_subtype, sqlite3_value_dup,
     sqlite3_value_free, sqlite3_aggregate_context, sqlite3_user_data, sqlite3_context_db_handle,
     sqlite3_get_auxdata, sqlite3_set_auxdata, sqlite3_get_clientdata, sqlite3_set_clientdata,
     sqlite3_result_blob, sqlite3_result_blob64, sqlite3_result_double, sqlite3_result_error,
     sqlite3_result_error16, sqlite3_result_error_toobig, sqlite3_result_error_nomem,
     sqlite3_result_error_code, sqlite3_result_int, sqlite3_result_int64, sqlite3_result_null,
     sqlite3_result_text, sqlite3_result_text64, sqlite3_result_text16, sqlite3_result_text16le,
     sqlite3_result_text16be]"

lemma api2_ok: "list_all (decl_ok header_env) api2"
  by (simp add: api2_def decl_ok_def api_decls ctype_names)

end
