(* ===== verification/HeaderApi3.thy ===== *)
theory HeaderApi3
  imports HeaderTypes
begin

text \<open>
  The declarations of \<^verbatim>\<open>sqlite3.h\<close> from \<^verbatim>\<open>sqlite3_result_value\<close> to \<^verbatim>\<open>sqlite3_unlock_notify\<close>, one
  definition each under its C name, in the order of the header.
\<close>

definition sqlite3_result_value :: decl where [api_decls]:
  "sqlite3_result_value = Decl ''sqlite3_result_value'' (Fn TVoid [Ptr (TName
     ''sqlite3_context''), Ptr (TName ''sqlite3_value'')])"
definition sqlite3_result_pointer :: decl where [api_decls]:
  "sqlite3_result_pointer = Decl ''sqlite3_result_pointer'' (Fn TVoid [Ptr (TName
     ''sqlite3_context''), Ptr TVoid, Ptr (Const TChar), Ptr (Fn TVoid [Ptr TVoid])])"
definition sqlite3_result_zeroblob :: decl where [api_decls]:
  "sqlite3_result_zeroblob = Decl ''sqlite3_result_zeroblob'' (Fn TVoid [Ptr (TName
     ''sqlite3_context''), TInt])"
definition sqlite3_result_zeroblob64 :: decl where [api_decls]:
  "sqlite3_result_zeroblob64 = Decl ''sqlite3_result_zeroblob64'' (Fn TInt [Ptr (TName
     ''sqlite3_context''), TName ''sqlite3_uint64''])"
definition sqlite3_result_subtype :: decl where [api_decls]:
  "sqlite3_result_subtype = Decl ''sqlite3_result_subtype'' (Fn TVoid [Ptr (TName
     ''sqlite3_context''), TUInt])"
definition sqlite3_create_collation :: decl where [api_decls]:
  "sqlite3_create_collation = Decl ''sqlite3_create_collation'' (Fn TInt [Ptr (TName ''sqlite3''),
     Ptr (Const TChar), TInt, Ptr TVoid, Ptr (Fn TInt [Ptr TVoid, TInt, Ptr (Const TVoid), TInt,
     Ptr (Const TVoid)])])"
definition sqlite3_create_collation_v2 :: decl where [api_decls]:
  "sqlite3_create_collation_v2 = Decl ''sqlite3_create_collation_v2'' (Fn TInt [Ptr (TName
     ''sqlite3''), Ptr (Const TChar), TInt, Ptr TVoid, Ptr (Fn TInt [Ptr TVoid, TInt, Ptr (Const
     TVoid), TInt, Ptr (Const TVoid)]), Ptr (Fn TVoid [Ptr TVoid])])"
definition sqlite3_create_collation16 :: decl where [api_decls]:
  "sqlite3_create_collation16 = Decl ''sqlite3_create_collation16'' (Fn TInt [Ptr (TName
     ''sqlite3''), Ptr (Const TVoid), TInt, Ptr TVoid, Ptr (Fn TInt [Ptr TVoid, TInt, Ptr (Const
     TVoid), TInt, Ptr (Const TVoid)])])"
definition sqlite3_collation_needed :: decl where [api_decls]:
  "sqlite3_collation_needed = Decl ''sqlite3_collation_needed'' (Fn TInt [Ptr (TName ''sqlite3''),
     Ptr TVoid, Ptr (Fn TVoid [Ptr TVoid, Ptr (TName ''sqlite3''), TInt, Ptr (Const TChar)])])"
definition sqlite3_collation_needed16 :: decl where [api_decls]:
  "sqlite3_collation_needed16 = Decl ''sqlite3_collation_needed16'' (Fn TInt [Ptr (TName
     ''sqlite3''), Ptr TVoid, Ptr (Fn TVoid [Ptr TVoid, Ptr (TName ''sqlite3''), TInt, Ptr (Const
     TVoid)])])"
definition sqlite3_activate_cerod :: decl where [api_decls]:
  "sqlite3_activate_cerod = Decl ''sqlite3_activate_cerod'' (Fn TVoid [Ptr (Const TChar)])"
definition sqlite3_sleep :: decl where [api_decls]:
  "sqlite3_sleep = Decl ''sqlite3_sleep'' (Fn TInt [TInt])"
definition sqlite3_temp_directory :: decl where [api_decls]:
  "sqlite3_temp_directory = Decl ''sqlite3_temp_directory'' (Ptr TChar)"
definition sqlite3_data_directory :: decl where [api_decls]:
  "sqlite3_data_directory = Decl ''sqlite3_data_directory'' (Ptr TChar)"
definition sqlite3_win32_set_directory :: decl where [api_decls]:
  "sqlite3_win32_set_directory = Decl ''sqlite3_win32_set_directory'' (Fn TInt [TULong, Ptr
     TVoid])"
definition sqlite3_win32_set_directory8 :: decl where [api_decls]:
  "sqlite3_win32_set_directory8 = Decl ''sqlite3_win32_set_directory8'' (Fn TInt [TULong, Ptr
     (Const TChar)])"
definition sqlite3_win32_set_directory16 :: decl where [api_decls]:
  "sqlite3_win32_set_directory16 = Decl ''sqlite3_win32_set_directory16'' (Fn TInt [TULong, Ptr
     (Const TVoid)])"
definition sqlite3_get_autocommit :: decl where [api_decls]:
  "sqlite3_get_autocommit = Decl ''sqlite3_get_autocommit'' (Fn TInt [Ptr (TName ''sqlite3'')])"
definition sqlite3_db_handle :: decl where [api_decls]:
  "sqlite3_db_handle = Decl ''sqlite3_db_handle'' (Fn (Ptr (TName ''sqlite3'')) [Ptr (TName
     ''sqlite3_stmt'')])"
definition sqlite3_db_name :: decl where [api_decls]:
  "sqlite3_db_name = Decl ''sqlite3_db_name'' (Fn (Ptr (Const TChar)) [Ptr (TName ''sqlite3''),
     TInt])"
definition sqlite3_db_filename :: decl where [api_decls]:
  "sqlite3_db_filename = Decl ''sqlite3_db_filename'' (Fn (TName ''sqlite3_filename'') [Ptr (TName
     ''sqlite3''), Ptr (Const TChar)])"
definition sqlite3_db_readonly :: decl where [api_decls]:
  "sqlite3_db_readonly = Decl ''sqlite3_db_readonly'' (Fn TInt [Ptr (TName ''sqlite3''), Ptr
     (Const TChar)])"
definition sqlite3_txn_state :: decl where [api_decls]:
  "sqlite3_txn_state = Decl ''sqlite3_txn_state'' (Fn TInt [Ptr (TName ''sqlite3''), Ptr (Const
     TChar)])"
definition sqlite3_next_stmt :: decl where [api_decls]:
  "sqlite3_next_stmt = Decl ''sqlite3_next_stmt'' (Fn (Ptr (TName ''sqlite3_stmt'')) [Ptr (TName
     ''sqlite3''), Ptr (TName ''sqlite3_stmt'')])"
definition sqlite3_commit_hook :: decl where [api_decls]:
  "sqlite3_commit_hook = Decl ''sqlite3_commit_hook'' (Fn (Ptr TVoid) [Ptr (TName ''sqlite3''),
     Ptr (Fn TInt [Ptr TVoid]), Ptr TVoid])"
definition sqlite3_rollback_hook :: decl where [api_decls]:
  "sqlite3_rollback_hook = Decl ''sqlite3_rollback_hook'' (Fn (Ptr TVoid) [Ptr (TName
     ''sqlite3''), Ptr (Fn TVoid [Ptr TVoid]), Ptr TVoid])"
definition sqlite3_autovacuum_pages :: decl where [api_decls]:
  "sqlite3_autovacuum_pages = Decl ''sqlite3_autovacuum_pages'' (Fn TInt [Ptr (TName ''sqlite3''),
     Ptr (Fn TUInt [Ptr TVoid, Ptr (Const TChar), TUInt, TUInt, TUInt]), Ptr TVoid, Ptr (Fn TVoid
     [Ptr TVoid])])"
definition sqlite3_update_hook :: decl where [api_decls]:
  "sqlite3_update_hook = Decl ''sqlite3_update_hook'' (Fn (Ptr TVoid) [Ptr (TName ''sqlite3''),
     Ptr (Fn TVoid [Ptr TVoid, TInt, Ptr (Const TChar), Ptr (Const TChar), TName
     ''sqlite3_int64'']), Ptr TVoid])"
definition sqlite3_enable_shared_cache :: decl where [api_decls]:
  "sqlite3_enable_shared_cache = Decl ''sqlite3_enable_shared_cache'' (Fn TInt [TInt])"
definition sqlite3_release_memory :: decl where [api_decls]:
  "sqlite3_release_memory = Decl ''sqlite3_release_memory'' (Fn TInt [TInt])"
definition sqlite3_db_release_memory :: decl where [api_decls]:
  "sqlite3_db_release_memory = Decl ''sqlite3_db_release_memory'' (Fn TInt [Ptr (TName
     ''sqlite3'')])"
definition sqlite3_soft_heap_limit64 :: decl where [api_decls]:
  "sqlite3_soft_heap_limit64 = Decl ''sqlite3_soft_heap_limit64'' (Fn (TName ''sqlite3_int64'')
     [TName ''sqlite3_int64''])"
definition sqlite3_hard_heap_limit64 :: decl where [api_decls]:
  "sqlite3_hard_heap_limit64 = Decl ''sqlite3_hard_heap_limit64'' (Fn (TName ''sqlite3_int64'')
     [TName ''sqlite3_int64''])"
definition sqlite3_soft_heap_limit :: decl where [api_decls]:
  "sqlite3_soft_heap_limit = Decl ''sqlite3_soft_heap_limit'' (Fn TVoid [TInt])"
definition sqlite3_table_column_metadata :: decl where [api_decls]:
  "sqlite3_table_column_metadata = Decl ''sqlite3_table_column_metadata'' (Fn TInt [Ptr (TName
     ''sqlite3''), Ptr (Const TChar), Ptr (Const TChar), Ptr (Const TChar), Ptr (Ptr (Const
     TChar)), Ptr (Ptr (Const TChar)), Ptr TInt, Ptr TInt, Ptr TInt])"
definition sqlite3_load_extension :: decl where [api_decls]:
  "sqlite3_load_extension = Decl ''sqlite3_load_extension'' (Fn TInt [Ptr (TName ''sqlite3''), Ptr
     (Const TChar), Ptr (Const TChar), Ptr (Ptr TChar)])"
definition sqlite3_enable_load_extension :: decl where [api_decls]:
  "sqlite3_enable_load_extension = Decl ''sqlite3_enable_load_extension'' (Fn TInt [Ptr (TName
     ''sqlite3''), TInt])"
definition sqlite3_auto_extension :: decl where [api_decls]:
  "sqlite3_auto_extension = Decl ''sqlite3_auto_extension'' (Fn TInt [Ptr (Fn TVoid [])])"
definition sqlite3_cancel_auto_extension :: decl where [api_decls]:
  "sqlite3_cancel_auto_extension = Decl ''sqlite3_cancel_auto_extension'' (Fn TInt [Ptr (Fn TVoid
     [])])"
definition sqlite3_reset_auto_extension :: decl where [api_decls]:
  "sqlite3_reset_auto_extension = Decl ''sqlite3_reset_auto_extension'' (Fn TVoid [])"
definition sqlite3_create_module :: decl where [api_decls]:
  "sqlite3_create_module = Decl ''sqlite3_create_module'' (Fn TInt [Ptr (TName ''sqlite3''), Ptr
     (Const TChar), Ptr (Const (TName ''sqlite3_module'')), Ptr TVoid])"
definition sqlite3_create_module_v2 :: decl where [api_decls]:
  "sqlite3_create_module_v2 = Decl ''sqlite3_create_module_v2'' (Fn TInt [Ptr (TName ''sqlite3''),
     Ptr (Const TChar), Ptr (Const (TName ''sqlite3_module'')), Ptr TVoid, Ptr (Fn TVoid [Ptr
     TVoid])])"
definition sqlite3_drop_modules :: decl where [api_decls]:
  "sqlite3_drop_modules = Decl ''sqlite3_drop_modules'' (Fn TInt [Ptr (TName ''sqlite3''), Ptr
     (Ptr (Const TChar))])"
definition sqlite3_declare_vtab :: decl where [api_decls]:
  "sqlite3_declare_vtab = Decl ''sqlite3_declare_vtab'' (Fn TInt [Ptr (TName ''sqlite3''), Ptr
     (Const TChar)])"
definition sqlite3_overload_function :: decl where [api_decls]:
  "sqlite3_overload_function = Decl ''sqlite3_overload_function'' (Fn TInt [Ptr (TName
     ''sqlite3''), Ptr (Const TChar), TInt])"
definition sqlite3_blob_open :: decl where [api_decls]:
  "sqlite3_blob_open = Decl ''sqlite3_blob_open'' (Fn TInt [Ptr (TName ''sqlite3''), Ptr (Const
     TChar), Ptr (Const TChar), Ptr (Const TChar), TName ''sqlite3_int64'', TInt, Ptr (Ptr (TName
     ''sqlite3_blob''))])"
definition sqlite3_blob_reopen :: decl where [api_decls]:
  "sqlite3_blob_reopen = Decl ''sqlite3_blob_reopen'' (Fn TInt [Ptr (TName ''sqlite3_blob''),
     TName ''sqlite3_int64''])"
definition sqlite3_blob_close :: decl where [api_decls]:
  "sqlite3_blob_close = Decl ''sqlite3_blob_close'' (Fn TInt [Ptr (TName ''sqlite3_blob'')])"
definition sqlite3_blob_bytes :: decl where [api_decls]:
  "sqlite3_blob_bytes = Decl ''sqlite3_blob_bytes'' (Fn TInt [Ptr (TName ''sqlite3_blob'')])"
definition sqlite3_blob_read :: decl where [api_decls]:
  "sqlite3_blob_read = Decl ''sqlite3_blob_read'' (Fn TInt [Ptr (TName ''sqlite3_blob''), Ptr
     TVoid, TInt, TInt])"
definition sqlite3_blob_write :: decl where [api_decls]:
  "sqlite3_blob_write = Decl ''sqlite3_blob_write'' (Fn TInt [Ptr (TName ''sqlite3_blob''), Ptr
     (Const TVoid), TInt, TInt])"
definition sqlite3_vfs_find :: decl where [api_decls]:
  "sqlite3_vfs_find = Decl ''sqlite3_vfs_find'' (Fn (Ptr (TName ''sqlite3_vfs'')) [Ptr (Const
     TChar)])"
definition sqlite3_vfs_register :: decl where [api_decls]:
  "sqlite3_vfs_register = Decl ''sqlite3_vfs_register'' (Fn TInt [Ptr (TName ''sqlite3_vfs''),
     TInt])"
definition sqlite3_vfs_unregister :: decl where [api_decls]:
  "sqlite3_vfs_unregister = Decl ''sqlite3_vfs_unregister'' (Fn TInt [Ptr (TName
     ''sqlite3_vfs'')])"
definition sqlite3_mutex_alloc :: decl where [api_decls]:
  "sqlite3_mutex_alloc = Decl ''sqlite3_mutex_alloc'' (Fn (Ptr (TName ''sqlite3_mutex'')) [TInt])"
definition sqlite3_mutex_free :: decl where [api_decls]:
  "sqlite3_mutex_free = Decl ''sqlite3_mutex_free'' (Fn TVoid [Ptr (TName ''sqlite3_mutex'')])"
definition sqlite3_mutex_enter :: decl where [api_decls]:
  "sqlite3_mutex_enter = Decl ''sqlite3_mutex_enter'' (Fn TVoid [Ptr (TName ''sqlite3_mutex'')])"
definition sqlite3_mutex_try :: decl where [api_decls]:
  "sqlite3_mutex_try = Decl ''sqlite3_mutex_try'' (Fn TInt [Ptr (TName ''sqlite3_mutex'')])"
definition sqlite3_mutex_leave :: decl where [api_decls]:
  "sqlite3_mutex_leave = Decl ''sqlite3_mutex_leave'' (Fn TVoid [Ptr (TName ''sqlite3_mutex'')])"
definition sqlite3_mutex_held :: decl where [api_decls]:
  "sqlite3_mutex_held = Decl ''sqlite3_mutex_held'' (Fn TInt [Ptr (TName ''sqlite3_mutex'')])"
definition sqlite3_mutex_notheld :: decl where [api_decls]:
  "sqlite3_mutex_notheld = Decl ''sqlite3_mutex_notheld'' (Fn TInt [Ptr (TName
     ''sqlite3_mutex'')])"
definition sqlite3_db_mutex :: decl where [api_decls]:
  "sqlite3_db_mutex = Decl ''sqlite3_db_mutex'' (Fn (Ptr (TName ''sqlite3_mutex'')) [Ptr (TName
     ''sqlite3'')])"
definition sqlite3_file_control :: decl where [api_decls]:
  "sqlite3_file_control = Decl ''sqlite3_file_control'' (Fn TInt [Ptr (TName ''sqlite3''), Ptr
     (Const TChar), TInt, Ptr TVoid])"
definition sqlite3_test_control :: decl where [api_decls]:
  "sqlite3_test_control = Decl ''sqlite3_test_control'' (Fn TInt [TInt, VarArg])"
definition sqlite3_keyword_count :: decl where [api_decls]:
  "sqlite3_keyword_count = Decl ''sqlite3_keyword_count'' (Fn TInt [])"
definition sqlite3_keyword_name :: decl where [api_decls]:
  "sqlite3_keyword_name = Decl ''sqlite3_keyword_name'' (Fn TInt [TInt, Ptr (Ptr (Const TChar)),
     Ptr TInt])"
definition sqlite3_keyword_check :: decl where [api_decls]:
  "sqlite3_keyword_check = Decl ''sqlite3_keyword_check'' (Fn TInt [Ptr (Const TChar), TInt])"
definition sqlite3_str_new :: decl where [api_decls]:
  "sqlite3_str_new = Decl ''sqlite3_str_new'' (Fn (Ptr (TName ''sqlite3_str'')) [Ptr (TName
     ''sqlite3'')])"
definition sqlite3_str_finish :: decl where [api_decls]:
  "sqlite3_str_finish = Decl ''sqlite3_str_finish'' (Fn (Ptr TChar) [Ptr (TName
     ''sqlite3_str'')])"
definition sqlite3_str_appendf :: decl where [api_decls]:
  "sqlite3_str_appendf = Decl ''sqlite3_str_appendf'' (Fn TVoid [Ptr (TName ''sqlite3_str''), Ptr
     (Const TChar), VarArg])"
definition sqlite3_str_vappendf :: decl where [api_decls]:
  "sqlite3_str_vappendf = Decl ''sqlite3_str_vappendf'' (Fn TVoid [Ptr (TName ''sqlite3_str''),
     Ptr (Const TChar), TName ''va_list''])"
definition sqlite3_str_append :: decl where [api_decls]:
  "sqlite3_str_append = Decl ''sqlite3_str_append'' (Fn TVoid [Ptr (TName ''sqlite3_str''), Ptr
     (Const TChar), TInt])"
definition sqlite3_str_appendall :: decl where [api_decls]:
  "sqlite3_str_appendall = Decl ''sqlite3_str_appendall'' (Fn TVoid [Ptr (TName ''sqlite3_str''),
     Ptr (Const TChar)])"
definition sqlite3_str_appendchar :: decl where [api_decls]:
  "sqlite3_str_appendchar = Decl ''sqlite3_str_appendchar'' (Fn TVoid [Ptr (TName
     ''sqlite3_str''), TInt, TChar])"
definition sqlite3_str_reset :: decl where [api_decls]:
  "sqlite3_str_reset = Decl ''sqlite3_str_reset'' (Fn TVoid [Ptr (TName ''sqlite3_str'')])"
definition sqlite3_str_errcode :: decl where [api_decls]:
  "sqlite3_str_errcode = Decl ''sqlite3_str_errcode'' (Fn TInt [Ptr (TName ''sqlite3_str'')])"
definition sqlite3_str_length :: decl where [api_decls]:
  "sqlite3_str_length = Decl ''sqlite3_str_length'' (Fn TInt [Ptr (TName ''sqlite3_str'')])"
definition sqlite3_str_value :: decl where [api_decls]:
  "sqlite3_str_value = Decl ''sqlite3_str_value'' (Fn (Ptr TChar) [Ptr (TName ''sqlite3_str'')])"
definition sqlite3_status :: decl where [api_decls]:
  "sqlite3_status = Decl ''sqlite3_status'' (Fn TInt [TInt, Ptr TInt, Ptr TInt, TInt])"
definition sqlite3_status64 :: decl where [api_decls]:
  "sqlite3_status64 = Decl ''sqlite3_status64'' (Fn TInt [TInt, Ptr (TName ''sqlite3_int64''), Ptr
     (TName ''sqlite3_int64''), TInt])"
definition sqlite3_db_status :: decl where [api_decls]:
  "sqlite3_db_status = Decl ''sqlite3_db_status'' (Fn TInt [Ptr (TName ''sqlite3''), TInt, Ptr
     TInt, Ptr TInt, TInt])"
definition sqlite3_stmt_status :: decl where [api_decls]:
  "sqlite3_stmt_status = Decl ''sqlite3_stmt_status'' (Fn TInt [Ptr (TName ''sqlite3_stmt''),
     TInt, TInt])"
definition sqlite3_backup_init :: decl where [api_decls]:
  "sqlite3_backup_init = Decl ''sqlite3_backup_init'' (Fn (Ptr (TName ''sqlite3_backup'')) [Ptr
     (TName ''sqlite3''), Ptr (Const TChar), Ptr (TName ''sqlite3''), Ptr (Const TChar)])"
definition sqlite3_backup_step :: decl where [api_decls]:
  "sqlite3_backup_step = Decl ''sqlite3_backup_step'' (Fn TInt [Ptr (TName ''sqlite3_backup''),
     TInt])"
definition sqlite3_backup_finish :: decl where [api_decls]:
  "sqlite3_backup_finish = Decl ''sqlite3_backup_finish'' (Fn TInt [Ptr (TName
     ''sqlite3_backup'')])"
definition sqlite3_backup_remaining :: decl where [api_decls]:
  "sqlite3_backup_remaining = Decl ''sqlite3_backup_remaining'' (Fn TInt [Ptr (TName
     ''sqlite3_backup'')])"
definition sqlite3_backup_pagecount :: decl where [api_decls]:
  "sqlite3_backup_pagecount = Decl ''sqlite3_backup_pagecount'' (Fn TInt [Ptr (TName
     ''sqlite3_backup'')])"
definition sqlite3_unlock_notify :: decl where [api_decls]:
  "sqlite3_unlock_notify = Decl ''sqlite3_unlock_notify'' (Fn TInt [Ptr (TName ''sqlite3''), Ptr
     (Fn TVoid [Ptr (Ptr TVoid), TInt]), Ptr TVoid])"

definition api3 :: "decl list" where
  "api3 = [sqlite3_result_value, sqlite3_result_pointer, sqlite3_result_zeroblob,
     sqlite3_result_zeroblob64, sqlite3_result_subtype, sqlite3_create_collation,
     sqlite3_create_collation_v2, sqlite3_create_collation16, sqlite3_collation_needed,
     sqlite3_collation_needed16, sqlite3_activate_cerod, sqlite3_sleep, sqlite3_temp_directory,
     sqlite3_data_directory, sqlite3_win32_set_directory, sqlite3_win32_set_directory8,
     sqlite3_win32_set_directory16, sqlite3_get_autocommit, sqlite3_db_handle, sqlite3_db_name,
     sqlite3_db_filename, sqlite3_db_readonly, sqlite3_txn_state, sqlite3_next_stmt,
     sqlite3_commit_hook, sqlite3_rollback_hook, sqlite3_autovacuum_pages, sqlite3_update_hook,
     sqlite3_enable_shared_cache, sqlite3_release_memory, sqlite3_db_release_memory,
     sqlite3_soft_heap_limit64, sqlite3_hard_heap_limit64, sqlite3_soft_heap_limit,
     sqlite3_table_column_metadata, sqlite3_load_extension, sqlite3_enable_load_extension,
     sqlite3_auto_extension, sqlite3_cancel_auto_extension, sqlite3_reset_auto_extension,
     sqlite3_create_module, sqlite3_create_module_v2, sqlite3_drop_modules, sqlite3_declare_vtab,
     sqlite3_overload_function, sqlite3_blob_open, sqlite3_blob_reopen, sqlite3_blob_close,
     sqlite3_blob_bytes, sqlite3_blob_read, sqlite3_blob_write, sqlite3_vfs_find,
     sqlite3_vfs_register, sqlite3_vfs_unregister, sqlite3_mutex_alloc, sqlite3_mutex_free,
     sqlite3_mutex_enter, sqlite3_mutex_try, sqlite3_mutex_leave, sqlite3_mutex_held,
     sqlite3_mutex_notheld, sqlite3_db_mutex, sqlite3_file_control, sqlite3_test_control,
     sqlite3_keyword_count, sqlite3_keyword_name, sqlite3_keyword_check, sqlite3_str_new,
     sqlite3_str_finish, sqlite3_str_appendf, sqlite3_str_vappendf, sqlite3_str_append,
     sqlite3_str_appendall, sqlite3_str_appendchar, sqlite3_str_reset, sqlite3_str_errcode,
     sqlite3_str_length, sqlite3_str_value, sqlite3_status, sqlite3_status64, sqlite3_db_status,
     sqlite3_stmt_status, sqlite3_backup_init, sqlite3_backup_step, sqlite3_backup_finish,
     sqlite3_backup_remaining, sqlite3_backup_pagecount, sqlite3_unlock_notify]"

lemma api3_ok: "list_all (decl_ok header_env) api3"
  by (simp add: api3_def decl_ok_def api_decls ctype_names)

end
