(* ===== verification/HeaderApi4.thy ===== *)
theory HeaderApi4
  imports HeaderTypes
begin

text \<open>
  The declarations of \<^verbatim>\<open>sqlite3.h\<close> from \<^verbatim>\<open>sqlite3_stricmp\<close> to \<^verbatim>\<open>sqlite3session_config\<close>, one
  definition each under its C name, in the order of the header.
\<close>

definition sqlite3_stricmp :: decl where [api_decls]:
  "sqlite3_stricmp = Decl ''sqlite3_stricmp'' (Fn TInt [Ptr (Const TChar), Ptr (Const TChar)])"
definition sqlite3_strnicmp :: decl where [api_decls]:
  "sqlite3_strnicmp = Decl ''sqlite3_strnicmp'' (Fn TInt [Ptr (Const TChar), Ptr (Const TChar),
     TInt])"
definition sqlite3_strglob :: decl where [api_decls]:
  "sqlite3_strglob = Decl ''sqlite3_strglob'' (Fn TInt [Ptr (Const TChar), Ptr (Const TChar)])"
definition sqlite3_strlike :: decl where [api_decls]:
  "sqlite3_strlike = Decl ''sqlite3_strlike'' (Fn TInt [Ptr (Const TChar), Ptr (Const TChar),
     TUInt])"
definition sqlite3_log :: decl where [api_decls]:
  "sqlite3_log = Decl ''sqlite3_log'' (Fn TVoid [TInt, Ptr (Const TChar), VarArg])"
definition sqlite3_wal_hook :: decl where [api_decls]:
  "sqlite3_wal_hook = Decl ''sqlite3_wal_hook'' (Fn (Ptr TVoid) [Ptr (TName ''sqlite3''), Ptr (Fn
     TInt [Ptr TVoid, Ptr (TName ''sqlite3''), Ptr (Const TChar), TInt]), Ptr TVoid])"
definition sqlite3_wal_autocheckpoint :: decl where [api_decls]:
  "sqlite3_wal_autocheckpoint = Decl ''sqlite3_wal_autocheckpoint'' (Fn TInt [Ptr (TName
     ''sqlite3''), TInt])"
definition sqlite3_wal_checkpoint :: decl where [api_decls]:
  "sqlite3_wal_checkpoint = Decl ''sqlite3_wal_checkpoint'' (Fn TInt [Ptr (TName ''sqlite3''), Ptr
     (Const TChar)])"
definition sqlite3_wal_checkpoint_v2 :: decl where [api_decls]:
  "sqlite3_wal_checkpoint_v2 = Decl ''sqlite3_wal_checkpoint_v2'' (Fn TInt [Ptr (TName
     ''sqlite3''), Ptr (Const TChar), TInt, Ptr TInt, Ptr TInt])"
definition sqlite3_vtab_config :: decl where [api_decls]:
  "sqlite3_vtab_config = Decl ''sqlite3_vtab_config'' (Fn TInt [Ptr (TName ''sqlite3''), TInt,
     VarArg])"
definition sqlite3_vtab_on_conflict :: decl where [api_decls]:
  "sqlite3_vtab_on_conflict = Decl ''sqlite3_vtab_on_conflict'' (Fn TInt [Ptr (TName
     ''sqlite3'')])"
definition sqlite3_vtab_nochange :: decl where [api_decls]:
  "sqlite3_vtab_nochange = Decl ''sqlite3_vtab_nochange'' (Fn TInt [Ptr (TName
     ''sqlite3_context'')])"
definition sqlite3_vtab_collation :: decl where [api_decls]:
  "sqlite3_vtab_collation = Decl ''sqlite3_vtab_collation'' (Fn (Ptr (Const TChar)) [Ptr (TName
     ''sqlite3_index_info''), TInt])"
definition sqlite3_vtab_distinct :: decl where [api_decls]:
  "sqlite3_vtab_distinct = Decl ''sqlite3_vtab_distinct'' (Fn TInt [Ptr (TName
     ''sqlite3_index_info'')])"
definition sqlite3_vtab_in :: decl where [api_decls]:
  "sqlite3_vtab_in = Decl ''sqlite3_vtab_in'' (Fn TInt [Ptr (TName ''sqlite3_index_info''), TInt,
     TInt])"
definition sqlite3_vtab_in_first :: decl where [api_decls]:
  "sqlite3_vtab_in_first = Decl ''sqlite3_vtab_in_first'' (Fn TInt [Ptr (TName ''sqlite3_value''),
     Ptr (Ptr (TName ''sqlite3_value''))])"
definition sqlite3_vtab_in_next :: decl where [api_decls]:
  "sqlite3_vtab_in_next = Decl ''sqlite3_vtab_in_next'' (Fn TInt [Ptr (TName ''sqlite3_value''),
     Ptr (Ptr (TName ''sqlite3_value''))])"
definition sqlite3_vtab_rhs_value :: decl where [api_decls]:
  "sqlite3_vtab_rhs_value = Decl ''sqlite3_vtab_rhs_value'' (Fn TInt [Ptr (TName
     ''sqlite3_index_info''), TInt, Ptr (Ptr (TName ''sqlite3_value''))])"
definition sqlite3_stmt_scanstatus :: decl where [api_decls]:
  "sqlite3_stmt_scanstatus = Decl ''sqlite3_stmt_scanstatus'' (Fn TInt [Ptr (TName
     ''sqlite3_stmt''), TInt, TInt, Ptr TVoid])"
definition sqlite3_stmt_scanstatus_v2 :: decl where [api_decls]:
  "sqlite3_stmt_scanstatus_v2 = Decl ''sqlite3_stmt_scanstatus_v2'' (Fn TInt [Ptr (TName
     ''sqlite3_stmt''), TInt, TInt, TInt, Ptr TVoid])"
definition sqlite3_stmt_scanstatus_reset :: decl where [api_decls]:
  "sqlite3_stmt_scanstatus_reset = Decl ''sqlite3_stmt_scanstatus_reset'' (Fn TVoid [Ptr (TName
     ''sqlite3_stmt'')])"
definition sqlite3_db_cacheflush :: decl where [api_decls]:
  "sqlite3_db_cacheflush = Decl ''sqlite3_db_cacheflush'' (Fn TInt [Ptr (TName ''sqlite3'')])"
definition sqlite3_preupdate_hook :: decl where [api_decls]:
  "sqlite3_preupdate_hook = Decl ''sqlite3_preupdate_hook'' (Fn (Ptr TVoid) [Ptr (TName
     ''sqlite3''), Ptr (Fn TVoid [Ptr TVoid, Ptr (TName ''sqlite3''), TInt, Ptr (Const TChar), Ptr
     (Const TChar), TName ''sqlite3_int64'', TName ''sqlite3_int64'']), Ptr TVoid])"
definition sqlite3_preupdate_old :: decl where [api_decls]:
  "sqlite3_preupdate_old = Decl ''sqlite3_preupdate_old'' (Fn TInt [Ptr (TName ''sqlite3''), TInt,
     Ptr (Ptr (TName ''sqlite3_value''))])"
definition sqlite3_preupdate_count :: decl where [api_decls]:
  "sqlite3_preupdate_count = Decl ''sqlite3_preupdate_count'' (Fn TInt [Ptr (TName ''sqlite3'')])"
definition sqlite3_preupdate_depth :: decl where [api_decls]:
  "sqlite3_preupdate_depth = Decl ''sqlite3_preupdate_depth'' (Fn TInt [Ptr (TName ''sqlite3'')])"
definition sqlite3_preupdate_new :: decl where [api_decls]:
  "sqlite3_preupdate_new = Decl ''sqlite3_preupdate_new'' (Fn TInt [Ptr (TName ''sqlite3''), TInt,
     Ptr (Ptr (TName ''sqlite3_value''))])"
definition sqlite3_preupdate_blobwrite :: decl where [api_decls]:
  "sqlite3_preupdate_blobwrite = Decl ''sqlite3_preupdate_blobwrite'' (Fn TInt [Ptr (TName
     ''sqlite3'')])"
definition sqlite3_system_errno :: decl where [api_decls]:
  "sqlite3_system_errno = Decl ''sqlite3_system_errno'' (Fn TInt [Ptr (TName ''sqlite3'')])"
definition sqlite3_snapshot_get :: decl where [api_decls]:
  "sqlite3_snapshot_get = Decl ''sqlite3_snapshot_get'' (Fn TInt [Ptr (TName ''sqlite3''), Ptr
     (Const TChar), Ptr (Ptr (TName ''sqlite3_snapshot''))])"
definition sqlite3_snapshot_open :: decl where [api_decls]:
  "sqlite3_snapshot_open = Decl ''sqlite3_snapshot_open'' (Fn TInt [Ptr (TName ''sqlite3''), Ptr
     (Const TChar), Ptr (TName ''sqlite3_snapshot'')])"
definition sqlite3_snapshot_free :: decl where [api_decls]:
  "sqlite3_snapshot_free = Decl ''sqlite3_snapshot_free'' (Fn TVoid [Ptr (TName
     ''sqlite3_snapshot'')])"
definition sqlite3_snapshot_cmp :: decl where [api_decls]:
  "sqlite3_snapshot_cmp = Decl ''sqlite3_snapshot_cmp'' (Fn TInt [Ptr (TName
     ''sqlite3_snapshot''), Ptr (TName ''sqlite3_snapshot'')])"
definition sqlite3_snapshot_recover :: decl where [api_decls]:
  "sqlite3_snapshot_recover = Decl ''sqlite3_snapshot_recover'' (Fn TInt [Ptr (TName ''sqlite3''),
     Ptr (Const TChar)])"
definition sqlite3_serialize :: decl where [api_decls]:
  "sqlite3_serialize = Decl ''sqlite3_serialize'' (Fn (Ptr TUChar) [Ptr (TName ''sqlite3''), Ptr
     (Const TChar), Ptr (TName ''sqlite3_int64''), TUInt])"
definition sqlite3_deserialize :: decl where [api_decls]:
  "sqlite3_deserialize = Decl ''sqlite3_deserialize'' (Fn TInt [Ptr (TName ''sqlite3''), Ptr
     (Const TChar), Ptr TUChar, TName ''sqlite3_int64'', TName ''sqlite3_int64'', TUInt])"
definition sqlite3_rtree_geometry_callback :: decl where [api_decls]:
  "sqlite3_rtree_geometry_callback = Decl ''sqlite3_rtree_geometry_callback'' (Fn TInt [Ptr (TName
     ''sqlite3''), Ptr (Const TChar), Ptr (Fn TInt [Ptr (TName ''sqlite3_rtree_geometry''), TInt,
     Ptr (TName ''sqlite3_rtree_dbl''), Ptr TInt]), Ptr TVoid])"
definition sqlite3_rtree_query_callback :: decl where [api_decls]:
  "sqlite3_rtree_query_callback = Decl ''sqlite3_rtree_query_callback'' (Fn TInt [Ptr (TName
     ''sqlite3''), Ptr (Const TChar), Ptr (Fn TInt [Ptr (TName ''sqlite3_rtree_query_info'')]),
     Ptr TVoid, Ptr (Fn TVoid [Ptr TVoid])])"
definition sqlite3session_create :: decl where [api_decls]:
  "sqlite3session_create = Decl ''sqlite3session_create'' (Fn TInt [Ptr (TName ''sqlite3''), Ptr
     (Const TChar), Ptr (Ptr (TName ''sqlite3_session''))])"
definition sqlite3session_delete :: decl where [api_decls]:
  "sqlite3session_delete = Decl ''sqlite3session_delete'' (Fn TVoid [Ptr (TName
     ''sqlite3_session'')])"
definition sqlite3session_object_config :: decl where [api_decls]:
  "sqlite3session_object_config = Decl ''sqlite3session_object_config'' (Fn TInt [Ptr (TName
     ''sqlite3_session''), TInt, Ptr TVoid])"
definition sqlite3session_enable :: decl where [api_decls]:
  "sqlite3session_enable = Decl ''sqlite3session_enable'' (Fn TInt [Ptr (TName
     ''sqlite3_session''), TInt])"
definition sqlite3session_indirect :: decl where [api_decls]:
  "sqlite3session_indirect = Decl ''sqlite3session_indirect'' (Fn TInt [Ptr (TName
     ''sqlite3_session''), TInt])"
definition sqlite3session_attach :: decl where [api_decls]:
  "sqlite3session_attach = Decl ''sqlite3session_attach'' (Fn TInt [Ptr (TName
     ''sqlite3_session''), Ptr (Const TChar)])"
definition sqlite3session_table_filter :: decl where [api_decls]:
  "sqlite3session_table_filter = Decl ''sqlite3session_table_filter'' (Fn TVoid [Ptr (TName
     ''sqlite3_session''), Ptr (Fn TInt [Ptr TVoid, Ptr (Const TChar)]), Ptr TVoid])"
definition sqlite3session_changeset :: decl where [api_decls]:
  "sqlite3session_changeset = Decl ''sqlite3session_changeset'' (Fn TInt [Ptr (TName
     ''sqlite3_session''), Ptr TInt, Ptr (Ptr TVoid)])"
definition sqlite3session_changeset_size :: decl where [api_decls]:
  "sqlite3session_changeset_size = Decl ''sqlite3session_changeset_size'' (Fn (TName
     ''sqlite3_int64'') [Ptr (TName ''sqlite3_session'')])"
definition sqlite3session_diff :: decl where [api_decls]:
  "sqlite3session_diff = Decl ''sqlite3session_diff'' (Fn TInt [Ptr (TName ''sqlite3_session''),
     Ptr (Const TChar), Ptr (Const TChar), Ptr (Ptr TChar)])"
definition sqlite3session_patchset :: decl where [api_decls]:
  "sqlite3session_patchset = Decl ''sqlite3session_patchset'' (Fn TInt [Ptr (TName
     ''sqlite3_session''), Ptr TInt, Ptr (Ptr TVoid)])"
definition sqlite3session_isempty :: decl where [api_decls]:
  "sqlite3session_isempty = Decl ''sqlite3session_isempty'' (Fn TInt [Ptr (TName
     ''sqlite3_session'')])"
definition sqlite3session_memory_used :: decl where [api_decls]:
  "sqlite3session_memory_used = Decl ''sqlite3session_memory_used'' (Fn (TName ''sqlite3_int64'')
     [Ptr (TName ''sqlite3_session'')])"
definition sqlite3changeset_start :: decl where [api_decls]:
  "sqlite3changeset_start = Decl ''sqlite3changeset_start'' (Fn TInt [Ptr (Ptr (TName
     ''sqlite3_changeset_iter'')), TInt, Ptr TVoid])"
definition sqlite3changeset_start_v2 :: decl where [api_decls]:
  "sqlite3changeset_start_v2 = Decl ''sqlite3changeset_start_v2'' (Fn TInt [Ptr (Ptr (TName
     ''sqlite3_changeset_iter'')), TInt, Ptr TVoid, TInt])"
definition sqlite3changeset_next :: decl where [api_decls]:
  "sqlite3changeset_next = Decl ''sqlite3changeset_next'' (Fn TInt [Ptr (TName
     ''sqlite3_changeset_iter'')])"
definition sqlite3changeset_op :: decl where [api_decls]:
  "sqlite3changeset_op = Decl ''sqlite3changeset_op'' (Fn TInt [Ptr (TName
     ''sqlite3_changeset_iter''), Ptr (Ptr (Const TChar)), Ptr TInt, Ptr TInt, Ptr TInt])"
definition sqlite3changeset_pk :: decl where [api_decls]:
  "sqlite3changeset_pk = Decl ''sqlite3changeset_pk'' (Fn TInt [Ptr (TName
     ''sqlite3_changeset_iter''), Ptr (Ptr TUChar), Ptr TInt])"
definition sqlite3changeset_old :: decl where [api_decls]:
  "sqlite3changeset_old = Decl ''sqlite3changeset_old'' (Fn TInt [Ptr (TName
     ''sqlite3_changeset_iter''), TInt, Ptr (Ptr (TName ''sqlite3_value''))])"
definition sqlite3changeset_new :: decl where [api_decls]:
  "sqlite3changeset_new = Decl ''sqlite3changeset_new'' (Fn TInt [Ptr (TName
     ''sqlite3_changeset_iter''), TInt, Ptr (Ptr (TName ''sqlite3_value''))])"
definition sqlite3changeset_conflict :: decl where [api_decls]:
  "sqlite3changeset_conflict = Decl ''sqlite3changeset_conflict'' (Fn TInt [Ptr (TName
     ''sqlite3_changeset_iter''), TInt, Ptr (Ptr (TName ''sqlite3_value''))])"
definition sqlite3changeset_fk_conflicts :: decl where [api_decls]:
  "sqlite3changeset_fk_conflicts = Decl ''sqlite3changeset_fk_conflicts'' (Fn TInt [Ptr (TName
     ''sqlite3_changeset_iter''), Ptr TInt])"
definition sqlite3changeset_finalize :: decl where [api_decls]:
  "sqlite3changeset_finalize = Decl ''sqlite3changeset_finalize'' (Fn TInt [Ptr (TName
     ''sqlite3_changeset_iter'')])"
definition sqlite3changeset_invert :: decl where [api_decls]:
  "sqlite3changeset_invert = Decl ''sqlite3changeset_invert'' (Fn TInt [TInt, Ptr (Const TVoid),
     Ptr TInt, Ptr (Ptr TVoid)])"
definition sqlite3changeset_concat :: decl where [api_decls]:
  "sqlite3changeset_concat = Decl ''sqlite3changeset_concat'' (Fn TInt [TInt, Ptr TVoid, TInt, Ptr
     TVoid, Ptr TInt, Ptr (Ptr TVoid)])"
definition sqlite3changeset_upgrade :: decl where [api_decls]:
  "sqlite3changeset_upgrade = Decl ''sqlite3changeset_upgrade'' (Fn TInt [Ptr (TName ''sqlite3''),
     Ptr (Const TChar), TInt, Ptr (Const TVoid), Ptr TInt, Ptr (Ptr TVoid)])"
definition sqlite3changegroup_new :: decl where [api_decls]:
  "sqlite3changegroup_new = Decl ''sqlite3changegroup_new'' (Fn TInt [Ptr (Ptr (TName
     ''sqlite3_changegroup''))])"
definition sqlite3changegroup_schema :: decl where [api_decls]:
  "sqlite3changegroup_schema = Decl ''sqlite3changegroup_schema'' (Fn TInt [Ptr (TName
     ''sqlite3_changegroup''), Ptr (TName ''sqlite3''), Ptr (Const TChar)])"
definition sqlite3changegroup_add :: decl where [api_decls]:
  "sqlite3changegroup_add = Decl ''sqlite3changegroup_add'' (Fn TInt [Ptr (TName
     ''sqlite3_changegroup''), TInt, Ptr TVoid])"
definition sqlite3changegroup_add_change :: decl where [api_decls]:
  "sqlite3changegroup_add_change = Decl ''sqlite3changegroup_add_change'' (Fn TInt [Ptr (TName
     ''sqlite3_changegroup''), Ptr (TName ''sqlite3_changeset_iter'')])"
definition sqlite3changegroup_output :: decl where [api_decls]:
  "sqlite3changegroup_output = Decl ''sqlite3changegroup_output'' (Fn TInt [Ptr (TName
     ''sqlite3_changegroup''), Ptr TInt, Ptr (Ptr TVoid)])"
definition sqlite3changegroup_delete :: decl where [api_decls]:
  "sqlite3changegroup_delete = Decl ''sqlite3changegroup_delete'' (Fn TVoid [Ptr (TName
     ''sqlite3_changegroup'')])"
definition sqlite3changeset_apply :: decl where [api_decls]:
  "sqlite3changeset_apply = Decl ''sqlite3changeset_apply'' (Fn TInt [Ptr (TName ''sqlite3''),
     TInt, Ptr TVoid, Ptr (Fn TInt [Ptr TVoid, Ptr (Const TChar)]), Ptr (Fn TInt [Ptr TVoid, TInt,
     Ptr (TName ''sqlite3_changeset_iter'')]), Ptr TVoid])"
definition sqlite3changeset_apply_v2 :: decl where [api_decls]:
  "sqlite3changeset_apply_v2 = Decl ''sqlite3changeset_apply_v2'' (Fn TInt [Ptr (TName
     ''sqlite3''), TInt, Ptr TVoid, Ptr (Fn TInt [Ptr TVoid, Ptr (Const TChar)]), Ptr (Fn TInt
     [Ptr TVoid, TInt, Ptr (TName ''sqlite3_changeset_iter'')]), Ptr TVoid, Ptr (Ptr TVoid), Ptr
     TInt, TInt])"
definition sqlite3rebaser_create :: decl where [api_decls]:
  "sqlite3rebaser_create = Decl ''sqlite3rebaser_create'' (Fn TInt [Ptr (Ptr (TName
     ''sqlite3_rebaser''))])"
definition sqlite3rebaser_configure :: decl where [api_decls]:
  "sqlite3rebaser_configure = Decl ''sqlite3rebaser_configure'' (Fn TInt [Ptr (TName
     ''sqlite3_rebaser''), TInt, Ptr (Const TVoid)])"
definition sqlite3rebaser_rebase :: decl where [api_decls]:
  "sqlite3rebaser_rebase = Decl ''sqlite3rebaser_rebase'' (Fn TInt [Ptr (TName
     ''sqlite3_rebaser''), TInt, Ptr (Const TVoid), Ptr TInt, Ptr (Ptr TVoid)])"
definition sqlite3rebaser_delete :: decl where [api_decls]:
  "sqlite3rebaser_delete = Decl ''sqlite3rebaser_delete'' (Fn TVoid [Ptr (TName
     ''sqlite3_rebaser'')])"
definition sqlite3changeset_apply_strm :: decl where [api_decls]:
  "sqlite3changeset_apply_strm = Decl ''sqlite3changeset_apply_strm'' (Fn TInt [Ptr (TName
     ''sqlite3''), Ptr (Fn TInt [Ptr TVoid, Ptr TVoid, Ptr TInt]), Ptr TVoid, Ptr (Fn TInt [Ptr
     TVoid, Ptr (Const TChar)]), Ptr (Fn TInt [Ptr TVoid, TInt, Ptr (TName
     ''sqlite3_changeset_iter'')]), Ptr TVoid])"
definition sqlite3changeset_apply_v2_strm :: decl where [api_decls]:
  "sqlite3changeset_apply_v2_strm = Decl ''sqlite3changeset_apply_v2_strm'' (Fn TInt [Ptr (TName
     ''sqlite3''), Ptr (Fn TInt [Ptr TVoid, Ptr TVoid, Ptr TInt]), Ptr TVoid, Ptr (Fn TInt [Ptr
     TVoid, Ptr (Const TChar)]), Ptr (Fn TInt [Ptr TVoid, TInt, Ptr (TName
     ''sqlite3_changeset_iter'')]), Ptr TVoid, Ptr (Ptr TVoid), Ptr TInt, TInt])"
definition sqlite3changeset_concat_strm :: decl where [api_decls]:
  "sqlite3changeset_concat_strm = Decl ''sqlite3changeset_concat_strm'' (Fn TInt [Ptr (Fn TInt
     [Ptr TVoid, Ptr TVoid, Ptr TInt]), Ptr TVoid, Ptr (Fn TInt [Ptr TVoid, Ptr TVoid, Ptr TInt]),
     Ptr TVoid, Ptr (Fn TInt [Ptr TVoid, Ptr (Const TVoid), TInt]), Ptr TVoid])"
definition sqlite3changeset_invert_strm :: decl where [api_decls]:
  "sqlite3changeset_invert_strm = Decl ''sqlite3changeset_invert_strm'' (Fn TInt [Ptr (Fn TInt
     [Ptr TVoid, Ptr TVoid, Ptr TInt]), Ptr TVoid, Ptr (Fn TInt [Ptr TVoid, Ptr (Const TVoid),
     TInt]), Ptr TVoid])"
definition sqlite3changeset_start_strm :: decl where [api_decls]:
  "sqlite3changeset_start_strm = Decl ''sqlite3changeset_start_strm'' (Fn TInt [Ptr (Ptr (TName
     ''sqlite3_changeset_iter'')), Ptr (Fn TInt [Ptr TVoid, Ptr TVoid, Ptr TInt]), Ptr TVoid])"
definition sqlite3changeset_start_v2_strm :: decl where [api_decls]:
  "sqlite3changeset_start_v2_strm = Decl ''sqlite3changeset_start_v2_strm'' (Fn TInt [Ptr (Ptr
     (TName ''sqlite3_changeset_iter'')), Ptr (Fn TInt [Ptr TVoid, Ptr TVoid, Ptr TInt]), Ptr
     TVoid, TInt])"
definition sqlite3session_changeset_strm :: decl where [api_decls]:
  "sqlite3session_changeset_strm = Decl ''sqlite3session_changeset_strm'' (Fn TInt [Ptr (TName
     ''sqlite3_session''), Ptr (Fn TInt [Ptr TVoid, Ptr (Const TVoid), TInt]), Ptr TVoid])"
definition sqlite3session_patchset_strm :: decl where [api_decls]:
  "sqlite3session_patchset_strm = Decl ''sqlite3session_patchset_strm'' (Fn TInt [Ptr (TName
     ''sqlite3_session''), Ptr (Fn TInt [Ptr TVoid, Ptr (Const TVoid), TInt]), Ptr TVoid])"
definition sqlite3changegroup_add_strm :: decl where [api_decls]:
  "sqlite3changegroup_add_strm = Decl ''sqlite3changegroup_add_strm'' (Fn TInt [Ptr (TName
     ''sqlite3_changegroup''), Ptr (Fn TInt [Ptr TVoid, Ptr TVoid, Ptr TInt]), Ptr TVoid])"
definition sqlite3changegroup_output_strm :: decl where [api_decls]:
  "sqlite3changegroup_output_strm = Decl ''sqlite3changegroup_output_strm'' (Fn TInt [Ptr (TName
     ''sqlite3_changegroup''), Ptr (Fn TInt [Ptr TVoid, Ptr (Const TVoid), TInt]), Ptr TVoid])"
definition sqlite3rebaser_rebase_strm :: decl where [api_decls]:
  "sqlite3rebaser_rebase_strm = Decl ''sqlite3rebaser_rebase_strm'' (Fn TInt [Ptr (TName
     ''sqlite3_rebaser''), Ptr (Fn TInt [Ptr TVoid, Ptr TVoid, Ptr TInt]), Ptr TVoid, Ptr (Fn TInt
     [Ptr TVoid, Ptr (Const TVoid), TInt]), Ptr TVoid])"
definition sqlite3session_config :: decl where [api_decls]:
  "sqlite3session_config = Decl ''sqlite3session_config'' (Fn TInt [TInt, Ptr TVoid])"

definition api4 :: "decl list" where
  "api4 = [sqlite3_stricmp, sqlite3_strnicmp, sqlite3_strglob, sqlite3_strlike, sqlite3_log,
     sqlite3_wal_hook, sqlite3_wal_autocheckpoint, sqlite3_wal_checkpoint,
     sqlite3_wal_checkpoint_v2, sqlite3_vtab_config, sqlite3_vtab_on_conflict,
     sqlite3_vtab_nochange, sqlite3_vtab_collation, sqlite3_vtab_distinct, sqlite3_vtab_in,
     sqlite3_vtab_in_first, sqlite3_vtab_in_next, sqlite3_vtab_rhs_value, sqlite3_stmt_scanstatus,
     sqlite3_stmt_scanstatus_v2, sqlite3_stmt_scanstatus_reset, sqlite3_db_cacheflush,
     sqlite3_preupdate_hook, sqlite3_preupdate_old, sqlite3_preupdate_count,
     sqlite3_preupdate_depth, sqlite3_preupdate_new, sqlite3_preupdate_blobwrite,
     sqlite3_system_errno, sqlite3_snapshot_get, sqlite3_snapshot_open, sqlite3_snapshot_free,
     sqlite3_snapshot_cmp, sqlite3_snapshot_recover, sqlite3_serialize, sqlite3_deserialize,
     sqlite3_rtree_geometry_callback, sqlite3_rtree_query_callback, sqlite3session_create,
     sqlite3session_delete, sqlite3session_object_config, sqlite3session_enable,
     sqlite3session_indirect, sqlite3session_attach, sqlite3session_table_filter,
     sqlite3session_changeset, sqlite3session_changeset_size, sqlite3session_diff,
     sqlite3session_patchset, sqlite3session_isempty, sqlite3session_memory_used,
     sqlite3changeset_start, sqlite3changeset_start_v2, sqlite3changeset_next,
     sqlite3changeset_op, sqlite3changeset_pk, sqlite3changeset_old, sqlite3changeset_new,
     sqlite3changeset_conflict, sqlite3changeset_fk_conflicts, sqlite3changeset_finalize,
     sqlite3changeset_invert, sqlite3changeset_concat, sqlite3changeset_upgrade,
     sqlite3changegroup_new, sqlite3changegroup_schema, sqlite3changegroup_add,
     sqlite3changegroup_add_change, sqlite3changegroup_output, sqlite3changegroup_delete,
     sqlite3changeset_apply, sqlite3changeset_apply_v2, sqlite3rebaser_create,
     sqlite3rebaser_configure, sqlite3rebaser_rebase, sqlite3rebaser_delete,
     sqlite3changeset_apply_strm, sqlite3changeset_apply_v2_strm, sqlite3changeset_concat_strm,
     sqlite3changeset_invert_strm, sqlite3changeset_start_strm, sqlite3changeset_start_v2_strm,
     sqlite3session_changeset_strm, sqlite3session_patchset_strm, sqlite3changegroup_add_strm,
     sqlite3changegroup_output_strm, sqlite3rebaser_rebase_strm, sqlite3session_config]"

lemma api4_ok: "list_all (decl_ok header_env) api4"
  by (simp add: api4_def decl_ok_def api_decls ctype_names)

end
