(* ===== verification/HeaderDoc1.thy ===== *)
theory HeaderDoc1
  imports HeaderApi1 HeaderApi2 HeaderApi3 HeaderApi4
begin

text \<open>
  The documented sections of \<^verbatim>\<open>sqlite3.h\<close> that declare functions, part 1: title, role tags, the
  functions the text refers to, and the declarations, in the order of the header.
\<close>

definition capi_run_time_library_version_numbers :: capi_section where [api_sections]:
  "capi_run_time_library_version_numbers = \<lparr>sec_title =
     ''Run-Time Library Version Numbers'', sec_roles = [], sec_refs = [], sec_decls =
     [sqlite3_version, sqlite3_libversion, sqlite3_sourceid, sqlite3_libversion_number]\<rparr>"

definition capi_run_time_library_compilation_options_diagnostics :: capi_section where [api_sections]:
  "capi_run_time_library_compilation_options_diagnostics = \<lparr>sec_title =
     ''Run-Time Library Compilation Options Diagnostics'', sec_roles = [], sec_refs = [],
     sec_decls = [sqlite3_compileoption_used, sqlite3_compileoption_get]\<rparr>"

definition capi_test_to_see_if_the_library_is :: capi_section where [api_sections]:
  "capi_test_to_see_if_the_library_is = \<lparr>sec_title =
     ''Test To See If The Library Is Threadsafe'', sec_roles = [], sec_refs =
     [''sqlite3_config''], sec_decls = [sqlite3_threadsafe]\<rparr>"

definition capi_closing_a_database_connection :: capi_section where [api_sections]:
  "capi_closing_a_database_connection = \<lparr>sec_title = ''Closing A Database Connection'',
     sec_roles = [Destructor ''sqlite3''], sec_refs = [''sqlite3_open'', ''sqlite3_open16'',
     ''sqlite3_open_v2''], sec_decls = [sqlite3_close, sqlite3_close_v2]\<rparr>"

definition capi_one_step_query_execution_interface :: capi_section where [api_sections]:
  "capi_one_step_query_execution_interface = \<lparr>sec_title =
     ''One-Step Query Execution Interface'', sec_roles = [Method ''sqlite3''], sec_refs =
     [''sqlite3_prepare_v2'', ''sqlite3_step'', ''sqlite3_finalize'', ''sqlite3_malloc'',
     ''sqlite3_free'', ''sqlite3_column_text'', ''sqlite3_column_name''], sec_decls =
     [sqlite3_exec]\<rparr>"

definition capi_initialize_the_sqlite_library :: capi_section where [api_sections]:
  "capi_initialize_the_sqlite_library = \<lparr>sec_title = ''Initialize The SQLite Library'',
     sec_roles = [], sec_refs = [''sqlite3_open'', ''sqlite3_config''], sec_decls =
     [sqlite3_initialize, sqlite3_shutdown, sqlite3_os_init, sqlite3_os_end]\<rparr>"

definition capi_configuring_the_sqlite_library :: capi_section where [api_sections]:
  "capi_configuring_the_sqlite_library = \<lparr>sec_title = ''Configuring The SQLite Library'',
     sec_roles = [], sec_refs = [''sqlite3_initialize'', ''sqlite3_shutdown'',
     ''sqlite3_os_init''], sec_decls = [sqlite3_config]\<rparr>"

definition capi_configure_database_connections :: capi_section where [api_sections]:
  "capi_configure_database_connections = \<lparr>sec_title = ''Configure database connections'',
     sec_roles = [Method ''sqlite3''], sec_refs = [''sqlite3_config''], sec_decls =
     [sqlite3_db_config]\<rparr>"

definition capi_enable_or_disable_extended_result_codes :: capi_section where [api_sections]:
  "capi_enable_or_disable_extended_result_codes = \<lparr>sec_title =
     ''Enable Or Disable Extended Result Codes'', sec_roles = [Method ''sqlite3''], sec_refs = [],
     sec_decls = [sqlite3_extended_result_codes]\<rparr>"

definition capi_last_insert_rowid :: capi_section where [api_sections]:
  "capi_last_insert_rowid = \<lparr>sec_title = ''Last Insert Rowid'', sec_roles = [Method
     ''sqlite3''], sec_refs = [''sqlite3_set_last_insert_rowid'', ''sqlite3_last_insert_rowid''],
     sec_decls = [sqlite3_last_insert_rowid]\<rparr>"

definition capi_set_the_last_insert_rowid_value :: capi_section where [api_sections]:
  "capi_set_the_last_insert_rowid_value = \<lparr>sec_title =
     ''Set the Last Insert Rowid value.'', sec_roles = [Method ''sqlite3''], sec_refs = [],
     sec_decls = [sqlite3_set_last_insert_rowid]\<rparr>"

definition capi_count_the_number_of_rows_modified :: capi_section where [api_sections]:
  "capi_count_the_number_of_rows_modified = \<lparr>sec_title =
     ''Count The Number Of Rows Modified'', sec_roles = [Method ''sqlite3''], sec_refs =
     [''sqlite3_changes'', ''sqlite3_total_changes''], sec_decls = [sqlite3_changes,
     sqlite3_changes64]\<rparr>"

definition capi_total_number_of_rows_modified :: capi_section where [api_sections]:
  "capi_total_number_of_rows_modified = \<lparr>sec_title = ''Total Number Of Rows Modified'',
     sec_roles = [Method ''sqlite3''], sec_refs = [''sqlite3_total_changes'',
     ''sqlite3_changes''], sec_decls = [sqlite3_total_changes, sqlite3_total_changes64]\<rparr>"

definition capi_interrupt_a_long_running_query :: capi_section where [api_sections]:
  "capi_interrupt_a_long_running_query = \<lparr>sec_title = ''Interrupt A Long-Running Query'',
     sec_roles = [Method ''sqlite3''], sec_refs = [], sec_decls = [sqlite3_interrupt,
     sqlite3_is_interrupted]\<rparr>"

definition capi_determine_if_an_sql_statement_is_complete :: capi_section where [api_sections]:
  "capi_determine_if_an_sql_statement_is_complete = \<lparr>sec_title =
     ''Determine If An SQL Statement Is Complete'', sec_roles = [], sec_refs =
     [''sqlite3_initialize'', ''sqlite3_complete'', ''sqlite3_complete16''], sec_decls =
     [sqlite3_complete, sqlite3_complete16]\<rparr>"

definition capi_register_a_callback_to_handle_sqlite_busy :: capi_section where [api_sections]:
  "capi_register_a_callback_to_handle_sqlite_busy = \<lparr>sec_title =
     ''Register A Callback To Handle SQLITE_BUSY Errors'', sec_roles = [Method ''sqlite3''],
     sec_refs = [''sqlite3_busy_timeout''], sec_decls = [sqlite3_busy_handler]\<rparr>"

definition capi_set_a_busy_timeout :: capi_section where [api_sections]:
  "capi_set_a_busy_timeout = \<lparr>sec_title = ''Set A Busy Timeout'', sec_roles = [Method
     ''sqlite3''], sec_refs = [''sqlite3_step'', ''sqlite3_busy_handler''], sec_decls =
     [sqlite3_busy_timeout]\<rparr>"

definition capi_convenience_routines_for_running_queries :: capi_section where [api_sections]:
  "capi_convenience_routines_for_running_queries = \<lparr>sec_title =
     ''Convenience Routines For Running Queries'', sec_roles = [Method ''sqlite3''], sec_refs =
     [''sqlite3_get_table'', ''sqlite3_column_text'', ''sqlite3_free'', ''sqlite3_free_table'',
     ''sqlite3_malloc'', ''sqlite3_exec'', ''sqlite3_errcode'', ''sqlite3_errmsg''], sec_decls =
     [sqlite3_get_table, sqlite3_free_table]\<rparr>"

definition capi_formatted_string_printing_functions :: capi_section where [api_sections]:
  "capi_formatted_string_printing_functions = \<lparr>sec_title =
     ''Formatted String Printing Functions'', sec_roles = [], sec_refs = [''sqlite3_malloc64'',
     ''sqlite3_free''], sec_decls = [sqlite3_mprintf, sqlite3_vmprintf, sqlite3_snprintf,
     sqlite3_vsnprintf]\<rparr>"

definition capi_memory_allocation_subsystem :: capi_section where [api_sections]:
  "capi_memory_allocation_subsystem = \<lparr>sec_title = ''Memory Allocation Subsystem'',
     sec_roles = [], sec_refs = [''sqlite3_free'', ''sqlite3_realloc'', ''sqlite3_malloc''],
     sec_decls = [sqlite3_malloc, sqlite3_malloc64, sqlite3_realloc, sqlite3_realloc64,
     sqlite3_free, sqlite3_msize]\<rparr>"

definition capi_memory_allocator_statistics :: capi_section where [api_sections]:
  "capi_memory_allocator_statistics = \<lparr>sec_title = ''Memory Allocator Statistics'',
     sec_roles = [], sec_refs = [''sqlite3_malloc'', ''sqlite3_free'', ''sqlite3_realloc'',
     ''sqlite3_memory_used'', ''sqlite3_memory_highwater''], sec_decls = [sqlite3_memory_used,
     sqlite3_memory_highwater]\<rparr>"

definition capi_pseudo_random_number_generator :: capi_section where [api_sections]:
  "capi_pseudo_random_number_generator = \<lparr>sec_title = ''Pseudo-Random Number Generator'',
     sec_roles = [], sec_refs = [], sec_decls = [sqlite3_randomness]\<rparr>"

definition capi_compile_time_authorization_callbacks :: capi_section where [api_sections]:
  "capi_compile_time_authorization_callbacks = \<lparr>sec_title =
     ''Compile-Time Authorization Callbacks'', sec_roles = [Method ''sqlite3''], sec_refs =
     [''sqlite3_prepare'', ''sqlite3_prepare_v2'', ''sqlite3_prepare_v3'', ''sqlite3_prepare16'',
     ''sqlite3_prepare16_v2'', ''sqlite3_prepare16_v3'', ''sqlite3_limit'', ''sqlite3_step''],
     sec_decls = [sqlite3_set_authorizer]\<rparr>"

definition capi_deprecated_tracing_and_profiling_functions :: capi_section where [api_sections]:
  "capi_deprecated_tracing_and_profiling_functions = \<lparr>sec_title =
     ''Deprecated Tracing And Profiling Functions'', sec_roles = [], sec_refs =
     [''sqlite3_trace_v2'', ''sqlite3_step'', ''sqlite3_trace''], sec_decls = [sqlite3_trace,
     sqlite3_profile]\<rparr>"

definition capi_sql_trace_hook :: capi_section where [api_sections]:
  "capi_sql_trace_hook = \<lparr>sec_title = ''SQL Trace Hook'', sec_roles = [Method ''sqlite3''],
     sec_refs = [''sqlite3_trace'', ''sqlite3_profile''], sec_decls = [sqlite3_trace_v2]\<rparr>"

definition capi_query_progress_callbacks :: capi_section where [api_sections]:
  "capi_query_progress_callbacks = \<lparr>sec_title = ''Query Progress Callbacks'', sec_roles =
     [Method ''sqlite3''], sec_refs = [''sqlite3_step'', ''sqlite3_prepare'',
     ''sqlite3_prepare_v2''], sec_decls = [sqlite3_progress_handler]\<rparr>"

definition capi_opening_a_new_database_connection :: capi_section where [api_sections]:
  "capi_opening_a_new_database_connection = \<lparr>sec_title =
     ''Opening A New Database Connection'', sec_roles = [Constructor ''sqlite3''], sec_refs =
     [''sqlite3_errmsg'', ''sqlite3_errmsg16'', ''sqlite3_close'', ''sqlite3_db_readonly'',
     ''sqlite3_enable_shared_cache'', ''sqlite3_open_v2'', ''sqlite3_config''], sec_decls =
     [sqlite3_open, sqlite3_open16, sqlite3_open_v2]\<rparr>"

definition capi_obtain_values_for_uri_parameters :: capi_section where [api_sections]:
  "capi_obtain_values_for_uri_parameters = \<lparr>sec_title =
     ''Obtain Values For URI Parameters'', sec_roles = [], sec_refs = [''sqlite3_db_filename'',
     ''sqlite3_create_filename''], sec_decls = [sqlite3_uri_parameter, sqlite3_uri_boolean,
     sqlite3_uri_int64, sqlite3_uri_key]\<rparr>"

definition capi_translate_filenames :: capi_section where [api_sections]:
  "capi_translate_filenames = \<lparr>sec_title = ''Translate filenames'', sec_roles = [],
     sec_refs = [''sqlite3_db_filename''], sec_decls = [sqlite3_filename_database,
     sqlite3_filename_journal, sqlite3_filename_wal]\<rparr>"

definition capi_database_file_corresponding_to_a_journal :: capi_section where [api_sections]:
  "capi_database_file_corresponding_to_a_journal = \<lparr>sec_title =
     ''Database File Corresponding To A Journal'', sec_roles = [], sec_refs = [], sec_decls =
     [sqlite3_database_file_object]\<rparr>"

definition capi_create_and_destroy_vfs_filenames :: capi_section where [api_sections]:
  "capi_create_and_destroy_vfs_filenames = \<lparr>sec_title =
     ''Create and Destroy VFS Filenames'', sec_roles = [], sec_refs = [''sqlite3_uri_parameter'',
     ''sqlite3_uri_boolean'', ''sqlite3_uri_int64'', ''sqlite3_uri_key'',
     ''sqlite3_filename_database'', ''sqlite3_filename_journal'', ''sqlite3_filename_wal''],
     sec_decls = [sqlite3_create_filename, sqlite3_free_filename]\<rparr>"

definition capi_error_codes_and_messages :: capi_section where [api_sections]:
  "capi_error_codes_and_messages = \<lparr>sec_title = ''Error Codes And Messages'', sec_roles =
     [Method ''sqlite3''], sec_refs = [], sec_decls = [sqlite3_errcode, sqlite3_extended_errcode,
     sqlite3_errmsg, sqlite3_errmsg16, sqlite3_errstr, sqlite3_error_offset]\<rparr>"

definition capi_run_time_limits :: capi_section where [api_sections]:
  "capi_run_time_limits = \<lparr>sec_title = ''Run-time Limits'', sec_roles = [Method
     ''sqlite3''], sec_refs = [''sqlite3_limit'', ''sqlite3_set_authorizer''], sec_decls =
     [sqlite3_limit]\<rparr>"

definition capi_compiling_an_sql_statement :: capi_section where [api_sections]:
  "capi_compiling_an_sql_statement = \<lparr>sec_title = ''Compiling An SQL Statement'', sec_roles
     = [Method ''sqlite3'', Constructor ''sqlite3_stmt''], sec_refs = [''sqlite3_prepare_v2'',
     ''sqlite3_prepare'', ''sqlite3_prepare_v3'', ''sqlite3_open'', ''sqlite3_open_v2'',
     ''sqlite3_open16'', ''sqlite3_step'', ''sqlite3_finalize'', ''sqlite3_reset''], sec_decls =
     [sqlite3_prepare, sqlite3_prepare_v2, sqlite3_prepare_v3, sqlite3_prepare16,
     sqlite3_prepare16_v2, sqlite3_prepare16_v3]\<rparr>"

definition capi_retrieving_statement_sql :: capi_section where [api_sections]:
  "capi_retrieving_statement_sql = \<lparr>sec_title = ''Retrieving Statement SQL'', sec_roles =
     [Method ''sqlite3_stmt''], sec_refs = [''sqlite3_prepare_v2'', ''sqlite3_prepare_v3'',
     ''sqlite3_prepare16_v2'', ''sqlite3_prepare16_v3'', ''sqlite3_malloc'', ''sqlite3_free''],
     sec_decls = [sqlite3_sql, sqlite3_expanded_sql, sqlite3_normalized_sql]\<rparr>"

definition capi_determine_if_an_sql_statement_writes_the :: capi_section where [api_sections]:
  "capi_determine_if_an_sql_statement_writes_the = \<lparr>sec_title =
     ''Determine If An SQL Statement Writes The Database'', sec_roles = [Method ''sqlite3_stmt''],
     sec_refs = [''sqlite3_exec''], sec_decls = [sqlite3_stmt_readonly]\<rparr>"

definition capi_query_the_explain_setting_for_a_prepared :: capi_section where [api_sections]:
  "capi_query_the_explain_setting_for_a_prepared = \<lparr>sec_title =
     ''Query The EXPLAIN Setting For A Prepared Statement'', sec_roles = [Method
     ''sqlite3_stmt''], sec_refs = [], sec_decls = [sqlite3_stmt_isexplain]\<rparr>"

definition capi_change_the_explain_setting_for_a_prepared :: capi_section where [api_sections]:
  "capi_change_the_explain_setting_for_a_prepared = \<lparr>sec_title =
     ''Change The EXPLAIN Setting For A Prepared Statement'', sec_roles = [Method
     ''sqlite3_stmt''], sec_refs = [''sqlite3_prepare'', ''sqlite3_prepare_v2'',
     ''sqlite3_prepare_v3''], sec_decls = [sqlite3_stmt_explain]\<rparr>"

definition capi_determine_if_a_prepared_statement_has_been :: capi_section where [api_sections]:
  "capi_determine_if_a_prepared_statement_has_been = \<lparr>sec_title =
     ''Determine If A Prepared Statement Has Been Reset'', sec_roles = [Method ''sqlite3_stmt''],
     sec_refs = [''sqlite3_next_stmt''], sec_decls = [sqlite3_stmt_busy]\<rparr>"

definition capi_binding_values_to_prepared_statements :: capi_section where [api_sections]:
  "capi_binding_values_to_prepared_statements = \<lparr>sec_title =
     ''Binding Values To Prepared Statements'', sec_roles = [Method ''sqlite3_stmt''], sec_refs =
     [''sqlite3_prepare_v2'', ''sqlite3_bind_parameter_index'', ''sqlite3_limit'',
     ''sqlite3_step'', ''sqlite3_reset'', ''sqlite3_bind_parameter_count'',
     ''sqlite3_bind_parameter_name''], sec_decls = [sqlite3_bind_blob, sqlite3_bind_blob64,
     sqlite3_bind_double, sqlite3_bind_int, sqlite3_bind_int64, sqlite3_bind_null,
     sqlite3_bind_text, sqlite3_bind_text16, sqlite3_bind_text64, sqlite3_bind_value,
     sqlite3_bind_pointer, sqlite3_bind_zeroblob, sqlite3_bind_zeroblob64]\<rparr>"

definition capi_number_of_sql_parameters :: capi_section where [api_sections]:
  "capi_number_of_sql_parameters = \<lparr>sec_title = ''Number Of SQL Parameters'', sec_roles =
     [Method ''sqlite3_stmt''], sec_refs = [''sqlite3_bind_parameter_name'',
     ''sqlite3_bind_parameter_index''], sec_decls = [sqlite3_bind_parameter_count]\<rparr>"

definition capi_name_of_a_host_parameter :: capi_section where [api_sections]:
  "capi_name_of_a_host_parameter = \<lparr>sec_title = ''Name Of A Host Parameter'', sec_roles =
     [Method ''sqlite3_stmt''], sec_refs = [''sqlite3_prepare16'', ''sqlite3_prepare16_v2'',
     ''sqlite3_prepare16_v3'', ''sqlite3_bind_parameter_count'',
     ''sqlite3_bind_parameter_index''], sec_decls = [sqlite3_bind_parameter_name]\<rparr>"

definition capi_index_of_a_parameter_with_a_given :: capi_section where [api_sections]:
  "capi_index_of_a_parameter_with_a_given = \<lparr>sec_title =
     ''Index Of A Parameter With A Given Name'', sec_roles = [Method ''sqlite3_stmt''], sec_refs =
     [''sqlite3_prepare16_v2'', ''sqlite3_prepare16_v3'', ''sqlite3_bind_parameter_count'',
     ''sqlite3_bind_parameter_name''], sec_decls = [sqlite3_bind_parameter_index]\<rparr>"

definition capi_reset_all_bindings_on_a_prepared_statement :: capi_section where [api_sections]:
  "capi_reset_all_bindings_on_a_prepared_statement = \<lparr>sec_title =
     ''Reset All Bindings On A Prepared Statement'', sec_roles = [Method ''sqlite3_stmt''],
     sec_refs = [''sqlite3_reset''], sec_decls = [sqlite3_clear_bindings]\<rparr>"

definition capi_number_of_columns_in_a_result_set :: capi_section where [api_sections]:
  "capi_number_of_columns_in_a_result_set = \<lparr>sec_title =
     ''Number Of Columns In A Result Set'', sec_roles = [Method ''sqlite3_stmt''], sec_refs =
     [''sqlite3_data_count''], sec_decls = [sqlite3_column_count]\<rparr>"

definition capi_column_names_in_a_result_set :: capi_section where [api_sections]:
  "capi_column_names_in_a_result_set = \<lparr>sec_title = ''Column Names In A Result Set'',
     sec_roles = [Method ''sqlite3_stmt''], sec_refs = [''sqlite3_finalize'', ''sqlite3_step''],
     sec_decls = [sqlite3_column_name, sqlite3_column_name16]\<rparr>"

definition capi_source_of_data_in_a_query_result :: capi_section where [api_sections]:
  "capi_source_of_data_in_a_query_result = \<lparr>sec_title =
     ''Source Of Data In A Query Result'', sec_roles = [Method ''sqlite3_stmt''], sec_refs =
     [''sqlite3_finalize'', ''sqlite3_step''], sec_decls = [sqlite3_column_database_name,
     sqlite3_column_database_name16, sqlite3_column_table_name, sqlite3_column_table_name16,
     sqlite3_column_origin_name, sqlite3_column_origin_name16]\<rparr>"

definition capi_declared_datatype_of_a_query_result :: capi_section where [api_sections]:
  "capi_declared_datatype_of_a_query_result = \<lparr>sec_title =
     ''Declared Datatype Of A Query Result'', sec_roles = [Method ''sqlite3_stmt''], sec_refs =
     [], sec_decls = [sqlite3_column_decltype, sqlite3_column_decltype16]\<rparr>"

definition capi_evaluate_an_sql_statement :: capi_section where [api_sections]:
  "capi_evaluate_an_sql_statement = \<lparr>sec_title = ''Evaluate An SQL Statement'', sec_roles =
     [Method ''sqlite3_stmt''], sec_refs = [''sqlite3_prepare_v2'', ''sqlite3_prepare_v3'',
     ''sqlite3_prepare16_v2'', ''sqlite3_prepare16_v3'', ''sqlite3_prepare'',
     ''sqlite3_prepare16'', ''sqlite3_reset'', ''sqlite3_errmsg'', ''sqlite3_finalize''],
     sec_decls = [sqlite3_step]\<rparr>"

definition capi_number_of_columns_in_a_result_set_2 :: capi_section where [api_sections]:
  "capi_number_of_columns_in_a_result_set_2 = \<lparr>sec_title =
     ''Number of columns in a result set'', sec_roles = [Method ''sqlite3_stmt''], sec_refs =
     [''sqlite3_column_count''], sec_decls = [sqlite3_data_count]\<rparr>"

definition capi_result_values_from_a_query :: capi_section where [api_sections]:
  "capi_result_values_from_a_query = \<lparr>sec_title = ''Result Values From A Query'', sec_roles
     = [Method ''sqlite3_stmt''], sec_refs = [''sqlite3_prepare_v2'', ''sqlite3_column_count'',
     ''sqlite3_step'', ''sqlite3_reset'', ''sqlite3_finalize'', ''sqlite3_snprintf'',
     ''sqlite3_column_bytes'', ''sqlite3_column_bytes16'', ''sqlite3_column_value'',
     ''sqlite3_bind_value'', ''sqlite3_result_value'', ''sqlite3_value_int'',
     ''sqlite3_value_text'', ''sqlite3_value_bytes'', ''sqlite3_column_blob'',
     ''sqlite3_column_text'', ''sqlite3_free'', ''sqlite3_errcode''], sec_decls =
     [sqlite3_column_blob, sqlite3_column_double, sqlite3_column_int, sqlite3_column_int64,
     sqlite3_column_text, sqlite3_column_text16, sqlite3_column_value, sqlite3_column_bytes,
     sqlite3_column_bytes16, sqlite3_column_type]\<rparr>"

definition capi_destroy_a_prepared_statement_object :: capi_section where [api_sections]:
  "capi_destroy_a_prepared_statement_object = \<lparr>sec_title =
     ''Destroy A Prepared Statement Object'', sec_roles = [Destructor ''sqlite3_stmt''], sec_refs
     = [''sqlite3_reset'', ''sqlite3_step''], sec_decls = [sqlite3_finalize]\<rparr>"

definition capi_reset_a_prepared_statement_object :: capi_section where [api_sections]:
  "capi_reset_a_prepared_statement_object = \<lparr>sec_title =
     ''Reset A Prepared Statement Object'', sec_roles = [Method ''sqlite3_stmt''], sec_refs =
     [''sqlite3_clear_bindings''], sec_decls = [sqlite3_reset]\<rparr>"

definition capi_create_or_redefine_sql_functions :: capi_section where [api_sections]:
  "capi_create_or_redefine_sql_functions = \<lparr>sec_title =
     ''Create Or Redefine SQL Functions'', sec_roles = [Method ''sqlite3''], sec_refs =
     [''sqlite3_value_text16le'', ''sqlite3_value_text16be'', ''sqlite3_value_text16'',
     ''sqlite3_user_data''], sec_decls = [sqlite3_create_function, sqlite3_create_function16,
     sqlite3_create_function_v2, sqlite3_create_window_function]\<rparr>"

definition capi_deprecated_functions :: capi_section where [api_sections]:
  "capi_deprecated_functions = \<lparr>sec_title = ''Deprecated Functions'', sec_roles = [],
     sec_refs = [], sec_decls = [sqlite3_aggregate_count, sqlite3_expired,
     sqlite3_transfer_bindings, sqlite3_global_recover, sqlite3_thread_cleanup,
     sqlite3_memory_alarm]\<rparr>"

definition capi_obtaining_sql_values :: capi_section where [api_sections]:
  "capi_obtaining_sql_values = \<lparr>sec_title = ''Obtaining SQL Values'', sec_roles = [Method
     ''sqlite3_value''], sec_refs = [''sqlite3_vtab_nochange'', ''sqlite3_value_blob'',
     ''sqlite3_value_text'', ''sqlite3_value_text16'', ''sqlite3_value_bytes'',
     ''sqlite3_value_bytes16'', ''sqlite3_errcode''], sec_decls = [sqlite3_value_blob,
     sqlite3_value_double, sqlite3_value_int, sqlite3_value_int64, sqlite3_value_pointer,
     sqlite3_value_text, sqlite3_value_text16, sqlite3_value_text16le, sqlite3_value_text16be,
     sqlite3_value_bytes, sqlite3_value_bytes16, sqlite3_value_type, sqlite3_value_numeric_type,
     sqlite3_value_nochange, sqlite3_value_frombind]\<rparr>"

definition capi_report_the_internal_text_encoding_state_of :: capi_section where [api_sections]:
  "capi_report_the_internal_text_encoding_state_of = \<lparr>sec_title =
     ''Report the internal text encoding state of an sqlite3_value object'', sec_roles = [Method
     ''sqlite3_value''], sec_refs = [], sec_decls = [sqlite3_value_encoding]\<rparr>"

definition capi_finding_the_subtype_of_sql_values :: capi_section where [api_sections]:
  "capi_finding_the_subtype_of_sql_values = \<lparr>sec_title =
     ''Finding The Subtype Of SQL Values'', sec_roles = [Method ''sqlite3_value''], sec_refs =
     [''sqlite3_result_subtype''], sec_decls = [sqlite3_value_subtype]\<rparr>"

definition capi_copy_and_free_sql_values :: capi_section where [api_sections]:
  "capi_copy_and_free_sql_values = \<lparr>sec_title = ''Copy And Free SQL Values'', sec_roles =
     [Method ''sqlite3_value''], sec_refs = [''sqlite3_value_dup''], sec_decls =
     [sqlite3_value_dup, sqlite3_value_free]\<rparr>"

definition capi_obtain_aggregate_function_context :: capi_section where [api_sections]:
  "capi_obtain_aggregate_function_context = \<lparr>sec_title =
     ''Obtain Aggregate Function Context'', sec_roles = [Method ''sqlite3_context''], sec_refs =
     [], sec_decls = [sqlite3_aggregate_context]\<rparr>"

definition capi_user_data_for_functions :: capi_section where [api_sections]:
  "capi_user_data_for_functions = \<lparr>sec_title = ''User Data For Functions'', sec_roles =
     [Method ''sqlite3_context''], sec_refs = [''sqlite3_create_function'',
     ''sqlite3_create_function16''], sec_decls = [sqlite3_user_data]\<rparr>"

definition capi_database_connection_for_functions :: capi_section where [api_sections]:
  "capi_database_connection_for_functions = \<lparr>sec_title =
     ''Database Connection For Functions'', sec_roles = [Method ''sqlite3_context''], sec_refs =
     [''sqlite3_create_function'', ''sqlite3_create_function16''], sec_decls =
     [sqlite3_context_db_handle]\<rparr>"

definition sections1 :: "capi_section list" where
  "sections1 = [capi_run_time_library_version_numbers,
     capi_run_time_library_compilation_options_diagnostics, capi_test_to_see_if_the_library_is,
     capi_closing_a_database_connection, capi_one_step_query_execution_interface,
     capi_initialize_the_sqlite_library, capi_configuring_the_sqlite_library,
     capi_configure_database_connections, capi_enable_or_disable_extended_result_codes,
     capi_last_insert_rowid, capi_set_the_last_insert_rowid_value,
     capi_count_the_number_of_rows_modified, capi_total_number_of_rows_modified,
     capi_interrupt_a_long_running_query, capi_determine_if_an_sql_statement_is_complete,
     capi_register_a_callback_to_handle_sqlite_busy, capi_set_a_busy_timeout,
     capi_convenience_routines_for_running_queries, capi_formatted_string_printing_functions,
     capi_memory_allocation_subsystem, capi_memory_allocator_statistics,
     capi_pseudo_random_number_generator, capi_compile_time_authorization_callbacks,
     capi_deprecated_tracing_and_profiling_functions, capi_sql_trace_hook,
     capi_query_progress_callbacks, capi_opening_a_new_database_connection,
     capi_obtain_values_for_uri_parameters, capi_translate_filenames,
     capi_database_file_corresponding_to_a_journal, capi_create_and_destroy_vfs_filenames,
     capi_error_codes_and_messages, capi_run_time_limits, capi_compiling_an_sql_statement,
     capi_retrieving_statement_sql, capi_determine_if_an_sql_statement_writes_the,
     capi_query_the_explain_setting_for_a_prepared,
     capi_change_the_explain_setting_for_a_prepared,
     capi_determine_if_a_prepared_statement_has_been, capi_binding_values_to_prepared_statements,
     capi_number_of_sql_parameters, capi_name_of_a_host_parameter,
     capi_index_of_a_parameter_with_a_given, capi_reset_all_bindings_on_a_prepared_statement,
     capi_number_of_columns_in_a_result_set, capi_column_names_in_a_result_set,
     capi_source_of_data_in_a_query_result, capi_declared_datatype_of_a_query_result,
     capi_evaluate_an_sql_statement, capi_number_of_columns_in_a_result_set_2,
     capi_result_values_from_a_query, capi_destroy_a_prepared_statement_object,
     capi_reset_a_prepared_statement_object, capi_create_or_redefine_sql_functions,
     capi_deprecated_functions, capi_obtaining_sql_values,
     capi_report_the_internal_text_encoding_state_of, capi_finding_the_subtype_of_sql_values,
     capi_copy_and_free_sql_values, capi_obtain_aggregate_function_context,
     capi_user_data_for_functions, capi_database_connection_for_functions]"

lemma sections1_violations:
  "concat (map violations sections1) = [''sqlite3_free_table'', ''sqlite3_errstr'']"
  by (simp add: sections1_def api_sections violations_def api_decls)

text \<open>The declarations the texts of this part refer to, in order.\<close>

definition refs1 :: "decl list" where
  "refs1 = [sqlite3_config, sqlite3_open, sqlite3_open16, sqlite3_open_v2, sqlite3_prepare_v2,
     sqlite3_step, sqlite3_finalize, sqlite3_malloc, sqlite3_free, sqlite3_column_text,
     sqlite3_column_name, sqlite3_open, sqlite3_config, sqlite3_initialize, sqlite3_shutdown,
     sqlite3_os_init, sqlite3_config, sqlite3_set_last_insert_rowid, sqlite3_last_insert_rowid,
     sqlite3_changes, sqlite3_total_changes, sqlite3_total_changes, sqlite3_changes,
     sqlite3_initialize, sqlite3_complete, sqlite3_complete16, sqlite3_busy_timeout, sqlite3_step,
     sqlite3_busy_handler, sqlite3_get_table, sqlite3_column_text, sqlite3_free,
     sqlite3_free_table, sqlite3_malloc, sqlite3_exec, sqlite3_errcode, sqlite3_errmsg,
     sqlite3_malloc64, sqlite3_free, sqlite3_free, sqlite3_realloc, sqlite3_malloc,
     sqlite3_malloc, sqlite3_free, sqlite3_realloc, sqlite3_memory_used, sqlite3_memory_highwater,
     sqlite3_prepare, sqlite3_prepare_v2, sqlite3_prepare_v3, sqlite3_prepare16,
     sqlite3_prepare16_v2, sqlite3_prepare16_v3, sqlite3_limit, sqlite3_step, sqlite3_trace_v2,
     sqlite3_step, sqlite3_trace, sqlite3_trace, sqlite3_profile, sqlite3_step, sqlite3_prepare,
     sqlite3_prepare_v2, sqlite3_errmsg, sqlite3_errmsg16, sqlite3_close, sqlite3_db_readonly,
     sqlite3_enable_shared_cache, sqlite3_open_v2, sqlite3_config, sqlite3_db_filename,
     sqlite3_create_filename, sqlite3_db_filename, sqlite3_uri_parameter, sqlite3_uri_boolean,
     sqlite3_uri_int64, sqlite3_uri_key, sqlite3_filename_database, sqlite3_filename_journal,
     sqlite3_filename_wal, sqlite3_limit, sqlite3_set_authorizer, sqlite3_prepare_v2,
     sqlite3_prepare, sqlite3_prepare_v3, sqlite3_open, sqlite3_open_v2, sqlite3_open16,
     sqlite3_step, sqlite3_finalize, sqlite3_reset, sqlite3_prepare_v2, sqlite3_prepare_v3,
     sqlite3_prepare16_v2, sqlite3_prepare16_v3, sqlite3_malloc, sqlite3_free, sqlite3_exec,
     sqlite3_prepare, sqlite3_prepare_v2, sqlite3_prepare_v3, sqlite3_next_stmt,
     sqlite3_prepare_v2, sqlite3_bind_parameter_index, sqlite3_limit, sqlite3_step, sqlite3_reset,
     sqlite3_bind_parameter_count, sqlite3_bind_parameter_name, sqlite3_bind_parameter_name,
     sqlite3_bind_parameter_index, sqlite3_prepare16, sqlite3_prepare16_v2, sqlite3_prepare16_v3,
     sqlite3_bind_parameter_count, sqlite3_bind_parameter_index, sqlite3_prepare16_v2,
     sqlite3_prepare16_v3, sqlite3_bind_parameter_count, sqlite3_bind_parameter_name,
     sqlite3_reset, sqlite3_data_count, sqlite3_finalize, sqlite3_step, sqlite3_finalize,
     sqlite3_step, sqlite3_prepare_v2, sqlite3_prepare_v3, sqlite3_prepare16_v2,
     sqlite3_prepare16_v3, sqlite3_prepare, sqlite3_prepare16, sqlite3_reset, sqlite3_errmsg,
     sqlite3_finalize, sqlite3_column_count, sqlite3_prepare_v2, sqlite3_column_count,
     sqlite3_step, sqlite3_reset, sqlite3_finalize, sqlite3_snprintf, sqlite3_column_bytes,
     sqlite3_column_bytes16, sqlite3_column_value, sqlite3_bind_value, sqlite3_result_value,
     sqlite3_value_int, sqlite3_value_text, sqlite3_value_bytes, sqlite3_column_blob,
     sqlite3_column_text, sqlite3_free, sqlite3_errcode, sqlite3_reset, sqlite3_step,
     sqlite3_clear_bindings, sqlite3_value_text16le, sqlite3_value_text16be, sqlite3_value_text16,
     sqlite3_user_data, sqlite3_vtab_nochange, sqlite3_value_blob, sqlite3_value_text,
     sqlite3_value_text16, sqlite3_value_bytes, sqlite3_value_bytes16, sqlite3_errcode,
     sqlite3_result_subtype, sqlite3_value_dup, sqlite3_create_function,
     sqlite3_create_function16, sqlite3_create_function, sqlite3_create_function16]"

lemma sections1_refs: "concat (map sec_refs sections1) = map decl_name refs1"
  by (simp add: sections1_def api_sections refs1_def api_decls)

lemma refs1_declared: "set refs1 \<subseteq> set api1 \<union> set api2 \<union> set api3 \<union> set api4"
  by (simp add: refs1_def api1_def api2_def api3_def api4_def)

end
