(* ===== verification/HeaderDoc2.thy ===== *)
theory HeaderDoc2
  imports HeaderApi1 HeaderApi2 HeaderApi3 HeaderApi4
begin

text \<open>
  The documented sections of \<^verbatim>\<open>sqlite3.h\<close> that declare functions, part 2: title, role tags, the
  functions the text refers to, and the declarations, in the order of the header.
\<close>

definition capi_function_auxiliary_data :: capi_section where [api_sections]:
  "capi_function_auxiliary_data = \<lparr>sec_title = ''Function Auxiliary Data'', sec_roles =
     [Method ''sqlite3_context''], sec_refs = [''sqlite3_reset'', ''sqlite3_finalize'',
     ''sqlite3_get_clientdata'', ''sqlite3_set_clientdata''], sec_decls = [sqlite3_get_auxdata,
     sqlite3_set_auxdata]\<rparr>"

definition capi_database_connection_client_data :: capi_section where [api_sections]:
  "capi_database_connection_client_data = \<lparr>sec_title = ''Database Connection Client Data'',
     sec_roles = [Method ''sqlite3''], sec_refs = [''sqlite3_set_auxdata'',
     ''sqlite3_get_auxdata''], sec_decls = [sqlite3_get_clientdata,
     sqlite3_set_clientdata]\<rparr>"

definition capi_setting_the_result_of_an_sql_function :: capi_section where [api_sections]:
  "capi_setting_the_result_of_an_sql_function = \<lparr>sec_title =
     ''Setting The Result Of An SQL Function'', sec_roles = [Method ''sqlite3_context''], sec_refs
     = [''sqlite3_create_function'', ''sqlite3_create_function16'', ''sqlite3_bind_text16'',
     ''sqlite3_malloc'', ''sqlite3_value_pointer''], sec_decls = [sqlite3_result_blob,
     sqlite3_result_blob64, sqlite3_result_double, sqlite3_result_error, sqlite3_result_error16,
     sqlite3_result_error_toobig, sqlite3_result_error_nomem, sqlite3_result_error_code,
     sqlite3_result_int, sqlite3_result_int64, sqlite3_result_null, sqlite3_result_text,
     sqlite3_result_text64, sqlite3_result_text16, sqlite3_result_text16le,
     sqlite3_result_text16be, sqlite3_result_value, sqlite3_result_pointer,
     sqlite3_result_zeroblob, sqlite3_result_zeroblob64]\<rparr>"

definition capi_setting_the_subtype_of_an_sql_function :: capi_section where [api_sections]:
  "capi_setting_the_subtype_of_an_sql_function = \<lparr>sec_title =
     ''Setting The Subtype Of An SQL Function'', sec_roles = [Method ''sqlite3_context''],
     sec_refs = [], sec_decls = [sqlite3_result_subtype]\<rparr>"

definition capi_define_new_collating_sequences :: capi_section where [api_sections]:
  "capi_define_new_collating_sequences = \<lparr>sec_title = ''Define New Collating Sequences'',
     sec_roles = [Method ''sqlite3''], sec_refs = [''sqlite3_strnicmp'', ''sqlite3_close'',
     ''sqlite3_collation_needed'', ''sqlite3_collation_needed16''], sec_decls =
     [sqlite3_create_collation, sqlite3_create_collation_v2, sqlite3_create_collation16]\<rparr>"

definition capi_collation_needed_callbacks :: capi_section where [api_sections]:
  "capi_collation_needed_callbacks = \<lparr>sec_title = ''Collation Needed Callbacks'', sec_roles
     = [Method ''sqlite3''], sec_refs = [''sqlite3_create_collation'',
     ''sqlite3_create_collation16'', ''sqlite3_create_collation_v2''], sec_decls =
     [sqlite3_collation_needed, sqlite3_collation_needed16, sqlite3_activate_cerod]\<rparr>"

definition capi_suspend_execution_for_a_short_time :: capi_section where [api_sections]:
  "capi_suspend_execution_for_a_short_time = \<lparr>sec_title =
     ''Suspend Execution For A Short Time'', sec_roles = [], sec_refs = [], sec_decls =
     [sqlite3_sleep]\<rparr>"

definition capi_name_of_the_folder_holding_temporary_files :: capi_section where [api_sections]:
  "capi_name_of_the_folder_holding_temporary_files = \<lparr>sec_title =
     ''Name Of The Folder Holding Temporary Files'', sec_roles = [], sec_refs = [], sec_decls =
     [sqlite3_temp_directory]\<rparr>"

definition capi_name_of_the_folder_holding_database_files :: capi_section where [api_sections]:
  "capi_name_of_the_folder_holding_database_files = \<lparr>sec_title =
     ''Name Of The Folder Holding Database Files'', sec_roles = [], sec_refs = [], sec_decls =
     [sqlite3_data_directory]\<rparr>"

definition capi_win32_specific_interface :: capi_section where [api_sections]:
  "capi_win32_specific_interface = \<lparr>sec_title = ''Win32 Specific Interface'', sec_roles =
     [], sec_refs = [], sec_decls = [sqlite3_win32_set_directory, sqlite3_win32_set_directory8,
     sqlite3_win32_set_directory16]\<rparr>"

definition capi_test_for_auto_commit_mode :: capi_section where [api_sections]:
  "capi_test_for_auto_commit_mode = \<lparr>sec_title = ''Test For Auto-Commit Mode'', sec_roles =
     [Method ''sqlite3''], sec_refs = [], sec_decls = [sqlite3_get_autocommit]\<rparr>"

definition capi_find_the_database_handle_of_a_prepared :: capi_section where [api_sections]:
  "capi_find_the_database_handle_of_a_prepared = \<lparr>sec_title =
     ''Find The Database Handle Of A Prepared Statement'', sec_roles = [Method ''sqlite3_stmt''],
     sec_refs = [''sqlite3_prepare_v2''], sec_decls = [sqlite3_db_handle]\<rparr>"

definition capi_return_the_schema_name_for_a_database :: capi_section where [api_sections]:
  "capi_return_the_schema_name_for_a_database = \<lparr>sec_title =
     ''Return The Schema Name For A Database Connection'', sec_roles = [Method ''sqlite3''],
     sec_refs = [''sqlite3_serialize'', ''sqlite3_deserialize''], sec_decls =
     [sqlite3_db_name]\<rparr>"

definition capi_return_the_filename_for_a_database_connection :: capi_section where [api_sections]:
  "capi_return_the_filename_for_a_database_connection = \<lparr>sec_title =
     ''Return The Filename For A Database Connection'', sec_roles = [Method ''sqlite3''], sec_refs
     = [''sqlite3_uri_parameter'', ''sqlite3_uri_boolean'', ''sqlite3_uri_int64'',
     ''sqlite3_filename_database'', ''sqlite3_filename_journal'', ''sqlite3_filename_wal''],
     sec_decls = [sqlite3_db_filename]\<rparr>"

definition capi_determine_if_a_database_is_read_only :: capi_section where [api_sections]:
  "capi_determine_if_a_database_is_read_only = \<lparr>sec_title =
     ''Determine if a database is read-only'', sec_roles = [Method ''sqlite3''], sec_refs = [],
     sec_decls = [sqlite3_db_readonly]\<rparr>"

definition capi_determine_the_transaction_state_of_a_database :: capi_section where [api_sections]:
  "capi_determine_the_transaction_state_of_a_database = \<lparr>sec_title =
     ''Determine the transaction state of a database'', sec_roles = [Method ''sqlite3''], sec_refs
     = [], sec_decls = [sqlite3_txn_state]\<rparr>"

definition capi_find_the_next_prepared_statement :: capi_section where [api_sections]:
  "capi_find_the_next_prepared_statement = \<lparr>sec_title =
     ''Find the next prepared statement'', sec_roles = [Method ''sqlite3''], sec_refs = [],
     sec_decls = [sqlite3_next_stmt]\<rparr>"

definition capi_commit_and_rollback_notification_callbacks :: capi_section where [api_sections]:
  "capi_commit_and_rollback_notification_callbacks = \<lparr>sec_title =
     ''Commit And Rollback Notification Callbacks'', sec_roles = [Method ''sqlite3''], sec_refs =
     [''sqlite3_step'', ''sqlite3_prepare_v2'', ''sqlite3_update_hook''], sec_decls =
     [sqlite3_commit_hook, sqlite3_rollback_hook]\<rparr>"

definition capi_autovacuum_compaction_amount_callback :: capi_section where [api_sections]:
  "capi_autovacuum_compaction_amount_callback = \<lparr>sec_title =
     ''Autovacuum Compaction Amount Callback'', sec_roles = [Method ''sqlite3''], sec_refs = [],
     sec_decls = [sqlite3_autovacuum_pages]\<rparr>"

definition capi_data_change_notification_callbacks :: capi_section where [api_sections]:
  "capi_data_change_notification_callbacks = \<lparr>sec_title =
     ''Data Change Notification Callbacks'', sec_roles = [Method ''sqlite3''], sec_refs =
     [''sqlite3_step'', ''sqlite3_prepare_v2'', ''sqlite3_commit_hook'',
     ''sqlite3_rollback_hook'', ''sqlite3_preupdate_hook''], sec_decls =
     [sqlite3_update_hook]\<rparr>"

definition capi_enable_or_disable_shared_pager_cache :: capi_section where [api_sections]:
  "capi_enable_or_disable_shared_pager_cache = \<lparr>sec_title =
     ''Enable Or Disable Shared Pager Cache'', sec_roles = [], sec_refs = [''sqlite3_open'',
     ''sqlite3_open_v2'', ''sqlite3_open16''], sec_decls = [sqlite3_enable_shared_cache]\<rparr>"

definition capi_attempt_to_free_heap_memory :: capi_section where [api_sections]:
  "capi_attempt_to_free_heap_memory = \<lparr>sec_title = ''Attempt To Free Heap Memory'',
     sec_roles = [], sec_refs = [''sqlite3_db_release_memory''], sec_decls =
     [sqlite3_release_memory]\<rparr>"

definition capi_free_memory_used_by_a_database_connection :: capi_section where [api_sections]:
  "capi_free_memory_used_by_a_database_connection = \<lparr>sec_title =
     ''Free Memory Used By A Database Connection'', sec_roles = [Method ''sqlite3''], sec_refs =
     [''sqlite3_release_memory''], sec_decls = [sqlite3_db_release_memory]\<rparr>"

definition capi_impose_a_limit_on_heap_size :: capi_section where [api_sections]:
  "capi_impose_a_limit_on_heap_size = \<lparr>sec_title = ''Impose A Limit On Heap Size'',
     sec_roles = [], sec_refs = [], sec_decls = [sqlite3_soft_heap_limit64,
     sqlite3_hard_heap_limit64]\<rparr>"

definition capi_deprecated_soft_heap_limit_interface :: capi_section where [api_sections]:
  "capi_deprecated_soft_heap_limit_interface = \<lparr>sec_title =
     ''Deprecated Soft Heap Limit Interface'', sec_roles = [], sec_refs =
     [''sqlite3_soft_heap_limit64''], sec_decls = [sqlite3_soft_heap_limit]\<rparr>"

definition capi_extract_metadata_about_a_column_of_a :: capi_section where [api_sections]:
  "capi_extract_metadata_about_a_column_of_a = \<lparr>sec_title =
     ''Extract Metadata About A Column Of A Table'', sec_roles = [Method ''sqlite3''], sec_refs =
     [], sec_decls = [sqlite3_table_column_metadata]\<rparr>"

definition capi_load_an_extension :: capi_section where [api_sections]:
  "capi_load_an_extension = \<lparr>sec_title = ''Load An Extension'', sec_roles = [Method
     ''sqlite3''], sec_refs = [''sqlite3_load_extension'', ''sqlite3_malloc'', ''sqlite3_free'',
     ''sqlite3_enable_load_extension''], sec_decls = [sqlite3_load_extension]\<rparr>"

definition capi_enable_or_disable_extension_loading :: capi_section where [api_sections]:
  "capi_enable_or_disable_extension_loading = \<lparr>sec_title =
     ''Enable Or Disable Extension Loading'', sec_roles = [Method ''sqlite3''], sec_refs =
     [''sqlite3_load_extension''], sec_decls = [sqlite3_enable_load_extension]\<rparr>"

definition capi_automatically_load_statically_linked_extensions :: capi_section where [api_sections]:
  "capi_automatically_load_statically_linked_extensions = \<lparr>sec_title =
     ''Automatically Load Statically Linked Extensions'', sec_roles = [], sec_refs =
     [''sqlite3_mprintf'', ''sqlite3_free'', ''sqlite3_open'', ''sqlite3_open16'',
     ''sqlite3_open_v2'', ''sqlite3_reset_auto_extension'', ''sqlite3_cancel_auto_extension''],
     sec_decls = [sqlite3_auto_extension]\<rparr>"

definition capi_cancel_automatic_extension_loading :: capi_section where [api_sections]:
  "capi_cancel_automatic_extension_loading = \<lparr>sec_title =
     ''Cancel Automatic Extension Loading'', sec_roles = [], sec_refs = [], sec_decls =
     [sqlite3_cancel_auto_extension]\<rparr>"

definition capi_reset_automatic_extension_loading :: capi_section where [api_sections]:
  "capi_reset_automatic_extension_loading = \<lparr>sec_title =
     ''Reset Automatic Extension Loading'', sec_roles = [], sec_refs =
     [''sqlite3_auto_extension''], sec_decls = [sqlite3_reset_auto_extension]\<rparr>"

definition capi_register_a_virtual_table_implementation :: capi_section where [api_sections]:
  "capi_register_a_virtual_table_implementation = \<lparr>sec_title =
     ''Register A Virtual Table Implementation'', sec_roles = [Method ''sqlite3''], sec_refs =
     [''sqlite3_drop_modules''], sec_decls = [sqlite3_create_module,
     sqlite3_create_module_v2]\<rparr>"

definition capi_remove_unnecessary_virtual_table_implementations :: capi_section where [api_sections]:
  "capi_remove_unnecessary_virtual_table_implementations = \<lparr>sec_title =
     ''Remove Unnecessary Virtual Table Implementations'', sec_roles = [Method ''sqlite3''],
     sec_refs = [''sqlite3_create_module''], sec_decls = [sqlite3_drop_modules]\<rparr>"

definition capi_declare_the_schema_of_a_virtual_table :: capi_section where [api_sections]:
  "capi_declare_the_schema_of_a_virtual_table = \<lparr>sec_title =
     ''Declare The Schema Of A Virtual Table'', sec_roles = [], sec_refs = [], sec_decls =
     [sqlite3_declare_vtab]\<rparr>"

definition capi_overload_a_function_for_a_virtual_table :: capi_section where [api_sections]:
  "capi_overload_a_function_for_a_virtual_table = \<lparr>sec_title =
     ''Overload A Function For A Virtual Table'', sec_roles = [Method ''sqlite3''], sec_refs = [],
     sec_decls = [sqlite3_overload_function]\<rparr>"

definition capi_open_a_blob_for_incremental_i_o :: capi_section where [api_sections]:
  "capi_open_a_blob_for_incremental_i_o = \<lparr>sec_title = ''Open A BLOB For Incremental I/O'',
     sec_roles = [Method ''sqlite3'', Constructor ''sqlite3_blob''], sec_refs =
     [''sqlite3_blob_close'', ''sqlite3_errcode'', ''sqlite3_errmsg'', ''sqlite3_blob_read'',
     ''sqlite3_blob_write'', ''sqlite3_blob_reopen'', ''sqlite3_blob_bytes'',
     ''sqlite3_bind_zeroblob'', ''sqlite3_result_zeroblob''], sec_decls =
     [sqlite3_blob_open]\<rparr>"

definition capi_move_a_blob_handle_to_a_new :: capi_section where [api_sections]:
  "capi_move_a_blob_handle_to_a_new = \<lparr>sec_title = ''Move a BLOB Handle to a New Row'',
     sec_roles = [Method ''sqlite3_blob''], sec_refs = [''sqlite3_blob_open'',
     ''sqlite3_blob_read'', ''sqlite3_blob_write'', ''sqlite3_blob_reopen'',
     ''sqlite3_blob_bytes''], sec_decls = [sqlite3_blob_reopen]\<rparr>"

definition capi_close_a_blob_handle :: capi_section where [api_sections]:
  "capi_close_a_blob_handle = \<lparr>sec_title = ''Close A BLOB Handle'', sec_roles = [Destructor
     ''sqlite3_blob''], sec_refs = [''sqlite3_blob_open''], sec_decls =
     [sqlite3_blob_close]\<rparr>"

definition capi_return_the_size_of_an_open_blob :: capi_section where [api_sections]:
  "capi_return_the_size_of_an_open_blob = \<lparr>sec_title = ''Return The Size Of An Open BLOB'',
     sec_roles = [Method ''sqlite3_blob''], sec_refs = [''sqlite3_blob_open'',
     ''sqlite3_blob_close''], sec_decls = [sqlite3_blob_bytes]\<rparr>"

definition capi_read_data_from_a_blob_incrementally :: capi_section where [api_sections]:
  "capi_read_data_from_a_blob_incrementally = \<lparr>sec_title =
     ''Read Data From A BLOB Incrementally'', sec_roles = [Method ''sqlite3_blob''], sec_refs =
     [''sqlite3_blob_bytes'', ''sqlite3_blob_open'', ''sqlite3_blob_close'',
     ''sqlite3_blob_write''], sec_decls = [sqlite3_blob_read]\<rparr>"

definition capi_write_data_into_a_blob_incrementally :: capi_section where [api_sections]:
  "capi_write_data_into_a_blob_incrementally = \<lparr>sec_title =
     ''Write Data Into A BLOB Incrementally'', sec_roles = [Method ''sqlite3_blob''], sec_refs =
     [''sqlite3_errcode'', ''sqlite3_errmsg'', ''sqlite3_blob_open'', ''sqlite3_blob_bytes'',
     ''sqlite3_blob_close'', ''sqlite3_blob_read''], sec_decls = [sqlite3_blob_write]\<rparr>"

definition capi_virtual_file_system_objects :: capi_section where [api_sections]:
  "capi_virtual_file_system_objects = \<lparr>sec_title = ''Virtual File System Objects'',
     sec_roles = [], sec_refs = [], sec_decls = [sqlite3_vfs_find, sqlite3_vfs_register,
     sqlite3_vfs_unregister]\<rparr>"

definition capi_mutexes :: capi_section where [api_sections]:
  "capi_mutexes = \<lparr>sec_title = ''Mutexes'', sec_roles = [], sec_refs =
     [''sqlite3_mutex_held'', ''sqlite3_mutex_notheld''], sec_decls = [sqlite3_mutex_alloc,
     sqlite3_mutex_free, sqlite3_mutex_enter, sqlite3_mutex_try, sqlite3_mutex_leave]\<rparr>"

definition capi_mutex_verification_routines :: capi_section where [api_sections]:
  "capi_mutex_verification_routines = \<lparr>sec_title = ''Mutex Verification Routines'',
     sec_roles = [], sec_refs = [], sec_decls = [sqlite3_mutex_held,
     sqlite3_mutex_notheld]\<rparr>"

definition capi_retrieve_the_mutex_for_a_database_connection :: capi_section where [api_sections]:
  "capi_retrieve_the_mutex_for_a_database_connection = \<lparr>sec_title =
     ''Retrieve the mutex for a database connection'', sec_roles = [Method ''sqlite3''], sec_refs
     = [], sec_decls = [sqlite3_db_mutex]\<rparr>"

definition capi_low_level_control_of_database_files :: capi_section where [api_sections]:
  "capi_low_level_control_of_database_files = \<lparr>sec_title =
     ''Low-Level Control Of Database Files'', sec_roles = [Method ''sqlite3''], sec_refs =
     [''sqlite3_file_control'', ''sqlite3_errcode'', ''sqlite3_errmsg''], sec_decls =
     [sqlite3_file_control]\<rparr>"

definition capi_testing_interface :: capi_section where [api_sections]:
  "capi_testing_interface = \<lparr>sec_title = ''Testing Interface'', sec_roles = [], sec_refs =
     [], sec_decls = [sqlite3_test_control]\<rparr>"

definition capi_sql_keyword_checking :: capi_section where [api_sections]:
  "capi_sql_keyword_checking = \<lparr>sec_title = ''SQL Keyword Checking'', sec_roles = [],
     sec_refs = [], sec_decls = [sqlite3_keyword_count, sqlite3_keyword_name,
     sqlite3_keyword_check]\<rparr>"

definition capi_create_a_new_dynamic_string_object :: capi_section where [api_sections]:
  "capi_create_a_new_dynamic_string_object = \<lparr>sec_title =
     ''Create A New Dynamic String Object'', sec_roles = [Constructor ''sqlite3_str''], sec_refs =
     [''sqlite3_str_new'', ''sqlite3_str_errcode'', ''sqlite3_str_length''], sec_decls =
     [sqlite3_str_new]\<rparr>"

definition capi_finalize_a_dynamic_string :: capi_section where [api_sections]:
  "capi_finalize_a_dynamic_string = \<lparr>sec_title = ''Finalize A Dynamic String'', sec_roles =
     [Destructor ''sqlite3_str''], sec_refs = [''sqlite3_malloc64'', ''sqlite3_free''], sec_decls
     = [sqlite3_str_finish]\<rparr>"

definition capi_add_content_to_a_dynamic_string :: capi_section where [api_sections]:
  "capi_add_content_to_a_dynamic_string = \<lparr>sec_title = ''Add Content To A Dynamic String'',
     sec_roles = [Method ''sqlite3_str''], sec_refs = [''sqlite3_str_new'',
     ''sqlite3_str_appendall''], sec_decls = [sqlite3_str_appendf, sqlite3_str_vappendf,
     sqlite3_str_append, sqlite3_str_appendall, sqlite3_str_appendchar,
     sqlite3_str_reset]\<rparr>"

definition capi_status_of_a_dynamic_string :: capi_section where [api_sections]:
  "capi_status_of_a_dynamic_string = \<lparr>sec_title = ''Status Of A Dynamic String'', sec_roles
     = [Method ''sqlite3_str''], sec_refs = [], sec_decls = [sqlite3_str_errcode,
     sqlite3_str_length, sqlite3_str_value]\<rparr>"

definition capi_sqlite_runtime_status :: capi_section where [api_sections]:
  "capi_sqlite_runtime_status = \<lparr>sec_title = ''SQLite Runtime Status'', sec_roles = [],
     sec_refs = [''sqlite3_db_status''], sec_decls = [sqlite3_status, sqlite3_status64]\<rparr>"

definition capi_database_connection_status :: capi_section where [api_sections]:
  "capi_database_connection_status = \<lparr>sec_title = ''Database Connection Status'', sec_roles
     = [Method ''sqlite3''], sec_refs = [''sqlite3_status'', ''sqlite3_stmt_status''], sec_decls =
     [sqlite3_db_status]\<rparr>"

definition capi_prepared_statement_status :: capi_section where [api_sections]:
  "capi_prepared_statement_status = \<lparr>sec_title = ''Prepared Statement Status'', sec_roles =
     [Method ''sqlite3_stmt''], sec_refs = [''sqlite3_status'', ''sqlite3_db_status''], sec_decls
     = [sqlite3_stmt_status]\<rparr>"

definition capi_online_backup_api :: capi_section where [api_sections]:
  "capi_online_backup_api = \<lparr>sec_title = ''Online Backup API.'', sec_roles = [], sec_refs =
     [''sqlite3_backup_init'', ''sqlite3_errcode'', ''sqlite3_errmsg'', ''sqlite3_errmsg16'',
     ''sqlite3_backup_step'', ''sqlite3_backup_finish'', ''sqlite3_backup_remaining'',
     ''sqlite3_backup_pagecount''], sec_decls = [sqlite3_backup_init, sqlite3_backup_step,
     sqlite3_backup_finish, sqlite3_backup_remaining, sqlite3_backup_pagecount]\<rparr>"

definition capi_unlock_notification :: capi_section where [api_sections]:
  "capi_unlock_notification = \<lparr>sec_title = ''Unlock Notification'', sec_roles = [Method
     ''sqlite3''], sec_refs = [''sqlite3_close'', ''sqlite3_step''], sec_decls =
     [sqlite3_unlock_notify]\<rparr>"

definition capi_string_comparison :: capi_section where [api_sections]:
  "capi_string_comparison = \<lparr>sec_title = ''String Comparison'', sec_roles = [], sec_refs =
     [''sqlite3_stricmp'', ''sqlite3_strnicmp''], sec_decls = [sqlite3_stricmp,
     sqlite3_strnicmp]\<rparr>"

definition capi_string_globbing :: capi_section where [api_sections]:
  "capi_string_globbing = \<lparr>sec_title = ''String Globbing'', sec_roles = [], sec_refs =
     [''sqlite3_stricmp'', ''sqlite3_strnicmp'', ''sqlite3_strlike''], sec_decls =
     [sqlite3_strglob]\<rparr>"

definition capi_string_like_matching :: capi_section where [api_sections]:
  "capi_string_like_matching = \<lparr>sec_title = ''String LIKE Matching'', sec_roles = [],
     sec_refs = [''sqlite3_stricmp'', ''sqlite3_strnicmp'', ''sqlite3_strglob''], sec_decls =
     [sqlite3_strlike]\<rparr>"

definition capi_error_logging_interface :: capi_section where [api_sections]:
  "capi_error_logging_interface = \<lparr>sec_title = ''Error Logging Interface'', sec_roles = [],
     sec_refs = [''sqlite3_log'', ''sqlite3_config'', ''sqlite3_snprintf''], sec_decls =
     [sqlite3_log]\<rparr>"

definition capi_write_ahead_log_commit_hook :: capi_section where [api_sections]:
  "capi_write_ahead_log_commit_hook = \<lparr>sec_title = ''Write-Ahead Log Commit Hook'',
     sec_roles = [Method ''sqlite3''], sec_refs = [''sqlite3_wal_hook'',
     ''sqlite3_wal_autocheckpoint''], sec_decls = [sqlite3_wal_hook]\<rparr>"

definition sections2 :: "capi_section list" where
  "sections2 = [capi_function_auxiliary_data, capi_database_connection_client_data,
     capi_setting_the_result_of_an_sql_function, capi_setting_the_subtype_of_an_sql_function,
     capi_define_new_collating_sequences, capi_collation_needed_callbacks,
     capi_suspend_execution_for_a_short_time, capi_name_of_the_folder_holding_temporary_files,
     capi_name_of_the_folder_holding_database_files, capi_win32_specific_interface,
     capi_test_for_auto_commit_mode, capi_find_the_database_handle_of_a_prepared,
     capi_return_the_schema_name_for_a_database,
     capi_return_the_filename_for_a_database_connection,
     capi_determine_if_a_database_is_read_only,
     capi_determine_the_transaction_state_of_a_database, capi_find_the_next_prepared_statement,
     capi_commit_and_rollback_notification_callbacks, capi_autovacuum_compaction_amount_callback,
     capi_data_change_notification_callbacks, capi_enable_or_disable_shared_pager_cache,
     capi_attempt_to_free_heap_memory, capi_free_memory_used_by_a_database_connection,
     capi_impose_a_limit_on_heap_size, capi_deprecated_soft_heap_limit_interface,
     capi_extract_metadata_about_a_column_of_a, capi_load_an_extension,
     capi_enable_or_disable_extension_loading,
     capi_automatically_load_statically_linked_extensions,
     capi_cancel_automatic_extension_loading, capi_reset_automatic_extension_loading,
     capi_register_a_virtual_table_implementation,
     capi_remove_unnecessary_virtual_table_implementations,
     capi_declare_the_schema_of_a_virtual_table, capi_overload_a_function_for_a_virtual_table,
     capi_open_a_blob_for_incremental_i_o, capi_move_a_blob_handle_to_a_new,
     capi_close_a_blob_handle, capi_return_the_size_of_an_open_blob,
     capi_read_data_from_a_blob_incrementally, capi_write_data_into_a_blob_incrementally,
     capi_virtual_file_system_objects, capi_mutexes, capi_mutex_verification_routines,
     capi_retrieve_the_mutex_for_a_database_connection, capi_low_level_control_of_database_files,
     capi_testing_interface, capi_sql_keyword_checking, capi_create_a_new_dynamic_string_object,
     capi_finalize_a_dynamic_string, capi_add_content_to_a_dynamic_string,
     capi_status_of_a_dynamic_string, capi_sqlite_runtime_status, capi_database_connection_status,
     capi_prepared_statement_status, capi_online_backup_api, capi_unlock_notification,
     capi_string_comparison, capi_string_globbing, capi_string_like_matching,
     capi_error_logging_interface, capi_write_ahead_log_commit_hook]"

lemma sections2_violations:
  "concat (map violations sections2) = [''sqlite3_activate_cerod'']"
  by (simp add: sections2_def api_sections violations_def api_decls)

text \<open>The declarations the texts of this part refer to, in order.\<close>

definition refs2 :: "decl list" where
  "refs2 = [sqlite3_reset, sqlite3_finalize, sqlite3_get_clientdata, sqlite3_set_clientdata,
     sqlite3_set_auxdata, sqlite3_get_auxdata, sqlite3_create_function, sqlite3_create_function16,
     sqlite3_bind_text16, sqlite3_malloc, sqlite3_value_pointer, sqlite3_strnicmp, sqlite3_close,
     sqlite3_collation_needed, sqlite3_collation_needed16, sqlite3_create_collation,
     sqlite3_create_collation16, sqlite3_create_collation_v2, sqlite3_prepare_v2,
     sqlite3_serialize, sqlite3_deserialize, sqlite3_uri_parameter, sqlite3_uri_boolean,
     sqlite3_uri_int64, sqlite3_filename_database, sqlite3_filename_journal, sqlite3_filename_wal,
     sqlite3_step, sqlite3_prepare_v2, sqlite3_update_hook, sqlite3_step, sqlite3_prepare_v2,
     sqlite3_commit_hook, sqlite3_rollback_hook, sqlite3_preupdate_hook, sqlite3_open,
     sqlite3_open_v2, sqlite3_open16, sqlite3_db_release_memory, sqlite3_release_memory,
     sqlite3_soft_heap_limit64, sqlite3_load_extension, sqlite3_malloc, sqlite3_free,
     sqlite3_enable_load_extension, sqlite3_load_extension, sqlite3_mprintf, sqlite3_free,
     sqlite3_open, sqlite3_open16, sqlite3_open_v2, sqlite3_reset_auto_extension,
     sqlite3_cancel_auto_extension, sqlite3_auto_extension, sqlite3_drop_modules,
     sqlite3_create_module, sqlite3_blob_close, sqlite3_errcode, sqlite3_errmsg,
     sqlite3_blob_read, sqlite3_blob_write, sqlite3_blob_reopen, sqlite3_blob_bytes,
     sqlite3_bind_zeroblob, sqlite3_result_zeroblob, sqlite3_blob_open, sqlite3_blob_read,
     sqlite3_blob_write, sqlite3_blob_reopen, sqlite3_blob_bytes, sqlite3_blob_open,
     sqlite3_blob_open, sqlite3_blob_close, sqlite3_blob_bytes, sqlite3_blob_open,
     sqlite3_blob_close, sqlite3_blob_write, sqlite3_errcode, sqlite3_errmsg, sqlite3_blob_open,
     sqlite3_blob_bytes, sqlite3_blob_close, sqlite3_blob_read, sqlite3_mutex_held,
     sqlite3_mutex_notheld, sqlite3_file_control, sqlite3_errcode, sqlite3_errmsg,
     sqlite3_str_new, sqlite3_str_errcode, sqlite3_str_length, sqlite3_malloc64, sqlite3_free,
     sqlite3_str_new, sqlite3_str_appendall, sqlite3_db_status, sqlite3_status,
     sqlite3_stmt_status, sqlite3_status, sqlite3_db_status, sqlite3_backup_init, sqlite3_errcode,
     sqlite3_errmsg, sqlite3_errmsg16, sqlite3_backup_step, sqlite3_backup_finish,
     sqlite3_backup_remaining, sqlite3_backup_pagecount, sqlite3_close, sqlite3_step,
     sqlite3_stricmp, sqlite3_strnicmp, sqlite3_stricmp, sqlite3_strnicmp, sqlite3_strlike,
     sqlite3_stricmp, sqlite3_strnicmp, sqlite3_strglob, sqlite3_log, sqlite3_config,
     sqlite3_snprintf, sqlite3_wal_hook, sqlite3_wal_autocheckpoint]"

lemma sections2_refs: "concat (map sec_refs sections2) = map decl_name refs2"
  by (simp add: sections2_def api_sections refs2_def api_decls)

lemma refs2_declared: "set refs2 \<subseteq> set api1 \<union> set api2 \<union> set api3 \<union> set api4"
  by (simp add: refs2_def api1_def api2_def api3_def api4_def)

end
