(* ===== verification/HeaderDoc3.thy ===== *)
theory HeaderDoc3
  imports HeaderApi1 HeaderApi2 HeaderApi3 HeaderApi4
begin

text \<open>
  The documented sections of \<^verbatim>\<open>sqlite3.h\<close> that declare functions, part 3: title, role tags, the
  functions the text refers to, and the declarations, in the order of the header.
\<close>

definition capi_configure_an_auto_checkpoint :: capi_section where [api_sections]:
  "capi_configure_an_auto_checkpoint = \<lparr>sec_title = ''Configure an auto-checkpoint'',
     sec_roles = [Method ''sqlite3''], sec_refs = [''sqlite3_wal_hook''], sec_decls =
     [sqlite3_wal_autocheckpoint]\<rparr>"

definition capi_checkpoint_a_database :: capi_section where [api_sections]:
  "capi_checkpoint_a_database = \<lparr>sec_title = ''Checkpoint a database'', sec_roles = [Method
     ''sqlite3''], sec_refs = [''sqlite3_wal_checkpoint_v2''], sec_decls =
     [sqlite3_wal_checkpoint]\<rparr>"

definition capi_checkpoint_a_database_2 :: capi_section where [api_sections]:
  "capi_checkpoint_a_database_2 = \<lparr>sec_title = ''Checkpoint a database'', sec_roles =
     [Method ''sqlite3''], sec_refs = [''sqlite3_errcode'', ''sqlite3_errmsg''], sec_decls =
     [sqlite3_wal_checkpoint_v2]\<rparr>"

definition capi_virtual_table_interface_configuration :: capi_section where [api_sections]:
  "capi_virtual_table_interface_configuration = \<lparr>sec_title =
     ''Virtual Table Interface Configuration'', sec_roles = [], sec_refs = [], sec_decls =
     [sqlite3_vtab_config]\<rparr>"

definition capi_determine_the_virtual_table_conflict_policy :: capi_section where [api_sections]:
  "capi_determine_the_virtual_table_conflict_policy = \<lparr>sec_title =
     ''Determine The Virtual Table Conflict Policy'', sec_roles = [], sec_refs = [], sec_decls =
     [sqlite3_vtab_on_conflict]\<rparr>"

definition capi_determine_if_virtual_table_column_access_is :: capi_section where [api_sections]:
  "capi_determine_if_virtual_table_column_access_is = \<lparr>sec_title =
     ''Determine If Virtual Table Column Access Is For UPDATE'', sec_roles = [], sec_refs = [],
     sec_decls = [sqlite3_vtab_nochange]\<rparr>"

definition capi_determine_the_collation_for_a_virtual_table :: capi_section where [api_sections]:
  "capi_determine_the_collation_for_a_virtual_table = \<lparr>sec_title =
     ''Determine The Collation For a Virtual Table Constraint'', sec_roles = [Method
     ''sqlite3_index_info''], sec_refs = [''sqlite3_declare_vtab''], sec_decls =
     [sqlite3_vtab_collation]\<rparr>"

definition capi_determine_if_a_virtual_table_query_is :: capi_section where [api_sections]:
  "capi_determine_if_a_virtual_table_query_is = \<lparr>sec_title =
     ''Determine if a virtual table query is DISTINCT'', sec_roles = [Method
     ''sqlite3_index_info''], sec_refs = [], sec_decls = [sqlite3_vtab_distinct]\<rparr>"

definition capi_identify_and_handle_in_constraints_in_xbestindex :: capi_section where [api_sections]:
  "capi_identify_and_handle_in_constraints_in_xbestindex = \<lparr>sec_title =
     ''Identify and handle IN constraints in xBestIndex'', sec_roles = [], sec_refs =
     [''sqlite3_vtab_in_first'', ''sqlite3_vtab_in_next''], sec_decls = [sqlite3_vtab_in]\<rparr>"

definition capi_find_all_elements_on_the_right_hand :: capi_section where [api_sections]:
  "capi_find_all_elements_on_the_right_hand = \<lparr>sec_title =
     ''Find all elements on the right-hand side of an IN constraint.'', sec_roles = [], sec_refs =
     [''sqlite3_vtab_in''], sec_decls = [sqlite3_vtab_in_first, sqlite3_vtab_in_next]\<rparr>"

definition capi_constraint_values_in_xbestindex :: capi_section where [api_sections]:
  "capi_constraint_values_in_xbestindex = \<lparr>sec_title =
     ''Constraint values in xBestIndex()'', sec_roles = [Method ''sqlite3_index_info''], sec_refs
     = [], sec_decls = [sqlite3_vtab_rhs_value]\<rparr>"

definition capi_prepared_statement_scan_status :: capi_section where [api_sections]:
  "capi_prepared_statement_scan_status = \<lparr>sec_title = ''Prepared Statement Scan Status'',
     sec_roles = [Method ''sqlite3_stmt''], sec_refs = [''sqlite3_stmt_scanstatus_reset''],
     sec_decls = [sqlite3_stmt_scanstatus, sqlite3_stmt_scanstatus_v2]\<rparr>"

definition capi_zero_scan_status_counters :: capi_section where [api_sections]:
  "capi_zero_scan_status_counters = \<lparr>sec_title = ''Zero Scan-Status Counters'', sec_roles =
     [Method ''sqlite3_stmt''], sec_refs = [''sqlite3_stmt_scanstatus''], sec_decls =
     [sqlite3_stmt_scanstatus_reset]\<rparr>"

definition capi_flush_caches_to_disk_mid_transaction :: capi_section where [api_sections]:
  "capi_flush_caches_to_disk_mid_transaction = \<lparr>sec_title =
     ''Flush caches to disk mid-transaction'', sec_roles = [Method ''sqlite3''], sec_refs =
     [''sqlite3_db_cacheflush'', ''sqlite3_errcode'', ''sqlite3_errmsg''], sec_decls =
     [sqlite3_db_cacheflush]\<rparr>"

definition capi_the_pre_update_hook :: capi_section where [api_sections]:
  "capi_the_pre_update_hook = \<lparr>sec_title = ''The pre-update hook.'', sec_roles = [Method
     ''sqlite3''], sec_refs = [''sqlite3_preupdate_hook'', ''sqlite3_preupdate_old'',
     ''sqlite3_preupdate_new'', ''sqlite3_preupdate_count'', ''sqlite3_preupdate_depth'',
     ''sqlite3_blob_write'', ''sqlite3_preupdate_blobwrite'', ''sqlite3_update_hook''], sec_decls
     = [sqlite3_preupdate_hook, sqlite3_preupdate_old, sqlite3_preupdate_count,
     sqlite3_preupdate_depth, sqlite3_preupdate_new, sqlite3_preupdate_blobwrite]\<rparr>"

definition capi_low_level_system_error_code :: capi_section where [api_sections]:
  "capi_low_level_system_error_code = \<lparr>sec_title = ''Low-level system error code'',
     sec_roles = [Method ''sqlite3''], sec_refs = [''sqlite3_open_v2''], sec_decls =
     [sqlite3_system_errno]\<rparr>"

definition capi_record_a_database_snapshot :: capi_section where [api_sections]:
  "capi_record_a_database_snapshot = \<lparr>sec_title = ''Record A Database Snapshot'', sec_roles
     = [Constructor ''sqlite3_snapshot''], sec_refs = [''sqlite3_snapshot_get'',
     ''sqlite3_snapshot_free''], sec_decls = [sqlite3_snapshot_get]\<rparr>"

definition capi_start_a_read_transaction_on_an_historical :: capi_section where [api_sections]:
  "capi_start_a_read_transaction_on_an_historical = \<lparr>sec_title =
     ''Start a read transaction on an historical snapshot'', sec_roles = [Method
     ''sqlite3_snapshot''], sec_refs = [''sqlite3_snapshot_open''], sec_decls =
     [sqlite3_snapshot_open]\<rparr>"

definition capi_destroy_a_snapshot :: capi_section where [api_sections]:
  "capi_destroy_a_snapshot = \<lparr>sec_title = ''Destroy a snapshot'', sec_roles = [Destructor
     ''sqlite3_snapshot''], sec_refs = [''sqlite3_snapshot_free''], sec_decls =
     [sqlite3_snapshot_free]\<rparr>"

definition capi_compare_the_ages_of_two_snapshot_handles :: capi_section where [api_sections]:
  "capi_compare_the_ages_of_two_snapshot_handles = \<lparr>sec_title =
     ''Compare the ages of two snapshot handles.'', sec_roles = [Method ''sqlite3_snapshot''],
     sec_refs = [], sec_decls = [sqlite3_snapshot_cmp]\<rparr>"

definition capi_recover_snapshots_from_a_wal_file :: capi_section where [api_sections]:
  "capi_recover_snapshots_from_a_wal_file = \<lparr>sec_title =
     ''Recover snapshots from a wal file'', sec_roles = [Method ''sqlite3_snapshot''], sec_refs =
     [''sqlite3_close'', ''sqlite3_snapshot_open''], sec_decls =
     [sqlite3_snapshot_recover]\<rparr>"

definition capi_serialize_a_database :: capi_section where [api_sections]:
  "capi_serialize_a_database = \<lparr>sec_title = ''Serialize a database'', sec_roles = [],
     sec_refs = [''sqlite3_malloc64''], sec_decls = [sqlite3_serialize]\<rparr>"

definition capi_deserialize_a_database :: capi_section where [api_sections]:
  "capi_deserialize_a_database = \<lparr>sec_title = ''Deserialize a database'', sec_roles = [],
     sec_refs = [''sqlite3_free''], sec_decls = [sqlite3_deserialize]\<rparr>"

definition capi_flags_for_sqlite3_deserialize :: capi_section where [api_sections]:
  "capi_flags_for_sqlite3_deserialize = \<lparr>sec_title = ''Flags for sqlite3_deserialize()'',
     sec_roles = [], sec_refs = [''sqlite3_malloc64'', ''sqlite3_realloc64''], sec_decls =
     [sqlite3_rtree_geometry_callback, sqlite3_rtree_query_callback]\<rparr>"

definition capi_create_a_new_session_object :: capi_section where [api_sections]:
  "capi_create_a_new_session_object = \<lparr>sec_title = ''Create A New Session Object'',
     sec_roles = [Constructor ''sqlite3_session''], sec_refs = [''sqlite3session_delete'',
     ''sqlite3_preupdate_hook''], sec_decls = [sqlite3session_create]\<rparr>"

definition capi_delete_a_session_object :: capi_section where [api_sections]:
  "capi_delete_a_session_object = \<lparr>sec_title = ''Delete A Session Object'', sec_roles =
     [Destructor ''sqlite3_session''], sec_refs = [''sqlite3session_create''], sec_decls =
     [sqlite3session_delete]\<rparr>"

definition capi_configure_a_session_object :: capi_section where [api_sections]:
  "capi_configure_a_session_object = \<lparr>sec_title = ''Configure a Session Object'', sec_roles
     = [Method ''sqlite3_session''], sec_refs = [], sec_decls =
     [sqlite3session_object_config]\<rparr>"

definition capi_enable_or_disable_a_session_object :: capi_section where [api_sections]:
  "capi_enable_or_disable_a_session_object = \<lparr>sec_title =
     ''Enable Or Disable A Session Object'', sec_roles = [Method ''sqlite3_session''], sec_refs =
     [''sqlite3session_changeset''], sec_decls = [sqlite3session_enable]\<rparr>"

definition capi_set_or_clear_the_indirect_change_flag :: capi_section where [api_sections]:
  "capi_set_or_clear_the_indirect_change_flag = \<lparr>sec_title =
     ''Set Or Clear the Indirect Change Flag'', sec_roles = [Method ''sqlite3_session''], sec_refs
     = [], sec_decls = [sqlite3session_indirect]\<rparr>"

definition capi_attach_a_table_to_a_session_object :: capi_section where [api_sections]:
  "capi_attach_a_table_to_a_session_object = \<lparr>sec_title =
     ''Attach A Table To A Session Object'', sec_roles = [Method ''sqlite3_session''], sec_refs =
     [''sqlite3session_changeset''], sec_decls = [sqlite3session_attach]\<rparr>"

definition capi_set_a_table_filter_on_a_session :: capi_section where [api_sections]:
  "capi_set_a_table_filter_on_a_session = \<lparr>sec_title =
     ''Set a table filter on a Session Object.'', sec_roles = [Method ''sqlite3_session''],
     sec_refs = [], sec_decls = [sqlite3session_table_filter]\<rparr>"

definition capi_generate_a_changeset_from_a_session_object :: capi_section where [api_sections]:
  "capi_generate_a_changeset_from_a_session_object = \<lparr>sec_title =
     ''Generate A Changeset From A Session Object'', sec_roles = [Method ''sqlite3_session''],
     sec_refs = [''sqlite3changeset_start'', ''sqlite3changeset_apply'', ''sqlite3_free'',
     ''sqlite3session_enable''], sec_decls = [sqlite3session_changeset]\<rparr>"

definition capi_return_an_upper_limit_for_the_size :: capi_section where [api_sections]:
  "capi_return_an_upper_limit_for_the_size = \<lparr>sec_title =
     ''Return An Upper-limit For The Size Of The Changeset'', sec_roles = [Method
     ''sqlite3_session''], sec_refs = [], sec_decls = [sqlite3session_changeset_size]\<rparr>"

definition capi_load_the_difference_between_tables_into_a :: capi_section where [api_sections]:
  "capi_load_the_difference_between_tables_into_a = \<lparr>sec_title =
     ''Load The Difference Between Tables Into A Session'', sec_roles = [Method
     ''sqlite3_session''], sec_refs = [''sqlite3session_attach'', ''sqlite3session_changeset''],
     sec_decls = [sqlite3session_diff]\<rparr>"

definition capi_generate_a_patchset_from_a_session_object :: capi_section where [api_sections]:
  "capi_generate_a_patchset_from_a_session_object = \<lparr>sec_title =
     ''Generate A Patchset From A Session Object'', sec_roles = [Method ''sqlite3_session''],
     sec_refs = [], sec_decls = [sqlite3session_patchset]\<rparr>"

definition capi_test_if_a_changeset_has_recorded_any :: capi_section where [api_sections]:
  "capi_test_if_a_changeset_has_recorded_any = \<lparr>sec_title =
     ''Test if a changeset has recorded any changes.'', sec_roles = [], sec_refs =
     [''sqlite3session_changeset''], sec_decls = [sqlite3session_isempty]\<rparr>"

definition capi_query_for_the_amount_of_heap_memory :: capi_section where [api_sections]:
  "capi_query_for_the_amount_of_heap_memory = \<lparr>sec_title =
     ''Query for the amount of heap memory used by a session object.'', sec_roles = [], sec_refs =
     [], sec_decls = [sqlite3session_memory_used]\<rparr>"

definition capi_create_an_iterator_to_traverse_a_changeset :: capi_section where [api_sections]:
  "capi_create_an_iterator_to_traverse_a_changeset = \<lparr>sec_title =
     ''Create An Iterator To Traverse A Changeset'', sec_roles = [Constructor
     ''sqlite3_changeset_iter''], sec_refs = [''sqlite3changeset_next'', ''sqlite3changeset_op'',
     ''sqlite3changeset_new'', ''sqlite3changeset_old'', ''sqlite3changeset_finalize'',
     ''sqlite3session_changeset'', ''sqlite3changeset_concat'', ''sqlite3changeset_invert''],
     sec_decls = [sqlite3changeset_start, sqlite3changeset_start_v2]\<rparr>"

definition capi_advance_a_changeset_iterator :: capi_section where [api_sections]:
  "capi_advance_a_changeset_iterator = \<lparr>sec_title = ''Advance A Changeset Iterator'',
     sec_roles = [Method ''sqlite3_changeset_iter''], sec_refs = [''sqlite3changeset_start'',
     ''sqlite3changeset_apply''], sec_decls = [sqlite3changeset_next]\<rparr>"

definition capi_obtain_the_current_operation_from_a_changeset :: capi_section where [api_sections]:
  "capi_obtain_the_current_operation_from_a_changeset = \<lparr>sec_title =
     ''Obtain The Current Operation From A Changeset Iterator'', sec_roles = [Method
     ''sqlite3_changeset_iter''], sec_refs = [''sqlite3changeset_apply'',
     ''sqlite3changeset_start'', ''sqlite3changeset_next'', ''sqlite3session_indirect''],
     sec_decls = [sqlite3changeset_op]\<rparr>"

definition capi_obtain_the_primary_key_definition_of_a :: capi_section where [api_sections]:
  "capi_obtain_the_primary_key_definition_of_a = \<lparr>sec_title =
     ''Obtain The Primary Key Definition Of A Table'', sec_roles = [Method
     ''sqlite3_changeset_iter''], sec_refs = [], sec_decls = [sqlite3changeset_pk]\<rparr>"

definition capi_obtain_old_values_from_a_changeset_iterator :: capi_section where [api_sections]:
  "capi_obtain_old_values_from_a_changeset_iterator = \<lparr>sec_title =
     ''Obtain old.* Values From A Changeset Iterator'', sec_roles = [Method
     ''sqlite3_changeset_iter''], sec_refs = [''sqlite3changeset_apply'',
     ''sqlite3changeset_start'', ''sqlite3changeset_next''], sec_decls =
     [sqlite3changeset_old]\<rparr>"

definition capi_obtain_new_values_from_a_changeset_iterator :: capi_section where [api_sections]:
  "capi_obtain_new_values_from_a_changeset_iterator = \<lparr>sec_title =
     ''Obtain new.* Values From A Changeset Iterator'', sec_roles = [Method
     ''sqlite3_changeset_iter''], sec_refs = [''sqlite3changeset_apply'',
     ''sqlite3changeset_start'', ''sqlite3changeset_next''], sec_decls =
     [sqlite3changeset_new]\<rparr>"

definition capi_obtain_conflicting_row_values_from_a_changeset :: capi_section where [api_sections]:
  "capi_obtain_conflicting_row_values_from_a_changeset = \<lparr>sec_title =
     ''Obtain Conflicting Row Values From A Changeset Iterator'', sec_roles = [Method
     ''sqlite3_changeset_iter''], sec_refs = [''sqlite3changeset_apply''], sec_decls =
     [sqlite3changeset_conflict]\<rparr>"

definition capi_determine_the_number_of_foreign_key_constraint :: capi_section where [api_sections]:
  "capi_determine_the_number_of_foreign_key_constraint = \<lparr>sec_title =
     ''Determine The Number Of Foreign Key Constraint Violations'', sec_roles = [Method
     ''sqlite3_changeset_iter''], sec_refs = [], sec_decls =
     [sqlite3changeset_fk_conflicts]\<rparr>"

definition capi_finalize_a_changeset_iterator :: capi_section where [api_sections]:
  "capi_finalize_a_changeset_iterator = \<lparr>sec_title = ''Finalize A Changeset Iterator'',
     sec_roles = [Method ''sqlite3_changeset_iter''], sec_refs = [''sqlite3changeset_start'',
     ''sqlite3changeset_apply'', ''sqlite3changeset_next'', ''sqlite3changeset_new''], sec_decls =
     [sqlite3changeset_finalize]\<rparr>"

definition capi_invert_a_changeset :: capi_section where [api_sections]:
  "capi_invert_a_changeset = \<lparr>sec_title = ''Invert A Changeset'', sec_roles = [], sec_refs
     = [], sec_decls = [sqlite3changeset_invert]\<rparr>"

definition capi_concatenate_two_changeset_objects :: capi_section where [api_sections]:
  "capi_concatenate_two_changeset_objects = \<lparr>sec_title =
     ''Concatenate Two Changeset Objects'', sec_roles = [], sec_refs = [], sec_decls =
     [sqlite3changeset_concat]\<rparr>"

definition capi_upgrade_the_schema_of_a_changeset_patchset :: capi_section where [api_sections]:
  "capi_upgrade_the_schema_of_a_changeset_patchset = \<lparr>sec_title =
     ''Upgrade the Schema of a Changeset/Patchset'', sec_roles = [], sec_refs = [], sec_decls =
     [sqlite3changeset_upgrade]\<rparr>"

definition capi_create_a_new_changegroup_object :: capi_section where [api_sections]:
  "capi_create_a_new_changegroup_object = \<lparr>sec_title = ''Create A New Changegroup Object'',
     sec_roles = [Constructor ''sqlite3_changegroup''], sec_refs = [], sec_decls =
     [sqlite3changegroup_new]\<rparr>"

definition capi_add_a_schema_to_a_changegroup :: capi_section where [api_sections]:
  "capi_add_a_schema_to_a_changegroup = \<lparr>sec_title = ''Add a Schema to a Changegroup'',
     sec_roles = [Method ''sqlite3_changegroup_schema''], sec_refs = [], sec_decls =
     [sqlite3changegroup_schema]\<rparr>"

definition capi_add_a_changeset_to_a_changegroup :: capi_section where [api_sections]:
  "capi_add_a_changeset_to_a_changegroup = \<lparr>sec_title =
     ''Add A Changeset To A Changegroup'', sec_roles = [Method ''sqlite3_changegroup''], sec_refs
     = [], sec_decls = [sqlite3changegroup_add]\<rparr>"

definition capi_add_a_single_change_to_a_changegroup :: capi_section where [api_sections]:
  "capi_add_a_single_change_to_a_changegroup = \<lparr>sec_title =
     ''Add A Single Change To A Changegroup'', sec_roles = [Method ''sqlite3_changegroup''],
     sec_refs = [''sqlite3changegroup_add''], sec_decls = [sqlite3changegroup_add_change]\<rparr>"

definition capi_obtain_a_composite_changeset_from_a_changegroup :: capi_section where [api_sections]:
  "capi_obtain_a_composite_changeset_from_a_changegroup = \<lparr>sec_title =
     ''Obtain A Composite Changeset From A Changegroup'', sec_roles = [Method
     ''sqlite3_changegroup''], sec_refs = [], sec_decls = [sqlite3changegroup_output]\<rparr>"

definition capi_delete_a_changegroup_object :: capi_section where [api_sections]:
  "capi_delete_a_changegroup_object = \<lparr>sec_title = ''Delete A Changegroup Object'',
     sec_roles = [Destructor ''sqlite3_changegroup''], sec_refs = [], sec_decls =
     [sqlite3changegroup_delete]\<rparr>"

definition capi_apply_a_changeset_to_a_database :: capi_section where [api_sections]:
  "capi_apply_a_changeset_to_a_database = \<lparr>sec_title = ''Apply A Changeset To A Database'',
     sec_roles = [], sec_refs = [], sec_decls = [sqlite3changeset_apply,
     sqlite3changeset_apply_v2]\<rparr>"

definition capi_create_a_changeset_rebaser_object :: capi_section where [api_sections]:
  "capi_create_a_changeset_rebaser_object = \<lparr>sec_title =
     ''Create a changeset rebaser object.'', sec_roles = [], sec_refs = [], sec_decls =
     [sqlite3rebaser_create]\<rparr>"

definition capi_configure_a_changeset_rebaser_object :: capi_section where [api_sections]:
  "capi_configure_a_changeset_rebaser_object = \<lparr>sec_title =
     ''Configure a changeset rebaser object.'', sec_roles = [], sec_refs = [], sec_decls =
     [sqlite3rebaser_configure]\<rparr>"

definition capi_rebase_a_changeset :: capi_section where [api_sections]:
  "capi_rebase_a_changeset = \<lparr>sec_title = ''Rebase a changeset'', sec_roles = [], sec_refs
     = [], sec_decls = [sqlite3rebaser_rebase]\<rparr>"

definition capi_delete_a_changeset_rebaser_object :: capi_section where [api_sections]:
  "capi_delete_a_changeset_rebaser_object = \<lparr>sec_title =
     ''Delete a changeset rebaser object.'', sec_roles = [], sec_refs = [], sec_decls =
     [sqlite3rebaser_delete]\<rparr>"

definition capi_streaming_versions_of_api_functions :: capi_section where [api_sections]:
  "capi_streaming_versions_of_api_functions = \<lparr>sec_title =
     ''Streaming Versions of API functions.'', sec_roles = [], sec_refs = [], sec_decls =
     [sqlite3changeset_apply_strm, sqlite3changeset_apply_v2_strm, sqlite3changeset_concat_strm,
     sqlite3changeset_invert_strm, sqlite3changeset_start_strm, sqlite3changeset_start_v2_strm,
     sqlite3session_changeset_strm, sqlite3session_patchset_strm, sqlite3changegroup_add_strm,
     sqlite3changegroup_output_strm, sqlite3rebaser_rebase_strm]\<rparr>"

definition capi_configure_global_parameters :: capi_section where [api_sections]:
  "capi_configure_global_parameters = \<lparr>sec_title = ''Configure global parameters'',
     sec_roles = [], sec_refs = [], sec_decls = [sqlite3session_config]\<rparr>"

definition sections3 :: "capi_section list" where
  "sections3 = [capi_configure_an_auto_checkpoint, capi_checkpoint_a_database,
     capi_checkpoint_a_database_2, capi_virtual_table_interface_configuration,
     capi_determine_the_virtual_table_conflict_policy,
     capi_determine_if_virtual_table_column_access_is,
     capi_determine_the_collation_for_a_virtual_table, capi_determine_if_a_virtual_table_query_is,
     capi_identify_and_handle_in_constraints_in_xbestindex,
     capi_find_all_elements_on_the_right_hand, capi_constraint_values_in_xbestindex,
     capi_prepared_statement_scan_status, capi_zero_scan_status_counters,
     capi_flush_caches_to_disk_mid_transaction, capi_the_pre_update_hook,
     capi_low_level_system_error_code, capi_record_a_database_snapshot,
     capi_start_a_read_transaction_on_an_historical, capi_destroy_a_snapshot,
     capi_compare_the_ages_of_two_snapshot_handles, capi_recover_snapshots_from_a_wal_file,
     capi_serialize_a_database, capi_deserialize_a_database, capi_flags_for_sqlite3_deserialize,
     capi_create_a_new_session_object, capi_delete_a_session_object,
     capi_configure_a_session_object, capi_enable_or_disable_a_session_object,
     capi_set_or_clear_the_indirect_change_flag, capi_attach_a_table_to_a_session_object,
     capi_set_a_table_filter_on_a_session, capi_generate_a_changeset_from_a_session_object,
     capi_return_an_upper_limit_for_the_size, capi_load_the_difference_between_tables_into_a,
     capi_generate_a_patchset_from_a_session_object, capi_test_if_a_changeset_has_recorded_any,
     capi_query_for_the_amount_of_heap_memory, capi_create_an_iterator_to_traverse_a_changeset,
     capi_advance_a_changeset_iterator, capi_obtain_the_current_operation_from_a_changeset,
     capi_obtain_the_primary_key_definition_of_a,
     capi_obtain_old_values_from_a_changeset_iterator,
     capi_obtain_new_values_from_a_changeset_iterator,
     capi_obtain_conflicting_row_values_from_a_changeset,
     capi_determine_the_number_of_foreign_key_constraint, capi_finalize_a_changeset_iterator,
     capi_invert_a_changeset, capi_concatenate_two_changeset_objects,
     capi_upgrade_the_schema_of_a_changeset_patchset, capi_create_a_new_changegroup_object,
     capi_add_a_schema_to_a_changegroup, capi_add_a_changeset_to_a_changegroup,
     capi_add_a_single_change_to_a_changegroup,
     capi_obtain_a_composite_changeset_from_a_changegroup, capi_delete_a_changegroup_object,
     capi_apply_a_changeset_to_a_database, capi_create_a_changeset_rebaser_object,
     capi_configure_a_changeset_rebaser_object, capi_rebase_a_changeset,
     capi_delete_a_changeset_rebaser_object, capi_streaming_versions_of_api_functions,
     capi_configure_global_parameters]"

lemma sections3_violations:
  "concat (map violations sections3) = [''sqlite3_snapshot_open'', ''sqlite3_snapshot_recover'',
     ''sqlite3changegroup_schema'']"
  by (simp add: sections3_def api_sections violations_def api_decls)

text \<open>The declarations the texts of this part refer to, in order.\<close>

definition refs3 :: "decl list" where
  "refs3 = [sqlite3_wal_hook, sqlite3_wal_checkpoint_v2, sqlite3_errcode, sqlite3_errmsg,
     sqlite3_declare_vtab, sqlite3_vtab_in_first, sqlite3_vtab_in_next, sqlite3_vtab_in,
     sqlite3_stmt_scanstatus_reset, sqlite3_stmt_scanstatus, sqlite3_db_cacheflush,
     sqlite3_errcode, sqlite3_errmsg, sqlite3_preupdate_hook, sqlite3_preupdate_old,
     sqlite3_preupdate_new, sqlite3_preupdate_count, sqlite3_preupdate_depth, sqlite3_blob_write,
     sqlite3_preupdate_blobwrite, sqlite3_update_hook, sqlite3_open_v2, sqlite3_snapshot_get,
     sqlite3_snapshot_free, sqlite3_snapshot_open, sqlite3_snapshot_free, sqlite3_close,
     sqlite3_snapshot_open, sqlite3_malloc64, sqlite3_free, sqlite3_malloc64, sqlite3_realloc64,
     sqlite3session_delete, sqlite3_preupdate_hook, sqlite3session_create,
     sqlite3session_changeset, sqlite3session_changeset, sqlite3changeset_start,
     sqlite3changeset_apply, sqlite3_free, sqlite3session_enable, sqlite3session_attach,
     sqlite3session_changeset, sqlite3session_changeset, sqlite3changeset_next,
     sqlite3changeset_op, sqlite3changeset_new, sqlite3changeset_old, sqlite3changeset_finalize,
     sqlite3session_changeset, sqlite3changeset_concat, sqlite3changeset_invert,
     sqlite3changeset_start, sqlite3changeset_apply, sqlite3changeset_apply,
     sqlite3changeset_start, sqlite3changeset_next, sqlite3session_indirect,
     sqlite3changeset_apply, sqlite3changeset_start, sqlite3changeset_next,
     sqlite3changeset_apply, sqlite3changeset_start, sqlite3changeset_next,
     sqlite3changeset_apply, sqlite3changeset_start, sqlite3changeset_apply,
     sqlite3changeset_next, sqlite3changeset_new, sqlite3changegroup_add]"

lemma sections3_refs: "concat (map sec_refs sections3) = map decl_name refs3"
  by (simp add: sections3_def api_sections refs3_def api_decls)

lemma refs3_declared: "set refs3 \<subseteq> set api1 \<union> set api2 \<union> set api3 \<union> set api4"
  by (simp add: refs3_def api1_def api2_def api3_def api4_def)

end
