(* ===== verification/ExtRoutines.thy ===== *)
theory ExtRoutines
  imports HeaderTypes "HOL-Library.Sublist"
begin

text \<open>
  The table \<^verbatim>\<open>sqlite3_api_routines\<close> of \<^verbatim>\<open>sqlite3ext.h\<close>, through which a loadable extension such as
  the VFS plugin reaches the library: one definition per member, in the order of the structure, in
  the groups that the comments date with a library version.
\<close>

definition routine_aggregate_context :: decl where [api_decls]:
  "routine_aggregate_context = Decl ''aggregate_context'' (Ptr (Fn (Ptr TVoid) [Ptr (TName
     ''sqlite3_context''), TInt]))"
definition routine_aggregate_count :: decl where [api_decls]:
  "routine_aggregate_count = Decl ''aggregate_count'' (Ptr (Fn TInt [Ptr (TName
     ''sqlite3_context'')]))"
definition routine_bind_blob :: decl where [api_decls]:
  "routine_bind_blob = Decl ''bind_blob'' (Ptr (Fn TInt [Ptr (TName ''sqlite3_stmt''), TInt, Ptr
     (Const TVoid), TInt, Ptr (Fn TVoid [Ptr TVoid])]))"
definition routine_bind_double :: decl where [api_decls]:
  "routine_bind_double = Decl ''bind_double'' (Ptr (Fn TInt [Ptr (TName ''sqlite3_stmt''), TInt,
     TDouble]))"
definition routine_bind_int :: decl where [api_decls]:
  "routine_bind_int = Decl ''bind_int'' (Ptr (Fn TInt [Ptr (TName ''sqlite3_stmt''), TInt,
     TInt]))"
definition routine_bind_int64 :: decl where [api_decls]:
  "routine_bind_int64 = Decl ''bind_int64'' (Ptr (Fn TInt [Ptr (TName ''sqlite3_stmt''), TInt,
     TName ''sqlite_int64'']))"
definition routine_bind_null :: decl where [api_decls]:
  "routine_bind_null = Decl ''bind_null'' (Ptr (Fn TInt [Ptr (TName ''sqlite3_stmt''), TInt]))"
definition routine_bind_parameter_count :: decl where [api_decls]:
  "routine_bind_parameter_count = Decl ''bind_parameter_count'' (Ptr (Fn TInt [Ptr (TName
     ''sqlite3_stmt'')]))"
definition routine_bind_parameter_index :: decl where [api_decls]:
  "routine_bind_parameter_index = Decl ''bind_parameter_index'' (Ptr (Fn TInt [Ptr (TName
     ''sqlite3_stmt''), Ptr (Const TChar)]))"
definition routine_bind_parameter_name :: decl where [api_decls]:
  "routine_bind_parameter_name = Decl ''bind_parameter_name'' (Ptr (Fn (Ptr (Const TChar)) [Ptr
     (TName ''sqlite3_stmt''), TInt]))"
definition routine_bind_text :: decl where [api_decls]:
  "routine_bind_text = Decl ''bind_text'' (Ptr (Fn TInt [Ptr (TName ''sqlite3_stmt''), TInt, Ptr
     (Const TChar), TInt, Ptr (Fn TVoid [Ptr TVoid])]))"
definition routine_bind_text16 :: decl where [api_decls]:
  "routine_bind_text16 = Decl ''bind_text16'' (Ptr (Fn TInt [Ptr (TName ''sqlite3_stmt''), TInt,
     Ptr (Const TVoid), TInt, Ptr (Fn TVoid [Ptr TVoid])]))"
definition routine_bind_value :: decl where [api_decls]:
  "routine_bind_value = Decl ''bind_value'' (Ptr (Fn TInt [Ptr (TName ''sqlite3_stmt''), TInt, Ptr
     (Const (TName ''sqlite3_value''))]))"
definition routine_busy_handler :: decl where [api_decls]:
  "routine_busy_handler = Decl ''busy_handler'' (Ptr (Fn TInt [Ptr (TName ''sqlite3''), Ptr (Fn
     TInt [Ptr TVoid, TInt]), Ptr TVoid]))"
definition routine_busy_timeout :: decl where [api_decls]:
  "routine_busy_timeout = Decl ''busy_timeout'' (Ptr (Fn TInt [Ptr (TName ''sqlite3''), TInt]))"
definition routine_changes :: decl where [api_decls]:
  "routine_changes = Decl ''changes'' (Ptr (Fn TInt [Ptr (TName ''sqlite3'')]))"
definition routine_close :: decl where [api_decls]:
  "routine_close = Decl ''close'' (Ptr (Fn TInt [Ptr (TName ''sqlite3'')]))"
definition routine_collation_needed :: decl where [api_decls]:
  "routine_collation_needed = Decl ''collation_needed'' (Ptr (Fn TInt [Ptr (TName ''sqlite3''),
     Ptr TVoid, Ptr (Fn TVoid [Ptr TVoid, Ptr (TName ''sqlite3''), TInt, Ptr (Const TChar)])]))"
definition routine_collation_needed16 :: decl where [api_decls]:
  "routine_collation_needed16 = Decl ''collation_needed16'' (Ptr (Fn TInt [Ptr (TName
     ''sqlite3''), Ptr TVoid, Ptr (Fn TVoid [Ptr TVoid, Ptr (TName ''sqlite3''), TInt, Ptr (Const
     TVoid)])]))"
definition routine_column_blob :: decl where [api_decls]:
  "routine_column_blob = Decl ''column_blob'' (Ptr (Fn (Ptr (Const TVoid)) [Ptr (TName
     ''sqlite3_stmt''), TInt]))"
definition routine_column_bytes :: decl where [api_decls]:
  "routine_column_bytes = Decl ''column_bytes'' (Ptr (Fn TInt [Ptr (TName ''sqlite3_stmt''),
     TInt]))"
definition routine_column_bytes16 :: decl where [api_decls]:
  "routine_column_bytes16 = Decl ''column_bytes16'' (Ptr (Fn TInt [Ptr (TName ''sqlite3_stmt''),
     TInt]))"
definition routine_column_count :: decl where [api_decls]:
  "routine_column_count = Decl ''column_count'' (Ptr (Fn TInt [Ptr (TName ''sqlite3_stmt'')]))"
definition routine_column_database_name :: decl where [api_decls]:
  "routine_column_database_name = Decl ''column_database_name'' (Ptr (Fn (Ptr (Const TChar)) [Ptr
     (TName ''sqlite3_stmt''), TInt]))"
definition routine_column_database_name16 :: decl where [api_decls]:
  "routine_column_database_name16 = Decl ''column_database_name16'' (Ptr (Fn (Ptr (Const TVoid))
     [Ptr (TName ''sqlite3_stmt''), TInt]))"
definition routine_column_decltype :: decl where [api_decls]:
  "routine_column_decltype = Decl ''column_decltype'' (Ptr (Fn (Ptr (Const TChar)) [Ptr (TName
     ''sqlite3_stmt''), TInt]))"
definition routine_column_decltype16 :: decl where [api_decls]:
  "routine_column_decltype16 = Decl ''column_decltype16'' (Ptr (Fn (Ptr (Const TVoid)) [Ptr (TName
     ''sqlite3_stmt''), TInt]))"
definition routine_column_double :: decl where [api_decls]:
  "routine_column_double = Decl ''column_double'' (Ptr (Fn TDouble [Ptr (TName ''sqlite3_stmt''),
     TInt]))"
definition routine_column_int :: decl where [api_decls]:
  "routine_column_int = Decl ''column_int'' (Ptr (Fn TInt [Ptr (TName ''sqlite3_stmt''), TInt]))"
definition routine_column_int64 :: decl where [api_decls]:
  "routine_column_int64 = Decl ''column_int64'' (Ptr (Fn (TName ''sqlite_int64'') [Ptr (TName
     ''sqlite3_stmt''), TInt]))"
definition routine_column_name :: decl where [api_decls]:
  "routine_column_name = Decl ''column_name'' (Ptr (Fn (Ptr (Const TChar)) [Ptr (TName
     ''sqlite3_stmt''), TInt]))"
definition routine_column_name16 :: decl where [api_decls]:
  "routine_column_name16 = Decl ''column_name16'' (Ptr (Fn (Ptr (Const TVoid)) [Ptr (TName
     ''sqlite3_stmt''), TInt]))"
definition routine_column_origin_name :: decl where [api_decls]:
  "routine_column_origin_name = Decl ''column_origin_name'' (Ptr (Fn (Ptr (Const TChar)) [Ptr
     (TName ''sqlite3_stmt''), TInt]))"
definition routine_column_origin_name16 :: decl where [api_decls]:
  "routine_column_origin_name16 = Decl ''column_origin_name16'' (Ptr (Fn (Ptr (Const TVoid)) [Ptr
     (TName ''sqlite3_stmt''), TInt]))"
definition routine_column_table_name :: decl where [api_decls]:
  "routine_column_table_name = Decl ''column_table_name'' (Ptr (Fn (Ptr (Const TChar)) [Ptr (TName
     ''sqlite3_stmt''), TInt]))"
definition routine_column_table_name16 :: decl where [api_decls]:
  "routine_column_table_name16 = Decl ''column_table_name16'' (Ptr (Fn (Ptr (Const TVoid)) [Ptr
     (TName ''sqlite3_stmt''), TInt]))"
definition routine_column_text :: decl where [api_decls]:
  "routine_column_text = Decl ''column_text'' (Ptr (Fn (Ptr (Const TUChar)) [Ptr (TName
     ''sqlite3_stmt''), TInt]))"
definition routine_column_text16 :: decl where [api_decls]:
  "routine_column_text16 = Decl ''column_text16'' (Ptr (Fn (Ptr (Const TVoid)) [Ptr (TName
     ''sqlite3_stmt''), TInt]))"
definition routine_column_type :: decl where [api_decls]:
  "routine_column_type = Decl ''column_type'' (Ptr (Fn TInt [Ptr (TName ''sqlite3_stmt''),
     TInt]))"
definition routine_column_value :: decl where [api_decls]:
  "routine_column_value = Decl ''column_value'' (Ptr (Fn (Ptr (TName ''sqlite3_value'')) [Ptr
     (TName ''sqlite3_stmt''), TInt]))"
definition routine_commit_hook :: decl where [api_decls]:
  "routine_commit_hook = Decl ''commit_hook'' (Ptr (Fn (Ptr TVoid) [Ptr (TName ''sqlite3''), Ptr
     (Fn TInt [Ptr TVoid]), Ptr TVoid]))"
definition routine_complete :: decl where [api_decls]:
  "routine_complete = Decl ''complete'' (Ptr (Fn TInt [Ptr (Const TChar)]))"
definition routine_complete16 :: decl where [api_decls]:
  "routine_complete16 = Decl ''complete16'' (Ptr (Fn TInt [Ptr (Const TVoid)]))"
definition routine_create_collation :: decl where [api_decls]:
  "routine_create_collation = Decl ''create_collation'' (Ptr (Fn TInt [Ptr (TName ''sqlite3''),
     Ptr (Const TChar), TInt, Ptr TVoid, Ptr (Fn TInt [Ptr TVoid, TInt, Ptr (Const TVoid), TInt,
     Ptr (Const TVoid)])]))"
definition routine_create_collation16 :: decl where [api_decls]:
  "routine_create_collation16 = Decl ''create_collation16'' (Ptr (Fn TInt [Ptr (TName
     ''sqlite3''), Ptr (Const TVoid), TInt, Ptr TVoid, Ptr (Fn TInt [Ptr TVoid, TInt, Ptr (Const
     TVoid), TInt, Ptr (Const TVoid)])]))"
definition routine_create_function :: decl where [api_decls]:
  "routine_create_function = Decl ''create_function'' (Ptr (Fn TInt [Ptr (TName ''sqlite3''), Ptr
     (Const TChar), TInt, TInt, Ptr TVoid, Ptr (Fn TVoid [Ptr (TName ''sqlite3_context''), TInt,
     Ptr (Ptr (TName ''sqlite3_value''))]), Ptr (Fn TVoid [Ptr (TName ''sqlite3_context''), TInt,
     Ptr (Ptr (TName ''sqlite3_value''))]), Ptr (Fn TVoid [Ptr (TName ''sqlite3_context'')])]))"
definition routine_create_function16 :: decl where [api_decls]:
  "routine_create_function16 = Decl ''create_function16'' (Ptr (Fn TInt [Ptr (TName ''sqlite3''),
     Ptr (Const TVoid), TInt, TInt, Ptr TVoid, Ptr (Fn TVoid [Ptr (TName ''sqlite3_context''),
     TInt, Ptr (Ptr (TName ''sqlite3_value''))]), Ptr (Fn TVoid [Ptr (TName ''sqlite3_context''),
     TInt, Ptr (Ptr (TName ''sqlite3_value''))]), Ptr (Fn TVoid [Ptr (TName
     ''sqlite3_context'')])]))"
definition routine_create_module :: decl where [api_decls]:
  "routine_create_module = Decl ''create_module'' (Ptr (Fn TInt [Ptr (TName ''sqlite3''), Ptr
     (Const TChar), Ptr (Const (TName ''sqlite3_module'')), Ptr TVoid]))"
definition routine_data_count :: decl where [api_decls]:
  "routine_data_count = Decl ''data_count'' (Ptr (Fn TInt [Ptr (TName ''sqlite3_stmt'')]))"
definition routine_db_handle :: decl where [api_decls]:
  "routine_db_handle = Decl ''db_handle'' (Ptr (Fn (Ptr (TName ''sqlite3'')) [Ptr (TName
     ''sqlite3_stmt'')]))"
definition routine_declare_vtab :: decl where [api_decls]:
  "routine_declare_vtab = Decl ''declare_vtab'' (Ptr (Fn TInt [Ptr (TName ''sqlite3''), Ptr (Const
     TChar)]))"
definition routine_enable_shared_cache :: decl where [api_decls]:
  "routine_enable_shared_cache = Decl ''enable_shared_cache'' (Ptr (Fn TInt [TInt]))"
definition routine_errcode :: decl where [api_decls]:
  "routine_errcode = Decl ''errcode'' (Ptr (Fn TInt [Ptr (TName ''sqlite3'')]))"
definition routine_errmsg :: decl where [api_decls]:
  "routine_errmsg = Decl ''errmsg'' (Ptr (Fn (Ptr (Const TChar)) [Ptr (TName ''sqlite3'')]))"
definition routine_errmsg16 :: decl where [api_decls]:
  "routine_errmsg16 = Decl ''errmsg16'' (Ptr (Fn (Ptr (Const TVoid)) [Ptr (TName ''sqlite3'')]))"
definition routine_exec :: decl where [api_decls]:
  "routine_exec = Decl ''exec'' (Ptr (Fn TInt [Ptr (TName ''sqlite3''), Ptr (Const TChar), TName
     ''sqlite3_callback'', Ptr TVoid, Ptr (Ptr TChar)]))"
definition routine_expired :: decl where [api_decls]:
  "routine_expired = Decl ''expired'' (Ptr (Fn TInt [Ptr (TName ''sqlite3_stmt'')]))"
definition routine_finalize :: decl where [api_decls]:
  "routine_finalize = Decl ''finalize'' (Ptr (Fn TInt [Ptr (TName ''sqlite3_stmt'')]))"
definition routine_free :: decl where [api_decls]:
  "routine_free = Decl ''free'' (Ptr (Fn TVoid [Ptr TVoid]))"
definition routine_free_table :: decl where [api_decls]:
  "routine_free_table = Decl ''free_table'' (Ptr (Fn TVoid [Ptr (Ptr TChar)]))"
definition routine_get_autocommit :: decl where [api_decls]:
  "routine_get_autocommit = Decl ''get_autocommit'' (Ptr (Fn TInt [Ptr (TName ''sqlite3'')]))"
definition routine_get_auxdata :: decl where [api_decls]:
  "routine_get_auxdata = Decl ''get_auxdata'' (Ptr (Fn (Ptr TVoid) [Ptr (TName
     ''sqlite3_context''), TInt]))"
definition routine_get_table :: decl where [api_decls]:
  "routine_get_table = Decl ''get_table'' (Ptr (Fn TInt [Ptr (TName ''sqlite3''), Ptr (Const
     TChar), Ptr (Ptr (Ptr TChar)), Ptr TInt, Ptr TInt, Ptr (Ptr TChar)]))"
definition routine_global_recover :: decl where [api_decls]:
  "routine_global_recover = Decl ''global_recover'' (Ptr (Fn TInt []))"
definition routine_interruptx :: decl where [api_decls]:
  "routine_interruptx = Decl ''interruptx'' (Ptr (Fn TVoid [Ptr (TName ''sqlite3'')]))"
definition routine_last_insert_rowid :: decl where [api_decls]:
  "routine_last_insert_rowid = Decl ''last_insert_rowid'' (Ptr (Fn (TName ''sqlite_int64'') [Ptr
     (TName ''sqlite3'')]))"
definition routine_libversion :: decl where [api_decls]:
  "routine_libversion = Decl ''libversion'' (Ptr (Fn (Ptr (Const TChar)) []))"
definition routine_libversion_number :: decl where [api_decls]:
  "routine_libversion_number = Decl ''libversion_number'' (Ptr (Fn TInt []))"
definition routine_malloc :: decl where [api_decls]:
  "routine_malloc = Decl ''malloc'' (Ptr (Fn (Ptr TVoid) [TInt]))"
definition routine_mprintf :: decl where [api_decls]:
  "routine_mprintf = Decl ''mprintf'' (Ptr (Fn (Ptr TChar) [Ptr (Const TChar), VarArg]))"
definition routine_open :: decl where [api_decls]:
  "routine_open = Decl ''open'' (Ptr (Fn TInt [Ptr (Const TChar), Ptr (Ptr (TName
     ''sqlite3''))]))"
definition routine_open16 :: decl where [api_decls]:
  "routine_open16 = Decl ''open16'' (Ptr (Fn TInt [Ptr (Const TVoid), Ptr (Ptr (TName
     ''sqlite3''))]))"
definition routine_prepare :: decl where [api_decls]:
  "routine_prepare = Decl ''prepare'' (Ptr (Fn TInt [Ptr (TName ''sqlite3''), Ptr (Const TChar),
     TInt, Ptr (Ptr (TName ''sqlite3_stmt'')), Ptr (Ptr (Const TChar))]))"
definition routine_prepare16 :: decl where [api_decls]:
  "routine_prepare16 = Decl ''prepare16'' (Ptr (Fn TInt [Ptr (TName ''sqlite3''), Ptr (Const
     TVoid), TInt, Ptr (Ptr (TName ''sqlite3_stmt'')), Ptr (Ptr (Const TVoid))]))"
definition routine_profile :: decl where [api_decls]:
  "routine_profile = Decl ''profile'' (Ptr (Fn (Ptr TVoid) [Ptr (TName ''sqlite3''), Ptr (Fn TVoid
     [Ptr TVoid, Ptr (Const TChar), TName ''sqlite_uint64'']), Ptr TVoid]))"
definition routine_progress_handler :: decl where [api_decls]:
  "routine_progress_handler = Decl ''progress_handler'' (Ptr (Fn TVoid [Ptr (TName ''sqlite3''),
     TInt, Ptr (Fn TInt [Ptr TVoid]), Ptr TVoid]))"
definition routine_realloc :: decl where [api_decls]:
  "routine_realloc = Decl ''realloc'' (Ptr (Fn (Ptr TVoid) [Ptr TVoid, TInt]))"
definition routine_reset :: decl where [api_decls]:
  "routine_reset = Decl ''reset'' (Ptr (Fn TInt [Ptr (TName ''sqlite3_stmt'')]))"
definition routine_result_blob :: decl where [api_decls]:
  "routine_result_blob = Decl ''result_blob'' (Ptr (Fn TVoid [Ptr (TName ''sqlite3_context''), Ptr
     (Const TVoid), TInt, Ptr (Fn TVoid [Ptr TVoid])]))"
definition routine_result_double :: decl where [api_decls]:
  "routine_result_double = Decl ''result_double'' (Ptr (Fn TVoid [Ptr (TName ''sqlite3_context''),
     TDouble]))"
definition routine_result_error :: decl where [api_decls]:
  "routine_result_error = Decl ''result_error'' (Ptr (Fn TVoid [Ptr (TName ''sqlite3_context''),
     Ptr (Const TChar), TInt]))"
definition routine_result_error16 :: decl where [api_decls]:
  "routine_result_error16 = Decl ''result_error16'' (Ptr (Fn TVoid [Ptr (TName
     ''sqlite3_context''), Ptr (Const TVoid), TInt]))"
definition routine_result_int :: decl where [api_decls]:
  "routine_result_int = Decl ''result_int'' (Ptr (Fn TVoid [Ptr (TName ''sqlite3_context''),
     TInt]))"
definition routine_result_int64 :: decl where [api_decls]:
  "routine_result_int64 = Decl ''result_int64'' (Ptr (Fn TVoid [Ptr (TName ''sqlite3_context''),
     TName ''sqlite_int64'']))"
definition routine_result_null :: decl where [api_decls]:
  "routine_result_null = Decl ''result_null'' (Ptr (Fn TVoid [Ptr (TName ''sqlite3_context'')]))"
definition routine_result_text :: decl where [api_decls]:
  "routine_result_text = Decl ''result_text'' (Ptr (Fn TVoid [Ptr (TName ''sqlite3_context''), Ptr
     (Const TChar), TInt, Ptr (Fn TVoid [Ptr TVoid])]))"
definition routine_result_text16 :: decl where [api_decls]:
  "routine_result_text16 = Decl ''result_text16'' (Ptr (Fn TVoid [Ptr (TName ''sqlite3_context''),
     Ptr (Const TVoid), TInt, Ptr (Fn TVoid [Ptr TVoid])]))"
definition routine_result_text16be :: decl where [api_decls]:
  "routine_result_text16be = Decl ''result_text16be'' (Ptr (Fn TVoid [Ptr (TName
     ''sqlite3_context''), Ptr (Const TVoid), TInt, Ptr (Fn TVoid [Ptr TVoid])]))"
definition routine_result_text16le :: decl where [api_decls]:
  "routine_result_text16le = Decl ''result_text16le'' (Ptr (Fn TVoid [Ptr (TName
     ''sqlite3_context''), Ptr (Const TVoid), TInt, Ptr (Fn TVoid [Ptr TVoid])]))"
definition routine_result_value :: decl where [api_decls]:
  "routine_result_value = Decl ''result_value'' (Ptr (Fn TVoid [Ptr (TName ''sqlite3_context''),
     Ptr (TName ''sqlite3_value'')]))"
definition routine_rollback_hook :: decl where [api_decls]:
  "routine_rollback_hook = Decl ''rollback_hook'' (Ptr (Fn (Ptr TVoid) [Ptr (TName ''sqlite3''),
     Ptr (Fn TVoid [Ptr TVoid]), Ptr TVoid]))"
definition routine_set_authorizer :: decl where [api_decls]:
  "routine_set_authorizer = Decl ''set_authorizer'' (Ptr (Fn TInt [Ptr (TName ''sqlite3''), Ptr
     (Fn TInt [Ptr TVoid, TInt, Ptr (Const TChar), Ptr (Const TChar), Ptr (Const TChar), Ptr
     (Const TChar)]), Ptr TVoid]))"
definition routine_set_auxdata :: decl where [api_decls]:
  "routine_set_auxdata = Decl ''set_auxdata'' (Ptr (Fn TVoid [Ptr (TName ''sqlite3_context''),
     TInt, Ptr TVoid, Ptr (Fn TVoid [Ptr TVoid])]))"
definition routine_xsnprintf :: decl where [api_decls]:
  "routine_xsnprintf = Decl ''xsnprintf'' (Ptr (Fn (Ptr TChar) [TInt, Ptr TChar, Ptr (Const
     TChar), VarArg]))"
definition routine_step :: decl where [api_decls]:
  "routine_step = Decl ''step'' (Ptr (Fn TInt [Ptr (TName ''sqlite3_stmt'')]))"
definition routine_table_column_metadata :: decl where [api_decls]:
  "routine_table_column_metadata = Decl ''table_column_metadata'' (Ptr (Fn TInt [Ptr (TName
     ''sqlite3''), Ptr (Const TChar), Ptr (Const TChar), Ptr (Const TChar), Ptr (Ptr (Const
     TChar)), Ptr (Ptr (Const TChar)), Ptr TInt, Ptr TInt, Ptr TInt]))"
definition routine_thread_cleanup :: decl where [api_decls]:
  "routine_thread_cleanup = Decl ''thread_cleanup'' (Ptr (Fn TVoid []))"
definition routine_total_changes :: decl where [api_decls]:
  "routine_total_changes = Decl ''total_changes'' (Ptr (Fn TInt [Ptr (TName ''sqlite3'')]))"
definition routine_trace :: decl where [api_decls]:
  "routine_trace = Decl ''trace'' (Ptr (Fn (Ptr TVoid) [Ptr (TName ''sqlite3''), Ptr (Fn TVoid
     [Ptr TVoid, Ptr (Const TChar)]), Ptr TVoid]))"
definition routine_transfer_bindings :: decl where [api_decls]:
  "routine_transfer_bindings = Decl ''transfer_bindings'' (Ptr (Fn TInt [Ptr (TName
     ''sqlite3_stmt''), Ptr (TName ''sqlite3_stmt'')]))"
definition routine_update_hook :: decl where [api_decls]:
  "routine_update_hook = Decl ''update_hook'' (Ptr (Fn (Ptr TVoid) [Ptr (TName ''sqlite3''), Ptr
     (Fn TVoid [Ptr TVoid, TInt, Ptr (Const TChar), Ptr (Const TChar), TName ''sqlite_int64'']),
     Ptr TVoid]))"
definition routine_user_data :: decl where [api_decls]:
  "routine_user_data = Decl ''user_data'' (Ptr (Fn (Ptr TVoid) [Ptr (TName
     ''sqlite3_context'')]))"
definition routine_value_blob :: decl where [api_decls]:
  "routine_value_blob = Decl ''value_blob'' (Ptr (Fn (Ptr (Const TVoid)) [Ptr (TName
     ''sqlite3_value'')]))"
definition routine_value_bytes :: decl where [api_decls]:
  "routine_value_bytes = Decl ''value_bytes'' (Ptr (Fn TInt [Ptr (TName ''sqlite3_value'')]))"
definition routine_value_bytes16 :: decl where [api_decls]:
  "routine_value_bytes16 = Decl ''value_bytes16'' (Ptr (Fn TInt [Ptr (TName ''sqlite3_value'')]))"
definition routine_value_double :: decl where [api_decls]:
  "routine_value_double = Decl ''value_double'' (Ptr (Fn TDouble [Ptr (TName
     ''sqlite3_value'')]))"
definition routine_value_int :: decl where [api_decls]:
  "routine_value_int = Decl ''value_int'' (Ptr (Fn TInt [Ptr (TName ''sqlite3_value'')]))"
definition routine_value_int64 :: decl where [api_decls]:
  "routine_value_int64 = Decl ''value_int64'' (Ptr (Fn (TName ''sqlite_int64'') [Ptr (TName
     ''sqlite3_value'')]))"
definition routine_value_numeric_type :: decl where [api_decls]:
  "routine_value_numeric_type = Decl ''value_numeric_type'' (Ptr (Fn TInt [Ptr (TName
     ''sqlite3_value'')]))"
definition routine_value_text :: decl where [api_decls]:
  "routine_value_text = Decl ''value_text'' (Ptr (Fn (Ptr (Const TUChar)) [Ptr (TName
     ''sqlite3_value'')]))"
definition routine_value_text16 :: decl where [api_decls]:
  "routine_value_text16 = Decl ''value_text16'' (Ptr (Fn (Ptr (Const TVoid)) [Ptr (TName
     ''sqlite3_value'')]))"
definition routine_value_text16be :: decl where [api_decls]:
  "routine_value_text16be = Decl ''value_text16be'' (Ptr (Fn (Ptr (Const TVoid)) [Ptr (TName
     ''sqlite3_value'')]))"
definition routine_value_text16le :: decl where [api_decls]:
  "routine_value_text16le = Decl ''value_text16le'' (Ptr (Fn (Ptr (Const TVoid)) [Ptr (TName
     ''sqlite3_value'')]))"
definition routine_value_type :: decl where [api_decls]:
  "routine_value_type = Decl ''value_type'' (Ptr (Fn TInt [Ptr (TName ''sqlite3_value'')]))"
definition routine_vmprintf :: decl where [api_decls]:
  "routine_vmprintf = Decl ''vmprintf'' (Ptr (Fn (Ptr TChar) [Ptr (Const TChar), TName
     ''va_list'']))"

definition routines_base :: "decl list" where
  "routines_base = [routine_aggregate_context, routine_aggregate_count, routine_bind_blob,
     routine_bind_double, routine_bind_int, routine_bind_int64, routine_bind_null,
     routine_bind_parameter_count, routine_bind_parameter_index, routine_bind_parameter_name,
     routine_bind_text, routine_bind_text16, routine_bind_value, routine_busy_handler,
     routine_busy_timeout, routine_changes, routine_close, routine_collation_needed,
     routine_collation_needed16, routine_column_blob, routine_column_bytes,
     routine_column_bytes16, routine_column_count, routine_column_database_name,
     routine_column_database_name16, routine_column_decltype, routine_column_decltype16,
     routine_column_double, routine_column_int, routine_column_int64, routine_column_name,
     routine_column_name16, routine_column_origin_name, routine_column_origin_name16,
     routine_column_table_name, routine_column_table_name16, routine_column_text,
     routine_column_text16, routine_column_type, routine_column_value, routine_commit_hook,
     routine_complete, routine_complete16, routine_create_collation, routine_create_collation16,
     routine_create_function, routine_create_function16, routine_create_module,
     routine_data_count, routine_db_handle, routine_declare_vtab, routine_enable_shared_cache,
     routine_errcode, routine_errmsg, routine_errmsg16, routine_exec, routine_expired,
     routine_finalize, routine_free, routine_free_table, routine_get_autocommit,
     routine_get_auxdata, routine_get_table, routine_global_recover, routine_interruptx,
     routine_last_insert_rowid, routine_libversion, routine_libversion_number, routine_malloc,
     routine_mprintf, routine_open, routine_open16, routine_prepare, routine_prepare16,
     routine_profile, routine_progress_handler, routine_realloc, routine_reset,
     routine_result_blob, routine_result_double, routine_result_error, routine_result_error16,
     routine_result_int, routine_result_int64, routine_result_null, routine_result_text,
     routine_result_text16, routine_result_text16be, routine_result_text16le,
     routine_result_value, routine_rollback_hook, routine_set_authorizer, routine_set_auxdata,
     routine_xsnprintf, routine_step, routine_table_column_metadata, routine_thread_cleanup,
     routine_total_changes, routine_trace, routine_transfer_bindings, routine_update_hook,
     routine_user_data, routine_value_blob, routine_value_bytes, routine_value_bytes16,
     routine_value_double, routine_value_int, routine_value_int64, routine_value_numeric_type,
     routine_value_text, routine_value_text16, routine_value_text16be, routine_value_text16le,
     routine_value_type, routine_vmprintf]"

definition routine_overload_function :: decl where [api_decls]:
  "routine_overload_function = Decl ''overload_function'' (Ptr (Fn TInt [Ptr (TName ''sqlite3''),
     Ptr (Const TChar), TInt]))"

definition routines_unlabelled :: "decl list" where
  "routines_unlabelled = [routine_overload_function]"

definition routine_prepare_v2 :: decl where [api_decls]:
  "routine_prepare_v2 = Decl ''prepare_v2'' (Ptr (Fn TInt [Ptr (TName ''sqlite3''), Ptr (Const
     TChar), TInt, Ptr (Ptr (TName ''sqlite3_stmt'')), Ptr (Ptr (Const TChar))]))"
definition routine_prepare16_v2 :: decl where [api_decls]:
  "routine_prepare16_v2 = Decl ''prepare16_v2'' (Ptr (Fn TInt [Ptr (TName ''sqlite3''), Ptr (Const
     TVoid), TInt, Ptr (Ptr (TName ''sqlite3_stmt'')), Ptr (Ptr (Const TVoid))]))"
definition routine_clear_bindings :: decl where [api_decls]:
  "routine_clear_bindings = Decl ''clear_bindings'' (Ptr (Fn TInt [Ptr (TName
     ''sqlite3_stmt'')]))"

definition routines_v3_3_13 :: "decl list" where
  "routines_v3_3_13 = [routine_prepare_v2, routine_prepare16_v2, routine_clear_bindings]"

definition routine_create_module_v2 :: decl where [api_decls]:
  "routine_create_module_v2 = Decl ''create_module_v2'' (Ptr (Fn TInt [Ptr (TName ''sqlite3''),
     Ptr (Const TChar), Ptr (Const (TName ''sqlite3_module'')), Ptr TVoid, Ptr (Fn TVoid [Ptr
     TVoid])]))"

definition routines_v3_4_1 :: "decl list" where
  "routines_v3_4_1 = [routine_create_module_v2]"

definition routine_bind_zeroblob :: decl where [api_decls]:
  "routine_bind_zeroblob = Decl ''bind_zeroblob'' (Ptr (Fn TInt [Ptr (TName ''sqlite3_stmt''),
     TInt, TInt]))"
definition routine_blob_bytes :: decl where [api_decls]:
  "routine_blob_bytes = Decl ''blob_bytes'' (Ptr (Fn TInt [Ptr (TName ''sqlite3_blob'')]))"
definition routine_blob_close :: decl where [api_decls]:
  "routine_blob_close = Decl ''blob_close'' (Ptr (Fn TInt [Ptr (TName ''sqlite3_blob'')]))"
definition routine_blob_open :: decl where [api_decls]:
  "routine_blob_open = Decl ''blob_open'' (Ptr (Fn TInt [Ptr (TName ''sqlite3''), Ptr (Const
     TChar), Ptr (Const TChar), Ptr (Const TChar), TName ''sqlite3_int64'', TInt, Ptr (Ptr (TName
     ''sqlite3_blob''))]))"
definition routine_blob_read :: decl where [api_decls]:
  "routine_blob_read = Decl ''blob_read'' (Ptr (Fn TInt [Ptr (TName ''sqlite3_blob''), Ptr TVoid,
     TInt, TInt]))"
definition routine_blob_write :: decl where [api_decls]:
  "routine_blob_write = Decl ''blob_write'' (Ptr (Fn TInt [Ptr (TName ''sqlite3_blob''), Ptr
     (Const TVoid), TInt, TInt]))"
definition routine_create_collation_v2 :: decl where [api_decls]:
  "routine_create_collation_v2 = Decl ''create_collation_v2'' (Ptr (Fn TInt [Ptr (TName
     ''sqlite3''), Ptr (Const TChar), TInt, Ptr TVoid, Ptr (Fn TInt [Ptr TVoid, TInt, Ptr (Const
     TVoid), TInt, Ptr (Const TVoid)]), Ptr (Fn TVoid [Ptr TVoid])]))"
definition routine_file_control :: decl where [api_decls]:
  "routine_file_control = Decl ''file_control'' (Ptr (Fn TInt [Ptr (TName ''sqlite3''), Ptr (Const
     TChar), TInt, Ptr TVoid]))"
definition routine_memory_highwater :: decl where [api_decls]:
  "routine_memory_highwater = Decl ''memory_highwater'' (Ptr (Fn (TName ''sqlite3_int64'')
     [TInt]))"
definition routine_memory_used :: decl where [api_decls]:
  "routine_memory_used = Decl ''memory_used'' (Ptr (Fn (TName ''sqlite3_int64'') []))"
definition routine_mutex_alloc :: decl where [api_decls]:
  "routine_mutex_alloc = Decl ''mutex_alloc'' (Ptr (Fn (Ptr (TName ''sqlite3_mutex'')) [TInt]))"
definition routine_mutex_enter :: decl where [api_decls]:
  "routine_mutex_enter = Decl ''mutex_enter'' (Ptr (Fn TVoid [Ptr (TName ''sqlite3_mutex'')]))"
definition routine_mutex_free :: decl where [api_decls]:
  "routine_mutex_free = Decl ''mutex_free'' (Ptr (Fn TVoid [Ptr (TName ''sqlite3_mutex'')]))"
definition routine_mutex_leave :: decl where [api_decls]:
  "routine_mutex_leave = Decl ''mutex_leave'' (Ptr (Fn TVoid [Ptr (TName ''sqlite3_mutex'')]))"
definition routine_mutex_try :: decl where [api_decls]:
  "routine_mutex_try = Decl ''mutex_try'' (Ptr (Fn TInt [Ptr (TName ''sqlite3_mutex'')]))"
definition routine_open_v2 :: decl where [api_decls]:
  "routine_open_v2 = Decl ''open_v2'' (Ptr (Fn TInt [Ptr (Const TChar), Ptr (Ptr (TName
     ''sqlite3'')), TInt, Ptr (Const TChar)]))"
definition routine_release_memory :: decl where [api_decls]:
  "routine_release_memory = Decl ''release_memory'' (Ptr (Fn TInt [TInt]))"
definition routine_result_error_nomem :: decl where [api_decls]:
  "routine_result_error_nomem = Decl ''result_error_nomem'' (Ptr (Fn TVoid [Ptr (TName
     ''sqlite3_context'')]))"
definition routine_result_error_toobig :: decl where [api_decls]:
  "routine_result_error_toobig = Decl ''result_error_toobig'' (Ptr (Fn TVoid [Ptr (TName
     ''sqlite3_context'')]))"
definition routine_sleep :: decl where [api_decls]:
  "routine_sleep = Decl ''sleep'' (Ptr (Fn TInt [TInt]))"
definition routine_soft_heap_limit :: decl where [api_decls]:
  "routine_soft_heap_limit = Decl ''soft_heap_limit'' (Ptr (Fn TVoid [TInt]))"
definition routine_vfs_find :: decl where [api_decls]:
  "routine_vfs_find = Decl ''vfs_find'' (Ptr (Fn (Ptr (TName ''sqlite3_vfs'')) [Ptr (Const
     TChar)]))"
definition routine_vfs_register :: decl where [api_decls]:
  "routine_vfs_register = Decl ''vfs_register'' (Ptr (Fn TInt [Ptr (TName ''sqlite3_vfs''),
     TInt]))"
definition routine_vfs_unregister :: decl where [api_decls]:
  "routine_vfs_unregister = Decl ''vfs_unregister'' (Ptr (Fn TInt [Ptr (TName ''sqlite3_vfs'')]))"
definition routine_xthreadsafe :: decl where [api_decls]:
  "routine_xthreadsafe = Decl ''xthreadsafe'' (Ptr (Fn TInt []))"
definition routine_result_zeroblob :: decl where [api_decls]:
  "routine_result_zeroblob = Decl ''result_zeroblob'' (Ptr (Fn TVoid [Ptr (TName
     ''sqlite3_context''), TInt]))"
definition routine_result_error_code :: decl where [api_decls]:
  "routine_result_error_code = Decl ''result_error_code'' (Ptr (Fn TVoid [Ptr (TName
     ''sqlite3_context''), TInt]))"
definition routine_test_control :: decl where [api_decls]:
  "routine_test_control = Decl ''test_control'' (Ptr (Fn TInt [TInt, VarArg]))"
definition routine_randomness :: decl where [api_decls]:
  "routine_randomness = Decl ''randomness'' (Ptr (Fn TVoid [TInt, Ptr TVoid]))"
definition routine_context_db_handle :: decl where [api_decls]:
  "routine_context_db_handle = Decl ''context_db_handle'' (Ptr (Fn (Ptr (TName ''sqlite3'')) [Ptr
     (TName ''sqlite3_context'')]))"
definition routine_extended_result_codes :: decl where [api_decls]:
  "routine_extended_result_codes = Decl ''extended_result_codes'' (Ptr (Fn TInt [Ptr (TName
     ''sqlite3''), TInt]))"
definition routine_limit :: decl where [api_decls]:
  "routine_limit = Decl ''limit'' (Ptr (Fn TInt [Ptr (TName ''sqlite3''), TInt, TInt]))"
definition routine_next_stmt :: decl where [api_decls]:
  "routine_next_stmt = Decl ''next_stmt'' (Ptr (Fn (Ptr (TName ''sqlite3_stmt'')) [Ptr (TName
     ''sqlite3''), Ptr (TName ''sqlite3_stmt'')]))"
definition routine_sql :: decl where [api_decls]:
  "routine_sql = Decl ''sql'' (Ptr (Fn (Ptr (Const TChar)) [Ptr (TName ''sqlite3_stmt'')]))"
definition routine_status :: decl where [api_decls]:
  "routine_status = Decl ''status'' (Ptr (Fn TInt [TInt, Ptr TInt, Ptr TInt, TInt]))"
definition routine_backup_finish :: decl where [api_decls]:
  "routine_backup_finish = Decl ''backup_finish'' (Ptr (Fn TInt [Ptr (TName
     ''sqlite3_backup'')]))"
definition routine_backup_init :: decl where [api_decls]:
  "routine_backup_init = Decl ''backup_init'' (Ptr (Fn (Ptr (TName ''sqlite3_backup'')) [Ptr
     (TName ''sqlite3''), Ptr (Const TChar), Ptr (TName ''sqlite3''), Ptr (Const TChar)]))"
definition routine_backup_pagecount :: decl where [api_decls]:
  "routine_backup_pagecount = Decl ''backup_pagecount'' (Ptr (Fn TInt [Ptr (TName
     ''sqlite3_backup'')]))"
definition routine_backup_remaining :: decl where [api_decls]:
  "routine_backup_remaining = Decl ''backup_remaining'' (Ptr (Fn TInt [Ptr (TName
     ''sqlite3_backup'')]))"
definition routine_backup_step :: decl where [api_decls]:
  "routine_backup_step = Decl ''backup_step'' (Ptr (Fn TInt [Ptr (TName ''sqlite3_backup''),
     TInt]))"
definition routine_compileoption_get :: decl where [api_decls]:
  "routine_compileoption_get = Decl ''compileoption_get'' (Ptr (Fn (Ptr (Const TChar)) [TInt]))"
definition routine_compileoption_used :: decl where [api_decls]:
  "routine_compileoption_used = Decl ''compileoption_used'' (Ptr (Fn TInt [Ptr (Const TChar)]))"
definition routine_create_function_v2 :: decl where [api_decls]:
  "routine_create_function_v2 = Decl ''create_function_v2'' (Ptr (Fn TInt [Ptr (TName
     ''sqlite3''), Ptr (Const TChar), TInt, TInt, Ptr TVoid, Ptr (Fn TVoid [Ptr (TName
     ''sqlite3_context''), TInt, Ptr (Ptr (TName ''sqlite3_value''))]), Ptr (Fn TVoid [Ptr (TName
     ''sqlite3_context''), TInt, Ptr (Ptr (TName ''sqlite3_value''))]), Ptr (Fn TVoid [Ptr (TName
     ''sqlite3_context'')]), Ptr (Fn TVoid [Ptr TVoid])]))"
definition routine_db_config :: decl where [api_decls]:
  "routine_db_config = Decl ''db_config'' (Ptr (Fn TInt [Ptr (TName ''sqlite3''), TInt, VarArg]))"
definition routine_db_mutex :: decl where [api_decls]:
  "routine_db_mutex = Decl ''db_mutex'' (Ptr (Fn (Ptr (TName ''sqlite3_mutex'')) [Ptr (TName
     ''sqlite3'')]))"
definition routine_db_status :: decl where [api_decls]:
  "routine_db_status = Decl ''db_status'' (Ptr (Fn TInt [Ptr (TName ''sqlite3''), TInt, Ptr TInt,
     Ptr TInt, TInt]))"
definition routine_extended_errcode :: decl where [api_decls]:
  "routine_extended_errcode = Decl ''extended_errcode'' (Ptr (Fn TInt [Ptr (TName ''sqlite3'')]))"
definition routine_log :: decl where [api_decls]:
  "routine_log = Decl ''log'' (Ptr (Fn TVoid [TInt, Ptr (Const TChar), VarArg]))"
definition routine_soft_heap_limit64 :: decl where [api_decls]:
  "routine_soft_heap_limit64 = Decl ''soft_heap_limit64'' (Ptr (Fn (TName ''sqlite3_int64'')
     [TName ''sqlite3_int64'']))"
definition routine_sourceid :: decl where [api_decls]:
  "routine_sourceid = Decl ''sourceid'' (Ptr (Fn (Ptr (Const TChar)) []))"
definition routine_stmt_status :: decl where [api_decls]:
  "routine_stmt_status = Decl ''stmt_status'' (Ptr (Fn TInt [Ptr (TName ''sqlite3_stmt''), TInt,
     TInt]))"
definition routine_strnicmp :: decl where [api_decls]:
  "routine_strnicmp = Decl ''strnicmp'' (Ptr (Fn TInt [Ptr (Const TChar), Ptr (Const TChar),
     TInt]))"
definition routine_unlock_notify :: decl where [api_decls]:
  "routine_unlock_notify = Decl ''unlock_notify'' (Ptr (Fn TInt [Ptr (TName ''sqlite3''), Ptr (Fn
     TVoid [Ptr (Ptr TVoid), TInt]), Ptr TVoid]))"
definition routine_wal_autocheckpoint :: decl where [api_decls]:
  "routine_wal_autocheckpoint = Decl ''wal_autocheckpoint'' (Ptr (Fn TInt [Ptr (TName
     ''sqlite3''), TInt]))"
definition routine_wal_checkpoint :: decl where [api_decls]:
  "routine_wal_checkpoint = Decl ''wal_checkpoint'' (Ptr (Fn TInt [Ptr (TName ''sqlite3''), Ptr
     (Const TChar)]))"
definition routine_wal_hook :: decl where [api_decls]:
  "routine_wal_hook = Decl ''wal_hook'' (Ptr (Fn (Ptr TVoid) [Ptr (TName ''sqlite3''), Ptr (Fn
     TInt [Ptr TVoid, Ptr (TName ''sqlite3''), Ptr (Const TChar), TInt]), Ptr TVoid]))"
definition routine_blob_reopen :: decl where [api_decls]:
  "routine_blob_reopen = Decl ''blob_reopen'' (Ptr (Fn TInt [Ptr (TName ''sqlite3_blob''), TName
     ''sqlite3_int64'']))"
definition routine_vtab_config :: decl where [api_decls]:
  "routine_vtab_config = Decl ''vtab_config'' (Ptr (Fn TInt [Ptr (TName ''sqlite3''), TInt,
     VarArg]))"
definition routine_vtab_on_conflict :: decl where [api_decls]:
  "routine_vtab_on_conflict = Decl ''vtab_on_conflict'' (Ptr (Fn TInt [Ptr (TName ''sqlite3'')]))"

definition routines_v3_5_0 :: "decl list" where
  "routines_v3_5_0 = [routine_bind_zeroblob, routine_blob_bytes, routine_blob_close,
     routine_blob_open, routine_blob_read, routine_blob_write, routine_create_collation_v2,
     routine_file_control, routine_memory_highwater, routine_memory_used, routine_mutex_alloc,
     routine_mutex_enter, routine_mutex_free, routine_mutex_leave, routine_mutex_try,
     routine_open_v2, routine_release_memory, routine_result_error_nomem,
     routine_result_error_toobig, routine_sleep, routine_soft_heap_limit, routine_vfs_find,
     routine_vfs_register, routine_vfs_unregister, routine_xthreadsafe, routine_result_zeroblob,
     routine_result_error_code, routine_test_control, routine_randomness,
     routine_context_db_handle, routine_extended_result_codes, routine_limit, routine_next_stmt,
     routine_sql, routine_status, routine_backup_finish, routine_backup_init,
     routine_backup_pagecount, routine_backup_remaining, routine_backup_step,
     routine_compileoption_get, routine_compileoption_used, routine_create_function_v2,
     routine_db_config, routine_db_mutex, routine_db_status, routine_extended_errcode,
     routine_log, routine_soft_heap_limit64, routine_sourceid, routine_stmt_status,
     routine_strnicmp, routine_unlock_notify, routine_wal_autocheckpoint, routine_wal_checkpoint,
     routine_wal_hook, routine_blob_reopen, routine_vtab_config, routine_vtab_on_conflict]"

definition routine_close_v2 :: decl where [api_decls]:
  "routine_close_v2 = Decl ''close_v2'' (Ptr (Fn TInt [Ptr (TName ''sqlite3'')]))"
definition routine_db_filename :: decl where [api_decls]:
  "routine_db_filename = Decl ''db_filename'' (Ptr (Fn (Ptr (Const TChar)) [Ptr (TName
     ''sqlite3''), Ptr (Const TChar)]))"
definition routine_db_readonly :: decl where [api_decls]:
  "routine_db_readonly = Decl ''db_readonly'' (Ptr (Fn TInt [Ptr (TName ''sqlite3''), Ptr (Const
     TChar)]))"
definition routine_db_release_memory :: decl where [api_decls]:
  "routine_db_release_memory = Decl ''db_release_memory'' (Ptr (Fn TInt [Ptr (TName
     ''sqlite3'')]))"
definition routine_errstr :: decl where [api_decls]:
  "routine_errstr = Decl ''errstr'' (Ptr (Fn (Ptr (Const TChar)) [TInt]))"
definition routine_stmt_busy :: decl where [api_decls]:
  "routine_stmt_busy = Decl ''stmt_busy'' (Ptr (Fn TInt [Ptr (TName ''sqlite3_stmt'')]))"
definition routine_stmt_readonly :: decl where [api_decls]:
  "routine_stmt_readonly = Decl ''stmt_readonly'' (Ptr (Fn TInt [Ptr (TName ''sqlite3_stmt'')]))"
definition routine_stricmp :: decl where [api_decls]:
  "routine_stricmp = Decl ''stricmp'' (Ptr (Fn TInt [Ptr (Const TChar), Ptr (Const TChar)]))"
definition routine_uri_boolean :: decl where [api_decls]:
  "routine_uri_boolean = Decl ''uri_boolean'' (Ptr (Fn TInt [Ptr (Const TChar), Ptr (Const TChar),
     TInt]))"
definition routine_uri_int64 :: decl where [api_decls]:
  "routine_uri_int64 = Decl ''uri_int64'' (Ptr (Fn (TName ''sqlite3_int64'') [Ptr (Const TChar),
     Ptr (Const TChar), TName ''sqlite3_int64'']))"
definition routine_uri_parameter :: decl where [api_decls]:
  "routine_uri_parameter = Decl ''uri_parameter'' (Ptr (Fn (Ptr (Const TChar)) [Ptr (Const TChar),
     Ptr (Const TChar)]))"
definition routine_xvsnprintf :: decl where [api_decls]:
  "routine_xvsnprintf = Decl ''xvsnprintf'' (Ptr (Fn (Ptr TChar) [TInt, Ptr TChar, Ptr (Const
     TChar), TName ''va_list'']))"
definition routine_wal_checkpoint_v2 :: decl where [api_decls]:
  "routine_wal_checkpoint_v2 = Decl ''wal_checkpoint_v2'' (Ptr (Fn TInt [Ptr (TName ''sqlite3''),
     Ptr (Const TChar), TInt, Ptr TInt, Ptr TInt]))"

definition routines_v3_7_16 :: "decl list" where
  "routines_v3_7_16 = [routine_close_v2, routine_db_filename, routine_db_readonly,
     routine_db_release_memory, routine_errstr, routine_stmt_busy, routine_stmt_readonly,
     routine_stricmp, routine_uri_boolean, routine_uri_int64, routine_uri_parameter,
     routine_xvsnprintf, routine_wal_checkpoint_v2]"

definition routine_auto_extension :: decl where [api_decls]:
  "routine_auto_extension = Decl ''auto_extension'' (Ptr (Fn TInt [Ptr (Fn TVoid [])]))"
definition routine_bind_blob64 :: decl where [api_decls]:
  "routine_bind_blob64 = Decl ''bind_blob64'' (Ptr (Fn TInt [Ptr (TName ''sqlite3_stmt''), TInt,
     Ptr (Const TVoid), TName ''sqlite3_uint64'', Ptr (Fn TVoid [Ptr TVoid])]))"
definition routine_bind_text64 :: decl where [api_decls]:
  "routine_bind_text64 = Decl ''bind_text64'' (Ptr (Fn TInt [Ptr (TName ''sqlite3_stmt''), TInt,
     Ptr (Const TChar), TName ''sqlite3_uint64'', Ptr (Fn TVoid [Ptr TVoid]), TUChar]))"
definition routine_cancel_auto_extension :: decl where [api_decls]:
  "routine_cancel_auto_extension = Decl ''cancel_auto_extension'' (Ptr (Fn TInt [Ptr (Fn TVoid
     [])]))"
definition routine_load_extension :: decl where [api_decls]:
  "routine_load_extension = Decl ''load_extension'' (Ptr (Fn TInt [Ptr (TName ''sqlite3''), Ptr
     (Const TChar), Ptr (Const TChar), Ptr (Ptr TChar)]))"
definition routine_malloc64 :: decl where [api_decls]:
  "routine_malloc64 = Decl ''malloc64'' (Ptr (Fn (Ptr TVoid) [TName ''sqlite3_uint64'']))"
definition routine_msize :: decl where [api_decls]:
  "routine_msize = Decl ''msize'' (Ptr (Fn (TName ''sqlite3_uint64'') [Ptr TVoid]))"
definition routine_realloc64 :: decl where [api_decls]:
  "routine_realloc64 = Decl ''realloc64'' (Ptr (Fn (Ptr TVoid) [Ptr TVoid, TName
     ''sqlite3_uint64'']))"
definition routine_reset_auto_extension :: decl where [api_decls]:
  "routine_reset_auto_extension = Decl ''reset_auto_extension'' (Ptr (Fn TVoid []))"
definition routine_result_blob64 :: decl where [api_decls]:
  "routine_result_blob64 = Decl ''result_blob64'' (Ptr (Fn TVoid [Ptr (TName ''sqlite3_context''),
     Ptr (Const TVoid), TName ''sqlite3_uint64'', Ptr (Fn TVoid [Ptr TVoid])]))"
definition routine_result_text64 :: decl where [api_decls]:
  "routine_result_text64 = Decl ''result_text64'' (Ptr (Fn TVoid [Ptr (TName ''sqlite3_context''),
     Ptr (Const TChar), TName ''sqlite3_uint64'', Ptr (Fn TVoid [Ptr TVoid]), TUChar]))"
definition routine_strglob :: decl where [api_decls]:
  "routine_strglob = Decl ''strglob'' (Ptr (Fn TInt [Ptr (Const TChar), Ptr (Const TChar)]))"

definition routines_v3_8_7 :: "decl list" where
  "routines_v3_8_7 = [routine_auto_extension, routine_bind_blob64, routine_bind_text64,
     routine_cancel_auto_extension, routine_load_extension, routine_malloc64, routine_msize,
     routine_realloc64, routine_reset_auto_extension, routine_result_blob64,
     routine_result_text64, routine_strglob]"

definition routine_value_dup :: decl where [api_decls]:
  "routine_value_dup = Decl ''value_dup'' (Ptr (Fn (Ptr (TName ''sqlite3_value'')) [Ptr (Const
     (TName ''sqlite3_value''))]))"
definition routine_value_free :: decl where [api_decls]:
  "routine_value_free = Decl ''value_free'' (Ptr (Fn TVoid [Ptr (TName ''sqlite3_value'')]))"
definition routine_result_zeroblob64 :: decl where [api_decls]:
  "routine_result_zeroblob64 = Decl ''result_zeroblob64'' (Ptr (Fn TInt [Ptr (TName
     ''sqlite3_context''), TName ''sqlite3_uint64'']))"
definition routine_bind_zeroblob64 :: decl where [api_decls]:
  "routine_bind_zeroblob64 = Decl ''bind_zeroblob64'' (Ptr (Fn TInt [Ptr (TName ''sqlite3_stmt''),
     TInt, TName ''sqlite3_uint64'']))"

definition routines_v3_8_11 :: "decl list" where
  "routines_v3_8_11 = [routine_value_dup, routine_value_free, routine_result_zeroblob64,
     routine_bind_zeroblob64]"

definition routine_value_subtype :: decl where [api_decls]:
  "routine_value_subtype = Decl ''value_subtype'' (Ptr (Fn TUInt [Ptr (TName
     ''sqlite3_value'')]))"
definition routine_result_subtype :: decl where [api_decls]:
  "routine_result_subtype = Decl ''result_subtype'' (Ptr (Fn TVoid [Ptr (TName
     ''sqlite3_context''), TUInt]))"

definition routines_v3_9_0 :: "decl list" where
  "routines_v3_9_0 = [routine_value_subtype, routine_result_subtype]"

definition routine_status64 :: decl where [api_decls]:
  "routine_status64 = Decl ''status64'' (Ptr (Fn TInt [TInt, Ptr (TName ''sqlite3_int64''), Ptr
     (TName ''sqlite3_int64''), TInt]))"
definition routine_strlike :: decl where [api_decls]:
  "routine_strlike = Decl ''strlike'' (Ptr (Fn TInt [Ptr (Const TChar), Ptr (Const TChar),
     TUInt]))"
definition routine_db_cacheflush :: decl where [api_decls]:
  "routine_db_cacheflush = Decl ''db_cacheflush'' (Ptr (Fn TInt [Ptr (TName ''sqlite3'')]))"

definition routines_v3_10_0 :: "decl list" where
  "routines_v3_10_0 = [routine_status64, routine_strlike, routine_db_cacheflush]"

definition routine_system_errno :: decl where [api_decls]:
  "routine_system_errno = Decl ''system_errno'' (Ptr (Fn TInt [Ptr (TName ''sqlite3'')]))"

definition routines_v3_12_0 :: "decl list" where
  "routines_v3_12_0 = [routine_system_errno]"

definition routine_trace_v2 :: decl where [api_decls]:
  "routine_trace_v2 = Decl ''trace_v2'' (Ptr (Fn TInt [Ptr (TName ''sqlite3''), TUInt, Ptr (Fn
     TInt [TUInt, Ptr TVoid, Ptr TVoid, Ptr TVoid]), Ptr TVoid]))"
definition routine_expanded_sql :: decl where [api_decls]:
  "routine_expanded_sql = Decl ''expanded_sql'' (Ptr (Fn (Ptr TChar) [Ptr (TName
     ''sqlite3_stmt'')]))"

definition routines_v3_14_0 :: "decl list" where
  "routines_v3_14_0 = [routine_trace_v2, routine_expanded_sql]"

definition routine_set_last_insert_rowid :: decl where [api_decls]:
  "routine_set_last_insert_rowid = Decl ''set_last_insert_rowid'' (Ptr (Fn TVoid [Ptr (TName
     ''sqlite3''), TName ''sqlite3_int64'']))"

definition routines_v3_18_0 :: "decl list" where
  "routines_v3_18_0 = [routine_set_last_insert_rowid]"

definition routine_prepare_v3 :: decl where [api_decls]:
  "routine_prepare_v3 = Decl ''prepare_v3'' (Ptr (Fn TInt [Ptr (TName ''sqlite3''), Ptr (Const
     TChar), TInt, TUInt, Ptr (Ptr (TName ''sqlite3_stmt'')), Ptr (Ptr (Const TChar))]))"
definition routine_prepare16_v3 :: decl where [api_decls]:
  "routine_prepare16_v3 = Decl ''prepare16_v3'' (Ptr (Fn TInt [Ptr (TName ''sqlite3''), Ptr (Const
     TVoid), TInt, TUInt, Ptr (Ptr (TName ''sqlite3_stmt'')), Ptr (Ptr (Const TVoid))]))"
definition routine_bind_pointer :: decl where [api_decls]:
  "routine_bind_pointer = Decl ''bind_pointer'' (Ptr (Fn TInt [Ptr (TName ''sqlite3_stmt''), TInt,
     Ptr TVoid, Ptr (Const TChar), Ptr (Fn TVoid [Ptr TVoid])]))"
definition routine_result_pointer :: decl where [api_decls]:
  "routine_result_pointer = Decl ''result_pointer'' (Ptr (Fn TVoid [Ptr (TName
     ''sqlite3_context''), Ptr TVoid, Ptr (Const TChar), Ptr (Fn TVoid [Ptr TVoid])]))"
definition routine_value_pointer :: decl where [api_decls]:
  "routine_value_pointer = Decl ''value_pointer'' (Ptr (Fn (Ptr TVoid) [Ptr (TName
     ''sqlite3_value''), Ptr (Const TChar)]))"
definition routine_vtab_nochange :: decl where [api_decls]:
  "routine_vtab_nochange = Decl ''vtab_nochange'' (Ptr (Fn TInt [Ptr (TName
     ''sqlite3_context'')]))"
definition routine_value_nochange :: decl where [api_decls]:
  "routine_value_nochange = Decl ''value_nochange'' (Ptr (Fn TInt [Ptr (TName
     ''sqlite3_value'')]))"
definition routine_vtab_collation :: decl where [api_decls]:
  "routine_vtab_collation = Decl ''vtab_collation'' (Ptr (Fn (Ptr (Const TChar)) [Ptr (TName
     ''sqlite3_index_info''), TInt]))"

definition routines_v3_20_0 :: "decl list" where
  "routines_v3_20_0 = [routine_prepare_v3, routine_prepare16_v3, routine_bind_pointer,
     routine_result_pointer, routine_value_pointer, routine_vtab_nochange, routine_value_nochange,
     routine_vtab_collation]"

definition routine_keyword_count :: decl where [api_decls]:
  "routine_keyword_count = Decl ''keyword_count'' (Ptr (Fn TInt []))"
definition routine_keyword_name :: decl where [api_decls]:
  "routine_keyword_name = Decl ''keyword_name'' (Ptr (Fn TInt [TInt, Ptr (Ptr (Const TChar)), Ptr
     TInt]))"
definition routine_keyword_check :: decl where [api_decls]:
  "routine_keyword_check = Decl ''keyword_check'' (Ptr (Fn TInt [Ptr (Const TChar), TInt]))"
definition routine_str_new :: decl where [api_decls]:
  "routine_str_new = Decl ''str_new'' (Ptr (Fn (Ptr (TName ''sqlite3_str'')) [Ptr (TName
     ''sqlite3'')]))"
definition routine_str_finish :: decl where [api_decls]:
  "routine_str_finish = Decl ''str_finish'' (Ptr (Fn (Ptr TChar) [Ptr (TName ''sqlite3_str'')]))"
definition routine_str_appendf :: decl where [api_decls]:
  "routine_str_appendf = Decl ''str_appendf'' (Ptr (Fn TVoid [Ptr (TName ''sqlite3_str''), Ptr
     (Const TChar), VarArg]))"
definition routine_str_vappendf :: decl where [api_decls]:
  "routine_str_vappendf = Decl ''str_vappendf'' (Ptr (Fn TVoid [Ptr (TName ''sqlite3_str''), Ptr
     (Const TChar), TName ''va_list'']))"
definition routine_str_append :: decl where [api_decls]:
  "routine_str_append = Decl ''str_append'' (Ptr (Fn TVoid [Ptr (TName ''sqlite3_str''), Ptr
     (Const TChar), TInt]))"
definition routine_str_appendall :: decl where [api_decls]:
  "routine_str_appendall = Decl ''str_appendall'' (Ptr (Fn TVoid [Ptr (TName ''sqlite3_str''), Ptr
     (Const TChar)]))"
definition routine_str_appendchar :: decl where [api_decls]:
  "routine_str_appendchar = Decl ''str_appendchar'' (Ptr (Fn TVoid [Ptr (TName ''sqlite3_str''),
     TInt, TChar]))"
definition routine_str_reset :: decl where [api_decls]:
  "routine_str_reset = Decl ''str_reset'' (Ptr (Fn TVoid [Ptr (TName ''sqlite3_str'')]))"
definition routine_str_errcode :: decl where [api_decls]:
  "routine_str_errcode = Decl ''str_errcode'' (Ptr (Fn TInt [Ptr (TName ''sqlite3_str'')]))"
definition routine_str_length :: decl where [api_decls]:
  "routine_str_length = Decl ''str_length'' (Ptr (Fn TInt [Ptr (TName ''sqlite3_str'')]))"
definition routine_str_value :: decl where [api_decls]:
  "routine_str_value = Decl ''str_value'' (Ptr (Fn (Ptr TChar) [Ptr (TName ''sqlite3_str'')]))"

definition routines_v3_24_0 :: "decl list" where
  "routines_v3_24_0 = [routine_keyword_count, routine_keyword_name, routine_keyword_check,
     routine_str_new, routine_str_finish, routine_str_appendf, routine_str_vappendf,
     routine_str_append, routine_str_appendall, routine_str_appendchar, routine_str_reset,
     routine_str_errcode, routine_str_length, routine_str_value]"

definition routine_create_window_function :: decl where [api_decls]:
  "routine_create_window_function = Decl ''create_window_function'' (Ptr (Fn TInt [Ptr (TName
     ''sqlite3''), Ptr (Const TChar), TInt, TInt, Ptr TVoid, Ptr (Fn TVoid [Ptr (TName
     ''sqlite3_context''), TInt, Ptr (Ptr (TName ''sqlite3_value''))]), Ptr (Fn TVoid [Ptr (TName
     ''sqlite3_context'')]), Ptr (Fn TVoid [Ptr (TName ''sqlite3_context'')]), Ptr (Fn TVoid [Ptr
     (TName ''sqlite3_context''), TInt, Ptr (Ptr (TName ''sqlite3_value''))]), Ptr (Fn TVoid [Ptr
     TVoid])]))"

definition routines_v3_25_0 :: "decl list" where
  "routines_v3_25_0 = [routine_create_window_function]"

definition routine_normalized_sql :: decl where [api_decls]:
  "routine_normalized_sql = Decl ''normalized_sql'' (Ptr (Fn (Ptr (Const TChar)) [Ptr (TName
     ''sqlite3_stmt'')]))"

definition routines_v3_26_0 :: "decl list" where
  "routines_v3_26_0 = [routine_normalized_sql]"

definition routine_stmt_isexplain :: decl where [api_decls]:
  "routine_stmt_isexplain = Decl ''stmt_isexplain'' (Ptr (Fn TInt [Ptr (TName
     ''sqlite3_stmt'')]))"
definition routine_value_frombind :: decl where [api_decls]:
  "routine_value_frombind = Decl ''value_frombind'' (Ptr (Fn TInt [Ptr (TName
     ''sqlite3_value'')]))"

definition routines_v3_28_0 :: "decl list" where
  "routines_v3_28_0 = [routine_stmt_isexplain, routine_value_frombind]"

definition routine_drop_modules :: decl where [api_decls]:
  "routine_drop_modules = Decl ''drop_modules'' (Ptr (Fn TInt [Ptr (TName ''sqlite3''), Ptr (Ptr
     (Const TChar))]))"

definition routines_v3_30_0 :: "decl list" where
  "routines_v3_30_0 = [routine_drop_modules]"

definition routine_hard_heap_limit64 :: decl where [api_decls]:
  "routine_hard_heap_limit64 = Decl ''hard_heap_limit64'' (Ptr (Fn (TName ''sqlite3_int64'')
     [TName ''sqlite3_int64'']))"
definition routine_uri_key :: decl where [api_decls]:
  "routine_uri_key = Decl ''uri_key'' (Ptr (Fn (Ptr (Const TChar)) [Ptr (Const TChar), TInt]))"
definition routine_filename_database :: decl where [api_decls]:
  "routine_filename_database = Decl ''filename_database'' (Ptr (Fn (Ptr (Const TChar)) [Ptr (Const
     TChar)]))"
definition routine_filename_journal :: decl where [api_decls]:
  "routine_filename_journal = Decl ''filename_journal'' (Ptr (Fn (Ptr (Const TChar)) [Ptr (Const
     TChar)]))"
definition routine_filename_wal :: decl where [api_decls]:
  "routine_filename_wal = Decl ''filename_wal'' (Ptr (Fn (Ptr (Const TChar)) [Ptr (Const
     TChar)]))"

definition routines_v3_31_0 :: "decl list" where
  "routines_v3_31_0 = [routine_hard_heap_limit64, routine_uri_key, routine_filename_database,
     routine_filename_journal, routine_filename_wal]"

definition routine_create_filename :: decl where [api_decls]:
  "routine_create_filename = Decl ''create_filename'' (Ptr (Fn (Ptr (Const TChar)) [Ptr (Const
     TChar), Ptr (Const TChar), Ptr (Const TChar), TInt, Ptr (Ptr (Const TChar))]))"
definition routine_free_filename :: decl where [api_decls]:
  "routine_free_filename = Decl ''free_filename'' (Ptr (Fn TVoid [Ptr (Const TChar)]))"
definition routine_database_file_object :: decl where [api_decls]:
  "routine_database_file_object = Decl ''database_file_object'' (Ptr (Fn (Ptr (TName
     ''sqlite3_file'')) [Ptr (Const TChar)]))"

definition routines_v3_32_0 :: "decl list" where
  "routines_v3_32_0 = [routine_create_filename, routine_free_filename,
     routine_database_file_object]"

definition routine_txn_state :: decl where [api_decls]:
  "routine_txn_state = Decl ''txn_state'' (Ptr (Fn TInt [Ptr (TName ''sqlite3''), Ptr (Const
     TChar)]))"

definition routines_v3_34_0 :: "decl list" where
  "routines_v3_34_0 = [routine_txn_state]"

definition routine_changes64 :: decl where [api_decls]:
  "routine_changes64 = Decl ''changes64'' (Ptr (Fn (TName ''sqlite3_int64'') [Ptr (TName
     ''sqlite3'')]))"
definition routine_total_changes64 :: decl where [api_decls]:
  "routine_total_changes64 = Decl ''total_changes64'' (Ptr (Fn (TName ''sqlite3_int64'') [Ptr
     (TName ''sqlite3'')]))"

definition routines_v3_36_1 :: "decl list" where
  "routines_v3_36_1 = [routine_changes64, routine_total_changes64]"

definition routine_autovacuum_pages :: decl where [api_decls]:
  "routine_autovacuum_pages = Decl ''autovacuum_pages'' (Ptr (Fn TInt [Ptr (TName ''sqlite3''),
     Ptr (Fn TUInt [Ptr TVoid, Ptr (Const TChar), TUInt, TUInt, TUInt]), Ptr TVoid, Ptr (Fn TVoid
     [Ptr TVoid])]))"

definition routines_v3_37_0 :: "decl list" where
  "routines_v3_37_0 = [routine_autovacuum_pages]"

definition routine_error_offset :: decl where [api_decls]:
  "routine_error_offset = Decl ''error_offset'' (Ptr (Fn TInt [Ptr (TName ''sqlite3'')]))"
definition routine_vtab_rhs_value :: decl where [api_decls]:
  "routine_vtab_rhs_value = Decl ''vtab_rhs_value'' (Ptr (Fn TInt [Ptr (TName
     ''sqlite3_index_info''), TInt, Ptr (Ptr (TName ''sqlite3_value''))]))"
definition routine_vtab_distinct :: decl where [api_decls]:
  "routine_vtab_distinct = Decl ''vtab_distinct'' (Ptr (Fn TInt [Ptr (TName
     ''sqlite3_index_info'')]))"
definition routine_vtab_in :: decl where [api_decls]:
  "routine_vtab_in = Decl ''vtab_in'' (Ptr (Fn TInt [Ptr (TName ''sqlite3_index_info''), TInt,
     TInt]))"
definition routine_vtab_in_first :: decl where [api_decls]:
  "routine_vtab_in_first = Decl ''vtab_in_first'' (Ptr (Fn TInt [Ptr (TName ''sqlite3_value''),
     Ptr (Ptr (TName ''sqlite3_value''))]))"
definition routine_vtab_in_next :: decl where [api_decls]:
  "routine_vtab_in_next = Decl ''vtab_in_next'' (Ptr (Fn TInt [Ptr (TName ''sqlite3_value''), Ptr
     (Ptr (TName ''sqlite3_value''))]))"

definition routines_v3_38_0 :: "decl list" where
  "routines_v3_38_0 = [routine_error_offset, routine_vtab_rhs_value, routine_vtab_distinct,
     routine_vtab_in, routine_vtab_in_first, routine_vtab_in_next]"

definition routine_deserialize :: decl where [api_decls]:
  "routine_deserialize = Decl ''deserialize'' (Ptr (Fn TInt [Ptr (TName ''sqlite3''), Ptr (Const
     TChar), Ptr TUChar, TName ''sqlite3_int64'', TName ''sqlite3_int64'', TUInt]))"
definition routine_serialize :: decl where [api_decls]:
  "routine_serialize = Decl ''serialize'' (Ptr (Fn (Ptr TUChar) [Ptr (TName ''sqlite3''), Ptr
     (Const TChar), Ptr (TName ''sqlite3_int64''), TUInt]))"
definition routine_db_name :: decl where [api_decls]:
  "routine_db_name = Decl ''db_name'' (Ptr (Fn (Ptr (Const TChar)) [Ptr (TName ''sqlite3''),
     TInt]))"

definition routines_v3_39_0 :: "decl list" where
  "routines_v3_39_0 = [routine_deserialize, routine_serialize, routine_db_name]"

definition routine_value_encoding :: decl where [api_decls]:
  "routine_value_encoding = Decl ''value_encoding'' (Ptr (Fn TInt [Ptr (TName
     ''sqlite3_value'')]))"

definition routines_v3_40_0 :: "decl list" where
  "routines_v3_40_0 = [routine_value_encoding]"

definition routine_is_interrupted :: decl where [api_decls]:
  "routine_is_interrupted = Decl ''is_interrupted'' (Ptr (Fn TInt [Ptr (TName ''sqlite3'')]))"

definition routines_v3_41_0 :: "decl list" where
  "routines_v3_41_0 = [routine_is_interrupted]"

definition routine_stmt_explain :: decl where [api_decls]:
  "routine_stmt_explain = Decl ''stmt_explain'' (Ptr (Fn TInt [Ptr (TName ''sqlite3_stmt''),
     TInt]))"

definition routines_v3_43_0 :: "decl list" where
  "routines_v3_43_0 = [routine_stmt_explain]"

definition routine_get_clientdata :: decl where [api_decls]:
  "routine_get_clientdata = Decl ''get_clientdata'' (Ptr (Fn (Ptr TVoid) [Ptr (TName ''sqlite3''),
     Ptr (Const TChar)]))"
definition routine_set_clientdata :: decl where [api_decls]:
  "routine_set_clientdata = Decl ''set_clientdata'' (Ptr (Fn TInt [Ptr (TName ''sqlite3''), Ptr
     (Const TChar), Ptr TVoid, Ptr (Fn TVoid [Ptr TVoid])]))"

definition routines_v3_44_0 :: "decl list" where
  "routines_v3_44_0 = [routine_get_clientdata, routine_set_clientdata]"

text \<open>
  The groups of the table under the library version that a comment gives for them; the first group
  has no version and the second is marked \<^verbatim>\<open>Added ???\<close>.
\<close>

definition routine_groups :: "(nat \<times> decl list) list" where
  "routine_groups = [(0, routines_base), (0, routines_unlabelled), (3003013, routines_v3_3_13),
     (3004001, routines_v3_4_1), (3005000, routines_v3_5_0), (3007016, routines_v3_7_16),
     (3008007, routines_v3_8_7), (3008011, routines_v3_8_11), (3009000, routines_v3_9_0),
     (3010000, routines_v3_10_0), (3012000, routines_v3_12_0), (3014000, routines_v3_14_0),
     (3018000, routines_v3_18_0), (3020000, routines_v3_20_0), (3024000, routines_v3_24_0),
     (3025000, routines_v3_25_0), (3026000, routines_v3_26_0), (3028000, routines_v3_28_0),
     (3030000, routines_v3_30_0), (3031000, routines_v3_31_0), (3032000, routines_v3_32_0),
     (3034000, routines_v3_34_0), (3036001, routines_v3_36_1), (3037000, routines_v3_37_0),
     (3038000, routines_v3_38_0), (3039000, routines_v3_39_0), (3040000, routines_v3_40_0),
     (3041000, routines_v3_41_0), (3043000, routines_v3_43_0), (3044000, routines_v3_44_0)]"

definition sqlite3_api_routines :: "decl list" where
  "sqlite3_api_routines = concat (map snd routine_groups)"

text \<open>The part of the table that a library of version \<open>v\<close> provides: new entries are only added at the end.\<close>

definition routines_upto :: "nat \<Rightarrow> decl list" where
  "routines_upto v = concat (map snd (takeWhile (\<lambda>g. fst g \<le> v) routine_groups))"

lemmas routine_group_defs =
  routines_base_def routines_unlabelled_def routines_v3_3_13_def routines_v3_4_1_def
  routines_v3_5_0_def routines_v3_7_16_def routines_v3_8_7_def routines_v3_8_11_def
  routines_v3_9_0_def routines_v3_10_0_def routines_v3_12_0_def routines_v3_14_0_def
  routines_v3_18_0_def routines_v3_20_0_def routines_v3_24_0_def routines_v3_25_0_def
  routines_v3_26_0_def routines_v3_28_0_def routines_v3_30_0_def routines_v3_31_0_def
  routines_v3_32_0_def routines_v3_34_0_def routines_v3_36_1_def routines_v3_37_0_def
  routines_v3_38_0_def routines_v3_39_0_def routines_v3_40_0_def routines_v3_41_0_def
  routines_v3_43_0_def routines_v3_44_0_def

text \<open>The names of the members, so that proofs about names need not unfold the types.\<close>

lemma routine_names1:
  "decl_name routine_aggregate_context = ''aggregate_context''"
  "decl_name routine_aggregate_count = ''aggregate_count''"
  "decl_name routine_bind_blob = ''bind_blob''"
  "decl_name routine_bind_double = ''bind_double''"
  "decl_name routine_bind_int = ''bind_int''"
  "decl_name routine_bind_int64 = ''bind_int64''"
  "decl_name routine_bind_null = ''bind_null''"
  "decl_name routine_bind_parameter_count = ''bind_parameter_count''"
  "decl_name routine_bind_parameter_index = ''bind_parameter_index''"
  "decl_name routine_bind_parameter_name = ''bind_parameter_name''"
  "decl_name routine_bind_text = ''bind_text''"
  "decl_name routine_bind_text16 = ''bind_text16''"
  "decl_name routine_bind_value = ''bind_value''"
  "decl_name routine_busy_handler = ''busy_handler''"
  "decl_name routine_busy_timeout = ''busy_timeout''"
  "decl_name routine_changes = ''changes''"
  "decl_name routine_close = ''close''"
  "decl_name routine_collation_needed = ''collation_needed''"
  "decl_name routine_collation_needed16 = ''collation_needed16''"
  "decl_name routine_column_blob = ''column_blob''"
  "decl_name routine_column_bytes = ''column_bytes''"
  "decl_name routine_column_bytes16 = ''column_bytes16''"
  "decl_name routine_column_count = ''column_count''"
  "decl_name routine_column_database_name = ''column_database_name''"
  "decl_name routine_column_database_name16 = ''column_database_name16''"
  "decl_name routine_column_decltype = ''column_decltype''"
  "decl_name routine_column_decltype16 = ''column_decltype16''"
  "decl_name routine_column_double = ''column_double''"
  "decl_name routine_column_int = ''column_int''"
  "decl_name routine_column_int64 = ''column_int64''"
  "decl_name routine_column_name = ''column_name''"
  "decl_name routine_column_name16 = ''column_name16''"
  "decl_name routine_column_origin_name = ''column_origin_name''"
  "decl_name routine_column_origin_name16 = ''column_origin_name16''"
  "decl_name routine_column_table_name = ''column_table_name''"
  "decl_name routine_column_table_name16 = ''column_table_name16''"
  "decl_name routine_column_text = ''column_text''"
  "decl_name routine_column_text16 = ''column_text16''"
  "decl_name routine_column_type = ''column_type''"
  "decl_name routine_column_value = ''column_value''"
  "decl_name routine_commit_hook = ''commit_hook''"
  "decl_name routine_complete = ''complete''"
  "decl_name routine_complete16 = ''complete16''"
  "decl_name routine_create_collation = ''create_collation''"
  "decl_name routine_create_collation16 = ''create_collation16''"
  "decl_name routine_create_function = ''create_function''"
  "decl_name routine_create_function16 = ''create_function16''"
  "decl_name routine_create_module = ''create_module''"
  "decl_name routine_data_count = ''data_count''"
  "decl_name routine_db_handle = ''db_handle''"
  "decl_name routine_declare_vtab = ''declare_vtab''"
  "decl_name routine_enable_shared_cache = ''enable_shared_cache''"
  "decl_name routine_errcode = ''errcode''"
  "decl_name routine_errmsg = ''errmsg''"
  "decl_name routine_errmsg16 = ''errmsg16''"
  "decl_name routine_exec = ''exec''"
  "decl_name routine_expired = ''expired''"
  "decl_name routine_finalize = ''finalize''"
  "decl_name routine_free = ''free''"
  "decl_name routine_free_table = ''free_table''"
  "decl_name routine_get_autocommit = ''get_autocommit''"
  "decl_name routine_get_auxdata = ''get_auxdata''"
  "decl_name routine_get_table = ''get_table''"
  "decl_name routine_global_recover = ''global_recover''"
  "decl_name routine_interruptx = ''interruptx''"
  "decl_name routine_last_insert_rowid = ''last_insert_rowid''"
  "decl_name routine_libversion = ''libversion''"
  "decl_name routine_libversion_number = ''libversion_number''"
  "decl_name routine_malloc = ''malloc''"
  "decl_name routine_mprintf = ''mprintf''"
  "decl_name routine_open = ''open''"
  "decl_name routine_open16 = ''open16''"
  "decl_name routine_prepare = ''prepare''"
  "decl_name routine_prepare16 = ''prepare16''"
  "decl_name routine_profile = ''profile''"
  "decl_name routine_progress_handler = ''progress_handler''"
  "decl_name routine_realloc = ''realloc''"
  "decl_name routine_reset = ''reset''"
  "decl_name routine_result_blob = ''result_blob''"
  "decl_name routine_result_double = ''result_double''"
  "decl_name routine_result_error = ''result_error''"
  "decl_name routine_result_error16 = ''result_error16''"
  "decl_name routine_result_int = ''result_int''"
  "decl_name routine_result_int64 = ''result_int64''"
  "decl_name routine_result_null = ''result_null''"
  "decl_name routine_result_text = ''result_text''"
  "decl_name routine_result_text16 = ''result_text16''"
  "decl_name routine_result_text16be = ''result_text16be''"
  "decl_name routine_result_text16le = ''result_text16le''"
  "decl_name routine_result_value = ''result_value''"
  by (simp_all only: api_decls decl.sel)

lemma routine_names2:
  "decl_name routine_rollback_hook = ''rollback_hook''"
  "decl_name routine_set_authorizer = ''set_authorizer''"
  "decl_name routine_set_auxdata = ''set_auxdata''"
  "decl_name routine_xsnprintf = ''xsnprintf''"
  "decl_name routine_step = ''step''"
  "decl_name routine_table_column_metadata = ''table_column_metadata''"
  "decl_name routine_thread_cleanup = ''thread_cleanup''"
  "decl_name routine_total_changes = ''total_changes''"
  "decl_name routine_trace = ''trace''"
  "decl_name routine_transfer_bindings = ''transfer_bindings''"
  "decl_name routine_update_hook = ''update_hook''"
  "decl_name routine_user_data = ''user_data''"
  "decl_name routine_value_blob = ''value_blob''"
  "decl_name routine_value_bytes = ''value_bytes''"
  "decl_name routine_value_bytes16 = ''value_bytes16''"
  "decl_name routine_value_double = ''value_double''"
  "decl_name routine_value_int = ''value_int''"
  "decl_name routine_value_int64 = ''value_int64''"
  "decl_name routine_value_numeric_type = ''value_numeric_type''"
  "decl_name routine_value_text = ''value_text''"
  "decl_name routine_value_text16 = ''value_text16''"
  "decl_name routine_value_text16be = ''value_text16be''"
  "decl_name routine_value_text16le = ''value_text16le''"
  "decl_name routine_value_type = ''value_type''"
  "decl_name routine_vmprintf = ''vmprintf''"
  "decl_name routine_overload_function = ''overload_function''"
  "decl_name routine_prepare_v2 = ''prepare_v2''"
  "decl_name routine_prepare16_v2 = ''prepare16_v2''"
  "decl_name routine_clear_bindings = ''clear_bindings''"
  "decl_name routine_create_module_v2 = ''create_module_v2''"
  "decl_name routine_bind_zeroblob = ''bind_zeroblob''"
  "decl_name routine_blob_bytes = ''blob_bytes''"
  "decl_name routine_blob_close = ''blob_close''"
  "decl_name routine_blob_open = ''blob_open''"
  "decl_name routine_blob_read = ''blob_read''"
  "decl_name routine_blob_write = ''blob_write''"
  "decl_name routine_create_collation_v2 = ''create_collation_v2''"
  "decl_name routine_file_control = ''file_control''"
  "decl_name routine_memory_highwater = ''memory_highwater''"
  "decl_name routine_memory_used = ''memory_used''"
  "decl_name routine_mutex_alloc = ''mutex_alloc''"
  "decl_name routine_mutex_enter = ''mutex_enter''"
  "decl_name routine_mutex_free = ''mutex_free''"
  "decl_name routine_mutex_leave = ''mutex_leave''"
  "decl_name routine_mutex_try = ''mutex_try''"
  "decl_name routine_open_v2 = ''open_v2''"
  "decl_name routine_release_memory = ''release_memory''"
  "decl_name routine_result_error_nomem = ''result_error_nomem''"
  "decl_name routine_result_error_toobig = ''result_error_toobig''"
  "decl_name routine_sleep = ''sleep''"
  "decl_name routine_soft_heap_limit = ''soft_heap_limit''"
  "decl_name routine_vfs_find = ''vfs_find''"
  "decl_name routine_vfs_register = ''vfs_register''"
  "decl_name routine_vfs_unregister = ''vfs_unregister''"
  "decl_name routine_xthreadsafe = ''xthreadsafe''"
  "decl_name routine_result_zeroblob = ''result_zeroblob''"
  "decl_name routine_result_error_code = ''result_error_code''"
  "decl_name routine_test_control = ''test_control''"
  "decl_name routine_randomness = ''randomness''"
  "decl_name routine_context_db_handle = ''context_db_handle''"
  "decl_name routine_extended_result_codes = ''extended_result_codes''"
  "decl_name routine_limit = ''limit''"
  "decl_name routine_next_stmt = ''next_stmt''"
  "decl_name routine_sql = ''sql''"
  "decl_name routine_status = ''status''"
  "decl_name routine_backup_finish = ''backup_finish''"
  "decl_name routine_backup_init = ''backup_init''"
  "decl_name routine_backup_pagecount = ''backup_pagecount''"
  "decl_name routine_backup_remaining = ''backup_remaining''"
  "decl_name routine_backup_step = ''backup_step''"
  "decl_name routine_compileoption_get = ''compileoption_get''"
  "decl_name routine_compileoption_used = ''compileoption_used''"
  "decl_name routine_create_function_v2 = ''create_function_v2''"
  "decl_name routine_db_config = ''db_config''"
  "decl_name routine_db_mutex = ''db_mutex''"
  "decl_name routine_db_status = ''db_status''"
  "decl_name routine_extended_errcode = ''extended_errcode''"
  "decl_name routine_log = ''log''"
  "decl_name routine_soft_heap_limit64 = ''soft_heap_limit64''"
  "decl_name routine_sourceid = ''sourceid''"
  "decl_name routine_stmt_status = ''stmt_status''"
  "decl_name routine_strnicmp = ''strnicmp''"
  "decl_name routine_unlock_notify = ''unlock_notify''"
  "decl_name routine_wal_autocheckpoint = ''wal_autocheckpoint''"
  "decl_name routine_wal_checkpoint = ''wal_checkpoint''"
  "decl_name routine_wal_hook = ''wal_hook''"
  "decl_name routine_blob_reopen = ''blob_reopen''"
  "decl_name routine_vtab_config = ''vtab_config''"
  "decl_name routine_vtab_on_conflict = ''vtab_on_conflict''"
  "decl_name routine_close_v2 = ''close_v2''"
  by (simp_all only: api_decls decl.sel)

lemma routine_names3:
  "decl_name routine_db_filename = ''db_filename''"
  "decl_name routine_db_readonly = ''db_readonly''"
  "decl_name routine_db_release_memory = ''db_release_memory''"
  "decl_name routine_errstr = ''errstr''"
  "decl_name routine_stmt_busy = ''stmt_busy''"
  "decl_name routine_stmt_readonly = ''stmt_readonly''"
  "decl_name routine_stricmp = ''stricmp''"
  "decl_name routine_uri_boolean = ''uri_boolean''"
  "decl_name routine_uri_int64 = ''uri_int64''"
  "decl_name routine_uri_parameter = ''uri_parameter''"
  "decl_name routine_xvsnprintf = ''xvsnprintf''"
  "decl_name routine_wal_checkpoint_v2 = ''wal_checkpoint_v2''"
  "decl_name routine_auto_extension = ''auto_extension''"
  "decl_name routine_bind_blob64 = ''bind_blob64''"
  "decl_name routine_bind_text64 = ''bind_text64''"
  "decl_name routine_cancel_auto_extension = ''cancel_auto_extension''"
  "decl_name routine_load_extension = ''load_extension''"
  "decl_name routine_malloc64 = ''malloc64''"
  "decl_name routine_msize = ''msize''"
  "decl_name routine_realloc64 = ''realloc64''"
  "decl_name routine_reset_auto_extension = ''reset_auto_extension''"
  "decl_name routine_result_blob64 = ''result_blob64''"
  "decl_name routine_result_text64 = ''result_text64''"
  "decl_name routine_strglob = ''strglob''"
  "decl_name routine_value_dup = ''value_dup''"
  "decl_name routine_value_free = ''value_free''"
  "decl_name routine_result_zeroblob64 = ''result_zeroblob64''"
  "decl_name routine_bind_zeroblob64 = ''bind_zeroblob64''"
  "decl_name routine_value_subtype = ''value_subtype''"
  "decl_name routine_result_subtype = ''result_subtype''"
  "decl_name routine_status64 = ''status64''"
  "decl_name routine_strlike = ''strlike''"
  "decl_name routine_db_cacheflush = ''db_cacheflush''"
  "decl_name routine_system_errno = ''system_errno''"
  "decl_name routine_trace_v2 = ''trace_v2''"
  "decl_name routine_expanded_sql = ''expanded_sql''"
  "decl_name routine_set_last_insert_rowid = ''set_last_insert_rowid''"
  "decl_name routine_prepare_v3 = ''prepare_v3''"
  "decl_name routine_prepare16_v3 = ''prepare16_v3''"
  "decl_name routine_bind_pointer = ''bind_pointer''"
  "decl_name routine_result_pointer = ''result_pointer''"
  "decl_name routine_value_pointer = ''value_pointer''"
  "decl_name routine_vtab_nochange = ''vtab_nochange''"
  "decl_name routine_value_nochange = ''value_nochange''"
  "decl_name routine_vtab_collation = ''vtab_collation''"
  "decl_name routine_keyword_count = ''keyword_count''"
  "decl_name routine_keyword_name = ''keyword_name''"
  "decl_name routine_keyword_check = ''keyword_check''"
  "decl_name routine_str_new = ''str_new''"
  "decl_name routine_str_finish = ''str_finish''"
  "decl_name routine_str_appendf = ''str_appendf''"
  "decl_name routine_str_vappendf = ''str_vappendf''"
  "decl_name routine_str_append = ''str_append''"
  "decl_name routine_str_appendall = ''str_appendall''"
  "decl_name routine_str_appendchar = ''str_appendchar''"
  "decl_name routine_str_reset = ''str_reset''"
  "decl_name routine_str_errcode = ''str_errcode''"
  "decl_name routine_str_length = ''str_length''"
  "decl_name routine_str_value = ''str_value''"
  "decl_name routine_create_window_function = ''create_window_function''"
  "decl_name routine_normalized_sql = ''normalized_sql''"
  "decl_name routine_stmt_isexplain = ''stmt_isexplain''"
  "decl_name routine_value_frombind = ''value_frombind''"
  "decl_name routine_drop_modules = ''drop_modules''"
  "decl_name routine_hard_heap_limit64 = ''hard_heap_limit64''"
  "decl_name routine_uri_key = ''uri_key''"
  "decl_name routine_filename_database = ''filename_database''"
  "decl_name routine_filename_journal = ''filename_journal''"
  "decl_name routine_filename_wal = ''filename_wal''"
  "decl_name routine_create_filename = ''create_filename''"
  "decl_name routine_free_filename = ''free_filename''"
  "decl_name routine_database_file_object = ''database_file_object''"
  "decl_name routine_txn_state = ''txn_state''"
  "decl_name routine_changes64 = ''changes64''"
  "decl_name routine_total_changes64 = ''total_changes64''"
  "decl_name routine_autovacuum_pages = ''autovacuum_pages''"
  "decl_name routine_error_offset = ''error_offset''"
  "decl_name routine_vtab_rhs_value = ''vtab_rhs_value''"
  "decl_name routine_vtab_distinct = ''vtab_distinct''"
  "decl_name routine_vtab_in = ''vtab_in''"
  "decl_name routine_vtab_in_first = ''vtab_in_first''"
  "decl_name routine_vtab_in_next = ''vtab_in_next''"
  "decl_name routine_deserialize = ''deserialize''"
  "decl_name routine_serialize = ''serialize''"
  "decl_name routine_db_name = ''db_name''"
  "decl_name routine_value_encoding = ''value_encoding''"
  "decl_name routine_is_interrupted = ''is_interrupted''"
  "decl_name routine_stmt_explain = ''stmt_explain''"
  "decl_name routine_get_clientdata = ''get_clientdata''"
  "decl_name routine_set_clientdata = ''set_clientdata''"
  by (simp_all only: api_decls decl.sel)

lemmas routine_names = routine_names1 routine_names2 routine_names3

lemma routines_upto_mono:
  assumes "v \<le> w" shows "prefix (routines_upto v) (routines_upto w)"
proof -
  have "takeWhile (\<lambda>g. fst g \<le> v) gs = takeWhile (\<lambda>g. fst g \<le> v) (takeWhile (\<lambda>g. fst g \<le> w) gs)"
    for gs :: "(nat \<times> decl list) list" using assms by (induction gs) auto
  then have "prefix (takeWhile (\<lambda>g. fst g \<le> v) gs) (takeWhile (\<lambda>g. fst g \<le> w) gs)"
    for gs :: "(nat \<times> decl list) list" by (metis takeWhile_is_prefix)
  then obtain zs where "takeWhile (\<lambda>g. fst g \<le> w) routine_groups =
    takeWhile (\<lambda>g. fst g \<le> v) routine_groups @ zs" by (meson prefixE)
  then show ?thesis
    by (simp add: routines_upto_def)
qed

lemma routines_upto_table: "prefix (routines_upto v) sqlite3_api_routines"
  unfolding routines_upto_def sqlite3_api_routines_def
  by (metis append_take_drop_id concat_append map_append prefixI takeWhile_eq_take)

lemmas table_defs =
  sqlite3_api_routines_def routine_groups_def routine_group_defs list.map snd_conv concat.simps append_Nil append_Nil2

lemma routine_versions_sorted: "sorted (map fst routine_groups)"
  by (simp add: routine_groups_def)

end
