(* ===== verification/ExtApi.thy ===== *)
theory ExtApi
  imports HeaderDoc1 HeaderDoc2 HeaderDoc3 ExtRoutines SqliteHeader
begin

text \<open>
  The interface of the headers as a whole: the macros of \<^verbatim>\<open>sqlite3ext.h\<close> that send an extension
  through the routine table, the declared functions they stand for, and the properties of both
  headers.
\<close>

section \<open>The redirecting macros\<close>

text \<open>A line \<^verbatim>\<open>#define sqlite3_f sqlite3_api->f\<close> is the pair of the macro name and the member.\<close>

definition redirects1 :: "(string \<times> decl) list" where
  "redirects1 = [(''sqlite3_aggregate_context'', routine_aggregate_context),
     (''sqlite3_aggregate_count'', routine_aggregate_count), (''sqlite3_bind_blob'',
     routine_bind_blob), (''sqlite3_bind_double'', routine_bind_double), (''sqlite3_bind_int'',
     routine_bind_int), (''sqlite3_bind_int64'', routine_bind_int64), (''sqlite3_bind_null'',
     routine_bind_null), (''sqlite3_bind_parameter_count'', routine_bind_parameter_count),
     (''sqlite3_bind_parameter_index'', routine_bind_parameter_index),
     (''sqlite3_bind_parameter_name'', routine_bind_parameter_name), (''sqlite3_bind_text'',
     routine_bind_text), (''sqlite3_bind_text16'', routine_bind_text16), (''sqlite3_bind_value'',
     routine_bind_value), (''sqlite3_busy_handler'', routine_busy_handler),
     (''sqlite3_busy_timeout'', routine_busy_timeout), (''sqlite3_changes'', routine_changes),
     (''sqlite3_close'', routine_close), (''sqlite3_collation_needed'', routine_collation_needed),
     (''sqlite3_collation_needed16'', routine_collation_needed16), (''sqlite3_column_blob'',
     routine_column_blob), (''sqlite3_column_bytes'', routine_column_bytes),
     (''sqlite3_column_bytes16'', routine_column_bytes16), (''sqlite3_column_count'',
     routine_column_count), (''sqlite3_column_database_name'', routine_column_database_name),
     (''sqlite3_column_database_name16'', routine_column_database_name16),
     (''sqlite3_column_decltype'', routine_column_decltype), (''sqlite3_column_decltype16'',
     routine_column_decltype16), (''sqlite3_column_double'', routine_column_double),
     (''sqlite3_column_int'', routine_column_int), (''sqlite3_column_int64'',
     routine_column_int64), (''sqlite3_column_name'', routine_column_name),
     (''sqlite3_column_name16'', routine_column_name16), (''sqlite3_column_origin_name'',
     routine_column_origin_name), (''sqlite3_column_origin_name16'',
     routine_column_origin_name16), (''sqlite3_column_table_name'', routine_column_table_name),
     (''sqlite3_column_table_name16'', routine_column_table_name16), (''sqlite3_column_text'',
     routine_column_text), (''sqlite3_column_text16'', routine_column_text16),
     (''sqlite3_column_type'', routine_column_type), (''sqlite3_column_value'',
     routine_column_value), (''sqlite3_commit_hook'', routine_commit_hook), (''sqlite3_complete'',
     routine_complete), (''sqlite3_complete16'', routine_complete16),
     (''sqlite3_create_collation'', routine_create_collation), (''sqlite3_create_collation16'',
     routine_create_collation16), (''sqlite3_create_function'', routine_create_function),
     (''sqlite3_create_function16'', routine_create_function16), (''sqlite3_create_module'',
     routine_create_module), (''sqlite3_create_module_v2'', routine_create_module_v2),
     (''sqlite3_data_count'', routine_data_count), (''sqlite3_db_handle'', routine_db_handle),
     (''sqlite3_declare_vtab'', routine_declare_vtab), (''sqlite3_enable_shared_cache'',
     routine_enable_shared_cache), (''sqlite3_errcode'', routine_errcode), (''sqlite3_errmsg'',
     routine_errmsg), (''sqlite3_errmsg16'', routine_errmsg16), (''sqlite3_exec'', routine_exec),
     (''sqlite3_expired'', routine_expired), (''sqlite3_finalize'', routine_finalize),
     (''sqlite3_free'', routine_free), (''sqlite3_free_table'', routine_free_table),
     (''sqlite3_get_autocommit'', routine_get_autocommit), (''sqlite3_get_auxdata'',
     routine_get_auxdata), (''sqlite3_get_table'', routine_get_table),
     (''sqlite3_global_recover'', routine_global_recover), (''sqlite3_interrupt'',
     routine_interruptx), (''sqlite3_last_insert_rowid'', routine_last_insert_rowid),
     (''sqlite3_libversion'', routine_libversion), (''sqlite3_libversion_number'',
     routine_libversion_number), (''sqlite3_malloc'', routine_malloc)]"

definition redirects2 :: "(string \<times> decl) list" where
  "redirects2 = [(''sqlite3_mprintf'', routine_mprintf), (''sqlite3_open'', routine_open),
     (''sqlite3_open16'', routine_open16), (''sqlite3_prepare'', routine_prepare),
     (''sqlite3_prepare16'', routine_prepare16), (''sqlite3_prepare_v2'', routine_prepare_v2),
     (''sqlite3_prepare16_v2'', routine_prepare16_v2), (''sqlite3_profile'', routine_profile),
     (''sqlite3_progress_handler'', routine_progress_handler), (''sqlite3_realloc'',
     routine_realloc), (''sqlite3_reset'', routine_reset), (''sqlite3_result_blob'',
     routine_result_blob), (''sqlite3_result_double'', routine_result_double),
     (''sqlite3_result_error'', routine_result_error), (''sqlite3_result_error16'',
     routine_result_error16), (''sqlite3_result_int'', routine_result_int),
     (''sqlite3_result_int64'', routine_result_int64), (''sqlite3_result_null'',
     routine_result_null), (''sqlite3_result_text'', routine_result_text),
     (''sqlite3_result_text16'', routine_result_text16), (''sqlite3_result_text16be'',
     routine_result_text16be), (''sqlite3_result_text16le'', routine_result_text16le),
     (''sqlite3_result_value'', routine_result_value), (''sqlite3_rollback_hook'',
     routine_rollback_hook), (''sqlite3_set_authorizer'', routine_set_authorizer),
     (''sqlite3_set_auxdata'', routine_set_auxdata), (''sqlite3_snprintf'', routine_xsnprintf),
     (''sqlite3_step'', routine_step), (''sqlite3_table_column_metadata'',
     routine_table_column_metadata), (''sqlite3_thread_cleanup'', routine_thread_cleanup),
     (''sqlite3_total_changes'', routine_total_changes), (''sqlite3_trace'', routine_trace),
     (''sqlite3_transfer_bindings'', routine_transfer_bindings), (''sqlite3_update_hook'',
     routine_update_hook), (''sqlite3_user_data'', routine_user_data), (''sqlite3_value_blob'',
     routine_value_blob), (''sqlite3_value_bytes'', routine_value_bytes),
     (''sqlite3_value_bytes16'', routine_value_bytes16), (''sqlite3_value_double'',
     routine_value_double), (''sqlite3_value_int'', routine_value_int), (''sqlite3_value_int64'',
     routine_value_int64), (''sqlite3_value_numeric_type'', routine_value_numeric_type),
     (''sqlite3_value_text'', routine_value_text), (''sqlite3_value_text16'',
     routine_value_text16), (''sqlite3_value_text16be'', routine_value_text16be),
     (''sqlite3_value_text16le'', routine_value_text16le), (''sqlite3_value_type'',
     routine_value_type), (''sqlite3_vmprintf'', routine_vmprintf), (''sqlite3_vsnprintf'',
     routine_xvsnprintf), (''sqlite3_overload_function'', routine_overload_function),
     (''sqlite3_prepare_v2'', routine_prepare_v2), (''sqlite3_prepare16_v2'',
     routine_prepare16_v2), (''sqlite3_clear_bindings'', routine_clear_bindings),
     (''sqlite3_bind_zeroblob'', routine_bind_zeroblob), (''sqlite3_blob_bytes'',
     routine_blob_bytes), (''sqlite3_blob_close'', routine_blob_close), (''sqlite3_blob_open'',
     routine_blob_open), (''sqlite3_blob_read'', routine_blob_read), (''sqlite3_blob_write'',
     routine_blob_write), (''sqlite3_create_collation_v2'', routine_create_collation_v2),
     (''sqlite3_file_control'', routine_file_control), (''sqlite3_memory_highwater'',
     routine_memory_highwater), (''sqlite3_memory_used'', routine_memory_used),
     (''sqlite3_mutex_alloc'', routine_mutex_alloc), (''sqlite3_mutex_enter'',
     routine_mutex_enter), (''sqlite3_mutex_free'', routine_mutex_free), (''sqlite3_mutex_leave'',
     routine_mutex_leave), (''sqlite3_mutex_try'', routine_mutex_try), (''sqlite3_open_v2'',
     routine_open_v2), (''sqlite3_release_memory'', routine_release_memory)]"

definition redirects3 :: "(string \<times> decl) list" where
  "redirects3 = [(''sqlite3_result_error_nomem'', routine_result_error_nomem),
     (''sqlite3_result_error_toobig'', routine_result_error_toobig), (''sqlite3_sleep'',
     routine_sleep), (''sqlite3_soft_heap_limit'', routine_soft_heap_limit),
     (''sqlite3_vfs_find'', routine_vfs_find), (''sqlite3_vfs_register'', routine_vfs_register),
     (''sqlite3_vfs_unregister'', routine_vfs_unregister), (''sqlite3_threadsafe'',
     routine_xthreadsafe), (''sqlite3_result_zeroblob'', routine_result_zeroblob),
     (''sqlite3_result_error_code'', routine_result_error_code), (''sqlite3_test_control'',
     routine_test_control), (''sqlite3_randomness'', routine_randomness),
     (''sqlite3_context_db_handle'', routine_context_db_handle),
     (''sqlite3_extended_result_codes'', routine_extended_result_codes), (''sqlite3_limit'',
     routine_limit), (''sqlite3_next_stmt'', routine_next_stmt), (''sqlite3_sql'', routine_sql),
     (''sqlite3_status'', routine_status), (''sqlite3_backup_finish'', routine_backup_finish),
     (''sqlite3_backup_init'', routine_backup_init), (''sqlite3_backup_pagecount'',
     routine_backup_pagecount), (''sqlite3_backup_remaining'', routine_backup_remaining),
     (''sqlite3_backup_step'', routine_backup_step), (''sqlite3_compileoption_get'',
     routine_compileoption_get), (''sqlite3_compileoption_used'', routine_compileoption_used),
     (''sqlite3_create_function_v2'', routine_create_function_v2), (''sqlite3_db_config'',
     routine_db_config), (''sqlite3_db_mutex'', routine_db_mutex), (''sqlite3_db_status'',
     routine_db_status), (''sqlite3_extended_errcode'', routine_extended_errcode),
     (''sqlite3_log'', routine_log), (''sqlite3_soft_heap_limit64'', routine_soft_heap_limit64),
     (''sqlite3_sourceid'', routine_sourceid), (''sqlite3_stmt_status'', routine_stmt_status),
     (''sqlite3_strnicmp'', routine_strnicmp), (''sqlite3_unlock_notify'', routine_unlock_notify),
     (''sqlite3_wal_autocheckpoint'', routine_wal_autocheckpoint), (''sqlite3_wal_checkpoint'',
     routine_wal_checkpoint), (''sqlite3_wal_hook'', routine_wal_hook), (''sqlite3_blob_reopen'',
     routine_blob_reopen), (''sqlite3_vtab_config'', routine_vtab_config),
     (''sqlite3_vtab_on_conflict'', routine_vtab_on_conflict), (''sqlite3_close_v2'',
     routine_close_v2), (''sqlite3_db_filename'', routine_db_filename), (''sqlite3_db_readonly'',
     routine_db_readonly), (''sqlite3_db_release_memory'', routine_db_release_memory),
     (''sqlite3_errstr'', routine_errstr), (''sqlite3_stmt_busy'', routine_stmt_busy),
     (''sqlite3_stmt_readonly'', routine_stmt_readonly), (''sqlite3_stricmp'', routine_stricmp),
     (''sqlite3_uri_boolean'', routine_uri_boolean), (''sqlite3_uri_int64'', routine_uri_int64),
     (''sqlite3_uri_parameter'', routine_uri_parameter)]"

definition redirect_uri_vsnprintf :: "(string \<times> decl) list" where
  "redirect_uri_vsnprintf = [(''sqlite3_uri_vsnprintf'', routine_xvsnprintf)]"

definition redirects5 :: "(string \<times> decl) list" where
  "redirects5 = [(''sqlite3_wal_checkpoint_v2'', routine_wal_checkpoint_v2),
     (''sqlite3_auto_extension'', routine_auto_extension), (''sqlite3_bind_blob64'',
     routine_bind_blob64), (''sqlite3_bind_text64'', routine_bind_text64),
     (''sqlite3_cancel_auto_extension'', routine_cancel_auto_extension),
     (''sqlite3_load_extension'', routine_load_extension), (''sqlite3_malloc64'',
     routine_malloc64), (''sqlite3_msize'', routine_msize), (''sqlite3_realloc64'',
     routine_realloc64), (''sqlite3_reset_auto_extension'', routine_reset_auto_extension),
     (''sqlite3_result_blob64'', routine_result_blob64), (''sqlite3_result_text64'',
     routine_result_text64), (''sqlite3_strglob'', routine_strglob), (''sqlite3_value_dup'',
     routine_value_dup), (''sqlite3_value_free'', routine_value_free),
     (''sqlite3_result_zeroblob64'', routine_result_zeroblob64), (''sqlite3_bind_zeroblob64'',
     routine_bind_zeroblob64), (''sqlite3_value_subtype'', routine_value_subtype),
     (''sqlite3_result_subtype'', routine_result_subtype), (''sqlite3_status64'',
     routine_status64), (''sqlite3_strlike'', routine_strlike), (''sqlite3_db_cacheflush'',
     routine_db_cacheflush), (''sqlite3_system_errno'', routine_system_errno),
     (''sqlite3_trace_v2'', routine_trace_v2), (''sqlite3_expanded_sql'', routine_expanded_sql),
     (''sqlite3_set_last_insert_rowid'', routine_set_last_insert_rowid), (''sqlite3_prepare_v3'',
     routine_prepare_v3), (''sqlite3_prepare16_v3'', routine_prepare16_v3),
     (''sqlite3_bind_pointer'', routine_bind_pointer), (''sqlite3_result_pointer'',
     routine_result_pointer), (''sqlite3_value_pointer'', routine_value_pointer),
     (''sqlite3_vtab_nochange'', routine_vtab_nochange), (''sqlite3_value_nochange'',
     routine_value_nochange), (''sqlite3_vtab_collation'', routine_vtab_collation),
     (''sqlite3_keyword_count'', routine_keyword_count), (''sqlite3_keyword_name'',
     routine_keyword_name), (''sqlite3_keyword_check'', routine_keyword_check),
     (''sqlite3_str_new'', routine_str_new), (''sqlite3_str_finish'', routine_str_finish),
     (''sqlite3_str_appendf'', routine_str_appendf), (''sqlite3_str_vappendf'',
     routine_str_vappendf), (''sqlite3_str_append'', routine_str_append),
     (''sqlite3_str_appendall'', routine_str_appendall), (''sqlite3_str_appendchar'',
     routine_str_appendchar), (''sqlite3_str_reset'', routine_str_reset),
     (''sqlite3_str_errcode'', routine_str_errcode), (''sqlite3_str_length'', routine_str_length),
     (''sqlite3_str_value'', routine_str_value), (''sqlite3_create_window_function'',
     routine_create_window_function), (''sqlite3_normalized_sql'', routine_normalized_sql),
     (''sqlite3_stmt_isexplain'', routine_stmt_isexplain), (''sqlite3_value_frombind'',
     routine_value_frombind), (''sqlite3_drop_modules'', routine_drop_modules),
     (''sqlite3_hard_heap_limit64'', routine_hard_heap_limit64), (''sqlite3_uri_key'',
     routine_uri_key), (''sqlite3_filename_database'', routine_filename_database),
     (''sqlite3_filename_journal'', routine_filename_journal), (''sqlite3_filename_wal'',
     routine_filename_wal), (''sqlite3_create_filename'', routine_create_filename),
     (''sqlite3_free_filename'', routine_free_filename), (''sqlite3_database_file_object'',
     routine_database_file_object), (''sqlite3_txn_state'', routine_txn_state),
     (''sqlite3_changes64'', routine_changes64), (''sqlite3_total_changes64'',
     routine_total_changes64), (''sqlite3_autovacuum_pages'', routine_autovacuum_pages),
     (''sqlite3_error_offset'', routine_error_offset), (''sqlite3_vtab_rhs_value'',
     routine_vtab_rhs_value), (''sqlite3_vtab_distinct'', routine_vtab_distinct),
     (''sqlite3_vtab_in'', routine_vtab_in), (''sqlite3_vtab_in_first'', routine_vtab_in_first)]"

definition redirects6 :: "(string \<times> decl) list" where
  "redirects6 = [(''sqlite3_vtab_in_next'', routine_vtab_in_next), (''sqlite3_deserialize'',
     routine_deserialize), (''sqlite3_serialize'', routine_serialize), (''sqlite3_db_name'',
     routine_db_name), (''sqlite3_value_encoding'', routine_value_encoding),
     (''sqlite3_is_interrupted'', routine_is_interrupted), (''sqlite3_stmt_explain'',
     routine_stmt_explain), (''sqlite3_get_clientdata'', routine_get_clientdata),
     (''sqlite3_set_clientdata'', routine_set_clientdata)]"

definition redirects :: "(string \<times> decl) list" where
  "redirects = redirects1 @ redirects2 @ redirects3 @ redirect_uri_vsnprintf @ redirects5 @ redirects6"

definition header_api :: "decl list" where
  "header_api = api1 @ api2 @ api3 @ api4"

definition capi_sections :: "capi_section list" where
  "capi_sections = sections1 @ sections2 @ sections3"

text \<open>
  A routine stands for a prototype when it is a pointer to a function of a compatible type; a
  redirect is good when the header declares a function of the macro's name that the routine
  stands for.
\<close>

fun routine_for :: "decl \<Rightarrow> decl \<Rightarrow> bool" where
  "routine_for (Decl n (Ptr f)) p = compatible header_env f (decl_type p)"
| "routine_for _ p = False"

definition redirect_ok :: "string \<times> decl \<Rightarrow> bool" where
  "redirect_ok mr = list_ex (\<lambda>p. decl_name p = fst mr \<and> routine_for (snd mr) p) header_api"

text \<open>The prototypes behind the redirects, in the order of the macros.\<close>

definition targets1 :: "decl list" where
  "targets1 = [sqlite3_aggregate_context, sqlite3_aggregate_count, sqlite3_bind_blob,
     sqlite3_bind_double, sqlite3_bind_int, sqlite3_bind_int64, sqlite3_bind_null,
     sqlite3_bind_parameter_count, sqlite3_bind_parameter_index, sqlite3_bind_parameter_name,
     sqlite3_bind_text, sqlite3_bind_text16, sqlite3_bind_value, sqlite3_busy_handler,
     sqlite3_busy_timeout, sqlite3_changes, sqlite3_close, sqlite3_collation_needed,
     sqlite3_collation_needed16, sqlite3_column_blob, sqlite3_column_bytes,
     sqlite3_column_bytes16, sqlite3_column_count, sqlite3_column_database_name,
     sqlite3_column_database_name16, sqlite3_column_decltype, sqlite3_column_decltype16,
     sqlite3_column_double, sqlite3_column_int, sqlite3_column_int64, sqlite3_column_name,
     sqlite3_column_name16, sqlite3_column_origin_name, sqlite3_column_origin_name16,
     sqlite3_column_table_name, sqlite3_column_table_name16, sqlite3_column_text,
     sqlite3_column_text16, sqlite3_column_type, sqlite3_column_value, sqlite3_commit_hook,
     sqlite3_complete, sqlite3_complete16, sqlite3_create_collation, sqlite3_create_collation16,
     sqlite3_create_function, sqlite3_create_function16, sqlite3_create_module,
     sqlite3_create_module_v2, sqlite3_data_count, sqlite3_db_handle, sqlite3_declare_vtab,
     sqlite3_enable_shared_cache, sqlite3_errcode, sqlite3_errmsg, sqlite3_errmsg16, sqlite3_exec,
     sqlite3_expired, sqlite3_finalize, sqlite3_free, sqlite3_free_table, sqlite3_get_autocommit,
     sqlite3_get_auxdata, sqlite3_get_table, sqlite3_global_recover, sqlite3_interrupt,
     sqlite3_last_insert_rowid, sqlite3_libversion, sqlite3_libversion_number, sqlite3_malloc]"

lemma targets1_match:
  "list_all2 (\<lambda>mr p. decl_name p = fst mr \<and> routine_for (snd mr) p) redirects1 targets1"
  by (simp add: redirects1_def targets1_def compatible_def api_decls ctype_names)

lemma targets1_declared: "set targets1 \<subseteq> set header_api"
  by (simp add: targets1_def header_api_def api1_def api2_def api3_def api4_def)

definition targets2 :: "decl list" where
  "targets2 = [sqlite3_mprintf, sqlite3_open, sqlite3_open16, sqlite3_prepare, sqlite3_prepare16,
     sqlite3_prepare_v2, sqlite3_prepare16_v2, sqlite3_profile, sqlite3_progress_handler,
     sqlite3_realloc, sqlite3_reset, sqlite3_result_blob, sqlite3_result_double,
     sqlite3_result_error, sqlite3_result_error16, sqlite3_result_int, sqlite3_result_int64,
     sqlite3_result_null, sqlite3_result_text, sqlite3_result_text16, sqlite3_result_text16be,
     sqlite3_result_text16le, sqlite3_result_value, sqlite3_rollback_hook, sqlite3_set_authorizer,
     sqlite3_set_auxdata, sqlite3_snprintf, sqlite3_step, sqlite3_table_column_metadata,
     sqlite3_thread_cleanup, sqlite3_total_changes, sqlite3_trace, sqlite3_transfer_bindings,
     sqlite3_update_hook, sqlite3_user_data, sqlite3_value_blob, sqlite3_value_bytes,
     sqlite3_value_bytes16, sqlite3_value_double, sqlite3_value_int, sqlite3_value_int64,
     sqlite3_value_numeric_type, sqlite3_value_text, sqlite3_value_text16, sqlite3_value_text16be,
     sqlite3_value_text16le, sqlite3_value_type, sqlite3_vmprintf, sqlite3_vsnprintf,
     sqlite3_overload_function, sqlite3_prepare_v2, sqlite3_prepare16_v2, sqlite3_clear_bindings,
     sqlite3_bind_zeroblob, sqlite3_blob_bytes, sqlite3_blob_close, sqlite3_blob_open,
     sqlite3_blob_read, sqlite3_blob_write, sqlite3_create_collation_v2, sqlite3_file_control,
     sqlite3_memory_highwater, sqlite3_memory_used, sqlite3_mutex_alloc, sqlite3_mutex_enter,
     sqlite3_mutex_free, sqlite3_mutex_leave, sqlite3_mutex_try, sqlite3_open_v2,
     sqlite3_release_memory]"

lemma targets2_match:
  "list_all2 (\<lambda>mr p. decl_name p = fst mr \<and> routine_for (snd mr) p) redirects2 targets2"
  by (simp add: redirects2_def targets2_def compatible_def api_decls ctype_names)

lemma targets2_declared: "set targets2 \<subseteq> set header_api"
  by (simp add: targets2_def header_api_def api1_def api2_def api3_def api4_def)

definition targets3 :: "decl list" where
  "targets3 = [sqlite3_result_error_nomem, sqlite3_result_error_toobig, sqlite3_sleep,
     sqlite3_soft_heap_limit, sqlite3_vfs_find, sqlite3_vfs_register, sqlite3_vfs_unregister,
     sqlite3_threadsafe, sqlite3_result_zeroblob, sqlite3_result_error_code, sqlite3_test_control,
     sqlite3_randomness, sqlite3_context_db_handle, sqlite3_extended_result_codes, sqlite3_limit,
     sqlite3_next_stmt, sqlite3_sql, sqlite3_status, sqlite3_backup_finish, sqlite3_backup_init,
     sqlite3_backup_pagecount, sqlite3_backup_remaining, sqlite3_backup_step,
     sqlite3_compileoption_get, sqlite3_compileoption_used, sqlite3_create_function_v2,
     sqlite3_db_config, sqlite3_db_mutex, sqlite3_db_status, sqlite3_extended_errcode,
     sqlite3_log, sqlite3_soft_heap_limit64, sqlite3_sourceid, sqlite3_stmt_status,
     sqlite3_strnicmp, sqlite3_unlock_notify, sqlite3_wal_autocheckpoint, sqlite3_wal_checkpoint,
     sqlite3_wal_hook, sqlite3_blob_reopen, sqlite3_vtab_config, sqlite3_vtab_on_conflict,
     sqlite3_close_v2, sqlite3_db_filename, sqlite3_db_readonly, sqlite3_db_release_memory,
     sqlite3_errstr, sqlite3_stmt_busy, sqlite3_stmt_readonly, sqlite3_stricmp,
     sqlite3_uri_boolean, sqlite3_uri_int64, sqlite3_uri_parameter]"

lemma targets3_match:
  "list_all2 (\<lambda>mr p. decl_name p = fst mr \<and> routine_for (snd mr) p) redirects3 targets3"
  by (simp add: redirects3_def targets3_def compatible_def api_decls ctype_names)

lemma targets3_declared: "set targets3 \<subseteq> set header_api"
  by (simp add: targets3_def header_api_def api1_def api2_def api3_def api4_def)

definition targets5 :: "decl list" where
  "targets5 = [sqlite3_wal_checkpoint_v2, sqlite3_auto_extension, sqlite3_bind_blob64,
     sqlite3_bind_text64, sqlite3_cancel_auto_extension, sqlite3_load_extension, sqlite3_malloc64,
     sqlite3_msize, sqlite3_realloc64, sqlite3_reset_auto_extension, sqlite3_result_blob64,
     sqlite3_result_text64, sqlite3_strglob, sqlite3_value_dup, sqlite3_value_free,
     sqlite3_result_zeroblob64, sqlite3_bind_zeroblob64, sqlite3_value_subtype,
     sqlite3_result_subtype, sqlite3_status64, sqlite3_strlike, sqlite3_db_cacheflush,
     sqlite3_system_errno, sqlite3_trace_v2, sqlite3_expanded_sql, sqlite3_set_last_insert_rowid,
     sqlite3_prepare_v3, sqlite3_prepare16_v3, sqlite3_bind_pointer, sqlite3_result_pointer,
     sqlite3_value_pointer, sqlite3_vtab_nochange, sqlite3_value_nochange, sqlite3_vtab_collation,
     sqlite3_keyword_count, sqlite3_keyword_name, sqlite3_keyword_check, sqlite3_str_new,
     sqlite3_str_finish, sqlite3_str_appendf, sqlite3_str_vappendf, sqlite3_str_append,
     sqlite3_str_appendall, sqlite3_str_appendchar, sqlite3_str_reset, sqlite3_str_errcode,
     sqlite3_str_length, sqlite3_str_value, sqlite3_create_window_function,
     sqlite3_normalized_sql, sqlite3_stmt_isexplain, sqlite3_value_frombind, sqlite3_drop_modules,
     sqlite3_hard_heap_limit64, sqlite3_uri_key, sqlite3_filename_database,
     sqlite3_filename_journal, sqlite3_filename_wal, sqlite3_create_filename,
     sqlite3_free_filename, sqlite3_database_file_object, sqlite3_txn_state, sqlite3_changes64,
     sqlite3_total_changes64, sqlite3_autovacuum_pages, sqlite3_error_offset,
     sqlite3_vtab_rhs_value, sqlite3_vtab_distinct, sqlite3_vtab_in, sqlite3_vtab_in_first]"

lemma targets5_match:
  "list_all2 (\<lambda>mr p. decl_name p = fst mr \<and> routine_for (snd mr) p) redirects5 targets5"
  by (simp add: redirects5_def targets5_def compatible_def api_decls ctype_names)

lemma targets5_declared: "set targets5 \<subseteq> set header_api"
  by (simp add: targets5_def header_api_def api1_def api2_def api3_def api4_def)

definition targets6 :: "decl list" where
  "targets6 = [sqlite3_vtab_in_next, sqlite3_deserialize, sqlite3_serialize, sqlite3_db_name,
     sqlite3_value_encoding, sqlite3_is_interrupted, sqlite3_stmt_explain, sqlite3_get_clientdata,
     sqlite3_set_clientdata]"

lemma targets6_match:
  "list_all2 (\<lambda>mr p. decl_name p = fst mr \<and> routine_for (snd mr) p) redirects6 targets6"
  by (simp add: redirects6_def targets6_def compatible_def api_decls ctype_names)

lemma targets6_declared: "set targets6 \<subseteq> set header_api"
  by (simp add: targets6_def header_api_def api1_def api2_def api3_def api4_def)

lemma matched_redirects_ok:
  assumes "list_all2 (\<lambda>mr p. decl_name p = fst mr \<and> routine_for (snd mr) p) rs ps"
    and "set ps \<subseteq> set header_api"
  shows "filter (\<lambda>mr. \<not> redirect_ok mr) rs = []"
  using assms by (induction) (auto simp: redirect_ok_def list_ex_iff)

lemmas good_redirects =
  matched_redirects_ok [OF targets1_match targets1_declared]
  matched_redirects_ok [OF targets2_match targets2_declared]
  matched_redirects_ok [OF targets3_match targets3_declared]
  matched_redirects_ok [OF targets5_match targets5_declared]
  matched_redirects_ok [OF targets6_match targets6_declared]

lemma uri_vsnprintf_undeclared: "\<not> redirect_ok (''sqlite3_uri_vsnprintf'', routine_xvsnprintf)"
  by (simp add: redirect_ok_def header_api_def api1_def api2_def api3_def api4_def api_decls)

lemmas redirect_defs =
  redirects1_def redirects2_def redirects3_def redirect_uri_vsnprintf_def redirects5_def
  redirects6_def

lemma redirects_cover: "set sqlite3_api_routines = snd ` set redirects"
proof (rule equalityI)
  show "set sqlite3_api_routines \<subseteq> snd ` set redirects"
    by (simp only: table_defs redirects_def redirect_defs list.set set_append image_insert image_Un
        image_empty snd_conv insert_subset insert_iff Un_iff empty_subsetI Un_subset_iff simp_thms)
  show "snd ` set redirects \<subseteq> set sqlite3_api_routines"
    by (simp only: table_defs redirects_def redirect_defs list.set set_append image_insert image_Un
        image_empty snd_conv insert_subset insert_iff Un_iff empty_subsetI Un_subset_iff simp_thms)
qed

lemma redirects1_renamed:
  "map (\<lambda>(m, r). (m, decl_name r)) (filter (\<lambda>(m, r). m \<noteq> ''sqlite3_'' @ decl_name r) redirects1) =
     [(''sqlite3_interrupt'', ''interruptx'')]"
  by (simp add: redirects1_def routine_names)

lemma redirects2_renamed:
  "map (\<lambda>(m, r). (m, decl_name r)) (filter (\<lambda>(m, r). m \<noteq> ''sqlite3_'' @ decl_name r) redirects2) =
     [(''sqlite3_snprintf'', ''xsnprintf''), (''sqlite3_vsnprintf'', ''xvsnprintf'')]"
  by (simp add: redirects2_def routine_names)

lemma redirects3_renamed:
  "map (\<lambda>(m, r). (m, decl_name r)) (filter (\<lambda>(m, r). m \<noteq> ''sqlite3_'' @ decl_name r) redirects3) =
     [(''sqlite3_threadsafe'', ''xthreadsafe'')]"
  by (simp add: redirects3_def routine_names)

lemma redirect_uri_vsnprintf_renamed:
  "map (\<lambda>(m, r). (m, decl_name r)) (filter (\<lambda>(m, r). m \<noteq> ''sqlite3_'' @ decl_name r) redirect_uri_vsnprintf) =
     [(''sqlite3_uri_vsnprintf'', ''xvsnprintf'')]"
  by (simp add: redirect_uri_vsnprintf_def routine_names)

lemma redirects5_renamed:
  "map (\<lambda>(m, r). (m, decl_name r)) (filter (\<lambda>(m, r). m \<noteq> ''sqlite3_'' @ decl_name r) redirects5) =
     []"
  by (simp add: redirects5_def routine_names)

lemma redirects6_renamed:
  "map (\<lambda>(m, r). (m, decl_name r)) (filter (\<lambda>(m, r). m \<noteq> ''sqlite3_'' @ decl_name r) redirects6) =
     []"
  by (simp add: redirects6_def routine_names)

lemmas redirects_renamed =
  redirects1_renamed redirects2_renamed redirects3_renamed redirect_uri_vsnprintf_renamed
  redirects5_renamed redirects6_renamed

section \<open>Properties of the headers\<close>

text \<open>
  C36. Every macro of \<^verbatim>\<open>sqlite3ext.h\<close> redirects a declared function to a routine of a compatible
  type, with one exception: \<^verbatim>\<open>sqlite3_uri_vsnprintf\<close> is no function of the library. Every routine is
  the target of a macro, and a macro bears its routine's name except for the listed ones.
\<close>

theorem redirects_match_prototypes:
  "filter (\<lambda>mr. \<not> redirect_ok mr) redirects = [(''sqlite3_uri_vsnprintf'', routine_xvsnprintf)] \<and>
   set sqlite3_api_routines = snd ` set redirects \<and>
   map (\<lambda>(m, r). (m, decl_name r)) (filter (\<lambda>(m, r). m \<noteq> ''sqlite3_'' @ decl_name r) redirects) =
     [(''sqlite3_interrupt'', ''interruptx''), (''sqlite3_snprintf'', ''xsnprintf''),
      (''sqlite3_vsnprintf'', ''xvsnprintf''), (''sqlite3_threadsafe'', ''xthreadsafe''),
      (''sqlite3_uri_vsnprintf'', ''xvsnprintf'')]"
proof (intro conjI)
  show "filter (\<lambda>mr. \<not> redirect_ok mr) redirects = [(''sqlite3_uri_vsnprintf'', routine_xvsnprintf)]"
    using uri_vsnprintf_undeclared
    by (simp add: redirects_def redirect_uri_vsnprintf_def good_redirects)
  show "set sqlite3_api_routines = snd ` set redirects"
    by (rule redirects_cover)
  show "map (\<lambda>(m, r). (m, decl_name r)) (filter (\<lambda>(m, r). m \<noteq> ''sqlite3_'' @ decl_name r) redirects) =
     [(''sqlite3_interrupt'', ''interruptx''), (''sqlite3_snprintf'', ''xsnprintf''),
      (''sqlite3_vsnprintf'', ''xvsnprintf''), (''sqlite3_threadsafe'', ''xthreadsafe''),
      (''sqlite3_uri_vsnprintf'', ''xvsnprintf'')]"
    by (simp only: redirects_def filter_append map_append redirects_renamed) simp
qed

text \<open>
  The functions of a section tagged \<^verbatim>\<open>METHOD\<close> take their object first, constructors return or
  store a new object and destructors take it; exactly six functions deviate from their tags.
\<close>

theorem roles_respected:
  "concat (map violations capi_sections) =
     [''sqlite3_free_table'', ''sqlite3_errstr'', ''sqlite3_activate_cerod'', ''sqlite3_snapshot_open'',
      ''sqlite3_snapshot_recover'', ''sqlite3changegroup_schema'']"
  by (simp add: capi_sections_def sections1_violations sections2_violations sections3_violations)

text \<open>
  Every function that the text of a section refers to is declared in the header, and the
  sections document exactly the declared functions, each once and in order.
\<close>

theorem references_resolve:
  "set (concat (map sec_refs capi_sections)) \<subseteq> decl_name ` set header_api \<and>
   concat (map sec_decls capi_sections) = header_api"
proof (intro conjI)
  have "set refs1 \<union> set refs2 \<union> set refs3 \<subseteq> set header_api"
    using refs1_declared refs2_declared refs3_declared by (auto simp: header_api_def)
  moreover have "concat (map sec_refs capi_sections) = map decl_name (refs1 @ refs2 @ refs3)"
    by (simp add: capi_sections_def sections1_refs sections2_refs sections3_refs)
  ultimately show "set (concat (map sec_refs capi_sections)) \<subseteq> decl_name ` set header_api"
    by auto
  show "concat (map sec_decls capi_sections) = header_api"
    by (simp add: capi_sections_def sections1_def sections2_def sections3_def api_sections
        header_api_def api1_def api2_def api3_def api4_def)
qed

end
