(* ===== verification/PluginApi.thy ===== *)
theory PluginApi
  imports ExtApi PluginVfs
begin

text \<open>
  The plugin as a client of the routine table: a loadable extension is compiled against the
  table of its header but is handed the table of the library that loads it, which may be older or
  newer. \<^verbatim>\<open>SqliteApi::new_dynamic\<close> reads five members by the offsets of the header.
\<close>

section \<open>Reading a member by its offset\<close>

text \<open>
  The library's table is the list of its function pointers. A member is loaded from the offset
  the header gives it; \<open>None\<close> is a load beyond the end of the library's table.
\<close>

definition load_routine :: "'f list \<Rightarrow> string \<Rightarrow> 'f option" where
  "load_routine tab n =
     (case offset_of sqlite3_api_routines n of
        None \<Rightarrow> None
      | Some k \<Rightarrow> if k div pointer_size < length tab then Some (tab ! (k div pointer_size)) else None)"

text \<open>The members that \<^verbatim>\<open>new_dynamic\<close> reads, in its order.\<close>

definition new_dynamic_members :: "string list" where
  "new_dynamic_members = [''vfs_register'', ''vfs_find'', ''mprintf'', ''log'', ''libversion_number'']"

lemma offset_of_nth:
  "offset_of ms n = Some k \<Longrightarrow>
     k mod pointer_size = 0 \<and> k div pointer_size < length ms \<and> decl_name (ms ! (k div pointer_size)) = n"
  by (induction ms arbitrary: k) (auto simp: pointer_size_def nth_Cons' split: if_splits)

lemma load_routine_prefix:
  assumes "prefix ms sqlite3_api_routines" and "offset_of ms n = Some k"
  shows "load_routine (map f ms) n = Some (f (ms ! (k div pointer_size)))"
proof -
  have "offset_of sqlite3_api_routines n = Some k"
    using assms offset_of_append by (metis prefixE)
  then show ?thesis using offset_of_nth [OF assms(2)] by (simp add: load_routine_def)
qed

text \<open>
  The first groups of the table hold all five members, so only they have to be searched.
\<close>

definition early_routines :: "decl list" where
  "early_routines = routines_base @ routines_unlabelled @ routines_v3_3_13 @ routines_v3_4_1 @ routines_v3_5_0"

lemma early_routines_upto: "routines_upto 3005000 = early_routines"
  by (simp add: routines_upto_def routine_groups_def early_routines_def)

lemma early_offsets:
  "map (offset_of early_routines) new_dynamic_members = map Some [1136, 1128, 552, 1336, 536]"
  by (simp add: early_routines_def new_dynamic_members_def routine_group_defs routine_names pointer_size_def)

lemma early_members:
  "map (\<lambda>k. early_routines ! (k div pointer_size)) [1136, 1128, 552, 1336, 536] =
     [routine_vfs_register, routine_vfs_find, routine_mprintf, routine_log, routine_libversion_number]"
  by (simp add: early_routines_def routine_group_defs pointer_size_def)

lemma load_early:
  assumes "3005000 \<le> v" and "offset_of early_routines n = Some k"
  shows "load_routine (map f (routines_upto v)) n = Some (f (early_routines ! (k div pointer_size)))"
proof -
  obtain more where more: "routines_upto v = early_routines @ more"
    using routines_upto_mono [OF assms(1)] by (metis early_routines_upto prefixE)
  have "k div pointer_size < length early_routines" using offset_of_nth [OF assms(2)] by simp
  with load_routine_prefix [OF routines_upto_table, of v n k f] assms(2) more show ?thesis
    by (simp add: offset_of_append nth_append)
qed

text \<open>
  C37. A library at least as new as the version the plugin insists on provides the five members that
  \<^verbatim>\<open>SqliteApi::new_dynamic\<close> reads where the plugin's header puts them: every load stays inside the
  library's table and yields that library's function of the same name. The header declares
  functions of compatible types for all five.
\<close>

theorem new_dynamic_loads_inside_table:
  assumes "unat MIN_SQLITE_VERSION_NUMBER \<le> v"
  shows "map (load_routine (map f (routines_upto v))) new_dynamic_members =
      map (\<lambda>r. Some (f r))
        [routine_vfs_register, routine_vfs_find, routine_mprintf, routine_log, routine_libversion_number] \<and>
    map decl_name
        [routine_vfs_register, routine_vfs_find, routine_mprintf, routine_log, routine_libversion_number] =
      new_dynamic_members \<and>
    list_all2 routine_for
        [routine_vfs_register, routine_vfs_find, routine_mprintf, routine_log, routine_libversion_number]
        [sqlite3_vfs_register, sqlite3_vfs_find, sqlite3_mprintf, sqlite3_log, sqlite3_libversion_number]"
proof -
  have v: "3005000 \<le> v" using assms by (simp add: MIN_SQLITE_VERSION_NUMBER_def)
  note load = load_early [OF v, of _ _ f]
  have "map (load_routine (map f (routines_upto v))) new_dynamic_members =
      map (\<lambda>r. Some (f r)) (map (\<lambda>k. early_routines ! (k div pointer_size)) [1136, 1128, 552, 1336, 536])"
    using early_offsets by (simp add: new_dynamic_members_def load)
  then show ?thesis
    by (simp only: early_members)
      (simp add: new_dynamic_members_def api_decls compatible_def ctype_names)
qed

theorem new_dynamic_loads_inside_table_witness:
  "load_routine (map decl_name (routines_upto 3046000)) ''log'' = Some ''log''"
  using new_dynamic_loads_inside_table [of 3046000 decl_name]
  by (simp add: MIN_SQLITE_VERSION_NUMBER_def new_dynamic_members_def routine_names)

end
