(* ===== verification/HeaderMacro.thy ===== *)
theory HeaderMacro
  imports SqliteHeader
begin

text \<open>
  Constants of a C header as data: a macro has a name, a value and the comment on its line; a section
  of the header's documentation introduces constants, documents some of them one by one, and is followed by
  the macros themselves. The functions compute where documentation and macros deviate.
\<close>

named_theorems const_macros \<open>the constants of the header\<close>
named_theorems const_docs \<open>the documentation of the constants\<close>

datatype macro = Macro (macro_name: string) (macro_value: i32) (macro_note: string)

text \<open>An entry: the anchors or terms it documents, the functions and the constants its text refers to.\<close>

datatype const_doc = ConstDoc (doc_names: "string list") (doc_funs: "string list") (doc_consts: "string list")

record const_section =
  cs_title :: string
  cs_funs :: "string list"
  cs_consts :: "string list"
  cs_docs :: "const_doc list"
  cs_macros :: "macro list"

definition section_funs :: "const_section \<Rightarrow> string list" where
  "section_funs s = cs_funs s @ concat (map doc_funs (cs_docs s))"

definition section_consts :: "const_section \<Rightarrow> string list" where
  "section_consts s = cs_consts s @ concat (map doc_consts (cs_docs s))"

text \<open>Documented names that are no macros of the section.\<close>

definition misdocumented :: "const_section \<Rightarrow> string list" where
  "misdocumented s =
     filter (\<lambda>n. \<not> list_ex (\<lambda>m. macro_name m = n) (cs_macros s)) (concat (map doc_names (cs_docs s)))"

text \<open>Macros that have no entry, in a section that has entries.\<close>

definition undocumented :: "const_section \<Rightarrow> string list" where
  "undocumented s =
     (if cs_docs s = [] then []
      else filter (\<lambda>n. \<not> list_ex (\<lambda>d. n = d) (concat (map doc_names (cs_docs s)))) (map macro_name (cs_macros s)))"

text \<open>Pairs of macros with the same value.\<close>

fun clashes :: "macro list \<Rightarrow> (string \<times> string) list" where
  "clashes [] = []"
| "clashes (m # ms) =
     map (\<lambda>n. (macro_name m, macro_name n)) (filter (\<lambda>n. macro_value n = macro_value m) ms) @ clashes ms"

lemma clashes_distinct: "distinct (map macro_value ms) \<Longrightarrow> clashes ms = []"
  by (induction ms) (auto simp: filter_empty_conv dest: image_eqI [OF sym])

text \<open>
  Names are compared from their ends, where they differ first.
\<close>

fun missing_from :: "string list \<Rightarrow> string list \<Rightarrow> string list" where
  "missing_from ns ms = map rev (filter (\<lambda>n. \<not> list_ex (\<lambda>m. m = n) ms) ns)"

definition misdocumented_rev :: "const_section \<Rightarrow> string list" where
  "misdocumented_rev s =
     missing_from (map rev (concat (map doc_names (cs_docs s)))) (map (\<lambda>m. rev (macro_name m)) (cs_macros s))"

definition undocumented_rev :: "const_section \<Rightarrow> string list" where
  "undocumented_rev s =
     (if cs_docs s = [] then []
      else missing_from (map (\<lambda>m. rev (macro_name m)) (cs_macros s)) (map rev (concat (map doc_names (cs_docs s)))))"

lemma missing_from_rev: "missing_from (map rev ns) (map (\<lambda>x. rev (f x)) xs) = filter (\<lambda>n. n \<notin> f ` set xs) ns"
  by (auto simp: filter_map o_def list_ex_iff image_iff intro!: filter_cong)

lemma misdocumented_eq: "misdocumented = misdocumented_rev"
proof
  fix s
  show "misdocumented s = misdocumented_rev s"
    unfolding misdocumented_def misdocumented_rev_def missing_from_rev
    by (rule filter_cong) (auto simp: list_ex_iff)
qed

lemma undocumented_eq: "undocumented = undocumented_rev"
proof
  fix s :: const_section
  have "missing_from (map rev (map macro_name (cs_macros s)))
      (map (\<lambda>x. rev (id x)) (concat (map doc_names (cs_docs s)))) =
    filter (\<lambda>n. \<not> list_ex (\<lambda>d. n = d) (concat (map doc_names (cs_docs s)))) (map macro_name (cs_macros s))"
    unfolding missing_from_rev by (rule filter_cong) (auto simp: list_ex_iff)
  then show "undocumented s = undocumented_rev s"
    by (simp add: undocumented_def undocumented_rev_def o_def del: missing_from.simps)
qed

text \<open>Values are compared as numbers.\<close>

fun nat_clashes :: "(string \<times> nat) list \<Rightarrow> (string \<times> string) list" where
  "nat_clashes [] = []"
| "nat_clashes (p # ps) =
     map (\<lambda>q. (fst p, fst q)) (filter (\<lambda>q. snd q = snd p) ps) @ nat_clashes ps"

lemma clashes_unat: "clashes ms = nat_clashes (map (\<lambda>m. (macro_name m, unat (macro_value m))) ms)"
  by (induction ms) (simp_all add: filter_map o_def unsigned_word_eqI word_unat_eq_iff)

fun ref_name :: "macro + string \<Rightarrow> string" where
  "ref_name (Inl m) = macro_name m"
| "ref_name (Inr n) = n"

text \<open>Options of the build of SQLite that the texts mention; the header does not define them.\<close>

definition build_options :: "string list" where
  "build_options =
    [''SQLITE_ALLOW_COVERING_INDEX_SCAN'', ''SQLITE_DEBUG'', ''SQLITE_DEFAULT_MEMSTATUS'',
     ''SQLITE_ENABLE_MEMSYS3'', ''SQLITE_ENABLE_MEMSYS5'', ''SQLITE_ENABLE_SORTER_REFERENCES'',
     ''SQLITE_ENABLE_SQLLOG'', ''SQLITE_MAX_MMAP_SIZE'', ''SQLITE_MEMDB_DEFAULT_MAXSIZE'',
     ''SQLITE_SORTER_PMASZ'', ''SQLITE_STMTJRNL_SPILL'', ''SQLITE_USE_FCNTL_TRACE'',
     ''SQLITE_USE_URI'', ''SQLITE_WIN32_MALLOC'']"

end
