(* ===== verification/HeaderConsts1.thy ===== *)
theory HeaderConsts1
  imports HeaderMacro
begin

text \<open>
  The constants of \<^verbatim>\<open>sqlite3.h\<close> from \<^verbatim>\<open>SQLITE_OK\<close> to \<^verbatim>\<open>SQLITE_RECURSIVE\<close>, section by section: name, value and the comment of the line.
  Those that \<^verbatim>\<open>SqliteHeader\<close> declares for the plugin take their value from there.
\<close>

text \<open>Result Codes.\<close>

definition macro_SQLITE_OK :: macro where [const_macros]:
  "macro_SQLITE_OK = Macro ''SQLITE_OK'' SQLITE_OK ''Successful result''"
definition macro_SQLITE_ERROR :: macro where [const_macros]:
  "macro_SQLITE_ERROR = Macro ''SQLITE_ERROR'' SQLITE_ERROR ''Generic error''"
definition macro_SQLITE_INTERNAL :: macro where [const_macros]:
  "macro_SQLITE_INTERNAL = Macro ''SQLITE_INTERNAL'' SQLITE_INTERNAL
     ''Internal logic error in SQLite''"
definition macro_SQLITE_PERM :: macro where [const_macros]:
  "macro_SQLITE_PERM = Macro ''SQLITE_PERM'' SQLITE_PERM ''Access permission denied''"
definition macro_SQLITE_ABORT :: macro where [const_macros]:
  "macro_SQLITE_ABORT = Macro ''SQLITE_ABORT'' SQLITE_ABORT
     ''Callback routine requested an abort''"
definition macro_SQLITE_BUSY :: macro where [const_macros]:
  "macro_SQLITE_BUSY = Macro ''SQLITE_BUSY'' SQLITE_BUSY ''The database file is locked''"
definition macro_SQLITE_LOCKED :: macro where [const_macros]:
  "macro_SQLITE_LOCKED = Macro ''SQLITE_LOCKED'' SQLITE_LOCKED
     ''A table in the database is locked''"
definition macro_SQLITE_NOMEM :: macro where [const_macros]:
  "macro_SQLITE_NOMEM = Macro ''SQLITE_NOMEM'' SQLITE_NOMEM ''A malloc() failed''"
definition macro_SQLITE_READONLY :: macro where [const_macros]:
  "macro_SQLITE_READONLY = Macro ''SQLITE_READONLY'' SQLITE_READONLY
     ''Attempt to write a readonly database''"
definition macro_SQLITE_INTERRUPT :: macro where [const_macros]:
  "macro_SQLITE_INTERRUPT = Macro ''SQLITE_INTERRUPT'' SQLITE_INTERRUPT
     ''Operation terminated by sqlite3_interrupt()''"
definition macro_SQLITE_IOERR :: macro where [const_macros]:
  "macro_SQLITE_IOERR = Macro ''SQLITE_IOERR'' SQLITE_IOERR
     ''Some kind of disk I/O error occurred''"
definition macro_SQLITE_CORRUPT :: macro where [const_macros]:
  "macro_SQLITE_CORRUPT = Macro ''SQLITE_CORRUPT'' SQLITE_CORRUPT
     ''The database disk image is malformed''"
definition macro_SQLITE_NOTFOUND :: macro where [const_macros]:
  "macro_SQLITE_NOTFOUND = Macro ''SQLITE_NOTFOUND'' SQLITE_NOTFOUND
     ''Unknown opcode in sqlite3_file_control()''"
definition macro_SQLITE_FULL :: macro where [const_macros]:
  "macro_SQLITE_FULL = Macro ''SQLITE_FULL'' SQLITE_FULL
     ''Insertion failed because database is full''"
definition macro_SQLITE_CANTOPEN :: macro where [const_macros]:
  "macro_SQLITE_CANTOPEN = Macro ''SQLITE_CANTOPEN'' SQLITE_CANTOPEN
     ''Unable to open the database file''"
definition macro_SQLITE_PROTOCOL :: macro where [const_macros]:
  "macro_SQLITE_PROTOCOL = Macro ''SQLITE_PROTOCOL'' SQLITE_PROTOCOL
     ''Database lock protocol error''"
definition macro_SQLITE_EMPTY :: macro where [const_macros]:
  "macro_SQLITE_EMPTY = Macro ''SQLITE_EMPTY'' SQLITE_EMPTY ''Internal use only''"
definition macro_SQLITE_SCHEMA :: macro where [const_macros]:
  "macro_SQLITE_SCHEMA = Macro ''SQLITE_SCHEMA'' SQLITE_SCHEMA ''The database schema changed''"
definition macro_SQLITE_TOOBIG :: macro where [const_macros]:
  "macro_SQLITE_TOOBIG = Macro ''SQLITE_TOOBIG'' SQLITE_TOOBIG
     ''String or BLOB exceeds size limit''"
definition macro_SQLITE_CONSTRAINT :: macro where [const_macros]:
  "macro_SQLITE_CONSTRAINT = Macro ''SQLITE_CONSTRAINT'' SQLITE_CONSTRAINT
     ''Abort due to constraint violation''"
definition macro_SQLITE_MISMATCH :: macro where [const_macros]:
  "macro_SQLITE_MISMATCH = Macro ''SQLITE_MISMATCH'' SQLITE_MISMATCH ''Data type mismatch''"
definition macro_SQLITE_MISUSE :: macro where [const_macros]:
  "macro_SQLITE_MISUSE = Macro ''SQLITE_MISUSE'' SQLITE_MISUSE ''Library used incorrectly''"
definition macro_SQLITE_NOLFS :: macro where [const_macros]:
  "macro_SQLITE_NOLFS = Macro ''SQLITE_NOLFS'' SQLITE_NOLFS
     ''Uses OS features not supported on host''"
definition macro_SQLITE_AUTH :: macro where [const_macros]:
  "macro_SQLITE_AUTH = Macro ''SQLITE_AUTH'' SQLITE_AUTH ''Authorization denied''"
definition macro_SQLITE_FORMAT :: macro where [const_macros]:
  "macro_SQLITE_FORMAT = Macro ''SQLITE_FORMAT'' SQLITE_FORMAT ''Not used''"
definition macro_SQLITE_RANGE :: macro where [const_macros]:
  "macro_SQLITE_RANGE = Macro ''SQLITE_RANGE'' SQLITE_RANGE
     ''2nd parameter to sqlite3_bind out of range''"
definition macro_SQLITE_NOTADB :: macro where [const_macros]:
  "macro_SQLITE_NOTADB = Macro ''SQLITE_NOTADB'' SQLITE_NOTADB
     ''File opened that is not a database file''"
definition macro_SQLITE_NOTICE :: macro where [const_macros]:
  "macro_SQLITE_NOTICE = Macro ''SQLITE_NOTICE'' SQLITE_NOTICE
     ''Notifications from sqlite3_log()''"
definition macro_SQLITE_WARNING :: macro where [const_macros]:
  "macro_SQLITE_WARNING = Macro ''SQLITE_WARNING'' SQLITE_WARNING ''Warnings from sqlite3_log()''"
definition macro_SQLITE_ROW :: macro where [const_macros]:
  "macro_SQLITE_ROW = Macro ''SQLITE_ROW'' SQLITE_ROW ''sqlite3_step() has another row ready''"
definition macro_SQLITE_DONE :: macro where [const_macros]:
  "macro_SQLITE_DONE = Macro ''SQLITE_DONE'' SQLITE_DONE
     ''sqlite3_step() has finished executing''"

text \<open>Extended Result Codes.\<close>

definition macro_SQLITE_ERROR_MISSING_COLLSEQ :: macro where [const_macros]:
  "macro_SQLITE_ERROR_MISSING_COLLSEQ = Macro ''SQLITE_ERROR_MISSING_COLLSEQ''
     SQLITE_ERROR_MISSING_COLLSEQ ''''"
definition macro_SQLITE_ERROR_RETRY :: macro where [const_macros]:
  "macro_SQLITE_ERROR_RETRY = Macro ''SQLITE_ERROR_RETRY'' SQLITE_ERROR_RETRY ''''"
definition macro_SQLITE_ERROR_SNAPSHOT :: macro where [const_macros]:
  "macro_SQLITE_ERROR_SNAPSHOT = Macro ''SQLITE_ERROR_SNAPSHOT'' SQLITE_ERROR_SNAPSHOT ''''"
definition macro_SQLITE_IOERR_READ :: macro where [const_macros]:
  "macro_SQLITE_IOERR_READ = Macro ''SQLITE_IOERR_READ'' SQLITE_IOERR_READ ''''"
definition macro_SQLITE_IOERR_SHORT_READ :: macro where [const_macros]:
  "macro_SQLITE_IOERR_SHORT_READ = Macro ''SQLITE_IOERR_SHORT_READ'' SQLITE_IOERR_SHORT_READ ''''"
definition macro_SQLITE_IOERR_WRITE :: macro where [const_macros]:
  "macro_SQLITE_IOERR_WRITE = Macro ''SQLITE_IOERR_WRITE'' SQLITE_IOERR_WRITE ''''"
definition macro_SQLITE_IOERR_FSYNC :: macro where [const_macros]:
  "macro_SQLITE_IOERR_FSYNC = Macro ''SQLITE_IOERR_FSYNC'' SQLITE_IOERR_FSYNC ''''"
definition macro_SQLITE_IOERR_DIR_FSYNC :: macro where [const_macros]:
  "macro_SQLITE_IOERR_DIR_FSYNC = Macro ''SQLITE_IOERR_DIR_FSYNC'' SQLITE_IOERR_DIR_FSYNC ''''"
definition macro_SQLITE_IOERR_TRUNCATE :: macro where [const_macros]:
  "macro_SQLITE_IOERR_TRUNCATE = Macro ''SQLITE_IOERR_TRUNCATE'' SQLITE_IOERR_TRUNCATE ''''"
definition macro_SQLITE_IOERR_FSTAT :: macro where [const_macros]:
  "macro_SQLITE_IOERR_FSTAT = Macro ''SQLITE_IOERR_FSTAT'' SQLITE_IOERR_FSTAT ''''"
definition macro_SQLITE_IOERR_UNLOCK :: macro where [const_macros]:
  "macro_SQLITE_IOERR_UNLOCK = Macro ''SQLITE_IOERR_UNLOCK'' SQLITE_IOERR_UNLOCK ''''"
definition macro_SQLITE_IOERR_RDLOCK :: macro where [const_macros]:
  "macro_SQLITE_IOERR_RDLOCK = Macro ''SQLITE_IOERR_RDLOCK'' SQLITE_IOERR_RDLOCK ''''"
definition macro_SQLITE_IOERR_DELETE :: macro where [const_macros]:
  "macro_SQLITE_IOERR_DELETE = Macro ''SQLITE_IOERR_DELETE'' SQLITE_IOERR_DELETE ''''"
definition macro_SQLITE_IOERR_BLOCKED :: macro where [const_macros]:
  "macro_SQLITE_IOERR_BLOCKED = Macro ''SQLITE_IOERR_BLOCKED'' SQLITE_IOERR_BLOCKED ''''"
definition macro_SQLITE_IOERR_NOMEM :: macro where [const_macros]:
  "macro_SQLITE_IOERR_NOMEM = Macro ''SQLITE_IOERR_NOMEM'' SQLITE_IOERR_NOMEM ''''"
definition macro_SQLITE_IOERR_ACCESS :: macro where [const_macros]:
  "macro_SQLITE_IOERR_ACCESS = Macro ''SQLITE_IOERR_ACCESS'' SQLITE_IOERR_ACCESS ''''"
definition macro_SQLITE_IOERR_CHECKRESERVEDLOCK :: macro where [const_macros]:
  "macro_SQLITE_IOERR_CHECKRESERVEDLOCK = Macro ''SQLITE_IOERR_CHECKRESERVEDLOCK''
     SQLITE_IOERR_CHECKRESERVEDLOCK ''''"
definition macro_SQLITE_IOERR_LOCK :: macro where [const_macros]:
  "macro_SQLITE_IOERR_LOCK = Macro ''SQLITE_IOERR_LOCK'' SQLITE_IOERR_LOCK ''''"
definition macro_SQLITE_IOERR_CLOSE :: macro where [const_macros]:
  "macro_SQLITE_IOERR_CLOSE = Macro ''SQLITE_IOERR_CLOSE'' SQLITE_IOERR_CLOSE ''''"
definition macro_SQLITE_IOERR_DIR_CLOSE :: macro where [const_macros]:
  "macro_SQLITE_IOERR_DIR_CLOSE = Macro ''SQLITE_IOERR_DIR_CLOSE'' SQLITE_IOERR_DIR_CLOSE ''''"
definition macro_SQLITE_IOERR_SHMOPEN :: macro where [const_macros]:
  "macro_SQLITE_IOERR_SHMOPEN = Macro ''SQLITE_IOERR_SHMOPEN'' SQLITE_IOERR_SHMOPEN ''''"
definition macro_SQLITE_IOERR_SHMSIZE :: macro where [const_macros]:
  "macro_SQLITE_IOERR_SHMSIZE = Macro ''SQLITE_IOERR_SHMSIZE'' SQLITE_IOERR_SHMSIZE ''''"
definition macro_SQLITE_IOERR_SHMLOCK :: macro where [const_macros]:
  "macro_SQLITE_IOERR_SHMLOCK = Macro ''SQLITE_IOERR_SHMLOCK'' SQLITE_IOERR_SHMLOCK ''''"
definition macro_SQLITE_IOERR_SHMMAP :: macro where [const_macros]:
  "macro_SQLITE_IOERR_SHMMAP = Macro ''SQLITE_IOERR_SHMMAP'' SQLITE_IOERR_SHMMAP ''''"
definition macro_SQLITE_IOERR_SEEK :: macro where [const_macros]:
  "macro_SQLITE_IOERR_SEEK = Macro ''SQLITE_IOERR_SEEK'' SQLITE_IOERR_SEEK ''''"
definition macro_SQLITE_IOERR_DELETE_NOENT :: macro where [const_macros]:
  "macro_SQLITE_IOERR_DELETE_NOENT = Macro ''SQLITE_IOERR_DELETE_NOENT'' SQLITE_IOERR_DELETE_NOENT
     ''''"
definition macro_SQLITE_IOERR_MMAP :: macro where [const_macros]:
  "macro_SQLITE_IOERR_MMAP = Macro ''SQLITE_IOERR_MMAP'' SQLITE_IOERR_MMAP ''''"
definition macro_SQLITE_IOERR_GETTEMPPATH :: macro where [const_macros]:
  "macro_SQLITE_IOERR_GETTEMPPATH = Macro ''SQLITE_IOERR_GETTEMPPATH'' SQLITE_IOERR_GETTEMPPATH
     ''''"
definition macro_SQLITE_IOERR_CONVPATH :: macro where [const_macros]:
  "macro_SQLITE_IOERR_CONVPATH = Macro ''SQLITE_IOERR_CONVPATH'' SQLITE_IOERR_CONVPATH ''''"
definition macro_SQLITE_IOERR_VNODE :: macro where [const_macros]:
  "macro_SQLITE_IOERR_VNODE = Macro ''SQLITE_IOERR_VNODE'' SQLITE_IOERR_VNODE ''''"
definition macro_SQLITE_IOERR_AUTH :: macro where [const_macros]:
  "macro_SQLITE_IOERR_AUTH = Macro ''SQLITE_IOERR_AUTH'' SQLITE_IOERR_AUTH ''''"
definition macro_SQLITE_IOERR_BEGIN_ATOMIC :: macro where [const_macros]:
  "macro_SQLITE_IOERR_BEGIN_ATOMIC = Macro ''SQLITE_IOERR_BEGIN_ATOMIC'' SQLITE_IOERR_BEGIN_ATOMIC
     ''''"
definition macro_SQLITE_IOERR_COMMIT_ATOMIC :: macro where [const_macros]:
  "macro_SQLITE_IOERR_COMMIT_ATOMIC = Macro ''SQLITE_IOERR_COMMIT_ATOMIC''
     SQLITE_IOERR_COMMIT_ATOMIC ''''"
definition macro_SQLITE_IOERR_ROLLBACK_ATOMIC :: macro where [const_macros]:
  "macro_SQLITE_IOERR_ROLLBACK_ATOMIC = Macro ''SQLITE_IOERR_ROLLBACK_ATOMIC''
     SQLITE_IOERR_ROLLBACK_ATOMIC ''''"
definition macro_SQLITE_IOERR_DATA :: macro where [const_macros]:
  "macro_SQLITE_IOERR_DATA = Macro ''SQLITE_IOERR_DATA'' SQLITE_IOERR_DATA ''''"
definition macro_SQLITE_IOERR_CORRUPTFS :: macro where [const_macros]:
  "macro_SQLITE_IOERR_CORRUPTFS = Macro ''SQLITE_IOERR_CORRUPTFS'' SQLITE_IOERR_CORRUPTFS ''''"
definition macro_SQLITE_IOERR_IN_PAGE :: macro where [const_macros]:
  "macro_SQLITE_IOERR_IN_PAGE = Macro ''SQLITE_IOERR_IN_PAGE'' SQLITE_IOERR_IN_PAGE ''''"
definition macro_SQLITE_LOCKED_SHAREDCACHE :: macro where [const_macros]:
  "macro_SQLITE_LOCKED_SHAREDCACHE = Macro ''SQLITE_LOCKED_SHAREDCACHE'' SQLITE_LOCKED_SHAREDCACHE
     ''''"
definition macro_SQLITE_LOCKED_VTAB :: macro where [const_macros]:
  "macro_SQLITE_LOCKED_VTAB = Macro ''SQLITE_LOCKED_VTAB'' SQLITE_LOCKED_VTAB ''''"
definition macro_SQLITE_BUSY_RECOVERY :: macro where [const_macros]:
  "macro_SQLITE_BUSY_RECOVERY = Macro ''SQLITE_BUSY_RECOVERY'' SQLITE_BUSY_RECOVERY ''''"
definition macro_SQLITE_BUSY_SNAPSHOT :: macro where [const_macros]:
  "macro_SQLITE_BUSY_SNAPSHOT = Macro ''SQLITE_BUSY_SNAPSHOT'' SQLITE_BUSY_SNAPSHOT ''''"
definition macro_SQLITE_BUSY_TIMEOUT :: macro where [const_macros]:
  "macro_SQLITE_BUSY_TIMEOUT = Macro ''SQLITE_BUSY_TIMEOUT'' SQLITE_BUSY_TIMEOUT ''''"
definition macro_SQLITE_CANTOPEN_NOTEMPDIR :: macro where [const_macros]:
  "macro_SQLITE_CANTOPEN_NOTEMPDIR = Macro ''SQLITE_CANTOPEN_NOTEMPDIR'' SQLITE_CANTOPEN_NOTEMPDIR
     ''''"
definition macro_SQLITE_CANTOPEN_ISDIR :: macro where [const_macros]:
  "macro_SQLITE_CANTOPEN_ISDIR = Macro ''SQLITE_CANTOPEN_ISDIR'' SQLITE_CANTOPEN_ISDIR ''''"
definition macro_SQLITE_CANTOPEN_FULLPATH :: macro where [const_macros]:
  "macro_SQLITE_CANTOPEN_FULLPATH = Macro ''SQLITE_CANTOPEN_FULLPATH'' SQLITE_CANTOPEN_FULLPATH
     ''''"
definition macro_SQLITE_CANTOPEN_CONVPATH :: macro where [const_macros]:
  "macro_SQLITE_CANTOPEN_CONVPATH = Macro ''SQLITE_CANTOPEN_CONVPATH'' SQLITE_CANTOPEN_CONVPATH
     ''''"
definition macro_SQLITE_CANTOPEN_DIRTYWAL :: macro where [const_macros]:
  "macro_SQLITE_CANTOPEN_DIRTYWAL = Macro ''SQLITE_CANTOPEN_DIRTYWAL'' SQLITE_CANTOPEN_DIRTYWAL
     ''Not Used''"
definition macro_SQLITE_CANTOPEN_SYMLINK :: macro where [const_macros]:
  "macro_SQLITE_CANTOPEN_SYMLINK = Macro ''SQLITE_CANTOPEN_SYMLINK'' SQLITE_CANTOPEN_SYMLINK ''''"
definition macro_SQLITE_CORRUPT_VTAB :: macro where [const_macros]:
  "macro_SQLITE_CORRUPT_VTAB = Macro ''SQLITE_CORRUPT_VTAB'' SQLITE_CORRUPT_VTAB ''''"
definition macro_SQLITE_CORRUPT_SEQUENCE :: macro where [const_macros]:
  "macro_SQLITE_CORRUPT_SEQUENCE = Macro ''SQLITE_CORRUPT_SEQUENCE'' SQLITE_CORRUPT_SEQUENCE ''''"
definition macro_SQLITE_CORRUPT_INDEX :: macro where [const_macros]:
  "macro_SQLITE_CORRUPT_INDEX = Macro ''SQLITE_CORRUPT_INDEX'' SQLITE_CORRUPT_INDEX ''''"
definition macro_SQLITE_READONLY_RECOVERY :: macro where [const_macros]:
  "macro_SQLITE_READONLY_RECOVERY = Macro ''SQLITE_READONLY_RECOVERY'' SQLITE_READONLY_RECOVERY
     ''''"
definition macro_SQLITE_READONLY_CANTLOCK :: macro where [const_macros]:
  "macro_SQLITE_READONLY_CANTLOCK = Macro ''SQLITE_READONLY_CANTLOCK'' SQLITE_READONLY_CANTLOCK
     ''''"
definition macro_SQLITE_READONLY_ROLLBACK :: macro where [const_macros]:
  "macro_SQLITE_READONLY_ROLLBACK = Macro ''SQLITE_READONLY_ROLLBACK'' SQLITE_READONLY_ROLLBACK
     ''''"
definition macro_SQLITE_READONLY_DBMOVED :: macro where [const_macros]:
  "macro_SQLITE_READONLY_DBMOVED = Macro ''SQLITE_READONLY_DBMOVED'' SQLITE_READONLY_DBMOVED ''''"
definition macro_SQLITE_READONLY_CANTINIT :: macro where [const_macros]:
  "macro_SQLITE_READONLY_CANTINIT = Macro ''SQLITE_READONLY_CANTINIT'' SQLITE_READONLY_CANTINIT
     ''''"
definition macro_SQLITE_READONLY_DIRECTORY :: macro where [const_macros]:
  "macro_SQLITE_READONLY_DIRECTORY = Macro ''SQLITE_READONLY_DIRECTORY'' SQLITE_READONLY_DIRECTORY
     ''''"
definition macro_SQLITE_ABORT_ROLLBACK :: macro where [const_macros]:
  "macro_SQLITE_ABORT_ROLLBACK = Macro ''SQLITE_ABORT_ROLLBACK'' SQLITE_ABORT_ROLLBACK ''''"
definition macro_SQLITE_CONSTRAINT_CHECK :: macro where [const_macros]:
  "macro_SQLITE_CONSTRAINT_CHECK = Macro ''SQLITE_CONSTRAINT_CHECK'' SQLITE_CONSTRAINT_CHECK ''''"
definition macro_SQLITE_CONSTRAINT_COMMITHOOK :: macro where [const_macros]:
  "macro_SQLITE_CONSTRAINT_COMMITHOOK = Macro ''SQLITE_CONSTRAINT_COMMITHOOK''
     SQLITE_CONSTRAINT_COMMITHOOK ''''"
definition macro_SQLITE_CONSTRAINT_FOREIGNKEY :: macro where [const_macros]:
  "macro_SQLITE_CONSTRAINT_FOREIGNKEY = Macro ''SQLITE_CONSTRAINT_FOREIGNKEY''
     SQLITE_CONSTRAINT_FOREIGNKEY ''''"
definition macro_SQLITE_CONSTRAINT_FUNCTION :: macro where [const_macros]:
  "macro_SQLITE_CONSTRAINT_FUNCTION = Macro ''SQLITE_CONSTRAINT_FUNCTION''
     SQLITE_CONSTRAINT_FUNCTION ''''"
definition macro_SQLITE_CONSTRAINT_NOTNULL :: macro where [const_macros]:
  "macro_SQLITE_CONSTRAINT_NOTNULL = Macro ''SQLITE_CONSTRAINT_NOTNULL'' SQLITE_CONSTRAINT_NOTNULL
     ''''"
definition macro_SQLITE_CONSTRAINT_PRIMARYKEY :: macro where [const_macros]:
  "macro_SQLITE_CONSTRAINT_PRIMARYKEY = Macro ''SQLITE_CONSTRAINT_PRIMARYKEY''
     SQLITE_CONSTRAINT_PRIMARYKEY ''''"
definition macro_SQLITE_CONSTRAINT_TRIGGER :: macro where [const_macros]:
  "macro_SQLITE_CONSTRAINT_TRIGGER = Macro ''SQLITE_CONSTRAINT_TRIGGER'' SQLITE_CONSTRAINT_TRIGGER
     ''''"
definition macro_SQLITE_CONSTRAINT_UNIQUE :: macro where [const_macros]:
  "macro_SQLITE_CONSTRAINT_UNIQUE = Macro ''SQLITE_CONSTRAINT_UNIQUE'' SQLITE_CONSTRAINT_UNIQUE
     ''''"
definition macro_SQLITE_CONSTRAINT_VTAB :: macro where [const_macros]:
  "macro_SQLITE_CONSTRAINT_VTAB = Macro ''SQLITE_CONSTRAINT_VTAB'' SQLITE_CONSTRAINT_VTAB ''''"
definition macro_SQLITE_CONSTRAINT_ROWID :: macro where [const_macros]:
  "macro_SQLITE_CONSTRAINT_ROWID = Macro ''SQLITE_CONSTRAINT_ROWID'' SQLITE_CONSTRAINT_ROWID ''''"
definition macro_SQLITE_CONSTRAINT_PINNED :: macro where [const_macros]:
  "macro_SQLITE_CONSTRAINT_PINNED = Macro ''SQLITE_CONSTRAINT_PINNED'' SQLITE_CONSTRAINT_PINNED
     ''''"
definition macro_SQLITE_CONSTRAINT_DATATYPE :: macro where [const_macros]:
  "macro_SQLITE_CONSTRAINT_DATATYPE = Macro ''SQLITE_CONSTRAINT_DATATYPE''
     SQLITE_CONSTRAINT_DATATYPE ''''"
definition macro_SQLITE_NOTICE_RECOVER_WAL :: macro where [const_macros]:
  "macro_SQLITE_NOTICE_RECOVER_WAL = Macro ''SQLITE_NOTICE_RECOVER_WAL'' SQLITE_NOTICE_RECOVER_WAL
     ''''"
definition macro_SQLITE_NOTICE_RECOVER_ROLLBACK :: macro where [const_macros]:
  "macro_SQLITE_NOTICE_RECOVER_ROLLBACK = Macro ''SQLITE_NOTICE_RECOVER_ROLLBACK''
     SQLITE_NOTICE_RECOVER_ROLLBACK ''''"
definition macro_SQLITE_NOTICE_RBU :: macro where [const_macros]:
  "macro_SQLITE_NOTICE_RBU = Macro ''SQLITE_NOTICE_RBU'' SQLITE_NOTICE_RBU ''''"
definition macro_SQLITE_WARNING_AUTOINDEX :: macro where [const_macros]:
  "macro_SQLITE_WARNING_AUTOINDEX = Macro ''SQLITE_WARNING_AUTOINDEX'' SQLITE_WARNING_AUTOINDEX
     ''''"
definition macro_SQLITE_AUTH_USER :: macro where [const_macros]:
  "macro_SQLITE_AUTH_USER = Macro ''SQLITE_AUTH_USER'' SQLITE_AUTH_USER ''''"
definition macro_SQLITE_OK_LOAD_PERMANENTLY :: macro where [const_macros]:
  "macro_SQLITE_OK_LOAD_PERMANENTLY = Macro ''SQLITE_OK_LOAD_PERMANENTLY''
     SQLITE_OK_LOAD_PERMANENTLY ''''"
definition macro_SQLITE_OK_SYMLINK :: macro where [const_macros]:
  "macro_SQLITE_OK_SYMLINK = Macro ''SQLITE_OK_SYMLINK'' SQLITE_OK_SYMLINK ''internal use only''"

text \<open>Flags For File Open Operations.\<close>

definition macro_SQLITE_OPEN_READONLY :: macro where [const_macros]:
  "macro_SQLITE_OPEN_READONLY = Macro ''SQLITE_OPEN_READONLY'' SQLITE_OPEN_READONLY
     ''Ok for sqlite3_open_v2()''"
definition macro_SQLITE_OPEN_READWRITE :: macro where [const_macros]:
  "macro_SQLITE_OPEN_READWRITE = Macro ''SQLITE_OPEN_READWRITE'' SQLITE_OPEN_READWRITE
     ''Ok for sqlite3_open_v2()''"
definition macro_SQLITE_OPEN_CREATE :: macro where [const_macros]:
  "macro_SQLITE_OPEN_CREATE = Macro ''SQLITE_OPEN_CREATE'' SQLITE_OPEN_CREATE
     ''Ok for sqlite3_open_v2()''"
definition macro_SQLITE_OPEN_DELETEONCLOSE :: macro where [const_macros]:
  "macro_SQLITE_OPEN_DELETEONCLOSE = Macro ''SQLITE_OPEN_DELETEONCLOSE'' SQLITE_OPEN_DELETEONCLOSE
     ''VFS only''"
definition macro_SQLITE_OPEN_EXCLUSIVE :: macro where [const_macros]:
  "macro_SQLITE_OPEN_EXCLUSIVE = Macro ''SQLITE_OPEN_EXCLUSIVE'' SQLITE_OPEN_EXCLUSIVE
     ''VFS only''"
definition macro_SQLITE_OPEN_AUTOPROXY :: macro where [const_macros]:
  "macro_SQLITE_OPEN_AUTOPROXY = Macro ''SQLITE_OPEN_AUTOPROXY'' SQLITE_OPEN_AUTOPROXY
     ''VFS only''"
definition macro_SQLITE_OPEN_URI :: macro where [const_macros]:
  "macro_SQLITE_OPEN_URI = Macro ''SQLITE_OPEN_URI'' SQLITE_OPEN_URI ''Ok for sqlite3_open_v2()''"
definition macro_SQLITE_OPEN_MEMORY :: macro where [const_macros]:
  "macro_SQLITE_OPEN_MEMORY = Macro ''SQLITE_OPEN_MEMORY'' SQLITE_OPEN_MEMORY
     ''Ok for sqlite3_open_v2()''"
definition macro_SQLITE_OPEN_MAIN_DB :: macro where [const_macros]:
  "macro_SQLITE_OPEN_MAIN_DB = Macro ''SQLITE_OPEN_MAIN_DB'' SQLITE_OPEN_MAIN_DB ''VFS only''"
definition macro_SQLITE_OPEN_TEMP_DB :: macro where [const_macros]:
  "macro_SQLITE_OPEN_TEMP_DB = Macro ''SQLITE_OPEN_TEMP_DB'' SQLITE_OPEN_TEMP_DB ''VFS only''"
definition macro_SQLITE_OPEN_TRANSIENT_DB :: macro where [const_macros]:
  "macro_SQLITE_OPEN_TRANSIENT_DB = Macro ''SQLITE_OPEN_TRANSIENT_DB'' SQLITE_OPEN_TRANSIENT_DB
     ''VFS only''"
definition macro_SQLITE_OPEN_MAIN_JOURNAL :: macro where [const_macros]:
  "macro_SQLITE_OPEN_MAIN_JOURNAL = Macro ''SQLITE_OPEN_MAIN_JOURNAL'' SQLITE_OPEN_MAIN_JOURNAL
     ''VFS only''"
definition macro_SQLITE_OPEN_TEMP_JOURNAL :: macro where [const_macros]:
  "macro_SQLITE_OPEN_TEMP_JOURNAL = Macro ''SQLITE_OPEN_TEMP_JOURNAL'' SQLITE_OPEN_TEMP_JOURNAL
     ''VFS only''"
definition macro_SQLITE_OPEN_SUBJOURNAL :: macro where [const_macros]:
  "macro_SQLITE_OPEN_SUBJOURNAL = Macro ''SQLITE_OPEN_SUBJOURNAL'' SQLITE_OPEN_SUBJOURNAL
     ''VFS only''"
definition macro_SQLITE_OPEN_SUPER_JOURNAL :: macro where [const_macros]:
  "macro_SQLITE_OPEN_SUPER_JOURNAL = Macro ''SQLITE_OPEN_SUPER_JOURNAL'' SQLITE_OPEN_SUPER_JOURNAL
     ''VFS only''"
definition macro_SQLITE_OPEN_NOMUTEX :: macro where [const_macros]:
  "macro_SQLITE_OPEN_NOMUTEX = Macro ''SQLITE_OPEN_NOMUTEX'' SQLITE_OPEN_NOMUTEX
     ''Ok for sqlite3_open_v2()''"
definition macro_SQLITE_OPEN_FULLMUTEX :: macro where [const_macros]:
  "macro_SQLITE_OPEN_FULLMUTEX = Macro ''SQLITE_OPEN_FULLMUTEX'' SQLITE_OPEN_FULLMUTEX
     ''Ok for sqlite3_open_v2()''"
definition macro_SQLITE_OPEN_SHAREDCACHE :: macro where [const_macros]:
  "macro_SQLITE_OPEN_SHAREDCACHE = Macro ''SQLITE_OPEN_SHAREDCACHE'' SQLITE_OPEN_SHAREDCACHE
     ''Ok for sqlite3_open_v2()''"
definition macro_SQLITE_OPEN_PRIVATECACHE :: macro where [const_macros]:
  "macro_SQLITE_OPEN_PRIVATECACHE = Macro ''SQLITE_OPEN_PRIVATECACHE'' SQLITE_OPEN_PRIVATECACHE
     ''Ok for sqlite3_open_v2()''"
definition macro_SQLITE_OPEN_WAL :: macro where [const_macros]:
  "macro_SQLITE_OPEN_WAL = Macro ''SQLITE_OPEN_WAL'' SQLITE_OPEN_WAL ''VFS only''"
definition macro_SQLITE_OPEN_NOFOLLOW :: macro where [const_macros]:
  "macro_SQLITE_OPEN_NOFOLLOW = Macro ''SQLITE_OPEN_NOFOLLOW'' SQLITE_OPEN_NOFOLLOW
     ''Ok for sqlite3_open_v2()''"
definition macro_SQLITE_OPEN_EXRESCODE :: macro where [const_macros]:
  "macro_SQLITE_OPEN_EXRESCODE = Macro ''SQLITE_OPEN_EXRESCODE'' SQLITE_OPEN_EXRESCODE
     ''Extended result codes''"
definition macro_SQLITE_OPEN_MASTER_JOURNAL :: macro where [const_macros]:
  "macro_SQLITE_OPEN_MASTER_JOURNAL = Macro ''SQLITE_OPEN_MASTER_JOURNAL''
     SQLITE_OPEN_MASTER_JOURNAL ''VFS only''"

text \<open>Device Characteristics.\<close>

definition macro_SQLITE_IOCAP_ATOMIC :: macro where [const_macros]:
  "macro_SQLITE_IOCAP_ATOMIC = Macro ''SQLITE_IOCAP_ATOMIC'' SQLITE_IOCAP_ATOMIC ''''"
definition macro_SQLITE_IOCAP_ATOMIC512 :: macro where [const_macros]:
  "macro_SQLITE_IOCAP_ATOMIC512 = Macro ''SQLITE_IOCAP_ATOMIC512'' SQLITE_IOCAP_ATOMIC512 ''''"
definition macro_SQLITE_IOCAP_ATOMIC1K :: macro where [const_macros]:
  "macro_SQLITE_IOCAP_ATOMIC1K = Macro ''SQLITE_IOCAP_ATOMIC1K'' SQLITE_IOCAP_ATOMIC1K ''''"
definition macro_SQLITE_IOCAP_ATOMIC2K :: macro where [const_macros]:
  "macro_SQLITE_IOCAP_ATOMIC2K = Macro ''SQLITE_IOCAP_ATOMIC2K'' SQLITE_IOCAP_ATOMIC2K ''''"
definition macro_SQLITE_IOCAP_ATOMIC4K :: macro where [const_macros]:
  "macro_SQLITE_IOCAP_ATOMIC4K = Macro ''SQLITE_IOCAP_ATOMIC4K'' SQLITE_IOCAP_ATOMIC4K ''''"
definition macro_SQLITE_IOCAP_ATOMIC8K :: macro where [const_macros]:
  "macro_SQLITE_IOCAP_ATOMIC8K = Macro ''SQLITE_IOCAP_ATOMIC8K'' SQLITE_IOCAP_ATOMIC8K ''''"
definition macro_SQLITE_IOCAP_ATOMIC16K :: macro where [const_macros]:
  "macro_SQLITE_IOCAP_ATOMIC16K = Macro ''SQLITE_IOCAP_ATOMIC16K'' SQLITE_IOCAP_ATOMIC16K ''''"
definition macro_SQLITE_IOCAP_ATOMIC32K :: macro where [const_macros]:
  "macro_SQLITE_IOCAP_ATOMIC32K = Macro ''SQLITE_IOCAP_ATOMIC32K'' SQLITE_IOCAP_ATOMIC32K ''''"
definition macro_SQLITE_IOCAP_ATOMIC64K :: macro where [const_macros]:
  "macro_SQLITE_IOCAP_ATOMIC64K = Macro ''SQLITE_IOCAP_ATOMIC64K'' SQLITE_IOCAP_ATOMIC64K ''''"
definition macro_SQLITE_IOCAP_SAFE_APPEND :: macro where [const_macros]:
  "macro_SQLITE_IOCAP_SAFE_APPEND = Macro ''SQLITE_IOCAP_SAFE_APPEND'' SQLITE_IOCAP_SAFE_APPEND
     ''''"
definition macro_SQLITE_IOCAP_SEQUENTIAL :: macro where [const_macros]:
  "macro_SQLITE_IOCAP_SEQUENTIAL = Macro ''SQLITE_IOCAP_SEQUENTIAL'' SQLITE_IOCAP_SEQUENTIAL ''''"
definition macro_SQLITE_IOCAP_UNDELETABLE_WHEN_OPEN :: macro where [const_macros]:
  "macro_SQLITE_IOCAP_UNDELETABLE_WHEN_OPEN = Macro ''SQLITE_IOCAP_UNDELETABLE_WHEN_OPEN''
     SQLITE_IOCAP_UNDELETABLE_WHEN_OPEN ''''"
definition macro_SQLITE_IOCAP_POWERSAFE_OVERWRITE :: macro where [const_macros]:
  "macro_SQLITE_IOCAP_POWERSAFE_OVERWRITE = Macro ''SQLITE_IOCAP_POWERSAFE_OVERWRITE''
     SQLITE_IOCAP_POWERSAFE_OVERWRITE ''''"
definition macro_SQLITE_IOCAP_IMMUTABLE :: macro where [const_macros]:
  "macro_SQLITE_IOCAP_IMMUTABLE = Macro ''SQLITE_IOCAP_IMMUTABLE'' SQLITE_IOCAP_IMMUTABLE ''''"
definition macro_SQLITE_IOCAP_BATCH_ATOMIC :: macro where [const_macros]:
  "macro_SQLITE_IOCAP_BATCH_ATOMIC = Macro ''SQLITE_IOCAP_BATCH_ATOMIC'' SQLITE_IOCAP_BATCH_ATOMIC
     ''''"

text \<open>File Locking Levels.\<close>

definition macro_SQLITE_LOCK_NONE :: macro where [const_macros]:
  "macro_SQLITE_LOCK_NONE = Macro ''SQLITE_LOCK_NONE'' SQLITE_LOCK_NONE ''xUnlock() only''"
definition macro_SQLITE_LOCK_SHARED :: macro where [const_macros]:
  "macro_SQLITE_LOCK_SHARED = Macro ''SQLITE_LOCK_SHARED'' SQLITE_LOCK_SHARED
     ''xLock() or xUnlock()''"
definition macro_SQLITE_LOCK_RESERVED :: macro where [const_macros]:
  "macro_SQLITE_LOCK_RESERVED = Macro ''SQLITE_LOCK_RESERVED'' SQLITE_LOCK_RESERVED
     ''xLock() only''"
definition macro_SQLITE_LOCK_PENDING :: macro where [const_macros]:
  "macro_SQLITE_LOCK_PENDING = Macro ''SQLITE_LOCK_PENDING'' SQLITE_LOCK_PENDING ''xLock() only''"
definition macro_SQLITE_LOCK_EXCLUSIVE :: macro where [const_macros]:
  "macro_SQLITE_LOCK_EXCLUSIVE = Macro ''SQLITE_LOCK_EXCLUSIVE'' SQLITE_LOCK_EXCLUSIVE
     ''xLock() only''"

text \<open>Synchronization Type Flags.\<close>

definition macro_SQLITE_SYNC_NORMAL :: macro where [const_macros]:
  "macro_SQLITE_SYNC_NORMAL = Macro ''SQLITE_SYNC_NORMAL'' SQLITE_SYNC_NORMAL ''''"
definition macro_SQLITE_SYNC_FULL :: macro where [const_macros]:
  "macro_SQLITE_SYNC_FULL = Macro ''SQLITE_SYNC_FULL'' SQLITE_SYNC_FULL ''''"
definition macro_SQLITE_SYNC_DATAONLY :: macro where [const_macros]:
  "macro_SQLITE_SYNC_DATAONLY = Macro ''SQLITE_SYNC_DATAONLY'' SQLITE_SYNC_DATAONLY ''''"

text \<open>Standard File Control Opcodes.\<close>

definition macro_SQLITE_FCNTL_LOCKSTATE :: macro where [const_macros]:
  "macro_SQLITE_FCNTL_LOCKSTATE = Macro ''SQLITE_FCNTL_LOCKSTATE'' SQLITE_FCNTL_LOCKSTATE ''''"
definition macro_SQLITE_FCNTL_GET_LOCKPROXYFILE :: macro where [const_macros]:
  "macro_SQLITE_FCNTL_GET_LOCKPROXYFILE = Macro ''SQLITE_FCNTL_GET_LOCKPROXYFILE''
     SQLITE_FCNTL_GET_LOCKPROXYFILE ''''"
definition macro_SQLITE_FCNTL_SET_LOCKPROXYFILE :: macro where [const_macros]:
  "macro_SQLITE_FCNTL_SET_LOCKPROXYFILE = Macro ''SQLITE_FCNTL_SET_LOCKPROXYFILE''
     SQLITE_FCNTL_SET_LOCKPROXYFILE ''''"
definition macro_SQLITE_FCNTL_LAST_ERRNO :: macro where [const_macros]:
  "macro_SQLITE_FCNTL_LAST_ERRNO = Macro ''SQLITE_FCNTL_LAST_ERRNO'' SQLITE_FCNTL_LAST_ERRNO ''''"
definition macro_SQLITE_FCNTL_SIZE_HINT :: macro where [const_macros]:
  "macro_SQLITE_FCNTL_SIZE_HINT = Macro ''SQLITE_FCNTL_SIZE_HINT'' SQLITE_FCNTL_SIZE_HINT ''''"
definition macro_SQLITE_FCNTL_CHUNK_SIZE :: macro where [const_macros]:
  "macro_SQLITE_FCNTL_CHUNK_SIZE = Macro ''SQLITE_FCNTL_CHUNK_SIZE'' SQLITE_FCNTL_CHUNK_SIZE ''''"
definition macro_SQLITE_FCNTL_FILE_POINTER :: macro where [const_macros]:
  "macro_SQLITE_FCNTL_FILE_POINTER = Macro ''SQLITE_FCNTL_FILE_POINTER'' SQLITE_FCNTL_FILE_POINTER
     ''''"
definition macro_SQLITE_FCNTL_SYNC_OMITTED :: macro where [const_macros]:
  "macro_SQLITE_FCNTL_SYNC_OMITTED = Macro ''SQLITE_FCNTL_SYNC_OMITTED'' SQLITE_FCNTL_SYNC_OMITTED
     ''''"
definition macro_SQLITE_FCNTL_WIN32_AV_RETRY :: macro where [const_macros]:
  "macro_SQLITE_FCNTL_WIN32_AV_RETRY = Macro ''SQLITE_FCNTL_WIN32_AV_RETRY''
     SQLITE_FCNTL_WIN32_AV_RETRY ''''"
definition macro_SQLITE_FCNTL_PERSIST_WAL :: macro where [const_macros]:
  "macro_SQLITE_FCNTL_PERSIST_WAL = Macro ''SQLITE_FCNTL_PERSIST_WAL'' SQLITE_FCNTL_PERSIST_WAL
     ''''"
definition macro_SQLITE_FCNTL_OVERWRITE :: macro where [const_macros]:
  "macro_SQLITE_FCNTL_OVERWRITE = Macro ''SQLITE_FCNTL_OVERWRITE'' SQLITE_FCNTL_OVERWRITE ''''"
definition macro_SQLITE_FCNTL_VFSNAME :: macro where [const_macros]:
  "macro_SQLITE_FCNTL_VFSNAME = Macro ''SQLITE_FCNTL_VFSNAME'' SQLITE_FCNTL_VFSNAME ''''"
definition macro_SQLITE_FCNTL_POWERSAFE_OVERWRITE :: macro where [const_macros]:
  "macro_SQLITE_FCNTL_POWERSAFE_OVERWRITE = Macro ''SQLITE_FCNTL_POWERSAFE_OVERWRITE''
     SQLITE_FCNTL_POWERSAFE_OVERWRITE ''''"
definition macro_SQLITE_FCNTL_PRAGMA :: macro where [const_macros]:
  "macro_SQLITE_FCNTL_PRAGMA = Macro ''SQLITE_FCNTL_PRAGMA'' SQLITE_FCNTL_PRAGMA ''''"
definition macro_SQLITE_FCNTL_BUSYHANDLER :: macro where [const_macros]:
  "macro_SQLITE_FCNTL_BUSYHANDLER = Macro ''SQLITE_FCNTL_BUSYHANDLER'' SQLITE_FCNTL_BUSYHANDLER
     ''''"
definition macro_SQLITE_FCNTL_TEMPFILENAME :: macro where [const_macros]:
  "macro_SQLITE_FCNTL_TEMPFILENAME = Macro ''SQLITE_FCNTL_TEMPFILENAME'' SQLITE_FCNTL_TEMPFILENAME
     ''''"
definition macro_SQLITE_FCNTL_MMAP_SIZE :: macro where [const_macros]:
  "macro_SQLITE_FCNTL_MMAP_SIZE = Macro ''SQLITE_FCNTL_MMAP_SIZE'' SQLITE_FCNTL_MMAP_SIZE ''''"
definition macro_SQLITE_FCNTL_TRACE :: macro where [const_macros]:
  "macro_SQLITE_FCNTL_TRACE = Macro ''SQLITE_FCNTL_TRACE'' SQLITE_FCNTL_TRACE ''''"
definition macro_SQLITE_FCNTL_HAS_MOVED :: macro where [const_macros]:
  "macro_SQLITE_FCNTL_HAS_MOVED = Macro ''SQLITE_FCNTL_HAS_MOVED'' SQLITE_FCNTL_HAS_MOVED ''''"
definition macro_SQLITE_FCNTL_SYNC :: macro where [const_macros]:
  "macro_SQLITE_FCNTL_SYNC = Macro ''SQLITE_FCNTL_SYNC'' SQLITE_FCNTL_SYNC ''''"
definition macro_SQLITE_FCNTL_COMMIT_PHASETWO :: macro where [const_macros]:
  "macro_SQLITE_FCNTL_COMMIT_PHASETWO = Macro ''SQLITE_FCNTL_COMMIT_PHASETWO''
     SQLITE_FCNTL_COMMIT_PHASETWO ''''"
definition macro_SQLITE_FCNTL_WIN32_SET_HANDLE :: macro where [const_macros]:
  "macro_SQLITE_FCNTL_WIN32_SET_HANDLE = Macro ''SQLITE_FCNTL_WIN32_SET_HANDLE''
     SQLITE_FCNTL_WIN32_SET_HANDLE ''''"
definition macro_SQLITE_FCNTL_WAL_BLOCK :: macro where [const_macros]:
  "macro_SQLITE_FCNTL_WAL_BLOCK = Macro ''SQLITE_FCNTL_WAL_BLOCK'' SQLITE_FCNTL_WAL_BLOCK ''''"
definition macro_SQLITE_FCNTL_ZIPVFS :: macro where [const_macros]:
  "macro_SQLITE_FCNTL_ZIPVFS = Macro ''SQLITE_FCNTL_ZIPVFS'' SQLITE_FCNTL_ZIPVFS ''''"
definition macro_SQLITE_FCNTL_RBU :: macro where [const_macros]:
  "macro_SQLITE_FCNTL_RBU = Macro ''SQLITE_FCNTL_RBU'' SQLITE_FCNTL_RBU ''''"
definition macro_SQLITE_FCNTL_VFS_POINTER :: macro where [const_macros]:
  "macro_SQLITE_FCNTL_VFS_POINTER = Macro ''SQLITE_FCNTL_VFS_POINTER'' SQLITE_FCNTL_VFS_POINTER
     ''''"
definition macro_SQLITE_FCNTL_JOURNAL_POINTER :: macro where [const_macros]:
  "macro_SQLITE_FCNTL_JOURNAL_POINTER = Macro ''SQLITE_FCNTL_JOURNAL_POINTER''
     SQLITE_FCNTL_JOURNAL_POINTER ''''"
definition macro_SQLITE_FCNTL_WIN32_GET_HANDLE :: macro where [const_macros]:
  "macro_SQLITE_FCNTL_WIN32_GET_HANDLE = Macro ''SQLITE_FCNTL_WIN32_GET_HANDLE''
     SQLITE_FCNTL_WIN32_GET_HANDLE ''''"
definition macro_SQLITE_FCNTL_PDB :: macro where [const_macros]:
  "macro_SQLITE_FCNTL_PDB = Macro ''SQLITE_FCNTL_PDB'' SQLITE_FCNTL_PDB ''''"
definition macro_SQLITE_FCNTL_BEGIN_ATOMIC_WRITE :: macro where [const_macros]:
  "macro_SQLITE_FCNTL_BEGIN_ATOMIC_WRITE = Macro ''SQLITE_FCNTL_BEGIN_ATOMIC_WRITE''
     SQLITE_FCNTL_BEGIN_ATOMIC_WRITE ''''"
definition macro_SQLITE_FCNTL_COMMIT_ATOMIC_WRITE :: macro where [const_macros]:
  "macro_SQLITE_FCNTL_COMMIT_ATOMIC_WRITE = Macro ''SQLITE_FCNTL_COMMIT_ATOMIC_WRITE''
     SQLITE_FCNTL_COMMIT_ATOMIC_WRITE ''''"
definition macro_SQLITE_FCNTL_ROLLBACK_ATOMIC_WRITE :: macro where [const_macros]:
  "macro_SQLITE_FCNTL_ROLLBACK_ATOMIC_WRITE = Macro ''SQLITE_FCNTL_ROLLBACK_ATOMIC_WRITE''
     SQLITE_FCNTL_ROLLBACK_ATOMIC_WRITE ''''"
definition macro_SQLITE_FCNTL_LOCK_TIMEOUT :: macro where [const_macros]:
  "macro_SQLITE_FCNTL_LOCK_TIMEOUT = Macro ''SQLITE_FCNTL_LOCK_TIMEOUT'' SQLITE_FCNTL_LOCK_TIMEOUT
     ''''"
definition macro_SQLITE_FCNTL_DATA_VERSION :: macro where [const_macros]:
  "macro_SQLITE_FCNTL_DATA_VERSION = Macro ''SQLITE_FCNTL_DATA_VERSION'' SQLITE_FCNTL_DATA_VERSION
     ''''"
definition macro_SQLITE_FCNTL_SIZE_LIMIT :: macro where [const_macros]:
  "macro_SQLITE_FCNTL_SIZE_LIMIT = Macro ''SQLITE_FCNTL_SIZE_LIMIT'' SQLITE_FCNTL_SIZE_LIMIT ''''"
definition macro_SQLITE_FCNTL_CKPT_DONE :: macro where [const_macros]:
  "macro_SQLITE_FCNTL_CKPT_DONE = Macro ''SQLITE_FCNTL_CKPT_DONE'' SQLITE_FCNTL_CKPT_DONE ''''"
definition macro_SQLITE_FCNTL_RESERVE_BYTES :: macro where [const_macros]:
  "macro_SQLITE_FCNTL_RESERVE_BYTES = Macro ''SQLITE_FCNTL_RESERVE_BYTES''
     SQLITE_FCNTL_RESERVE_BYTES ''''"
definition macro_SQLITE_FCNTL_CKPT_START :: macro where [const_macros]:
  "macro_SQLITE_FCNTL_CKPT_START = Macro ''SQLITE_FCNTL_CKPT_START'' SQLITE_FCNTL_CKPT_START ''''"
definition macro_SQLITE_FCNTL_EXTERNAL_READER :: macro where [const_macros]:
  "macro_SQLITE_FCNTL_EXTERNAL_READER = Macro ''SQLITE_FCNTL_EXTERNAL_READER''
     SQLITE_FCNTL_EXTERNAL_READER ''''"
definition macro_SQLITE_FCNTL_CKSM_FILE :: macro where [const_macros]:
  "macro_SQLITE_FCNTL_CKSM_FILE = Macro ''SQLITE_FCNTL_CKSM_FILE'' SQLITE_FCNTL_CKSM_FILE ''''"
definition macro_SQLITE_FCNTL_RESET_CACHE :: macro where [const_macros]:
  "macro_SQLITE_FCNTL_RESET_CACHE = Macro ''SQLITE_FCNTL_RESET_CACHE'' SQLITE_FCNTL_RESET_CACHE
     ''''"
definition macro_SQLITE_GET_LOCKPROXYFILE :: macro where [const_macros]:
  "macro_SQLITE_GET_LOCKPROXYFILE = Macro ''SQLITE_GET_LOCKPROXYFILE'' SQLITE_GET_LOCKPROXYFILE
     ''''"
definition macro_SQLITE_SET_LOCKPROXYFILE :: macro where [const_macros]:
  "macro_SQLITE_SET_LOCKPROXYFILE = Macro ''SQLITE_SET_LOCKPROXYFILE'' SQLITE_SET_LOCKPROXYFILE
     ''''"
definition macro_SQLITE_LAST_ERRNO :: macro where [const_macros]:
  "macro_SQLITE_LAST_ERRNO = Macro ''SQLITE_LAST_ERRNO'' SQLITE_LAST_ERRNO ''''"

text \<open>Flags for the xAccess VFS method.\<close>

definition macro_SQLITE_ACCESS_EXISTS :: macro where [const_macros]:
  "macro_SQLITE_ACCESS_EXISTS = Macro ''SQLITE_ACCESS_EXISTS'' SQLITE_ACCESS_EXISTS ''''"
definition macro_SQLITE_ACCESS_READWRITE :: macro where [const_macros]:
  "macro_SQLITE_ACCESS_READWRITE = Macro ''SQLITE_ACCESS_READWRITE'' SQLITE_ACCESS_READWRITE
     ''Used by PRAGMA temp_store_directory''"
definition macro_SQLITE_ACCESS_READ :: macro where [const_macros]:
  "macro_SQLITE_ACCESS_READ = Macro ''SQLITE_ACCESS_READ'' SQLITE_ACCESS_READ ''Unused''"

text \<open>Flags for the xShmLock VFS method.\<close>

definition macro_SQLITE_SHM_UNLOCK :: macro where [const_macros]:
  "macro_SQLITE_SHM_UNLOCK = Macro ''SQLITE_SHM_UNLOCK'' SQLITE_SHM_UNLOCK ''''"
definition macro_SQLITE_SHM_LOCK :: macro where [const_macros]:
  "macro_SQLITE_SHM_LOCK = Macro ''SQLITE_SHM_LOCK'' SQLITE_SHM_LOCK ''''"
definition macro_SQLITE_SHM_SHARED :: macro where [const_macros]:
  "macro_SQLITE_SHM_SHARED = Macro ''SQLITE_SHM_SHARED'' SQLITE_SHM_SHARED ''''"
definition macro_SQLITE_SHM_EXCLUSIVE :: macro where [const_macros]:
  "macro_SQLITE_SHM_EXCLUSIVE = Macro ''SQLITE_SHM_EXCLUSIVE'' SQLITE_SHM_EXCLUSIVE ''''"

text \<open>Maximum xShmLock index.\<close>

definition macro_SQLITE_SHM_NLOCK :: macro where [const_macros]:
  "macro_SQLITE_SHM_NLOCK = Macro ''SQLITE_SHM_NLOCK'' SQLITE_SHM_NLOCK ''''"

text \<open>Configuration Options.\<close>

definition SQLITE_CONFIG_SINGLETHREAD :: macro where [const_macros]:
  "SQLITE_CONFIG_SINGLETHREAD = Macro ''SQLITE_CONFIG_SINGLETHREAD'' 1 ''nil''"
definition SQLITE_CONFIG_MULTITHREAD :: macro where [const_macros]:
  "SQLITE_CONFIG_MULTITHREAD = Macro ''SQLITE_CONFIG_MULTITHREAD'' 2 ''nil''"
definition SQLITE_CONFIG_SERIALIZED :: macro where [const_macros]:
  "SQLITE_CONFIG_SERIALIZED = Macro ''SQLITE_CONFIG_SERIALIZED'' 3 ''nil''"
definition SQLITE_CONFIG_MALLOC :: macro where [const_macros]:
  "SQLITE_CONFIG_MALLOC = Macro ''SQLITE_CONFIG_MALLOC'' 4 ''sqlite3_mem_methods*''"
definition SQLITE_CONFIG_GETMALLOC :: macro where [const_macros]:
  "SQLITE_CONFIG_GETMALLOC = Macro ''SQLITE_CONFIG_GETMALLOC'' 5 ''sqlite3_mem_methods*''"
definition SQLITE_CONFIG_SCRATCH :: macro where [const_macros]:
  "SQLITE_CONFIG_SCRATCH = Macro ''SQLITE_CONFIG_SCRATCH'' 6 ''No longer used''"
definition SQLITE_CONFIG_PAGECACHE :: macro where [const_macros]:
  "SQLITE_CONFIG_PAGECACHE = Macro ''SQLITE_CONFIG_PAGECACHE'' 7 ''void*, int sz, int N''"
definition SQLITE_CONFIG_HEAP :: macro where [const_macros]:
  "SQLITE_CONFIG_HEAP = Macro ''SQLITE_CONFIG_HEAP'' 8 ''void*, int nByte, int min''"
definition SQLITE_CONFIG_MEMSTATUS :: macro where [const_macros]:
  "SQLITE_CONFIG_MEMSTATUS = Macro ''SQLITE_CONFIG_MEMSTATUS'' 9 ''boolean''"
definition SQLITE_CONFIG_MUTEX :: macro where [const_macros]:
  "SQLITE_CONFIG_MUTEX = Macro ''SQLITE_CONFIG_MUTEX'' 10 ''sqlite3_mutex_methods*''"
definition SQLITE_CONFIG_GETMUTEX :: macro where [const_macros]:
  "SQLITE_CONFIG_GETMUTEX = Macro ''SQLITE_CONFIG_GETMUTEX'' 11 ''sqlite3_mutex_methods*''"
definition SQLITE_CONFIG_LOOKASIDE :: macro where [const_macros]:
  "SQLITE_CONFIG_LOOKASIDE = Macro ''SQLITE_CONFIG_LOOKASIDE'' 13 ''int int''"
definition SQLITE_CONFIG_PCACHE :: macro where [const_macros]:
  "SQLITE_CONFIG_PCACHE = Macro ''SQLITE_CONFIG_PCACHE'' 14 ''no-op''"
definition SQLITE_CONFIG_GETPCACHE :: macro where [const_macros]:
  "SQLITE_CONFIG_GETPCACHE = Macro ''SQLITE_CONFIG_GETPCACHE'' 15 ''no-op''"
definition SQLITE_CONFIG_LOG :: macro where [const_macros]:
  "SQLITE_CONFIG_LOG = Macro ''SQLITE_CONFIG_LOG'' 16 ''xFunc, void*''"
definition SQLITE_CONFIG_URI :: macro where [const_macros]:
  "SQLITE_CONFIG_URI = Macro ''SQLITE_CONFIG_URI'' 17 ''int''"
definition SQLITE_CONFIG_PCACHE2 :: macro where [const_macros]:
  "SQLITE_CONFIG_PCACHE2 = Macro ''SQLITE_CONFIG_PCACHE2'' 18 ''sqlite3_pcache_methods2*''"
definition SQLITE_CONFIG_GETPCACHE2 :: macro where [const_macros]:
  "SQLITE_CONFIG_GETPCACHE2 = Macro ''SQLITE_CONFIG_GETPCACHE2'' 19 ''sqlite3_pcache_methods2*''"
definition SQLITE_CONFIG_COVERING_INDEX_SCAN :: macro where [const_macros]:
  "SQLITE_CONFIG_COVERING_INDEX_SCAN = Macro ''SQLITE_CONFIG_COVERING_INDEX_SCAN'' 20 ''int''"
definition SQLITE_CONFIG_SQLLOG :: macro where [const_macros]:
  "SQLITE_CONFIG_SQLLOG = Macro ''SQLITE_CONFIG_SQLLOG'' 21 ''xSqllog, void*''"
definition SQLITE_CONFIG_MMAP_SIZE :: macro where [const_macros]:
  "SQLITE_CONFIG_MMAP_SIZE = Macro ''SQLITE_CONFIG_MMAP_SIZE'' 22
     ''sqlite3_int64, sqlite3_int64''"
definition SQLITE_CONFIG_WIN32_HEAPSIZE :: macro where [const_macros]:
  "SQLITE_CONFIG_WIN32_HEAPSIZE = Macro ''SQLITE_CONFIG_WIN32_HEAPSIZE'' 23 ''int nByte''"
definition SQLITE_CONFIG_PCACHE_HDRSZ :: macro where [const_macros]:
  "SQLITE_CONFIG_PCACHE_HDRSZ = Macro ''SQLITE_CONFIG_PCACHE_HDRSZ'' 24 ''int *psz''"
definition SQLITE_CONFIG_PMASZ :: macro where [const_macros]:
  "SQLITE_CONFIG_PMASZ = Macro ''SQLITE_CONFIG_PMASZ'' 25 ''unsigned int szPma''"
definition SQLITE_CONFIG_STMTJRNL_SPILL :: macro where [const_macros]:
  "SQLITE_CONFIG_STMTJRNL_SPILL = Macro ''SQLITE_CONFIG_STMTJRNL_SPILL'' 26 ''int nByte''"
definition SQLITE_CONFIG_SMALL_MALLOC :: macro where [const_macros]:
  "SQLITE_CONFIG_SMALL_MALLOC = Macro ''SQLITE_CONFIG_SMALL_MALLOC'' 27 ''boolean''"
definition SQLITE_CONFIG_SORTERREF_SIZE :: macro where [const_macros]:
  "SQLITE_CONFIG_SORTERREF_SIZE = Macro ''SQLITE_CONFIG_SORTERREF_SIZE'' 28 ''int nByte''"
definition SQLITE_CONFIG_MEMDB_MAXSIZE :: macro where [const_macros]:
  "SQLITE_CONFIG_MEMDB_MAXSIZE = Macro ''SQLITE_CONFIG_MEMDB_MAXSIZE'' 29 ''sqlite3_int64''"
definition SQLITE_CONFIG_ROWID_IN_VIEW :: macro where [const_macros]:
  "SQLITE_CONFIG_ROWID_IN_VIEW = Macro ''SQLITE_CONFIG_ROWID_IN_VIEW'' 30 ''int*''"

text \<open>Database Connection Configuration Options.\<close>

definition SQLITE_DBCONFIG_MAINDBNAME :: macro where [const_macros]:
  "SQLITE_DBCONFIG_MAINDBNAME = Macro ''SQLITE_DBCONFIG_MAINDBNAME'' 1000 ''const char*''"
definition SQLITE_DBCONFIG_LOOKASIDE :: macro where [const_macros]:
  "SQLITE_DBCONFIG_LOOKASIDE = Macro ''SQLITE_DBCONFIG_LOOKASIDE'' 1001 ''void* int int''"
definition SQLITE_DBCONFIG_ENABLE_FKEY :: macro where [const_macros]:
  "SQLITE_DBCONFIG_ENABLE_FKEY = Macro ''SQLITE_DBCONFIG_ENABLE_FKEY'' 1002 ''int int*''"
definition SQLITE_DBCONFIG_ENABLE_TRIGGER :: macro where [const_macros]:
  "SQLITE_DBCONFIG_ENABLE_TRIGGER = Macro ''SQLITE_DBCONFIG_ENABLE_TRIGGER'' 1003 ''int int*''"
definition SQLITE_DBCONFIG_ENABLE_FTS3_TOKENIZER :: macro where [const_macros]:
  "SQLITE_DBCONFIG_ENABLE_FTS3_TOKENIZER = Macro ''SQLITE_DBCONFIG_ENABLE_FTS3_TOKENIZER'' 1004
     ''int int*''"
definition SQLITE_DBCONFIG_ENABLE_LOAD_EXTENSION :: macro where [const_macros]:
  "SQLITE_DBCONFIG_ENABLE_LOAD_EXTENSION = Macro ''SQLITE_DBCONFIG_ENABLE_LOAD_EXTENSION'' 1005
     ''int int*''"
definition SQLITE_DBCONFIG_NO_CKPT_ON_CLOSE :: macro where [const_macros]:
  "SQLITE_DBCONFIG_NO_CKPT_ON_CLOSE = Macro ''SQLITE_DBCONFIG_NO_CKPT_ON_CLOSE'' 1006
     ''int int*''"
definition SQLITE_DBCONFIG_ENABLE_QPSG :: macro where [const_macros]:
  "SQLITE_DBCONFIG_ENABLE_QPSG = Macro ''SQLITE_DBCONFIG_ENABLE_QPSG'' 1007 ''int int*''"
definition SQLITE_DBCONFIG_TRIGGER_EQP :: macro where [const_macros]:
  "SQLITE_DBCONFIG_TRIGGER_EQP = Macro ''SQLITE_DBCONFIG_TRIGGER_EQP'' 1008 ''int int*''"
definition SQLITE_DBCONFIG_RESET_DATABASE :: macro where [const_macros]:
  "SQLITE_DBCONFIG_RESET_DATABASE = Macro ''SQLITE_DBCONFIG_RESET_DATABASE'' 1009 ''int int*''"
definition SQLITE_DBCONFIG_DEFENSIVE :: macro where [const_macros]:
  "SQLITE_DBCONFIG_DEFENSIVE = Macro ''SQLITE_DBCONFIG_DEFENSIVE'' 1010 ''int int*''"
definition SQLITE_DBCONFIG_WRITABLE_SCHEMA :: macro where [const_macros]:
  "SQLITE_DBCONFIG_WRITABLE_SCHEMA = Macro ''SQLITE_DBCONFIG_WRITABLE_SCHEMA'' 1011 ''int int*''"
definition SQLITE_DBCONFIG_LEGACY_ALTER_TABLE :: macro where [const_macros]:
  "SQLITE_DBCONFIG_LEGACY_ALTER_TABLE = Macro ''SQLITE_DBCONFIG_LEGACY_ALTER_TABLE'' 1012
     ''int int*''"
definition SQLITE_DBCONFIG_DQS_DML :: macro where [const_macros]:
  "SQLITE_DBCONFIG_DQS_DML = Macro ''SQLITE_DBCONFIG_DQS_DML'' 1013 ''int int*''"
definition SQLITE_DBCONFIG_DQS_DDL :: macro where [const_macros]:
  "SQLITE_DBCONFIG_DQS_DDL = Macro ''SQLITE_DBCONFIG_DQS_DDL'' 1014 ''int int*''"
definition SQLITE_DBCONFIG_ENABLE_VIEW :: macro where [const_macros]:
  "SQLITE_DBCONFIG_ENABLE_VIEW = Macro ''SQLITE_DBCONFIG_ENABLE_VIEW'' 1015 ''int int*''"
definition SQLITE_DBCONFIG_LEGACY_FILE_FORMAT :: macro where [const_macros]:
  "SQLITE_DBCONFIG_LEGACY_FILE_FORMAT = Macro ''SQLITE_DBCONFIG_LEGACY_FILE_FORMAT'' 1016
     ''int int*''"
definition SQLITE_DBCONFIG_TRUSTED_SCHEMA :: macro where [const_macros]:
  "SQLITE_DBCONFIG_TRUSTED_SCHEMA = Macro ''SQLITE_DBCONFIG_TRUSTED_SCHEMA'' 1017 ''int int*''"
definition SQLITE_DBCONFIG_STMT_SCANSTATUS :: macro where [const_macros]:
  "SQLITE_DBCONFIG_STMT_SCANSTATUS = Macro ''SQLITE_DBCONFIG_STMT_SCANSTATUS'' 1018 ''int int*''"
definition SQLITE_DBCONFIG_REVERSE_SCANORDER :: macro where [const_macros]:
  "SQLITE_DBCONFIG_REVERSE_SCANORDER = Macro ''SQLITE_DBCONFIG_REVERSE_SCANORDER'' 1019
     ''int int*''"
definition SQLITE_DBCONFIG_MAX :: macro where [const_macros]:
  "SQLITE_DBCONFIG_MAX = Macro ''SQLITE_DBCONFIG_MAX'' 1019 ''Largest DBCONFIG''"

text \<open>Authorizer Return Codes.\<close>

definition SQLITE_DENY :: macro where [const_macros]:
  "SQLITE_DENY = Macro ''SQLITE_DENY'' 1 ''Abort the SQL statement with an error''"
definition SQLITE_IGNORE :: macro where [const_macros]:
  "SQLITE_IGNORE = Macro ''SQLITE_IGNORE'' 2 ''Dont allow access, but dont generate an error''"

text \<open>Authorizer Action Codes.\<close>

definition SQLITE_CREATE_INDEX :: macro where [const_macros]:
  "SQLITE_CREATE_INDEX = Macro ''SQLITE_CREATE_INDEX'' 1 ''Index Name Table Name''"
definition SQLITE_CREATE_TABLE :: macro where [const_macros]:
  "SQLITE_CREATE_TABLE = Macro ''SQLITE_CREATE_TABLE'' 2 ''Table Name NULL''"
definition SQLITE_CREATE_TEMP_INDEX :: macro where [const_macros]:
  "SQLITE_CREATE_TEMP_INDEX = Macro ''SQLITE_CREATE_TEMP_INDEX'' 3 ''Index Name Table Name''"
definition SQLITE_CREATE_TEMP_TABLE :: macro where [const_macros]:
  "SQLITE_CREATE_TEMP_TABLE = Macro ''SQLITE_CREATE_TEMP_TABLE'' 4 ''Table Name NULL''"
definition SQLITE_CREATE_TEMP_TRIGGER :: macro where [const_macros]:
  "SQLITE_CREATE_TEMP_TRIGGER = Macro ''SQLITE_CREATE_TEMP_TRIGGER'' 5
     ''Trigger Name Table Name''"
definition SQLITE_CREATE_TEMP_VIEW :: macro where [const_macros]:
  "SQLITE_CREATE_TEMP_VIEW = Macro ''SQLITE_CREATE_TEMP_VIEW'' 6 ''View Name NULL''"
definition SQLITE_CREATE_TRIGGER :: macro where [const_macros]:
  "SQLITE_CREATE_TRIGGER = Macro ''SQLITE_CREATE_TRIGGER'' 7 ''Trigger Name Table Name''"
definition SQLITE_CREATE_VIEW :: macro where [const_macros]:
  "SQLITE_CREATE_VIEW = Macro ''SQLITE_CREATE_VIEW'' 8 ''View Name NULL''"
definition SQLITE_DELETE :: macro where [const_macros]:
  "SQLITE_DELETE = Macro ''SQLITE_DELETE'' 9 ''Table Name NULL''"
definition SQLITE_DROP_INDEX :: macro where [const_macros]:
  "SQLITE_DROP_INDEX = Macro ''SQLITE_DROP_INDEX'' 10 ''Index Name Table Name''"
definition SQLITE_DROP_TABLE :: macro where [const_macros]:
  "SQLITE_DROP_TABLE = Macro ''SQLITE_DROP_TABLE'' 11 ''Table Name NULL''"
definition SQLITE_DROP_TEMP_INDEX :: macro where [const_macros]:
  "SQLITE_DROP_TEMP_INDEX = Macro ''SQLITE_DROP_TEMP_INDEX'' 12 ''Index Name Table Name''"
definition SQLITE_DROP_TEMP_TABLE :: macro where [const_macros]:
  "SQLITE_DROP_TEMP_TABLE = Macro ''SQLITE_DROP_TEMP_TABLE'' 13 ''Table Name NULL''"
definition SQLITE_DROP_TEMP_TRIGGER :: macro where [const_macros]:
  "SQLITE_DROP_TEMP_TRIGGER = Macro ''SQLITE_DROP_TEMP_TRIGGER'' 14 ''Trigger Name Table Name''"
definition SQLITE_DROP_TEMP_VIEW :: macro where [const_macros]:
  "SQLITE_DROP_TEMP_VIEW = Macro ''SQLITE_DROP_TEMP_VIEW'' 15 ''View Name NULL''"
definition SQLITE_DROP_TRIGGER :: macro where [const_macros]:
  "SQLITE_DROP_TRIGGER = Macro ''SQLITE_DROP_TRIGGER'' 16 ''Trigger Name Table Name''"
definition SQLITE_DROP_VIEW :: macro where [const_macros]:
  "SQLITE_DROP_VIEW = Macro ''SQLITE_DROP_VIEW'' 17 ''View Name NULL''"
definition SQLITE_INSERT :: macro where [const_macros]:
  "SQLITE_INSERT = Macro ''SQLITE_INSERT'' 18 ''Table Name NULL''"
definition SQLITE_PRAGMA :: macro where [const_macros]:
  "SQLITE_PRAGMA = Macro ''SQLITE_PRAGMA'' 19 ''Pragma Name 1st arg or NULL''"
definition SQLITE_READ :: macro where [const_macros]:
  "SQLITE_READ = Macro ''SQLITE_READ'' 20 ''Table Name Column Name''"
definition SQLITE_SELECT :: macro where [const_macros]:
  "SQLITE_SELECT = Macro ''SQLITE_SELECT'' 21 ''NULL NULL''"
definition SQLITE_TRANSACTION :: macro where [const_macros]:
  "SQLITE_TRANSACTION = Macro ''SQLITE_TRANSACTION'' 22 ''Operation NULL''"
definition SQLITE_UPDATE :: macro where [const_macros]:
  "SQLITE_UPDATE = Macro ''SQLITE_UPDATE'' 23 ''Table Name Column Name''"
definition SQLITE_ATTACH :: macro where [const_macros]:
  "SQLITE_ATTACH = Macro ''SQLITE_ATTACH'' 24 ''Filename NULL''"
definition SQLITE_DETACH :: macro where [const_macros]:
  "SQLITE_DETACH = Macro ''SQLITE_DETACH'' 25 ''Database Name NULL''"
definition SQLITE_ALTER_TABLE :: macro where [const_macros]:
  "SQLITE_ALTER_TABLE = Macro ''SQLITE_ALTER_TABLE'' 26 ''Database Name Table Name''"
definition SQLITE_REINDEX :: macro where [const_macros]:
  "SQLITE_REINDEX = Macro ''SQLITE_REINDEX'' 27 ''Index Name NULL''"
definition SQLITE_ANALYZE :: macro where [const_macros]:
  "SQLITE_ANALYZE = Macro ''SQLITE_ANALYZE'' 28 ''Table Name NULL''"
definition SQLITE_CREATE_VTABLE :: macro where [const_macros]:
  "SQLITE_CREATE_VTABLE = Macro ''SQLITE_CREATE_VTABLE'' 29 ''Table Name Module Name''"
definition SQLITE_DROP_VTABLE :: macro where [const_macros]:
  "SQLITE_DROP_VTABLE = Macro ''SQLITE_DROP_VTABLE'' 30 ''Table Name Module Name''"
definition SQLITE_FUNCTION :: macro where [const_macros]:
  "SQLITE_FUNCTION = Macro ''SQLITE_FUNCTION'' 31 ''NULL Function Name''"
definition SQLITE_SAVEPOINT :: macro where [const_macros]:
  "SQLITE_SAVEPOINT = Macro ''SQLITE_SAVEPOINT'' 32 ''Operation Savepoint Name''"
definition SQLITE_COPY :: macro where [const_macros]:
  "SQLITE_COPY = Macro ''SQLITE_COPY'' 0 ''No longer used''"
definition SQLITE_RECURSIVE :: macro where [const_macros]:
  "SQLITE_RECURSIVE = Macro ''SQLITE_RECURSIVE'' 33 ''NULL NULL''"

definition macros1 :: "macro list" where
  "macros1 = [macro_SQLITE_OK, macro_SQLITE_ERROR, macro_SQLITE_INTERNAL, macro_SQLITE_PERM,
     macro_SQLITE_ABORT, macro_SQLITE_BUSY, macro_SQLITE_LOCKED, macro_SQLITE_NOMEM,
     macro_SQLITE_READONLY, macro_SQLITE_INTERRUPT, macro_SQLITE_IOERR, macro_SQLITE_CORRUPT,
     macro_SQLITE_NOTFOUND, macro_SQLITE_FULL, macro_SQLITE_CANTOPEN, macro_SQLITE_PROTOCOL,
     macro_SQLITE_EMPTY, macro_SQLITE_SCHEMA, macro_SQLITE_TOOBIG, macro_SQLITE_CONSTRAINT,
     macro_SQLITE_MISMATCH, macro_SQLITE_MISUSE, macro_SQLITE_NOLFS, macro_SQLITE_AUTH,
     macro_SQLITE_FORMAT, macro_SQLITE_RANGE, macro_SQLITE_NOTADB, macro_SQLITE_NOTICE,
     macro_SQLITE_WARNING, macro_SQLITE_ROW, macro_SQLITE_DONE,
     macro_SQLITE_ERROR_MISSING_COLLSEQ, macro_SQLITE_ERROR_RETRY, macro_SQLITE_ERROR_SNAPSHOT,
     macro_SQLITE_IOERR_READ, macro_SQLITE_IOERR_SHORT_READ, macro_SQLITE_IOERR_WRITE,
     macro_SQLITE_IOERR_FSYNC, macro_SQLITE_IOERR_DIR_FSYNC, macro_SQLITE_IOERR_TRUNCATE,
     macro_SQLITE_IOERR_FSTAT, macro_SQLITE_IOERR_UNLOCK, macro_SQLITE_IOERR_RDLOCK,
     macro_SQLITE_IOERR_DELETE, macro_SQLITE_IOERR_BLOCKED, macro_SQLITE_IOERR_NOMEM,
     macro_SQLITE_IOERR_ACCESS, macro_SQLITE_IOERR_CHECKRESERVEDLOCK, macro_SQLITE_IOERR_LOCK,
     macro_SQLITE_IOERR_CLOSE, macro_SQLITE_IOERR_DIR_CLOSE, macro_SQLITE_IOERR_SHMOPEN,
     macro_SQLITE_IOERR_SHMSIZE, macro_SQLITE_IOERR_SHMLOCK, macro_SQLITE_IOERR_SHMMAP,
     macro_SQLITE_IOERR_SEEK, macro_SQLITE_IOERR_DELETE_NOENT, macro_SQLITE_IOERR_MMAP,
     macro_SQLITE_IOERR_GETTEMPPATH, macro_SQLITE_IOERR_CONVPATH, macro_SQLITE_IOERR_VNODE,
     macro_SQLITE_IOERR_AUTH, macro_SQLITE_IOERR_BEGIN_ATOMIC, macro_SQLITE_IOERR_COMMIT_ATOMIC,
     macro_SQLITE_IOERR_ROLLBACK_ATOMIC, macro_SQLITE_IOERR_DATA, macro_SQLITE_IOERR_CORRUPTFS,
     macro_SQLITE_IOERR_IN_PAGE, macro_SQLITE_LOCKED_SHAREDCACHE, macro_SQLITE_LOCKED_VTAB,
     macro_SQLITE_BUSY_RECOVERY, macro_SQLITE_BUSY_SNAPSHOT, macro_SQLITE_BUSY_TIMEOUT,
     macro_SQLITE_CANTOPEN_NOTEMPDIR, macro_SQLITE_CANTOPEN_ISDIR, macro_SQLITE_CANTOPEN_FULLPATH,
     macro_SQLITE_CANTOPEN_CONVPATH, macro_SQLITE_CANTOPEN_DIRTYWAL,
     macro_SQLITE_CANTOPEN_SYMLINK, macro_SQLITE_CORRUPT_VTAB, macro_SQLITE_CORRUPT_SEQUENCE,
     macro_SQLITE_CORRUPT_INDEX, macro_SQLITE_READONLY_RECOVERY, macro_SQLITE_READONLY_CANTLOCK,
     macro_SQLITE_READONLY_ROLLBACK, macro_SQLITE_READONLY_DBMOVED,
     macro_SQLITE_READONLY_CANTINIT, macro_SQLITE_READONLY_DIRECTORY, macro_SQLITE_ABORT_ROLLBACK,
     macro_SQLITE_CONSTRAINT_CHECK, macro_SQLITE_CONSTRAINT_COMMITHOOK,
     macro_SQLITE_CONSTRAINT_FOREIGNKEY, macro_SQLITE_CONSTRAINT_FUNCTION,
     macro_SQLITE_CONSTRAINT_NOTNULL, macro_SQLITE_CONSTRAINT_PRIMARYKEY,
     macro_SQLITE_CONSTRAINT_TRIGGER, macro_SQLITE_CONSTRAINT_UNIQUE,
     macro_SQLITE_CONSTRAINT_VTAB, macro_SQLITE_CONSTRAINT_ROWID, macro_SQLITE_CONSTRAINT_PINNED,
     macro_SQLITE_CONSTRAINT_DATATYPE, macro_SQLITE_NOTICE_RECOVER_WAL,
     macro_SQLITE_NOTICE_RECOVER_ROLLBACK, macro_SQLITE_NOTICE_RBU,
     macro_SQLITE_WARNING_AUTOINDEX, macro_SQLITE_AUTH_USER, macro_SQLITE_OK_LOAD_PERMANENTLY,
     macro_SQLITE_OK_SYMLINK, macro_SQLITE_OPEN_READONLY, macro_SQLITE_OPEN_READWRITE,
     macro_SQLITE_OPEN_CREATE, macro_SQLITE_OPEN_DELETEONCLOSE, macro_SQLITE_OPEN_EXCLUSIVE,
     macro_SQLITE_OPEN_AUTOPROXY, macro_SQLITE_OPEN_URI, macro_SQLITE_OPEN_MEMORY,
     macro_SQLITE_OPEN_MAIN_DB, macro_SQLITE_OPEN_TEMP_DB, macro_SQLITE_OPEN_TRANSIENT_DB,
     macro_SQLITE_OPEN_MAIN_JOURNAL, macro_SQLITE_OPEN_TEMP_JOURNAL, macro_SQLITE_OPEN_SUBJOURNAL,
     macro_SQLITE_OPEN_SUPER_JOURNAL, macro_SQLITE_OPEN_NOMUTEX, macro_SQLITE_OPEN_FULLMUTEX,
     macro_SQLITE_OPEN_SHAREDCACHE, macro_SQLITE_OPEN_PRIVATECACHE, macro_SQLITE_OPEN_WAL,
     macro_SQLITE_OPEN_NOFOLLOW, macro_SQLITE_OPEN_EXRESCODE, macro_SQLITE_OPEN_MASTER_JOURNAL,
     macro_SQLITE_IOCAP_ATOMIC, macro_SQLITE_IOCAP_ATOMIC512, macro_SQLITE_IOCAP_ATOMIC1K,
     macro_SQLITE_IOCAP_ATOMIC2K, macro_SQLITE_IOCAP_ATOMIC4K, macro_SQLITE_IOCAP_ATOMIC8K,
     macro_SQLITE_IOCAP_ATOMIC16K, macro_SQLITE_IOCAP_ATOMIC32K, macro_SQLITE_IOCAP_ATOMIC64K,
     macro_SQLITE_IOCAP_SAFE_APPEND, macro_SQLITE_IOCAP_SEQUENTIAL,
     macro_SQLITE_IOCAP_UNDELETABLE_WHEN_OPEN, macro_SQLITE_IOCAP_POWERSAFE_OVERWRITE,
     macro_SQLITE_IOCAP_IMMUTABLE, macro_SQLITE_IOCAP_BATCH_ATOMIC, macro_SQLITE_LOCK_NONE,
     macro_SQLITE_LOCK_SHARED, macro_SQLITE_LOCK_RESERVED, macro_SQLITE_LOCK_PENDING,
     macro_SQLITE_LOCK_EXCLUSIVE, macro_SQLITE_SYNC_NORMAL, macro_SQLITE_SYNC_FULL,
     macro_SQLITE_SYNC_DATAONLY, macro_SQLITE_FCNTL_LOCKSTATE,
     macro_SQLITE_FCNTL_GET_LOCKPROXYFILE, macro_SQLITE_FCNTL_SET_LOCKPROXYFILE,
     macro_SQLITE_FCNTL_LAST_ERRNO, macro_SQLITE_FCNTL_SIZE_HINT, macro_SQLITE_FCNTL_CHUNK_SIZE,
     macro_SQLITE_FCNTL_FILE_POINTER, macro_SQLITE_FCNTL_SYNC_OMITTED,
     macro_SQLITE_FCNTL_WIN32_AV_RETRY, macro_SQLITE_FCNTL_PERSIST_WAL,
     macro_SQLITE_FCNTL_OVERWRITE, macro_SQLITE_FCNTL_VFSNAME,
     macro_SQLITE_FCNTL_POWERSAFE_OVERWRITE, macro_SQLITE_FCNTL_PRAGMA,
     macro_SQLITE_FCNTL_BUSYHANDLER, macro_SQLITE_FCNTL_TEMPFILENAME,
     macro_SQLITE_FCNTL_MMAP_SIZE, macro_SQLITE_FCNTL_TRACE, macro_SQLITE_FCNTL_HAS_MOVED,
     macro_SQLITE_FCNTL_SYNC, macro_SQLITE_FCNTL_COMMIT_PHASETWO,
     macro_SQLITE_FCNTL_WIN32_SET_HANDLE, macro_SQLITE_FCNTL_WAL_BLOCK, macro_SQLITE_FCNTL_ZIPVFS,
     macro_SQLITE_FCNTL_RBU, macro_SQLITE_FCNTL_VFS_POINTER, macro_SQLITE_FCNTL_JOURNAL_POINTER,
     macro_SQLITE_FCNTL_WIN32_GET_HANDLE, macro_SQLITE_FCNTL_PDB,
     macro_SQLITE_FCNTL_BEGIN_ATOMIC_WRITE, macro_SQLITE_FCNTL_COMMIT_ATOMIC_WRITE,
     macro_SQLITE_FCNTL_ROLLBACK_ATOMIC_WRITE, macro_SQLITE_FCNTL_LOCK_TIMEOUT,
     macro_SQLITE_FCNTL_DATA_VERSION, macro_SQLITE_FCNTL_SIZE_LIMIT, macro_SQLITE_FCNTL_CKPT_DONE,
     macro_SQLITE_FCNTL_RESERVE_BYTES, macro_SQLITE_FCNTL_CKPT_START,
     macro_SQLITE_FCNTL_EXTERNAL_READER, macro_SQLITE_FCNTL_CKSM_FILE,
     macro_SQLITE_FCNTL_RESET_CACHE, macro_SQLITE_GET_LOCKPROXYFILE,
     macro_SQLITE_SET_LOCKPROXYFILE, macro_SQLITE_LAST_ERRNO, macro_SQLITE_ACCESS_EXISTS,
     macro_SQLITE_ACCESS_READWRITE, macro_SQLITE_ACCESS_READ, macro_SQLITE_SHM_UNLOCK,
     macro_SQLITE_SHM_LOCK, macro_SQLITE_SHM_SHARED, macro_SQLITE_SHM_EXCLUSIVE,
     macro_SQLITE_SHM_NLOCK, SQLITE_CONFIG_SINGLETHREAD, SQLITE_CONFIG_MULTITHREAD,
     SQLITE_CONFIG_SERIALIZED, SQLITE_CONFIG_MALLOC, SQLITE_CONFIG_GETMALLOC,
     SQLITE_CONFIG_SCRATCH, SQLITE_CONFIG_PAGECACHE, SQLITE_CONFIG_HEAP, SQLITE_CONFIG_MEMSTATUS,
     SQLITE_CONFIG_MUTEX, SQLITE_CONFIG_GETMUTEX, SQLITE_CONFIG_LOOKASIDE, SQLITE_CONFIG_PCACHE,
     SQLITE_CONFIG_GETPCACHE, SQLITE_CONFIG_LOG, SQLITE_CONFIG_URI, SQLITE_CONFIG_PCACHE2,
     SQLITE_CONFIG_GETPCACHE2, SQLITE_CONFIG_COVERING_INDEX_SCAN, SQLITE_CONFIG_SQLLOG,
     SQLITE_CONFIG_MMAP_SIZE, SQLITE_CONFIG_WIN32_HEAPSIZE, SQLITE_CONFIG_PCACHE_HDRSZ,
     SQLITE_CONFIG_PMASZ, SQLITE_CONFIG_STMTJRNL_SPILL, SQLITE_CONFIG_SMALL_MALLOC,
     SQLITE_CONFIG_SORTERREF_SIZE, SQLITE_CONFIG_MEMDB_MAXSIZE, SQLITE_CONFIG_ROWID_IN_VIEW,
     SQLITE_DBCONFIG_MAINDBNAME, SQLITE_DBCONFIG_LOOKASIDE, SQLITE_DBCONFIG_ENABLE_FKEY,
     SQLITE_DBCONFIG_ENABLE_TRIGGER, SQLITE_DBCONFIG_ENABLE_FTS3_TOKENIZER,
     SQLITE_DBCONFIG_ENABLE_LOAD_EXTENSION, SQLITE_DBCONFIG_NO_CKPT_ON_CLOSE,
     SQLITE_DBCONFIG_ENABLE_QPSG, SQLITE_DBCONFIG_TRIGGER_EQP, SQLITE_DBCONFIG_RESET_DATABASE,
     SQLITE_DBCONFIG_DEFENSIVE, SQLITE_DBCONFIG_WRITABLE_SCHEMA,
     SQLITE_DBCONFIG_LEGACY_ALTER_TABLE, SQLITE_DBCONFIG_DQS_DML, SQLITE_DBCONFIG_DQS_DDL,
     SQLITE_DBCONFIG_ENABLE_VIEW, SQLITE_DBCONFIG_LEGACY_FILE_FORMAT,
     SQLITE_DBCONFIG_TRUSTED_SCHEMA, SQLITE_DBCONFIG_STMT_SCANSTATUS,
     SQLITE_DBCONFIG_REVERSE_SCANORDER, SQLITE_DBCONFIG_MAX, SQLITE_DENY, SQLITE_IGNORE,
     SQLITE_CREATE_INDEX, SQLITE_CREATE_TABLE, SQLITE_CREATE_TEMP_INDEX, SQLITE_CREATE_TEMP_TABLE,
     SQLITE_CREATE_TEMP_TRIGGER, SQLITE_CREATE_TEMP_VIEW, SQLITE_CREATE_TRIGGER,
     SQLITE_CREATE_VIEW, SQLITE_DELETE, SQLITE_DROP_INDEX, SQLITE_DROP_TABLE,
     SQLITE_DROP_TEMP_INDEX, SQLITE_DROP_TEMP_TABLE, SQLITE_DROP_TEMP_TRIGGER,
     SQLITE_DROP_TEMP_VIEW, SQLITE_DROP_TRIGGER, SQLITE_DROP_VIEW, SQLITE_INSERT, SQLITE_PRAGMA,
     SQLITE_READ, SQLITE_SELECT, SQLITE_TRANSACTION, SQLITE_UPDATE, SQLITE_ATTACH, SQLITE_DETACH,
     SQLITE_ALTER_TABLE, SQLITE_REINDEX, SQLITE_ANALYZE, SQLITE_CREATE_VTABLE, SQLITE_DROP_VTABLE,
     SQLITE_FUNCTION, SQLITE_SAVEPOINT, SQLITE_COPY, SQLITE_RECURSIVE]"

end
