(* ===== verification/HeaderConsts2.thy ===== *)
theory HeaderConsts2
  imports HeaderConsts1
begin

text \<open>
  The constants of \<^verbatim>\<open>sqlite3.h\<close> from \<^verbatim>\<open>SQLITE_TRACE_STMT\<close> to \<^verbatim>\<open>SQLITE_SESSION_CONFIG_STRMSIZE\<close>, section by section: name, value and the comment of the line.
  Those that \<^verbatim>\<open>SqliteHeader\<close> declares for the plugin take their value from there.
\<close>

text \<open>SQL Trace Event Codes.\<close>

definition SQLITE_TRACE_STMT :: macro where [const_macros]:
  "SQLITE_TRACE_STMT = Macro ''SQLITE_TRACE_STMT'' 1 ''''"
definition SQLITE_TRACE_PROFILE :: macro where [const_macros]:
  "SQLITE_TRACE_PROFILE = Macro ''SQLITE_TRACE_PROFILE'' 2 ''''"
definition SQLITE_TRACE_ROW :: macro where [const_macros]:
  "SQLITE_TRACE_ROW = Macro ''SQLITE_TRACE_ROW'' 4 ''''"
definition SQLITE_TRACE_CLOSE :: macro where [const_macros]:
  "SQLITE_TRACE_CLOSE = Macro ''SQLITE_TRACE_CLOSE'' 8 ''''"

text \<open>Run-Time Limit Categories.\<close>

definition SQLITE_LIMIT_LENGTH :: macro where [const_macros]:
  "SQLITE_LIMIT_LENGTH = Macro ''SQLITE_LIMIT_LENGTH'' 0 ''''"
definition SQLITE_LIMIT_SQL_LENGTH :: macro where [const_macros]:
  "SQLITE_LIMIT_SQL_LENGTH = Macro ''SQLITE_LIMIT_SQL_LENGTH'' 1 ''''"
definition SQLITE_LIMIT_COLUMN :: macro where [const_macros]:
  "SQLITE_LIMIT_COLUMN = Macro ''SQLITE_LIMIT_COLUMN'' 2 ''''"
definition SQLITE_LIMIT_EXPR_DEPTH :: macro where [const_macros]:
  "SQLITE_LIMIT_EXPR_DEPTH = Macro ''SQLITE_LIMIT_EXPR_DEPTH'' 3 ''''"
definition SQLITE_LIMIT_COMPOUND_SELECT :: macro where [const_macros]:
  "SQLITE_LIMIT_COMPOUND_SELECT = Macro ''SQLITE_LIMIT_COMPOUND_SELECT'' 4 ''''"
definition SQLITE_LIMIT_VDBE_OP :: macro where [const_macros]:
  "SQLITE_LIMIT_VDBE_OP = Macro ''SQLITE_LIMIT_VDBE_OP'' 5 ''''"
definition SQLITE_LIMIT_FUNCTION_ARG :: macro where [const_macros]:
  "SQLITE_LIMIT_FUNCTION_ARG = Macro ''SQLITE_LIMIT_FUNCTION_ARG'' 6 ''''"
definition SQLITE_LIMIT_ATTACHED :: macro where [const_macros]:
  "SQLITE_LIMIT_ATTACHED = Macro ''SQLITE_LIMIT_ATTACHED'' 7 ''''"
definition SQLITE_LIMIT_LIKE_PATTERN_LENGTH :: macro where [const_macros]:
  "SQLITE_LIMIT_LIKE_PATTERN_LENGTH = Macro ''SQLITE_LIMIT_LIKE_PATTERN_LENGTH'' 8 ''''"
definition SQLITE_LIMIT_VARIABLE_NUMBER :: macro where [const_macros]:
  "SQLITE_LIMIT_VARIABLE_NUMBER = Macro ''SQLITE_LIMIT_VARIABLE_NUMBER'' 9 ''''"
definition SQLITE_LIMIT_TRIGGER_DEPTH :: macro where [const_macros]:
  "SQLITE_LIMIT_TRIGGER_DEPTH = Macro ''SQLITE_LIMIT_TRIGGER_DEPTH'' 10 ''''"
definition SQLITE_LIMIT_WORKER_THREADS :: macro where [const_macros]:
  "SQLITE_LIMIT_WORKER_THREADS = Macro ''SQLITE_LIMIT_WORKER_THREADS'' 11 ''''"

text \<open>Prepare Flags.\<close>

definition SQLITE_PREPARE_PERSISTENT :: macro where [const_macros]:
  "SQLITE_PREPARE_PERSISTENT = Macro ''SQLITE_PREPARE_PERSISTENT'' 1 ''''"
definition SQLITE_PREPARE_NORMALIZE :: macro where [const_macros]:
  "SQLITE_PREPARE_NORMALIZE = Macro ''SQLITE_PREPARE_NORMALIZE'' 2 ''''"
definition SQLITE_PREPARE_NO_VTAB :: macro where [const_macros]:
  "SQLITE_PREPARE_NO_VTAB = Macro ''SQLITE_PREPARE_NO_VTAB'' 4 ''''"

text \<open>Fundamental Datatypes.\<close>

definition SQLITE_INTEGER :: macro where [const_macros]:
  "SQLITE_INTEGER = Macro ''SQLITE_INTEGER'' 1 ''''"
definition SQLITE_FLOAT :: macro where [const_macros]:
  "SQLITE_FLOAT = Macro ''SQLITE_FLOAT'' 2 ''''"
definition SQLITE_BLOB :: macro where [const_macros]:
  "SQLITE_BLOB = Macro ''SQLITE_BLOB'' 4 ''''"
definition SQLITE_NULL :: macro where [const_macros]:
  "SQLITE_NULL = Macro ''SQLITE_NULL'' 5 ''''"
definition SQLITE_TEXT :: macro where [const_macros]:
  "SQLITE_TEXT = Macro ''SQLITE_TEXT'' 3 ''''"
definition SQLITE3_TEXT :: macro where [const_macros]:
  "SQLITE3_TEXT = Macro ''SQLITE3_TEXT'' 3 ''''"

text \<open>Text Encodings.\<close>

definition SQLITE_UTF8 :: macro where [const_macros]:
  "SQLITE_UTF8 = Macro ''SQLITE_UTF8'' 1 ''IMP: R-37514-35566''"
definition SQLITE_UTF16LE :: macro where [const_macros]:
  "SQLITE_UTF16LE = Macro ''SQLITE_UTF16LE'' 2 ''IMP: R-03371-37637''"
definition SQLITE_UTF16BE :: macro where [const_macros]:
  "SQLITE_UTF16BE = Macro ''SQLITE_UTF16BE'' 3 ''IMP: R-51971-34154''"
definition SQLITE_UTF16 :: macro where [const_macros]:
  "SQLITE_UTF16 = Macro ''SQLITE_UTF16'' 4 ''Use native byte order''"
definition SQLITE_ANY :: macro where [const_macros]:
  "SQLITE_ANY = Macro ''SQLITE_ANY'' 5 ''Deprecated''"
definition SQLITE_UTF16_ALIGNED :: macro where [const_macros]:
  "SQLITE_UTF16_ALIGNED = Macro ''SQLITE_UTF16_ALIGNED'' 8 ''sqlite3_create_collation only''"

text \<open>Function Flags.\<close>

definition SQLITE_DETERMINISTIC :: macro where [const_macros]:
  "SQLITE_DETERMINISTIC = Macro ''SQLITE_DETERMINISTIC'' 2048 ''''"
definition SQLITE_DIRECTONLY :: macro where [const_macros]:
  "SQLITE_DIRECTONLY = Macro ''SQLITE_DIRECTONLY'' 524288 ''''"
definition SQLITE_SUBTYPE :: macro where [const_macros]:
  "SQLITE_SUBTYPE = Macro ''SQLITE_SUBTYPE'' 1048576 ''''"
definition SQLITE_INNOCUOUS :: macro where [const_macros]:
  "SQLITE_INNOCUOUS = Macro ''SQLITE_INNOCUOUS'' 2097152 ''''"
definition SQLITE_RESULT_SUBTYPE :: macro where [const_macros]:
  "SQLITE_RESULT_SUBTYPE = Macro ''SQLITE_RESULT_SUBTYPE'' 16777216 ''''"

text \<open>Win32 Directory Types.\<close>

definition SQLITE_WIN32_DATA_DIRECTORY_TYPE :: macro where [const_macros]:
  "SQLITE_WIN32_DATA_DIRECTORY_TYPE = Macro ''SQLITE_WIN32_DATA_DIRECTORY_TYPE'' 1 ''''"
definition SQLITE_WIN32_TEMP_DIRECTORY_TYPE :: macro where [const_macros]:
  "SQLITE_WIN32_TEMP_DIRECTORY_TYPE = Macro ''SQLITE_WIN32_TEMP_DIRECTORY_TYPE'' 2 ''''"

text \<open>Allowed return values from sqlite3_txn_state().\<close>

definition SQLITE_TXN_NONE :: macro where [const_macros]:
  "SQLITE_TXN_NONE = Macro ''SQLITE_TXN_NONE'' 0 ''''"
definition SQLITE_TXN_READ :: macro where [const_macros]:
  "SQLITE_TXN_READ = Macro ''SQLITE_TXN_READ'' 1 ''''"
definition SQLITE_TXN_WRITE :: macro where [const_macros]:
  "SQLITE_TXN_WRITE = Macro ''SQLITE_TXN_WRITE'' 2 ''''"

text \<open>Virtual Table Scan Flags.\<close>

definition SQLITE_INDEX_SCAN_UNIQUE :: macro where [const_macros]:
  "SQLITE_INDEX_SCAN_UNIQUE = Macro ''SQLITE_INDEX_SCAN_UNIQUE'' 1 ''Scan visits at most 1 row''"

text \<open>Virtual Table Constraint Operator Codes.\<close>

definition SQLITE_INDEX_CONSTRAINT_EQ :: macro where [const_macros]:
  "SQLITE_INDEX_CONSTRAINT_EQ = Macro ''SQLITE_INDEX_CONSTRAINT_EQ'' 2 ''''"
definition SQLITE_INDEX_CONSTRAINT_GT :: macro where [const_macros]:
  "SQLITE_INDEX_CONSTRAINT_GT = Macro ''SQLITE_INDEX_CONSTRAINT_GT'' 4 ''''"
definition SQLITE_INDEX_CONSTRAINT_LE :: macro where [const_macros]:
  "SQLITE_INDEX_CONSTRAINT_LE = Macro ''SQLITE_INDEX_CONSTRAINT_LE'' 8 ''''"
definition SQLITE_INDEX_CONSTRAINT_LT :: macro where [const_macros]:
  "SQLITE_INDEX_CONSTRAINT_LT = Macro ''SQLITE_INDEX_CONSTRAINT_LT'' 16 ''''"
definition SQLITE_INDEX_CONSTRAINT_GE :: macro where [const_macros]:
  "SQLITE_INDEX_CONSTRAINT_GE = Macro ''SQLITE_INDEX_CONSTRAINT_GE'' 32 ''''"
definition SQLITE_INDEX_CONSTRAINT_MATCH :: macro where [const_macros]:
  "SQLITE_INDEX_CONSTRAINT_MATCH = Macro ''SQLITE_INDEX_CONSTRAINT_MATCH'' 64 ''''"
definition SQLITE_INDEX_CONSTRAINT_LIKE :: macro where [const_macros]:
  "SQLITE_INDEX_CONSTRAINT_LIKE = Macro ''SQLITE_INDEX_CONSTRAINT_LIKE'' 65 ''''"
definition SQLITE_INDEX_CONSTRAINT_GLOB :: macro where [const_macros]:
  "SQLITE_INDEX_CONSTRAINT_GLOB = Macro ''SQLITE_INDEX_CONSTRAINT_GLOB'' 66 ''''"
definition SQLITE_INDEX_CONSTRAINT_REGEXP :: macro where [const_macros]:
  "SQLITE_INDEX_CONSTRAINT_REGEXP = Macro ''SQLITE_INDEX_CONSTRAINT_REGEXP'' 67 ''''"
definition SQLITE_INDEX_CONSTRAINT_NE :: macro where [const_macros]:
  "SQLITE_INDEX_CONSTRAINT_NE = Macro ''SQLITE_INDEX_CONSTRAINT_NE'' 68 ''''"
definition SQLITE_INDEX_CONSTRAINT_ISNOT :: macro where [const_macros]:
  "SQLITE_INDEX_CONSTRAINT_ISNOT = Macro ''SQLITE_INDEX_CONSTRAINT_ISNOT'' 69 ''''"
definition SQLITE_INDEX_CONSTRAINT_ISNOTNULL :: macro where [const_macros]:
  "SQLITE_INDEX_CONSTRAINT_ISNOTNULL = Macro ''SQLITE_INDEX_CONSTRAINT_ISNOTNULL'' 70 ''''"
definition SQLITE_INDEX_CONSTRAINT_ISNULL :: macro where [const_macros]:
  "SQLITE_INDEX_CONSTRAINT_ISNULL = Macro ''SQLITE_INDEX_CONSTRAINT_ISNULL'' 71 ''''"
definition SQLITE_INDEX_CONSTRAINT_IS :: macro where [const_macros]:
  "SQLITE_INDEX_CONSTRAINT_IS = Macro ''SQLITE_INDEX_CONSTRAINT_IS'' 72 ''''"
definition SQLITE_INDEX_CONSTRAINT_LIMIT :: macro where [const_macros]:
  "SQLITE_INDEX_CONSTRAINT_LIMIT = Macro ''SQLITE_INDEX_CONSTRAINT_LIMIT'' 73 ''''"
definition SQLITE_INDEX_CONSTRAINT_OFFSET :: macro where [const_macros]:
  "SQLITE_INDEX_CONSTRAINT_OFFSET = Macro ''SQLITE_INDEX_CONSTRAINT_OFFSET'' 74 ''''"
definition SQLITE_INDEX_CONSTRAINT_FUNCTION :: macro where [const_macros]:
  "SQLITE_INDEX_CONSTRAINT_FUNCTION = Macro ''SQLITE_INDEX_CONSTRAINT_FUNCTION'' 150 ''''"

text \<open>Mutex Types.\<close>

definition SQLITE_MUTEX_FAST :: macro where [const_macros]:
  "SQLITE_MUTEX_FAST = Macro ''SQLITE_MUTEX_FAST'' 0 ''''"
definition SQLITE_MUTEX_RECURSIVE :: macro where [const_macros]:
  "SQLITE_MUTEX_RECURSIVE = Macro ''SQLITE_MUTEX_RECURSIVE'' 1 ''''"
definition SQLITE_MUTEX_STATIC_MAIN :: macro where [const_macros]:
  "SQLITE_MUTEX_STATIC_MAIN = Macro ''SQLITE_MUTEX_STATIC_MAIN'' 2 ''''"
definition SQLITE_MUTEX_STATIC_MEM :: macro where [const_macros]:
  "SQLITE_MUTEX_STATIC_MEM = Macro ''SQLITE_MUTEX_STATIC_MEM'' 3 ''sqlite3_malloc()''"
definition SQLITE_MUTEX_STATIC_MEM2 :: macro where [const_macros]:
  "SQLITE_MUTEX_STATIC_MEM2 = Macro ''SQLITE_MUTEX_STATIC_MEM2'' 4 ''NOT USED''"
definition SQLITE_MUTEX_STATIC_OPEN :: macro where [const_macros]:
  "SQLITE_MUTEX_STATIC_OPEN = Macro ''SQLITE_MUTEX_STATIC_OPEN'' 4 ''sqlite3BtreeOpen()''"
definition SQLITE_MUTEX_STATIC_PRNG :: macro where [const_macros]:
  "SQLITE_MUTEX_STATIC_PRNG = Macro ''SQLITE_MUTEX_STATIC_PRNG'' 5 ''sqlite3_randomness()''"
definition SQLITE_MUTEX_STATIC_LRU :: macro where [const_macros]:
  "SQLITE_MUTEX_STATIC_LRU = Macro ''SQLITE_MUTEX_STATIC_LRU'' 6 ''lru page list''"
definition SQLITE_MUTEX_STATIC_LRU2 :: macro where [const_macros]:
  "SQLITE_MUTEX_STATIC_LRU2 = Macro ''SQLITE_MUTEX_STATIC_LRU2'' 7 ''NOT USED''"
definition SQLITE_MUTEX_STATIC_PMEM :: macro where [const_macros]:
  "SQLITE_MUTEX_STATIC_PMEM = Macro ''SQLITE_MUTEX_STATIC_PMEM'' 7 ''sqlite3PageMalloc()''"
definition SQLITE_MUTEX_STATIC_APP1 :: macro where [const_macros]:
  "SQLITE_MUTEX_STATIC_APP1 = Macro ''SQLITE_MUTEX_STATIC_APP1'' 8 ''For use by application''"
definition SQLITE_MUTEX_STATIC_APP2 :: macro where [const_macros]:
  "SQLITE_MUTEX_STATIC_APP2 = Macro ''SQLITE_MUTEX_STATIC_APP2'' 9 ''For use by application''"
definition SQLITE_MUTEX_STATIC_APP3 :: macro where [const_macros]:
  "SQLITE_MUTEX_STATIC_APP3 = Macro ''SQLITE_MUTEX_STATIC_APP3'' 10 ''For use by application''"
definition SQLITE_MUTEX_STATIC_VFS1 :: macro where [const_macros]:
  "SQLITE_MUTEX_STATIC_VFS1 = Macro ''SQLITE_MUTEX_STATIC_VFS1'' 11 ''For use by built-in VFS''"
definition SQLITE_MUTEX_STATIC_VFS2 :: macro where [const_macros]:
  "SQLITE_MUTEX_STATIC_VFS2 = Macro ''SQLITE_MUTEX_STATIC_VFS2'' 12 ''For use by extension VFS''"
definition SQLITE_MUTEX_STATIC_VFS3 :: macro where [const_macros]:
  "SQLITE_MUTEX_STATIC_VFS3 = Macro ''SQLITE_MUTEX_STATIC_VFS3'' 13
     ''For use by application VFS''"
definition SQLITE_MUTEX_STATIC_MASTER :: macro where [const_macros]:
  "SQLITE_MUTEX_STATIC_MASTER = Macro ''SQLITE_MUTEX_STATIC_MASTER'' 2 ''''"

text \<open>Testing Interface Operation Codes.\<close>

definition SQLITE_TESTCTRL_FIRST :: macro where [const_macros]:
  "SQLITE_TESTCTRL_FIRST = Macro ''SQLITE_TESTCTRL_FIRST'' 5 ''''"
definition SQLITE_TESTCTRL_PRNG_SAVE :: macro where [const_macros]:
  "SQLITE_TESTCTRL_PRNG_SAVE = Macro ''SQLITE_TESTCTRL_PRNG_SAVE'' 5 ''''"
definition SQLITE_TESTCTRL_PRNG_RESTORE :: macro where [const_macros]:
  "SQLITE_TESTCTRL_PRNG_RESTORE = Macro ''SQLITE_TESTCTRL_PRNG_RESTORE'' 6 ''''"
definition SQLITE_TESTCTRL_PRNG_RESET :: macro where [const_macros]:
  "SQLITE_TESTCTRL_PRNG_RESET = Macro ''SQLITE_TESTCTRL_PRNG_RESET'' 7 ''NOT USED''"
definition SQLITE_TESTCTRL_FK_NO_ACTION :: macro where [const_macros]:
  "SQLITE_TESTCTRL_FK_NO_ACTION = Macro ''SQLITE_TESTCTRL_FK_NO_ACTION'' 7 ''''"
definition SQLITE_TESTCTRL_BITVEC_TEST :: macro where [const_macros]:
  "SQLITE_TESTCTRL_BITVEC_TEST = Macro ''SQLITE_TESTCTRL_BITVEC_TEST'' 8 ''''"
definition SQLITE_TESTCTRL_FAULT_INSTALL :: macro where [const_macros]:
  "SQLITE_TESTCTRL_FAULT_INSTALL = Macro ''SQLITE_TESTCTRL_FAULT_INSTALL'' 9 ''''"
definition SQLITE_TESTCTRL_BENIGN_MALLOC_HOOKS :: macro where [const_macros]:
  "SQLITE_TESTCTRL_BENIGN_MALLOC_HOOKS = Macro ''SQLITE_TESTCTRL_BENIGN_MALLOC_HOOKS'' 10 ''''"
definition SQLITE_TESTCTRL_PENDING_BYTE :: macro where [const_macros]:
  "SQLITE_TESTCTRL_PENDING_BYTE = Macro ''SQLITE_TESTCTRL_PENDING_BYTE'' 11 ''''"
definition SQLITE_TESTCTRL_ASSERT :: macro where [const_macros]:
  "SQLITE_TESTCTRL_ASSERT = Macro ''SQLITE_TESTCTRL_ASSERT'' 12 ''''"
definition SQLITE_TESTCTRL_ALWAYS :: macro where [const_macros]:
  "SQLITE_TESTCTRL_ALWAYS = Macro ''SQLITE_TESTCTRL_ALWAYS'' 13 ''''"
definition SQLITE_TESTCTRL_RESERVE :: macro where [const_macros]:
  "SQLITE_TESTCTRL_RESERVE = Macro ''SQLITE_TESTCTRL_RESERVE'' 14 ''NOT USED''"
definition SQLITE_TESTCTRL_JSON_SELFCHECK :: macro where [const_macros]:
  "SQLITE_TESTCTRL_JSON_SELFCHECK = Macro ''SQLITE_TESTCTRL_JSON_SELFCHECK'' 14 ''''"
definition SQLITE_TESTCTRL_OPTIMIZATIONS :: macro where [const_macros]:
  "SQLITE_TESTCTRL_OPTIMIZATIONS = Macro ''SQLITE_TESTCTRL_OPTIMIZATIONS'' 15 ''''"
definition SQLITE_TESTCTRL_ISKEYWORD :: macro where [const_macros]:
  "SQLITE_TESTCTRL_ISKEYWORD = Macro ''SQLITE_TESTCTRL_ISKEYWORD'' 16 ''NOT USED''"
definition SQLITE_TESTCTRL_SCRATCHMALLOC :: macro where [const_macros]:
  "SQLITE_TESTCTRL_SCRATCHMALLOC = Macro ''SQLITE_TESTCTRL_SCRATCHMALLOC'' 17 ''NOT USED''"
definition SQLITE_TESTCTRL_INTERNAL_FUNCTIONS :: macro where [const_macros]:
  "SQLITE_TESTCTRL_INTERNAL_FUNCTIONS = Macro ''SQLITE_TESTCTRL_INTERNAL_FUNCTIONS'' 17 ''''"
definition SQLITE_TESTCTRL_LOCALTIME_FAULT :: macro where [const_macros]:
  "SQLITE_TESTCTRL_LOCALTIME_FAULT = Macro ''SQLITE_TESTCTRL_LOCALTIME_FAULT'' 18 ''''"
definition SQLITE_TESTCTRL_EXPLAIN_STMT :: macro where [const_macros]:
  "SQLITE_TESTCTRL_EXPLAIN_STMT = Macro ''SQLITE_TESTCTRL_EXPLAIN_STMT'' 19 ''NOT USED''"
definition SQLITE_TESTCTRL_ONCE_RESET_THRESHOLD :: macro where [const_macros]:
  "SQLITE_TESTCTRL_ONCE_RESET_THRESHOLD = Macro ''SQLITE_TESTCTRL_ONCE_RESET_THRESHOLD'' 19 ''''"
definition SQLITE_TESTCTRL_NEVER_CORRUPT :: macro where [const_macros]:
  "SQLITE_TESTCTRL_NEVER_CORRUPT = Macro ''SQLITE_TESTCTRL_NEVER_CORRUPT'' 20 ''''"
definition SQLITE_TESTCTRL_VDBE_COVERAGE :: macro where [const_macros]:
  "SQLITE_TESTCTRL_VDBE_COVERAGE = Macro ''SQLITE_TESTCTRL_VDBE_COVERAGE'' 21 ''''"
definition SQLITE_TESTCTRL_BYTEORDER :: macro where [const_macros]:
  "SQLITE_TESTCTRL_BYTEORDER = Macro ''SQLITE_TESTCTRL_BYTEORDER'' 22 ''''"
definition SQLITE_TESTCTRL_ISINIT :: macro where [const_macros]:
  "SQLITE_TESTCTRL_ISINIT = Macro ''SQLITE_TESTCTRL_ISINIT'' 23 ''''"
definition SQLITE_TESTCTRL_SORTER_MMAP :: macro where [const_macros]:
  "SQLITE_TESTCTRL_SORTER_MMAP = Macro ''SQLITE_TESTCTRL_SORTER_MMAP'' 24 ''''"
definition SQLITE_TESTCTRL_IMPOSTER :: macro where [const_macros]:
  "SQLITE_TESTCTRL_IMPOSTER = Macro ''SQLITE_TESTCTRL_IMPOSTER'' 25 ''''"
definition SQLITE_TESTCTRL_PARSER_COVERAGE :: macro where [const_macros]:
  "SQLITE_TESTCTRL_PARSER_COVERAGE = Macro ''SQLITE_TESTCTRL_PARSER_COVERAGE'' 26 ''''"
definition SQLITE_TESTCTRL_RESULT_INTREAL :: macro where [const_macros]:
  "SQLITE_TESTCTRL_RESULT_INTREAL = Macro ''SQLITE_TESTCTRL_RESULT_INTREAL'' 27 ''''"
definition SQLITE_TESTCTRL_PRNG_SEED :: macro where [const_macros]:
  "SQLITE_TESTCTRL_PRNG_SEED = Macro ''SQLITE_TESTCTRL_PRNG_SEED'' 28 ''''"
definition SQLITE_TESTCTRL_EXTRA_SCHEMA_CHECKS :: macro where [const_macros]:
  "SQLITE_TESTCTRL_EXTRA_SCHEMA_CHECKS = Macro ''SQLITE_TESTCTRL_EXTRA_SCHEMA_CHECKS'' 29 ''''"
definition SQLITE_TESTCTRL_SEEK_COUNT :: macro where [const_macros]:
  "SQLITE_TESTCTRL_SEEK_COUNT = Macro ''SQLITE_TESTCTRL_SEEK_COUNT'' 30 ''''"
definition SQLITE_TESTCTRL_TRACEFLAGS :: macro where [const_macros]:
  "SQLITE_TESTCTRL_TRACEFLAGS = Macro ''SQLITE_TESTCTRL_TRACEFLAGS'' 31 ''''"
definition SQLITE_TESTCTRL_TUNE :: macro where [const_macros]:
  "SQLITE_TESTCTRL_TUNE = Macro ''SQLITE_TESTCTRL_TUNE'' 32 ''''"
definition SQLITE_TESTCTRL_LOGEST :: macro where [const_macros]:
  "SQLITE_TESTCTRL_LOGEST = Macro ''SQLITE_TESTCTRL_LOGEST'' 33 ''''"
definition SQLITE_TESTCTRL_USELONGDOUBLE :: macro where [const_macros]:
  "SQLITE_TESTCTRL_USELONGDOUBLE = Macro ''SQLITE_TESTCTRL_USELONGDOUBLE'' 34 ''''"
definition SQLITE_TESTCTRL_LAST :: macro where [const_macros]:
  "SQLITE_TESTCTRL_LAST = Macro ''SQLITE_TESTCTRL_LAST'' 34 ''Largest TESTCTRL''"

text \<open>Status Parameters.\<close>

definition SQLITE_STATUS_MEMORY_USED :: macro where [const_macros]:
  "SQLITE_STATUS_MEMORY_USED = Macro ''SQLITE_STATUS_MEMORY_USED'' 0 ''''"
definition SQLITE_STATUS_PAGECACHE_USED :: macro where [const_macros]:
  "SQLITE_STATUS_PAGECACHE_USED = Macro ''SQLITE_STATUS_PAGECACHE_USED'' 1 ''''"
definition SQLITE_STATUS_PAGECACHE_OVERFLOW :: macro where [const_macros]:
  "SQLITE_STATUS_PAGECACHE_OVERFLOW = Macro ''SQLITE_STATUS_PAGECACHE_OVERFLOW'' 2 ''''"
definition SQLITE_STATUS_SCRATCH_USED :: macro where [const_macros]:
  "SQLITE_STATUS_SCRATCH_USED = Macro ''SQLITE_STATUS_SCRATCH_USED'' 3 ''NOT USED''"
definition SQLITE_STATUS_SCRATCH_OVERFLOW :: macro where [const_macros]:
  "SQLITE_STATUS_SCRATCH_OVERFLOW = Macro ''SQLITE_STATUS_SCRATCH_OVERFLOW'' 4 ''NOT USED''"
definition SQLITE_STATUS_MALLOC_SIZE :: macro where [const_macros]:
  "SQLITE_STATUS_MALLOC_SIZE = Macro ''SQLITE_STATUS_MALLOC_SIZE'' 5 ''''"
definition SQLITE_STATUS_PARSER_STACK :: macro where [const_macros]:
  "SQLITE_STATUS_PARSER_STACK = Macro ''SQLITE_STATUS_PARSER_STACK'' 6 ''''"
definition SQLITE_STATUS_PAGECACHE_SIZE :: macro where [const_macros]:
  "SQLITE_STATUS_PAGECACHE_SIZE = Macro ''SQLITE_STATUS_PAGECACHE_SIZE'' 7 ''''"
definition SQLITE_STATUS_SCRATCH_SIZE :: macro where [const_macros]:
  "SQLITE_STATUS_SCRATCH_SIZE = Macro ''SQLITE_STATUS_SCRATCH_SIZE'' 8 ''NOT USED''"
definition SQLITE_STATUS_MALLOC_COUNT :: macro where [const_macros]:
  "SQLITE_STATUS_MALLOC_COUNT = Macro ''SQLITE_STATUS_MALLOC_COUNT'' 9 ''''"

text \<open>Status Parameters for database connections.\<close>

definition SQLITE_DBSTATUS_LOOKASIDE_USED :: macro where [const_macros]:
  "SQLITE_DBSTATUS_LOOKASIDE_USED = Macro ''SQLITE_DBSTATUS_LOOKASIDE_USED'' 0 ''''"
definition SQLITE_DBSTATUS_CACHE_USED :: macro where [const_macros]:
  "SQLITE_DBSTATUS_CACHE_USED = Macro ''SQLITE_DBSTATUS_CACHE_USED'' 1 ''''"
definition SQLITE_DBSTATUS_SCHEMA_USED :: macro where [const_macros]:
  "SQLITE_DBSTATUS_SCHEMA_USED = Macro ''SQLITE_DBSTATUS_SCHEMA_USED'' 2 ''''"
definition SQLITE_DBSTATUS_STMT_USED :: macro where [const_macros]:
  "SQLITE_DBSTATUS_STMT_USED = Macro ''SQLITE_DBSTATUS_STMT_USED'' 3 ''''"
definition SQLITE_DBSTATUS_LOOKASIDE_HIT :: macro where [const_macros]:
  "SQLITE_DBSTATUS_LOOKASIDE_HIT = Macro ''SQLITE_DBSTATUS_LOOKASIDE_HIT'' 4 ''''"
definition SQLITE_DBSTATUS_LOOKASIDE_MISS_SIZE :: macro where [const_macros]:
  "SQLITE_DBSTATUS_LOOKASIDE_MISS_SIZE = Macro ''SQLITE_DBSTATUS_LOOKASIDE_MISS_SIZE'' 5 ''''"
definition SQLITE_DBSTATUS_LOOKASIDE_MISS_FULL :: macro where [const_macros]:
  "SQLITE_DBSTATUS_LOOKASIDE_MISS_FULL = Macro ''SQLITE_DBSTATUS_LOOKASIDE_MISS_FULL'' 6 ''''"
definition SQLITE_DBSTATUS_CACHE_HIT :: macro where [const_macros]:
  "SQLITE_DBSTATUS_CACHE_HIT = Macro ''SQLITE_DBSTATUS_CACHE_HIT'' 7 ''''"
definition SQLITE_DBSTATUS_CACHE_MISS :: macro where [const_macros]:
  "SQLITE_DBSTATUS_CACHE_MISS = Macro ''SQLITE_DBSTATUS_CACHE_MISS'' 8 ''''"
definition SQLITE_DBSTATUS_CACHE_WRITE :: macro where [const_macros]:
  "SQLITE_DBSTATUS_CACHE_WRITE = Macro ''SQLITE_DBSTATUS_CACHE_WRITE'' 9 ''''"
definition SQLITE_DBSTATUS_DEFERRED_FKS :: macro where [const_macros]:
  "SQLITE_DBSTATUS_DEFERRED_FKS = Macro ''SQLITE_DBSTATUS_DEFERRED_FKS'' 10 ''''"
definition SQLITE_DBSTATUS_CACHE_USED_SHARED :: macro where [const_macros]:
  "SQLITE_DBSTATUS_CACHE_USED_SHARED = Macro ''SQLITE_DBSTATUS_CACHE_USED_SHARED'' 11 ''''"
definition SQLITE_DBSTATUS_CACHE_SPILL :: macro where [const_macros]:
  "SQLITE_DBSTATUS_CACHE_SPILL = Macro ''SQLITE_DBSTATUS_CACHE_SPILL'' 12 ''''"
definition SQLITE_DBSTATUS_MAX :: macro where [const_macros]:
  "SQLITE_DBSTATUS_MAX = Macro ''SQLITE_DBSTATUS_MAX'' 12 ''Largest defined DBSTATUS''"

text \<open>Status Parameters for prepared statements.\<close>

definition SQLITE_STMTSTATUS_FULLSCAN_STEP :: macro where [const_macros]:
  "SQLITE_STMTSTATUS_FULLSCAN_STEP = Macro ''SQLITE_STMTSTATUS_FULLSCAN_STEP'' 1 ''''"
definition SQLITE_STMTSTATUS_SORT :: macro where [const_macros]:
  "SQLITE_STMTSTATUS_SORT = Macro ''SQLITE_STMTSTATUS_SORT'' 2 ''''"
definition SQLITE_STMTSTATUS_AUTOINDEX :: macro where [const_macros]:
  "SQLITE_STMTSTATUS_AUTOINDEX = Macro ''SQLITE_STMTSTATUS_AUTOINDEX'' 3 ''''"
definition SQLITE_STMTSTATUS_VM_STEP :: macro where [const_macros]:
  "SQLITE_STMTSTATUS_VM_STEP = Macro ''SQLITE_STMTSTATUS_VM_STEP'' 4 ''''"
definition SQLITE_STMTSTATUS_REPREPARE :: macro where [const_macros]:
  "SQLITE_STMTSTATUS_REPREPARE = Macro ''SQLITE_STMTSTATUS_REPREPARE'' 5 ''''"
definition SQLITE_STMTSTATUS_RUN :: macro where [const_macros]:
  "SQLITE_STMTSTATUS_RUN = Macro ''SQLITE_STMTSTATUS_RUN'' 6 ''''"
definition SQLITE_STMTSTATUS_FILTER_MISS :: macro where [const_macros]:
  "SQLITE_STMTSTATUS_FILTER_MISS = Macro ''SQLITE_STMTSTATUS_FILTER_MISS'' 7 ''''"
definition SQLITE_STMTSTATUS_FILTER_HIT :: macro where [const_macros]:
  "SQLITE_STMTSTATUS_FILTER_HIT = Macro ''SQLITE_STMTSTATUS_FILTER_HIT'' 8 ''''"
definition SQLITE_STMTSTATUS_MEMUSED :: macro where [const_macros]:
  "SQLITE_STMTSTATUS_MEMUSED = Macro ''SQLITE_STMTSTATUS_MEMUSED'' 99 ''''"

text \<open>Checkpoint Mode Values.\<close>

definition SQLITE_CHECKPOINT_PASSIVE :: macro where [const_macros]:
  "SQLITE_CHECKPOINT_PASSIVE = Macro ''SQLITE_CHECKPOINT_PASSIVE'' 0
     ''Do as much as possible w/o blocking''"
definition SQLITE_CHECKPOINT_FULL :: macro where [const_macros]:
  "SQLITE_CHECKPOINT_FULL = Macro ''SQLITE_CHECKPOINT_FULL'' 1
     ''Wait for writers, then checkpoint''"
definition SQLITE_CHECKPOINT_RESTART :: macro where [const_macros]:
  "SQLITE_CHECKPOINT_RESTART = Macro ''SQLITE_CHECKPOINT_RESTART'' 2
     ''Like FULL but wait for readers''"
definition SQLITE_CHECKPOINT_TRUNCATE :: macro where [const_macros]:
  "SQLITE_CHECKPOINT_TRUNCATE = Macro ''SQLITE_CHECKPOINT_TRUNCATE'' 3
     ''Like RESTART but also truncate WAL''"

text \<open>Virtual Table Configuration Options.\<close>

definition SQLITE_VTAB_CONSTRAINT_SUPPORT :: macro where [const_macros]:
  "SQLITE_VTAB_CONSTRAINT_SUPPORT = Macro ''SQLITE_VTAB_CONSTRAINT_SUPPORT'' 1 ''''"
definition SQLITE_VTAB_INNOCUOUS :: macro where [const_macros]:
  "SQLITE_VTAB_INNOCUOUS = Macro ''SQLITE_VTAB_INNOCUOUS'' 2 ''''"
definition SQLITE_VTAB_DIRECTONLY :: macro where [const_macros]:
  "SQLITE_VTAB_DIRECTONLY = Macro ''SQLITE_VTAB_DIRECTONLY'' 3 ''''"
definition SQLITE_VTAB_USES_ALL_SCHEMAS :: macro where [const_macros]:
  "SQLITE_VTAB_USES_ALL_SCHEMAS = Macro ''SQLITE_VTAB_USES_ALL_SCHEMAS'' 4 ''''"

text \<open>Conflict resolution modes.\<close>

definition SQLITE_ROLLBACK :: macro where [const_macros]:
  "SQLITE_ROLLBACK = Macro ''SQLITE_ROLLBACK'' 1 ''''"
definition SQLITE_FAIL :: macro where [const_macros]:
  "SQLITE_FAIL = Macro ''SQLITE_FAIL'' 3 ''''"
definition SQLITE_REPLACE :: macro where [const_macros]:
  "SQLITE_REPLACE = Macro ''SQLITE_REPLACE'' 5 ''''"

text \<open>Prepared Statement Scan Status Opcodes.\<close>

definition SQLITE_SCANSTAT_NLOOP :: macro where [const_macros]:
  "SQLITE_SCANSTAT_NLOOP = Macro ''SQLITE_SCANSTAT_NLOOP'' 0 ''''"
definition SQLITE_SCANSTAT_NVISIT :: macro where [const_macros]:
  "SQLITE_SCANSTAT_NVISIT = Macro ''SQLITE_SCANSTAT_NVISIT'' 1 ''''"
definition SQLITE_SCANSTAT_EST :: macro where [const_macros]:
  "SQLITE_SCANSTAT_EST = Macro ''SQLITE_SCANSTAT_EST'' 2 ''''"
definition SQLITE_SCANSTAT_NAME :: macro where [const_macros]:
  "SQLITE_SCANSTAT_NAME = Macro ''SQLITE_SCANSTAT_NAME'' 3 ''''"
definition SQLITE_SCANSTAT_EXPLAIN :: macro where [const_macros]:
  "SQLITE_SCANSTAT_EXPLAIN = Macro ''SQLITE_SCANSTAT_EXPLAIN'' 4 ''''"
definition SQLITE_SCANSTAT_SELECTID :: macro where [const_macros]:
  "SQLITE_SCANSTAT_SELECTID = Macro ''SQLITE_SCANSTAT_SELECTID'' 5 ''''"
definition SQLITE_SCANSTAT_PARENTID :: macro where [const_macros]:
  "SQLITE_SCANSTAT_PARENTID = Macro ''SQLITE_SCANSTAT_PARENTID'' 6 ''''"
definition SQLITE_SCANSTAT_NCYCLE :: macro where [const_macros]:
  "SQLITE_SCANSTAT_NCYCLE = Macro ''SQLITE_SCANSTAT_NCYCLE'' 7 ''''"

text \<open>Prepared Statement Scan Status.\<close>

definition SQLITE_SCANSTAT_COMPLEX :: macro where [const_macros]:
  "SQLITE_SCANSTAT_COMPLEX = Macro ''SQLITE_SCANSTAT_COMPLEX'' 1 ''''"

text \<open>Flags for sqlite3_serialize.\<close>

definition SQLITE_SERIALIZE_NOCOPY :: macro where [const_macros]:
  "SQLITE_SERIALIZE_NOCOPY = Macro ''SQLITE_SERIALIZE_NOCOPY'' 1 ''Do no memory allocations''"

text \<open>Flags for sqlite3_deserialize().\<close>

definition SQLITE_DESERIALIZE_FREEONCLOSE :: macro where [const_macros]:
  "SQLITE_DESERIALIZE_FREEONCLOSE = Macro ''SQLITE_DESERIALIZE_FREEONCLOSE'' 1
     ''Call sqlite3_free() on close''"
definition SQLITE_DESERIALIZE_RESIZEABLE :: macro where [const_macros]:
  "SQLITE_DESERIALIZE_RESIZEABLE = Macro ''SQLITE_DESERIALIZE_RESIZEABLE'' 2
     ''Resize using sqlite3_realloc64()''"
definition SQLITE_DESERIALIZE_READONLY :: macro where [const_macros]:
  "SQLITE_DESERIALIZE_READONLY = Macro ''SQLITE_DESERIALIZE_READONLY'' 4
     ''Database is read-only''"

text \<open>Options for sqlite3session_object_config.\<close>

definition SQLITE_SESSION_OBJCONFIG_SIZE :: macro where [const_macros]:
  "SQLITE_SESSION_OBJCONFIG_SIZE = Macro ''SQLITE_SESSION_OBJCONFIG_SIZE'' 1 ''''"
definition SQLITE_SESSION_OBJCONFIG_ROWID :: macro where [const_macros]:
  "SQLITE_SESSION_OBJCONFIG_ROWID = Macro ''SQLITE_SESSION_OBJCONFIG_ROWID'' 2 ''''"

text \<open>Flags for sqlite3changeset_start_v2.\<close>

definition SQLITE_CHANGESETSTART_INVERT :: macro where [const_macros]:
  "SQLITE_CHANGESETSTART_INVERT = Macro ''SQLITE_CHANGESETSTART_INVERT'' 2 ''''"

text \<open>Flags for sqlite3changeset_apply_v2.\<close>

definition SQLITE_CHANGESETAPPLY_NOSAVEPOINT :: macro where [const_macros]:
  "SQLITE_CHANGESETAPPLY_NOSAVEPOINT = Macro ''SQLITE_CHANGESETAPPLY_NOSAVEPOINT'' 1 ''''"
definition SQLITE_CHANGESETAPPLY_INVERT :: macro where [const_macros]:
  "SQLITE_CHANGESETAPPLY_INVERT = Macro ''SQLITE_CHANGESETAPPLY_INVERT'' 2 ''''"
definition SQLITE_CHANGESETAPPLY_IGNORENOOP :: macro where [const_macros]:
  "SQLITE_CHANGESETAPPLY_IGNORENOOP = Macro ''SQLITE_CHANGESETAPPLY_IGNORENOOP'' 4 ''''"
definition SQLITE_CHANGESETAPPLY_FKNOACTION :: macro where [const_macros]:
  "SQLITE_CHANGESETAPPLY_FKNOACTION = Macro ''SQLITE_CHANGESETAPPLY_FKNOACTION'' 8 ''''"

text \<open>Constants Passed To The Conflict Handler.\<close>

definition SQLITE_CHANGESET_DATA :: macro where [const_macros]:
  "SQLITE_CHANGESET_DATA = Macro ''SQLITE_CHANGESET_DATA'' 1 ''''"
definition SQLITE_CHANGESET_NOTFOUND :: macro where [const_macros]:
  "SQLITE_CHANGESET_NOTFOUND = Macro ''SQLITE_CHANGESET_NOTFOUND'' 2 ''''"
definition SQLITE_CHANGESET_CONFLICT :: macro where [const_macros]:
  "SQLITE_CHANGESET_CONFLICT = Macro ''SQLITE_CHANGESET_CONFLICT'' 3 ''''"
definition SQLITE_CHANGESET_CONSTRAINT :: macro where [const_macros]:
  "SQLITE_CHANGESET_CONSTRAINT = Macro ''SQLITE_CHANGESET_CONSTRAINT'' 4 ''''"
definition SQLITE_CHANGESET_FOREIGN_KEY :: macro where [const_macros]:
  "SQLITE_CHANGESET_FOREIGN_KEY = Macro ''SQLITE_CHANGESET_FOREIGN_KEY'' 5 ''''"

text \<open>Constants Returned By The Conflict Handler.\<close>

definition SQLITE_CHANGESET_OMIT :: macro where [const_macros]:
  "SQLITE_CHANGESET_OMIT = Macro ''SQLITE_CHANGESET_OMIT'' 0 ''''"
definition SQLITE_CHANGESET_REPLACE :: macro where [const_macros]:
  "SQLITE_CHANGESET_REPLACE = Macro ''SQLITE_CHANGESET_REPLACE'' 1 ''''"
definition SQLITE_CHANGESET_ABORT :: macro where [const_macros]:
  "SQLITE_CHANGESET_ABORT = Macro ''SQLITE_CHANGESET_ABORT'' 2 ''''"

text \<open>Values for sqlite3session_config()..\<close>

definition SQLITE_SESSION_CONFIG_STRMSIZE :: macro where [const_macros]:
  "SQLITE_SESSION_CONFIG_STRMSIZE = Macro ''SQLITE_SESSION_CONFIG_STRMSIZE'' 1 ''''"

definition macros2 :: "macro list" where
  "macros2 = [SQLITE_TRACE_STMT, SQLITE_TRACE_PROFILE, SQLITE_TRACE_ROW, SQLITE_TRACE_CLOSE,
     SQLITE_LIMIT_LENGTH, SQLITE_LIMIT_SQL_LENGTH, SQLITE_LIMIT_COLUMN, SQLITE_LIMIT_EXPR_DEPTH,
     SQLITE_LIMIT_COMPOUND_SELECT, SQLITE_LIMIT_VDBE_OP, SQLITE_LIMIT_FUNCTION_ARG,
     SQLITE_LIMIT_ATTACHED, SQLITE_LIMIT_LIKE_PATTERN_LENGTH, SQLITE_LIMIT_VARIABLE_NUMBER,
     SQLITE_LIMIT_TRIGGER_DEPTH, SQLITE_LIMIT_WORKER_THREADS, SQLITE_PREPARE_PERSISTENT,
     SQLITE_PREPARE_NORMALIZE, SQLITE_PREPARE_NO_VTAB, SQLITE_INTEGER, SQLITE_FLOAT, SQLITE_BLOB,
     SQLITE_NULL, SQLITE_TEXT, SQLITE3_TEXT, SQLITE_UTF8, SQLITE_UTF16LE, SQLITE_UTF16BE,
     SQLITE_UTF16, SQLITE_ANY, SQLITE_UTF16_ALIGNED, SQLITE_DETERMINISTIC, SQLITE_DIRECTONLY,
     SQLITE_SUBTYPE, SQLITE_INNOCUOUS, SQLITE_RESULT_SUBTYPE, SQLITE_WIN32_DATA_DIRECTORY_TYPE,
     SQLITE_WIN32_TEMP_DIRECTORY_TYPE, SQLITE_TXN_NONE, SQLITE_TXN_READ, SQLITE_TXN_WRITE,
     SQLITE_INDEX_SCAN_UNIQUE, SQLITE_INDEX_CONSTRAINT_EQ, SQLITE_INDEX_CONSTRAINT_GT,
     SQLITE_INDEX_CONSTRAINT_LE, SQLITE_INDEX_CONSTRAINT_LT, SQLITE_INDEX_CONSTRAINT_GE,
     SQLITE_INDEX_CONSTRAINT_MATCH, SQLITE_INDEX_CONSTRAINT_LIKE, SQLITE_INDEX_CONSTRAINT_GLOB,
     SQLITE_INDEX_CONSTRAINT_REGEXP, SQLITE_INDEX_CONSTRAINT_NE, SQLITE_INDEX_CONSTRAINT_ISNOT,
     SQLITE_INDEX_CONSTRAINT_ISNOTNULL, SQLITE_INDEX_CONSTRAINT_ISNULL,
     SQLITE_INDEX_CONSTRAINT_IS, SQLITE_INDEX_CONSTRAINT_LIMIT, SQLITE_INDEX_CONSTRAINT_OFFSET,
     SQLITE_INDEX_CONSTRAINT_FUNCTION, SQLITE_MUTEX_FAST, SQLITE_MUTEX_RECURSIVE,
     SQLITE_MUTEX_STATIC_MAIN, SQLITE_MUTEX_STATIC_MEM, SQLITE_MUTEX_STATIC_MEM2,
     SQLITE_MUTEX_STATIC_OPEN, SQLITE_MUTEX_STATIC_PRNG, SQLITE_MUTEX_STATIC_LRU,
     SQLITE_MUTEX_STATIC_LRU2, SQLITE_MUTEX_STATIC_PMEM, SQLITE_MUTEX_STATIC_APP1,
     SQLITE_MUTEX_STATIC_APP2, SQLITE_MUTEX_STATIC_APP3, SQLITE_MUTEX_STATIC_VFS1,
     SQLITE_MUTEX_STATIC_VFS2, SQLITE_MUTEX_STATIC_VFS3, SQLITE_MUTEX_STATIC_MASTER,
     SQLITE_TESTCTRL_FIRST, SQLITE_TESTCTRL_PRNG_SAVE, SQLITE_TESTCTRL_PRNG_RESTORE,
     SQLITE_TESTCTRL_PRNG_RESET, SQLITE_TESTCTRL_FK_NO_ACTION, SQLITE_TESTCTRL_BITVEC_TEST,
     SQLITE_TESTCTRL_FAULT_INSTALL, SQLITE_TESTCTRL_BENIGN_MALLOC_HOOKS,
     SQLITE_TESTCTRL_PENDING_BYTE, SQLITE_TESTCTRL_ASSERT, SQLITE_TESTCTRL_ALWAYS,
     SQLITE_TESTCTRL_RESERVE, SQLITE_TESTCTRL_JSON_SELFCHECK, SQLITE_TESTCTRL_OPTIMIZATIONS,
     SQLITE_TESTCTRL_ISKEYWORD, SQLITE_TESTCTRL_SCRATCHMALLOC, SQLITE_TESTCTRL_INTERNAL_FUNCTIONS,
     SQLITE_TESTCTRL_LOCALTIME_FAULT, SQLITE_TESTCTRL_EXPLAIN_STMT,
     SQLITE_TESTCTRL_ONCE_RESET_THRESHOLD, SQLITE_TESTCTRL_NEVER_CORRUPT,
     SQLITE_TESTCTRL_VDBE_COVERAGE, SQLITE_TESTCTRL_BYTEORDER, SQLITE_TESTCTRL_ISINIT,
     SQLITE_TESTCTRL_SORTER_MMAP, SQLITE_TESTCTRL_IMPOSTER, SQLITE_TESTCTRL_PARSER_COVERAGE,
     SQLITE_TESTCTRL_RESULT_INTREAL, SQLITE_TESTCTRL_PRNG_SEED,
     SQLITE_TESTCTRL_EXTRA_SCHEMA_CHECKS, SQLITE_TESTCTRL_SEEK_COUNT, SQLITE_TESTCTRL_TRACEFLAGS,
     SQLITE_TESTCTRL_TUNE, SQLITE_TESTCTRL_LOGEST, SQLITE_TESTCTRL_USELONGDOUBLE,
     SQLITE_TESTCTRL_LAST, SQLITE_STATUS_MEMORY_USED, SQLITE_STATUS_PAGECACHE_USED,
     SQLITE_STATUS_PAGECACHE_OVERFLOW, SQLITE_STATUS_SCRATCH_USED, SQLITE_STATUS_SCRATCH_OVERFLOW,
     SQLITE_STATUS_MALLOC_SIZE, SQLITE_STATUS_PARSER_STACK, SQLITE_STATUS_PAGECACHE_SIZE,
     SQLITE_STATUS_SCRATCH_SIZE, SQLITE_STATUS_MALLOC_COUNT, SQLITE_DBSTATUS_LOOKASIDE_USED,
     SQLITE_DBSTATUS_CACHE_USED, SQLITE_DBSTATUS_SCHEMA_USED, SQLITE_DBSTATUS_STMT_USED,
     SQLITE_DBSTATUS_LOOKASIDE_HIT, SQLITE_DBSTATUS_LOOKASIDE_MISS_SIZE,
     SQLITE_DBSTATUS_LOOKASIDE_MISS_FULL, SQLITE_DBSTATUS_CACHE_HIT, SQLITE_DBSTATUS_CACHE_MISS,
     SQLITE_DBSTATUS_CACHE_WRITE, SQLITE_DBSTATUS_DEFERRED_FKS, SQLITE_DBSTATUS_CACHE_USED_SHARED,
     SQLITE_DBSTATUS_CACHE_SPILL, SQLITE_DBSTATUS_MAX, SQLITE_STMTSTATUS_FULLSCAN_STEP,
     SQLITE_STMTSTATUS_SORT, SQLITE_STMTSTATUS_AUTOINDEX, SQLITE_STMTSTATUS_VM_STEP,
     SQLITE_STMTSTATUS_REPREPARE, SQLITE_STMTSTATUS_RUN, SQLITE_STMTSTATUS_FILTER_MISS,
     SQLITE_STMTSTATUS_FILTER_HIT, SQLITE_STMTSTATUS_MEMUSED, SQLITE_CHECKPOINT_PASSIVE,
     SQLITE_CHECKPOINT_FULL, SQLITE_CHECKPOINT_RESTART, SQLITE_CHECKPOINT_TRUNCATE,
     SQLITE_VTAB_CONSTRAINT_SUPPORT, SQLITE_VTAB_INNOCUOUS, SQLITE_VTAB_DIRECTONLY,
     SQLITE_VTAB_USES_ALL_SCHEMAS, SQLITE_ROLLBACK, SQLITE_FAIL, SQLITE_REPLACE,
     SQLITE_SCANSTAT_NLOOP, SQLITE_SCANSTAT_NVISIT, SQLITE_SCANSTAT_EST, SQLITE_SCANSTAT_NAME,
     SQLITE_SCANSTAT_EXPLAIN, SQLITE_SCANSTAT_SELECTID, SQLITE_SCANSTAT_PARENTID,
     SQLITE_SCANSTAT_NCYCLE, SQLITE_SCANSTAT_COMPLEX, SQLITE_SERIALIZE_NOCOPY,
     SQLITE_DESERIALIZE_FREEONCLOSE, SQLITE_DESERIALIZE_RESIZEABLE, SQLITE_DESERIALIZE_READONLY,
     SQLITE_SESSION_OBJCONFIG_SIZE, SQLITE_SESSION_OBJCONFIG_ROWID, SQLITE_CHANGESETSTART_INVERT,
     SQLITE_CHANGESETAPPLY_NOSAVEPOINT, SQLITE_CHANGESETAPPLY_INVERT,
     SQLITE_CHANGESETAPPLY_IGNORENOOP, SQLITE_CHANGESETAPPLY_FKNOACTION, SQLITE_CHANGESET_DATA,
     SQLITE_CHANGESET_NOTFOUND, SQLITE_CHANGESET_CONFLICT, SQLITE_CHANGESET_CONSTRAINT,
     SQLITE_CHANGESET_FOREIGN_KEY, SQLITE_CHANGESET_OMIT, SQLITE_CHANGESET_REPLACE,
     SQLITE_CHANGESET_ABORT, SQLITE_SESSION_CONFIG_STRMSIZE]"
text \<open>A reference to a constant of the header or to an option of the build.\<close>

definition ref_known :: "macro + string \<Rightarrow> bool" where
  "ref_known r =
     (case r of Inl m \<Rightarrow> m \<in> set macros1 \<union> set macros2 | Inr n \<Rightarrow> n \<in> set build_options)"

text \<open>Names and values of the constants, so that proofs about one need not unfold the other.\<close>

lemmas macro_names = const_macros [THEN arg_cong [where f = macro_name], unfolded macro.sel]

lemmas macro_values = const_macros [THEN arg_cong [where f = macro_value], unfolded macro.sel]

end
