(* ===== verification/HeaderConstDoc1.thy ===== *)
theory HeaderConstDoc1
  imports HeaderConsts2 HeaderApi1 HeaderApi2 HeaderApi3 HeaderApi4
begin

text \<open>
  The documented sections of \<^verbatim>\<open>sqlite3.h\<close> that define constants, part 1: the introduction of each
  section with what it refers to, one entry for each documented constant with what its text refers to,
  and the constants that the section defines.
\<close>

definition consts_result_codes :: const_section where [const_docs]:
  "consts_result_codes = \<lparr>cs_title = ''Result Codes'', cs_funs = [], cs_consts = [],
     cs_docs = [], cs_macros = [macro_SQLITE_OK, macro_SQLITE_ERROR, macro_SQLITE_INTERNAL,
     macro_SQLITE_PERM, macro_SQLITE_ABORT, macro_SQLITE_BUSY, macro_SQLITE_LOCKED,
     macro_SQLITE_NOMEM, macro_SQLITE_READONLY, macro_SQLITE_INTERRUPT, macro_SQLITE_IOERR,
     macro_SQLITE_CORRUPT, macro_SQLITE_NOTFOUND, macro_SQLITE_FULL, macro_SQLITE_CANTOPEN,
     macro_SQLITE_PROTOCOL, macro_SQLITE_EMPTY, macro_SQLITE_SCHEMA, macro_SQLITE_TOOBIG,
     macro_SQLITE_CONSTRAINT, macro_SQLITE_MISMATCH, macro_SQLITE_MISUSE, macro_SQLITE_NOLFS,
     macro_SQLITE_AUTH, macro_SQLITE_FORMAT, macro_SQLITE_RANGE, macro_SQLITE_NOTADB,
     macro_SQLITE_NOTICE, macro_SQLITE_WARNING, macro_SQLITE_ROW, macro_SQLITE_DONE]\<rparr>"

definition consts_extended_result_codes :: const_section where [const_docs]:
  "consts_extended_result_codes = \<lparr>cs_title = ''Extended Result Codes'', cs_funs =
     [''sqlite3_extended_result_codes'', ''sqlite3_extended_errcode''], cs_consts = [], cs_docs =
     [], cs_macros = [macro_SQLITE_ERROR_MISSING_COLLSEQ, macro_SQLITE_ERROR_RETRY,
     macro_SQLITE_ERROR_SNAPSHOT, macro_SQLITE_IOERR_READ, macro_SQLITE_IOERR_SHORT_READ,
     macro_SQLITE_IOERR_WRITE, macro_SQLITE_IOERR_FSYNC, macro_SQLITE_IOERR_DIR_FSYNC,
     macro_SQLITE_IOERR_TRUNCATE, macro_SQLITE_IOERR_FSTAT, macro_SQLITE_IOERR_UNLOCK,
     macro_SQLITE_IOERR_RDLOCK, macro_SQLITE_IOERR_DELETE, macro_SQLITE_IOERR_BLOCKED,
     macro_SQLITE_IOERR_NOMEM, macro_SQLITE_IOERR_ACCESS, macro_SQLITE_IOERR_CHECKRESERVEDLOCK,
     macro_SQLITE_IOERR_LOCK, macro_SQLITE_IOERR_CLOSE, macro_SQLITE_IOERR_DIR_CLOSE,
     macro_SQLITE_IOERR_SHMOPEN, macro_SQLITE_IOERR_SHMSIZE, macro_SQLITE_IOERR_SHMLOCK,
     macro_SQLITE_IOERR_SHMMAP, macro_SQLITE_IOERR_SEEK, macro_SQLITE_IOERR_DELETE_NOENT,
     macro_SQLITE_IOERR_MMAP, macro_SQLITE_IOERR_GETTEMPPATH, macro_SQLITE_IOERR_CONVPATH,
     macro_SQLITE_IOERR_VNODE, macro_SQLITE_IOERR_AUTH, macro_SQLITE_IOERR_BEGIN_ATOMIC,
     macro_SQLITE_IOERR_COMMIT_ATOMIC, macro_SQLITE_IOERR_ROLLBACK_ATOMIC,
     macro_SQLITE_IOERR_DATA, macro_SQLITE_IOERR_CORRUPTFS, macro_SQLITE_IOERR_IN_PAGE,
     macro_SQLITE_LOCKED_SHAREDCACHE, macro_SQLITE_LOCKED_VTAB, macro_SQLITE_BUSY_RECOVERY,
     macro_SQLITE_BUSY_SNAPSHOT, macro_SQLITE_BUSY_TIMEOUT, macro_SQLITE_CANTOPEN_NOTEMPDIR,
     macro_SQLITE_CANTOPEN_ISDIR, macro_SQLITE_CANTOPEN_FULLPATH, macro_SQLITE_CANTOPEN_CONVPATH,
     macro_SQLITE_CANTOPEN_DIRTYWAL, macro_SQLITE_CANTOPEN_SYMLINK, macro_SQLITE_CORRUPT_VTAB,
     macro_SQLITE_CORRUPT_SEQUENCE, macro_SQLITE_CORRUPT_INDEX, macro_SQLITE_READONLY_RECOVERY,
     macro_SQLITE_READONLY_CANTLOCK, macro_SQLITE_READONLY_ROLLBACK,
     macro_SQLITE_READONLY_DBMOVED, macro_SQLITE_READONLY_CANTINIT,
     macro_SQLITE_READONLY_DIRECTORY, macro_SQLITE_ABORT_ROLLBACK, macro_SQLITE_CONSTRAINT_CHECK,
     macro_SQLITE_CONSTRAINT_COMMITHOOK, macro_SQLITE_CONSTRAINT_FOREIGNKEY,
     macro_SQLITE_CONSTRAINT_FUNCTION, macro_SQLITE_CONSTRAINT_NOTNULL,
     macro_SQLITE_CONSTRAINT_PRIMARYKEY, macro_SQLITE_CONSTRAINT_TRIGGER,
     macro_SQLITE_CONSTRAINT_UNIQUE, macro_SQLITE_CONSTRAINT_VTAB, macro_SQLITE_CONSTRAINT_ROWID,
     macro_SQLITE_CONSTRAINT_PINNED, macro_SQLITE_CONSTRAINT_DATATYPE,
     macro_SQLITE_NOTICE_RECOVER_WAL, macro_SQLITE_NOTICE_RECOVER_ROLLBACK,
     macro_SQLITE_NOTICE_RBU, macro_SQLITE_WARNING_AUTOINDEX, macro_SQLITE_AUTH_USER,
     macro_SQLITE_OK_LOAD_PERMANENTLY, macro_SQLITE_OK_SYMLINK]\<rparr>"

definition consts_flags_for_file_open_operations :: const_section where [const_docs]:
  "consts_flags_for_file_open_operations = \<lparr>cs_title = ''Flags For File Open Operations'',
     cs_funs = [''sqlite3_open_v2''], cs_consts = [], cs_docs = [], cs_macros =
     [macro_SQLITE_OPEN_READONLY, macro_SQLITE_OPEN_READWRITE, macro_SQLITE_OPEN_CREATE,
     macro_SQLITE_OPEN_DELETEONCLOSE, macro_SQLITE_OPEN_EXCLUSIVE, macro_SQLITE_OPEN_AUTOPROXY,
     macro_SQLITE_OPEN_URI, macro_SQLITE_OPEN_MEMORY, macro_SQLITE_OPEN_MAIN_DB,
     macro_SQLITE_OPEN_TEMP_DB, macro_SQLITE_OPEN_TRANSIENT_DB, macro_SQLITE_OPEN_MAIN_JOURNAL,
     macro_SQLITE_OPEN_TEMP_JOURNAL, macro_SQLITE_OPEN_SUBJOURNAL,
     macro_SQLITE_OPEN_SUPER_JOURNAL, macro_SQLITE_OPEN_NOMUTEX, macro_SQLITE_OPEN_FULLMUTEX,
     macro_SQLITE_OPEN_SHAREDCACHE, macro_SQLITE_OPEN_PRIVATECACHE, macro_SQLITE_OPEN_WAL,
     macro_SQLITE_OPEN_NOFOLLOW, macro_SQLITE_OPEN_EXRESCODE,
     macro_SQLITE_OPEN_MASTER_JOURNAL]\<rparr>"

definition consts_device_characteristics :: const_section where [const_docs]:
  "consts_device_characteristics = \<lparr>cs_title = ''Device Characteristics'', cs_funs = [],
     cs_consts = [''SQLITE_FCNTL_BEGIN_ATOMIC_WRITE'', ''SQLITE_FCNTL_COMMIT_ATOMIC_WRITE''],
     cs_docs = [], cs_macros = [macro_SQLITE_IOCAP_ATOMIC, macro_SQLITE_IOCAP_ATOMIC512,
     macro_SQLITE_IOCAP_ATOMIC1K, macro_SQLITE_IOCAP_ATOMIC2K, macro_SQLITE_IOCAP_ATOMIC4K,
     macro_SQLITE_IOCAP_ATOMIC8K, macro_SQLITE_IOCAP_ATOMIC16K, macro_SQLITE_IOCAP_ATOMIC32K,
     macro_SQLITE_IOCAP_ATOMIC64K, macro_SQLITE_IOCAP_SAFE_APPEND, macro_SQLITE_IOCAP_SEQUENTIAL,
     macro_SQLITE_IOCAP_UNDELETABLE_WHEN_OPEN, macro_SQLITE_IOCAP_POWERSAFE_OVERWRITE,
     macro_SQLITE_IOCAP_IMMUTABLE, macro_SQLITE_IOCAP_BATCH_ATOMIC]\<rparr>"

definition consts_file_locking_levels :: const_section where [const_docs]:
  "consts_file_locking_levels = \<lparr>cs_title = ''File Locking Levels'', cs_funs = [],
     cs_consts = [], cs_docs = [], cs_macros = [macro_SQLITE_LOCK_NONE, macro_SQLITE_LOCK_SHARED,
     macro_SQLITE_LOCK_RESERVED, macro_SQLITE_LOCK_PENDING, macro_SQLITE_LOCK_EXCLUSIVE]\<rparr>"

definition consts_synchronization_type_flags :: const_section where [const_docs]:
  "consts_synchronization_type_flags = \<lparr>cs_title = ''Synchronization Type Flags'', cs_funs
     = [], cs_consts = [], cs_docs = [], cs_macros = [macro_SQLITE_SYNC_NORMAL,
     macro_SQLITE_SYNC_FULL, macro_SQLITE_SYNC_DATAONLY]\<rparr>"

definition doc_SQLITE_FCNTL_LOCKSTATE :: const_doc where [const_docs]:
  "doc_SQLITE_FCNTL_LOCKSTATE = ConstDoc [''SQLITE_FCNTL_LOCKSTATE''] []
     [''SQLITE_FCNTL_LOCKSTATE'', ''SQLITE_LOCK_NONE'', ''SQLITE_LOCK_SHARED'',
     ''SQLITE_LOCK_RESERVED'', ''SQLITE_LOCK_PENDING'', ''SQLITE_LOCK_EXCLUSIVE'',
     ''SQLITE_DEBUG'']"

definition doc_SQLITE_FCNTL_SIZE_HINT :: const_doc where [const_docs]:
  "doc_SQLITE_FCNTL_SIZE_HINT = ConstDoc [''SQLITE_FCNTL_SIZE_HINT''] []
     [''SQLITE_FCNTL_SIZE_HINT'']"

definition doc_SQLITE_FCNTL_SIZE_LIMIT :: const_doc where [const_docs]:
  "doc_SQLITE_FCNTL_SIZE_LIMIT = ConstDoc [''SQLITE_FCNTL_SIZE_LIMIT''] [''sqlite3_deserialize'']
     [''SQLITE_FCNTL_SIZE_LIMIT'']"

definition doc_SQLITE_FCNTL_CHUNK_SIZE :: const_doc where [const_docs]:
  "doc_SQLITE_FCNTL_CHUNK_SIZE = ConstDoc [''SQLITE_FCNTL_CHUNK_SIZE''] [''sqlite3_file_control'']
     [''SQLITE_FCNTL_CHUNK_SIZE'']"

definition doc_SQLITE_FCNTL_FILE_POINTER :: const_doc where [const_docs]:
  "doc_SQLITE_FCNTL_FILE_POINTER = ConstDoc [''SQLITE_FCNTL_FILE_POINTER''] []
     [''SQLITE_FCNTL_FILE_POINTER'', ''SQLITE_FCNTL_JOURNAL_POINTER'']"

definition doc_SQLITE_FCNTL_JOURNAL_POINTER :: const_doc where [const_docs]:
  "doc_SQLITE_FCNTL_JOURNAL_POINTER = ConstDoc [''SQLITE_FCNTL_JOURNAL_POINTER''] []
     [''SQLITE_FCNTL_JOURNAL_POINTER'', ''SQLITE_FCNTL_FILE_POINTER'']"

definition doc_SQLITE_FCNTL_SYNC_OMITTED :: const_doc where [const_docs]:
  "doc_SQLITE_FCNTL_SYNC_OMITTED = ConstDoc [''SQLITE_FCNTL_SYNC_OMITTED''] [] []"

definition doc_SQLITE_FCNTL_SYNC :: const_doc where [const_docs]:
  "doc_SQLITE_FCNTL_SYNC = ConstDoc [''SQLITE_FCNTL_SYNC''] [''sqlite3_file_control'']
     [''SQLITE_FCNTL_SYNC'']"

definition doc_SQLITE_FCNTL_COMMIT_PHASETWO :: const_doc where [const_docs]:
  "doc_SQLITE_FCNTL_COMMIT_PHASETWO = ConstDoc [''SQLITE_FCNTL_COMMIT_PHASETWO'']
     [''sqlite3_file_control''] [''SQLITE_FCNTL_COMMIT_PHASETWO'']"

definition doc_SQLITE_FCNTL_WIN32_AV_RETRY :: const_doc where [const_docs]:
  "doc_SQLITE_FCNTL_WIN32_AV_RETRY = ConstDoc [''SQLITE_FCNTL_WIN32_AV_RETRY''] []
     [''SQLITE_FCNTL_WIN32_AV_RETRY'']"

definition doc_SQLITE_FCNTL_PERSIST_WAL :: const_doc where [const_docs]:
  "doc_SQLITE_FCNTL_PERSIST_WAL = ConstDoc [''SQLITE_FCNTL_PERSIST_WAL'']
     [''sqlite3_file_control''] [''SQLITE_FCNTL_PERSIST_WAL'']"

definition doc_SQLITE_FCNTL_POWERSAFE_OVERWRITE :: const_doc where [const_docs]:
  "doc_SQLITE_FCNTL_POWERSAFE_OVERWRITE = ConstDoc [''SQLITE_FCNTL_POWERSAFE_OVERWRITE'']
     [''sqlite3_file_control''] [''SQLITE_FCNTL_POWERSAFE_OVERWRITE'',
     ''SQLITE_IOCAP_POWERSAFE_OVERWRITE'']"

definition doc_SQLITE_FCNTL_OVERWRITE :: const_doc where [const_docs]:
  "doc_SQLITE_FCNTL_OVERWRITE = ConstDoc [''SQLITE_FCNTL_OVERWRITE''] []
     [''SQLITE_FCNTL_OVERWRITE'']"

definition doc_SQLITE_FCNTL_VFSNAME :: const_doc where [const_docs]:
  "doc_SQLITE_FCNTL_VFSNAME = ConstDoc [''SQLITE_FCNTL_VFSNAME''] [''sqlite3_malloc'',
     ''sqlite3_file_control''] [''SQLITE_FCNTL_VFSNAME'']"

definition doc_SQLITE_FCNTL_VFS_POINTER :: const_doc where [const_docs]:
  "doc_SQLITE_FCNTL_VFS_POINTER = ConstDoc [''SQLITE_FCNTL_VFS_POINTER''] []
     [''SQLITE_FCNTL_VFS_POINTER'']"

definition doc_SQLITE_FCNTL_PRAGMA :: const_doc where [const_docs]:
  "doc_SQLITE_FCNTL_PRAGMA = ConstDoc [''SQLITE_FCNTL_PRAGMA''] [''sqlite3_mprintf'']
     [''SQLITE_FCNTL_PRAGMA'', ''SQLITE_NOTFOUND'', ''SQLITE_OK'']"

definition doc_SQLITE_FCNTL_BUSYHANDLER :: const_doc where [const_docs]:
  "doc_SQLITE_FCNTL_BUSYHANDLER = ConstDoc [''SQLITE_FCNTL_BUSYHANDLER''] []
     [''SQLITE_FCNTL_BUSYHANDLER'']"

definition doc_SQLITE_FCNTL_TEMPFILENAME :: const_doc where [const_docs]:
  "doc_SQLITE_FCNTL_TEMPFILENAME = ConstDoc [''SQLITE_FCNTL_TEMPFILENAME''] [''sqlite3_malloc'',
     ''sqlite3_free''] [''SQLITE_FCNTL_TEMPFILENAME'']"

definition doc_SQLITE_FCNTL_MMAP_SIZE :: const_doc where [const_docs]:
  "doc_SQLITE_FCNTL_MMAP_SIZE = ConstDoc [''SQLITE_FCNTL_MMAP_SIZE''] []
     [''SQLITE_FCNTL_MMAP_SIZE'']"

definition doc_SQLITE_FCNTL_TRACE :: const_doc where [const_docs]:
  "doc_SQLITE_FCNTL_TRACE = ConstDoc [''SQLITE_FCNTL_TRACE''] [] [''SQLITE_FCNTL_TRACE'',
     ''SQLITE_USE_FCNTL_TRACE'']"

definition doc_SQLITE_FCNTL_HAS_MOVED :: const_doc where [const_docs]:
  "doc_SQLITE_FCNTL_HAS_MOVED = ConstDoc [''SQLITE_FCNTL_HAS_MOVED''] []
     [''SQLITE_FCNTL_HAS_MOVED'']"

definition doc_SQLITE_FCNTL_WIN32_GET_HANDLE :: const_doc where [const_docs]:
  "doc_SQLITE_FCNTL_WIN32_GET_HANDLE = ConstDoc [''SQLITE_FCNTL_WIN32_GET_HANDLE''] []
     [''SQLITE_FCNTL_WIN32_GET_HANDLE'']"

definition doc_SQLITE_FCNTL_WIN32_SET_HANDLE :: const_doc where [const_docs]:
  "doc_SQLITE_FCNTL_WIN32_SET_HANDLE = ConstDoc [''SQLITE_FCNTL_WIN32_SET_HANDLE''] []
     [''SQLITE_FCNTL_WIN32_SET_HANDLE'']"

definition doc_SQLITE_FCNTL_WAL_BLOCK :: const_doc where [const_docs]:
  "doc_SQLITE_FCNTL_WAL_BLOCK = ConstDoc [''SQLITE_FCNTL_WAL_BLOCK''] []
     [''SQLITE_FCNTL_WAL_BLOCK'']"

definition doc_SQLITE_FCNTL_ZIPVFS :: const_doc where [const_docs]:
  "doc_SQLITE_FCNTL_ZIPVFS = ConstDoc [''SQLITE_FCNTL_ZIPVFS''] [] [''SQLITE_FCNTL_ZIPVFS'']"

definition doc_SQLITE_FCNTL_RBU :: const_doc where [const_docs]:
  "doc_SQLITE_FCNTL_RBU = ConstDoc [''SQLITE_FCNTL_RBU''] [] [''SQLITE_FCNTL_RBU'']"

definition doc_SQLITE_FCNTL_BEGIN_ATOMIC_WRITE :: const_doc where [const_docs]:
  "doc_SQLITE_FCNTL_BEGIN_ATOMIC_WRITE = ConstDoc [''SQLITE_FCNTL_BEGIN_ATOMIC_WRITE''] []
     [''SQLITE_FCNTL_BEGIN_ATOMIC_WRITE'', ''SQLITE_FCNTL_COMMIT_ATOMIC_WRITE'',
     ''SQLITE_FCNTL_ROLLBACK_ATOMIC_WRITE'', ''SQLITE_FCNTL_SIZE_HINT'']"

definition doc_SQLITE_FCNTL_COMMIT_ATOMIC_WRITE :: const_doc where [const_docs]:
  "doc_SQLITE_FCNTL_COMMIT_ATOMIC_WRITE = ConstDoc [''SQLITE_FCNTL_COMMIT_ATOMIC_WRITE''] []
     [''SQLITE_FCNTL_COMMIT_ATOMIC_WRITE'', ''SQLITE_FCNTL_BEGIN_ATOMIC_WRITE'', ''SQLITE_OK'']"

definition doc_SQLITE_FCNTL_ROLLBACK_ATOMIC_WRITE :: const_doc where [const_docs]:
  "doc_SQLITE_FCNTL_ROLLBACK_ATOMIC_WRITE = ConstDoc [''SQLITE_FCNTL_ROLLBACK_ATOMIC_WRITE''] []
     [''SQLITE_FCNTL_ROLLBACK_ATOMIC_WRITE'', ''SQLITE_FCNTL_BEGIN_ATOMIC_WRITE'']"

definition doc_SQLITE_FCNTL_LOCK_TIMEOUT :: const_doc where [const_docs]:
  "doc_SQLITE_FCNTL_LOCK_TIMEOUT = ConstDoc [''SQLITE_FCNTL_LOCK_TIMEOUT''] []
     [''SQLITE_FCNTL_LOCK_TIMEOUT'']"

definition doc_SQLITE_FCNTL_DATA_VERSION :: const_doc where [const_docs]:
  "doc_SQLITE_FCNTL_DATA_VERSION = ConstDoc [''SQLITE_FCNTL_DATA_VERSION'']
     [''sqlite3_total_changes''] [''SQLITE_FCNTL_DATA_VERSION'']"

definition doc_SQLITE_FCNTL_CKPT_START :: const_doc where [const_docs]:
  "doc_SQLITE_FCNTL_CKPT_START = ConstDoc [''SQLITE_FCNTL_CKPT_START''] []
     [''SQLITE_FCNTL_CKPT_START'']"

definition doc_SQLITE_FCNTL_CKPT_DONE :: const_doc where [const_docs]:
  "doc_SQLITE_FCNTL_CKPT_DONE = ConstDoc [''SQLITE_FCNTL_CKPT_DONE''] []
     [''SQLITE_FCNTL_CKPT_DONE'']"

definition doc_SQLITE_FCNTL_EXTERNAL_READER :: const_doc where [const_docs]:
  "doc_SQLITE_FCNTL_EXTERNAL_READER = ConstDoc [''SQLITE_FCNTL_EXTERNAL_READER''] []
     [''SQLITE_FCNTL_EXTERNAL_READER'']"

definition doc_SQLITE_FCNTL_CKSM_FILE :: const_doc where [const_docs]:
  "doc_SQLITE_FCNTL_CKSM_FILE = ConstDoc [''SQLITE_FCNTL_CKSM_FILE''] []
     [''SQLITE_FCNTL_CKSM_FILE'']"

definition doc_SQLITE_FCNTL_RESET_CACHE :: const_doc where [const_docs]:
  "doc_SQLITE_FCNTL_RESET_CACHE = ConstDoc [''SQLITE_FCNTL_RESET_CACHE''] []
     [''SQLITE_FCNTL_RESET_CACHE'']"

definition consts_standard_file_control_opcodes :: const_section where [const_docs]:
  "consts_standard_file_control_opcodes = \<lparr>cs_title = ''Standard File Control Opcodes'',
     cs_funs = [''sqlite3_file_control''], cs_consts = [], cs_docs = [doc_SQLITE_FCNTL_LOCKSTATE,
     doc_SQLITE_FCNTL_SIZE_HINT, doc_SQLITE_FCNTL_SIZE_LIMIT, doc_SQLITE_FCNTL_CHUNK_SIZE,
     doc_SQLITE_FCNTL_FILE_POINTER, doc_SQLITE_FCNTL_JOURNAL_POINTER,
     doc_SQLITE_FCNTL_SYNC_OMITTED, doc_SQLITE_FCNTL_SYNC, doc_SQLITE_FCNTL_COMMIT_PHASETWO,
     doc_SQLITE_FCNTL_WIN32_AV_RETRY, doc_SQLITE_FCNTL_PERSIST_WAL,
     doc_SQLITE_FCNTL_POWERSAFE_OVERWRITE, doc_SQLITE_FCNTL_OVERWRITE, doc_SQLITE_FCNTL_VFSNAME,
     doc_SQLITE_FCNTL_VFS_POINTER, doc_SQLITE_FCNTL_PRAGMA, doc_SQLITE_FCNTL_BUSYHANDLER,
     doc_SQLITE_FCNTL_TEMPFILENAME, doc_SQLITE_FCNTL_MMAP_SIZE, doc_SQLITE_FCNTL_TRACE,
     doc_SQLITE_FCNTL_HAS_MOVED, doc_SQLITE_FCNTL_WIN32_GET_HANDLE,
     doc_SQLITE_FCNTL_WIN32_SET_HANDLE, doc_SQLITE_FCNTL_WAL_BLOCK, doc_SQLITE_FCNTL_ZIPVFS,
     doc_SQLITE_FCNTL_RBU, doc_SQLITE_FCNTL_BEGIN_ATOMIC_WRITE,
     doc_SQLITE_FCNTL_COMMIT_ATOMIC_WRITE, doc_SQLITE_FCNTL_ROLLBACK_ATOMIC_WRITE,
     doc_SQLITE_FCNTL_LOCK_TIMEOUT, doc_SQLITE_FCNTL_DATA_VERSION, doc_SQLITE_FCNTL_CKPT_START,
     doc_SQLITE_FCNTL_CKPT_DONE, doc_SQLITE_FCNTL_EXTERNAL_READER, doc_SQLITE_FCNTL_CKSM_FILE,
     doc_SQLITE_FCNTL_RESET_CACHE], cs_macros = [macro_SQLITE_FCNTL_LOCKSTATE,
     macro_SQLITE_FCNTL_GET_LOCKPROXYFILE, macro_SQLITE_FCNTL_SET_LOCKPROXYFILE,
     macro_SQLITE_FCNTL_LAST_ERRNO, macro_SQLITE_FCNTL_SIZE_HINT, macro_SQLITE_FCNTL_CHUNK_SIZE,
     macro_SQLITE_FCNTL_FILE_POINTER, macro_SQLITE_FCNTL_SYNC_OMITTED,
     macro_SQLITE_FCNTL_WIN32_AV_RETRY, macro_SQLITE_FCNTL_PERSIST_WAL,
     macro_SQLITE_FCNTL_OVERWRITE, macro_SQLITE_FCNTL_VFSNAME,
     macro_SQLITE_FCNTL_POWERSAFE_OVERWRITE, macro_SQLITE_FCNTL_PRAGMA,
     macro_SQLITE_FCNTL_BUSYHANDLER, macro_SQLITE_FCNTL_TEMPFILENAME,
     macro_SQLITE_FCNTL_MMAP_SIZE, macro_SQLITE_FCNTL_TRACE, macro_SQLITE_FCNTL_HAS_MOVED,
     macro_SQLITE_FCNTL_SYNC, macro_SQLITE_FCNTL_COMMIT_PHASETWO,
     macro_SQLITE_FCNTL_WIN32_SET_HANDLE, macro_SQLITE_FCNTL_WAL_BLOCK, macro_SQLITE_FCNTL_ZIPVFS,
     macro_SQLITE_FCNTL_RBU, macro_SQLITE_FCNTL_VFS_POINTER, macro_SQLITE_FCNTL_JOURNAL_POINTER,
     macro_SQLITE_FCNTL_WIN32_GET_HANDLE, macro_SQLITE_FCNTL_PDB,
     macro_SQLITE_FCNTL_BEGIN_ATOMIC_WRITE, macro_SQLITE_FCNTL_COMMIT_ATOMIC_WRITE,
     macro_SQLITE_FCNTL_ROLLBACK_ATOMIC_WRITE, macro_SQLITE_FCNTL_LOCK_TIMEOUT,
     macro_SQLITE_FCNTL_DATA_VERSION, macro_SQLITE_FCNTL_SIZE_LIMIT, macro_SQLITE_FCNTL_CKPT_DONE,
     macro_SQLITE_FCNTL_RESERVE_BYTES, macro_SQLITE_FCNTL_CKPT_START,
     macro_SQLITE_FCNTL_EXTERNAL_READER, macro_SQLITE_FCNTL_CKSM_FILE,
     macro_SQLITE_FCNTL_RESET_CACHE, macro_SQLITE_GET_LOCKPROXYFILE,
     macro_SQLITE_SET_LOCKPROXYFILE, macro_SQLITE_LAST_ERRNO]\<rparr>"

definition consts_flags_for_the_xaccess_vfs_method :: const_section where [const_docs]:
  "consts_flags_for_the_xaccess_vfs_method = \<lparr>cs_title =
     ''Flags for the xAccess VFS method'', cs_funs = [], cs_consts = [], cs_docs = [], cs_macros =
     [macro_SQLITE_ACCESS_EXISTS, macro_SQLITE_ACCESS_READWRITE,
     macro_SQLITE_ACCESS_READ]\<rparr>"

definition consts_flags_for_the_xshmlock_vfs_method :: const_section where [const_docs]:
  "consts_flags_for_the_xshmlock_vfs_method = \<lparr>cs_title =
     ''Flags for the xShmLock VFS method'', cs_funs = [], cs_consts = [], cs_docs = [], cs_macros
     = [macro_SQLITE_SHM_UNLOCK, macro_SQLITE_SHM_LOCK, macro_SQLITE_SHM_SHARED,
     macro_SQLITE_SHM_EXCLUSIVE]\<rparr>"

definition consts_maximum_xshmlock_index :: const_section where [const_docs]:
  "consts_maximum_xshmlock_index = \<lparr>cs_title = ''Maximum xShmLock index'', cs_funs = [],
     cs_consts = [], cs_docs = [], cs_macros = [macro_SQLITE_SHM_NLOCK]\<rparr>"

definition doc_SQLITE_CONFIG_SINGLETHREAD :: const_doc where [const_docs]:
  "doc_SQLITE_CONFIG_SINGLETHREAD = ConstDoc [''SQLITE_CONFIG_SINGLETHREAD''] [''sqlite3_config'']
     [''SQLITE_ERROR'']"

definition doc_SQLITE_CONFIG_MULTITHREAD :: const_doc where [const_docs]:
  "doc_SQLITE_CONFIG_MULTITHREAD = ConstDoc [''SQLITE_CONFIG_MULTITHREAD''] [''sqlite3_config'']
     [''SQLITE_ERROR'']"

definition doc_SQLITE_CONFIG_SERIALIZED :: const_doc where [const_docs]:
  "doc_SQLITE_CONFIG_SERIALIZED = ConstDoc [''SQLITE_CONFIG_SERIALIZED''] [''sqlite3_config'']
     [''SQLITE_ERROR'']"

definition doc_SQLITE_CONFIG_MALLOC :: const_doc where [const_docs]:
  "doc_SQLITE_CONFIG_MALLOC = ConstDoc [''SQLITE_CONFIG_MALLOC''] [''sqlite3_config''] []"

definition doc_SQLITE_CONFIG_GETMALLOC :: const_doc where [const_docs]:
  "doc_SQLITE_CONFIG_GETMALLOC = ConstDoc [''SQLITE_CONFIG_GETMALLOC''] [] []"

definition doc_SQLITE_CONFIG_SMALL_MALLOC :: const_doc where [const_docs]:
  "doc_SQLITE_CONFIG_SMALL_MALLOC = ConstDoc [''SQLITE_CONFIG_SMALL_MALLOC''] [] []"

definition doc_SQLITE_CONFIG_MEMSTATUS :: const_doc where [const_docs]:
  "doc_SQLITE_CONFIG_MEMSTATUS = ConstDoc [''SQLITE_CONFIG_MEMSTATUS'']
     [''sqlite3_hard_heap_limit64'', ''sqlite3_memory_used'', ''sqlite3_memory_highwater'',
     ''sqlite3_soft_heap_limit64'', ''sqlite3_status64''] [''SQLITE_DEFAULT_MEMSTATUS'']"

definition doc_SQLITE_CONFIG_SCRATCH :: const_doc where [const_docs]:
  "doc_SQLITE_CONFIG_SCRATCH = ConstDoc [''SQLITE_CONFIG_SCRATCH''] [] []"

definition doc_SQLITE_CONFIG_PAGECACHE :: const_doc where [const_docs]:
  "doc_SQLITE_CONFIG_PAGECACHE = ConstDoc [''SQLITE_CONFIG_PAGECACHE''] [''sqlite3_malloc'']
     [''SQLITE_CONFIG_PCACHE2'', ''SQLITE_CONFIG_PCACHE_HDRSZ'']"

definition doc_SQLITE_CONFIG_HEAP :: const_doc where [const_docs]:
  "doc_SQLITE_CONFIG_HEAP = ConstDoc [''SQLITE_CONFIG_HEAP''] [] [''SQLITE_CONFIG_PAGECACHE'',
     ''SQLITE_ENABLE_MEMSYS3'', ''SQLITE_ENABLE_MEMSYS5'', ''SQLITE_ERROR'',
     ''SQLITE_CONFIG_MALLOC'']"

definition doc_SQLITE_CONFIG_MUTEX :: const_doc where [const_docs]:
  "doc_SQLITE_CONFIG_MUTEX = ConstDoc [''SQLITE_CONFIG_MUTEX''] [''sqlite3_config'']
     [''SQLITE_ERROR'']"

definition doc_SQLITE_CONFIG_GETMUTEX :: const_doc where [const_docs]:
  "doc_SQLITE_CONFIG_GETMUTEX = ConstDoc [''SQLITE_CONFIG_GETMUTEX''] [''sqlite3_config'']
     [''SQLITE_ERROR'']"

definition doc_SQLITE_CONFIG_LOOKASIDE :: const_doc where [const_docs]:
  "doc_SQLITE_CONFIG_LOOKASIDE = ConstDoc [''SQLITE_CONFIG_LOOKASIDE''] [''sqlite3_db_config'']
     [''SQLITE_DBCONFIG_LOOKASIDE'']"

definition doc_SQLITE_CONFIG_PCACHE2 :: const_doc where [const_docs]:
  "doc_SQLITE_CONFIG_PCACHE2 = ConstDoc [''SQLITE_CONFIG_PCACHE2''] [] []"

definition doc_SQLITE_CONFIG_GETPCACHE2 :: const_doc where [const_docs]:
  "doc_SQLITE_CONFIG_GETPCACHE2 = ConstDoc [''SQLITE_CONFIG_GETPCACHE2''] [] []"

definition doc_SQLITE_CONFIG_LOG :: const_doc where [const_docs]:
  "doc_SQLITE_CONFIG_LOG = ConstDoc [''SQLITE_CONFIG_LOG''] [''sqlite3_log'',
     ''sqlite3_snprintf''] []"

definition doc_SQLITE_CONFIG_URI :: const_doc where [const_docs]:
  "doc_SQLITE_CONFIG_URI = ConstDoc [''SQLITE_CONFIG_URI''] [''sqlite3_open'',
     ''sqlite3_open_v2'', ''sqlite3_open16''] [''SQLITE_OPEN_URI'', ''SQLITE_USE_URI'']"

definition doc_SQLITE_CONFIG_COVERING_INDEX_SCAN :: const_doc where [const_docs]:
  "doc_SQLITE_CONFIG_COVERING_INDEX_SCAN = ConstDoc [''SQLITE_CONFIG_COVERING_INDEX_SCAN''] []
     [''SQLITE_ALLOW_COVERING_INDEX_SCAN'']"

definition doc_SQLITE_CONFIG_PCACHE :: const_doc where [const_docs]:
  "doc_SQLITE_CONFIG_PCACHE = ConstDoc [''SQLITE_CONFIG_PCACHE'', ''SQLITE_CONFIG_GETPCACHE''] []
     []"

definition doc_SQLITE_CONFIG_SQLLOG :: const_doc where [const_docs]:
  "doc_SQLITE_CONFIG_SQLLOG = ConstDoc [''SQLITE_CONFIG_SQLLOG''] [] [''SQLITE_ENABLE_SQLLOG'']"

definition doc_SQLITE_CONFIG_MMAP_SIZE :: const_doc where [const_docs]:
  "doc_SQLITE_CONFIG_MMAP_SIZE = ConstDoc [''SQLITE_CONFIG_MMAP_SIZE''] []
     [''SQLITE_FCNTL_MMAP_SIZE'', ''SQLITE_MAX_MMAP_SIZE'']"

definition doc_SQLITE_CONFIG_WIN32_HEAPSIZE :: const_doc where [const_docs]:
  "doc_SQLITE_CONFIG_WIN32_HEAPSIZE = ConstDoc [''SQLITE_CONFIG_WIN32_HEAPSIZE''] []
     [''SQLITE_WIN32_MALLOC'']"

definition doc_SQLITE_CONFIG_PCACHE_HDRSZ :: const_doc where [const_docs]:
  "doc_SQLITE_CONFIG_PCACHE_HDRSZ = ConstDoc [''SQLITE_CONFIG_PCACHE_HDRSZ''] []
     [''SQLITE_CONFIG_PAGECACHE'']"

definition doc_SQLITE_CONFIG_PMASZ :: const_doc where [const_docs]:
  "doc_SQLITE_CONFIG_PMASZ = ConstDoc [''SQLITE_CONFIG_PMASZ''] [] [''SQLITE_SORTER_PMASZ'']"

definition doc_SQLITE_CONFIG_STMTJRNL_SPILL :: const_doc where [const_docs]:
  "doc_SQLITE_CONFIG_STMTJRNL_SPILL = ConstDoc [''SQLITE_CONFIG_STMTJRNL_SPILL''] []
     [''SQLITE_STMTJRNL_SPILL'']"

definition doc_SQLITE_CONFIG_SORTERREF_SIZE :: const_doc where [const_docs]:
  "doc_SQLITE_CONFIG_SORTERREF_SIZE = ConstDoc [''SQLITE_CONFIG_SORTERREF_SIZE''] []
     [''SQLITE_ENABLE_SORTER_REFERENCES'']"

definition doc_SQLITE_CONFIG_MEMDB_MAXSIZE :: const_doc where [const_docs]:
  "doc_SQLITE_CONFIG_MEMDB_MAXSIZE = ConstDoc [''SQLITE_CONFIG_MEMDB_MAXSIZE'']
     [''sqlite3_deserialize''] [''SQLITE_FCNTL_SIZE_LIMIT'', ''SQLITE_MEMDB_DEFAULT_MAXSIZE'']"

definition doc_SQLITE_CONFIG_ROWID_IN_VIEW :: const_doc where [const_docs]:
  "doc_SQLITE_CONFIG_ROWID_IN_VIEW = ConstDoc [''SQLITE_CONFIG_ROWID_IN_VIEW''] [] []"

definition consts_configuration_options :: const_section where [const_docs]:
  "consts_configuration_options = \<lparr>cs_title = ''Configuration Options'', cs_funs =
     [''sqlite3_config'', ''sqlite3_initialize'', ''sqlite3_shutdown''], cs_consts = [], cs_docs =
     [doc_SQLITE_CONFIG_SINGLETHREAD, doc_SQLITE_CONFIG_MULTITHREAD, doc_SQLITE_CONFIG_SERIALIZED,
     doc_SQLITE_CONFIG_MALLOC, doc_SQLITE_CONFIG_GETMALLOC, doc_SQLITE_CONFIG_SMALL_MALLOC,
     doc_SQLITE_CONFIG_MEMSTATUS, doc_SQLITE_CONFIG_SCRATCH, doc_SQLITE_CONFIG_PAGECACHE,
     doc_SQLITE_CONFIG_HEAP, doc_SQLITE_CONFIG_MUTEX, doc_SQLITE_CONFIG_GETMUTEX,
     doc_SQLITE_CONFIG_LOOKASIDE, doc_SQLITE_CONFIG_PCACHE2, doc_SQLITE_CONFIG_GETPCACHE2,
     doc_SQLITE_CONFIG_LOG, doc_SQLITE_CONFIG_URI, doc_SQLITE_CONFIG_COVERING_INDEX_SCAN,
     doc_SQLITE_CONFIG_PCACHE, doc_SQLITE_CONFIG_SQLLOG, doc_SQLITE_CONFIG_MMAP_SIZE,
     doc_SQLITE_CONFIG_WIN32_HEAPSIZE, doc_SQLITE_CONFIG_PCACHE_HDRSZ, doc_SQLITE_CONFIG_PMASZ,
     doc_SQLITE_CONFIG_STMTJRNL_SPILL, doc_SQLITE_CONFIG_SORTERREF_SIZE,
     doc_SQLITE_CONFIG_MEMDB_MAXSIZE, doc_SQLITE_CONFIG_ROWID_IN_VIEW], cs_macros =
     [SQLITE_CONFIG_SINGLETHREAD, SQLITE_CONFIG_MULTITHREAD, SQLITE_CONFIG_SERIALIZED,
     SQLITE_CONFIG_MALLOC, SQLITE_CONFIG_GETMALLOC, SQLITE_CONFIG_SCRATCH,
     SQLITE_CONFIG_PAGECACHE, SQLITE_CONFIG_HEAP, SQLITE_CONFIG_MEMSTATUS, SQLITE_CONFIG_MUTEX,
     SQLITE_CONFIG_GETMUTEX, SQLITE_CONFIG_LOOKASIDE, SQLITE_CONFIG_PCACHE,
     SQLITE_CONFIG_GETPCACHE, SQLITE_CONFIG_LOG, SQLITE_CONFIG_URI, SQLITE_CONFIG_PCACHE2,
     SQLITE_CONFIG_GETPCACHE2, SQLITE_CONFIG_COVERING_INDEX_SCAN, SQLITE_CONFIG_SQLLOG,
     SQLITE_CONFIG_MMAP_SIZE, SQLITE_CONFIG_WIN32_HEAPSIZE, SQLITE_CONFIG_PCACHE_HDRSZ,
     SQLITE_CONFIG_PMASZ, SQLITE_CONFIG_STMTJRNL_SPILL, SQLITE_CONFIG_SMALL_MALLOC,
     SQLITE_CONFIG_SORTERREF_SIZE, SQLITE_CONFIG_MEMDB_MAXSIZE,
     SQLITE_CONFIG_ROWID_IN_VIEW]\<rparr>"

definition doc_SQLITE_DBCONFIG_LOOKASIDE :: const_doc where [const_docs]:
  "doc_SQLITE_DBCONFIG_LOOKASIDE = ConstDoc [''SQLITE_DBCONFIG_LOOKASIDE'']
     [''sqlite3_db_config'', ''sqlite3_malloc''] [''SQLITE_DBSTATUS_LOOKASIDE_USED'',
     ''SQLITE_BUSY'']"

definition doc_SQLITE_DBCONFIG_ENABLE_FKEY :: const_doc where [const_docs]:
  "doc_SQLITE_DBCONFIG_ENABLE_FKEY = ConstDoc [''SQLITE_DBCONFIG_ENABLE_FKEY''] [] []"

definition doc_SQLITE_DBCONFIG_ENABLE_TRIGGER :: const_doc where [const_docs]:
  "doc_SQLITE_DBCONFIG_ENABLE_TRIGGER = ConstDoc [''SQLITE_DBCONFIG_ENABLE_TRIGGER''] [] []"

definition doc_SQLITE_DBCONFIG_ENABLE_VIEW :: const_doc where [const_docs]:
  "doc_SQLITE_DBCONFIG_ENABLE_VIEW = ConstDoc [''SQLITE_DBCONFIG_ENABLE_VIEW''] [] []"

definition doc_SQLITE_DBCONFIG_ENABLE_FTS3_TOKENIZER :: const_doc where [const_docs]:
  "doc_SQLITE_DBCONFIG_ENABLE_FTS3_TOKENIZER = ConstDoc
     [''SQLITE_DBCONFIG_ENABLE_FTS3_TOKENIZER''] [] []"

definition doc_SQLITE_DBCONFIG_ENABLE_LOAD_EXTENSION :: const_doc where [const_docs]:
  "doc_SQLITE_DBCONFIG_ENABLE_LOAD_EXTENSION = ConstDoc
     [''SQLITE_DBCONFIG_ENABLE_LOAD_EXTENSION''] [''sqlite3_load_extension'',
     ''sqlite3_enable_load_extension''] []"

definition doc_SQLITE_DBCONFIG_MAINDBNAME :: const_doc where [const_docs]:
  "doc_SQLITE_DBCONFIG_MAINDBNAME = ConstDoc [''SQLITE_DBCONFIG_MAINDBNAME''] [] []"

definition doc_SQLITE_DBCONFIG_NO_CKPT_ON_CLOSE :: const_doc where [const_docs]:
  "doc_SQLITE_DBCONFIG_NO_CKPT_ON_CLOSE = ConstDoc [''SQLITE_DBCONFIG_NO_CKPT_ON_CLOSE''] [] []"

definition doc_SQLITE_DBCONFIG_ENABLE_QPSG :: const_doc where [const_docs]:
  "doc_SQLITE_DBCONFIG_ENABLE_QPSG = ConstDoc [''SQLITE_DBCONFIG_ENABLE_QPSG''] [] []"

definition doc_SQLITE_DBCONFIG_TRIGGER_EQP :: const_doc where [const_docs]:
  "doc_SQLITE_DBCONFIG_TRIGGER_EQP = ConstDoc [''SQLITE_DBCONFIG_TRIGGER_EQP''] [] []"

definition doc_SQLITE_DBCONFIG_RESET_DATABASE :: const_doc where [const_docs]:
  "doc_SQLITE_DBCONFIG_RESET_DATABASE = ConstDoc [''SQLITE_DBCONFIG_RESET_DATABASE''] [] []"

definition doc_SQLITE_DBCONFIG_DEFENSIVE :: const_doc where [const_docs]:
  "doc_SQLITE_DBCONFIG_DEFENSIVE = ConstDoc [''SQLITE_DBCONFIG_DEFENSIVE''] [] []"

definition doc_SQLITE_DBCONFIG_WRITABLE_SCHEMA :: const_doc where [const_docs]:
  "doc_SQLITE_DBCONFIG_WRITABLE_SCHEMA = ConstDoc [''SQLITE_DBCONFIG_WRITABLE_SCHEMA''] [] []"

definition doc_SQLITE_DBCONFIG_LEGACY_ALTER_TABLE :: const_doc where [const_docs]:
  "doc_SQLITE_DBCONFIG_LEGACY_ALTER_TABLE = ConstDoc [''SQLITE_DBCONFIG_LEGACY_ALTER_TABLE''] []
     []"

definition doc_SQLITE_DBCONFIG_DQS_DML :: const_doc where [const_docs]:
  "doc_SQLITE_DBCONFIG_DQS_DML = ConstDoc [''SQLITE_DBCONFIG_DQS_DML''] [] []"

definition doc_SQLITE_DBCONFIG_DQS_DDL :: const_doc where [const_docs]:
  "doc_SQLITE_DBCONFIG_DQS_DDL = ConstDoc [''SQLITE_DBCONFIG_DQS_DDL''] [] []"

definition doc_SQLITE_DBCONFIG_TRUSTED_SCHEMA :: const_doc where [const_docs]:
  "doc_SQLITE_DBCONFIG_TRUSTED_SCHEMA = ConstDoc [''SQLITE_DBCONFIG_TRUSTED_SCHEMA''] []
     [''SQLITE_INNOCUOUS'', ''SQLITE_VTAB_INNOCUOUS'']"

definition doc_SQLITE_DBCONFIG_LEGACY_FILE_FORMAT :: const_doc where [const_docs]:
  "doc_SQLITE_DBCONFIG_LEGACY_FILE_FORMAT = ConstDoc [''SQLITE_DBCONFIG_LEGACY_FILE_FORMAT''] []
     []"

definition doc_SQLITE_DBCONFIG_STMT_SCANSTATUS :: const_doc where [const_docs]:
  "doc_SQLITE_DBCONFIG_STMT_SCANSTATUS = ConstDoc [''SQLITE_DBCONFIG_STMT_SCANSTATUS''] [] []"

definition doc_SQLITE_DBCONFIG_REVERSE_SCANORDER :: const_doc where [const_docs]:
  "doc_SQLITE_DBCONFIG_REVERSE_SCANORDER = ConstDoc [''SQLITE_DBCONFIG_REVERSE_SCANORDER''] [] []"

definition consts_database_connection_configuration_options :: const_section where [const_docs]:
  "consts_database_connection_configuration_options = \<lparr>cs_title =
     ''Database Connection Configuration Options'', cs_funs = [''sqlite3_db_config''], cs_consts =
     [], cs_docs = [doc_SQLITE_DBCONFIG_LOOKASIDE, doc_SQLITE_DBCONFIG_ENABLE_FKEY,
     doc_SQLITE_DBCONFIG_ENABLE_TRIGGER, doc_SQLITE_DBCONFIG_ENABLE_VIEW,
     doc_SQLITE_DBCONFIG_ENABLE_FTS3_TOKENIZER, doc_SQLITE_DBCONFIG_ENABLE_LOAD_EXTENSION,
     doc_SQLITE_DBCONFIG_MAINDBNAME, doc_SQLITE_DBCONFIG_NO_CKPT_ON_CLOSE,
     doc_SQLITE_DBCONFIG_ENABLE_QPSG, doc_SQLITE_DBCONFIG_TRIGGER_EQP,
     doc_SQLITE_DBCONFIG_RESET_DATABASE, doc_SQLITE_DBCONFIG_DEFENSIVE,
     doc_SQLITE_DBCONFIG_WRITABLE_SCHEMA, doc_SQLITE_DBCONFIG_LEGACY_ALTER_TABLE,
     doc_SQLITE_DBCONFIG_DQS_DML, doc_SQLITE_DBCONFIG_DQS_DDL, doc_SQLITE_DBCONFIG_TRUSTED_SCHEMA,
     doc_SQLITE_DBCONFIG_LEGACY_FILE_FORMAT, doc_SQLITE_DBCONFIG_STMT_SCANSTATUS,
     doc_SQLITE_DBCONFIG_REVERSE_SCANORDER], cs_macros = [SQLITE_DBCONFIG_MAINDBNAME,
     SQLITE_DBCONFIG_LOOKASIDE, SQLITE_DBCONFIG_ENABLE_FKEY, SQLITE_DBCONFIG_ENABLE_TRIGGER,
     SQLITE_DBCONFIG_ENABLE_FTS3_TOKENIZER, SQLITE_DBCONFIG_ENABLE_LOAD_EXTENSION,
     SQLITE_DBCONFIG_NO_CKPT_ON_CLOSE, SQLITE_DBCONFIG_ENABLE_QPSG, SQLITE_DBCONFIG_TRIGGER_EQP,
     SQLITE_DBCONFIG_RESET_DATABASE, SQLITE_DBCONFIG_DEFENSIVE, SQLITE_DBCONFIG_WRITABLE_SCHEMA,
     SQLITE_DBCONFIG_LEGACY_ALTER_TABLE, SQLITE_DBCONFIG_DQS_DML, SQLITE_DBCONFIG_DQS_DDL,
     SQLITE_DBCONFIG_ENABLE_VIEW, SQLITE_DBCONFIG_LEGACY_FILE_FORMAT,
     SQLITE_DBCONFIG_TRUSTED_SCHEMA, SQLITE_DBCONFIG_STMT_SCANSTATUS,
     SQLITE_DBCONFIG_REVERSE_SCANORDER, SQLITE_DBCONFIG_MAX]\<rparr>"

definition consts_authorizer_return_codes :: const_section where [const_docs]:
  "consts_authorizer_return_codes = \<lparr>cs_title = ''Authorizer Return Codes'', cs_funs =
     [''sqlite3_vtab_on_conflict''], cs_consts = [''SQLITE_OK''], cs_docs = [], cs_macros =
     [SQLITE_DENY, SQLITE_IGNORE]\<rparr>"

definition consts_authorizer_action_codes :: const_section where [const_docs]:
  "consts_authorizer_action_codes = \<lparr>cs_title = ''Authorizer Action Codes'', cs_funs =
     [''sqlite3_set_authorizer''], cs_consts = [], cs_docs = [], cs_macros = [SQLITE_CREATE_INDEX,
     SQLITE_CREATE_TABLE, SQLITE_CREATE_TEMP_INDEX, SQLITE_CREATE_TEMP_TABLE,
     SQLITE_CREATE_TEMP_TRIGGER, SQLITE_CREATE_TEMP_VIEW, SQLITE_CREATE_TRIGGER,
     SQLITE_CREATE_VIEW, SQLITE_DELETE, SQLITE_DROP_INDEX, SQLITE_DROP_TABLE,
     SQLITE_DROP_TEMP_INDEX, SQLITE_DROP_TEMP_TABLE, SQLITE_DROP_TEMP_TRIGGER,
     SQLITE_DROP_TEMP_VIEW, SQLITE_DROP_TRIGGER, SQLITE_DROP_VIEW, SQLITE_INSERT, SQLITE_PRAGMA,
     SQLITE_READ, SQLITE_SELECT, SQLITE_TRANSACTION, SQLITE_UPDATE, SQLITE_ATTACH, SQLITE_DETACH,
     SQLITE_ALTER_TABLE, SQLITE_REINDEX, SQLITE_ANALYZE, SQLITE_CREATE_VTABLE, SQLITE_DROP_VTABLE,
     SQLITE_FUNCTION, SQLITE_SAVEPOINT, SQLITE_COPY, SQLITE_RECURSIVE]\<rparr>"

definition const_sections1 :: "const_section list" where
  "const_sections1 = [consts_result_codes, consts_extended_result_codes,
     consts_flags_for_file_open_operations, consts_device_characteristics,
     consts_file_locking_levels, consts_synchronization_type_flags,
     consts_standard_file_control_opcodes, consts_flags_for_the_xaccess_vfs_method,
     consts_flags_for_the_xshmlock_vfs_method, consts_maximum_xshmlock_index,
     consts_configuration_options, consts_database_connection_configuration_options,
     consts_authorizer_return_codes, consts_authorizer_action_codes]"

text \<open>What the texts of this part refer to, and the deviations.\<close>

definition const_funs1 :: "decl list" where
  "const_funs1 = [sqlite3_extended_result_codes, sqlite3_extended_errcode, sqlite3_open_v2,
     sqlite3_file_control, sqlite3_deserialize, sqlite3_file_control, sqlite3_file_control,
     sqlite3_file_control, sqlite3_file_control, sqlite3_file_control, sqlite3_malloc,
     sqlite3_file_control, sqlite3_mprintf, sqlite3_malloc, sqlite3_free, sqlite3_total_changes,
     sqlite3_config, sqlite3_initialize, sqlite3_shutdown, sqlite3_config, sqlite3_config,
     sqlite3_config, sqlite3_config, sqlite3_hard_heap_limit64, sqlite3_memory_used,
     sqlite3_memory_highwater, sqlite3_soft_heap_limit64, sqlite3_status64, sqlite3_malloc,
     sqlite3_config, sqlite3_config, sqlite3_db_config, sqlite3_log, sqlite3_snprintf,
     sqlite3_open, sqlite3_open_v2, sqlite3_open16, sqlite3_deserialize, sqlite3_db_config,
     sqlite3_db_config, sqlite3_malloc, sqlite3_load_extension, sqlite3_enable_load_extension,
     sqlite3_vtab_on_conflict, sqlite3_set_authorizer]"

definition const_refs1 :: "(macro + string) list" where
  "const_refs1 = [Inl macro_SQLITE_FCNTL_BEGIN_ATOMIC_WRITE, Inl
     macro_SQLITE_FCNTL_COMMIT_ATOMIC_WRITE, Inl macro_SQLITE_FCNTL_LOCKSTATE, Inl
     macro_SQLITE_LOCK_NONE, Inl macro_SQLITE_LOCK_SHARED, Inl macro_SQLITE_LOCK_RESERVED, Inl
     macro_SQLITE_LOCK_PENDING, Inl macro_SQLITE_LOCK_EXCLUSIVE, Inr ''SQLITE_DEBUG'', Inl
     macro_SQLITE_FCNTL_SIZE_HINT, Inl macro_SQLITE_FCNTL_SIZE_LIMIT, Inl
     macro_SQLITE_FCNTL_CHUNK_SIZE, Inl macro_SQLITE_FCNTL_FILE_POINTER, Inl
     macro_SQLITE_FCNTL_JOURNAL_POINTER, Inl macro_SQLITE_FCNTL_JOURNAL_POINTER, Inl
     macro_SQLITE_FCNTL_FILE_POINTER, Inl macro_SQLITE_FCNTL_SYNC, Inl
     macro_SQLITE_FCNTL_COMMIT_PHASETWO, Inl macro_SQLITE_FCNTL_WIN32_AV_RETRY, Inl
     macro_SQLITE_FCNTL_PERSIST_WAL, Inl macro_SQLITE_FCNTL_POWERSAFE_OVERWRITE, Inl
     macro_SQLITE_IOCAP_POWERSAFE_OVERWRITE, Inl macro_SQLITE_FCNTL_OVERWRITE, Inl
     macro_SQLITE_FCNTL_VFSNAME, Inl macro_SQLITE_FCNTL_VFS_POINTER, Inl
     macro_SQLITE_FCNTL_PRAGMA, Inl macro_SQLITE_NOTFOUND, Inl macro_SQLITE_OK, Inl
     macro_SQLITE_FCNTL_BUSYHANDLER, Inl macro_SQLITE_FCNTL_TEMPFILENAME, Inl
     macro_SQLITE_FCNTL_MMAP_SIZE, Inl macro_SQLITE_FCNTL_TRACE, Inr ''SQLITE_USE_FCNTL_TRACE'',
     Inl macro_SQLITE_FCNTL_HAS_MOVED, Inl macro_SQLITE_FCNTL_WIN32_GET_HANDLE, Inl
     macro_SQLITE_FCNTL_WIN32_SET_HANDLE, Inl macro_SQLITE_FCNTL_WAL_BLOCK, Inl
     macro_SQLITE_FCNTL_ZIPVFS, Inl macro_SQLITE_FCNTL_RBU, Inl
     macro_SQLITE_FCNTL_BEGIN_ATOMIC_WRITE, Inl macro_SQLITE_FCNTL_COMMIT_ATOMIC_WRITE, Inl
     macro_SQLITE_FCNTL_ROLLBACK_ATOMIC_WRITE, Inl macro_SQLITE_FCNTL_SIZE_HINT, Inl
     macro_SQLITE_FCNTL_COMMIT_ATOMIC_WRITE, Inl macro_SQLITE_FCNTL_BEGIN_ATOMIC_WRITE, Inl
     macro_SQLITE_OK, Inl macro_SQLITE_FCNTL_ROLLBACK_ATOMIC_WRITE, Inl
     macro_SQLITE_FCNTL_BEGIN_ATOMIC_WRITE, Inl macro_SQLITE_FCNTL_LOCK_TIMEOUT, Inl
     macro_SQLITE_FCNTL_DATA_VERSION, Inl macro_SQLITE_FCNTL_CKPT_START, Inl
     macro_SQLITE_FCNTL_CKPT_DONE, Inl macro_SQLITE_FCNTL_EXTERNAL_READER, Inl
     macro_SQLITE_FCNTL_CKSM_FILE, Inl macro_SQLITE_FCNTL_RESET_CACHE, Inl macro_SQLITE_ERROR, Inl
     macro_SQLITE_ERROR, Inl macro_SQLITE_ERROR, Inr ''SQLITE_DEFAULT_MEMSTATUS'', Inl
     SQLITE_CONFIG_PCACHE2, Inl SQLITE_CONFIG_PCACHE_HDRSZ, Inl SQLITE_CONFIG_PAGECACHE, Inr
     ''SQLITE_ENABLE_MEMSYS3'', Inr ''SQLITE_ENABLE_MEMSYS5'', Inl macro_SQLITE_ERROR, Inl
     SQLITE_CONFIG_MALLOC, Inl macro_SQLITE_ERROR, Inl macro_SQLITE_ERROR, Inl
     SQLITE_DBCONFIG_LOOKASIDE, Inl macro_SQLITE_OPEN_URI, Inr ''SQLITE_USE_URI'', Inr
     ''SQLITE_ALLOW_COVERING_INDEX_SCAN'', Inr ''SQLITE_ENABLE_SQLLOG'', Inl
     macro_SQLITE_FCNTL_MMAP_SIZE, Inr ''SQLITE_MAX_MMAP_SIZE'', Inr ''SQLITE_WIN32_MALLOC'', Inl
     SQLITE_CONFIG_PAGECACHE, Inr ''SQLITE_SORTER_PMASZ'', Inr ''SQLITE_STMTJRNL_SPILL'', Inr
     ''SQLITE_ENABLE_SORTER_REFERENCES'', Inl macro_SQLITE_FCNTL_SIZE_LIMIT, Inr
     ''SQLITE_MEMDB_DEFAULT_MAXSIZE'', Inl SQLITE_DBSTATUS_LOOKASIDE_USED, Inl macro_SQLITE_BUSY,
     Inl SQLITE_INNOCUOUS, Inl SQLITE_VTAB_INNOCUOUS, Inl macro_SQLITE_OK]"

lemma const_funs1_named: "concat (map section_funs const_sections1) = map decl_name const_funs1"
  by (simp add: const_sections1_def section_funs_def const_docs const_funs1_def api_decls)

lemma const_funs1_declared: "set const_funs1 \<subseteq> set api1 \<union> set api2 \<union> set api3 \<union> set api4"
  by (simp add: const_funs1_def api1_def api2_def api3_def api4_def)

lemma const_refs1_named: "concat (map section_consts const_sections1) = map ref_name const_refs1"
  by (simp add: const_sections1_def section_consts_def const_docs const_refs1_def const_macros)

lemma const_refs1_known: "list_all ref_known const_refs1"
  by (simp add: const_refs1_def ref_known_def macros1_def macros2_def build_options_def)

lemma misdocumented1: "concat (map misdocumented const_sections1) = []"
  unfolding misdocumented_eq by code_simp

lemma undocumented1: "concat (map undocumented const_sections1) =
     [''SQLITE_FCNTL_GET_LOCKPROXYFILE'', ''SQLITE_FCNTL_SET_LOCKPROXYFILE'',
     ''SQLITE_FCNTL_LAST_ERRNO'', ''SQLITE_FCNTL_PDB'', ''SQLITE_FCNTL_RESERVE_BYTES'',
     ''SQLITE_GET_LOCKPROXYFILE'', ''SQLITE_SET_LOCKPROXYFILE'', ''SQLITE_LAST_ERRNO'',
     ''SQLITE_DBCONFIG_MAX'']"
  unfolding undocumented_eq by code_simp

lemma result_no_clash: "clashes (cs_macros consts_result_codes) = []"
proof (rule clashes_distinct)
  have "map macro_value (cs_macros consts_result_codes) = result_codes"
    by (simp add: consts_result_codes_def const_macros result_codes_def)
  then show "distinct (map macro_value (cs_macros consts_result_codes))"
    using extended_codes_carry_primary by simp
qed

lemma extended_no_clash: "clashes (cs_macros consts_extended_result_codes) = []"
proof (rule clashes_distinct)
  have "map macro_value (cs_macros consts_extended_result_codes) = extended_result_codes"
    by (simp add: consts_extended_result_codes_def const_macros extended_result_codes_def)
  then show "distinct (map macro_value (cs_macros consts_extended_result_codes))"
    using extended_codes_carry_primary by simp
qed

lemma clashes1: "concat (map (clashes \<circ> cs_macros) const_sections1) =
     [(''SQLITE_OPEN_SUPER_JOURNAL'', ''SQLITE_OPEN_MASTER_JOURNAL''),
     (''SQLITE_FCNTL_GET_LOCKPROXYFILE'', ''SQLITE_GET_LOCKPROXYFILE''),
     (''SQLITE_FCNTL_SET_LOCKPROXYFILE'', ''SQLITE_SET_LOCKPROXYFILE''),
     (''SQLITE_FCNTL_LAST_ERRNO'', ''SQLITE_LAST_ERRNO''), (''SQLITE_DBCONFIG_REVERSE_SCANORDER'',
     ''SQLITE_DBCONFIG_MAX'')]"
  by (simp del: clashes.simps add: clashes_unat const_sections1_def result_no_clash [unfolded clashes_unat]
     extended_no_clash [unfolded clashes_unat]
     consts_flags_for_file_open_operations_def consts_device_characteristics_def
     consts_file_locking_levels_def consts_synchronization_type_flags_def
     consts_standard_file_control_opcodes_def consts_flags_for_the_xaccess_vfs_method_def
     consts_flags_for_the_xshmlock_vfs_method_def consts_maximum_xshmlock_index_def
     consts_configuration_options_def consts_database_connection_configuration_options_def
     consts_authorizer_return_codes_def consts_authorizer_action_codes_def macro_values
     sqlite_consts)
    (simp add: macro_names)

end
