(* ===== verification/HeaderConstDoc2.thy ===== *)
theory HeaderConstDoc2
  imports HeaderConsts2 HeaderApi1 HeaderApi2 HeaderApi3 HeaderApi4
begin

text \<open>
  The documented sections of \<^verbatim>\<open>sqlite3.h\<close> that define constants, part 2: the introduction of each
  section with what it refers to, one entry for each documented constant with what its text refers to,
  and the constants that the section defines.
\<close>

definition doc_SQLITE_TRACE_STMT :: const_doc where [const_docs]:
  "doc_SQLITE_TRACE_STMT = ConstDoc [''SQLITE_TRACE_STMT''] [''sqlite3_trace''] []"

definition doc_SQLITE_TRACE_PROFILE :: const_doc where [const_docs]:
  "doc_SQLITE_TRACE_PROFILE = ConstDoc [''SQLITE_TRACE_PROFILE''] [''sqlite3_profile''] []"

definition doc_SQLITE_TRACE_ROW :: const_doc where [const_docs]:
  "doc_SQLITE_TRACE_ROW = ConstDoc [''SQLITE_TRACE_ROW''] [] []"

definition doc_SQLITE_TRACE_CLOSE :: const_doc where [const_docs]:
  "doc_SQLITE_TRACE_CLOSE = ConstDoc [''SQLITE_TRACE_CLOSE''] [] []"

definition consts_sql_trace_event_codes :: const_section where [const_docs]:
  "consts_sql_trace_event_codes = \<lparr>cs_title = ''SQL Trace Event Codes'', cs_funs =
     [''sqlite3_trace_v2''], cs_consts = [], cs_docs = [doc_SQLITE_TRACE_STMT,
     doc_SQLITE_TRACE_PROFILE, doc_SQLITE_TRACE_ROW, doc_SQLITE_TRACE_CLOSE], cs_macros =
     [SQLITE_TRACE_STMT, SQLITE_TRACE_PROFILE, SQLITE_TRACE_ROW, SQLITE_TRACE_CLOSE]\<rparr>"

definition doc_SQLITE_LIMIT_LENGTH :: const_doc where [const_docs]:
  "doc_SQLITE_LIMIT_LENGTH = ConstDoc [''SQLITE_LIMIT_LENGTH''] [] []"

definition doc_SQLITE_LIMIT_SQL_LENGTH :: const_doc where [const_docs]:
  "doc_SQLITE_LIMIT_SQL_LENGTH = ConstDoc [''SQLITE_LIMIT_SQL_LENGTH''] [] []"

definition doc_SQLITE_LIMIT_COLUMN :: const_doc where [const_docs]:
  "doc_SQLITE_LIMIT_COLUMN = ConstDoc [''SQLITE_LIMIT_COLUMN''] [] []"

definition doc_SQLITE_LIMIT_EXPR_DEPTH :: const_doc where [const_docs]:
  "doc_SQLITE_LIMIT_EXPR_DEPTH = ConstDoc [''SQLITE_LIMIT_EXPR_DEPTH''] [] []"

definition doc_SQLITE_LIMIT_COMPOUND_SELECT :: const_doc where [const_docs]:
  "doc_SQLITE_LIMIT_COMPOUND_SELECT = ConstDoc [''SQLITE_LIMIT_COMPOUND_SELECT''] [] []"

definition doc_SQLITE_LIMIT_VDBE_OP :: const_doc where [const_docs]:
  "doc_SQLITE_LIMIT_VDBE_OP = ConstDoc [''SQLITE_LIMIT_VDBE_OP''] [''sqlite3_prepare_v2''] []"

definition doc_SQLITE_LIMIT_FUNCTION_ARG :: const_doc where [const_docs]:
  "doc_SQLITE_LIMIT_FUNCTION_ARG = ConstDoc [''SQLITE_LIMIT_FUNCTION_ARG''] [] []"

definition doc_SQLITE_LIMIT_ATTACHED :: const_doc where [const_docs]:
  "doc_SQLITE_LIMIT_ATTACHED = ConstDoc [''SQLITE_LIMIT_ATTACHED''] [] []"

definition doc_SQLITE_LIMIT_LIKE_PATTERN_LENGTH :: const_doc where [const_docs]:
  "doc_SQLITE_LIMIT_LIKE_PATTERN_LENGTH = ConstDoc [''SQLITE_LIMIT_LIKE_PATTERN_LENGTH''] [] []"

definition doc_SQLITE_LIMIT_VARIABLE_NUMBER :: const_doc where [const_docs]:
  "doc_SQLITE_LIMIT_VARIABLE_NUMBER = ConstDoc [''SQLITE_LIMIT_VARIABLE_NUMBER''] [] []"

definition doc_SQLITE_LIMIT_TRIGGER_DEPTH :: const_doc where [const_docs]:
  "doc_SQLITE_LIMIT_TRIGGER_DEPTH = ConstDoc [''SQLITE_LIMIT_TRIGGER_DEPTH''] [] []"

definition doc_SQLITE_LIMIT_WORKER_THREADS :: const_doc where [const_docs]:
  "doc_SQLITE_LIMIT_WORKER_THREADS = ConstDoc [''SQLITE_LIMIT_WORKER_THREADS''] [] []"

definition consts_run_time_limit_categories :: const_section where [const_docs]:
  "consts_run_time_limit_categories = \<lparr>cs_title = ''Run-Time Limit Categories'', cs_funs =
     [''sqlite3_limit''], cs_consts = [], cs_docs = [doc_SQLITE_LIMIT_LENGTH,
     doc_SQLITE_LIMIT_SQL_LENGTH, doc_SQLITE_LIMIT_COLUMN, doc_SQLITE_LIMIT_EXPR_DEPTH,
     doc_SQLITE_LIMIT_COMPOUND_SELECT, doc_SQLITE_LIMIT_VDBE_OP, doc_SQLITE_LIMIT_FUNCTION_ARG,
     doc_SQLITE_LIMIT_ATTACHED, doc_SQLITE_LIMIT_LIKE_PATTERN_LENGTH,
     doc_SQLITE_LIMIT_VARIABLE_NUMBER, doc_SQLITE_LIMIT_TRIGGER_DEPTH,
     doc_SQLITE_LIMIT_WORKER_THREADS], cs_macros = [SQLITE_LIMIT_LENGTH, SQLITE_LIMIT_SQL_LENGTH,
     SQLITE_LIMIT_COLUMN, SQLITE_LIMIT_EXPR_DEPTH, SQLITE_LIMIT_COMPOUND_SELECT,
     SQLITE_LIMIT_VDBE_OP, SQLITE_LIMIT_FUNCTION_ARG, SQLITE_LIMIT_ATTACHED,
     SQLITE_LIMIT_LIKE_PATTERN_LENGTH, SQLITE_LIMIT_VARIABLE_NUMBER, SQLITE_LIMIT_TRIGGER_DEPTH,
     SQLITE_LIMIT_WORKER_THREADS]\<rparr>"

definition doc_SQLITE_PREPARE_PERSISTENT :: const_doc where [const_docs]:
  "doc_SQLITE_PREPARE_PERSISTENT = ConstDoc [''SQLITE_PREPARE_PERSISTENT'']
     [''sqlite3_prepare_v3'', ''sqlite3_prepare16_v3'', ''sqlite3_finalize''] []"

definition doc_SQLITE_PREPARE_NORMALIZE :: const_doc where [const_docs]:
  "doc_SQLITE_PREPARE_NORMALIZE = ConstDoc [''SQLITE_PREPARE_NORMALIZE'']
     [''sqlite3_normalized_sql''] []"

definition doc_SQLITE_PREPARE_NO_VTAB :: const_doc where [const_docs]:
  "doc_SQLITE_PREPARE_NO_VTAB = ConstDoc [''SQLITE_PREPARE_NO_VTAB''] [] []"

definition consts_prepare_flags :: const_section where [const_docs]:
  "consts_prepare_flags = \<lparr>cs_title = ''Prepare Flags'', cs_funs = [''sqlite3_prepare_v3'',
     ''sqlite3_prepare16_v3''], cs_consts = [], cs_docs = [doc_SQLITE_PREPARE_PERSISTENT,
     doc_SQLITE_PREPARE_NORMALIZE, doc_SQLITE_PREPARE_NO_VTAB], cs_macros =
     [SQLITE_PREPARE_PERSISTENT, SQLITE_PREPARE_NORMALIZE, SQLITE_PREPARE_NO_VTAB]\<rparr>"

definition consts_fundamental_datatypes :: const_section where [const_docs]:
  "consts_fundamental_datatypes = \<lparr>cs_title = ''Fundamental Datatypes'', cs_funs = [],
     cs_consts = [], cs_docs = [], cs_macros = [SQLITE_INTEGER, SQLITE_FLOAT, SQLITE_BLOB,
     SQLITE_NULL, SQLITE_TEXT, SQLITE3_TEXT]\<rparr>"

definition consts_text_encodings :: const_section where [const_docs]:
  "consts_text_encodings = \<lparr>cs_title = ''Text Encodings'', cs_funs = [], cs_consts = [],
     cs_docs = [], cs_macros = [SQLITE_UTF8, SQLITE_UTF16LE, SQLITE_UTF16BE, SQLITE_UTF16,
     SQLITE_ANY, SQLITE_UTF16_ALIGNED]\<rparr>"

definition doc_SQLITE_DETERMINISTIC :: const_doc where [const_docs]:
  "doc_SQLITE_DETERMINISTIC = ConstDoc [''SQLITE_DETERMINISTIC''] [] []"

definition doc_SQLITE_DIRECTONLY :: const_doc where [const_docs]:
  "doc_SQLITE_DIRECTONLY = ConstDoc [''SQLITE_DIRECTONLY''] [] []"

definition doc_SQLITE_INNOCUOUS :: const_doc where [const_docs]:
  "doc_SQLITE_INNOCUOUS = ConstDoc [''SQLITE_INNOCUOUS''] [] [''SQLITE_DBCONFIG_TRUSTED_SCHEMA'']"

definition doc_SQLITE_SUBTYPE :: const_doc where [const_docs]:
  "doc_SQLITE_SUBTYPE = ConstDoc [''SQLITE_SUBTYPE''] [''sqlite3_value_subtype''] []"

definition doc_SQLITE_RESULT_SUBTYPE :: const_doc where [const_docs]:
  "doc_SQLITE_RESULT_SUBTYPE = ConstDoc [''SQLITE_RESULT_SUBTYPE''] [''sqlite3_result_subtype'']
     []"

definition consts_function_flags :: const_section where [const_docs]:
  "consts_function_flags = \<lparr>cs_title = ''Function Flags'', cs_funs =
     [''sqlite3_create_function'', ''sqlite3_create_function16'', ''sqlite3_create_function_v2''],
     cs_consts = [], cs_docs = [doc_SQLITE_DETERMINISTIC, doc_SQLITE_DIRECTONLY,
     doc_SQLITE_INNOCUOUS, doc_SQLITE_SUBTYPE, doc_SQLITE_RESULT_SUBTYPE], cs_macros =
     [SQLITE_DETERMINISTIC, SQLITE_DIRECTONLY, SQLITE_SUBTYPE, SQLITE_INNOCUOUS,
     SQLITE_RESULT_SUBTYPE]\<rparr>"

definition consts_win32_directory_types :: const_section where [const_docs]:
  "consts_win32_directory_types = \<lparr>cs_title = ''Win32 Directory Types'', cs_funs = [],
     cs_consts = [], cs_docs = [], cs_macros = [SQLITE_WIN32_DATA_DIRECTORY_TYPE,
     SQLITE_WIN32_TEMP_DIRECTORY_TYPE]\<rparr>"

definition doc_SQLITE_TXN_NONE :: const_doc where [const_docs]:
  "doc_SQLITE_TXN_NONE = ConstDoc [''SQLITE_TXN_NONE''] [] []"

definition doc_SQLITE_TXN_READ :: const_doc where [const_docs]:
  "doc_SQLITE_TXN_READ = ConstDoc [''SQLITE_TXN_READ''] [] []"

definition doc_SQLITE_TXN_WRITE :: const_doc where [const_docs]:
  "doc_SQLITE_TXN_WRITE = ConstDoc [''SQLITE_TXN_WRITE''] [] []"

definition consts_allowed_return_values_from_sqlite3_txn_state :: const_section where [const_docs]:
  "consts_allowed_return_values_from_sqlite3_txn_state = \<lparr>cs_title =
     ''Allowed return values from sqlite3_txn_state()'', cs_funs = [], cs_consts = [], cs_docs =
     [doc_SQLITE_TXN_NONE, doc_SQLITE_TXN_READ, doc_SQLITE_TXN_WRITE], cs_macros =
     [SQLITE_TXN_NONE, SQLITE_TXN_READ, SQLITE_TXN_WRITE]\<rparr>"

definition consts_virtual_table_scan_flags :: const_section where [const_docs]:
  "consts_virtual_table_scan_flags = \<lparr>cs_title = ''Virtual Table Scan Flags'', cs_funs =
     [], cs_consts = [], cs_docs = [], cs_macros = [SQLITE_INDEX_SCAN_UNIQUE]\<rparr>"

definition consts_virtual_table_constraint_operator_codes :: const_section where [const_docs]:
  "consts_virtual_table_constraint_operator_codes = \<lparr>cs_title =
     ''Virtual Table Constraint Operator Codes'', cs_funs = [''sqlite3_vtab_rhs_value'',
     ''sqlite3_vtab_collation''], cs_consts = [], cs_docs = [], cs_macros =
     [SQLITE_INDEX_CONSTRAINT_EQ, SQLITE_INDEX_CONSTRAINT_GT, SQLITE_INDEX_CONSTRAINT_LE,
     SQLITE_INDEX_CONSTRAINT_LT, SQLITE_INDEX_CONSTRAINT_GE, SQLITE_INDEX_CONSTRAINT_MATCH,
     SQLITE_INDEX_CONSTRAINT_LIKE, SQLITE_INDEX_CONSTRAINT_GLOB, SQLITE_INDEX_CONSTRAINT_REGEXP,
     SQLITE_INDEX_CONSTRAINT_NE, SQLITE_INDEX_CONSTRAINT_ISNOT, SQLITE_INDEX_CONSTRAINT_ISNOTNULL,
     SQLITE_INDEX_CONSTRAINT_ISNULL, SQLITE_INDEX_CONSTRAINT_IS, SQLITE_INDEX_CONSTRAINT_LIMIT,
     SQLITE_INDEX_CONSTRAINT_OFFSET, SQLITE_INDEX_CONSTRAINT_FUNCTION]\<rparr>"

definition consts_mutex_types :: const_section where [const_docs]:
  "consts_mutex_types = \<lparr>cs_title = ''Mutex Types'', cs_funs = [''sqlite3_mutex_alloc''],
     cs_consts = [], cs_docs = [], cs_macros = [SQLITE_MUTEX_FAST, SQLITE_MUTEX_RECURSIVE,
     SQLITE_MUTEX_STATIC_MAIN, SQLITE_MUTEX_STATIC_MEM, SQLITE_MUTEX_STATIC_MEM2,
     SQLITE_MUTEX_STATIC_OPEN, SQLITE_MUTEX_STATIC_PRNG, SQLITE_MUTEX_STATIC_LRU,
     SQLITE_MUTEX_STATIC_LRU2, SQLITE_MUTEX_STATIC_PMEM, SQLITE_MUTEX_STATIC_APP1,
     SQLITE_MUTEX_STATIC_APP2, SQLITE_MUTEX_STATIC_APP3, SQLITE_MUTEX_STATIC_VFS1,
     SQLITE_MUTEX_STATIC_VFS2, SQLITE_MUTEX_STATIC_VFS3, SQLITE_MUTEX_STATIC_MASTER]\<rparr>"

definition consts_testing_interface_operation_codes :: const_section where [const_docs]:
  "consts_testing_interface_operation_codes = \<lparr>cs_title =
     ''Testing Interface Operation Codes'', cs_funs = [''sqlite3_test_control''], cs_consts = [],
     cs_docs = [], cs_macros = [SQLITE_TESTCTRL_FIRST, SQLITE_TESTCTRL_PRNG_SAVE,
     SQLITE_TESTCTRL_PRNG_RESTORE, SQLITE_TESTCTRL_PRNG_RESET, SQLITE_TESTCTRL_FK_NO_ACTION,
     SQLITE_TESTCTRL_BITVEC_TEST, SQLITE_TESTCTRL_FAULT_INSTALL,
     SQLITE_TESTCTRL_BENIGN_MALLOC_HOOKS, SQLITE_TESTCTRL_PENDING_BYTE, SQLITE_TESTCTRL_ASSERT,
     SQLITE_TESTCTRL_ALWAYS, SQLITE_TESTCTRL_RESERVE, SQLITE_TESTCTRL_JSON_SELFCHECK,
     SQLITE_TESTCTRL_OPTIMIZATIONS, SQLITE_TESTCTRL_ISKEYWORD, SQLITE_TESTCTRL_SCRATCHMALLOC,
     SQLITE_TESTCTRL_INTERNAL_FUNCTIONS, SQLITE_TESTCTRL_LOCALTIME_FAULT,
     SQLITE_TESTCTRL_EXPLAIN_STMT, SQLITE_TESTCTRL_ONCE_RESET_THRESHOLD,
     SQLITE_TESTCTRL_NEVER_CORRUPT, SQLITE_TESTCTRL_VDBE_COVERAGE, SQLITE_TESTCTRL_BYTEORDER,
     SQLITE_TESTCTRL_ISINIT, SQLITE_TESTCTRL_SORTER_MMAP, SQLITE_TESTCTRL_IMPOSTER,
     SQLITE_TESTCTRL_PARSER_COVERAGE, SQLITE_TESTCTRL_RESULT_INTREAL, SQLITE_TESTCTRL_PRNG_SEED,
     SQLITE_TESTCTRL_EXTRA_SCHEMA_CHECKS, SQLITE_TESTCTRL_SEEK_COUNT, SQLITE_TESTCTRL_TRACEFLAGS,
     SQLITE_TESTCTRL_TUNE, SQLITE_TESTCTRL_LOGEST, SQLITE_TESTCTRL_USELONGDOUBLE,
     SQLITE_TESTCTRL_LAST]\<rparr>"

definition doc_SQLITE_STATUS_MEMORY_USED :: const_doc where [const_docs]:
  "doc_SQLITE_STATUS_MEMORY_USED = ConstDoc [''SQLITE_STATUS_MEMORY_USED''] [''sqlite3_malloc'']
     [''SQLITE_CONFIG_PAGECACHE'']"

definition doc_SQLITE_STATUS_MALLOC_SIZE :: const_doc where [const_docs]:
  "doc_SQLITE_STATUS_MALLOC_SIZE = ConstDoc [''SQLITE_STATUS_MALLOC_SIZE''] [''sqlite3_malloc'',
     ''sqlite3_realloc'', ''sqlite3_status''] []"

definition doc_SQLITE_STATUS_MALLOC_COUNT :: const_doc where [const_docs]:
  "doc_SQLITE_STATUS_MALLOC_COUNT = ConstDoc [''SQLITE_STATUS_MALLOC_COUNT''] [] []"

definition doc_SQLITE_STATUS_PAGECACHE_USED :: const_doc where [const_docs]:
  "doc_SQLITE_STATUS_PAGECACHE_USED = ConstDoc [''SQLITE_STATUS_PAGECACHE_USED''] []
     [''SQLITE_CONFIG_PAGECACHE'']"

definition doc_SQLITE_STATUS_PAGECACHE_OVERFLOW :: const_doc where [const_docs]:
  "doc_SQLITE_STATUS_PAGECACHE_OVERFLOW = ConstDoc [''SQLITE_STATUS_PAGECACHE_OVERFLOW'']
     [''sqlite3_malloc''] [''SQLITE_CONFIG_PAGECACHE'']"

definition doc_SQLITE_STATUS_PAGECACHE_SIZE :: const_doc where [const_docs]:
  "doc_SQLITE_STATUS_PAGECACHE_SIZE = ConstDoc [''SQLITE_STATUS_PAGECACHE_SIZE'']
     [''sqlite3_status''] []"

definition doc_SQLITE_STATUS_SCRATCH_USED :: const_doc where [const_docs]:
  "doc_SQLITE_STATUS_SCRATCH_USED = ConstDoc [''SQLITE_STATUS_SCRATCH_USED''] [] []"

definition doc_SQLITE_STATUS_SCRATCH_OVERFLOW :: const_doc where [const_docs]:
  "doc_SQLITE_STATUS_SCRATCH_OVERFLOW = ConstDoc [''SQLITE_STATUS_SCRATCH_OVERFLOW''] [] []"

definition doc_SQLITE_STATUS_SCRATCH_SIZE :: const_doc where [const_docs]:
  "doc_SQLITE_STATUS_SCRATCH_SIZE = ConstDoc [''SQLITE_STATUS_SCRATCH_SIZE''] [] []"

definition doc_SQLITE_STATUS_PARSER_STACK :: const_doc where [const_docs]:
  "doc_SQLITE_STATUS_PARSER_STACK = ConstDoc [''SQLITE_STATUS_PARSER_STACK''] [] []"

definition consts_status_parameters :: const_section where [const_docs]:
  "consts_status_parameters = \<lparr>cs_title = ''Status Parameters'', cs_funs =
     [''sqlite3_status''], cs_consts = [], cs_docs = [doc_SQLITE_STATUS_MEMORY_USED,
     doc_SQLITE_STATUS_MALLOC_SIZE, doc_SQLITE_STATUS_MALLOC_COUNT,
     doc_SQLITE_STATUS_PAGECACHE_USED, doc_SQLITE_STATUS_PAGECACHE_OVERFLOW,
     doc_SQLITE_STATUS_PAGECACHE_SIZE, doc_SQLITE_STATUS_SCRATCH_USED,
     doc_SQLITE_STATUS_SCRATCH_OVERFLOW, doc_SQLITE_STATUS_SCRATCH_SIZE,
     doc_SQLITE_STATUS_PARSER_STACK], cs_macros = [SQLITE_STATUS_MEMORY_USED,
     SQLITE_STATUS_PAGECACHE_USED, SQLITE_STATUS_PAGECACHE_OVERFLOW, SQLITE_STATUS_SCRATCH_USED,
     SQLITE_STATUS_SCRATCH_OVERFLOW, SQLITE_STATUS_MALLOC_SIZE, SQLITE_STATUS_PARSER_STACK,
     SQLITE_STATUS_PAGECACHE_SIZE, SQLITE_STATUS_SCRATCH_SIZE,
     SQLITE_STATUS_MALLOC_COUNT]\<rparr>"

definition doc_SQLITE_DBSTATUS_LOOKASIDE_USED :: const_doc where [const_docs]:
  "doc_SQLITE_DBSTATUS_LOOKASIDE_USED = ConstDoc [''SQLITE_DBSTATUS_LOOKASIDE_USED''] [] []"

definition doc_SQLITE_DBSTATUS_LOOKASIDE_HIT :: const_doc where [const_docs]:
  "doc_SQLITE_DBSTATUS_LOOKASIDE_HIT = ConstDoc [''SQLITE_DBSTATUS_LOOKASIDE_HIT''] [] []"

definition doc_SQLITE_DBSTATUS_LOOKASIDE_MISS_SIZE :: const_doc where [const_docs]:
  "doc_SQLITE_DBSTATUS_LOOKASIDE_MISS_SIZE = ConstDoc [''SQLITE_DBSTATUS_LOOKASIDE_MISS_SIZE''] []
     []"

definition doc_SQLITE_DBSTATUS_LOOKASIDE_MISS_FULL :: const_doc where [const_docs]:
  "doc_SQLITE_DBSTATUS_LOOKASIDE_MISS_FULL = ConstDoc [''SQLITE_DBSTATUS_LOOKASIDE_MISS_FULL''] []
     []"

definition doc_SQLITE_DBSTATUS_CACHE_USED :: const_doc where [const_docs]:
  "doc_SQLITE_DBSTATUS_CACHE_USED = ConstDoc [''SQLITE_DBSTATUS_CACHE_USED''] [] []"

definition doc_SQLITE_DBSTATUS_CACHE_USED_SHARED :: const_doc where [const_docs]:
  "doc_SQLITE_DBSTATUS_CACHE_USED_SHARED = ConstDoc [''SQLITE_DBSTATUS_CACHE_USED_SHARED''] [] []"

definition doc_SQLITE_DBSTATUS_SCHEMA_USED :: const_doc where [const_docs]:
  "doc_SQLITE_DBSTATUS_SCHEMA_USED = ConstDoc [''SQLITE_DBSTATUS_SCHEMA_USED''] [] []"

definition doc_SQLITE_DBSTATUS_STMT_USED :: const_doc where [const_docs]:
  "doc_SQLITE_DBSTATUS_STMT_USED = ConstDoc [''SQLITE_DBSTATUS_STMT_USED''] [] []"

definition doc_SQLITE_DBSTATUS_CACHE_HIT :: const_doc where [const_docs]:
  "doc_SQLITE_DBSTATUS_CACHE_HIT = ConstDoc [''SQLITE_DBSTATUS_CACHE_HIT''] [] []"

definition doc_SQLITE_DBSTATUS_CACHE_MISS :: const_doc where [const_docs]:
  "doc_SQLITE_DBSTATUS_CACHE_MISS = ConstDoc [''SQLITE_DBSTATUS_CACHE_MISS''] [] []"

definition doc_SQLITE_DBSTATUS_CACHE_WRITE :: const_doc where [const_docs]:
  "doc_SQLITE_DBSTATUS_CACHE_WRITE = ConstDoc [''SQLITE_DBSTATUS_CACHE_WRITE''] [] []"

definition doc_SQLITE_DBSTATUS_CACHE_SPILL :: const_doc where [const_docs]:
  "doc_SQLITE_DBSTATUS_CACHE_SPILL = ConstDoc [''SQLITE_DBSTATUS_CACHE_SPILL''] [] []"

definition doc_SQLITE_DBSTATUS_DEFERRED_FKS :: const_doc where [const_docs]:
  "doc_SQLITE_DBSTATUS_DEFERRED_FKS = ConstDoc [''SQLITE_DBSTATUS_DEFERRED_FKS''] [] []"

definition consts_status_parameters_for_database_connections :: const_section where [const_docs]:
  "consts_status_parameters_for_database_connections = \<lparr>cs_title =
     ''Status Parameters for database connections'', cs_funs = [''sqlite3_db_status''], cs_consts
     = [], cs_docs = [doc_SQLITE_DBSTATUS_LOOKASIDE_USED, doc_SQLITE_DBSTATUS_LOOKASIDE_HIT,
     doc_SQLITE_DBSTATUS_LOOKASIDE_MISS_SIZE, doc_SQLITE_DBSTATUS_LOOKASIDE_MISS_FULL,
     doc_SQLITE_DBSTATUS_CACHE_USED, doc_SQLITE_DBSTATUS_CACHE_USED_SHARED,
     doc_SQLITE_DBSTATUS_SCHEMA_USED, doc_SQLITE_DBSTATUS_STMT_USED,
     doc_SQLITE_DBSTATUS_CACHE_HIT, doc_SQLITE_DBSTATUS_CACHE_MISS,
     doc_SQLITE_DBSTATUS_CACHE_WRITE, doc_SQLITE_DBSTATUS_CACHE_SPILL,
     doc_SQLITE_DBSTATUS_DEFERRED_FKS], cs_macros = [SQLITE_DBSTATUS_LOOKASIDE_USED,
     SQLITE_DBSTATUS_CACHE_USED, SQLITE_DBSTATUS_SCHEMA_USED, SQLITE_DBSTATUS_STMT_USED,
     SQLITE_DBSTATUS_LOOKASIDE_HIT, SQLITE_DBSTATUS_LOOKASIDE_MISS_SIZE,
     SQLITE_DBSTATUS_LOOKASIDE_MISS_FULL, SQLITE_DBSTATUS_CACHE_HIT, SQLITE_DBSTATUS_CACHE_MISS,
     SQLITE_DBSTATUS_CACHE_WRITE, SQLITE_DBSTATUS_DEFERRED_FKS, SQLITE_DBSTATUS_CACHE_USED_SHARED,
     SQLITE_DBSTATUS_CACHE_SPILL, SQLITE_DBSTATUS_MAX]\<rparr>"

definition doc_SQLITE_STMTSTATUS_FULLSCAN_STEP :: const_doc where [const_docs]:
  "doc_SQLITE_STMTSTATUS_FULLSCAN_STEP = ConstDoc [''SQLITE_STMTSTATUS_FULLSCAN_STEP''] [] []"

definition doc_SQLITE_STMTSTATUS_SORT :: const_doc where [const_docs]:
  "doc_SQLITE_STMTSTATUS_SORT = ConstDoc [''SQLITE_STMTSTATUS_SORT''] [] []"

definition doc_SQLITE_STMTSTATUS_AUTOINDEX :: const_doc where [const_docs]:
  "doc_SQLITE_STMTSTATUS_AUTOINDEX = ConstDoc [''SQLITE_STMTSTATUS_AUTOINDEX''] [] []"

definition doc_SQLITE_STMTSTATUS_VM_STEP :: const_doc where [const_docs]:
  "doc_SQLITE_STMTSTATUS_VM_STEP = ConstDoc [''SQLITE_STMTSTATUS_VM_STEP''] [] []"

definition doc_SQLITE_STMTSTATUS_REPREPARE :: const_doc where [const_docs]:
  "doc_SQLITE_STMTSTATUS_REPREPARE = ConstDoc [''SQLITE_STMTSTATUS_REPREPARE''] [] []"

definition doc_SQLITE_STMTSTATUS_RUN :: const_doc where [const_docs]:
  "doc_SQLITE_STMTSTATUS_RUN = ConstDoc [''SQLITE_STMTSTATUS_RUN''] [''sqlite3_step'',
     ''sqlite3_reset''] []"

definition doc_SQLITE_STMTSTATUS_FILTER_MISS :: const_doc where [const_docs]:
  "doc_SQLITE_STMTSTATUS_FILTER_MISS = ConstDoc [''SQLITE_STMTSTATUS_FILTER_MISS'',
     ''SQLITE_STMTSTATUS_FILTER HIT''] [] []"

definition doc_SQLITE_STMTSTATUS_MEMUSED :: const_doc where [const_docs]:
  "doc_SQLITE_STMTSTATUS_MEMUSED = ConstDoc [''SQLITE_STMTSTATUS_MEMUSED''] [] []"

definition consts_status_parameters_for_prepared_statements :: const_section where [const_docs]:
  "consts_status_parameters_for_prepared_statements = \<lparr>cs_title =
     ''Status Parameters for prepared statements'', cs_funs = [''sqlite3_stmt_status''], cs_consts
     = [], cs_docs = [doc_SQLITE_STMTSTATUS_FULLSCAN_STEP, doc_SQLITE_STMTSTATUS_SORT,
     doc_SQLITE_STMTSTATUS_AUTOINDEX, doc_SQLITE_STMTSTATUS_VM_STEP,
     doc_SQLITE_STMTSTATUS_REPREPARE, doc_SQLITE_STMTSTATUS_RUN,
     doc_SQLITE_STMTSTATUS_FILTER_MISS, doc_SQLITE_STMTSTATUS_MEMUSED], cs_macros =
     [SQLITE_STMTSTATUS_FULLSCAN_STEP, SQLITE_STMTSTATUS_SORT, SQLITE_STMTSTATUS_AUTOINDEX,
     SQLITE_STMTSTATUS_VM_STEP, SQLITE_STMTSTATUS_REPREPARE, SQLITE_STMTSTATUS_RUN,
     SQLITE_STMTSTATUS_FILTER_MISS, SQLITE_STMTSTATUS_FILTER_HIT,
     SQLITE_STMTSTATUS_MEMUSED]\<rparr>"

definition consts_checkpoint_mode_values :: const_section where [const_docs]:
  "consts_checkpoint_mode_values = \<lparr>cs_title = ''Checkpoint Mode Values'', cs_funs =
     [''sqlite3_wal_checkpoint_v2''], cs_consts = [], cs_docs = [], cs_macros =
     [SQLITE_CHECKPOINT_PASSIVE, SQLITE_CHECKPOINT_FULL, SQLITE_CHECKPOINT_RESTART,
     SQLITE_CHECKPOINT_TRUNCATE]\<rparr>"

definition doc_SQLITE_VTAB_CONSTRAINT_SUPPORT :: const_doc where [const_docs]:
  "doc_SQLITE_VTAB_CONSTRAINT_SUPPORT = ConstDoc [''SQLITE_VTAB_CONSTRAINT_SUPPORT'']
     [''sqlite3_vtab_config'', ''sqlite3_vtab_on_conflict''] [''SQLITE_CONSTRAINT'']"

definition doc_SQLITE_VTAB_DIRECTONLY :: const_doc where [const_docs]:
  "doc_SQLITE_VTAB_DIRECTONLY = ConstDoc [''SQLITE_VTAB_DIRECTONLY''] [] []"

definition doc_SQLITE_VTAB_INNOCUOUS :: const_doc where [const_docs]:
  "doc_SQLITE_VTAB_INNOCUOUS = ConstDoc [''SQLITE_VTAB_INNOCUOUS''] [] []"

definition doc_SQLITE_VTAB_USES_ALL_SCHEMAS :: const_doc where [const_docs]:
  "doc_SQLITE_VTAB_USES_ALL_SCHEMAS = ConstDoc [''SQLITE_VTAB_USES_ALL_SCHEMAS''] [] []"

definition consts_virtual_table_configuration_options :: const_section where [const_docs]:
  "consts_virtual_table_configuration_options = \<lparr>cs_title =
     ''Virtual Table Configuration Options'', cs_funs = [''sqlite3_vtab_config''], cs_consts = [],
     cs_docs = [doc_SQLITE_VTAB_CONSTRAINT_SUPPORT, doc_SQLITE_VTAB_DIRECTONLY,
     doc_SQLITE_VTAB_INNOCUOUS, doc_SQLITE_VTAB_USES_ALL_SCHEMAS], cs_macros =
     [SQLITE_VTAB_CONSTRAINT_SUPPORT, SQLITE_VTAB_INNOCUOUS, SQLITE_VTAB_DIRECTONLY,
     SQLITE_VTAB_USES_ALL_SCHEMAS]\<rparr>"

definition consts_conflict_resolution_modes :: const_section where [const_docs]:
  "consts_conflict_resolution_modes = \<lparr>cs_title = ''Conflict resolution modes'', cs_funs =
     [''sqlite3_vtab_on_conflict'', ''sqlite3_set_authorizer''], cs_consts = [''SQLITE_IGNORE'',
     ''SQLITE_ABORT''], cs_docs = [], cs_macros = [SQLITE_ROLLBACK, SQLITE_FAIL,
     SQLITE_REPLACE]\<rparr>"

definition doc_SQLITE_SCANSTAT_NLOOP :: const_doc where [const_docs]:
  "doc_SQLITE_SCANSTAT_NLOOP = ConstDoc [''SQLITE_SCANSTAT_NLOOP''] [] []"

definition doc_SQLITE_SCANSTAT_NVISIT :: const_doc where [const_docs]:
  "doc_SQLITE_SCANSTAT_NVISIT = ConstDoc [''SQLITE_SCANSTAT_NVISIT''] [] []"

definition doc_SQLITE_SCANSTAT_EST :: const_doc where [const_docs]:
  "doc_SQLITE_SCANSTAT_EST = ConstDoc [''SQLITE_SCANSTAT_EST''] [] []"

definition doc_SQLITE_SCANSTAT_NAME :: const_doc where [const_docs]:
  "doc_SQLITE_SCANSTAT_NAME = ConstDoc [''SQLITE_SCANSTAT_NAME''] [] []"

definition doc_SQLITE_SCANSTAT_EXPLAIN :: const_doc where [const_docs]:
  "doc_SQLITE_SCANSTAT_EXPLAIN = ConstDoc [''SQLITE_SCANSTAT_EXPLAIN''] [] []"

definition doc_SQLITE_SCANSTAT_SELECTID :: const_doc where [const_docs]:
  "doc_SQLITE_SCANSTAT_SELECTID = ConstDoc [''SQLITE_SCANSTAT_SELECTID''] [] []"

definition doc_SQLITE_SCANSTAT_PARENTID :: const_doc where [const_docs]:
  "doc_SQLITE_SCANSTAT_PARENTID = ConstDoc [''SQLITE_SCANSTAT_PARENTID''] [] []"

definition doc_SQLITE_SCANSTAT_NCYCLE :: const_doc where [const_docs]:
  "doc_SQLITE_SCANSTAT_NCYCLE = ConstDoc [''SQLITE_SCANSTAT_NCYCLE''] [] []"

definition consts_prepared_statement_scan_status_opcodes :: const_section where [const_docs]:
  "consts_prepared_statement_scan_status_opcodes = \<lparr>cs_title =
     ''Prepared Statement Scan Status Opcodes'', cs_funs = [], cs_consts = [], cs_docs =
     [doc_SQLITE_SCANSTAT_NLOOP, doc_SQLITE_SCANSTAT_NVISIT, doc_SQLITE_SCANSTAT_EST,
     doc_SQLITE_SCANSTAT_NAME, doc_SQLITE_SCANSTAT_EXPLAIN, doc_SQLITE_SCANSTAT_SELECTID,
     doc_SQLITE_SCANSTAT_PARENTID, doc_SQLITE_SCANSTAT_NCYCLE], cs_macros =
     [SQLITE_SCANSTAT_NLOOP, SQLITE_SCANSTAT_NVISIT, SQLITE_SCANSTAT_EST, SQLITE_SCANSTAT_NAME,
     SQLITE_SCANSTAT_EXPLAIN, SQLITE_SCANSTAT_SELECTID, SQLITE_SCANSTAT_PARENTID,
     SQLITE_SCANSTAT_NCYCLE]\<rparr>"

definition consts_prepared_statement_scan_status :: const_section where [const_docs]:
  "consts_prepared_statement_scan_status = \<lparr>cs_title = ''Prepared Statement Scan Status'',
     cs_funs = [], cs_consts = [], cs_docs = [], cs_macros = [SQLITE_SCANSTAT_COMPLEX]\<rparr>"

definition consts_flags_for_sqlite3_serialize :: const_section where [const_docs]:
  "consts_flags_for_sqlite3_serialize = \<lparr>cs_title = ''Flags for sqlite3_serialize'',
     cs_funs = [''sqlite3_serialize'', ''sqlite3_deserialize''], cs_consts = [], cs_docs = [],
     cs_macros = [SQLITE_SERIALIZE_NOCOPY]\<rparr>"

definition consts_flags_for_sqlite3_deserialize :: const_section where [const_docs]:
  "consts_flags_for_sqlite3_deserialize = \<lparr>cs_title = ''Flags for sqlite3_deserialize()'',
     cs_funs = [''sqlite3_malloc64'', ''sqlite3_realloc64''], cs_consts = [], cs_docs = [],
     cs_macros = [SQLITE_DESERIALIZE_FREEONCLOSE, SQLITE_DESERIALIZE_RESIZEABLE,
     SQLITE_DESERIALIZE_READONLY]\<rparr>"

definition doc_SQLITE_SESSION_OBJCONFIG_SIZE :: const_doc where [const_docs]:
  "doc_SQLITE_SESSION_OBJCONFIG_SIZE = ConstDoc [''SQLITE_SESSION_OBJCONFIG_SIZE'']
     [''sqlite3session_changeset_size''] []"

definition doc_SQLITE_SESSION_OBJCONFIG_ROWID :: const_doc where [const_docs]:
  "doc_SQLITE_SESSION_OBJCONFIG_ROWID = ConstDoc [''SQLITE_SESSION_OBJCONFIG_ROWID''] [] []"

definition consts_options_for_sqlite3session_object_config :: const_section where [const_docs]:
  "consts_options_for_sqlite3session_object_config = \<lparr>cs_title =
     ''Options for sqlite3session_object_config'', cs_funs = [], cs_consts = [], cs_docs =
     [doc_SQLITE_SESSION_OBJCONFIG_SIZE, doc_SQLITE_SESSION_OBJCONFIG_ROWID], cs_macros =
     [SQLITE_SESSION_OBJCONFIG_SIZE, SQLITE_SESSION_OBJCONFIG_ROWID]\<rparr>"

definition doc_SQLITE_CHANGESETAPPLY_INVERT :: const_doc where [const_docs]:
  "doc_SQLITE_CHANGESETAPPLY_INVERT = ConstDoc [''SQLITE_CHANGESETAPPLY_INVERT''] [] []"

definition consts_flags_for_sqlite3changeset_start_v2 :: const_section where [const_docs]:
  "consts_flags_for_sqlite3changeset_start_v2 = \<lparr>cs_title =
     ''Flags for sqlite3changeset_start_v2'', cs_funs = [], cs_consts = [], cs_docs =
     [doc_SQLITE_CHANGESETAPPLY_INVERT], cs_macros = [SQLITE_CHANGESETSTART_INVERT]\<rparr>"

definition doc_SQLITE_CHANGESETAPPLY_NOSAVEPOINT :: const_doc where [const_docs]:
  "doc_SQLITE_CHANGESETAPPLY_NOSAVEPOINT = ConstDoc [''SQLITE_CHANGESETAPPLY_NOSAVEPOINT''] [] []"

definition doc_SQLITE_CHANGESETAPPLY_INVERT_2 :: const_doc where [const_docs]:
  "doc_SQLITE_CHANGESETAPPLY_INVERT_2 = ConstDoc [''SQLITE_CHANGESETAPPLY_INVERT''] [] []"

definition doc_SQLITE_CHANGESETAPPLY_IGNORENOOP :: const_doc where [const_docs]:
  "doc_SQLITE_CHANGESETAPPLY_IGNORENOOP = ConstDoc [''SQLITE_CHANGESETAPPLY_IGNORENOOP''] [] []"

definition doc_SQLITE_CHANGESETAPPLY_FKNOACTION :: const_doc where [const_docs]:
  "doc_SQLITE_CHANGESETAPPLY_FKNOACTION = ConstDoc [''SQLITE_CHANGESETAPPLY_FKNOACTION''] [] []"

definition consts_flags_for_sqlite3changeset_apply_v2 :: const_section where [const_docs]:
  "consts_flags_for_sqlite3changeset_apply_v2 = \<lparr>cs_title =
     ''Flags for sqlite3changeset_apply_v2'', cs_funs = [], cs_consts = [], cs_docs =
     [doc_SQLITE_CHANGESETAPPLY_NOSAVEPOINT, doc_SQLITE_CHANGESETAPPLY_INVERT_2,
     doc_SQLITE_CHANGESETAPPLY_IGNORENOOP, doc_SQLITE_CHANGESETAPPLY_FKNOACTION], cs_macros =
     [SQLITE_CHANGESETAPPLY_NOSAVEPOINT, SQLITE_CHANGESETAPPLY_INVERT,
     SQLITE_CHANGESETAPPLY_IGNORENOOP, SQLITE_CHANGESETAPPLY_FKNOACTION]\<rparr>"

definition doc_SQLITE_CHANGESET_DATA :: const_doc where [const_docs]:
  "doc_SQLITE_CHANGESET_DATA = ConstDoc [''SQLITE_CHANGESET_DATA''] [] []"

definition doc_SQLITE_CHANGESET_NOTFOUND :: const_doc where [const_docs]:
  "doc_SQLITE_CHANGESET_NOTFOUND = ConstDoc [''SQLITE_CHANGESET_NOTFOUND''] [] []"

definition doc_SQLITE_CHANGESET_CONFLICT :: const_doc where [const_docs]:
  "doc_SQLITE_CHANGESET_CONFLICT = ConstDoc [''SQLITE_CHANGESET_CONFLICT''] [] []"

definition doc_SQLITE_CHANGESET_FOREIGN_KEY :: const_doc where [const_docs]:
  "doc_SQLITE_CHANGESET_FOREIGN_KEY = ConstDoc [''SQLITE_CHANGESET_FOREIGN_KEY''] [] []"

definition doc_SQLITE_CHANGESET_CONSTRAINT :: const_doc where [const_docs]:
  "doc_SQLITE_CHANGESET_CONSTRAINT = ConstDoc [''SQLITE_CHANGESET_CONSTRAINT''] [] []"

definition consts_constants_passed_to_the_conflict_handler :: const_section where [const_docs]:
  "consts_constants_passed_to_the_conflict_handler = \<lparr>cs_title =
     ''Constants Passed To The Conflict Handler'', cs_funs = [], cs_consts = [], cs_docs =
     [doc_SQLITE_CHANGESET_DATA, doc_SQLITE_CHANGESET_NOTFOUND, doc_SQLITE_CHANGESET_CONFLICT,
     doc_SQLITE_CHANGESET_FOREIGN_KEY, doc_SQLITE_CHANGESET_CONSTRAINT], cs_macros =
     [SQLITE_CHANGESET_DATA, SQLITE_CHANGESET_NOTFOUND, SQLITE_CHANGESET_CONFLICT,
     SQLITE_CHANGESET_CONSTRAINT, SQLITE_CHANGESET_FOREIGN_KEY]\<rparr>"

definition doc_SQLITE_CHANGESET_OMIT :: const_doc where [const_docs]:
  "doc_SQLITE_CHANGESET_OMIT = ConstDoc [''SQLITE_CHANGESET_OMIT''] [] []"

definition doc_SQLITE_CHANGESET_REPLACE :: const_doc where [const_docs]:
  "doc_SQLITE_CHANGESET_REPLACE = ConstDoc [''SQLITE_CHANGESET_REPLACE''] [] []"

definition doc_SQLITE_CHANGESET_ABORT :: const_doc where [const_docs]:
  "doc_SQLITE_CHANGESET_ABORT = ConstDoc [''SQLITE_CHANGESET_ABORT''] [] []"

definition consts_constants_returned_by_the_conflict_handler :: const_section where [const_docs]:
  "consts_constants_returned_by_the_conflict_handler = \<lparr>cs_title =
     ''Constants Returned By The Conflict Handler'', cs_funs = [], cs_consts = [], cs_docs =
     [doc_SQLITE_CHANGESET_OMIT, doc_SQLITE_CHANGESET_REPLACE, doc_SQLITE_CHANGESET_ABORT],
     cs_macros = [SQLITE_CHANGESET_OMIT, SQLITE_CHANGESET_REPLACE,
     SQLITE_CHANGESET_ABORT]\<rparr>"

definition consts_values_for_sqlite3session_config :: const_section where [const_docs]:
  "consts_values_for_sqlite3session_config = \<lparr>cs_title =
     ''Values for sqlite3session_config().'', cs_funs = [], cs_consts = [], cs_docs = [],
     cs_macros = [SQLITE_SESSION_CONFIG_STRMSIZE]\<rparr>"

definition const_sections2 :: "const_section list" where
  "const_sections2 = [consts_sql_trace_event_codes, consts_run_time_limit_categories,
     consts_prepare_flags, consts_fundamental_datatypes, consts_text_encodings,
     consts_function_flags, consts_win32_directory_types,
     consts_allowed_return_values_from_sqlite3_txn_state, consts_virtual_table_scan_flags,
     consts_virtual_table_constraint_operator_codes, consts_mutex_types,
     consts_testing_interface_operation_codes, consts_status_parameters,
     consts_status_parameters_for_database_connections,
     consts_status_parameters_for_prepared_statements, consts_checkpoint_mode_values,
     consts_virtual_table_configuration_options, consts_conflict_resolution_modes,
     consts_prepared_statement_scan_status_opcodes, consts_prepared_statement_scan_status,
     consts_flags_for_sqlite3_serialize, consts_flags_for_sqlite3_deserialize,
     consts_options_for_sqlite3session_object_config, consts_flags_for_sqlite3changeset_start_v2,
     consts_flags_for_sqlite3changeset_apply_v2, consts_constants_passed_to_the_conflict_handler,
     consts_constants_returned_by_the_conflict_handler, consts_values_for_sqlite3session_config]"

text \<open>What the texts of this part refer to, and the deviations.\<close>

definition const_funs2 :: "decl list" where
  "const_funs2 = [sqlite3_trace_v2, sqlite3_trace, sqlite3_profile, sqlite3_limit,
     sqlite3_prepare_v2, sqlite3_prepare_v3, sqlite3_prepare16_v3, sqlite3_prepare_v3,
     sqlite3_prepare16_v3, sqlite3_finalize, sqlite3_normalized_sql, sqlite3_create_function,
     sqlite3_create_function16, sqlite3_create_function_v2, sqlite3_value_subtype,
     sqlite3_result_subtype, sqlite3_vtab_rhs_value, sqlite3_vtab_collation, sqlite3_mutex_alloc,
     sqlite3_test_control, sqlite3_status, sqlite3_malloc, sqlite3_malloc, sqlite3_realloc,
     sqlite3_status, sqlite3_malloc, sqlite3_status, sqlite3_db_status, sqlite3_stmt_status,
     sqlite3_step, sqlite3_reset, sqlite3_wal_checkpoint_v2, sqlite3_vtab_config,
     sqlite3_vtab_config, sqlite3_vtab_on_conflict, sqlite3_vtab_on_conflict,
     sqlite3_set_authorizer, sqlite3_serialize, sqlite3_deserialize, sqlite3_malloc64,
     sqlite3_realloc64, sqlite3session_changeset_size]"

definition const_refs2 :: "(macro + string) list" where
  "const_refs2 = [Inl SQLITE_DBCONFIG_TRUSTED_SCHEMA, Inl SQLITE_CONFIG_PAGECACHE, Inl
     SQLITE_CONFIG_PAGECACHE, Inl SQLITE_CONFIG_PAGECACHE, Inl macro_SQLITE_CONSTRAINT, Inl
     SQLITE_IGNORE, Inl macro_SQLITE_ABORT]"

lemma const_funs2_named: "concat (map section_funs const_sections2) = map decl_name const_funs2"
  by (simp add: const_sections2_def section_funs_def const_docs const_funs2_def api_decls)

lemma const_funs2_declared: "set const_funs2 \<subseteq> set api1 \<union> set api2 \<union> set api3 \<union> set api4"
  by (simp add: const_funs2_def api1_def api2_def api3_def api4_def)

lemma const_refs2_named: "concat (map section_consts const_sections2) = map ref_name const_refs2"
  by (simp add: const_sections2_def section_consts_def const_docs const_refs2_def const_macros)

lemma const_refs2_known: "list_all ref_known const_refs2"
  by (simp add: const_refs2_def ref_known_def macros1_def macros2_def build_options_def)

lemma misdocumented2: "concat (map misdocumented const_sections2) =
     [''SQLITE_STMTSTATUS_FILTER HIT'', ''SQLITE_CHANGESETAPPLY_INVERT'']"
  unfolding misdocumented_eq by code_simp

lemma undocumented2: "concat (map undocumented const_sections2) = [''SQLITE_DBSTATUS_MAX'',
     ''SQLITE_STMTSTATUS_FILTER_HIT'', ''SQLITE_CHANGESETSTART_INVERT'']"
  unfolding undocumented_eq by code_simp

lemma clashes2: "concat (map (clashes \<circ> cs_macros) const_sections2) = [(''SQLITE_TEXT'',
     ''SQLITE3_TEXT''), (''SQLITE_MUTEX_STATIC_MAIN'', ''SQLITE_MUTEX_STATIC_MASTER''),
     (''SQLITE_MUTEX_STATIC_MEM2'', ''SQLITE_MUTEX_STATIC_OPEN''), (''SQLITE_MUTEX_STATIC_LRU2'',
     ''SQLITE_MUTEX_STATIC_PMEM''), (''SQLITE_TESTCTRL_FIRST'', ''SQLITE_TESTCTRL_PRNG_SAVE''),
     (''SQLITE_TESTCTRL_PRNG_RESET'', ''SQLITE_TESTCTRL_FK_NO_ACTION''),
     (''SQLITE_TESTCTRL_RESERVE'', ''SQLITE_TESTCTRL_JSON_SELFCHECK''),
     (''SQLITE_TESTCTRL_SCRATCHMALLOC'', ''SQLITE_TESTCTRL_INTERNAL_FUNCTIONS''),
     (''SQLITE_TESTCTRL_EXPLAIN_STMT'', ''SQLITE_TESTCTRL_ONCE_RESET_THRESHOLD''),
     (''SQLITE_TESTCTRL_USELONGDOUBLE'', ''SQLITE_TESTCTRL_LAST''),
     (''SQLITE_DBSTATUS_CACHE_SPILL'', ''SQLITE_DBSTATUS_MAX'')]"
  by (simp del: clashes.simps add: clashes_unat const_sections2_def consts_sql_trace_event_codes_def
     consts_run_time_limit_categories_def consts_prepare_flags_def
     consts_fundamental_datatypes_def consts_text_encodings_def consts_function_flags_def
     consts_win32_directory_types_def consts_allowed_return_values_from_sqlite3_txn_state_def
     consts_virtual_table_scan_flags_def consts_virtual_table_constraint_operator_codes_def
     consts_mutex_types_def consts_testing_interface_operation_codes_def
     consts_status_parameters_def consts_status_parameters_for_database_connections_def
     consts_status_parameters_for_prepared_statements_def consts_checkpoint_mode_values_def
     consts_virtual_table_configuration_options_def consts_conflict_resolution_modes_def
     consts_prepared_statement_scan_status_opcodes_def consts_prepared_statement_scan_status_def
     consts_flags_for_sqlite3_serialize_def consts_flags_for_sqlite3_deserialize_def
     consts_options_for_sqlite3session_object_config_def
     consts_flags_for_sqlite3changeset_start_v2_def consts_flags_for_sqlite3changeset_apply_v2_def
     consts_constants_passed_to_the_conflict_handler_def
     consts_constants_returned_by_the_conflict_handler_def
     consts_values_for_sqlite3session_config_def macro_values sqlite_consts)
    (simp add: macro_names)

end
