(* ===== verification/HeaderConst.thy ===== *)
theory HeaderConst
  imports ExtApi HeaderConstDoc1 HeaderConstDoc2
begin

text \<open>
  The sections of \<^verbatim>\<open>sqlite3.h\<close> that document constants, and the version macros. Shown: which constants of one
  section are equal; the version number is the one that the version string spells. That entries and
  constants agree, and what the texts refer to, is checked section by section in \<^verbatim>\<open>HeaderConstDoc1\<close> and
  \<^verbatim>\<open>HeaderConstDoc2\<close>.
\<close>

section \<open>Documentation\<close>

definition const_sections :: "const_section list" where
  "const_sections = const_sections1 @ const_sections2"

text \<open>
  Which constants of one section have the same value: renamed opcodes, the bounds \<^verbatim>\<open>FIRST\<close>, \<^verbatim>\<open>LAST\<close>
  and \<^verbatim>\<open>MAX\<close>, and numbers given to a second purpose.
\<close>

theorem constants_clash:
  "concat (map (clashes \<circ> cs_macros) const_sections) =
     [(''SQLITE_OPEN_SUPER_JOURNAL'', ''SQLITE_OPEN_MASTER_JOURNAL''),
      (''SQLITE_FCNTL_GET_LOCKPROXYFILE'', ''SQLITE_GET_LOCKPROXYFILE''),
      (''SQLITE_FCNTL_SET_LOCKPROXYFILE'', ''SQLITE_SET_LOCKPROXYFILE''),
      (''SQLITE_FCNTL_LAST_ERRNO'', ''SQLITE_LAST_ERRNO''),
      (''SQLITE_DBCONFIG_REVERSE_SCANORDER'', ''SQLITE_DBCONFIG_MAX''),
      (''SQLITE_TEXT'', ''SQLITE3_TEXT''),
      (''SQLITE_MUTEX_STATIC_MAIN'', ''SQLITE_MUTEX_STATIC_MASTER''),
      (''SQLITE_MUTEX_STATIC_MEM2'', ''SQLITE_MUTEX_STATIC_OPEN''),
      (''SQLITE_MUTEX_STATIC_LRU2'', ''SQLITE_MUTEX_STATIC_PMEM''),
      (''SQLITE_TESTCTRL_FIRST'', ''SQLITE_TESTCTRL_PRNG_SAVE''),
      (''SQLITE_TESTCTRL_PRNG_RESET'', ''SQLITE_TESTCTRL_FK_NO_ACTION''),
      (''SQLITE_TESTCTRL_RESERVE'', ''SQLITE_TESTCTRL_JSON_SELFCHECK''),
      (''SQLITE_TESTCTRL_SCRATCHMALLOC'', ''SQLITE_TESTCTRL_INTERNAL_FUNCTIONS''),
      (''SQLITE_TESTCTRL_EXPLAIN_STMT'', ''SQLITE_TESTCTRL_ONCE_RESET_THRESHOLD''),
      (''SQLITE_TESTCTRL_USELONGDOUBLE'', ''SQLITE_TESTCTRL_LAST''),
      (''SQLITE_DBSTATUS_CACHE_SPILL'', ''SQLITE_DBSTATUS_MAX'')]"
  by (simp add: const_sections_def clashes1 clashes2)

section \<open>Constants without a documented section\<close>

text \<open>Values of \<open>eWithin\<close> in a query of the R-Tree module.\<close>

definition NOT_WITHIN :: macro where
  "NOT_WITHIN = Macro ''NOT_WITHIN'' 0 ''Object completely outside of query region''"
definition PARTLY_WITHIN :: macro where
  "PARTLY_WITHIN = Macro ''PARTLY_WITHIN'' 1 ''Object partially overlaps query region''"
definition FULLY_WITHIN :: macro where
  "FULLY_WITHIN = Macro ''FULLY_WITHIN'' 2 ''Object fully contained within query region''"

text \<open>Flags of the full-text tokenizers, to \<open>xTokenize\<close> and back through \<open>xToken\<close>.\<close>

definition FTS5_TOKENIZE_QUERY :: macro where
  "FTS5_TOKENIZE_QUERY = Macro ''FTS5_TOKENIZE_QUERY'' 0x0001 []"
definition FTS5_TOKENIZE_PREFIX :: macro where
  "FTS5_TOKENIZE_PREFIX = Macro ''FTS5_TOKENIZE_PREFIX'' 0x0002 []"
definition FTS5_TOKENIZE_DOCUMENT :: macro where
  "FTS5_TOKENIZE_DOCUMENT = Macro ''FTS5_TOKENIZE_DOCUMENT'' 0x0004 []"
definition FTS5_TOKENIZE_AUX :: macro where
  "FTS5_TOKENIZE_AUX = Macro ''FTS5_TOKENIZE_AUX'' 0x0008 []"
definition FTS5_TOKEN_COLOCATED :: macro where
  "FTS5_TOKEN_COLOCATED = Macro ''FTS5_TOKEN_COLOCATED'' 0x0001 ''Same position as prev. token''"

section \<open>Version\<close>

definition SQLITE_VERSION :: string where
  "SQLITE_VERSION = ''3.46.0''"

definition SQLITE_SOURCE_ID :: string where
  "SQLITE_SOURCE_ID =
     ''2024-05-23 13:25:27 96c92aba00c8375bc32fafcdf12429c58bd8aabfcadab6683e35bbb9cdebf19e''"

text \<open>The destructors that are no functions: pointers with the values 0 and -1.\<close>

definition SQLITE_STATIC :: "64 word" where
  "SQLITE_STATIC = 0"

definition SQLITE_TRANSIENT :: "64 word" where
  "SQLITE_TRANSIENT = - 1"

fun decimal :: "nat \<Rightarrow> string \<Rightarrow> nat" where
  "decimal n [] = n"
| "decimal n (c # cs) = decimal (10 * n + (of_char c - 48)) cs"

text \<open>The number of a version \<open>X.Y.Z\<close> as the header's text defines it.\<close>

fun version_number :: "string list \<Rightarrow> i32" where
  "version_number [x, y, z] =
     of_nat (decimal 0 x) * 1000000 + of_nat (decimal 0 y) * 1000 + of_nat (decimal 0 z)"
| "version_number _ = 0"

theorem version_number_spelled:
  "version_number (split_on (CHR ''.'') SQLITE_VERSION) = SQLITE_VERSION_NUMBER"
  by (simp add: SQLITE_VERSION_def sqlite_consts)

end
