(* ===== verification/DockerFs.thy ===== *)
theory DockerFs
  imports Prelude "HOL-Library.AList" "HOL-Library.Sublist"
begin

text \<open>
  The ground of the dockerloader theories: the part of the file system that
  \<^verbatim>\<open>dockerloader\<close> keeps under \<^verbatim>\<open>/data/dockerloader\<close>, programs over it, and a logic for them. A
  program returns how it ended and every state of the file system it went through, in order, so
  that a power cut or kill between two file operations is a state of that list. The judgement
  \<open>crash_ok P m I Q\<close> says that from a state with \<open>P\<close> all states of \<open>m\<close> satisfy \<open>I\<close>, and the last
  one \<open>Q\<close> if the program returned.
\<close>

section \<open>State\<close>

text \<open>
  A directory lists its entries in the order \<^verbatim>\<open>read_dir\<close> returns them. An extracted image is
  a directory of files by relative path. The symbolic links are kept with their targets. A
  storage directory that does not exist yet is empty: every function creates it before use.
\<close>

type_synonym 'a dir = "(string \<times> 'a) list"
type_synonym tree = "string dir"

record dl_fs =
  blobs :: "string dir"
  images :: "string dir"
  extracted :: "tree dir"
  entrypoint :: "string option"
  entrypoint_attempt :: "string option"
  entrypoint_attempt_tmp :: "string option"
  entrypoint_attempting :: "string option"
  update_attempt :: "string option"
  root_ca_certs :: "string option"

section \<open>Programs\<close>

datatype dl_error = IoError | RegistryError | JsonError | EnvError | Bail | EnvPanic

datatype 'a run = Done 'a | Fail dl_error | Exit int

type_synonym 'a io = "dl_fs \<Rightarrow> 'a run \<times> dl_fs list"

definition final_state :: "dl_fs \<Rightarrow> dl_fs list \<Rightarrow> dl_fs" where
  "final_state s tr = last (s # tr)"

definition ret :: "'a \<Rightarrow> 'a io" where "ret a s = (Done a, [])"
definition stop :: "dl_error \<Rightarrow> 'a io" where "stop e s = (Fail e, [])"
definition quit :: "int \<Rightarrow> 'a io" where "quit c s = (Exit c, [])"
definition look :: "(dl_fs \<Rightarrow> 'a) \<Rightarrow> 'a io" where "look f s = (Done (f s), [])"
definition change :: "(dl_fs \<Rightarrow> dl_fs) \<Rightarrow> unit io" where "change f s = (Done (), [f s])"

definition bind_io :: "'a io \<Rightarrow> ('a \<Rightarrow> 'b io) \<Rightarrow> 'b io" where
  "bind_io m k s =
     (case m s of
        (Done a, tr) \<Rightarrow> (case k a (final_state s tr) of (r, tr') \<Rightarrow> (r, tr @ tr'))
      | (Fail e, tr) \<Rightarrow> (Fail e, tr)
      | (Exit c, tr) \<Rightarrow> (Exit c, tr))"

text \<open>\<^verbatim>\<open>let _ = m\<close> and \<^verbatim>\<open>if let Ok(..) = m\<close>: an error is dropped.\<close>

definition try_io :: "'a io \<Rightarrow> 'a option io" where
  "try_io m s =
     (case m s of
        (Done a, tr) \<Rightarrow> (Done (Some a), tr)
      | (Fail e, tr) \<Rightarrow> (Done None, tr)
      | (Exit c, tr) \<Rightarrow> (Exit c, tr))"

definition require :: "dl_error \<Rightarrow> bool \<Rightarrow> unit io" where
  "require e b = (if b then ret () else stop e)"

definition from_option :: "dl_error \<Rightarrow> 'a option \<Rightarrow> 'a io" where
  "from_option e x = (case x of None \<Rightarrow> stop e | Some a \<Rightarrow> ret a)"

fun for_io :: "('x \<Rightarrow> unit io) \<Rightarrow> 'x list \<Rightarrow> unit io" where
  "for_io f [] = ret ()"
| "for_io f (x # xs) = bind_io (f x) (\<lambda>_. for_io f xs)"

named_theorems io_simps \<open>computation rules of file-system programs\<close>

lemma final_state_simps [simp, io_simps]:
  "final_state s [] = s" "final_state s (tr @ [t]) = t" "final_state s [t] = t"
  "final_state (final_state s tr) tr' = final_state s (tr @ tr')"
  by (auto simp: final_state_def)

lemma final_state_Cons [io_simps]: "final_state s (t # tr) = final_state t tr"
  by (simp add: final_state_def)

lemmas io_basics [io_simps] =
  ret_def stop_def quit_def look_def change_def require_def from_option_def bind_io_def try_io_def

section \<open>Crash logic\<close>

definition crash_ok ::
  "(dl_fs \<Rightarrow> bool) \<Rightarrow> 'a io \<Rightarrow> (dl_fs \<Rightarrow> bool) \<Rightarrow> ('a \<Rightarrow> dl_fs \<Rightarrow> bool) \<Rightarrow> bool" where
  "crash_ok P m I Q =
     (\<forall>s. P s \<longrightarrow> list_all I (snd (m s)) \<and>
        (\<forall>a. fst (m s) = Done a \<longrightarrow> Q a (final_state s (snd (m s)))))"

named_theorems crash_rules \<open>rules of the crash logic\<close>

lemma crash_okD:
  assumes "crash_ok P m I Q" "P s" "m s = (r, tr)"
  shows "list_all I tr" "\<And>a. r = Done a \<Longrightarrow> Q a (final_state s tr)"
  using assms by (auto simp: crash_ok_def)

lemma crash_ok_conseq:
  assumes "crash_ok P m I Q" and "\<And>s. P' s \<Longrightarrow> P s" and "\<And>s. I s \<Longrightarrow> I' s"
    and "\<And>a s. Q a s \<Longrightarrow> Q' a s"
  shows "crash_ok P' m I' Q'"
  using assms by (fastforce simp: crash_ok_def list_all_iff)

lemma crash_ok_ret [crash_rules]: "crash_ok (Q a) (ret a) I Q"
  by (simp add: crash_ok_def ret_def)

lemma crash_ok_stop [crash_rules]: "crash_ok P (stop e) I Q"
  by (simp add: crash_ok_def stop_def)

lemma crash_ok_quit [crash_rules]: "crash_ok P (quit c) I Q"
  by (simp add: crash_ok_def quit_def)

lemma crash_ok_look [crash_rules]: "crash_ok (\<lambda>s. Q (f s) s) (look f) I Q"
  by (simp add: crash_ok_def look_def)

lemma crash_ok_change [crash_rules]: "crash_ok (\<lambda>s. I (f s) \<and> Q () (f s)) (change f) I Q"
  by (simp add: crash_ok_def change_def)

lemma crash_ok_require [crash_rules]: "crash_ok (\<lambda>s. b \<longrightarrow> Q () s) (require e b) I Q"
  by (simp add: crash_ok_def require_def ret_def stop_def)

lemma crash_ok_from_option [crash_rules]:
  "crash_ok (\<lambda>s. \<forall>a. x = Some a \<longrightarrow> Q a s) (from_option e x) I Q"
  by (auto simp: crash_ok_def from_option_def ret_def stop_def split: option.split)

lemma crash_ok_bind:
  assumes m: "crash_ok P m I R" and k: "\<And>a. crash_ok (R a) (k a) I Q"
  shows "crash_ok P (bind_io m k) I Q"
  unfolding crash_ok_def
proof (intro allI impI)
  fix s assume "P s"
  obtain r tr where ms: "m s = (r, tr)" by fastforce
  note m' = crash_okD [OF m \<open>P s\<close> ms]
  show "list_all I (snd (bind_io m k s)) \<and>
    (\<forall>a. fst (bind_io m k s) = Done a \<longrightarrow> Q a (final_state s (snd (bind_io m k s))))"
  proof (cases r)
    case (Done a)
    obtain r' tr' where ks: "k a (final_state s tr) = (r', tr')" by fastforce
    show ?thesis
      using crash_okD [OF k [of a] m'(2) [OF Done] ks] m'(1) by (simp add: bind_io_def ms Done ks)
  qed (use m'(1) in \<open>simp_all add: bind_io_def ms\<close>)
qed

lemma crash_ok_try:
  assumes "crash_ok P m I (\<lambda>a s. I s \<and> Q (Some a) s)" and "\<And>s. I s \<Longrightarrow> Q None s" and "\<And>s. P s \<Longrightarrow> I s"
  shows "crash_ok P (try_io m) I Q"
  unfolding crash_ok_def
proof (intro allI impI)
  fix s assume "P s"
  obtain r tr where ms: "m s = (r, tr)" by fastforce
  note m' = crash_okD [OF assms(1) \<open>P s\<close> ms]
  have "I (final_state s tr)"
    using m'(1) assms(3) [OF \<open>P s\<close>] by (auto simp: final_state_def list_all_iff)
  then show "list_all I (snd (try_io m s)) \<and>
    (\<forall>a. fst (try_io m s) = Done a \<longrightarrow> Q a (final_state s (snd (try_io m s))))"
    using m' assms(2) by (cases r) (auto simp: try_io_def ms)
qed

lemma crash_ok_for:
  assumes "\<And>x. x \<in> set xs \<Longrightarrow> crash_ok I (f x) I (\<lambda>_. I)"
  shows "crash_ok I (for_io f xs) I (\<lambda>_. I)"
  using assms
proof (induction xs)
  case Nil
  show ?case using crash_ok_ret [of "\<lambda>_. I" "()" I] by simp
next
  case (Cons x xs)
  have "crash_ok I (f x) I (\<lambda>_. I)" "crash_ok I (for_io f xs) I (\<lambda>_. I)"
    using Cons by auto
  then show ?case by (auto intro: crash_ok_bind)
qed

section \<open>Stable assertions\<close>

text \<open>
  An assertion is stable under a program when no state of its runs leaves it. The rules follow
  the structure of the program; \<open>stable_update\<close> covers an update computed from the present state.
\<close>

definition stable :: "(dl_fs \<Rightarrow> bool) \<Rightarrow> 'a io \<Rightarrow> bool" where
  "stable I m = crash_ok I m I (\<lambda>_. I)"

named_theorems stable_rules \<open>stability of composed programs\<close>

lemma stable_basic [stable_rules]:
  "stable I (ret a)" "stable I (stop e)" "stable I (quit c)" "stable I (look f)"
  "stable I (require e b)" "stable I (from_option e x)"
  by (auto simp: stable_def crash_ok_def io_basics split: option.split)

lemma stable_bind [stable_rules]:
  "stable I m \<Longrightarrow> (\<And>a. stable I (k a)) \<Longrightarrow> stable I (bind_io m k)"
  unfolding stable_def by (rule crash_ok_bind)

lemma stable_change: "(\<And>s. I s \<Longrightarrow> I (f s)) \<Longrightarrow> stable I (change f)"
  by (simp add: stable_def crash_ok_def change_def)

lemma stable_try [stable_rules]: "stable I m \<Longrightarrow> stable I (try_io m)"
  unfolding stable_def by (rule crash_ok_try) (auto intro: crash_ok_conseq)

lemma stable_for [stable_rules]: "(\<And>x. stable I (f x)) \<Longrightarrow> stable I (for_io f xs)"
  unfolding stable_def by (rule crash_ok_for) auto

lemma stable_for_set: "(\<And>x. x \<in> set xs \<Longrightarrow> stable I (f x)) \<Longrightarrow> stable I (for_io f xs)"
  unfolding stable_def by (rule crash_ok_for) auto

lemma stable_if [stable_rules]:
  "(b \<Longrightarrow> stable I m) \<Longrightarrow> (\<not> b \<Longrightarrow> stable I n) \<Longrightarrow> stable I (if b then m else n)"
  by simp

lemma stable_case_option [stable_rules]:
  "(x = None \<Longrightarrow> stable I m) \<Longrightarrow> (\<And>a. x = Some a \<Longrightarrow> stable I (k a)) \<Longrightarrow>
     stable I (case x of None \<Rightarrow> m | Some a \<Rightarrow> k a)"
  by (cases x) auto

lemma stable_case_prod [stable_rules]:
  "(\<And>a b. x = (a, b) \<Longrightarrow> stable I (k a b)) \<Longrightarrow> stable I (case x of (a, b) \<Rightarrow> k a b)"
  by (cases x) auto

lemma stable_update:
  assumes "\<And>s d. I s \<Longrightarrow> g s = Some d \<Longrightarrow> I (upd d s)"
  shows "stable I (bind_io (look g) (\<lambda>d. bind_io (from_option e d) (\<lambda>d'. change (upd d'))))"
  using assms by (auto simp: stable_def crash_ok_def io_basics split: option.split)

lemma stable_final:
  assumes "stable I m" and "I s" and "m s = (r, tr)"
  shows "list_all I tr" "I (final_state s tr)"
proof -
  show all: "list_all I tr"
    using assms by (auto simp: stable_def crash_ok_def)
  show "I (final_state s tr)"
    using all assms(2) by (auto simp: final_state_def list_all_iff)
qed

lemma stable_conj: "stable I m \<Longrightarrow> stable J m \<Longrightarrow> stable (\<lambda>s. I s \<and> J s) m"
  by (auto simp: stable_def crash_ok_def list_all_iff)

lemma crash_ok_conj:
  assumes "stable I m" and "crash_ok (\<lambda>_. True) m (\<lambda>_. True) Q"
  shows "crash_ok I m I (\<lambda>a s. I s \<and> Q a s)"
  using assms by (auto simp: stable_def crash_ok_def list_all_iff)

text \<open>A crash state of a run: the state before it, or one it went through.\<close>

definition crash_states :: "'a io \<Rightarrow> dl_fs \<Rightarrow> dl_fs set" where
  "crash_states m s = insert s (set (snd (m s)))"

lemma stable_states: "stable I m \<Longrightarrow> I s \<Longrightarrow> t \<in> crash_states m s \<Longrightarrow> I t"
  by (auto simp: stable_def crash_ok_def crash_states_def list_all_iff)

lemma crash_ok_states:
  assumes "crash_ok P m I Q" and "P s" and "I s"
  shows "\<forall>t \<in> crash_states m s. I t"
  using assms by (auto simp: crash_ok_def crash_states_def list_all_iff)

section \<open>Runs\<close>

text \<open>How a program ends and in which state.\<close>

definition ends :: "'a io \<Rightarrow> dl_fs \<Rightarrow> 'a run \<Rightarrow> dl_fs \<Rightarrow> bool" where
  "ends m s r s' = (fst (m s) = r \<and> final_state s (snd (m s)) = s')"

named_theorems ends_rules \<open>runs of composed programs\<close>

lemma ends_basic [ends_rules]:
  "ends (ret a) s (Done a) s" "ends (quit c) s (Exit c) s" "ends (look f) s (Done (f s)) s"
  "ends (change g) s (Done ()) (g s)" "ends (from_option e (Some a)) s (Done a) s"
  "ends (require e True) s (Done ()) s"
  by (simp_all add: ends_def io_basics)

lemma ends_bind:
  "ends m s (Done a) s1 \<Longrightarrow> ends (k a) s1 r s2 \<Longrightarrow> ends (bind_io m k) s r s2"
  by (auto simp: ends_def bind_io_def split: prod.split run.split)

lemma ends_bind_look: "ends (k (f s)) s r s' \<Longrightarrow> ends (bind_io (look f) k) s r s'"
  by (rule ends_bind [OF ends_basic(3)])

lemma ends_bind_change: "ends (k ()) (g s) r s' \<Longrightarrow> ends (bind_io (change g) k) s r s'"
  by (rule ends_bind [OF ends_basic(4)])

lemma ends_bind_option: "ends (k a) s r s' \<Longrightarrow> ends (bind_io (from_option e (Some a)) k) s r s'"
  by (rule ends_bind [OF ends_basic(5)])

lemma ends_unique: "ends m s r s' \<Longrightarrow> ends m s r' s'' \<Longrightarrow> r = r' \<and> s' = s''"
  by (simp add: ends_def)

lemma ends_state: "ends m s r s' \<Longrightarrow> s' \<in> crash_states m s"
  by (auto simp: ends_def crash_states_def final_state_def)

lemma ends_Fail: "ends (stop e) s (Fail e) s" "ends (from_option e None) s (Fail e) s"
  "ends (require e False) s (Fail e) s"
  "ends m s (Fail e) s' \<Longrightarrow> ends (bind_io m k) s (Fail e) s'"
  by (auto simp: ends_def io_basics split: prod.split)

lemma ends_try: "ends m s (Done a) s' \<Longrightarrow> ends (try_io m) s (Done (Some a)) s'"
  "ends m s (Fail e) s' \<Longrightarrow> ends (try_io m) s (Done None) s'"
  by (auto simp: ends_def try_io_def split: prod.split)

text \<open>The crash states of a composed program.\<close>

lemma crash_bind_left: "t \<in> crash_states m s \<Longrightarrow> t \<in> crash_states (bind_io m k) s"
  by (auto simp: crash_states_def bind_io_def split: prod.split run.split)

lemma crash_bind_right:
  "ends m s (Done a) s1 \<Longrightarrow> t \<in> crash_states (k a) s1 \<Longrightarrow> t \<in> crash_states (bind_io m k) s"
proof -
  assume m: "ends m s (Done a) s1" and t: "t \<in> crash_states (k a) s1"
  obtain tr where tr: "m s = (Done a, tr)" "final_state s tr = s1" using m by (cases "m s") (auto simp: ends_def)
  have "s1 \<in> crash_states m s" by (rule ends_state [OF m])
  with t tr show ?thesis by (auto simp: crash_states_def bind_io_def split: prod.split)
qed

lemma crash_try: "crash_states (try_io m) s = crash_states m s"
  by (auto simp: crash_states_def try_io_def split: prod.split run.split)

end
