(* ===== verification/DockerStore.thy ===== *)
theory DockerStore
  imports DockerFs
begin

text \<open>
  The image store of \<^verbatim>\<open>dockerloader/src/lib.rs\<close>: downloading manifests and layers, extracting an
  image, and cleaning up. The registry client, the JSON and tar libraries and the generator of
  unique names are parameters, gathered in the record \<open>deps\<close>.
\<close>

section \<open>Manifests and third-party code\<close>

record OciDescriptor =
  digest :: string

record OciImageManifest =
  config :: OciDescriptor
  layers :: "OciDescriptor list"

datatype OciManifest = Image OciImageManifest | ImageIndex "string list"

text \<open>
  A reference is its text. \<open>write_accepts\<close> is the number of bytes that one call of
  \<^verbatim>\<open>AsyncWriteExt::write\<close> takes of a buffer, which may be fewer than all. A streamed chunk is
  \<open>None\<close> when the stream reports an error there.
\<close>

record deps =
  parse_reference :: "string \<Rightarrow> string option"
  pull_manifest :: "string \<Rightarrow> (OciManifest \<times> string) option"
  reference_digest :: "string \<Rightarrow> string option"
  clone_with_digest :: "string \<Rightarrow> string \<Rightarrow> string"
  pull_blob :: "string \<Rightarrow> string \<Rightarrow> string option"
  pull_blob_stream :: "string \<Rightarrow> string \<Rightarrow> string option list option"
  current_platform_resolver :: "string list \<Rightarrow> string option"
  manifest_from_slice :: "string \<Rightarrow> OciManifest option"
  image_to_json :: "OciImageManifest \<Rightarrow> string"
  image_from_json :: "string \<Rightarrow> OciImageManifest option"
  write_accepts :: "string \<Rightarrow> nat"
  unpack :: "string \<Rightarrow> tree \<Rightarrow> tree option"
  new_uuid :: "dl_fs \<Rightarrow> string"

section \<open>Temporary files\<close>

definition TMP :: string where "TMP = ''tmp-''"
definition REMOVING :: string where "REMOVING = ''removing-''"

definition strip_prefix :: "string \<Rightarrow> string \<Rightarrow> string option" where
  "strip_prefix p s = (if prefix p s then Some (drop (length p) s) else None)"

text \<open>
  The first loop of \<^verbatim>\<open>clean_tmp_in_dir\<close>: one rename per temporary entry. A rename replaces a
  file of that name; onto a directory it fails. The second loop deletes an entry at a time, a
  directory file by file.
\<close>

definition rename_entry :: "bool \<Rightarrow> string \<Rightarrow> string \<Rightarrow> 'a dir \<Rightarrow> 'a dir option" where
  "rename_entry is_dir old new d =
     (case map_of d old of
        None \<Rightarrow> None
      | Some x \<Rightarrow>
          (if is_dir \<and> map_of d new \<noteq> None then None
           else Some (AList.update new x (AList.delete old d))))"

definition mark_tmp ::
  "bool \<Rightarrow> (dl_fs \<Rightarrow> 'a dir) \<Rightarrow> ('a dir \<Rightarrow> dl_fs \<Rightarrow> dl_fs) \<Rightarrow> string \<Rightarrow> unit io" where
  "mark_tmp is_dir sel upd old_name =
     (case strip_prefix TMP old_name of
        None \<Rightarrow> ret ()
      | Some trimmed \<Rightarrow>
          bind_io (look (\<lambda>s. rename_entry is_dir old_name (REMOVING @ trimmed) (sel s))) (\<lambda>d.
          bind_io (from_option IoError d) (\<lambda>d'. change (upd d'))))"

definition remove_file ::
  "(dl_fs \<Rightarrow> 'a dir) \<Rightarrow> ('a dir \<Rightarrow> dl_fs \<Rightarrow> dl_fs) \<Rightarrow> string \<Rightarrow> unit io" where
  "remove_file sel upd name =
     bind_io (look (\<lambda>s. map_of (sel s) name)) (\<lambda>x.
     bind_io (require IoError (x \<noteq> None)) (\<lambda>_.
       change (\<lambda>s. upd (AList.delete name (sel s)) s)))"

text \<open>\<^verbatim>\<open>remove_dir_all\<close> removes the files of a directory one after the other, then the directory.\<close>

definition remove_tree_file :: "string \<Rightarrow> string \<Rightarrow> unit io" where
  "remove_tree_file name file =
     change (\<lambda>s. s\<lparr>extracted := AList.map_entry name (AList.delete file) (extracted s)\<rparr>)"

definition remove_dir_all :: "string \<Rightarrow> unit io" where
  "remove_dir_all name =
     bind_io (look (\<lambda>s. map_of (extracted s) name)) (\<lambda>t.
     bind_io (from_option IoError t) (\<lambda>files.
     bind_io (for_io (remove_tree_file name) (map fst files)) (\<lambda>_.
       change (\<lambda>s. s\<lparr>extracted := AList.delete name (extracted s)\<rparr>))))"

definition clean_tmp_in_dir ::
  "bool \<Rightarrow> (dl_fs \<Rightarrow> 'a dir) \<Rightarrow> ('a dir \<Rightarrow> dl_fs \<Rightarrow> dl_fs) \<Rightarrow> (string \<Rightarrow> unit io) \<Rightarrow> unit io" where
  "clean_tmp_in_dir is_dir sel upd remove =
     bind_io (look (\<lambda>s. map fst (sel s))) (\<lambda>names.
     bind_io (for_io (mark_tmp is_dir sel upd) names) (\<lambda>_.
     bind_io (look (\<lambda>s. map fst (sel s))) (\<lambda>names'.
       for_io remove (filter (prefix REMOVING) names'))))"

abbreviation set_blobs :: "string dir \<Rightarrow> dl_fs \<Rightarrow> dl_fs" where
  "set_blobs d s \<equiv> s\<lparr>blobs := d\<rparr>"
abbreviation set_images :: "string dir \<Rightarrow> dl_fs \<Rightarrow> dl_fs" where
  "set_images d s \<equiv> s\<lparr>images := d\<rparr>"
abbreviation set_extracted :: "tree dir \<Rightarrow> dl_fs \<Rightarrow> dl_fs" where
  "set_extracted d s \<equiv> s\<lparr>extracted := d\<rparr>"

definition clean_tmp_all :: "unit io" where
  "clean_tmp_all =
     bind_io (try_io (clean_tmp_in_dir False blobs set_blobs (remove_file blobs set_blobs))) (\<lambda>_.
     bind_io (try_io (clean_tmp_in_dir False images set_images (remove_file images set_images))) (\<lambda>_.
     bind_io (try_io (clean_tmp_in_dir True extracted set_extracted remove_dir_all)) (\<lambda>_. ret ())))"

section \<open>Downloading\<close>

text \<open>The loop over the stream: each chunk is written with one call of \<^verbatim>\<open>write\<close>.\<close>

fun write_chunks :: "deps \<Rightarrow> string \<Rightarrow> string option list \<Rightarrow> unit io" where
  "write_chunks D tmp [] = ret ()"
| "write_chunks D tmp (None # cs) = stop RegistryError"
| "write_chunks D tmp (Some chunk # cs) =
     bind_io (change (\<lambda>s. s\<lparr>blobs := AList.map_entry tmp (\<lambda>old. old @ take (write_accepts D chunk) chunk) (blobs s)\<rparr>))
       (\<lambda>_. write_chunks D tmp cs)"

definition rename_blob :: "string \<Rightarrow> string \<Rightarrow> unit io" where
  "rename_blob old new =
     bind_io (look (\<lambda>s. rename_entry False old new (blobs s))) (\<lambda>d.
     bind_io (from_option IoError d) (\<lambda>d'. change (set_blobs d')))"

definition download_layer :: "deps \<Rightarrow> string \<Rightarrow> string \<Rightarrow> unit io" where
  "download_layer D img descriptor =
     bind_io (look (\<lambda>s. map_of (blobs s) descriptor \<noteq> None)) (\<lambda>there.
       if there then ret ()
       else
         bind_io (look (\<lambda>s. TMP @ new_uuid D s)) (\<lambda>tmp.
         bind_io (from_option RegistryError (pull_blob_stream D img descriptor)) (\<lambda>stream.
         bind_io (change (\<lambda>s. s\<lparr>blobs := AList.update tmp [] (blobs s)\<rparr>)) (\<lambda>_.
         bind_io (write_chunks D tmp stream) (\<lambda>_.
           rename_blob tmp descriptor)))))"

definition pull_manifest_maybe_blob :: "deps \<Rightarrow> string \<Rightarrow> (OciManifest \<times> string) io" where
  "pull_manifest_maybe_blob D reference =
     (case pull_manifest D reference of
        Some r \<Rightarrow> ret r
      | None \<Rightarrow>
          bind_io (from_option RegistryError (reference_digest D reference)) (\<lambda>dg.
          bind_io (from_option RegistryError (pull_blob D reference dg)) (\<lambda>bs.
          bind_io (from_option JsonError (manifest_from_slice D bs)) (\<lambda>m. ret (m, dg)))))"

definition download_manifest :: "deps \<Rightarrow> string \<Rightarrow> (string \<times> OciImageManifest \<times> string) io" where
  "download_manifest D reference =
     bind_io (pull_manifest_maybe_blob D reference) (\<lambda>(manifest, sha).
       case manifest of
         Image img \<Rightarrow> ret (reference, img, sha)
       | ImageIndex index \<Rightarrow>
           bind_io (from_option Bail (current_platform_resolver D index)) (\<lambda>dg.
             let new_reference = clone_with_digest D reference dg in
             bind_io (pull_manifest_maybe_blob D new_reference) (\<lambda>(manifest', sha').
               case manifest' of
                 Image img \<Rightarrow> ret (new_reference, img, sha')
               | ImageIndex _ \<Rightarrow> stop Bail)))"

definition rename_image :: "string \<Rightarrow> string \<Rightarrow> unit io" where
  "rename_image old new =
     bind_io (look (\<lambda>s. rename_entry False old new (images s))) (\<lambda>d.
     bind_io (from_option IoError d) (\<lambda>d'. change (set_images d')))"

definition download_image :: "deps \<Rightarrow> string \<Rightarrow> string io" where
  "download_image D reference =
     bind_io (look (\<lambda>s. TMP @ new_uuid D s)) (\<lambda>tmp.
     bind_io (download_manifest D reference) (\<lambda>(reference', manifest, sha).
     bind_io (change (\<lambda>s. s\<lparr>images := AList.update tmp (image_to_json D manifest) (images s)\<rparr>)) (\<lambda>_.
     bind_io (for_io (\<lambda>l. download_layer D reference' (digest l)) (layers manifest)) (\<lambda>_.
     bind_io (rename_image tmp sha) (\<lambda>_. ret sha)))))"

section \<open>Extracting\<close>

definition EXTRACTED_DIR :: string where
  "EXTRACTED_DIR = ''/data/dockerloader/storage/v1/extracted''"

definition join :: "string \<Rightarrow> string \<Rightarrow> string" where
  "join p q = p @ ''/'' @ q"

text \<open>The layers are unpacked over each other into the temporary directory.\<close>

definition unpack_layer :: "deps \<Rightarrow> string \<Rightarrow> OciDescriptor \<Rightarrow> unit io" where
  "unpack_layer D tmp layer =
     bind_io (look (\<lambda>s. (map_of (blobs s) (digest layer), map_of (extracted s) tmp))) (\<lambda>(blob, dir).
     bind_io (from_option IoError blob) (\<lambda>b.
     bind_io (from_option IoError dir) (\<lambda>t.
     bind_io (from_option IoError (unpack D b t)) (\<lambda>t'.
       change (\<lambda>s. s\<lparr>extracted := AList.update tmp t' (extracted s)\<rparr>)))))"

definition rename_extracted :: "string \<Rightarrow> string \<Rightarrow> unit io" where
  "rename_extracted old new =
     bind_io (look (\<lambda>s. rename_entry True old new (extracted s))) (\<lambda>d.
     bind_io (from_option IoError d) (\<lambda>d'. change (set_extracted d')))"

definition extract_image :: "deps \<Rightarrow> string \<Rightarrow> string io" where
  "extract_image D sha =
     bind_io (look (\<lambda>s. map_of (extracted s) sha \<noteq> None)) (\<lambda>there.
       if there then ret (join EXTRACTED_DIR sha)
       else
         bind_io (look (\<lambda>s. TMP @ new_uuid D s)) (\<lambda>tmp.
         bind_io (change (\<lambda>s. if map_of (extracted s) tmp \<noteq> None then s
                              else s\<lparr>extracted := AList.update tmp [] (extracted s)\<rparr>)) (\<lambda>_.
         bind_io (look (\<lambda>s. map_of (images s) sha)) (\<lambda>json.
         bind_io (from_option IoError json) (\<lambda>j.
         bind_io (from_option JsonError (image_from_json D j)) (\<lambda>manifest.
         bind_io (for_io (unpack_layer D tmp) (layers manifest)) (\<lambda>_.
         bind_io (rename_extracted tmp sha) (\<lambda>_. ret (join EXTRACTED_DIR sha)))))))))"

section \<open>Cleaning up\<close>

definition manifest_blobs :: "deps \<Rightarrow> dl_fs \<Rightarrow> string \<Rightarrow> string list" where
  "manifest_blobs D s sha =
     (case map_of (images s) sha of
        None \<Rightarrow> []
      | Some j \<Rightarrow>
          (case image_from_json D j of
             None \<Rightarrow> []
           | Some m \<Rightarrow> digest (config m) # map digest (layers m)))"

definition remove_unless ::
  "string list \<Rightarrow> (dl_fs \<Rightarrow> 'a dir) \<Rightarrow> (string \<Rightarrow> unit io) \<Rightarrow> unit io" where
  "remove_unless keep sel remove =
     bind_io (look (\<lambda>s. map fst (sel s))) (\<lambda>names.
       for_io (\<lambda>n. bind_io (try_io (remove n)) (\<lambda>_. ret ())) (filter (\<lambda>n. n \<notin> set keep) names))"

definition cleanup_storage :: "deps \<Rightarrow> string list \<Rightarrow> unit io" where
  "cleanup_storage D keep_shas =
     bind_io clean_tmp_all (\<lambda>_.
     bind_io (look (\<lambda>s. concat (map (manifest_blobs D s) keep_shas))) (\<lambda>referenced_blobs.
     bind_io (remove_unless keep_shas extracted remove_dir_all) (\<lambda>_.
     bind_io (remove_unless keep_shas images (remove_file images set_images)) (\<lambda>_.
       remove_unless referenced_blobs blobs (remove_file blobs set_blobs)))))"

section \<open>What the store operations leave alone\<close>

text \<open>
  The names of finished entries: no separator, and neither of the prefixes that mark temporary
  entries. \<open>holds_image F n x\<close> fixes a fact about everything outside the store and, unless \<open>x\<close> is \<open>None\<close>,
  the contents of one finished image.
\<close>

definition plain_name :: "string \<Rightarrow> bool" where
  "plain_name n = (n \<noteq> [] \<and> CHR ''/'' \<notin> set n \<and> \<not> prefix TMP n \<and> \<not> prefix REMOVING n)"

definition outside_store :: "dl_fs \<Rightarrow> dl_fs" where
  "outside_store s = s\<lparr>blobs := [], images := [], extracted := []\<rparr>"

definition holds_image :: "(dl_fs \<Rightarrow> bool) \<Rightarrow> string \<Rightarrow> tree option \<Rightarrow> dl_fs \<Rightarrow> bool" where
  "holds_image F n x s = (F (outside_store s) \<and> (x = None \<or> map_of (extracted s) n = x))"

lemma outside_store_upd [simp]:
  "outside_store (s\<lparr>blobs := b\<rparr>) = outside_store s" "outside_store (s\<lparr>images := i\<rparr>) = outside_store s"
  "outside_store (s\<lparr>extracted := x\<rparr>) = outside_store s"
  by (simp_all add: outside_store_def)

lemma plain_not_tmp: "plain_name n \<Longrightarrow> n \<noteq> TMP @ u" "plain_name n \<Longrightarrow> n \<noteq> REMOVING @ u"
  by (auto simp: plain_name_def)

lemma map_of_map_entry:
  "map_of (AList.map_entry k f d) n = (if n = k then map_option f (map_of d k) else map_of d n)"
  by (induction d) auto

lemmas dir_simps = update_conv' delete_conv' map_of_map_entry

lemma stable_blobs [stable_rules]:
  "stable (holds_image F n x) (change (\<lambda>s. s\<lparr>blobs := f s\<rparr>))"
  "stable (holds_image F n x) (change (\<lambda>s. s\<lparr>images := f s\<rparr>))"
  by (auto intro!: stable_change simp: holds_image_def)

lemma rename_blob_stable [stable_rules]: "stable (holds_image F n x) (rename_blob old new)"
  "stable (holds_image F n x) (rename_image old new)"
  unfolding rename_blob_def rename_image_def by (intro stable_rules)+

lemma write_chunks_stable [stable_rules]: "stable (holds_image F n x) (write_chunks D tmp cs)"
  by (induction D tmp cs rule: write_chunks.induct) (auto intro: stable_rules)

lemma download_layer_stable [stable_rules]: "stable (holds_image F n x) (download_layer D r d)"
  unfolding download_layer_def by (intro stable_rules)

lemma pull_manifest_stable [stable_rules]: "stable I (pull_manifest_maybe_blob D r)"
  unfolding pull_manifest_maybe_blob_def by (auto split: option.split intro!: stable_rules)

lemma download_manifest_stable [stable_rules]: "stable I (download_manifest D r)"
  unfolding download_manifest_def Let_def
  by (auto split: OciManifest.split intro!: stable_rules)

lemma download_image_stable [stable_rules]: "stable (holds_image F n x) (download_image D r)"
  unfolding download_image_def by (intro stable_rules)

lemma unpack_layer_stable:
  assumes "n \<noteq> tmp"
  shows "stable (holds_image F n x) (unpack_layer D tmp l)"
  unfolding unpack_layer_def
  by (intro stable_rules stable_change) (use assms in \<open>simp add: holds_image_def dir_simps\<close>)

lemma rename_extracted_stable:
  assumes "n \<noteq> tmp"
  shows "stable (holds_image F n x) (rename_extracted tmp new)"
  unfolding rename_extracted_def
  by (rule stable_update)
    (use assms in \<open>auto simp: holds_image_def rename_entry_def dir_simps split: option.splits if_splits\<close>)

lemma extract_image_stable [stable_rules]:
  assumes "plain_name n"
  shows "stable (holds_image F n x) (extract_image D sha)"
proof -
  have look_tmp: "stable (holds_image F n x) (bind_io (look (\<lambda>s. TMP @ new_uuid D s)) k)"
    if "\<And>u. stable (holds_image F n x) (k (TMP @ u))" for k :: "string \<Rightarrow> string io"
    using that by (fastforce simp: stable_def crash_ok_def bind_io_def look_def)
  show ?thesis
    unfolding extract_image_def
    by (intro stable_rules look_tmp unpack_layer_stable rename_extracted_stable stable_change)
      (use plain_not_tmp [OF assms] in \<open>auto simp: holds_image_def dir_simps\<close>)
qed

lemma remove_dir_all_stable:
  assumes "n \<noteq> m"
  shows "stable (holds_image F n x) (remove_dir_all m)"
  unfolding remove_dir_all_def remove_tree_file_def
  by (intro stable_rules stable_change) (use assms in \<open>auto simp: holds_image_def dir_simps\<close>)

lemma remove_file_stable [stable_rules]:
  "stable (holds_image F n x) (remove_file blobs set_blobs m)"
  "stable (holds_image F n x) (remove_file images set_images m)"
  unfolding remove_file_def by (intro stable_rules)+

lemma mark_tmp_stable [stable_rules]:
  assumes "plain_name n"
  shows "stable (holds_image F n x) (mark_tmp d blobs set_blobs old)"
    "stable (holds_image F n x) (mark_tmp d images set_images old)"
    "stable (holds_image F n x) (mark_tmp d extracted set_extracted old)"
  unfolding mark_tmp_def
    apply (intro stable_rules)
   apply (intro stable_rules)
  apply (cases "strip_prefix TMP old")
   apply (simp add: stable_rules)
  apply (simp, rule stable_update)
  using assms
  by (auto simp: holds_image_def rename_entry_def dir_simps strip_prefix_def plain_name_def
      split: option.splits if_splits)

lemma clean_tmp_all_stable [stable_rules]:
  assumes "plain_name n"
  shows "stable (holds_image F n x) clean_tmp_all"
  unfolding clean_tmp_all_def clean_tmp_in_dir_def
  by (intro stable_rules assms stable_for_set remove_dir_all_stable)
    (use assms in \<open>auto simp: plain_name_def\<close>)

lemma cleanup_storage_stable:
  assumes "plain_name n" and "n \<in> set keep"
  shows "stable (holds_image F n x) (cleanup_storage D keep)"
  unfolding cleanup_storage_def remove_unless_def
  by (intro stable_rules assms(1) stable_for_set remove_dir_all_stable) (use assms in auto)

text \<open>Without an image to look after, the clean-up leaves alone what is outside the store.\<close>

lemma cleanup_storage_outside:
  assumes "plain_name n"
  shows "stable (holds_image F n None) (cleanup_storage D keep)"
proof -
  have "stable (holds_image F n None) (remove_dir_all m)" for m
    unfolding remove_dir_all_def remove_tree_file_def
    by (intro stable_rules stable_change) (auto simp: holds_image_def)
  then show ?thesis
    unfolding cleanup_storage_def clean_tmp_all_def clean_tmp_in_dir_def remove_unless_def
    by (intro stable_rules assms)
qed

end
