(* ===== verification/DockerUpdate.thy ===== *)
theory DockerUpdate
  imports DockerStore
begin

text \<open>
  The application's side of \<^verbatim>\<open>dockerloader/src/lib.rs\<close>: finding the running image, its environment
  file, the first download, the check for an update and the commit of a trial, as the program that
  was loaded from an image runs them. The path of the executable and the environment are arguments;
  \<^verbatim>\<open>current_exe\<close> resolves symbolic links, so the path is the link's target.
\<close>

section \<open>Links into the store\<close>

definition RESTART_EXIT_CODE :: int where "RESTART_EXIT_CODE = 42"

definition entry_path :: "string \<Rightarrow> string" where
  "entry_path sha = join (join EXTRACTED_DIR sha) ''entrypoint''"

text \<open>The file a path below the directory of extracted images names.\<close>

definition resolve :: "dl_fs \<Rightarrow> string \<Rightarrow> string option" where
  "resolve s p =
     (case strip_prefix (EXTRACTED_DIR @ ''/'') p of
        None \<Rightarrow> None
      | Some r \<Rightarrow>
          (let sha = takeWhile (\<lambda>c. c \<noteq> CHR ''/'') r in
           case map_of (extracted s) sha of
             None \<Rightarrow> None
           | Some t \<Rightarrow> map_of t (drop (length sha + 1) r)))"

text \<open>\<^verbatim>\<open>try_exists\<close> on a symbolic link follows it: a dangling link does not exist.\<close>

definition link_exists :: "dl_fs \<Rightarrow> string option \<Rightarrow> bool" where
  "link_exists s l = (case l of None \<Rightarrow> False | Some p \<Rightarrow> resolve s p \<noteq> None)"

section \<open>The running image and its environment\<close>

fun find_sha :: "string list \<Rightarrow> string option" where
  "find_sha (p # q # ps) = (if p = ''extracted'' then Some q else find_sha (q # ps))"
| "find_sha _ = None"

definition get_running_image_sha :: "string \<Rightarrow> string io" where
  "get_running_image_sha exe = from_option Bail (find_sha (split_on (CHR ''/'') exe))"

type_synonym env = "(string \<times> string) list"

text \<open>\<^verbatim>\<open>str::lines\<close>: a terminated line loses its newline and a carriage return before it.\<close>

definition strip_cr :: "string \<Rightarrow> string" where
  "strip_cr l = (if l \<noteq> [] \<and> last l = CHR 0x0D then butlast l else l)"

definition str_lines :: "string \<Rightarrow> string list" where
  "str_lines s =
     (let ps = split_on (CHR 0x0A) s in
      map strip_cr (butlast ps) @ (if last ps = [] then [] else [last ps]))"

fun split_once :: "char \<Rightarrow> string \<Rightarrow> (string \<times> string) option" where
  "split_once sep [] = None"
| "split_once sep (c # cs) =
     (if c = sep then Some ([], cs)
      else map_option (\<lambda>(a, b). (c # a, b)) (split_once sep cs))"

text \<open>\<^verbatim>\<open>set_var\<close> panics on an empty name and on NUL bytes.\<close>

definition set_var :: "string \<Rightarrow> string \<Rightarrow> env \<Rightarrow> env option" where
  "set_var k v e =
     (if k = [] \<or> CHR 0x00 \<in> set k \<or> CHR 0x00 \<in> set v then None else Some (AList.update k v e))"

fun apply_env_lines :: "string list \<Rightarrow> env \<Rightarrow> env option" where
  "apply_env_lines [] e = Some e"
| "apply_env_lines (l # ls) e =
     (case split_once (CHR ''='') l of
        None \<Rightarrow> apply_env_lines ls e
      | Some (k, v) \<Rightarrow>
          (case set_var k v e of None \<Rightarrow> None | Some e' \<Rightarrow> apply_env_lines ls e'))"

definition apply_image_env_vars :: "string \<Rightarrow> env \<Rightarrow> env io" where
  "apply_image_env_vars sha e =
     bind_io (look (\<lambda>s. resolve s (join (join EXTRACTED_DIR sha) ''.env''))) (\<lambda>f.
     bind_io (from_option IoError f) (\<lambda>text.
       from_option EnvPanic (apply_env_lines (str_lines text) e)))"

definition is_cli_mode :: "string list \<Rightarrow> string list option" where
  "is_cli_mode args = (if 1 < length args \<and> args ! 1 = ''cli'' then Some (drop 2 args) else None)"

definition init_dockerloaded :: "string \<Rightarrow> string list \<Rightarrow> env \<Rightarrow> env io" where
  "init_dockerloaded exe args e =
     bind_io (get_running_image_sha exe) (\<lambda>current_sha.
     bind_io (apply_image_env_vars current_sha e) (\<lambda>e'.
       if is_cli_mode args = None then
         bind_io (look (\<lambda>s. resolve s (join (join EXTRACTED_DIR current_sha) ''etc/ssl/certs/ca-certificates.crt'')))
           (\<lambda>bundled.
             case bundled of
               None \<Rightarrow> ret e'
             | Some certs \<Rightarrow> bind_io (change (\<lambda>s. s\<lparr>root_ca_certs := Some certs\<rparr>)) (\<lambda>_. ret e'))
       else ret e'))"

section \<open>Updates\<close>

definition download_entrypoint_initial :: "deps \<Rightarrow> string \<Rightarrow> unit io" where
  "download_entrypoint_initial D reference =
     bind_io (from_option RegistryError (parse_reference D reference)) (\<lambda>r.
     bind_io (download_image D r) (\<lambda>sha.
     bind_io (extract_image D sha) (\<lambda>extracted_path.
     bind_io (look (\<lambda>s. entrypoint s = None)) (\<lambda>free.
     bind_io (require IoError free) (\<lambda>_.
       change (\<lambda>s. s\<lparr>entrypoint := Some (join extracted_path ''entrypoint'')\<rparr>))))))"

text \<open>\<^verbatim>\<open>trim\<close> removes white space at both ends.\<close>

definition trim :: "string \<Rightarrow> string" where
  "trim s =
     (let ws = (\<lambda>c. c \<in> {CHR '' '', CHR 0x09, CHR 0x0A, CHR 0x0B, CHR 0x0C, CHR 0x0D}) in
      rev (dropWhile ws (rev (dropWhile ws s))))"

definition was_update_attempted :: "string \<Rightarrow> dl_fs \<Rightarrow> bool" where
  "was_update_attempted sha s =
     (case update_attempt s of None \<Rightarrow> False | Some a \<Rightarrow> trim a = sha)"

text \<open>
  The symbolic link for the supervisor is made under a temporary name and renamed. \<^verbatim>\<open>symlink\<close>
  fails when the name is taken, by a dangling link too.
\<close>

definition publish_attempt :: "string \<Rightarrow> unit io" where
  "publish_attempt new_entrypoint =
     bind_io (look (\<lambda>s. link_exists s (entrypoint_attempt_tmp s))) (\<lambda>stale.
     bind_io (if stale then change (\<lambda>s. s\<lparr>entrypoint_attempt_tmp := None\<rparr>) else ret ()) (\<lambda>_.
     bind_io (look (\<lambda>s. entrypoint_attempt_tmp s = None)) (\<lambda>free.
     bind_io (require IoError free) (\<lambda>_.
     bind_io (change (\<lambda>s. s\<lparr>entrypoint_attempt_tmp := Some new_entrypoint\<rparr>)) (\<lambda>_.
       change (\<lambda>s. s\<lparr>entrypoint_attempt := entrypoint_attempt_tmp s, entrypoint_attempt_tmp := None\<rparr>))))))"

text \<open>The download and hand-over of \<^verbatim>\<open>check_for_update\<close>, once it has decided to update.\<close>

definition attempt_update :: "deps \<Rightarrow> string \<Rightarrow> string \<Rightarrow> unit io" where
  "attempt_update D r new_sha =
     bind_io (download_image D r) (\<lambda>_.
     bind_io (extract_image D new_sha) (\<lambda>extracted_path.
     bind_io (change (\<lambda>s. s\<lparr>update_attempt := Some new_sha\<rparr>)) (\<lambda>_.
     bind_io (publish_attempt (join extracted_path ''entrypoint'')) (\<lambda>_.
       quit RESTART_EXIT_CODE))))"

definition check_for_update :: "deps \<Rightarrow> string \<Rightarrow> string \<Rightarrow> unit io" where
  "check_for_update D reference current_sha =
     bind_io (from_option RegistryError (parse_reference D reference)) (\<lambda>r.
     bind_io (download_manifest D r) (\<lambda>(r', _, new_sha).
       if current_sha = new_sha then ret ()
       else
         bind_io (look (was_update_attempted new_sha)) (\<lambda>tried.
           if tried then ret () else attempt_update D r' new_sha)))"

definition commit_trial :: "unit io" where
  "commit_trial =
     bind_io (look (\<lambda>s. link_exists s (entrypoint_attempting s))) (\<lambda>pending.
       if pending then
         bind_io (change (\<lambda>s. s\<lparr>entrypoint := entrypoint_attempting s, entrypoint_attempting := None\<rparr>)) (\<lambda>_.
         bind_io (look (\<lambda>s. update_attempt s \<noteq> None)) (\<lambda>marked.
           if marked then change (\<lambda>s. s\<lparr>update_attempt := None\<rparr>) else ret ()))
       else ret ())"

definition mark_ready :: "deps \<Rightarrow> string \<Rightarrow> env \<Rightarrow> unit io" where
  "mark_ready D exe e =
     bind_io (get_running_image_sha exe) (\<lambda>current_sha.
     bind_io (if map_of e ''DOCKERLOADER_TRIAL'' \<noteq> None then commit_trial else ret ()) (\<lambda>_.
     bind_io (try_io (cleanup_storage D [current_sha])) (\<lambda>_.
     bind_io (from_option EnvError (map_of e ''DOCKERLOADER_TARGET'')) (\<lambda>reference.
       check_for_update D reference current_sha))))"

section \<open>The background loop\<close>

text \<open>\<^verbatim>\<open>str::parse::<u64>\<close>: decimal digits with an optional plus sign, that fit 64 bits.\<close>

definition digit_val :: "char \<Rightarrow> nat option" where
  "digit_val c = (let n = of_char c :: nat in if 48 \<le> n \<and> n \<le> 57 then Some (n - 48) else None)"

fun parse_digits :: "nat \<Rightarrow> string \<Rightarrow> nat option" where
  "parse_digits acc [] = Some acc"
| "parse_digits acc (c # cs) =
     (case digit_val c of
        None \<Rightarrow> None
      | Some d \<Rightarrow> if u64_limit \<le> 10 * acc + d then None else parse_digits (10 * acc + d) cs)"

definition parse_u64 :: "string \<Rightarrow> nat option" where
  "parse_u64 s =
     (let ds = (if s \<noteq> [] \<and> s ! 0 = CHR ''+'' then drop 1 s else s) in
      if ds = [] then None else parse_digits 0 ds)"

definition update_interval_secs :: "env \<Rightarrow> nat" where
  "update_interval_secs e =
     (case Option.bind (map_of e ''DOCKERLOADER_UPDATE_INTERVAL_SECS'') parse_u64 of
        None \<Rightarrow> 300 | Some n \<Rightarrow> n)"

text \<open>One tick of the loop: an error is only logged. A period of zero makes the timer panic.\<close>

definition update_tick :: "deps \<Rightarrow> string \<Rightarrow> string \<Rightarrow> unit io" where
  "update_tick D reference exe =
     bind_io (try_io (bind_io (get_running_image_sha exe) (check_for_update D reference))) (\<lambda>_. ret ())"

fun update_ticks :: "deps \<Rightarrow> string \<Rightarrow> string \<Rightarrow> nat \<Rightarrow> unit io" where
  "update_ticks D reference exe 0 = ret ()"
| "update_ticks D reference exe (Suc n) =
     bind_io (update_tick D reference exe) (\<lambda>_. update_ticks D reference exe n)"

definition update_loop :: "deps \<Rightarrow> env \<Rightarrow> string \<Rightarrow> nat \<Rightarrow> unit io" where
  "update_loop D e exe n =
     bind_io (from_option EnvError (map_of e ''DOCKERLOADER_TARGET'')) (\<lambda>reference.
     bind_io (require EnvPanic (update_interval_secs e \<noteq> 0)) (\<lambda>_.
       update_ticks D reference exe n))"

section \<open>Lemmas on links and names\<close>

definition runnable :: "string \<Rightarrow> dl_fs \<Rightarrow> bool" where
  "runnable sha s = (\<exists>t x. map_of (extracted s) sha = Some t \<and> map_of t ''entrypoint'' = Some x)"

lemma resolve_join:
  assumes "plain_name sha"
  shows "resolve s (join (join EXTRACTED_DIR sha) f) =
    (case map_of (extracted s) sha of None \<Rightarrow> None | Some t \<Rightarrow> map_of t f)"
proof -
  have eq: "join (join EXTRACTED_DIR sha) f = (EXTRACTED_DIR @ ''/'') @ (sha @ CHR ''/'' # f)"
    by (simp add: join_def)
  have tw: "takeWhile (\<lambda>c. c \<noteq> CHR ''/'') (sha @ CHR ''/'' # f) = sha"
    using assms unfolding plain_name_def by (subst takeWhile_append2) auto
  have "strip_prefix (EXTRACTED_DIR @ ''/'') (join (join EXTRACTED_DIR sha) f) = Some (sha @ CHR ''/'' # f)"
    unfolding eq strip_prefix_def by (simp del: append_assoc)
  then show ?thesis
    by (simp add: resolve_def Let_def tw split: option.split)
qed

lemma link_exists_entry:
  "plain_name sha \<Longrightarrow> link_exists s (Some (entry_path sha)) \<longleftrightarrow> runnable sha s"
  by (auto simp: link_exists_def entry_path_def resolve_join runnable_def split: option.splits)

lemma find_sha_entry:
  assumes "plain_name sha"
  shows "find_sha (split_on (CHR ''/'') (entry_path sha)) = Some sha"
proof -
  have "entry_path sha = [] @ CHR ''/'' # ''data'' @ CHR ''/'' # ''dockerloader'' @ CHR ''/'' #
      ''storage'' @ CHR ''/'' # ''v1'' @ CHR ''/'' # ''extracted'' @ CHR ''/'' # sha @ CHR ''/'' # ''entrypoint''"
    by (simp add: entry_path_def join_def EXTRACTED_DIR_def)
  moreover have "CHR ''/'' \<notin> set sha" using assms by (simp add: plain_name_def)
  ultimately show ?thesis
    by (simp only: split_on_append list.set empty_iff not_False_eq_True) (simp add: split_on_append)
qed

lemma entry_path_inject [simp]: "entry_path a = entry_path b \<longleftrightarrow> a = b"
  by (simp add: entry_path_def join_def)

section \<open>What the application's calls keep\<close>

text \<open>
  What the registry client is relied on for: the digests it reports are plain names.
\<close>

definition digests_plain :: "deps \<Rightarrow> bool" where
  "digests_plain D =
     ((\<forall>r m sha. pull_manifest D r = Some (m, sha) \<longrightarrow> plain_name sha) \<and>
      (\<forall>r d. reference_digest D r = Some d \<longrightarrow> plain_name d))"

definition good_link :: "string option \<Rightarrow> bool" where
  "good_link l = (case l of None \<Rightarrow> True | Some p \<Rightarrow> \<exists>sha. plain_name sha \<and> p = entry_path sha)"

definition links_ok :: "dl_fs \<Rightarrow> bool" where
  "links_ok s = (good_link (entrypoint s) \<and> good_link (entrypoint_attempt s) \<and>
     good_link (entrypoint_attempt_tmp s) \<and> good_link (entrypoint_attempting s))"

lemma good_link_simps [simp]:
  "good_link None" "good_link (Some p) \<longleftrightarrow> (\<exists>sha. plain_name sha \<and> p = entry_path sha)"
  by (simp_all add: good_link_def)

lemma outside_store_links [simp]:
  "entrypoint (outside_store s) = entrypoint s"
  "entrypoint_attempt (outside_store s) = entrypoint_attempt s"
  "entrypoint_attempt_tmp (outside_store s) = entrypoint_attempt_tmp s"
  "entrypoint_attempting (outside_store s) = entrypoint_attempting s"
  "links_ok (outside_store s) = links_ok s"
  by (simp_all add: outside_store_def links_ok_def)

text \<open>
  \<open>frame E A n x\<close>: the stable version and the version on trial are \<open>E\<close> and \<open>A\<close>, all links lead to
  entry points of images, and image \<open>n\<close> is as \<open>x\<close> says.
\<close>

definition frame :: "string option \<Rightarrow> string option \<Rightarrow> string \<Rightarrow> tree option \<Rightarrow> dl_fs \<Rightarrow> bool" where
  "frame E A n x =
     holds_image (\<lambda>s. entrypoint s = E \<and> entrypoint_attempting s = A \<and> links_ok s) n x"

lemma pull_manifest_plain:
  assumes "digests_plain D" and "pull_manifest_maybe_blob D r s = (Done (m, sha), tr)"
  shows "plain_name sha"
  using assms
  by (auto simp: pull_manifest_maybe_blob_def digests_plain_def io_basics split: option.splits)

lemma download_manifest_plain:
  assumes "digests_plain D" and "download_manifest D r s = (Done (r', m, sha), tr)"
  shows "plain_name sha"
  using assms(2) pull_manifest_plain [OF assms(1)]
  by (fastforce simp: download_manifest_def Let_def bind_io_def ret_def stop_def from_option_def
      split: option.splits run.splits prod.splits OciManifest.splits)

lemma download_manifest_ok:
  assumes "digests_plain D"
  shows "crash_ok I (download_manifest D r) I (\<lambda>(r', m, sha) s. I s \<and> plain_name sha)"
  unfolding crash_ok_def
proof (intro allI impI)
  fix s assume "I s"
  obtain q tr where run: "download_manifest D r s = (q, tr)" by fastforce
  show "list_all I (snd (download_manifest D r s)) \<and>
    (\<forall>a. fst (download_manifest D r s) = Done a \<longrightarrow>
      (case a of (r', m, sha) \<Rightarrow> \<lambda>s. I s \<and> plain_name sha) (final_state s (snd (download_manifest D r s))))"
    using stable_final [OF download_manifest_stable [of I] \<open>I s\<close> run] download_manifest_plain [OF assms] run
    by auto
qed

lemma extract_image_stored:
  "crash_ok (\<lambda>_. True) (extract_image D sha) (\<lambda>_. True)
     (\<lambda>p s. p = join EXTRACTED_DIR sha \<and> map_of (extracted s) sha \<noteq> None)"
proof -
  have any: "crash_ok (\<lambda>_. True) m (\<lambda>_. True) (\<lambda>_ _. True)" for m :: "'a io"
    by (simp add: crash_ok_def list_all_iff)
  have rename: "crash_ok (\<lambda>_. True) (rename_extracted tmp sha) (\<lambda>_. True)
      (\<lambda>_ s. map_of (extracted s) sha \<noteq> None)" for tmp
    by (auto simp: crash_ok_def rename_extracted_def rename_entry_def io_basics dir_simps
        split: option.splits if_splits)
  have step: "crash_ok (\<lambda>_. True) (bind_io m k) (\<lambda>_. True) Q"
    if "\<And>a. crash_ok (\<lambda>_. True) (k a) (\<lambda>_. True) Q" for m :: "'a io" and k :: "'a \<Rightarrow> string io" and Q
    using that by (rule crash_ok_bind [OF any])
  have last: "crash_ok (\<lambda>s. map_of (extracted s) sha \<noteq> None) (ret (join EXTRACTED_DIR sha)) (\<lambda>_. True)
      (\<lambda>p s. p = join EXTRACTED_DIR sha \<and> map_of (extracted s) sha \<noteq> None)"
    by (simp add: crash_ok_def ret_def)
  have first: "crash_ok (\<lambda>_. True) (look (\<lambda>s. map_of (extracted s) sha \<noteq> None)) (\<lambda>_. True)
      (\<lambda>b s. b \<longrightarrow> map_of (extracted s) sha \<noteq> None)"
    by (simp add: crash_ok_def look_def)
  have pre: "crash_ok P m I Q" if "crash_ok (\<lambda>_. True) m I Q" for P I Q and m :: "string io"
    using that by (simp add: crash_ok_def)
  show ?thesis
    unfolding extract_image_def
  proof (rule crash_ok_bind [OF first])
    fix b
    show "crash_ok (\<lambda>s. b \<longrightarrow> map_of (extracted s) sha \<noteq> None)
        (if b then ret (join EXTRACTED_DIR sha) else
         bind_io (look (\<lambda>s. TMP @ new_uuid D s)) (\<lambda>tmp.
         bind_io (change (\<lambda>s. if map_of (extracted s) tmp \<noteq> None then s
                              else s\<lparr>extracted := AList.update tmp [] (extracted s)\<rparr>)) (\<lambda>_.
         bind_io (look (\<lambda>s. map_of (images s) sha)) (\<lambda>json.
         bind_io (from_option IoError json) (\<lambda>j.
         bind_io (from_option JsonError (image_from_json D j)) (\<lambda>manifest.
         bind_io (for_io (unpack_layer D tmp) (layers manifest)) (\<lambda>_.
         bind_io (rename_extracted tmp sha) (\<lambda>_. ret (join EXTRACTED_DIR sha)))))))))
      (\<lambda>_. True) (\<lambda>p s. p = join EXTRACTED_DIR sha \<and> map_of (extracted s) sha \<noteq> None)"
      using last
      by (cases b; simp only: if_True if_False simp_thms)
        (rule pre, rule step, rule step, rule step, rule step, rule step, rule step,
          rule crash_ok_bind [OF rename last])
  qed
qed

lemma frame_change [stable_rules]:
  "stable (frame E A n x) (change (\<lambda>s. s\<lparr>update_attempt := u s\<rparr>))"
  "stable (frame E A n x) (change (\<lambda>s. s\<lparr>root_ca_certs := u s\<rparr>))"
  "stable (frame E A n x) (change (\<lambda>s. s\<lparr>entrypoint_attempt_tmp := None\<rparr>))"
  "stable (frame E A n x)
     (change (\<lambda>s. s\<lparr>entrypoint_attempt := entrypoint_attempt_tmp s, entrypoint_attempt_tmp := None\<rparr>))"
  by (auto intro!: stable_change simp: frame_def holds_image_def links_ok_def outside_store_def)

lemma frame_store:
  "stable (holds_image (\<lambda>s. entrypoint s = E \<and> entrypoint_attempting s = A \<and> links_ok s) n x) m \<Longrightarrow>
     stable (frame E A n x) m"
  by (simp add: frame_def)

lemma publish_attempt_frame:
  assumes "plain_name sha"
  shows "stable (frame E A n x) (publish_attempt (entry_path sha))"
proof -
  have "stable (frame E A n x) (change (\<lambda>s. s\<lparr>entrypoint_attempt_tmp := Some (entry_path sha)\<rparr>))"
    using assms
    by (auto intro!: stable_change simp: frame_def holds_image_def links_ok_def outside_store_def)
  then show ?thesis
    unfolding publish_attempt_def by (intro stable_rules)
qed

lemma attempt_update_frame:
  assumes n: "plain_name n" and sha: "plain_name sha"
  shows "stable (frame E A n x) (attempt_update D r sha)"
proof -
  let ?F = "frame E A n x"
  have ext: "crash_ok ?F (extract_image D sha) ?F
      (\<lambda>p s. ?F s \<and> p = join EXTRACTED_DIR sha \<and> map_of (extracted s) sha \<noteq> None)"
    by (rule crash_ok_conj [OF frame_store [OF extract_image_stable [OF n]] extract_image_stored])
  have rest: "stable ?F (bind_io (change (\<lambda>s. s\<lparr>update_attempt := Some sha\<rparr>)) (\<lambda>_.
      bind_io (publish_attempt (entry_path sha)) (\<lambda>_. quit RESTART_EXIT_CODE :: unit io)))"
    by (intro stable_rules publish_attempt_frame sha)
  have tail: "crash_ok (\<lambda>s. ?F s \<and> p = join EXTRACTED_DIR sha \<and> map_of (extracted s) sha \<noteq> None)
      (bind_io (change (\<lambda>s. s\<lparr>update_attempt := Some sha\<rparr>)) (\<lambda>_.
       bind_io (publish_attempt (join p ''entrypoint'')) (\<lambda>_. quit RESTART_EXIT_CODE :: unit io))) ?F (\<lambda>_. ?F)"
    for p
    using rest by (cases "p = join EXTRACTED_DIR sha") (auto simp: stable_def crash_ok_def entry_path_def)
  have get: "crash_ok ?F (download_image D r) ?F (\<lambda>_. ?F)"
    using frame_store [OF download_image_stable] by (simp add: stable_def)
  show ?thesis
    unfolding stable_def attempt_update_def
    by (rule crash_ok_bind [OF get], rule crash_ok_bind [OF ext], rule tail)
qed

lemma check_for_update_frame:
  assumes D: "digests_plain D" and n: "plain_name n"
  shows "stable (frame E A n x) (check_for_update D reference current)"
proof -
  let ?F = "frame E A n x"
  have decide: "crash_ok (\<lambda>s. ?F s \<and> plain_name sha)
      (if current = sha then ret ()
       else bind_io (look (was_update_attempted sha)) (\<lambda>tried.
         if tried then ret () else attempt_update D r sha)) ?F (\<lambda>_. ?F)" for r sha
  proof (cases "plain_name sha")
    case True
    have "stable ?F (if current = sha then ret ()
       else bind_io (look (was_update_attempted sha)) (\<lambda>tried.
         if tried then ret () else attempt_update D r sha))"
      by (intro stable_rules attempt_update_frame n True)
    then show ?thesis unfolding stable_def by (rule crash_ok_conseq) auto
  qed (simp add: crash_ok_def)
  have parse: "crash_ok ?F (from_option RegistryError (parse_reference D reference)) ?F (\<lambda>_. ?F)"
    using stable_basic(6) [of ?F] by (simp add: stable_def)
  show ?thesis
    unfolding stable_def check_for_update_def
    apply (rule crash_ok_bind [OF parse])
    apply (rule crash_ok_bind [OF download_manifest_ok [OF D]])
    subgoal for a b using decide by (cases b) auto
    done
qed

end
