(* ===== verification/DockerImage.thy ===== *)
theory DockerImage
  imports DockerUpdate
begin

text \<open>
  What the store operations achieve: a downloaded blob is the concatenation of what the writes
  accepted, an image is unpacked from its layers in order, and the clean-up leaves exactly the kept
  images and the blobs they refer to.
\<close>

section \<open>Blobs\<close>

definition accepted :: "deps \<Rightarrow> string list \<Rightarrow> string" where
  "accepted D cs = concat (map (\<lambda>c. take (write_accepts D c) c) cs)"

lemma accepted_all:
  "(\<And>c. c \<in> set cs \<Longrightarrow> length c \<le> write_accepts D c) \<Longrightarrow> accepted D cs = concat cs"
  unfolding accepted_def by (induction cs) auto

lemma accepted_short:
  assumes "c \<in> set cs" and "write_accepts D c < length c"
  shows "length (accepted D cs) < length (concat cs)"
  using assms
proof (induction cs)
  case (Cons a cs)
  have le: "length (accepted D cs) \<le> length (concat cs)"
    by (induction cs) (auto simp: accepted_def intro: add_mono)
  show ?case
    using Cons le by (auto simp: accepted_def add_less_le_mono intro: add_le_less_mono)
qed simp

lemma write_chunks_ends:
  assumes "map_of (blobs s) tmp = Some b"
  shows "\<exists>s'. ends (write_chunks D tmp (map Some cs)) s (Done ()) s' \<and> s' = s\<lparr>blobs := blobs s'\<rparr> \<and>
    map_of (blobs s') = (map_of (blobs s))(tmp \<mapsto> b @ accepted D cs)"
  using assms
proof (induction cs arbitrary: s b)
  case Nil
  then show ?case by (auto simp: accepted_def intro!: exI [of _ s] ends_rules)
next
  case (Cons c cs)
  let ?s = "s\<lparr>blobs := AList.map_entry tmp (\<lambda>old. old @ take (write_accepts D c) c) (blobs s)\<rparr>"
  have "map_of (blobs ?s) tmp = Some (b @ take (write_accepts D c) c)"
    using Cons.prems by (simp add: map_of_map_entry)
  from Cons.IH [OF this] obtain s' where s': "ends (write_chunks D tmp (map Some cs)) ?s (Done ()) s'"
    "s' = ?s\<lparr>blobs := blobs s'\<rparr>"
    "map_of (blobs s') = (map_of (blobs ?s))(tmp \<mapsto> (b @ take (write_accepts D c) c) @ accepted D cs)" by blast
  show ?case
  proof (intro exI conjI)
    show "ends (write_chunks D tmp (map Some (c # cs))) s (Done ()) s'"
      using s'(1) by (auto intro: ends_bind_change)
    show "s' = s\<lparr>blobs := blobs s'\<rparr>" using s'(2) by simp
    show "map_of (blobs s') = (map_of (blobs s))(tmp \<mapsto> b @ accepted D (c # cs))"
      using s'(3) by (auto simp: map_of_map_entry accepted_def fun_eq_iff)
  qed
qed

lemma rename_blob_ends:
  "map_of (blobs s) old = Some x \<Longrightarrow>
     ends (rename_blob old new) s (Done ()) (s\<lparr>blobs := AList.update new x (AList.delete old (blobs s))\<rparr>)"
  "map_of (images s) old = Some y \<Longrightarrow>
     ends (rename_image old new) s (Done ()) (s\<lparr>images := AList.update new y (AList.delete old (images s))\<rparr>)"
  by (auto simp: rename_blob_def rename_image_def rename_entry_def ends_def io_basics)

lemma download_layer_ends:
  assumes stream: "pull_blob_stream D r d = Some (map Some cs)" and d: "\<not> prefix TMP d"
  shows "\<exists>s'. ends (download_layer D r d) s (Done ()) s' \<and> s' = s\<lparr>blobs := blobs s'\<rparr> \<and>
    map_of (blobs s') d = Some (case map_of (blobs s) d of Some b \<Rightarrow> b | None \<Rightarrow> accepted D cs) \<and>
    (\<forall>n. n \<noteq> d \<longrightarrow> \<not> prefix TMP n \<longrightarrow> map_of (blobs s') n = map_of (blobs s) n)"
proof (cases "map_of (blobs s) d")
  case (Some b)
  then show ?thesis
    by (intro exI [of _ s]) (auto simp: download_layer_def intro!: ends_bind_look ends_rules)
next
  case None
  let ?tmp = "TMP @ new_uuid D s" and ?s1 = "s\<lparr>blobs := AList.update (TMP @ new_uuid D s) [] (blobs s)\<rparr>"
  have "map_of (blobs ?s1) ?tmp = Some []" by (simp add: update_conv')
  from write_chunks_ends [OF this] obtain s2 where s2: "ends (write_chunks D ?tmp (map Some cs)) ?s1 (Done ()) s2"
    "s2 = ?s1\<lparr>blobs := blobs s2\<rparr>" "map_of (blobs s2) = (map_of (blobs ?s1))(?tmp \<mapsto> [] @ accepted D cs)" by blast
  let ?s3 = "s2\<lparr>blobs := AList.update d (accepted D cs) (AList.delete ?tmp (blobs s2))\<rparr>"
  have "ends (rename_blob ?tmp d) s2 (Done ()) ?s3"
    by (rule rename_blob_ends(1)) (simp add: s2(3))
  then have run: "ends (download_layer D r d) s (Done ()) ?s3"
    unfolding download_layer_def using None stream s2(1)
    by (auto intro!: ends_bind_look ends_bind_option ends_bind_change intro: ends_bind)
  have "?s3 = s\<lparr>blobs := blobs ?s3\<rparr>" by (subst s2(2)) simp
  with run d None s2(3) show ?thesis
    by (intro exI [of _ ?s3]) (auto simp: update_conv' delete_conv')
qed

text \<open>The blob of each layer is in the store, with the registry's content.\<close>

definition available :: "deps \<Rightarrow> string \<Rightarrow> (string \<Rightarrow> string) \<Rightarrow> string \<Rightarrow> bool" where
  "available D r content d =
     (\<not> prefix TMP d \<and> (\<exists>cs. pull_blob_stream D r d = Some (map Some cs) \<and> accepted D cs = content d))"

definition blobs_right :: "(string \<Rightarrow> string) \<Rightarrow> dl_fs \<Rightarrow> bool" where
  "blobs_right content s = (\<forall>n b. \<not> prefix TMP n \<longrightarrow> map_of (blobs s) n = Some b \<longrightarrow> b = content n)"

lemma download_layers_ends:
  assumes "\<forall>l \<in> set ls. available D r content (digest l)" and "blobs_right content s"
  shows "\<exists>s'. ends (for_io (\<lambda>l. download_layer D r (digest l)) ls) s (Done ()) s' \<and> s' = s\<lparr>blobs := blobs s'\<rparr> \<and>
    blobs_right content s' \<and> (\<forall>l \<in> set ls. map_of (blobs s') (digest l) = Some (content (digest l))) \<and>
    (\<forall>n. \<not> prefix TMP n \<longrightarrow> map_of (blobs s) n \<noteq> None \<longrightarrow> map_of (blobs s') n = map_of (blobs s) n)"
  using assms
proof (induction ls arbitrary: s)
  case Nil
  then show ?case by (auto intro!: exI [of _ s] ends_rules)
next
  case (Cons l ls)
  let ?d = "digest l"
  obtain cs where cs: "pull_blob_stream D r ?d = Some (map Some cs)" "\<not> prefix TMP ?d" "accepted D cs = content ?d"
    using Cons.prems(1) by (auto simp: available_def)
  from download_layer_ends [OF cs(1,2), of s] obtain s1 where s1: "ends (download_layer D r ?d) s (Done ()) s1"
    "s1 = s\<lparr>blobs := blobs s1\<rparr>"
    "map_of (blobs s1) ?d = Some (case map_of (blobs s) ?d of Some b \<Rightarrow> b | None \<Rightarrow> accepted D cs)"
    "\<And>n. n \<noteq> ?d \<Longrightarrow> \<not> prefix TMP n \<Longrightarrow> map_of (blobs s1) n = map_of (blobs s) n" by blast
  have d: "map_of (blobs s1) ?d = Some (content ?d)"
    using s1(3) cs(2,3) Cons.prems(2) by (auto simp: blobs_right_def split: option.splits)
  have right: "blobs_right content s1"
    unfolding blobs_right_def
  proof (intro allI impI)
    fix n b assume "\<not> prefix TMP n" "map_of (blobs s1) n = Some b"
    then show "b = content n"
      using s1(4) [of n] d Cons.prems(2) by (cases "n = ?d") (auto simp: blobs_right_def)
  qed
  have "\<forall>l \<in> set ls. available D r content (digest l)" using Cons.prems(1) by simp
  from Cons.IH [OF this right] obtain s2 where s2: "ends (for_io (\<lambda>l. download_layer D r (digest l)) ls) s1 (Done ()) s2"
    "s2 = s1\<lparr>blobs := blobs s2\<rparr>" "blobs_right content s2"
    "\<And>l. l \<in> set ls \<Longrightarrow> map_of (blobs s2) (digest l) = Some (content (digest l))"
    "\<And>n. \<not> prefix TMP n \<Longrightarrow> map_of (blobs s1) n \<noteq> None \<Longrightarrow> map_of (blobs s2) n = map_of (blobs s1) n" by auto
  have run: "ends (for_io (\<lambda>l. download_layer D r (digest l)) (l # ls)) s (Done ()) s2"
    using s1(1) s2(1) by (auto intro: ends_bind)
  have eq: "s2 = s\<lparr>blobs := blobs s2\<rparr>" using s1(2) s2(2) by (metis dl_fs.surjective dl_fs.update_convs(1))
  have old: "map_of (blobs s2) n = map_of (blobs s) n" if "\<not> prefix TMP n" "map_of (blobs s) n \<noteq> None" for n
    using that s1(4) [of n] s2(5) [of n] d Cons.prems(2) by (cases "n = ?d") (auto simp: blobs_right_def)
  show ?case
    using run eq s2(3,4) old s2(5) [OF cs(2)] d by (intro exI [of _ s2]) auto
qed

section \<open>Images\<close>

lemma download_image_ends:
  assumes pull: "pull_manifest D r = Some (Image m, sha)" and sha: "plain_name sha"
    and av: "\<forall>l \<in> set (layers m). available D r content (digest l)" and right: "blobs_right content s"
  shows "\<exists>s'. ends (download_image D r) s (Done sha) s' \<and> s' = s\<lparr>blobs := blobs s', images := images s'\<rparr> \<and>
    map_of (images s') sha = Some (image_to_json D m) \<and> blobs_right content s' \<and>
    (\<forall>l \<in> set (layers m). map_of (blobs s') (digest l) = Some (content (digest l)))"
proof -
  let ?tmp = "TMP @ new_uuid D s"
  let ?s1 = "s\<lparr>images := AList.update ?tmp (image_to_json D m) (images s)\<rparr>"
  have manifest: "ends (download_manifest D r) s (Done (r, m, sha)) s"
    using pull by (auto simp: download_manifest_def pull_manifest_maybe_blob_def ends_def io_basics)
  have "blobs_right content ?s1" using right by (simp add: blobs_right_def)
  from download_layers_ends [OF av this] obtain s2 where s2:
    "ends (for_io (\<lambda>l. download_layer D r (digest l)) (layers m)) ?s1 (Done ()) s2" "s2 = ?s1\<lparr>blobs := blobs s2\<rparr>"
    "blobs_right content s2" "\<forall>l \<in> set (layers m). map_of (blobs s2) (digest l) = Some (content (digest l))"
    by (elim exE conjE) (rule that)
  obtain b2 where b2: "s2 = ?s1\<lparr>blobs := b2\<rparr>" using s2(2) by blast
  have tmp: "map_of (images s2) ?tmp = Some (image_to_json D m)" by (simp add: b2 update_conv')
  let ?s3 = "s2\<lparr>images := AList.update sha (image_to_json D m) (AList.delete ?tmp (images s2))\<rparr>"
  have run: "ends (download_image D r) s (Done sha) ?s3"
    unfolding download_image_def
    by (rule ends_bind_look, rule ends_bind [OF manifest], simp, rule ends_bind_change, rule ends_bind [OF s2(1)],
        rule ends_bind [OF rename_blob_ends(2) [OF tmp]], rule ends_rules)
  have "?s3 = s\<lparr>blobs := blobs ?s3, images := images ?s3\<rparr>" by (simp add: b2)
  moreover have "map_of (images ?s3) sha = Some (image_to_json D m)" by (simp add: update_conv')
  moreover have "blobs_right content ?s3" using s2(3) by (simp add: blobs_right_def)
  ultimately show ?thesis using run s2(4) by (intro exI [of _ ?s3]) simp
qed

fun unpack_all :: "deps \<Rightarrow> string list \<Rightarrow> tree \<Rightarrow> tree option" where
  "unpack_all D [] t = Some t"
| "unpack_all D (b # bs) t = (case unpack D b t of None \<Rightarrow> None | Some t' \<Rightarrow> unpack_all D bs t')"

lemma unpack_layers_ends:
  assumes "map_of (extracted s) tmp = Some t"
    and "list_all2 (\<lambda>l b. map_of (blobs s) (digest l) = Some b) ls bs" and "unpack_all D bs t = Some t'"
  shows "\<exists>s'. ends (for_io (unpack_layer D tmp) ls) s (Done ()) s' \<and> s' = s\<lparr>extracted := extracted s'\<rparr> \<and>
    map_of (extracted s') = (map_of (extracted s))(tmp \<mapsto> t')"
  using assms
proof (induction ls arbitrary: s bs t)
  case Nil
  then show ?case by (auto intro!: exI [of _ s] ends_rules)
next
  case (Cons l ls)
  then obtain b bs' where bs: "bs = b # bs'" "map_of (blobs s) (digest l) = Some b"
    "list_all2 (\<lambda>l b. map_of (blobs s) (digest l) = Some b) ls bs'" by (auto simp: list_all2_Cons1)
  then obtain t1 where t1: "unpack D b t = Some t1" "unpack_all D bs' t1 = Some t'"
    using Cons.prems(3) by (auto split: option.splits)
  let ?s1 = "s\<lparr>extracted := AList.update tmp t1 (extracted s)\<rparr>"
  have run1: "ends (unpack_layer D tmp l) s (Done ()) ?s1"
    using bs(2) t1(1) Cons.prems(1) by (auto simp: unpack_layer_def ends_def io_basics)
  have "map_of (extracted ?s1) tmp = Some t1"
    "list_all2 (\<lambda>l b. map_of (blobs ?s1) (digest l) = Some b) ls bs'" using bs(3) by (simp_all add: update_conv')
  from Cons.IH [OF this t1(2)] obtain s' where "ends (for_io (unpack_layer D tmp) ls) ?s1 (Done ()) s'"
    "s' = ?s1\<lparr>extracted := extracted s'\<rparr>" "map_of (extracted s') = (map_of (extracted ?s1))(tmp \<mapsto> t')" by blast
  moreover have "(map_of (extracted ?s1))(tmp \<mapsto> t') = (map_of (extracted s))(tmp \<mapsto> t')"
    by (auto simp: update_conv' fun_eq_iff)
  ultimately show ?case using ends_bind [OF run1] by (intro exI [of _ s']) simp
qed

lemma extract_image_ends:
  assumes sha: "plain_name sha" "map_of (extracted s) sha = None"
    and fresh: "map_of (extracted s) (TMP @ new_uuid D s) = None"
    and m: "map_of (images s) sha = Some j" "image_from_json D j = Some m"
    and bs: "list_all2 (\<lambda>l b. map_of (blobs s) (digest l) = Some b) (layers m) bs" "unpack_all D bs [] = Some t"
  shows "\<exists>s'. ends (extract_image D sha) s (Done (join EXTRACTED_DIR sha)) s' \<and> s' = s\<lparr>extracted := extracted s'\<rparr> \<and>
    map_of (extracted s') = (map_of (extracted s))(sha \<mapsto> t)"
proof -
  let ?tmp = "TMP @ new_uuid D s"
  let ?s1 = "s\<lparr>extracted := AList.update ?tmp [] (extracted s)\<rparr>"
  have tmp: "?tmp \<noteq> sha" using plain_not_tmp [OF sha(1)] by metis
  from unpack_layers_ends [of ?s1 ?tmp "[]" "layers m" bs D t] obtain s2 where s2:
    "ends (for_io (unpack_layer D ?tmp) (layers m)) ?s1 (Done ()) s2" "s2 = ?s1\<lparr>extracted := extracted s2\<rparr>"
    "map_of (extracted s2) = (map_of (extracted ?s1))(?tmp \<mapsto> t)"
    using bs by (auto simp: update_conv')
  let ?s3 = "s2\<lparr>extracted := AList.update sha t (AList.delete ?tmp (extracted s2))\<rparr>"
  have ren: "ends (rename_extracted ?tmp sha) s2 (Done ()) ?s3"
    using s2(3) sha(2) tmp by (auto simp: rename_extracted_def rename_entry_def ends_def io_basics update_conv')
  have mk: "ends (change (\<lambda>s. if map_of (extracted s) ?tmp \<noteq> None then s
      else s\<lparr>extracted := AList.update ?tmp [] (extracted s)\<rparr>)) s (Done ()) ?s1"
    using fresh by (simp add: ends_def change_def)
  have json: "map_of (images ?s1) sha = Some j" using m(1) by simp
  have "ends (extract_image D sha) s (Done (join EXTRACTED_DIR sha)) ?s3"
    unfolding extract_image_def
    apply (rule ends_bind_look, simp only: sha(2) simp_thms if_False)
    apply (rule ends_bind_look, rule ends_bind [OF mk], rule ends_bind_look)
    apply (simp only: json, rule ends_bind_option, simp only: m(2), rule ends_bind_option)
    by (rule ends_bind [OF s2(1)], rule ends_bind [OF ren], rule ends_rules)
  moreover obtain x2 where "s2 = ?s1\<lparr>extracted := x2\<rparr>" using s2(2) by blast
  then have "?s3 = s\<lparr>extracted := extracted ?s3\<rparr>" by simp
  moreover have "map_of (extracted ?s3) = (map_of (extracted s))(sha \<mapsto> t)"
    using s2(3) fresh tmp by (auto simp: update_conv' delete_conv' fun_eq_iff)
  ultimately show ?thesis by (intro exI [of _ ?s3]) simp
qed

section \<open>An update that goes well\<close>

text \<open>
  The registry offers image \<open>sha\<close>, whose layers can be downloaded in full and unpack to the tree
  \<open>t\<close>; manifests survive being written and read as JSON; new names are new.
\<close>

definition offers :: "deps \<Rightarrow> string \<Rightarrow> string \<Rightarrow> (string \<Rightarrow> string) \<Rightarrow> string \<Rightarrow> tree \<Rightarrow> bool" where
  "offers D reference r content sha t =
     (\<exists>m. parse_reference D reference = Some r \<and> pull_manifest D r = Some (Image m, sha) \<and> plain_name sha \<and>
        (\<forall>l \<in> set (layers m). available D r content (digest l)) \<and>
        image_from_json D (image_to_json D m) = Some m \<and>
        unpack_all D (map (\<lambda>l. content (digest l)) (layers m)) [] = Some t \<and>
        map_of t ''entrypoint'' \<noteq> None \<and>
        (\<forall>s. map_of (extracted s) (TMP @ new_uuid D s) = None))"

lemma publish_attempt_ends:
  "entrypoint_attempt_tmp s = None \<Longrightarrow>
     ends (publish_attempt p) s (Done ()) (s\<lparr>entrypoint_attempt := Some p, entrypoint_attempt_tmp := None\<rparr>)"
  by (simp add: publish_attempt_def ends_def io_basics link_exists_def final_state_Cons)

lemma fetch_ends:
  assumes off: "offers D reference r content sha t" and right: "blobs_right content s"
    and new: "map_of (extracted s) sha = None"
  shows "\<exists>s1 s2. ends (download_image D r) s (Done sha) s1 \<and>
    ends (extract_image D sha) s1 (Done (join EXTRACTED_DIR sha)) s2 \<and> outside_store s2 = outside_store s \<and>
    map_of (extracted s2) = (map_of (extracted s))(sha \<mapsto> t)"
proof -
  obtain m where m: "pull_manifest D r = Some (Image m, sha)" "plain_name sha"
    "\<forall>l \<in> set (layers m). available D r content (digest l)" "image_from_json D (image_to_json D m) = Some m"
    "unpack_all D (map (\<lambda>l. content (digest l)) (layers m)) [] = Some t"
    "\<And>s. map_of (extracted s) (TMP @ new_uuid D s) = None"
    using off by (auto simp: offers_def)
  from download_image_ends [OF m(1,2,3) right] obtain s1 where s1: "ends (download_image D r) s (Done sha) s1"
    "s1 = s\<lparr>blobs := blobs s1, images := images s1\<rparr>" "map_of (images s1) sha = Some (image_to_json D m)"
    "\<forall>l \<in> set (layers m). map_of (blobs s1) (digest l) = Some (content (digest l))"
    by (elim exE conjE) (rule that)
  obtain b i where bi: "s1 = s\<lparr>blobs := b, images := i\<rparr>" using s1(2) by blast
  have bs: "list_all2 (\<lambda>l b. map_of (blobs s1) (digest l) = Some b) (layers m) (map (\<lambda>l. content (digest l)) (layers m))"
    using s1(4) by (simp add: list_all2_conv_all_nth)
  have "map_of (extracted s1) sha = None" using new bi by simp
  from extract_image_ends [OF m(2) this m(6) s1(3) m(4) bs m(5)] obtain s2 where
    s2: "ends (extract_image D sha) s1 (Done (join EXTRACTED_DIR sha)) s2" "s2 = s1\<lparr>extracted := extracted s2\<rparr>"
    "map_of (extracted s2) = (map_of (extracted s1))(sha \<mapsto> t)"
    by (elim exE conjE) (rule that)
  obtain x where x: "s2 = s1\<lparr>extracted := x\<rparr>" using s2(2) by blast
  show ?thesis using s1(1) s2(1,3) bi x by (intro exI [of _ s1] exI [of _ s2]) simp
qed

lemma outside_store_eqD:
  assumes "outside_store s = outside_store s'"
  shows "entrypoint s = entrypoint s'" "entrypoint_attempt s = entrypoint_attempt s'"
    "entrypoint_attempt_tmp s = entrypoint_attempt_tmp s'" "entrypoint_attempting s = entrypoint_attempting s'"
  using assms by (metis outside_store_links)+

lemma attempt_update_ends:
  assumes off: "offers D reference r content sha t" and right: "blobs_right content s"
    and new: "map_of (extracted s) sha = None" "entrypoint_attempt_tmp s = None"
  shows "\<exists>s'. ends (attempt_update D r sha) s (Exit RESTART_EXIT_CODE) s' \<and>
    entrypoint_attempt s' = Some (entry_path sha) \<and> update_attempt s' = Some sha \<and>
    map_of (extracted s') = (map_of (extracted s))(sha \<mapsto> t) \<and> entrypoint s' = entrypoint s"
proof -
  obtain s1 s2 where s2: "ends (download_image D r) s (Done sha) s1"
    "ends (extract_image D sha) s1 (Done (join EXTRACTED_DIR sha)) s2" "outside_store s2 = outside_store s"
    "map_of (extracted s2) = (map_of (extracted s))(sha \<mapsto> t)"
    using fetch_ends [OF off right new(1)] by blast
  let ?s3 = "s2\<lparr>update_attempt := Some sha\<rparr>"
  have tmp: "entrypoint_attempt_tmp ?s3 = None" using outside_store_eqD [OF s2(3)] new(2) by simp
  let ?s4 = "?s3\<lparr>entrypoint_attempt := Some (join (join EXTRACTED_DIR sha) ''entrypoint''), entrypoint_attempt_tmp := None\<rparr>"
  have "ends (attempt_update D r sha) s (Exit RESTART_EXIT_CODE) ?s4"
    unfolding attempt_update_def
    by (rule ends_bind [OF s2(1)], rule ends_bind [OF s2(2)], rule ends_bind_change,
        rule ends_bind [OF publish_attempt_ends [OF tmp]], rule ends_rules)
  then show ?thesis
    using s2(4) outside_store_eqD [OF s2(3)] by (intro exI [of _ ?s4]) (simp add: entry_path_def)
qed

lemma check_for_update_ends:
  assumes "offers D reference r content sha t"
  shows "current = sha \<Longrightarrow> ends (check_for_update D reference current) s (Done ()) s"
    "was_update_attempted sha s \<Longrightarrow> ends (check_for_update D reference current) s (Done ()) s"
    "current \<noteq> sha \<Longrightarrow> \<not> was_update_attempted sha s \<Longrightarrow> ends (attempt_update D r sha) s q s' \<Longrightarrow>
       ends (check_for_update D reference current) s q s'"
proof -
  obtain m where m: "parse_reference D reference = Some r" "pull_manifest D r = Some (Image m, sha)"
    using assms by (auto simp: offers_def)
  have eq: "check_for_update D reference current s =
      (if current = sha \<or> was_update_attempted sha s then (Done (), []) else attempt_update D r sha s)" for current
    using m by (auto simp: check_for_update_def download_manifest_def pull_manifest_maybe_blob_def io_basics
        split: prod.split run.split)
  show "current = sha \<Longrightarrow> ends (check_for_update D reference current) s (Done ()) s"
    "was_update_attempted sha s \<Longrightarrow> ends (check_for_update D reference current) s (Done ()) s"
    "current \<noteq> sha \<Longrightarrow> \<not> was_update_attempted sha s \<Longrightarrow> ends (attempt_update D r sha) s q s' \<Longrightarrow>
       ends (check_for_update D reference current) s q s'"
    by (simp_all add: ends_def eq)
qed

section \<open>The clean-up always returns\<close>

definition no_exit :: "'a io \<Rightarrow> bool" where
  "no_exit m = (\<forall>s c. fst (m s) \<noteq> Exit c)"

named_theorems no_exit_rules \<open>programs without exit\<close>

lemma no_exit_basic [no_exit_rules]:
  "no_exit (ret a)" "no_exit (stop e)" "no_exit (look f)" "no_exit (change g)" "no_exit (require e b)"
  "no_exit (from_option e x)"
  by (auto simp: no_exit_def io_basics split: option.split)

lemma no_exit_bind [no_exit_rules]: "no_exit m \<Longrightarrow> (\<And>a. no_exit (k a)) \<Longrightarrow> no_exit (bind_io m k)"
  unfolding no_exit_def bind_io_def
  by (auto split: prod.split run.split) (metis fst_conv)+

lemma no_exit_try [no_exit_rules]: "no_exit m \<Longrightarrow> no_exit (try_io m)"
  unfolding no_exit_def try_io_def by (auto split: prod.split run.split) (metis fst_conv)+

lemma no_exit_for [no_exit_rules]: "(\<And>x. no_exit (f x)) \<Longrightarrow> no_exit (for_io f xs)"
  by (induction xs) (auto intro: no_exit_rules)

lemma no_exit_option [no_exit_rules]:
  "no_exit m \<Longrightarrow> (\<And>a. no_exit (k a)) \<Longrightarrow> no_exit (case x of None \<Rightarrow> m | Some a \<Rightarrow> k a)"
  by (cases x) auto

lemma cleanup_no_exit: "no_exit (cleanup_storage D keep)"
  unfolding cleanup_storage_def clean_tmp_all_def clean_tmp_in_dir_def mark_tmp_def remove_unless_def
    remove_file_def remove_dir_all_def remove_tree_file_def
  by (intro no_exit_rules)

lemma try_no_exit: "no_exit m \<Longrightarrow> \<exists>a s'. ends (try_io m) s (Done a) s'"
  unfolding no_exit_def ends_def try_io_def
  by (auto split: prod.split run.split) (metis fst_conv)

section \<open>The clean-up removes exactly what is not kept\<close>

definition view :: "dl_fs \<Rightarrow> string \<Rightarrow> string option \<times> string option \<times> tree option" where
  "view s n = (map_of (blobs s) n, map_of (images s) n, map_of (extracted s) n)"

lemma view_change [stable_rules]:
  "m \<noteq> n \<Longrightarrow> stable (\<lambda>s. view s n = v) (remove_file blobs set_blobs m)"
  "m \<noteq> n \<Longrightarrow> stable (\<lambda>s. view s n = v) (remove_file images set_images m)"
  "m \<noteq> n \<Longrightarrow> stable (\<lambda>s. view s n = v) (remove_dir_all m)"
  unfolding remove_file_def remove_dir_all_def remove_tree_file_def
  by (intro stable_rules stable_change; simp add: view_def dir_simps)+

lemma mark_tmp_view [stable_rules]:
  assumes "plain_name n"
  shows "stable (\<lambda>s. view s n = v) (mark_tmp d blobs set_blobs old)"
    "stable (\<lambda>s. view s n = v) (mark_tmp d images set_images old)"
    "stable (\<lambda>s. view s n = v) (mark_tmp d extracted set_extracted old)"
  unfolding mark_tmp_def using assms
  by (cases "strip_prefix TMP old"; simp add: stable_rules; intro stable_update;
      auto simp: view_def rename_entry_def dir_simps strip_prefix_def plain_name_def split: option.splits if_splits)+

lemma clean_tmp_view:
  assumes "plain_name n"
  shows "stable (\<lambda>s. view s n = v) clean_tmp_all"
  unfolding clean_tmp_all_def clean_tmp_in_dir_def
  by (intro stable_rules assms stable_for_set) (use assms in \<open>auto simp: plain_name_def\<close>)

lemma remove_file_ends:
  "map_of (blobs s) n \<noteq> None \<Longrightarrow>
     ends (remove_file blobs set_blobs n) s (Done ()) (s\<lparr>blobs := AList.delete n (blobs s)\<rparr>)"
  "map_of (images s) n \<noteq> None \<Longrightarrow>
     ends (remove_file images set_images n) s (Done ()) (s\<lparr>images := AList.delete n (images s)\<rparr>)"
  by (auto simp: remove_file_def ends_def io_basics)

lemma remove_tree_files_ends:
  "\<exists>s'. ends (for_io (remove_tree_file n) fs) s (Done ()) s' \<and> (\<exists>x. s' = s\<lparr>extracted := x\<rparr>) \<and>
     (\<forall>m. m \<noteq> n \<longrightarrow> map_of (extracted s') m = map_of (extracted s) m)"
proof (induction fs arbitrary: s)
  case Nil
  show ?case by (intro exI [of _ s]) (auto intro: ends_rules intro!: exI [of _ "extracted s"])
next
  case (Cons f fs)
  let ?s1 = "s\<lparr>extracted := AList.map_entry n (AList.delete f) (extracted s)\<rparr>"
  obtain s' x where s': "ends (for_io (remove_tree_file n) fs) ?s1 (Done ()) s'" "s' = ?s1\<lparr>extracted := x\<rparr>"
    "\<forall>m. m \<noteq> n \<longrightarrow> map_of (extracted s') m = map_of (extracted ?s1) m" using Cons [of ?s1] by blast
  have "ends (for_io (remove_tree_file n) (f # fs)) s (Done ()) s'"
    using s'(1) by (simp add: remove_tree_file_def ends_bind_change)
  then show ?case using s'(2,3) by (intro exI [of _ s']) (auto simp: map_of_map_entry)
qed

lemma remove_dir_all_ends:
  assumes "map_of (extracted s) n \<noteq> None"
  shows "\<exists>s'. ends (remove_dir_all n) s (Done ()) s' \<and> (\<exists>x. s' = s\<lparr>extracted := x\<rparr>) \<and>
    map_of (extracted s') = (map_of (extracted s))(n := None)"
proof -
  obtain t where t: "map_of (extracted s) n = Some t" using assms by blast
  obtain s1 x where s1: "ends (for_io (remove_tree_file n) (map fst t)) s (Done ()) s1" "s1 = s\<lparr>extracted := x\<rparr>"
    "\<forall>m. m \<noteq> n \<longrightarrow> map_of (extracted s1) m = map_of (extracted s) m"
    using remove_tree_files_ends by blast
  let ?s2 = "s1\<lparr>extracted := AList.delete n (extracted s1)\<rparr>"
  have "ends (remove_dir_all n) s (Done ()) ?s2"
    unfolding remove_dir_all_def
    by (rule ends_bind_look, simp only: t, rule ends_bind_option, rule ends_bind [OF s1(1)], rule ends_basic)
  then show ?thesis using s1(2,3) by (intro exI [of _ ?s2]) (auto simp: delete_conv' fun_eq_iff)
qed

text \<open>
  A directory whose entries can be removed: removing an entry succeeds and takes away just that
  entry, removing nothing fails, and \<open>U\<close> relates states that differ only in that directory. One pass
  over the directory then removes exactly the entries that are not to be kept.
\<close>

locale removable_dir =
  fixes sel :: "dl_fs \<Rightarrow> 'a dir" and remove :: "string \<Rightarrow> unit io" and U :: "dl_fs \<Rightarrow> dl_fs \<Rightarrow> bool"
  assumes remove_present: "map_of (sel s) n \<noteq> None \<Longrightarrow>
      \<exists>s'. ends (remove n) s (Done ()) s' \<and> U s s' \<and> map_of (sel s') = (map_of (sel s))(n := None)"
    and remove_absent: "map_of (sel s) n = None \<Longrightarrow> ends (remove n) s (Fail IoError) s"
    and U_refl: "U s s" and U_trans: "U a b \<Longrightarrow> U b c \<Longrightarrow> U a c"
begin

lemma remove_one:
  "\<exists>s'. ends (bind_io (try_io (remove n)) (\<lambda>_. ret ())) s (Done ()) s' \<and> U s s' \<and>
     map_of (sel s') = (map_of (sel s))(n := None)"
proof (cases "map_of (sel s) n")
  case None
  have "ends (bind_io (try_io (remove n)) (\<lambda>_. ret ())) s (Done ()) s"
    using ends_bind [OF ends_try(2) [OF remove_absent [OF None]] ends_basic(1)] .
  then show ?thesis using U_refl None by (intro exI [of _ s]) (auto simp: fun_eq_iff)
next
  case (Some t)
  then obtain s' where s': "ends (remove n) s (Done ()) s'" "U s s'" "map_of (sel s') = (map_of (sel s))(n := None)"
    using remove_present [of s n] by auto
  have "ends (bind_io (try_io (remove n)) (\<lambda>_. ret ())) s (Done ()) s'"
    using ends_bind [OF ends_try(1) [OF s'(1)] ends_basic(1)] .
  then show ?thesis using s'(2,3) by blast
qed

lemma remove_loop:
  "\<exists>s'. ends (for_io (\<lambda>n. bind_io (try_io (remove n)) (\<lambda>_. ret ())) ns) s (Done ()) s' \<and> U s s' \<and>
    map_of (sel s') = (\<lambda>n. if n \<in> set ns then None else map_of (sel s) n)"
proof (induction ns arbitrary: s)
  case Nil
  show ?case using U_refl by (intro exI [of _ s]) (auto intro: ends_rules)
next
  case (Cons n ns)
  obtain s1 where s1: "ends (bind_io (try_io (remove n)) (\<lambda>_. ret ())) s (Done ()) s1" "U s s1"
    "map_of (sel s1) = (map_of (sel s))(n := None)" using remove_one by blast
  obtain s2 where s2: "ends (for_io (\<lambda>n. bind_io (try_io (remove n)) (\<lambda>_. ret ())) ns) s1 (Done ()) s2" "U s1 s2"
    "map_of (sel s2) = (\<lambda>n. if n \<in> set ns then None else map_of (sel s1) n)" using Cons by blast
  show ?case
    using ends_bind [OF s1(1)] s2 U_trans [OF s1(2) s2(2)] s1(3) by (intro exI [of _ s2]) (auto simp: fun_eq_iff)
qed

lemma remove_unless_ends:
  "\<exists>s'. ends (remove_unless keep sel remove) s (Done ()) s' \<and> U s s' \<and>
    map_of (sel s') = (\<lambda>n. if n \<in> set keep then map_of (sel s) n else None)"
proof -
  let ?ns = "filter (\<lambda>n. n \<notin> set keep) (map fst (sel s))"
  obtain s' where s': "ends (for_io (\<lambda>n. bind_io (try_io (remove n)) (\<lambda>_. ret ())) ?ns) s (Done ()) s'" "U s s'"
    "map_of (sel s') = (\<lambda>n. if n \<in> set ?ns then None else map_of (sel s) n)"
    using remove_loop by blast
  have "ends (remove_unless keep sel remove) s (Done ()) s'"
    unfolding remove_unless_def by (rule ends_bind_look) (rule s'(1))
  moreover have "map_of (sel s') = (\<lambda>n. if n \<in> set keep then map_of (sel s) n else None)"
    using s'(3) by (auto simp: fun_eq_iff map_of_eq_None_iff)
  ultimately show ?thesis using s'(2) by blast
qed

end

interpretation extracted_dir: removable_dir extracted remove_dir_all "\<lambda>s s'. s' = s\<lparr>extracted := extracted s'\<rparr>"
proof unfold_locales
  fix s :: dl_fs and n :: string
  show "map_of (extracted s) n \<noteq> None \<Longrightarrow> \<exists>s'. ends (remove_dir_all n) s (Done ()) s' \<and>
      s' = s\<lparr>extracted := extracted s'\<rparr> \<and> map_of (extracted s') = (map_of (extracted s))(n := None)"
    using remove_dir_all_ends by fastforce
  show "map_of (extracted s) n = None \<Longrightarrow> ends (remove_dir_all n) s (Fail IoError) s"
    by (simp add: remove_dir_all_def ends_def io_basics)
next
  show "b = a\<lparr>extracted := extracted b\<rparr> \<Longrightarrow> c = b\<lparr>extracted := extracted c\<rparr> \<Longrightarrow> c = a\<lparr>extracted := extracted c\<rparr>"
    for a b c :: dl_fs by (metis dl_fs.surjective dl_fs.update_convs(3))
qed simp

interpretation images_dir: removable_dir images "remove_file images set_images" "\<lambda>s s'. s' = s\<lparr>images := images s'\<rparr>"
proof unfold_locales
  fix s :: dl_fs and n :: string
  show "map_of (images s) n \<noteq> None \<Longrightarrow> \<exists>s'. ends (remove_file images set_images n) s (Done ()) s' \<and>
      s' = s\<lparr>images := images s'\<rparr> \<and> map_of (images s') = (map_of (images s))(n := None)"
    using remove_file_ends(2) by (fastforce simp: delete_conv' fun_eq_iff)
  show "map_of (images s) n = None \<Longrightarrow> ends (remove_file images set_images n) s (Fail IoError) s"
    by (simp add: remove_file_def ends_def io_basics)
next
  show "b = a\<lparr>images := images b\<rparr> \<Longrightarrow> c = b\<lparr>images := images c\<rparr> \<Longrightarrow> c = a\<lparr>images := images c\<rparr>"
    for a b c :: dl_fs by (metis dl_fs.surjective dl_fs.update_convs(2))
qed simp

interpretation blobs_dir: removable_dir blobs "remove_file blobs set_blobs" "\<lambda>s s'. s' = s\<lparr>blobs := blobs s'\<rparr>"
proof unfold_locales
  fix s :: dl_fs and n :: string
  show "map_of (blobs s) n \<noteq> None \<Longrightarrow> \<exists>s'. ends (remove_file blobs set_blobs n) s (Done ()) s' \<and>
      s' = s\<lparr>blobs := blobs s'\<rparr> \<and> map_of (blobs s') = (map_of (blobs s))(n := None)"
    using remove_file_ends(1) by (fastforce simp: delete_conv' fun_eq_iff)
  show "map_of (blobs s) n = None \<Longrightarrow> ends (remove_file blobs set_blobs n) s (Fail IoError) s"
    by (simp add: remove_file_def ends_def io_basics)
next
  show "b = a\<lparr>blobs := blobs b\<rparr> \<Longrightarrow> c = b\<lparr>blobs := blobs c\<rparr> \<Longrightarrow> c = a\<lparr>blobs := blobs c\<rparr>"
    for a b c :: dl_fs by (metis dl_fs.surjective dl_fs.update_convs(1))
qed simp

lemma clean_tmp_ends:
  "\<exists>s'. ends clean_tmp_all s (Done ()) s' \<and> outside_store s' = outside_store s \<and>
     (\<forall>n. plain_name n \<longrightarrow> view s' n = view s n)"
proof -
  have no: "no_exit (clean_tmp_in_dir d sel upd rem)" if "\<And>n. no_exit (rem n)" for d upd rem and sel :: "dl_fs \<Rightarrow> 'a dir"
    unfolding clean_tmp_in_dir_def mark_tmp_def by (intro no_exit_rules that)
  have rem: "no_exit (remove_file sel upd n)" "no_exit (remove_dir_all n)" for n upd and sel :: "dl_fs \<Rightarrow> 'b dir"
    unfolding remove_file_def remove_dir_all_def remove_tree_file_def by (intro no_exit_rules)+
  obtain a s1 where s1: "ends (try_io (clean_tmp_in_dir False blobs set_blobs (remove_file blobs set_blobs))) s (Done a) s1"
    using try_no_exit [OF no, of "remove_file blobs set_blobs"] rem(1) by blast
  obtain b s2 where s2: "ends (try_io (clean_tmp_in_dir False images set_images (remove_file images set_images))) s1 (Done b) s2"
    using try_no_exit [OF no, of "remove_file images set_images"] rem(1) by blast
  obtain c s' where s3: "ends (try_io (clean_tmp_in_dir True extracted set_extracted remove_dir_all)) s2 (Done c) s'"
    using try_no_exit [OF no, of remove_dir_all] rem(2) by blast
  have run: "ends clean_tmp_all s (Done ()) s'"
    unfolding clean_tmp_all_def
    by (rule ends_bind [OF s1], rule ends_bind [OF s2], rule ends_bind [OF s3], rule ends_basic)
  have plain: "plain_name ''x''" by (simp add: plain_name_def TMP_def REMOVING_def)
  have "outside_store s' = outside_store s"
    using stable_states [OF clean_tmp_all_stable [OF plain, of "\<lambda>x. x = outside_store s" None] _ ends_state [OF run]]
    by (simp add: holds_image_def outside_store_def)
  moreover have "view s' n = view s n" if "plain_name n" for n
    using stable_states [OF clean_tmp_view [OF that, of "view s n"] _ ends_state [OF run]] by simp
  ultimately show ?thesis using run by blast
qed

text \<open>
  C14. The clean-up always returns, and it removes exactly what is not kept: afterwards the
  extracted images and the manifests are those of the images to keep, as they were, the blobs are
  those that the manifests of these images refer to, no temporary entry is left, and nothing
  outside the store has changed.
\<close>

theorem cleanup_exact:
  assumes keep: "list_all plain_name keep" and refs: "list_all plain_name (concat (map (manifest_blobs D s) keep))"
  shows "\<exists>s'. ends (cleanup_storage D keep) s (Done ()) s' \<and> outside_store s' = outside_store s \<and>
    map_of (extracted s') = (\<lambda>n. if n \<in> set keep then map_of (extracted s) n else None) \<and>
    map_of (images s') = (\<lambda>n. if n \<in> set keep then map_of (images s) n else None) \<and>
    map_of (blobs s') =
      (\<lambda>n. if n \<in> set (concat (map (manifest_blobs D s) keep)) then map_of (blobs s) n else None)"
proof -
  let ?refs = "concat (map (manifest_blobs D s) keep)"
  obtain s1 where s1: "ends clean_tmp_all s (Done ()) s1" "outside_store s1 = outside_store s"
    "\<forall>n. plain_name n \<longrightarrow> view s1 n = view s n" using clean_tmp_ends by blast
  have same: "map_of (images s1) n = map_of (images s) n" if "n \<in> set keep" for n
    using s1(3) keep that by (auto simp: view_def list_all_iff)
  have "map (manifest_blobs D s1) keep = map (manifest_blobs D s) keep"
    by (simp add: manifest_blobs_def same cong: map_cong)
  then have refs1: "concat (map (manifest_blobs D s1) keep) = ?refs" by (rule arg_cong)
  obtain s2 where s2: "ends (remove_unless keep extracted remove_dir_all) s1 (Done ()) s2"
    "s2 = s1\<lparr>extracted := extracted s2\<rparr>"
    "map_of (extracted s2) = (\<lambda>n. if n \<in> set keep then map_of (extracted s1) n else None)"
    using extracted_dir.remove_unless_ends by blast
  obtain s3 where s3: "ends (remove_unless keep images (remove_file images set_images)) s2 (Done ()) s3"
    "s3 = s2\<lparr>images := images s3\<rparr>"
    "map_of (images s3) = (\<lambda>n. if n \<in> set keep then map_of (images s2) n else None)"
    using images_dir.remove_unless_ends by blast
  obtain s4 where s4: "ends (remove_unless ?refs blobs (remove_file blobs set_blobs)) s3 (Done ()) s4"
    "s4 = s3\<lparr>blobs := blobs s4\<rparr>"
    "map_of (blobs s4) = (\<lambda>n. if n \<in> set ?refs then map_of (blobs s3) n else None)"
    using blobs_dir.remove_unless_ends by blast
  have run: "ends (cleanup_storage D keep) s (Done ()) s4"
    unfolding cleanup_storage_def
    by (rule ends_bind [OF s1(1)], rule ends_bind_look, unfold refs1, rule ends_bind [OF s2(1)],
        rule ends_bind [OF s3(1)], rule s4(1))
  obtain x i b where eq: "s2 = s1\<lparr>extracted := x\<rparr>" "s3 = s2\<lparr>images := i\<rparr>" "s4 = s3\<lparr>blobs := b\<rparr>"
    using s2(2) s3(2) s4(2) by blast
  have "outside_store s4 = outside_store s" using s1(2) eq by simp
  moreover have "map_of (extracted s4) = (\<lambda>n. if n \<in> set keep then map_of (extracted s) n else None)"
    using s2(3) eq s1(3) keep by (auto simp: fun_eq_iff view_def list_all_iff)
  moreover have "map_of (images s4) = (\<lambda>n. if n \<in> set keep then map_of (images s) n else None)"
    using s3(3) eq s1(3) keep by (auto simp: fun_eq_iff view_def list_all_iff)
  moreover have "map_of (blobs s4) = (\<lambda>n. if n \<in> set ?refs then map_of (blobs s) n else None)"
    using s4(3) eq s1(3) refs by (auto simp: fun_eq_iff view_def list_all_iff)
  ultimately show ?thesis using run by blast
qed

section \<open>Two ways a crash does harm\<close>

text \<open>
  A stale link stops all updates. A crash between the two file operations that publish an
  update leaves the temporary link. Once the clean-up has removed the image it points to, \<^verbatim>\<open>try_exists\<close>
  does not see the link, \<^verbatim>\<open>symlink\<close> fails on it, and every check for a new image ends in an error with
  the link still in place; the new image is marked as tried although it was not.
\<close>

theorem stale_link_blocks_updates:
  assumes off: "offers D reference r content sha t" and cur: "current \<noteq> sha" "\<not> was_update_attempted sha s"
    and s: "blobs_right content s" "map_of (extracted s) sha = None"
    and stale: "entrypoint_attempt_tmp s = Some (entry_path gone)" "plain_name gone" "gone \<noteq> sha"
      "map_of (extracted s) gone = None"
  shows "\<exists>s'. ends (check_for_update D reference current) s (Fail IoError) s' \<and>
    entrypoint_attempt s' = entrypoint_attempt s \<and> entrypoint_attempt_tmp s' = entrypoint_attempt_tmp s \<and>
    update_attempt s' = Some sha \<and> map_of (extracted s') gone = None"
proof -
  obtain s1 s2 where s2: "ends (download_image D r) s (Done sha) s1"
    "ends (extract_image D sha) s1 (Done (join EXTRACTED_DIR sha)) s2" "outside_store s2 = outside_store s"
    "map_of (extracted s2) = (map_of (extracted s))(sha \<mapsto> t)"
    using fetch_ends [OF off s] by blast
  let ?s3 = "s2\<lparr>update_attempt := Some sha\<rparr>"
  have gone: "map_of (extracted ?s3) gone = None" using s2(4) stale(3,4) by simp
  have tmp: "entrypoint_attempt_tmp ?s3 = Some (entry_path gone)" using outside_store_eqD [OF s2(3)] stale(1) by simp
  have "\<not> link_exists ?s3 (Some (entry_path gone))"
    using gone link_exists_entry [OF stale(2), of ?s3] by (simp add: runnable_def)
  then have pub: "ends (publish_attempt p) ?s3 (Fail IoError) ?s3" for p
    using tmp by (simp add: publish_attempt_def ends_def io_basics)
  have "ends (attempt_update D r sha) s (Fail IoError) ?s3"
    unfolding attempt_update_def
    by (rule ends_bind [OF s2(1)], rule ends_bind [OF s2(2)], rule ends_bind_change, rule ends_Fail(4) [OF pub])
  from check_for_update_ends(3) [OF off cur this] show ?thesis
    using outside_store_eqD [OF s2(3)] gone by (intro exI [of _ ?s3]) simp
qed

text \<open>The crash that leaves the link.\<close>

lemma publish_crash_leaves_link:
  assumes "entrypoint_attempt_tmp s = None"
  shows "s\<lparr>entrypoint_attempt_tmp := Some p\<rparr> \<in> crash_states (publish_attempt p) s"
  using assms by (simp add: publish_attempt_def crash_states_def io_basics link_exists_def)

lemma remove_dir_all_crash:
  assumes "map_of (extracted s) n = Some ((f, x) # t)"
  shows "s\<lparr>extracted := AList.map_entry n (AList.delete f) (extracted s)\<rparr> \<in> crash_states (remove_dir_all n) s"
proof -
  let ?s1 = "s\<lparr>extracted := AList.map_entry n (AList.delete f) (extracted s)\<rparr>"
  have "?s1 \<in> crash_states (for_io (remove_tree_file n) (map fst ((f, x) # t))) s"
    by (simp add: remove_tree_file_def, rule crash_bind_left, simp add: crash_states_def change_def)
  then show ?thesis
    unfolding remove_dir_all_def
    by (intro crash_bind_right [OF ends_basic(3)], simp only: assms)
      (intro crash_bind_right [OF ends_basic(5)] crash_bind_left, assumption)
qed

lemma remove_loop_crash:
  assumes "n \<in> set ns" and "map_of (extracted s) n = Some t"
  shows "\<exists>s1. map_of (extracted s1) n = Some t \<and>
    crash_states (remove_dir_all n) s1 \<subseteq> crash_states (for_io (\<lambda>n. bind_io (try_io (remove_dir_all n)) (\<lambda>_. ret ())) ns) s"
  using assms
proof (induction ns arbitrary: s)
  case (Cons m ns)
  let ?one = "\<lambda>n. bind_io (try_io (remove_dir_all n)) (\<lambda>_. ret ())"
  show ?case
  proof (cases "m = n")
    case True
    have "crash_states (remove_dir_all n) s \<subseteq> crash_states (for_io ?one (m # ns)) s"
      using True by (auto simp: crash_try intro!: crash_bind_left)
    then show ?thesis using Cons.prems(2) by blast
  next
    case False
    obtain s' where s': "ends (?one m) s (Done ()) s'" "map_of (extracted s') = (map_of (extracted s))(m := None)"
      using extracted_dir.remove_one by blast
    obtain s1 where "map_of (extracted s1) n = Some t" "crash_states (remove_dir_all n) s1 \<subseteq> crash_states (for_io ?one ns) s'"
      using Cons.IH [of s'] Cons.prems False s'(2) by auto
    then show ?thesis
      by (intro exI [of _ s1] conjI subsetI) (auto simp only: for_io.simps intro!: crash_bind_right [OF s'(1)])
  qed
qed simp

text \<open>
  An interrupted clean-up leaves a damaged image that is later taken for whole. Directories are
  removed in place, file by file; a crash after the first file leaves the directory under its final
  name, and extracting that image again returns it at once because the directory exists.
\<close>

theorem interrupted_cleanup_reused:
  assumes old: "plain_name old" "old \<notin> set keep" "map_of (extracted s) old = Some ((f, x) # t)"
  shows "\<exists>s' \<in> crash_states (cleanup_storage D keep) s.
    map_of (extracted s') old = Some (AList.delete f t) \<and>
    extract_image D old s' = (Done (join EXTRACTED_DIR old), [])"
proof -
  obtain s1 where s1: "ends clean_tmp_all s (Done ()) s1" "view s1 old = view s old"
    using clean_tmp_ends old(1) by blast
  have tree: "map_of (extracted s1) old = Some ((f, x) # t)" using s1(2) old(3) by (simp add: view_def)
  then have "old \<in> set (filter (\<lambda>n. n \<notin> set keep) (map fst (extracted s1)))"
    using old(2) by (force dest: map_of_SomeD)
  from remove_loop_crash [OF this tree] obtain s2 where s2: "map_of (extracted s2) old = Some ((f, x) # t)"
    "crash_states (remove_dir_all old) s2 \<subseteq> crash_states (remove_unless keep extracted remove_dir_all) s1"
    unfolding remove_unless_def using crash_bind_right [OF ends_basic(3)] by (metis (no_types, lifting) subset_iff)
  let ?s = "s2\<lparr>extracted := AList.map_entry old (AList.delete f) (extracted s2)\<rparr>"
  have "?s \<in> crash_states (cleanup_storage D keep) s"
    unfolding cleanup_storage_def
    by (rule crash_bind_right [OF s1(1)], rule crash_bind_right [OF ends_basic(3)], rule crash_bind_left)
      (use remove_dir_all_crash [OF s2(1)] s2(2) in blast)
  moreover have "map_of (extracted ?s) old = Some (AList.delete f t)" using s2(1) by (simp add: map_of_map_entry)
  ultimately show ?thesis by (intro bexI [of _ ?s]) (simp_all add: extract_image_def io_basics)
qed

definition sample_manifest :: OciImageManifest where
  "sample_manifest = \<lparr>config = \<lparr>digest = ''cfg''\<rparr>, layers = [\<lparr>digest = ''layer''\<rparr>]\<rparr>"

definition sample_deps :: deps where
  "sample_deps = \<lparr>parse_reference = Some, pull_manifest = (\<lambda>r. Some (Image sample_manifest, ''v2'')),
     reference_digest = (\<lambda>_. None), clone_with_digest = (\<lambda>r d. r @ d), pull_blob = (\<lambda>_ _. None),
     pull_blob_stream = (\<lambda>_ _. Some [Some ''prog'', Some ''ram'']), current_platform_resolver = (\<lambda>_. None),
     manifest_from_slice = (\<lambda>_. None), image_to_json = (\<lambda>_. ''json''), image_from_json = (\<lambda>_. Some sample_manifest),
     write_accepts = length, unpack = (\<lambda>b t. Some (AList.update ''entrypoint'' b t)),
     new_uuid = (\<lambda>s. replicate (Suc (sum_list (map (length \<circ> fst) (extracted s)))) CHR ''u'')\<rparr>"

lemma sample_plain: "plain_name ''v1''" "plain_name ''v2''" "plain_name ''v0''" "plain_name ''cfg''" "plain_name ''layer''"
  by (simp_all add: plain_name_def TMP_def REMOVING_def)

lemma sample_fresh: "map_of (extracted s) (TMP @ new_uuid sample_deps s) = None"
proof -
  have "length n \<le> sum_list (map (length \<circ> fst) d)" if "n \<in> fst ` set d" for n and d :: "tree dir"
  proof -
    have "length n \<in> set (map (length \<circ> fst) d)" using that by force
    then show ?thesis by (rule member_le_sum_list) simp
  qed
  then have "TMP @ new_uuid sample_deps s \<notin> fst ` set (extracted s)"
    by (fastforce simp: sample_deps_def TMP_def)
  then show ?thesis by (simp add: map_of_eq_None_iff)
qed

lemma sample_offers: "offers sample_deps ''img'' ''img'' (\<lambda>_. ''program'') ''v2'' [(''entrypoint'', ''program'')]"
  unfolding offers_def
proof (intro exI [of _ sample_manifest] conjI allI)
  show "\<forall>l \<in> set (layers sample_manifest). available sample_deps ''img'' (\<lambda>_. ''program'') (digest l)"
    by (auto simp: sample_manifest_def available_def sample_deps_def TMP_def accepted_def
        intro!: exI [of _ "[''prog'', ''ram'']"])
qed (use sample_plain sample_fresh in \<open>simp_all add: sample_deps_def sample_manifest_def\<close>)

lemma sample_digests: "digests_plain sample_deps"
  using sample_plain by (auto simp: digests_plain_def sample_deps_def)

definition sample_fs :: dl_fs where
  "sample_fs = \<lparr>blobs = [(''layer'', ''program''), (''tmp-1'', ''junk''), (''old'', ''x'')],
     images = [(''v2'', ''json''), (''v1'', ''json'')],
     extracted = [(''v1'', [(''entrypoint'', ''bin''), (''lib'', ''so'')])],
     entrypoint = Some (entry_path ''v1''), entrypoint_attempt = None, entrypoint_attempt_tmp = None,
     entrypoint_attempting = None, update_attempt = None, root_ca_certs = None\<rparr>"

theorem cleanup_exact_witness:
  "\<exists>s'. ends (cleanup_storage sample_deps [''v1'']) sample_fs (Done ()) s' \<and>
     map_of (blobs s') ''layer'' = Some ''program'' \<and> map_of (blobs s') ''old'' = None \<and>
     map_of (blobs s') ''tmp-1'' = None \<and> map_of (images s') ''v2'' = None"
proof -
  have refs: "concat (map (manifest_blobs sample_deps sample_fs) [''v1'']) = [''cfg'', ''layer'']"
    by (simp add: manifest_blobs_def sample_fs_def sample_deps_def sample_manifest_def)
  have plain: "list_all plain_name (concat (map (manifest_blobs sample_deps sample_fs) [''v1'']))"
    unfolding refs using sample_plain by simp
  have keep: "list_all plain_name [''v1'']" using sample_plain by simp
  from cleanup_exact [OF keep plain] obtain s' where s': "ends (cleanup_storage sample_deps [''v1'']) sample_fs (Done ()) s'"
    "map_of (images s') = (\<lambda>n. if n \<in> set [''v1''] then map_of (images sample_fs) n else None)"
    "map_of (blobs s') = (\<lambda>n. if n \<in> set [''cfg'', ''layer''] then map_of (blobs sample_fs) n else None)"
    unfolding refs by blast
  then show ?thesis by (intro exI [of _ s']) (simp add: sample_fs_def)
qed

theorem interrupted_cleanup_reused_witness:
  "\<exists>s' \<in> crash_states (cleanup_storage sample_deps [''v2'']) sample_fs.
     map_of (extracted s') ''v1'' = Some [(''lib'', ''so'')] \<and>
     extract_image sample_deps ''v1'' s' = (Done (join EXTRACTED_DIR ''v1''), [])"
  using interrupted_cleanup_reused [OF sample_plain(1), of "[''v2'']" sample_fs "''entrypoint''" "''bin''"
      "[(''lib'', ''so'')]" sample_deps] by (simp add: sample_fs_def)

theorem stale_link_blocks_updates_witness:
  "\<exists>s'. ends (check_for_update sample_deps ''img'' ''v1'')
       (sample_fs\<lparr>entrypoint_attempt_tmp := Some (entry_path ''v0''), blobs := []\<rparr>) (Fail IoError) s' \<and>
     entrypoint_attempt_tmp s' = Some (entry_path ''v0'') \<and> update_attempt s' = Some ''v2''"
proof -
  let ?s = "sample_fs\<lparr>entrypoint_attempt_tmp := Some (entry_path ''v0''), blobs := []\<rparr>"
  have "blobs_right (\<lambda>_. ''program'') ?s" "map_of (extracted ?s) ''v2'' = None" "\<not> was_update_attempted ''v2'' ?s"
    "entrypoint_attempt_tmp ?s = Some (entry_path ''v0'')" "map_of (extracted ?s) ''v0'' = None"
    by (simp_all add: blobs_right_def sample_fs_def was_update_attempted_def)
  from stale_link_blocks_updates [OF sample_offers _ this(3,1,2,4) sample_plain(3) _ this(5), of "''v1''"]
  show ?thesis by (auto simp: sample_fs_def)
qed

end
