(* ===== verification/DockerSystem.thy ===== *)
theory DockerSystem
  imports DockerImage
begin

text \<open>
  The supervisor of \<^verbatim>\<open>dockerloader/src/main.rs\<close> and the system it forms with the application it
  runs: start, one turn of its loop, the trial timer, the exit of the application, and a crash
  of the whole container at any file operation. While the application runs the supervisor only
  waits, so their file operations do not interleave.
\<close>

section \<open>The supervisor\<close>

definition ensure_entrypoint :: "deps \<Rightarrow> env \<Rightarrow> unit io" where
  "ensure_entrypoint D e =
     bind_io (look (\<lambda>s. link_exists s (entrypoint s))) (\<lambda>there.
       if there then ret ()
       else bind_io (from_option EnvError (map_of e ''DOCKERLOADER_TARGET''))
              (download_entrypoint_initial D))"

definition begin_iteration :: "bool io" where
  "begin_iteration =
     bind_io (look (\<lambda>s. link_exists s (entrypoint_attempt s))) (\<lambda>pending.
       if pending then
         bind_io (change (\<lambda>s. s\<lparr>entrypoint_attempting := entrypoint_attempt s, entrypoint_attempt := None\<rparr>))
           (\<lambda>_. ret True)
       else ret False)"

text \<open>Spawning runs the file the link leads to; it fails when there is none.\<close>

definition spawn :: "bool \<Rightarrow> string io" where
  "spawn in_trial_mode =
     bind_io (look (\<lambda>s. let l = (if in_trial_mode then entrypoint_attempting s else entrypoint s)
                        in if link_exists s l then l else None))
       (from_option IoError)"

record child =
  exe :: string
  trial :: bool
  timer :: bool

definition iterate :: "child io" where
  "iterate =
     bind_io begin_iteration (\<lambda>in_trial_mode.
     bind_io (spawn in_trial_mode) (\<lambda>p.
       ret \<lparr>exe = p, trial = in_trial_mode, timer = in_trial_mode\<rparr>))"

definition trial_timeout_ms :: "env \<Rightarrow> nat" where
  "trial_timeout_ms e =
     (case Option.bind (map_of e ''DOCKERLOADER_TRIAL_TIMEOUT_MS'') parse_u64 of
        None \<Rightarrow> 10000 | Some n \<Rightarrow> n)"

definition child_env :: "env \<Rightarrow> bool \<Rightarrow> env" where
  "child_env e in_trial_mode = (if in_trial_mode then AList.update ''DOCKERLOADER_TRIAL'' ''1'' e else e)"

datatype phase = Down | Looping | Running child

text \<open>The application exited with a status code, or was killed by a signal (no code).\<close>

definition after_exit :: "int option \<Rightarrow> phase" where
  "after_exit code =
     (if (case code of None \<Rightarrow> 1 | Some n \<Rightarrow> n) = RESTART_EXIT_CODE then Looping else Down)"

text \<open>The timer of a trial: an uncommitted trial is killed and the supervisor gives up.\<close>

definition on_timeout :: "dl_fs \<Rightarrow> child \<Rightarrow> phase" where
  "on_timeout s c = (if link_exists s (entrypoint_attempting s) then Down else Running (c\<lparr>timer := False\<rparr>))"

section \<open>Command-line access\<close>

definition is_cli :: "string \<Rightarrow> bool" where
  "is_cli argv0 = (suffix ''/cli'' argv0 \<or> argv0 = ''cli'')"

text \<open>
  \<^verbatim>\<open>run_cli_mode\<close> looks for the entry point, and while it is missing looks again every half
  second for a minute, hence at most 120 times; \<open>seen k\<close> is what the look after \<open>k\<close> pauses finds.
\<close>

definition ENTRYPOINT_PATH :: string where "ENTRYPOINT_PATH = ''/data/dockerloader/entrypoint''"

fun cli_wait :: "(nat \<Rightarrow> bool) \<Rightarrow> nat \<Rightarrow> nat \<Rightarrow> bool" where
  "cli_wait seen k 0 = seen k"
| "cli_wait seen k (Suc n) = (if seen k then True else cli_wait seen (Suc k) n)"

definition run_cli_mode :: "(nat \<Rightarrow> bool) \<Rightarrow> string list \<Rightarrow> string list option" where
  "run_cli_mode seen args =
     (if cli_wait seen 0 120 then Some (ENTRYPOINT_PATH # ''cli'' # drop 1 args) else None)"

section \<open>The system\<close>

text \<open>
  The calls of the application into dockerloader. Its image's environment file is not to set
  \<^verbatim>\<open>DOCKERLOADER_TRIAL\<close>, so the variable is there exactly in a trial.
\<close>

inductive app_call :: "deps \<Rightarrow> child \<Rightarrow> unit io \<Rightarrow> bool" for D c where
  ready: "(map_of e ''DOCKERLOADER_TRIAL'' \<noteq> None) = trial c \<Longrightarrow> app_call D c (mark_ready D (exe c) e)"
| tick: "app_call D c (update_tick D reference (exe c))"
| init: "app_call D c (bind_io (init_dockerloaded (exe c) args e) (\<lambda>_. ret ()))"

inductive dl_step :: "deps \<Rightarrow> env \<Rightarrow> dl_fs \<times> phase \<Rightarrow> dl_fs \<times> phase \<Rightarrow> bool" for D e where
  start: "ensure_entrypoint D e s = (Done (), tr) \<Longrightarrow> dl_step D e (s, Down) (final_state s tr, Looping)"
| start_crash: "t \<in> crash_states (ensure_entrypoint D e) s \<Longrightarrow> dl_step D e (s, Down) (t, Down)"
| turn: "iterate s = (Done c, tr) \<Longrightarrow> dl_step D e (s, Looping) (final_state s tr, Running c)"
| turn_crash: "t \<in> crash_states iterate s \<Longrightarrow> dl_step D e (s, Looping) (t, Down)"
| call: "app_call D c m \<Longrightarrow> m s = (Done (), tr) \<or> m s = (Fail x, tr) \<Longrightarrow>
    dl_step D e (s, Running c) (final_state s tr, Running c)"
| call_exit: "app_call D c m \<Longrightarrow> m s = (Exit n, tr) \<Longrightarrow>
    dl_step D e (s, Running c) (final_state s tr, after_exit (Some n))"
| call_crash: "app_call D c m \<Longrightarrow> t \<in> crash_states m s \<Longrightarrow> dl_step D e (s, Running c) (t, Down)"
| exit: "dl_step D e (s, Running c) (s, after_exit code)"
| timeout: "timer c \<Longrightarrow> dl_step D e (s, Running c) (s, on_timeout s c)"

inductive dl_reach :: "deps \<Rightarrow> env \<Rightarrow> dl_fs \<times> phase \<Rightarrow> dl_fs \<times> phase \<Rightarrow> bool" for D e st0 where
  here: "dl_reach D e st0 st0"
| further: "dl_reach D e st0 st \<Longrightarrow> dl_step D e st st' \<Longrightarrow> dl_reach D e st0 st'"

inductive_cases dl_stepE: "dl_step D e st st'"

definition empty_fs :: dl_fs where
  "empty_fs = \<lparr>blobs = [], images = [], extracted = [], entrypoint = None, entrypoint_attempt = None,
     entrypoint_attempt_tmp = None, entrypoint_attempting = None, update_attempt = None,
     root_ca_certs = None\<rparr>"

section \<open>Invariant\<close>

definition entry_ok :: "dl_fs \<Rightarrow> bool" where
  "entry_ok s =
     (\<forall>p. entrypoint s = Some p \<longrightarrow>
        (\<exists>sha t. plain_name sha \<and> p = entry_path sha \<and> map_of (extracted s) sha = Some t))"

definition child_ok :: "child \<Rightarrow> dl_fs \<Rightarrow> bool" where
  "child_ok c s =
     (\<exists>sha. plain_name sha \<and> exe c = entry_path sha \<and> runnable sha s \<and>
        (if trial c then entrypoint_attempting s = Some (exe c) \<or>
           entrypoint s = Some (exe c) \<and> entrypoint_attempting s = None
         else entrypoint s = Some (exe c)))"

definition dl_inv :: "dl_fs \<times> phase \<Rightarrow> bool" where
  "dl_inv st =
     (case st of (s, ph) \<Rightarrow> links_ok s \<and> entry_ok s \<and> (\<forall>c. ph = Running c \<longrightarrow> child_ok c s))"

lemma frame_iff:
  "frame E A n x s \<longleftrightarrow>
     entrypoint s = E \<and> entrypoint_attempting s = A \<and> links_ok s \<and> (x = None \<or> map_of (extracted s) n = x)"
  by (auto simp: frame_def holds_image_def)

lemma commit_trial_frame:
  assumes "plain_name sha" and "map_of t ''entrypoint'' \<noteq> None"
  shows "crash_ok (\<lambda>s. links_ok s \<and> map_of (extracted s) sha = Some t \<and>
      (entrypoint_attempting s = Some (entry_path sha) \<or>
       entrypoint s = Some (entry_path sha) \<and> entrypoint_attempting s = None))
    commit_trial (frame (Some (entry_path sha)) None sha (Some t))
    (\<lambda>_. frame (Some (entry_path sha)) None sha (Some t))"
proof -
  have "link_exists s (Some (entry_path sha))" if "map_of (extracted s) sha = Some t" for s
    using assms that by (auto simp: link_exists_entry runnable_def)
  then show ?thesis
    using assms
    by (auto simp: crash_ok_def commit_trial_def io_basics frame_iff links_ok_def final_state_Cons link_exists_def
        split: if_splits)
qed

lemma mark_ready_rest_frame:
  assumes "digests_plain D" and "plain_name sha"
  shows "stable (frame E A sha x) (bind_io (try_io (cleanup_storage D [sha])) (\<lambda>_.
     bind_io (from_option EnvError (map_of e ''DOCKERLOADER_TARGET'')) (\<lambda>reference.
       check_for_update D reference sha)))"
  by (intro stable_rules check_for_update_frame frame_store cleanup_storage_stable assms) simp

lemma get_running_entry: "plain_name sha \<Longrightarrow> get_running_image_sha (entry_path sha) = ret sha"
  by (simp add: get_running_image_sha_def find_sha_entry from_option_def)

text \<open>
  Everything \<^verbatim>\<open>mark_ready\<close> does leaves the caller as the stable version with its image unharmed.
\<close>

lemma mark_ready_frame:
  assumes D: "digests_plain D" and sha: "plain_name sha" "map_of t ''entrypoint'' \<noteq> None"
    and e: "(map_of e ''DOCKERLOADER_TRIAL'' \<noteq> None) = b"
  shows "crash_ok (\<lambda>s. links_ok s \<and> map_of (extracted s) sha = Some t \<and>
      (if b then entrypoint_attempting s = Some (entry_path sha) \<or>
         entrypoint s = Some (entry_path sha) \<and> entrypoint_attempting s = None
       else entrypoint s = Some (entry_path sha) \<and> entrypoint_attempting s = A))
    (mark_ready D (entry_path sha) e)
    (frame (Some (entry_path sha)) (if b then None else A) sha (Some t))
    (\<lambda>_. frame (Some (entry_path sha)) (if b then None else A) sha (Some t))"
proof -
  have bind_ret: "bind_io (ret a) k = k a" for a :: 'a and k :: "'a \<Rightarrow> unit io"
    by (rule ext) (simp add: bind_io_def ret_def)
  have commit: "crash_ok (\<lambda>s. links_ok s \<and> map_of (extracted s) sha = Some t \<and>
      (if b then entrypoint_attempting s = Some (entry_path sha) \<or>
         entrypoint s = Some (entry_path sha) \<and> entrypoint_attempting s = None
       else entrypoint s = Some (entry_path sha) \<and> entrypoint_attempting s = A))
    (if map_of e ''DOCKERLOADER_TRIAL'' \<noteq> None then commit_trial else ret ())
    (frame (Some (entry_path sha)) (if b then None else A) sha (Some t))
    (\<lambda>_. frame (Some (entry_path sha)) (if b then None else A) sha (Some t))"
    using commit_trial_frame [OF sha] e by (cases b) (auto simp: crash_ok_def ret_def frame_iff)
  show ?thesis
    unfolding mark_ready_def get_running_entry [OF sha(1)] bind_ret
    using mark_ready_rest_frame [OF D sha(1)] by (intro crash_ok_bind [OF commit]) (simp add: stable_def)
qed

lemma other_calls_frame:
  assumes "digests_plain D" and "plain_name n"
  shows "stable (frame E A n x) (update_tick D reference p)"
    "stable (frame E A n x) (bind_io (init_dockerloaded p args e) (\<lambda>_. ret ()))"
  unfolding update_tick_def get_running_image_sha_def init_dockerloaded_def apply_image_env_vars_def
  by (intro stable_rules check_for_update_frame assms)+

text \<open>The stable version and its image are as they were.\<close>

definition kept :: "dl_fs \<Rightarrow> dl_fs \<Rightarrow> bool" where
  "kept s s' =
     (entrypoint s' = entrypoint s \<and>
      (\<forall>sha t. entrypoint s = Some (entry_path sha) \<and> map_of (extracted s) sha = Some t \<longrightarrow>
         map_of (extracted s') sha = Some t))"

lemma kept_refl [simp]: "kept s s"
  by (simp add: kept_def)

lemma kept_entry_ok: "kept s s' \<Longrightarrow> entry_ok s \<Longrightarrow> entry_ok s'"
  unfolding kept_def entry_ok_def by metis

text \<open>A program that keeps every frame keeps the stable version and the running application.\<close>

lemma frames_keep:
  assumes st: "\<And>E A n x. plain_name n \<Longrightarrow> stable (frame E A n x) m"
    and s: "links_ok s" "entry_ok s" and t: "t \<in> crash_states m s"
  shows "links_ok t" "kept s t" "entrypoint_attempting t = entrypoint_attempting s"
    "\<And>sha. plain_name sha \<Longrightarrow> runnable sha s \<Longrightarrow> runnable sha t"
proof -
  have fr: "frame (entrypoint s) (entrypoint_attempting s) n x t"
    if "plain_name n" "x = None \<or> map_of (extracted s) n = x" for n x
    using stable_states [OF st [OF that(1)] _ t] s(1) that(2) by (simp add: frame_iff)
  have plain: "plain_name ''x''" by (simp add: plain_name_def TMP_def REMOVING_def)
  show "links_ok t" "entrypoint_attempting t = entrypoint_attempting s"
    using fr [OF plain, of None] by (simp_all add: frame_iff)
  show "runnable sha t" if "plain_name sha" "runnable sha s" for sha
    using that fr [of sha] unfolding runnable_def by (metis frame_iff option.distinct(1))
  show "kept s t"
    unfolding kept_def
  proof (intro conjI allI impI)
    show "entrypoint t = entrypoint s" using fr [OF plain, of None] by (simp add: frame_iff)
    fix sha' t' assume a: "entrypoint s = Some (entry_path sha') \<and> map_of (extracted s) sha' = Some t'"
    then have "plain_name sha'" using s(1) by (auto simp: links_ok_def)
    then show "map_of (extracted t) sha' = Some t'" using fr [of sha' "Some t'"] a by (simp add: frame_iff)
  qed
qed

lemma app_call_keeps:
  assumes D: "digests_plain D" and c: "app_call D c m"
    and s: "links_ok s" "entry_ok s" "child_ok c s" and t: "t \<in> crash_states m s"
  shows "links_ok t \<and> entry_ok t \<and> child_ok c t \<and> (kept s t \<or> trial c \<and> entrypoint t = Some (exe c))"
proof -
  obtain sha tr x where sha: "plain_name sha" "exe c = entry_path sha" "map_of (extracted s) sha = Some tr"
    "map_of tr ''entrypoint'' = Some x"
    and links: "if trial c then entrypoint_attempting s = Some (exe c) \<or>
           entrypoint s = Some (exe c) \<and> entrypoint_attempting s = None
         else entrypoint s = Some (exe c)"
    using s(3) by (auto simp: child_ok_def runnable_def)
  have other: ?thesis if "\<And>E A n x. plain_name n \<Longrightarrow> stable (frame E A n x) m"
    using frames_keep [OF that s(1,2) t] kept_entry_ok s(2,3) by (auto simp: child_ok_def kept_def)
  from c show ?thesis
  proof cases
    case (ready e)
    show ?thesis
    proof (cases "t = s")
      case False
      then have "t \<in> set (snd (m s))" using t by (simp add: crash_states_def)
      moreover have "list_all (frame (Some (exe c)) (if trial c then None else entrypoint_attempting s) sha (Some tr)) (snd (m s))"
        using crash_okD(1) [OF mark_ready_frame [OF D sha(1), of tr e "trial c" "entrypoint_attempting s"], of s]
          sha links ready s(1) by (auto simp: prod_eq_iff)
      ultimately have f: "frame (Some (exe c)) (if trial c then None else entrypoint_attempting s) sha (Some tr) t"
        by (simp add: list_all_iff)
      then show ?thesis
        using sha links by (auto simp: frame_iff child_ok_def runnable_def entry_ok_def kept_def)
    qed (use s in simp)
  qed (use other other_calls_frame [OF D] in auto)
qed

lemma download_image_plain:
  assumes "digests_plain D"
  shows "crash_ok (\<lambda>_. True) (download_image D r) (\<lambda>_. True) (\<lambda>sha _. plain_name sha)"
proof -
  have any: "crash_ok (\<lambda>_. True) m (\<lambda>_. True) (\<lambda>_ _. True)" for m :: "'a io"
    by (simp add: crash_ok_def list_all_iff)
  have rest: "crash_ok (\<lambda>s. True \<and> plain_name sha)
      (bind_io (change (\<lambda>s. s\<lparr>images := AList.update tmp (image_to_json D m) (images s)\<rparr>)) (\<lambda>_.
       bind_io (for_io (\<lambda>l. download_layer D r' (digest l)) (layers m)) (\<lambda>_.
       bind_io (rename_image tmp sha) (\<lambda>_. ret sha)))) (\<lambda>_. True) (\<lambda>sha _. plain_name sha)" for tmp m r' sha
    by (cases "plain_name sha")
      (auto simp: crash_ok_def bind_io_def ret_def list_all_iff split: run.splits prod.splits)
  show ?thesis
    unfolding download_image_def
    apply (rule crash_ok_bind [OF any])
    apply (rule crash_ok_bind [OF download_manifest_ok [OF assms]])
    subgoal for tmp b using rest by (cases b) auto
    done
qed

text \<open>The first download makes the entry point only where there is none.\<close>

lemma download_entrypoint_initial_ok:
  assumes D: "digests_plain D" and n: "plain_name n"
  shows "crash_ok (frame E A n x) (download_entrypoint_initial D r)
     (\<lambda>t. frame E A n x t \<or> E = None \<and> links_ok t \<and> entry_ok t) (\<lambda>_ _. True)"
    (is "crash_ok ?F _ ?I _")
proof -
  have weaken: "crash_ok P m ?I Q" if "crash_ok P m ?F Q" for P Q and m :: "'a io"
    using that by (rule crash_ok_conseq) auto
  have parse: "crash_ok ?F (from_option RegistryError (parse_reference D r)) ?I (\<lambda>_. ?F)"
    using stable_basic(6) [of ?F] by (intro weaken) (simp add: stable_def)
  have get: "crash_ok ?F (download_image D r') ?I (\<lambda>sha s. ?F s \<and> plain_name sha)" for r'
    by (intro weaken crash_ok_conj frame_store download_image_stable download_image_plain D)
  have ext: "crash_ok (\<lambda>s. ?F s \<and> plain_name sha) (extract_image D sha) ?I
      (\<lambda>p s. ?F s \<and> plain_name sha \<and> p = join EXTRACTED_DIR sha \<and> map_of (extracted s) sha \<noteq> None)" for sha
  proof -
    have "crash_ok ?F (extract_image D sha) ?F
        (\<lambda>p s. ?F s \<and> p = join EXTRACTED_DIR sha \<and> map_of (extracted s) sha \<noteq> None)"
      by (rule crash_ok_conj [OF frame_store [OF extract_image_stable [OF n]] extract_image_stored])
    then show ?thesis by (auto simp: crash_ok_def list_all_iff)
  qed
  have link: "crash_ok (\<lambda>s. ?F s \<and> plain_name sha \<and> p = join EXTRACTED_DIR sha \<and> map_of (extracted s) sha \<noteq> None)
      (bind_io (look (\<lambda>s. entrypoint s = None)) (\<lambda>free. bind_io (require IoError free) (\<lambda>_.
        change (\<lambda>s. s\<lparr>entrypoint := Some (join p ''entrypoint'')\<rparr>)))) ?I (\<lambda>_ _. True)" for sha p
    by (auto simp: crash_ok_def io_basics frame_iff links_ok_def entry_ok_def entry_path_def)
  show ?thesis
    unfolding download_entrypoint_initial_def
    by (rule crash_ok_bind [OF parse], rule crash_ok_bind [OF get], rule crash_ok_bind [OF ext], rule link)
qed

lemma ensure_entrypoint_keeps:
  assumes D: "digests_plain D" and s: "links_ok s" "entry_ok s" and t: "t \<in> crash_states (ensure_entrypoint D e) s"
  shows "links_ok t \<and> entry_ok t \<and> (kept s t \<or> entrypoint s = None)"
proof -
  have fr: "frame (entrypoint s) (entrypoint_attempting s) n x t \<or> entrypoint s = None \<and> links_ok t \<and> entry_ok t"
    if "plain_name n" "x = None \<or> map_of (extracted s) n = x" for n x
  proof -
    let ?F = "frame (entrypoint s) (entrypoint_attempting s) n x"
    have "crash_ok ?F (ensure_entrypoint D e) (\<lambda>t. ?F t \<or> entrypoint s = None \<and> links_ok t \<and> entry_ok t) (\<lambda>_ _. True)"
      unfolding ensure_entrypoint_def
      using download_entrypoint_initial_ok [OF D that(1), of "entrypoint s" "entrypoint_attempting s" x]
      by (auto simp: crash_ok_def io_basics split: option.split)
    from crash_ok_states [OF this] show ?thesis using that(2) s(1) t by (simp add: frame_iff)
  qed
  have plain: "plain_name ''x''" by (simp add: plain_name_def TMP_def REMOVING_def)
  show ?thesis
  proof (cases "entrypoint s")
    case None
    then show ?thesis using fr [OF plain, of None] by (auto simp: frame_iff entry_ok_def)
  next
    case (Some p)
    then obtain sha tr where sha: "plain_name sha" "p = entry_path sha" "map_of (extracted s) sha = Some tr"
      using s(2) by (auto simp: entry_ok_def)
    with fr [of sha "Some tr"] Some show ?thesis by (auto simp: frame_iff entry_ok_def kept_def)
  qed
qed

lemma iterate_keeps:
  assumes "links_ok s" "entry_ok s"
  shows "\<And>t. t \<in> crash_states iterate s \<Longrightarrow> links_ok t \<and> entry_ok t \<and> kept s t"
    and "\<And>c tr. iterate s = (Done c, tr) \<Longrightarrow>
      links_ok (final_state s tr) \<and> entry_ok (final_state s tr) \<and> kept s (final_state s tr) \<and> child_ok c (final_state s tr)"
proof -
  have entry: "\<exists>sha. plain_name sha \<and> p = entry_path sha \<and> runnable sha s"
    if "good_link (Some p)" "link_exists s (Some p)" for p
    using that link_exists_entry by auto
  let ?s' = "s\<lparr>entrypoint_attempting := entrypoint_attempt s, entrypoint_attempt := None\<rparr>"
  have keep: "links_ok ?s'" "entry_ok ?s'" "kept s ?s'" "\<And>sha. runnable sha ?s' = runnable sha s"
    "\<And>l. link_exists ?s' l = link_exists s l"
    using assms
    by (simp_all add: links_ok_def entry_ok_def kept_def runnable_def link_exists_def resolve_def split: option.split)
  show "links_ok t \<and> entry_ok t \<and> kept s t" if "t \<in> crash_states iterate s" for t
    using that assms keep
    by (auto simp: crash_states_def iterate_def begin_iteration_def spawn_def io_basics Let_def
        split: if_splits option.splits)
  show "links_ok (final_state s tr) \<and> entry_ok (final_state s tr) \<and> kept s (final_state s tr) \<and>
      child_ok c (final_state s tr)" if run: "iterate s = (Done c, tr)" for c tr
  proof (cases "link_exists s (entrypoint_attempt s)")
    case True
    then obtain p where "entrypoint_attempt s = Some p" by (cases "entrypoint_attempt s") (auto simp: link_exists_def)
    then show ?thesis
      using run True keep entry [of p] assms(1)
      by (auto simp: iterate_def begin_iteration_def spawn_def io_basics child_ok_def links_ok_def)
  next
    case False
    then obtain p where "entrypoint s = Some p" "link_exists s (Some p)" "tr = []"
      "c = \<lparr>exe = p, trial = False, timer = False\<rparr>"
      using run
      by (auto simp: iterate_def begin_iteration_def spawn_def io_basics Let_def split: if_splits option.splits)
    then show ?thesis
      using assms entry [of p] by (auto simp: child_ok_def links_ok_def)
  qed
qed

section \<open>Properties\<close>

text \<open>One step of the system keeps the invariant, and moves the entry point only in two ways.\<close>

lemma dl_step_keeps:
  assumes D: "digests_plain D" and inv: "dl_inv (s, ph)" and step: "dl_step D e (s, ph) (s', ph')"
  shows "dl_inv (s', ph') \<and>
    (kept s s' \<or> entrypoint s = None \<or> (\<exists>c. ph = Running c \<and> trial c \<and> entrypoint s' = Some (exe c)))"
proof -
  have s: "links_ok s" "entry_ok s" and ch: "\<And>c. ph = Running c \<Longrightarrow> child_ok c s"
    using inv by (auto simp: dl_inv_def)
  have fin: "final_state t tr \<in> crash_states m t" if "m t = (r, tr)" for t r tr and m :: "'a io"
    using that by (auto simp: crash_states_def final_state_def)
  have no_child: "after_exit code \<noteq> Running c" for code c by (simp add: after_exit_def)
  from step show ?thesis
  proof cases
    case (start tr)
    then show ?thesis using ensure_entrypoint_keeps [OF D s fin] by (auto simp: dl_inv_def)
  next
    case start_crash
    then show ?thesis using ensure_entrypoint_keeps [OF D s] by (auto simp: dl_inv_def)
  next
    case (turn c tr)
    then show ?thesis using iterate_keeps(2) [OF s] by (auto simp: dl_inv_def)
  next
    case turn_crash
    then show ?thesis using iterate_keeps(1) [OF s] by (auto simp: dl_inv_def)
  next
    case (call c m tr x)
    then show ?thesis using app_call_keeps [OF D _ s ch fin] by (auto simp: dl_inv_def)
  next
    case (call_exit c m n tr)
    then show ?thesis using app_call_keeps [OF D _ s ch fin] no_child by (auto simp: dl_inv_def)
  next
    case (call_crash c m)
    then show ?thesis using app_call_keeps [OF D _ s ch] by (auto simp: dl_inv_def)
  next
    case (exit c code)
    then show ?thesis using inv no_child by (auto simp: dl_inv_def)
  next
    case (timeout c)
    then show ?thesis using inv ch by (auto simp: dl_inv_def on_timeout_def child_ok_def split: if_splits)
  qed
qed

lemma dl_reach_inv:
  assumes "digests_plain D" and "dl_reach D e (empty_fs, Down) st"
  shows "dl_inv st"
  using assms(2)
proof induction
  case here
  show ?case by (simp add: dl_inv_def empty_fs_def links_ok_def entry_ok_def)
next
  case (further st st')
  then show ?case using dl_step_keeps [OF assms(1)] by (metis surj_pair)
qed

section \<open>A whole update\<close>

lemma mark_ready_trial_ends:
  assumes off: "offers D reference r content sha t" and D: "digests_plain D"
    and s: "links_ok s" "map_of (extracted s) sha = Some t" "entrypoint_attempting s = Some (entry_path sha)"
    and e: "map_of e ''DOCKERLOADER_TRIAL'' \<noteq> None" "map_of e ''DOCKERLOADER_TARGET'' = Some reference"
  shows "\<exists>s'. ends (mark_ready D (entry_path sha) e) s (Done ()) s' \<and>
    entrypoint s' = Some (entry_path sha) \<and> map_of (extracted s') sha = Some t"
proof -
  have sha: "plain_name sha" "map_of t ''entrypoint'' \<noteq> None" using off by (auto simp: offers_def)
  have "fst (commit_trial s) = Done ()"
    using s sha by (auto simp: commit_trial_def io_basics link_exists_entry runnable_def)
  then obtain s1 where s1: "ends commit_trial s (Done ()) s1" by (simp add: ends_def)
  obtain a s2 where s2: "ends (try_io (cleanup_storage D [sha])) s1 (Done a) s2"
    using try_no_exit [OF cleanup_no_exit] by blast
  have run: "ends (mark_ready D (entry_path sha) e) s (Done ()) s2"
    unfolding mark_ready_def get_running_entry [OF sha(1)]
    using e
    by (intro ends_bind [OF ends_basic(1)]) (simp, intro ends_bind [OF s1] ends_bind [OF s2] ends_bind_option
        check_for_update_ends(1) [OF off] refl)
  have "crash_ok (\<lambda>s. links_ok s \<and> map_of (extracted s) sha = Some t \<and>
      (if True then entrypoint_attempting s = Some (entry_path sha) \<or>
         entrypoint s = Some (entry_path sha) \<and> entrypoint_attempting s = None
       else entrypoint s = Some (entry_path sha) \<and> entrypoint_attempting s = None))
    (mark_ready D (entry_path sha) e)
    (frame (Some (entry_path sha)) (if True then None else None) sha (Some t))
    (\<lambda>_. frame (Some (entry_path sha)) (if True then None else None) sha (Some t))"
    using mark_ready_frame [OF D sha, of e True None] e(1) by simp
  then have "frame (Some (entry_path sha)) None sha (Some t) s2"
    using run s by (auto simp: crash_ok_def ends_def)
  then show ?thesis using run by (auto simp: frame_iff)
qed

lemma ends_pair: "ends m s r s' \<Longrightarrow> \<exists>tr. m s = (r, tr) \<and> final_state s tr = s'"
  by (metis ends_def prod.collapse)

text \<open>
  C13. An update is installed. While the stable version runs and the registry offers an image that
  can be downloaded and unpacked and has not been tried, a tick of the update loop ends the
  application with the restart code, the supervisor starts the new image as a trial, and when the
  trial calls \<^verbatim>\<open>mark_ready\<close> it becomes the stable version, with exactly the tree that its layers
  unpack to.
\<close>

theorem update_is_installed:
  assumes D: "digests_plain D" and off: "offers D reference r content sha t"
    and inv: "dl_inv (s, Running c)" and c: "exe c = entry_path old" "old \<noteq> sha" "plain_name old"
    and s: "blobs_right content s" "map_of (extracted s) sha = None" "entrypoint_attempt_tmp s = None"
      "\<not> was_update_attempted sha s"
    and e: "map_of e ''DOCKERLOADER_TARGET'' = Some reference"
  shows "\<exists>s' c'. dl_reach D e (s, Running c) (s', Running c') \<and> exe c' = entry_path sha \<and> trial c' \<and>
    entrypoint s' = Some (entry_path sha) \<and> map_of (extracted s') sha = Some t"
proof -
  have sha: "plain_name sha" "map_of t ''entrypoint'' \<noteq> None" using off by (auto simp: offers_def)
  obtain s1 where s1: "ends (attempt_update D r sha) s (Exit RESTART_EXIT_CODE) s1"
    "entrypoint_attempt s1 = Some (entry_path sha)" "map_of (extracted s1) = (map_of (extracted s))(sha \<mapsto> t)"
    using attempt_update_ends [OF off s(1,2,3)] by blast
  have check: "ends (check_for_update D reference old) s (Exit RESTART_EXIT_CODE) s1"
    by (rule check_for_update_ends(3) [OF off c(2) s(4) s1(1)])
  have "ends (update_tick D reference (exe c)) s (Exit RESTART_EXIT_CODE) s1"
    using check
    by (auto simp: update_tick_def c(1) get_running_entry [OF c(3)] ends_def bind_io_def try_io_def ret_def
        split: prod.splits)
  then have step1: "dl_step D e (s, Running c) (s1, Looping)"
    using dl_step.call_exit [OF app_call.tick] ends_pair by (fastforce simp: after_exit_def)
  have inv1: "dl_inv (s1, Looping)" using dl_step_keeps [OF D inv step1] by simp
  let ?s2 = "s1\<lparr>entrypoint_attempting := entrypoint_attempt s1, entrypoint_attempt := None\<rparr>"
  let ?c = "\<lparr>exe = entry_path sha, trial = True, timer = True\<rparr>"
  have run: "runnable sha s1" "runnable sha ?s2" using s1(3) sha by (auto simp: runnable_def)
  have "iterate s1 = (Done ?c, [?s2])"
    using s1(2) run sha(1)
    by (simp add: iterate_def begin_iteration_def spawn_def io_basics link_exists_entry Let_def)
  then have step2: "dl_step D e (s1, Looping) (?s2, Running ?c)"
    using dl_step.turn by (metis final_state_simps(3))
  have links: "links_ok ?s2" using inv1 by (simp add: dl_inv_def links_ok_def)
  let ?e = "child_env e True"
  have env: "map_of ?e ''DOCKERLOADER_TRIAL'' \<noteq> None" "map_of ?e ''DOCKERLOADER_TARGET'' = Some reference"
    using e by (simp_all add: child_env_def update_conv')
  obtain s3 where s3: "ends (mark_ready D (entry_path sha) ?e) ?s2 (Done ()) s3"
    "entrypoint s3 = Some (entry_path sha)" "map_of (extracted s3) sha = Some t"
    using mark_ready_trial_ends [OF off D links _ _ env] s1(2,3) by auto
  have "app_call D ?c (mark_ready D (exe ?c) ?e)" using env(1) by (intro app_call.ready) simp
  then have step3: "dl_step D e (?s2, Running ?c) (s3, Running ?c)"
    using ends_pair [OF s3(1)] dl_step.call [of D ?c "mark_ready D (exe ?c) ?e" ?s2 _ IoError e] by auto
  have "dl_reach D e (s, Running c) (s3, Running ?c)"
    using dl_reach.further [OF dl_reach.further [OF dl_reach.further [OF dl_reach.here step1] step2] step3] .
  then show ?thesis using s3(2,3) by (intro exI [of _ s3] exI [of _ ?c]) simp
qed

theorem update_is_installed_witness:
  "\<exists>s' c'. dl_reach sample_deps [(''DOCKERLOADER_TARGET'', ''img'')]
       (sample_fs\<lparr>blobs := []\<rparr>, Running \<lparr>exe = entry_path ''v1'', trial = False, timer = False\<rparr>) (s', Running c') \<and>
     entrypoint s' = Some (entry_path ''v2'') \<and> map_of (extracted s') ''v2'' = Some [(''entrypoint'', ''program'')]"
proof -
  let ?s = "sample_fs\<lparr>blobs := []\<rparr>" and ?c = "\<lparr>exe = entry_path ''v1'', trial = False, timer = False\<rparr>"
  have "dl_inv (?s, Running ?c)"
    using sample_plain(1)
    by (auto simp: dl_inv_def links_ok_def entry_ok_def child_ok_def runnable_def sample_fs_def)
  moreover have "blobs_right (\<lambda>_. ''program'') ?s" "map_of (extracted ?s) ''v2'' = None"
    "entrypoint_attempt_tmp ?s = None" "\<not> was_update_attempted ''v2'' ?s"
    by (simp_all add: blobs_right_def sample_fs_def was_update_attempted_def)
  ultimately show ?thesis
    using update_is_installed [OF sample_digests sample_offers, of ?s ?c "''v1''" "[(''DOCKERLOADER_TARGET'', ''img'')]"]
      sample_plain(1) by auto
qed

text \<open>
  C11. The stable version survives. From an empty volume on, whatever updates, failing trials,
  time-outs and crashes at any file operation follow, the link to the stable version leads to an
  image that is in the store, and an application that runs does so from an image in the store that
  is the stable version or the one on trial.
\<close>

theorem stable_version_survives:
  assumes "digests_plain D" and "dl_reach D e (empty_fs, Down) (s, ph)"
  shows "(\<forall>p. entrypoint s = Some p \<longrightarrow>
      (\<exists>sha t. p = entry_path sha \<and> map_of (extracted s) sha = Some t)) \<and>
    (\<forall>c. ph = Running c \<longrightarrow>
      (\<exists>sha t x. exe c = entry_path sha \<and> map_of (extracted s) sha = Some t \<and> map_of t ''entrypoint'' = Some x \<and>
        (entrypoint s = Some (exe c) \<or> trial c \<and> entrypoint_attempting s = Some (exe c))))"
  using dl_reach_inv [OF assms]
  by (fastforce simp: dl_inv_def entry_ok_def child_ok_def runnable_def split: if_splits)

lemma first_start:
  assumes off: "offers D reference r content sha t" and e: "map_of e ''DOCKERLOADER_TARGET'' = Some reference"
    and s: "entrypoint s = None" "blobs_right content s" "map_of (extracted s) sha = None"
  shows "\<exists>s'. ends (ensure_entrypoint D e) s (Done ()) s' \<and> entrypoint s' = Some (entry_path sha) \<and>
    map_of (extracted s') sha = Some t"
proof -
  obtain s1 s2 where s2: "ends (download_image D r) s (Done sha) s1"
    "ends (extract_image D sha) s1 (Done (join EXTRACTED_DIR sha)) s2" "outside_store s2 = outside_store s"
    "map_of (extracted s2) = (map_of (extracted s))(sha \<mapsto> t)"
    using fetch_ends [OF off s(2,3)] by blast
  let ?s3 = "s2\<lparr>entrypoint := Some (entry_path sha)\<rparr>"
  have parse: "parse_reference D reference = Some r" using off by (auto simp: offers_def)
  have free: "entrypoint s2 = None" using outside_store_eqD [OF s2(3)] s(1) by simp
  have "ends (download_entrypoint_initial D reference) s (Done ()) ?s3"
    unfolding download_entrypoint_initial_def parse
    by (rule ends_bind_option, rule ends_bind [OF s2(1)], rule ends_bind [OF s2(2)], rule ends_bind_look)
      (simp add: free require_def entry_path_def ends_def io_basics)
  then have "ends (ensure_entrypoint D e) s (Done ()) ?s3"
    unfolding ensure_entrypoint_def
    by (intro ends_bind_look) (simp add: s(1) link_exists_def e ends_bind_option)
  then show ?thesis using s2(4) by (intro exI [of _ ?s3]) simp
qed

lemma sample_started:
  "\<exists>s. dl_reach sample_deps [(''DOCKERLOADER_TARGET'', ''img'')] (empty_fs, Down) (s, Looping) \<and>
     entrypoint s = Some (entry_path ''v2'') \<and> map_of (extracted s) ''v2'' = Some [(''entrypoint'', ''program'')]"
proof -
  have fs: "entrypoint empty_fs = None" "blobs_right (\<lambda>_. ''program'') empty_fs" "map_of (extracted empty_fs) ''v2'' = None"
    by (simp_all add: empty_fs_def blobs_right_def)
  obtain s tr where s: "ensure_entrypoint sample_deps [(''DOCKERLOADER_TARGET'', ''img'')] empty_fs = (Done (), tr)"
    "final_state empty_fs tr = s" "entrypoint s = Some (entry_path ''v2'')"
    "map_of (extracted s) ''v2'' = Some [(''entrypoint'', ''program'')]"
    using first_start [OF sample_offers _ fs, of "[(''DOCKERLOADER_TARGET'', ''img'')]"] ends_pair by fastforce
  have "dl_reach sample_deps [(''DOCKERLOADER_TARGET'', ''img'')] (empty_fs, Down) (s, Looping)"
    using dl_reach.further [OF dl_reach.here dl_step.start [OF s(1)]] s(2) by simp
  then show ?thesis using s(3,4) by blast
qed

theorem stable_version_survives_witness:
  "\<exists>s. dl_reach sample_deps [(''DOCKERLOADER_TARGET'', ''img'')] (empty_fs, Down) (s, Looping) \<and>
     (\<exists>sha t. entry_path ''v2'' = entry_path sha \<and> map_of (extracted s) sha = Some t)"
proof -
  obtain s where s: "dl_reach sample_deps [(''DOCKERLOADER_TARGET'', ''img'')] (empty_fs, Down) (s, Looping)"
    "entrypoint s = Some (entry_path ''v2'')" using sample_started by blast
  with stable_version_survives [OF sample_digests s(1)] show ?thesis by blast
qed

text \<open>
  C12. Only the commit of a running trial replaces the stable version: in every other step, crashes
  included, the link stays and the image it leads to is unharmed. A trial that fails, is killed by the
  timer or dies with the container therefore falls back to the version before it.
\<close>

theorem only_commit_moves_entrypoint:
  assumes D: "digests_plain D" and reach: "dl_reach D e (empty_fs, Down) (s, ph)"
    and step: "dl_step D e (s, ph) (s', ph')"
    and old: "entrypoint s = Some (entry_path sha)" "map_of (extracted s) sha = Some t"
  shows "entrypoint s' = Some (entry_path sha) \<and> map_of (extracted s') sha = Some t \<or>
    (\<exists>c. ph = Running c \<and> trial c \<and> entrypoint s' = Some (exe c))"
  using dl_step_keeps [OF D dl_reach_inv [OF D reach] step] old by (auto simp: kept_def)

theorem only_commit_moves_entrypoint_witness:
  "\<exists>s s'. dl_step sample_deps [(''DOCKERLOADER_TARGET'', ''img'')] (s, Looping) (s', Down) \<and>
     entrypoint s' = Some (entry_path ''v2'') \<and> map_of (extracted s') ''v2'' = Some [(''entrypoint'', ''program'')]"
proof -
  obtain s where s: "dl_reach sample_deps [(''DOCKERLOADER_TARGET'', ''img'')] (empty_fs, Down) (s, Looping)"
    "entrypoint s = Some (entry_path ''v2'')" "map_of (extracted s) ''v2'' = Some [(''entrypoint'', ''program'')]"
    using sample_started by blast
  have step: "dl_step sample_deps [(''DOCKERLOADER_TARGET'', ''img'')] (s, Looping) (s, Down)"
    by (rule dl_step.turn_crash) (simp add: crash_states_def)
  from only_commit_moves_entrypoint [OF sample_digests s(1) step s(2,3)] step show ?thesis by auto
qed

section \<open>A failed image is not tried again\<close>

definition marked :: "string \<Rightarrow> dl_fs \<Rightarrow> bool" where
  "marked sha = holds_image (\<lambda>s. update_attempt s = Some sha \<and> entrypoint_attempt s = None) ''x'' None"

lemma marked_iff: "marked sha s \<longleftrightarrow> update_attempt s = Some sha \<and> entrypoint_attempt s = None"
  by (auto simp: marked_def holds_image_def outside_store_def)

lemma check_for_update_marked:
  assumes latest: "\<forall>ref r. parse_reference D ref = Some r \<longrightarrow> (\<exists>m. pull_manifest D r = Some (Image m, sha))"
    and sha: "trim sha = sha"
  shows "stable (marked sha) (check_for_update D reference current)"
proof -
  have "snd (check_for_update D reference current s) = []" if "marked sha s" for s
    using latest that sha
    by (cases "parse_reference D reference")
      (fastforce simp: check_for_update_def download_manifest_def pull_manifest_maybe_blob_def io_basics marked_iff
        was_update_attempted_def)+
  then show ?thesis by (auto simp: stable_def crash_ok_def)
qed

lemma calls_marked:
  assumes latest: "\<forall>ref r. parse_reference D ref = Some r \<longrightarrow> (\<exists>m. pull_manifest D r = Some (Image m, sha))"
    and sha: "trim sha = sha" and c: "app_call D c m" "\<not> trial c"
  shows "stable (marked sha) m"
proof -
  note check = check_for_update_marked [OF latest sha]
  have clean: "stable (marked sha) (cleanup_storage D keep)" for keep
    unfolding marked_def by (rule cleanup_storage_outside) (simp add: plain_name_def TMP_def REMOVING_def)
  have certs: "stable (marked sha) (change (\<lambda>s. s\<lparr>root_ca_certs := u s\<rparr>))" for u
    by (auto intro!: stable_change simp: marked_iff)
  from c(1) show ?thesis
  proof cases
    case (ready e)
    then have "map_of e ''DOCKERLOADER_TRIAL'' = None" using c(2) by simp
    then show ?thesis
      unfolding ready mark_ready_def get_running_image_sha_def
      by (simp add: c(2), intro stable_rules check clean)
  qed (simp_all only: update_tick_def init_dockerloaded_def apply_image_env_vars_def get_running_image_sha_def,
       (intro stable_rules check certs)+)
qed

lemma start_marked: "stable (marked sha) (ensure_entrypoint D e)"
proof -
  have ext: "stable (marked sha) (extract_image D n)" for n
    unfolding marked_def
    by (rule extract_image_stable) (simp add: plain_name_def TMP_def REMOVING_def)
  have img: "stable (marked sha) (download_image D r)" for r
    unfolding marked_def by (rule download_image_stable)
  have link: "stable (marked sha) (change (\<lambda>s. s\<lparr>entrypoint := u s\<rparr>))" for u
    by (auto intro!: stable_change simp: marked_iff)
  show ?thesis
    unfolding ensure_entrypoint_def download_entrypoint_initial_def by (intro stable_rules ext img link)
qed

text \<open>
  C15. An image is tried once. When the container comes up with the marker of an attempted image and
  nothing left to pick up, and the registry still offers that image as the latest, no later run
  starts a trial, and the marker stays: a failing image does not put the container into a loop.
\<close>

theorem failed_update_not_retried:
  assumes latest: "\<forall>ref r. parse_reference D ref = Some r \<longrightarrow> (\<exists>m. pull_manifest D r = Some (Image m, sha))"
    and sha: "trim sha = sha" and s: "update_attempt s = Some sha" "entrypoint_attempt s = None"
    and reach: "dl_reach D e (s, Down) (s', ph)"
  shows "update_attempt s' = Some sha \<and> entrypoint_attempt s' = None \<and> (\<forall>c. ph = Running c \<longrightarrow> \<not> trial c)"
proof -
  note calls = calls_marked [OF latest sha]
  have step: "marked sha u' \<and> (\<forall>c. ph' = Running c \<longrightarrow> \<not> trial c)"
    if "dl_step D e (u, ph) (u', ph')" "marked sha u" "\<forall>c. ph = Running c \<longrightarrow> \<not> trial c" for u u' ph ph'
    using that(1)
  proof cases
    case (turn c tr)
    then show ?thesis
      using that(2)
      by (auto simp: iterate_def begin_iteration_def spawn_def io_basics marked_iff link_exists_def
          split: option.splits)
  next
    case turn_crash
    then show ?thesis
      using that(2)
      by (auto simp: crash_states_def iterate_def begin_iteration_def spawn_def io_basics marked_iff link_exists_def
          split: option.splits)
  next
    case (start tr)
    then show ?thesis using that(2) stable_final(2) [OF start_marked] by auto
  next
    case start_crash
    then show ?thesis using that(2) stable_states [OF start_marked] by auto
  next
    case (call c m tr x)
    then show ?thesis using that(2,3) stable_final(2) [OF calls] by metis
  next
    case (call_exit c m n tr)
    then show ?thesis using that(2,3) stable_final(2) [OF calls] by (auto simp: after_exit_def)
  next
    case (call_crash c m)
    then show ?thesis using that(2,3) stable_states [OF calls] by blast
  qed (use that(2,3) in \<open>auto simp: after_exit_def on_timeout_def split: if_splits\<close>)
  have "marked sha (fst st) \<and> (\<forall>c. snd st = Running c \<longrightarrow> \<not> trial c)" if "dl_reach D e (s, Down) st" for st
    using that
  proof induction
    case here
    show ?case using s by (simp add: marked_iff)
  next
    case (further st st')
    obtain u ph u' ph' where st: "st = (u, ph)" "st' = (u', ph')" by (cases st; cases st')
    with further have "dl_step D e (u, ph) (u', ph')" "marked sha u" "\<forall>c. ph = Running c \<longrightarrow> \<not> trial c" by auto
    from step [OF this] show ?case by (simp add: st)
  qed
  from this [OF reach] show ?thesis by (simp add: marked_iff)
qed

theorem failed_update_not_retried_witness:
  "\<exists>c. dl_reach sample_deps [] (sample_fs\<lparr>update_attempt := Some ''v2''\<rparr>, Down)
       (sample_fs\<lparr>update_attempt := Some ''v2''\<rparr>, Running c) \<and> \<not> trial c"
proof -
  let ?s = "sample_fs\<lparr>update_attempt := Some ''v2''\<rparr>"
  let ?c = "\<lparr>exe = entry_path ''v1'', trial = False, timer = False\<rparr>"
  have link: "link_exists ?s (Some (entry_path ''v1''))"
    using link_exists_entry [OF sample_plain(1), of ?s] by (simp add: runnable_def sample_fs_def)
  have links: "entrypoint ?s = Some (entry_path ''v1'')" "entrypoint_attempt ?s = None" by (simp_all add: sample_fs_def)
  have none: "link_exists ?s None = False" by (simp add: link_exists_def)
  have up: "ensure_entrypoint sample_deps [] ?s = (Done (), [])"
    unfolding ensure_entrypoint_def bind_io_def look_def links by (simp add: link ret_def)
  have turn: "iterate ?s = (Done ?c, [])"
    unfolding iterate_def begin_iteration_def spawn_def io_basics Let_def links none
    by (simp add: link links)
  have s1: "dl_step sample_deps [] (?s, Down) (?s, Looping)" using dl_step.start [OF up] by simp
  have s2: "dl_step sample_deps [] (?s, Looping) (?s, Running ?c)" using dl_step.turn [OF turn] by simp
  have reach: "dl_reach sample_deps [] (?s, Down) (?s, Running ?c)"
    using dl_reach.further [OF dl_reach.further [OF dl_reach.here s1] s2] .
  have latest: "\<forall>ref r. parse_reference sample_deps ref = Some r \<longrightarrow> (\<exists>m. pull_manifest sample_deps r = Some (Image m, ''v2''))"
    by (simp add: sample_deps_def)
  have "trim ''v2'' = ''v2''" "update_attempt ?s = Some ''v2''" "entrypoint_attempt ?s = None"
    by (simp_all add: trim_def sample_fs_def)
  from failed_update_not_retried [OF latest this reach] reach show ?thesis by blast
qed

end
