(* ===== verification/TunnelDb.thy ===== *)
theory TunnelDb
  imports Prelude "HOL-Library.AList"
begin

text \<open>
  The database of the tunnel server, \<^verbatim>\<open>tunnel/src/db.rs\<close> and the entities it uses: the schema
  migrations, the tables as lists of rows in the order of insertion, one operation per method of
  \<^verbatim>\<open>DB\<close> (a method is one statement or one transaction, and so atomic), with the unique keys of
  the schema as the errors they are. Random identifiers and the clock are arguments. The
  invariant \<open>db_wf\<close> collects the unique keys and the references between tables; every operation
  keeps it.
\<close>

named_theorems db_simps \<open>definitions of the database operations\<close>
named_theorems db_intros \<open>operations keep the database well formed\<close>

section \<open>Schema\<close>

datatype coltype = TextCol | IntegerCol

record column =
  col_name :: string
  col_type :: coltype
  not_null :: bool

datatype ddl =
    CreateTable string "column list" "string list"
  | CreateUniqueIndex string string "string list" "string option"

text \<open>
  The schema is the list of statements that were executed; a table or index can be created only
  once and an index needs its table. The version table has one row once it exists.
\<close>

record schema =
  objects :: "ddl list"
  schema_version :: "string option"

fun ddl_name :: "ddl \<Rightarrow> string" where
  "ddl_name (CreateTable n cs ks) = n"
| "ddl_name (CreateUniqueIndex n t cs w) = n"

fun has_table :: "ddl list \<Rightarrow> string \<Rightarrow> bool" where
  "has_table ds t = (\<exists>d \<in> set ds. case d of CreateTable n _ _ \<Rightarrow> n = t | _ \<Rightarrow> False)"

definition execute :: "ddl \<Rightarrow> schema \<Rightarrow> schema option" where
  "execute d s =
     (if ddl_name d \<in> ddl_name ` set (objects s) then None
      else case d of
        CreateTable n cs ks \<Rightarrow> Some (s\<lparr>objects := objects s @ [d]\<rparr>)
      | CreateUniqueIndex n t cs w \<Rightarrow>
          if has_table (objects s) t then Some (s\<lparr>objects := objects s @ [d]\<rparr>) else None)"

fun execute_all :: "ddl list \<Rightarrow> schema \<Rightarrow> schema option" where
  "execute_all [] s = Some s"
| "execute_all (d # ds) s = Option.bind (execute d s) (execute_all ds)"

definition text_col :: "string \<Rightarrow> column" where
  "text_col n = \<lparr>col_name = n, col_type = TextCol, not_null = True\<rparr>"

definition version_table :: ddl where
  "version_table = CreateTable ''schema_version'' [text_col ''current_version''] [''current_version'']"

definition create_version_table :: "string \<Rightarrow> schema \<Rightarrow> (string \<times> schema) option" where
  "create_version_table v s =
     map_option (\<lambda>t. (v, t\<lparr>schema_version := Some v\<rparr>)) (execute version_table s)"

definition get_version :: "schema \<Rightarrow> string option" where
  "get_version s = (if has_table (objects s) ''schema_version'' then schema_version s else None)"

definition update_version :: "string \<Rightarrow> schema \<Rightarrow> (string \<times> schema) option" where
  "update_version v s =
     (if has_table (objects s) ''schema_version''
      then Some (v, s\<lparr>schema_version := map_option (\<lambda>_. v) (schema_version s)\<rparr>) else None)"

definition ddl_v1 :: "ddl list" where
  "ddl_v1 =
     [CreateTable ''users''
        [text_col ''id'', text_col ''email'',
         \<lparr>col_name = ''github_user_id'', col_type = IntegerCol, not_null = False\<rparr>] [''id''],
      CreateTable ''user_domains'' [text_col ''user_id'', text_col ''domain'']
        [''user_id'', ''domain''],
      CreateUniqueIndex ''idx_users_email'' ''users'' [''email''] None,
      CreateUniqueIndex ''idx_users_github_user_id'' ''users'' [''github_user_id'']
        (Some ''github_user_id''),
      CreateUniqueIndex ''idx_user_domains_domain'' ''user_domains'' [''domain''] None]"

definition ddl_v2 :: "ddl list" where
  "ddl_v2 = [CreateTable ''sessions'' [text_col ''id'', text_col ''user_id''] [''id'']]"

definition ddl_v3 :: "ddl list" where
  "ddl_v3 = [CreateTable ''auth_tokens'' [text_col ''id'', text_col ''user_id''] [''id'']]"

definition ddl_v4 :: "ddl list" where
  "ddl_v4 =
     [CreateTable ''device_tokens''
        [text_col ''device_code'', text_col ''user_code'', text_col ''state'',
         text_col ''approved_by_user_id'', text_col ''next_poll_at'',
         \<lparr>col_name = ''interval_seconds'', col_type = IntegerCol, not_null = True\<rparr>,
         text_col ''expires_at''] [''device_code''],
      CreateUniqueIndex ''idx_device_tokens_user_code'' ''device_tokens'' [''user_code''] None]"

definition ddl_v5 :: "ddl list" where
  "ddl_v5 =
     [CreateTable ''dns_records''
        [text_col ''name'', text_col ''kind'', text_col ''value'',
         \<lparr>col_name = ''ttl_seconds'', col_type = IntegerCol, not_null = True\<rparr>,
         \<lparr>col_name = ''expires_at'', col_type = TextCol, not_null = False\<rparr>]
        [''name'', ''kind'']]"

text \<open>
  One \<^verbatim>\<open>if current_version == ...\<close> block: it runs its statements and counts the version up, or
  passes both on.
\<close>

definition migration ::
  "string \<Rightarrow> ddl list \<Rightarrow> string \<Rightarrow> string \<times> schema \<Rightarrow> (string \<times> schema) option"
where
  "migration from_v ds to_v vs =
     (case vs of (v, s) \<Rightarrow>
        if v = from_v then Option.bind (execute_all ds s) (update_version to_v) else Some (v, s))"

text \<open>
  The transaction is committed at the end and rolled back on an error: the outcome carries the
  schema that is left on disk.
\<close>

definition migrate :: "schema \<Rightarrow> bool \<times> schema" where
  "migrate s =
     (case Option.bind
        (case get_version s of Some v \<Rightarrow> Some (v, s) | None \<Rightarrow> create_version_table ''v0'' s)
        (\<lambda>vs. Option.bind (migration ''v0'' ddl_v1 ''v1'' vs)
        (\<lambda>vs. Option.bind (migration ''v1'' ddl_v2 ''v2'' vs)
        (\<lambda>vs. Option.bind (migration ''v2'' ddl_v3 ''v3'' vs)
        (\<lambda>vs. Option.bind (migration ''v3'' ddl_v4 ''v4'' vs)
        (migration ''v4'' ddl_v5 ''v5'')))))
      of Some (v, t) \<Rightarrow> (True, t) | None \<Rightarrow> (False, s))"

definition empty_schema :: schema where
  "empty_schema = \<lparr>objects = [], schema_version = None\<rparr>"

text \<open>The schema of each version, for the statements below.\<close>

definition schema_at :: "nat \<Rightarrow> schema" where
  "schema_at n =
     \<lparr>objects = version_table # concat (take n [ddl_v1, ddl_v2, ddl_v3, ddl_v4, ddl_v5]),
      schema_version = Some (''v'' @ [char_of (48 + n)])\<rparr>"

lemma migrate_each_version:
  "migrate (schema_at 0) = (True, schema_at 5)" "migrate (schema_at 1) = (True, schema_at 5)"
  "migrate (schema_at 2) = (True, schema_at 5)" "migrate (schema_at 3) = (True, schema_at 5)"
  "migrate (schema_at 4) = (True, schema_at 5)" "migrate (schema_at 5) = (True, schema_at 5)"
  "migrate empty_schema = (True, schema_at 5)"
  by code_simp+

lemma nat_le_5: "(n :: nat) \<le> 5 \<Longrightarrow> n = 0 \<or> n = 1 \<or> n = 2 \<or> n = 3 \<or> n = 4 \<or> n = 5"
  by arith

theorem migrate_completes:
  assumes "s = empty_schema \<or> (\<exists>n \<le> 5. s = schema_at n)"
  shows "migrate s = (True, schema_at 5)"
  using assms migrate_each_version by (auto dest: nat_le_5)

section \<open>Tables\<close>

record users_model =
  row_id :: string
  row_email :: string
  row_github_user_id :: "int option"

record user_domains_model =
  owner_id :: string
  owned_domain :: string

record sessions_model =
  session_id :: string
  session_user_id :: string

record auth_tokens_model =
  auth_id :: string
  auth_user_id :: string

datatype TokenState = Pending | Approved | Rejected | Exchanged

text \<open>Points in time are counted in nanoseconds.\<close>

record device_tokens_model =
  device_code :: string
  user_code :: string
  token_state :: TokenState
  approved_by_user_id :: string
  next_poll_at :: int
  interval_seconds :: int
  expires_at :: int

record dns_records_model =
  rec_name :: string
  rec_kind :: string
  rec_value :: string
  ttl_seconds :: int
  rec_expires_at :: "int option"

record tdb =
  users :: "users_model list"
  user_domains :: "user_domains_model list"
  sessions :: "sessions_model list"
  auth_tokens :: "auth_tokens_model list"
  device_tokens :: "device_tokens_model list"
  dns_records :: "dns_records_model list"

record User =
  user_id :: string
  email :: string
  github_user_id :: "int option"
  domains :: "string list"

datatype db_err = UniqueViolation | RecordNotUpdated

type_synonym 'a db_op = "tdb \<Rightarrow> (db_err, 'a) outcome \<times> tdb"

definition empty_db :: tdb where
  "empty_db = \<lparr>users = [], user_domains = [], sessions = [], auth_tokens = [],
     device_tokens = [], dns_records = []\<rparr>"

section \<open>Operations\<close>

text \<open>Rows a unique key of the schema refuses.\<close>

definition user_conflict :: "users_model \<Rightarrow> tdb \<Rightarrow> bool" where
  "user_conflict u s =
     (\<exists>v \<in> set (users s). row_id v = row_id u \<or> row_email v = row_email u \<or>
        (row_github_user_id u \<noteq> None \<and> row_github_user_id v = row_github_user_id u))"

definition insert_user_row :: "users_model \<Rightarrow> unit db_op" where
  "insert_user_row u s =
     (if user_conflict u s then (Err UniqueViolation, s)
      else (Ok (), s\<lparr>users := users s @ [u]\<rparr>))"

definition insert_user_domain :: "user_domains_model \<Rightarrow> unit db_op" where
  "insert_user_domain d s =
     (if owned_domain d \<in> owned_domain ` set (user_domains s) then (Err UniqueViolation, s)
      else (Ok (), s\<lparr>user_domains := user_domains s @ [d]\<rparr>))"

fun insert_user_domains :: "string \<Rightarrow> string list \<Rightarrow> unit db_op" where
  "insert_user_domains uid [] s = (Ok (), s)"
| "insert_user_domains uid (d # ds) s =
     bind_st (insert_user_domain \<lparr>owner_id = uid, owned_domain = d\<rparr> s)
       (\<lambda>_. insert_user_domains uid ds)"

text \<open>A transaction: on an error the database is as before.\<close>

definition transaction :: "'a db_op \<Rightarrow> 'a db_op" where
  "transaction f s = (case f s of (Ok a, t) \<Rightarrow> (Ok a, t) | (r, t) \<Rightarrow> (r, s))"

definition create_user :: "string \<Rightarrow> string \<Rightarrow> int option \<Rightarrow> string list \<Rightarrow> User db_op" where
  "create_user new_id mail github ds =
     transaction (\<lambda>s.
       bind_st (insert_user_row
           \<lparr>row_id = new_id, row_email = mail, row_github_user_id = github\<rparr> s) (\<lambda>_ s.
       bind_st (insert_user_domains new_id ds s) (\<lambda>_ s.
         (Ok \<lparr>user_id = new_id, email = mail, github_user_id = github, domains = ds\<rparr>, s))))"

definition domains_of :: "string \<Rightarrow> tdb \<Rightarrow> string list" where
  "domains_of uid s =
     map owned_domain (filter (\<lambda>d. owner_id d = uid) (user_domains s))"

definition get_user_internal :: "(users_model \<Rightarrow> bool) \<Rightarrow> User option db_op" where
  "get_user_internal q s =
     (Ok (case find q (users s) of
        None \<Rightarrow> None
      | Some u \<Rightarrow> Some \<lparr>user_id = row_id u, email = row_email u,
          github_user_id = row_github_user_id u, domains = domains_of (row_id u) s\<rparr>), s)"

definition get_user_by_id :: "string \<Rightarrow> User option db_op" where
  "get_user_by_id uid = transaction (get_user_internal (\<lambda>u. row_id u = uid))"

definition get_user_by_github_user_id :: "int \<Rightarrow> User option db_op" where
  "get_user_by_github_user_id g =
     transaction (get_user_internal (\<lambda>u. row_github_user_id u = Some g))"

definition get_user_by_email :: "string \<Rightarrow> User option db_op" where
  "get_user_by_email m = transaction (get_user_internal (\<lambda>u. row_email u = m))"

definition delete_session_token :: "string \<Rightarrow> unit db_op" where
  "delete_session_token i s =
     (Ok (), s\<lparr>sessions := filter (\<lambda>r. session_id r \<noteq> i) (sessions s)\<rparr>)"

definition create_session_token :: "string \<Rightarrow> string \<Rightarrow> sessions_model db_op" where
  "create_session_token new_id uid s =
     (let r = \<lparr>session_id = new_id, session_user_id = uid\<rparr> in
      if new_id \<in> session_id ` set (sessions s) then (Err UniqueViolation, s)
      else (Ok r, s\<lparr>sessions := sessions s @ [r]\<rparr>))"

definition get_session_token_by_id :: "string \<Rightarrow> sessions_model option db_op" where
  "get_session_token_by_id i s = (Ok (find (\<lambda>r. session_id r = i) (sessions s)), s)"

definition create_auth_token :: "string \<Rightarrow> string \<Rightarrow> auth_tokens_model db_op" where
  "create_auth_token new_id uid s =
     (let r = \<lparr>auth_id = new_id, auth_user_id = uid\<rparr> in
      if new_id \<in> auth_id ` set (auth_tokens s) then (Err UniqueViolation, s)
      else (Ok r, s\<lparr>auth_tokens := auth_tokens s @ [r]\<rparr>))"

definition register_user_domain :: "string \<Rightarrow> string \<Rightarrow> unit db_op" where
  "register_user_domain uid d = insert_user_domain \<lparr>owner_id = uid, owned_domain = d\<rparr>"

definition get_device_token_by_device_code :: "string \<Rightarrow> device_tokens_model option db_op" where
  "get_device_token_by_device_code c s =
     (Ok (find (\<lambda>r. device_code r = c) (device_tokens s)), s)"

definition get_device_token_by_user_code :: "string \<Rightarrow> device_tokens_model option db_op" where
  "get_device_token_by_user_code c s =
     (Ok (find (\<lambda>r. user_code r = c) (device_tokens s)), s)"

definition insert_device_token :: "device_tokens_model \<Rightarrow> unit db_op" where
  "insert_device_token r s =
     (if device_code r \<in> device_code ` set (device_tokens s) \<or>
         user_code r \<in> user_code ` set (device_tokens s)
      then (Err UniqueViolation, s)
      else (Ok (), s\<lparr>device_tokens := device_tokens s @ [r]\<rparr>))"

text \<open>The update sets every column but the user code, in the row of the device code.\<close>

definition rewrite_token :: "device_tokens_model \<Rightarrow> device_tokens_model \<Rightarrow> device_tokens_model" where
  "rewrite_token r old =
     (if device_code old = device_code r then r\<lparr>user_code := user_code old\<rparr> else old)"

definition update_device_token :: "device_tokens_model \<Rightarrow> unit db_op" where
  "update_device_token r s =
     (if device_code r \<in> device_code ` set (device_tokens s)
      then (Ok (), s\<lparr>device_tokens := map (rewrite_token r) (device_tokens s)\<rparr>)
      else (Err RecordNotUpdated, s))"

definition get_auth_token_by_id :: "string \<Rightarrow> auth_tokens_model option db_op" where
  "get_auth_token_by_id i s = (Ok (find (\<lambda>r. auth_id r = i) (auth_tokens s)), s)"

text \<open>The upsert keeps the place of a row with the same name and kind.\<close>

fun upsert_row :: "dns_records_model \<Rightarrow> dns_records_model list \<Rightarrow> dns_records_model list" where
  "upsert_row r [] = [r]"
| "upsert_row r (x # xs) =
     (if rec_name x = rec_name r \<and> rec_kind x = rec_kind r then r # xs else x # upsert_row r xs)"

definition write_dns_record ::
  "string \<Rightarrow> string \<Rightarrow> string \<Rightarrow> int \<Rightarrow> int option \<Rightarrow> unit db_op"
where
  "write_dns_record nm kd val ttl ex s =
     (Ok (), s\<lparr>dns_records := upsert_row
        \<lparr>rec_name = nm, rec_kind = kd, rec_value = val, ttl_seconds = ttl,
         rec_expires_at = ex\<rparr> (dns_records s)\<rparr>)"

definition get_records :: "dns_records_model list db_op" where
  "get_records s = (Ok (dns_records s), s)"

lemmas db_defs [db_simps] =
  insert_user_row_def insert_user_domain_def transaction_def create_user_def
  get_user_internal_def get_user_by_id_def get_user_by_github_user_id_def get_user_by_email_def
  delete_session_token_def create_session_token_def get_session_token_by_id_def
  create_auth_token_def register_user_domain_def get_device_token_by_device_code_def
  get_device_token_by_user_code_def insert_device_token_def update_device_token_def
  get_auth_token_by_id_def write_dns_record_def get_records_def

section \<open>Invariant\<close>

text \<open>
  The unique keys of the schema, and the references the code relies on although the schema does
  not declare them: a domain, a session and an auth token belong to a user, and so does the
  approval of a device token.
\<close>

definition db_keys :: "tdb \<Rightarrow> bool" where
  "db_keys s \<longleftrightarrow>
     distinct (map row_id (users s)) \<and> distinct (map row_email (users s)) \<and>
     distinct (filter (\<lambda>g. g \<noteq> None) (map row_github_user_id (users s))) \<and>
     distinct (map owned_domain (user_domains s)) \<and>
     distinct (map session_id (sessions s)) \<and> distinct (map auth_id (auth_tokens s)) \<and>
     distinct (map device_code (device_tokens s)) \<and> distinct (map user_code (device_tokens s)) \<and>
     distinct (map (\<lambda>r. (rec_name r, rec_kind r)) (dns_records s))"

definition approved_ok :: "tdb \<Rightarrow> device_tokens_model \<Rightarrow> bool" where
  "approved_ok s r \<longleftrightarrow> token_state r = Approved \<longrightarrow> approved_by_user_id r \<in> row_id ` set (users s)"

definition db_refs :: "tdb \<Rightarrow> bool" where
  "db_refs s \<longleftrightarrow>
     owner_id ` set (user_domains s) \<subseteq> row_id ` set (users s) \<and>
     session_user_id ` set (sessions s) \<subseteq> row_id ` set (users s) \<and>
     auth_user_id ` set (auth_tokens s) \<subseteq> row_id ` set (users s) \<and>
     list_all (approved_ok s) (device_tokens s)"

definition db_wf :: "tdb \<Rightarrow> bool" where
  "db_wf s \<longleftrightarrow> db_keys s \<and> db_refs s"

definition is_user :: "string \<Rightarrow> tdb \<Rightarrow> bool" where
  "is_user uid s \<longleftrightarrow> uid \<in> row_id ` set (users s)"

text \<open>Users and their domains are never removed.\<close>

definition users_grow :: "tdb \<Rightarrow> tdb \<Rightarrow> bool" where
  "users_grow s t \<longleftrightarrow>
     (\<forall>uid. is_user uid s \<longrightarrow> is_user uid t) \<and> set (user_domains s) \<subseteq> set (user_domains t)"

lemma users_grow_refl [simp]: "users_grow s s"
  by (simp add: users_grow_def)

lemma users_growI:
  "set (users s) \<subseteq> set (users t) \<Longrightarrow> set (user_domains s) \<subseteq> set (user_domains t) \<Longrightarrow> users_grow s t"
  by (auto simp: users_grow_def is_user_def)

lemma distinct_find_map:
  "distinct (map f xs) \<Longrightarrow> x \<in> set xs \<Longrightarrow> find (\<lambda>r. f r = f x) xs = Some x"
  by (induction xs) auto

lemma find_Some_mem: "find p xs = Some x \<Longrightarrow> x \<in> set xs \<and> p x"
  by (induction xs) (auto split: if_splits)

lemma rewrite_token_codes [simp]:
  "device_code (rewrite_token r x) = device_code x" "user_code (rewrite_token r x) = user_code x"
  by (simp_all add: rewrite_token_def)

lemma map_rewrite_codes [simp]:
  "map device_code (map (rewrite_token r) xs) = map device_code xs"
  "map user_code (map (rewrite_token r) xs) = map user_code xs"
  by (simp_all add: o_def)

lemma set_upsert_keys:
  "(\<lambda>x. (rec_name x, rec_kind x)) ` set (upsert_row r xs) =
     insert (rec_name r, rec_kind r) ((\<lambda>x. (rec_name x, rec_kind x)) ` set xs)"
  by (induction xs) auto

lemma distinct_upsert_row:
  "distinct (map (\<lambda>x. (rec_name x, rec_kind x)) xs) \<Longrightarrow>
   distinct (map (\<lambda>x. (rec_name x, rec_kind x)) (upsert_row r xs))"
  by (induction xs) (auto simp: set_upsert_keys)

lemma distinct_append_github:
  "\<not> user_conflict u s \<Longrightarrow>
   distinct (filter (\<lambda>g. g \<noteq> None) (map row_github_user_id (users s))) \<Longrightarrow>
   distinct (filter (\<lambda>g. g \<noteq> None) (map row_github_user_id (users s @ [u])))"
  by (auto simp: user_conflict_def)

lemma empty_db_wf [simp]: "db_wf empty_db"
  by (simp add: db_wf_def db_keys_def db_refs_def empty_db_def)

section \<open>Operations keep the invariant\<close>

text \<open>
  The step from \<open>s\<close> to \<open>t\<close> is allowed: the invariant stays and no user is lost. What one request
  has learnt about a user therefore survives the steps of all others.
\<close>

definition db_step :: "tdb \<Rightarrow> tdb \<Rightarrow> bool" where
  "db_step s t \<longleftrightarrow> (db_wf s \<longrightarrow> db_wf t) \<and> users_grow s t"

lemma db_step_refl [simp, intro!]: "db_step s s"
  by (simp add: db_step_def)

lemma db_step_trans [trans]: "db_step s t \<Longrightarrow> db_step t u \<Longrightarrow> db_step s u"
  by (auto simp: db_step_def users_grow_def)

lemma db_stepI:
  "(db_wf s \<Longrightarrow> db_wf t) \<Longrightarrow> users_grow s t \<Longrightarrow> db_step s t"
  by (simp add: db_step_def)

lemma db_step_wf: "db_step s t \<Longrightarrow> db_wf s \<Longrightarrow> db_wf t"
  by (simp add: db_step_def)

lemma db_step_user: "db_step s t \<Longrightarrow> is_user uid s \<Longrightarrow> is_user uid t"
  by (simp add: db_step_def users_grow_def)

lemmas wf_unfold = db_wf_def db_keys_def db_refs_def approved_ok_def is_user_def

lemma insert_user_row_step [db_intros]: "db_step s (snd (insert_user_row u s))"
proof (cases "user_conflict u s")
  case False
  have "db_wf (s\<lparr>users := users s @ [u]\<rparr>)" if "db_wf s"
    using that False distinct_append_github [OF False]
    by (auto simp: wf_unfold user_conflict_def list_all_iff)
  with False show ?thesis
    by (auto simp: insert_user_row_def intro!: db_stepI users_growI)
qed (simp add: insert_user_row_def)

lemma insert_user_domain_step [db_intros]:
  "is_user (owner_id d) s \<Longrightarrow> db_step s (snd (insert_user_domain d s))"
  by (rule db_stepI [OF _ users_growI]) (auto simp: insert_user_domain_def wf_unfold list_all_iff)

lemma insert_user_domains_step:
  "is_user uid s \<Longrightarrow> db_step s (snd (insert_user_domains uid ds s))"
proof (induction ds arbitrary: s)
  case (Cons d ds)
  let ?r = "insert_user_domain \<lparr>owner_id = uid, owned_domain = d\<rparr> s"
  have step: "db_step s (snd ?r)"
    using Cons.prems by (simp add: insert_user_domain_step)
  moreover have "db_step (snd ?r) (snd (insert_user_domains uid ds (snd ?r)))"
    by (rule Cons.IH) (rule db_step_user [OF step Cons.prems])
  ultimately show ?case
    using db_step_trans by (cases ?r; cases "fst ?r") auto
qed simp

lemma create_user_step [db_intros]: "db_step s (snd (create_user i m g ds s))"
proof -
  let ?u = "\<lparr>row_id = i, row_email = m, row_github_user_id = g\<rparr>"
  let ?r = "insert_user_row ?u s"
  have step: "db_step s (snd ?r)" by (rule insert_user_row_step)
  show ?thesis
  proof (cases "user_conflict ?u s")
    case True
    then show ?thesis by (simp add: create_user_def transaction_def insert_user_row_def)
  next
    case False
    then have "is_user i (snd ?r)" by (simp add: insert_user_row_def is_user_def)
    then have "db_step s (snd (insert_user_domains i ds (snd ?r)))"
      using db_step_trans [OF step] insert_user_domains_step by blast
    with False show ?thesis
      by (cases "insert_user_domains i ds (snd ?r)"; cases "fst (insert_user_domains i ds (snd ?r))")
        (auto simp: create_user_def transaction_def insert_user_row_def)
  qed
qed

lemma insert_user_domains_users [simp]: "users (snd (insert_user_domains uid ds s)) = users s"
proof (induction ds arbitrary: s)
  case (Cons d ds)
  then show ?case by (simp add: insert_user_domain_def)
qed simp

lemma create_user_is_user:
  assumes "create_user i m g ds s = (Ok u, t)"
  shows "is_user (user_id u) t"
proof -
  let ?s = "s\<lparr>users := users s @ [\<lparr>row_id = i, row_email = m, row_github_user_id = g\<rparr>]\<rparr>"
  from assms have "insert_user_domains i ds ?s = (Ok (), t)" and u: "user_id u = i"
    by (auto simp: create_user_def transaction_def bind_st_Ok_iff insert_user_row_def
          split: prod.splits outcome.splits if_splits)
  then have "users t = users ?s" by (metis insert_user_domains_users snd_conv)
  with u show ?thesis by (simp add: is_user_def)
qed

lemma delete_session_step [db_intros]: "db_step s (snd (delete_session_token i s))"
  by (rule db_stepI [OF _ users_growI]) (auto simp: delete_session_token_def wf_unfold list_all_iff distinct_map_filter)

lemma create_session_step [db_intros]:
  "is_user uid s \<Longrightarrow> db_step s (snd (create_session_token i uid s))"
  by (rule db_stepI [OF _ users_growI]) (auto simp: create_session_token_def Let_def wf_unfold list_all_iff)

lemma create_auth_step [db_intros]:
  "is_user uid s \<Longrightarrow> db_step s (snd (create_auth_token i uid s))"
  by (rule db_stepI [OF _ users_growI]) (auto simp: create_auth_token_def Let_def wf_unfold list_all_iff)

lemma register_domain_step [db_intros]:
  "is_user uid s \<Longrightarrow> db_step s (snd (register_user_domain uid d s))"
  by (simp add: register_user_domain_def insert_user_domain_step)

lemma insert_device_step [db_intros]:
  "token_state r = Pending \<Longrightarrow> db_step s (snd (insert_device_token r s))"
  by (rule db_stepI [OF _ users_growI]) (auto simp: insert_device_token_def wf_unfold list_all_iff)

lemma update_device_step [db_intros]:
  assumes "token_state r = Approved \<Longrightarrow> is_user (approved_by_user_id r) s"
  shows "db_step s (snd (update_device_token r s))"
proof (rule db_stepI)
  let ?t = "s\<lparr>device_tokens := map (rewrite_token r) (device_tokens s)\<rparr>"
  have "db_wf ?t" if "db_wf s"
    using that assms
    by (auto simp: wf_unfold list_all_iff comp_def) (auto simp: rewrite_token_def split: if_splits)
  then show "db_wf (snd (update_device_token r s))" if "db_wf s"
    using that by (simp add: update_device_token_def)
qed (auto simp: update_device_token_def intro!: users_growI)

lemma write_dns_step [db_intros]: "db_step s (snd (write_dns_record n k v ttl ex s))"
  by (rule db_stepI [OF _ users_growI])
    (auto simp: write_dns_record_def wf_unfold list_all_iff distinct_upsert_row)

text \<open>Queries change nothing.\<close>

lemma queries_keep [simp]:
  "snd (get_user_by_id i s) = s" "snd (get_user_by_email m s) = s"
  "snd (get_user_by_github_user_id g s) = s" "snd (get_session_token_by_id i s) = s"
  "snd (get_device_token_by_device_code c s) = s" "snd (get_device_token_by_user_code c s) = s"
  "snd (get_auth_token_by_id i s) = s" "snd (get_records s) = s"
  by (simp_all add: db_simps split: option.splits)

end
