(* ===== verification/TunnelProg.thy ===== *)
theory TunnelProg
  imports TunnelDb
begin

text \<open>
  Requests of the tunnel server as programs over the database: a program finishes, stops with an
  error or a panic, or makes one call of the database and goes on. The server runs many requests
  at once and every \<^verbatim>\<open>await\<close> on the database lets others run, so a state of the server is a list of
  programs and a database, and a step is one database call of one program. The judgement
  \<open>sat G P p Q\<close> is a rely-guarantee triple: from a database with \<open>P\<close>, every call of \<open>p\<close> makes a
  \<open>G\<close> step whatever \<open>G\<close> steps others make in between, and \<open>p\<close> finishes with \<open>Q\<close>, if it finishes
  with a value.
\<close>

section \<open>Programs\<close>

text \<open>\<^verbatim>\<open>Bailed\<close> is an error that the caller of the program receives, \<^verbatim>\<open>Panicked\<close> ends the task.\<close>

datatype failure = Bailed string | Panicked string

datatype 'a prog = Finish 'a | Abort failure | Call "tdb \<Rightarrow> 'a prog \<times> tdb"

primrec bind_prog :: "'a prog \<Rightarrow> ('a \<Rightarrow> 'b prog) \<Rightarrow> 'b prog" where
  "bind_prog (Finish a) k = k a"
| "bind_prog (Abort e) k = Abort e"
| "bind_prog (Call f) k = Call (\<lambda>s. map_prod (\<lambda>p. bind_prog p k) id (f s))"

text \<open>\<^verbatim>\<open>expect\<close> and \<^verbatim>\<open>unwrap\<close> turn an error into a panic.\<close>

fun panicking :: "string \<Rightarrow> failure \<Rightarrow> failure" where
  "panicking m (Bailed e) = Panicked m"
| "panicking m (Panicked e) = Panicked e"

primrec expecting :: "string \<Rightarrow> 'a prog \<Rightarrow> 'a prog" where
  "expecting m (Finish a) = Finish a"
| "expecting m (Abort e) = Abort (panicking m e)"
| "expecting m (Call f) = Call (\<lambda>s. map_prod (expecting m) id (f s))"

fun from_outcome :: "(db_err, 'a) outcome \<Rightarrow> 'a prog" where
  "from_outcome (Ok a) = Finish a"
| "from_outcome (Err e) = Abort (Bailed ''database'')"
| "from_outcome Panic = Abort (Panicked ''database'')"

definition query :: "'a db_op \<Rightarrow> 'a prog" where
  "query op = Call (\<lambda>s. map_prod from_outcome id (op s))"

definition context_opt :: "string \<Rightarrow> 'a option \<Rightarrow> 'a prog" where
  "context_opt m x = (case x of Some a \<Rightarrow> Finish a | None \<Rightarrow> Abort (Bailed m))"

text \<open>A program run alone.\<close>

primrec run_prog :: "'a prog \<Rightarrow> tdb \<Rightarrow> (failure + 'a) \<times> tdb" where
  "run_prog (Finish a) s = (Inr a, s)"
| "run_prog (Abort e) s = (Inl e, s)"
| "run_prog (Call f) s = (case map_prod run_prog id (f s) of (g, t) \<Rightarrow> g t)"

lemma prog_induct [case_names Finish Abort Call]:
  assumes "\<And>a. P (Finish a)" and "\<And>e. P (Abort e)"
    and "\<And>f. (\<And>s. P (fst (f s))) \<Longrightarrow> P (Call f)"
  shows "P p"
proof (induction p)
  case (Call f)
  then show ?case
    by (intro assms(3) Call.IH [of "f s" for s]) (auto simp: fsts.simps intro: surjective_pairing)
qed (fact assms(1,2))+

lemma run_Call: "run_prog (Call f) s = run_prog (fst (f s)) (snd (f s))"
  by (cases "f s") simp

declare run_prog.simps(3) [simp del] and run_Call [simp]

lemma context_opt_simps [simp]:
  "context_opt m (Some a) = Finish a" "context_opt m None = Abort (Bailed m)"
  by (simp_all add: context_opt_def)

lemma run_bind:
  "run_prog (bind_prog p k) s =
     (case run_prog p s of (Inr a, t) \<Rightarrow> run_prog (k a) t | (Inl e, t) \<Rightarrow> (Inl e, t))"
  by (induction p arbitrary: s rule: prog_induct) simp_all

lemma run_expecting:
  "run_prog (expecting m p) s = map_prod (map_sum (panicking m) id) id (run_prog p s)"
  by (induction p arbitrary: s rule: prog_induct) simp_all

lemma run_query [simp]:
  "run_prog (query op) s = run_prog (from_outcome (fst (op s))) (snd (op s))"
  by (simp add: query_def)

lemmas run_simps = run_bind run_expecting

section \<open>Many programs on one database\<close>

inductive pool_step :: "'a prog list \<times> tdb \<Rightarrow> 'a prog list \<times> tdb \<Rightarrow> bool" where
  call: "i < length ps \<Longrightarrow> ps ! i = Call f \<Longrightarrow> pool_step (ps, s) (ps[i := fst (f s)], snd (f s))"

inductive_cases pool_stepE: "pool_step c c'"

inductive pool_run :: "'a prog list \<times> tdb \<Rightarrow> 'a prog list \<times> tdb \<Rightarrow> bool" where
  refl: "pool_run c c"
| step: "pool_run c d \<Longrightarrow> pool_step d e \<Longrightarrow> pool_run c e"

lemma pool_run_trans: "pool_run d e \<Longrightarrow> pool_run c d \<Longrightarrow> pool_run c e"
  by (induction rule: pool_run.induct) (auto intro: pool_run.intros)

lemma pool_run_call:
  "pool_run c (ps, s) \<Longrightarrow> i < length ps \<Longrightarrow> ps ! i = Call f \<Longrightarrow>
   pool_run c (ps[i := fst (f s)], snd (f s))"
  by (rule pool_run.step) (auto intro: pool_step.intros)

text \<open>A program run alone is a run of the pool in which only it moves.\<close>

lemma run_prog_is_pool_run:
  assumes "run_prog p s = (r, t)" and "i < length ps"
  shows "pool_run (ps[i := p], s)
    (ps[i := (case r of Inr a \<Rightarrow> Finish a | Inl e \<Rightarrow> Abort e)], t)"
  using assms(1)
proof (induction p arbitrary: s rule: prog_induct)
  case (Call f)
  let ?c = "(ps[i := Call f], s)"
  have "pool_step ?c (ps[i := Call f, i := fst (f s)], snd (f s))"
    using assms(2) by (intro pool_step.intros) simp_all
  then have one: "pool_run ?c (ps[i := fst (f s)], snd (f s))"
    by (auto intro: pool_run.intros)
  have "pool_run (ps[i := fst (f s)], snd (f s))
      (ps[i := (case r of Inr a \<Rightarrow> Finish a | Inl e \<Rightarrow> Abort e)], t)"
    using Call.prems by (intro Call.IH) simp
  then show ?case by (rule pool_run_trans [OF _ one])
qed (auto intro: pool_run.refl)

section \<open>Rely and guarantee\<close>

definition stable_under :: "(tdb \<Rightarrow> tdb \<Rightarrow> bool) \<Rightarrow> (tdb \<Rightarrow> bool) \<Rightarrow> bool" where
  "stable_under G P \<longleftrightarrow> (\<forall>s t. P s \<longrightarrow> G s t \<longrightarrow> P t)"

inductive sat ::
  "(tdb \<Rightarrow> tdb \<Rightarrow> bool) \<Rightarrow> (tdb \<Rightarrow> bool) \<Rightarrow> 'a prog \<Rightarrow> ('a \<Rightarrow> tdb \<Rightarrow> bool) \<Rightarrow> bool" for G
where
  finish: "(\<And>s. P s \<Longrightarrow> Q a s) \<Longrightarrow> sat G P (Finish a) Q"
| abort: "sat G P (Abort e) Q"
| call: "(\<And>s. P s \<Longrightarrow> G s (snd (f s)) \<and>
             (\<exists>P'. stable_under G P' \<and> P' (snd (f s)) \<and> sat G P' (fst (f s)) Q)) \<Longrightarrow>
         sat G P (Call f) Q"

inductive_simps sat_Finish_iff [simp]: "sat G P (Finish a) Q"
inductive_simps sat_Call_iff: "sat G P (Call f) Q"

declare sat.abort [simp, intro!]

lemma sat_pre: "sat G P p Q \<Longrightarrow> (\<And>s. P' s \<Longrightarrow> P s) \<Longrightarrow> sat G P' p Q"
  by (cases rule: sat.cases) (auto intro: sat.intros)

lemma sat_post: "sat G P p Q \<Longrightarrow> (\<And>a s. Q a s \<Longrightarrow> Q' a s) \<Longrightarrow> sat G P p Q'"
  by (induction rule: sat.induct) (auto intro!: sat.intros, blast)

text \<open>What a program knows of values it has read does not depend on the database.\<close>

lemma sat_local: "(B \<Longrightarrow> sat G P p Q) \<Longrightarrow> sat G (\<lambda>s. B \<and> P s) p Q"
  by (cases B) (auto intro: sat_pre, cases p, auto intro: sat.intros)

lemma sat_bind:
  assumes "sat G P p R" and "\<And>a. sat G (R a) (k a) Q"
  shows "sat G P (bind_prog p k) Q"
  using assms
proof (induction rule: sat.induct)
  case (finish P R a)
  then show ?case by (auto intro: sat_pre)
next
  case (call P f R)
  then show ?case by (fastforce intro!: sat.call)
qed simp

lemma sat_expecting: "sat G P p Q \<Longrightarrow> sat G P (expecting m p) Q"
proof (induction rule: sat.induct)
  case (call P f Q)
  then show ?case by (fastforce intro!: sat.call)
qed simp_all

lemma sat_query:
  assumes "\<And>s. P s \<Longrightarrow> G s (snd (op s))"
    and "\<And>s a t. P s \<Longrightarrow> op s = (Ok a, t) \<Longrightarrow> R a t"
    and "\<And>a. stable_under G (R a)"
  shows "sat G P (query op) R"
  unfolding query_def
proof (rule sat.call)
  fix s assume "P s"
  let ?r = "map_prod from_outcome id (op s)"
  show "G s (snd ?r) \<and> (\<exists>P'. stable_under G P' \<and> P' (snd ?r) \<and> sat G P' (fst ?r) R)"
    using assms(1) [OF \<open>P s\<close>] assms(2) [OF \<open>P s\<close>] assms(3)
    by (cases "op s"; cases "fst (op s)") (auto simp: stable_under_def)
qed

text \<open>A query that leaves the database as it is needs no step.\<close>

lemma sat_look:
  assumes "\<And>s. G s s" and "\<And>s. snd (op s) = s"
    and "\<And>s a. P s \<Longrightarrow> fst (op s) = Ok a \<Longrightarrow> R a s" and "\<And>a. stable_under G (R a)"
  shows "sat G P (query op) R"
proof (rule sat_query)
  show "G s (snd (op s))" for s using assms(1,2) by simp
  show "R a t" if "P s" "op s = (Ok a, t)" for s a t
    using assms(2) [of s] assms(3) [of s a] that by simp
qed (fact assms(4))

text \<open>
  Every program of the pool satisfies its triple from some stable assertion that holds now. Steps
  of the pool keep this, so in every run each finished program has its postcondition, and the
  databases are connected by steps of \<open>G\<close>.
\<close>

definition pool_ok ::
  "(tdb \<Rightarrow> tdb \<Rightarrow> bool) \<Rightarrow> (nat \<Rightarrow> 'a \<Rightarrow> tdb \<Rightarrow> bool) \<Rightarrow> 'a prog list \<Rightarrow> tdb \<Rightarrow> bool"
where
  "pool_ok G Q ps s \<longleftrightarrow>
     (\<forall>i < length ps. \<exists>P. stable_under G P \<and> P s \<and> sat G P (ps ! i) (Q i))"

lemma pool_ok_step:
  assumes "pool_step (ps, s) (ps', s')" and "pool_ok G Q ps s"
  shows "pool_ok G Q ps' s' \<and> G s s' \<and> length ps' = length ps"
  using assms(1)
proof (cases rule: pool_step.cases)
  case (call i f)
  from assms(2) call obtain P where P: "P s" "sat G P (Call f) (Q i)"
    by (auto simp: pool_ok_def)
  then have g: "G s s'" and
    ex: "\<exists>P'. stable_under G P' \<and> P' s' \<and> sat G P' (fst (f s)) (Q i)"
    using call by (auto simp: sat_Call_iff)
  have "\<exists>P. stable_under G P \<and> P s' \<and> sat G P (ps' ! j) (Q j)" if "j < length ps'" for j
  proof (cases "j = i")
    case True
    with ex call show ?thesis by auto
  next
    case False
    with that call assms(2) obtain P where "stable_under G P" "P s" "sat G P (ps ! j) (Q j)"
      by (auto simp: pool_ok_def)
    with False g call show ?thesis by (auto simp: stable_under_def)
  qed
  with g call show ?thesis by (simp add: pool_ok_def)
qed

lemma pool_ok_run:
  assumes "pool_run (ps, s) (ps', s')" and "pool_ok G Q ps s"
  shows "pool_ok G Q ps' s' \<and> G\<^sup>*\<^sup>* s s' \<and> length ps' = length ps"
  using assms
proof (induction "(ps, s)" "(ps', s')" arbitrary: ps' s' rule: pool_run.induct)
  case (step d)
  obtain ps1 s1 where d: "d = (ps1, s1)" by (cases d)
  with step have "pool_ok G Q ps1 s1 \<and> G\<^sup>*\<^sup>* s s1 \<and> length ps1 = length ps" by blast
  moreover with step d have "pool_ok G Q ps' s' \<and> G s1 s' \<and> length ps' = length ps1"
    using pool_ok_step by blast
  ultimately show ?case by auto
qed simp

lemma pool_ok_finished:
  "pool_ok G Q ps s \<Longrightarrow> i < length ps \<Longrightarrow> ps ! i = Finish a \<Longrightarrow> Q i a s"
  by (auto simp: pool_ok_def)

lemma stable_run: "G\<^sup>*\<^sup>* s t \<Longrightarrow> stable_under G P \<Longrightarrow> P s \<Longrightarrow> P t"
  by (induction rule: rtranclp_induct) (auto simp: stable_under_def)

end
