(* ===== verification/TunnelStorage.thy ===== *)
theory TunnelStorage
  imports TunnelProg
begin

text \<open>
  The device flow of the tunnel server: \<^verbatim>\<open>Storage\<close> of \<^verbatim>\<open>tunnel/src/web.rs\<close> over the database, with
  the random identifiers it makes. Each method is a program of several database calls without a
  transaction. Shown: run one after the other, the methods implement an abstract life cycle in which
  a device code is exchanged at most once; interleaved, tokens still go to approving users only, but
  two polls can exchange one approval twice.
\<close>

section \<open>Random identifiers\<close>

definition hex_digit :: "nat \<Rightarrow> char" where
  "hex_digit n = ''0123456789abcdef'' ! n"

definition hex_byte :: "u8 \<Rightarrow> string" where
  "hex_byte b = [hex_digit (unat b div 16), hex_digit (unat b mod 16)]"

definition make_random_hex_string :: "bytes \<Rightarrow> string" where
  "make_random_hex_string key = concat (map hex_byte key)"

definition CHARSET :: string where
  "CHARSET = ''0123456789ABCDEFGHJKMNPQRSTVWXYZ''"

text \<open>The eight indices are the random choices, each below the length of the character set.\<close>

definition make_random_challenge_string :: "nat list \<Rightarrow> string" where
  "make_random_challenge_string picks =
     (let cs = map (\<lambda>i. CHARSET ! i) picks in take 4 cs @ ''-'' @ drop 4 cs)"

lemma hex_digit_inj: "m < 16 \<Longrightarrow> n < 16 \<Longrightarrow> hex_digit m = hex_digit n \<Longrightarrow> m = n"
proof -
  have "distinct ''0123456789abcdef''" by code_simp
  moreover assume "m < 16" "n < 16" "hex_digit m = hex_digit n"
  ultimately show "m = n" by (simp add: hex_digit_def nth_eq_iff_index_eq del: distinct.simps)
qed

lemma unat_byte_less: "unat (b :: u8) < 256"
  using unsigned_less [of b, where ?'a = nat] by simp

lemma hex_byte_inj: "hex_byte a = hex_byte b \<Longrightarrow> a = b"
proof -
  assume eq: "hex_byte a = hex_byte b"
  have "unat a div 16 < 16" "unat b div 16 < 16"
    using unat_byte_less [of a] unat_byte_less [of b] by (simp_all add: less_mult_imp_div_less)
  with eq have "unat a div 16 = unat b div 16" "unat a mod 16 = unat b mod 16"
    by (auto simp: hex_byte_def intro: hex_digit_inj)
  then have "unat a = unat b" by (metis div_mult_mod_eq)
  then show "a = b" by (rule unsigned_word_eqI)
qed

theorem make_random_hex_string_inj:
  "make_random_hex_string a = make_random_hex_string b \<Longrightarrow> a = b"
proof (induction a arbitrary: b)
  case Nil
  then show ?case by (cases b) (simp_all add: make_random_hex_string_def hex_byte_def)
next
  case (Cons x a)
  then obtain y c where "b = y # c"
    by (cases b) (simp_all add: make_random_hex_string_def hex_byte_def)
  with Cons show ?case
    using hex_byte_inj [of x y]
    by (simp add: make_random_hex_string_def hex_byte_def)
qed

section \<open>Storage\<close>

definition nanos :: "int \<Rightarrow> int" where
  "nanos secs = secs * 1000000000"

definition num_seconds :: "int \<Rightarrow> int" where
  "num_seconds t = (if t < 0 then - ((- t) div 1000000000) else t div 1000000000)"

definition get_user_for_session :: "string \<Rightarrow> (sessions_model \<times> User) option prog" where
  "get_user_for_session sid =
     bind_prog (query (get_session_token_by_id sid)) (\<lambda>so.
       case so of
         None \<Rightarrow> Finish None
       | Some se \<Rightarrow> bind_prog (query (get_user_by_id (session_user_id se))) (\<lambda>uo.
           bind_prog (expecting ''unwrap'' (context_opt '''' uo)) (\<lambda>u. Finish (Some (se, u)))))"

definition create_device_token :: "bytes \<Rightarrow> nat list \<Rightarrow> int \<Rightarrow> device_tokens_model prog" where
  "create_device_token key picks now =
     (let token = \<lparr>device_code = make_random_hex_string key,
            user_code = make_random_challenge_string picks, token_state = Pending,
            approved_by_user_id = '''', next_poll_at = now + nanos 5,
            interval_seconds = num_seconds (nanos 5), expires_at = now + nanos (15 * 60)\<rparr>
      in bind_prog (query (insert_device_token token)) (\<lambda>_. Finish token))"

definition get_device_token :: "string \<Rightarrow> device_tokens_model prog" where
  "get_device_token challenge =
     bind_prog (query (get_device_token_by_user_code challenge)) (context_opt ''missing token'')"

definition approve_device_token :: "string \<Rightarrow> string \<Rightarrow> unit prog" where
  "approve_device_token code uid =
     bind_prog (query (get_device_token_by_device_code code)) (\<lambda>found.
     bind_prog (context_opt ''missing token'' found) (\<lambda>token.
       if token_state token \<noteq> Pending then Abort (Bailed ''not pending'')
       else query (update_device_token
              (token\<lparr>token_state := Approved, approved_by_user_id := uid\<rparr>))))"

definition reject_device_token :: "string \<Rightarrow> unit prog" where
  "reject_device_token code =
     bind_prog (query (get_device_token_by_device_code code)) (\<lambda>found.
     bind_prog (context_opt ''missing token'' found) (\<lambda>token.
       if token_state token \<noteq> Pending then Abort (Bailed ''not pending'')
       else query (update_device_token (token\<lparr>token_state := Rejected\<rparr>))))"

definition poll_device_token ::
  "string \<Rightarrow> bytes \<Rightarrow> (device_tokens_model option \<times> auth_tokens_model option) prog"
where
  "poll_device_token code key =
     bind_prog (query (get_device_token_by_device_code code)) (\<lambda>found.
       case found of
         None \<Rightarrow> Finish (None, None)
       | Some token \<Rightarrow>
           if token_state token \<noteq> Approved then Finish (Some token, None)
           else bind_prog (query (update_device_token (token\<lparr>token_state := Exchanged\<rparr>))) (\<lambda>_.
                bind_prog (query (create_auth_token (make_random_hex_string key)
                                    (approved_by_user_id token))) (\<lambda>auth.
                Finish (None, Some auth))))"

definition get_auth_token :: "string \<Rightarrow> (auth_tokens_model \<times> User) prog" where
  "get_auth_token i =
     bind_prog (query (get_auth_token_by_id i)) (\<lambda>found.
     bind_prog (context_opt ''missing token'' found) (\<lambda>token.
     bind_prog (query (get_user_by_id (auth_user_id token))) (\<lambda>uo.
     bind_prog (context_opt ''missing user'' uo) (\<lambda>user. Finish (token, user)))))"

lemmas storage_defs =
  get_user_for_session_def create_device_token_def get_device_token_def
  approve_device_token_def reject_device_token_def poll_device_token_def get_auth_token_def

section \<open>The device flow as a life cycle\<close>

text \<open>The methods that change device tokens, as one type.\<close>

datatype storage_op =
    CreateToken bytes "nat list" int
  | ApproveToken string string
  | RejectToken string
  | PollToken string bytes

datatype storage_result = Created device_tokens_model | Answered | Issued auth_tokens_model | NotIssued

fun storage_prog :: "storage_op \<Rightarrow> storage_result prog" where
  "storage_prog (CreateToken key picks now) =
     bind_prog (create_device_token key picks now) (\<lambda>t. Finish (Created t))"
| "storage_prog (ApproveToken code uid) =
     bind_prog (approve_device_token code uid) (\<lambda>_. Finish Answered)"
| "storage_prog (RejectToken code) =
     bind_prog (reject_device_token code) (\<lambda>_. Finish Answered)"
| "storage_prog (PollToken code key) =
     bind_prog (poll_device_token code key) (\<lambda>(_, auth).
       case auth of Some a \<Rightarrow> Finish (Issued a) | None \<Rightarrow> Finish NotIssued)"

text \<open>What the database says of a device code: its state and who approved it.\<close>

definition device_abs :: "tdb \<Rightarrow> string \<Rightarrow> (TokenState \<times> string) option" where
  "device_abs s c =
     map_option (\<lambda>r. (token_state r, approved_by_user_id r))
       (find (\<lambda>r. device_code r = c) (device_tokens s))"

text \<open>
  The abstract life cycle: a new code is pending; only a pending code is approved or rejected, only
  an approved one exchanged; everything else answers without a change.
\<close>

fun life_spec ::
  "storage_op \<Rightarrow> failure + storage_result \<Rightarrow> (string \<Rightarrow> (TokenState \<times> string) option) \<Rightarrow>
   (string \<Rightarrow> (TokenState \<times> string) option) \<Rightarrow> bool"
where
  "life_spec (CreateToken key picks now) r m m' =
     (case r of
        Inr (Created t) \<Rightarrow> device_code t = make_random_hex_string key \<and> m (device_code t) = None \<and>
          m' = m(device_code t \<mapsto> (Pending, ''''))
      | Inl e \<Rightarrow> e = Bailed ''database'' \<and> m' = m
      | _ \<Rightarrow> False)"
| "life_spec (ApproveToken c uid) r m m' =
     (case m c of
        None \<Rightarrow> r = Inl (Bailed ''missing token'') \<and> m' = m
      | Some (st, u) \<Rightarrow>
          if st = Pending then r = Inr Answered \<and> m' = m(c \<mapsto> (Approved, uid))
          else r = Inl (Bailed ''not pending'') \<and> m' = m)"
| "life_spec (RejectToken c) r m m' =
     (case m c of
        None \<Rightarrow> r = Inl (Bailed ''missing token'') \<and> m' = m
      | Some (st, u) \<Rightarrow>
          if st = Pending then r = Inr Answered \<and> m' = m(c \<mapsto> (Rejected, u))
          else r = Inl (Bailed ''not pending'') \<and> m' = m)"
| "life_spec (PollToken c key) r m m' =
     (case m c of
        None \<Rightarrow> r = Inr NotIssued \<and> m' = m
      | Some (st, u) \<Rightarrow>
          if st = Approved then m' = m(c \<mapsto> (Exchanged, u)) \<and>
            (r = Inr (Issued \<lparr>auth_id = make_random_hex_string key, auth_user_id = u\<rparr>) \<or>
             r = Inl (Bailed ''database''))
          else r = Inr NotIssued \<and> m' = m)"

lemma find_rewrite:
  "find (\<lambda>r. device_code r = c) (map (rewrite_token x) rows) =
     map_option (rewrite_token x) (find (\<lambda>r. device_code r = c) rows)"
  by (induction rows) auto

lemma find_snoc:
  "find p (rows @ [n]) =
     (case find p rows of Some r \<Rightarrow> Some r | None \<Rightarrow> if p n then Some n else None)"
  by (induction rows) auto

lemma find_None_image: "find (\<lambda>r. f r = c) rows = None \<longleftrightarrow> c \<notin> f ` set rows"
  by (induction rows) auto

lemma find_Some_code: "find (\<lambda>r. f r = c) rows = Some x \<Longrightarrow> f x = c"
  by (induction rows) (auto split: if_splits)

lemma device_abs_update:
  assumes tok: "find (\<lambda>r. device_code r = c) (device_tokens s) = Some tok" and x: "device_code x = c"
  shows "device_abs (s\<lparr>device_tokens := map (rewrite_token x) (device_tokens s)\<rparr>) =
    (device_abs s)(c \<mapsto> (token_state x, approved_by_user_id x))" (is "?l = ?r")
proof
  fix d
  show "?l d = ?r d"
  proof (cases "d = c")
    case True
    with tok x show ?thesis
      by (simp add: device_abs_def find_rewrite rewrite_token_def find_Some_code [OF tok])
  next
    case False
    then have "rewrite_token x y = y" if "device_code y = d" for y
      using that x by (simp add: rewrite_token_def)
    then have "map_option (rewrite_token x) (find (\<lambda>r. device_code r = d) (device_tokens s)) =
        find (\<lambda>r. device_code r = d) (device_tokens s)"
    proof (cases "find (\<lambda>r. device_code r = d) (device_tokens s)")
      case (Some y)
      from \<open>\<And>y. device_code y = d \<Longrightarrow> rewrite_token x y = y\<close> find_Some_code [OF Some]
      have "rewrite_token x y = y" .
      with Some show ?thesis by simp
    qed simp
    with False show ?thesis by (simp add: device_abs_def find_rewrite)
  qed
qed

lemma device_abs_insert:
  assumes "device_code n \<notin> device_code ` set (device_tokens s)"
  shows "device_abs (s\<lparr>device_tokens := device_tokens s @ [n]\<rparr>) =
    (device_abs s)(device_code n \<mapsto> (token_state n, approved_by_user_id n))"
proof
  fix d
  show "device_abs (s\<lparr>device_tokens := device_tokens s @ [n]\<rparr>) d =
    ((device_abs s)(device_code n \<mapsto> (token_state n, approved_by_user_id n))) d"
    using assms find_None_image [of device_code d "device_tokens s"]
    by (auto simp: device_abs_def find_snoc split: option.splits)
qed

lemma device_abs_auth [simp]: "device_abs (s\<lparr>auth_tokens := x\<rparr>) = device_abs s"
  by (simp add: fun_eq_iff device_abs_def)

lemma found_in_table:
  "find (\<lambda>r. device_code r = c) (device_tokens s) = Some tok \<Longrightarrow>
   device_code tok = c \<and> c \<in> device_code ` set (device_tokens s)"
  by (metis find_None_image find_Some_code option.distinct(1))

lemma update_found:
  assumes "find (\<lambda>r. device_code r = c) (device_tokens s) = Some tok" and "device_code x = c"
  shows "update_device_token x s =
    (Ok (), s\<lparr>device_tokens := map (rewrite_token x) (device_tokens s)\<rparr>)"
  using assms found_in_table [OF assms(1)] by (simp add: update_device_token_def)

definition lookup_code :: "tdb \<Rightarrow> string \<Rightarrow> device_tokens_model option" where
  "lookup_code s c = find (\<lambda>r. device_code r = c) (device_tokens s)"

lemma lookup_cases:
  obtains "lookup_code s c = None"
  | tok where "lookup_code s c = Some tok" "device_code tok = c"
proof (cases "lookup_code s c")
  case (Some tok)
  moreover from this have "device_code tok = c"
    unfolding lookup_code_def by (rule find_Some_code)
  ultimately show ?thesis using that by blast
qed (use that in blast)

lemma get_by_code: "get_device_token_by_device_code c s = (Ok (lookup_code s c), s)"
  by (simp add: get_device_token_by_device_code_def lookup_code_def)

lemma update_looked_up:
  "lookup_code s c = Some tok \<Longrightarrow> device_code x = c \<Longrightarrow> update_device_token x s =
    (Ok (), s\<lparr>device_tokens := map (rewrite_token x) (device_tokens s)\<rparr>)"
  by (simp add: lookup_code_def update_found)

lemma device_abs_lookup:
  "device_abs s c = map_option (\<lambda>r. (token_state r, approved_by_user_id r)) (lookup_code s c)"
  by (simp add: device_abs_def lookup_code_def)

lemma abs_update_looked_up:
  "lookup_code s c = Some tok \<Longrightarrow> device_code x = c \<Longrightarrow>
   device_abs (s\<lparr>device_tokens := map (rewrite_token x) (device_tokens s)\<rparr>) =
    (device_abs s)(c \<mapsto> (token_state x, approved_by_user_id x))"
  by (simp add: lookup_code_def device_abs_update)

lemma run_approve:
  "run_prog (approve_device_token c uid) s =
     (case lookup_code s c of
        None \<Rightarrow> (Inl (Bailed ''missing token''), s)
      | Some tok \<Rightarrow>
          if token_state tok = Pending
          then (Inr (), s\<lparr>device_tokens := map (rewrite_token
                  (tok\<lparr>token_state := Approved, approved_by_user_id := uid\<rparr>)) (device_tokens s)\<rparr>)
          else (Inl (Bailed ''not pending''), s))"
  by (cases s c rule: lookup_cases)
    (simp_all add: approve_device_token_def run_bind get_by_code update_looked_up)

lemma run_reject:
  "run_prog (reject_device_token c) s =
     (case lookup_code s c of
        None \<Rightarrow> (Inl (Bailed ''missing token''), s)
      | Some tok \<Rightarrow>
          if token_state tok = Pending
          then (Inr (), s\<lparr>device_tokens := map (rewrite_token (tok\<lparr>token_state := Rejected\<rparr>))
                  (device_tokens s)\<rparr>)
          else (Inl (Bailed ''not pending''), s))"
  by (cases s c rule: lookup_cases)
    (simp_all add: reject_device_token_def run_bind get_by_code update_looked_up)

definition exchanged_db :: "device_tokens_model \<Rightarrow> tdb \<Rightarrow> tdb" where
  "exchanged_db tok s =
     s\<lparr>device_tokens := map (rewrite_token (tok\<lparr>token_state := Exchanged\<rparr>)) (device_tokens s)\<rparr>"

lemma run_poll:
  "run_prog (poll_device_token c key) s =
     (case lookup_code s c of
        None \<Rightarrow> (Inr (None, None), s)
      | Some tok \<Rightarrow>
          if token_state tok = Approved
          then (case create_auth_token (make_random_hex_string key) (approved_by_user_id tok)
                       (exchanged_db tok s) of
                  (Ok a, t) \<Rightarrow> (Inr (None, Some a), t) | (_, t) \<Rightarrow> (Inl (Bailed ''database''), t))
          else (Inr (Some tok, None), s))"
  by (cases s c rule: lookup_cases)
    (simp_all add: poll_device_token_def run_bind get_by_code update_looked_up exchanged_db_def
      create_auth_token_def Let_def)

lemma run_create:
  "run_prog (create_device_token key picks now) s =
     (let tok = \<lparr>device_code = make_random_hex_string key,
            user_code = make_random_challenge_string picks, token_state = Pending,
            approved_by_user_id = '''', next_poll_at = now + nanos 5,
            interval_seconds = num_seconds (nanos 5), expires_at = now + nanos (15 * 60)\<rparr>
      in if device_code tok \<in> device_code ` set (device_tokens s) \<or>
            user_code tok \<in> user_code ` set (device_tokens s)
         then (Inl (Bailed ''database''), s)
         else (Inr tok, s\<lparr>device_tokens := device_tokens s @ [tok]\<rparr>))"
  by (simp add: create_device_token_def run_bind insert_device_token_def Let_def)

lemma storage_life_cycle:
  "life_spec op (fst (run_prog (storage_prog op) s)) (device_abs s)
     (device_abs (snd (run_prog (storage_prog op) s)))"
proof (cases op)
  case (CreateToken key picks now)
  then show ?thesis
    by (simp add: run_bind run_create Let_def device_abs_insert)
      (simp add: device_abs_def find_None_image)
next
  case (ApproveToken c uid)
  then show ?thesis
    by (cases s c rule: lookup_cases)
      (simp_all add: run_bind run_approve device_abs_lookup [of s] abs_update_looked_up)
next
  case (RejectToken c)
  then show ?thesis
    by (cases s c rule: lookup_cases)
      (simp_all add: run_bind run_reject device_abs_lookup [of s] abs_update_looked_up)
next
  case (PollToken c key)
  then show ?thesis
    by (cases s c rule: lookup_cases)
      (simp_all add: run_bind run_poll exchanged_db_def create_auth_token_def Let_def
        device_abs_lookup [of s] abs_update_looked_up)
qed

text \<open>
  C26. Run without interleaving, the four methods of \<^verbatim>\<open>Storage\<close> that change device tokens implement
  the abstract life cycle exactly, on every branch: codes are created pending and only if they are
  new, only pending codes are approved (for the approving user) or rejected, and only an approved
  code is exchanged, for a token of its approver; every other call reports its error or status and
  changes no code.
\<close>

theorem storage_refines_life_cycle:
  "life_spec op (fst (run_prog (storage_prog op) s)) (device_abs s)
     (device_abs (snd (run_prog (storage_prog op) s)))"
  by (rule storage_life_cycle)

section \<open>One exchange per code\<close>

fun run_ops :: "storage_op list \<Rightarrow> tdb \<Rightarrow> (failure + storage_result) list \<times> tdb" where
  "run_ops [] s = ([], s)"
| "run_ops (op # ops) s =
     (case run_prog (storage_prog op) s of (r, t) \<Rightarrow> map_prod (Cons r) id (run_ops ops t))"

fun issues :: "string \<Rightarrow> storage_op \<times> (failure + storage_result) \<Rightarrow> bool" where
  "issues c (PollToken c' key, Inr (Issued a)) = (c' = c)"
| "issues c _ = False"

definition settled :: "string \<Rightarrow> tdb \<Rightarrow> bool" where
  "settled c s = (case device_abs s c of Some (st, u) \<Rightarrow> st = Exchanged \<or> st = Rejected | None \<Rightarrow> False)"

lemma life_spec_settled:
  assumes "life_spec op r (device_abs s) (device_abs t)"
  shows "issues c (op, r) \<Longrightarrow> settled c t \<and> \<not> settled c s" and "settled c s \<Longrightarrow> settled c t"
  using assms
  by (cases op; auto simp: settled_def split: option.splits sum.splits storage_result.splits
        if_splits prod.splits elim!: issues.elims)+

lemma exchange_count:
  "length (filter (issues c) (zip ops (fst (run_ops ops s)))) \<le> (if settled c s then 0 else 1)"
proof (induction ops arbitrary: s)
  case (Cons op ops)
  obtain r t where run: "run_prog (storage_prog op) s = (r, t)" by (cases "run_prog (storage_prog op) s")
  with storage_life_cycle [of op s] have life: "life_spec op r (device_abs s) (device_abs t)" by simp
  from Cons.IH [of t] life_spec_settled [OF life, of c] run show ?case
    by (auto split: if_splits)
qed simp

text \<open>
  In any sequence of create, approve, reject and poll calls, run one after the other, at most one
  poll of a device code is answered with a token, and none once the code was exchanged or rejected.
\<close>

theorem exchanged_at_most_once:
  "length (filter (issues c) (zip ops (fst (run_ops ops s)))) \<le> 1 \<and>
   (settled c s \<longrightarrow> filter (issues c) (zip ops (fst (run_ops ops s))) = [])"
  using exchange_count [of c ops s] by (auto split: if_splits)

section \<open>Interleaved calls\<close>

text \<open>
  Who may receive a token for a code: the users of the approve calls on it, and the approver it had at
  the start.
\<close>

definition may_receive :: "storage_op list \<Rightarrow> tdb \<Rightarrow> string \<Rightarrow> string \<Rightarrow> bool" where
  "may_receive ops s0 c uid \<longleftrightarrow>
     ApproveToken c uid \<in> set ops \<or>
     (\<exists>r \<in> set (device_tokens s0).
        device_code r = c \<and> token_state r = Approved \<and> approved_by_user_id r = uid)"

definition approvals_ok :: "(string \<Rightarrow> string \<Rightarrow> bool) \<Rightarrow> tdb \<Rightarrow> bool" where
  "approvals_ok A s \<longleftrightarrow>
     (\<forall>r \<in> set (device_tokens s). token_state r = Approved \<longrightarrow> A (device_code r) (approved_by_user_id r))"

definition approvals_step ::
  "(string \<Rightarrow> string \<Rightarrow> bool) \<Rightarrow> tdb \<Rightarrow> tdb \<Rightarrow> bool"
where
  "approvals_step A s t \<longleftrightarrow> (approvals_ok A s \<longrightarrow> approvals_ok A t) \<and>
     (\<forall>a \<in> set (auth_tokens t). a \<in> set (auth_tokens s) \<or> (\<exists>c. A c (auth_user_id a)))"

lemma approvals_step_refl [simp]: "approvals_step A s s"
  by (simp add: approvals_step_def)

lemma approvals_stable [simp]: "stable_under (approvals_step A) (approvals_ok A)"
  by (simp add: stable_under_def approvals_step_def)

lemma approvals_stable_local [simp]:
  "stable_under (approvals_step A) (\<lambda>s. B \<and> approvals_ok A s)"
  by (simp add: stable_under_def approvals_step_def)

lemma update_approvals:
  "(token_state x = Approved \<longrightarrow> A (device_code x) (approved_by_user_id x)) \<Longrightarrow>
   approvals_step A s (snd (update_device_token x s))"
  by (auto simp: approvals_step_def approvals_ok_def update_device_token_def rewrite_token_def)

lemma sat_lookup:
  "sat (approvals_step A) (approvals_ok A) (query (get_device_token_by_device_code c))
     (\<lambda>found s. (\<forall>tok. found = Some tok \<longrightarrow> device_code tok = c \<and>
        (token_state tok = Approved \<longrightarrow> A c (approved_by_user_id tok))) \<and> approvals_ok A s)"
proof (rule sat_look)
  fix s found
  assume ok: "approvals_ok A s" and "fst (get_device_token_by_device_code c s) = Ok found"
  then have found: "found = lookup_code s c" by (simp add: get_by_code)
  have "device_code tok = c \<and> tok \<in> set (device_tokens s)" if "found = Some tok" for tok
    using that find_Some_mem [of "\<lambda>r. device_code r = c" "device_tokens s" tok]
    by (auto simp: found lookup_code_def)
  with ok show "(\<forall>tok. found = Some tok \<longrightarrow> device_code tok = c \<and>
      (token_state tok = Approved \<longrightarrow> A c (approved_by_user_id tok))) \<and> approvals_ok A s"
    by (auto simp: approvals_ok_def)
qed simp_all

lemma sat_update:
  assumes "token_state x = Approved \<longrightarrow> A (device_code x) (approved_by_user_id x)"
  shows "sat (approvals_step A) (approvals_ok A) (query (update_device_token x)) (\<lambda>_. approvals_ok A)"
  using update_approvals [of x A, OF assms]
  by (intro sat_query) (auto simp: approvals_step_def dest!: arg_cong [of _ _ snd])

lemma sat_approve:
  assumes "A c uid"
  shows "sat (approvals_step A) (approvals_ok A) (approve_device_token c uid) (\<lambda>_. approvals_ok A)"
  unfolding approve_device_token_def
proof (rule sat_bind [OF sat_lookup], rule sat_local)
  fix found :: "device_tokens_model option"
  assume "\<forall>tok. found = Some tok \<longrightarrow> device_code tok = c \<and>
    (token_state tok = Approved \<longrightarrow> A c (approved_by_user_id tok))"
  then show "sat (approvals_step A) (approvals_ok A)
    (bind_prog (context_opt ''missing token'' found) (\<lambda>token.
       if token_state token \<noteq> Pending then Abort (Bailed ''not pending'')
       else query (update_device_token
              (token\<lparr>token_state := Approved, approved_by_user_id := uid\<rparr>)))) (\<lambda>_. approvals_ok A)"
    using assms by (cases found) (auto intro!: sat_update)
qed

lemma sat_reject:
  "sat (approvals_step A) (approvals_ok A) (reject_device_token c) (\<lambda>_. approvals_ok A)"
  unfolding reject_device_token_def
proof (rule sat_bind [OF sat_lookup], rule sat_local)
  fix found :: "device_tokens_model option"
  show "sat (approvals_step A) (approvals_ok A)
    (bind_prog (context_opt ''missing token'' found) (\<lambda>token.
       if token_state token \<noteq> Pending then Abort (Bailed ''not pending'')
       else query (update_device_token (token\<lparr>token_state := Rejected\<rparr>)))) (\<lambda>_. approvals_ok A)"
    by (cases found) (auto intro!: sat_update)
qed

lemma sat_create:
  "sat (approvals_step A) (approvals_ok A) (create_device_token key picks now) (\<lambda>_. approvals_ok A)"
  unfolding create_device_token_def Let_def
  by (rule sat_bind [of _ _ _ "\<lambda>_. approvals_ok A"], rule sat_query)
    (auto simp: insert_device_token_def approvals_step_def approvals_ok_def split: if_splits)

lemma sat_issue:
  assumes "A c uid"
  shows "sat (approvals_step A) (approvals_ok A) (query (create_auth_token i uid))
    (\<lambda>a s. auth_user_id a = uid \<and> approvals_ok A s)"
proof (rule sat_query)
  show "auth_user_id a = uid \<and> approvals_ok A t"
    if "approvals_ok A s" "create_auth_token i uid s = (Ok a, t)" for s a t
    using that by (auto simp: create_auth_token_def Let_def approvals_ok_def split: if_splits)
  show "approvals_step A s (snd (create_auth_token i uid s))" for s
    using assms by (auto simp: create_auth_token_def Let_def approvals_step_def approvals_ok_def)
qed simp

lemma sat_poll:
  "sat (approvals_step A) (approvals_ok A) (poll_device_token c key)
     (\<lambda>(_, auth) s. \<forall>a. auth = Some a \<longrightarrow> A c (auth_user_id a))"
  unfolding poll_device_token_def
proof (rule sat_bind [OF sat_lookup], rule sat_local)
  fix found :: "device_tokens_model option"
  assume known: "\<forall>tok. found = Some tok \<longrightarrow> device_code tok = c \<and>
    (token_state tok = Approved \<longrightarrow> A c (approved_by_user_id tok))"
  let ?Q = "\<lambda>(_ :: device_tokens_model option, auth) (s :: tdb).
    \<forall>a. auth = Some a \<longrightarrow> A c (auth_user_id a)"
  have "sat (approvals_step A) (approvals_ok A)
     (bind_prog (query (update_device_token (tok\<lparr>token_state := Exchanged\<rparr>))) (\<lambda>_.
      bind_prog (query (create_auth_token (make_random_hex_string key) (approved_by_user_id tok)))
        (\<lambda>auth. Finish (None, Some auth)))) ?Q"
    if "A c (approved_by_user_id tok)" for tok
    using that by (intro sat_bind [OF sat_update] sat_bind [OF sat_issue]) auto
  with known show "sat (approvals_step A) (approvals_ok A)
    (case found of None \<Rightarrow> Finish (None, None) | Some token \<Rightarrow>
       if token_state token \<noteq> Approved then Finish (Some token, None)
       else bind_prog (query (update_device_token (token\<lparr>token_state := Exchanged\<rparr>))) (\<lambda>_.
            bind_prog (query (create_auth_token (make_random_hex_string key)
              (approved_by_user_id token))) (\<lambda>auth. Finish (None, Some auth)))) ?Q"
    by (cases found) auto
qed

lemma sat_storage:
  assumes "\<And>c uid. op = ApproveToken c uid \<Longrightarrow> A c uid"
  shows "sat (approvals_step A) (approvals_ok A) (storage_prog op)
    (\<lambda>res s. \<forall>c key a. op = PollToken c key \<longrightarrow> res = Issued a \<longrightarrow> A c (auth_user_id a))"
proof (cases op)
  case (PollToken c key)
  then show ?thesis
    by (auto intro!: sat_bind [OF sat_poll] split: option.splits)
qed (use assms in \<open>auto intro!: sat_bind [OF sat_create] sat_bind [OF sat_approve] sat_bind [OF sat_reject]\<close>)

lemma storage_pool_ok:
  "pool_ok (approvals_step (may_receive ops s))
     (\<lambda>i res t. \<forall>c key a. ops ! i = PollToken c key \<longrightarrow> res = Issued a \<longrightarrow>
        may_receive ops s c (auth_user_id a))
     (map storage_prog ops) s"
proof -
  have "approvals_ok (may_receive ops s) s"
    by (auto simp: approvals_ok_def may_receive_def)
  moreover have "sat (approvals_step (may_receive ops s)) (approvals_ok (may_receive ops s))
      (storage_prog (ops ! i))
      (\<lambda>res t. \<forall>c key a. ops ! i = PollToken c key \<longrightarrow> res = Issued a \<longrightarrow>
        may_receive ops s c (auth_user_id a))" if "i < length ops" for i
    using that by (intro sat_storage) (auto simp: may_receive_def in_set_conv_nth)
  ultimately show ?thesis
    unfolding pool_ok_def by (auto intro!: exI [of _ "approvals_ok (may_receive ops s)"])
qed

lemma new_tokens_approved:
  "(approvals_step A)\<^sup>*\<^sup>* s t \<Longrightarrow> a \<in> set (auth_tokens t) \<Longrightarrow>
   a \<in> set (auth_tokens s) \<or> (\<exists>c. A c (auth_user_id a))"
  by (induction arbitrary: a rule: rtranclp_induct) (auto simp: approvals_step_def)

text \<open>
  C19. However the database calls of concurrent create, approve, reject and poll requests interleave, a
  poll that is answered with a token for a device code gives it to a user who approved this code, and
  the database never holds a new auth token of anyone else.
\<close>

theorem tokens_only_for_approvers:
  assumes "pool_run (map storage_prog ops, s) (ps, t)"
  shows "(\<forall>i c key a. i < length ops \<longrightarrow> ops ! i = PollToken c key \<longrightarrow> ps ! i = Finish (Issued a) \<longrightarrow>
            may_receive ops s c (auth_user_id a)) \<and>
         (\<forall>a \<in> set (auth_tokens t). a \<in> set (auth_tokens s) \<or> (\<exists>c. may_receive ops s c (auth_user_id a)))"
proof -
  from pool_ok_run [OF assms storage_pool_ok [of ops s]] show ?thesis
    by (auto dest: new_tokens_approved pool_ok_finished)
qed

section \<open>A race between polls\<close>

text \<open>The programs of a poll once it has read the row, and once it has updated it.\<close>

definition poll_update :: "device_tokens_model \<Rightarrow> bytes \<Rightarrow> storage_result prog" where
  "poll_update tok key =
     bind_prog (bind_prog (query (update_device_token (tok\<lparr>token_state := Exchanged\<rparr>))) (\<lambda>_.
        bind_prog (query (create_auth_token (make_random_hex_string key) (approved_by_user_id tok)))
          (\<lambda>auth. Finish (None :: device_tokens_model option, Some auth))))
       (\<lambda>(_, auth). case auth of Some a \<Rightarrow> Finish (Issued a) | None \<Rightarrow> Finish NotIssued)"

definition poll_create :: "device_tokens_model \<Rightarrow> bytes \<Rightarrow> storage_result prog" where
  "poll_create tok key =
     bind_prog (bind_prog (query (create_auth_token (make_random_hex_string key)
          (approved_by_user_id tok))) (\<lambda>auth. Finish (None :: device_tokens_model option, Some auth)))
       (\<lambda>(_, auth). case auth of Some a \<Rightarrow> Finish (Issued a) | None \<Rightarrow> Finish NotIssued)"

lemma query_call:
  "bind_prog (query op) k = Call (\<lambda>s. (bind_prog (from_outcome (fst (op s))) k, snd (op s)))"
  by (simp add: query_def fun_eq_iff map_prod_def split: prod.split)

lemma poll_call:
  "storage_prog (PollToken c key) = Call (\<lambda>s.
     (case lookup_code s c of
        None \<Rightarrow> Finish NotIssued
      | Some tok \<Rightarrow> if token_state tok = Approved then poll_update tok key else Finish NotIssued, s))"
  by (simp add: poll_device_token_def query_call get_by_code poll_update_def fun_eq_iff
      split: option.split)

lemma poll_update_call:
  "poll_update tok key = Call (\<lambda>s.
     (if device_code tok \<in> device_code ` set (device_tokens s)
      then poll_create tok key else Abort (Bailed ''database''),
      snd (update_device_token (tok\<lparr>token_state := Exchanged\<rparr>) s)))"
  by (auto simp: poll_update_def poll_create_def query_call update_device_token_def fun_eq_iff)

lemma poll_create_call:
  "poll_create tok key = Call (\<lambda>s.
     (if make_random_hex_string key \<in> auth_id ` set (auth_tokens s) then Abort (Bailed ''database'')
      else Finish (Issued \<lparr>auth_id = make_random_hex_string key, auth_user_id = approved_by_user_id tok\<rparr>),
      snd (create_auth_token (make_random_hex_string key) (approved_by_user_id tok) s)))"
  by (auto simp: poll_create_def query_call create_auth_token_def Let_def fun_eq_iff)

lemma pool_fst:
  "pool_run c ([p, q], s) \<Longrightarrow> p = Call f \<Longrightarrow> fst (f s) = p' \<Longrightarrow> snd (f s) = t \<Longrightarrow>
   pool_run c ([p', q], t)"
  using pool_run_call [of c "[p, q]" s 0 f] by simp

lemma pool_snd:
  "pool_run c ([p, q], s) \<Longrightarrow> q = Call f \<Longrightarrow> fst (f s) = q' \<Longrightarrow> snd (f s) = t \<Longrightarrow>
   pool_run c ([p, q'], t)"
  using pool_run_call [of c "[p, q]" s 1 f] by simp

text \<open>
  C27. Polls are not atomic: whenever a device code is approved, two concurrent polls of it have a
  schedule in which both are answered with an auth token of the approver, so that one approval issues
  two tokens, both valid afterwards.
\<close>

theorem poll_race_issues_two_tokens:
  assumes tok: "lookup_code s c = Some tok" "token_state tok = Approved"
    and fresh: "make_random_hex_string k1 \<notin> auth_id ` set (auth_tokens s)"
      "make_random_hex_string k2 \<notin> auth_id ` set (auth_tokens s)" "k1 \<noteq> k2"
  shows "\<exists>t a1 a2.
    pool_run (map storage_prog [PollToken c k1, PollToken c k2], s) ([Finish (Issued a1), Finish (Issued a2)], t) \<and>
    auth_user_id a1 = approved_by_user_id tok \<and> auth_user_id a2 = approved_by_user_id tok \<and>
    auth_id a1 \<noteq> auth_id a2 \<and> auth_tokens t = auth_tokens s @ [a1, a2]"
proof -
  let ?x = "tok\<lparr>token_state := Exchanged\<rparr>"
  let ?p = "\<lambda>k. storage_prog (PollToken c k)"
  let ?a = "\<lambda>k. \<lparr>auth_id = make_random_hex_string k, auth_user_id = approved_by_user_id tok\<rparr>"
  let ?s1 = "exchanged_db tok s" and ?s2 = "exchanged_db tok (exchanged_db tok s)"
  let ?s3 = "?s2\<lparr>auth_tokens := auth_tokens s @ [?a k1]\<rparr>"
  let ?s4 = "?s2\<lparr>auth_tokens := auth_tokens s @ [?a k1, ?a k2]\<rparr>"
  have code: "device_code tok \<in> device_code ` set (device_tokens s)"
    using tok(1) unfolding lookup_code_def by (auto dest: find_Some_mem)
  have ids: "make_random_hex_string k2 \<noteq> make_random_hex_string k1"
    using fresh(3) make_random_hex_string_inj by blast
  have up: "snd (update_device_token ?x t) = exchanged_db tok t"
    if "device_code tok \<in> device_code ` set (device_tokens t)" for t
    using that by (simp add: update_device_token_def exchanged_db_def)
  have code1: "device_code tok \<in> device_code ` set (device_tokens ?s1)"
    using code by (simp add: exchanged_db_def image_image)
  have "pool_run ([?p k1, ?p k2], s) ([poll_update tok k1, ?p k2], s)"
    by (rule pool_fst [OF pool_run.refl poll_call]) (simp_all add: tok)
  from pool_snd [OF this poll_call]
  have "pool_run ([?p k1, ?p k2], s) ([poll_update tok k1, poll_update tok k2], s)"
    by (simp add: tok)
  from pool_fst [OF this poll_update_call]
  have "pool_run ([?p k1, ?p k2], s) ([poll_create tok k1, poll_update tok k2], ?s1)"
    by (simp add: code up)
  from pool_snd [OF this poll_update_call]
  have "pool_run ([?p k1, ?p k2], s) ([poll_create tok k1, poll_create tok k2], ?s2)"
    by (simp add: code1 up)
  from pool_fst [OF this poll_create_call]
  have "pool_run ([?p k1, ?p k2], s) ([Finish (Issued (?a k1)), poll_create tok k2], ?s3)"
    using fresh by (simp add: create_auth_token_def Let_def exchanged_db_def)
  from pool_snd [OF this poll_create_call]
  have "pool_run ([?p k1, ?p k2], s) ([Finish (Issued (?a k1)), Finish (Issued (?a k2))], ?s4)"
    using fresh ids by (simp add: create_auth_token_def Let_def)
  then show ?thesis
    using ids by (intro exI [of _ ?s4] exI [of _ "?a k1"] exI [of _ "?a k2"]) simp
qed

section \<open>Concrete runs\<close>

definition sample_token :: device_tokens_model where
  "sample_token = \<lparr>device_code = ''d1'', user_code = ''0000-0000'', token_state = Approved,
     approved_by_user_id = ''u1'', next_poll_at = 0, interval_seconds = 5, expires_at = 0\<rparr>"

definition sample_db :: tdb where
  "sample_db = empty_db\<lparr>
     users := [\<lparr>row_id = ''u1'', row_email = ''a@b'', row_github_user_id = Some 7\<rparr>],
     user_domains := [\<lparr>owner_id = ''u1'', owned_domain = ''x.example.com''\<rparr>],
     device_tokens := [sample_token]\<rparr>"

lemma sample_poll:
  "fst (run_prog (storage_prog (PollToken ''d1'' [1])) sample_db) =
     Inr (Issued \<lparr>auth_id = ''01'', auth_user_id = ''u1''\<rparr>)"
  by code_simp

lemma sample_pool_run:
  "pool_run (map storage_prog [PollToken ''d1'' [1]], sample_db)
     ([Finish (Issued \<lparr>auth_id = ''01'', auth_user_id = ''u1''\<rparr>)],
      snd (run_prog (storage_prog (PollToken ''d1'' [1])) sample_db))"
  using run_prog_is_pool_run [of "storage_prog (PollToken ''d1'' [1])" sample_db _ _ 0
      "[Finish NotIssued]"] sample_poll
  by (cases "run_prog (storage_prog (PollToken ''d1'' [1])) sample_db") (simp del: storage_prog.simps)

lemma tokens_only_for_approvers_witness:
  "may_receive [PollToken ''d1'' [1]] sample_db ''d1'' ''u1''"
  using conjunct1 [OF tokens_only_for_approvers [OF sample_pool_run]]
  by (metis auth_tokens_model.select_convs(2) length_Cons list.size(3) nth_Cons_0 zero_less_Suc)

lemma poll_race_issues_two_tokens_witness:
  "\<exists>t a1 a2. pool_run (map storage_prog [PollToken ''d1'' [1], PollToken ''d1'' [2]], sample_db)
      ([Finish (Issued a1), Finish (Issued a2)], t) \<and>
    auth_user_id a1 = ''u1'' \<and> auth_user_id a2 = ''u1'' \<and> auth_id a1 \<noteq> auth_id a2 \<and>
    auth_tokens t = [a1, a2]"
  using poll_race_issues_two_tokens [of sample_db "''d1''" sample_token "[1]" "[2]"]
  by (simp add: lookup_code_def sample_db_def sample_token_def empty_db_def del: storage_prog.simps)

lemma exchanged_at_most_once_witness:
  "filter (issues ''d1'') (zip [PollToken ''d1'' [2], PollToken ''d1'' [3]]
     (fst (run_ops [PollToken ''d1'' [2], PollToken ''d1'' [3]]
        (snd (run_prog (storage_prog (PollToken ''d1'' [1])) sample_db))))) = []"
proof -
  have "settled ''d1'' (snd (run_prog (storage_prog (PollToken ''d1'' [1])) sample_db))"
    by code_simp
  with exchanged_at_most_once show ?thesis by blast
qed

end
