(* ===== verification/TunnelWeb.thy ===== *)
theory TunnelWeb
  imports TunnelStorage "HOL-Library.Sublist"
begin

text \<open>
  The web interface of the tunnel server, \<^verbatim>\<open>tunnel/src/web.rs\<close>: the cross-origin check, the session
  middleware, every handler of \<^verbatim>\<open>make_router\<close> and the router. A handler is a program over the
  database that finishes with a response or panics, in which case the connection is dropped. HTML
  pages are represented by the values they show. The OAuth client, GitHub's API and the URL codecs
  are parameters; random bytes and the clock are arguments. Shown: however requests interleave, the
  database stays well formed, and the cross-origin check never refuses a routed request.
\<close>

section \<open>Requests and responses\<close>

text \<open>
  Bodies and queries are given by the fields the handlers deserialize; a field that is missing or
  does not parse is \<open>None\<close>. The cookies are those of the jar, with distinct names.
\<close>

record web_request =
  req_method :: string
  req_path :: string
  sec_fetch_site :: "string option"
  origin :: "string option"
  bearer :: "string option"
  cookies :: "(string \<times> string) list"
  form_device_code :: "string option"
  form_user_code :: "string option"
  json_email :: "string option"
  json_domain :: "string option"
  query_redirect_to :: "string option"
  query_code :: "string option"
  query_state :: "string option"

datatype cookie_change =
    SetCookie string string "int option"
  | RemoveCookie string "string option"

datatype page =
    IndexPage "User option"
  | DeviceFormPage
  | ConfirmPage string string string
  | DonePage
  | LoginPage string

datatype resp_body =
    Html page
  | DeviceAuthorization string string string int int
  | DeviceToken string string int
  | OauthError string
  | ApiTestResponse string "string list" "string list"
  | ApiRegisterDomainResponse
  | Success
  | PlainText string
  | RedirectTo string
  | Rejection
  | NoBody

record response =
  status :: nat
  body :: resp_body
  cookie_changes :: "cookie_change list"

record server_state =
  available_suffixes :: "string list"
  web_base_url :: string
  enable_test_login :: bool

record UserInfo =
  info_user :: User
  info_session :: sessions_model

text \<open>
  Code outside the repository: the OAuth client's authorization URL and code exchange, GitHub's user
  endpoint (login, id and email), and the URL encodings.
\<close>

record web_ext =
  authorize_url :: "string \<Rightarrow> string"
  exchange_code :: "string \<Rightarrow> string option"
  github_user :: "string \<Rightarrow> (string \<times> int \<times> string) option"
  urlencoded_state :: "string \<times> string \<Rightarrow> string"
  urldecoded_state :: "string \<Rightarrow> (string \<times> string) option"
  percent_encode :: "string \<Rightarrow> string"

record entropy =
  key1 :: bytes
  key2 :: bytes
  picks :: "nat list"
  csrf_token :: string
  now1 :: int
  now2 :: int

section \<open>Cookies\<close>

fun change_name :: "cookie_change \<Rightarrow> string" where
  "change_name (SetCookie n v a) = n"
| "change_name (RemoveCookie n p) = n"

text \<open>The changes a jar sends back: one for each name; removing a cookie that did not come with the
  request only forgets a change.\<close>

definition put_change :: "cookie_change \<Rightarrow> cookie_change list \<Rightarrow> cookie_change list" where
  "put_change c cs = c # filter (\<lambda>d. change_name d \<noteq> change_name c) cs"

definition jar_remove ::
  "web_request \<Rightarrow> string \<Rightarrow> string option \<Rightarrow> cookie_change list \<Rightarrow> cookie_change list"
where
  "jar_remove req n path cs =
     (if n \<in> fst ` set (cookies req) then put_change (RemoveCookie n path) cs
      else filter (\<lambda>d. change_name d \<noteq> n) cs)"

definition set_cookie ::
  "string \<Rightarrow> string \<Rightarrow> int option \<Rightarrow> cookie_change list \<Rightarrow> cookie_change list"
where
  "set_cookie n v expiration cs = put_change (SetCookie n v expiration) cs"

definition remove_cookie :: "web_request \<Rightarrow> string \<Rightarrow> cookie_change list \<Rightarrow> cookie_change list" where
  "remove_cookie req n cs = jar_remove req n (Some ''/'') cs"

section \<open>Middleware\<close>

definition check_cross_origin :: "web_request \<Rightarrow> response option" where
  "check_cross_origin req =
     (if req_method req \<in> {''GET'', ''HEAD'', ''POST''} then None
      else case sec_fetch_site req of
        Some v \<Rightarrow>
          if v = ''same-origin'' \<or> v = ''none'' then None
          else Some \<lparr>status = 403, body = PlainText ''forbidden cross-origin request'',
                     cookie_changes = []\<rparr>
      | None \<Rightarrow> (case origin req of
          Some _ \<Rightarrow> Some \<lparr>status = 403, body = PlainText
            ''please update your browser: got origin header but not sec-fetch-site'',
            cookie_changes = []\<rparr>
        | None \<Rightarrow> None))"

definition auth_middleware ::
  "web_request \<Rightarrow> (UserInfo option \<Rightarrow> cookie_change list \<Rightarrow> response prog) \<Rightarrow> response prog"
where
  "auth_middleware req next =
     (case map_of (cookies req) ''session_id'' of
        None \<Rightarrow> next None []
      | Some sid \<Rightarrow>
          bind_prog (expecting ''unwrap'' (get_user_for_session sid)) (\<lambda>found.
            case found of
              Some (session, user) \<Rightarrow> next (Some \<lparr>info_user = user, info_session = session\<rparr>) []
            | None \<Rightarrow> next None (remove_cookie req ''session_id'' [])))"

section \<open>Handlers\<close>

definition ok_body :: "resp_body \<Rightarrow> cookie_change list \<Rightarrow> response" where
  "ok_body b cs = \<lparr>status = 200, body = b, cookie_changes = cs\<rparr>"

definition redirect :: "string \<Rightarrow> cookie_change list \<Rightarrow> response" where
  "redirect to cs = \<lparr>status = 303, body = RedirectTo to, cookie_changes = cs\<rparr>"

text \<open>
  An extractor that finds nothing answers before the handler runs (the code is 400, 415 or 422,
  depending on what is malformed; the model has 400 for all).
\<close>

definition extracting :: "'a option \<Rightarrow> cookie_change list \<Rightarrow> ('a \<Rightarrow> response prog) \<Rightarrow> response prog" where
  "extracting x cs k =
     (case x of Some a \<Rightarrow> k a
      | None \<Rightarrow> Finish \<lparr>status = 400, body = Rejection, cookie_changes = cs\<rparr>)"

definition index_handler :: "UserInfo option \<Rightarrow> cookie_change list \<Rightarrow> response prog" where
  "index_handler user cs = Finish (ok_body (Html (IndexPage (map_option info_user user))) cs)"

definition oauth2_device_code_handler ::
  "server_state \<Rightarrow> entropy \<Rightarrow> cookie_change list \<Rightarrow> response prog"
where
  "oauth2_device_code_handler st ent cs =
     bind_prog (expecting ''unwrap'' (create_device_token (key1 ent) (picks ent) (now1 ent))) (\<lambda>token.
       Finish (ok_body (DeviceAuthorization (device_code token) (user_code token)
         (web_base_url st @ ''/login/device'') (num_seconds (expires_at token - now2 ent))
         (interval_seconds token)) cs))"

definition poll_error :: "device_tokens_model option \<Rightarrow> string" where
  "poll_error device_token =
     (case device_token of
        Some t \<Rightarrow>
          if token_state t = Pending then ''authorization_pending''
          else if token_state t = Rejected then ''access_denied'' else ''bad_request''
      | None \<Rightarrow> ''invalid_grant'')"

definition oauth2_device_token_handler ::
  "entropy \<Rightarrow> string \<Rightarrow> cookie_change list \<Rightarrow> response prog"
where
  "oauth2_device_token_handler ent code cs =
     bind_prog (expecting ''unwrap'' (poll_device_token code (key1 ent))) (\<lambda>(device_token, auth_token).
       Finish (case auth_token of
           Some a \<Rightarrow> ok_body (DeviceToken (auth_id a) ''bearer'' (60 * 60 * 24 * 365 * 10)) cs
         | None \<Rightarrow> \<lparr>status = 400, body = OauthError (poll_error device_token), cookie_changes = cs\<rparr>))"

definition api_test_handler :: "server_state \<Rightarrow> string \<Rightarrow> cookie_change list \<Rightarrow> response prog" where
  "api_test_handler st token cs =
     bind_prog (expecting ''bad token'' (get_auth_token token)) (\<lambda>(_, user).
       Finish (ok_body (ApiTestResponse (email user) (domains user) (available_suffixes st)) cs))"

definition api_register_domain_handler ::
  "server_state \<Rightarrow> string \<Rightarrow> string \<Rightarrow> cookie_change list \<Rightarrow> response prog"
where
  "api_register_domain_handler st token dn cs =
     bind_prog (expecting ''bad token'' (get_auth_token token)) (\<lambda>(_, user).
       if \<not> list_ex (\<lambda>sfx. suffix sfx dn) (available_suffixes st) then Abort (Panicked ''bad ending'')
       else bind_prog (expecting ''failed to register domain''
                         (query (register_user_domain (user_id user) dn))) (\<lambda>_.
            Finish (ok_body ApiRegisterDomainResponse cs)))"

definition get_login_device_handler :: "UserInfo option \<Rightarrow> cookie_change list \<Rightarrow> response prog" where
  "get_login_device_handler user cs =
     (if user = None then Finish (redirect ''/login?redirect_to=%2Flogin%2Fdevice'' cs)
      else Finish (ok_body (Html DeviceFormPage) cs))"

definition post_login_device_handler ::
  "UserInfo option \<Rightarrow> string \<Rightarrow> cookie_change list \<Rightarrow> response prog"
where
  "post_login_device_handler user_info code cs =
     bind_prog (expecting ''where is my token'' (get_device_token code)) (\<lambda>token.
       if token_state token \<noteq> Pending then Abort (Panicked ''bad'')
       else Finish (ok_body (Html (ConfirmPage
              (case user_info of None \<Rightarrow> ''unknown???'' | Some u \<Rightarrow> email (info_user u))
              (user_code token) (device_code token))) cs))"

definition post_approve_device_handler ::
  "UserInfo option \<Rightarrow> string \<Rightarrow> cookie_change list \<Rightarrow> response prog"
where
  "post_approve_device_handler user code cs =
     bind_prog (expecting ''where is my token'' (get_device_token code)) (\<lambda>token.
     bind_prog (expecting ''must be logged in'' (context_opt '''' user)) (\<lambda>u.
     bind_prog (expecting ''approving failed''
                  (approve_device_token (device_code token) (user_id (info_user u)))) (\<lambda>_.
       Finish (ok_body (Html DonePage) cs))))"

definition post_reject_device_handler :: "string \<Rightarrow> cookie_change list \<Rightarrow> response prog" where
  "post_reject_device_handler code cs =
     bind_prog (expecting ''where is my token'' (get_device_token code)) (\<lambda>token.
     bind_prog (expecting ''rejecting failed'' (reject_device_token (device_code token))) (\<lambda>_.
       Finish (ok_body (Html DonePage) cs)))"

definition login_handler :: "web_ext \<Rightarrow> string \<Rightarrow> cookie_change list \<Rightarrow> response prog" where
  "login_handler ext to cs =
     Finish (ok_body (Html (LoginPage (''/login/github?redirect_to='' @ percent_encode ext to))) cs)"

definition logout_handler ::
  "web_request \<Rightarrow> UserInfo option \<Rightarrow> cookie_change list \<Rightarrow> response prog"
where
  "logout_handler req user cs =
     bind_prog
       (case user of
          Some u \<Rightarrow> expecting ''huh'' (query (delete_session_token (session_id (info_session u))))
        | None \<Rightarrow> Finish ()) (\<lambda>_.
       Finish (redirect ''/'' (jar_remove req ''session_id'' None cs)))"

definition login_github_handler ::
  "web_ext \<Rightarrow> entropy \<Rightarrow> string \<Rightarrow> cookie_change list \<Rightarrow> response prog"
where
  "login_github_handler ext ent to cs =
     Finish (redirect (authorize_url ext (csrf_token ent))
       (set_cookie ''github_oauth2_state'' (urlencoded_state ext (csrf_token ent, to))
          (Some (30 * 60)) cs))"

text \<open>The end of both logins: a session for the user, and its cookie for a day.\<close>

definition start_session ::
  "entropy \<Rightarrow> User \<Rightarrow> (cookie_change list \<Rightarrow> response) \<Rightarrow> cookie_change list \<Rightarrow> response prog"
where
  "start_session ent user answer cs =
     bind_prog (expecting ''creating token''
                  (query (create_session_token (make_random_hex_string (key2 ent)) (user_id user))))
       (\<lambda>session. Finish (answer
          (set_cookie ''session_id'' (session_id session) (Some (24 * 60 * 60)) cs)))"

definition login_callback_handler ::
  "web_ext \<Rightarrow> entropy \<Rightarrow> web_request \<Rightarrow> string \<Rightarrow> string \<Rightarrow> cookie_change list \<Rightarrow> response prog"
where
  "login_callback_handler ext ent req code state_param cs =
     bind_prog (expecting ''need state'' (context_opt '''' (map_of (cookies req) ''github_oauth2_state''))) (\<lambda>cookie.
     bind_prog (expecting ''bad encoding'' (context_opt '''' (urldecoded_state ext cookie))) (\<lambda>(token, to).
       if state_param \<noteq> token then Abort (Panicked ''bad state'')
       else
         bind_prog (expecting ''request should be good...'' (context_opt '''' (exchange_code ext code))) (\<lambda>access.
         bind_prog (expecting ''get user'' (context_opt '''' (github_user ext access))) (\<lambda>(login, gid, mail).
         bind_prog (expecting ''lookup user'' (query (get_user_by_github_user_id gid))) (\<lambda>maybe_user.
         bind_prog (case maybe_user of
             Some user \<Rightarrow> Finish user
           | None \<Rightarrow> expecting ''got user'' (query (create_user (make_random_hex_string (key1 ent)) mail
                        (Some gid) []))) (\<lambda>user.
         start_session ent user (redirect to) (remove_cookie req ''github_oauth2_state'' cs)))))))"

definition login_test_handler ::
  "server_state \<Rightarrow> entropy \<Rightarrow> string \<Rightarrow> cookie_change list \<Rightarrow> response prog"
where
  "login_test_handler st ent mail cs =
     (if \<not> enable_test_login st
      then Finish \<lparr>status = 403, body = PlainText ''test login not enabled'', cookie_changes = cs\<rparr>
      else
        bind_prog (expecting ''lookup user'' (query (get_user_by_email mail))) (\<lambda>maybe_user.
        bind_prog (case maybe_user of
            Some user \<Rightarrow> Finish user
          | None \<Rightarrow> expecting ''got user'' (query (create_user (make_random_hex_string (key1 ent)) mail
                       None []))) (\<lambda>user.
        start_session ent user (ok_body Success) cs)))"

section \<open>Router\<close>

datatype web_route =
    IndexRoute | DeviceCodeRoute | DeviceTokenRoute | GetLoginDeviceRoute | PostLoginDeviceRoute
  | ApproveRoute | RejectRoute | LoginRoute | LogoutRoute | LoginGithubRoute | LoginCallbackRoute
  | LoginTestRoute | ApiTestRoute | ApiRegisterRoute

definition web_routes :: "(string \<times> string \<times> web_route) list" where
  "web_routes =
     [(''GET'', ''/'', IndexRoute),
      (''POST'', ''/login/device/code'', DeviceCodeRoute),
      (''POST'', ''/login/oauth/access_token'', DeviceTokenRoute),
      (''GET'', ''/login/device'', GetLoginDeviceRoute),
      (''POST'', ''/login/device'', PostLoginDeviceRoute),
      (''POST'', ''/login/device/authorize'', ApproveRoute),
      (''POST'', ''/login/device/reject'', RejectRoute),
      (''GET'', ''/login'', LoginRoute),
      (''POST'', ''/logout'', LogoutRoute),
      (''GET'', ''/login/github'', LoginGithubRoute),
      (''GET'', ''/login/callback'', LoginCallbackRoute),
      (''POST'', ''/login/test'', LoginTestRoute),
      (''GET'', ''/api/test'', ApiTestRoute),
      (''GET'', ''/api/domain/register'', ApiRegisterRoute)]"

text \<open>axum serves HEAD with the handler of GET.\<close>

definition find_route :: "web_request \<Rightarrow> web_route option" where
  "find_route req =
     map_option (snd \<circ> snd) (find (\<lambda>(m, p, r). p = req_path req \<and>
       (m = req_method req \<or> (m = ''GET'' \<and> req_method req = ''HEAD''))) web_routes)"

fun run_route ::
  "web_ext \<Rightarrow> server_state \<Rightarrow> entropy \<Rightarrow> web_request \<Rightarrow> web_route \<Rightarrow> UserInfo option \<Rightarrow>
   cookie_change list \<Rightarrow> response prog"
where
  "run_route ext st ent req IndexRoute user cs = index_handler user cs"
| "run_route ext st ent req DeviceCodeRoute user cs = oauth2_device_code_handler st ent cs"
| "run_route ext st ent req DeviceTokenRoute user cs =
     extracting (form_device_code req) cs (\<lambda>code. oauth2_device_token_handler ent code cs)"
| "run_route ext st ent req GetLoginDeviceRoute user cs = get_login_device_handler user cs"
| "run_route ext st ent req PostLoginDeviceRoute user cs =
     extracting (form_user_code req) cs (\<lambda>code. post_login_device_handler user code cs)"
| "run_route ext st ent req ApproveRoute user cs =
     extracting (form_user_code req) cs (\<lambda>code. post_approve_device_handler user code cs)"
| "run_route ext st ent req RejectRoute user cs =
     extracting (form_user_code req) cs (\<lambda>code. post_reject_device_handler code cs)"
| "run_route ext st ent req LoginRoute user cs =
     extracting (query_redirect_to req) cs (\<lambda>to. login_handler ext to cs)"
| "run_route ext st ent req LogoutRoute user cs = logout_handler req user cs"
| "run_route ext st ent req LoginGithubRoute user cs =
     extracting (query_redirect_to req) cs (\<lambda>to. login_github_handler ext ent to cs)"
| "run_route ext st ent req LoginCallbackRoute user cs =
     extracting (query_code req) cs (\<lambda>code. extracting (query_state req) cs (\<lambda>sp.
       login_callback_handler ext ent req code sp cs))"
| "run_route ext st ent req LoginTestRoute user cs =
     extracting (json_email req) cs (\<lambda>mail. login_test_handler st ent mail cs)"
| "run_route ext st ent req ApiTestRoute user cs =
     extracting (bearer req) cs (\<lambda>token. api_test_handler st token cs)"
| "run_route ext st ent req ApiRegisterRoute user cs =
     extracting (bearer req) cs (\<lambda>token. extracting (json_domain req) cs (\<lambda>dn.
       api_register_domain_handler st token dn cs))"

definition dispatch ::
  "web_ext \<Rightarrow> server_state \<Rightarrow> entropy \<Rightarrow> web_request \<Rightarrow> UserInfo option \<Rightarrow> cookie_change list \<Rightarrow>
   response prog"
where
  "dispatch ext st ent req user cs =
     (case find_route req of
        Some r \<Rightarrow> run_route ext st ent req r user cs
      | None \<Rightarrow> Finish \<lparr>status = (if req_path req \<in> (fst \<circ> snd) ` set web_routes then 405 else 404),
                   body = NoBody, cookie_changes = cs\<rparr>)"

text \<open>The layers: the cross-origin check is outermost, then the session, then the routes.\<close>

definition web_service ::
  "web_ext \<Rightarrow> server_state \<Rightarrow> entropy \<Rightarrow> web_request \<Rightarrow> response prog"
where
  "web_service ext st ent req =
     (case check_cross_origin req of
        Some refusal \<Rightarrow> Finish refusal
      | None \<Rightarrow> auth_middleware req (dispatch ext st ent req))"

section \<open>Requests keep the database well formed\<close>

text \<open>A known user stays one, so the assertions below survive the steps of other requests.\<close>

definition known :: "string option \<Rightarrow> tdb \<Rightarrow> bool" where
  "known uid s \<longleftrightarrow> (\<forall>u. uid = Some u \<longrightarrow> is_user u s) \<and> db_wf s"

lemma known_None [simp]: "known None s = db_wf s"
  by (simp add: known_def)

lemma known_Some [simp]: "known (Some u) s \<longleftrightarrow> is_user u s \<and> db_wf s"
  by (simp add: known_def)

lemma known_stable [simp]: "stable_under db_step (known uid)"
  by (auto simp: stable_under_def known_def dest: db_step_wf db_step_user)

lemma wf_stable [simp]: "stable_under db_step db_wf"
  using known_stable [of None] by (simp add: stable_under_def)

text \<open>A statement that keeps the invariant, and a query whose answer names a user.\<close>

lemma sat_known:
  assumes "\<And>s. known uid s \<Longrightarrow> db_step s (snd (op s))"
  shows "sat db_step (known uid) (query op) (\<lambda>_. known uid)"
  using assms known_stable
  by (intro sat_query) (auto simp: stable_under_def, metis snd_conv)

lemma sat_user:
  assumes "\<And>s. snd (op s) = s"
    and "\<And>s a. db_wf s \<Longrightarrow> fst (op s) = Ok a \<Longrightarrow> known (f a) s"
  shows "sat db_step (known uid) (query op) (\<lambda>a. known (f a))"
  using assms by (intro sat_look) (auto simp: known_def)

lemma find_user_known:
  "fst (get_user_internal q s) = Ok uo \<Longrightarrow> db_wf s \<Longrightarrow> known (map_option user_id uo) s"
  by (auto simp: get_user_internal_def known_def is_user_def split: option.splits
      dest!: find_Some_mem)

lemma sat_find_user:
  "sat db_step (known uid) (query (get_user_by_id i)) (\<lambda>uo. known (map_option user_id uo))"
  "sat db_step (known uid) (query (get_user_by_email m)) (\<lambda>uo. known (map_option user_id uo))"
  "sat db_step (known uid) (query (get_user_by_github_user_id g)) (\<lambda>uo. known (map_option user_id uo))"
proof -
  have "snd (transaction (get_user_internal q) s) = s"
    "fst (transaction (get_user_internal q) s) = fst (get_user_internal q s)" for q s
    by (simp_all add: transaction_def get_user_internal_def)
  then show "sat db_step (known uid) (query (get_user_by_id i)) (\<lambda>uo. known (map_option user_id uo))"
    "sat db_step (known uid) (query (get_user_by_email m)) (\<lambda>uo. known (map_option user_id uo))"
    "sat db_step (known uid) (query (get_user_by_github_user_id g)) (\<lambda>uo. known (map_option user_id uo))"
    unfolding get_user_by_id_def get_user_by_email_def get_user_by_github_user_id_def
    by (auto intro!: sat_user dest: find_user_known)
qed

lemma sat_lookups:
  "sat db_step (known uid) (query (get_session_token_by_id i)) (\<lambda>_. db_wf)"
  "sat db_step (known uid) (query (get_auth_token_by_id i)) (\<lambda>_. db_wf)"
  "sat db_step (known uid) (query (get_device_token_by_user_code c)) (\<lambda>_. known uid)"
  by (auto intro!: sat_look simp: known_def)

lemma sat_create_user:
  "sat db_step (known uid) (query (create_user i m g ds)) (\<lambda>u. known (Some (user_id u)))"
proof (rule sat_query)
  show "db_step s (snd (create_user i m g ds s))" for s by (rule create_user_step)
  then show "known (Some (user_id u)) t" if "known uid s" "create_user i m g ds s = (Ok u, t)" for s u t
    using that by (auto simp: known_def dest: create_user_is_user) (metis db_step_wf snd_conv)
qed simp

lemma sat_context: "(\<And>a. x = Some a \<Longrightarrow> sat G P (k a) Q) \<Longrightarrow> sat G P (bind_prog (context_opt m x) k) Q"
  by (cases x) simp_all

lemma sat_context_panic:
  "(\<And>a. x = Some a \<Longrightarrow> sat G P (k a) Q) \<Longrightarrow>
   sat G P (bind_prog (expecting m (context_opt n x)) k) Q"
  by (cases x) simp_all

lemma sat_session:
  "sat db_step (known uid) (get_user_for_session sid)
     (\<lambda>found. known (map_option (user_id \<circ> snd) found))"
  unfolding get_user_for_session_def
proof (rule sat_bind [OF sat_lookups(1)])
  fix so :: "sessions_model option"
  show "sat db_step db_wf (case so of None \<Rightarrow> Finish None | Some se \<Rightarrow>
      bind_prog (query (get_user_by_id (session_user_id se))) (\<lambda>uo.
        bind_prog (expecting ''unwrap'' (context_opt '''' uo)) (\<lambda>u. Finish (Some (se, u)))))
    (\<lambda>found. known (map_option (user_id \<circ> snd) found))"
    by (cases so)
      (auto intro!: sat_bind [OF sat_find_user(1) [of None, simplified known_None [abs_def]]]
        sat_context_panic)
qed

lemma sat_auth_token:
  "sat db_step (known uid) (get_auth_token i) (\<lambda>(_, u). known (Some (user_id u)))"
  unfolding get_auth_token_def
  by (rule sat_bind [OF sat_lookups(2)], rule sat_context,
      rule sat_bind [OF sat_find_user(1) [of None, simplified known_None [abs_def]]])
    (auto intro!: sat_context)

definition approver :: "device_tokens_model option \<Rightarrow> string option" where
  "approver found =
     Option.bind found (\<lambda>tok. if token_state tok = Approved then Some (approved_by_user_id tok) else None)"

lemma sat_by_code:
  "sat db_step (known uid) (query (get_device_token_by_device_code c)) (\<lambda>_. known uid)"
  "sat db_step (known uid) (query (get_device_token_by_device_code c)) (\<lambda>found. known (approver found))"
proof -
  show "sat db_step (known uid) (query (get_device_token_by_device_code c)) (\<lambda>_. known uid)"
    by (rule sat_look) simp_all
  show "sat db_step (known uid) (query (get_device_token_by_device_code c)) (\<lambda>found. known (approver found))"
  proof (rule sat_user)
    fix s found
    assume wf: "db_wf s" and "fst (get_device_token_by_device_code c s) = Ok found"
    then have "found = find (\<lambda>r. device_code r = c) (device_tokens s)"
      by (simp add: get_device_token_by_device_code_def)
    then have "tok \<in> set (device_tokens s)" if "found = Some tok" for tok
      using that find_Some_mem by force
    with wf show "known (approver found) s"
      by (cases found) (auto simp: approver_def known_def wf_unfold list_all_iff)
  qed simp
qed

lemma sat_approve_wf:
  "sat db_step (known (Some uid)) (approve_device_token c uid) (\<lambda>_. known (Some uid))"
  unfolding approve_device_token_def
  by (rule sat_bind [OF sat_by_code(1)], rule sat_context)
    (auto intro!: sat_known update_device_step)

lemma sat_reject_wf: "sat db_step (known uid) (reject_device_token c) (\<lambda>_. known uid)"
  unfolding reject_device_token_def
  by (rule sat_bind [OF sat_by_code(1)], rule sat_context)
    (auto intro!: sat_known update_device_step)

lemma sat_create_wf:
  "sat db_step (known uid) (create_device_token key ps now) (\<lambda>_. known uid)"
  unfolding create_device_token_def Let_def
  by (rule sat_bind [OF sat_known]) (auto intro!: insert_device_step)

lemma sat_issue_wf:
  "sat db_step (known (Some uid)) (query (create_auth_token i uid)) (\<lambda>_. known (Some uid))"
  by (rule sat_known) (auto intro!: create_auth_step)

lemma sat_poll_wf: "sat db_step (known uid) (poll_device_token c key) (\<lambda>_. db_wf)"
  unfolding poll_device_token_def
proof (rule sat_bind [OF sat_by_code(2)])
  fix found :: "device_tokens_model option"
  have "sat db_step (known (Some (approved_by_user_id tok)))
     (bind_prog (query (update_device_token (tok\<lparr>token_state := Exchanged\<rparr>))) (\<lambda>_.
      bind_prog (query (create_auth_token (make_random_hex_string key) (approved_by_user_id tok)))
        (\<lambda>auth. Finish (None, Some auth)))) (\<lambda>_. db_wf)" for tok
    by (rule sat_bind [OF sat_known], rule update_device_step, simp,
        rule sat_bind [OF sat_issue_wf]) simp
  then show "sat db_step (known (approver found))
    (case found of None \<Rightarrow> Finish (None, None) | Some token \<Rightarrow>
       if token_state token \<noteq> Approved then Finish (Some token, None)
       else bind_prog (query (update_device_token (token\<lparr>token_state := Exchanged\<rparr>))) (\<lambda>_.
            bind_prog (query (create_auth_token (make_random_hex_string key)
              (approved_by_user_id token))) (\<lambda>auth. Finish (None, Some auth)))) (\<lambda>_. db_wf)"
    by (cases found) (auto simp: approver_def)
qed

lemma sat_get_token: "sat db_step (known uid) (get_device_token c) (\<lambda>_. known uid)"
  unfolding get_device_token_def
  by (rule sat_bind [OF sat_lookups(3)]) (auto simp: context_opt_def split: option.split)

text \<open>The handlers, for a request whose session, if any, is of a known user.\<close>

lemma sat_weaken: "sat G P p (\<lambda>_. known uid) \<Longrightarrow> sat G P p (\<lambda>_. db_wf)"
  by (erule sat_post) (simp add: known_def)

lemma sat_start_session:
  "sat db_step (known (Some (user_id u))) (start_session ent u answer cs) (\<lambda>_. db_wf)"
  unfolding start_session_def
  by (rule sat_bind [OF sat_expecting [OF sat_known]]) (auto intro: create_session_step)

lemma sat_user_or_new:
  "sat db_step (known (map_option user_id maybe))
     (case maybe of Some user \<Rightarrow> Finish user
      | None \<Rightarrow> expecting m (query (create_user i mail g ds))) (\<lambda>u. known (Some (user_id u)))"
  by (cases maybe) (auto intro!: sat_expecting sat_create_user)

lemma sat_login_test: "sat db_step (known uid) (login_test_handler st ent mail cs) (\<lambda>_. db_wf)"
  unfolding login_test_handler_def
  by (auto simp: known_def intro!: sat_bind [OF sat_expecting [OF sat_find_user(2)]]
      sat_bind [OF sat_user_or_new] sat_start_session)

lemma sat_login_callback:
  "sat db_step (known uid) (login_callback_handler ext ent req code sp cs) (\<lambda>_. db_wf)"
  unfolding login_callback_handler_def
  by (auto intro!: sat_context_panic sat_bind [OF sat_expecting [OF sat_find_user(3)]]
      sat_bind [OF sat_user_or_new] sat_start_session)

definition user_of :: "UserInfo option \<Rightarrow> string option" where
  "user_of info = map_option (user_id \<circ> info_user) info"

lemma sat_approve_handler:
  "sat db_step (known (user_of info)) (post_approve_device_handler info code cs) (\<lambda>_. db_wf)"
  unfolding post_approve_device_handler_def
  by (rule sat_bind [OF sat_expecting [OF sat_get_token]], rule sat_context_panic)
    (auto simp: user_of_def intro!: sat_bind [OF sat_expecting [OF sat_approve_wf]])

lemma sat_register:
  "sat db_step (known uid) (api_register_domain_handler st token dn cs) (\<lambda>_. db_wf)"
  unfolding api_register_domain_handler_def
proof (rule sat_bind [OF sat_expecting [OF sat_auth_token]], clarify)
  fix tok :: auth_tokens_model and u :: User
  show "sat db_step (known (Some (user_id u)))
    (if \<not> list_ex (\<lambda>sfx. suffix sfx dn) (available_suffixes st) then Abort (Panicked ''bad ending'')
     else bind_prog (expecting ''failed to register domain''
            (query (register_user_domain (user_id u) dn))) (\<lambda>_.
          Finish (ok_body ApiRegisterDomainResponse cs))) (\<lambda>_. db_wf)"
    by (auto intro!: sat_bind [OF sat_expecting [OF sat_known]] register_domain_step)
qed

lemma sat_route:
  "sat db_step (known (user_of info)) (run_route ext st ent req r info cs) (\<lambda>_. db_wf)"
proof (cases r)
  case DeviceCodeRoute
  then show ?thesis
    by (auto simp: oauth2_device_code_handler_def known_def
        intro!: sat_bind [OF sat_expecting [OF sat_create_wf]])
next
  case DeviceTokenRoute
  then show ?thesis
    by (auto simp: extracting_def oauth2_device_token_handler_def known_def split: option.split
        intro!: sat_bind [OF sat_expecting [OF sat_poll_wf]])
next
  case PostLoginDeviceRoute
  then show ?thesis
    by (auto simp: extracting_def post_login_device_handler_def known_def split: option.split
        intro!: sat_bind [OF sat_expecting [OF sat_get_token]])
next
  case ApproveRoute
  then show ?thesis
    by (auto simp: extracting_def known_def split: option.split intro!: sat_approve_handler)
next
  case RejectRoute
  then show ?thesis
    by (auto simp: extracting_def post_reject_device_handler_def known_def split: option.split
        intro!: sat_bind [OF sat_expecting [OF sat_get_token]]
          sat_bind [OF sat_expecting [OF sat_reject_wf]])
next
  case LogoutRoute
  then show ?thesis
    by (cases info) (auto simp: logout_handler_def known_def user_of_def
        intro!: sat_bind [OF sat_expecting [OF sat_known]] delete_session_step)
next
  case ApiTestRoute
  then show ?thesis
    by (auto simp: extracting_def api_test_handler_def known_def split: option.split
        intro!: sat_bind [OF sat_expecting [OF sat_auth_token]])
next
  case LoginCallbackRoute
  then show ?thesis
    by (auto simp: extracting_def known_def split: option.split intro!: sat_login_callback)
next
  case LoginTestRoute
  then show ?thesis
    by (auto simp: extracting_def known_def split: option.split intro!: sat_login_test)
next
  case ApiRegisterRoute
  then show ?thesis
    by (auto simp: extracting_def known_def split: option.split intro!: sat_register)
qed (auto simp: extracting_def known_def index_handler_def get_login_device_handler_def
    login_handler_def login_github_handler_def split: option.split)

lemma sat_dispatch: "sat db_step (known (user_of info)) (dispatch ext st ent req info cs) (\<lambda>_. db_wf)"
  unfolding dispatch_def by (auto intro!: sat_route simp: known_def split: option.split)

lemma sat_auth:
  assumes "\<And>info cs. sat db_step (known (user_of info)) (k info cs) (\<lambda>_. db_wf)"
  shows "sat db_step (known None) (auth_middleware req k) (\<lambda>_. db_wf)"
proof (cases "map_of (cookies req) ''session_id''")
  case None
  then show ?thesis using assms [of None] by (simp add: auth_middleware_def user_of_def)
next
  case (Some sid)
  have "sat db_step (known (map_option (user_id \<circ> snd) found))
      (case found of Some (session, user) \<Rightarrow> k (Some \<lparr>info_user = user, info_session = session\<rparr>) []
       | None \<Rightarrow> k None (remove_cookie req ''session_id'' [])) (\<lambda>_. db_wf)" for found
    using assms [of None] assms [of "Some \<lparr>info_user = snd (the found), info_session = fst (the found)\<rparr>"]
    by (cases found) (auto simp: user_of_def)
  with Some show ?thesis
    unfolding auth_middleware_def by (auto intro!: sat_bind [OF sat_expecting [OF sat_session]])
qed

lemma sat_web: "sat db_step (known None) (web_service ext st ent req) (\<lambda>_. db_wf)"
  by (auto simp: web_service_def split: option.split intro!: sat_auth sat_dispatch)

text \<open>
  C20. However the database calls of concurrent web requests interleave, whatever the outside
  services answer and whichever requests panic, a well-formed database stays well formed: no two
  users share an id, email or GitHub account, no domain has two owners, codes and tokens are unique,
  and every domain, session, auth token and approval belongs to an existing user. Users are never lost.
\<close>

theorem web_requests_keep_db:
  assumes "db_wf s"
    and "pool_run (map (\<lambda>(ent, req). web_service ext st ent req) reqs, s) (ps, t)"
  shows "db_wf t \<and> users_grow s t"
proof -
  let ?ps = "map (\<lambda>(ent, req). web_service ext st ent req) reqs"
  have "pool_ok db_step (\<lambda>_ _. db_wf) ?ps s"
    unfolding pool_ok_def using assms(1)
    by (auto intro!: exI [of _ "known None"] sat_web simp: split_def)
  from pool_ok_run [OF assms(2) this] have "db_step\<^sup>*\<^sup>* s t" by blast
  then have "db_step s t" by (induction rule: rtranclp_induct) (auto intro: db_step_trans)
  with assms(1) show ?thesis by (simp add: db_step_def)
qed

lemma routed_not_refused:
  assumes "find_route req = Some r"
  shows "check_cross_origin req = None"
proof -
  from assms obtain e where e: "find (\<lambda>(m, p, r). p = req_path req \<and>
      (m = req_method req \<or> (m = ''GET'' \<and> req_method req = ''HEAD''))) web_routes = Some e"
    by (auto simp: find_route_def)
  then have "e \<in> set web_routes" and "fst e = req_method req \<or> req_method req = ''HEAD''"
    by (auto dest!: find_Some_mem)
  then have "req_method req \<in> {''GET'', ''HEAD'', ''POST''}"
    by (auto simp: web_routes_def)
  then show ?thesis unfolding check_cross_origin_def by (rule if_P)
qed

text \<open>
  The cross-origin check never protects a handler: for every request that the router has a
  handler for, whatever its Sec-Fetch-Site and Origin headers say, the service behaves as it would
  without the check, because all routes use the methods the check lets through.
\<close>

theorem cross_origin_check_vacuous:
  "(case find_route req of
      Some r \<Rightarrow> check_cross_origin req = None \<and>
        web_service ext st ent req = auth_middleware req (dispatch ext st ent req)
    | None \<Rightarrow> True)"
  using routed_not_refused [of req] by (simp add: web_service_def split: option.split)

section \<open>Concrete requests\<close>

definition sample_ext :: web_ext where
  "sample_ext = \<lparr>authorize_url = (\<lambda>c. ''https://github.example/?state='' @ c),
     exchange_code = (\<lambda>c. Some c), github_user = (\<lambda>a. Some (''login'', 7, ''a@b'')),
     urlencoded_state = (\<lambda>(t, r). t @ ''&'' @ r), urldecoded_state = (\<lambda>x. None),
     percent_encode = id\<rparr>"

definition sample_state :: server_state where
  "sample_state = \<lparr>available_suffixes = [''.test.local''], web_base_url = ''http://localhost'',
     enable_test_login = True\<rparr>"

definition sample_entropy :: entropy where
  "sample_entropy = \<lparr>key1 = [1], key2 = [2], picks = [0, 1, 2, 3, 4, 5, 6, 7], csrf_token = ''c'',
     now1 = 0, now2 = 0\<rparr>"

definition blank_request :: web_request where
  "blank_request = \<lparr>req_method = ''GET'', req_path = ''/'', sec_fetch_site = None, origin = None,
     bearer = None, cookies = [], form_device_code = None, form_user_code = None, json_email = None,
     json_domain = None, query_redirect_to = None, query_code = None, query_state = None\<rparr>"

definition login_request :: web_request where
  "login_request = blank_request\<lparr>req_method := ''POST'', req_path := ''/login/test'',
     json_email := Some ''new@b''\<rparr>"

lemma web_requests_keep_db_witness:
  "db_wf (snd (run_prog (web_service sample_ext sample_state sample_entropy login_request) sample_db)) \<and>
   length (sessions (snd (run_prog (web_service sample_ext sample_state sample_entropy login_request)
     sample_db))) = 1"
proof -
  let ?p = "web_service sample_ext sample_state sample_entropy login_request"
  have wf: "db_wf sample_db" by code_simp
  obtain r t where run: "run_prog ?p sample_db = (r, t)" by (cases "run_prog ?p sample_db")
  have "pool_run (map (\<lambda>(ent, req). web_service sample_ext sample_state ent req)
      [(sample_entropy, login_request)], sample_db)
    ([case r of Inr a \<Rightarrow> Finish a | Inl e \<Rightarrow> Abort e], t)"
    using run_prog_is_pool_run [OF run, of 0 "[?p]"] by simp
  from web_requests_keep_db [OF wf this] run
  have "db_wf (snd (run_prog ?p sample_db))" by simp
  moreover have "length (sessions (snd (run_prog ?p sample_db))) = 1" by code_simp
  ultimately show ?thesis by blast
qed

end
