(* ===== verification/TunnelDns.thy ===== *)
theory TunnelDns
  imports TunnelWeb "HOL-Library.Countable"
begin

text \<open>
  The DNS server of the tunnel server, \<^verbatim>\<open>tunnel/src/dnsserver.rs\<close>: the read-only request handler, the
  authorizer, the HTTP handlers that set records, and the start that reloads them. Records live in the
  database and in the in-memory authority. The name and record types of the hickory library, their
  codecs and the authority are parameters. Shown: only the owner of a domain changes its records; a
  restart serves the last value of each name and type; and, because names are lower-cased for the DNS
  but not for ownership, a user can register a variant of another user's domain and replace its records, and
  can answer the ACME challenge of any domain, the server's included.
\<close>

section \<open>DNS requests\<close>

datatype MessageType = QueryMessage | ResponseMessage

datatype OpCode = OpQuery | OpStatus | OpNotify | OpUpdate | OpUnknown u8

fun check_readonly :: "MessageType \<Rightarrow> OpCode \<Rightarrow> bool" where
  "check_readonly QueryMessage OpQuery = True"
| "check_readonly QueryMessage OpUpdate = False"
| "check_readonly QueryMessage OpStatus = True"
| "check_readonly QueryMessage OpNotify = True"
| "check_readonly QueryMessage (OpUnknown c) = True"
| "check_readonly ResponseMessage op = True"

datatype ResponseCode = NotImp | ServFail

text \<open>The catalog behind the handler and the sending of an error response are parameters.\<close>

definition handle_request ::
  "('req \<Rightarrow> 'info) \<Rightarrow> ('req \<Rightarrow> ResponseCode \<Rightarrow> 'info option) \<Rightarrow> (ResponseCode \<Rightarrow> 'info) \<Rightarrow>
   ('req \<Rightarrow> MessageType) \<Rightarrow> ('req \<Rightarrow> OpCode) \<Rightarrow> 'req \<Rightarrow> 'info"
where
  "handle_request underlying send header_info mtype opc req =
     (if \<not> check_readonly (mtype req) (opc req)
      then (case send req NotImp of Some info \<Rightarrow> info | None \<Rightarrow> header_info ServFail)
      else underlying req)"

section \<open>State and parameters\<close>

datatype 'n RData = TXT "string list" | A "nat \<times> nat \<times> nat \<times> nat" | CNAME 'n | SOA 'n 'n nat nat nat nat nat

fun record_type :: "'n RData \<Rightarrow> string" where
  "record_type (TXT vs) = ''TXT''"
| "record_type (A ip) = ''A''"
| "record_type (CNAME n) = ''CNAME''"
| "record_type (SOA a b c d e f g) = ''SOA''"

record ('n, 'z) dns_ext =
  name_from_str :: "string \<Rightarrow> 'n option"
  lower_name :: "'n \<Rightarrow> 'n"
  name_to_string :: "'n \<Rightarrow> string"
  rdata_to_json :: "'n RData \<Rightarrow> string"
  rdata_from_json :: "string \<Rightarrow> 'n RData option"
  new_authority :: "'n \<Rightarrow> 'n RData \<Rightarrow> 'z"
  upsert :: "'n \<Rightarrow> nat \<Rightarrow> 'n RData \<Rightarrow> 'z \<Rightarrow> 'z"

record 'z dns_state =
  persistence :: tdb
  authority :: 'z

type_synonym ('a, 'z) dns_op = "'z dns_state \<Rightarrow> (string, 'a) outcome \<times> 'z dns_state"

definition on_db :: "'a prog \<Rightarrow> ('a, 'z) dns_op" where
  "on_db p s =
     (case run_prog p (persistence s) of
        (Inr a, t) \<Rightarrow> (Ok a, s\<lparr>persistence := t\<rparr>)
      | (Inl (Bailed m), t) \<Rightarrow> (Err m, s\<lparr>persistence := t\<rparr>)
      | (Inl (Panicked m), t) \<Rightarrow> (Panic, s\<lparr>persistence := t\<rparr>))"

definition or_panic :: "('e, 'a) outcome \<times> 's \<Rightarrow> ('e, 'a) outcome \<times> 's" where
  "or_panic r = (case r of (Err e, s) \<Rightarrow> (Panic, s) | _ \<Rightarrow> r)"

lemma or_panic_simps [simp]:
  "or_panic (Ok a, s) = (Ok a, s)" "or_panic (Err e, s) = (Panic, s)" "or_panic (Panic, s) = (Panic, s)"
  by (simp_all add: or_panic_def)

section \<open>Authorization\<close>

definition strip_suffix :: "string \<Rightarrow> string \<Rightarrow> string option" where
  "strip_suffix sfx x = (if suffix sfx x then Some (take (length x - length sfx) x) else None)"

definition strip_prefix :: "string \<Rightarrow> string \<Rightarrow> string option" where
  "strip_prefix p x = (if prefix p x then Some (drop (length p) x) else None)"

definition trimmed_domain :: "string \<Rightarrow> string" where
  "trimmed_domain d =
     (case strip_prefix ''_acme-challenge.'' d of
        Some t \<Rightarrow> t
      | None \<Rightarrow> (case strip_prefix ''*.'' d of Some t \<Rightarrow> t | None \<Rightarrow> d))"

definition can_write :: "string \<Rightarrow> string \<Rightarrow> unit prog" where
  "can_write token name =
     bind_prog (query (get_auth_token_by_id token)) (\<lambda>found.
     bind_prog (context_opt ''missing token'' found) (\<lambda>tok.
     bind_prog (query (get_user_by_id (auth_user_id tok))) (\<lambda>uo.
     bind_prog (context_opt ''missing user'' uo) (\<lambda>user.
     bind_prog (context_opt ''should end in .'' (strip_suffix ''.'' name)) (\<lambda>d.
       if List.member (domains user) (trimmed_domain d) then Finish ()
       else Abort (Bailed ''not allowed''))))))"

section \<open>Setting records\<close>

text \<open>\<^verbatim>\<open>ttl.try_into()\<close> from \<^verbatim>\<open>i32\<close> to \<^verbatim>\<open>u32\<close> fails on negative values, after the database was written.\<close>

definition add_record ::
  "('n, 'z) dns_ext \<Rightarrow> string \<Rightarrow> int \<Rightarrow> int option \<Rightarrow> 'n RData \<Rightarrow> (unit, 'z) dns_op"
where
  "add_record ext name ttl ex rdata s =
     (case name_from_str ext name of
        None \<Rightarrow> (Err ''name'', s)
      | Some n0 \<Rightarrow>
          let n = lower_name ext n0 in
          bind_st (on_db (query (write_dns_record (name_to_string ext n) (record_type rdata)
                     (rdata_to_json ext rdata) ttl ex)) s) (\<lambda>_ s.
            if ttl < 0 then (Err ''ttl'', s)
            else (Ok (), s\<lparr>authority := upsert ext n (nat ttl) rdata (authority s)\<rparr>)))"

definition add_txt_record :: "('n, 'z) dns_ext \<Rightarrow> string \<Rightarrow> string \<Rightarrow> (unit, 'z) dns_op" where
  "add_txt_record ext name v = add_record ext name 1 None (TXT [v])"

definition add_a_record ::
  "('n, 'z) dns_ext \<Rightarrow> string \<Rightarrow> nat \<times> nat \<times> nat \<times> nat \<Rightarrow> (unit, 'z) dns_op"
where
  "add_a_record ext name ip = add_record ext name 1 None (A ip)"

definition add_cname_record :: "('n, 'z) dns_ext \<Rightarrow> string \<Rightarrow> string \<Rightarrow> (unit, 'z) dns_op" where
  "add_cname_record ext name v s =
     (if \<not> suffix ''.'' v then (Err ''cname target must be fully qualified'', s)
      else case name_from_str ext v of
        None \<Rightarrow> (Err ''name'', s)
      | Some n \<Rightarrow> add_record ext name 1 None (CNAME n) s)"

definition check_txt_value :: "string \<Rightarrow> bool" where
  "check_txt_value v \<longleftrightarrow> length v \<le> 64 \<and> list_all (\<lambda>c. (32 :: nat) \<le> of_char c \<and> of_char c \<le> (126 :: nat)) v"

definition check_cname_value :: "('n, 'z) dns_ext \<Rightarrow> string \<Rightarrow> bool" where
  "check_cname_value ext v \<longleftrightarrow> length v \<le> 128 \<and> name_from_str ext v \<noteq> None"

definition check_value :: "bool \<Rightarrow> (unit, 'z) dns_op" where
  "check_value b s = (if b then (Ok (), s) else (Err ''value'', s))"

definition dns_set_txt_handler ::
  "('n, 'z) dns_ext \<Rightarrow> string \<Rightarrow> string \<Rightarrow> string \<Rightarrow> (unit, 'z) dns_op"
where
  "dns_set_txt_handler ext token name v s =
     bind_st (or_panic (on_db (can_write token name) s)) (\<lambda>_ s.
     bind_st (or_panic (check_value (check_txt_value v) s)) (\<lambda>_ s.
       or_panic (add_txt_record ext name v s)))"

definition dns_set_a_handler ::
  "('n, 'z) dns_ext \<Rightarrow> string \<Rightarrow> string \<Rightarrow> nat \<times> nat \<times> nat \<times> nat \<Rightarrow> (unit, 'z) dns_op"
where
  "dns_set_a_handler ext token name ip s =
     bind_st (or_panic (on_db (can_write token name) s)) (\<lambda>_ s.
       or_panic (add_a_record ext name ip s))"

definition dns_set_cname_handler ::
  "('n, 'z) dns_ext \<Rightarrow> string \<Rightarrow> string \<Rightarrow> string \<Rightarrow> (unit, 'z) dns_op"
where
  "dns_set_cname_handler ext token name v s =
     bind_st (or_panic (on_db (can_write token name) s)) (\<lambda>_ s.
     bind_st (or_panic (check_value (check_cname_value ext v) s)) (\<lambda>_ s.
       or_panic (add_cname_record ext name v s)))"

text \<open>The three routes of \<^verbatim>\<open>make_dns_router\<close> that change records.\<close>

datatype dns_request =
    SetTxt string string
  | SetA string "nat \<times> nat \<times> nat \<times> nat"
  | SetCname string string

fun dns_router :: "('n, 'z) dns_ext \<Rightarrow> string \<Rightarrow> dns_request \<Rightarrow> (unit, 'z) dns_op" where
  "dns_router ext token (SetTxt name v) = dns_set_txt_handler ext token name v"
| "dns_router ext token (SetA name ip) = dns_set_a_handler ext token name ip"
| "dns_router ext token (SetCname name v) = dns_set_cname_handler ext token name v"

fun target_name :: "dns_request \<Rightarrow> string" where
  "target_name (SetTxt name v) = name"
| "target_name (SetA name ip) = name"
| "target_name (SetCname name v) = name"

record TunnelInfoResponse =
  quic_endpoint :: string
  public_endpoint :: string
  public_ip :: string

definition get_tunnel_info :: "string \<Rightarrow> string \<Rightarrow> string \<Rightarrow> TunnelInfoResponse" where
  "get_tunnel_info quic_tunnel_endpoint external_domain ip =
     \<lparr>quic_endpoint = quic_tunnel_endpoint, public_endpoint = external_domain, public_ip = ip\<rparr>"

section \<open>Start\<close>

fun load_records ::
  "('n, 'z) dns_ext \<Rightarrow> dns_records_model list \<Rightarrow> 'z \<Rightarrow> (string, 'z) outcome"
where
  "load_records ext [] z = Ok z"
| "load_records ext (r # rs) z =
     (case name_from_str ext (rec_name r) of
        None \<Rightarrow> Err ''name''
      | Some n0 \<Rightarrow>
          (case rdata_from_json ext (rec_value r) of
             None \<Rightarrow> Err ''json''
           | Some rdata \<Rightarrow>
               if ttl_seconds r < 0 then Err ''ttl''
               else load_records ext rs (upsert ext (lower_name ext n0) (nat (ttl_seconds r)) rdata z)))"

text \<open>\<open>bound\<close>: whether the listening address can be bound, which is tried before the records are loaded.\<close>

definition make_dns_server ::
  "('n, 'z) dns_ext \<Rightarrow> string \<Rightarrow> bool \<Rightarrow> tdb \<Rightarrow> (string, 'z dns_state) outcome"
where
  "make_dns_server ext catalog_name bound db =
     (case name_from_str ext catalog_name of
        None \<Rightarrow> Err ''name''
      | Some n0 \<Rightarrow>
          let n = lower_name ext n0 in
          if \<not> bound then Err ''bind''
          else (case load_records ext (dns_records db) (new_authority ext n (SOA n n 1 60 60 60 60)) of
             Ok z \<Rightarrow> Ok \<lparr>persistence = db, authority = z\<rparr>
           | Err e \<Rightarrow> Err e
           | Panic \<Rightarrow> Panic))"

text \<open>\<^verbatim>\<open>rsplit_once(':')\<close>: the part before the last colon.\<close>

definition extract_host :: "string \<Rightarrow> string option" where
  "extract_host hp =
     (if CHR '':'' \<in> set hp then Some (join_with (CHR '':'') (butlast (split_on (CHR '':'') hp)))
      else None)"

section \<open>Only owners write\<close>

definition may_write :: "tdb \<Rightarrow> string \<Rightarrow> string \<Rightarrow> bool" where
  "may_write db token name \<longleftrightarrow>
     (\<exists>a d. find (\<lambda>r. auth_id r = token) (auth_tokens db) = Some a \<and> is_user (auth_user_id a) db \<and>
        strip_suffix ''.'' name = Some d \<and>
        trimmed_domain d \<in> set (domains_of (auth_user_id a) db))"

lemma get_user_by_id_eq:
  "get_user_by_id uid s =
     (Ok (map_option (\<lambda>u. \<lparr>user_id = uid, email = row_email u,
        github_user_id = row_github_user_id u, domains = domains_of uid s\<rparr>)
        (find (\<lambda>u. row_id u = uid) (users s))), s)"
proof (cases "find (\<lambda>u. row_id u = uid) (users s)")
  case (Some u)
  moreover have "row_id u = uid" by (rule find_Some_code [OF Some])
  ultimately show ?thesis by (simp add: get_user_by_id_def get_user_internal_def transaction_def)
qed (simp add: get_user_by_id_def get_user_internal_def transaction_def)

lemma run_can_write:
  "\<exists>m. run_prog (can_write token name) s =
     (if may_write s token name then Inr () else Inl (Bailed m), s)"
proof -
  have none: "is_user u s \<longleftrightarrow> find (\<lambda>r. row_id r = u) (users s) \<noteq> None" for u
    using find_None_image [of row_id u "users s"] by (simp add: is_user_def)
  show ?thesis
    by (auto simp: can_write_def run_bind get_auth_token_by_id_def get_user_by_id_eq may_write_def
        context_opt_def none split: option.splits)
qed

text \<open>What a request asks to store, if its value passes the checks.\<close>

fun requested :: "('n, 'z) dns_ext \<Rightarrow> dns_request \<Rightarrow> 'n RData option" where
  "requested ext (SetTxt name v) = (if check_txt_value v then Some (TXT [v]) else None)"
| "requested ext (SetA name ip) = Some (A ip)"
| "requested ext (SetCname name v) =
     (if check_cname_value ext v \<and> suffix ''.'' v then map_option CNAME (name_from_str ext v) else None)"

definition record_row :: "('n, 'z) dns_ext \<Rightarrow> 'n \<Rightarrow> 'n RData \<Rightarrow> dns_records_model" where
  "record_row ext n rdata =
     \<lparr>rec_name = name_to_string ext n, rec_kind = record_type rdata, rec_value = rdata_to_json ext rdata,
      ttl_seconds = 1, rec_expires_at = None\<rparr>"

definition stored :: "('n, 'z) dns_ext \<Rightarrow> 'n \<Rightarrow> 'n RData \<Rightarrow> 'z dns_state \<Rightarrow> 'z dns_state" where
  "stored ext n rdata s =
     s\<lparr>persistence := (persistence s)\<lparr>dns_records :=
         upsert_row (record_row ext n rdata) (dns_records (persistence s))\<rparr>,
       authority := upsert ext n 1 rdata (authority s)\<rparr>"

lemma add_record_eq:
  "add_record ext name 1 None rdata s =
     (case name_from_str ext name of
        None \<Rightarrow> (Err ''name'', s)
      | Some n0 \<Rightarrow> (Ok (), stored ext (lower_name ext n0) rdata s))"
  by (simp add: add_record_def on_db_def write_dns_record_def stored_def record_row_def Let_def
      split: option.split)

lemma on_db_can_write:
  "or_panic (on_db (can_write token name) s) =
     (if may_write (persistence s) token name then Ok () else Panic, s)"
proof -
  obtain m where "run_prog (can_write token name) (persistence s) =
      (if may_write (persistence s) token name then Inr () else Inl (Bailed m), persistence s)"
    using run_can_write by blast
  then show ?thesis by (simp add: on_db_def)
qed

lemma dns_router_eq:
  "dns_router ext token req s =
     (if may_write (persistence s) token (target_name req)
      then case (name_from_str ext (target_name req), requested ext req) of
             (Some n, Some rdata) \<Rightarrow> (Ok (), stored ext (lower_name ext n) rdata s)
           | _ \<Rightarrow> (Panic, s)
      else (Panic, s))"
  by (cases req)
    (auto simp: dns_set_txt_handler_def dns_set_a_handler_def dns_set_cname_handler_def
      on_db_can_write check_value_def add_txt_record_def add_a_record_def add_cname_record_def
      add_record_eq check_cname_value_def split: option.split)

lemma find_upsert_row:
  "find (\<lambda>r. rec_name r = n \<and> rec_kind r = k) (upsert_row x rows) =
     (if rec_name x = n \<and> rec_kind x = k then Some x
      else find (\<lambda>r. rec_name r = n \<and> rec_kind r = k) rows)"
  by (induction rows) auto

definition stored_row :: "tdb \<Rightarrow> string \<Rightarrow> string \<Rightarrow> dns_records_model option" where
  "stored_row db n k = find (\<lambda>r. rec_name r = n \<and> rec_kind r = k) (dns_records db)"

text \<open>
  C28. A request to set a DNS record succeeds exactly if its token belongs to a user who owns the
  domain that the name denotes (the name itself, its ACME challenge or its wildcard), the name parses
  and the value passes its check. It then replaces the row of this name and type only, and passes the
  same record to the authority. In every other case the handler panics and neither the database nor
  the authority changes.
\<close>

theorem dns_writes_need_ownership:
  "dns_router ext token req s =
     (if may_write (persistence s) token (target_name req)
      then case (name_from_str ext (target_name req), requested ext req) of
             (Some n, Some rdata) \<Rightarrow> (Ok (), stored ext (lower_name ext n) rdata s)
           | _ \<Rightarrow> (Panic, s)
      else (Panic, s)) \<and>
   stored_row (persistence (stored ext m x s)) nm kd =
     (if nm = name_to_string ext m \<and> kd = record_type x then Some (record_row ext m x)
      else stored_row (persistence s) nm kd)"
  using dns_router_eq [of ext token req s]
  by (auto simp: stored_row_def stored_def find_upsert_row record_row_def)

section \<open>Restart\<close>

text \<open>
  What the server relies on of names and records: printing a lower-cased name and parsing it gives the
  name back, lower-casing twice changes nothing, and records survive their JSON encoding.
\<close>

definition codecs_ok :: "('n, 'z) dns_ext \<Rightarrow> bool" where
  "codecs_ok ext \<longleftrightarrow>
     (\<forall>n. name_from_str ext (name_to_string ext (lower_name ext n)) = Some (lower_name ext n)) \<and>
     (\<forall>n. lower_name ext (lower_name ext n) = lower_name ext n) \<and>
     (\<forall>r. rdata_from_json ext (rdata_to_json ext r) = Some r)"

fun put_latest :: "'n \<times> 'n RData \<Rightarrow> ('n \<times> 'n RData) list \<Rightarrow> ('n \<times> 'n RData) list" where
  "put_latest e [] = [e]"
| "put_latest e (x # xs) =
     (if fst x = fst e \<and> record_type (snd x) = record_type (snd e) then e # xs else x # put_latest e xs)"

definition latest :: "('n \<times> 'n RData) list \<Rightarrow> ('n \<times> 'n RData) list" where
  "latest hist = foldl (\<lambda>l e. put_latest e l) [] hist"

definition apply_all :: "('n, 'z) dns_ext \<Rightarrow> ('n \<times> 'n RData) list \<Rightarrow> 'z \<Rightarrow> 'z" where
  "apply_all ext hist z = foldl (\<lambda>z (n, r). upsert ext n 1 r z) z hist"

definition run_dns ::
  "('n, 'z) dns_ext \<Rightarrow> (string \<times> dns_request) list \<Rightarrow> 'z dns_state \<Rightarrow> 'z dns_state"
where
  "run_dns ext reqs s = foldl (\<lambda>s (token, req). snd (dns_router ext token req s)) s reqs"

text \<open>The records that a sequence of requests stores, in order.\<close>

definition accepted ::
  "('n, 'z) dns_ext \<Rightarrow> tdb \<Rightarrow> string \<times> dns_request \<Rightarrow> ('n \<times> 'n RData) option"
where
  "accepted ext db tr =
     (if may_write db (fst tr) (target_name (snd tr))
      then case (name_from_str ext (target_name (snd tr)), requested ext (snd tr)) of
             (Some n, Some rdata) \<Rightarrow> Some (lower_name ext n, rdata) | _ \<Rightarrow> None
      else None)"

definition history ::
  "('n, 'z) dns_ext \<Rightarrow> tdb \<Rightarrow> (string \<times> dns_request) list \<Rightarrow> ('n \<times> 'n RData) list"
where
  "history ext db reqs = List.map_filter (accepted ext db) reqs"

definition rows_of :: "('n, 'z) dns_ext \<Rightarrow> ('n \<times> 'n RData) list \<Rightarrow> dns_records_model list" where
  "rows_of ext es = map (\<lambda>(n, r). record_row ext n r) es"

definition lowered :: "('n, 'z) dns_ext \<Rightarrow> 'n \<times> 'n RData \<Rightarrow> bool" where
  "lowered ext e \<longleftrightarrow> lower_name ext (fst e) = fst e"

lemma find_put_latest:
  "find (\<lambda>x. fst x = n \<and> record_type (snd x) = k) (put_latest e l) =
     (if fst e = n \<and> record_type (snd e) = k then Some e
      else find (\<lambda>x. fst x = n \<and> record_type (snd x) = k) l)"
  by (induction l) auto

lemma find_latest:
  "find (\<lambda>x. fst x = n \<and> record_type (snd x) = k) (latest hist) =
     find (\<lambda>x. fst x = n \<and> record_type (snd x) = k) (rev hist)"
  by (induction hist rule: rev_induct) (simp_all add: latest_def find_put_latest)

lemma lowered_put: "list_all (lowered ext) l \<Longrightarrow> lowered ext e \<Longrightarrow> list_all (lowered ext) (put_latest e l)"
  by (induction l) auto

lemma name_string_inj:
  "codecs_ok ext \<Longrightarrow> lowered ext (a, x) \<Longrightarrow> lowered ext (b, y) \<Longrightarrow>
   name_to_string ext a = name_to_string ext b \<longleftrightarrow> a = b"
  unfolding codecs_ok_def lowered_def by (metis fst_conv option.inject)

lemma rows_put_latest:
  assumes "codecs_ok ext" "list_all (lowered ext) l" "lowered ext (n, r)"
  shows "upsert_row (record_row ext n r) (rows_of ext l) = rows_of ext (put_latest (n, r) l)"
  using assms(2)
proof (induction l)
  case (Cons e l)
  obtain m q where "e = (m, q)" by (cases e)
  with Cons assms(1,3) show ?case
    using name_string_inj [OF assms(1), of m q n r]
    by (simp add: rows_of_def record_row_def)
qed (simp add: rows_of_def)

lemma codecs_okD:
  assumes "codecs_ok ext" "lowered ext (n, r)"
  shows "name_from_str ext (name_to_string ext n) = Some n" "lower_name ext n = n"
    "rdata_from_json ext (rdata_to_json ext x) = Some x"
  using assms unfolding codecs_ok_def lowered_def by (metis fst_conv)+

lemma load_rows:
  assumes "codecs_ok ext"
  shows "list_all (lowered ext) es \<Longrightarrow> load_records ext (rows_of ext es) z = Ok (apply_all ext es z)"
proof (induction es arbitrary: z)
  case (Cons e es)
  obtain n r where e: "e = (n, r)" by (cases e)
  with Cons.prems have "lowered ext (n, r)" by simp
  from codecs_okD [OF assms this] Cons e show ?case
    by (simp add: rows_of_def record_row_def apply_all_def)
qed (simp add: rows_of_def apply_all_def)

lemma may_write_records [simp]: "may_write (db\<lparr>dns_records := x\<rparr>) = may_write db"
  by (simp add: fun_eq_iff may_write_def domains_of_def is_user_def)

lemma accepted_records [simp]: "accepted ext (db\<lparr>dns_records := x\<rparr>) = accepted ext db"
  by (simp add: fun_eq_iff accepted_def)

lemma dns_router_accepted:
  "snd (dns_router ext token req s) =
     (case accepted ext (persistence s) (token, req) of
        Some (n, rdata) \<Rightarrow> stored ext n rdata s | None \<Rightarrow> s)"
  by (simp add: dns_router_eq accepted_def split: option.split)

lemma accepted_lowered: "codecs_ok ext \<Longrightarrow> accepted ext db tr = Some e \<Longrightarrow> lowered ext e"
  by (auto simp: accepted_def lowered_def codecs_ok_def split: if_splits option.splits)

lemma run_dns_snoc:
  "run_dns ext (reqs @ [tr]) s = snd (dns_router ext (fst tr) (snd tr) (run_dns ext reqs s))"
  by (simp add: run_dns_def split_def)

lemma history_snoc:
  "history ext db (reqs @ [tr]) =
     history ext db reqs @ (case accepted ext db tr of Some e \<Rightarrow> [e] | None \<Rightarrow> [])"
  by (simp add: history_def List.map_filter_def split: option.split)

text \<open>Along every sequence of requests the rows are those of the latest records.\<close>

lemma run_dns_state:
  assumes "codecs_ok ext" and "dns_records (persistence s) = []"
  shows "persistence (run_dns ext reqs s) =
      (persistence s)\<lparr>dns_records := rows_of ext (latest (history ext (persistence s) reqs))\<rparr> \<and>
    authority (run_dns ext reqs s) =
      apply_all ext (history ext (persistence s) reqs) (authority s) \<and>
    list_all (lowered ext) (latest (history ext (persistence s) reqs))"
proof (induction reqs rule: rev_induct)
  case Nil
  then show ?case
    using assms(2) by (simp add: run_dns_def history_def List.map_filter_def latest_def rows_of_def apply_all_def)
next
  case (snoc tr reqs)
  let ?s = "run_dns ext reqs s" and ?db = "persistence s"
  show ?case
  proof (cases "accepted ext ?db tr")
    case None
    with snoc show ?thesis
      by (simp add: run_dns_snoc history_snoc dns_router_accepted)
  next
    case (Some e)
    then obtain n r where e: "accepted ext ?db tr = Some (n, r)" "lowered ext (n, r)"
      using accepted_lowered [OF assms(1)] by (cases e) blast
    with snoc show ?thesis
      by (simp add: run_dns_snoc history_snoc dns_router_accepted latest_def lowered_put
          apply_all_def stored_def rows_put_latest [OF assms(1)])
  qed
qed

text \<open>
  C30. Started on a database without records and driven by any requests, the DNS server holds every
  record it accepted in its authority, in order; started again on the database it left, its authority
  receives exactly one record for each name and type, the last one accepted. The start fails only if the
  listening address cannot be bound.
\<close>

theorem restart_serves_last_values:
  assumes "codecs_ok ext" and "dns_records db = []" and "make_dns_server ext cat bound db = Ok s0"
    and "hist = history ext db reqs"
  shows "authority (run_dns ext reqs s0) = apply_all ext hist (authority s0) \<and>
    make_dns_server ext cat True (persistence (run_dns ext reqs s0)) =
      Ok \<lparr>persistence = persistence (run_dns ext reqs s0),
          authority = apply_all ext (latest hist) (authority s0)\<rparr> \<and>
    make_dns_server ext cat False (persistence (run_dns ext reqs s0)) = Err ''bind'' \<and>
    (\<forall>n k. find (\<lambda>x. fst x = n \<and> record_type (snd x) = k) (latest hist) =
           find (\<lambda>x. fst x = n \<and> record_type (snd x) = k) (rev hist))"
proof -
  from assms(2,3) have s0: "persistence s0 = db"
    and "\<exists>n0. name_from_str ext cat = Some n0 \<and> authority s0 =
      new_authority ext (lower_name ext n0) (SOA (lower_name ext n0) (lower_name ext n0) 1 60 60 60 60)"
    by (auto simp: make_dns_server_def Let_def split: option.splits if_splits)
  then obtain n0 where n0: "name_from_str ext cat = Some n0" "authority s0 =
      new_authority ext (lower_name ext n0) (SOA (lower_name ext n0) (lower_name ext n0) 1 60 60 60 60)"
    by blast
  have rows: "dns_records (persistence s0) = []" using assms(2) s0 by simp
  note state = run_dns_state [OF assms(1) rows, of reqs, unfolded s0, folded assms(4)]
  show ?thesis
    using state n0 load_rows [OF assms(1), of "latest hist" "authority s0"]
    by (simp add: make_dns_server_def Let_def find_latest)
qed

section \<open>Variants of a domain\<close>

lemma strip_dot [simp]: "strip_suffix ''.'' (d @ ''.'') = Some d"
  by (simp add: strip_suffix_def suffix_def)

lemma run_get_auth_token:
  assumes "db_wf db" "find (\<lambda>r. auth_id r = token) (auth_tokens db) = Some a"
  shows "\<exists>u. run_prog (get_auth_token token) db = (Inr (a, u), db) \<and> user_id u = auth_user_id a"
proof -
  have "auth_user_id a \<in> row_id ` set (users db)"
    using assms find_Some_mem [OF assms(2)] by (auto simp: wf_unfold)
  then obtain row where "find (\<lambda>u. row_id u = auth_user_id a) (users db) = Some row"
    using find_None_image [of row_id "auth_user_id a" "users db"] by auto
  with assms show ?thesis
    by (simp add: get_auth_token_def run_bind get_auth_token_by_id_def get_user_by_id_eq)
qed

lemma run_register:
  assumes "db_wf db" "find (\<lambda>r. auth_id r = token) (auth_tokens db) = Some a"
    and "list_ex (\<lambda>sfx. suffix sfx dn) (available_suffixes st)"
    and "dn \<notin> owned_domain ` set (user_domains db)"
  shows "run_prog (api_register_domain_handler st token dn cs) db =
    (Inr (ok_body ApiRegisterDomainResponse cs),
     db\<lparr>user_domains := user_domains db @ [\<lparr>owner_id = auth_user_id a, owned_domain = dn\<rparr>]\<rparr>)"
  using run_get_auth_token [OF assms(1,2)] assms(3,4)
  by (auto simp: api_register_domain_handler_def run_simps register_user_domain_def insert_user_domain_def)

text \<open>A user registers a free domain and then sets a record of the name with this domain.\<close>

lemma register_then_set:
  assumes "db_wf db" and "find (\<lambda>r. auth_id r = token) (auth_tokens db) = Some a"
    and "list_ex (\<lambda>sfx. suffix sfx d) (available_suffixes st)"
    and "d \<notin> owned_domain ` set (user_domains db)" and "trimmed_domain d = d"
    and "target_name req = d @ ''.''" and "name_from_str ext (d @ ''.'') = Some n"
    and "requested ext req = Some rdata"
    and db': "db' = db\<lparr>user_domains := user_domains db @ [\<lparr>owner_id = auth_user_id a, owned_domain = d\<rparr>]\<rparr>"
  shows "run_prog (api_register_domain_handler st token d cs) db =
      (Inr (ok_body ApiRegisterDomainResponse cs), db')"
    and "dns_router ext token req \<lparr>persistence = db', authority = z\<rparr> =
      (Ok (), stored ext (lower_name ext n) rdata \<lparr>persistence = db', authority = z\<rparr>)"
proof -
  have "auth_user_id a \<in> row_id ` set (users db)"
    using assms(1,2) find_Some_mem [OF assms(2)] by (auto simp: wf_unfold)
  then have may: "may_write db' token (d @ ''.'')"
    using assms(2,5) by (auto simp: db' may_write_def is_user_def domains_of_def)
  show "run_prog (api_register_domain_handler st token d cs) db =
      (Inr (ok_body ApiRegisterDomainResponse cs), db')"
    using run_register [OF assms(1-4)] by (simp add: db')
  show "dns_router ext token req \<lparr>persistence = db', authority = z\<rparr> =
      (Ok (), stored ext (lower_name ext n) rdata \<lparr>persistence = db', authority = z\<rparr>)"
    using may assms(6-8) by (simp only: dns_router_eq dns_state.select_convs if_True option.case prod.case)
qed

lemma stored_row_stored:
  "stored_row (persistence (stored ext n x s)) (name_to_string ext n) (record_type x) = Some (record_row ext n x)"
  by (simp add: stored_row_def stored_def find_upsert_row record_row_def)

text \<open>
  Ownership compares domains byte by byte while the DNS lower-cases names: if a domain is free as
  written but names the same DNS name as another user's domain, any user may register it and then set
  the address of that DNS name, although the other user still owns the domain.
\<close>

theorem domain_variant_takes_over_name:
  assumes "db_wf db" and "find (\<lambda>r. auth_id r = token) (auth_tokens db) = Some a"
    and "\<lparr>owner_id = victim, owned_domain = d1\<rparr> \<in> set (user_domains db)" and "victim \<noteq> auth_user_id a"
    and "list_ex (\<lambda>sfx. suffix sfx d2) (available_suffixes st)"
    and "d2 \<notin> owned_domain ` set (user_domains db)" and "trimmed_domain d2 = d2"
    and "name_from_str ext (d1 @ ''.'') = Some n1" and "name_from_str ext (d2 @ ''.'') = Some n2"
    and "lower_name ext n1 = lower_name ext n2"
  shows "\<exists>db' t. run_prog (api_register_domain_handler st token d2 cs) db =
      (Inr (ok_body ApiRegisterDomainResponse cs), db') \<and>
    \<lparr>owner_id = victim, owned_domain = d1\<rparr> \<in> set (user_domains db') \<and>
    dns_router ext token (SetA (d2 @ ''.'') ip) \<lparr>persistence = db', authority = z\<rparr> = (Ok (), t) \<and>
    stored_row (persistence t) (name_to_string ext (lower_name ext n1)) ''A'' =
      Some (record_row ext (lower_name ext n1) (A ip))"
proof -
  let ?db = "db\<lparr>user_domains := user_domains db @ [\<lparr>owner_id = auth_user_id a, owned_domain = d2\<rparr>]\<rparr>"
  note steps = register_then_set [OF assms(1,2,5,6,7) _ assms(9) _ HOL.refl, of "SetA (d2 @ ''.'') ip" "A ip"]
  show ?thesis
    using steps(1) [of cs] steps(2) [of z] assms(3)
      stored_row_stored [of ext "lower_name ext n2" "A ip" "\<lparr>persistence = ?db, authority = z\<rparr>"]
    by (intro exI [of _ ?db] exI [of _ "stored ext (lower_name ext n2) (A ip) \<lparr>persistence = ?db, authority = z\<rparr>"])
      (simp add: assms(10))
qed

text \<open>
  C29. The ACME challenge of a name is protected by comparing its first label as written. If
  \<open>_ACME-challenge.d\<close> has an available suffix and is free, any user may register it as a domain and then set the
  challenge record of \<open>d\<close>, with which a certificate for \<open>d\<close> is obtained: of another user's domain, or of the
  server's own host name when the suffix is the dot and the host name. The name spelled in lower case is
  refused to this user before and after.
\<close>

theorem challenge_takeover:
  assumes "db_wf db" and "find (\<lambda>r. auth_id r = token) (auth_tokens db) = Some a"
    and "d \<notin> set (domains_of (auth_user_id a) db)"
    and "list_ex (\<lambda>sfx. suffix sfx (''_ACME-challenge.'' @ d)) (available_suffixes st)"
    and "''_ACME-challenge.'' @ d \<notin> owned_domain ` set (user_domains db)"
    and "name_from_str ext (''_acme-challenge.'' @ d @ ''.'') = Some n1"
    and "name_from_str ext (''_ACME-challenge.'' @ d @ ''.'') = Some n2"
    and "lower_name ext n1 = lower_name ext n2" and "check_txt_value v"
  shows "\<exists>db' t. run_prog (api_register_domain_handler st token (''_ACME-challenge.'' @ d) cs) db =
      (Inr (ok_body ApiRegisterDomainResponse cs), db') \<and>
    dns_router ext token (SetTxt (''_ACME-challenge.'' @ d @ ''.'') v) \<lparr>persistence = db', authority = z\<rparr> = (Ok (), t) \<and>
    stored_row (persistence t) (name_to_string ext (lower_name ext n1)) ''TXT'' =
      Some (record_row ext (lower_name ext n1) (TXT [v])) \<and>
    authority t = upsert ext (lower_name ext n1) 1 (TXT [v]) z \<and>
    \<not> may_write db token (''_acme-challenge.'' @ d @ ''.'') \<and>
    \<not> may_write (persistence t) token (''_acme-challenge.'' @ d @ ''.'')"
proof -
  let ?d = "''_ACME-challenge.'' @ d"
  let ?db = "db\<lparr>user_domains := user_domains db @ [\<lparr>owner_id = auth_user_id a, owned_domain = ?d\<rparr>]\<rparr>"
  let ?t = "stored ext (lower_name ext n2) (TXT [v]) \<lparr>persistence = ?db, authority = z\<rparr>"
  have trim: "trimmed_domain ?d = ?d" "trimmed_domain (''_acme-challenge.'' @ d) = d"
    by (simp_all add: trimmed_domain_def strip_prefix_def)
  have dot: "strip_suffix ''.'' (''_acme-challenge.'' @ d @ ''.'') = Some (''_acme-challenge.'' @ d)"
    using strip_dot [of "''_acme-challenge.'' @ d"] by simp
  have not: "\<not> may_write db token (''_acme-challenge.'' @ d @ ''.'')"
    "\<not> may_write (persistence ?t) token (''_acme-challenge.'' @ d @ ''.'')"
    using assms(2,3) trim(2) dot by (auto simp: may_write_def stored_def domains_of_def)
  note steps = register_then_set [OF assms(1,2,4,5) trim(1) _ _ _ HOL.refl,
      of "SetTxt (?d @ ''.'') v" ext n2 "TXT [v]"]
  show ?thesis
    using steps(1) [of cs] steps(2) [of z] not assms(6-9)
      stored_row_stored [of ext "lower_name ext n2" "TXT [v]" "\<lparr>persistence = ?db, authority = z\<rparr>"]
    by (intro exI [of _ ?db] exI [of _ ?t]) (simp add: stored_def)
qed

section \<open>Concrete names and records\<close>

instance RData :: (countable) countable
  by countable_datatype

definition lower_char :: "char \<Rightarrow> char" where
  "lower_char c =
     (let n = of_char c in if 65 \<le> n \<and> n \<le> (90 :: nat) then char_of (n + 32) else c)"

text \<open>An authority that lists what it was given, names as text, and records numbered for their encoding.\<close>

definition sample_dns :: "(string, (string \<times> nat \<times> string RData) list) dns_ext" where
  "sample_dns = \<lparr>name_from_str = Some, lower_name = map lower_char, name_to_string = id,
     rdata_to_json = (\<lambda>r. replicate (to_nat r) (CHR ''a'')),
     rdata_from_json = (\<lambda>x. Some (from_nat (length x))),
     new_authority = (\<lambda>n soa. [(n, 60, soa)]), upsert = (\<lambda>n ttl r z. z @ [(n, ttl, r)])\<rparr>"

definition sample_dns_db :: tdb where
  "sample_dns_db = sample_db\<lparr>
     users := users sample_db @ [\<lparr>row_id = ''u2'', row_email = ''c@d'', row_github_user_id = None\<rparr>],
     auth_tokens := [\<lparr>auth_id = ''t1'', auth_user_id = ''u1''\<rparr>, \<lparr>auth_id = ''t2'', auth_user_id = ''u2''\<rparr>]\<rparr>"

lemma sample_dns_simps [simp]:
  "name_from_str sample_dns = Some" "lower_name sample_dns = map lower_char"
  "name_to_string sample_dns = id" "rdata_to_json sample_dns r = replicate (to_nat r) (CHR ''a'')"
  "rdata_from_json sample_dns x = Some (from_nat (length x))"
  "new_authority sample_dns n soa = [(n, 60, soa)]" "upsert sample_dns n ttl r z = z @ [(n, ttl, r)]"
  by (simp_all add: sample_dns_def)

lemma lower_char_cases: "lower_char (lower_char c) = lower_char c"
proof -
  have "of_char (char_of (n + 32) :: char) = n + 32" if "n \<le> 90" for n :: nat
    using that by (simp add: of_char_of)
  then show ?thesis by (auto simp: lower_char_def Let_def)
qed

lemma sample_codecs: "codecs_ok sample_dns"
  by (simp add: codecs_ok_def lower_char_cases)

lemma domain_variant_takes_over_name_witness:
  "\<exists>db' t. run_prog (api_register_domain_handler (sample_state\<lparr>available_suffixes := [''.example.com'']\<rparr>)
        ''t2'' ''X.example.com'' []) sample_dns_db = (Inr (ok_body ApiRegisterDomainResponse []), db') \<and>
    \<lparr>owner_id = ''u1'', owned_domain = ''x.example.com''\<rparr> \<in> set (user_domains db') \<and>
    dns_router sample_dns ''t2'' (SetA (''X.example.com'' @ ''.'') (6, 6, 6, 6))
      \<lparr>persistence = db', authority = []\<rparr> = (Ok (), t) \<and>
    stored_row (persistence t) ''x.example.com.'' ''A'' =
      Some (record_row sample_dns ''x.example.com.'' (A (6, 6, 6, 6)))"
proof -
  have "map lower_char ''x.example.com.'' = ''x.example.com.''"
    "map lower_char ''X.example.com.'' = ''x.example.com.''"
    by code_simp+
  then have low: "lower_name sample_dns ''x.example.com.'' = ''x.example.com.''"
    "lower_name sample_dns ''X.example.com.'' = ''x.example.com.''"
    "name_to_string sample_dns ''x.example.com.'' = ''x.example.com.''"
    by (simp_all del: list.map)
  have "db_wf sample_dns_db" "trimmed_domain ''X.example.com'' = ''X.example.com''"
    "list_ex (\<lambda>sfx. suffix sfx ''X.example.com'')
       (available_suffixes (sample_state\<lparr>available_suffixes := [''.example.com'']\<rparr>))"
    "\<lparr>owner_id = ''u1'', owned_domain = ''x.example.com''\<rparr> \<in> set (user_domains sample_dns_db)"
    "''X.example.com'' \<notin> owned_domain ` set (user_domains sample_dns_db)"
    "find (\<lambda>r. auth_id r = ''t2'') (auth_tokens sample_dns_db) =
       Some \<lparr>auth_id = ''t2'', auth_user_id = ''u2''\<rparr>"
    by code_simp+
  note facts = this
  from domain_variant_takes_over_name [OF facts(1,6,4) _ facts(3,5,2), of sample_dns
      "''x.example.com.''" "''X.example.com.''" "[]" "(6, 6, 6, 6)" "[]"] low
  show ?thesis by (simp del: list.map)
qed

lemma challenge_takeover_witness:
  "\<exists>db' t. run_prog (api_register_domain_handler (sample_state\<lparr>available_suffixes := [''.tunnel.jelle.dev'']\<rparr>)
        ''t2'' (''_ACME-challenge.'' @ ''tunnel.jelle.dev'') []) sample_dns_db =
      (Inr (ok_body ApiRegisterDomainResponse []), db') \<and>
    dns_router sample_dns ''t2'' (SetTxt (''_ACME-challenge.'' @ ''tunnel.jelle.dev'' @ ''.'') ''digest'')
      \<lparr>persistence = db', authority = []\<rparr> = (Ok (), t) \<and>
    stored_row (persistence t) ''_acme-challenge.tunnel.jelle.dev.'' ''TXT'' =
      Some (record_row sample_dns ''_acme-challenge.tunnel.jelle.dev.'' (TXT [''digest''])) \<and>
    \<not> may_write (persistence t) ''t2'' ''_acme-challenge.tunnel.jelle.dev.''"
proof -
  have "map lower_char ''_acme-challenge.tunnel.jelle.dev.'' = ''_acme-challenge.tunnel.jelle.dev.''"
    "map lower_char ''_ACME-challenge.tunnel.jelle.dev.'' = ''_acme-challenge.tunnel.jelle.dev.''"
    by code_simp+
  then have low: "lower_name sample_dns ''_acme-challenge.tunnel.jelle.dev.'' = ''_acme-challenge.tunnel.jelle.dev.''"
    "lower_name sample_dns ''_ACME-challenge.tunnel.jelle.dev.'' = ''_acme-challenge.tunnel.jelle.dev.''"
    by (simp_all del: list.map)
  have facts: "db_wf sample_dns_db"
    "find (\<lambda>r. auth_id r = ''t2'') (auth_tokens sample_dns_db) =
       Some \<lparr>auth_id = ''t2'', auth_user_id = ''u2''\<rparr>"
    "''tunnel.jelle.dev'' \<notin> set (domains_of ''u2'' sample_dns_db)"
    "list_ex (\<lambda>sfx. suffix sfx (''_ACME-challenge.'' @ ''tunnel.jelle.dev''))
       (available_suffixes (sample_state\<lparr>available_suffixes := [''.tunnel.jelle.dev'']\<rparr>))"
    "''_ACME-challenge.'' @ ''tunnel.jelle.dev'' \<notin> owned_domain ` set (user_domains sample_dns_db)"
    "check_txt_value ''digest''"
    by code_simp+
  from challenge_takeover [OF facts(1,2) _ facts(4,5) _ _ _ facts(6), of sample_dns
      "''_acme-challenge.tunnel.jelle.dev.''" "''_ACME-challenge.tunnel.jelle.dev.''" "[]" "[]"] facts(3) low
  show ?thesis by (simp del: list.map) blast
qed

definition txt_requests :: "(string \<times> dns_request) list" where
  "txt_requests = [(''t1'', SetTxt ''x.example.com.'' ''old''), (''t1'', SetTxt ''x.example.com.'' ''new'')]"

lemma sample_history:
  "history sample_dns sample_dns_db txt_requests =
     [(''x.example.com.'', TXT [''old'']), (''x.example.com.'', TXT [''new''])]"
proof -
  have "may_write sample_dns_db ''t1'' ''x.example.com.''"
    unfolding may_write_def
    by (intro exI [of _ "\<lparr>auth_id = ''t1'', auth_user_id = ''u1''\<rparr>"] exI [of _ "''x.example.com''"])
      code_simp
  moreover have "check_txt_value ''old''" "check_txt_value ''new''"
    "map lower_char ''x.example.com.'' = ''x.example.com.''"
    by code_simp+
  ultimately have
    "accepted sample_dns sample_dns_db (''t1'', SetTxt ''x.example.com.'' ''old'') =
       Some (''x.example.com.'', TXT [''old''])"
    "accepted sample_dns sample_dns_db (''t1'', SetTxt ''x.example.com.'' ''new'') =
       Some (''x.example.com.'', TXT [''new''])"
    by (simp_all add: accepted_def del: list.map)
  then show ?thesis by (simp add: history_def txt_requests_def List.map_filter_def)
qed

text \<open>With an authority that keeps what it is given, a restart forgets the older value of a name.\<close>

lemma restart_serves_last_values_witness:
  "\<exists>s0. make_dns_server sample_dns ''example.com.'' True sample_dns_db = Ok s0 \<and>
     map (snd \<circ> snd) (tl (authority (run_dns sample_dns txt_requests s0))) = [TXT [''old''], TXT [''new'']] \<and>
     make_dns_server sample_dns ''example.com.'' True (persistence (run_dns sample_dns txt_requests s0)) =
       Ok \<lparr>persistence = persistence (run_dns sample_dns txt_requests s0),
           authority = apply_all sample_dns [(''x.example.com.'', TXT [''new''])] (authority s0)\<rparr>"
proof -
  let ?n = "map lower_char ''example.com.''"
  let ?s0 = "\<lparr>persistence = sample_dns_db, authority = [(?n, 60, SOA ?n ?n 1 60 60 60 60)]\<rparr>"
  have rows: "dns_records sample_dns_db = []" by code_simp
  have start: "make_dns_server sample_dns ''example.com.'' True sample_dns_db = Ok ?s0"
    by (simp add: make_dns_server_def rows Let_def del: list.map)
  note restart = restart_serves_last_values [OF sample_codecs rows start sample_history [symmetric]]
  have "latest [(''x.example.com.'', TXT [''old'']), (''x.example.com.'', TXT [''new''])] =
      [(''x.example.com.'', TXT [''new''] :: string RData)]"
    by (simp add: latest_def)
  with restart start show ?thesis
    by (intro exI [of _ ?s0]) (simp add: apply_all_def)
qed

section \<open>Host and port\<close>

lemma split_on_mid: "split_on sep (xs @ sep # ys) = split_on sep xs @ split_on sep ys"
proof (induction xs)
  case (Cons x xs)
  then show ?case by (cases "split_on sep xs") auto
qed simp

text \<open>The port is what follows the last colon, so an IPv6 host keeps its own colons.\<close>

lemma extract_host_ok: "CHR '':'' \<notin> set port \<Longrightarrow> extract_host (host @ '':'' @ port) = Some host"
  using split_on_mid [of "CHR '':''" host port]
  by (simp add: extract_host_def split_on_no_sep_id join_split butlast_append)

lemma extract_host_missing: "extract_host hp = None \<longleftrightarrow> CHR '':'' \<notin> set hp"
  by (simp add: extract_host_def)

end
