(* ===== verification/TunnelServer.thy ===== *)
theory TunnelServer
  imports TunnelDns
begin

text \<open>
  The tunnel itself: the handshake and the map of connections of \<^verbatim>\<open>tunnel/src/server.rs\<close>, the routing by
  server name of \<^verbatim>\<open>sni_router.rs\<close>. QUIC, TLS and the codecs are parameters. Shown: a domain has at most one
  open connection and visitors go to it; parsing a hello ends unless the visitor stops early.
\<close>

section \<open>Handshake\<close>

record ClientHello =
  hello_domain :: string
  hello_token :: string

record ('addr, 'h) tunnel_ext =
  hello_from_json :: "bytes \<Rightarrow> ClientHello option"
  encode_addr :: "'addr \<Rightarrow> bytes"
  decode_addr :: "bytes \<Rightarrow> 'addr option"
  accept_hello :: "bytes \<Rightarrow> 'h option option"
  hello_server_name :: "'h \<Rightarrow> string option"

text \<open>
  What the client sent on its first stream, cut at 1024 bytes, and whether the answer could be sent.
  The handshake is a program over the database that finishes with the domain.
\<close>

definition run_handshake :: "('addr, 'h) tunnel_ext \<Rightarrow> bytes \<Rightarrow> bool \<Rightarrow> string prog" where
  "run_handshake ext incoming sent =
     bind_prog (context_opt ''json'' (hello_from_json ext (take 1024 incoming))) (\<lambda>hello.
     bind_prog (query (get_auth_token_by_id (hello_token hello))) (\<lambda>found.
     bind_prog (context_opt ''need token'' found) (\<lambda>tok.
     bind_prog (query (get_user_by_id (auth_user_id tok))) (\<lambda>uo.
     bind_prog (context_opt ''need user'' uo) (\<lambda>user.
       if \<not> List.member (domains user) (hello_domain hello) then Abort (Bailed ''user not allowed'')
       else if \<not> sent then Abort (Bailed ''send'')
       else Finish (hello_domain hello))))))"

section \<open>Connections\<close>

text \<open>
  Connections are numbered by their stable id. The hub keeps the map from domains to connections and
  the tasks of \<^verbatim>\<open>handle_client\<close> that wait for their connection to close; \<open>opened\<close> and \<open>closed\<close> are the
  connections that were ever opened, and closed.
\<close>

record hub =
  hub_db :: tdb
  tasks :: "response prog list"
  conns :: "string \<Rightarrow> nat option"
  waiting :: "(nat \<times> string) set"
  opened :: "nat set"
  closed :: "nat set"

definition register_conn :: "nat \<Rightarrow> string \<Rightarrow> hub \<Rightarrow> hub" where
  "register_conn c d s =
     s\<lparr>conns := (conns s)(d \<mapsto> c), waiting := insert (c, d) (waiting s), opened := insert c (opened s),
       closed := (case conns s d of Some prev \<Rightarrow> insert prev (closed s) | None \<Rightarrow> closed s)\<rparr>"

definition cleanup_conn :: "nat \<Rightarrow> string \<Rightarrow> hub \<Rightarrow> hub" where
  "cleanup_conn c d s =
     s\<lparr>conns := (case conns s d of
         Some cur \<Rightarrow> if cur = c then (conns s)(d := None) else conns s
       | None \<Rightarrow> conns s),
       waiting := waiting s - {(c, d)}\<rparr>"

definition empty_hub :: "tdb \<Rightarrow> hub" where
  "empty_hub db =
     \<lparr>hub_db = db, tasks = [], conns = Map.empty, waiting = {}, opened = {}, closed = {}\<rparr>"

text \<open>
  The server: a client connects with a fresh connection and a handshake that succeeds, a connection
  closes (by either side, or lost), a waiting task cleans up after its closed connection, a web request
  arrives, a web request makes a database call.
\<close>

inductive hub_step :: "('addr, 'h) tunnel_ext \<Rightarrow> hub \<Rightarrow> hub \<Rightarrow> bool" for ext where
  connect: "run_prog (run_handshake ext incoming sent) (hub_db s) = (Inr d, db) \<Longrightarrow> c \<notin> opened s \<Longrightarrow>
    hub_step ext s (register_conn c d s)"
| close: "c \<in> opened s \<Longrightarrow> hub_step ext s (s\<lparr>closed := insert c (closed s)\<rparr>)"
| cleanup: "(c, d) \<in> waiting s \<Longrightarrow> c \<in> closed s \<Longrightarrow> hub_step ext s (cleanup_conn c d s)"
| request: "hub_step ext s (s\<lparr>tasks := tasks s @ [web_service wext st ent req]\<rparr>)"
| serve: "pool_step (tasks s, hub_db s) (ps, db) \<Longrightarrow> hub_step ext s (s\<lparr>tasks := ps, hub_db := db\<rparr>)"

inductive hub_reach :: "('addr, 'h) tunnel_ext \<Rightarrow> hub \<Rightarrow> hub \<Rightarrow> bool" for ext s0 where
  start: "hub_reach ext s0 s0"
| step: "hub_reach ext s0 s \<Longrightarrow> hub_step ext s t \<Longrightarrow> hub_reach ext s0 t"

definition is_owned :: "tdb \<Rightarrow> string \<Rightarrow> bool" where
  "is_owned db d \<longleftrightarrow> d \<in> owned_domain ` set (user_domains db)"

definition hub_inv :: "hub \<Rightarrow> bool" where
  "hub_inv s \<longleftrightarrow>
     (\<forall>d c. conns s d = Some c \<longrightarrow> (c, d) \<in> waiting s) \<and>
     (\<forall>c d. (c, d) \<in> waiting s \<longrightarrow> conns s d \<noteq> Some c \<longrightarrow> c \<in> closed s) \<and>
     (\<forall>c d e. (c, d) \<in> waiting s \<longrightarrow> (c, e) \<in> waiting s \<longrightarrow> d = e) \<and>
     (\<forall>c d. (c, d) \<in> waiting s \<longrightarrow> c \<in> opened s \<and> is_owned (hub_db s) d) \<and>
     (\<forall>c \<in> opened s - closed s. \<exists>d. (c, d) \<in> waiting s)"

definition hub_wf :: "hub \<Rightarrow> bool" where
  "hub_wf s \<longleftrightarrow> db_wf (hub_db s) \<and> pool_ok db_step (\<lambda>_ _. db_wf) (tasks s) (hub_db s)"

lemma handshake_owned:
  assumes "run_prog (run_handshake ext incoming sent) db = (Inr d, db')"
  shows "is_owned db d"
proof -
  have "x \<in> owned_domain ` set (user_domains db)" if "x \<in> set (domains_of u db)" for x u
    using that by (auto simp: domains_of_def)
  with assms show ?thesis
    by (auto simp: run_handshake_def run_bind get_auth_token_by_id_def get_user_by_id_eq is_owned_def
        context_opt_def split: option.splits if_splits)
qed

lemma register_inv:
  assumes "hub_inv s" "c \<notin> opened s" "is_owned (hub_db s) d"
  shows "hub_inv (register_conn c d s)"
proof -
  have fresh: "(c, e) \<notin> waiting s" for e using assms(1,2) by (auto simp: hub_inv_def)
  show ?thesis
    using assms fresh unfolding hub_inv_def register_conn_def
    by (cases "conns s d") (auto, metis option.inject)
qed

lemma cleanup_inv: "hub_inv s \<Longrightarrow> c \<in> closed s \<Longrightarrow> hub_inv (cleanup_conn c d s)"
  unfolding hub_inv_def cleanup_conn_def by (auto split: option.splits if_splits)

lemma owned_step: "db_step s t \<Longrightarrow> is_owned s d \<Longrightarrow> is_owned t d"
  by (auto simp: db_step_def users_grow_def is_owned_def)

lemma pool_ok_add:
  assumes "pool_ok G Q ps s" and "P s" and "stable_under G P" and "sat G P p (Q (length ps))"
  shows "pool_ok G Q (ps @ [p]) s"
  using assms by (auto simp: pool_ok_def nth_append less_Suc_eq)

lemma hub_step_wf: "hub_step ext s t \<Longrightarrow> hub_wf s \<Longrightarrow> hub_wf t \<and> db_step (hub_db s) (hub_db t)"
proof (induction rule: hub_step.induct)
  case (request s wext st ent req)
  then show ?case
    using pool_ok_add [of db_step "\<lambda>_ _. db_wf" "tasks s" "hub_db s" "known None"] sat_web
    by (simp add: hub_wf_def)
next
  case (serve s ps db)
  then show ?case
    using pool_ok_step [of "tasks s" "hub_db s" ps db db_step "\<lambda>_ _. db_wf"]
    by (auto simp: hub_wf_def dest: db_step_wf)
qed (simp_all add: hub_wf_def register_conn_def cleanup_conn_def)

lemma hub_step_inv:
  assumes "hub_step ext s t" and "hub_wf s" and "hub_inv s"
  shows "hub_inv t"
  using assms hub_step_wf [OF assms(1,2)]
proof (cases rule: hub_step.cases)
  case (connect incoming sent d db c)
  with assms(3) show ?thesis by (auto intro: register_inv dest: handshake_owned)
next
  case (cleanup c d)
  with assms(3) show ?thesis by (auto intro: cleanup_inv)
next
  case (serve ps db)
  with assms(3) hub_step_wf [OF assms(1,2)] show ?thesis
    by (auto simp: hub_inv_def intro: owned_step)
qed (use assms(3) in \<open>auto simp: hub_inv_def\<close>)

lemma hub_reach_inv:
  assumes "hub_reach ext (empty_hub db) s" and "db_wf db"
  shows "hub_wf s \<and> hub_inv s"
  using assms
proof (induction rule: hub_reach.induct)
  case start
  then show ?case by (simp add: hub_wf_def hub_inv_def empty_hub_def pool_ok_def)
next
  case (step s t)
  then show ?case using hub_step_wf hub_step_inv by blast
qed

section \<open>Routing\<close>

text \<open>\<^verbatim>\<open>SniRouter::handle\<close>: the handler of the server name, or the default handler.\<close>

definition sni_handle ::
  "(string \<times> 'k) list \<Rightarrow> 'k option \<Rightarrow> string option \<Rightarrow> (string, 'k) outcome"
where
  "sni_handle handlers fallback server_name =
     (case server_name of
        None \<Rightarrow> Err ''missing hello''
      | Some n \<Rightarrow> (case map_of handlers n of
          Some h \<Rightarrow> Ok h
        | None \<Rightarrow> (case fallback of Some h \<Rightarrow> Ok h | None \<Rightarrow> Err ''no handler'')))"

datatype sni_target = WebTarget | TunnelTarget

definition tunnel_lookup :: "hub \<Rightarrow> string option \<Rightarrow> (string, nat) outcome" where
  "tunnel_lookup s server_name =
     (case server_name of
        None \<Rightarrow> Err ''huh''
      | Some n \<Rightarrow> (case conns s n of Some c \<Rightarrow> Ok c | None \<Rightarrow> Err ''do not have server''))"

text \<open>The router that \<^verbatim>\<open>server_main\<close> sets up: the web server under its host name, all else tunnels.\<close>

definition route_visitor :: "string \<Rightarrow> hub \<Rightarrow> string option \<Rightarrow> (string, nat option) outcome" where
  "route_visitor hostname s server_name =
     (case sni_handle [(hostname, WebTarget)] (Some TunnelTarget) server_name of
        Ok WebTarget \<Rightarrow> Ok None
      | Ok TunnelTarget \<Rightarrow> (case tunnel_lookup s server_name of
          Ok c \<Rightarrow> Ok (Some c) | Err e \<Rightarrow> Err e | Panic \<Rightarrow> Panic)
      | Err e \<Rightarrow> Err e
      | Panic \<Rightarrow> Panic)"

text \<open>
  C21. In every reachable state of clients, visitors and web requests, the domain of every connection is
  owned by a user, every open connection serves a domain and is the one that visitors of this domain are
  routed to (so a domain has at most one open connection, and cleaning up after an older one never
  removes it), and a visitor is routed only to connections whose clean-up is still to come.
\<close>

theorem open_connection_is_routed:
  assumes "hub_reach ext (empty_hub db) s" and "db_wf db"
  shows "(\<forall>c \<in> opened s - closed s. \<exists>d. (c, d) \<in> waiting s \<and> is_owned (hub_db s) d \<and>
            (d \<noteq> hostname \<longrightarrow> route_visitor hostname s (Some d) = Ok (Some c))) \<and>
         (\<forall>d c. route_visitor hostname s (Some d) = Ok (Some c) \<longrightarrow>
            d \<noteq> hostname \<and> (c, d) \<in> waiting s \<and> is_owned (hub_db s) d)"
proof -
  have inv: "hub_inv s" using hub_reach_inv [OF assms] by blast
  have route: "route_visitor hostname s (Some d) =
      (if d = hostname then Ok None
       else case conns s d of Some c \<Rightarrow> Ok (Some c) | None \<Rightarrow> Err ''do not have server'')" for d
    by (simp add: route_visitor_def sni_handle_def tunnel_lookup_def split: option.split)
  show ?thesis
  proof (intro conjI ballI allI impI)
    fix c assume c: "c \<in> opened s - closed s"
    then obtain d where d: "(c, d) \<in> waiting s" using inv unfolding hub_inv_def by blast
    with inv c have "conns s d = Some c" "is_owned (hub_db s) d" by (auto simp: hub_inv_def)
    with d show "\<exists>d. (c, d) \<in> waiting s \<and> is_owned (hub_db s) d \<and>
        (d \<noteq> hostname \<longrightarrow> route_visitor hostname s (Some d) = Ok (Some c))"
      by (auto simp: route)
  next
    fix d c assume "route_visitor hostname s (Some d) = Ok (Some c)"
    then have "conns s d = Some c" "d \<noteq> hostname" by (auto simp: route split: if_splits option.splits)
    moreover from this inv have "(c, d) \<in> waiting s" by (simp add: hub_inv_def)
    moreover from this inv have "is_owned (hub_db s) d" unfolding hub_inv_def by blast
    ultimately show "d \<noteq> hostname" "(c, d) \<in> waiting s" "is_owned (hub_db s) d" by simp_all
  qed
qed

section \<open>Reading the hello\<close>

text \<open>
  What a read of the visitor's connection returns: data or an error; after the last event the
  connection is at its end and reads return no data. The acceptor of the TLS library answers on the
  bytes so far: more is needed (\<open>Some None\<close>), a hello (\<open>Some (Some h)\<close>), or an error (\<open>None\<close>).
\<close>

datatype read_event = Data bytes | ReadFails

record 'h ParsedHello =
  parsed_hello :: 'h
  buffered :: bytes
  unread :: "read_event list"

partial_function (option) parse_hello ::
  "(bytes \<Rightarrow> 'h option option) \<Rightarrow> read_event list \<Rightarrow> bytes \<Rightarrow> (string, 'h ParsedHello) outcome option"
where
  "parse_hello acceptor evs buf =
     (case evs of
        ReadFails # rest \<Rightarrow> Some (Err ''read'')
      | _ \<Rightarrow>
          (let buf' = buf @ (case evs of Data d # _ \<Rightarrow> d | _ \<Rightarrow> []);
               rest = tl evs
           in (case acceptor buf' of
                 Some None \<Rightarrow> parse_hello acceptor rest buf'
               | Some (Some h) \<Rightarrow> Some (Ok \<lparr>parsed_hello = h, buffered = buf', unread = rest\<rparr>)
               | None \<Rightarrow> Some (Err ''tls''))))"

text \<open>The bytes that the reads return, up to the first read that fails.\<close>

fun bytes_of :: "read_event list \<Rightarrow> bytes" where
  "bytes_of [] = []"
| "bytes_of (Data d # evs) = d @ bytes_of evs"
| "bytes_of (ReadFails # evs) = []"

text \<open>Whether the loop decides before the connection ends.\<close>

fun decides :: "(bytes \<Rightarrow> 'h option option) \<Rightarrow> read_event list \<Rightarrow> bytes \<Rightarrow> bool" where
  "decides acceptor [] buf = (acceptor buf \<noteq> Some None)"
| "decides acceptor (ReadFails # evs) buf = True"
| "decides acceptor (Data d # evs) buf =
     (acceptor (buf @ d) \<noteq> Some None \<or> decides acceptor evs (buf @ d))"

lemma parse_hello_end:
  assumes "parse_hello acceptor evs buf = Some r"
  shows "\<not> (evs = [] \<and> acceptor buf = Some None)"
  using assms
  by (rule parse_hello.raw_induct
      [where P = "\<lambda>acc es b r. \<not> (es = [] \<and> acc b = Some None)", rotated])
    (fastforce simp: Let_def split: list.splits read_event.splits option.splits)

lemma parse_hello_Data:
  "parse_hello acceptor (Data d # evs) buf =
     (case acceptor (buf @ d) of
        Some None \<Rightarrow> parse_hello acceptor evs (buf @ d)
      | Some (Some h) \<Rightarrow> Some (Ok \<lparr>parsed_hello = h, buffered = buf @ d, unread = evs\<rparr>)
      | None \<Rightarrow> Some (Err ''tls''))"
  by (simp add: parse_hello.simps [of acceptor "Data d # evs"] Let_def)

lemma parse_hello_Fails: "parse_hello acceptor (ReadFails # evs) buf = Some (Err ''read'')"
  by (simp add: parse_hello.simps)

lemma parse_hello_Nil:
  "acceptor buf \<noteq> Some None \<Longrightarrow> parse_hello acceptor [] buf =
     (case acceptor buf of
        Some (Some h) \<Rightarrow> Some (Ok \<lparr>parsed_hello = h, buffered = buf, unread = []\<rparr>)
      | _ \<Rightarrow> Some (Err ''tls''))"
  by (subst parse_hello.simps) (auto split: option.splits)

lemma parse_hello_decides: "(\<exists>r. parse_hello acceptor evs buf = Some r) \<longleftrightarrow> decides acceptor evs buf"
proof (induction evs arbitrary: buf)
  case Nil
  then show ?case
    using parse_hello_end [of acceptor "[]" buf]
    by (cases "acceptor buf = Some None") (fastforce simp: parse_hello_Nil split: option.splits)+
next
  case (Cons e evs)
  then show ?case
    by (cases e) (auto simp: parse_hello_Data parse_hello_Fails split: option.splits)
qed

lemma parse_hello_keeps:
  "parse_hello acceptor evs buf = Some (Ok p) \<Longrightarrow>
   buffered p @ bytes_of (unread p) = buf @ bytes_of evs \<and>
   acceptor (buffered p) = Some (Some (parsed_hello p))"
proof (induction evs arbitrary: buf)
  case Nil
  then show ?case
    using parse_hello_end [OF Nil]
    by (cases "acceptor buf = Some None") (auto simp: parse_hello_Nil split: option.splits)
next
  case (Cons e evs)
  then show ?case
    by (cases e) (auto simp: parse_hello_Data parse_hello_Fails split: option.splits)
qed

lemma parse_hello_reads:
  "parse_hello acceptor evs buf = Some (Ok p) \<Longrightarrow>
   \<exists>k \<le> length evs. ReadFails \<notin> set (take k evs) \<and>
     buffered p = buf @ bytes_of (take k evs) \<and> unread p = drop k evs"
proof (induction evs arbitrary: buf)
  case Nil
  then show ?case
    using parse_hello_end [OF Nil]
    by (cases "acceptor buf = Some None") (auto simp: parse_hello_Nil split: option.splits)
next
  case (Cons e evs)
  show ?case
  proof (cases e)
    case (Data d)
    with Cons.prems consider
        "acceptor (buf @ d) = Some None" "parse_hello acceptor evs (buf @ d) = Some (Ok p)"
      | "buffered p = buf @ d" "unread p = evs"
      by (auto simp: parse_hello_Data split: option.splits)
    then show ?thesis
    proof cases
      case 1
      from Cons.IH [OF 1(2)] obtain k where "k \<le> length evs" "ReadFails \<notin> set (take k evs)"
        "buffered p = (buf @ d) @ bytes_of (take k evs)" "unread p = drop k evs" by blast
      with Data show ?thesis by (intro exI [of _ "Suc k"]) simp
    next
      case 2
      with Data show ?thesis by (intro exI [of _ 1]) simp
    qed
  qed (use Cons.prems in \<open>simp add: parse_hello_Fails\<close>)
qed

lemma decides_iff:
  "decides acceptor evs buf \<longleftrightarrow>
     ReadFails \<in> set evs \<or> (evs = [] \<and> acceptor buf \<noteq> Some None) \<or>
     (\<exists>k. 0 < k \<and> k \<le> length evs \<and> acceptor (buf @ bytes_of (take k evs)) \<noteq> Some None)"
    (is "_ \<longleftrightarrow> ?r evs buf")
proof (induction evs arbitrary: buf)
  case (Cons e evs)
  show ?case
  proof (cases e)
    case (Data d)
    have "(\<exists>k. 0 < k \<and> k \<le> Suc (length evs) \<and> Q k) \<longleftrightarrow> (\<exists>k. k \<le> length evs \<and> Q (Suc k))" for Q
      by (metis Suc_le_mono Suc_pred zero_less_Suc)
    moreover have "(\<exists>k \<le> length evs. Q k) \<longleftrightarrow> Q 0 \<or> (\<exists>k. 0 < k \<and> k \<le> length evs \<and> Q k)" for Q
      by (metis bot_nat_0.extremum not_gr_zero)
    ultimately show ?thesis
      using Data Cons [of "buf @ d"] by (cases evs) auto
  qed simp
qed simp

text \<open>
  C31. Reading a visitor's hello returns exactly if a read fails or the bytes of some of the reads are a
  hello or refused by the TLS library; if the visitor stops earlier, the loop reads the end of the
  connection forever. When it returns a hello, it has buffered the bytes of its first \<open>k\<close> reads, none of
  which failed, and the rest is unread: together the bytes the visitor sent before a failing read.
\<close>

theorem parse_hello_returns_iff:
  "((\<exists>r. parse_hello acceptor evs [] = Some r) \<longleftrightarrow>
     ReadFails \<in> set evs \<or> (evs = [] \<and> acceptor [] \<noteq> Some None) \<or>
     (\<exists>k. 0 < k \<and> k \<le> length evs \<and> acceptor (bytes_of (take k evs)) \<noteq> Some None)) \<and>
   (case parse_hello acceptor evs [] of
      Some (Ok p) \<Rightarrow> buffered p @ bytes_of (unread p) = bytes_of evs \<and>
        acceptor (buffered p) = Some (Some (parsed_hello p)) \<and>
        (\<exists>k \<le> length evs. ReadFails \<notin> set (take k evs) \<and>
          buffered p = bytes_of (take k evs) \<and> unread p = drop k evs)
    | _ \<Rightarrow> True)"
  using decides_iff [of acceptor evs "[]"] parse_hello_decides [of acceptor evs "[]"]
    parse_hello_keeps [of acceptor evs "[]"] parse_hello_reads [of acceptor evs "[]"]
  by (simp split: option.split outcome.split)

section \<open>A concrete hub\<close>

definition sample_tunnel :: "(u8, unit) tunnel_ext" where
  "sample_tunnel = \<lparr>
     hello_from_json = (\<lambda>_. Some \<lparr>hello_domain = ''x.example.com'', hello_token = ''t1''\<rparr>),
     encode_addr = (\<lambda>a. [a]), decode_addr = (\<lambda>bs. case bs of [a] \<Rightarrow> Some a | _ \<Rightarrow> None),
     accept_hello = (\<lambda>bs. if length bs < 3 then Some None else Some (Some ())),
     hello_server_name = (\<lambda>_. Some ''x.example.com'')\<rparr>"

text \<open>A client connects, connects again, and the task of its first connection cleans up.\<close>

definition reconnected_hub :: hub where
  "reconnected_hub = cleanup_conn 1 ''x.example.com'' (register_conn 2 ''x.example.com''
     (register_conn 1 ''x.example.com'' (empty_hub sample_dns_db)))"

lemma reconnected_reach: "hub_reach sample_tunnel (empty_hub sample_dns_db) reconnected_hub"
proof -
  have "fst (run_prog (run_handshake sample_tunnel [] True) sample_dns_db) = Inr ''x.example.com''"
    by code_simp
  then obtain db where hs: "run_prog (run_handshake sample_tunnel [] True) sample_dns_db =
      (Inr ''x.example.com'', db)"
    by (metis prod.collapse)
  let ?s0 = "empty_hub sample_dns_db"
  let ?s1 = "register_conn 1 ''x.example.com'' ?s0"
  let ?s2 = "register_conn 2 ''x.example.com'' ?s1"
  have "hub_step sample_tunnel ?s0 ?s1" "hub_step sample_tunnel ?s1 ?s2"
    by (rule hub_step.connect [where incoming = "[]" and sent = True and db = db];
        simp add: hs empty_hub_def register_conn_def)+
  moreover have "hub_step sample_tunnel ?s2 reconnected_hub"
    unfolding reconnected_hub_def
    by (rule hub_step.cleanup) (simp_all add: register_conn_def empty_hub_def)
  ultimately show ?thesis by (meson hub_reach.intros)
qed

lemma open_connection_is_routed_witness:
  "route_visitor ''tunnel.example.com'' reconnected_hub (Some ''x.example.com'') = Ok (Some 2)"
proof -
  have wf: "db_wf sample_dns_db" by code_simp
  have "2 \<in> opened reconnected_hub - closed reconnected_hub"
    by (simp add: reconnected_hub_def register_conn_def cleanup_conn_def empty_hub_def)
  with open_connection_is_routed [OF reconnected_reach wf, of "''tunnel.example.com''"]
  obtain d where "(2, d) \<in> waiting reconnected_hub"
    "d \<noteq> ''tunnel.example.com'' \<longrightarrow>
      route_visitor ''tunnel.example.com'' reconnected_hub (Some d) = Ok (Some 2)"
    by blast
  moreover from this(1) have "d = ''x.example.com''"
    by (auto simp: reconnected_hub_def register_conn_def cleanup_conn_def empty_hub_def)
  ultimately show ?thesis by simp
qed

end
