(* ===== verification/TunnelStream.thy ===== *)
theory TunnelStream
  imports TunnelServer
begin

text \<open>
  A visitor's connection on its way through the tunnel: the idle time-out of \<^verbatim>\<open>timeout_stream.rs\<close>, the
  copying between the visitor and the client under that time-out, the server's end (\<^verbatim>\<open>handle_conn\<close> of
  \<^verbatim>\<open>sni_router.rs\<close> and \<^verbatim>\<open>TunnelServer::handle\<close> of \<^verbatim>\<open>server.rs\<close>) and the client's end (\<^verbatim>\<open>serve_conn\<close> of
  \<^verbatim>\<open>client.rs\<close>). Of \<^verbatim>\<open>copy_bidirectional\<close>, which belongs to the runtime, only its documented contract is
  used: it returns at the first error of either stream, and may lose bytes it has read only then. The
  order and the times of its calls are arbitrary (\<open>copy_op\<close>). Shown: a poll reports a time-out exactly
  when nothing was ready for the idle time; the client receives the visitor's address and the bytes the
  visitor sent, all of them if no operation fails or times out, on the connection of the domain's owner.
\<close>

section \<open>Idle time-out\<close>

record TimeoutWrapper =
  timeout :: "nat option"
  idle_duration :: nat

datatype 'a poll = Ready 'a | PollPending

datatype io_error = TimedOut

definition wrapper_new :: "nat \<Rightarrow> TimeoutWrapper" where
  "wrapper_new idle = \<lparr>timeout = None, idle_duration = idle\<rparr>"

definition reset :: "nat \<Rightarrow> TimeoutWrapper \<Rightarrow> TimeoutWrapper" where
  "reset now w =
     (case timeout w of
        Some t \<Rightarrow> w\<lparr>timeout := Some (now + idle_duration w)\<rparr>
      | None \<Rightarrow> w\<lparr>timeout := Some (now + idle_duration w)\<rparr>)"

definition arm :: "nat \<Rightarrow> TimeoutWrapper \<Rightarrow> TimeoutWrapper" where
  "arm now w =
     (case timeout w of None \<Rightarrow> w\<lparr>timeout := Some (now + idle_duration w)\<rparr> | Some t \<Rightarrow> w)"

definition poll_timeout :: "nat \<Rightarrow> TimeoutWrapper \<Rightarrow> (io_error + 'a) poll" where
  "poll_timeout now w =
     (case timeout w of
        Some t \<Rightarrow> if t \<le> now then Ready (Inl TimedOut) else PollPending
      | None \<Rightarrow> PollPending)"

text \<open>The body of \<^verbatim>\<open>poll_read\<close>; the inner stream's answer may itself be an error.\<close>

definition poll_read :: "nat \<Rightarrow> 'a poll \<Rightarrow> TimeoutWrapper \<Rightarrow> (io_error + 'a) poll \<times> TimeoutWrapper" where
  "poll_read now inner w =
     (case inner of
        Ready x \<Rightarrow> (Ready (Inr x), reset now w)
      | PollPending \<Rightarrow> (poll_timeout now (arm now w), arm now w))"

text \<open>The four methods of the writing half.\<close>

definition poll_write :: "nat \<Rightarrow> 'a poll \<Rightarrow> TimeoutWrapper \<Rightarrow> (io_error + 'a) poll \<times> TimeoutWrapper" where
  "poll_write now inner w =
     (case inner of
        Ready x \<Rightarrow> (Ready (Inr x), reset now w)
      | PollPending \<Rightarrow> (poll_timeout now (arm now w), arm now w))"

definition poll_flush :: "nat \<Rightarrow> 'a poll \<Rightarrow> TimeoutWrapper \<Rightarrow> (io_error + 'a) poll \<times> TimeoutWrapper" where
  "poll_flush now inner w =
     (case inner of
        Ready x \<Rightarrow> (Ready (Inr x), reset now w)
      | PollPending \<Rightarrow> (poll_timeout now (arm now w), arm now w))"

definition poll_shutdown :: "nat \<Rightarrow> 'a poll \<Rightarrow> TimeoutWrapper \<Rightarrow> (io_error + 'a) poll \<times> TimeoutWrapper" where
  "poll_shutdown now inner w =
     (case inner of
        Ready x \<Rightarrow> (Ready (Inr x), reset now w)
      | PollPending \<Rightarrow> (poll_timeout now (arm now w), arm now w))"

definition poll_write_vectored ::
  "nat \<Rightarrow> 'a poll \<Rightarrow> TimeoutWrapper \<Rightarrow> (io_error + 'a) poll \<times> TimeoutWrapper"
where
  "poll_write_vectored now inner w =
     (case inner of
        Ready x \<Rightarrow> (Ready (Inr x), reset now w)
      | PollPending \<Rightarrow> (poll_timeout now (arm now w), arm now w))"

datatype io_method = PollRead | PollWrite | PollFlush | PollShutdown | PollWriteVectored

fun poll_method :: "io_method \<Rightarrow> nat \<Rightarrow> 'a poll \<Rightarrow> TimeoutWrapper \<Rightarrow> (io_error + 'a) poll \<times> TimeoutWrapper" where
  "poll_method PollRead = poll_read"
| "poll_method PollWrite = poll_write"
| "poll_method PollFlush = poll_flush"
| "poll_method PollShutdown = poll_shutdown"
| "poll_method PollWriteVectored = poll_write_vectored"

text \<open>The wrapper after a sequence of polls, and the time of the last activity that it remembers.\<close>

definition after_polls :: "(io_method \<times> nat \<times> 'a poll) list \<Rightarrow> TimeoutWrapper \<Rightarrow> TimeoutWrapper" where
  "after_polls ps w = fold (\<lambda>(m, now, inner) w. snd (poll_method m now inner w)) ps w"

definition last_activity :: "(io_method \<times> nat \<times> 'a poll) list \<Rightarrow> nat option" where
  "last_activity ps =
     (case filter (\<lambda>(m, now, inner). inner \<noteq> PollPending) (rev ps) of
        (m, now, inner) # _ \<Rightarrow> Some now
      | [] \<Rightarrow> (case ps of (m, now, inner) # _ \<Rightarrow> Some now | [] \<Rightarrow> None))"

lemma poll_method_eq: "poll_method m = poll_read"
  by (cases m; rule ext; rule ext; rule ext)
    (simp_all add: poll_read_def poll_write_def poll_flush_def poll_shutdown_def poll_write_vectored_def)

lemma after_polls_timeout:
  "after_polls ps (wrapper_new idle) =
     \<lparr>timeout = map_option (\<lambda>t. t + idle) (last_activity ps), idle_duration = idle\<rparr>"
proof (induction ps rule: rev_induct)
  case (snoc e ps)
  obtain m now inner where e: "e = (m, now, inner)" by (cases e)
  have step: "after_polls (ps @ [e]) (wrapper_new idle) =
      snd (poll_read now inner (after_polls ps (wrapper_new idle)))"
    by (simp add: after_polls_def e poll_method_eq)
  show ?case
  proof (cases inner)
    case (Ready x)
    with step snoc e show ?thesis
      by (simp add: poll_read_def reset_def last_activity_def split: option.split)
  next
    case PollPending
    have "last_activity (ps @ [e]) = (case last_activity ps of Some t \<Rightarrow> Some t | None \<Rightarrow> Some now)"
      using PollPending e by (cases ps) (auto simp: last_activity_def split: list.split)
    with PollPending step snoc show ?thesis
      by (simp add: poll_read_def arm_def split: option.split)
  qed
qed (simp add: after_polls_def wrapper_new_def last_activity_def)

text \<open>
  C32. After any polls of any of the five methods, a further poll returns what the inner stream returns
  when it is ready; when it is not, the poll reports a time-out exactly if at least the idle duration has
  passed since the last poll that was ready (or, if none was, since the first poll). Reads and writes
  share the timer: progress in one direction keeps the other alive.
\<close>

theorem idle_timeout_exact:
  "fst (poll_method m now inner (after_polls ps (wrapper_new idle))) =
     (case inner of
        Ready x \<Rightarrow> Ready (Inr x)
      | PollPending \<Rightarrow>
          (case last_activity (ps @ [(m, now, inner)]) of
             Some t \<Rightarrow> if t + idle \<le> now then Ready (Inl TimedOut) else PollPending
           | None \<Rightarrow> PollPending))"
proof (cases inner)
  case PollPending
  have "last_activity (ps @ [(m, now, inner)]) =
      (case last_activity ps of Some t \<Rightarrow> Some t | None \<Rightarrow> Some now)"
    using PollPending by (cases ps) (auto simp: last_activity_def split: list.split)
  with PollPending show ?thesis
    by (simp add: poll_method_eq after_polls_timeout poll_read_def arm_def poll_timeout_def
        split: option.split)
qed (simp add: poll_method_eq poll_read_def)

section \<open>Copying\<close>

text \<open>
  \<^verbatim>\<open>unread_conn\<close>: first the buffered bytes, then what is left to read of the connection. A read returns
  what is there, at most the \<open>n\<close> bytes that its buffer has room for; at the end it returns no data.
\<close>

definition unread_conn :: "'h ParsedHello \<Rightarrow> read_event list" where
  "unread_conn p = Data (buffered p) # unread p"

fun read_conn :: "nat \<Rightarrow> read_event list \<Rightarrow> read_event \<times> read_event list" where
  "read_conn n [] = (Data [], [])"
| "read_conn n (ReadFails # evs) = (ReadFails, evs)"
| "read_conn n (Data d # evs) =
     (if length d \<le> n then (Data d, evs) else (Data (take n d), Data (drop n d) # evs))"

text \<open>
  What \<^verbatim>\<open>copy_bidirectional\<close> does with the visitor's \<^verbatim>\<open>TimeoutStream\<close>, in the order of time: it tries to read
  (\<open>Some n\<close>: the connection is readable and \<open>n\<close> bytes fit the buffer; \<open>None\<close>: nothing to read), it calls a
  method of the writing half for the other direction (which succeeds, fails or is pending), or a read
  or write of the tunnel stream fails. It returns with the first error of either stream.
\<close>

datatype copy_op =
    TryRead nat "nat option"
  | TryWrite io_method nat "bool poll"
  | TunnelBreaks

text \<open>The bytes read, what is left of the connection, and whether the copying ended with an error.\<close>

fun copy_visitor :: "TimeoutWrapper \<Rightarrow> read_event list \<Rightarrow> copy_op list \<Rightarrow> bytes \<times> read_event list \<times> bool"
where
  "copy_visitor w conn [] = ([], conn, False)"
| "copy_visitor w conn (TryRead now None # ops) =
     (case poll_read now (PollPending :: read_event poll) w of
        (PollPending, w') \<Rightarrow> copy_visitor w' conn ops
      | (Ready _, w') \<Rightarrow> ([], conn, True))"
| "copy_visitor w conn (TryRead now (Some n) # ops) =
     (case read_conn n conn of (ev, conn') \<Rightarrow>
       (case poll_read now (Ready ev) w of
          (Ready (Inr (Data d)), w') \<Rightarrow>
            (case copy_visitor w' conn' ops of (bs, rest, failed) \<Rightarrow> (d @ bs, rest, failed))
        | _ \<Rightarrow> ([], conn, True)))"
| "copy_visitor w conn (TryWrite m now inner # ops) =
     (case poll_method m now inner w of
        (PollPending, w') \<Rightarrow> copy_visitor w' conn ops
      | (Ready (Inr True), w') \<Rightarrow> copy_visitor w' conn ops
      | _ \<Rightarrow> ([], conn, True))"
| "copy_visitor w conn (TunnelBreaks # ops) = ([], conn, True)"

text \<open>The polls of the time-out wrapper in a run, and runs in which nothing fails or times out.\<close>

fun polls_of :: "copy_op list \<Rightarrow> (io_method \<times> nat \<times> unit poll) list" where
  "polls_of [] = []"
| "polls_of (TryRead now r # ops) =
     (PollRead, now, if r = None then PollPending else Ready ()) # polls_of ops"
| "polls_of (TryWrite m now inner # ops) =
     (m, now, if inner = PollPending then PollPending else Ready ()) # polls_of ops"
| "polls_of (TunnelBreaks # ops) = polls_of ops"

text \<open>A pending poll that comes before the idle time has passed since the last activity.\<close>

definition in_time :: "nat \<Rightarrow> (io_method \<times> nat \<times> unit poll) list \<Rightarrow> bool" where
  "in_time idle ps \<longleftrightarrow>
     (\<forall>k < length ps. case (ps ! k, last_activity (take (Suc k) ps)) of
        ((m, now, PollPending), Some t) \<Rightarrow> now < t + idle | _ \<Rightarrow> True)"

definition undisturbed :: "nat \<Rightarrow> copy_op list \<Rightarrow> bool" where
  "undisturbed idle ops \<longleftrightarrow>
     TunnelBreaks \<notin> set ops \<and> (\<forall>m now. TryWrite m now (Ready False) \<notin> set ops) \<and> in_time idle (polls_of ops)"

lemma copy_visitor_bytes:
  "copy_visitor w conn ops = (bs, rest, failed) \<Longrightarrow> bs @ bytes_of rest = bytes_of conn"
proof (induction w conn ops arbitrary: bs rest failed rule: copy_visitor.induct)
  case (3 w conn now n ops)
  show ?case
  proof (cases conn)
    case Nil
    with 3 show ?thesis by (auto simp: poll_read_def split: prod.splits)
  next
    case (Cons e evs)
    with 3 show ?thesis
      by (cases e) (auto simp: poll_read_def split: prod.splits if_splits)
  qed
next
  case (4 w conn m now inner ops)
  then show ?case by (auto split: prod.splits poll.splits sum.splits bool.splits if_splits)
qed (auto split: prod.splits poll.splits)
section \<open>The client's end\<close>

text \<open>One stream: the length, the address, and the rest for the TLS acceptor. Every failure panics.\<close>

definition accept_stream :: "('addr, 'h) tunnel_ext \<Rightarrow> bytes \<Rightarrow> (string, 'addr \<times> bytes) outcome" where
  "accept_stream ext bs =
     (case bs of
        [] \<Rightarrow> Panic
      | l # rest \<Rightarrow>
          if length rest < unat l then Panic
          else (case decode_addr ext (take (unat l) rest) of
                  None \<Rightarrow> Panic
                | Some addr \<Rightarrow> Ok (addr, drop (unat l) rest)))"

text \<open>The accept loop hands each stream to a task of its own; a panic ends the loop.\<close>

fun serve_conn :: "('addr, 'h) tunnel_ext \<Rightarrow> bytes list \<Rightarrow> ('addr \<times> bytes) list" where
  "serve_conn ext [] = []"
| "serve_conn ext (bs # streams) =
     (case accept_stream ext bs of Ok r \<Rightarrow> r # serve_conn ext streams | _ \<Rightarrow> [])"

text \<open>The address codec: addresses have at most 255 bytes and are decoded to themselves.\<close>

definition addr_codec_ok :: "('addr, 'h) tunnel_ext \<Rightarrow> bool" where
  "addr_codec_ok ext \<longleftrightarrow>
     (\<forall>a. length (encode_addr ext a) \<le> 255 \<and> decode_addr ext (encode_addr ext a) = Some a)"


lemma pending_in_time:
  assumes "in_time idle (ps @ (m, now, PollPending) # qs)"
  shows "poll_timeout now (arm now (after_polls ps (wrapper_new idle))) = PollPending"
proof -
  have "case last_activity (ps @ [(m, now, PollPending :: unit poll)]) of Some t \<Rightarrow> now < t + idle | None \<Rightarrow> True"
    using assms unfolding in_time_def by (auto dest: spec [of _ "length ps"])
  moreover have "last_activity (ps @ [(m, now, PollPending :: unit poll)]) =
      (case last_activity ps of Some t \<Rightarrow> Some t | None \<Rightarrow> Some now)"
    by (cases ps) (auto simp: last_activity_def split: list.split)
  ultimately show ?thesis
    by (auto simp: after_polls_timeout arm_def poll_timeout_def split: option.splits)
qed

lemma after_polls_snoc:
  "after_polls (ps @ [(m, now, inner)]) w =
     (case inner of Ready x \<Rightarrow> reset now (after_polls ps w) | PollPending \<Rightarrow> arm now (after_polls ps w))"
  by (simp add: after_polls_def poll_method_eq poll_read_def split: poll.split)

lemma poll_method_simps [simp]:
  "poll_method m now (Ready x) w = (Ready (Inr x), reset now w)"
  "poll_method m now PollPending w = (poll_timeout now (arm now w), arm now w)"
  by (simp_all add: poll_method_eq poll_read_def)

lemma poll_read_simps [simp]:
  "poll_read now (Ready x) w = (Ready (Inr x), reset now w)"
  "poll_read now PollPending w = (poll_timeout now (arm now w), arm now w)"
  by (simp_all add: poll_read_def)

lemma read_conn_no_fail:
  "ReadFails \<notin> set conn \<Longrightarrow> \<exists>d conn'. read_conn n conn = (Data d, conn') \<and> ReadFails \<notin> set conn'"
  by (cases "(n, conn)" rule: read_conn.cases) auto

lemma undisturbed_copies:
  assumes "in_time idle (ps @ polls_of ops)" and "TunnelBreaks \<notin> set ops"
    and "\<forall>m now. TryWrite m now (Ready False) \<notin> set ops" and "ReadFails \<notin> set conn"
  shows "\<not> snd (snd (copy_visitor (after_polls ps (wrapper_new idle)) conn ops))"
  using assms
proof (induction ops arbitrary: ps conn)
  case (Cons op ops)
  have next_op: "\<not> snd (snd (copy_visitor (after_polls (ps @ [e]) (wrapper_new idle)) conn' ops))"
    if "polls_of (op # ops) = e # polls_of ops" and "ReadFails \<notin> set conn'" for e conn'
    using Cons.IH [of "ps @ [e]" conn'] Cons.prems that by simp
  show ?case
  proof (cases op)
    case (TryRead now r)
    show ?thesis
    proof (cases r)
      case None
      with TryRead Cons.prems(1) have "poll_timeout now (arm now (after_polls ps (wrapper_new idle))) =
          (PollPending :: (io_error + read_event) poll)"
        by (intro pending_in_time) simp
      with None TryRead Cons.prems(4) next_op [of "(PollRead, now, PollPending)" conn] show ?thesis by (simp add: after_polls_snoc)
    next
      case (Some n)
      obtain d conn' where rd: "read_conn n conn = (Data d, conn')" "ReadFails \<notin> set conn'"
        using read_conn_no_fail Cons.prems(4) by blast
      with Some TryRead next_op [of "(PollRead, now, Ready ())" conn'] show ?thesis by (simp add: after_polls_snoc prod.case_eq_if)
    qed
  next
    case (TryWrite m now inner)
    show ?thesis
    proof (cases inner)
      case (Ready x)
      with TryWrite Cons.prems have "x" by auto
      with Ready TryWrite Cons.prems(4) next_op [of "(m, now, Ready ())" conn] show ?thesis by (simp add: after_polls_snoc)
    next
      case PollPending
      with TryWrite Cons.prems(1) have "poll_timeout now (arm now (after_polls ps (wrapper_new idle))) =
          (PollPending :: (io_error + bool) poll)"
        by (intro pending_in_time) simp
      with PollPending TryWrite Cons.prems(4) next_op [of "(m, now, PollPending)" conn] show ?thesis by (simp add: after_polls_snoc)
    qed
  qed (use Cons.prems(2) in auto)
qed simp

section \<open>A visitor's connection on the server\<close>

text \<open>
  What the network does during a visit: whether the second for the hello passes, whether the stream to
  the client opens and takes the address, the copying, and how many of the last bytes read are lost if
  the copying ends with an error (the ones still in its buffer).
\<close>

record visit =
  late :: bool
  stream_opens :: bool
  address_sent :: bool
  copy_ops :: "copy_op list"
  copy_lost :: nat

text \<open>
  What the client finds on a new stream: the length of the address, the address, the bytes copied; the
  result of the copying is ignored. The visitor's connection gets an idle time-out of 15 seconds.
\<close>

definition tunnel_stream ::
  "('addr, 'h) tunnel_ext \<Rightarrow> 'addr \<Rightarrow> 'h ParsedHello \<Rightarrow> visit \<Rightarrow> (string, bytes) outcome"
where
  "tunnel_stream ext addr p v =
     (let enc = encode_addr ext addr in
      if \<not> stream_opens v then Err ''open_bi''
      else if length enc > 255 then Err ''wtf''
      else if \<not> address_sent v then Err ''write''
      else (case copy_visitor (wrapper_new 15) (unread_conn p) (copy_ops v) of (bs, rest, failed) \<Rightarrow>
        Ok (word_of_nat (length enc) # enc @
          (if failed then take (length bs - copy_lost v) bs else bs))))"

datatype delivery = ToWeb "read_event list" | ToClient nat bytes

text \<open>
  A visitor's connection: the hello is read within a second or given up (a hello that is never decided
  is always given up), then routed. The web server receives the connection as it is.
\<close>

definition handle_visitor ::
  "('addr, 'h) tunnel_ext \<Rightarrow> string \<Rightarrow> hub \<Rightarrow> 'addr \<Rightarrow> read_event list \<Rightarrow> visit \<Rightarrow> (string, delivery) outcome"
where
  "handle_visitor ext hostname s addr evs v =
     (case parse_hello (accept_hello ext) evs [] of
        None \<Rightarrow> Err ''deadline''
      | Some (Err e) \<Rightarrow> Err e
      | Some Panic \<Rightarrow> Panic
      | Some (Ok p) \<Rightarrow>
          if late v then Err ''deadline''
          else (case route_visitor hostname s (hello_server_name ext (parsed_hello p)) of
                  Ok None \<Rightarrow> Ok (ToWeb (unread_conn p))
                | Ok (Some c) \<Rightarrow>
                    (case tunnel_stream ext addr p v of
                       Ok bs \<Rightarrow> Ok (ToClient c bs) | Err e \<Rightarrow> Err e | Panic \<Rightarrow> Panic)
                | Err e \<Rightarrow> Err e
                | Panic \<Rightarrow> Panic))"

lemma accept_tunnel_stream:
  assumes "addr_codec_ok ext" and "stream_opens v" and "address_sent v"
    and "copy_visitor (wrapper_new 15) (unread_conn p) (copy_ops v) = (bs, rest, failed)"
  shows "\<exists>st received. tunnel_stream ext addr p v = Ok st \<and> accept_stream ext st = Ok (addr, received) \<and>
    prefix received bs \<and> (\<not> failed \<longrightarrow> received = bs)"
proof -
  have len: "length (encode_addr ext addr) \<le> 255" and dec: "decode_addr ext (encode_addr ext addr) = Some addr"
    using assms by (auto simp: addr_codec_ok_def)
  have "unat (word_of_nat (length (encode_addr ext addr)) :: u8) = length (encode_addr ext addr)"
    using len by (simp add: unsigned_of_nat take_bit_nat_eq_self)
  with len dec assms show ?thesis
    by (simp add: tunnel_stream_def accept_stream_def Let_def take_is_prefix)
qed

text \<open>
  C22. A visitor whose hello names a domain with an open connection is delivered to that connection:
  whatever the network does while the bytes are copied, the client at its end obtains the visitor's
  address and a prefix of the bytes the visitor sent before its first failing read, the hello first;
  streams that the server made before do not get in the way. The client obtains all that was read if
  the copying did not end with an error, which can only be a failing operation or 15 seconds without
  activity of the visitor's connection, and so all the visitor sent once nothing is left to read. If
  the hello names the server's own host name, the web server obtains exactly these bytes to read.
\<close>

theorem visitor_bytes_reach_client:
  assumes "hub_reach ext (empty_hub db) s" and "db_wf db" and "addr_codec_ok ext"
    and "parse_hello (accept_hello ext) evs [] = Some (Ok p)"
    and "hello_server_name ext (parsed_hello p) = Some d"
    and "(c, d) \<in> waiting s" and "c \<notin> closed s"
    and "list_all (\<lambda>b. is_ok (accept_stream ext b)) earlier"
    and "\<not> late v" and "stream_opens v" and "address_sent v"
    and "copy_visitor (wrapper_new 15) (unread_conn p) (copy_ops v) = (bs, rest, failed)"
  shows "bytes_of (unread_conn p) = bytes_of evs \<and>
    (if d = hostname then handle_visitor ext hostname s addr evs v = Ok (ToWeb (unread_conn p))
     else \<exists>st received. handle_visitor ext hostname s addr evs v = Ok (ToClient c st) \<and>
       serve_conn ext (earlier @ [st]) = serve_conn ext earlier @ [(addr, received)] \<and>
       prefix received (bytes_of evs) \<and>
       (\<not> failed \<longrightarrow> received @ bytes_of rest = bytes_of evs) \<and>
       (undisturbed 15 (copy_ops v) \<and> ReadFails \<notin> set (unread p) \<longrightarrow> \<not> failed))"
proof -
  have bytes: "bytes_of (unread_conn p) = bytes_of evs"
    using parse_hello_keeps [OF assms(4)] by (simp add: unread_conn_def)
  have read: "bs @ bytes_of rest = bytes_of evs"
    using copy_visitor_bytes [OF assms(12)] bytes by simp
  have calm: "\<not> failed" if "undisturbed 15 (copy_ops v)" "ReadFails \<notin> set (unread p)"
    using undisturbed_copies [of 15 "[]" "copy_ops v" "unread_conn p"] that assms(12)
    by (simp add: undisturbed_def unread_conn_def after_polls_def)
  have inv: "hub_inv s" using hub_reach_inv [OF assms(1,2)] by blast
  with assms(6,7) have conn: "conns s d = Some c" by (auto simp: hub_inv_def)
  then have route: "route_visitor hostname s (Some d) = Ok (if d = hostname then None else Some c)"
    by (simp add: route_visitor_def sni_handle_def tunnel_lookup_def)
  obtain st received where st: "tunnel_stream ext addr p v = Ok st" "accept_stream ext st = Ok (addr, received)"
    "prefix received bs" "\<not> failed \<longrightarrow> received = bs"
    using accept_tunnel_stream [OF assms(3,10,11,12)] by metis
  have "serve_conn ext (es @ [st]) = serve_conn ext es @ [(addr, received)]"
    if "list_all (\<lambda>b. is_ok (accept_stream ext b)) es" for es
    using that st(2) by (induction es) (auto simp: is_ok_def split: outcome.splits)
  moreover have "prefix received (bytes_of evs)"
    using st(3) read by (metis prefixI prefix_order.trans)
  ultimately show ?thesis
    using assms(4,5,8,9) route st(1,4) bytes read calm
    by (cases "d = hostname") (auto simp: handle_visitor_def)
qed

section \<open>A concrete visitor\<close>

text \<open>
  Two visits that send four bytes and three more: in the first nothing is disturbed, in the second
  the visitor pauses for 15 seconds after the fourth byte.
\<close>

definition calm_visit :: visit where
  "calm_visit = \<lparr>late = False, stream_opens = True, address_sent = True,
     copy_ops = [TryRead 0 (Some 8192), TryRead 1 None, TryWrite PollWrite 2 (Ready True),
       TryRead 16 None, TryRead 16 (Some 8192), TryRead 17 (Some 8192)], copy_lost = 0\<rparr>"

definition idle_visit :: visit where
  "idle_visit = \<lparr>late = False, stream_opens = True, address_sent = True,
     copy_ops = [TryRead 0 (Some 8192), TryRead 1 None, TryRead 15 None,
       TryRead 16 (Some 8192), TryRead 17 (Some 8192)], copy_lost = 1\<rparr>"

lemma visitor_bytes_reach_client_witness:
  "(\<exists>bs. handle_visitor sample_tunnel ''tunnel.example.com'' reconnected_hub 9
        [Data [1, 2], Data [3, 4], Data [5, 6, 7]] calm_visit = Ok (ToClient 2 bs) \<and>
      serve_conn sample_tunnel ([[1, 5, 22]] @ [bs]) = [(5, [22]), (9, [1, 2, 3, 4, 5, 6, 7])]) \<and>
   (\<exists>bs received. handle_visitor sample_tunnel ''tunnel.example.com'' reconnected_hub 9
        [Data [1, 2], Data [3, 4], Data [5, 6, 7]] idle_visit = Ok (ToClient 2 bs) \<and>
      serve_conn sample_tunnel ([[1, 5, 22]] @ [bs]) = [(5, [22]), (9, received)] \<and>
      prefix received [1, 2, 3, 4, 5, 6, 7])"
proof -
  let ?p = "\<lparr>parsed_hello = (), buffered = [1, 2, 3, 4], unread = [Data [5, 6, 7]]\<rparr>"
  have wf: "db_wf sample_dns_db" by code_simp
  have codec: "addr_codec_ok sample_tunnel" by (simp add: addr_codec_ok_def sample_tunnel_def)
  have hello: "parse_hello (accept_hello sample_tunnel) [Data [1, 2], Data [3, 4], Data [5, 6, 7]] [] =
      Some (Ok ?p)"
    by (simp add: parse_hello_Data sample_tunnel_def)
  have open_conn: "(2, ''x.example.com'') \<in> waiting reconnected_hub" "2 \<notin> closed reconnected_hub"
    by (simp_all add: reconnected_hub_def register_conn_def cleanup_conn_def empty_hub_def)
  have earlier: "list_all (\<lambda>b. is_ok (accept_stream sample_tunnel b)) [[1, 5, 22]]"
    "serve_conn sample_tunnel [[1, 5, 22]] = [(5, [22])]"
    by code_simp+
  have name: "hello_server_name sample_tunnel (parsed_hello ?p) = Some ''x.example.com''"
    by (simp add: sample_tunnel_def)
  note visitor = visitor_bytes_reach_client [OF reconnected_reach wf codec hello name open_conn earlier(1),
      of _ _ _ _ "''tunnel.example.com''" 9]
  have flags: "\<not> late calm_visit" "stream_opens calm_visit" "address_sent calm_visit"
    "\<not> late idle_visit" "stream_opens idle_visit" "address_sent idle_visit"
    by (simp_all add: calm_visit_def idle_visit_def)
  have copy: "copy_visitor (wrapper_new 15) (unread_conn ?p) (copy_ops calm_visit) = ([1, 2, 3, 4, 5, 6, 7], [], False)"
    "copy_visitor (wrapper_new 15) (unread_conn ?p) (copy_ops idle_visit) = ([1, 2, 3, 4], [Data [5, 6, 7]], True)"
    by code_simp+
  show ?thesis
    using visitor [OF flags(1-3) copy(1)] visitor [OF flags(4-6) copy(2)] earlier(2)
    by (simp del: serve_conn.simps) blast
qed

end
