(* ===== verification/TunnelCert.thy ===== *)
theory TunnelCert
  imports TunnelStream "HOL-Library.List_Lexorder" "HOL-Library.Char_ord"
begin

text \<open>
  Certificates, \<^verbatim>\<open>tunnel/src/cert.rs\<close>: the files in \<^verbatim>\<open>acme/\<close>, ordering a certificate with DNS challenges,
  the renewal times, the maintainer and the resolver that TLS asks for the key. The ACME client, PEM and
  JSON are parameters, and what an ACME server answers during an order is an argument, as is whether an
  operation on a file fails. Writing a file is two states, empty and written, so that an interruption is
  a state of a list. Shown: a start after a
  completed order loads it, and after an interrupted renewal can fail for good; the resolver always serves
  the loaded certificate; an owner may answer the challenges of its domains.
\<close>

section \<open>Files\<close>

type_synonym files = "string \<Rightarrow> string option"

text \<open>\<^verbatim>\<open>Path::join\<close> with a relative path.\<close>

definition join_path :: "string \<Rightarrow> string \<Rightarrow> string" where
  "join_path base p = (if base = '''' \<or> suffix ''/'' base then base @ p else base @ ''/'' @ p)"

definition cert_file_name :: "string \<Rightarrow> string \<Rightarrow> string" where
  "cert_file_name base name = join_path base (''acme/'' @ name @ ''.pem'')"

definition key_file_name :: "string \<Rightarrow> string \<Rightarrow> string" where
  "key_file_name base name = join_path base (''acme/'' @ name @ ''-key.pem'')"

definition info_file_name :: "string \<Rightarrow> string \<Rightarrow> string" where
  "info_file_name base name = join_path base (''acme/'' @ name @ ''-info.json'')"

record CertificateInfo =
  renew_at :: int
  update_renew_info_at :: int

record LoadedCertificate =
  cert_info :: CertificateInfo
  cert :: string
  key :: string

text \<open>
  Outside code: the JSON of the information file, the certified key that the TLS library makes of a PEM
  chain and key (it refuses a key that does not match), the printed identifier, whether a chain
  has an identifier to be replaced by, the renewal window that the ACME server suggests, and the account.
\<close>

record 'ck cert_ext =
  info_to_json :: "CertificateInfo \<Rightarrow> string"
  info_from_json :: "string \<Rightarrow> CertificateInfo option"
  certified_key :: "string \<Rightarrow> string \<Rightarrow> 'ck option"
  debug_identifier :: "string \<Rightarrow> string"
  certificate_id :: "string \<Rightarrow> bool"
  renewal_window :: "string \<Rightarrow> (int \<times> int) option"
  from_credentials :: "string \<Rightarrow> bool"
  credentials_json :: "string \<Rightarrow> bool"
  create_account :: "string option"

definition load_certs ::
  "'ck cert_ext \<Rightarrow> string \<Rightarrow> string \<Rightarrow> files \<Rightarrow> (string, LoadedCertificate option) outcome"
where
  "load_certs ext base name fs =
     (case fs (info_file_name base name) of
        None \<Rightarrow> Ok None
      | Some text \<Rightarrow>
          (case info_from_json ext text of
             None \<Rightarrow> Err ''json''
           | Some i \<Rightarrow>
               (case (fs (cert_file_name base name), fs (key_file_name base name)) of
                  (Some c, Some k) \<Rightarrow> Ok (Some \<lparr>cert_info = i, cert = c, key = k\<rparr>)
                | _ \<Rightarrow> Ok None)))"

text \<open>The states a sequence of file writes goes through.\<close>

fun write_files :: "(string \<times> string) list \<Rightarrow> files \<Rightarrow> files list" where
  "write_files [] fs = []"
| "write_files ((p, x) # ws) fs = fs(p \<mapsto> '''') # fs(p \<mapsto> x) # write_files ws (fs(p \<mapsto> x))"

text \<open>
  The states when an operation fails: \<open>k\<close> operations (opening a file, which empties it, and writing it)
  succeed, and a failing write leaves the first \<open>n\<close> characters. If all succeed nothing is missing.
\<close>

fun write_until :: "nat \<Rightarrow> nat \<Rightarrow> (string \<times> string) list \<Rightarrow> files \<Rightarrow> files list" where
  "write_until k n [] fs = []"
| "write_until 0 n (w # ws) fs = []"
| "write_until (Suc 0) n ((p, x) # ws) fs = [fs(p \<mapsto> ''''), fs(p \<mapsto> take n x)]"
| "write_until (Suc (Suc k)) n ((p, x) # ws) fs =
     fs(p \<mapsto> '''') # fs(p \<mapsto> x) # write_until k n ws (fs(p \<mapsto> x))"

text \<open>A sequence of writes, on a disk where all goes well or one of its operations fails.\<close>

type_synonym disk_fault = "(nat \<times> nat) option"

definition try_writes :: "disk_fault \<Rightarrow> (string \<times> string) list \<Rightarrow> files \<Rightarrow> (string, unit) outcome \<times> files list" where
  "try_writes fault ws fs =
     (case fault of
        None \<Rightarrow> (Ok (), write_files ws fs) | Some (k, n) \<Rightarrow> (Err ''io'', write_until k n ws fs))"

text \<open>
  The three files, in their order; the last fault is that the directory cannot be synchronised after
  all writes.
\<close>

definition cert_writes :: "'ck cert_ext \<Rightarrow> string \<Rightarrow> string \<Rightarrow> LoadedCertificate \<Rightarrow> (string \<times> string) list" where
  "cert_writes ext base name c =
     [(info_file_name base name, info_to_json ext (cert_info c)),
      (cert_file_name base name, cert c), (key_file_name base name, key c)]"

definition write_certs ::
  "'ck cert_ext \<Rightarrow> string \<Rightarrow> string \<Rightarrow> LoadedCertificate \<Rightarrow> disk_fault \<Rightarrow> files \<Rightarrow>
   (string, unit) outcome \<times> files list"
where
  "write_certs ext base name c fault fs = try_writes fault (cert_writes ext base name c) fs"

section \<open>Resolver\<close>

record 'ck UpdatingCertResolver =
  resolver_key :: "'ck option"

definition update_key ::
  "'ck cert_ext \<Rightarrow> LoadedCertificate \<Rightarrow> 'ck UpdatingCertResolver \<Rightarrow> (string, unit) outcome \<times> 'ck UpdatingCertResolver"
where
  "update_key ext c r =
     (case certified_key ext (cert c) (key c) of
        None \<Rightarrow> (Err ''key'', r) | Some ck \<Rightarrow> (Ok (), r\<lparr>resolver_key := Some ck\<rparr>))"

definition resolver_new :: "'ck cert_ext \<Rightarrow> LoadedCertificate \<Rightarrow> (string, 'ck UpdatingCertResolver) outcome" where
  "resolver_new ext c =
     (case update_key ext c \<lparr>resolver_key = None\<rparr> of
        (Ok _, r) \<Rightarrow> Ok r | (Err e, r) \<Rightarrow> Err e | (Panic, r) \<Rightarrow> Panic)"

definition resolve :: "'ck UpdatingCertResolver \<Rightarrow> 'ck option" where
  "resolve r = resolver_key r"

section \<open>Ordering\<close>

datatype AuthorizationStatus = AuthPending | AuthValid | AuthOther

text \<open>One authorization of an order: its status, whether it offers a DNS challenge, the DNS name (none
  for other identifiers), the value to publish, and whether the server accepts that it is ready.\<close>

record authorization =
  auth_status :: AuthorizationStatus
  has_dns01 :: bool
  auth_dns :: "string option"
  dns_value :: string
  ready_accepted :: bool

text \<open>
  The challenges are answered in order. The DNS client is an operation on a state: it says whether the
  record was written.
\<close>

type_synonym 's dns_client = "string \<Rightarrow> string \<Rightarrow> 's \<Rightarrow> bool \<times> 's"

fun run_authorizations ::
  "'s dns_client \<Rightarrow> authorization option list \<Rightarrow> 's \<Rightarrow> (string, unit) outcome \<times> 's"
where
  "run_authorizations add_txt [] s = (Ok (), s)"
| "run_authorizations add_txt (None # as) s = (Err ''authorization'', s)"
| "run_authorizations add_txt (Some a # as) s =
     (case auth_status a of
        AuthValid \<Rightarrow> run_authorizations add_txt as s
      | AuthOther \<Rightarrow> (Panic, s)
      | AuthPending \<Rightarrow>
          if \<not> has_dns01 a then (Err ''no dns01 challenge found'', s)
          else (case auth_dns a of
                  None \<Rightarrow> (Panic, s)
                | Some d \<Rightarrow>
                    (case add_txt (''_acme-challenge.'' @ d @ ''.'') (dns_value a) s of
                       (False, s) \<Rightarrow> (Err ''dns'', s)
                     | (True, s) \<Rightarrow>
                         if \<not> ready_accepted a then (Err ''ready'', s) else run_authorizations add_txt as s)))"

text \<open>
  What the ACME server answers after the challenges, and what the disk does when the account and when
  the certificate are written; \<open>certificates\<close> are the answers to polling, \<open>None\<close> an error and \<open>Some None\<close>
  not yet.
\<close>

record order_answers =
  order_accepted :: bool
  authorizations :: "authorization option list"
  order_ready :: bool
  private_key :: "string option"
  certificates :: "string option option list"
  cert_fault :: disk_fault
  account_fault :: disk_fault

text \<open>Polling goes on while the certificate is not there; without a further answer it is still waiting.\<close>

fun poll_certificate :: "string option option list \<Rightarrow> (string, string) outcome option" where
  "poll_certificate [] = None"
| "poll_certificate (None # xs) = Some (Err ''certificate'')"
| "poll_certificate (Some (Some c) # xs) = Some (Ok c)"
| "poll_certificate (Some None # xs) = poll_certificate xs"

text \<open>\<^verbatim>\<open>random_range(0..diff)\<close> panics on an empty range; \<open>pick\<close> is the random choice.\<close>

definition get_renewal_info ::
  "'ck cert_ext \<Rightarrow> string \<Rightarrow> int \<Rightarrow> int \<Rightarrow> (string, CertificateInfo) outcome"
where
  "get_renewal_info ext c now pick =
     (if \<not> certificate_id ext c then Err ''certificate id''
      else case renewal_window ext c of
        None \<Rightarrow> Err ''renewal info''
      | Some (s, e) \<Rightarrow>
          if e - s \<le> 0 then Panic
          else Ok \<lparr>renew_at = s + pick mod (e - s), update_renew_info_at = now + 60 * 60\<rparr>)"

text \<open>An order: the outcome (\<open>None\<close> while the certificate is awaited), the state of the DNS client, and
  the states of the files.\<close>

definition ordercert ::
  "'ck cert_ext \<Rightarrow> 's dns_client \<Rightarrow> order_answers \<Rightarrow> string \<Rightarrow> string \<Rightarrow>
   LoadedCertificate option \<Rightarrow> int \<Rightarrow> int \<Rightarrow> files \<Rightarrow> 's \<Rightarrow>
   (string, LoadedCertificate) outcome option \<times> 's \<times> files list"
where
  "ordercert ext add_txt ans base name previous now pick fs s =
     (if \<not> (case previous of Some p \<Rightarrow> certificate_id ext (cert p) | None \<Rightarrow> True)
      then (Some (Err ''certificate id''), s, [])
      else if \<not> order_accepted ans then (Some (Err ''order''), s, [])
      else case run_authorizations add_txt (authorizations ans) s of
        (Err e, s) \<Rightarrow> (Some (Err e), s, [])
      | (Panic, s) \<Rightarrow> (Some Panic, s, [])
      | (Ok _, s) \<Rightarrow>
          if \<not> order_ready ans then (Some (Err ''unexpected order status''), s, [])
          else (case private_key ans of
            None \<Rightarrow> (Some (Err ''finalize''), s, [])
          | Some k \<Rightarrow>
              (case poll_certificate (certificates ans) of
                 None \<Rightarrow> (None, s, [])
               | Some (Err e) \<Rightarrow> (Some (Err e), s, [])
               | Some Panic \<Rightarrow> (Some Panic, s, [])
               | Some (Ok chain) \<Rightarrow>
                   (case get_renewal_info ext chain now pick of
                      Err e \<Rightarrow> (Some (Err e), s, [])
                    | Panic \<Rightarrow> (Some Panic, s, [])
                    | Ok i \<Rightarrow>
                        let packed = \<lparr>cert_info = i, cert = chain, key = k\<rparr> in
                        (case write_certs ext base name packed (cert_fault ans) fs of
                           (Ok _, tr) \<Rightarrow> (Some (Ok packed), s, tr)
                         | (Err e, tr) \<Rightarrow> (Some (Err e), s, tr)
                         | (Panic, tr) \<Rightarrow> (Some Panic, s, tr))))))"

section \<open>Maintainer\<close>

definition credentials_path :: "string \<Rightarrow> string" where
  "credentials_path base = join_path base ''acme/credentials.json''"

definition getaccount ::
  "'ck cert_ext \<Rightarrow> string \<Rightarrow> disk_fault \<Rightarrow> files \<Rightarrow> (string, unit) outcome \<times> files"
where
  "getaccount ext base fault fs =
     (case fs (credentials_path base) of
        Some text \<Rightarrow>
          if \<not> credentials_json ext text then (Err ''reading ./acme/credentials.json'', fs)
          else if from_credentials ext text then (Ok (), fs) else (Err ''getting account'', fs)
      | None \<Rightarrow>
          (case create_account ext of
             None \<Rightarrow> (Err ''create'', fs)
           | Some text \<Rightarrow>
               (case try_writes fault [(credentials_path base, text)] fs of (r, tr) \<Rightarrow> (r, last (fs # tr)))))"

definition cert_name :: "'ck cert_ext \<Rightarrow> string list \<Rightarrow> string" where
  "cert_name ext ds = join_with (CHR ''-'') (map (debug_identifier ext) (sort ds))"

record 'ck CertMaintainer =
  loaded :: LoadedCertificate
  acceptor :: "'ck UpdatingCertResolver"
  cert_maintained :: string

text \<open>Start: load the certificate or order one, and give it to the resolver. The files are those left.\<close>

definition initialize ::
  "'ck cert_ext \<Rightarrow> 's dns_client \<Rightarrow> order_answers \<Rightarrow> string \<Rightarrow> string list \<Rightarrow> int \<Rightarrow> int \<Rightarrow> files \<Rightarrow> 's \<Rightarrow>
   (string, 'ck CertMaintainer) outcome option \<times> 's \<times> files"
where
  "initialize ext add_txt ans base ds now pick fs s =
     (case getaccount ext base (account_fault ans) fs of
        (Err e, fs) \<Rightarrow> (Some (Err e), s, fs)
      | (Panic, fs) \<Rightarrow> (Some Panic, s, fs)
      | (Ok _, fs) \<Rightarrow>
          (let name = cert_name ext ds;
               start = (\<lambda>c. case resolver_new ext c of
                  Ok r \<Rightarrow> Ok \<lparr>loaded = c, acceptor = r, cert_maintained = name\<rparr>
                | Err e \<Rightarrow> Err e | Panic \<Rightarrow> Panic)
           in (case load_certs ext base name fs of
                 Err e \<Rightarrow> (Some (Err e), s, fs)
               | Panic \<Rightarrow> (Some Panic, s, fs)
               | Ok (Some c) \<Rightarrow> (Some (start c), s, fs)
               | Ok None \<Rightarrow>
                   (case ordercert ext add_txt ans base name None now pick fs s of
                      (Some (Ok c), s, tr) \<Rightarrow> (Some (start c), s, last (fs # tr))
                    | (Some (Err e), s, tr) \<Rightarrow> (Some (Err e), s, last (fs # tr))
                    | (Some Panic, s, tr) \<Rightarrow> (Some Panic, s, last (fs # tr))
                    | (None, s, tr) \<Rightarrow> (None, s, last (fs # tr))))))"

text \<open>
  One turn of the endless loop of \<^verbatim>\<open>maintain_certs\<close>, taken when a time is reached: at \<open>renew_at\<close> a new
  certificate is ordered and swapped in, at \<open>update_renew_info_at\<close> the renewal information is asked for
  again; if both are reached the choice is free (\<open>prefer_renew\<close>). Before both the loop sleeps. The outcome
  is \<open>None\<close> when an order waits for its certificate, and an error ends the loop.
\<close>

record wakeup =
  clock :: int
  random_pick :: int
  prefer_renew :: bool
  acme_answers :: order_answers

definition refresh_info ::
  "'ck cert_ext \<Rightarrow> wakeup \<Rightarrow> 'ck CertMaintainer \<Rightarrow> (string, unit) outcome \<times> 'ck CertMaintainer"
where
  "refresh_info ext t m =
     (case get_renewal_info ext (cert (loaded m)) (clock t) (random_pick t) of
        Ok i \<Rightarrow> (Ok (), m\<lparr>loaded := (loaded m)\<lparr>cert_info := i\<rparr>\<rparr>)
      | Err e \<Rightarrow> (Err e, m)
      | Panic \<Rightarrow> (Panic, m))"

definition renew ::
  "'ck cert_ext \<Rightarrow> 's dns_client \<Rightarrow> string \<Rightarrow> wakeup \<Rightarrow> 'ck CertMaintainer \<Rightarrow> files \<Rightarrow> 's \<Rightarrow>
   (string, unit) outcome option \<times> 'ck CertMaintainer \<times> files \<times> 's"
where
  "renew ext add_txt base t m fs s =
     (case ordercert ext add_txt (acme_answers t) base (cert_maintained m) (Some (loaded m))
        (clock t) (random_pick t) fs s of
        (None, s, tr) \<Rightarrow> (None, m, last (fs # tr), s)
      | (Some (Err e), s, tr) \<Rightarrow> (Some (Err e), m, last (fs # tr), s)
      | (Some Panic, s, tr) \<Rightarrow> (Some Panic, m, last (fs # tr), s)
      | (Some (Ok c), s, tr) \<Rightarrow>
          (case update_key ext c (acceptor m) of
             (Ok _, r) \<Rightarrow> (Some (Ok ()), m\<lparr>acceptor := r, loaded := c\<rparr>, last (fs # tr), s)
           | (Err e, r) \<Rightarrow> (Some (Err e), m\<lparr>acceptor := r\<rparr>, last (fs # tr), s)
           | (Panic, r) \<Rightarrow> (Some Panic, m\<lparr>acceptor := r\<rparr>, last (fs # tr), s)))"

definition maintain_step ::
  "'ck cert_ext \<Rightarrow> 's dns_client \<Rightarrow> string \<Rightarrow> wakeup \<Rightarrow> 'ck CertMaintainer \<Rightarrow> files \<Rightarrow> 's \<Rightarrow>
   (string, unit) outcome option \<times> 'ck CertMaintainer \<times> files \<times> 's"
where
  "maintain_step ext add_txt base t m fs s =
     (let renew_due = renew_at (cert_info (loaded m)) \<le> clock t;
          refresh_due = update_renew_info_at (cert_info (loaded m)) \<le> clock t
      in if renew_due \<and> (prefer_renew t \<or> \<not> refresh_due) then renew ext add_txt base t m fs s
         else if refresh_due then (case refresh_info ext t m of (r, m) \<Rightarrow> (Some r, m, fs, s))
         else (Some (Ok ()), m, fs, s))"

fun maintain_certs ::
  "'ck cert_ext \<Rightarrow> 's dns_client \<Rightarrow> string \<Rightarrow> wakeup list \<Rightarrow> 'ck CertMaintainer \<Rightarrow> files \<Rightarrow> 's \<Rightarrow>
   (string, unit) outcome option \<times> 'ck CertMaintainer \<times> files \<times> 's"
where
  "maintain_certs ext add_txt base [] m fs s = (Some (Ok ()), m, fs, s)"
| "maintain_certs ext add_txt base (t # ts) m fs s =
     (case maintain_step ext add_txt base t m fs s of
        (Some (Ok _), m, fs, s) \<Rightarrow> maintain_certs ext add_txt base ts m fs s
      | r \<Rightarrow> r)"

section \<open>Starting after a renewal\<close>

lemma join_path_inj [simp]: "join_path base p = join_path base q \<longleftrightarrow> p = q"
  by (simp add: join_path_def)

lemma end_differs: "take n (rev x) \<noteq> take n (rev y) \<Longrightarrow> x \<noteq> y"
  by blast

lemma file_names_distinct [simp]:
  "info_file_name base name \<noteq> cert_file_name base name" "cert_file_name base name \<noteq> info_file_name base name"
  "info_file_name base name \<noteq> key_file_name base name" "key_file_name base name \<noteq> info_file_name base name"
  "cert_file_name base name \<noteq> key_file_name base name" "key_file_name base name \<noteq> cert_file_name base name"
proof -
  have "length (name @ ''.pem'') \<noteq> length (name @ ''-key.pem'')" by simp
  then have "name @ ''.pem'' \<noteq> name @ ''-key.pem''" by metis
  moreover have "name @ ''-info.json'' \<noteq> name @ ''.pem''" "name @ ''-info.json'' \<noteq> name @ ''-key.pem''"
    by simp_all
  ultimately show "info_file_name base name \<noteq> cert_file_name base name"
    "cert_file_name base name \<noteq> info_file_name base name"
    "info_file_name base name \<noteq> key_file_name base name" "key_file_name base name \<noteq> info_file_name base name"
    "cert_file_name base name \<noteq> key_file_name base name" "key_file_name base name \<noteq> cert_file_name base name"
    by (simp_all add: info_file_name_def cert_file_name_def key_file_name_def)
qed

lemma credentials_distinct [simp]:
  "info_file_name base name \<noteq> credentials_path base" "cert_file_name base name \<noteq> credentials_path base"
  "key_file_name base name \<noteq> credentials_path base"
proof -
  have "name @ ''-info.json'' \<noteq> ''credentials.json''" "name @ ''.pem'' \<noteq> ''credentials.json''"
    "name @ ''-key.pem'' \<noteq> ''credentials.json''"
    by (rule end_differs [where n = 6], simp)+
  then show "info_file_name base name \<noteq> credentials_path base"
    "cert_file_name base name \<noteq> credentials_path base" "key_file_name base name \<noteq> credentials_path base"
    by (simp_all add: info_file_name_def cert_file_name_def key_file_name_def credentials_path_def)
qed

definition account_ok :: "'ck cert_ext \<Rightarrow> string \<Rightarrow> files \<Rightarrow> bool" where
  "account_ok ext base fs \<longleftrightarrow>
     (case fs (credentials_path base) of
        Some text \<Rightarrow> credentials_json ext text \<and> from_credentials ext text | None \<Rightarrow> False)"

lemma getaccount_ok: "account_ok ext base fs \<Longrightarrow> getaccount ext base fault fs = (Ok (), fs)"
  by (auto simp: account_ok_def getaccount_def split: option.splits)

lemma initialize_loaded:
  assumes "account_ok ext base fs" and "load_certs ext base (cert_name ext ds) fs = Ok (Some c)"
  shows "initialize ext add_txt ans base ds now pick fs dns =
    (Some (case certified_key ext (cert c) (key c) of
        Some ck \<Rightarrow> Ok \<lparr>loaded = c, acceptor = \<lparr>resolver_key = Some ck\<rparr>, cert_maintained = cert_name ext ds\<rparr> | None \<Rightarrow> Err ''key''), dns, fs)"
  using assms
  by (simp add: initialize_def getaccount_ok resolver_new_def update_key_def Let_def split: option.split)

lemma initialize_unreadable:
  assumes "account_ok ext base fs" and "load_certs ext base (cert_name ext ds) fs = Err e"
  shows "initialize ext add_txt ans base ds now pick fs dns =
    (Some (Err e), dns, fs)"
  using assms by (simp add: initialize_def getaccount_ok Let_def)

text \<open>What is relied on of JSON: the information round trips and the empty file is not JSON.\<close>

definition info_codec_ok :: "'ck cert_ext \<Rightarrow> bool" where
  "info_codec_ok ext \<longleftrightarrow>
     (\<forall>i. info_from_json ext (info_to_json ext i) = Some i) \<and> info_from_json ext '''' = None"

lemma load_certs_cases:
  "load_certs ext base name fs = Ok (Some c) \<longleftrightarrow>
     (\<exists>text. fs (info_file_name base name) = Some text \<and> info_from_json ext text = Some (cert_info c)) \<and>
     fs (cert_file_name base name) = Some (cert c) \<and> fs (key_file_name base name) = Some (key c)"
  by (cases c) (auto simp: load_certs_def split: option.splits)

lemma write_files_states:
  "write_files (cert_writes ext base name c) fs =
    (let i = info_file_name base name; ce = cert_file_name base name; k = key_file_name base name;
         json = info_to_json ext (cert_info c)
     in [fs(i \<mapsto> ''''), fs(i \<mapsto> json), fs(i \<mapsto> json, ce \<mapsto> ''''), fs(i \<mapsto> json, ce \<mapsto> cert c),
         fs(i \<mapsto> json, ce \<mapsto> cert c, k \<mapsto> ''''), fs(i \<mapsto> json, ce \<mapsto> cert c, k \<mapsto> key c)])"
  by (simp add: cert_writes_def Let_def)

lemma write_files_other: "t \<in> set (write_files ws fs) \<Longrightarrow> p \<notin> fst ` set ws \<Longrightarrow> t p = fs p"
  by (induction ws fs rule: write_files.induct) auto

lemma write_until_other: "t \<in> set (write_until k n ws fs) \<Longrightarrow> p \<notin> fst ` set ws \<Longrightarrow> t p = fs p"
  by (induction k n ws fs rule: write_until.induct) auto

lemma try_writes_other:
  "try_writes fault ws fs = (r, tr) \<Longrightarrow> p \<notin> fst ` set ws \<Longrightarrow> last (fs # tr) p = fs p"
  by (auto simp: try_writes_def split: option.splits
      intro: write_files_other [OF last_in_set] write_until_other [OF last_in_set])

lemma cert_writes_account:
  "account_ok ext base fs \<Longrightarrow> t \<in> set (write_files (cert_writes ext base name c) fs) \<Longrightarrow> account_ok ext base t"
  using write_files_other [of t "cert_writes ext base name c" fs "credentials_path base"]
    credentials_distinct [of base name, THEN not_sym]
  by (simp add: cert_writes_def account_ok_def)

lemma load_written:
  assumes "info_codec_ok ext"
  shows "load_certs ext base name (last (write_files (cert_writes ext base name c) fs)) = Ok (Some c)"
  using assms by (simp add: load_certs_cases write_files_states Let_def info_codec_ok_def)

text \<open>
  C25. A renewal writes the information, the certificate and the key as three files. Once all are
  written, a start loads exactly the new certificate and serves its key. If the writing is interrupted
  after the information file was emptied, or after the new certificate was written and before the new
  key, every later start fails, with the files left as they are, although the old certificate was valid.
  The writing itself leaves such files, and ends with an error, when the information file is emptied and
  cannot be filled, or when the key file cannot be opened.
\<close>

theorem interrupted_renewal_blocks_start:
  assumes "info_codec_ok ext" and "account_ok ext base fs"
    and "load_certs ext base (cert_name ext ds) fs = Ok (Some c0)"
    and "certified_key ext (cert c1) (key c1) = Some ck" and "certified_key ext (cert c1) (key c0) = None"
    and "write_certs ext base (cert_name ext ds) c1 None fs = (Ok (), tr)"
  shows "initialize ext add_txt ans base ds now pick (last tr) dns =
    (Some (Ok \<lparr>loaded = c1, acceptor = \<lparr>resolver_key = Some ck\<rparr>, cert_maintained = cert_name ext ds\<rparr>), dns, last tr) \<and>
    initialize ext add_txt ans base ds now pick (tr ! 0) dns =
    (Some (Err ''json''), dns, tr ! 0) \<and>
    initialize ext add_txt ans base ds now pick (tr ! 3) dns =
    (Some (Err ''key''), dns, tr ! 3) \<and>
    write_certs ext base (cert_name ext ds) c1 (Some (1, 0)) fs = (Err ''io'', [tr ! 0, tr ! 0]) \<and>
    write_certs ext base (cert_name ext ds) c1 (Some (4, n)) fs = (Err ''io'', take 4 tr)"
proof -
  let ?n = "cert_name ext ds"
  have tr: "tr = write_files (cert_writes ext base ?n c1) fs"
    using assms(6) by (simp add: write_certs_def try_writes_def)
  have len: "length tr = 6" by (simp add: tr write_files_states Let_def)
  then have mem: "last tr \<in> set tr" "tr ! 0 \<in> set tr" "tr ! 3 \<in> set tr"
    by (auto intro!: last_in_set)
  then have acc: "account_ok ext base (last tr)" "account_ok ext base (tr ! 0)" "account_ok ext base (tr ! 3)"
    using cert_writes_account [OF assms(2)] by (simp_all add: tr)
  have "load_certs ext base ?n (last tr) = Ok (Some c1)"
    using load_written [OF assms(1)] by (simp add: tr)
  from initialize_loaded [OF acc(1) this] have 1: "initialize ext add_txt ans base ds now pick (last tr) dns =
    (Some (Ok \<lparr>loaded = c1, acceptor = \<lparr>resolver_key = Some ck\<rparr>, cert_maintained = cert_name ext ds\<rparr>), dns, last tr)"
    by (simp add: assms(4))
  have "load_certs ext base ?n (tr ! 0) = Err ''json''"
    using assms(1) by (simp add: tr write_files_states Let_def load_certs_def info_codec_ok_def)
  from initialize_unreadable [OF acc(2) this]
  have 2: "initialize ext add_txt ans base ds now pick (tr ! 0) dns =
    (Some (Err ''json''), dns, tr ! 0)" .
  have "load_certs ext base ?n (tr ! 3) = Ok (Some (c1\<lparr>key := key c0\<rparr>))"
    using assms(1,3) by (simp add: tr write_files_states Let_def load_certs_cases info_codec_ok_def)
  from initialize_loaded [OF acc(3) this]
  have 3: "initialize ext add_txt ans base ds now pick (tr ! 3) dns =
    (Some (Err ''key''), dns, tr ! 3)"
    by (simp add: assms(5))
  have "write_certs ext base ?n c1 (Some (1, 0)) fs = (Err ''io'', [tr ! 0, tr ! 0])"
    "write_certs ext base ?n c1 (Some (4, n)) fs = (Err ''io'', take 4 tr)"
    by (simp_all add: tr write_certs_def try_writes_def cert_writes_def eval_nat_numeral)
  with 1 2 3 show ?thesis by blast
qed

section \<open>Serving\<close>

definition serves_loaded :: "'ck cert_ext \<Rightarrow> 'ck CertMaintainer \<Rightarrow> bool" where
  "serves_loaded ext m \<longleftrightarrow>
     (\<exists>ck. certified_key ext (cert (loaded m)) (key (loaded m)) = Some ck \<and>
        acceptor m = \<lparr>resolver_key = Some ck\<rparr>)"

text \<open>The files of a maintainer: the account, and its certificate up to the renewal information.\<close>

definition stored_loaded :: "'ck cert_ext \<Rightarrow> string \<Rightarrow> 'ck CertMaintainer \<Rightarrow> files \<Rightarrow> bool" where
  "stored_loaded ext base m fs \<longleftrightarrow> account_ok ext base fs \<and>
     (\<exists>i. load_certs ext base (cert_maintained m) fs = Ok (Some ((loaded m)\<lparr>cert_info := i\<rparr>)))"

text \<open>What is relied on of the account: credentials that were just created are accepted later.\<close>

definition account_codec_ok :: "'ck cert_ext \<Rightarrow> bool" where
  "account_codec_ok ext \<longleftrightarrow>
     (case create_account ext of
        Some text \<Rightarrow> credentials_json ext text \<and> from_credentials ext text | None \<Rightarrow> True)"

lemma ordercert_files:
  "ordercert ext add_txt ans base name previous now pick fs s = (r, s', tr) \<Longrightarrow>
   (\<exists>c. r = Some (Ok c) \<and> tr = write_files (cert_writes ext base name c) fs) \<or>
   (\<forall>c. r \<noteq> Some (Ok c)) \<and>
     (tr = [] \<or> r = Some (Err ''io'') \<and> (\<exists>c k n. tr = write_until k n (cert_writes ext base name c) fs))"
  by (auto simp: ordercert_def write_certs_def try_writes_def Let_def
      split: if_splits option.splits outcome.splits prod.splits)

lemma written_stored:
  assumes "info_codec_ok ext" and "account_ok ext base fs"
    and "loaded m = c" and "cert_maintained m = name"
  shows "stored_loaded ext base m (last (fs # write_files (cert_writes ext base name c) fs))"
proof -
  let ?tr = "write_files (cert_writes ext base name c) fs"
  have "?tr \<noteq> []" by (simp add: write_files_states Let_def)
  moreover from this have "account_ok ext base (last ?tr)"
    using cert_writes_account [OF assms(2)] last_in_set by metis
  moreover have "c = c\<lparr>cert_info := cert_info c\<rparr>" by simp
  ultimately show ?thesis
    using load_written [OF assms(1), of base name c fs] assms(3,4)
    unfolding stored_loaded_def by (metis last_ConsR)
qed

lemma resolver_new_serves:
  "resolver_new ext c = Ok r \<Longrightarrow> serves_loaded ext \<lparr>loaded = c, acceptor = r, cert_maintained = n\<rparr>"
  by (auto simp: resolver_new_def update_key_def serves_loaded_def split: option.splits)

lemma getaccount_Ok:
  "account_codec_ok ext \<Longrightarrow> getaccount ext base fault fs = (Ok u, fs') \<Longrightarrow> account_ok ext base fs'"
  by (auto simp: getaccount_def account_ok_def account_codec_ok_def try_writes_def
      split: option.splits if_splits)

lemma initialize_stored:
  assumes "info_codec_ok ext" and "account_codec_ok ext"
    and "initialize ext add_txt ans base ds now pick fs dns =
    (Some (Ok m), dns', fs')"
  shows "serves_loaded ext m \<and> stored_loaded ext base m fs' \<and> cert_maintained m = cert_name ext ds"
proof -
  let ?n = "cert_name ext ds"
  from assms(3) obtain u fs1 where acc: "getaccount ext base (account_fault ans) fs = (Ok u, fs1)"
    by (auto simp: initialize_def split: prod.splits outcome.splits)
  from getaccount_Ok [OF assms(2) acc] have ok: "account_ok ext base fs1" .
  show ?thesis
  proof (cases "load_certs ext base ?n fs1")
    case (Ok l)
    show ?thesis
    proof (cases l)
      case None
      with assms(3) acc Ok obtain c tr r where ord:
        "ordercert ext add_txt ans base ?n None now pick fs1 dns = (Some (Ok c), dns', tr)"
        "resolver_new ext c = Ok r" "m = \<lparr>loaded = c, acceptor = r, cert_maintained = ?n\<rparr>"
        "fs' = last (fs1 # tr)"
        by (auto simp: initialize_def Let_def split: prod.splits outcome.splits option.splits)
      from ordercert_files [OF ord(1)] have "tr = write_files (cert_writes ext base ?n c) fs1" by auto
      with ord(3,4) have "stored_loaded ext base m fs'"
        using written_stored [OF assms(1) ok] by simp
      with ord(2,3) show ?thesis by (simp add: resolver_new_serves)
    next
      case (Some c)
      with assms(3) acc Ok obtain r where res: "resolver_new ext c = Ok r" "fs' = fs1"
        "m = \<lparr>loaded = c, acceptor = r, cert_maintained = ?n\<rparr>"
        by (auto simp: initialize_def Let_def split: outcome.splits)
      have "c = c\<lparr>cert_info := cert_info c\<rparr>" by simp
      with res Ok Some ok have "stored_loaded ext base m fs'"
        unfolding stored_loaded_def by (metis CertMaintainer.select_convs(1,3))
      with res show ?thesis by (simp add: resolver_new_serves)
    qed
  qed (use assms(3) acc in \<open>auto simp: initialize_def Let_def\<close>)
qed

lemma initialize_other_files:
  assumes "initialize ext add_txt ans base ds now pick fs dns = (r, dns', fs')"
    and "p \<notin> {info_file_name base (cert_name ext ds), cert_file_name base (cert_name ext ds),
      key_file_name base (cert_name ext ds), credentials_path base}"
  shows "fs' p = fs p"
proof -
  let ?n = "cert_name ext ds"
  obtain a fs1 where acc: "getaccount ext base (account_fault ans) fs = (a, fs1)"
    by (cases "getaccount ext base (account_fault ans) fs")
  have fs1: "fs1 p = fs p"
    using acc assms(2)
    by (auto simp: getaccount_def simp del: last.simps split: option.splits if_splits prod.splits
        dest!: try_writes_other [where p = p])
  obtain res s1 tr where ord: "ordercert ext add_txt ans base ?n None now pick fs1 dns = (res, s1, tr)"
    by (metis prod_cases3)
  have "t p = fs1 p" if "t \<in> set tr" for t
    using ordercert_files [OF ord] that assms(2)
    by (auto simp: cert_writes_def dest: write_files_other write_until_other)
  then have "last (fs1 # tr) p = fs1 p" by (simp add: last_in_set)
  with assms(1) acc ord fs1 show ?thesis
    by (auto simp: initialize_def Let_def split: outcome.splits option.splits)
qed

lemma refresh_info_keeps:
  assumes "serves_loaded ext m" and "stored_loaded ext base m fs" and "refresh_info ext t m = (r, m')"
  shows "serves_loaded ext m' \<and> stored_loaded ext base m' fs \<and> cert_maintained m' = cert_maintained m"
  using assms by (auto simp: refresh_info_def serves_loaded_def stored_loaded_def split: outcome.splits)

lemma renew_keeps:
  assumes "info_codec_ok ext" and "serves_loaded ext m" and "stored_loaded ext base m fs"
    and "renew ext add_txt base t m fs s = (r, m', fs', s')"
  shows "serves_loaded ext m' \<and> cert_maintained m' = cert_maintained m \<and>
    (r = None \<or> r = Some (Ok ()) \<longrightarrow> stored_loaded ext base m' fs')"
proof -
  obtain res s1 tr where ord: "ordercert ext add_txt (acme_answers t) base (cert_maintained m)
      (Some (loaded m)) (clock t) (random_pick t) fs s = (res, s1, tr)"
    by (metis prod_cases3)
  note files = ordercert_files [OF ord]
  have acc: "account_ok ext base fs" using assms(3) by (simp add: stored_loaded_def)
  show ?thesis
  proof (cases "\<exists>c. res = Some (Ok c)")
    case True
    then obtain c where c: "res = Some (Ok c)" by blast
    with files have tr: "tr = write_files (cert_writes ext base (cert_maintained m) c) fs" by auto
    show ?thesis
    proof (cases "certified_key ext (cert c) (key c)")
      case None
      with assms(2,4) ord c show ?thesis by (auto simp: renew_def update_key_def serves_loaded_def)
    next
      case (Some ck)
      with assms(4) ord c have m': "m' = m\<lparr>acceptor := (acceptor m)\<lparr>resolver_key := Some ck\<rparr>, loaded := c\<rparr>"
        and fs': "fs' = last (fs # tr)"
        by (auto simp: renew_def update_key_def)
      have "stored_loaded ext base m' fs'"
        unfolding fs' tr by (rule written_stored [OF assms(1) acc]) (simp_all add: m')
      with m' Some show ?thesis
        by (cases "acceptor m") (simp add: serves_loaded_def)
    qed
  next
    case False
    with files assms(2-4) ord show ?thesis
      by (auto simp: renew_def split: option.splits outcome.splits)
  qed
qed

lemma maintain_step_keeps:
  assumes "info_codec_ok ext" and "serves_loaded ext m" and "stored_loaded ext base m fs"
    and "maintain_step ext add_txt base t m fs s = (r, m', fs', s')"
  shows "serves_loaded ext m' \<and> cert_maintained m' = cert_maintained m \<and>
    (r = None \<or> r = Some (Ok ()) \<longrightarrow> stored_loaded ext base m' fs')"
  using assms renew_keeps [OF assms(1-3), where r = r and m' = m' and fs' = fs' and s' = s' and s = s and t = t]
    refresh_info_keeps [OF assms(2,3)]
  by (auto simp: maintain_step_def Let_def split: if_splits prod.splits)

lemma maintain_certs_keeps:
  assumes "info_codec_ok ext"
  shows "serves_loaded ext m \<Longrightarrow> stored_loaded ext base m fs \<Longrightarrow>
    maintain_certs ext add_txt base ts m fs s = (r, m', fs', s') \<Longrightarrow>
    serves_loaded ext m' \<and> cert_maintained m' = cert_maintained m \<and>
    (r = None \<or> r = Some (Ok ()) \<longrightarrow> stored_loaded ext base m' fs')"
proof (induction ts arbitrary: m fs s)
  case (Cons t ts)
  obtain r1 m1 fs1 s1 where step: "maintain_step ext add_txt base t m fs s = (r1, m1, fs1, s1)"
    by (metis prod_cases4)
  note kept = maintain_step_keeps [OF assms Cons.prems(1,2) step]
  show ?case
  proof (cases "r1 = Some (Ok ())")
    case True
    with kept step Cons.prems(3) Cons.IH [of m1 fs1 s1] show ?thesis by simp
  next
    case False
    then have "r = r1" "m' = m1" "fs' = fs1"
      using step Cons.prems(3) by (auto split: option.splits outcome.splits)
    with kept show ?thesis by simp
  qed
qed simp

text \<open>A start on the files of a maintainer serves the same key, without an order.\<close>

lemma stored_restart:
  assumes "serves_loaded ext m" and "stored_loaded ext base m fs" and "cert_maintained m = cert_name ext ds"
  shows "\<exists>i. initialize ext add_txt ans base ds now pick fs dns =
    (Some (Ok (m\<lparr>loaded := (loaded m)\<lparr>cert_info := i\<rparr>\<rparr>)), dns, fs)"
proof -
  from assms(2,3) obtain i where i: "account_ok ext base fs"
    "load_certs ext base (cert_name ext ds) fs = Ok (Some ((loaded m)\<lparr>cert_info := i\<rparr>))"
    by (auto simp: stored_loaded_def)
  from initialize_loaded [OF i, of add_txt ans now pick dns] assms(1,3) show ?thesis
    by (cases m) (auto simp: serves_loaded_def)
qed

text \<open>
  C24. However the loop is woken, whatever the ACME and DNS servers answer and whichever file operation
  fails, after every turn the resolver serves a key, and it is the one of the certificate the maintainer
  holds, also when the loop ended with an error. Between two turns of a loop that has not ended, and
  while an order waits for its certificate, a restarted program starts without ordering and serves the
  same key; only the renewal information may be older. A restart while the files are written is the
  subject of the theorem above.
\<close>

theorem renewals_survive_restart:
  assumes "info_codec_ok ext" and "account_codec_ok ext"
    and "initialize ext add_txt ans base ds now pick fs dns =
    (Some (Ok m), dns1, fs1)"
    and "maintain_certs ext add_txt base ts m fs1 dns1 = (r, m', fs', dns')"
  shows "(\<exists>ck. certified_key ext (cert (loaded m')) (key (loaded m')) = Some ck \<and>
      resolve (acceptor m') = Some ck) \<and>
    (r = None \<or> r = Some (Ok ()) \<longrightarrow>
      (\<exists>i. initialize ext add_txt' ans' base ds now' pick' fs' dns2 =
    (Some (Ok (m'\<lparr>loaded := (loaded m')\<lparr>cert_info := i\<rparr>\<rparr>)), dns2, fs')))"
proof -
  note start = initialize_stored [OF assms(1-3)]
  with maintain_certs_keeps [OF assms(1) _ _ assms(4)] have
    kept: "serves_loaded ext m'" "cert_maintained m' = cert_name ext ds"
      "r = None \<or> r = Some (Ok ()) \<Longrightarrow> stored_loaded ext base m' fs'"
    by auto
  with stored_restart [OF kept(1) _ kept(2)] show ?thesis
    by (auto simp: serves_loaded_def resolve_def)
qed

lemma renewal_info_bounds:
  "get_renewal_info ext c now pick = Ok i \<Longrightarrow>
   \<exists>s e. renewal_window ext c = Some (s, e) \<and> s \<le> renew_at i \<and> renew_at i < e"
  using pos_mod_bound [of "e - s" pick for e s]
  by (force simp: get_renewal_info_def algebra_simps split: if_splits option.splits)

section \<open>Challenges\<close>

lemma trimmed_challenge: "trimmed_domain (''_acme-challenge.'' @ d) = d"
  by (simp add: trimmed_domain_def strip_prefix_def)

lemma may_write_challenge:
  "may_write db token (''_acme-challenge.'' @ d @ ''.'') \<longleftrightarrow>
     (\<exists>a. find (\<lambda>r. auth_id r = token) (auth_tokens db) = Some a \<and> is_user (auth_user_id a) db \<and>
        d \<in> set (domains_of (auth_user_id a) db))"
proof -
  have "strip_suffix ''.'' (''_acme-challenge.'' @ d @ ''.'') = Some (''_acme-challenge.'' @ d)"
    using strip_dot [of "''_acme-challenge.'' @ d"] by simp
  moreover have "trimmed_domain (''_acme-challenge.'' @ d) = d" by (rule trimmed_challenge)
  ultimately show ?thesis unfolding may_write_def by simp
qed

lemma run_authorizations_invariant:
  assumes "\<And>a d s. Some a \<in> set as \<Longrightarrow> auth_dns a = Some d \<Longrightarrow> P s \<Longrightarrow>
      P (snd (add_txt (''_acme-challenge.'' @ d @ ''.'') (dns_value a) s))"
  shows "P s \<Longrightarrow> P (snd (run_authorizations add_txt as s))"
  using assms
proof (induction as arbitrary: s)
  case (Cons x as)
  show ?case
  proof (cases x)
    case (Some a)
    have "P s'" if "auth_dns a = Some d" "add_txt (''_acme-challenge.'' @ d @ ''.'') (dns_value a) s = (b, s')"
      for d b s'
      using Cons.prems(2) [of a d s] Cons.prems(1) that Some by simp
    moreover have "P (snd (run_authorizations add_txt as s'))" if "P s'" for s'
      using Cons.IH [OF that] Cons.prems(2) by simp
    ultimately show ?thesis
      using Cons.prems(1) unfolding Some
      by (cases "auth_status a") (simp_all split: option.split prod.split bool.split)
  qed (use Cons.prems in simp)
qed simp

section \<open>A concrete renewal\<close>

definition sample_cert_ext :: "string cert_ext" where
  "sample_cert_ext = \<lparr>
     info_to_json = (\<lambda>i. ''{'' @ replicate (to_nat (renew_at i, update_renew_info_at i)) (CHR ''1'')),
     info_from_json = (\<lambda>x. case x of [] \<Rightarrow> None
       | c # cs \<Rightarrow> (case from_nat (length cs) of (a, b) \<Rightarrow> Some \<lparr>renew_at = a, update_renew_info_at = b\<rparr>)),
     certified_key = (\<lambda>c k. if c = k then Some c else None), debug_identifier = id,
     certificate_id = (\<lambda>c. True), renewal_window = (\<lambda>c. Some (0, 10)),
     from_credentials = (\<lambda>x. True), credentials_json = (\<lambda>x. True), create_account = Some ''{}''\<rparr>"

definition sample_cert :: "string \<Rightarrow> LoadedCertificate" where
  "sample_cert x = \<lparr>cert_info = \<lparr>renew_at = 5, update_renew_info_at = 3600\<rparr>, cert = x, key = x\<rparr>"

definition sample_files :: files where
  "sample_files = last (write_files (cert_writes sample_cert_ext ''/data'' ''x'' (sample_cert ''old''))
     (Map.empty(credentials_path ''/data'' \<mapsto> ''{}'')))"

definition no_answers :: order_answers where
  "no_answers = \<lparr>order_accepted = False, authorizations = [], order_ready = False, private_key = None,
     certificates = [], cert_fault = None, account_fault = None\<rparr>"

lemma sample_info_codec: "info_codec_ok sample_cert_ext"
  by (simp add: info_codec_ok_def sample_cert_ext_def)

lemma sample_name: "cert_name sample_cert_ext [''x''] = ''x''"
  by (simp add: cert_name_def sample_cert_ext_def)

lemma sample_account: "account_ok sample_cert_ext ''/data'' sample_files"
  unfolding sample_files_def
proof (rule cert_writes_account)
  show "account_ok sample_cert_ext ''/data'' (Map.empty(credentials_path ''/data'' \<mapsto> ''{}''))"
    by (simp add: account_ok_def sample_cert_ext_def)
qed (rule last_in_set, simp add: cert_writes_def)

lemma sample_old:
  "load_certs sample_cert_ext ''/data'' (cert_name sample_cert_ext [''x'']) sample_files =
     Ok (Some (sample_cert ''old''))"
  unfolding sample_files_def sample_name by (rule load_written [OF sample_info_codec])

lemma interrupted_renewal_blocks_start_witness:
  "\<exists>tr. write_certs sample_cert_ext ''/data'' ''x'' (sample_cert ''new'') None sample_files = (Ok (), tr) \<and>
     initialize sample_cert_ext (\<lambda>_ _ s. (True, s)) no_answers ''/data'' [''x''] 0 0 (last tr) () =
       (Some (Ok \<lparr>loaded = sample_cert ''new'', acceptor = \<lparr>resolver_key = Some ''new''\<rparr>,
         cert_maintained = ''x''\<rparr>), (), last tr) \<and>
     initialize sample_cert_ext (\<lambda>_ _ s. (True, s)) no_answers ''/data'' [''x''] 0 0 (tr ! 0) () = (Some (Err ''json''), (), tr ! 0) \<and>
     initialize sample_cert_ext (\<lambda>_ _ s. (True, s)) no_answers ''/data'' [''x''] 0 0 (tr ! 3) () = (Some (Err ''key''), (), tr ! 3) \<and>
     write_certs sample_cert_ext ''/data'' ''x'' (sample_cert ''new'') (Some (1, 0)) sample_files = (Err ''io'', [tr ! 0, tr ! 0]) \<and>
     write_certs sample_cert_ext ''/data'' ''x'' (sample_cert ''new'') (Some (4, 0)) sample_files = (Err ''io'', take 4 tr)"
proof -
  obtain tr where wr: "write_certs sample_cert_ext ''/data'' (cert_name sample_cert_ext [''x''])
      (sample_cert ''new'') None sample_files = (Ok (), tr)"
    by (simp add: write_certs_def try_writes_def)
  have keys: "certified_key sample_cert_ext (cert (sample_cert ''new'')) (key (sample_cert ''new'')) = Some ''new''"
    "certified_key sample_cert_ext (cert (sample_cert ''new'')) (key (sample_cert ''old'')) = None"
    by (simp_all add: sample_cert_ext_def sample_cert_def)
  from interrupted_renewal_blocks_start
    [OF sample_info_codec sample_account sample_old keys wr, of "\<lambda>_ _ s. (True, s)" no_answers 0 0 "()" 0]
    wr
  show ?thesis
    unfolding sample_name by blast
qed


definition sample_wakeup :: wakeup where
  "sample_wakeup = \<lparr>clock = 7, random_pick = 3, prefer_renew = True,
     acme_answers = \<lparr>order_accepted = True,
       authorizations = [Some \<lparr>auth_status = AuthPending, has_dns01 = True, auth_dns = Some ''x'',
         dns_value = ''v'', ready_accepted = True\<rparr>],
       order_ready = True, private_key = Some ''new'', certificates = [Some None, Some (Some ''new'')],
       cert_fault = None, account_fault = None\<rparr>\<rparr>"

lemma renewals_survive_restart_witness:
  "\<exists>m fs1 m' fs' i.
     initialize sample_cert_ext (\<lambda>_ _ s. (True, s)) no_answers ''/data'' [''x''] 0 0 sample_files () = (Some (Ok m), (), fs1) \<and>
     maintain_certs sample_cert_ext (\<lambda>_ _ s. (True, s)) ''/data'' [sample_wakeup] m fs1 () =
       (Some (Ok ()), m', fs', ()) \<and>
     resolve (acceptor m') = Some ''new'' \<and>
     initialize sample_cert_ext (\<lambda>_ _ s. (True, s)) no_answers ''/data'' [''x''] 8 0 fs' () =
       (Some (Ok (m'\<lparr>loaded := (loaded m')\<lparr>cert_info := i\<rparr>\<rparr>)), (), fs')"
proof -
  obtain m where m: "initialize sample_cert_ext (\<lambda>_ _ s. (True, s)) no_answers ''/data'' [''x''] 0 0 sample_files () =
      (Some (Ok m), (), sample_files)"
    and lm: "loaded m = sample_cert ''old''"
    using initialize_loaded [OF sample_account sample_old, of "\<lambda>_ _ s. (True, s)" no_answers 0 0 "()"]
    by (simp add: sample_cert_def sample_cert_ext_def)
  obtain m' fs' where run: "maintain_certs sample_cert_ext (\<lambda>_ _ s. (True, s)) ''/data''
      [sample_wakeup] m sample_files () = (Some (Ok ()), m', fs', ())" and new: "loaded m' = (sample_cert ''new'')\<lparr>cert_info := cert_info (loaded m')\<rparr>"
    by (simp add: maintain_step_def Let_def renew_def lm sample_wakeup_def sample_cert_def ordercert_def
        write_certs_def try_writes_def update_key_def get_renewal_info_def sample_cert_ext_def)
  have codec: "account_codec_ok sample_cert_ext" by (simp add: account_codec_ok_def sample_cert_ext_def)
  have "certified_key sample_cert_ext (cert (loaded m')) (key (loaded m')) = Some ''new''"
    using arg_cong [OF new, of cert] arg_cong [OF new, of key]
    by (simp add: sample_cert_def sample_cert_ext_def)
  with renewals_survive_restart [OF sample_info_codec codec m run, of "\<lambda>_ _ s. (True, s)" no_answers 8 0 "()"] m run
  show ?thesis by auto
qed

end
