(* ===== verification/TunnelClient.thy ===== *)
theory TunnelClient
  imports TunnelCert
begin

text \<open>
  The client program of the tunnel: the API client and the device flow of \<^verbatim>\<open>web.rs\<close>, the interactive setup
  of \<^verbatim>\<open>setup.rs\<close>, and \<^verbatim>\<open>client.rs\<close> with its start-up, handshake and reconnecting loop. The client's requests
  are answered by the models of the server's handlers, one request at a time; what other parties send
  in between is an argument. Prompts, the clock and the ACME server are arguments, the OAuth library's
  decision to poll on, the back-off library and the codecs are parameters. Shown: a user who approves
  the device code ends up with a client whose handshake the server accepts and whose domain, address
  record and challenges are its own; the state file makes later starts go on where the setup ended, and an
  interrupted write of it blocks them; failures delay the next attempt and a success resets the delay.
\<close>

section \<open>Waiting computations\<close>

text \<open>An outcome, or \<open>None\<close> while the program waits for a prompt, an approval or a certificate.\<close>

definition bind_wait ::
  "('e, 'a) outcome option \<times> 's \<Rightarrow> ('a \<Rightarrow> 's \<Rightarrow> ('e, 'b) outcome option \<times> 's) \<Rightarrow> ('e, 'b) outcome option \<times> 's"
where
  "bind_wait r k =
     (case r of
        (Some (Ok a), s) \<Rightarrow> k a s
      | (Some (Err e), s) \<Rightarrow> (Some (Err e), s)
      | (Some Panic, s) \<Rightarrow> (Some Panic, s)
      | (None, s) \<Rightarrow> (None, s))"

lemma bind_wait_simps [simp]:
  "bind_wait (Some (Ok a), s) k = k a s"
  "bind_wait (Some (Err e), s) k = (Some (Err e), s)"
  "bind_wait (Some Panic, s) k = (Some Panic, s)"
  "bind_wait (None, s) k = (None, s)"
  by (simp_all add: bind_wait_def)

section \<open>Requests to the server\<close>

record ClientState =
  client_endpoint :: string
  client_token :: string
  client_domain :: string

text \<open>
  The server that the client talks to: the parameters of its models and its configuration, the
  addresses that lead to it, and the libraries of the client: whether the OAuth library polls again after
  an answer (none if the request failed), the parser of addresses, and the JSON of the state file and of
  the first message.
\<close>

record ('n, 'z, 'addr, 'h) remote =
  web_lib :: web_ext
  web_state :: server_state
  dns_lib :: "('n, 'z) dns_ext"
  tunnel_lib :: "('addr, 'h) tunnel_ext"
  info_response :: TunnelInfoResponse
  reaches :: "string \<Rightarrow> bool"
  keeps_polling :: "response option \<Rightarrow> bool"
  parse_ip :: "string \<Rightarrow> (nat \<times> nat \<times> nat \<times> nat) option"
  state_to_json :: "ClientState \<Rightarrow> string"
  state_from_json :: "string \<Rightarrow> ClientState option"
  hello_to_json :: "ClientHello \<Rightarrow> bytes"

text \<open>A request whose handler panics is not answered.\<close>

definition serve_web ::
  "('n, 'z, 'addr, 'h) remote \<Rightarrow> entropy \<Rightarrow> web_request \<Rightarrow> 'z dns_state \<Rightarrow> response option \<times> 'z dns_state"
where
  "serve_web R ent req s =
     (case run_prog (web_service (web_lib R) (web_state R) ent req) (persistence s) of
        (Inr r, db) \<Rightarrow> (Some r, s\<lparr>persistence := db\<rparr>)
      | (Inl e, db) \<Rightarrow> (None, s\<lparr>persistence := db\<rparr>))"

definition http ::
  "('n, 'z, 'addr, 'h) remote \<Rightarrow> string \<Rightarrow> entropy \<Rightarrow> web_request \<Rightarrow> 'z dns_state \<Rightarrow> response option \<times> 'z dns_state"
where
  "http R url ent req s = (if reaches R url then serve_web R ent req s else (None, s))"

section \<open>API client\<close>

record ApiClient =
  api_host :: string
  api_key :: string

text \<open>The status of the answer is not looked at, only its body.\<close>

definition roundtrip ::
  "('n, 'z, 'addr, 'h) remote \<Rightarrow> ApiClient \<Rightarrow> string \<Rightarrow> string option \<Rightarrow> entropy \<Rightarrow> 'z dns_state \<Rightarrow>
   (string, resp_body) outcome \<times> 'z dns_state"
where
  "roundtrip R api endpoint dn ent s =
     (case http R (api_host api) ent
        (blank_request\<lparr>req_path := endpoint, bearer := Some (api_key api), json_domain := dn\<rparr>) s of
        (None, s) \<Rightarrow> (Err ''request'', s)
      | (Some r, s) \<Rightarrow> (Ok (body r), s))"

definition test_request ::
  "('n, 'z, 'addr, 'h) remote \<Rightarrow> ApiClient \<Rightarrow> entropy \<Rightarrow> 'z dns_state \<Rightarrow>
   (string, string list \<times> string list) outcome \<times> 'z dns_state"
where
  "test_request R api ent s =
     bind_st (roundtrip R api ''/api/test'' None ent s) (\<lambda>b s.
       case b of ApiTestResponse mail ds sfx \<Rightarrow> (Ok (ds, sfx), s) | _ \<Rightarrow> (Err ''json'', s))"

definition register_domain ::
  "('n, 'z, 'addr, 'h) remote \<Rightarrow> ApiClient \<Rightarrow> string \<Rightarrow> entropy \<Rightarrow> 'z dns_state \<Rightarrow>
   (string, unit) outcome \<times> 'z dns_state"
where
  "register_domain R api dn ent s =
     bind_st (roundtrip R api ''/api/domain/register'' (Some dn) ent s) (\<lambda>b s.
       case b of ApiRegisterDomainResponse \<Rightarrow> (Ok (), s) | _ \<Rightarrow> (Err ''json'', s))"

section \<open>Device flow\<close>

text \<open>
  Before each poll other requests reach the server, and the library may find that the code has expired.
\<close>

record poll_round =
  others :: "(entropy \<times> web_request) list"
  expired :: bool
  poll_entropy :: entropy

definition serve_others ::
  "('n, 'z, 'addr, 'h) remote \<Rightarrow> (entropy \<times> web_request) list \<Rightarrow> 'z dns_state \<Rightarrow> 'z dns_state"
where
  "serve_others R reqs s = fold (\<lambda>(ent, req) s. snd (serve_web R ent req s)) reqs s"

definition token_request :: "string \<Rightarrow> web_request" where
  "token_request code = blank_request\<lparr>req_method := ''POST'', req_path := ''/login/oauth/access_token'',
     form_device_code := Some code\<rparr>"

fun poll_token ::
  "('n, 'z, 'addr, 'h) remote \<Rightarrow> string \<Rightarrow> string \<Rightarrow> poll_round list \<Rightarrow> 'z dns_state \<Rightarrow>
   (string, string) outcome option \<times> 'z dns_state"
where
  "poll_token R url code [] s = (None, s)"
| "poll_token R url code (p # ps) s =
     (let s = serve_others R (others p) s in
      if expired p then (Some (Err ''expired_token''), s)
      else (case http R url (poll_entropy p) (token_request code) s of
              (r, s) \<Rightarrow>
                if keeps_polling R r then poll_token R url code ps s
                else (case map_option body r of
                        Some (DeviceToken t _ _) \<Rightarrow> (Some (Ok t), s)
                      | Some (OauthError e) \<Rightarrow> (Some (Err e), s)
                      | _ \<Rightarrow> (Some (Err ''response''), s))))"

record device_run =
  code_entropy :: entropy
  rounds :: "poll_round list"
  probe_entropy :: entropy

definition device_code_request :: web_request where
  "device_code_request = blank_request\<lparr>req_method := ''POST'', req_path := ''/login/device/code''\<rparr>"

definition run_device ::
  "('n, 'z, 'addr, 'h) remote \<Rightarrow> string \<Rightarrow> device_run \<Rightarrow> 'z dns_state \<Rightarrow> (string, string) outcome option \<times> 'z dns_state"
where
  "run_device R url dev s =
     (case http R url (code_entropy dev) device_code_request s of
        (Some r, s) \<Rightarrow>
          (case body r of
             DeviceAuthorization code ucode uri exp interval \<Rightarrow>
               bind_wait (poll_token R url code (rounds dev) s) (\<lambda>token s.
               bind_wait (map_prod Some id (test_request R \<lparr>api_host = url, api_key = token\<rparr> (probe_entropy dev) s))
                 (\<lambda>_ s. (Some (Ok token), s)))
           | _ \<Rightarrow> (Some (Err ''device code''), s))
      | (None, s) \<Rightarrow> (Some (Err ''device code''), s))"

section \<open>Interactive setup\<close>

datatype TunnelChoice = Known string | Custom

datatype DomainChoice = Existing string | WithSuffix string

definition tunnel_choices :: "string list \<Rightarrow> TunnelChoice list" where
  "tunnel_choices endpoints = map Known endpoints @ [Custom]"

definition domain_choices :: "string list \<Rightarrow> string list \<Rightarrow> DomainChoice list" where
  "domain_choices ds sfx = map Existing ds @ map WithSuffix sfx"

text \<open>A menu: the user picks an entry or gives up.\<close>

definition select_prompt :: "'a list \<Rightarrow> nat option \<Rightarrow> (string, 'a) outcome" where
  "select_prompt choices pick =
     (case pick of
        Some i \<Rightarrow> if i < length choices then Ok (choices ! i) else Err ''prompt''
      | None \<Rightarrow> Err ''prompt'')"

definition text_prompt :: "string option \<Rightarrow> (string, string) outcome" where
  "text_prompt answer = (case answer of Some t \<Rightarrow> Ok t | None \<Rightarrow> Err ''prompt'')"

record domain_prompt =
  domain_pick :: "nat option"
  name_prefix :: "string option"
  confirmed :: "bool option"

text \<open>The loop over the domain menu ends when the user confirms; the flag says that the domain is new.\<close>

fun choose_domain ::
  "DomainChoice list \<Rightarrow> domain_prompt list \<Rightarrow> (string, string \<times> bool) outcome option"
where
  "choose_domain choices [] = None"
| "choose_domain choices (p # ps) =
     (case select_prompt choices (domain_pick p) of
        Err e \<Rightarrow> Some (Err e)
      | Panic \<Rightarrow> Some Panic
      | Ok choice \<Rightarrow>
          (case (case choice of
                   Existing d \<Rightarrow> Ok (d, False)
                 | WithSuffix sfx \<Rightarrow>
                     (case text_prompt (name_prefix p) of
                        Ok pre \<Rightarrow> Ok (pre @ sfx, True) | Err e \<Rightarrow> Err e | Panic \<Rightarrow> Panic)) of
             Err e \<Rightarrow> Some (Err e)
           | Panic \<Rightarrow> Some Panic
           | Ok dn \<Rightarrow>
               (case confirmed p of
                  None \<Rightarrow> Some (Err ''prompt'')
                | Some True \<Rightarrow> Some (Ok dn)
                | Some False \<Rightarrow> choose_domain choices ps)))"

record setup_run =
  tunnel_pick :: "nat option"
  custom_endpoint :: "string option"
  device :: device_run
  info_entropy :: entropy
  domain_prompts :: "domain_prompt list"
  register_entropy :: entropy

definition choose_endpoint :: "string list \<Rightarrow> setup_run \<Rightarrow> (string, string) outcome" where
  "choose_endpoint endpoints u =
     (case select_prompt (tunnel_choices endpoints) (tunnel_pick u) of
        Ok (Known e) \<Rightarrow> Ok e
      | Ok Custom \<Rightarrow> text_prompt (custom_endpoint u)
      | Err e \<Rightarrow> Err e
      | Panic \<Rightarrow> Panic)"

definition run_interactive_setup ::
  "('n, 'z, 'addr, 'h) remote \<Rightarrow> string list \<Rightarrow> setup_run \<Rightarrow> 'z dns_state \<Rightarrow>
   (string, ClientState) outcome option \<times> 'z dns_state"
where
  "run_interactive_setup R endpoints u s =
     bind_wait (Some (choose_endpoint endpoints u), s) (\<lambda>url s.
     bind_wait (run_device R url (device u) s) (\<lambda>token s.
       let api = \<lparr>api_host = url, api_key = token\<rparr> in
       bind_wait (map_prod Some id (test_request R api (info_entropy u) s)) (\<lambda>(ds, sfx) s.
         let choices = domain_choices ds sfx in
         if choices = [] then (Some (Err ''sorry, you have no domains''), s)
         else bind_wait (choose_domain choices (domain_prompts u), s) (\<lambda>(dn, new) s.
           let state = \<lparr>client_endpoint = url, client_token = token, client_domain = dn\<rparr> in
           if new then bind_wait (map_prod Some id (register_domain R api dn (register_entropy u) s))
             (\<lambda>_ s. (Some (Ok state), s))
           else (Some (Ok state), s)))))"


section \<open>Start of the client\<close>

text \<open>\<^verbatim>\<open>DnsServerClient\<close>: the record requests, sent with the client's token.\<close>

definition dns_post ::
  "('n, 'z, 'addr, 'h) remote \<Rightarrow> string \<Rightarrow> string \<Rightarrow> dns_request \<Rightarrow> 'z dns_state \<Rightarrow> bool \<times> 'z dns_state"
where
  "dns_post R url secret req s =
     (if \<not> reaches R url then (False, s)
      else (case dns_router (dns_lib R) secret req s of
              (Ok _, s) \<Rightarrow> (True, s) | (_, s) \<Rightarrow> (False, s)))"

definition dns_server_client ::
  "('n, 'z, 'addr, 'h) remote \<Rightarrow> string \<Rightarrow> string \<Rightarrow> 'z dns_state dns_client"
where
  "dns_server_client R url secret name v = dns_post R url secret (SetTxt name v)"

definition state_path :: "string \<Rightarrow> string" where
  "state_path base = join_path base ''state.json''"

text \<open>The state file, or the setup, whose result is written to the file.\<close>

definition load_or_setup ::
  "('n, 'z, 'addr, 'h) remote \<Rightarrow> string \<Rightarrow> string list \<Rightarrow> setup_run \<Rightarrow> files \<times> 'z dns_state \<Rightarrow>
   (string, ClientState) outcome option \<times> files \<times> 'z dns_state"
where
  "load_or_setup R base endpoints u w =
     (case fst w (state_path base) of
        Some text \<Rightarrow>
          (Some (case state_from_json R text of Some st \<Rightarrow> Ok st | None \<Rightarrow> Err ''json''), w)
      | None \<Rightarrow>
          (case run_interactive_setup R endpoints u (snd w) of
             (Some (Ok st), s) \<Rightarrow> (Some (Ok st), (fst w)(state_path base \<mapsto> state_to_json R st), s)
           | (r, s) \<Rightarrow> (r, fst w, s)))"

record client_start =
  setup_part :: setup_run
  acme_part :: order_answers
  start_time :: int
  start_pick :: int

definition client_main ::
  "('n, 'z, 'addr, 'h) remote \<Rightarrow> 'ck cert_ext \<Rightarrow> string \<Rightarrow> string list \<Rightarrow> client_start \<Rightarrow> files \<times> 'z dns_state \<Rightarrow>
   (string, 'ck CertMaintainer \<times> ClientState) outcome option \<times> files \<times> 'z dns_state"
where
  "client_main R cext base endpoints run w =
     bind_wait (load_or_setup R base endpoints (setup_part run) w) (\<lambda>st w.
       let url = client_endpoint st; secret = client_token st; name = client_domain st in
       bind_wait (case initialize cext (dns_server_client R url secret) (acme_part run) base [name]
                    (start_time run) (start_pick run) (fst w) (snd w) of (r, s, fs) \<Rightarrow> (r, fs, s)) (\<lambda>m w.
         if \<not> reaches R url then (Some (Err ''tunnel info''), w)
         else case parse_ip R (public_ip (info_response R)) of
           None \<Rightarrow> (Some (Err ''ip''), w)
         | Some ip \<Rightarrow>
             (case dns_post R url secret (SetA (name @ ''.'') ip) (snd w) of
                (True, s) \<Rightarrow> (Some (Ok (m, st)), fst w, s)
              | (False, s) \<Rightarrow> (Some (Err ''dns''), fst w, s))))"

section \<open>Connecting\<close>

text \<open>
  One attempt to connect: the address of the server (\<open>resolved\<close> if the name was found and QUIC connected),
  then the first message and the answer of the server, whose handshake runs on its database.
\<close>

definition open_conn ::
  "('n, 'z, 'addr, 'h) remote \<Rightarrow> ClientState \<Rightarrow> bool \<Rightarrow> tdb \<Rightarrow> (string, string) outcome"
where
  "open_conn R st resolved db =
     (if \<not> reaches R (client_endpoint st) then Err ''tunnel info''
      else if \<not> resolved then Err ''no addresses found''
      else case extract_host (quic_endpoint (info_response R)) of
        None \<Rightarrow> Err ''missing :''
      | Some host \<Rightarrow>
          (case fst (run_prog (run_handshake (tunnel_lib R)
                  (hello_to_json R \<lparr>hello_domain = client_domain st, hello_token = client_token st\<rparr>) True) db) of
             Inr d \<Rightarrow> Ok d | Inl e \<Rightarrow> Err ''handshake''))"

text \<open>
  The loop of \<^verbatim>\<open>TunnelClient::run\<close> over the outcomes of its attempts (a successful one is followed by
  serving until the connection ends): the delay in milliseconds before each attempt.
\<close>

record 'b backoff_ext =
  new_backoff :: 'b
  next_backoff :: "'b \<Rightarrow> nat option \<times> 'b"
  backoff_reset :: "'b \<Rightarrow> 'b"

fun client_loop :: "'b backoff_ext \<Rightarrow> bool \<Rightarrow> 'b \<Rightarrow> bool list \<Rightarrow> (string, nat list) outcome" where
  "client_loop bx initial b [] = Ok []"
| "client_loop bx initial b (connected # rest) =
     (case (if initial then (Some 0, b) else next_backoff bx b) of
        (None, b) \<Rightarrow> Panic
      | (Some d, b) \<Rightarrow>
          (case client_loop bx False (if connected then backoff_reset bx b else b) rest of
             Ok ds \<Rightarrow> Ok (d # ds) | r \<Rightarrow> r))"

definition run_client :: "'b backoff_ext \<Rightarrow> bool list \<Rightarrow> (string, nat list) outcome" where
  "run_client bx attempts = client_loop bx True (new_backoff bx) attempts"

section \<open>The requests of the setup\<close>

lemma routed_service:
  assumes "find_route req = Some r" and "map_of (cookies req) ''session_id'' = None"
  shows "web_service ext st ent req = run_route ext st ent req r None []"
  using assms routed_not_refused [OF assms(1)]
  by (simp add: web_service_def auth_middleware_def dispatch_def)

lemma setup_routes:
  "find_route device_code_request = Some DeviceCodeRoute"
  "find_route (token_request code) = Some DeviceTokenRoute"
  "find_route (blank_request\<lparr>req_path := ''/api/test'', bearer := k, json_domain := dn\<rparr>) = Some ApiTestRoute"
  "find_route (blank_request\<lparr>req_path := ''/api/domain/register'', bearer := k, json_domain := dn\<rparr>) =
     Some ApiRegisterRoute"
  by (simp_all add: find_route_def web_routes_def device_code_request_def token_request_def blank_request_def)

lemma setup_fields [simp]:
  "form_device_code (token_request code) = Some code"
  "cookies device_code_request = []" "cookies (token_request code) = []"
  "cookies (blank_request\<lparr>req_path := p, bearer := k, json_domain := dn\<rparr>) = []"
  by (simp_all add: device_code_request_def token_request_def blank_request_def)

definition new_device_token :: "entropy \<Rightarrow> device_tokens_model" where
  "new_device_token ent =
     \<lparr>device_code = make_random_hex_string (key1 ent), user_code = make_random_challenge_string (picks ent),
      token_state = Pending, approved_by_user_id = '''', next_poll_at = now1 ent + nanos 5,
      interval_seconds = num_seconds (nanos 5), expires_at = now1 ent + nanos (15 * 60)\<rparr>"

text \<open>A client that asks for a code gets one, if the random codes are new.\<close>

definition fresh_codes :: "entropy \<Rightarrow> tdb \<Rightarrow> bool" where
  "fresh_codes ent db \<longleftrightarrow>
     make_random_hex_string (key1 ent) \<notin> device_code ` set (device_tokens db) \<and>
     make_random_challenge_string (picks ent) \<notin> user_code ` set (device_tokens db)"

lemma serve_code:
  assumes "fresh_codes ent (persistence s)"
  shows "\<exists>uri exp int. serve_web R ent device_code_request s =
    (Some (ok_body (DeviceAuthorization (make_random_hex_string (key1 ent))
        (make_random_challenge_string (picks ent)) uri exp int) []),
     s\<lparr>persistence := (persistence s)\<lparr>device_tokens := device_tokens (persistence s) @ [new_device_token ent]\<rparr>\<rparr>)"
  using assms
  by (simp add: serve_web_def routed_service [OF setup_routes(1)]
      oauth2_device_code_handler_def create_device_token_def Let_def run_bind run_expecting
      insert_device_token_def new_device_token_def fresh_codes_def)
    blast

lemma serve_pending:
  assumes "lookup_code (persistence s) code = Some tok" and "token_state tok = Pending"
  shows "serve_web R ent (token_request code) s =
    (Some \<lparr>status = 400, body = OauthError ''authorization_pending'', cookie_changes = []\<rparr>, s)"
  using assms
  by (simp add: serve_web_def routed_service [OF setup_routes(2)] extracting_def
      oauth2_device_token_handler_def run_bind run_expecting run_poll poll_error_def)

lemma serve_approved:
  assumes "lookup_code (persistence s) code = Some tok" and "token_state tok = Approved"
    and "make_random_hex_string (key1 ent) \<notin> auth_id ` set (auth_tokens (persistence s))"
  shows "serve_web R ent (token_request code) s =
    (Some (ok_body (DeviceToken (make_random_hex_string (key1 ent)) ''bearer'' (60 * 60 * 24 * 365 * 10)) []),
     s\<lparr>persistence := (exchanged_db tok (persistence s))\<lparr>auth_tokens := auth_tokens (persistence s) @
        [\<lparr>auth_id = make_random_hex_string (key1 ent), auth_user_id = approved_by_user_id tok\<rparr>]\<rparr>\<rparr>)"
  using assms
  by (simp add: serve_web_def routed_service [OF setup_routes(2)] extracting_def
      oauth2_device_token_handler_def run_bind run_expecting run_poll poll_error_def
      create_auth_token_def Let_def exchanged_db_def)

definition token_user :: "tdb \<Rightarrow> string \<Rightarrow> string \<Rightarrow> bool" where
  "token_user db token uid \<longleftrightarrow>
     (\<exists>a. find (\<lambda>r. auth_id r = token) (auth_tokens db) = Some a \<and> auth_user_id a = uid) \<and> is_user uid db"

lemma run_token_user:
  assumes "token_user db token uid"
  shows "\<exists>a u. run_prog (get_auth_token token) db = (Inr (a, u), db) \<and> user_id u = uid \<and>
    domains u = domains_of uid db"
proof -
  from assms obtain u where "find (\<lambda>u. row_id u = uid) (users db) = Some u"
    by (metis find_None_image is_user_def not_Some_eq token_user_def)
  with assms show ?thesis
    by (auto simp: token_user_def get_auth_token_def run_bind get_auth_token_by_id_def get_user_by_id_eq)
qed

lemma test_request_ok:
  assumes "token_user (persistence s) (api_key api) uid" and "reaches R (api_host api)"
  shows "test_request R api ent s =
    (Ok (domains_of uid (persistence s), available_suffixes (web_state R)), s)"
  using run_token_user [OF assms(1)] assms(2)
  by (auto simp: test_request_def roundtrip_def http_def serve_web_def routed_service [OF setup_routes(3)]
      extracting_def api_test_handler_def run_bind run_expecting ok_body_def)

lemma register_domain_ok:
  assumes "token_user (persistence s) (api_key api) uid" and "reaches R (api_host api)"
    and "list_ex (\<lambda>sfx. suffix sfx dn) (available_suffixes (web_state R))"
    and "\<not> is_owned (persistence s) dn"
  shows "register_domain R api dn ent s =
    (Ok (), s\<lparr>persistence := (persistence s)\<lparr>user_domains :=
       user_domains (persistence s) @ [\<lparr>owner_id = uid, owned_domain = dn\<rparr>]\<rparr>\<rparr>)"
  using run_token_user [OF assms(1)] assms(2-4)
  by (auto simp: register_domain_def roundtrip_def http_def serve_web_def routed_service [OF setup_routes(4)]
      extracting_def api_register_domain_handler_def run_bind run_expecting ok_body_def
      register_user_domain_def insert_user_domain_def is_owned_def)


section \<open>Approval\<close>

text \<open>A logged-in user enters the code and approves.\<close>

definition approve_request :: "string \<Rightarrow> string \<Rightarrow> web_request" where
  "approve_request sid ucode = blank_request\<lparr>req_method := ''POST'', req_path := ''/login/device/authorize'',
     cookies := [(''session_id'', sid)], form_user_code := Some ucode\<rparr>"

definition logged_in :: "tdb \<Rightarrow> string \<Rightarrow> string \<Rightarrow> bool" where
  "logged_in db sid uid \<longleftrightarrow>
     (\<exists>se. find (\<lambda>r. session_id r = sid) (sessions db) = Some se \<and> session_user_id se = uid) \<and> is_user uid db"

lemma run_session:
  assumes "logged_in db sid uid"
  shows "\<exists>se u. run_prog (get_user_for_session sid) db = (Inr (Some (se, u)), db) \<and> user_id u = uid"
proof -
  from assms obtain u where "find (\<lambda>u. row_id u = uid) (users db) = Some u"
    by (metis find_None_image is_user_def not_Some_eq logged_in_def)
  with assms show ?thesis
    by (auto simp: logged_in_def get_user_for_session_def run_bind run_expecting get_session_token_by_id_def
        get_user_by_id_eq)
qed

definition approved_by :: "string \<Rightarrow> device_tokens_model \<Rightarrow> device_tokens_model" where
  "approved_by uid tok = tok\<lparr>token_state := Approved, approved_by_user_id := uid\<rparr>"

lemma serve_approve:
  assumes "logged_in (persistence s) sid uid"
    and "find (\<lambda>r. user_code r = ucode) (device_tokens (persistence s)) = Some tok"
    and "lookup_code (persistence s) (device_code tok) = Some tok" and "token_state tok = Pending"
  shows "snd (serve_web R ent (approve_request sid ucode) s) = s\<lparr>persistence := (persistence s)\<lparr>device_tokens :=
    map (rewrite_token (approved_by uid tok)) (device_tokens (persistence s))\<rparr>\<rparr>"
proof -
  let ?req = "approve_request sid ucode"
  have route: "find_route ?req = Some ApproveRoute"
    by (simp add: find_route_def web_routes_def approve_request_def blank_request_def)
  have fields: "map_of (cookies ?req) ''session_id'' = Some sid" "form_user_code ?req = Some ucode"
    by (simp_all add: approve_request_def)
  from run_session [OF assms(1)] obtain se u where
    "run_prog (get_user_for_session sid) (persistence s) = (Inr (Some (se, u)), persistence s)" "user_id u = uid"
    by blast
  then show ?thesis
    using assms(2-4)
    by (simp add: serve_web_def web_service_def routed_not_refused [OF route] auth_middleware_def fields
        run_bind run_expecting dispatch_def route extracting_def post_approve_device_handler_def
        get_device_token_def get_device_token_by_user_code_def run_approve approved_by_def)
qed

text \<open>The new token among the rows of a table without its codes.\<close>

lemma new_token_found:
  assumes "fresh_codes ent db"
  shows "lookup_code (db\<lparr>device_tokens := device_tokens db @ [new_device_token ent]\<rparr>)
      (make_random_hex_string (key1 ent)) = Some (new_device_token ent)"
    and "find (\<lambda>r. user_code r = make_random_challenge_string (picks ent))
      (device_tokens db @ [new_device_token ent]) = Some (new_device_token ent)"
proof -
  have "find (\<lambda>r. device_code r = make_random_hex_string (key1 ent)) (device_tokens db) = None"
    "find (\<lambda>r. user_code r = make_random_challenge_string (picks ent)) (device_tokens db) = None"
    using assms by (simp_all add: fresh_codes_def find_None_image)
  then show "lookup_code (db\<lparr>device_tokens := device_tokens db @ [new_device_token ent]\<rparr>)
      (make_random_hex_string (key1 ent)) = Some (new_device_token ent)"
    "find (\<lambda>r. user_code r = make_random_challenge_string (picks ent))
      (device_tokens db @ [new_device_token ent]) = Some (new_device_token ent)"
    by (simp_all add: lookup_code_def find_snoc new_device_token_def)
qed

section \<open>The device flow succeeds\<close>

text \<open>The library's polling: it goes on while the authorization is pending and takes a token.\<close>

definition polling_ok :: "('n, 'z, 'addr, 'h) remote \<Rightarrow> bool" where
  "polling_ok R \<longleftrightarrow>
     keeps_polling R (Some \<lparr>status = 400, body = OauthError ''authorization_pending'', cookie_changes = []\<rparr>) \<and>
     (\<forall>t. \<not> keeps_polling R (Some (ok_body (DeviceToken t ''bearer'' (60 * 60 * 24 * 365 * 10)) [])))"

lemma poll_pending:
  assumes "polling_ok R" and "reaches R url"
    and "lookup_code (persistence s) code = Some tok" and "token_state tok = Pending"
  shows "list_all (\<lambda>p. others p = [] \<and> \<not> expired p) ps \<Longrightarrow>
    poll_token R url code (ps @ qs) s = poll_token R url code qs s"
  using assms
  by (induction ps) (auto simp: serve_others_def http_def serve_pending polling_ok_def)

text \<open>What the device flow leaves: one more device token, exchanged, and one more auth token.\<close>

definition flow_done :: "tdb \<Rightarrow> string \<Rightarrow> string \<Rightarrow> tdb \<Rightarrow> bool" where
  "flow_done db token uid db' \<longleftrightarrow>
     (\<exists>rows. db' = db\<lparr>device_tokens := rows,
        auth_tokens := auth_tokens db @ [\<lparr>auth_id = token, auth_user_id = uid\<rparr>]\<rparr>) \<and>
     token \<notin> auth_id ` set (auth_tokens db) \<and> is_user uid db"

lemma flow_done_token: "flow_done db token uid db' \<Longrightarrow> token_user db' token uid"
proof -
  assume flow: "flow_done db token uid db'"
  then have "find (\<lambda>r. auth_id r = token) (auth_tokens db) = None"
    by (simp add: flow_done_def find_None_image)
  with flow show ?thesis by (auto simp: flow_done_def token_user_def find_snoc is_user_def)
qed

lemma flow_done_domains [simp]:
  "flow_done db token uid db' \<Longrightarrow> domains_of u db' = domains_of u db"
  "flow_done db token uid db' \<Longrightarrow> user_domains db' = user_domains db"
  by (auto simp: flow_done_def domains_of_def)

text \<open>An approval by \<open>uid\<close> in the last of the rounds.\<close>

definition approving_rounds :: "string \<Rightarrow> string \<Rightarrow> poll_round list \<Rightarrow> bool" where
  "approving_rounds sid ucode ps \<longleftrightarrow> ps \<noteq> [] \<and> list_all (\<lambda>p. others p = []) (butlast ps) \<and>
     list_all (\<lambda>p. \<not> expired p) ps \<and> map snd (others (last ps)) = [approve_request sid ucode]"

lemma poll_approved:
  assumes "polling_ok R" and "reaches R url" and "logged_in (persistence s) sid uid"
    and "find (\<lambda>r. user_code r = ucode) (device_tokens (persistence s)) = Some tok"
    and "lookup_code (persistence s) (device_code tok) = Some tok" and "token_state tok = Pending"
    and "make_random_hex_string (key1 (poll_entropy p)) \<notin> auth_id ` set (auth_tokens (persistence s))"
    and "\<not> expired p" and "others p = [(ent, approve_request sid ucode)]"
  shows "\<exists>rows. poll_token R url (device_code tok) (p # qs) s =
    (Some (Ok (make_random_hex_string (key1 (poll_entropy p)))),
     s\<lparr>persistence := (persistence s)\<lparr>device_tokens := rows, auth_tokens := auth_tokens (persistence s) @
       [\<lparr>auth_id = make_random_hex_string (key1 (poll_entropy p)), auth_user_id = uid\<rparr>]\<rparr>\<rparr>)"
proof -
  let ?db = "(persistence s)\<lparr>device_tokens :=
    map (rewrite_token (approved_by uid tok)) (device_tokens (persistence s))\<rparr>"
  have others: "serve_others R (others p) s = s\<lparr>persistence := ?db\<rparr>"
    using serve_approve [OF assms(3-6)] by (simp add: serve_others_def assms(9))
  have "lookup_code ?db (device_code tok) = Some (approved_by uid tok)"
    using assms(5) by (simp add: lookup_code_def find_rewrite rewrite_token_def approved_by_def)
  from serve_approved [of "s\<lparr>persistence := ?db\<rparr>", simplified, OF this, of "poll_entropy p" R] assms(1,2,7,8)
  show ?thesis
    by (simp add: others http_def approved_by_def polling_ok_def exchanged_db_def ok_body_def) blast
qed

lemma run_device_ok:
  fixes dev :: device_run
  defines "token \<equiv> make_random_hex_string (key1 (poll_entropy (last (rounds dev))))"
  assumes "polling_ok R" and "reaches R url" and "logged_in (persistence s) sid uid"
    and "fresh_codes (code_entropy dev) (persistence s)"
    and "token \<notin> auth_id ` set (auth_tokens (persistence s))"
    and "approving_rounds sid (make_random_challenge_string (picks (code_entropy dev))) (rounds dev)"
  shows "\<exists>db. run_device R url dev s = (Some (Ok token), s\<lparr>persistence := db\<rparr>) \<and>
    flow_done (persistence s) token uid db"
proof -
  let ?db = "persistence s" and ?row = "new_device_token (code_entropy dev)"
  let ?db1 = "?db\<lparr>device_tokens := device_tokens ?db @ [?row]\<rparr>"
  let ?s1 = "s\<lparr>persistence := ?db1\<rparr>" and ?p = "last (rounds dev)"
  have row: "device_code ?row = make_random_hex_string (key1 (code_entropy dev))" "token_state ?row = Pending"
    by (simp_all add: new_device_token_def)
  note found = new_token_found [OF assms(5)]
  from assms(7) obtain ent where last: "rounds dev = butlast (rounds dev) @ [?p]"
    "others ?p = [(ent, approve_request sid (make_random_challenge_string (picks (code_entropy dev))))]"
    "\<not> expired ?p" "list_all (\<lambda>p. others p = [] \<and> \<not> expired p) (butlast (rounds dev))"
    by (fastforce simp: approving_rounds_def list_all_iff dest: in_set_butlastD)
  have li: "logged_in (persistence ?s1) sid uid"
    using assms(4) by (simp add: logged_in_def is_user_def)
  have "poll_token R url (device_code ?row) (rounds dev) ?s1 = poll_token R url (device_code ?row) [?p] ?s1"
    using poll_pending [OF assms(2,3), of ?s1 "device_code ?row" ?row, OF _ row(2) last(4), of "[?p]"]
      found(1) row(1) last(1) by simp
  with poll_approved [OF assms(2,3) li, of _ ?row ?p ent "[]"] found row last(2,3) assms(6)
  obtain rows where poll: "poll_token R url (device_code ?row) (rounds dev) ?s1 = (Some (Ok token),
      s\<lparr>persistence := ?db\<lparr>device_tokens := rows,
        auth_tokens := auth_tokens ?db @ [\<lparr>auth_id = token, auth_user_id = uid\<rparr>]\<rparr>\<rparr>)"
    by (auto simp: token_def)
  let ?db2 = "?db\<lparr>device_tokens := rows,
    auth_tokens := auth_tokens ?db @ [\<lparr>auth_id = token, auth_user_id = uid\<rparr>]\<rparr>"
  have flow: "flow_done ?db token uid ?db2"
    using assms(4,6) unfolding flow_done_def logged_in_def by blast
  let ?s2 = "s\<lparr>persistence := ?db2\<rparr>" and ?api = "\<lparr>api_host = url, api_key = token\<rparr>"
  have "test_request R ?api (probe_entropy dev) ?s2 =
      (Ok (domains_of uid ?db2, available_suffixes (web_state R)), ?s2)"
    using test_request_ok [of ?s2 ?api uid R] flow_done_token [OF flow] assms(3) by simp
  with serve_code [OF assms(5), of R] poll assms(3) row(1)
  have "run_device R url dev s = (Some (Ok token), ?s2)"
    by (auto simp: run_device_def http_def ok_body_def)
  with flow show ?thesis by blast
qed

section \<open>The setup succeeds\<close>

lemma choose_domain_offered:
  "choose_domain (domain_choices ds sfxs) ps = Some (Ok (dn, new)) \<Longrightarrow>
   if new then list_ex (\<lambda>sfx. suffix sfx dn) sfxs else dn \<in> set ds"
proof (induction ps)
  case (Cons p ps)
  have pick: "c \<in> set (domain_choices ds sfxs)"
    if "select_prompt (domain_choices ds sfxs) (domain_pick p) = Ok c" for c
    using that by (auto simp: select_prompt_def split: option.splits if_splits)
  have ends: "suffix sfx (pre @ sfx)" for pre sfx :: string by (simp add: suffix_def)
  show ?case
    using Cons pick ends
    by (auto simp: domain_choices_def text_prompt_def list_ex_iff
        split: outcome.splits DomainChoice.splits option.splits bool.splits if_splits)
qed simp

text \<open>The hypotheses of a setup that goes well: what the user does, and what is random is new.\<close>

definition setup_goes_well ::
  "('n, 'z, 'addr, 'h) remote \<Rightarrow> string list \<Rightarrow> setup_run \<Rightarrow> tdb \<Rightarrow> string \<Rightarrow> string \<Rightarrow> ClientState \<Rightarrow> bool"
where
  "setup_goes_well R endpoints u db sid uid st \<longleftrightarrow>
     choose_endpoint endpoints u = Ok (client_endpoint st) \<and> reaches R (client_endpoint st) \<and>
     logged_in db sid uid \<and> fresh_codes (code_entropy (device u)) db \<and>
     approving_rounds sid (make_random_challenge_string (picks (code_entropy (device u)))) (rounds (device u)) \<and>
     client_token st = make_random_hex_string (key1 (poll_entropy (last (rounds (device u))))) \<and>
     client_token st \<notin> auth_id ` set (auth_tokens db) \<and>
     (\<exists>new. choose_domain (domain_choices (domains_of uid db) (available_suffixes (web_state R))) (domain_prompts u) =
        Some (Ok (client_domain st, new)) \<and> (new \<longrightarrow> \<not> is_owned db (client_domain st)))"

lemma setup_ok:
  assumes "polling_ok R" and "setup_goes_well R endpoints u (persistence s) sid uid st"
  shows "\<exists>db. run_interactive_setup R endpoints u s = (Some (Ok st), s\<lparr>persistence := db\<rparr>) \<and>
    token_user db (client_token st) uid \<and> client_domain st \<in> set (domains_of uid db) \<and>
    dns_records db = dns_records (persistence s)"
proof -
  let ?db = "persistence s" and ?api = "\<lparr>api_host = client_endpoint st, api_key = client_token st\<rparr>"
  note u = assms(2) [unfolded setup_goes_well_def]
  from u obtain new where choice: "choose_domain (domain_choices (domains_of uid ?db)
      (available_suffixes (web_state R))) (domain_prompts u) = Some (Ok (client_domain st, new))"
    and new: "new \<Longrightarrow> \<not> is_owned ?db (client_domain st)"
    by blast
  note offered = choose_domain_offered [OF choice]
  have some: "domain_choices (domains_of uid ?db) (available_suffixes (web_state R)) \<noteq> []"
    using offered by (auto simp: domain_choices_def split: if_splits)
  from run_device_ok [OF assms(1), of "client_endpoint st" s sid uid "device u"] u
  obtain db1 where dev: "run_device R (client_endpoint st) (device u) s =
      (Some (Ok (client_token st)), s\<lparr>persistence := db1\<rparr>)"
    and flow: "flow_done ?db (client_token st) uid db1"
    by auto
  have tok: "token_user db1 (client_token st) uid" by (rule flow_done_token [OF flow])
  have test: "test_request R ?api (info_entropy u) (s\<lparr>persistence := db1\<rparr>) =
      (Ok (domains_of uid ?db, available_suffixes (web_state R)), s\<lparr>persistence := db1\<rparr>)"
    using test_request_ok [of "s\<lparr>persistence := db1\<rparr>" ?api uid R] tok u flow by simp
  have recs: "dns_records db1 = dns_records ?db" using flow by (auto simp: flow_done_def)
  have st: "\<lparr>client_endpoint = client_endpoint st, client_token = client_token st,
      client_domain = client_domain st\<rparr> = st" by simp
  show ?thesis
  proof (cases new)
    case True
    let ?db2 = "db1\<lparr>user_domains := user_domains db1 @ [\<lparr>owner_id = uid, owned_domain = client_domain st\<rparr>]\<rparr>"
    have "register_domain R ?api (client_domain st) (register_entropy u) (s\<lparr>persistence := db1\<rparr>) =
        (Ok (), s\<lparr>persistence := ?db2\<rparr>)"
      using register_domain_ok [of "s\<lparr>persistence := db1\<rparr>" ?api uid R] tok u offered True new flow
      by (simp add: is_owned_def)
    moreover have "token_user ?db2 (client_token st) uid" "client_domain st \<in> set (domains_of uid ?db2)"
      using tok by (simp_all add: token_user_def is_user_def domains_of_def)
    ultimately show ?thesis
      using u dev test some choice True recs st
      by (auto simp: run_interactive_setup_def)
  next
    case False
    with offered flow have "client_domain st \<in> set (domains_of uid db1)" by simp
    with u dev test some choice False recs st tok show ?thesis
      by (auto simp: run_interactive_setup_def)
  qed
qed


section \<open>A new client is reachable\<close>

lemma handshake_ok:
  assumes "token_user db token uid" and "dn \<in> set (domains_of uid db)"
    and "hello_from_json ext (take 1024 msg) = Some \<lparr>hello_domain = dn, hello_token = token\<rparr>"
  shows "run_prog (run_handshake ext msg True) db = (Inr dn, db)"
proof -
  from assms(1) obtain u where "find (\<lambda>u. row_id u = uid) (users db) = Some u"
    by (metis find_None_image is_user_def not_Some_eq token_user_def)
  with assms show ?thesis
    by (auto simp: token_user_def run_handshake_def run_bind get_auth_token_by_id_def get_user_by_id_eq)
qed

lemma register_routes:
  "dn \<noteq> hostname \<Longrightarrow> route_visitor hostname (register_conn c dn h) (Some dn) = Ok (Some c)"
  by (simp add: route_visitor_def sni_handle_def tunnel_lookup_def register_conn_def)

lemma not_challenge_name:
  "\<not> prefix ''_acme-challenge.'' dn \<Longrightarrow> \<not> prefix ''*.'' dn \<Longrightarrow> trimmed_domain dn = dn"
  by (simp add: trimmed_domain_def strip_prefix_def)

lemma owner_sets_address:
  assumes "token_user (persistence s) token uid" and "dn \<in> set (domains_of uid (persistence s))"
    and "reaches R url" and "name_from_str (dns_lib R) (dn @ ''.'') = Some n"
    and "\<not> prefix ''_acme-challenge.'' dn" and "\<not> prefix ''*.'' dn"
  shows "dns_post R url token (SetA (dn @ ''.'') ip) s =
    (True, stored (dns_lib R) (lower_name (dns_lib R) n) (A ip) s)"
proof -
  have "may_write (persistence s) token (dn @ ''.'')"
    using assms(1,2) not_challenge_name [OF assms(5,6)]
    by (auto simp: may_write_def token_user_def strip_dot)
  with assms(3,4) show ?thesis by (simp add: dns_post_def dns_router_eq del: dns_router.simps)
qed

text \<open>
  C18. A user who is logged in, enters the code that a new client shows and approves it, and who then picks
  a free name under an offered suffix or one of the user's own domains, ends up with a client that works:
  the setup finishes, however many polls came before the approval; the server accepts the client's
  handshake; from then on visitors of the domain are routed to the client's connection; and the client may
  point the domain's address at the server. Relied on are fresh random values, the OAuth library's
  polling and a first message that fits into 1024 bytes.
\<close>

theorem new_client_is_reachable:
  assumes "polling_ok R" and "setup_goes_well R endpoints u (persistence s) sid uid st"
    and "hello_from_json (tunnel_lib R) (take 1024 (hello_to_json R
      \<lparr>hello_domain = client_domain st, hello_token = client_token st\<rparr>)) =
      Some \<lparr>hello_domain = client_domain st, hello_token = client_token st\<rparr>"
    and "extract_host (quic_endpoint (info_response R)) \<noteq> None"
    and "name_from_str (dns_lib R) (client_domain st @ ''.'') = Some n"
    and "\<not> prefix ''_acme-challenge.'' (client_domain st)" and "\<not> prefix ''*.'' (client_domain st)"
  shows "\<exists>db. run_interactive_setup R endpoints u s = (Some (Ok st), s\<lparr>persistence := db\<rparr>) \<and>
    open_conn R st True db = Ok (client_domain st) \<and>
    (\<forall>h c. hub_db h = db \<and> c \<notin> opened h \<and> client_domain st \<noteq> hostname \<longrightarrow>
       hub_step (tunnel_lib R) h (register_conn c (client_domain st) h) \<and>
       route_visitor hostname (register_conn c (client_domain st) h) (Some (client_domain st)) = Ok (Some c)) \<and>
    (\<forall>ip. dns_post R (client_endpoint st) (client_token st) (SetA (client_domain st @ ''.'') ip)
         (s\<lparr>persistence := db\<rparr>) =
       (True, stored (dns_lib R) (lower_name (dns_lib R) n) (A ip) (s\<lparr>persistence := db\<rparr>)))"
proof -
  obtain db where fin: "run_interactive_setup R endpoints u s = (Some (Ok st), s\<lparr>persistence := db\<rparr>)"
    and tok: "token_user db (client_token st) uid" and dom: "client_domain st \<in> set (domains_of uid db)"
    using setup_ok [OF assms(1,2)] by blast
  have reach: "reaches R (client_endpoint st)" using assms(2) by (simp add: setup_goes_well_def)
  note hs = handshake_ok [OF tok dom assms(3)]
  have "open_conn R st True db = Ok (client_domain st)"
    using assms(4) hs reach by (auto simp: open_conn_def)
  moreover have "hub_step (tunnel_lib R) h (register_conn c (client_domain st) h)"
    if "hub_db h = db" "c \<notin> opened h" for h c
    using hub_step.connect [of "tunnel_lib R"] hs that by metis
  ultimately show ?thesis
    using fin register_routes owner_sets_address [OF _ _ reach assms(5-7), of "s\<lparr>persistence := db\<rparr>"] tok dom
    by auto
qed


section \<open>Later starts\<close>

lemma state_path_distinct [simp]:
  "state_path base \<noteq> info_file_name base name" "state_path base \<noteq> cert_file_name base name"
  "state_path base \<noteq> key_file_name base name" "state_path base \<noteq> credentials_path base"
  by (simp_all add: state_path_def info_file_name_def cert_file_name_def key_file_name_def credentials_path_def)

lemmas state_path_distinct_sym [simp] = state_path_distinct [THEN not_sym]

lemma load_certs_state_file:
  "load_certs ext base name (fs(state_path base \<mapsto> x)) = load_certs ext base name fs"
  by (auto simp: load_certs_def split: option.split)

text \<open>What is relied on of the JSON of the state file.\<close>

definition state_codec_ok :: "('n, 'z, 'addr, 'h) remote \<Rightarrow> bool" where
  "state_codec_ok R \<longleftrightarrow>
     (\<forall>st. state_from_json R (state_to_json R st) = Some st) \<and> state_from_json R '''' = None"

lemma load_or_setup_stored:
  assumes "state_codec_ok R" and "load_or_setup R base endpoints u w = (Some (Ok st), fs, s)"
  shows "\<exists>x. fs (state_path base) = Some x \<and> state_from_json R x = Some st"
  using assms
  by (auto simp: load_or_setup_def state_codec_ok_def split: option.splits prod.splits outcome.splits)

lemma client_main_ok:
  assumes "client_main R cext base endpoints run w = (Some (Ok (m, st)), fs', s')"
  obtains fs s s1 where
    "load_or_setup R base endpoints (setup_part run) w = (Some (Ok st), fs, s)"
    "initialize cext (dns_server_client R (client_endpoint st) (client_token st)) (acme_part run) base
       [client_domain st] (start_time run) (start_pick run) fs s = (Some (Ok m), s1, fs')"
    "reaches R (client_endpoint st)"
proof -
  from assms obtain st0 fs s where l: "load_or_setup R base endpoints (setup_part run) w = (Some (Ok st0), fs, s)"
    by (auto simp: client_main_def bind_wait_def split: prod.splits option.splits outcome.splits)
  obtain r s1 fs1 where i: "initialize cext (dns_server_client R (client_endpoint st0) (client_token st0))
      (acme_part run) base [client_domain st0] (start_time run) (start_pick run) fs s = (r, s1, fs1)"
    by (metis prod_cases3)
  from assms l i have "r = Some (Ok m) \<and> st = st0 \<and> fs' = fs1 \<and> reaches R (client_endpoint st0)"
    by (auto simp: client_main_def Let_def bind_wait_def
        split: prod.splits option.splits outcome.splits if_splits bool.splits)
  with l i that show ?thesis by blast
qed

text \<open>
  Once a client has started, every later start in the same directory runs without a prompt or an order
  and with the same server, token, domain and served key, whatever the server's state is, as long as the
  server still accepts the address record. But if the first start is interrupted while the state file is
  being written, the empty file makes every later start fail, although the setup was completed and
  the domain registered.
\<close>

theorem client_restarts_unattended:
  assumes "info_codec_ok cext" and "account_codec_ok cext" and "state_codec_ok R"
    and "client_main R cext base endpoints run w = (Some (Ok (m, st)), fs', s')"
    and "parse_ip R (public_ip (info_response R)) = Some ip"
    and "dns_post R (client_endpoint st) (client_token st) (SetA (client_domain st @ ''.'') ip) s2 = (True, s3)"
  shows "(\<exists>i. client_main R cext base endpoints' run' (fs', s2) =
      (Some (Ok (m\<lparr>loaded := (loaded m)\<lparr>cert_info := i\<rparr>\<rparr>, st)), fs', s3)) \<and>
    client_main R cext base endpoints' run' (fs'(state_path base \<mapsto> ''''), s2) =
      (Some (Err ''json''), fs'(state_path base \<mapsto> ''''), s2)"
proof
  from assms(4) obtain fs s s1 where
    l: "load_or_setup R base endpoints (setup_part run) w = (Some (Ok st), fs, s)" and
    i: "initialize cext (dns_server_client R (client_endpoint st) (client_token st)) (acme_part run) base
       [client_domain st] (start_time run) (start_pick run) fs s = (Some (Ok m), s1, fs')" and
    reach: "reaches R (client_endpoint st)"
    by (rule client_main_ok)
  from load_or_setup_stored [OF assms(3) l] initialize_other_files [OF i, of "state_path base"]
  obtain x where "fs' (state_path base) = Some x" "state_from_json R x = Some st"
    by auto
  then have again: "load_or_setup R base endpoints' u (fs', s2) = (Some (Ok st), fs', s2)" for u
    by (simp add: load_or_setup_def)
  note kept = initialize_stored [OF assms(1,2) i]
  obtain j where "initialize cext (dns_server_client R (client_endpoint st) (client_token st)) (acme_part run') base
      [client_domain st] (start_time run') (start_pick run') fs' s2 =
      (Some (Ok (m\<lparr>loaded := (loaded m)\<lparr>cert_info := j\<rparr>\<rparr>)), s2, fs')"
    using stored_restart [where ext = cext and m = m and base = base and fs = fs' and ds = "[client_domain st]"
        and add_txt = "dns_server_client R (client_endpoint st) (client_token st)" and ans = "acme_part run'"
        and now = "start_time run'" and pick = "start_pick run'" and dns = s2] kept
    by blast
  with again reach assms(5,6)
  show "\<exists>i. client_main R cext base endpoints' run' (fs', s2) =
      (Some (Ok (m\<lparr>loaded := (loaded m)\<lparr>cert_info := i\<rparr>\<rparr>, st)), fs', s3)"
    by (auto simp: client_main_def Let_def)
  show "client_main R cext base endpoints' run' (fs'(state_path base \<mapsto> ''''), s2) =
      (Some (Err ''json''), fs'(state_path base \<mapsto> ''''), s2)"
    using assms(3) by (simp add: client_main_def load_or_setup_def state_codec_ok_def)
qed

section \<open>Reconnecting\<close>

text \<open>
  The back-off library as configured: it never gives up, it waits at most one and a half times its current
  interval, the interval starts at one second, grows by half and never exceeds thirty seconds, and a
  reset starts it again.
\<close>

definition backoff_ok :: "'b backoff_ext \<Rightarrow> ('b \<Rightarrow> nat) \<Rightarrow> bool" where
  "backoff_ok bx interval \<longleftrightarrow>
     interval (new_backoff bx) = 1000 \<and> (\<forall>b. interval (backoff_reset bx b) = 1000) \<and>
     (\<forall>b. \<exists>d b'. next_backoff bx b = (Some d, b') \<and> 2 * d \<le> 3 * interval b \<and>
        interval b' = min 30000 (interval b * 3 div 2))"

text \<open>The interval after failures.\<close>

primrec grown :: "nat \<Rightarrow> nat" where
  "grown 0 = 1000"
| "grown (Suc n) = min 30000 (grown n * 3 div 2)"

text \<open>The number of failures just before each attempt, not counting the attempts before a success.\<close>

fun failures_before :: "nat \<Rightarrow> bool list \<Rightarrow> nat list" where
  "failures_before n [] = []"
| "failures_before n (connected # rest) = n # failures_before (if connected then 0 else Suc n) rest"

lemma grown_bound: "grown n \<le> 30000"
  by (cases n) simp_all

lemma grown_mono: "grown n \<le> grown (Suc n)"
  using grown_bound [of n] by simp

lemma client_loop_delays:
  assumes "backoff_ok bx interval"
  shows "interval b \<le> grown n \<Longrightarrow>
    \<exists>ds. client_loop bx initial b attempts = Ok ds \<and>
      list_all2 (\<lambda>d k. 2 * d \<le> 3 * grown k) ds (failures_before n attempts) \<and>
      (initial \<longrightarrow> attempts \<noteq> [] \<longrightarrow> hd ds = 0)"
proof (induction attempts arbitrary: initial b n)
  case (Cons connected attempts)
  obtain d b' where next_eq: "(if initial then (Some 0, b) else next_backoff bx b) = (Some d, b')"
    and d: "2 * d \<le> 3 * grown n" and zero: "initial \<Longrightarrow> d = 0" and b': "interval b' \<le> grown (Suc n)"
  proof (cases initial)
    case True
    with that [of 0 b] Cons.prems grown_mono [of n] show ?thesis by simp
  next
    case False
    from assms obtain d b' where "next_backoff bx b = (Some d, b')" "2 * d \<le> 3 * interval b"
      "interval b' = min 30000 (interval b * 3 div 2)"
      unfolding backoff_ok_def by metis
    moreover from this Cons.prems have "interval b' \<le> grown (Suc n)"
      by (simp add: div_le_mono min.coboundedI2)
    ultimately show ?thesis using that [of d b'] False Cons.prems by simp
  qed
  let ?b = "if connected then backoff_reset bx b' else b'" and ?n = "if connected then 0 else Suc n"
  have "interval ?b \<le> grown ?n" using b' assms by (simp add: backoff_ok_def)
  from Cons.IH [OF this, of False] obtain ds where
    "client_loop bx False ?b attempts = Ok ds"
    "list_all2 (\<lambda>d k. 2 * d \<le> 3 * grown k) ds (failures_before ?n attempts)"
    by blast
  with next_eq d zero show ?case by auto
qed simp

text \<open>
  The client never stops trying: whatever its attempts bring, it makes the next one, the first at once,
  and before each of the others it waits at most one and a half times the interval that the failures since
  its last connection give: one second grown by half with each failure, at most thirty seconds.
\<close>

theorem reconnect_delays:
  assumes "backoff_ok bx interval"
  shows "\<exists>ds. run_client bx attempts = Ok ds \<and> length ds = length attempts \<and>
    (attempts \<noteq> [] \<longrightarrow> hd ds = 0) \<and> list_all (\<lambda>d. d \<le> 45000) ds \<and>
    list_all2 (\<lambda>d k. 2 * d \<le> 3 * grown k) ds (failures_before 0 attempts)"
proof -
  have "interval (new_backoff bx) \<le> grown 0" using assms by (simp add: backoff_ok_def)
  from client_loop_delays [OF assms this, of True attempts] obtain ds where
    ds: "run_client bx attempts = Ok ds" "attempts \<noteq> [] \<Longrightarrow> hd ds = 0"
    "list_all2 (\<lambda>d k. 2 * d \<le> 3 * grown k) ds (failures_before 0 attempts)"
    by (auto simp: run_client_def)
  have "length (failures_before n attempts) = length attempts" for n
    by (induction attempts arbitrary: n) simp_all
  with ds(3) have "length ds = length attempts" by (simp add: list_all2_lengthD)
  moreover have "d \<le> 45000" if "2 * d \<le> 3 * grown k" for d k
    using that grown_bound [of k] by linarith
  with ds(3) have "list_all (\<lambda>d. d \<le> 45000) ds"
    by (auto simp: list_all_length list_all2_conv_all_nth)
  ultimately show ?thesis using ds by blast
qed


section \<open>A concrete client\<close>

definition sample_tunnel_client :: ClientState where
  "sample_tunnel_client = \<lparr>client_endpoint = ''https://t'', client_token = ''02'', client_domain = ''home.test.local''\<rparr>"

definition sample_remote :: "(string, (string \<times> nat \<times> string RData) list, u8, unit) remote" where
  "sample_remote = \<lparr>web_lib = sample_ext, web_state = sample_state, dns_lib = sample_dns,
     tunnel_lib = sample_tunnel\<lparr>hello_from_json := (\<lambda>bs.
       if bs = [7] then Some \<lparr>hello_domain = ''home.test.local'', hello_token = ''02''\<rparr> else None)\<rparr>,
     info_response = \<lparr>quic_endpoint = ''t:443'', public_endpoint = ''t'', public_ip = ''1.2.3.4''\<rparr>,
     reaches = (\<lambda>url. url = ''https://t''),
     keeps_polling = (\<lambda>r. case r of Some a \<Rightarrow> body a = OauthError ''authorization_pending'' | None \<Rightarrow> True),
     parse_ip = (\<lambda>_. Some (1, 2, 3, 4)),
     state_to_json = (\<lambda>st. replicate (Suc (to_nat (client_endpoint st, client_token st, client_domain st))) (CHR ''1'')),
     state_from_json = (\<lambda>x. case x of [] \<Rightarrow> None
       | c # cs \<Rightarrow> (case from_nat (length cs) of (e, t, d) \<Rightarrow>
           Some \<lparr>client_endpoint = e, client_token = t, client_domain = d\<rparr>)),
     hello_to_json = (\<lambda>_. [7])\<rparr>"

text \<open>One poll before the approval and one after it; a new name under the second entry of the menu.\<close>

definition sample_setup :: setup_run where
  "sample_setup = \<lparr>tunnel_pick = Some 0, custom_endpoint = None,
     device = \<lparr>code_entropy = sample_entropy,
       rounds = [\<lparr>others = [], expired = False, poll_entropy = sample_entropy\<rparr>,
         \<lparr>others = [(sample_entropy, approve_request ''s1'' ''0123-4567'')], expired = False,
          poll_entropy = sample_entropy\<lparr>key1 := [2]\<rparr>\<rparr>],
       probe_entropy = sample_entropy\<rparr>,
     info_entropy = sample_entropy,
     domain_prompts = [\<lparr>domain_pick = Some 0, name_prefix = None, confirmed = Some False\<rparr>,
       \<lparr>domain_pick = Some 1, name_prefix = Some ''home'', confirmed = Some True\<rparr>],
     register_entropy = sample_entropy\<rparr>"

definition sample_tunnel_server :: "(string \<times> nat \<times> string RData) list dns_state" where
  "sample_tunnel_server = \<lparr>persistence = sample_db\<lparr>sessions := [\<lparr>session_id = ''s1'', session_user_id = ''u1''\<rparr>]\<rparr>,
     authority = []\<rparr>"

lemma sample_polling: "polling_ok sample_remote"
  by (simp add: polling_ok_def sample_remote_def ok_body_def)

lemma sample_goes_well:
  "setup_goes_well sample_remote [''https://t''] sample_setup (persistence sample_tunnel_server) ''s1'' ''u1'' sample_tunnel_client"
  unfolding setup_goes_well_def
proof (intro conjI exI)
  let ?db = "persistence sample_tunnel_server"
  show "choose_endpoint [''https://t''] sample_setup = Ok (client_endpoint sample_tunnel_client)" by code_simp
  show "reaches sample_remote (client_endpoint sample_tunnel_client)"
    by (simp add: sample_remote_def sample_tunnel_client_def)
  show "logged_in ?db ''s1'' ''u1''"
    by (simp add: logged_in_def is_user_def sample_tunnel_server_def sample_db_def)
  show "fresh_codes (code_entropy (device sample_setup)) ?db" by code_simp
  show "approving_rounds ''s1'' (make_random_challenge_string (picks (code_entropy (device sample_setup))))
      (rounds (device sample_setup))"
    by (simp add: approving_rounds_def sample_setup_def sample_entropy_def make_random_challenge_string_def
        CHARSET_def)
  show "client_token sample_tunnel_client = make_random_hex_string (key1 (poll_entropy (last (rounds (device sample_setup)))))"
    by code_simp
  show "client_token sample_tunnel_client \<notin> auth_id ` set (auth_tokens ?db)" by code_simp
  have "domains_of ''u1'' ?db = [''x.example.com'']" by code_simp
  then show "choose_domain (domain_choices (domains_of ''u1'' ?db) (available_suffixes (web_state sample_remote)))
      (domain_prompts sample_setup) = Some (Ok (client_domain sample_tunnel_client, True))"
    by (simp add: domain_choices_def sample_setup_def select_prompt_def text_prompt_def sample_remote_def
        sample_state_def sample_tunnel_client_def)
  show "True \<longrightarrow> \<not> is_owned ?db (client_domain sample_tunnel_client)" by code_simp
qed

lemma sample_hello:
  "hello_from_json (tunnel_lib sample_remote) (take 1024 (hello_to_json sample_remote
     \<lparr>hello_domain = client_domain sample_tunnel_client, hello_token = client_token sample_tunnel_client\<rparr>)) =
   Some \<lparr>hello_domain = client_domain sample_tunnel_client, hello_token = client_token sample_tunnel_client\<rparr>"
  by (simp add: sample_remote_def sample_tunnel_client_def)

lemma sample_names:
  "extract_host (quic_endpoint (info_response sample_remote)) \<noteq> None"
  "name_from_str (dns_lib sample_remote) n = Some n"
  "\<not> prefix ''_acme-challenge.'' (client_domain sample_tunnel_client)" "\<not> prefix ''*.'' (client_domain sample_tunnel_client)"
  by (simp_all add: sample_remote_def sample_tunnel_client_def extract_host_def)

lemma new_client_is_reachable_witness:
  "\<exists>db. run_interactive_setup sample_remote [''https://t''] sample_setup sample_tunnel_server =
     (Some (Ok sample_tunnel_client), sample_tunnel_server\<lparr>persistence := db\<rparr>) \<and>
   open_conn sample_remote sample_tunnel_client True db = Ok ''home.test.local'' \<and>
   route_visitor ''t'' (register_conn 1 ''home.test.local'' (empty_hub db)) (Some ''home.test.local'') = Ok (Some 1)"
proof -
  have dn: "client_domain sample_tunnel_client = ''home.test.local''" "''home.test.local'' \<noteq> ''t''"
    by (simp_all add: sample_tunnel_client_def)
  obtain db where start: "run_interactive_setup sample_remote [''https://t''] sample_setup sample_tunnel_server =
      (Some (Ok sample_tunnel_client), sample_tunnel_server\<lparr>persistence := db\<rparr>)"
    and conn: "open_conn sample_remote sample_tunnel_client True db = Ok (client_domain sample_tunnel_client)"
    and hubs: "\<forall>h c. hub_db h = db \<and> c \<notin> opened h \<and> client_domain sample_tunnel_client \<noteq> ''t'' \<longrightarrow>
       hub_step (tunnel_lib sample_remote) h (register_conn c (client_domain sample_tunnel_client) h) \<and>
       route_visitor ''t'' (register_conn c (client_domain sample_tunnel_client) h)
         (Some (client_domain sample_tunnel_client)) = Ok (Some c)"
    using new_client_is_reachable [OF sample_polling sample_goes_well sample_hello sample_names(1,2,3,4),
        where hostname = "''t''"]
    by blast
  have "hub_db (empty_hub db) = db" "1 \<notin> opened (empty_hub db)"
    by (simp_all add: empty_hub_def)
  with hubs dn have "route_visitor ''t'' (register_conn 1 ''home.test.local'' (empty_hub db))
      (Some ''home.test.local'') = Ok (Some 1)"
    unfolding dn(1) by blast
  with start conn show ?thesis unfolding dn(1) by blast
qed

text \<open>The back-off: the interval itself is the state.\<close>

definition sample_backoff :: "nat backoff_ext" where
  "sample_backoff = \<lparr>new_backoff = 1000, next_backoff = (\<lambda>b. (Some b, min 30000 (b * 3 div 2))),
     backoff_reset = (\<lambda>_. 1000)\<rparr>"

lemma reconnect_delays_witness:
  "run_client sample_backoff [False, False, True, True] = Ok [0, 1000, 1500, 1000] \<and>
   list_all2 (\<lambda>d k. 2 * d \<le> 3 * grown k) [0, 1000, 1500, 1000] [0, 1, 2, 0]"
proof -
  have ok: "backoff_ok sample_backoff id" by (simp add: backoff_ok_def sample_backoff_def)
  have run: "run_client sample_backoff [False, False, True, True] = Ok [0, 1000, 1500, 1000]"
    by (simp add: run_client_def sample_backoff_def)
  have count: "failures_before 0 [False, False, True, True] = [0, 1, 2, 0]"
    by (simp add: numeral_2_eq_2)
  obtain ds where ds: "run_client sample_backoff [False, False, True, True] = Ok ds"
    "list_all2 (\<lambda>d k. 2 * d \<le> 3 * grown k) ds (failures_before 0 [False, False, True, True])"
    using reconnect_delays [OF ok] by blast
  from ds(1) run have eq: "ds = [0, 1000, 1500, 1000]" by (metis outcome.inject(1))
  from ds(2) run show ?thesis unfolding eq count by blast
qed


text \<open>A first start in a directory that has a certificate for the domain, and the starts after it.\<close>

definition sample_start :: client_start where
  "sample_start = \<lparr>setup_part = sample_setup, acme_part = no_answers, start_time = 0, start_pick = 0\<rparr>"

definition sample_client_disk :: files where
  "sample_client_disk = last (write_files (cert_writes sample_cert_ext ''/data'' ''home.test.local'' (sample_cert ''old''))
     (Map.empty(credentials_path ''/data'' \<mapsto> ''{}'')))"

lemma sample_state_codec: "state_codec_ok sample_remote"
  by (simp add: state_codec_ok_def sample_remote_def)

lemma first_start_ok:
  assumes "load_or_setup R base endpoints (setup_part run) w = (Some (Ok st), fs, s)"
    and "account_ok cext base fs"
    and "load_certs cext base (cert_name cext [client_domain st]) fs = Ok (Some c)"
    and "certified_key cext (cert c) (key c) = Some ck" and "reaches R (client_endpoint st)"
    and "parse_ip R (public_ip (info_response R)) = Some ip"
    and "dns_post R (client_endpoint st) (client_token st) (SetA (client_domain st @ ''.'') ip) s = (True, s')"
  shows "client_main R cext base endpoints run w =
    (Some (Ok (\<lparr>loaded = c, acceptor = \<lparr>resolver_key = Some ck\<rparr>,
       cert_maintained = cert_name cext [client_domain st]\<rparr>, st)), fs, s')"
  using assms(1,4-7) by (simp add: client_main_def Let_def initialize_loaded [OF assms(2,3)])

lemma client_restarts_unattended_witness:
  "\<exists>m fs' s2 s3 i.
     client_main sample_remote sample_cert_ext ''/data'' [''https://t''] sample_start
       (sample_client_disk, sample_tunnel_server) = (Some (Ok (m, sample_tunnel_client)), fs', s3) \<and>
     client_main sample_remote sample_cert_ext ''/data'' [] sample_start (fs', s2) =
       (Some (Ok (m\<lparr>loaded := (loaded m)\<lparr>cert_info := i\<rparr>\<rparr>, sample_tunnel_client)), fs', s3) \<and>
     client_main sample_remote sample_cert_ext ''/data'' [] sample_start (fs'(state_path ''/data'' \<mapsto> ''''), s2) =
       (Some (Err ''json''), fs'(state_path ''/data'' \<mapsto> ''''), s2)"
proof -
  let ?fs = "sample_client_disk(state_path ''/data'' \<mapsto> state_to_json sample_remote sample_tunnel_client)"
  obtain db where su: "run_interactive_setup sample_remote [''https://t''] sample_setup sample_tunnel_server =
      (Some (Ok sample_tunnel_client), sample_tunnel_server\<lparr>persistence := db\<rparr>)"
    and tok: "token_user db (client_token sample_tunnel_client) ''u1''"
    and dom: "client_domain sample_tunnel_client \<in> set (domains_of ''u1'' db)"
    using setup_ok [OF sample_polling sample_goes_well] by blast
  let ?s = "sample_tunnel_server\<lparr>persistence := db\<rparr>" and ?ip = "(1, 2, 3, 4)"
  have reach: "reaches sample_remote (client_endpoint sample_tunnel_client)"
    and ip: "parse_ip sample_remote (public_ip (info_response sample_remote)) = Some ?ip"
    by (simp_all add: sample_remote_def sample_tunnel_client_def)
  note post = owner_sets_address [of ?s, simplified, OF tok dom reach sample_names(2,3,4), of ?ip]
  have none: "sample_client_disk (state_path ''/data'') = None"
    by (simp add: sample_client_disk_def write_files_states Let_def)
  then have load: "load_or_setup sample_remote ''/data'' [''https://t''] (setup_part sample_start)
      (sample_client_disk, sample_tunnel_server) = (Some (Ok sample_tunnel_client), ?fs, ?s)"
    using su by (simp add: load_or_setup_def sample_start_def)
  have acc: "account_ok sample_cert_ext ''/data'' ?fs"
    by (simp add: account_ok_def sample_client_disk_def write_files_states Let_def sample_cert_ext_def)
  have name: "cert_name sample_cert_ext [client_domain sample_tunnel_client] = ''home.test.local''"
    by (simp add: cert_name_def sample_tunnel_client_def sample_cert_ext_def)
  have certs: "load_certs sample_cert_ext ''/data'' (cert_name sample_cert_ext [client_domain sample_tunnel_client]) ?fs =
      Ok (Some (sample_cert ''old''))"
    using load_written [OF sample_info_codec]
    by (simp add: load_certs_state_file sample_client_disk_def name)
  have ck: "certified_key sample_cert_ext (cert (sample_cert ''old'')) (key (sample_cert ''old'')) = Some ''old''"
    by (simp add: sample_cert_ext_def sample_cert_def)
  have codec: "account_codec_ok sample_cert_ext" by (simp add: account_codec_ok_def sample_cert_ext_def)
  note run = first_start_ok [OF load acc certs ck reach ip post]
  from client_restarts_unattended [OF sample_info_codec codec sample_state_codec run ip post,
      where endpoints' = "[]" and run' = sample_start] run
  show ?thesis by blast
qed

end
