(* ===== verification/TunnelMain.thy ===== *)
theory TunnelMain
  imports TunnelClient
begin

text \<open>
  The programs around the tunnel: the command line (\<^verbatim>\<open>main.rs\<close>), the start of a client from another program
  (\<^verbatim>\<open>lib.rs\<close>), and \<^verbatim>\<open>server_main\<close> of \<^verbatim>\<open>server.rs\<close>, which opens the database, starts the DNS server, obtains the
  certificate of its host name and then runs five tasks until it is interrupted. Shown: a start on a
  database of any version and stored certificates publishes the host name and serves its key; a
  failure while starting ends the program, while a failure of a running task is not noticed: the
  program waits for an interrupt even when nothing runs any more; after an interrupt it ends in
  finitely many steps.
\<close>

section \<open>Configuration and command line\<close>

record Environment =
  acme_server_url :: string
  base_dir :: string

definition env_prod :: "string \<Rightarrow> string \<Rightarrow> Environment" where
  "env_prod letsencrypt_url dir = \<lparr>acme_server_url = letsencrypt_url, base_dir = dir\<rparr>"

definition env_test :: "string \<Rightarrow> Environment" where
  "env_test dir = \<lparr>acme_server_url = ''https://pebble:14000/dir'', base_dir = dir\<rparr>"

definition read_optional_json_file :: "(string \<Rightarrow> 'c option) \<Rightarrow> string \<Rightarrow> files \<Rightarrow> (string, 'c option) outcome" where
  "read_optional_json_file from_json path fs =
     (case fs path of
        None \<Rightarrow> Ok None
      | Some text \<Rightarrow> (case from_json text of Some c \<Rightarrow> Ok (Some c) | None \<Rightarrow> Err ''json''))"

definition read_json_file :: "(string \<Rightarrow> 'c option) \<Rightarrow> string \<Rightarrow> files \<Rightarrow> (string, 'c) outcome" where
  "read_json_file from_json path fs =
     (case read_optional_json_file from_json path fs of
        Ok (Some c) \<Rightarrow> Ok c
      | Ok None \<Rightarrow> Err ''missing file''
      | Err e \<Rightarrow> Err e
      | Panic \<Rightarrow> Panic)"

record ServerConfig =
  cfg_http_listen_addr :: "string option"
  cfg_web_base_url :: string
  cfg_https_listen_addr :: string
  cfg_quinn_listen_addr :: string
  cfg_dns_listen_addr :: string
  cfg_dns_catalog_name :: string
  cfg_quinn_endpoint :: string
  cfg_hostname :: string
  cfg_public_ip :: string
  cfg_available_suffixes :: "string list"
  cfg_github_oauth2_client_id :: string
  cfg_github_oauth2_client_secret :: string
  cfg_enable_acme :: bool
  cfg_enable_test_login :: bool

record ClientConfig =
  cfg_endpoints :: "string list"

record Args =
  args_test :: bool
  args_command :: string
  args_directory :: string
  args_domain :: "string option"

datatype command = RunServer Environment ServerConfig | RunClient Environment ClientConfig | FetchUrl string

text \<open>Outside code: the address of the ACME server in production and the JSON of the configurations.\<close>

record main_ext =
  letsencrypt :: string
  server_config_from_json :: "string \<Rightarrow> ServerConfig option"
  client_config_from_json :: "string \<Rightarrow> ClientConfig option"

definition make_env :: "main_ext \<Rightarrow> Args \<Rightarrow> Environment" where
  "make_env ext args =
     (if args_test args then env_test (args_directory args)
      else env_prod (letsencrypt ext) (args_directory args))"

definition main_command :: "main_ext \<Rightarrow> Args \<Rightarrow> files \<Rightarrow> (string, command) outcome" where
  "main_command ext args fs =
     (let env = make_env ext args; path = join_path (base_dir env) ''config.json'' in
      if args_command args = ''server'' then
        (case read_json_file (server_config_from_json ext) path fs of
           Ok c \<Rightarrow> Ok (RunServer env c) | Err e \<Rightarrow> Err e | Panic \<Rightarrow> Panic)
      else if args_command args = ''client'' then
        (case read_json_file (client_config_from_json ext) path fs of
           Ok c \<Rightarrow> Ok (RunClient env c) | Err e \<Rightarrow> Err e | Panic \<Rightarrow> Panic)
      else if args_command args = ''test'' then
        (case args_domain args of Some url \<Rightarrow> Ok (FetchUrl url) | None \<Rightarrow> Err ''need domain'')
      else Err (''unknown command '' @ args_command args))"

definition DEFAULT_ENDPOINTS :: "string list" where
  "DEFAULT_ENDPOINTS = [''https://tunnel.nunya.cloud'']"

text \<open>The client inside another program: without a configuration file the default endpoints are offered.\<close>

definition run_client_config :: "main_ext \<Rightarrow> string \<Rightarrow> files \<Rightarrow> (string, Environment \<times> ClientConfig) outcome" where
  "run_client_config ext dir fs =
     (let env = env_prod (letsencrypt ext) dir in
      case read_optional_json_file (client_config_from_json ext) (join_path (base_dir env) ''config.json'') fs of
        Ok c \<Rightarrow> Ok (env, case c of Some c \<Rightarrow> c | None \<Rightarrow> \<lparr>cfg_endpoints = DEFAULT_ENDPOINTS\<rparr>)
      | Err e \<Rightarrow> Err e
      | Panic \<Rightarrow> Panic)"

section \<open>Start of the server\<close>

text \<open>
  Outside code: the names, records and authority of the DNS library, the ACME and TLS libraries, the
  parsers of addresses and URLs, and whether an address is free to listen on.
\<close>

record ('n, 'z, 'ck) server_libs =
  srv_dns :: "('n, 'z) dns_ext"
  srv_cert :: "'ck cert_ext"
  url_ok :: "string \<Rightarrow> bool"
  socket_addr_ok :: "string \<Rightarrow> bool"
  parse_ipv4 :: "string \<Rightarrow> (nat \<times> nat \<times> nat \<times> nat) option"
  can_bind :: "string \<Rightarrow> bool"

datatype task = HttpListener | DnsServer | MaintainCerts | QuinnServer | TlsListener

text \<open>
  The first half: database, web router, HTTP listener, DNS server. The database is migrated before
  anything can fail; what the two important tasks find when they run is left to them.
\<close>

definition open_server ::
  "('n, 'z, 'ck) server_libs \<Rightarrow> ServerConfig \<Rightarrow> schema \<Rightarrow> tdb \<Rightarrow>
   (string, task list \<times> 'z dns_state) outcome \<times> schema"
where
  "open_server L cfg sch db =
     (case migrate sch of
        (False, sch) \<Rightarrow> (Err ''migrate'', sch)
      | (True, sch) \<Rightarrow>
          (if \<not> url_ok L (cfg_web_base_url cfg @ ''/login/callback'') then Err ''url''
           else if \<not> socket_addr_ok L (cfg_dns_listen_addr cfg) then Err ''address''
           else (case make_dns_server (srv_dns L) (cfg_dns_catalog_name cfg)
                        (can_bind L (cfg_dns_listen_addr cfg)) db of
                   Ok s \<Rightarrow> Ok ((if cfg_http_listen_addr cfg = None then [] else [HttpListener]) @ [DnsServer], s)
                 | Err e \<Rightarrow> Err e
                 | Panic \<Rightarrow> Panic), sch))"

text \<open>The server is its own DNS client: no token, no ownership.\<close>

definition server_dns_client :: "('n, 'z, 'ck) server_libs \<Rightarrow> 'z dns_state dns_client" where
  "server_dns_client L name v s =
     (case add_txt_record (srv_dns L) name v s of (Ok _, s) \<Rightarrow> (True, s) | (_, s) \<Rightarrow> (False, s))"

text \<open>
  The second half, with ACME: the address record of the host name, its certificate, and the listeners. The
  address for QUIC is parsed here but bound by its task; the address for TLS is bound here.
\<close>

definition start_acme ::
  "('n, 'z, 'ck) server_libs \<Rightarrow> string \<Rightarrow> ServerConfig \<Rightarrow> order_answers \<Rightarrow> int \<Rightarrow> int \<Rightarrow> files \<times> 'z dns_state \<Rightarrow>
   (string, 'ck CertMaintainer) outcome option \<times> files \<times> 'z dns_state"
where
  "start_acme L base cfg ans now pick w =
     (case parse_ipv4 L (cfg_public_ip cfg) of
        None \<Rightarrow> (Some (Err ''ip''), w)
      | Some ip \<Rightarrow>
          (case add_a_record (srv_dns L) (cfg_hostname cfg @ ''.'') ip (snd w) of
             (Err e, s) \<Rightarrow> (Some (Err e), fst w, s)
           | (Panic, s) \<Rightarrow> (Some Panic, fst w, s)
           | (Ok _, s) \<Rightarrow>
               bind_wait (case initialize (srv_cert L) (server_dns_client L) ans base [cfg_hostname cfg] now pick
                            (fst w) s of (r, s, fs) \<Rightarrow> (r, fs, s)) (\<lambda>m w.
                 if \<not> socket_addr_ok L (cfg_quinn_listen_addr cfg) then (Some (Err ''address''), w)
                 else if \<not> can_bind L (cfg_https_listen_addr cfg) then (Some (Err ''bind''), w)
                 else (Some (Ok m), w))))"

text \<open>The tasks a started server runs: those it waits for, and those it has detached.\<close>

record 'ck started =
  important_tasks :: "task list"
  detached_tasks :: "task list"
  maintainer :: "'ck CertMaintainer option"

definition server_start ::
  "('n, 'z, 'ck) server_libs \<Rightarrow> string \<Rightarrow> ServerConfig \<Rightarrow> order_answers \<Rightarrow> int \<Rightarrow> int \<Rightarrow> schema \<Rightarrow> files \<Rightarrow> tdb \<Rightarrow>
   (string, 'ck started) outcome option \<times> schema \<times> files \<times> tdb \<times> 'z option"
where
  "server_start L base cfg ans now pick sch fs db =
     (case open_server L cfg sch db of
        (Err e, sch) \<Rightarrow> (Some (Err e), sch, fs, db, None)
      | (Panic, sch) \<Rightarrow> (Some Panic, sch, fs, db, None)
      | (Ok (ts, s), sch) \<Rightarrow>
          (if cfg_enable_acme cfg then
             (case start_acme L base cfg ans now pick (fs, s) of
                (Some (Ok m), fs, s) \<Rightarrow>
                  (Some (Ok \<lparr>important_tasks = ts, detached_tasks = [MaintainCerts, QuinnServer, TlsListener],
                     maintainer = Some m\<rparr>), sch, fs, persistence s, Some (authority s))
              | (Some (Err e), fs, s) \<Rightarrow> (Some (Err e), sch, fs, persistence s, None)
              | (Some Panic, fs, s) \<Rightarrow> (Some Panic, sch, fs, persistence s, None)
              | (None, fs, s) \<Rightarrow> (None, sch, fs, persistence s, Some (authority s)))
           else (Some (Ok \<lparr>important_tasks = ts, detached_tasks = [], maintainer = None\<rparr>),
                 sch, fs, persistence s, Some (authority s))))"

lemma upsert_row_twice: "upsert_row x (upsert_row x rows) = upsert_row x rows"
  by (induction rows) auto

lemma open_server_opens:
  assumes "sch = empty_schema \<or> (\<exists>n \<le> 5. sch = schema_at n)" and "codecs_ok (srv_dns L)"
    and "url_ok L (cfg_web_base_url cfg @ ''/login/callback'')" and "socket_addr_ok L (cfg_dns_listen_addr cfg)"
    and "can_bind L (cfg_dns_listen_addr cfg)" and "name_from_str (srv_dns L) (cfg_dns_catalog_name cfg) \<noteq> None"
    and "dns_records db = rows_of (srv_dns L) es" and "list_all (lowered (srv_dns L)) es"
  shows "\<exists>z. open_server L cfg sch db =
    (Ok ((if cfg_http_listen_addr cfg = None then [] else [HttpListener]) @ [DnsServer],
       \<lparr>persistence = db, authority = z\<rparr>), schema_at 5)"
  using assms load_rows [OF assms(2,8)]
  by (auto simp: open_server_def migrate_completes make_dns_server_def Let_def)

lemma start_acme_starts:
  assumes "parse_ipv4 L (cfg_public_ip cfg) = Some ip"
    and "name_from_str (srv_dns L) (cfg_hostname cfg @ ''.'') = Some h"
    and "account_ok (srv_cert L) base fs"
    and "load_certs (srv_cert L) base (cert_name (srv_cert L) [cfg_hostname cfg]) fs = Ok (Some c)"
    and "certified_key (srv_cert L) (cert c) (key c) = Some ck"
    and "socket_addr_ok L (cfg_quinn_listen_addr cfg)" and "can_bind L (cfg_https_listen_addr cfg)"
  shows "start_acme L base cfg ans now pick (fs, s) =
    (Some (Ok \<lparr>loaded = c, acceptor = \<lparr>resolver_key = Some ck\<rparr>,
        cert_maintained = cert_name (srv_cert L) [cfg_hostname cfg]\<rparr>),
     fs, stored (srv_dns L) (lower_name (srv_dns L) h) (A ip) s)"
  using assms by (simp add: start_acme_def add_a_record_def add_record_eq initialize_loaded)

text \<open>
  C39. On a new database or one of any earlier version, with records as the DNS server stores them and a stored
  certificate for the host name, the server starts: it waits for the DNS server and, if configured, the
  HTTP listener, runs certificate maintenance, QUIC and TLS listeners, and serves the stored key. The
  database then has the current schema and the configured address for the host name, which is also
  given to the authority; every later start on what it left succeeds the same way and changes nothing.
\<close>

theorem server_start_publishes:
  assumes "sch = empty_schema \<or> (\<exists>n \<le> 5. sch = schema_at n)" and "codecs_ok (srv_dns L)"
    and "url_ok L (cfg_web_base_url cfg @ ''/login/callback'')" and "socket_addr_ok L (cfg_dns_listen_addr cfg)"
    and "can_bind L (cfg_dns_listen_addr cfg)" and "name_from_str (srv_dns L) (cfg_dns_catalog_name cfg) \<noteq> None"
    and "dns_records db = rows_of (srv_dns L) es" and "list_all (lowered (srv_dns L)) es"
    and "parse_ipv4 L (cfg_public_ip cfg) = Some ip"
    and "name_from_str (srv_dns L) (cfg_hostname cfg @ ''.'') = Some h"
    and "account_ok (srv_cert L) base fs"
    and "load_certs (srv_cert L) base (cert_name (srv_cert L) [cfg_hostname cfg]) fs = Ok (Some c)"
    and "certified_key (srv_cert L) (cert c) (key c) = Some ck"
    and "socket_addr_ok L (cfg_quinn_listen_addr cfg)" and "can_bind L (cfg_https_listen_addr cfg)"
    and "cfg_enable_acme cfg" and "n = lower_name (srv_dns L) h"
  shows "\<exists>st m db' z z'. server_start L base cfg ans now pick sch fs db =
      (Some (Ok st), schema_at 5, fs, db', Some (upsert (srv_dns L) n 1 (A ip) z)) \<and>
    important_tasks st = (if cfg_http_listen_addr cfg = None then [] else [HttpListener]) @ [DnsServer] \<and>
    detached_tasks st = [MaintainCerts, QuinnServer, TlsListener] \<and>
    maintainer st = Some m \<and> resolve (acceptor m) = Some ck \<and>
    stored_row db' (name_to_string (srv_dns L) n) ''A'' = Some (record_row (srv_dns L) n (A ip)) \<and>
    server_start L base cfg ans' now' pick' (schema_at 5) fs db' =
      (Some (Ok st), schema_at 5, fs, db', Some (upsert (srv_dns L) n 1 (A ip) z'))"
proof -
  let ?s = "\<lambda>db z. stored (srv_dns L) n (A ip) \<lparr>persistence = db, authority = z\<rparr>"
  let ?m = "\<lparr>loaded = c, acceptor = \<lparr>resolver_key = Some ck\<rparr>,
    cert_maintained = cert_name (srv_cert L) [cfg_hostname cfg]\<rparr>"
  note acme = start_acme_starts [OF assms(9-15), folded assms(17)]
  obtain z where z: "open_server L cfg sch db =
      (Ok ((if cfg_http_listen_addr cfg = None then [] else [HttpListener]) @ [DnsServer],
       \<lparr>persistence = db, authority = z\<rparr>), schema_at 5)"
    using open_server_opens [OF assms(1-8)] by blast
  have low: "lowered (srv_dns L) (n, A ip)" using assms(2,17) by (auto simp: lowered_def codecs_ok_def)
  let ?db = "persistence (?s db z)"
  have rows: "dns_records ?db = rows_of (srv_dns L) (put_latest (n, A ip) es)"
    using rows_put_latest [OF assms(2,8) low] by (simp add: stored_def assms(7))
  obtain z' where z': "open_server L cfg (schema_at 5) ?db =
      (Ok ((if cfg_http_listen_addr cfg = None then [] else [HttpListener]) @ [DnsServer],
       \<lparr>persistence = ?db, authority = z'\<rparr>), schema_at 5)"
    using open_server_opens [OF _ assms(2-6) rows lowered_put [OF assms(8) low], of "schema_at 5"] by blast
  have same: "persistence (?s ?db z') = ?db" by (simp add: stored_def upsert_row_twice)
  have auth: "authority (?s db z) = upsert (srv_dns L) n 1 (A ip) z" for db z by (simp add: stored_def)
  let ?st = "\<lparr>important_tasks = (if cfg_http_listen_addr cfg = None then [] else [HttpListener]) @ [DnsServer],
    detached_tasks = [MaintainCerts, QuinnServer, TlsListener], maintainer = Some ?m\<rparr>"
  have 1: "server_start L base cfg ans now pick sch fs db =
      (Some (Ok ?st), schema_at 5, fs, ?db, Some (upsert (srv_dns L) n 1 (A ip) z))"
    by (simp add: server_start_def z assms(16) acme auth)
  have 2: "server_start L base cfg ans' now' pick' (schema_at 5) fs ?db =
      (Some (Ok ?st), schema_at 5, fs, ?db, Some (upsert (srv_dns L) n 1 (A ip) z'))"
    by (simp add: server_start_def z' assms(16) acme auth same)
  have 3: "stored_row ?db (name_to_string (srv_dns L) n) ''A'' = Some (record_row (srv_dns L) n (A ip))"
    using stored_row_stored [of "srv_dns L" n "A ip" "\<lparr>persistence = db, authority = z\<rparr>"] by simp
  have 4: "resolve (acceptor ?m) = Some ck" by (simp add: resolve_def)
  show ?thesis
    using 1 2 3 4
    by (intro exI [of _ ?st] exI [of _ ?m] exI [of _ ?db] exI [of _ z] exI [of _ z'] conjI)
      (simp_all only: started.select_convs)
qed

section \<open>A concrete server\<close>

definition sample_server_config :: ServerConfig where
  "sample_server_config = \<lparr>cfg_http_listen_addr = Some ''0.0.0.0:8080'', cfg_web_base_url = ''http://localhost:8080'',
     cfg_https_listen_addr = ''0.0.0.0:443'', cfg_quinn_listen_addr = ''0.0.0.0:4444'',
     cfg_dns_listen_addr = ''0.0.0.0:9999'', cfg_dns_catalog_name = ''x.'', cfg_quinn_endpoint = ''x:4444'',
     cfg_hostname = ''x'', cfg_public_ip = ''127.0.0.1'', cfg_available_suffixes = [''.x''],
     cfg_github_oauth2_client_id = '''', cfg_github_oauth2_client_secret = '''', cfg_enable_acme = True,
     cfg_enable_test_login = False\<rparr>"

definition sample_libs :: "(string, (string \<times> nat \<times> string RData) list, string) server_libs" where
  "sample_libs = \<lparr>srv_dns = sample_dns, srv_cert = sample_cert_ext, url_ok = (\<lambda>_. True), socket_addr_ok = (\<lambda>_. True),
     parse_ipv4 = (\<lambda>_. Some (127, 0, 0, 1)), can_bind = (\<lambda>_. True)\<rparr>"

lemma server_start_publishes_witness:
  "\<exists>st db' z z'. server_start sample_libs ''/data'' sample_server_config no_answers 0 0 empty_schema sample_files sample_dns_db =
      (Some (Ok st), schema_at 5, sample_files, db', Some (z @ [(''x.'', 1, A (127, 0, 0, 1))])) \<and>
    important_tasks st = [HttpListener, DnsServer] \<and>
    server_start sample_libs ''/data'' sample_server_config no_answers 9 9 (schema_at 5) sample_files db' =
      (Some (Ok st), schema_at 5, sample_files, db', Some (z' @ [(''x.'', 1, A (127, 0, 0, 1))]))"
proof -
  have low: "map lower_char ''x.'' = ''x.''" by code_simp
  have sch: "empty_schema = empty_schema \<or> (\<exists>n \<le> 5. empty_schema = schema_at n)" by blast
  have rows: "dns_records sample_dns_db = rows_of (srv_dns sample_libs) []"
    by (simp add: rows_of_def sample_dns_db_def sample_db_def empty_db_def)
  have key: "certified_key sample_cert_ext (cert (sample_cert ''old'')) (key (sample_cert ''old'')) = Some ''old''"
    by (simp add: sample_cert_ext_def sample_cert_def)
  show ?thesis
    using server_start_publishes [of empty_schema sample_libs sample_server_config sample_dns_db "[]" "(127, 0, 0, 1)" "''x.''"
        "''/data''" sample_files "sample_cert ''old''" "''old''" "''x.''" no_answers 0 0 no_answers 9 9,
        OF sch _ _ _ _ _ rows] sample_codecs sample_account sample_old key low
    by (simp add: sample_libs_def sample_server_config_def del: list.map) blast
qed

end
