(* ===== verification/TunnelRun.thy ===== *)
theory TunnelRun
  imports TunnelMain
begin

text \<open>
  The running server of \<^verbatim>\<open>server_main\<close>: the tasks, the token that stops them (\<^verbatim>\<open>ImportantTaskSet\<close>), and the wait for
  an interrupt. Runs are lists of events. Shown: what every run leads to; that the end of any tasks, even
  all of them, does not end the program; that after an interrupt it ends, and how.
\<close>

section \<open>Running\<close>

text \<open>
  A running server: the token that asks tasks to stop, what became of each task, and the main program, which
  waits for an interrupt, then for the important tasks. The process ends with the main program.
\<close>

datatype task_state = NotStarted | Active | Over "(string, unit) outcome"

datatype main_state = AwaitCtrlC | Joining | Exited "(string, unit) outcome"

record running =
  stopped :: bool
  task_states :: "task \<Rightarrow> task_state"
  main_state :: main_state

definition is_important :: "task \<Rightarrow> bool" where
  "is_important t \<longleftrightarrow> t = HttpListener \<or> t = DnsServer"

definition launch :: "'ck started \<Rightarrow> running" where
  "launch st =
     \<lparr>stopped = False,
      task_states = (\<lambda>t. if List.member (important_tasks st @ detached_tasks st) t then Active else NotStarted),
      main_state = AwaitCtrlC\<rparr>"

text \<open>
  What can happen: a task ends, the wait for the interrupt is over, the main program has seen all important
  tasks end. The wait ends with an interrupt (\<open>CtrlC True\<close>), or with an error because the program cannot
  listen for one (\<open>CtrlC False\<close>); the arm of the select ignores which. \<open>ImportantTaskSet::spawn\<close> cancels the token when its future returns, with or without an error; a panic
  unwinds past the cancellation. The results of the other tasks are dropped. Certificate maintenance and
  the TLS listener are endless loops that end only by an error. Joining passes on a panic.
\<close>

datatype run_event = TaskEnds task "(string, unit) outcome" | CtrlC bool | Join

definition endless :: "task \<Rightarrow> bool" where
  "endless t \<longleftrightarrow> t = MaintainCerts \<or> t = TlsListener"

fun happen :: "run_event \<Rightarrow> running \<Rightarrow> running option" where
  "happen (TaskEnds t r) s =
     (if (\<exists>e. main_state s = Exited e) \<or> task_states s t \<noteq> Active \<or> endless t \<and> r = Ok () then None
      else Some (s\<lparr>task_states := (task_states s)(t := Over r),
                   stopped := stopped s \<or> is_important t \<and> r \<noteq> Panic\<rparr>))"
| "happen (CtrlC interrupted) s =
     (if main_state s = AwaitCtrlC then Some (s\<lparr>stopped := True, main_state := Joining\<rparr>) else None)"
| "happen Join s =
     (if main_state s \<noteq> Joining then None
      else if task_states s HttpListener = Over Panic \<or> task_states s DnsServer = Over Panic
      then Some (s\<lparr>main_state := Exited Panic\<rparr>)
      else if task_states s HttpListener = Active \<or> task_states s DnsServer = Active then None
      else Some (s\<lparr>main_state := Exited (Ok ())\<rparr>))"

fun run_events :: "run_event list \<Rightarrow> running \<Rightarrow> running option" where
  "run_events [] s = Some s"
| "run_events (e # es) s = Option.bind (happen e s) (run_events es)"

lemma run_events_append: "run_events (es @ fs) s = Option.bind (run_events es s) (run_events fs)"
  by (induction es arbitrary: s) (auto split: Option.bind_split)

text \<open>What the events of a run say about its state, from a start without a panic or a stop.\<close>

definition run_inv :: "run_event list \<Rightarrow> running \<Rightarrow> running \<Rightarrow> bool" where
  "run_inv es s0 s \<longleftrightarrow>
     (main_state s = AwaitCtrlC \<longleftrightarrow> (\<forall>b. CtrlC b \<notin> set es)) \<and>
     (\<forall>t r. task_states s t = Over r \<longleftrightarrow> TaskEnds t r \<in> set es) \<and>
     (\<forall>t. task_states s t = NotStarted \<longleftrightarrow> task_states s0 t = NotStarted) \<and>
     (stopped s \<longleftrightarrow> (\<exists>b. CtrlC b \<in> set es) \<or> (\<exists>t r. is_important t \<and> r \<noteq> Panic \<and> TaskEnds t r \<in> set es)) \<and>
     (\<forall>r. main_state s = Exited r \<longrightarrow>
        (if \<exists>t. is_important t \<and> TaskEnds t Panic \<in> set es then r = Panic
         else r = Ok () \<and> (\<forall>t. is_important t \<longrightarrow> task_states s t \<noteq> Active)))"

definition fresh_run :: "running \<Rightarrow> bool" where
  "fresh_run s \<longleftrightarrow> \<not> stopped s \<and> main_state s = AwaitCtrlC \<and> (\<forall>t r. task_states s t \<noteq> Over r)"

lemma launch_fresh: "fresh_run (launch st)"
  by (simp add: fresh_run_def launch_def)

lemma happen_inv:
  assumes "run_inv es s0 s" and "happen e s = Some t"
  shows "run_inv (es @ [e]) s0 t"
proof (cases e)
  case (TaskEnds k r)
  have k: "task_states s k = Active" "\<forall>x. main_state s \<noteq> Exited x"
    and t: "t = s\<lparr>task_states := (task_states s)(k := Over r), stopped := stopped s \<or> is_important k \<and> r \<noteq> Panic\<rparr>"
    using assms(2) by (auto simp: TaskEnds split: if_splits)
  have "TaskEnds k x \<notin> set es" for x
    using assms(1) k(1) unfolding run_inv_def by (metis task_state.distinct(5))
  moreover have "task_states s0 k \<noteq> NotStarted"
    using assms(1) k(1) unfolding run_inv_def by (metis task_state.distinct(1))
  ultimately show ?thesis using assms(1) k
    unfolding run_inv_def t TaskEnds by auto
next
  case (CtrlC b)
  with assms show ?thesis by (auto simp: run_inv_def split: if_splits)
next
  case Join
  have main: "main_state s = Joining" using assms(2) by (auto simp: Join split: if_splits)
  with assms(1) have "\<exists>b. CtrlC b \<in> set es" by (auto simp: run_inv_def)
  with assms main show ?thesis
    by (auto simp: run_inv_def Join is_important_def split: if_splits)
qed

lemma run_inv_reach:
  assumes "fresh_run s0" and "run_events es s0 = Some s"
  shows "run_inv es s0 s"
  using assms(2)
proof (induction es arbitrary: s rule: rev_induct)
  case Nil
  with assms(1) show ?case by (auto simp: run_inv_def fresh_run_def)
next
  case (snoc e es)
  from snoc.prems obtain u where "run_events es s0 = Some u" "happen e u = Some s"
    by (auto simp: run_events_append split: Option.bind_splits)
  with snoc.IH show ?case using happen_inv by blast
qed

text \<open>Every event uses something up: an active task, the interrupt, the join.\<close>

definition all_tasks :: "task list" where
  "all_tasks = [HttpListener, DnsServer, MaintainCerts, QuinnServer, TlsListener]"

definition left_over :: "running \<Rightarrow> nat" where
  "left_over s =
     length (filter (\<lambda>t. task_states s t = Active) all_tasks) +
     (case main_state s of AwaitCtrlC \<Rightarrow> 2 | Joining \<Rightarrow> 1 | Exited r \<Rightarrow> 0)"

lemma filter_one_less:
  assumes "\<And>x. Q x \<Longrightarrow> P x" and "P k" and "\<not> Q k" and "k \<in> set xs"
  shows "length (filter Q xs) < length (filter P xs)"
  using assms(4)
proof (induction xs)
  case (Cons x xs)
  have "length (filter Q xs) \<le> length (filter P xs)"
    by (induction xs) (auto simp: assms(1))
  with Cons assms(1-3) show ?case by (cases "x = k") (auto simp: less_Suc_eq_le)
qed simp

lemma all_tasks_complete: "t \<in> set all_tasks"
  by (cases t) (simp_all add: all_tasks_def)

lemma happen_decreases: "happen e s = Some t \<Longrightarrow> left_over t < left_over s"
proof (cases e)
  case (TaskEnds k r)
  assume "happen e s = Some t"
  then have "task_states s k = Active" and "main_state t = main_state s"
    and "task_states t = (task_states s)(k := Over r)"
    by (auto simp: TaskEnds split: if_splits)
  then show ?thesis
    using filter_one_less [of "\<lambda>x. task_states t x = Active" "\<lambda>x. task_states s x = Active" k all_tasks]
    by (simp add: left_over_def all_tasks_complete split: if_splits)
qed (auto simp: left_over_def split: if_splits)

lemma run_events_bounded: "run_events es s = Some t \<Longrightarrow> length es + left_over t \<le> left_over s"
proof (induction es arbitrary: s)
  case (Cons e es)
  from Cons.prems obtain u where "happen e s = Some u" "run_events es u = Some t"
    by (auto split: Option.bind_splits)
  then show ?case using Cons.IH [of u] happen_decreases [of e s u] by simp
qed simp

lemma left_over_launch: "left_over (launch st) \<le> 7"
proof -
  have "length (filter P all_tasks) \<le> 5" for P
    using length_filter_le [of P all_tasks] by (simp add: all_tasks_def)
  then show ?thesis unfolding left_over_def launch_def by (simp add: le_diff_conv2 order_trans)
qed

lemma stuck_exited:
  assumes "\<And>e. happen e s = None"
  shows "\<exists>r. main_state s = Exited r"
proof (cases "main_state s")
  case Joining
  have "task_states s t \<noteq> Active" for t
    using assms [of "TaskEnds t (Err '''')"] Joining by auto
  with assms [of Join] Joining show ?thesis by (auto split: if_splits)
qed (use assms [of "CtrlC True"] in auto)

lemma runs_end: "\<exists>fs t. run_events fs s = Some t \<and> (\<exists>r. main_state t = Exited r)"
proof (induction "left_over s" arbitrary: s rule: less_induct)
  case less
  show ?case
  proof (cases "\<exists>e. happen e s \<noteq> None")
    case True
    then obtain e u where e: "happen e s = Some u" by blast
    from less happen_decreases [OF e] obtain fs t where "run_events fs u = Some t" "\<exists>r. main_state t = Exited r"
      by blast
    with e show ?thesis by (intro exI [of _ "e # fs"]) simp
  next
    case False
    then show ?thesis using stuck_exited [of s] by (intro exI [of _ "[]"]) auto
  qed
qed

text \<open>The tasks of a list that are active end one after the other, each with an error.\<close>

lemma tasks_end:
  assumes "main_state s = AwaitCtrlC"
  shows "\<exists>fs t. run_events fs s = Some t \<and> (\<forall>k \<in> set ks. task_states t k \<noteq> Active) \<and>
    (\<forall>k. task_states s k \<noteq> Active \<longrightarrow> task_states t k \<noteq> Active) \<and> main_state t = AwaitCtrlC"
  using assms
proof (induction ks arbitrary: s)
  case Nil
  then show ?case by (intro exI [of _ "[]"]) auto
next
  case (Cons k ks)
  show ?case
  proof (cases "task_states s k = Active")
    case True
    then obtain u where u: "happen (TaskEnds k (Err [])) s = Some u" "main_state u = AwaitCtrlC"
        "task_states u = (task_states s)(k := Over (Err []))"
      using Cons.prems by simp
    from Cons.IH [OF u(2)] obtain fs t where t: "run_events fs u = Some t"
      "\<forall>k \<in> set ks. task_states t k \<noteq> Active" "\<forall>k. task_states u k \<noteq> Active \<longrightarrow> task_states t k \<noteq> Active"
      "main_state t = AwaitCtrlC" by blast
    with u show ?thesis
      by (intro exI [of _ "TaskEnds k (Err []) # fs"] exI [of _ t]) (auto simp del: happen.simps)
  next
    case False
    from Cons.IH [OF Cons.prems] obtain fs t where "run_events fs s = Some t"
      "\<forall>k \<in> set ks. task_states t k \<noteq> Active" "\<forall>k. task_states s k \<noteq> Active \<longrightarrow> task_states t k \<noteq> Active"
      "main_state t = AwaitCtrlC" by blast
    with False show ?thesis by (intro exI [of _ fs] exI [of _ t]) auto
  qed
qed

lemma all_over:
  "\<exists>fs t. run_events fs (launch st) = Some t \<and> (\<forall>k. task_states t k \<noteq> Active) \<and> main_state t = AwaitCtrlC"
  using tasks_end [of "launch st" all_tasks] all_tasks_complete by (auto simp: launch_def)

text \<open>
  C33. A started server ends only after its wait for an interrupt is over, be it that one arrived or that the
  program could not listen for it: until then the main program waits, and there is always a run after
  which no task is active any more and it still waits. The tasks are told to stop exactly if the wait is
  over or an important task ended without a panic; that QUIC, TLS or certificate
  maintenance failed tells nobody. Every run has at most seven events and can be continued until the server
  ends, which is with success unless an important task panicked, whose panic is then passed on.
\<close>

theorem server_ends_only_by_interrupt:
  assumes "run_events es (launch st) = Some s"
  shows "(main_state s = AwaitCtrlC \<longleftrightarrow> (\<forall>b. CtrlC b \<notin> set es)) \<and>
    (stopped s \<longleftrightarrow> (\<exists>b. CtrlC b \<in> set es) \<or> (\<exists>t r. is_important t \<and> r \<noteq> Panic \<and> TaskEnds t r \<in> set es)) \<and>
    (\<exists>fs t. run_events (es @ fs) (launch st) = Some t \<and> (\<exists>r. main_state t = Exited r)) \<and>
    (\<forall>r. main_state s = Exited r \<longrightarrow>
       r = (if \<exists>t. is_important t \<and> TaskEnds t Panic \<in> set es then Panic else Ok ())) \<and>
    length es \<le> 7 \<and>
    (\<exists>fs t. run_events fs (launch st) = Some t \<and> (\<forall>k. task_states t k \<noteq> Active) \<and> main_state t = AwaitCtrlC)"
proof -
  have inv: "run_inv es (launch st) s" using run_inv_reach [OF launch_fresh assms] .
  obtain fs t where fs: "run_events fs s = Some t" "\<exists>r. main_state t = Exited r"
    using runs_end by blast
  show ?thesis
  proof (intro conjI)
    show "main_state s = AwaitCtrlC \<longleftrightarrow> (\<forall>b. CtrlC b \<notin> set es)"
      and "stopped s \<longleftrightarrow> (\<exists>b. CtrlC b \<in> set es) \<or> (\<exists>t r. is_important t \<and> r \<noteq> Panic \<and> TaskEnds t r \<in> set es)"
      using inv by (simp_all add: run_inv_def)
    show "\<forall>r. main_state s = Exited r \<longrightarrow>
        r = (if \<exists>t. is_important t \<and> TaskEnds t Panic \<in> set es then Panic else Ok ())"
      using inv unfolding run_inv_def by meson
    show "\<exists>fs t. run_events (es @ fs) (launch st) = Some t \<and> (\<exists>r. main_state t = Exited r)"
      using fs by (intro exI [of _ fs] exI [of _ t]) (simp add: run_events_append assms)
    show "length es \<le> 7" using run_events_bounded [OF assms] left_over_launch [of st] by simp
  qed (rule all_over)
qed

section \<open>A concrete run\<close>

definition sample_started :: "string started" where
  "sample_started = \<lparr>important_tasks = [HttpListener, DnsServer],
     detached_tasks = [MaintainCerts, QuinnServer, TlsListener], maintainer = None\<rparr>"

lemma server_ends_only_by_interrupt_witness:
  "\<exists>s fs t. run_events [TaskEnds QuinnServer (Err ''bind''), TaskEnds HttpListener (Err ''bind'')]
      (launch sample_started) = Some s \<and> stopped s \<and> main_state s = AwaitCtrlC \<and>
    run_events ([TaskEnds QuinnServer (Err ''bind''), TaskEnds HttpListener (Err ''bind'')] @ fs)
      (launch sample_started) = Some t \<and> (\<exists>r. main_state t = Exited r)"
proof -
  let ?es = "[TaskEnds QuinnServer (Err ''bind''), TaskEnds HttpListener (Err ''bind'')]"
  have "run_events ?es (launch sample_started) \<noteq> None"
    by (simp add: launch_def sample_started_def endless_def)
  then obtain s where s: "run_events ?es (launch sample_started) = Some s" by blast
  then have "stopped s" "main_state s = AwaitCtrlC"
    using server_ends_only_by_interrupt [OF s] by (auto simp: is_important_def)
  with s server_ends_only_by_interrupt [OF s] show ?thesis by blast
qed

end
