(* ===== verification/TunnelSite.thy ===== *)
theory TunnelSite
  imports TunnelRun
begin

text \<open>
  The running server together with its connections: the tasks of \<^verbatim>\<open>server_main\<close> decide which clients can
  connect and which requests arrive (\<^verbatim>\<open>TunnelServer::run\<close>, \<^verbatim>\<open>handle_listener\<close>). Shown: every run of the whole is a run
  of the connections alone, so what holds of these holds here; and the failure of the HTTP listener closes
  all tunnels for good while the program goes on.
\<close>

section \<open>The TLS listener\<close>

text \<open>
  \<^verbatim>\<open>handle_listener\<close>: each accepted connection is handled by a task of its own whose result is dropped; a failing
  accept (\<open>None\<close>) ends the loop. The results are listed for the statements below.
\<close>

fun handle_listener :: "('v \<Rightarrow> ('e, 'd) outcome) \<Rightarrow> 'v option list \<Rightarrow> ('e, 'd) outcome list \<times> (string, unit) outcome option" where
  "handle_listener handle [] = ([], None)"
| "handle_listener handle (None # rest) = ([], Some (Err ''accept''))"
| "handle_listener handle (Some v # rest) =
     (case handle_listener handle rest of (rs, e) \<Rightarrow> (handle v # rs, e))"

section \<open>Tasks and connections\<close>

record site =
  site_run :: running
  site_hub :: hub
  endpoint_closed :: bool

definition alive :: "running \<Rightarrow> bool" where
  "alive r \<longleftrightarrow> (\<forall>x. main_state r \<noteq> Exited x)"

text \<open>
  The steps. A client connects while the endpoint accepts. A handshake that finishes after the endpoint was closed
  registers a connection that is closed already. Once the token is cancelled the endpoint is closed,
  and with it all connections. Requests arrive at either listener; what was accepted goes on until the
  program ends.
\<close>

inductive site_step :: "('addr, 'h) tunnel_ext \<Rightarrow> site \<Rightarrow> site \<Rightarrow> bool" for ext where
  event: "happen e (site_run s) = Some r \<Longrightarrow> site_step ext s (s\<lparr>site_run := r\<rparr>)"
| client: "alive (site_run s) \<Longrightarrow> task_states (site_run s) QuinnServer = Active \<Longrightarrow> \<not> endpoint_closed s \<Longrightarrow>
    run_prog (run_handshake ext incoming sent) (hub_db (site_hub s)) = (Inr d, db) \<Longrightarrow>
    c \<notin> opened (site_hub s) \<Longrightarrow> site_step ext s (s\<lparr>site_hub := register_conn c d (site_hub s)\<rparr>)"
| late: "alive (site_run s) \<Longrightarrow> task_states (site_run s) QuinnServer \<noteq> NotStarted \<Longrightarrow> endpoint_closed s \<Longrightarrow>
    run_prog (run_handshake ext incoming sent) (hub_db (site_hub s)) = (Inr d, db) \<Longrightarrow>
    c \<notin> opened (site_hub s) \<Longrightarrow>
    site_step ext s (s\<lparr>site_hub := (register_conn c d (site_hub s))\<lparr>closed := insert c (closed (register_conn c d (site_hub s)))\<rparr>\<rparr>)"
| endpoint: "alive (site_run s) \<Longrightarrow> stopped (site_run s) \<Longrightarrow> task_states (site_run s) QuinnServer \<noteq> NotStarted \<Longrightarrow>
    site_step ext s (s\<lparr>endpoint_closed := True,
      site_hub := (site_hub s)\<lparr>closed := opened (site_hub s) \<union> closed (site_hub s)\<rparr>\<rparr>)"
| lost: "alive (site_run s) \<Longrightarrow> c \<in> opened (site_hub s) \<Longrightarrow>
    site_step ext s (s\<lparr>site_hub := (site_hub s)\<lparr>closed := insert c (closed (site_hub s))\<rparr>\<rparr>)"
| cleaned: "alive (site_run s) \<Longrightarrow> (c, d) \<in> waiting (site_hub s) \<Longrightarrow> c \<in> closed (site_hub s) \<Longrightarrow>
    site_step ext s (s\<lparr>site_hub := cleanup_conn c d (site_hub s)\<rparr>)"
| requested: "alive (site_run s) \<Longrightarrow>
    task_states (site_run s) HttpListener = Active \<or> task_states (site_run s) TlsListener = Active \<Longrightarrow>
    site_step ext s (s\<lparr>site_hub := (site_hub s)\<lparr>tasks := tasks (site_hub s) @ [web_service wext st ent req]\<rparr>\<rparr>)"
| served: "alive (site_run s) \<Longrightarrow> pool_step (tasks (site_hub s), hub_db (site_hub s)) (ps, db) \<Longrightarrow>
    site_step ext s (s\<lparr>site_hub := (site_hub s)\<lparr>tasks := ps, hub_db := db\<rparr>\<rparr>)"

inductive site_reach :: "('addr, 'h) tunnel_ext \<Rightarrow> site \<Rightarrow> site \<Rightarrow> bool" for ext s0 where
  start: "site_reach ext s0 s0"
| step: "site_reach ext s0 s \<Longrightarrow> site_step ext s t \<Longrightarrow> site_reach ext s0 t"

definition site_start :: "'ck started \<Rightarrow> tdb \<Rightarrow> site" where
  "site_start st db = \<lparr>site_run = launch st, site_hub = empty_hub db, endpoint_closed = False\<rparr>"

section \<open>Every run is a run of the connections\<close>

lemma hub_reach_trans: "hub_reach ext s t \<Longrightarrow> hub_reach ext t u \<Longrightarrow> hub_reach ext s u"
  by (rotate_tac, induction rule: hub_reach.induct) (auto intro: hub_reach.step)

lemma hub_reach_one: "hub_step ext s t \<Longrightarrow> hub_reach ext s t"
  by (blast intro: hub_reach.intros)

lemma close_many:
  assumes "finite X" and "X \<subseteq> opened s"
  shows "hub_reach ext s (s\<lparr>closed := X \<union> closed s\<rparr>)"
  using assms
proof (induction X rule: finite_induct)
  case empty
  then show ?case by (simp add: hub_reach.start)
next
  case (insert c X)
  let ?t = "s\<lparr>closed := X \<union> closed s\<rparr>"
  have "hub_step ext ?t (?t\<lparr>closed := insert c (closed ?t)\<rparr>)"
    using insert.prems by (intro hub_step.close) simp
  with insert show ?case by (auto intro: hub_reach.step)
qed

definition finite_hub :: "hub \<Rightarrow> bool" where
  "finite_hub s \<longleftrightarrow> finite (opened s) \<and> finite (waiting s)"

lemma finite_hub_ops:
  "finite_hub s \<Longrightarrow> finite_hub (register_conn c d s)" "finite_hub s \<Longrightarrow> finite_hub (cleanup_conn c d s)"
  by (simp_all add: finite_hub_def register_conn_def cleanup_conn_def)

lemma site_step_hub:
  assumes "site_step ext s t" and "finite_hub (site_hub s)"
  shows "hub_reach ext (site_hub s) (site_hub t) \<and> finite_hub (site_hub t)"
  using assms
proof (induction rule: site_step.induct)
  case (late s incoming sent d db c)
  let ?r = "register_conn c d (site_hub s)"
  have "hub_reach ext (site_hub s) ?r" using late by (blast intro: hub_reach_one hub_step.connect)
  moreover have "hub_step ext ?r (?r\<lparr>closed := insert c (closed ?r)\<rparr>)"
    by (rule hub_step.close) (simp add: register_conn_def)
  ultimately show ?case using late by (auto intro: hub_reach.step simp: finite_hub_def register_conn_def)
next
  case (endpoint s)
  then show ?case using close_many [of "opened (site_hub s)" "site_hub s"] by (simp add: finite_hub_def)
next
  case (client s incoming sent d db c)
  then show ?case by (auto intro!: hub_reach_one hub_step.connect finite_hub_ops)
next
  case (cleaned s c d)
  then show ?case by (auto intro!: hub_reach_one hub_step.cleanup finite_hub_ops)
qed (auto simp: finite_hub_def intro: hub_reach.start hub_reach_one hub_step.intros)

lemma site_reach_hub:
  assumes "site_reach ext s t" and "finite_hub (site_hub s)"
  shows "hub_reach ext (site_hub s) (site_hub t) \<and> finite_hub (site_hub t)"
  using assms(1)
proof (induction rule: site_reach.induct)
  case start
  then show ?case using assms(2) by (simp add: hub_reach.start)
next
  case (step u v)
  then show ?case using site_step_hub hub_reach_trans by blast
qed

lemma site_reach_trans: "site_reach ext s t \<Longrightarrow> site_reach ext t u \<Longrightarrow> site_reach ext s u"
  by (rotate_tac, induction rule: site_reach.induct) (auto intro: site_reach.step)

lemma site_inv:
  assumes "site_reach ext (site_start st db) s" and "db_wf db"
  shows "hub_inv (site_hub s) \<and> finite_hub (site_hub s)"
  using site_reach_hub [OF assms(1)] hub_reach_inv [OF _ assms(2)]
  by (auto simp: site_start_def finite_hub_def empty_hub_def)

section \<open>A failing listener\<close>

definition cut :: "site \<Rightarrow> bool" where
  "cut s \<longleftrightarrow> endpoint_closed s \<and> opened (site_hub s) \<subseteq> closed (site_hub s)"

lemma cut_step: "site_step ext s t \<Longrightarrow> cut s \<Longrightarrow> cut t"
  by (induction rule: site_step.induct)
    (auto simp: cut_def register_conn_def cleanup_conn_def split: option.split)

lemma cut_stays: "site_reach ext s t \<Longrightarrow> cut s \<Longrightarrow> cut t"
  by (induction rule: site_reach.induct) (auto intro: cut_step)

text \<open>Once all connections are closed, the waiting tasks clean up after them.\<close>

lemma clean_all:
  assumes "finite X" and "X = waiting (site_hub s)" and "alive (site_run s)" and "cut s" and "hub_inv (site_hub s)"
  shows "\<exists>t. site_reach ext s t \<and> waiting (site_hub t) = {} \<and> site_run t = site_run s"
  using assms
proof (induction X arbitrary: s rule: finite_induct)
  case empty
  then show ?case by (auto intro: site_reach.start)
next
  case (insert w X)
  obtain c d where w: "w = (c, d)" by (cases w)
  let ?u = "s\<lparr>site_hub := cleanup_conn c d (site_hub s)\<rparr>"
  have "(c, d) \<in> waiting (site_hub s)" using insert.prems(1) w by auto
  then have "c \<in> opened (site_hub s)" using insert.prems(4) unfolding hub_inv_def by blast
  then have "c \<in> closed (site_hub s)" using insert.prems(3) by (auto simp: cut_def)
  with insert w have step: "site_step ext s ?u" and inv: "hub_inv (site_hub ?u)"
    by (auto intro: site_step.cleaned cleanup_inv)
  have "X = waiting (site_hub ?u)" using insert.hyps(2) insert.prems(1) w by (auto simp: cleanup_conn_def)
  with insert.IH [of ?u] insert.prems step inv cut_step [OF step]
  obtain t where "site_reach ext ?u t" "waiting (site_hub t) = {}" "site_run t = site_run s"
    by auto
  with step show ?case using site_reach_trans [of ext s ?u t] site_reach.step [OF site_reach.start step] by blast
qed

text \<open>
  C17. The HTTP listener is one of two important tasks, so its failure (a port that is taken, say) stops the
  QUIC endpoint: from any state with an active HTTP listener the server can come to a state in which every
  tunnel is closed and unknown to the router and none opens ever again, while the program still waits for an
  interrupt and, if it was active, the TLS listener still accepts visitors.
\<close>

theorem listener_failure_cuts_tunnels:
  assumes "site_reach ext (site_start st db) s" and "db_wf db"
    and "main_state (site_run s) = AwaitCtrlC" and "task_states (site_run s) HttpListener = Active"
    and "task_states (site_run s) QuinnServer \<noteq> NotStarted"
  shows "\<exists>t. site_reach ext s t \<and> main_state (site_run t) = AwaitCtrlC \<and>
    task_states (site_run t) TlsListener = task_states (site_run s) TlsListener \<and>
    (\<forall>d. d \<noteq> hostname \<longrightarrow> route_visitor hostname (site_hub t) (Some d) = Err ''do not have server'') \<and>
    (\<forall>u. site_reach ext t u \<longrightarrow> opened (site_hub u) \<subseteq> closed (site_hub u))"
proof -
  let ?r = "(site_run s)\<lparr>task_states := (task_states (site_run s))(HttpListener := Over (Err ''bind'')), stopped := True\<rparr>"
  let ?s1 = "s\<lparr>site_run := ?r\<rparr>"
  let ?s2 = "?s1\<lparr>endpoint_closed := True, site_hub := (site_hub s)\<lparr>closed := opened (site_hub s) \<union> closed (site_hub s)\<rparr>\<rparr>"
  have "happen (TaskEnds HttpListener (Err ''bind'')) (site_run s) = Some ?r"
    using assms(3,4) by (simp add: endless_def is_important_def)
  then have 1: "site_reach ext s ?s1" by (blast intro: site_reach.intros site_step.event)
  have "site_step ext ?s1 ?s2"
    using site_step.endpoint [of ?s1 ext] assms(3,5) by (simp add: alive_def)
  with 1 have 2: "site_reach ext s ?s2" by (rule site_reach.step)
  have inv: "hub_inv (site_hub ?s2)" "finite_hub (site_hub ?s2)"
    using site_inv [OF site_reach_trans [OF assms(1) 2] assms(2)] by blast+
  have cut2: "cut ?s2" by (simp add: cut_def)
  obtain t where t: "site_reach ext ?s2 t" "waiting (site_hub t) = {}" "site_run t = site_run ?s2"
    using clean_all [of "waiting (site_hub ?s2)" ?s2 ext] inv cut2 assms(3)
    by (auto simp: finite_hub_def alive_def)
  have reach: "site_reach ext s t" using site_reach_trans [OF 2 t(1)] .
  have "hub_inv (site_hub t)" using site_inv [OF site_reach_trans [OF assms(1) reach] assms(2)] by blast
  with t(2) have none: "conns (site_hub t) d = None" for d
    by (cases "conns (site_hub t) d") (auto simp: hub_inv_def)
  have route: "d \<noteq> hostname \<longrightarrow> route_visitor hostname (site_hub t) (Some d) = Err ''do not have server''" for d
    by (simp add: route_visitor_def sni_handle_def tunnel_lookup_def none)
  have "opened (site_hub u) \<subseteq> closed (site_hub u)" if "site_reach ext t u" for u
    using cut_stays [OF that cut_stays [OF t(1) cut2]] by (simp add: cut_def)
  with reach route t(3) assms(3) show ?thesis by (intro exI [of _ t]) simp
qed

section \<open>A concrete failure\<close>

definition sample_site :: site where
  "sample_site = (site_start sample_started sample_dns_db)
     \<lparr>site_hub := register_conn 1 ''x.example.com'' (empty_hub sample_dns_db)\<rparr>"

lemma sample_site_reach: "site_reach sample_tunnel (site_start sample_started sample_dns_db) sample_site"
proof -
  have "fst (run_prog (run_handshake sample_tunnel [] True) sample_dns_db) = Inr ''x.example.com''"
    by code_simp
  then obtain db where "run_prog (run_handshake sample_tunnel [] True) sample_dns_db =
      (Inr ''x.example.com'', db)"
    by (metis prod.collapse)
  then have "site_step sample_tunnel (site_start sample_started sample_dns_db) sample_site"
    unfolding sample_site_def
    using site_step.client [of "site_start sample_started sample_dns_db" sample_tunnel "[]" True "''x.example.com''" db 1]
    by (simp add: site_start_def launch_def sample_started_def alive_def empty_hub_def)
  then show ?thesis by (blast intro: site_reach.intros)
qed

lemma listener_failure_cuts_tunnels_witness:
  "route_visitor ''x'' (site_hub sample_site) (Some ''x.example.com'') = Ok (Some 1) \<and>
   (\<exists>t. site_reach sample_tunnel sample_site t \<and> main_state (site_run t) = AwaitCtrlC \<and>
      task_states (site_run t) TlsListener = Active \<and>
      route_visitor ''x'' (site_hub t) (Some ''x.example.com'') = Err ''do not have server'')"
proof -
  have wf: "db_wf sample_dns_db" by code_simp
  have st: "main_state (site_run sample_site) = AwaitCtrlC"
    "task_states (site_run sample_site) HttpListener = Active"
    "task_states (site_run sample_site) TlsListener = Active"
    "task_states (site_run sample_site) QuinnServer \<noteq> NotStarted"
    by (simp_all add: sample_site_def site_start_def launch_def sample_started_def)
  have "route_visitor ''x'' (site_hub sample_site) (Some ''x.example.com'') = Ok (Some 1)"
    by (simp add: sample_site_def route_visitor_def sni_handle_def tunnel_lookup_def register_conn_def empty_hub_def)
  moreover obtain t where "site_reach sample_tunnel sample_site t" "main_state (site_run t) = AwaitCtrlC"
      "task_states (site_run t) TlsListener = task_states (site_run sample_site) TlsListener"
      "\<forall>d. d \<noteq> ''x'' \<longrightarrow> route_visitor ''x'' (site_hub t) (Some d) = Err ''do not have server''"
    using listener_failure_cuts_tunnels [OF sample_site_reach wf st(1,2,4), of "''x''"] by metis
  ultimately show ?thesis using st(3) by (intro conjI exI [of _ t]) simp_all
qed

end
