(* ===== verification/AppNames.thy ===== *)
theory AppNames
  imports Prelude
begin

text \<open>
  Names of applications in \<^verbatim>\<open>server/src/main.rs\<close>: the regular expression that names match, and the path that stands
  for a name in addresses and directories. Shown: the check by splitting is the regular expression; a name
  can be read back from its path unless a segment after a slash begins with a dash; a dash before a slash
  and a dash after it give the same path.
\<close>

section \<open>The regular expression\<close>

datatype regex = Class "char \<Rightarrow> bool" | Seq regex regex | Star regex

inductive matches :: "regex \<Rightarrow> string \<Rightarrow> bool" where
  one: "P c \<Longrightarrow> matches (Class P) [c]"
| seq: "matches r u \<Longrightarrow> matches s v \<Longrightarrow> matches (Seq r s) (u @ v)"
| star_none: "matches (Star r) []"
| star_more: "matches r u \<Longrightarrow> matches (Star r) v \<Longrightarrow> matches (Star r) (u @ v)"

inductive_cases class_matchesE: "matches (Class P) w"
inductive_cases seq_matchesE: "matches (Seq r s) w"

definition plus :: "regex \<Rightarrow> regex" where
  "plus r = Seq r (Star r)"

definition lit :: "char \<Rightarrow> regex" where
  "lit c = Class (\<lambda>x. x = c)"

definition in_range :: "char \<Rightarrow> char \<Rightarrow> char \<Rightarrow> bool" where
  "in_range a b c \<longleftrightarrow> (of_char a :: nat) \<le> of_char c \<and> (of_char c :: nat) \<le> of_char b"

definition name_char :: "char \<Rightarrow> bool" where
  "name_char c \<longleftrightarrow> in_range (CHR ''a'') (CHR ''z'') c \<or> in_range (CHR ''A'') (CHR ''Z'') c \<or>
     in_range (CHR ''0'') (CHR ''9'') c \<or> c = CHR ''-''"

definition name_regex :: regex where
  "name_regex =
     Seq (plus (Class name_char))
       (Seq (Star (Seq (lit (CHR ''.'')) (plus (Class name_char))))
          (plus (Seq (lit (CHR ''/'')) (plus (Class name_char)))))"

text \<open>The same check, as it is computed: segments of letters, digits and dashes, dots in the first.\<close>

definition segment :: "string \<Rightarrow> bool" where
  "segment w \<longleftrightarrow> w \<noteq> [] \<and> list_all name_char w"

definition check_name :: "string \<Rightarrow> bool" where
  "check_name name =
     (case split_on (CHR ''/'') name of
        [] \<Rightarrow> False
      | host # rest \<Rightarrow> rest \<noteq> [] \<and> list_all segment rest \<and> list_all segment (split_on (CHR ''.'') host))"

definition replace_char :: "char \<Rightarrow> string \<Rightarrow> string \<Rightarrow> string" where
  "replace_char c by name = concat (map (\<lambda>x. if x = c then by else [x]) name)"

definition name_to_path :: "string \<Rightarrow> (string, string) outcome" where
  "name_to_path name =
     (if \<not> check_name name then Err ''bad name''
      else Ok (replace_char (CHR ''/'') ''-'' (replace_char (CHR ''-'') ''--'' name)))"

lemma star_class: "matches (Star (Class P)) w \<longleftrightarrow> list_all P w"
proof
  show "matches (Star (Class P)) w \<Longrightarrow> list_all P w"
    by (induction "Star (Class P)" w rule: matches.induct) (auto elim: class_matchesE)
  show "list_all P w \<Longrightarrow> matches (Star (Class P)) w"
  proof (induction w)
    case (Cons c w)
    then show ?case using matches.star_more [of "Class P" "[c]" w] by (auto intro: matches.intros)
  qed (rule matches.star_none)
qed

lemma plus_class: "matches (plus (Class P)) w \<longleftrightarrow> w \<noteq> [] \<and> list_all P w"
proof
  show "matches (plus (Class P)) w \<Longrightarrow> w \<noteq> [] \<and> list_all P w"
    unfolding plus_def by (auto elim!: seq_matchesE class_matchesE simp: star_class)
  show "w \<noteq> [] \<and> list_all P w \<Longrightarrow> matches (plus (Class P)) w"
    using matches.seq [of "Class P" "[hd w]" "Star (Class P)" "tl w"] star_class [of P "tl w"]
    unfolding plus_def by (cases w) (auto intro: matches.one)
qed

lemma matches_segment: "matches (plus (Class name_char)) w \<longleftrightarrow> segment w"
  by (simp add: plus_class segment_def)

text \<open>A separator followed by a segment, many times.\<close>

definition joined :: "char \<Rightarrow> string list \<Rightarrow> string" where
  "joined c ws = concat (map (\<lambda>w. c # w) ws)"

lemma lit_seq: "matches (Seq (lit c) r) w \<longleftrightarrow> (\<exists>v. w = c # v \<and> matches r v)"
  using matches.seq [of "lit c" "[c]" r] matches.one [of "\<lambda>x. x = c" c]
  unfolding lit_def by (auto elim!: seq_matchesE class_matchesE)

lemma star_joined:
  "matches (Star (Seq (lit c) r)) w \<longleftrightarrow> (\<exists>ws. w = joined c ws \<and> (\<forall>v \<in> set ws. matches r v))"
proof
  show "matches (Star (Seq (lit c) r)) w \<Longrightarrow> \<exists>ws. w = joined c ws \<and> (\<forall>v \<in> set ws. matches r v)"
  proof (induction "Star (Seq (lit c) r)" w rule: matches.induct)
    case star_none
    then show ?case by (intro exI [of _ "[]"]) (simp add: joined_def)
  next
    case (star_more u v)
    then obtain ws x where "v = joined c ws" "\<forall>v \<in> set ws. matches r v" "u = c # x" "matches r x"
      by (auto simp: lit_seq)
    then show ?case by (intro exI [of _ "x # ws"]) (simp add: joined_def)
  qed
  have "matches (Star (Seq (lit c) r)) (joined c ws)" if "\<forall>v \<in> set ws. matches r v" for ws
    using that
  proof (induction ws)
    case (Cons x ws)
    then show ?case
      using matches.star_more [of "Seq (lit c) r" "c # x" "joined c ws"] by (auto simp: joined_def lit_seq)
  qed (simp add: joined_def matches.star_none)
  then show "\<exists>ws. w = joined c ws \<and> (\<forall>v \<in> set ws. matches r v) \<Longrightarrow> matches (Star (Seq (lit c) r)) w"
    by blast
qed

lemma seq_split: "matches (Seq r s) w \<longleftrightarrow> (\<exists>u v. w = u @ v \<and> matches r u \<and> matches s v)"
  by (blast elim: seq_matchesE intro: matches.seq)

lemma plus_joined:
  "matches (plus (Seq (lit c) r)) w \<longleftrightarrow> (\<exists>ws. ws \<noteq> [] \<and> w = joined c ws \<and> (\<forall>v \<in> set ws. matches r v))"
proof -
  have "matches (plus (Seq (lit c) r)) w \<longleftrightarrow>
      (\<exists>x ws. w = (c # x) @ joined c ws \<and> matches r x \<and> (\<forall>v \<in> set ws. matches r v))"
    unfolding plus_def seq_split [of "Seq (lit c) r"] star_joined lit_seq by blast
  also have "\<dots> \<longleftrightarrow> (\<exists>x ws. w = joined c (x # ws) \<and> (\<forall>v \<in> set (x # ws). matches r v))"
    by (simp add: joined_def)
  also have "\<dots> \<longleftrightarrow> (\<exists>ws. ws \<noteq> [] \<and> w = joined c ws \<and> (\<forall>v \<in> set ws. matches r v))"
    by (metis list.distinct(1) list.exhaust)
  finally show ?thesis .
qed

lemma split_joined:
  assumes "c \<notin> set x" and "\<forall>w \<in> set ws. c \<notin> set w"
  shows "split_on c (x @ joined c ws) = x # ws"
  using assms
proof (induction ws arbitrary: x)
  case Nil
  then show ?case by (simp add: joined_def split_on_no_sep_id)
next
  case (Cons w ws)
  then show ?case by (simp add: joined_def split_on_append)
qed

lemma joined_split: "split_on c w = x # ws \<Longrightarrow> w = x @ joined c ws"
proof (induction w arbitrary: x ws)
  case (Cons a w)
  obtain y ys where y: "split_on c w = y # ys" by (cases "split_on c w") simp_all
  then have w: "w = y @ joined c ys" using Cons.IH by simp
  have "if a = c then x = [] \<and> ws = y # ys else x = a # y \<and> ws = ys"
    using Cons.prems y by (simp split: if_splits)
  then show ?case by (cases "a = c") (simp_all add: joined_def w)
qed (simp add: joined_def)

text \<open>
  \<open>check_name\<close> accepts exactly the names that the regular expression of the source matches.
\<close>

theorem check_name_regex: "check_name name \<longleftrightarrow> matches name_regex name"
proof -
  let ?d = "CHR ''.''" and ?s = "CHR ''/''"
  have free: "?s \<notin> set w" "?d \<notin> set w" if "segment w" for w
    using that by (auto simp: segment_def list_all_iff name_char_def in_range_def)
  have host: "(\<exists>h hs. x = h @ joined ?d hs \<and> segment h \<and> (\<forall>v \<in> set hs. segment v)) \<longleftrightarrow>
      list_all segment (split_on ?d x)" for x
  proof
    show "list_all segment (split_on ?d x) \<Longrightarrow> \<exists>h hs. x = h @ joined ?d hs \<and> segment h \<and> (\<forall>v \<in> set hs. segment v)"
      using joined_split by (cases "split_on ?d x") (fastforce simp: list_all_iff)+
  qed (use free in \<open>auto simp: split_joined list_all_iff\<close>)
  have "matches name_regex name \<longleftrightarrow>
      (\<exists>h b. name = h @ b \<and> segment h \<and>
        (\<exists>d e. b = d @ e \<and> (\<exists>hs. d = joined ?d hs \<and> (\<forall>v \<in> set hs. segment v)) \<and>
          (\<exists>ws. ws \<noteq> [] \<and> e = joined ?s ws \<and> (\<forall>v \<in> set ws. segment v))))"
    by (simp only: name_regex_def seq_split [of "plus (Class name_char)"] seq_split [of "Star _"]
      matches_segment star_joined plus_joined)
  also have "\<dots> \<longleftrightarrow> (\<exists>h hs ws. name = (h @ joined ?d hs) @ joined ?s ws \<and> segment h \<and> (\<forall>v \<in> set hs. segment v) \<and>
      ws \<noteq> [] \<and> (\<forall>v \<in> set ws. segment v))" (is "?l \<longleftrightarrow> ?r")
  proof
    assume ?l
    then obtain h hs ws where "name = h @ joined ?d hs @ joined ?s ws" "segment h" "\<forall>v \<in> set hs. segment v"
      "ws \<noteq> []" "\<forall>v \<in> set ws. segment v" by blast
    then show ?r by (intro exI [of _ h] exI [of _ hs] exI [of _ ws]) simp
  next
    assume ?r
    then obtain h hs ws where "name = h @ joined ?d hs @ joined ?s ws" "segment h" "\<forall>v \<in> set hs. segment v"
      "ws \<noteq> []" "\<forall>v \<in> set ws. segment v" by (metis append_assoc)
    then show ?l by blast
  qed
  also have "\<dots> \<longleftrightarrow> (\<exists>x ws. name = x @ joined ?s ws \<and> ws \<noteq> [] \<and> list_all segment ws \<and> list_all segment (split_on ?d x))"
    (is "?l \<longleftrightarrow> ?r")
  proof
    assume ?l
    then obtain h hs ws where n: "name = (h @ joined ?d hs) @ joined ?s ws" "segment h"
      "\<forall>v \<in> set hs. segment v" "ws \<noteq> []" "\<forall>v \<in> set ws. segment v" by blast
    then have "list_all segment (split_on ?d (h @ joined ?d hs))" "list_all segment ws"
      using host [of "h @ joined ?d hs"] by (blast, simp add: list_all_iff)
    with n(1,4) show ?r by blast
  next
    assume ?r
    then obtain x ws where x: "name = x @ joined ?s ws" "ws \<noteq> []" "list_all segment ws"
      "list_all segment (split_on ?d x)" by blast
    moreover obtain h hs where "x = h @ joined ?d hs" "segment h" "\<forall>v \<in> set hs. segment v"
      using x(4) host by blast
    ultimately show ?l by (metis list_all_iff)
  qed
  also have "\<dots> \<longleftrightarrow> check_name name"
  proof
    assume "\<exists>x ws. name = x @ joined ?s ws \<and> ws \<noteq> [] \<and> list_all segment ws \<and> list_all segment (split_on ?d x)"
    then obtain x ws where x: "name = x @ joined ?s ws" "ws \<noteq> []" "list_all segment ws"
      "list_all segment (split_on ?d x)" by blast
    from x(4) obtain h hs where "x = h @ joined ?d hs" "segment h" "\<forall>v \<in> set hs. segment v" using host by blast
    then have "?s \<notin> set x" using free by (auto simp: joined_def)
    with x free show "check_name name" by (auto simp: check_name_def split_joined list_all_iff)
  next
    assume check: "check_name name"
    then obtain x ws where x: "split_on ?s name = x # ws" by (cases "split_on ?s name") simp_all
    from joined_split [OF x] x check
    show "\<exists>x ws. name = x @ joined ?s ws \<and> ws \<noteq> [] \<and> list_all segment ws \<and> list_all segment (split_on ?d x)"
      by (auto simp: check_name_def)
  qed
  finally show ?thesis by simp
qed

section \<open>Reading a path back\<close>

text \<open>Two dashes stand for a dash, one for a slash, read from the left.\<close>

fun path_to_name :: "string \<Rightarrow> string" where
  "path_to_name [] = []"
| "path_to_name (c # cs) =
     (if c \<noteq> CHR ''-'' then c # path_to_name cs
      else case cs of
        [] \<Rightarrow> [CHR ''/'']
      | d # ds \<Rightarrow> if d = CHR ''-'' then CHR ''-'' # path_to_name ds else CHR ''/'' # path_to_name cs)"

text \<open>No segment after a slash begins with a dash, or is empty.\<close>

fun plain_slashes :: "string \<Rightarrow> bool" where
  "plain_slashes [] = True"
| "plain_slashes [c] = True"
| "plain_slashes (c # d # cs) \<longleftrightarrow>
     (c = CHR ''/'' \<longrightarrow> d \<noteq> CHR ''-'' \<and> d \<noteq> CHR ''/'') \<and> plain_slashes (d # cs)"

definition encode_char :: "char \<Rightarrow> string" where
  "encode_char c = (if c = CHR ''-'' then ''--'' else if c = CHR ''/'' then ''-'' else [c])"

lemma replace_encode:
  "replace_char (CHR ''/'') ''-'' (replace_char (CHR ''-'') ''--'' n) = concat (map encode_char n)"
  by (induction n) (auto simp: replace_char_def encode_char_def)

lemma decode_encode: "plain_slashes n \<Longrightarrow> path_to_name (concat (map encode_char n)) = n"
  by (induction n rule: plain_slashes.induct) (auto simp: encode_char_def)

text \<open>
  C23. A name is read back from its path if no segment after a slash begins with a dash, so two different
  such names never share their path. In general names can: whatever stands before and after, a dash
  before a slash and a dash after it give the same path, so if both names are accepted the path stands
  for two applications.
\<close>

theorem paths_of_names:
  "(name_to_path n = Ok p \<and> plain_slashes n \<longrightarrow> path_to_name p = n) \<and>
   (name_to_path n = Ok p \<and> name_to_path m = Ok p \<and> plain_slashes n \<and> plain_slashes m \<longrightarrow> n = m) \<and>
   (check_name (a @ ''-/'' @ b) \<and> check_name (a @ ''/-'' @ b) \<longrightarrow>
      name_to_path (a @ ''-/'' @ b) = name_to_path (a @ ''/-'' @ b) \<and> a @ ''-/'' @ b \<noteq> a @ ''/-'' @ b)"
proof (intro conjI)
  show "name_to_path n = Ok p \<and> plain_slashes n \<longrightarrow> path_to_name p = n"
    by (auto simp: name_to_path_def replace_encode decode_encode)
  show "name_to_path n = Ok p \<and> name_to_path m = Ok p \<and> plain_slashes n \<and> plain_slashes m \<longrightarrow> n = m"
    by (auto simp: name_to_path_def replace_encode) (metis decode_encode)
qed (auto simp: name_to_path_def replace_encode encode_char_def)

lemma paths_of_names_witness:
  "path_to_name ''a.b-c--d-e----f'' = ''a.b/c-d/e--f'' \<and>
   name_to_path ''a-/b'' = name_to_path ''a/-b'' \<and> ''a-/b'' \<noteq> ''a/-b''"
proof -
  have 1: "name_to_path ''a.b/c-d/e--f'' = Ok ''a.b-c--d-e----f''" "plain_slashes ''a.b/c-d/e--f''"
    by code_simp+
  have 2: "check_name (''a'' @ ''-/'' @ ''b'')" "check_name (''a'' @ ''/-'' @ ''b'')" by code_simp+
  from paths_of_names [of "''a.b/c-d/e--f''" "''a.b-c--d-e----f''" "''a.b/c-d/e--f''" "''a''" "''b''"] 1 2 show ?thesis
    by simp
qed

end
