(* ===== verification/AppServer.thy ===== *)
theory AppServer
  imports AppNames "HOL-Library.Multiset" "HOL-Library.List_Lexorder" "HOL-Library.Product_Lexorder" "HOL-Library.Char_ord"
begin

text \<open>
  The earlier server, \<^verbatim>\<open>server/src/main.rs\<close> and \<^verbatim>\<open>models.rs\<close>: a registry of published applications, users with
  sessions, and the applications that users have installed as WebAssembly files. Requests are handled one at a
  time; the OCI registry, the WebAssembly runtime, SQL and JSON are parameters. Shown: the data stays well
  formed along all requests and no page panics on a name; the index of the registry lists every
  publication once, ordered; installing and updating reach the version they name, but a failed download
  destroys the file that other users run; and anybody can log in as anybody.
\<close>

section \<open>Storage\<close>

record UserAppModel =
  ua_id :: nat
  ua_user_id :: int
  ua_name :: string
  ua_version :: string
  ua_path :: string

record RegistryAppModel =
  ra_id :: nat
  ra_name :: string
  ra_version :: string
  ra_oci_reference :: string

record UserModel =
  um_id :: int
  um_name :: string

record UserSessionModel =
  us_id :: string
  us_user_id :: int

record app_db =
  app_users :: "UserModel list"
  user_sessions :: "UserSessionModel list"
  registry_apps :: "RegistryAppModel list"
  user_apps :: "UserAppModel list"

type_synonym 'a app_op = "app_db \<Rightarrow> (string, 'a) outcome \<times> app_db"

text \<open>The key that SQLite gives to a new row.\<close>

definition next_id :: "nat list \<Rightarrow> nat" where
  "next_id ids = fold max ids 0 + 1"

definition list_users :: "UserModel list app_op" where
  "list_users s = (Ok (app_users s), s)"

definition list_user_apps_by_user_id :: "int \<Rightarrow> UserAppModel list app_op" where
  "list_user_apps_by_user_id uid s = (Ok (filter (\<lambda>a. ua_user_id a = uid) (user_apps s)), s)"

text \<open>The unique index on user and name.\<close>

definition insert_user_app :: "int \<Rightarrow> string \<Rightarrow> string \<Rightarrow> string \<Rightarrow> nat app_op" where
  "insert_user_app uid name version path s =
     (if list_ex (\<lambda>a. ua_user_id a = uid \<and> ua_name a = name) (user_apps s) then (Err ''unique'', s)
      else let i = next_id (map ua_id (user_apps s)) in
        (Ok i, s\<lparr>user_apps := user_apps s @
          [\<lparr>ua_id = i, ua_user_id = uid, ua_name = name, ua_version = version, ua_path = path\<rparr>]\<rparr>))"

definition update_user_app :: "int \<Rightarrow> string \<Rightarrow> string \<Rightarrow> string \<Rightarrow> unit app_op" where
  "update_user_app uid name version path s =
     (Ok (), s\<lparr>user_apps := map (\<lambda>a. if ua_user_id a = uid \<and> ua_name a = name
        then a\<lparr>ua_version := version, ua_path := path\<rparr> else a) (user_apps s)\<rparr>)"

definition list_registry_apps :: "RegistryAppModel list app_op" where
  "list_registry_apps s = (Ok (sort_key (\<lambda>r. (ra_name r, ra_version r)) (registry_apps s)), s)"

definition insert_registry_app :: "string \<Rightarrow> string \<Rightarrow> string \<Rightarrow> nat app_op" where
  "insert_registry_app name version reference s =
     (let i = next_id (map ra_id (registry_apps s)) in
      (Ok i, s\<lparr>registry_apps := registry_apps s @
        [\<lparr>ra_id = i, ra_name = name, ra_version = version, ra_oci_reference = reference\<rparr>]\<rparr>))"

definition app_user_by_id :: "int \<Rightarrow> UserModel app_op" where
  "app_user_by_id uid s =
     ((case find (\<lambda>u. um_id u = uid) (app_users s) of Some u \<Rightarrow> Ok u | None \<Rightarrow> Err ''no rows''), s)"

text \<open>The session key is 16 random bytes, given as text; a key that exists is refused.\<close>

definition create_session_for_user :: "string \<Rightarrow> UserModel \<Rightarrow> UserSessionModel app_op" where
  "create_session_for_user session_id user s =
     (if list_ex (\<lambda>x. us_id x = session_id) (user_sessions s) then (Err ''unique'', s)
      else let x = \<lparr>us_id = session_id, us_user_id = um_id user\<rparr> in
        (Ok x, s\<lparr>user_sessions := user_sessions s @ [x]\<rparr>))"

definition get_user_for_session :: "string \<Rightarrow> (UserSessionModel \<times> UserModel) option app_op" where
  "get_user_for_session session_id s =
     (case find (\<lambda>x. us_id x = session_id) (user_sessions s) of
        None \<Rightarrow> (Ok None, s)
      | Some x \<Rightarrow> bind_st (app_user_by_id (us_user_id x) s) (\<lambda>u s. (Ok (Some (x, u)), s)))"

definition delete_session :: "string \<Rightarrow> unit app_op" where
  "delete_session session_id s =
     (Ok (), s\<lparr>user_sessions := filter (\<lambda>x. us_id x \<noteq> session_id) (user_sessions s)\<rparr>)"

definition unwrap :: "('e, 'a) outcome \<times> 's \<Rightarrow> ('e, 'a) outcome \<times> 's" where
  "unwrap r = (case r of (Err e, s) \<Rightarrow> (Panic, s) | _ \<Rightarrow> r)"

lemma unwrap_simps [simp]:
  "unwrap (Ok a, s) = (Ok a, s)" "unwrap (Err e, s) = (Panic, s)" "unwrap (Panic, s) = (Panic, s)"
  by (simp_all add: unwrap_def)

section \<open>Registry\<close>

record RegistryAppVersion =
  rv_oci_reference :: string
  rv_version :: string

record RegistryApp =
  app_name :: string
  versions :: "RegistryAppVersion list"

text \<open>The entry of the row's name, made if it is new, gets the row's version at its end.\<close>

fun push_version :: "RegistryAppModel \<Rightarrow> RegistryApp list \<Rightarrow> RegistryApp list" where
  "push_version r [] =
     [\<lparr>app_name = ra_name r, versions = [\<lparr>rv_oci_reference = ra_oci_reference r, rv_version = ra_version r\<rparr>]\<rparr>]"
| "push_version r (a # as) =
     (if app_name a = ra_name r
      then a\<lparr>versions := versions a @ [\<lparr>rv_oci_reference = ra_oci_reference r, rv_version = ra_version r\<rparr>]\<rparr> # as
      else a # push_version r as)"

definition registry_index :: "RegistryApp list app_op" where
  "registry_index s =
     bind_st (unwrap (list_registry_apps s)) (\<lambda>rows s.
       (Ok (sort_key app_name (fold push_version rows [])), s))"

definition registry_publish :: "string \<Rightarrow> string \<Rightarrow> string \<Rightarrow> nat option app_op" where
  "registry_publish name version reference s =
     (if \<not> check_name name then (Ok None, s)
      else bind_st (unwrap (insert_registry_app name version reference s)) (\<lambda>i s. (Ok (Some i), s)))"

text \<open>\<^verbatim>\<open>fetch_apps\<close>: the server asks its own address for the index.\<close>

definition fetch_apps :: "bool \<Rightarrow> RegistryApp list app_op" where
  "fetch_apps reachable s = (if reachable then registry_index s else (Err ''request'', s))"

section \<open>Requests\<close>

text \<open>
  The files: WebAssembly modules under the checksum of their image, and the database of each
  installed application under the user and the path of its name.
\<close>

record 'd world =
  w_db :: app_db
  wasm_files :: "string \<Rightarrow> string option"
  app_dirs :: "string set"
  app_data :: "string \<Rightarrow> 'd option"

text \<open>
  Outside code: the manifest of a reference (number of layer digests and of layers, checksum), the pull of its
  layer (complete or not, and what was written), the runtime, which runs a module on the data of its
  application, and the decimal form of a user's number.
\<close>

record 'd app_ext =
  manifest :: "string \<Rightarrow> (nat \<times> nat \<times> string) option"
  pull_blob :: "string \<Rightarrow> bool \<times> string"
  execute :: "string option \<Rightarrow> 'd option \<Rightarrow> (string, string) outcome \<times> 'd option"
  show_id :: "int \<Rightarrow> string"

definition wasm_path_of :: "string \<Rightarrow> string" where
  "wasm_path_of checksum = ''./data/apps/'' @ checksum @ ''.wasm''"

definition app_dir :: "'d app_ext \<Rightarrow> int \<Rightarrow> string \<Rightarrow> string" where
  "app_dir ext uid path = ''./data/users/'' @ show_id ext uid @ ''/apps/'' @ path"

definition download_app :: "'d app_ext \<Rightarrow> RegistryAppVersion \<Rightarrow> 'd world \<Rightarrow> (string, string) outcome \<times> 'd world" where
  "download_app ext v w =
     (case manifest ext (rv_oci_reference v) of
        None \<Rightarrow> (Err ''manifest'', w)
      | Some (n, m, checksum) \<Rightarrow>
          if n \<noteq> 1 then (Err ''expected 1 layer'', w)
          else if m \<noteq> n then (Err ''expected matching layers'', w)
          else (let path = wasm_path_of checksum in
            case pull_blob ext (rv_oci_reference v) of (complete, contents) \<Rightarrow>
              (if complete then Ok path else Err ''blob'', w\<lparr>wasm_files := (wasm_files w)(path \<mapsto> contents)\<rparr>)))"

definition on_app_db :: "'a app_op \<Rightarrow> 'd world \<Rightarrow> (string, 'a) outcome \<times> 'd world" where
  "on_app_db f w = (case f (w_db w) of (r, s) \<Rightarrow> (r, w\<lparr>w_db := s\<rparr>))"

definition install_app ::
  "'d app_ext \<Rightarrow> RegistryApp \<Rightarrow> RegistryAppVersion \<Rightarrow> int \<Rightarrow> 'd world \<Rightarrow> (string, unit) outcome \<times> 'd world"
where
  "install_app ext a v uid w =
     bind_st (download_app ext v w) (\<lambda>path w.
     bind_st (name_to_path (app_name a), w) (\<lambda>p w.
     bind_st (on_app_db (insert_user_app uid (app_name a) (rv_version v) path)
       (w\<lparr>app_dirs := insert (app_dir ext uid p) (app_dirs w)\<rparr>)) (\<lambda>_ w. (Ok (), w))))"

definition update_app ::
  "'d app_ext \<Rightarrow> RegistryApp \<Rightarrow> RegistryAppVersion \<Rightarrow> int \<Rightarrow> 'd world \<Rightarrow> (string, unit) outcome \<times> 'd world"
where
  "update_app ext a v uid w =
     bind_st (download_app ext v w) (\<lambda>path w.
       on_app_db (update_user_app uid (app_name a) (rv_version v) path) w)"

text \<open>The first application whose name has the path; a name without a path, or no such application, panics.\<close>

fun find_by_path :: "('a \<Rightarrow> string) \<Rightarrow> string \<Rightarrow> 'a list \<Rightarrow> (string, 'a) outcome" where
  "find_by_path name path [] = Panic"
| "find_by_path name path (x # xs) =
     (case name_to_path (name x) of
        Ok p \<Rightarrow> if p = path then Ok x else find_by_path name path xs
      | _ \<Rightarrow> Panic)"

fun find_version :: "string \<Rightarrow> RegistryAppVersion list \<Rightarrow> (string, RegistryAppVersion) outcome" where
  "find_version v [] = Panic"
| "find_version v (x # xs) = (if rv_version x = v then Ok x else find_version v xs)"

text \<open>The front page: what it shows of the installed and the available applications, and the log-in links.\<close>

datatype app_link = InstallLink string string | UpdateLink string string | NoLink

record index_page =
  page_user :: "string option"
  installed :: "(string \<times> string \<times> string) list"
  available :: "(string \<times> string \<times> app_link) list"
  logins :: "(string \<times> int) list"

fun all_paths :: "(string \<times> 'a) list \<Rightarrow> (string, (string \<times> 'a) list) outcome" where
  "all_paths [] = Ok []"
| "all_paths ((n, x) # ns) =
     (case (name_to_path n, all_paths ns) of (Ok p, Ok ps) \<Rightarrow> Ok ((p, x) # ps) | _ \<Rightarrow> Panic)"

text \<open>An application with its last version; one without versions panics.\<close>

fun with_latest :: "RegistryApp list \<Rightarrow> (string, (RegistryApp \<times> RegistryAppVersion) list) outcome" where
  "with_latest [] = Ok []"
| "with_latest (a # as) =
     (case (versions a, with_latest as) of
        (_ # _, Ok xs) \<Rightarrow> Ok ((a, last (versions a)) # xs) | _ \<Rightarrow> Panic)"

text \<open>
  The lines of the available applications. The installed ones are looked up in a map from names, to which
  later entries are added last; the path is made only for a link.
\<close>

definition offer ::
  "UserAppModel list \<Rightarrow> RegistryApp \<times> RegistryAppVersion \<Rightarrow> (string, string \<times> string \<times> app_link) outcome"
where
  "offer mine av =
     (case av of (a, v) \<Rightarrow>
        let link = (\<lambda>mk. case name_to_path (app_name a) of
              Ok p \<Rightarrow> Ok (app_name a, rv_version v, mk p (rv_version v)) | _ \<Rightarrow> Panic) in
        (case find (\<lambda>x. ua_name x = app_name a) (rev mine) of
           Some x \<Rightarrow> if ua_version x \<noteq> rv_version v then link UpdateLink
                     else Ok (app_name a, rv_version v, NoLink)
         | None \<Rightarrow> link InstallLink))"

fun offers ::
  "UserAppModel list \<Rightarrow> (RegistryApp \<times> RegistryAppVersion) list \<Rightarrow> (string, (string \<times> string \<times> app_link) list) outcome"
where
  "offers mine [] = Ok []"
| "offers mine (x # xs) =
     (case (offer mine x, offers mine xs) of (Ok o1, Ok os) \<Rightarrow> Ok (o1 # os) | _ \<Rightarrow> Panic)"

definition index_handler :: "bool \<Rightarrow> (UserSessionModel \<times> UserModel) option \<Rightarrow> index_page app_op" where
  "index_handler reachable info s =
     bind_st (unwrap (fetch_apps reachable s)) (\<lambda>apps s.
     bind_st (unwrap (list_users s)) (\<lambda>us s.
     bind_st (case info of None \<Rightarrow> (Ok [], s) | Some (_, u) \<Rightarrow> unwrap (list_user_apps_by_user_id (um_id u) s)) (\<lambda>mine s.
     bind_st (with_latest apps, s) (\<lambda>latest s.
     bind_st (all_paths (map (\<lambda>a. (ua_name a, a)) mine), s) (\<lambda>own s.
     bind_st (if info = None then Ok [] else offers mine latest, s) (\<lambda>offered s.
       (Ok \<lparr>page_user = map_option (\<lambda>(_, u). um_name u) info,
            installed = map (\<lambda>(p, a). (p, ua_name a, ua_version a)) own,
            available = offered,
            logins = map (\<lambda>u. (um_name u, um_id u)) us\<rparr>, s)))))))"

datatype app_request =
    RunApp string | Install string string | Update string string | Login int | Logout
  | RegistryIndex | Publish string string string | IndexPage

datatype app_response =
    Shows index_page | Ran string | RedirectTo string | AppsJson "RegistryApp list" | Published nat | BadRequest

datatype cookie_change = SetSession string | RemoveSession

definition LOGIN_URL :: string where
  "LOGIN_URL = ''https://laptop.pos2.jelle.dev''"

type_synonym user_info = "(UserSessionModel \<times> UserModel) option"

definition user_or_panic :: "user_info \<Rightarrow> (string, int) outcome" where
  "user_or_panic info = (case info of Some (x, u) \<Rightarrow> Ok (um_id u) | None \<Rightarrow> Panic)"

definition run_handler :: "'d app_ext \<Rightarrow> user_info \<Rightarrow> string \<Rightarrow> 'd world \<Rightarrow> (string, string) outcome \<times> 'd world" where
  "run_handler ext info path w =
     bind_st (user_or_panic info, w) (\<lambda>uid w.
     bind_st (unwrap (on_app_db (list_user_apps_by_user_id uid) w)) (\<lambda>apps w.
     bind_st (find_by_path ua_name path apps, w) (\<lambda>a w.
     bind_st (unwrap (name_to_path (ua_name a), w)) (\<lambda>p w.
       let place = app_dir ext uid p in
       case execute ext (wasm_files w (ua_path a)) (app_data w place) of (r, d) \<Rightarrow>
         unwrap (r, w\<lparr>app_data := (app_data w)(place := d)\<rparr>)))))"

text \<open>\<^verbatim>\<open>install_handler\<close> and \<^verbatim>\<open>update_handler\<close> differ in what they do with the version they find.\<close>

definition version_handler ::
  "(RegistryApp \<Rightarrow> RegistryAppVersion \<Rightarrow> int \<Rightarrow> 'd world \<Rightarrow> (string, unit) outcome \<times> 'd world) \<Rightarrow>
   bool \<Rightarrow> user_info \<Rightarrow> string \<Rightarrow> string \<Rightarrow> 'd world \<Rightarrow> (string, app_response) outcome \<times> 'd world"
where
  "version_handler act reachable info path version w =
     bind_st (unwrap (on_app_db (fetch_apps reachable) w)) (\<lambda>apps w.
     bind_st (find_by_path app_name path apps, w) (\<lambda>a w.
     bind_st (find_version version (versions a), w) (\<lambda>v w.
     bind_st (user_or_panic info, w) (\<lambda>uid w.
     bind_st (unwrap (act a v uid w)) (\<lambda>_ w. (Ok (RedirectTo ''/''), w))))))"

fun app_handler ::
  "'d app_ext \<Rightarrow> bool \<Rightarrow> string \<Rightarrow> user_info \<Rightarrow> app_request \<Rightarrow> 'd world \<Rightarrow>
   (string, app_response \<times> cookie_change list) outcome \<times> 'd world"
where
  "app_handler ext up key info (RunApp path) w =
     bind_st (run_handler ext info path w) (\<lambda>out w. (Ok (Ran out, []), w))"
| "app_handler ext up key info (Install path v) w =
     bind_st (version_handler (install_app ext) up info path v w) (\<lambda>r w. (Ok (r, []), w))"
| "app_handler ext up key info (Update path v) w =
     bind_st (version_handler (update_app ext) up info path v w) (\<lambda>r w. (Ok (r, []), w))"
| "app_handler ext up key info (Login uid) w =
     bind_st (unwrap (on_app_db (app_user_by_id uid) w)) (\<lambda>u w.
     bind_st (unwrap (on_app_db (create_session_for_user key u) w)) (\<lambda>x w.
       (Ok (RedirectTo ''/'', [SetSession (us_id x)]), w)))"
| "app_handler ext up key info Logout w =
     bind_st (case info of None \<Rightarrow> (Ok (), w) | Some (x, _) \<Rightarrow> unwrap (on_app_db (delete_session (us_id x)) w)) (\<lambda>_ w.
       (Ok (RedirectTo LOGIN_URL, [RemoveSession]), w))"
| "app_handler ext up key info RegistryIndex w =
     bind_st (on_app_db registry_index w) (\<lambda>as w. (Ok (AppsJson as, []), w))"
| "app_handler ext up key info (Publish name v ref) w =
     bind_st (on_app_db (registry_publish name v ref) w) (\<lambda>i w.
       (Ok (case i of Some i \<Rightarrow> Published i | None \<Rightarrow> BadRequest, []), w))"
| "app_handler ext up key info IndexPage w =
     bind_st (on_app_db (index_handler up info) w) (\<lambda>p w. (Ok (Shows p, []), w))"

text \<open>
  A request passes the middleware, which looks up the session of the cookie and drops a cookie without one.
  With a request come whether the server reaches its own address and the random key.
\<close>

record app_call =
  call_cookie :: "string option"
  call_up :: bool
  call_key :: string
  call_request :: app_request

definition app_service ::
  "'d app_ext \<Rightarrow> app_call \<Rightarrow> 'd world \<Rightarrow> (string, app_response \<times> cookie_change list) outcome \<times> 'd world"
where
  "app_service ext call w =
     bind_st (case call_cookie call of
         None \<Rightarrow> (Ok (None, []), w)
       | Some c \<Rightarrow> bind_st (unwrap (on_app_db (get_user_for_session c) w)) (\<lambda>found w.
           (Ok (found, if found = None then [RemoveSession] else []), w))) (\<lambda>(info, dropped) w.
     bind_st (app_handler ext (call_up call) (call_key call) info (call_request call) w) (\<lambda>(r, changes) w.
       (Ok (r, changes @ dropped), w)))"

text \<open>Requests in their order; a panic answers one request and leaves what it did.\<close>

definition serve_apps :: "'d app_ext \<Rightarrow> app_call list \<Rightarrow> 'd world \<Rightarrow> 'd world" where
  "serve_apps ext calls w = fold (\<lambda>c w. snd (app_service ext c w)) calls w"

section \<open>The index of the registry\<close>

definition version_of :: "RegistryAppModel \<Rightarrow> RegistryAppVersion" where
  "version_of r = \<lparr>rv_oci_reference = ra_oci_reference r, rv_version = ra_version r\<rparr>"

definition entry :: "RegistryAppModel list \<Rightarrow> string \<Rightarrow> RegistryApp" where
  "entry rows n = \<lparr>app_name = n, versions = map version_of (filter (\<lambda>r. ra_name r = n) rows)\<rparr>"

definition add_new :: "string \<Rightarrow> string list \<Rightarrow> string list" where
  "add_new n ns = (if n \<in> set ns then ns else ns @ [n])"

lemma push_entries:
  assumes "distinct ns" and "ra_name r \<notin> set ns \<Longrightarrow> filter (\<lambda>x. ra_name x = ra_name r) rows = []"
  shows "push_version r (map (entry rows) ns) = map (entry (rows @ [r])) (add_new (ra_name r) ns)"
  using assms
proof (induction ns)
  case Nil
  then show ?case by (simp add: add_new_def entry_def version_of_def)
next
  case (Cons n ns)
  show ?case
  proof (cases "n = ra_name r")
    case True
    with Cons.prems(1) have "map (entry rows) ns = map (entry (rows @ [r])) ns" by (auto simp: entry_def)
    with True show ?thesis by (simp add: add_new_def entry_def version_of_def)
  next
    case False
    with Cons show ?thesis by (simp add: add_new_def entry_def)
  qed
qed

lemma fold_entries:
  "\<exists>ns. fold push_version rows [] = map (entry rows) ns \<and> distinct ns \<and> set ns = ra_name ` set rows"
proof (induction rows rule: rev_induct)
  case (snoc r rows)
  then obtain ns where ns: "fold push_version rows [] = map (entry rows) ns" "distinct ns"
    "set ns = ra_name ` set rows" by blast
  then have "ra_name r \<notin> set ns \<Longrightarrow> filter (\<lambda>x. ra_name x = ra_name r) rows = []"
    unfolding filter_empty_conv by (metis image_eqI)
  from push_entries [OF ns(2) this] ns show ?case
    by (intro exI [of _ "add_new (ra_name r) ns"]) (auto simp: add_new_def)
qed simp

lemma sort_entries: "sort_key app_name (map (entry rows) ns) = map (entry rows) (sort ns)"
proof (induction ns)
  case (Cons n ns)
  have "insort_key app_name (entry rows n) (map (entry rows) xs) = map (entry rows) (insort n xs)" for xs
    by (induction xs) (simp_all add: entry_def)
  with Cons show ?case by simp
qed simp

lemma registry_index_eq:
  "registry_index s = (Ok (map (entry (sort_key (\<lambda>r. (ra_name r, ra_version r)) (registry_apps s)))
     (sorted_list_of_set (ra_name ` set (registry_apps s)))), s)"
proof -
  let ?rows = "sort_key (\<lambda>r. (ra_name r, ra_version r)) (registry_apps s)"
  obtain ns where ns: "fold push_version ?rows [] = map (entry ?rows) ns" "distinct ns" "set ns = ra_name ` set ?rows"
    using fold_entries by blast
  then have "sort ns = sorted_list_of_set (ra_name ` set ?rows)"
    by (metis distinct_remdups_id sorted_list_of_set_sort_remdups)
  with ns show ?thesis
    by (simp add: registry_index_def list_registry_apps_def sort_entries)
qed

lemma sorted_le_last: "sorted xs \<Longrightarrow> x \<in> set xs \<Longrightarrow> x \<le> last (xs :: 'a :: linorder list)"
  by (induction xs) auto

lemma sorted_versions:
  "sorted (map ra_version (filter (\<lambda>r. ra_name r = n) (sort_key (\<lambda>r. (ra_name r, ra_version r)) rows)))"
proof -
  have "sorted (map (\<lambda>r. (ra_name r, ra_version r)) xs) \<Longrightarrow>
      sorted (map ra_version (filter (\<lambda>r. ra_name r = n) xs))" for xs
  proof (induction xs)
    case (Cons x xs)
    then show ?case by (auto simp: image_iff)
  qed simp
  then show ?thesis using sorted_sort_key by blast
qed

text \<open>
  C40. The index of the registry has one entry for every published name, in order; the entry lists the
  publications of this name, each once, in the order of their versions, so that the last one, which the
  front page offers, has the greatest version.
\<close>

theorem registry_index_complete:
  "\<exists>apps. registry_index s = (Ok apps, s) \<and>
     map app_name apps = sorted_list_of_set (ra_name ` set (registry_apps s)) \<and>
     (\<forall>a \<in> set apps. mset (versions a) =
         image_mset version_of (filter_mset (\<lambda>r. ra_name r = app_name a) (mset (registry_apps s))) \<and>
       versions a \<noteq> [] \<and> sorted (map rv_version (versions a)) \<and>
       (\<forall>r \<in> set (registry_apps s). ra_name r = app_name a \<longrightarrow> ra_version r \<le> rv_version (last (versions a))))"
proof -
  let ?rows = "sort_key (\<lambda>r. (ra_name r, ra_version r)) (registry_apps s)"
  let ?names = "sorted_list_of_set (ra_name ` set (registry_apps s))"
  have "mset (versions (entry ?rows n)) = image_mset version_of (filter_mset (\<lambda>r. ra_name r = n) (mset (registry_apps s)))"
    for n by (simp add: entry_def mset_filter)
  moreover have vers: "map rv_version (versions (entry ?rows n)) = map ra_version (filter (\<lambda>r. ra_name r = n) ?rows)" for n
    by (simp add: entry_def version_of_def)
  then have sorted: "sorted (map rv_version (versions (entry ?rows n)))" for n
    using sorted_versions by simp
  moreover have some: "versions (entry ?rows n) \<noteq> []" if "n \<in> ra_name ` set (registry_apps s)" for n
    using that by (auto simp: entry_def filter_empty_conv)
  moreover have "ra_version r \<le> rv_version (last (versions (entry ?rows n)))"
    if "r \<in> set (registry_apps s)" "ra_name r = n" for r n
  proof -
    have "ra_version r \<in> set (map rv_version (versions (entry ?rows n)))" using that by (simp add: vers)
    moreover have ne: "map rv_version (versions (entry ?rows n)) \<noteq> []" using some that by auto
    ultimately have "ra_version r \<le> last (map rv_version (versions (entry ?rows n)))"
      using sorted_le_last [OF sorted] by blast
    with ne show ?thesis by (simp add: last_map)
  qed
  ultimately show ?thesis
    by (intro exI [of _ "map (entry ?rows) ?names"]) (auto simp: registry_index_eq entry_def o_def)
qed

section \<open>Well-formed data\<close>

definition app_wf :: "app_db \<Rightarrow> bool" where
  "app_wf s \<longleftrightarrow>
     list_all (check_name \<circ> ra_name) (registry_apps s) \<and>
     list_all (check_name \<circ> ua_name) (user_apps s) \<and>
     distinct (map (\<lambda>a. (ua_user_id a, ua_name a)) (user_apps s)) \<and>
     distinct (map us_id (user_sessions s)) \<and>
     us_user_id ` set (user_sessions s) \<subseteq> um_id ` set (app_users s)"

lemma on_app_db_simps [simp]: "f (w_db w) = (r, s) \<Longrightarrow> on_app_db f w = (r, w\<lparr>w_db := s\<rparr>)"
  by (simp add: on_app_db_def)

lemma unwrap_snd [simp]: "snd (unwrap r) = snd r"
  by (cases r; cases "fst r") auto

lemma snd_bind_st: "snd (bind_st r k) = (case fst r of Ok a \<Rightarrow> snd (k a (snd r)) | _ \<Rightarrow> snd r)"
  by (cases r; cases "fst r") auto

text \<open>A step keeps what it keeps in each of its outcomes.\<close>

lemma keeps_bind:
  assumes "P (snd r)" and "\<And>a. fst r = Ok a \<Longrightarrow> P (snd r) \<Longrightarrow> P (snd (k a (snd r)))"
  shows "P (snd (bind_st r k))"
  using assms by (cases r; cases "fst r") auto

lemma pair_mem: "(ua_user_id a, ua_name a) = (u, n) \<longleftrightarrow> ua_user_id a = u \<and> ua_name a = n"
  by simp

lemma storage_wf:
  assumes "app_wf s"
  shows "check_name n \<Longrightarrow> app_wf (snd (insert_user_app u n v p s))"
    and "app_wf (snd (update_user_app u n v p s))"
    and "check_name n \<Longrightarrow> app_wf (snd (insert_registry_app n v x s))"
    and "app_wf (snd (registry_publish n v x s))"
    and "um_id m \<in> um_id ` set (app_users s) \<Longrightarrow> app_wf (snd (create_session_for_user k m s))"
    and "app_wf (snd (delete_session k s))"
proof -
  show "check_name n \<Longrightarrow> app_wf (snd (insert_user_app u n v p s))"
    using assms by (auto simp: app_wf_def insert_user_app_def Let_def list_ex_iff)
  have keys: "map (\<lambda>a. (ua_user_id a, ua_name a)) (user_apps (snd (update_user_app u n v p s))) =
      map (\<lambda>a. (ua_user_id a, ua_name a)) (user_apps s)"
    by (auto simp: update_user_app_def)
  show "app_wf (snd (update_user_app u n v p s))"
    using assms unfolding app_wf_def keys by (auto simp: update_user_app_def list_all_iff)
  show reg: "app_wf (snd (insert_registry_app n v x s))" if "check_name n"
    using that assms by (simp add: app_wf_def insert_registry_app_def Let_def)
  have "unwrap (insert_registry_app n v x s) = insert_registry_app n v x s"
    by (simp add: insert_registry_app_def Let_def)
  then show "app_wf (snd (registry_publish n v x s))"
    using assms reg by (simp add: registry_publish_def snd_bind_st split: outcome.split)
  show "um_id m \<in> um_id ` set (app_users s) \<Longrightarrow> app_wf (snd (create_session_for_user k m s))"
    using assms by (auto simp: app_wf_def create_session_for_user_def Let_def list_ex_iff)
  show "app_wf (snd (delete_session k s))"
    using assms by (auto simp: app_wf_def delete_session_def distinct_map_filter)
qed

text \<open>Operations that only read.\<close>

lemma reads_bind: "snd r = s \<Longrightarrow> (\<And>a. snd (k a s) = s) \<Longrightarrow> snd (bind_st r k) = s"
  by (cases r; cases "fst r") auto

lemma reads_ops [simp]:
  "snd (list_users s) = s" "snd (list_user_apps_by_user_id u s) = s" "snd (list_registry_apps s) = s"
  "snd (registry_index s) = s" "snd (fetch_apps up s) = s" "snd (app_user_by_id u s) = s"
  by (simp_all add: list_users_def list_user_apps_by_user_id_def list_registry_apps_def app_user_by_id_def
      registry_index_eq fetch_apps_def)

lemma reads_session [simp]: "snd (get_user_for_session k s) = s"
  by (auto simp: get_user_for_session_def intro!: reads_bind split: option.split)

lemma reads_index [simp]: "snd (index_handler up info s) = s"
  unfolding index_handler_def by (intro reads_bind) (auto split: option.split)

lemma on_app_db_snd [simp]: "w_db (snd (on_app_db f w)) = snd (f (w_db w))"
  and on_app_db_fst [simp]: "fst (on_app_db f w) = fst (f (w_db w))"
  by (simp_all add: on_app_db_def split_def)

lemma unwrap_Ok [simp]: "fst (unwrap r) = Ok a \<longleftrightarrow> fst r = Ok a"
  by (cases r; cases "fst r") auto

lemma find_by_path_Ok: "find_by_path nm path xs = Ok x \<Longrightarrow> x \<in> set xs \<and> name_to_path (nm x) = Ok path"
  by (induction xs) (auto split: outcome.splits if_splits)

lemma name_to_path_check: "name_to_path n = Ok p \<Longrightarrow> check_name n"
  by (auto simp: name_to_path_def split: if_splits)

lemma find_by_path_check: "find_by_path nm path xs = Ok x \<Longrightarrow> check_name (nm x)"
  by (induction xs) (auto split: outcome.splits if_splits dest: name_to_path_check)

lemma download_db [simp]: "w_db (snd (download_app ext v w)) = w_db w"
  by (auto simp: download_app_def Let_def split: option.split prod.split)

text \<open>Each step of a handler keeps the data well formed; what it found by name has a checked name.\<close>

lemma install_wf:
  assumes "app_wf (w_db w)" and "check_name (app_name a)"
  shows "app_wf (w_db (snd (install_app ext a v uid w)))"
  unfolding install_app_def
  using assms
  by (intro keeps_bind [where P = "\<lambda>w. app_wf (w_db w)"]) (auto intro: storage_wf)

lemma update_wf: "app_wf (w_db w) \<Longrightarrow> app_wf (w_db (snd (update_app ext a v uid w)))"
  unfolding update_app_def
  by (intro keeps_bind [where P = "\<lambda>w. app_wf (w_db w)"]) (auto intro: storage_wf)

lemma version_handler_wf:
  assumes "app_wf (w_db w)"
    and "\<And>a v uid w. app_wf (w_db w) \<Longrightarrow> check_name (app_name a) \<Longrightarrow> app_wf (w_db (snd (act a v uid w)))"
  shows "app_wf (w_db (snd (version_handler act up info path v w)))"
  unfolding version_handler_def
  by (intro keeps_bind [where P = "\<lambda>w. app_wf (w_db w)"])
    (auto simp: assms(1) intro!: assms(2) dest: find_by_path_check)

lemma run_handler_db [simp]: "w_db (snd (run_handler ext info path w)) = w_db w"
  unfolding run_handler_def
  by (rule keeps_bind [where P = "\<lambda>t. w_db t = w_db w"], simp)
    (intro keeps_bind [where P = "\<lambda>t. w_db t = w_db w"], auto simp: Let_def split: prod.split)

lemma handler_wf: "app_wf (w_db w) \<Longrightarrow> app_wf (w_db (snd (app_handler ext up key info req w)))"
proof (cases req)
  case (Login uid)
  assume wf: "app_wf (w_db w)"
  have "um_id u \<in> um_id ` set (app_users (w_db w))" if "fst (app_user_by_id uid (w_db w)) = Ok u" for u
    using that by (auto simp: app_user_by_id_def find_Some_iff split: option.splits)
  with wf show ?thesis
    by (simp add: Login) (intro keeps_bind [where P = "\<lambda>w. app_wf (w_db w)"], auto intro: storage_wf)
qed (auto intro!: keeps_bind [where P = "\<lambda>w. app_wf (w_db w)"] version_handler_wf install_wf update_wf storage_wf
    split: option.split)

lemma service_wf: "app_wf (w_db w) \<Longrightarrow> app_wf (w_db (snd (app_service ext call w)))"
  unfolding app_service_def
  by (rule keeps_bind [where P = "\<lambda>w. app_wf (w_db w)"])
    (auto intro!: keeps_bind [where P = "\<lambda>w. app_wf (w_db w)"] handler_wf split: option.split prod.split)

lemma serve_apps_wf: "app_wf (w_db w) \<Longrightarrow> app_wf (w_db (serve_apps ext calls w))"
  by (induction calls arbitrary: w) (simp_all add: serve_apps_def service_wf)

lemma checked_path: "check_name n \<Longrightarrow> \<exists>p. name_to_path n = Ok p"
  by (simp add: name_to_path_def)

lemma with_latest_ok: "\<forall>a \<in> set as. versions a \<noteq> [] \<Longrightarrow> \<exists>xs. with_latest as = Ok xs \<and> map fst xs = as"
  by (induction as) (auto simp: neq_Nil_conv)

lemma all_paths_ok: "\<forall>x \<in> set ns. check_name (fst x) \<Longrightarrow> \<exists>ps. all_paths ns = Ok ps"
proof (induction ns)
  case (Cons x ns)
  then show ?case using checked_path [of "fst x"] by (cases x) auto
qed simp

lemma offers_ok: "\<forall>x \<in> set xs. check_name (app_name (fst x)) \<Longrightarrow> \<exists>os. offers mine xs = Ok os"
proof (induction xs)
  case (Cons x xs)
  have "\<exists>o1. offer mine x = Ok o1"
    using Cons.prems checked_path [of "app_name (fst x)"]
    by (cases x) (auto simp: offer_def Let_def split: option.split)
  with Cons show ?case by auto
qed simp

lemma fetched_apps:
  assumes "app_wf s"
  shows "\<exists>apps. fetch_apps True s = (Ok apps, s) \<and> (\<forall>a \<in> set apps. versions a \<noteq> [] \<and> check_name (app_name a))"
proof -
  let ?rows = "sort_key (\<lambda>r. (ra_name r, ra_version r)) (registry_apps s)"
  have "versions (entry ?rows n) \<noteq> [] \<and> check_name (app_name (entry ?rows n))"
    if "n \<in> ra_name ` set (registry_apps s)" for n
    using that assms by (auto simp: entry_def filter_empty_conv app_wf_def list_all_iff)
  then show ?thesis by (simp add: fetch_apps_def registry_index_eq)
qed

lemma index_shows:
  assumes "app_wf s"
  shows "\<exists>p. index_handler True info s = (Ok p, s)"
proof -
  obtain apps where apps: "fetch_apps True s = (Ok apps, s)"
    "\<forall>a \<in> set apps. versions a \<noteq> [] \<and> check_name (app_name a)"
    using fetched_apps [OF assms] by blast
  obtain xs where xs: "with_latest apps = Ok xs" "map fst xs = apps"
    using with_latest_ok [of apps] apps(2) by blast
  have "\<forall>x \<in> set xs. check_name (app_name (fst x))" using xs(2) apps(2) by fastforce
  then have offers: "\<exists>os. offers mine xs = Ok os" for mine by (rule offers_ok)
  have own: "\<exists>ps. all_paths (map (\<lambda>a. (ua_name a, a)) (filter P (user_apps s))) = Ok ps" for P
    using assms by (intro all_paths_ok) (auto simp: app_wf_def list_all_iff)
  show ?thesis
  proof (cases info)
    case None
    with apps(1) xs(1) show ?thesis by (simp add: index_handler_def list_users_def)
  next
    case (Some xu)
    obtain x u where "info = Some (x, u)" using Some by (cases xu) simp
    moreover obtain os where "offers (filter (\<lambda>a. ua_user_id a = um_id u) (user_apps s)) xs = Ok os"
      using offers by blast
    moreover obtain ps where
      "all_paths (map (\<lambda>a. (ua_name a, a)) (filter (\<lambda>a. ua_user_id a = um_id u) (user_apps s))) = Ok ps"
      using own by blast
    ultimately show ?thesis
      using apps(1) xs(1) by (simp add: index_handler_def list_users_def list_user_apps_by_user_id_def)
  qed
qed

lemma session_found:
  assumes "app_wf s"
  shows "\<exists>found. get_user_for_session c s = (Ok found, s)"
proof (cases "find (\<lambda>x. us_id x = c) (user_sessions s)")
  case (Some x)
  then have "us_user_id x \<in> um_id ` set (app_users s)"
    using assms by (auto simp: app_wf_def find_Some_iff)
  then have "find (\<lambda>u. um_id u = us_user_id x) (app_users s) \<noteq> None" by (auto simp: find_None_iff)
  then show ?thesis using Some by (auto simp: get_user_for_session_def app_user_by_id_def)
qed (simp add: get_user_for_session_def)

text \<open>
  C16. Whatever requests arrive and however downloads and runs turn out, the names in the registry and of
  the installed applications keep their form, a user has an application at most once, session keys differ
  and belong to users. Hence in every state the front page is shown, with any cookie.
\<close>

theorem requests_keep_app_wf:
  assumes "app_wf (w_db w)"
  shows "app_wf (w_db (serve_apps ext calls w)) \<and>
    (\<exists>p cs. fst (app_service ext \<lparr>call_cookie = c, call_up = True, call_key = k, call_request = IndexPage\<rparr>
       (serve_apps ext calls w)) = Ok (Shows p, cs))"
proof -
  let ?w = "serve_apps ext calls w"
  have wf: "app_wf (w_db ?w)" using serve_apps_wf [OF assms] .
  have show_page: "\<exists>p. on_app_db (index_handler True info) v = (Ok p, v)" if "w_db v = w_db ?w" for info v
    using index_shows [OF wf, of info] that by (auto simp: on_app_db_def)
  have "\<exists>p cs. fst (app_service ext \<lparr>call_cookie = c, call_up = True, call_key = k, call_request = IndexPage\<rparr> ?w) =
      Ok (Shows p, cs)"
  proof (cases c)
    case None
    then show ?thesis using show_page [OF HOL.refl, of None] by (auto simp: app_service_def)
  next
    case (Some k')
    obtain found where "get_user_for_session k' (w_db ?w) = (Ok found, w_db ?w)"
      using session_found [OF wf] by blast
    then have "on_app_db (get_user_for_session k') ?w = (Ok found, ?w)" by simp
    with Some show ?thesis using show_page [OF HOL.refl, of found] by (auto simp: app_service_def)
  qed
  with wf show ?thesis by blast
qed

section \<open>What can go wrong\<close>

text \<open>
  C35. The module of an image is stored under its checksum for all users and written in place. If a user installs
  or updates to a version whose module is already there and the download breaks off, the request panics
  without a change to the database, but the file is left with what was written, and every user who has
  an application with this file runs that from then on.
\<close>

theorem failed_download_breaks_installed:
  assumes "fetch_apps True (w_db w) = (Ok apps, w_db w)" and "find_by_path app_name path apps = Ok a"
    and "find_version v (versions a) = Ok rv"
    and "manifest ext (rv_oci_reference rv) = Some (1, 1, checksum)"
    and "pull_blob ext (rv_oci_reference rv) = (False, part)"
    and "get_user_for_session c (w_db w) = (Ok (Some (x, u)), w_db w)"
    and "req = Install path v \<or> req = Update path v"
    and "find_by_path ua_name other (filter (\<lambda>b. ua_user_id b = um_id victim) (user_apps (w_db w))) = Ok b"
    and "ua_path b = wasm_path_of checksum"
  shows "\<exists>w'. app_service ext \<lparr>call_cookie = Some c, call_up = True, call_key = k, call_request = req\<rparr> w = (Panic, w') \<and>
    w_db w' = w_db w \<and> wasm_files w' (wasm_path_of checksum) = Some part \<and>
    fst (run_handler ext (Some (y, victim)) other w') =
      (case fst (execute ext (Some part) (app_data w (app_dir ext (um_id victim) other))) of
         Ok out \<Rightarrow> Ok out | _ \<Rightarrow> Panic)"
proof -
  let ?w' = "w\<lparr>wasm_files := (wasm_files w)(wasm_path_of checksum \<mapsto> part)\<rparr>"
  have down: "download_app ext rv w = (Err ''blob'', ?w')"
    using assms(4,5) by (simp add: download_app_def)
  have "version_handler act True (Some (x, u)) path v w = (Panic, ?w')"
    if "act a rv (um_id u) w = (Err ''blob'', ?w')" for act
    using that assms(1-3) by (simp add: version_handler_def user_or_panic_def)
  then have act: "version_handler (install_app ext) True (Some (x, u)) path v w = (Panic, ?w')"
    "version_handler (update_app ext) True (Some (x, u)) path v w = (Panic, ?w')"
    by (simp_all add: install_app_def update_app_def down)
  have "app_service ext \<lparr>call_cookie = Some c, call_up = True, call_key = k, call_request = req\<rparr> w = (Panic, ?w')"
    using assms(6,7) act by (auto simp: app_service_def)
  moreover have "name_to_path (ua_name b) = Ok other" using find_by_path_Ok [OF assms(8)] by blast
  then have "fst (run_handler ext (Some (y, victim)) other ?w') =
      (case fst (execute ext (Some part) (app_data w (app_dir ext (um_id victim) other))) of
         Ok out \<Rightarrow> Ok out | _ \<Rightarrow> Panic)"
    using assms(8,9)
    by (simp add: run_handler_def user_or_panic_def on_app_db_def list_user_apps_by_user_id_def Let_def unwrap_def
        split: prod.split outcome.split)
  ultimately show ?thesis by (intro exI [of _ ?w']) simp
qed

text \<open>
  Logging in asks for nothing: a request without a cookie for any user's number, with a fresh key, is answered
  with a session of this user.
\<close>

theorem anybody_logs_in:
  assumes "u \<in> set (app_users (w_db w))" and "distinct (map um_id (app_users (w_db w)))"
    and "k \<notin> us_id ` set (user_sessions (w_db w))"
  shows "\<exists>w'. app_service ext \<lparr>call_cookie = None, call_up = up, call_key = k, call_request = Login (um_id u)\<rparr> w =
      (Ok (RedirectTo ''/'', [SetSession k]), w') \<and>
    fst (get_user_for_session k (w_db w')) = Ok (Some (\<lparr>us_id = k, us_user_id = um_id u\<rparr>, u))"
proof -
  have find: "find (\<lambda>v. um_id v = um_id u) us = Some u" if "u \<in> set us" "distinct (map um_id us)" for us
    using that by (induction us) auto
  have user: "app_user_by_id (um_id u) s = (Ok u, s)" if "app_users s = app_users (w_db w)" for s
    using find [OF assms(1,2)] that by (simp add: app_user_by_id_def)
  let ?s = "(w_db w)\<lparr>user_sessions := user_sessions (w_db w) @ [\<lparr>us_id = k, us_user_id = um_id u\<rparr>]\<rparr>"
  have create: "create_session_for_user k u (w_db w) = (Ok \<lparr>us_id = k, us_user_id = um_id u\<rparr>, ?s)"
    using assms(3) by (auto simp: create_session_for_user_def Let_def list_ex_iff)
  have "find (\<lambda>x. us_id x = k) (xs @ [\<lparr>us_id = k, us_user_id = um_id u\<rparr>]) = Some \<lparr>us_id = k, us_user_id = um_id u\<rparr>"
    if "k \<notin> us_id ` set xs" for xs
    using that by (induction xs) auto
  then have "find (\<lambda>x. us_id x = k) (user_sessions ?s) = Some \<lparr>us_id = k, us_user_id = um_id u\<rparr>"
    using assms(3) by simp
  then have "get_user_for_session k ?s = (Ok (Some (\<lparr>us_id = k, us_user_id = um_id u\<rparr>, u)), ?s)"
    by (simp add: get_user_for_session_def user)
  then show ?thesis using user [OF HOL.refl] create by (simp add: app_service_def)
qed

section \<open>A concrete server\<close>

definition sample_world :: "unit world" where
  "sample_world = \<lparr>w_db = \<lparr>
       app_users = [\<lparr>um_id = 1, um_name = ''jelle''\<rparr>, \<lparr>um_id = 2, um_name = ''bob''\<rparr>],
       user_sessions = [\<lparr>us_id = ''s1'', us_user_id = 1\<rparr>, \<lparr>us_id = ''s2'', us_user_id = 2\<rparr>],
       registry_apps = [\<lparr>ra_id = 1, ra_name = ''x/y'', ra_version = ''2'', ra_oci_reference = ''r2''\<rparr>,
         \<lparr>ra_id = 2, ra_name = ''x/y'', ra_version = ''1'', ra_oci_reference = ''r1''\<rparr>],
       user_apps = [\<lparr>ua_id = 1, ua_user_id = 1, ua_name = ''x/y'', ua_version = ''2'', ua_path = wasm_path_of ''c''\<rparr>]\<rparr>,
     wasm_files = Map.empty(wasm_path_of ''c'' \<mapsto> ''module''), app_dirs = {}, app_data = Map.empty\<rparr>"

definition sample_app_ext :: "unit app_ext" where
  "sample_app_ext = \<lparr>manifest = (\<lambda>_. Some (1, 1, ''c'')), pull_blob = (\<lambda>_. (False, ''mod'')),
     execute = (\<lambda>f d. (case f of Some m \<Rightarrow> if m = ''module'' then Ok ''hello'' else Err ''invalid'' | None \<Rightarrow> Err ''missing'', d)),
     show_id = (\<lambda>_. ''1'')\<rparr>"

lemma sample_world_wf: "app_wf (w_db sample_world)"
  by code_simp

lemma registry_index_complete_witness:
  "\<exists>apps. registry_index (w_db sample_world) = (Ok apps, w_db sample_world) \<and> map app_name apps = [''x/y''] \<and>
     (\<forall>a \<in> set apps. ''2'' \<le> rv_version (last (versions a)))"
proof -
  have "\<lparr>ra_id = 1, ra_name = ''x/y'', ra_version = ''2'', ra_oci_reference = ''r2''\<rparr> \<in> set (registry_apps (w_db sample_world))"
    "ra_name ` set (registry_apps (w_db sample_world)) = {''x/y''}"
    by (simp_all add: sample_world_def)
  with registry_index_complete [of "w_db sample_world"] show ?thesis by fastforce
qed

lemma requests_keep_app_wf_witness:
  "app_wf (w_db (serve_apps sample_app_ext
      [\<lparr>call_cookie = Some ''s2'', call_up = True, call_key = ''k'', call_request = Install ''x-y'' ''1''\<rparr>] sample_world))"
  using requests_keep_app_wf [OF sample_world_wf] by blast

lemma failed_download_breaks_installed_witness:
  "fst (run_handler sample_app_ext (Some (\<lparr>us_id = ''s1'', us_user_id = 1\<rparr>, \<lparr>um_id = 1, um_name = ''jelle''\<rparr>))
      ''x-y'' sample_world) = Ok ''hello'' \<and>
   (\<exists>w'. app_service sample_app_ext
      \<lparr>call_cookie = Some ''s2'', call_up = True, call_key = [], call_request = Install ''x-y'' ''2''\<rparr> sample_world = (Panic, w') \<and>
    fst (run_handler sample_app_ext (Some (\<lparr>us_id = ''s1'', us_user_id = 1\<rparr>, \<lparr>um_id = 1, um_name = ''jelle''\<rparr>))
      ''x-y'' w') = Panic)"
proof -
  let ?r1 = "\<lparr>rv_oci_reference = ''r1'', rv_version = ''1''\<rparr>" and ?r2 = "\<lparr>rv_oci_reference = ''r2'', rv_version = ''2''\<rparr>"
  let ?a = "\<lparr>app_name = ''x/y'', versions = [?r1, ?r2]\<rparr>"
  let ?b = "\<lparr>ua_id = 1, ua_user_id = 1, ua_name = ''x/y'', ua_version = ''2'', ua_path = wasm_path_of ''c''\<rparr>"
  have facts: "fetch_apps True (w_db sample_world) = (Ok [?a], w_db sample_world)"
    "find_by_path app_name ''x-y'' [?a] = Ok ?a" "find_version ''2'' (versions ?a) = Ok ?r2"
    "get_user_for_session ''s2'' (w_db sample_world) =
       (Ok (Some (\<lparr>us_id = ''s2'', us_user_id = 2\<rparr>, \<lparr>um_id = 2, um_name = ''bob''\<rparr>)), w_db sample_world)"
    "find_by_path ua_name ''x-y'' (filter (\<lambda>b. ua_user_id b = um_id \<lparr>um_id = 1, um_name = ''jelle''\<rparr>)
       (user_apps (w_db sample_world))) = Ok ?b"
    "fst (run_handler sample_app_ext (Some (\<lparr>us_id = ''s1'', us_user_id = 1\<rparr>, \<lparr>um_id = 1, um_name = ''jelle''\<rparr>))
      ''x-y'' sample_world) = Ok ''hello''"
    by code_simp+
  have ext: "manifest sample_app_ext (rv_oci_reference ?r2) = Some (1, 1, ''c'')"
    "pull_blob sample_app_ext (rv_oci_reference ?r2) = (False, ''mod'')"
    "fst (execute sample_app_ext (Some ''mod'') d) = Err ''invalid''" for d
    by (simp_all add: sample_app_ext_def)
  have path: "ua_path ?b = wasm_path_of ''c''" by simp
  have req: "Install ''x-y'' ''2'' = Install ''x-y'' ''2'' \<or> Install ''x-y'' ''2'' = Update ''x-y'' ''2''" by simp
  from failed_download_breaks_installed [OF facts(1-3) ext(1,2) facts(4) req facts(5) path,
      of "[]" "\<lparr>us_id = ''s1'', us_user_id = 1\<rparr>"] facts(6) ext(3)
  show ?thesis by auto
qed

end
