(* ===== verification/Spec2Isabelle.thy ===== *)
theory Spec2Isabelle
  imports ReplPlugin PluginApi HeaderConst DockerSystem TunnelSite AppServer
begin

text \<open>
  \<^bold>\<open>What this is.\<close> A verification library for five programs of the repository: the replicated
  SQLite (\<^verbatim>\<open>replsqlite\<close>), the crate through which it plugs into SQLite (\<^verbatim>\<open>sqlite-plugin\<close>, with the
  vendored headers \<^verbatim>\<open>sqlite3.h\<close> and \<^verbatim>\<open>sqlite3ext.h\<close>), the self-updating container loader
  (\<^verbatim>\<open>dockerloader\<close>), the tunnel through which a program behind a firewall is reached
  (\<^verbatim>\<open>tunnel\<close>), and an earlier server for WebAssembly applications (\<^verbatim>\<open>server\<close>). Definitions are translated from the sources, function by function and under the
  names of the sources; theorems are about these definitions.

  \<^bold>\<open>How the replicated SQLite works.\<close> SQLite calls the C functions of \<^verbatim>\<open>sqlite-plugin/src/vfs.rs\<close>; these
  check their arguments and call a Rust \<^verbatim>\<open>Vfs\<close>. The \<^verbatim>\<open>Vfs\<close> of \<^verbatim>\<open>replsqlite/src/replvfs/mod.rs\<close> maps a
  database to a \<^verbatim>\<open>DbClient\<close> (\<^verbatim>\<open>vol_file.rs\<close>), a replica that holds the image, the write-ahead log and
  its index in memory. Taking the first lock pulls the changes that the server has made; giving back
  the last lock cuts the log into transactions and commits them to the server, which accepts a commit
  only on its latest version.

  \<^bold>\<open>Theories of the replicated SQLite.\<close>
  \<^item> \<^verbatim>\<open>Prelude\<close>: outcomes of fallible calls (\<open>Ok\<close>, \<open>Err\<close>, \<open>Panic\<close>), their sequencing over a state, byte vectors,
    fixed-width codecs (locale \<open>fixed_codec\<close>), splitting of text.
  \<^item> \<^verbatim>\<open>ReplStructs\<close> (\<^verbatim>\<open>structs.rs\<close>): the on-disk structures, their byte layout, and the checksum; headers
    round trip and the checksum tells apart inputs that differ in one aligned pair of words.
  \<^item> \<^verbatim>\<open>ReplServer\<close> (\<^verbatim>\<open>vol_file.rs\<close>, server half): transactions, \<^verbatim>\<open>apply_tx\<close>, the test server and its
    requests; \<^verbatim>\<open>apply_tx\<close> refines a page-level specification, the history is linear and replays to the snapshot
    (locales \<open>db_server\<close>, \<open>faithful_wire\<close>).
  \<^item> \<^verbatim>\<open>ReplClient\<close>, \<^verbatim>\<open>ReplClientCorrect\<close> (client half): pull, commit, reset of the log. A begun
    transaction sees the server's latest version, an ended one is committed exactly once or refused.
  \<^item> \<^verbatim>\<open>ReplFiles\<close> (\<^verbatim>\<open>mem_file.rs\<close>, file methods of \<^verbatim>\<open>vol_file.rs\<close>): reads, writes, truncation, shared-memory
    locks; locale \<open>random_access_file\<close> with its two interpretations.
  \<^item> \<^verbatim>\<open>ReplSystem\<close>: many replicas and one server as a step relation with lost messages and crashes; every replica
    holds a prefix of the server's history (locale \<open>honest_wire\<close>).
  \<^item> \<^verbatim>\<open>ReplVfs\<close>, \<^verbatim>\<open>ReplPlugin\<close> (\<^verbatim>\<open>mod.rs\<close>, \<^verbatim>\<open>lib.rs\<close>): the VFS with its pending opens, its invariant, and its
    registration as an instance of the plugin's trait.

  \<^bold>\<open>Theories of the plugin and the headers.\<close>
  \<^item> \<^verbatim>\<open>PluginFlags\<close> (\<^verbatim>\<open>flags.rs\<close>): every enumeration and decoder.
  \<^item> \<^verbatim>\<open>PluginVfs\<close> (\<^verbatim>\<open>vfs.rs\<close>, \<^verbatim>\<open>logger.rs\<close>): the trait as a record of functions (locale \<open>vfs_contract\<close>), every
    C function, registration, logger.
  \<^item> \<^verbatim>\<open>SqliteHeader\<close>: the constants and the two method tables the plugin uses.
  \<^item> \<^verbatim>\<open>CDecl\<close>, \<^verbatim>\<open>HeaderTypes\<close>, \<^verbatim>\<open>HeaderApi1\<close> to \<^verbatim>\<open>4\<close>, \<^verbatim>\<open>HeaderDoc1\<close> to \<^verbatim>\<open>3\<close>: C declarations as data, and every
    typedef, structure, function and documented section of \<^verbatim>\<open>sqlite3.h\<close>. All declarations are well formed, all
    references between the texts resolve, and the role tags hold with six listed exceptions.
  \<^item> \<^verbatim>\<open>HeaderMacro\<close>, \<^verbatim>\<open>HeaderConsts1\<close> to \<^verbatim>\<open>2\<close>, \<^verbatim>\<open>HeaderConstDoc1\<close> to \<^verbatim>\<open>2\<close>, \<^verbatim>\<open>HeaderConst\<close>: every constant of
    \<^verbatim>\<open>sqlite3.h\<close> with its value, the sections that document constants, and where entries and constants differ.
  \<^item> \<^verbatim>\<open>ExtRoutines\<close>, \<^verbatim>\<open>ExtApi\<close>, \<^verbatim>\<open>PluginApi\<close>: the routine table and the redirecting macros of \<^verbatim>\<open>sqlite3ext.h\<close>; each
    macro stands for a declared function of a compatible type (one does not), and the loads of
    \<^verbatim>\<open>SqliteApi::new_dynamic\<close> stay inside the table of any library the plugin accepts.

  \<^bold>\<open>How the loader works.\<close> The supervisor (\<^verbatim>\<open>dockerloader/src/main.rs\<close>) runs the program that the link
  \<^verbatim>\<open>entrypoint\<close> leads to. The program itself (\<^verbatim>\<open>lib.rs\<close>) looks for a newer image, stores and unpacks it, leaves the
  link \<^verbatim>\<open>entrypoint-attempt\<close> and exits with code 42; the supervisor runs that image as a trial, and the
  trial makes itself the stable version when it reports ready.
  \<^item> \<^verbatim>\<open>DockerFs\<close>: the file system of the loader, programs that record every intermediate state, and a logic of
    crash states (\<open>crash_ok\<close>, \<open>stable\<close>) and of runs (\<open>ends\<close>).
  \<^item> \<^verbatim>\<open>DockerStore\<close>, \<^verbatim>\<open>DockerImage\<close>: download, extraction and clean-up; what they achieve and what they leave
    alone (locale \<open>removable_dir\<close> with one interpretation per directory).
  \<^item> \<^verbatim>\<open>DockerUpdate\<close>: running image, environment file, update check, commit.
  \<^item> \<^verbatim>\<open>DockerSystem\<close>: supervisor, application and crashes as a step relation. The stable version survives, only
    the commit of a trial replaces it, an offered update is installed, a failed one is not tried again.

  \<^bold>\<open>How the tunnel works.\<close> A user logs in at the web server (\<^verbatim>\<open>tunnel/src/web.rs\<close>); a device obtains a code, the
  user approves it, and the device exchanges it for an auth token. With the token the device registers a
  domain, sets its DNS records (\<^verbatim>\<open>dnsserver.rs\<close>) and opens a connection to the server (\<^verbatim>\<open>server.rs\<close>), which
  routes visitors of the domain to it by the server name in their TLS hello (\<^verbatim>\<open>sni_router.rs\<close>).
  \<^item> \<^verbatim>\<open>TunnelDb\<close> (\<^verbatim>\<open>db.rs\<close>): schema migrations, tables and one atomic operation per method, the invariant \<open>db_wf\<close>.
  \<^item> \<^verbatim>\<open>TunnelProg\<close>: requests as programs of database calls, their interleaving, rely-guarantee triples.
  \<^item> \<^verbatim>\<open>TunnelStorage\<close> (\<^verbatim>\<open>Storage\<close> of \<^verbatim>\<open>web.rs\<close>): the device flow; it refines a life cycle with one exchange per
    code when calls do not overlap; interleaved, tokens go to approvers only, but a race can issue two.
  \<^item> \<^verbatim>\<open>TunnelWeb\<close> (rest of \<^verbatim>\<open>web.rs\<close>): middlewares, handlers, router; all interleavings keep \<open>db_wf\<close>.
  \<^item> \<^verbatim>\<open>TunnelDns\<close>: authorization and storage of DNS records, restart.
  \<^item> \<^verbatim>\<open>TunnelServer\<close>: handshake, connection map, routing, parsing of the hello.
  \<^item> \<^verbatim>\<open>TunnelStream\<close>: a visitor's stream from the server (\<^verbatim>\<open>server.rs\<close>, \<^verbatim>\<open>sni_router.rs\<close>) to the client (\<^verbatim>\<open>client.rs\<close>)
    and the idle time-out (\<^verbatim>\<open>timeout_stream.rs\<close>): what arrives is what was sent, all of it unless an
    operation fails or the visitor is idle; the time-out is exact.
  \<^item> \<^verbatim>\<open>TunnelCert\<close> (\<^verbatim>\<open>cert.rs\<close>): certificate files, orders, renewal loop, resolver. The DNS client is an operation
    on a state, instantiated by the client's requests. Between its turns the renewal loop survives a
    restart; interrupted or failing writes may leave files with which no start succeeds.
  \<^item> \<^verbatim>\<open>TunnelClient\<close> (\<^verbatim>\<open>client.rs\<close>, \<^verbatim>\<open>setup.rs\<close>, rest of \<^verbatim>\<open>web.rs\<close>): API client, device flow, setup, start, reconnecting. Its
    requests run the models of the handlers, so that the flow from log-in to a routed visitor is one theorem.
  \<^item> \<^verbatim>\<open>TunnelMain\<close> (\<^verbatim>\<open>main.rs\<close>, \<^verbatim>\<open>lib.rs\<close>, \<^verbatim>\<open>server_main\<close>): command line, configuration, start of the server;
    starting again changes nothing.
  \<^item> \<^verbatim>\<open>TunnelRun\<close>, \<^verbatim>\<open>TunnelSite\<close> (\<^verbatim>\<open>ImportantTaskSet\<close>, \<^verbatim>\<open>TunnelServer::run\<close>): the running tasks, as runs of at most seven
    events, and what they mean for the connections; the program outlives its tasks, and one failing
    listener closes all tunnels.

  \<^bold>\<open>The earlier server.\<close> \<^verbatim>\<open>server\<close> is a registry of applications and runs the WebAssembly modules that its users
  have installed.
  \<^item> \<^verbatim>\<open>AppNames\<close>: the regular expression of names and the paths made of them, which are not injective.
  \<^item> \<^verbatim>\<open>AppServer\<close> (\<^verbatim>\<open>main.rs\<close>, \<^verbatim>\<open>models.rs\<close>): storage, index, download, installation, sessions, all handlers, one
    request at a time; the data stays well formed, the index is complete, a failed download breaks the
    applications of others.

  \<^bold>\<open>Conventions.\<close> Rust \<^verbatim>\<open>usize\<close> and \<^verbatim>\<open>u64\<close> are \<open>nat\<close> with the overflowing branch written out (the arithmetic of
  checked builds, which panics), \<^verbatim>\<open>u32\<close> and C \<^verbatim>\<open>int\<close> are words. A panic is an outcome, not an absence of one.
  Every loop is a total function: over the log and the pages by a measure, over lists by structure; the
  endless update loop is its first \<open>n\<close> turns for every \<open>n\<close>, and the wait of the command line is bounded by
  its 120 looks in a minute. Code that is not in the repository is a parameter: the wire between
  replica and server, random salts, the SQLite library, the registry client, JSON, tar and unique
  names; what is assumed of it is a named hypothesis (\<open>faithful_wire\<close>, \<open>digests_plain\<close>, \<open>offers\<close>) with a
  concrete instance. File operations of the loader fail when the modelled state makes them fail; other
  failures of the operating system appear as crashes. The tunnel's certificate files and account may fail
  to be written at any operation. Its storage names are taken as directory entries,
  and the application's environment file is taken not to set \<^verbatim>\<open>DOCKERLOADER_TRIAL\<close>.

  \<^bold>\<open>Not modelled.\<close> Of the tunnel the hand-over of streams to the TLS and HTTP libraries
  (\<^verbatim>\<open>conn_handler.rs\<close>); the publish command and the query function of the earlier server
  (\<^verbatim>\<open>server\<close>), which hand on to libraries; the WebAssembly experiments; the bundler, which
  drives external tools; the demo and test programs; the library behind the declarations of \<^verbatim>\<open>sqlite3.h\<close>.
\<close>

section \<open>A transaction from the C interface to the server\<close>

text \<open>
  C1. A write transaction that SQLite makes through the C interface of the plugin reaches the
  server. From an idle replica of the server, however far behind, the calls \<^verbatim>\<open>xShmLock\<close> for a read
  mark, \<^verbatim>\<open>xShmLock\<close> for the write lock, \<^verbatim>\<open>xWrite\<close> of the header and page of every frame of one
  transaction, and the two unlocking \<^verbatim>\<open>xShmLock\<close> calls all return \<^verbatim>\<open>SQLITE_OK\<close>; afterwards the
  server's history is longer by exactly the transaction those bytes encode, its snapshot's pages
  have changed as the transaction says, and the replica still tracks the server.
\<close>

theorem c_transaction_reaches_server:
  assumes "faithful_wire w" and "server_inv srv" and "tracks c srv" and "idle c"
    and "clients v (handle_data h) = Some c"
    and "list_all (\<lambda>f. frame_ok f \<and> fh_page_number (fst f) \<noteq> 0) fs" and "committed_txs [] fs = [tx]"
    and "WAL_HEADER_SIZE + length fs * FRAME_SIZE < isize_limit"
    and "length (server_history srv) + 1 < u64_limit"
  shows "\<exists>v' c' srv'. c_write_session (repl_file w r1 r2 t (DbHandle h opts))
      (repl_file w r1 r2 t' (WalHandle h opts')) fs (v, srv) = (Some SQLITE_OK, (v', srv')) \<and>
    server_inv srv' \<and> server_history srv' = server_history srv @ [tx] \<and>
    pages (latest_snapshot srv') = spec_tx tx (pages (latest_snapshot srv)) \<and>
    clients v' (handle_data h) = Some c' \<and> tracks c' srv'"
proof -
  obtain c' srv' where run: "write_session w (\<lambda>_. (r1, r2)) fs (c, srv) = (Ok (), (c', srv'))"
    "server_inv srv'" "server_history srv' = server_history srv @ [tx]" "tracks c' srv'"
    using faithful_wire.write_session_run [OF assms(1-4,6-9), of "\<lambda>_. (r1, r2)"] by blast
  have ok: "list_all frame_ok fs" using assms(6) by (auto simp: list_all_iff)
  have al: "aligned (latest_snapshot srv)"
    using assms(2) replay_aligned [OF make_initial_db_aligned] by (simp add: server_inv_def)
  have wf: "wf_tx tx" using committed_txs_wf [of "[]" fs] assms(6,7) by simp
  have "latest_snapshot srv' = snd (apply_tx tx (latest_snapshot srv))"
    using run(2,3) assms(2) by (simp add: server_inv_def)
  then have "pages (latest_snapshot srv') = spec_tx tx (pages (latest_snapshot srv))"
    using apply_tx_total [OF al wf] by (metis snd_conv)
  with session_through_c [OF assms(1-5) ok assms(8) run(1), of t opts t' opts'] run(2-4) show ?thesis
    by (intro exI [of _ "fst (set_client (handle_data h) c' (v, srv))"] exI [of _ c'] exI [of _ srv']) simp
qed

theorem c_transaction_reaches_server_witness:
  "\<exists>v' srv'. c_write_session
      (repl_file ideal_wire 1 2 0 (DbHandle \<lparr>handle_id = ''db'', handle_data = 0\<rparr> (open_opts_new 0)))
      (repl_file ideal_wire 1 2 0 (WalHandle \<lparr>handle_id = ''db'', handle_data = 0\<rparr> (open_opts_new 0)))
      [sample_frame 2 0, sample_frame 1 2] (sample_vfs, sample_server) = (Some SQLITE_OK, (v', srv')) \<and>
    length (server_history srv') = 2"
proof -
  let ?fs = "[sample_frame 2 0, sample_frame 1 2]"
  obtain tx where tx: "committed_txs [] ?fs = [tx]" by simp
  have fs: "list_all (\<lambda>f. frame_ok f \<and> fh_page_number (fst f) \<noteq> 0) ?fs" by (simp add: sample_frame_ok)
  have size: "WAL_HEADER_SIZE + length ?fs * FRAME_SIZE < isize_limit"
    by (simp add: size_defs FRAME_SIZE_def PAGESIZE_def isize_limit_def)
  have ver: "length (server_history sample_server) + 1 < u64_limit"
    by (simp add: sample_server_ok u64_limit_def)
  have cl: "clients sample_vfs (handle_data \<lparr>handle_id = ''db'', handle_data = 0\<rparr>) = Some (sample_client [])"
    by (simp add: sample_vfs_def)
  from c_transaction_reaches_server [OF ideal.faithful_wire_axioms sample_server_ok(1)
      sample_client_tracks sample_client_idle cl fs tx size ver, of 1 2 0 "open_opts_new 0" 0 "open_opts_new 0"]
  show ?thesis by (auto simp: sample_server_ok(2))
qed

end
